(* ===== verification/JsCore.thy ===== *)
theory JsCore
  imports Main
begin

section \<open>The JavaScript values and operations the relay rests on\<close>

text \<open>
  Shared material of the development: results of code that may throw, JavaScript numbers
  and strings, and the lemmas the components share.

  A function that throws returns \<open>'e + 'a\<close>, with \<open>Inl\<close> for the thrown value.
  A JavaScript \<open>number\<close> that holds an integer is an \<open>int\<close>; where the code leaves the
  range of exactly representable integers, \<open>to_number\<close> writes out the rounding of
  IEEE 754 binary64 (53 significant bits, ties to even). A \<open>bigint\<close> is an \<open>int\<close>.
  A JavaScript string is a \<open>string\<close>, so its code units are below 256.
\<close>

named_theorems js_simps "evaluation of JavaScript primitives"
named_theorems outcome_simps "evaluation of results that may be errors"

subsection \<open>Results\<close>

fun and_then :: "'e + 'a \<Rightarrow> ('a \<Rightarrow> 'e + 'b) \<Rightarrow> 'e + 'b" where
  "and_then (Inl e) f = Inl e"
| "and_then (Inr a) f = f a"

definition ensure :: "bool \<Rightarrow> 'e \<Rightarrow> 'e + unit" where
  "ensure ok e = (if ok then Inr () else Inl e)"

lemma and_then_Inr_iff [outcome_simps]:
  "and_then r f = Inr b \<longleftrightarrow> (\<exists>a. r = Inr a \<and> f a = Inr b)"
  by (cases r) auto

lemma and_then_Inl_iff [outcome_simps]:
  "and_then r f = Inl e \<longleftrightarrow> r = Inl e \<or> (\<exists>a. r = Inr a \<and> f a = Inl e)"
  by (cases r) auto

lemma ensure_Inr_iff [outcome_simps]: "ensure ok e = Inr u \<longleftrightarrow> ok"
  by (simp add: ensure_def)

lemma ensure_Inl_iff [outcome_simps]: "ensure ok e = Inl e' \<longleftrightarrow> \<not> ok \<and> e' = e"
  by (auto simp add: ensure_def)

subsection \<open>Integers in a binary64 number\<close>

fun bit_len :: "nat \<Rightarrow> nat" where
  "bit_len n = (if n = 0 then 0 else Suc (bit_len (n div 2)))"

declare bit_len.simps [simp del]

lemma less_two_power_bit_len: "n < 2 ^ bit_len n"
proof (induction n rule: bit_len.induct)
  case (1 n)
  show ?case
  proof (cases "n = 0")
    case False
    with "1.IH" have "n div 2 < 2 ^ bit_len (n div 2)" by simp
    with False show ?thesis by (simp add: bit_len.simps [of n])
  qed simp
qed

lemma bit_len_le: "n < 2 ^ k \<Longrightarrow> bit_len n \<le> k"
proof (induction n arbitrary: k rule: bit_len.induct)
  case (1 n)
  show ?case
  proof (cases "n = 0")
    case True
    then show ?thesis by (simp add: bit_len.simps)
  next
    case False
    with "1.prems" obtain k' where k: "k = Suc k'" by (cases k) auto
    with "1.prems" have "n div 2 < 2 ^ k'" by auto
    with "1.IH" False have "bit_len (n div 2) \<le> k'" by blast
    with False k show ?thesis by (simp add: bit_len.simps [of n])
  qed
qed

text \<open>\<open>round_even n e\<close> is the multiple of \<open>2^e\<close> nearest to \<open>n\<close>, ties to the even quotient.\<close>

definition round_even :: "nat \<Rightarrow> nat \<Rightarrow> nat" where
  "round_even n e =
     (let q = n div 2 ^ e; r = n mod 2 ^ e
      in if 2 ^ e < 2 * r \<or> (2 * r = 2 ^ e \<and> odd q) then (q + 1) * 2 ^ e else q * 2 ^ e)"

definition double_of_nat :: "nat \<Rightarrow> nat" where
  "double_of_nat n = round_even n (bit_len n - 53)"

text \<open>\<open>Number(b)\<close> of a bigint \<open>b\<close>, and the result of an integer operation on numbers whose
  exact value is \<open>b\<close> (below the overflow to infinity).\<close>

definition to_number :: "int \<Rightarrow> int" where
  "to_number i = (if i < 0 then - int (double_of_nat (nat (- i))) else int (double_of_nat (nat i)))"

lemma round_even_exact: "2 ^ e dvd n \<Longrightarrow> round_even n e = n"
  by (auto simp: round_even_def Let_def)

lemma round_even_0 [simp]: "round_even n 0 = n"
  by (simp add: round_even_exact)

lemma double_of_nat_exact:
  assumes "n = m * 2 ^ k" and "m < 2 ^ 53"
  shows "double_of_nat n = n"
proof -
  have "n < 2 ^ (53 + k)"
    using assms by (simp add: power_add)
  then have "bit_len n \<le> 53 + k" by (rule bit_len_le)
  then have "(2::nat) ^ (bit_len n - 53) dvd 2 ^ k" by (intro le_imp_power_dvd) simp
  then show ?thesis
    using assms by (simp add: double_of_nat_def round_even_exact)
qed

lemma to_number_exact:
  assumes "\<bar>i\<bar> < 2 ^ 53"
  shows "to_number i = i"
proof -
  have "double_of_nat (nat \<bar>i\<bar>) = nat \<bar>i\<bar>"
    using assms by (intro double_of_nat_exact [where k = 0 and m = "nat \<bar>i\<bar>"]) auto
  then show ?thesis by (auto simp: to_number_def)
qed

lemma to_number_nonneg: "0 \<le> i \<Longrightarrow> 0 \<le> to_number i"
  by (simp add: to_number_def)

lemma round_even_error: "2 * \<bar>int (round_even n e) - int n\<bar> \<le> 2 ^ e"
proof -
  define q r where "q = n div 2 ^ e" and "r = n mod 2 ^ e"
  have n: "int n = int q * 2 ^ e + int r"
    by (metis div_mult_mod_eq of_nat_add of_nat_mult of_nat_numeral of_nat_power q_def r_def)
  have r: "int r < 2 ^ e"
    by (simp add: r_def flip: of_nat_power)
  have up: "int (round_even n e) = (int q + 1) * 2 ^ e" if "2 ^ e < 2 * r \<or> (2 * r = 2 ^ e \<and> odd q)"
    using that by (simp add: round_even_def Let_def q_def [symmetric] r_def [symmetric] algebra_simps)
  have dn: "int (round_even n e) = int q * 2 ^ e" if "\<not> (2 ^ e < 2 * r \<or> (2 * r = 2 ^ e \<and> odd q))"
    using that by (simp add: round_even_def Let_def q_def [symmetric] r_def [symmetric])
  show ?thesis
  proof (cases "2 ^ e < 2 * r \<or> (2 * r = 2 ^ e \<and> odd q)")
    case True
    then have "2 ^ e \<le> 2 * r" by auto
    then have "int (2 ^ e) \<le> int (2 * r)" by (rule of_nat_mono)
    then have "(2::int) ^ e \<le> 2 * int r" by simp
    with up [OF True] n r show ?thesis by (simp add: algebra_simps abs_if)
  next
    case False
    then have "2 * r \<le> 2 ^ e" by auto
    then have "int (2 * r) \<le> int (2 ^ e)" by (rule of_nat_mono)
    then have "2 * int r \<le> 2 ^ e" by simp
    with dn [OF False] n r show ?thesis by (simp add: algebra_simps abs_if)
  qed
qed

subsection \<open>Strings\<close>

definition starts_with :: "string \<Rightarrow> string \<Rightarrow> bool" where
  "starts_with p s = (take (length p) s = p)"

fun str_includes :: "string \<Rightarrow> string \<Rightarrow> bool" where
  "str_includes p [] = (p = [])"
| "str_includes p (c # cs) = (starts_with p (c # cs) \<or> str_includes p cs)"

text \<open>\<open>s.substring(a, b)\<close> for \<open>a \<le> b\<close>, which is also \<open>s.slice(a, b)\<close>.\<close>

definition substr :: "nat \<Rightarrow> nat \<Rightarrow> string \<Rightarrow> string" where
  "substr a b s = take (b - a) (drop a s)"

text \<open>\<open>s.replace(p, r)\<close> with a string pattern: the first occurrence only.\<close>

fun replace_first :: "string \<Rightarrow> string \<Rightarrow> string \<Rightarrow> string" where
  "replace_first p r [] = (if p = [] then r else [])"
| "replace_first p r (c # cs) =
     (if starts_with p (c # cs) then r @ drop (length p) (c # cs) else c # replace_first p r cs)"

fun split_on :: "char \<Rightarrow> string \<Rightarrow> string list" where
  "split_on d [] = [[]]"
| "split_on d (c # cs) =
     (if c = d then [] # split_on d cs
      else (case split_on d cs of [] \<Rightarrow> [[c]] | w # ws \<Rightarrow> (c # w) # ws))"

lemma starts_with_append [simp, js_simps]: "starts_with p (p @ s)"
  by (simp add: starts_with_def)

lemma starts_with_iff: "starts_with p s \<longleftrightarrow> (\<exists>t. s = p @ t)"
  by (metis append_take_drop_id append_eq_conv_conj starts_with_def)

lemma split_on_not_Nil [simp]: "split_on d s \<noteq> []"
  by (induction s) (auto split: list.splits)

lemma split_on_no_sep: "d \<notin> set s \<Longrightarrow> split_on d s = [s]"
  by (induction s) auto

lemma split_on_append: "d \<notin> set s \<Longrightarrow> split_on d (s @ d # t) = s # split_on d t"
  by (induction s) auto

subsection \<open>Digits\<close>

definition digit_char :: "nat \<Rightarrow> char" where
  "digit_char d = (if d < 10 then char_of (48 + d) else char_of (87 + d))"

text \<open>The value of a digit of base 10 or 16, upper or lower case.\<close>

definition digit_val :: "char \<Rightarrow> nat option" where
  "digit_val c =
     (let n = of_char c in
      if 48 \<le> n \<and> n \<le> 57 then Some (n - 48)
      else if 97 \<le> n \<and> n \<le> 102 then Some (n - 87)
      else if 65 \<le> n \<and> n \<le> 70 then Some (n - 55)
      else None)"

definition is_digit_in :: "nat \<Rightarrow> char \<Rightarrow> bool" where
  "is_digit_in b c = (case digit_val c of None \<Rightarrow> False | Some d \<Rightarrow> d < b)"

fun to_base :: "nat \<Rightarrow> nat \<Rightarrow> string" where
  "to_base b n =
     (if b < 2 \<or> n < b then [digit_char n] else to_base b (n div b) @ [digit_char (n mod b)])"

declare to_base.simps [simp del]

definition of_base :: "nat \<Rightarrow> string \<Rightarrow> nat" where
  "of_base b s = foldl (\<lambda>a c. a * b + (case digit_val c of None \<Rightarrow> 0 | Some d \<Rightarrow> d)) 0 s"

lemma digit_char_eval [js_simps]:
  "digit_char 0 = CHR ''0''"
  "digit_char (Suc 0) = CHR ''1''"
  "digit_char 2 = CHR ''2''"
  "digit_char 3 = CHR ''3''"
  "digit_char 4 = CHR ''4''"
  "digit_char 5 = CHR ''5''"
  "digit_char 6 = CHR ''6''"
  "digit_char 7 = CHR ''7''"
  "digit_char 8 = CHR ''8''"
  "digit_char 9 = CHR ''9''"
  "digit_char 10 = CHR ''a''"
  "digit_char 11 = CHR ''b''"
  "digit_char 12 = CHR ''c''"
  "digit_char 13 = CHR ''d''"
  "digit_char 14 = CHR ''e''"
  "digit_char 15 = CHR ''f''"
  by (simp_all add: digit_char_def char_of_eq_iff)

lemma digit_val_digit_char: "d < 16 \<Longrightarrow> digit_val (digit_char d) = Some d"
  by (auto simp: digit_val_def digit_char_def Let_def)

lemma of_base_snoc:
  "of_base b (s @ [c]) = of_base b s * b + (case digit_val c of None \<Rightarrow> 0 | Some d \<Rightarrow> d)"
  by (simp add: of_base_def)

lemma of_base_to_base:
  assumes "2 \<le> b" and "b \<le> 16"
  shows "of_base b (to_base b n) = n"
  using assms
proof (induction b n rule: to_base.induct)
  case (1 b n)
  show ?case
  proof (cases "n < b")
    case True
    with "1.prems" show ?thesis
      by (simp add: to_base.simps [of b n] of_base_def digit_val_digit_char)
  next
    case False
    with "1.IH" "1.prems" have "of_base b (to_base b (n div b)) = n div b" by simp
    moreover from "1.prems" have "n mod b < 16" using mod_less_divisor [of b n] by linarith
    ultimately show ?thesis
      using False "1.prems" by (simp add: to_base.simps [of b n] of_base_snoc digit_val_digit_char)
  qed
qed

lemma to_base_digits:
  assumes "2 \<le> b" and "b \<le> 16"
  shows "\<forall>c \<in> set (to_base b n). is_digit_in b c"
  using assms
proof (induction b n rule: to_base.induct)
  case (1 b n)
  show ?case
  proof (cases "n < b")
    case True
    with "1.prems" show ?thesis
      by (simp add: to_base.simps [of b n] is_digit_in_def digit_val_digit_char)
  next
    case False
    with "1.IH" "1.prems" have "\<forall>c \<in> set (to_base b (n div b)). is_digit_in b c" by simp
    moreover from "1.prems" have "n mod b < b" "n mod b < 16"
      using mod_less_divisor [of b n] by linarith+
    ultimately show ?thesis
      using False "1.prems" by (simp add: to_base.simps [of b n] is_digit_in_def digit_val_digit_char)
  qed
qed

lemma to_base_not_Nil [simp]: "to_base b n \<noteq> []"
  by (simp add: to_base.simps [of b n])

lemma to_base_length: "2 \<le> b \<Longrightarrow> 0 < k \<Longrightarrow> n < b ^ k \<Longrightarrow> length (to_base b n) \<le> k"
proof (induction b n arbitrary: k rule: to_base.induct)
  case (1 b n)
  show ?case
  proof (cases "n < b")
    case True
    with "1.prems" show ?thesis by (simp add: to_base.simps [of b n])
  next
    case False
    with "1.prems" obtain k' where k: "k = Suc k'" "0 < k'"
      by (cases k; cases "k - 1") auto
    with "1.prems" have "n div b < b ^ k'" by (simp add: less_mult_imp_div_less mult.commute)
    with "1.IH" "1.prems" False k have "length (to_base b (n div b)) \<le> k'" by simp
    with False "1.prems" k show ?thesis by (simp add: to_base.simps [of b n])
  qed
qed

lemma to_base_hd_nonzero:
  "2 \<le> b \<Longrightarrow> b \<le> 16 \<Longrightarrow> 0 < n \<Longrightarrow> hd (to_base b n) \<noteq> CHR ''0''"
proof (induction b n rule: to_base.induct)
  case (1 b n)
  show ?case
  proof (cases "n < b")
    case True
    with "1.prems" have "digit_val (digit_char n) = Some n" by (intro digit_val_digit_char) simp
    with "1.prems" have "digit_char n \<noteq> CHR ''0''" by (auto simp: digit_val_def)
    with True show ?thesis by (simp add: to_base.simps [of b n])
  next
    case False
    with "1.IH" "1.prems" have "hd (to_base b (n div b)) \<noteq> CHR ''0''"
      by (simp add: div_greater_zero_iff)
    with False "1.prems" show ?thesis by (simp add: to_base.simps [of b n])
  qed
qed

text \<open>\<open>n.toString(16)\<close> and \<open>n.toString()\<close> of an integer.\<close>

definition int_to_base :: "nat \<Rightarrow> int \<Rightarrow> string" where
  "int_to_base b i = (if i < 0 then CHR ''-'' # to_base b (nat (- i)) else to_base b (nat i))"

abbreviation show_int :: "int \<Rightarrow> string" where
  "show_int \<equiv> int_to_base 10"

text \<open>
  \<open>parseInt(s, b)\<close> for \<open>b\<close> 10 or 16: leading white space and a sign are skipped, for base 16
  also a prefix \<open>0x\<close>; the longest run of digits is read; \<open>None\<close> is \<open>NaN\<close>.
\<close>

definition js_space :: "char \<Rightarrow> bool" where
  "js_space c = (let n = (of_char c :: nat) in n = 32 \<or> (9 \<le> n \<and> n \<le> 13) \<or> n = 160)"

definition strip_hex_mark :: "string \<Rightarrow> string" where
  "strip_hex_mark s = (if starts_with ''0x'' s \<or> starts_with ''0X'' s then drop 2 s else s)"

definition js_parse_int :: "nat \<Rightarrow> string \<Rightarrow> int option" where
  "js_parse_int b s =
     (let t = dropWhile js_space s;
          neg = starts_with ''-'' t;
          u = (if neg \<or> starts_with ''+'' t then drop 1 t else t);
          v = (if b = 16 then strip_hex_mark u else u);
          ds = takeWhile (is_digit_in b) v
      in if ds = [] then None
         else Some (to_number (if neg then - int (of_base b ds) else int (of_base b ds))))"

text \<open>The characters a digit can be: what the string operations need to know of them.\<close>

lemma is_digit_in_code: "is_digit_in b c \<Longrightarrow>
    (48 \<le> (of_char c :: nat) \<and> (of_char c :: nat) \<le> 57) \<or>
    (65 \<le> (of_char c :: nat) \<and> (of_char c :: nat) \<le> 70) \<or>
    (97 \<le> (of_char c :: nat) \<and> (of_char c :: nat) \<le> 102)"
  by (auto simp: is_digit_in_def digit_val_def Let_def split: if_splits)

lemma is_digit_in_not_mark: "is_digit_in b c \<Longrightarrow> c \<noteq> CHR ''x'' \<and> c \<noteq> CHR ''X'' \<and> c \<noteq> CHR ''-'' \<and> c \<noteq> CHR ''+''"
  by (drule is_digit_in_code) auto

lemma is_digit_in_not_space: "is_digit_in b c \<Longrightarrow> \<not> js_space c"
  by (drule is_digit_in_code) (auto simp: js_space_def Let_def)

lemma js_parse_int_digits:
  assumes ne: "ds \<noteq> []" and all: "\<forall>x \<in> set ds. is_digit_in b x"
  shows "js_parse_int b ds = Some (to_number (int (of_base b ds)))"
proof -
  obtain c cs where s: "ds = c # cs" using ne by (cases ds) auto
  from all have c: "is_digit_in b c" and cs: "\<forall>x \<in> set cs. is_digit_in b x" by (auto simp: s)
  note nm = is_digit_in_not_mark [OF c]
  have 1: "dropWhile js_space ds = ds" using is_digit_in_not_space [OF c] by (simp add: s)
  have 2: "\<not> starts_with ''-'' ds" "\<not> starts_with ''+'' ds" using nm by (simp_all add: s starts_with_def)
  have 3: "strip_hex_mark ds = ds"
  proof (cases cs)
    case Nil
    then show ?thesis by (simp add: s strip_hex_mark_def starts_with_def)
  next
    case (Cons d ds')
    with cs have "is_digit_in b d" by simp
    from is_digit_in_not_mark [OF this] show ?thesis
      by (simp add: s Cons strip_hex_mark_def starts_with_def)
  qed
  have 4: "takeWhile (is_digit_in b) ds = ds" using all by (simp add: takeWhile_eq_all_conv)
  have 5: "(if b = 16 then strip_hex_mark ds else ds) = ds" using 3 by (cases "b = 16") auto
  show ?thesis
    unfolding js_parse_int_def Let_def 1
    by (simp only: 2 5 4 if_False simp_thms ne)
qed

lemma js_parse_int_to_base:
  "2 \<le> b \<Longrightarrow> b \<le> 16 \<Longrightarrow> js_parse_int b (to_base b n) = Some (to_number (int n))"
  by (simp add: js_parse_int_digits to_base_digits of_base_to_base)

lemma of_base_append_acc:
  "foldl (\<lambda>a c. a * b + (case digit_val c of None \<Rightarrow> 0 | Some d \<Rightarrow> d)) 0 (replicate k (CHR ''0'') @ s) = of_base b s"
proof -
  have "foldl (\<lambda>a c. a * b + (case digit_val c of None \<Rightarrow> 0 | Some d \<Rightarrow> d)) 0 (replicate k (CHR ''0'')) = 0"
    by (induction k) (auto simp: digit_val_def)
  then show ?thesis by (simp add: of_base_def)
qed

lemma of_base_leading_zeros: "of_base b (replicate k (CHR ''0'') @ s) = of_base b s"
  using of_base_append_acc by (simp add: of_base_def)

lemma two_power_le_bit_len: "2 ^ k \<le> n \<Longrightarrow> k < bit_len n"
  using less_two_power_bit_len [of n] power_increasing_iff [of "2::nat" "bit_len n" k]
  by (metis le_less_trans linorder_not_le one_less_numeral_iff power_increasing_iff semiring_norm(76))

lemma double_of_nat_dvd: "2 ^ (bit_len n - 53) dvd double_of_nat n"
  by (simp add: double_of_nat_def round_even_def Let_def)

text \<open>A number with more than 53 significant bits is not the value of a JavaScript number.\<close>

lemma to_number_inexact:
  assumes "i = m * 2 ^ k" and "odd m" and "2 ^ 53 < m"
  shows "to_number i \<noteq> i"
proof
  assume eq: "to_number i = i"
  have pos: "0 < i" using assms by simp
  have "2 ^ (53 + k) \<le> i" using assms by (simp add: power_add)
  then have "2 ^ (53 + k) \<le> nat i" by (simp add: nat_le_eq_zle le_nat_iff)
  then have "53 + k < bit_len (nat i)" by (rule two_power_le_bit_len)
  then have "(2::nat) ^ Suc k dvd 2 ^ (bit_len (nat i) - 53)" by (intro le_imp_power_dvd) simp
  then have "2 ^ Suc k dvd double_of_nat (nat i)" using double_of_nat_dvd dvd_trans by blast
  then have "int (2 ^ Suc k) dvd int (double_of_nat (nat i))" by (simp only: int_dvd_int_iff)
  with eq pos have "2 ^ Suc k dvd i" by (simp add: to_number_def)
  with assms(1) have "2 ^ k * 2 dvd 2 ^ k * m" by (simp add: mult.commute)
  with assms(2) show False by simp
qed

text \<open>Rounding stays above any power of two the value has reached.\<close>

lemma round_even_ge_power:
  assumes "2 ^ k \<le> n" and "e \<le> k"
  shows "2 ^ k \<le> round_even n e"
proof -
  have "(2::nat) ^ (k - e) * 2 ^ e = 2 ^ k" using assms(2) by (simp flip: power_add)
  moreover from this have "2 ^ (k - e) \<le> n div 2 ^ e"
    using assms(1) by (simp add: less_eq_div_iff_mult_less_eq)
  ultimately have "2 ^ k \<le> (n div 2 ^ e) * 2 ^ e" by (metis mult_le_mono1)
  then show ?thesis by (auto simp: round_even_def Let_def)
qed

lemma bit_len_pos_le: "0 < n \<Longrightarrow> 2 ^ (bit_len n - 1) \<le> n"
  using bit_len_le [of n "bit_len n - 1"] by (cases "bit_len n") (auto simp: bit_len.simps [of n] not_less [symmetric])

lemma to_number_safe:
  assumes "to_number i < 2 ^ 53" and "0 \<le> i"
  shows "i < 2 ^ 53"
proof (rule ccontr)
  assume "\<not> i < 2 ^ 53"
  then have n: "2 ^ 53 \<le> nat i" by (simp add: le_nat_iff)
  define k where "k = bit_len (nat i) - 1"
  have k: "53 \<le> k" using two_power_le_bit_len [OF n] by (simp add: k_def)
  have "2 ^ k \<le> nat i" unfolding k_def using n by (intro bit_len_pos_le) simp
  moreover have "bit_len (nat i) - 53 \<le> k" by (simp add: k_def)
  ultimately have "2 ^ k \<le> double_of_nat (nat i)"
    unfolding double_of_nat_def by (rule round_even_ge_power)
  moreover have "(2::nat) ^ 53 \<le> 2 ^ k" using k by (rule power_increasing) simp
  ultimately have "2 ^ 53 \<le> double_of_nat (nat i)" by (rule order_trans [rotated])
  with assms show False by (simp add: to_number_def)
qed

lemma of_base_Cons_ge:
  assumes "digit_val c = Some d" and "0 < d"
  shows "b ^ length s \<le> of_base b (c # s)"
proof (induction s rule: rev_induct)
  case Nil
  then show ?case using assms by (simp add: of_base_def)
next
  case (snoc x xs)
  have "of_base b (c # xs @ [x]) = of_base b (c # xs) * b + (case digit_val x of None \<Rightarrow> 0 | Some d \<Rightarrow> d)"
    using of_base_snoc [of b "c # xs" x] by simp
  with snoc show ?case by (simp add: mult.commute trans_le_add1)
qed

subsection \<open>Decimal text\<close>

lemma to_base_inject: "2 \<le> b \<Longrightarrow> b \<le> 16 \<Longrightarrow> to_base b m = to_base b n \<longleftrightarrow> m = n"
  by (metis of_base_to_base)

lemma to_base_hd_not_minus: "2 \<le> b \<Longrightarrow> b \<le> 16 \<Longrightarrow> to_base b n \<noteq> CHR ''-'' # t"
proof
  assume b: "2 \<le> b" "b \<le> 16" and "to_base b n = CHR ''-'' # t"
  with to_base_digits [OF b, of n] have "is_digit_in b (CHR ''-'')" by simp
  then show False by (simp add: is_digit_in_def digit_val_def)
qed

lemma show_int_inject [simp]: "show_int i = show_int j \<longleftrightarrow> i = j"
  by (auto simp: int_to_base_def to_base_inject to_base_hd_not_minus
      to_base_hd_not_minus [THEN not_sym])

lemma show_int_not_Nil [simp]: "show_int i \<noteq> ''''"
  by (simp add: int_to_base_def to_base_not_Nil)

end
