(* ===== verification/Formatters.thy ===== *)
theory Formatters
  imports JsCore "HOL-Library.Word" "HOL-Library.AList"
begin

section \<open>Formatters: conversions between chain values and their text\<close>

text \<open>
  Models \<open>packages/relay/src/formatters.ts\<close>: hexadecimal text, the decoding of EVM revert
  messages, transaction ids, and the conversions between tinybars and weibars. A thrown
  \<open>Error\<close> is \<open>Inl\<close> of its message. \<open>hexToASCII\<close> keeps the low eight bits of a code
  unit, which is all of it unless a pair of its input is a sign and a digit.
  The lemmas show the round trips and where a conversion through a JavaScript number is exact.
\<close>

subsection \<open>Constants of \<open>lib/constants.ts\<close> used here\<close>

definition EMPTY_HEX :: string where
  "EMPTY_HEX = ''0x''"

definition REQUEST_ID_STRING :: string where
  "REQUEST_ID_STRING = ''Request ID: ''"

definition TINYBAR_TO_WEIBAR_COEF :: int where
  "TINYBAR_TO_WEIBAR_COEF = 10000000000"

definition TOTAL_SUPPLY_TINYBARS :: int where
  "TOTAL_SUPPLY_TINYBARS = 5000000000000000000"

subsection \<open>Text\<close>

text \<open>A number that may be \<open>NaN\<close>.\<close>

datatype js_number = NotANumber | Num int

definition hashNumber :: "int \<Rightarrow> string" where
  "hashNumber num = EMPTY_HEX @ int_to_base 16 num"

definition formatRequestIdMessage :: "string option \<Rightarrow> string" where
  "formatRequestIdMessage requestId =
     (case requestId of
        None \<Rightarrow> ''''
      | Some r \<Rightarrow>
          if r = '''' then ''''
          else if str_includes REQUEST_ID_STRING r then r
          else ''['' @ REQUEST_ID_STRING @ r @ '']'')"

definition fromCharCode :: "int option \<Rightarrow> char" where
  "fromCharCode n = (case n of None \<Rightarrow> char_of (0::nat) | Some i \<Rightarrow> char_of (nat (i mod 65536)))"

fun hexToASCII :: "string \<Rightarrow> string" where
  "hexToASCII [] = []"
| "hexToASCII [a] = [fromCharCode (js_parse_int 16 [a])]"
| "hexToASCII (a # b # hex) = fromCharCode (js_parse_int 16 [a, b]) # hexToASCII hex"

definition ASCIIToHex :: "string \<Rightarrow> string" where
  "ASCIIToHex ascii = concat (map (\<lambda>c. to_base 16 (of_char c)) ascii)"

text \<open>\<open>s.slice(a, b)\<close> with its negative indices.\<close>

definition js_slice :: "int \<Rightarrow> int \<Rightarrow> string \<Rightarrow> string" where
  "js_slice a b s =
     (let n = int (length s);
          idx = (\<lambda>i. if i < 0 then max (n + i) 0 else min i n)
      in substr (nat (idx a)) (nat (idx b)) s)"

definition strip_0x_once :: "string \<Rightarrow> string" where
  "strip_0x_once s = (if starts_with EMPTY_HEX s then drop 2 s else s)"

definition decodeErrorMessage :: "string option \<Rightarrow> string" where
  "decodeErrorMessage message =
     (case message of
        None \<Rightarrow> ''''
      | Some m0 \<Rightarrow>
          if m0 = '''' then ''''
          else if \<not> str_includes EMPTY_HEX m0 then m0
          else
            (let m = strip_0x_once m0;
                 strLen = js_parse_int 16 (js_slice (8 + 64) (8 + 128) m);
                 resultCodeHex =
                   (case strLen of
                      None \<Rightarrow> js_slice (8 + 128) 0 m
                    | Some k \<Rightarrow> js_slice (8 + 128) (8 + 128 + k * 2) m)
             in hexToASCII resultCodeHex))"

text \<open>The unanchored test of \<open>TRANSACTION_ID_REGEX\<close>: a match at some position.\<close>

definition dec_digit :: "char \<Rightarrow> bool" where
  "dec_digit c = is_digit_in 10 c"

fun tx_id_match_at :: "string \<Rightarrow> bool" where
  "tx_id_match_at (a # d1 # b # d2 # rest) =
     (dec_digit a \<and> d1 = CHR ''.'' \<and> dec_digit b \<and> d2 = CHR ''.'' \<and>
      (let num = takeWhile dec_digit rest; rest2 = dropWhile dec_digit rest
       in 1 \<le> length num \<and> length num \<le> 10 \<and>
          (case rest2 of
             [] \<Rightarrow> False
           | at # rest3 \<Rightarrow> at = CHR ''@'' \<and>
               (let sec = takeWhile dec_digit rest3; rest4 = dropWhile dec_digit rest3
                in 1 \<le> length sec \<and> length sec \<le> 10 \<and>
                   (case rest4 of
                      [] \<Rightarrow> False
                    | dot # rest5 \<Rightarrow> dot = CHR ''.'' \<and>
                        (case rest5 of [] \<Rightarrow> False | n # _ \<Rightarrow> dec_digit n))))))"
| "tx_id_match_at _ = False"

fun tx_id_regex_test :: "string \<Rightarrow> bool" where
  "tx_id_regex_test [] = False"
| "tx_id_regex_test (c # cs) = (tx_id_match_at (c # cs) \<or> tx_id_regex_test cs)"

definition formatTransactionId :: "string \<Rightarrow> string option" where
  "formatTransactionId transactionId =
     (if \<not> tx_id_regex_test transactionId then None
      else
        (let parts = split_on (CHR ''@'') transactionId;
             payer = parts ! 0;
             timestamp = replace_first ''.'' ''-'' (parts ! 1)
         in Some (payer @ ''-'' @ timestamp)))"

definition formatTransactionIdWithoutQueryParams :: "string \<Rightarrow> string option" where
  "formatTransactionIdWithoutQueryParams transactionId =
     (case formatTransactionId transactionId of
        None \<Rightarrow> None
      | Some f \<Rightarrow> if f = '''' then None else Some (split_on (CHR ''?'') f ! 0))"

subsection \<open>Numbers from text\<close>

text \<open>\<open>Number.parseInt(s)\<close> without a radix: 16 after a prefix \<open>0x\<close>, else 10.\<close>

definition js_parse_int_auto :: "string \<Rightarrow> int option" where
  "js_parse_int_auto s =
     (let t = dropWhile js_space s;
          u = (if starts_with ''-'' t \<or> starts_with ''+'' t then drop 1 t else t)
      in if starts_with ''0x'' u \<or> starts_with ''0X'' u then js_parse_int 16 s else js_parse_int 10 s)"

text \<open>The configuration value and the constant are looked up by the caller of the model.\<close>

definition parseNumericEnvVar ::
  "string \<Rightarrow> string option \<Rightarrow> string \<Rightarrow> string option \<Rightarrow> string + int" where
  "parseNumericEnvVar envVarName envValue fallbackConstantKey constantValue =
     (case js_parse_int 10 (case envValue of None \<Rightarrow> '''' | Some v \<Rightarrow> v) of
        Some value \<Rightarrow> Inr value
      | None \<Rightarrow>
          (case js_parse_int_auto (case constantValue of None \<Rightarrow> '''' | Some v \<Rightarrow> v) of
             Some value \<Rightarrow> Inr value
           | None \<Rightarrow> Inl (''Unable to parse numeric env var: '' @ [CHR 39] @ envVarName @ [CHR 39] @
                          '', constant: '' @ [CHR 39] @ fallbackConstantKey @ [CHR 39])))"

text \<open>\<open>BigInt(v)\<close>; \<open>None\<close> is a thrown SyntaxError.\<close>

datatype bigint_arg = BigOfString string | BigOfInt int | BigOfBool bool

definition js_trim :: "string \<Rightarrow> string" where
  "js_trim s = rev (dropWhile js_space (rev (dropWhile js_space s)))"

lemma js_trim_id: "s \<noteq> [] \<Longrightarrow> \<not> js_space (hd s) \<Longrightarrow> \<not> js_space (last s) \<Longrightarrow> js_trim s = s"
proof -
  assume s: "s \<noteq> []" "\<not> js_space (hd s)" "\<not> js_space (last s)"
  then have "dropWhile js_space s = s" by (cases s) auto
  moreover have "dropWhile js_space (rev s) = rev s"
    using s by (cases "rev s") (auto simp: hd_rev [symmetric])
  ultimately show ?thesis by (simp add: js_trim_def)
qed

definition all_digits :: "nat \<Rightarrow> string \<Rightarrow> bool" where
  "all_digits b s = (s \<noteq> [] \<and> list_all (is_digit_in b) s)"

definition js_string_to_bigint :: "string \<Rightarrow> int option" where
  "js_string_to_bigint s0 =
     (let s = js_trim s0; p = take 2 s; r = drop 2 s
      in if s = '''' then Some 0
         else if p = ''0x'' \<or> p = ''0X'' then (if all_digits 16 r then Some (int (of_base 16 r)) else None)
         else if p = ''0o'' \<or> p = ''0O'' then (if all_digits 8 r then Some (int (of_base 8 r)) else None)
         else if p = ''0b'' \<or> p = ''0B'' then (if all_digits 2 r then Some (int (of_base 2 r)) else None)
         else if starts_with ''-'' s then
           (if all_digits 10 (drop 1 s) then Some (- int (of_base 10 (drop 1 s))) else None)
         else if starts_with ''+'' s then
           (if all_digits 10 (drop 1 s) then Some (int (of_base 10 (drop 1 s))) else None)
         else if all_digits 10 s then Some (int (of_base 10 s)) else None)"

fun js_bigint :: "bigint_arg \<Rightarrow> int option" where
  "js_bigint (BigOfString s) = js_string_to_bigint s"
| "js_bigint (BigOfInt i) = Some i"
| "js_bigint (BigOfBool b) = Some (if b then 1 else 0)"

text \<open>Division and remainder of bigints truncate towards zero.\<close>

definition bigint_div :: "int \<Rightarrow> int \<Rightarrow> int" where
  "bigint_div a b = sgn a * sgn b * (\<bar>a\<bar> div \<bar>b\<bar>)"

definition bigint_rem :: "int \<Rightarrow> int \<Rightarrow> int" where
  "bigint_rem a b = a - b * bigint_div a b"

definition weibarHexToTinyBarInt :: "bigint_arg \<Rightarrow> string + int" where
  "weibarHexToTinyBarInt v =
     (if v = BigOfString ''0x'' then Inr 0
      else
        (case js_bigint v of
           None \<Rightarrow> Inl ''SyntaxError''
         | Some weiBigInt \<Rightarrow>
             (let tinybarValue = bigint_div weiBigInt TINYBAR_TO_WEIBAR_COEF
              in if tinybarValue = 0 \<and> 0 < weiBigInt then Inr 1 else Inr (to_number tinybarValue))))"

subsection \<open>Records and prefixes\<close>

definition mapKeysAndValues ::
  "('k \<times> 'v) list \<Rightarrow> ('k \<Rightarrow> 'k2) \<Rightarrow> ('v \<Rightarrow> 'v2) \<Rightarrow> ('k2 \<times> 'v2) list" where
  "mapKeysAndValues target kf vf =
     foldl (\<lambda>result kv. AList.update (kf (fst kv)) (vf (snd kv)) result) [] target"

definition strip0x :: "string \<Rightarrow> string" where
  "strip0x input = (if starts_with EMPTY_HEX input then drop 2 input else input)"

definition prepend0x :: "string \<Rightarrow> string" where
  "prepend0x input = (if starts_with EMPTY_HEX input then input else EMPTY_HEX @ input)"

definition trimPrecedingZeros :: "string \<Rightarrow> string" where
  "trimPrecedingZeros input =
     (case js_parse_int 16 input of None \<Rightarrow> ''NaN'' | Some n \<Rightarrow> int_to_base 16 n)"

definition stripLeadingZeroForSignatures :: "string \<Rightarrow> string" where
  "stripLeadingZeroForSignatures signature =
     (let a = (if starts_with ''0x'' signature then drop 2 signature else signature);
          b = (if starts_with ''0'' a then drop 1 a else a)
      in ''0x'' @ b)"

definition numberTo0x :: "int \<Rightarrow> string" where
  "numberTo0x input = EMPTY_HEX @ int_to_base 16 input"

definition nullableNumberTo0x :: "int option \<Rightarrow> string option" where
  "nullableNumberTo0x input = (case input of None \<Rightarrow> None | Some n \<Rightarrow> Some (numberTo0x n))"

definition nanOrNumberTo0x :: "js_number option \<Rightarrow> string" where
  "nanOrNumberTo0x input =
     (case input of
        None \<Rightarrow> numberTo0x 0
      | Some NotANumber \<Rightarrow> numberTo0x 0
      | Some (Num n) \<Rightarrow> numberTo0x n)"

definition nanOrNumberInt64To0x :: "js_number option \<Rightarrow> string" where
  "nanOrNumberInt64To0x input =
     (case input of
        Some (Num n) \<Rightarrow>
          if n < 0 then numberTo0x (bigint_rem (n + 2 ^ 64) (2 ^ 64)) else nanOrNumberTo0x input
      | _ \<Rightarrow> nanOrNumberTo0x input)"

definition toHash32 :: "string \<Rightarrow> string" where
  "toHash32 v = substr 0 66 v"

definition toNullIfEmptyHex :: "string \<Rightarrow> string option" where
  "toNullIfEmptyHex v = (if v = EMPTY_HEX then None else Some v)"

text \<open>\<open>Buffer.from(bytes).toString('hex')\<close>: two digits a byte.\<close>

definition byte_hex :: "nat \<Rightarrow> string" where
  "byte_hex b = [digit_char (b div 16 mod 16), digit_char (b mod 16)]"

definition toHexString :: "nat list \<Rightarrow> string" where
  "toHexString byteArray = concat (map byte_hex byteArray)"

text \<open>A text of the form \<open>^0[xX][a-fA-F0-9]\<close> followed by a repetition of the class and \<open>$\<close>.\<close>

definition hex_text_of_length :: "(nat \<Rightarrow> bool) \<Rightarrow> string \<Rightarrow> bool" where
  "hex_text_of_length ok s =
     ((take 2 s = ''0x'' \<or> take 2 s = ''0X'') \<and> list_all (is_digit_in 16) (drop 2 s) \<and> ok (length (drop 2 s)))"

definition isValidEthereumAddress :: "string option \<Rightarrow> bool" where
  "isValidEthereumAddress address =
     (case address of
        None \<Rightarrow> False
      | Some a \<Rightarrow> if a = '''' then False else hex_text_of_length (\<lambda>n. n = 40) a)"

definition isHex :: "string \<Rightarrow> bool" where
  "isHex v = (take 2 v = ''0x'' \<and> all_digits 16 (drop 2 v))"

definition getFunctionSelector :: "string option \<Rightarrow> string" where
  "getFunctionSelector data =
     (case data of
        None \<Rightarrow> ''''
      | Some d \<Rightarrow> if d = '''' then '''' else substr 0 8 (strip_0x_once d))"

text \<open>The product is a JavaScript number.\<close>

definition tinybarsToWeibars :: "int option \<Rightarrow> bool \<Rightarrow> string + int option" where
  "tinybarsToWeibars v allowNegativeValues =
     (case v of
        None \<Rightarrow> Inr None
      | Some n \<Rightarrow>
          if n < 0 then
            (if allowNegativeValues then Inr (Some n)
             else Inl ''Invalid value - cannot pass negative number'')
          else if TOTAL_SUPPLY_TINYBARS < n then
            Inl ''Value cannot be more than the total supply of tinybars in the blockchain''
          else Inr (Some (to_number (n * TINYBAR_TO_WEIBAR_COEF))))"

subsection \<open>Round trips of the text conversions\<close>

lemma starts_with_Cons: "starts_with (a # p) (c # s) \<longleftrightarrow> a = c \<and> starts_with p s"
  by (auto simp: starts_with_def)

lemma starts_with_Nil [simp]: "starts_with [] s"
  by (simp add: starts_with_def)

lemma starts_with_EMPTY_HEX [simp]: "starts_with EMPTY_HEX (CHR ''0'' # CHR ''x'' # s)"
  by (simp add: EMPTY_HEX_def starts_with_Cons)

lemma strip0x_prepend0x [simp]: "strip0x (prepend0x s) = strip0x s"
  by (auto simp: strip0x_def prepend0x_def EMPTY_HEX_def starts_with_Cons)

lemma strip0x_EMPTY_HEX [simp]: "strip0x (EMPTY_HEX @ s) = s"
  by (simp add: strip0x_def EMPTY_HEX_def starts_with_Cons)

lemma numberTo0x_nonneg: "0 \<le> i \<Longrightarrow> numberTo0x i = EMPTY_HEX @ to_base 16 (nat i)"
  by (simp add: numberTo0x_def int_to_base_def)

lemma digit_char_pair_parse:
  assumes "a < 16" and "b < 16"
  shows "js_parse_int 16 [digit_char a, digit_char b] = Some (int (16 * a + b))"
proof -
  have "\<forall>x \<in> set [digit_char a, digit_char b]. is_digit_in 16 x"
    using assms by (simp add: is_digit_in_def digit_val_digit_char)
  moreover have "of_base 16 [digit_char a, digit_char b] = 16 * a + b"
    using assms by (simp add: of_base_def digit_val_digit_char)
  ultimately show ?thesis
    using assms by (simp add: js_parse_int_digits to_number_exact)
qed

lemma fromCharCode_byte: "b < 256 \<Longrightarrow> fromCharCode (Some (int b)) = char_of b"
  by (simp add: fromCharCode_def)

lemma byte_hex_parse: "b < 256 \<Longrightarrow> fromCharCode (js_parse_int 16 (byte_hex b)) = char_of b"
proof -
  assume b: "b < 256"
  then have "16 * (b div 16 mod 16) + b mod 16 = b" by (simp add: mod_less)
  with b show ?thesis
    by (simp only: byte_hex_def digit_char_pair_parse fromCharCode_byte mod_less_divisor zero_less_numeral)
qed

lemma hexToASCII_toHexString:
  "\<forall>b \<in> set bs. b < 256 \<Longrightarrow> hexToASCII (toHexString bs) = map char_of bs"
  by (induction bs) (auto simp: toHexString_def byte_hex_def byte_hex_parse [unfolded byte_hex_def])

lemma length_toHexString: "length (toHexString bs) = 2 * length bs"
  by (induction bs) (auto simp: toHexString_def byte_hex_def)

lemma js_slice_middle:
  assumes "s = a @ b @ c" and "length a = i" and "length b = j"
  shows "js_slice (int i) (int i + int j) s = b"
  using assms by (simp add: js_slice_def substr_def min_def)

text \<open>\<open>n\<close> as 64 hexadecimal digits, as the ABI encodes a word.\<close>

definition abi_word :: "nat \<Rightarrow> string" where
  "abi_word n = replicate (64 - length (to_base 16 n)) (CHR ''0'') @ to_base 16 n"

text \<open>The ABI encoding of \<open>Error(string)\<close>: selector, offset word, length word, text, padding.\<close>

definition abi_error_string :: "string \<Rightarrow> string \<Rightarrow> string" where
  "abi_error_string m padding =
     ''0x08c379a0'' @ abi_word 32 @ abi_word (length m) @ toHexString (map of_char m) @ padding"

lemma length_abi_word: "n < 16 ^ 64 \<Longrightarrow> length (abi_word n) = 64"
  using to_base_length [of 16 64 n] by (simp add: abi_word_def)

lemma abi_word_parse:
  assumes "n < 2 ^ 53"
  shows "js_parse_int 16 (abi_word n) = Some (int n)"
proof -
  have "\<forall>c \<in> set (abi_word n). is_digit_in 16 c"
    using to_base_digits [of 16 n] by (auto simp: abi_word_def is_digit_in_def digit_val_def)
  moreover have "of_base 16 (abi_word n) = n"
    by (simp add: abi_word_def of_base_leading_zeros of_base_to_base)
  moreover have "to_number (int n) = int n"
    using assms by (intro to_number_exact) simp
  ultimately show ?thesis
    by (simp add: js_parse_int_digits abi_word_def)
qed

text \<open>
  The relay reads back the reason of a Solidity revert: decoding the ABI encoding of
  \<open>Error(string)\<close> gives the string, whatever padding follows it.
\<close>

theorem decodeErrorMessage_abi:
  assumes "length m < 2 ^ 53"
  shows "decodeErrorMessage (Some (abi_error_string m padding)) = m"
proof -
  let ?t = "toHexString (map of_char m)"
  let ?b = "''08c379a0'' @ abi_word 32 @ abi_word (length m) @ ?t @ padding"
  have len: "length m < 16 ^ 64" using assms by (simp add: less_trans)
  have l1: "length (''08c379a0'' @ abi_word 32) = 72" by (simp add: length_abi_word)
  have l2: "length (abi_word (length m)) = 64" by (rule length_abi_word [OF len])
  have strip: "strip_0x_once (abi_error_string m padding) = ?b"
    by (simp add: abi_error_string_def strip_0x_once_def)
  have word: "js_slice 72 136 ?b = abi_word (length m)"
    using js_slice_middle [OF _ l1 l2, of ?b "?t @ padding"] by simp
  have l3: "length (''08c379a0'' @ abi_word 32 @ abi_word (length m)) = 136" using l1 l2 by simp
  have l4: "length ?t = 2 * length m" by (simp add: length_toHexString)
  have body: "js_slice 136 (136 + int (length m) * 2) ?b = ?t"
    using js_slice_middle [OF _ l3 l4, of ?b padding] by (simp add: algebra_simps)
  have inc: "str_includes EMPTY_HEX (abi_error_string m padding)"
    by (simp add: abi_error_string_def)
  have "hexToASCII ?t = m"
    by (subst hexToASCII_toHexString) (auto simp: o_def)
  with strip word body inc show ?thesis
    by (simp add: decodeErrorMessage_def abi_word_parse [OF assms] abi_error_string_def)
qed

theorem decodeErrorMessage_abi_witness:
  "decodeErrorMessage (Some (abi_error_string ''Set to revert'' ''00'')) = ''Set to revert''"
  by (rule decodeErrorMessage_abi) simp

lemma of_base_numberTo0x: "0 \<le> i \<Longrightarrow> of_base 16 (strip0x (numberTo0x i)) = nat i"
  by (simp add: numberTo0x_nonneg of_base_to_base)

lemma bigint_rem_nonneg: "0 \<le> a \<Longrightarrow> 0 < b \<Longrightarrow> bigint_rem a b = a mod b"
  by (cases "a = 0") (simp_all add: bigint_rem_def bigint_div_def minus_mult_div_eq_mod)

text \<open>
  Signed 64-bit amounts of the mirror node survive the hexadecimal text: the digits are
  those of the two's complement word, at most 16 of them, and reading the word back as a
  signed value gives the amount.
\<close>

theorem int64_hex_roundtrip:
  fixes i :: int
  assumes "- (2 ^ 63) \<le> i" and "i < 2 ^ 63"
  defines "t \<equiv> nanOrNumberInt64To0x (Some (Num i))"
  shows "t = ''0x'' @ to_base 16 (unat (word_of_int i :: 64 word)) \<and> length t \<le> 18 \<and>
    sint (word_of_int (int (of_base 16 (strip0x t))) :: 64 word) = i"
proof (intro conjI)
  let ?w = "word_of_int i :: 64 word"
  have u: "int (unat ?w) = i mod 2 ^ 64"
    by (simp add: unsigned_of_int take_bit_eq_mod)
  show t: "t = ''0x'' @ to_base 16 (unat ?w)"
  proof (cases "i < 0")
    case True
    have "bigint_rem (i + 2 ^ 64) (2 ^ 64) = i mod 2 ^ 64"
      using assms(1) by (simp add: bigint_rem_nonneg)
    then have "bigint_rem (i + 2 ^ 64) (2 ^ 64) = int (unat ?w)" using u by simp
    with True show ?thesis
      by (simp only: t_def nanOrNumberInt64To0x_def option.case js_number.case if_True numberTo0x_nonneg
          of_nat_0_le_iff nat_int EMPTY_HEX_def)
  next
    case False
    then have "i mod 2 ^ 64 = i" using assms(2) by (intro mod_pos_pos_trivial) auto
    with u have "i = int (unat ?w)" by simp
    then have "numberTo0x i = ''0x'' @ to_base 16 (unat ?w)"
      by (metis EMPTY_HEX_def nat_int numberTo0x_nonneg of_nat_0_le_iff)
    with False show ?thesis
      by (simp add: t_def nanOrNumberInt64To0x_def nanOrNumberTo0x_def)
  qed
  have "unat ?w < 2 ^ 64" using unsigned_less [of ?w] by simp
  then have "length (to_base 16 (unat ?w)) \<le> 16" by (intro to_base_length) simp_all
  with t show "length t \<le> 18" by simp
  have "of_base 16 (strip0x t) = unat ?w"
    using strip0x_EMPTY_HEX [of "to_base 16 (unat ?w)"] by (simp add: t EMPTY_HEX_def of_base_to_base)
  then have "word_of_int (int (of_base 16 (strip0x t))) = ?w" by simp
  then show "sint (word_of_int (int (of_base 16 (strip0x t))) :: 64 word) = i"
    using assms by (simp add: signed_of_int signed_take_bit_int_eq_self)
qed

theorem int64_hex_roundtrip_witness:
  "nanOrNumberInt64To0x (Some (Num (-10))) = ''0x'' @ to_base 16 (unat (word_of_int (-10) :: 64 word))"
  using int64_hex_roundtrip [of "-10"] by simp

subsection \<open>Tinybars and weibars\<close>

lemma all_digits_to_base: "2 \<le> b \<Longrightarrow> b \<le> 16 \<Longrightarrow> all_digits b (to_base b n)"
  using to_base_digits [of b n] by (simp add: all_digits_def list_all_iff)

lemma js_trim_no_space: "s \<noteq> [] \<Longrightarrow> \<not> js_space (hd s) \<Longrightarrow> \<not> js_space (last s) \<Longrightarrow> js_trim s = s"
proof -
  assume a: "s \<noteq> []" "\<not> js_space (hd s)" "\<not> js_space (last s)"
  then have 1: "dropWhile js_space s = s" by (cases s) auto
  from a have 2: "dropWhile js_space (rev s) = rev s" by (cases s rule: rev_cases) auto
  from 1 2 show ?thesis by (simp add: js_trim_def)
qed

lemma js_string_to_bigint_numberTo0x:
  assumes "0 \<le> w"
  shows "js_string_to_bigint (numberTo0x w) = Some w"
proof -
  let ?d = "to_base 16 (nat w)"
  have "is_digit_in 16 (last ?d)" using to_base_digits [of 16 "nat w"] by simp
  then have "js_trim (''0x'' @ ?d) = ''0x'' @ ?d"
    by (intro js_trim_no_space) (simp_all add: js_space_def is_digit_in_not_space [unfolded js_space_def])
  then show ?thesis
    using assms
    by (simp add: numberTo0x_nonneg EMPTY_HEX_def js_string_to_bigint_def all_digits_to_base of_base_to_base)
qed

lemma bigint_div_nonneg: "0 \<le> a \<Longrightarrow> 0 < b \<Longrightarrow> bigint_div a b = a div b"
  by (cases "a = 0") (simp_all add: bigint_div_def)

text \<open>
  A hexadecimal weibar amount is converted to tinybars by flooring, except that a positive
  amount never becomes zero.
\<close>

theorem weibarHexToTinyBarInt_floor:
  assumes "0 \<le> w" and "w < 2 ^ 53 * 10 ^ 10"
  shows "weibarHexToTinyBarInt (BigOfString (numberTo0x w)) =
    Inr (if 0 < w \<and> w < 10 ^ 10 then 1 else w div 10 ^ 10)"
proof -
  have ne: "numberTo0x w \<noteq> ''0x''" using assms by (simp add: numberTo0x_nonneg EMPTY_HEX_def)
  have "to_number (w div 10000000000) = w div 10000000000"
    using assms by (intro to_number_exact) (simp add: pos_imp_zdiv_nonneg_iff)
  moreover have "w div 10000000000 = 0 \<longleftrightarrow> w < 10000000000"
    using assms(1) by (auto simp add: zdiv_eq_0_iff)
  ultimately show ?thesis
    using assms ne
    by (auto simp add: weibarHexToTinyBarInt_def js_string_to_bigint_numberTo0x Let_def
        bigint_div_nonneg TINYBAR_TO_WEIBAR_COEF_def)
qed

theorem weibarHexToTinyBarInt_floor_witness:
  "weibarHexToTinyBarInt (BigOfString (numberTo0x 25000000000)) = Inr 2"
  using weibarHexToTinyBarInt_floor [of 25000000000] by simp

lemma to_number_tinybars:
  assumes "0 \<le> v" and "v * 5 ^ 10 < 2 ^ 53"
  shows "to_number (v * 10 ^ 10) = v * 10 ^ 10"
proof -
  have "double_of_nat (nat (v * 10000000000)) = nat (v * 10000000000)"
    using assms by (intro double_of_nat_exact [where k = 10 and m = "nat (v * 5 ^ 10)"])
      (simp_all add: nat_mult_distrib)
  then show ?thesis using assms(1) by (simp add: to_number_def)
qed

text \<open>
  Tinybar amounts below \<open>2 ^ 53 / 5 ^ 10\<close> (about 9.2 hbar) are converted to weibars
  exactly, and converting back gives the amount.
\<close>

theorem tinybarsToWeibars_exact:
  assumes "0 \<le> v" and "v * 5 ^ 10 < 2 ^ 53"
  shows "tinybarsToWeibars (Some v) b = Inr (Some (v * 10 ^ 10)) \<and>
    weibarHexToTinyBarInt (BigOfInt (v * 10 ^ 10)) = Inr v"
proof -
  have ex: "to_number (v * 10000000000) = v * 10000000000"
    using to_number_tinybars [OF assms] by simp
  have "to_number v = v" using assms by (intro to_number_exact) simp
  with assms ex show ?thesis
    by (auto simp add: tinybarsToWeibars_def weibarHexToTinyBarInt_def bigint_div_nonneg Let_def
        TINYBAR_TO_WEIBAR_COEF_def TOTAL_SUPPLY_TINYBARS_def)
qed

theorem tinybarsToWeibars_exact_witness:
  "tinybarsToWeibars (Some 900000000) False = Inr (Some 9000000000000000000)"
  using tinybarsToWeibars_exact [of 900000000 False] by simp

text \<open>
  Above that bound the conversion of an odd tinybar amount always loses: the reported weibar
  amount is never the exact one.
\<close>

theorem tinybarsToWeibars_inexact:
  assumes "odd v" and "2 ^ 53 < v * 5 ^ 10" and "v \<le> 5 * 10 ^ 18"
  shows "\<exists>w. tinybarsToWeibars (Some v) b = Inr (Some w) \<and> w \<noteq> v * 10 ^ 10"
proof -
  have "to_number (v * 10 ^ 10) \<noteq> v * 10 ^ 10"
    using assms by (intro to_number_inexact [where m = "v * 5 ^ 10" and k = 10]) simp_all
  with assms show ?thesis
    by (auto simp add: tinybarsToWeibars_def TINYBAR_TO_WEIBAR_COEF_def TOTAL_SUPPLY_TINYBARS_def)
qed

theorem tinybarsToWeibars_inexact_witness:
  "\<exists>w. tinybarsToWeibars (Some 922337205) False = Inr (Some w) \<and> w \<noteq> 922337205 * 10 ^ 10"
  by (rule tinybarsToWeibars_inexact) simp_all

subsection \<open>Transaction ids\<close>

lemma takeWhile_digits_sep:
  "list_all dec_digit ds \<Longrightarrow> \<not> dec_digit c \<Longrightarrow>
   takeWhile dec_digit (ds @ c # r) = ds \<and> dropWhile dec_digit (ds @ c # r) = c # r"
  by (induction ds) auto

lemma dec_digit_not: "\<not> dec_digit (CHR ''@'')" "\<not> dec_digit (CHR ''.'')" "\<not> dec_digit (CHR ''?'')"
  by (simp_all add: dec_digit_def is_digit_in_def digit_val_def)

lemma tx_id_match_at_wf:
  assumes "dec_digit a" "dec_digit b" "list_all dec_digit num" "1 \<le> length num" "length num \<le> 10"
    "list_all dec_digit sec" "1 \<le> length sec" "length sec \<le> 10" "list_all dec_digit (n # ns)"
  shows "tx_id_match_at (a # CHR ''.'' # b # CHR ''.'' # num @ CHR ''@'' # sec @ CHR ''.'' # (n # ns) @ r)"
  using assms by (simp add: Let_def takeWhile_digits_sep dec_digit_not)

lemma replace_first_dot:
  "list_all dec_digit sec \<Longrightarrow> replace_first ''.'' r (sec @ CHR ''.'' # s) = sec @ r @ s"
proof (induction sec)
  case (Cons c cs)
  then have "c \<noteq> CHR ''.''" using dec_digit_not by auto
  with Cons show ?case by (simp add: starts_with_Cons)
qed (simp add: starts_with_Cons)

text \<open>
  A transaction id \<open>shard.realm.num@seconds.nanos\<close>, with query parameters or without, is
  rewritten to the mirror node's form \<open>shard.realm.num-seconds-nanos\<close>.
\<close>

theorem formatTransactionId_wellformed:
  assumes "dec_digit a" "dec_digit b" "list_all dec_digit num" "1 \<le> length num" "length num \<le> 10"
    "list_all dec_digit sec" "1 \<le> length sec" "length sec \<le> 10"
    "list_all dec_digit nanos" "nanos \<noteq> []" "CHR ''@'' \<notin> set params"
  defines "payer \<equiv> a # CHR ''.'' # b # CHR ''.'' # num"
  shows "formatTransactionIdWithoutQueryParams (payer @ ''@'' @ sec @ ''.'' @ nanos @ ''?'' @ params) =
      Some (payer @ ''-'' @ sec @ ''-'' @ nanos) \<and>
    formatTransactionId (payer @ ''@'' @ sec @ ''.'' @ nanos) = Some (payer @ ''-'' @ sec @ ''-'' @ nanos)"
proof (intro conjI)
  obtain n ns where ns: "nanos = n # ns" using assms(10) by (cases nanos) auto
  have no_at: "CHR ''@'' \<notin> set ds" "CHR ''?'' \<notin> set ds" if "list_all dec_digit ds" for ds
    using that dec_digit_not by (auto simp: list_all_iff)
  have pa: "CHR ''@'' \<notin> set payer" "CHR ''?'' \<notin> set payer"
    using assms(1-3) no_at dec_digit_not by (auto simp: payer_def)
  have fmt: "formatTransactionId (payer @ ''@'' @ sec @ ''.'' @ nanos @ r) =
      Some (payer @ ''-'' @ sec @ ''-'' @ nanos @ r)" if r: "CHR ''@'' \<notin> set r" for r
  proof -
    let ?id = "payer @ CHR ''@'' # sec @ CHR ''.'' # nanos @ r"
    have "tx_id_match_at ?id"
      using tx_id_match_at_wf [of a b num sec n ns r] assms ns by (simp add: payer_def)
    then have m: "tx_id_regex_test ?id" by (simp add: payer_def)
    have rest: "CHR ''@'' \<notin> set (sec @ CHR ''.'' # nanos @ r)"
      using no_at assms(6,9) r by auto
    have "split_on (CHR ''@'') ?id = [payer, sec @ CHR ''.'' # nanos @ r]"
      using pa rest by (simp add: split_on_append split_on_no_sep)
    with m assms(6) show ?thesis
      by (simp add: formatTransactionId_def Let_def replace_first_dot)
  qed
  from fmt [of "[]"] show "formatTransactionId (payer @ ''@'' @ sec @ ''.'' @ nanos) =
      Some (payer @ ''-'' @ sec @ ''-'' @ nanos)" by simp
  let ?out = "payer @ ''-'' @ sec @ ''-'' @ nanos"
  have "CHR ''?'' \<notin> set ?out" using pa no_at assms(6,9) by auto
  then have "split_on (CHR ''?'') (?out @ CHR ''?'' # params) ! 0 = ?out"
    by (subst split_on_append) simp_all
  moreover have "formatTransactionId (payer @ ''@'' @ sec @ ''.'' @ nanos @ ''?'' @ params) =
      Some (?out @ CHR ''?'' # params)"
    using fmt [of "CHR ''?'' # params"] assms(11) by simp
  ultimately show "formatTransactionIdWithoutQueryParams (payer @ ''@'' @ sec @ ''.'' @ nanos @ ''?'' @ params) =
      Some ?out"
    by (simp add: formatTransactionIdWithoutQueryParams_def payer_def)
qed

theorem formatTransactionId_wellformed_witness:
  "formatTransactionId ''0.0.902@1684375868.230217103'' = Some ''0.0.902-1684375868-230217103''"
  using formatTransactionId_wellformed
    [of "CHR ''0''" "CHR ''0''" "''902''" "''1684375868''" "''230217103''" "[]"]
  by (simp add: dec_digit_def is_digit_in_def digit_val_def)

end
