(* ===== verification/JsonRpcErrors.thy ===== *)
theory JsonRpcErrors
  imports Formatters
begin

section \<open>The errors of the relay\<close>

text \<open>
  Models \<open>packages/relay/src/lib/errors\<close>: the JSON-RPC errors with their codes and messages,
  the errors of the mirror node and of the consensus SDK, and the close codes of the web
  socket. A number in a message is its decimal text. The status codes of the Hedera SDK are a
  table the model takes as an argument.
\<close>

subsection \<open>\<open>JsonRpcError\<close>\<close>

record json_rpc_error =
  err_code :: int
  err_message :: string
  err_data :: "string option"

definition JsonRpcError :: "int \<Rightarrow> string \<Rightarrow> string option \<Rightarrow> string option \<Rightarrow> json_rpc_error" where
  "JsonRpcError c msg d requestId =
     (let hasRequestId =
            (case requestId of None \<Rightarrow> False | Some r \<Rightarrow> r \<noteq> '''' \<and> \<not> str_includes REQUEST_ID_STRING msg)
      in \<lparr> err_code = c,
           err_message =
             (if hasRequestId then ''['' @ REQUEST_ID_STRING @ the requestId @ ''] '' @ msg else msg),
           err_data = d \<rparr>)"

definition newWithRequestId :: "json_rpc_error \<Rightarrow> string \<Rightarrow> json_rpc_error" where
  "newWithRequestId e requestId = JsonRpcError (err_code e) (err_message e) (err_data e) (Some requestId)"

abbreviation plain_error :: "int \<Rightarrow> string \<Rightarrow> json_rpc_error" where
  "plain_error c msg \<equiv> JsonRpcError c msg None None"

text \<open>A text between single quotes, as the message templates write it.\<close>

definition squote :: "string \<Rightarrow> string" where
  "squote s = [CHR 39] @ s @ [CHR 39]"

subsection \<open>\<open>predefined\<close>\<close>

definition CONTRACT_REVERT :: "string option \<Rightarrow> string \<Rightarrow> json_rpc_error" where
  "CONTRACT_REVERT errorMessage data =
     (let message =
        (case errorMessage of
           Some m \<Rightarrow>
             if m \<noteq> '''' then ''execution reverted: '' @ decodeErrorMessage errorMessage
             else (let d = decodeErrorMessage (Some data)
                   in if d \<noteq> '''' then ''execution reverted: '' @ d else ''execution reverted'')
         | None \<Rightarrow>
             (let d = decodeErrorMessage (Some data)
              in if d \<noteq> '''' then ''execution reverted: '' @ d else ''execution reverted''))
      in JsonRpcError 3 message (Some data) None)"

definition DEPENDENT_SERVICE_IMMATURE_RECORDS :: json_rpc_error where
  "DEPENDENT_SERVICE_IMMATURE_RECORDS = plain_error (-32015) ''Dependent service returned immature records''"

definition GAS_LIMIT_TOO_HIGH :: "int \<Rightarrow> int \<Rightarrow> json_rpc_error" where
  "GAS_LIMIT_TOO_HIGH gasLimit maxGas = plain_error (-32005)
     (''Transaction gas limit '' @ squote (show_int gasLimit) @
      '' exceeds max gas per sec limit '' @ squote (show_int maxGas))"

definition GAS_LIMIT_TOO_LOW :: "int \<Rightarrow> int \<Rightarrow> json_rpc_error" where
  "GAS_LIMIT_TOO_LOW gasLimit requiredGas = plain_error (-32003)
     (''Transaction gas limit provided '' @ squote (show_int gasLimit) @
      '' is insufficient of intrinsic gas required '' @ squote (show_int requiredGas))"

definition GAS_PRICE_TOO_LOW :: "int \<Rightarrow> int \<Rightarrow> json_rpc_error" where
  "GAS_PRICE_TOO_LOW gasPrice minGasPrice = plain_error (-32009)
     (''Gas price '' @ squote (show_int gasPrice) @
      '' is below configured minimum gas price '' @ squote (show_int minGasPrice))"

definition HBAR_RATE_LIMIT_EXCEEDED :: json_rpc_error where
  "HBAR_RATE_LIMIT_EXCEEDED = plain_error (-32606) ''HBAR Rate limit exceeded''"

definition HBAR_RATE_LIMIT_PREEMPTIVE_EXCEEDED :: json_rpc_error where
  "HBAR_RATE_LIMIT_PREEMPTIVE_EXCEEDED = plain_error (-32606)
     ''The HBAR rate limit was preemptively exceeded due to an excessively large callData size.''"

definition INSUFFICIENT_ACCOUNT_BALANCE :: json_rpc_error where
  "INSUFFICIENT_ACCOUNT_BALANCE = plain_error (-32000) ''Insufficient funds for transfer''"

definition INTERNAL_ERROR :: "string \<Rightarrow> json_rpc_error" where
  "INTERNAL_ERROR msg = plain_error (-32603)
     (if msg = '''' then ''Unknown error invoking RPC'' else ''Error invoking RPC: '' @ msg)"

definition INVALID_PARAMETER :: "string \<Rightarrow> string \<Rightarrow> json_rpc_error" where
  "INVALID_PARAMETER index msg = plain_error (-32602) (''Invalid parameter '' @ index @ '': '' @ msg)"

definition INVALID_PARAMETERS :: json_rpc_error where
  "INVALID_PARAMETERS = plain_error (-32602) ''Invalid params''"

definition INVALID_REQUEST :: json_rpc_error where
  "INVALID_REQUEST = plain_error (-32600) ''Invalid request''"

definition IP_RATE_LIMIT_EXCEEDED :: "string \<Rightarrow> json_rpc_error" where
  "IP_RATE_LIMIT_EXCEEDED methodName = plain_error (-32605) (''IP Rate limit exceeded on '' @ methodName)"

definition MISSING_FROM_BLOCK_PARAM :: json_rpc_error where
  "MISSING_FROM_BLOCK_PARAM = plain_error (-32011)
     ''Provided toBlock parameter without specifying fromBlock''"

definition MISSING_REQUIRED_PARAMETER :: "string \<Rightarrow> json_rpc_error" where
  "MISSING_REQUIRED_PARAMETER index =
     plain_error (-32602) (''Missing value for required parameter '' @ index)"

definition NONCE_TOO_LOW :: "int \<Rightarrow> int \<Rightarrow> json_rpc_error" where
  "NONCE_TOO_LOW nonce currentNonce = plain_error 32001
     (''Nonce too low. Provided nonce: '' @ show_int nonce @ '', current nonce: '' @ show_int currentNonce)"

definition NONCE_TOO_HIGH :: "int \<Rightarrow> int \<Rightarrow> json_rpc_error" where
  "NONCE_TOO_HIGH nonce currentNonce = plain_error 32002
     (''Nonce too high. Provided nonce: '' @ show_int nonce @ '', current nonce: '' @ show_int currentNonce)"

definition NO_MINING_WORK :: json_rpc_error where
  "NO_MINING_WORK = plain_error (-32000) ''No mining work available yet''"

definition PARSE_ERROR :: json_rpc_error where
  "PARSE_ERROR = plain_error (-32700) ''Unable to parse JSON''"

definition RANGE_TOO_LARGE :: "int \<Rightarrow> json_rpc_error" where
  "RANGE_TOO_LARGE blockRange =
     plain_error (-32000) (''Exceeded maximum block range: '' @ show_int blockRange)"

definition TIMESTAMP_RANGE_TOO_LARGE :: "string \<Rightarrow> string \<Rightarrow> string \<Rightarrow> string \<Rightarrow> json_rpc_error" where
  "TIMESTAMP_RANGE_TOO_LARGE fromBlock fromTimestamp toBlock toTimestamp = plain_error (-32004)
     (''The provided fromBlock and toBlock contain timestamps that exceed the maximum allowed duration of 7 days (604800 seconds): fromBlock: '' @
      fromBlock @ '' ('' @ fromTimestamp @ ''), toBlock: '' @ toBlock @
      '' ('' @ toTimestamp @ '')'')"

definition REQUEST_BEYOND_HEAD_BLOCK :: "int \<Rightarrow> int \<Rightarrow> json_rpc_error" where
  "REQUEST_BEYOND_HEAD_BLOCK requested latest = plain_error (-32000)
     (''Request beyond head block: requested '' @ show_int requested @ '', head '' @ show_int latest)"

definition REQUEST_TIMEOUT :: json_rpc_error where
  "REQUEST_TIMEOUT = plain_error (-32010) ''Request timeout. Please try again.''"

definition RESOURCE_NOT_FOUND :: "string \<Rightarrow> json_rpc_error" where
  "RESOURCE_NOT_FOUND msg = plain_error (-32001) (''Requested resource not found. '' @ msg)"

definition UNKNOWN_HISTORICAL_BALANCE :: json_rpc_error where
  "UNKNOWN_HISTORICAL_BALANCE = plain_error (-32007)
     ''Historical balance data is available only after 15 minutes.''"

definition UNSUPPORTED_CHAIN_ID :: "string \<Rightarrow> string \<Rightarrow> json_rpc_error" where
  "UNSUPPORTED_CHAIN_ID requested current = plain_error (-32000)
     (''ChainId ('' @ requested @ '') not supported. The correct chainId is '' @ current)"

definition UNSUPPORTED_METHOD :: json_rpc_error where
  "UNSUPPORTED_METHOD = plain_error (-32601) ''Unsupported JSON-RPC method''"

definition METHOD_NOT_FOUND :: "string \<Rightarrow> json_rpc_error" where
  "METHOD_NOT_FOUND methodName = plain_error (-32601) (''Method '' @ methodName @ '' not found'')"

definition NOT_YET_IMPLEMENTED :: json_rpc_error where
  "NOT_YET_IMPLEMENTED = plain_error (-32601) ''Not yet implemented''"

definition UNSUPPORTED_TRANSACTION_TYPE :: json_rpc_error where
  "UNSUPPORTED_TRANSACTION_TYPE = plain_error (-32611) ''Unsupported transaction type''"

definition VALUE_TOO_LOW :: json_rpc_error where
  "VALUE_TOO_LOW = plain_error (-32602)
     (''Value can'' @ [CHR 39] @ ''t be non-zero and less than 10_000_000_000 wei which is 1 tinybar'')"

text \<open>The three address errors mention the address, and more when it is not empty.\<close>

definition INVALID_CONTRACT_ADDRESS :: "string \<Rightarrow> json_rpc_error" where
  "INVALID_CONTRACT_ADDRESS address =
     (let msg = ''Invalid Contract Address: '' @ address @ ''.''
      in plain_error (-32012)
           (if address \<noteq> '''' then
              msg @ '' Expected length of 42 chars but was '' @ show_int (int (length address)) @ ''.''
            else msg))"

definition NON_EXISTING_CONTRACT :: "string \<Rightarrow> json_rpc_error" where
  "NON_EXISTING_CONTRACT address =
     (let msg = ''Non Existing Contract Address: '' @ address @ ''.''
      in plain_error (-32013)
           (if address \<noteq> '''' then msg @ '' Expected a Contract or Token Address.'' else msg))"

definition NON_EXISTING_ACCOUNT :: "string \<Rightarrow> json_rpc_error" where
  "NON_EXISTING_ACCOUNT address =
     (let msg = ''Non Existing Account Address: '' @ address @ ''.''
      in plain_error (-32014)
           (if address \<noteq> '''' then msg @ '' Expected an Account Address.'' else msg))"

definition COULD_NOT_ESTIMATE_GAS_PRICE :: json_rpc_error where
  "COULD_NOT_ESTIMATE_GAS_PRICE = plain_error (-32604) ''Error encountered estimating the gas price''"

definition COULD_NOT_RETRIEVE_LATEST_BLOCK :: json_rpc_error where
  "COULD_NOT_RETRIEVE_LATEST_BLOCK = plain_error (-32607) ''Error encountered retrieving latest block''"

definition MAX_SUBSCRIPTIONS :: json_rpc_error where
  "MAX_SUBSCRIPTIONS = plain_error (-32608) ''Exceeded maximum allowed subscriptions''"

definition UNSUPPORTED_HISTORICAL_EXECUTION :: "string \<Rightarrow> json_rpc_error" where
  "UNSUPPORTED_HISTORICAL_EXECUTION blockId =
     plain_error (-32609) (''Unsupported historical block identifier encountered: '' @ blockId)"

definition UNSUPPORTED_OPERATION :: "string \<Rightarrow> json_rpc_error" where
  "UNSUPPORTED_OPERATION msg = plain_error (-32610) (''Unsupported operation. '' @ msg)"

definition PAGINATION_MAX :: "int \<Rightarrow> json_rpc_error" where
  "PAGINATION_MAX count = plain_error (-32011)
     (''Exceeded maximum mirror node pagination count: '' @ show_int count)"

definition MAX_BLOCK_SIZE :: "int \<Rightarrow> json_rpc_error" where
  "MAX_BLOCK_SIZE count = plain_error (-32000)
     (''Exceeded max transactions that can be returned in a block: '' @ show_int count)"

definition MIRROR_NODE_UPSTREAM_FAIL :: "int \<Rightarrow> string \<Rightarrow> json_rpc_error" where
  "MIRROR_NODE_UPSTREAM_FAIL errCode errMessage =
     JsonRpcError (-32020)
       (''Mirror node upstream failure: statusCode='' @ show_int errCode @ '', message='' @ errMessage)
       (Some (show_int errCode)) None"

definition UNKNOWN_BLOCK :: "string option \<Rightarrow> json_rpc_error" where
  "UNKNOWN_BLOCK msg = plain_error (-39012)
     (case msg of None \<Rightarrow> ''Unknown block'' | Some m \<Rightarrow> if m = '''' then ''Unknown block'' else m)"

definition INVALID_BLOCK_RANGE :: json_rpc_error where
  "INVALID_BLOCK_RANGE = plain_error (-39013) ''Invalid block range''"

definition RECEIVER_SIGNATURE_ENABLED :: json_rpc_error where
  "RECEIVER_SIGNATURE_ENABLED = plain_error (-32000)
     (''Operation is not supported when receiver'' @ [CHR 39] @ ''s signature is enabled.'')"

definition FILTER_NOT_FOUND :: json_rpc_error where
  "FILTER_NOT_FOUND = plain_error (-32001) ''Filter not found''"

definition TRANSACTION_SIZE_LIMIT_EXCEEDED :: "string \<Rightarrow> int \<Rightarrow> json_rpc_error" where
  "TRANSACTION_SIZE_LIMIT_EXCEEDED actualSize expectedSize = plain_error (-32201)
     (''Oversized data: transaction size '' @ actualSize @ '', transaction limit '' @ show_int expectedSize)"

definition CALL_DATA_SIZE_LIMIT_EXCEEDED :: "string \<Rightarrow> int \<Rightarrow> json_rpc_error" where
  "CALL_DATA_SIZE_LIMIT_EXCEEDED actualSize expectedSize = plain_error (-32201)
     (''Oversized data: call data size '' @ actualSize @ '', call data size limit '' @ show_int expectedSize)"

definition BATCH_REQUESTS_DISABLED :: json_rpc_error where
  "BATCH_REQUESTS_DISABLED = plain_error (-32202) ''Batch requests are disabled''"

definition BATCH_REQUESTS_AMOUNT_MAX_EXCEEDED :: "int \<Rightarrow> int \<Rightarrow> json_rpc_error" where
  "BATCH_REQUESTS_AMOUNT_MAX_EXCEEDED amount mx = plain_error (-32203)
     (''Batch request amount '' @ show_int amount @ '' exceeds max '' @ show_int mx)"

definition BATCH_REQUESTS_METHOD_NOT_PERMITTED :: "string \<Rightarrow> json_rpc_error" where
  "BATCH_REQUESTS_METHOD_NOT_PERMITTED meth = plain_error (-32007)
     (''Method '' @ meth @ '' is not permitted as part of batch requests'')"

definition WS_BATCH_REQUESTS_DISABLED :: json_rpc_error where
  "WS_BATCH_REQUESTS_DISABLED = plain_error (-32205) ''WS batch requests are disabled''"

definition WS_BATCH_REQUESTS_AMOUNT_MAX_EXCEEDED :: "int \<Rightarrow> int \<Rightarrow> json_rpc_error" where
  "WS_BATCH_REQUESTS_AMOUNT_MAX_EXCEEDED amount mx = plain_error (-32206)
     (''Batch request amount '' @ show_int amount @ '' exceeds max '' @ show_int mx)"

definition WS_SUBSCRIPTIONS_DISABLED :: json_rpc_error where
  "WS_SUBSCRIPTIONS_DISABLED = plain_error (-32207) ''WS Subscriptions are disabled''"

definition INVALID_ARGUMENTS :: "string \<Rightarrow> json_rpc_error" where
  "INVALID_ARGUMENTS msg = plain_error (-32000) (''Invalid arguments: '' @ msg)"

subsection \<open>\<open>MirrorNodeClientError\<close>\<close>

text \<open>
  What the HTTP client hands to the constructor: its message, and the messages of the
  \<open>_status\<close> object of the response, each with a message, a detail and data.
\<close>

record mirror_status_message =
  msm_message :: string
  msm_detail :: "string option"
  msm_data :: "string option"

record http_client_error =
  hce_message :: string
  hce_status_messages :: "mirror_status_message list"

record mirror_node_error =
  mne_message :: string
  mne_statusCode :: int
  mne_detail :: "string option"
  mne_data :: "string option"

definition MirrorNodeClientError :: "http_client_error \<Rightarrow> int \<Rightarrow> mirror_node_error" where
  "MirrorNodeClientError e statusCode =
     (case hce_status_messages e of
        m # _ \<Rightarrow> \<lparr> mne_message = msm_message m, mne_statusCode = statusCode,
                   mne_detail = msm_detail m, mne_data = msm_data m \<rparr>
      | [] \<Rightarrow> \<lparr> mne_message = hce_message e, mne_statusCode = statusCode,
                mne_detail = None, mne_data = None \<rparr>)"

definition mne_isTimeout :: "mirror_node_error \<Rightarrow> bool" where
  "mne_isTimeout e = (mne_statusCode e = 504)"

definition mne_isContractReverted :: "mirror_node_error \<Rightarrow> bool" where
  "mne_isContractReverted e = (mne_statusCode e = 400)"

definition mne_isNotFound :: "mirror_node_error \<Rightarrow> bool" where
  "mne_isNotFound e = (mne_statusCode e = 404)"

definition mne_isNotSupported :: "mirror_node_error \<Rightarrow> bool" where
  "mne_isNotSupported e = (mne_statusCode e = 501)"

definition mne_isEmpty :: "mirror_node_error \<Rightarrow> bool" where
  "mne_isEmpty e = (mne_statusCode e = 204)"

definition mne_isRateLimit :: "mirror_node_error \<Rightarrow> bool" where
  "mne_isRateLimit e = (mne_statusCode e = 429)"

definition mne_isNotSupportedSystemContractOperaton :: "mirror_node_error \<Rightarrow> bool" where
  "mne_isNotSupportedSystemContractOperaton e = (mne_message e = ''Precompile not supported'')"

definition mne_isFailInvalid :: "mirror_node_error \<Rightarrow> bool" where
  "mne_isFailInvalid e = (mne_message e = ''FAIL_INVALID'')"

definition mne_isInvalidTransaction :: "mirror_node_error \<Rightarrow> bool" where
  "mne_isInvalidTransaction e = (mne_message e = ''INVALID_TRANSACTION'')"

subsection \<open>\<open>SDKClientError\<close>\<close>

text \<open>The SDK's status codes, and the name it prints for one of them.\<close>

record sdk_status_table =
  st_Unknown :: int
  st_InvalidAccountId :: int
  st_InvalidContractId :: int
  st_InvalidContractId_name :: string
  st_ContractDeleted :: int
  st_InsufficientTxFee :: int
  st_ContractRevertExecuted :: int
  st_ContractRevertExecuted_name :: string
  st_InvalidTransactionId :: int

definition mne_isContractRevertOpcodeExecuted :: "sdk_status_table \<Rightarrow> mirror_node_error \<Rightarrow> bool" where
  "mne_isContractRevertOpcodeExecuted st e = (mne_message e = st_ContractRevertExecuted_name st)"

text \<open>What the SDK throws: a message, and a status code when a node answered.\<close>

record sdk_thrown =
  thrown_message :: string
  thrown_code :: "int option"

record sdk_client_error =
  sdk_message :: string
  sdk_status :: int
  sdk_validNetworkError :: bool
  sdk_transactionId :: string
  sdk_nodeAccountId :: "string option"

definition SDKClientError ::
  "sdk_status_table \<Rightarrow> sdk_thrown option \<Rightarrow> string option \<Rightarrow> string option \<Rightarrow> string option \<Rightarrow> sdk_client_error" where
  "SDKClientError st e msg transactionId nodeId =
     (let own = (case msg of None \<Rightarrow> '''' | Some m \<Rightarrow> m);
          net = (case e of
                   Some t \<Rightarrow> (case thrown_code t of Some c \<Rightarrow> if c \<noteq> 0 then Some (thrown_message t, c) else None
                                                   | None \<Rightarrow> None)
                 | None \<Rightarrow> None)
      in \<lparr> sdk_message = (case net of Some (m, _) \<Rightarrow> m | None \<Rightarrow> own),
           sdk_status = (case net of Some (_, c) \<Rightarrow> c | None \<Rightarrow> st_Unknown st),
           sdk_validNetworkError = (net \<noteq> None),
           sdk_transactionId = (case transactionId of None \<Rightarrow> '''' | Some t \<Rightarrow> t),
           sdk_nodeAccountId = nodeId \<rparr>)"

definition sdk_isInvalidAccountId :: "sdk_status_table \<Rightarrow> sdk_client_error \<Rightarrow> bool" where
  "sdk_isInvalidAccountId st e = (sdk_validNetworkError e \<and> sdk_status e = st_InvalidAccountId st)"

definition sdk_isInvalidContractId :: "sdk_status_table \<Rightarrow> sdk_client_error \<Rightarrow> bool" where
  "sdk_isInvalidContractId st e =
     (sdk_validNetworkError e \<and>
      (sdk_status e = st_InvalidContractId st \<or> str_includes (st_InvalidContractId_name st) (sdk_message e)))"

definition sdk_isContractDeleted :: "sdk_status_table \<Rightarrow> sdk_client_error \<Rightarrow> bool" where
  "sdk_isContractDeleted st e = (sdk_status e = st_ContractDeleted st)"

definition sdk_isInsufficientTxFee :: "sdk_status_table \<Rightarrow> sdk_client_error \<Rightarrow> bool" where
  "sdk_isInsufficientTxFee st e = (sdk_status e = st_InsufficientTxFee st)"

definition sdk_isContractRevertExecuted :: "sdk_status_table \<Rightarrow> sdk_client_error \<Rightarrow> bool" where
  "sdk_isContractRevertExecuted st e = (sdk_status e = st_ContractRevertExecuted st)"

definition sdk_isTimeoutExceeded :: "sdk_status_table \<Rightarrow> sdk_client_error \<Rightarrow> bool" where
  "sdk_isTimeoutExceeded st e =
     (sdk_status e = st_Unknown st \<and> str_includes ''timeout exceeded'' (sdk_message e))"

definition sdk_isConnectionDropped :: "sdk_status_table \<Rightarrow> sdk_client_error \<Rightarrow> bool" where
  "sdk_isConnectionDropped st e =
     (sdk_status e = st_Unknown st \<and> str_includes ''Connection dropped'' (sdk_message e))"

definition sdk_isGrpcTimeout :: "sdk_status_table \<Rightarrow> sdk_client_error \<Rightarrow> bool" where
  "sdk_isGrpcTimeout st e = (sdk_status e = st_InvalidTransactionId st)"

subsection \<open>What the relay's code throws\<close>

datatype thrown =
    ThrownRpc json_rpc_error
  | ThrownSdk sdk_client_error
  | ThrownMirror mirror_node_error
  | ThrownOther string

text \<open>\<open>error?.message?.toString() || 'Unknown error'\<close>.\<close>

fun thrown_message_text :: "thrown \<Rightarrow> string" where
  "thrown_message_text (ThrownRpc e) = err_message e"
| "thrown_message_text (ThrownSdk e) = sdk_message e"
| "thrown_message_text (ThrownMirror e) = mne_message e"
| "thrown_message_text (ThrownOther m) = m"

subsection \<open>Web socket close errors\<close>

record web_socket_error =
  wse_code :: int
  wse_message :: string

definition CONNECTION_IP_LIMIT_EXCEEDED :: web_socket_error where
  "CONNECTION_IP_LIMIT_EXCEEDED =
     \<lparr> wse_code = 4001, wse_message = ''Exceeded maximum connections from a single IP address'' \<rparr>"

definition TTL_EXPIRED :: web_socket_error where
  "TTL_EXPIRED = \<lparr> wse_code = 4002, wse_message = ''Connection timeout expired'' \<rparr>"

definition CONNECTION_LIMIT_EXCEEDED :: web_socket_error where
  "CONNECTION_LIMIT_EXCEEDED = \<lparr> wse_code = 4003, wse_message = ''Connection limit exceeded'' \<rparr>"

subsection \<open>Request ids in messages\<close>

lemma str_includes_prefix: "str_includes p (p @ s)"
proof (cases "p @ s")
  case (Cons a l)
  then have "starts_with p (a # l)" using starts_with_append [of p s] by simp
  with Cons show ?thesis by simp
qed simp

lemma str_includes_append: "str_includes p t \<Longrightarrow> str_includes p (s @ t)"
  by (induction s) auto

lemma newWithRequestId_id:
  assumes "r \<noteq> ''''"
  shows "str_includes REQUEST_ID_STRING (err_message (newWithRequestId e r))"
proof (cases "str_includes REQUEST_ID_STRING (err_message e)")
  case True
  then show ?thesis by (simp add: newWithRequestId_def JsonRpcError_def)
next
  case False
  have "str_includes REQUEST_ID_STRING (''['' @ REQUEST_ID_STRING @ r @ ''] '' @ err_message e)"
    by (intro str_includes_append str_includes_prefix)
  with False assms show ?thesis by (simp add: newWithRequestId_def JsonRpcError_def)
qed

text \<open>
  Attaching a request id changes neither the code nor the data of an error, the message
  then carries a request id, and attaching another one later changes nothing: a message never
  carries two ids.
\<close>

theorem newWithRequestId_once:
  assumes "r \<noteq> ''''"
  shows "newWithRequestId (newWithRequestId e r) r' = newWithRequestId e r \<and>
    err_code (newWithRequestId e r) = err_code e \<and> err_data (newWithRequestId e r) = err_data e \<and>
    str_includes REQUEST_ID_STRING (err_message (newWithRequestId e r))"
proof -
  note inc = newWithRequestId_id [OF assms, of e]
  then have "newWithRequestId (newWithRequestId e r) r' = newWithRequestId e r"
    by (simp add: newWithRequestId_def [of "newWithRequestId e r"] JsonRpcError_def)
  with inc show ?thesis by (simp add: newWithRequestId_def JsonRpcError_def)
qed

theorem newWithRequestId_once_witness:
  "newWithRequestId (newWithRequestId FILTER_NOT_FOUND ''a'') ''b'' = newWithRequestId FILTER_NOT_FOUND ''a''"
  using newWithRequestId_once [of "''a''" FILTER_NOT_FOUND "''b''"] by simp

end
