(* ===== verification/Precheck.thy ===== *)
theory Precheck
  imports JsonRpcErrors
begin

section \<open>Prechecks of a raw transaction\<close>

text \<open>
  Models \<open>packages/relay/src/lib/precheck.ts\<close>: the checks \<open>eth_sendRawTransaction\<close> makes
  before it submits, in the order of \<open>sendRawTransactionCheck\<close>. A transaction is what the
  ethers library parsed; its parser and the mirror node's account lookup are arguments of the
  definitions. The configured limits are fields of \<open>precheck_config\<close>. The text of the
  engine's own TypeErrors is not modelled beyond the word.
\<close>

record eth_tx =
  tx_from :: "string option"
  tx_to :: "string option"
  tx_nonce :: int
  tx_value :: int
  tx_data :: string
  tx_type :: int
  tx_gasLimit :: int
  tx_gasPrice :: "int option"
  tx_maxFeePerGas :: "int option"
  tx_maxPriorityFeePerGas :: "int option"
  tx_chainId :: int
  tx_signature_v :: "int option"
  tx_serialized :: string

text \<open>The account fields the prechecks read; a balance may be missing from the answer.\<close>

record mirror_account =
  ethereum_nonce :: int
  account_balance :: "int option"
  receiver_sig_required :: bool

record precheck_config =
  chain :: string
  MAX_TRANSACTION_FEE_THRESHOLD :: int
  SEND_RAW_TRANSACTION_SIZE_LIMIT :: int
  CALL_DATA_SIZE_LIMIT :: int
  GAS_PRICE_TINY_BAR_BUFFER :: int

definition DETERMINISTIC_DEPLOYER_TRANSACTION :: string where
  "DETERMINISTIC_DEPLOYER_TRANSACTION = ''0xf8a58085174876e800830186a08080b853604580600e600039806000f350fe7fffffffffffffffffffffffffffffffffffffffffffffffffffffffffffffffe03601600081602082378035828234f58015156039578182fd5b8082525050506014600cf31ba02222222222222222222222222222222222222222222222222222222222222222a02222222222222222222222222222222222222222222222222222222222222222''"

definition TX_BASE_COST :: int where "TX_BASE_COST = 21000"
definition TX_DATA_ZERO_COST :: int where "TX_DATA_ZERO_COST = 4"
definition ISTANBUL_TX_DATA_NON_ZERO_COST :: int where "ISTANBUL_TX_DATA_NON_ZERO_COST = 16"

type_synonym check = "thrown + unit"

abbreviation reject :: "json_rpc_error \<Rightarrow> thrown + 'a" where
  "reject e \<equiv> Inl (ThrownRpc e)"

subsection \<open>The single checks\<close>

text \<open>The argument is a text or a transaction that is already parsed; the parser may throw.\<close>

definition parseRawTransaction :: "(string \<Rightarrow> string + eth_tx) \<Rightarrow> string + eth_tx \<Rightarrow> thrown + eth_tx" where
  "parseRawTransaction from_text transaction =
     (case transaction of
        Inl s \<Rightarrow> (case from_text s of Inl msg \<Rightarrow> reject (INVALID_ARGUMENTS msg) | Inr tx \<Rightarrow> Inr tx)
      | Inr tx \<Rightarrow> Inr tx)"

definition value_check :: "eth_tx \<Rightarrow> check" where
  "value_check tx =
     (if (0 < tx_value tx \<and> tx_value tx < TINYBAR_TO_WEIBAR_COEF) \<or> tx_value tx < 0
      then reject VALUE_TOO_LOW else Inr ())"

definition verifyAccount ::
  "(string option \<Rightarrow> thrown + mirror_account option) \<Rightarrow> eth_tx \<Rightarrow> thrown + mirror_account" where
  "verifyAccount getAccount tx =
     and_then (getAccount (tx_from tx)) (\<lambda>accountInfo.
       case accountInfo of
         None \<Rightarrow> reject (RESOURCE_NOT_FOUND (''address '' @
                    squote (case tx_from tx of None \<Rightarrow> ''null'' | Some a \<Rightarrow> a) @ ''.''))
       | Some a \<Rightarrow> Inr a)"

definition nonce_check :: "eth_tx \<Rightarrow> int \<Rightarrow> check" where
  "nonce_check tx accountInfoNonce =
     (if tx_nonce tx < accountInfoNonce then reject (NONCE_TOO_LOW (tx_nonce tx) accountInfoNonce) else Inr ())"

definition isLegacyUnprotectedEtx :: "eth_tx \<Rightarrow> bool" where
  "isLegacyUnprotectedEtx tx =
     (tx_chainId tx = 0 \<and> (tx_signature_v tx = Some 27 \<or> tx_signature_v tx = Some 28))"

definition chainId_check :: "precheck_config \<Rightarrow> eth_tx \<Rightarrow> check" where
  "chainId_check cfg tx =
     (let txChainId = prepend0x (int_to_base 16 (to_number (tx_chainId tx)));
          passes = isLegacyUnprotectedEtx tx \<or> txChainId = chain cfg
      in if passes then Inr () else reject (UNSUPPORTED_CHAIN_ID txChainId (chain cfg)))"

text \<open>
  \<open>BigInt(tx.gasPrice || tx.maxFeePerGas! + tx.maxPriorityFeePerGas!)\<close>: the sum of two nulls
  is 0, the sum of a null and a bigint a TypeError.
\<close>

definition effective_gas_price :: "eth_tx \<Rightarrow> thrown + int" where
  "effective_gas_price tx =
     (case tx_gasPrice tx of
        Some p \<Rightarrow> if p \<noteq> 0 then Inr p
                  else (case (tx_maxFeePerGas tx, tx_maxPriorityFeePerGas tx) of
                          (Some a, Some b) \<Rightarrow> Inr (a + b)
                        | (None, None) \<Rightarrow> Inr 0
                        | _ \<Rightarrow> Inl (ThrownOther ''TypeError''))
      | None \<Rightarrow> (case (tx_maxFeePerGas tx, tx_maxPriorityFeePerGas tx) of
                   (Some a, Some b) \<Rightarrow> Inr (a + b)
                 | (None, None) \<Rightarrow> Inr 0
                 | _ \<Rightarrow> Inl (ThrownOther ''TypeError'')))"

definition isDeterministicDeploymentTransaction :: "eth_tx \<Rightarrow> bool" where
  "isDeterministicDeploymentTransaction tx = (tx_serialized tx = DETERMINISTIC_DEPLOYER_TRANSACTION)"

definition gasPrice_check :: "precheck_config \<Rightarrow> eth_tx \<Rightarrow> int \<Rightarrow> check" where
  "gasPrice_check cfg tx networkGasPrice =
     and_then (effective_gas_price tx) (\<lambda>txGasPrice.
       let passes = networkGasPrice \<le> txGasPrice \<or> isDeterministicDeploymentTransaction tx in
       if passes then Inr ()
       else if GAS_PRICE_TINY_BAR_BUFFER cfg \<noteq> 0 \<and>
               networkGasPrice \<le> txGasPrice + GAS_PRICE_TINY_BAR_BUFFER cfg then Inr ()
       else reject (GAS_PRICE_TOO_LOW txGasPrice networkGasPrice))"

definition balance_check :: "eth_tx \<Rightarrow> mirror_account option \<Rightarrow> check" where
  "balance_check tx account =
     and_then (effective_gas_price tx) (\<lambda>txGasPrice.
       let txTotalValue = tx_value tx + txGasPrice * tx_gasLimit tx in
       case account of
         None \<Rightarrow> reject (RESOURCE_NOT_FOUND (''tx.from '' @
                    squote (case tx_from tx of None \<Rightarrow> ''null'' | Some a \<Rightarrow> a) @ ''.''))
       | Some acc \<Rightarrow>
           (case account_balance acc of
              None \<Rightarrow> reject (INTERNAL_ERROR (''balance precheck: '' @ ''TypeError''))
            | Some b \<Rightarrow>
                if txTotalValue \<le> b * TINYBAR_TO_WEIBAR_COEF then Inr ()
                else reject INSUFFICIENT_ACCOUNT_BALANCE))"

text \<open>The loop over the data, two characters at a time; a last single character is no \<open>'00'\<close>.\<close>

fun count_bytes :: "string \<Rightarrow> int \<Rightarrow> int \<Rightarrow> int \<times> int" where
  "count_bytes [] zeros nonZeros = (zeros, nonZeros)"
| "count_bytes [a] zeros nonZeros = (zeros, nonZeros + 1)"
| "count_bytes (a # b # rest) zeros nonZeros =
     (if [a, b] = ''00'' then count_bytes rest (zeros + 1) nonZeros
      else count_bytes rest zeros (nonZeros + 1))"

definition transactionIntrinsicGasCost :: "string \<Rightarrow> int" where
  "transactionIntrinsicGasCost data =
     (let trimmedData = replace_first ''0x'' '''' data;
          (zeros, nonZeros) = count_bytes trimmedData 0 0
      in TX_BASE_COST + TX_DATA_ZERO_COST * zeros + ISTANBUL_TX_DATA_NON_ZERO_COST * nonZeros)"

definition gasLimit_check :: "precheck_config \<Rightarrow> eth_tx \<Rightarrow> check" where
  "gasLimit_check cfg tx =
     (let gasLimit = to_number (tx_gasLimit tx);
          intrinsicGasCost = transactionIntrinsicGasCost (tx_data tx)
      in if MAX_TRANSACTION_FEE_THRESHOLD cfg < gasLimit then
           reject (GAS_LIMIT_TOO_HIGH gasLimit (MAX_TRANSACTION_FEE_THRESHOLD cfg))
         else if gasLimit < intrinsicGasCost then reject (GAS_LIMIT_TOO_LOW gasLimit intrinsicGasCost)
         else Inr ())"

text \<open>A length halved, as the message shows it.\<close>

definition half_text :: "nat \<Rightarrow> string" where
  "half_text n = show_int (int (n div 2)) @ (if odd n then ''.5'' else '''')"

definition transactionSize_check :: "precheck_config \<Rightarrow> eth_tx \<Rightarrow> check" where
  "transactionSize_check cfg tx =
     (let n = length (replace_first ''0x'' '''' (tx_serialized tx));
          limit = SEND_RAW_TRANSACTION_SIZE_LIMIT cfg
      in if 2 * limit < int n then reject (TRANSACTION_SIZE_LIMIT_EXCEEDED (half_text n) limit) else Inr ())"

definition callDataSize_check :: "precheck_config \<Rightarrow> eth_tx \<Rightarrow> check" where
  "callDataSize_check cfg tx =
     (let n = length (replace_first ''0x'' '''' (tx_data tx));
          limit = CALL_DATA_SIZE_LIMIT cfg
      in if 2 * limit < int n then reject (CALL_DATA_SIZE_LIMIT_EXCEEDED (half_text n) limit) else Inr ())"

definition transactionType_check :: "eth_tx \<Rightarrow> check" where
  "transactionType_check tx = (if tx_type tx = 3 then reject UNSUPPORTED_TRANSACTION_TYPE else Inr ())"

definition receiverAccount_check ::
  "(string option \<Rightarrow> thrown + mirror_account option) \<Rightarrow> eth_tx \<Rightarrow> check" where
  "receiverAccount_check getAccount tx =
     (case tx_to tx of
        None \<Rightarrow> Inr ()
      | Some to \<Rightarrow>
          if to = '''' then Inr ()
          else and_then (getAccount (Some to)) (\<lambda>acc.
            case acc of
              None \<Rightarrow> Inr ()
            | Some a \<Rightarrow> if receiver_sig_required a then reject RECEIVER_SIGNATURE_ENABLED else Inr ()))"

definition sendRawTransactionCheck ::
  "precheck_config \<Rightarrow> (string option \<Rightarrow> thrown + mirror_account option) \<Rightarrow> eth_tx \<Rightarrow> int \<Rightarrow> check" where
  "sendRawTransactionCheck cfg getAccount parsedTx networkGasPriceInWeiBars =
     and_then (callDataSize_check cfg parsedTx) (\<lambda>_.
     and_then (transactionSize_check cfg parsedTx) (\<lambda>_.
     and_then (transactionType_check parsedTx) (\<lambda>_.
     and_then (gasLimit_check cfg parsedTx) (\<lambda>_.
     and_then (verifyAccount getAccount parsedTx) (\<lambda>mirrorAccountInfo.
     and_then (nonce_check parsedTx (ethereum_nonce mirrorAccountInfo)) (\<lambda>_.
     and_then (chainId_check cfg parsedTx) (\<lambda>_.
     and_then (value_check parsedTx) (\<lambda>_.
     and_then (gasPrice_check cfg parsedTx networkGasPriceInWeiBars) (\<lambda>_.
     and_then (balance_check parsedTx (Some mirrorAccountInfo)) (\<lambda>_.
     receiverAccount_check getAccount parsedTx))))))))))"

subsection \<open>Intrinsic gas\<close>

lemma digit_char_zero_iff: "d < 16 \<Longrightarrow> digit_char d = CHR ''0'' \<longleftrightarrow> d = 0"
proof
  assume "d < 16" and "digit_char d = CHR ''0''"
  then have "Some d = digit_val (CHR ''0'')" by (metis digit_val_digit_char)
  then show "d = 0" by (simp add: digit_val_def)
qed (simp add: digit_char_eval)

lemma byte_hex_zero: "b < 256 \<Longrightarrow> byte_hex b = ''00'' \<longleftrightarrow> b = 0"
  by (auto simp: byte_hex_def digit_char_zero_iff less_mult_imp_div_less)

lemma count_bytes_toHexString:
  "\<forall>b \<in> set bs. b < 256 \<Longrightarrow>
   count_bytes (toHexString bs) z n =
     (z + int (count_list bs 0), n + int (length bs) - int (count_list bs 0))"
proof (induction bs arbitrary: z n)
  case (Cons b bs)
  have "count_bytes (toHexString (b # bs)) z n =
      (if byte_hex b = ''00'' then count_bytes (toHexString bs) (z + 1) n
       else count_bytes (toHexString bs) z (n + 1))"
    by (simp add: toHexString_def byte_hex_def)
  with Cons show ?case by (simp add: byte_hex_zero)
qed (simp add: toHexString_def)

lemma replace_first_hex_mark: "replace_first ''0x'' '''' (''0x'' @ s) = s"
  by (simp add: starts_with_Cons)

text \<open>
  The intrinsic gas of the data of a transaction is 21000, 4 for each zero byte and 16 for
  each other byte of the data.
\<close>

theorem transactionIntrinsicGasCost_bytes:
  assumes "\<forall>b \<in> set bs. b < 256"
  shows "transactionIntrinsicGasCost (''0x'' @ toHexString bs) =
    21000 + 4 * int (count_list bs 0) + 16 * (int (length bs) - int (count_list bs 0))"
  using count_bytes_toHexString [OF assms, of 0 0] replace_first_hex_mark [of "toHexString bs"]
  by (simp add: transactionIntrinsicGasCost_def TX_BASE_COST_def TX_DATA_ZERO_COST_def
      ISTANBUL_TX_DATA_NON_ZERO_COST_def)

theorem transactionIntrinsicGasCost_bytes_witness:
  "transactionIntrinsicGasCost (''0x'' @ toHexString [0, 18, 255]) = 21036"
  using transactionIntrinsicGasCost_bytes [of "[0, 18, 255]"] by simp

subsection \<open>The whole check\<close>

lemma gasLimit_check_ok:
  assumes "0 \<le> tx_gasLimit tx" and "MAX_TRANSACTION_FEE_THRESHOLD cfg < 2 ^ 53"
  shows "gasLimit_check cfg tx = Inr () \<longleftrightarrow>
    transactionIntrinsicGasCost (tx_data tx) \<le> tx_gasLimit tx \<and>
    tx_gasLimit tx \<le> MAX_TRANSACTION_FEE_THRESHOLD cfg"
proof (cases "tx_gasLimit tx < 2 ^ 53")
  case True
  then have "to_number (tx_gasLimit tx) = tx_gasLimit tx"
    using assms(1) by (intro to_number_exact) simp
  then show ?thesis by (auto simp: gasLimit_check_def Let_def)
next
  case False
  then have "\<not> to_number (tx_gasLimit tx) < 2 ^ 53" using to_number_safe assms(1) by blast
  with assms False show ?thesis by (auto simp: gasLimit_check_def Let_def)
qed

text \<open>When each check passes.\<close>

lemma size_checks_ok:
  "callDataSize_check cfg tx = Inr () \<longleftrightarrow>
     int (length (replace_first ''0x'' '''' (tx_data tx))) \<le> 2 * CALL_DATA_SIZE_LIMIT cfg"
  "transactionSize_check cfg tx = Inr () \<longleftrightarrow>
     int (length (replace_first ''0x'' '''' (tx_serialized tx))) \<le> 2 * SEND_RAW_TRANSACTION_SIZE_LIMIT cfg"
  "transactionType_check tx = Inr () \<longleftrightarrow> tx_type tx \<noteq> 3"
  by (auto simp: callDataSize_check_def transactionSize_check_def transactionType_check_def Let_def)

lemma account_checks_ok:
  "verifyAccount getAccount tx = Inr acc \<longleftrightarrow> getAccount (tx_from tx) = Inr (Some acc)"
  "nonce_check tx n = Inr () \<longleftrightarrow> n \<le> tx_nonce tx"
  "balance_check tx (Some acc) = Inr () \<longleftrightarrow> (\<exists>price b. effective_gas_price tx = Inr price \<and>
     account_balance acc = Some b \<and> tx_value tx + price * tx_gasLimit tx \<le> b * 10 ^ 10)"
  by (auto simp: verifyAccount_def nonce_check_def balance_check_def Let_def TINYBAR_TO_WEIBAR_COEF_def and_then_Inr_iff
      split: option.splits if_splits)

lemma gasPrice_check_ok:
  "gasPrice_check cfg tx networkPrice = Inr () \<longleftrightarrow> (\<exists>price. effective_gas_price tx = Inr price \<and>
     (networkPrice \<le> price \<or> isDeterministicDeploymentTransaction tx \<or>
      (GAS_PRICE_TINY_BAR_BUFFER cfg \<noteq> 0 \<and> networkPrice \<le> price + GAS_PRICE_TINY_BAR_BUFFER cfg)))"
  by (auto simp: gasPrice_check_def Let_def and_then_Inr_iff)

lemma chain_and_value_checks_ok:
  "chainId_check cfg tx = Inr () \<longleftrightarrow> isLegacyUnprotectedEtx tx \<or>
     prepend0x (int_to_base 16 (to_number (tx_chainId tx))) = chain cfg"
  "value_check tx = Inr () \<longleftrightarrow> tx_value tx = 0 \<or> 10 ^ 10 \<le> tx_value tx"
  by (auto simp: chainId_check_def value_check_def Let_def TINYBAR_TO_WEIBAR_COEF_def)

lemma receiverAccount_check_ok:
  "receiverAccount_check getAccount tx = Inr () \<longleftrightarrow> (case tx_to tx of None \<Rightarrow> True
     | Some to \<Rightarrow> to = '''' \<or> getAccount (Some to) = Inr None \<or>
                  (\<exists>r. getAccount (Some to) = Inr (Some r) \<and> \<not> receiver_sig_required r))"
  by (auto simp: receiverAccount_check_def and_then_Inr_iff split: option.splits if_splits)

lemmas checks_ok =
  size_checks_ok account_checks_ok gasPrice_check_ok chain_and_value_checks_ok receiverAccount_check_ok

text \<open>
  C3. A transaction passes the prechecks exactly when: call data and transaction are within the
  size limits, it is no blob transaction, its gas limit lies between the intrinsic gas and the
  threshold (compared exactly, although the code compares JavaScript numbers), it names a gas price, the
  sender is known and its nonce not above the transaction's, the chain id is the relay's or the
  transaction is legacy, its value is 0 or at least a tinybar, it pays the network's gas price less the
  buffer or is the deterministic deployment, the sender can pay value and gas, and the receiver, where
  there is one, is unknown or needs no signature. A transaction that creates a contract has no receiver.
\<close>

theorem sendRawTransactionCheck_iff:
  assumes "0 \<le> tx_gasLimit tx" and "MAX_TRANSACTION_FEE_THRESHOLD cfg < 2 ^ 53"
  shows "sendRawTransactionCheck cfg getAccount tx networkPrice = Inr () \<longleftrightarrow>
    int (length (replace_first ''0x'' '''' (tx_data tx))) \<le> 2 * CALL_DATA_SIZE_LIMIT cfg \<and>
    int (length (replace_first ''0x'' '''' (tx_serialized tx))) \<le> 2 * SEND_RAW_TRANSACTION_SIZE_LIMIT cfg \<and>
    tx_type tx \<noteq> 3 \<and>
    transactionIntrinsicGasCost (tx_data tx) \<le> tx_gasLimit tx \<and>
    tx_gasLimit tx \<le> MAX_TRANSACTION_FEE_THRESHOLD cfg \<and>
    (\<exists>price. effective_gas_price tx = Inr price \<and>
       (\<exists>acc b. getAccount (tx_from tx) = Inr (Some acc) \<and> ethereum_nonce acc \<le> tx_nonce tx \<and>
          account_balance acc = Some b \<and> tx_value tx + price * tx_gasLimit tx \<le> b * 10 ^ 10) \<and>
       (networkPrice \<le> price \<or> isDeterministicDeploymentTransaction tx \<or>
        (GAS_PRICE_TINY_BAR_BUFFER cfg \<noteq> 0 \<and> networkPrice \<le> price + GAS_PRICE_TINY_BAR_BUFFER cfg))) \<and>
    (isLegacyUnprotectedEtx tx \<or> prepend0x (int_to_base 16 (to_number (tx_chainId tx))) = chain cfg) \<and>
    (tx_value tx = 0 \<or> 10 ^ 10 \<le> tx_value tx) \<and>
    (case tx_to tx of None \<Rightarrow> True
     | Some to \<Rightarrow> to = '''' \<or> getAccount (Some to) = Inr None \<or>
                  (\<exists>r. getAccount (Some to) = Inr (Some r) \<and> \<not> receiver_sig_required r))"
  by (auto simp: sendRawTransactionCheck_def and_then_Inr_iff checks_ok gasLimit_check_ok [OF assms])

definition sample_tx :: eth_tx where
  "sample_tx =
     \<lparr> tx_from = Some ''0xa'', tx_to = Some ''0xb'', tx_nonce = 3, tx_value = 20000000000, tx_data = ''0x00ff'',
       tx_type = 2, tx_gasLimit = 30000, tx_gasPrice = None, tx_maxFeePerGas = Some 1000,
       tx_maxPriorityFeePerGas = Some 10, tx_chainId = 298, tx_signature_v = Some 27, tx_serialized = ''0x02'' \<rparr>"

definition sample_precheck_config :: precheck_config where
  "sample_precheck_config =
     \<lparr> chain = ''0x12a'', MAX_TRANSACTION_FEE_THRESHOLD = 15000000, SEND_RAW_TRANSACTION_SIZE_LIMIT = 131072,
       CALL_DATA_SIZE_LIMIT = 131072, GAS_PRICE_TINY_BAR_BUFFER = 0 \<rparr>"

definition sample_account :: mirror_account where
  "sample_account = \<lparr> ethereum_nonce = 2, account_balance = Some 100, receiver_sig_required = False \<rparr>"

theorem sendRawTransactionCheck_iff_witness:
  "sendRawTransactionCheck sample_precheck_config (\<lambda>a. Inr (if a = Some ''0xa'' then Some sample_account else None))
     sample_tx 1010 = Inr () \<and>
   sendRawTransactionCheck sample_precheck_config (\<lambda>a. if a = Some ''0xa'' then Inr (Some sample_account) else Inl (ThrownOther ''down''))
     (sample_tx\<lparr> tx_to := None \<rparr>) 1010 = Inr ()"
proof -
  note simps = sample_tx_def sample_precheck_config_def sample_account_def effective_gas_price_def
      transactionIntrinsicGasCost_def starts_with_Cons TX_BASE_COST_def TX_DATA_ZERO_COST_def
      ISTANBUL_TX_DATA_NON_ZERO_COST_def to_number_exact int_to_base_def to_base.simps digit_char_eval
      prepend0x_def EMPTY_HEX_def isLegacyUnprotectedEtx_def
  have "sendRawTransactionCheck sample_precheck_config (\<lambda>a. Inr (if a = Some ''0xa'' then Some sample_account else None))
     sample_tx 1010 = Inr ()"
    using sendRawTransactionCheck_iff [of sample_tx sample_precheck_config
        "\<lambda>a. Inr (if a = Some ''0xa'' then Some sample_account else None)" 1010] by (simp add: simps)
  moreover have "sendRawTransactionCheck sample_precheck_config
     (\<lambda>a. if a = Some ''0xa'' then Inr (Some sample_account) else Inl (ThrownOther ''down''))
     (sample_tx\<lparr> tx_to := None \<rparr>) 1010 = Inr ()"
    using sendRawTransactionCheck_iff [of "sample_tx\<lparr> tx_to := None \<rparr>" sample_precheck_config
        "\<lambda>a. if a = Some ''0xa'' then Inr (Some sample_account) else Inl (ThrownOther ''down'')" 1010] by (simp add: simps)
  ultimately show ?thesis by blast
qed

end
