(* ===== verification/JsonValues.thy ===== *)
theory JsonValues
  imports JsCore
begin

section \<open>JSON values and the JavaScript operations on them\<close>

text \<open>
  The \<open>any\<close> of the relay's code: what \<open>JSON.parse\<close> gives, and \<open>undefined\<close>. Numbers are
  integers. An object is the list of its own enumerable properties in insertion order. The
  operations are those the code applies: property access, \<open>Object.keys\<close>, \<open>typeof\<close>, truth
  value, conversion to a string and \<open>JSON.stringify\<close>.
\<close>

datatype jsv =
    JUndef
  | JNull
  | JBool bool
  | JNum int
  | JStr string
  | JArr "jsv list"
  | JObj "(string \<times> jsv) list"

fun truthy :: "jsv \<Rightarrow> bool" where
  "truthy JUndef = False"
| "truthy JNull = False"
| "truthy (JBool b) = b"
| "truthy (JNum n) = (n \<noteq> 0)"
| "truthy (JStr s) = (s \<noteq> '''')"
| "truthy (JArr _) = True"
| "truthy (JObj _) = True"

fun js_typeof :: "jsv \<Rightarrow> string" where
  "js_typeof JUndef = ''undefined''"
| "js_typeof JNull = ''object''"
| "js_typeof (JBool _) = ''boolean''"
| "js_typeof (JNum _) = ''number''"
| "js_typeof (JStr _) = ''string''"
| "js_typeof (JArr _) = ''object''"
| "js_typeof (JObj _) = ''object''"

fun is_array :: "jsv \<Rightarrow> bool" where
  "is_array (JArr _) = True"
| "is_array _ = False"

text \<open>\<open>Object.prototype.toString.call(v) === '[object Object]'\<close>.\<close>

fun is_plain_object :: "jsv \<Rightarrow> bool" where
  "is_plain_object (JObj _) = True"
| "is_plain_object _ = False"

definition prop_lookup :: "(string \<times> jsv) list \<Rightarrow> string \<Rightarrow> jsv" where
  "prop_lookup ps k = (case map_of ps k of None \<Rightarrow> JUndef | Some v \<Rightarrow> v)"

text \<open>
  \<open>v[k]\<close> for a name \<open>k\<close> that is not a member of a prototype; \<open>None\<close> is the TypeError of
  \<open>null\<close> and \<open>undefined\<close>.
\<close>

fun js_get :: "jsv \<Rightarrow> string \<Rightarrow> jsv option" where
  "js_get JUndef k = None"
| "js_get JNull k = None"
| "js_get (JObj ps) k = Some (prop_lookup ps k)"
| "js_get _ k = Some JUndef"

definition js_prop :: "jsv \<Rightarrow> string \<Rightarrow> jsv" where
  "js_prop v k = (case js_get v k of None \<Rightarrow> JUndef | Some x \<Rightarrow> x)"

fun has_own :: "jsv \<Rightarrow> string \<Rightarrow> bool" where
  "has_own (JObj ps) k = (k \<in> set (map fst ps))"
| "has_own _ k = False"

fun js_keys :: "jsv \<Rightarrow> string list" where
  "js_keys (JObj ps) = map fst ps"
| "js_keys (JArr xs) = map (\<lambda>i. show_int (int i)) [0..<length xs]"
| "js_keys (JStr s) = map (\<lambda>i. show_int (int i)) [0..<length s]"
| "js_keys _ = []"

fun js_set_prop :: "jsv \<Rightarrow> string \<Rightarrow> jsv \<Rightarrow> jsv" where
  "js_set_prop (JObj ps) k v =
     (if k \<in> set (map fst ps) then JObj (map (\<lambda>(k', v'). if k' = k then (k', v) else (k', v')) ps)
      else JObj (ps @ [(k, v)]))"
| "js_set_prop x k v = x"

fun js_delete_prop :: "jsv \<Rightarrow> string \<Rightarrow> jsv" where
  "js_delete_prop (JObj ps) k = JObj (filter (\<lambda>p. fst p \<noteq> k) ps)"
| "js_delete_prop x k = x"

fun intercalate :: "string \<Rightarrow> string list \<Rightarrow> string" where
  "intercalate sep [] = ''''"
| "intercalate sep [s] = s"
| "intercalate sep (s # t # ss) = s @ sep @ intercalate sep (t # ss)"

text \<open>\<open>String(v)\<close>: an array is its elements joined by commas, \<open>null\<close> and \<open>undefined\<close> empty.\<close>

fun js_to_string :: "jsv \<Rightarrow> string" where
  "js_to_string JUndef = ''undefined''"
| "js_to_string JNull = ''null''"
| "js_to_string (JBool b) = (if b then ''true'' else ''false'')"
| "js_to_string (JNum n) = show_int n"
| "js_to_string (JStr s) = s"
| "js_to_string (JArr xs) =
     intercalate '','' (map (\<lambda>x. case x of JUndef \<Rightarrow> '''' | JNull \<Rightarrow> '''' | _ \<Rightarrow> js_to_string x) xs)"
| "js_to_string (JObj ps) = ''[object Object]''"

definition json_escape_char :: "char \<Rightarrow> string" where
  "json_escape_char c =
     (let n = (of_char c :: nat) in
      if n = 34 then [CHR 92, c]
      else if n = 92 then [CHR 92, c]
      else if n = 8 then [CHR 92, CHR ''b'']
      else if n = 12 then [CHR 92, CHR ''f'']
      else if n = 10 then [CHR 92, CHR ''n'']
      else if n = 13 then [CHR 92, CHR ''r'']
      else if n = 9 then [CHR 92, CHR ''t'']
      else if n < 32 then [CHR 92, CHR ''u'', CHR ''0'', CHR ''0'', digit_char (n div 16), digit_char (n mod 16)]
      else [c])"

definition json_quote :: "string \<Rightarrow> string" where
  "json_quote s = [CHR 34] @ concat (map json_escape_char s) @ [CHR 34]"

fun json_stringify :: "jsv \<Rightarrow> string" where
  "json_stringify JUndef = ''undefined''"
| "json_stringify JNull = ''null''"
| "json_stringify (JBool b) = (if b then ''true'' else ''false'')"
| "json_stringify (JNum n) = show_int n"
| "json_stringify (JStr s) = json_quote s"
| "json_stringify (JArr xs) =
     ''['' @ intercalate '','' (map (\<lambda>x. if x = JUndef then ''null'' else json_stringify x) xs) @ '']''"
| "json_stringify (JObj ps) =
     ''{'' @ intercalate '',''
       (map (\<lambda>p. json_quote (fst p) @ '':'' @ json_stringify (snd p)) (filter (\<lambda>p. snd p \<noteq> JUndef) ps)) @ ''}''"

text \<open>\<open>JSON.parse(JSON.stringify(v))\<close>.\<close>

fun json_copy :: "jsv \<Rightarrow> jsv" where
  "json_copy (JArr xs) = JArr (map (\<lambda>x. if x = JUndef then JNull else json_copy x) xs)"
| "json_copy (JObj ps) = JObj (map (\<lambda>p. (fst p, json_copy (snd p))) (filter (\<lambda>p. snd p \<noteq> JUndef) ps))"
| "json_copy v = v"

subsection \<open>Property access\<close>

lemma prop_lookup_Nil [simp]: "prop_lookup [] k = JUndef"
  by (simp add: prop_lookup_def)

lemma prop_lookup_Cons [simp]: "prop_lookup ((k', v) # ps) k = (if k' = k then v else prop_lookup ps k)"
  by (simp add: prop_lookup_def)

lemma prop_lookup_filter: "prop_lookup (filter (\<lambda>p. P (fst p)) ps) k = (if P k then prop_lookup ps k else JUndef)"
  by (induction ps) auto

lemma prop_lookup_own: "prop_lookup ps k \<noteq> JUndef \<Longrightarrow> k \<in> fst ` set ps"
  by (induction ps) (auto split: if_splits)

lemma js_prop_JObj [simp]: "js_prop (JObj ps) k = prop_lookup ps k"
  by (simp add: js_prop_def)

lemma js_prop_set_same: "is_plain_object v \<Longrightarrow> js_prop (js_set_prop v k x) k = x"
proof (cases v)
  case (JObj ps)
  have "k \<in> fst ` set ps \<Longrightarrow>
      prop_lookup (map (\<lambda>(k', v'). if k' = k then (k', x) else (k', v')) ps) k = x"
    by (induction ps) (auto simp: image_iff, force)
  moreover have "k \<notin> fst ` set ps \<Longrightarrow> prop_lookup (ps @ [(k, x)]) k = x"
    by (induction ps) auto
  ultimately show ?thesis by (simp add: JObj)
qed auto

lemma js_prop_set_other: "k' \<noteq> k \<Longrightarrow> js_prop (js_set_prop v k x) k' = js_prop v k'"
proof (cases v)
  case (JObj ps)
  assume ne: "k' \<noteq> k"
  have "prop_lookup (map (\<lambda>(a, b). if a = k then (a, x) else (a, b)) ps) k' = prop_lookup ps k'"
    using ne by (induction ps) auto
  moreover have "prop_lookup (ps @ [(k, x)]) k' = prop_lookup ps k'"
    using ne by (induction ps) auto
  ultimately show ?thesis by (simp add: JObj)
qed (auto simp: js_prop_def)

lemma has_own_set_prop: "is_plain_object v \<Longrightarrow> has_own (js_set_prop v k x) k' \<longleftrightarrow> has_own v k' \<or> k' = k"
  by (cases v) force+

subsection \<open>The text of a string ends where it should\<close>

text \<open>
  \<open>unescape_first\<close> reads back one escaped character, so that the text of a string can be told from
  what follows it.
\<close>

definition unescape_first :: "string \<Rightarrow> char \<times> string" where
  "unescape_first s =
     (let c = hd s; d = s ! 1; n = (of_char d :: nat)
      in if (of_char c :: nat) \<noteq> 92 then (c, tl s)
         else if n = 34 \<or> n = 92 then (d, drop 2 s)
         else if n = 98 then (char_of (8 :: nat), drop 2 s)
         else if n = 102 then (char_of (12 :: nat), drop 2 s)
         else if n = 110 then (char_of (10 :: nat), drop 2 s)
         else if n = 114 then (char_of (13 :: nat), drop 2 s)
         else if n = 116 then (char_of (9 :: nat), drop 2 s)
         else (char_of (16 * the (digit_val (s ! 4)) + the (digit_val (s ! 5))), drop 6 s))"



lemma unescape_escape: "unescape_first (json_escape_char c @ x) = (c, x)"
proof -
  obtain n :: nat where c: "c = char_of n" and n: "n < 256"
    by (metis char_of_char nat_of_char_less_256)
  have oc: "(of_char (char_of n :: char) :: nat) = n" using n by simp
  consider "n \<in> {34, 92, 8, 12, 10, 13, 9}"
    | "n < 32" "n \<notin> {8, 9, 10, 12, 13}" | "32 \<le> n" "n \<noteq> 34" "n \<noteq> 92" by fastforce
  then show ?thesis
  proof cases
    case 1
    then show ?thesis unfolding c
      by (elim insertE emptyE) (simp_all add: json_escape_char_def unescape_first_def Let_def)
  next
    case 2
    then have "json_escape_char c =
        [CHR 92, CHR ''u'', CHR ''0'', CHR ''0'', digit_char (n div 16), digit_char (n mod 16)]"
      unfolding c json_escape_char_def oc Let_def by simp
    moreover have "digit_val (digit_char (n div 16)) = Some (n div 16)"
      "digit_val (digit_char (n mod 16)) = Some (n mod 16)"
      using 2 by (auto intro: digit_val_digit_char)
    ultimately show ?thesis by (simp add: unescape_first_def Let_def c)
  next
    case 3
    then have "json_escape_char c = [c]" unfolding c json_escape_char_def oc Let_def by simp
    with 3 oc show ?thesis by (simp add: unescape_first_def Let_def c)
  qed
qed

lemma escape_no_quote: "json_escape_char c @ x \<noteq> CHR 34 # y"
proof
  assume eq: "json_escape_char c @ x = CHR 34 # y"
  then have "json_escape_char c \<noteq> [] \<and> hd (json_escape_char c) = CHR 34"
    by (cases "json_escape_char c") (auto simp: json_escape_char_def Let_def split: if_splits)
  then show False by (auto simp: json_escape_char_def Let_def split: if_splits)
qed

lemma json_quote_prefix:
  assumes "json_quote a @ x = json_quote b @ y"
  shows "a = b \<and> x = y"
proof -
  have "concat (map json_escape_char a) @ CHR 34 # x = concat (map json_escape_char b) @ CHR 34 # y"
    using assms by (simp add: json_quote_def)
  then show ?thesis
  proof (induction a arbitrary: b)
    case Nil
    show ?case
    proof (cases b)
      case (Cons d b')
      with Nil have "json_escape_char d @ (concat (map json_escape_char b') @ CHR 34 # y) = CHR 34 # x" by simp
      then show ?thesis using escape_no_quote by blast
    qed (use Nil in simp)
  next
    case (Cons c a)
    show ?case
    proof (cases b)
      case Nil
      with Cons.prems have "json_escape_char c @ (concat (map json_escape_char a) @ CHR 34 # x) = CHR 34 # y" by simp
      then show ?thesis using escape_no_quote by blast
    next
      case (Cons d b')
      with Cons.prems have eq: "json_escape_char c @ concat (map json_escape_char a) @ CHR 34 # x =
          json_escape_char d @ concat (map json_escape_char b') @ CHR 34 # y" by simp
      from arg_cong [OF eq, of unescape_first] Cons.IH [of b'] Cons show ?thesis
        by (simp add: unescape_escape)
    qed
  qed
qed

end
