(* ===== verification/Validators.thy ===== *)
theory Validators
  imports JsonRpcErrors JsonValues
begin

section \<open>Validation of RPC parameters\<close>

text \<open>
  Models \<open>packages/relay/src/lib/validators\<close>: the table \<open>TYPES\<close> of parameter types with
  their tests and messages, the schemas \<open>OBJECTS_VALIDATIONS\<close> of object parameters,
  \<open>validateObject\<close>, \<open>validateParam\<close> and \<open>validateParams\<close>. A test of the code may throw,
  so it returns \<open>thrown + bool\<close>; validating a transaction object also deletes its unknown
  properties, so it returns the object as well.

  The tests refer to each other through object schemas, whose properties have simpler types,
  so they are defined in layers: \<open>basic_test\<close> for the types whose test looks at the value
  alone, then \<open>object_test\<close>, which validates objects with basic properties, then
  \<open>type_test\<close> with the tracer configurations. A regular expression is tested against the
  string its argument converts to, as \<open>RegExp.prototype.test\<close> does.
\<close>

subsection \<open>Messages of \<open>constants.ts\<close>\<close>

definition DEFAULT_HEX_ERROR :: string where
  "DEFAULT_HEX_ERROR = ''Expected 0x prefixed hexadecimal value''"

definition EVEN_HEX_ERROR :: string where
  "EVEN_HEX_ERROR = DEFAULT_HEX_ERROR @ '' with even length''"

definition HASH_ERROR :: string where
  "HASH_ERROR = ''Expected 0x prefixed string representing the hash (32 bytes)''"

definition ADDRESS_ERROR :: string where
  "ADDRESS_ERROR = ''Expected 0x prefixed string representing the address (20 bytes)''"

definition dquote :: "string \<Rightarrow> string" where
  "dquote s = [CHR 34] @ s @ [CHR 34]"

definition BLOCK_TAGS_TEXT :: string where
  "BLOCK_TAGS_TEXT = ''0x prefixed hexadecimal block number, or the string '' @ dquote ''latest'' @ '', '' @
     dquote ''earliest'' @ '' or '' @ dquote ''pending''"

definition BLOCK_NUMBER_ERROR :: string where
  "BLOCK_NUMBER_ERROR = ''Expected '' @ BLOCK_TAGS_TEXT"

definition BLOCK_PARAMS_ERROR :: string where
  "BLOCK_PARAMS_ERROR = ''Expected '' @ HASH_ERROR @ '' in object, '' @ BLOCK_TAGS_TEXT"

definition BLOCK_HASH_ERROR :: string where
  "BLOCK_HASH_ERROR = ''Expected '' @ HASH_ERROR @ '' of a block''"

definition TRANSACTION_HASH_ERROR :: string where
  "TRANSACTION_HASH_ERROR = ''Expected '' @ HASH_ERROR @ '' of a transaction''"

definition TRANSACTION_ID_ERROR :: string where
  "TRANSACTION_ID_ERROR = ''Expected a transaction ID string in the format '' @
     dquote ''shard.realm.num-sss-nnn'' @ '' where sss are seconds and nnn are nanoseconds''"

definition TOPIC_HASH_ERROR :: string where
  "TOPIC_HASH_ERROR = ''Expected '' @ HASH_ERROR @ '' of a topic''"

subsection \<open>The types\<close>

datatype ptype =
    TyAddress | TyAddressFilter | TyArray | TyBlockHash | TyBlockNumber | TyBoolean | TyBlockParams
  | TyFilter | TyHex | TyHexEvenLength | TyHex64 | TyTopicHash | TyTopics | TyTransaction
  | TyTransactionHash | TyTransactionId | TyTracerType | TyCallTracerConfig | TyOpcodeLoggerConfig
  | TyTracerConfig | TyTracerConfigWrapper

definition type_table :: "(string \<times> ptype) list" where
  "type_table =
     [(''address'', TyAddress), (''addressFilter'', TyAddressFilter), (''array'', TyArray),
      (''blockHash'', TyBlockHash), (''blockNumber'', TyBlockNumber), (''boolean'', TyBoolean),
      (''blockParams'', TyBlockParams), (''filter'', TyFilter), (''hex'', TyHex),
      (''hexEvenLength'', TyHexEvenLength), (''hex64'', TyHex64), (''topicHash'', TyTopicHash),
      (''topics'', TyTopics), (''transaction'', TyTransaction), (''transactionHash'', TyTransactionHash),
      (''transactionId'', TyTransactionId), (''tracerType'', TyTracerType),
      (''callTracerConfig'', TyCallTracerConfig), (''opcodeLoggerConfig'', TyOpcodeLoggerConfig),
      (''tracerConfig'', TyTracerConfig), (''tracerConfigWrapper'', TyTracerConfigWrapper)]"

fun type_error_text :: "ptype \<Rightarrow> string" where
  "type_error_text TyAddress = ADDRESS_ERROR"
| "type_error_text TyAddressFilter = ADDRESS_ERROR @ '' or an array of addresses''"
| "type_error_text TyArray = ''Expected Array''"
| "type_error_text TyBlockHash = BLOCK_HASH_ERROR"
| "type_error_text TyBlockNumber = BLOCK_NUMBER_ERROR"
| "type_error_text TyBoolean = ''Expected boolean type''"
| "type_error_text TyBlockParams = BLOCK_PARAMS_ERROR"
| "type_error_text TyFilter = ''Expected FilterObject''"
| "type_error_text TyHex = DEFAULT_HEX_ERROR"
| "type_error_text TyHexEvenLength = EVEN_HEX_ERROR"
| "type_error_text TyHex64 = HASH_ERROR"
| "type_error_text TyTopicHash = TOPIC_HASH_ERROR"
| "type_error_text TyTopics = ''Expected an array or array of arrays containing '' @ HASH_ERROR @ '' of a topic''"
| "type_error_text TyTransaction = ''Expected TransactionObject''"
| "type_error_text TyTransactionHash = TRANSACTION_HASH_ERROR"
| "type_error_text TyTransactionId = TRANSACTION_ID_ERROR"
| "type_error_text TyTracerType = ''Expected TracerType''"
| "type_error_text TyCallTracerConfig = ''Expected CallTracerConfig''"
| "type_error_text TyOpcodeLoggerConfig = ''Expected OpcodeLoggerConfig''"
| "type_error_text TyTracerConfig = ''Expected TracerConfig''"
| "type_error_text TyTracerConfigWrapper =
     ''Expected TracerConfigWrapper which contains a valid TracerType and/or TracerConfig''"

subsection \<open>Tests that look at the value alone\<close>

definition block_tags :: "string list" where
  "block_tags = [''earliest'', ''latest'', ''pending'', ''finalized'', ''safe'']"

text \<open>A string the code compares with \<open>includes\<close>: only a string is equal to one of them.\<close>

fun is_one_of :: "string list \<Rightarrow> jsv \<Rightarrow> bool" where
  "is_one_of ss (JStr s) = (s \<in> set ss)"
| "is_one_of ss _ = False"

text \<open>\<open>/^0[xX]([1-9A-Fa-f][0-9A-Fa-f]{0,13}|0)$/\<close>\<close>

definition block_number_regex :: "string \<Rightarrow> bool" where
  "block_number_regex s =
     (let d = drop 2 s in
      (take 2 s = ''0x'' \<or> take 2 s = ''0X'') \<and>
      (d = ''0'' \<or> (d \<noteq> [] \<and> hd d \<noteq> CHR ''0'' \<and> list_all (is_digit_in 16) d \<and> length d \<le> 14)))"

text \<open>
  \<open>/^0[xX]([1-9A-Fa-f]+[0-9A-Fa-f]{0,13}|0)$/\<close>: the run of nonzero digits may be of any
  length, and at most 13 digits follow it.
\<close>

definition block_params_regex :: "string \<Rightarrow> bool" where
  "block_params_regex s =
     (let d = drop 2 s; nz = takeWhile (\<lambda>c. is_digit_in 16 c \<and> c \<noteq> CHR ''0'') d
      in (take 2 s = ''0x'' \<or> take 2 s = ''0X'') \<and>
         (d = ''0'' \<or> (nz \<noteq> [] \<and> list_all (is_digit_in 16) d \<and> length d - length nz \<le> 13)))"

definition MAX_SAFE_INTEGER :: int where
  "MAX_SAFE_INTEGER = 2 ^ 53 - 1"

text \<open>\<open>Number(s)\<close> of a text \<open>0x\<close> and hexadecimal digits.\<close>

definition js_hex_number :: "string \<Rightarrow> int" where
  "js_hex_number s = to_number (int (of_base 16 (drop 2 s)))"

text \<open>\<open>/^(\d)\.(\d)\.(\d{1,10})-(\d{1,19})-(\d{1,9})$/\<close>\<close>

fun tx_id_dash_regex :: "string \<Rightarrow> bool" where
  "tx_id_dash_regex (a # d1 # b # d2 # rest) =
     (dec_digit a \<and> d1 = CHR ''.'' \<and> dec_digit b \<and> d2 = CHR ''.'' \<and>
      (let parts = split_on (CHR ''-'') rest
       in length parts = 3 \<and> list_all (\<lambda>p. p \<noteq> [] \<and> list_all dec_digit p) parts \<and>
          length (parts ! 0) \<le> 10 \<and> length (parts ! 1) \<le> 19 \<and> length (parts ! 2) \<le> 9))"
| "tx_id_dash_regex _ = False"

fun flat :: "jsv list \<Rightarrow> jsv list" where
  "flat [] = []"
| "flat (JArr ys # xs) = ys @ flat xs"
| "flat (x # xs) = x # flat xs"

definition hex_test :: "(nat \<Rightarrow> bool) \<Rightarrow> jsv \<Rightarrow> bool" where
  "hex_test ok v = hex_text_of_length ok (js_to_string v)"

definition address_test :: "jsv \<Rightarrow> bool" where
  "address_test v = hex_test (\<lambda>n. n = 40) v"

definition topic_hash_test :: "jsv \<Rightarrow> bool" where
  "topic_hash_test v = (hex_test (\<lambda>n. n = 64) v \<or> v = JNull)"

text \<open>\<open>!(v.length % 2)\<close>\<close>

fun even_length :: "jsv \<Rightarrow> bool" where
  "even_length (JStr s) = even (length s)"
| "even_length (JArr xs) = even (length xs)"
| "even_length _ = True"

definition tracer_types :: "string list" where
  "tracer_types = [''callTracer'', ''opcodeLogger'', ''prestateTracer'']"

text \<open>\<open>None\<close> for the types whose test validates an object.\<close>

fun basic_test :: "ptype \<Rightarrow> jsv \<Rightarrow> bool option" where
  "basic_test TyAddress v = Some (address_test v)"
| "basic_test TyAddressFilter v =
     Some (case v of JArr xs \<Rightarrow> list_all address_test (flat xs) | _ \<Rightarrow> address_test v)"
| "basic_test TyArray v = Some (is_array v)"
| "basic_test TyBlockHash v = Some (hex_test (\<lambda>n. n = 64) v)"
| "basic_test TyBlockNumber v =
     Some ((block_number_regex (js_to_string v) \<and> js_hex_number (js_to_string v) \<le> MAX_SAFE_INTEGER) \<or>
           is_one_of block_tags v)"
| "basic_test TyBoolean v = Some (v = JBool True \<or> v = JBool False)"
| "basic_test TyHex v = Some (hex_test (\<lambda>n. True) v)"
| "basic_test TyHexEvenLength v = Some (hex_test (\<lambda>n. True) v \<and> even_length v)"
| "basic_test TyHex64 v = Some (hex_test (\<lambda>n. 1 \<le> n \<and> n \<le> 64) v)"
| "basic_test TyTopicHash v = Some (topic_hash_test v)"
| "basic_test TyTopics v =
     Some (case v of JArr xs \<Rightarrow> list_all topic_hash_test (flat xs) | _ \<Rightarrow> False)"
| "basic_test TyTransactionHash v = Some (hex_test (\<lambda>n. n = 64) v)"
| "basic_test TyTransactionId v = Some (tx_id_dash_regex (js_to_string v))"
| "basic_test TyTracerType v = Some (is_one_of tracer_types v)"
| "basic_test _ v = None"

subsection \<open>Object schemas\<close>

record param_schema =
  ps_type :: ptype
  ps_nullable :: bool
  ps_required :: bool

record object_schema =
  os_name :: string
  os_properties :: "(string \<times> param_schema) list"
  os_failOnEmpty :: bool
  os_failOnUnexpectedParams :: bool
  os_deleteUnknownProperties :: bool

abbreviation field :: "string \<Rightarrow> ptype \<Rightarrow> string \<times> param_schema" where
  "field k t \<equiv> (k, \<lparr> ps_type = t, ps_nullable = False, ps_required = False \<rparr>)"

abbreviation nullable_field :: "string \<Rightarrow> ptype \<Rightarrow> string \<times> param_schema" where
  "nullable_field k t \<equiv> (k, \<lparr> ps_type = t, ps_nullable = True, ps_required = False \<rparr>)"

definition blockHashObject_schema :: object_schema where
  "blockHashObject_schema =
     \<lparr> os_name = ''BlockHashObject'', os_properties = [field ''blockHash'' TyBlockHash],
       os_failOnEmpty = False, os_failOnUnexpectedParams = True, os_deleteUnknownProperties = False \<rparr>"

definition blockNumberObject_schema :: object_schema where
  "blockNumberObject_schema =
     \<lparr> os_name = ''BlockNumberObject'', os_properties = [field ''blockNumber'' TyBlockNumber],
       os_failOnEmpty = False, os_failOnUnexpectedParams = True, os_deleteUnknownProperties = False \<rparr>"

definition filter_schema :: object_schema where
  "filter_schema =
     \<lparr> os_name = ''FilterObject'',
       os_properties =
         [field ''blockHash'' TyBlockHash, field ''fromBlock'' TyBlockNumber, field ''toBlock'' TyBlockNumber,
          field ''address'' TyAddressFilter, field ''topics'' TyTopics],
       os_failOnEmpty = False, os_failOnUnexpectedParams = True, os_deleteUnknownProperties = False \<rparr>"

definition callTracerConfig_schema :: object_schema where
  "callTracerConfig_schema =
     \<lparr> os_name = ''CallTracerConfig'', os_properties = [field ''onlyTopCall'' TyBoolean],
       os_failOnEmpty = True, os_failOnUnexpectedParams = False, os_deleteUnknownProperties = False \<rparr>"

definition opcodeLoggerConfig_schema :: object_schema where
  "opcodeLoggerConfig_schema =
     \<lparr> os_name = ''OpcodeLoggerConfig'',
       os_properties =
         [field ''disableMemory'' TyBoolean, field ''enableMemory'' TyBoolean,
          field ''disableStack'' TyBoolean, field ''disableStorage'' TyBoolean],
       os_failOnEmpty = True, os_failOnUnexpectedParams = False, os_deleteUnknownProperties = False \<rparr>"

definition tracerConfigWrapper_schema :: object_schema where
  "tracerConfigWrapper_schema =
     \<lparr> os_name = ''TracerConfigWrapper'',
       os_properties = [field ''tracer'' TyTracerType, field ''tracerConfig'' TyTracerConfig],
       os_failOnEmpty = True, os_failOnUnexpectedParams = True, os_deleteUnknownProperties = False \<rparr>"

definition transaction_schema :: object_schema where
  "transaction_schema =
     \<lparr> os_name = ''TransactionObject'',
       os_properties =
         [field ''from'' TyAddress, nullable_field ''to'' TyAddress, field ''gas'' TyHex,
          field ''gasPrice'' TyHex, field ''maxPriorityFeePerGas'' TyHex, field ''maxFeePerGas'' TyHex,
          field ''value'' TyHex, nullable_field ''data'' TyHexEvenLength, field ''type'' TyHex,
          field ''chainId'' TyHex, field ''nonce'' TyHex, field ''input'' TyHex, field ''accessList'' TyArray],
       os_failOnEmpty = False, os_failOnUnexpectedParams = False, os_deleteUnknownProperties = True \<rparr>"

definition ethSubscribeLogsParams_schema :: object_schema where
  "ethSubscribeLogsParams_schema =
     \<lparr> os_name = ''EthSubscribeLogsParamsObject'',
       os_properties = [field ''address'' TyAddressFilter, field ''topics'' TyTopics],
       os_failOnEmpty = False, os_failOnUnexpectedParams = True, os_deleteUnknownProperties = False \<rparr>"

subsection \<open>\<open>utils.ts\<close>: validating an object against a schema\<close>

definition requiredIsMissing :: "jsv \<Rightarrow> bool \<Rightarrow> bool" where
  "requiredIsMissing param required = (required \<and> param = JUndef)"

definition isValidAndNonNullableParam :: "jsv \<Rightarrow> bool \<Rightarrow> bool" where
  "isValidAndNonNullableParam param nullable = (param \<noteq> JUndef \<and> (param \<noteq> JNull \<or> \<not> nullable))"

text \<open>\<open>typeof param === 'object' ? JSON.stringify(param) : param\<close> in a message.\<close>

definition param_text :: "jsv \<Rightarrow> string" where
  "param_text param = (if js_typeof param = ''object'' then json_stringify param else js_to_string param)"

definition property_error :: "object_schema \<Rightarrow> string \<Rightarrow> ptype \<Rightarrow> jsv \<Rightarrow> json_rpc_error" where
  "property_error filters property t param =
     INVALID_PARAMETER (squote property @ '' for '' @ os_name filters)
       (type_error_text t @ '', value: '' @ param_text param)"

fun check_properties ::
  "(ptype \<Rightarrow> jsv \<Rightarrow> thrown + bool) \<Rightarrow> object_schema \<Rightarrow> jsv \<Rightarrow> (string \<times> param_schema) list \<Rightarrow> thrown + unit"
where
  "check_properties test filters object [] = Inr ()"
| "check_properties test filters object ((property, validation) # rest) =
     (let param = js_prop object property in
      if requiredIsMissing param (ps_required validation) then
        Inl (ThrownRpc (MISSING_REQUIRED_PARAMETER (squote property @ '' for '' @ os_name filters)))
      else if isValidAndNonNullableParam param (ps_nullable validation) then
        (case test (ps_type validation) param of
           Inr True \<Rightarrow> check_properties test filters object rest
         | Inr False \<Rightarrow> Inl (ThrownRpc (property_error filters property (ps_type validation) param))
         | Inl (ThrownRpc _) \<Rightarrow> Inl (ThrownRpc (property_error filters property (ps_type validation) param))
         | Inl e \<Rightarrow> Inl e)
      else check_properties test filters object rest)"

definition validateObject ::
  "(ptype \<Rightarrow> jsv \<Rightarrow> thrown + bool) \<Rightarrow> jsv \<Rightarrow> object_schema \<Rightarrow> thrown + bool"
where
  "validateObject test object filters =
     and_then (check_properties test filters object (os_properties filters)) (\<lambda>_.
       let paramsMatchingFilters =
             filter (\<lambda>key. js_prop object key \<noteq> JUndef) (map fst (os_properties filters))
       in Inr (\<not> os_failOnEmpty filters \<or> paramsMatchingFilters \<noteq> []))"

subsection \<open>\<open>DefaultValidation\<close> and its subclasses\<close>

definition unknown_params :: "object_schema \<Rightarrow> jsv \<Rightarrow> string list" where
  "unknown_params schema object =
     filter (\<lambda>param. param \<notin> set (map fst (os_properties schema))) (js_keys object)"

text \<open>An unknown property whose name is the empty string does not count as found.\<close>

definition checkForUnexpectedParams :: "object_schema \<Rightarrow> jsv \<Rightarrow> thrown + unit" where
  "checkForUnexpectedParams schema object =
     (case unknown_params schema object of
        [] \<Rightarrow> Inr ()
      | unknownParam # _ \<Rightarrow>
          if unknownParam = '''' then Inr ()
          else Inl (ThrownRpc (INVALID_PARAMETER (squote unknownParam @ '' for '' @ os_name schema)
                      ''Unknown parameter'')))"

definition deleteUnknownProperties :: "object_schema \<Rightarrow> jsv \<Rightarrow> jsv" where
  "deleteUnknownProperties schema object =
     foldl js_delete_prop object (unknown_params schema object)"

text \<open>The validated object is the one the caller goes on to use.\<close>

definition default_validate ::
  "(ptype \<Rightarrow> jsv \<Rightarrow> thrown + bool) \<Rightarrow> object_schema \<Rightarrow> jsv \<Rightarrow> thrown + (jsv \<times> bool)"
where
  "default_validate test schema object =
     and_then (if os_failOnUnexpectedParams schema then checkForUnexpectedParams schema object else Inr ()) (\<lambda>_.
       let object' = (if os_deleteUnknownProperties schema then deleteUnknownProperties schema object else object)
       in and_then (validateObject test object' schema) (\<lambda>valid. Inr (object', valid)))"

definition lift_basic :: "ptype \<Rightarrow> jsv \<Rightarrow> thrown + bool" where
  "lift_basic t v =
     (case basic_test t v of Some b \<Rightarrow> Inr b | None \<Rightarrow> Inl (ThrownOther ''not a basic type''))"

definition TransactionObject_validate :: "jsv \<Rightarrow> thrown + (jsv \<times> bool)" where
  "TransactionObject_validate object = default_validate lift_basic transaction_schema object"

definition FilterObject_validate :: "jsv \<Rightarrow> thrown + (jsv \<times> bool)" where
  "FilterObject_validate object =
     (if truthy (js_prop object ''blockHash'') \<and>
         (truthy (js_prop object ''toBlock'') \<or> truthy (js_prop object ''fromBlock'')) then
        Inl (ThrownRpc (INVALID_PARAMETER ''0'' (''Can'' @ [CHR 39] @ ''t use both blockHash and toBlock/fromBlock'')))
      else default_validate lift_basic filter_schema object)"

definition EthSubscribeLogsParamsObject_validate :: "jsv \<Rightarrow> thrown + (jsv \<times> bool)" where
  "EthSubscribeLogsParamsObject_validate object =
     and_then (default_validate lift_basic ethSubscribeLogsParams_schema object) (\<lambda>(object', valid).
       if valid \<and> js_prop object' ''address'' = JArr [] \<and>
          (\<exists>s \<in> set (os_properties ethSubscribeLogsParams_schema). fst s = ''address'' \<and> ps_required (snd s))
       then Inl (ThrownRpc (MISSING_REQUIRED_PARAMETER
                  (squote ''address'' @ '' for '' @ os_name ethSubscribeLogsParams_schema)))
       else Inr (object', valid))"

text \<open>The tests of the object types whose properties have basic types.\<close>

definition is_object_value :: "jsv \<Rightarrow> bool" where
  "is_object_value v = (truthy v \<and> js_typeof v = ''object'')"

fun object_test :: "ptype \<Rightarrow> jsv \<Rightarrow> thrown + bool" where
  "object_test TyBlockParams v =
     (if is_plain_object v then
        (if has_own v ''blockHash'' then
           and_then (default_validate lift_basic blockHashObject_schema v) (\<lambda>(_, valid). Inr valid)
         else
           and_then (default_validate lift_basic blockNumberObject_schema v) (\<lambda>(_, valid). Inr valid))
      else
        Inr ((block_params_regex (js_to_string v) \<and> js_hex_number (js_to_string v) \<le> MAX_SAFE_INTEGER) \<or>
             is_one_of block_tags v))"
| "object_test TyFilter v =
     (if is_plain_object v then and_then (FilterObject_validate v) (\<lambda>(_, valid). Inr valid) else Inr False)"
| "object_test TyTransaction v =
     (if is_plain_object v then and_then (TransactionObject_validate v) (\<lambda>(_, valid). Inr valid) else Inr False)"
| "object_test TyCallTracerConfig v =
     (if is_object_value v then
        and_then (default_validate lift_basic callTracerConfig_schema v) (\<lambda>(_, valid). Inr valid)
      else Inr False)"
| "object_test TyOpcodeLoggerConfig v =
     (if is_object_value v then
        and_then (default_validate lift_basic opcodeLoggerConfig_schema v) (\<lambda>(_, valid). Inr valid)
      else Inr False)"
| "object_test t v = lift_basic t v"

text \<open>The test of \<open>tracerConfig\<close> runs both configurations' tests, also on an empty object.\<close>

definition tracerConfig_test :: "jsv \<Rightarrow> thrown + bool" where
  "tracerConfig_test v =
     (if is_object_value v then
        and_then (object_test TyCallTracerConfig v) (\<lambda>isValidCallTracerConfig.
        and_then (object_test TyOpcodeLoggerConfig v) (\<lambda>isValidOpcodeLoggerConfig.
          Inr (js_keys v = [] \<or> isValidCallTracerConfig \<or> isValidOpcodeLoggerConfig)))
      else Inr False)"

fun config_test :: "ptype \<Rightarrow> jsv \<Rightarrow> thrown + bool" where
  "config_test TyTracerConfig v = tracerConfig_test v"
| "config_test t v = object_test t v"

definition TracerConfigWrapper_validate :: "jsv \<Rightarrow> thrown + (jsv \<times> bool)" where
  "TracerConfigWrapper_validate object =
     and_then (default_validate config_test tracerConfigWrapper_schema object) (\<lambda>(object', valid).
       let tracer = js_prop object' ''tracer''; tracerConfig = js_prop object' ''tracerConfig'' in
       if \<not> truthy tracerConfig then Inr (object', valid)
       else
         (let configKeys = js_keys tracerConfig;
              hasCallTracerKeys =
                list_ex (\<lambda>k. k \<in> set (map fst (os_properties callTracerConfig_schema))) configKeys;
              hasOpcodeLoggerKeys =
                list_ex (\<lambda>k. k \<in> set (map fst (os_properties opcodeLoggerConfig_schema))) configKeys
          in if hasCallTracerKeys \<and> tracer = JStr ''opcodeLogger'' then
               Inl (ThrownRpc (INVALID_PARAMETER ''1''
                 (''callTracer '' @ squote ''tracerConfig'' @ '' for '' @ os_name tracerConfigWrapper_schema @
                  '' is only valid when tracer=callTracer'')))
             else if hasOpcodeLoggerKeys \<and> tracer \<noteq> JStr ''opcodeLogger'' then
               Inl (ThrownRpc (INVALID_PARAMETER ''1''
                 (''opcodeLogger '' @ squote ''tracerConfig'' @ '' for '' @ os_name tracerConfigWrapper_schema @
                  '' is only valid when tracer=opcodeLogger'')))
             else Inr (object', valid)))"

fun type_test :: "ptype \<Rightarrow> jsv \<Rightarrow> thrown + bool" where
  "type_test TyTracerConfigWrapper v =
     (if is_object_value v then and_then (TracerConfigWrapper_validate v) (\<lambda>(_, valid). Inr valid) else Inr False)"
| "type_test t v = config_test t v"

subsection \<open>\<open>validateParam\<close> and \<open>validateParams\<close>\<close>

record method_param_schema =
  mp_type :: string
  mp_required :: bool

text \<open>The type of a parameter: unknown, one type, or a union of types, each perhaps unknown.\<close>

datatype param_type = PMissing | PSingle ptype | PUnion "ptype option list"

definition getParamType :: "string \<Rightarrow> param_type" where
  "getParamType validationType =
     (if CHR ''|'' \<in> set validationType then
        PUnion (map (map_of type_table) (split_on (CHR ''|'') validationType))
      else
        (case map_of type_table validationType of None \<Rightarrow> PMissing | Some t \<Rightarrow> PSingle t))"

fun union_results :: "ptype option list \<Rightarrow> jsv \<Rightarrow> thrown + bool list" where
  "union_results [] param = Inr []"
| "union_results (None # ts) param = Inl (ThrownOther ''TypeError'')"
| "union_results (Some t # ts) param =
     and_then (type_test t param) (\<lambda>r. and_then (union_results ts param) (\<lambda>rs. Inr (r # rs)))"

definition union_error_text :: "ptype option list \<Rightarrow> string" where
  "union_error_text ts =
     intercalate '' OR '' (map (\<lambda>t. case t of None \<Rightarrow> '''' | Some t' \<Rightarrow> type_error_text t') ts)"

definition validateParam :: "string \<Rightarrow> jsv \<Rightarrow> method_param_schema \<Rightarrow> thrown + unit" where
  "validateParam index param validation =
     (let paramType = getParamType (mp_type validation) in
      if paramType = PMissing then
        Inl (ThrownRpc (INTERNAL_ERROR (''Missing or unsupported param type '' @ squote (mp_type validation))))
      else if requiredIsMissing param (mp_required validation) then
        Inl (ThrownRpc (MISSING_REQUIRED_PARAMETER index))
      else if \<not> mp_required validation \<and> param = JUndef then Inr ()
      else if param = JNull then
        Inl (ThrownRpc (INVALID_PARAMETER index
          (''The value passed is not valid: '' @ js_to_string param @ ''.'')))
      else
        (case paramType of
           PUnion ts \<Rightarrow>
             and_then (union_results ts param) (\<lambda>results.
               ensure (True \<in> set results)
                 (ThrownRpc (INVALID_PARAMETER index
                   (''The value passed is not valid: '' @ js_to_string param @ ''. '' @ union_error_text ts))))
         | PSingle t \<Rightarrow>
             and_then (type_test t param) (\<lambda>ok.
               ensure ok
                 (ThrownRpc (INVALID_PARAMETER index
                   (type_error_text t @ '', value: '' @ param_text param))))
         | PMissing \<Rightarrow> Inr ()))"

definition param_at :: "jsv list \<Rightarrow> nat \<Rightarrow> jsv" where
  "param_at params i = (if i < length params then params ! i else JUndef)"

fun validate_each :: "jsv list \<Rightarrow> (nat \<times> method_param_schema) list \<Rightarrow> thrown + unit" where
  "validate_each params [] = Inr ()"
| "validate_each params ((i, validation) # rest) =
     and_then (validateParam (show_int (int i)) (param_at params i) validation)
       (\<lambda>_. validate_each params rest)"

definition validateParams :: "jsv list \<Rightarrow> (nat \<times> method_param_schema) list \<Rightarrow> thrown + unit" where
  "validateParams params indexes =
     (if length indexes < length params then Inl (ThrownRpc INVALID_PARAMETERS)
      else validate_each params indexes)"

subsection \<open>Block numbers\<close>

lemma js_hex_number_exact:
  assumes "js_hex_number s \<le> MAX_SAFE_INTEGER"
  shows "js_hex_number s = int (of_base 16 (drop 2 s)) \<and> of_base 16 (drop 2 s) < 2 ^ 53"
proof -
  define n where "n = of_base 16 (drop 2 s)"
  have j: "js_hex_number s = to_number (int n)" by (simp only: js_hex_number_def n_def)
  have "to_number (int n) < 2 ^ 53" using assms unfolding j MAX_SAFE_INTEGER_def by linarith
  then have n: "int n < 2 ^ 53" by (rule to_number_safe) simp
  then have "to_number (int n) = int n" by (intro to_number_exact) linarith
  moreover from n have "n < 2 ^ 53" by simp
  ultimately show ?thesis unfolding j n_def by blast
qed

lemma hex_digits_bound:
  assumes "c \<noteq> CHR ''0''" and "list_all (is_digit_in 16) (c # s)" and "of_base 16 (c # s) < 2 ^ 53"
  shows "length (c # s) \<le> 14"
proof (rule ccontr)
  assume "\<not> length (c # s) \<le> 14"
  then have "(16::nat) ^ 14 \<le> 16 ^ length s" by (intro power_increasing) auto
  moreover obtain d where d: "digit_val c = Some d"
    using assms(2) by (auto simp: is_digit_in_def split: option.splits)
  moreover have "d \<noteq> 0"
  proof
    assume "d = 0"
    with d have "of_char c = (48::nat)" by (auto simp: digit_val_def Let_def split: if_splits)
    then have "of_char c = (of_char (CHR ''0'') :: nat)" by simp
    then have "c = CHR ''0''" by (simp only: of_char_eq_iff)
    with assms(1) show False by simp
  qed
  ultimately have "16 ^ 14 \<le> of_base 16 (c # s)"
    using of_base_Cons_ge [of c d 16 s] by simp
  with assms(3) show False by simp
qed

lemma block_params_regex_safe:
  assumes "js_hex_number s \<le> MAX_SAFE_INTEGER"
  shows "block_params_regex s \<longleftrightarrow> block_number_regex s"
proof -
  let ?d = "drop 2 s"
  have bound: "of_base 16 ?d < 2 ^ 53" using js_hex_number_exact [OF assms] by simp
  have "(takeWhile (\<lambda>c. is_digit_in 16 c \<and> c \<noteq> CHR ''0'') ?d \<noteq> [] \<and> list_all (is_digit_in 16) ?d \<and>
      length ?d - length (takeWhile (\<lambda>c. is_digit_in 16 c \<and> c \<noteq> CHR ''0'') ?d) \<le> 13) \<longleftrightarrow>
    (?d \<noteq> [] \<and> hd ?d \<noteq> CHR ''0'' \<and> list_all (is_digit_in 16) ?d \<and> length ?d \<le> 14)"
  proof (cases ?d)
    case (Cons c cs)
    then show ?thesis using hex_digits_bound [of c cs] bound by auto
  qed simp
  then show ?thesis
    by (simp only: block_params_regex_def block_number_regex_def Let_def)
qed

text \<open>
  The types \<open>blockNumber\<close> and \<open>blockParams\<close> use different regular expressions, and accept
  the same values that are not objects.
\<close>

theorem blockParams_accepts_blockNumbers:
  assumes "\<not> is_plain_object v"
  shows "type_test TyBlockParams v = type_test TyBlockNumber v"
  using assms block_params_regex_safe [of "js_to_string v"] by (auto simp: lift_basic_def)

theorem blockParams_accepts_blockNumbers_witness:
  "type_test TyBlockParams (JStr ''0x1fF0'') = type_test TyBlockNumber (JStr ''0x1fF0'')"
  by (rule blockParams_accepts_blockNumbers) simp

text \<open>
  A block number that passes validation is a tag, or a number that JavaScript holds exactly:
  the value the relay goes on with is the value of the digits, at most \<open>2 ^ 53 - 1\<close>.
\<close>

theorem blockNumber_value_exact:
  assumes "type_test TyBlockNumber (JStr s) = Inr True" and "s \<notin> set block_tags"
  shows "js_hex_number s = int (of_base 16 (drop 2 s)) \<and> of_base 16 (drop 2 s) \<le> 2 ^ 53 - 1 \<and>
    list_all (is_digit_in 16) (drop 2 s)"
proof -
  have r: "block_number_regex s" and m: "js_hex_number s \<le> MAX_SAFE_INTEGER"
    using assms by (auto simp: lift_basic_def)
  from r have "list_all (is_digit_in 16) (drop 2 s)"
    by (auto simp: block_number_regex_def Let_def is_digit_in_def digit_val_def)
  with js_hex_number_exact [OF m] show ?thesis by auto
qed

theorem blockNumber_value_exact_witness:
  "js_hex_number ''0x10'' = int (of_base 16 ''10'') \<and> of_base 16 ''10'' \<le> 2 ^ 53 - 1"
  using blockNumber_value_exact [of "''0x10''"]
  by (simp add: lift_basic_def block_number_regex_def js_hex_number_def of_base_def is_digit_in_def
      digit_val_def to_number_exact MAX_SAFE_INTEGER_def block_tags_def)

subsection \<open>Validation errors\<close>

text \<open>A result that is no exception, or a JSON-RPC error with the code of invalid parameters.\<close>

definition rpc_only :: "thrown + 'a \<Rightarrow> bool" where
  "rpc_only r = (case r of Inl (ThrownRpc e) \<Rightarrow> err_code e = -32602 | Inl _ \<Rightarrow> False | Inr _ \<Rightarrow> True)"

lemma rpc_only_Inr [simp]: "rpc_only (Inr a)"
  by (simp add: rpc_only_def)

lemma rpc_only_ThrownRpc [simp]: "rpc_only (Inl (ThrownRpc e)) \<longleftrightarrow> err_code e = -32602"
  by (simp add: rpc_only_def)

lemma rpc_only_InlD: "rpc_only (Inl e) \<Longrightarrow> \<exists>je. e = ThrownRpc je \<and> err_code je = -32602"
  by (cases e) (auto simp: rpc_only_def)

lemma rpc_only_and_then [intro!]:
  "rpc_only r \<Longrightarrow> (\<And>a. r = Inr a \<Longrightarrow> rpc_only (f a)) \<Longrightarrow> rpc_only (and_then r f)"
  by (cases r) (auto simp: rpc_only_def)

lemma rpc_only_ensure [simp]: "err_code e = -32602 \<Longrightarrow> rpc_only (ensure b (ThrownRpc e))"
  by (simp add: ensure_def)

lemma err_code_param_errors [simp]:
  "err_code (INVALID_PARAMETER i m) = -32602" "err_code (MISSING_REQUIRED_PARAMETER i) = -32602"
  "err_code INVALID_PARAMETERS = -32602" "err_code (property_error f p t v) = -32602"
  by (simp_all add: INVALID_PARAMETER_def MISSING_REQUIRED_PARAMETER_def INVALID_PARAMETERS_def
      property_error_def JsonRpcError_def)

definition basic_type :: "ptype \<Rightarrow> bool" where
  "basic_type t = (t \<notin> {TyBlockParams, TyFilter, TyTransaction, TyCallTracerConfig, TyOpcodeLoggerConfig,
                         TyTracerConfig, TyTracerConfigWrapper})"

lemma basic_type_rpc_only: "basic_type t \<Longrightarrow> rpc_only (lift_basic t v)"
  by (cases t) (simp_all add: basic_type_def lift_basic_def)

lemma check_properties_rpc_only:
  "(\<And>k p v. (k, p) \<in> set ps \<Longrightarrow> rpc_only (test (ps_type p) v)) \<Longrightarrow> rpc_only (check_properties test f obj ps)"
proof (induction ps)
  case (Cons kp ps)
  obtain k p where kp: "kp = (k, p)" by (cases kp)
  have IH: "rpc_only (check_properties test f obj ps)" using Cons by (meson list.set_intros(2))
  have t: "rpc_only (test (ps_type p) v)" for v using Cons.prems [of k p] kp by simp
  show ?case
    using IH t [of "js_prop obj k"]
    by (auto simp: kp Let_def split: sum.splits thrown.splits bool.splits dest: rpc_only_InlD)
qed simp

lemma default_validate_rpc_only:
  assumes "\<And>k p v. (k, p) \<in> set (os_properties sch) \<Longrightarrow> rpc_only (test (ps_type p) v)"
  shows "rpc_only (default_validate test sch obj)"
  using check_properties_rpc_only [of "os_properties sch" test] assms
  by (auto simp: default_validate_def validateObject_def checkForUnexpectedParams_def Let_def split: list.splits)

lemma basic_schema_rpc_only:
  "\<forall>(k, p) \<in> set (os_properties sch). basic_type (ps_type p) \<Longrightarrow> rpc_only (default_validate lift_basic sch obj)"
  by (intro default_validate_rpc_only basic_type_rpc_only) auto

lemma basic_schemas:
  "\<forall>(k, p) \<in> set (os_properties sch). basic_type (ps_type p)"
  if "sch \<in> {blockHashObject_schema, blockNumberObject_schema, filter_schema, callTracerConfig_schema,
             opcodeLoggerConfig_schema, transaction_schema, ethSubscribeLogsParams_schema}"
  using that
  by (auto simp: blockHashObject_schema_def blockNumberObject_schema_def filter_schema_def
      callTracerConfig_schema_def opcodeLoggerConfig_schema_def transaction_schema_def
      ethSubscribeLogsParams_schema_def basic_type_def)

lemma object_test_rpc_only: "t \<notin> {TyTracerConfig, TyTracerConfigWrapper} \<Longrightarrow> rpc_only (object_test t v)"
proof -
  assume t: "t \<notin> {TyTracerConfig, TyTracerConfigWrapper}"
  note s = basic_schema_rpc_only [OF basic_schemas]
  show ?thesis
    using t
    by (cases t) (auto simp: basic_type_rpc_only basic_type_def s FilterObject_validate_def
        TransactionObject_validate_def split: prod.splits)
qed

lemma config_test_rpc_only: "t \<noteq> TyTracerConfigWrapper \<Longrightarrow> rpc_only (config_test t v)"
proof (cases "t = TyTracerConfig")
  case True
  have "rpc_only (tracerConfig_test v)"
    unfolding tracerConfig_test_def
    by (auto intro!: rpc_only_and_then object_test_rpc_only simp del: object_test.simps)
  with True show ?thesis by simp
next
  case False
  assume "t \<noteq> TyTracerConfigWrapper"
  with False have "rpc_only (object_test t v)" by (intro object_test_rpc_only) simp
  moreover have "config_test t v = object_test t v"
    using False by (cases t) (simp_all del: object_test.simps)
  ultimately show ?thesis by simp
qed

lemma type_test_rpc_only: "rpc_only (type_test t v)"
proof (cases "t = TyTracerConfigWrapper")
  case True
  have "rpc_only (default_validate config_test tracerConfigWrapper_schema v)"
    by (intro default_validate_rpc_only config_test_rpc_only) (auto simp: tracerConfigWrapper_schema_def)
  then have "rpc_only (TracerConfigWrapper_validate v)"
    unfolding TracerConfigWrapper_validate_def
    by (auto simp: Let_def)
  with True show ?thesis by auto
next
  case False
  then have "type_test t v = config_test t v"
    by (cases t) (simp_all del: config_test.simps)
  with False show ?thesis by (simp add: config_test_rpc_only del: config_test.simps)
qed

fun known_type :: "param_type \<Rightarrow> bool" where
  "known_type PMissing = False"
| "known_type (PSingle t) = True"
| "known_type (PUnion ts) = (None \<notin> set ts)"

lemma union_results_rpc_only: "None \<notin> set ts \<Longrightarrow> rpc_only (union_results ts v)"
proof (induction ts)
  case (Cons t ts)
  then obtain t' where "t = Some t'" by (cases t) auto
  with Cons show ?case by (auto simp: type_test_rpc_only simp del: type_test.simps)
qed simp

lemma validateParam_rpc_only:
  assumes "known_type (getParamType (mp_type sch))"
  shows "rpc_only (validateParam i p sch)"
proof (cases "getParamType (mp_type sch)")
  case (PSingle t)
  then show ?thesis
    by (auto simp: validateParam_def Let_def type_test_rpc_only simp del: type_test.simps)
next
  case (PUnion ts)
  with assms show ?thesis
    by (auto simp: validateParam_def Let_def union_results_rpc_only)
qed (use assms in simp)

lemma validateParams_rpc_code:
  assumes "\<forall>(i, sch) \<in> set indexes. known_type (getParamType (mp_type sch))"
    and "validateParams params indexes = Inl e"
  shows "\<exists>je. e = ThrownRpc je \<and> err_code je = -32602"
proof -
  have "rpc_only (validate_each params indexes)"
    using assms(1)
    by (induction indexes) (auto simp: validateParam_rpc_only)
  then have "rpc_only (validateParams params indexes)"
    by (simp add: validateParams_def)
  with assms(2) show ?thesis by (simp add: rpc_only_InlD)
qed

text \<open>
  Whatever the parameters are, the validation of a method whose schema uses known types
  ends normally or with the JSON-RPC error of invalid parameters, code \<open>-32602\<close>; no other
  exception escapes it.
\<close>

theorem validateParams_error_code:
  assumes "\<forall>(i, sch) \<in> set indexes. known_type (getParamType (mp_type sch))"
    and "validateParams params indexes = Inl e"
  shows "\<exists>je. e = ThrownRpc je \<and> err_code je = -32602"
  using assms by (rule validateParams_rpc_code)

theorem validateParams_error_code_witness:
  "\<exists>je. ThrownRpc INVALID_PARAMETERS = ThrownRpc je \<and> err_code je = -32602"
  by (rule validateParams_error_code
      [of "[(0, \<lparr> mp_type = ''address'', mp_required = True \<rparr>)]" "[JNull, JNull]"])
    (simp_all add: getParamType_def type_table_def validateParams_def)

subsection \<open>What passes validation\<close>

fun accepts :: "param_type \<Rightarrow> jsv \<Rightarrow> bool" where
  "accepts PMissing v = False"
| "accepts (PSingle t) v = (type_test t v = Inr True)"
| "accepts (PUnion ts) v = (\<exists>rs. union_results ts v = Inr rs \<and> True \<in> set rs)"

lemma validateParam_ok:
  "validateParam i p sch = Inr () \<longleftrightarrow>
   getParamType (mp_type sch) \<noteq> PMissing \<and>
   (if p = JUndef then \<not> mp_required sch else p \<noteq> JNull \<and> accepts (getParamType (mp_type sch)) p)"
  by (cases "getParamType (mp_type sch)")
    (auto simp: validateParam_def Let_def requiredIsMissing_def outcome_simps simp del: type_test.simps)

text \<open>
  Validation succeeds exactly when no parameter is surplus, every required parameter is
  there, and every parameter that is there is not \<open>null\<close> and is accepted by one of its types.
\<close>

theorem validateParams_iff:
  "validateParams params indexes = Inr () \<longleftrightarrow>
   length params \<le> length indexes \<and>
   list_all (\<lambda>(i, sch).
     getParamType (mp_type sch) \<noteq> PMissing \<and>
     (if param_at params i = JUndef then \<not> mp_required sch
      else param_at params i \<noteq> JNull \<and> accepts (getParamType (mp_type sch)) (param_at params i))) indexes"
proof -
  have "validate_each params indexes = Inr () \<longleftrightarrow>
    list_all (\<lambda>(i, sch). validateParam (show_int (int i)) (param_at params i) sch = Inr ()) indexes"
    by (induction indexes) (auto simp: outcome_simps)
  then show ?thesis by (simp add: validateParams_def validateParam_ok)
qed

subsection \<open>Transaction objects\<close>

lemma foldl_delete_JObj:
  "foldl js_delete_prop (JObj ps) ks = JObj (filter (\<lambda>p. fst p \<notin> set ks) ps)"
  by (induction ks arbitrary: ps) (auto simp: conj_commute intro!: filter_cong)

lemma deleteUnknownProperties_JObj:
  "deleteUnknownProperties schema (JObj ps) =
   JObj (filter (\<lambda>p. fst p \<in> set (map fst (os_properties schema))) ps)"
  by (auto simp: deleteUnknownProperties_def unknown_params_def foldl_delete_JObj intro!: filter_cong)

lemma check_properties_ok:
  "check_properties test f obj ps = Inr () \<Longrightarrow> (k, p) \<in> set ps \<Longrightarrow>
   isValidAndNonNullableParam (js_prop obj k) (ps_nullable p) \<Longrightarrow> test (ps_type p) (js_prop obj k) = Inr True"
  by (induction ps) (auto simp: Let_def split: if_splits sum.splits thrown.splits bool.splits)

text \<open>
  The transaction object the relay goes on with has only known properties, each with the
  value the caller gave, and each that is there (and not a \<open>null\<close> recipient or data) passes the
  test of its type.
\<close>

theorem TransactionObject_validate_sound:
  assumes "TransactionObject_validate (JObj ps) = Inr (obj, True)"
  shows "set (js_keys obj) \<subseteq> set (map fst (os_properties transaction_schema)) \<and>
    list_all (\<lambda>(k, p).
      js_prop obj k = prop_lookup ps k \<and>
      (isValidAndNonNullableParam (prop_lookup ps k) (ps_nullable p) \<longrightarrow>
       basic_test (ps_type p) (prop_lookup ps k) = Some True)) (os_properties transaction_schema)"
proof -
  let ?s = transaction_schema
  let ?o = "JObj (filter (\<lambda>p. fst p \<in> set (map fst (os_properties ?s))) ps)"
  have flags: "os_deleteUnknownProperties ?s" "\<not> os_failOnUnexpectedParams ?s"
    by (simp_all add: transaction_schema_def)
  have obj: "obj = ?o" and ok: "check_properties lift_basic ?s ?o (os_properties ?s) = Inr ()"
    using assms flags
    by (auto simp: TransactionObject_validate_def default_validate_def validateObject_def outcome_simps
        deleteUnknownProperties_JObj simp del: js_prop_JObj)
  have keep: "js_prop obj k = prop_lookup ps k" if "(k, p) \<in> set (os_properties ?s)" for k p
    using that image_eqI [of k fst "(k, p)"]
    by (simp add: obj prop_lookup_filter [where P = "\<lambda>k. k \<in> fst ` set (os_properties ?s)"])
  have test: "basic_test (ps_type p) (prop_lookup ps k) = Some True"
    if "(k, p) \<in> set (os_properties ?s)" "isValidAndNonNullableParam (prop_lookup ps k) (ps_nullable p)" for k p
    using check_properties_ok [OF ok, of k p] that keep [of k p]
    by (auto simp: obj lift_basic_def split: option.splits)
  have "set (js_keys obj) \<subseteq> set (map fst (os_properties ?s))"
    by (auto simp: obj)
  with keep test show ?thesis by (auto simp: list_all_iff)
qed

theorem TransactionObject_validate_sound_witness:
  "set (js_keys (JObj [(''value'', JStr ''0x1'')])) \<subseteq> set (map fst (os_properties transaction_schema))"
  using TransactionObject_validate_sound
    [of "[(''value'', JStr ''0x1''), (''x'', JNull)]" "JObj [(''value'', JStr ''0x1'')]"]
  by (simp add: TransactionObject_validate_def default_validate_def transaction_schema_def
      deleteUnknownProperties_def unknown_params_def validateObject_def Let_def requiredIsMissing_def
      isValidAndNonNullableParam_def lift_basic_def hex_test_def hex_text_of_length_def
      is_digit_in_def digit_val_def)

text \<open>
  A regular expression is tested against the string its argument converts to, so where a
  hash or an address is expected, a one-element array of it passes validation too.
\<close>

theorem array_coercion:
  "type_test TyAddress (JArr [JStr a]) = type_test TyAddress (JStr a) \<and>
   type_test TyBlockHash (JArr [JStr a]) = type_test TyBlockHash (JStr a) \<and>
   type_test TyTransactionHash (JArr [JStr a]) = type_test TyTransactionHash (JStr a)"
  by (simp add: lift_basic_def address_test_def hex_test_def)

end
