(* ===== verification/Dispatcher.thy ===== *)
theory Dispatcher
  imports Validators
begin

section \<open>Registration and dispatch of RPC methods\<close>

text \<open>
  Models \<open>rpcMethodRegistryService.ts\<close> (which methods of the service classes become RPC
  methods), \<open>Utils.arrangeRpcParams\<close>, \<open>RequestDetails\<close> and \<open>rpcMethodDispatcher.ts\<close>
  (precheck, execution and the mapping of every failure to one JSON-RPC error).

  A handler is a function of its arranged arguments and of a state \<open>'s\<close> that stands for all the
  services behind it. It throws (\<open>Inl\<close>), returns an error object or returns a value. The
  parameters of a request are an array or absent; a \<open>params\<close> member of another type is outside
  this model. Validating a transaction object deletes its unknown properties in place, so the
  handler sees the pruned object.
\<close>

subsection \<open>Request details\<close>

record request_details =
  rd_requestId :: string
  rd_ipAddress :: string
  rd_connectionId :: "string option"

definition formattedRequestId :: "request_details \<Rightarrow> string" where
  "formattedRequestId d = (if rd_requestId d \<noteq> '''' then ''[Request ID: '' @ rd_requestId d @ '']'' else '''')"

definition formattedConnectionId :: "request_details \<Rightarrow> string" where
  "formattedConnectionId d =
     (case rd_connectionId d of
        None \<Rightarrow> ''''
      | Some c \<Rightarrow> if c \<noteq> '''' then ''[Connection ID: '' @ c @ '']'' else '''')"

definition formattedLogPrefix :: "request_details \<Rightarrow> string" where
  "formattedLogPrefix d =
     (let c = formattedConnectionId d; r = formattedRequestId d
      in if c \<noteq> '''' \<and> r \<noteq> '''' then c @ '' '' @ r else if c \<noteq> '''' then c else r)"

subsection \<open>Handlers and the registry\<close>

datatype handler_result =
    Value jsv
  | ReturnedRpc json_rpc_error
  | ReturnedSdk sdk_client_error
  | ReturnedMirror mirror_node_error

datatype param_layout =
    DefaultLayout
  | RequestDetailsOnly
  | CustomLayout "jsv list \<Rightarrow> jsv list"

record 's operation_handler =
  op_validationRules :: "(nat \<times> method_param_schema) list option"
  op_layout :: param_layout
  op_run :: "jsv list \<Rightarrow> request_details \<Rightarrow> 's \<Rightarrow> (thrown + handler_result) \<times> 's"

text \<open>A member of a service's prototype: its name, whether it is a function, and whether the
  decorator \<open>@rpcMethod\<close> marked it.\<close>

record 's service_member =
  sm_name :: string
  sm_isFunction :: bool
  sm_isRpcMethod :: bool
  sm_handler :: "'s operation_handler"

type_synonym 's rpc_registry = "string \<Rightarrow> 's operation_handler option"

definition registrable :: "'s service_member \<Rightarrow> bool" where
  "registrable m = (sm_name m \<noteq> ''constructor'' \<and> sm_isFunction m \<and> sm_isRpcMethod m)"

definition qualified_method_name :: "string \<Rightarrow> string \<Rightarrow> string" where
  "qualified_method_name ns operationName = ns @ ''_'' @ operationName"

fun register_service :: "'s rpc_registry \<Rightarrow> string \<Rightarrow> 's service_member list \<Rightarrow> 's rpc_registry" where
  "register_service registry ns [] = registry"
| "register_service registry ns (m # ms) =
     register_service
       (if registrable m then registry(qualified_method_name ns (sm_name m) \<mapsto> sm_handler m) else registry) ns ms"

definition registerRpcMethods :: "(string \<times> 's service_member list) list \<Rightarrow> 's rpc_registry" where
  "registerRpcMethods services =
     foldl (\<lambda>registry service. register_service registry (fst service) (snd service)) Map.empty services"

subsection \<open>Arranging the parameters\<close>

text \<open>The arguments before the request details, which every layout passes last.\<close>

definition arrangeRpcParams :: "'s operation_handler \<Rightarrow> jsv list \<Rightarrow> jsv list" where
  "arrangeRpcParams h rpcParams =
     (case op_layout h of
        RequestDetailsOnly \<Rightarrow> []
      | CustomLayout f \<Rightarrow> f rpcParams
      | DefaultLayout \<Rightarrow> rpcParams)"

text \<open>The parameters as they are after \<open>validateParams\<close> accepted them.\<close>

fun prune_params :: "jsv list \<Rightarrow> (nat \<times> method_param_schema) list \<Rightarrow> jsv list" where
  "prune_params params [] = params"
| "prune_params params ((i, sch) # rest) =
     prune_params
       (if i < length params \<and> getParamType (mp_type sch) = PSingle TyTransaction \<and> is_plain_object (params ! i)
        then params[i := deleteUnknownProperties transaction_schema (params ! i)] else params) rest"

subsection \<open>Dispatch\<close>

definition unregistered_error :: "string \<Rightarrow> json_rpc_error" where
  "unregistered_error methodName =
     (if starts_with ''engine_'' methodName then UNSUPPORTED_METHOD
      else if starts_with ''trace_'' methodName \<or> starts_with ''debug_'' methodName then NOT_YET_IMPLEMENTED
      else METHOD_NOT_FOUND methodName)"

definition precheckRpcMethod ::
  "'s rpc_registry \<Rightarrow> string \<Rightarrow> jsv list \<Rightarrow> thrown + 's operation_handler \<times> jsv list" where
  "precheckRpcMethod registry rpcMethodName params =
     (case registry rpcMethodName of
        None \<Rightarrow> Inl (ThrownRpc (unregistered_error rpcMethodName))
      | Some h \<Rightarrow>
          (case op_validationRules h of
             None \<Rightarrow> Inr (h, params)
           | Some rules \<Rightarrow> and_then (validateParams params rules) (\<lambda>_. Inr (h, prune_params params rules))))"

definition processRpcMethod ::
  "'s operation_handler \<Rightarrow> jsv list \<Rightarrow> request_details \<Rightarrow> 's \<Rightarrow> (thrown + jsv) \<times> 's" where
  "processRpcMethod h params details s =
     (case op_run h (arrangeRpcParams h params) details s of
        (Inl e, s') \<Rightarrow> (Inl e, s')
      | (Inr (Value v), s') \<Rightarrow> (Inr v, s')
      | (Inr (ReturnedRpc e), s') \<Rightarrow> (Inl (ThrownRpc e), s')
      | (Inr (ReturnedSdk e), s') \<Rightarrow> (Inl (ThrownSdk e), s')
      | (Inr (ReturnedMirror e), s') \<Rightarrow> (Inl (ThrownMirror e), s'))"

definition handleRpcMethodError :: "sdk_status_table \<Rightarrow> thrown \<Rightarrow> request_details \<Rightarrow> json_rpc_error" where
  "handleRpcMethodError st e details =
     (let errorMessage = (if thrown_message_text e = '''' then ''Unknown error'' else thrown_message_text e);
          base =
            (case e of
               ThrownRpc je \<Rightarrow> je
             | ThrownSdk se \<Rightarrow> if sdk_isGrpcTimeout st se then REQUEST_TIMEOUT else INTERNAL_ERROR errorMessage
             | ThrownMirror me \<Rightarrow>
                 MIRROR_NODE_UPSTREAM_FAIL (mne_statusCode me)
                   (if mne_message me = '''' then ''Mirror node upstream failure'' else mne_message me)
             | ThrownOther m \<Rightarrow> INTERNAL_ERROR errorMessage)
      in newWithRequestId base (rd_requestId details))"

definition dispatch ::
  "sdk_status_table \<Rightarrow> 's rpc_registry \<Rightarrow> string \<Rightarrow> jsv list option \<Rightarrow> request_details \<Rightarrow> 's
   \<Rightarrow> (json_rpc_error + jsv) \<times> 's" where
  "dispatch st registry rpcMethodName rpcMethodParams details s =
     (let params = (case rpcMethodParams of None \<Rightarrow> [] | Some ps \<Rightarrow> ps) in
      case precheckRpcMethod registry rpcMethodName params of
        Inl e \<Rightarrow> (Inl (handleRpcMethodError st e details), s)
      | Inr (h, params') \<Rightarrow>
          (case processRpcMethod h params' details s of
             (Inl e, s') \<Rightarrow> (Inl (handleRpcMethodError st e details), s')
           | (Inr v, s') \<Rightarrow> (Inr v, s')))"

subsection \<open>What the registry holds\<close>

definition serves :: "(string \<times> 's service_member list) list \<Rightarrow> string \<Rightarrow> 's operation_handler \<Rightarrow> bool" where
  "serves services k h =
     list_ex (\<lambda>(ns, ms). list_ex (\<lambda>m. registrable m \<and> k = qualified_method_name ns (sm_name m) \<and> h = sm_handler m) ms)
       services"

lemma register_service_origin:
  "register_service registry ns ms k = Some h \<Longrightarrow> registry k = Some h \<or> serves [(ns, ms)] k h"
  by (induction ms arbitrary: registry) (fastforce simp: serves_def split: if_splits)+

lemma register_all_origin:
  "foldl (\<lambda>registry service. register_service registry (fst service) (snd service)) registry services k = Some h
   \<Longrightarrow> registry k = Some h \<or> serves services k h"
proof (induction services arbitrary: registry)
  case (Cons service services)
  from Cons.IH Cons.prems
  have "register_service registry (fst service) (snd service) k = Some h \<or> serves services k h" by simp
  with register_service_origin [of registry "fst service" "snd service" k h]
  show ?case by (auto simp: serves_def)
qed (simp add: serves_def)

lemma register_service_mono:
  "\<exists>h. registry k = Some h \<Longrightarrow> \<exists>h. register_service registry ns ms k = Some h"
  by (induction ms arbitrary: registry) auto

lemma register_all_mono:
  "\<exists>h. registry k = Some h \<Longrightarrow>
   \<exists>h. foldl (\<lambda>registry service. register_service registry (fst service) (snd service)) registry services k = Some h"
  by (induction services arbitrary: registry) (simp_all add: register_service_mono)

lemma register_service_registers:
  "list_ex (\<lambda>m. registrable m \<and> k = qualified_method_name ns (sm_name m)) ms
   \<Longrightarrow> \<exists>h. register_service registry ns ms k = Some h"
  by (induction ms arbitrary: registry) (auto intro: register_service_mono)

lemma register_all_registers:
  "list_ex (\<lambda>(ns, ms). list_ex (\<lambda>m. registrable m \<and> k = qualified_method_name ns (sm_name m)) ms) services
   \<Longrightarrow> \<exists>h. foldl (\<lambda>registry service. register_service registry (fst service) (snd service)) registry services k = Some h"
proof (induction services arbitrary: registry)
  case (Cons service services)
  then consider "list_ex (\<lambda>m. registrable m \<and> k = qualified_method_name (fst service) (sm_name m)) (snd service)"
    | "list_ex (\<lambda>(ns, ms). list_ex (\<lambda>m. registrable m \<and> k = qualified_method_name ns (sm_name m)) ms) services"
    by (cases service) auto
  then show ?case
  proof cases
    case 1
    then show ?thesis by (simp add: register_all_mono register_service_registers)
  qed (simp add: Cons.IH)
qed simp

text \<open>
  A method name is served exactly when it is \<open>namespace_operation\<close> for a function of a registered
  service that carries the \<open>@rpcMethod\<close> mark, and the handler is that of such a function: no
  helper of a service class is reachable from outside.
\<close>

theorem registry_exactly_marked:
  "(case registerRpcMethods services k of
      Some h \<Rightarrow> serves services k h
    | None \<Rightarrow>
        \<not> list_ex (\<lambda>(ns, ms). list_ex (\<lambda>m. registrable m \<and> k = qualified_method_name ns (sm_name m)) ms) services)"
proof (cases "registerRpcMethods services k")
  case None
  then show ?thesis using register_all_registers [of k services Map.empty]
    by (auto simp: registerRpcMethods_def)
next
  case (Some h)
  then show ?thesis using register_all_origin [of Map.empty services k h]
    by (auto simp: registerRpcMethods_def)
qed

definition sample_handler :: "unit operation_handler" where
  "sample_handler =
     \<lparr> op_validationRules = Some [(0, \<lparr> mp_type = ''hex'', mp_required = True \<rparr>)], op_layout = DefaultLayout,
       op_run = (\<lambda>ps d s. (Inr (Value (JStr ''0x12a'')), s)) \<rparr>"

definition sample_services :: "(string \<times> unit service_member list) list" where
  "sample_services =
     [(''web3'',
       [\<lparr> sm_name = ''constructor'', sm_isFunction = True, sm_isRpcMethod = True, sm_handler = sample_handler \<rparr>,
        \<lparr> sm_name = ''sha3'', sm_isFunction = True, sm_isRpcMethod = True, sm_handler = sample_handler \<rparr>])]"

subsection \<open>What dispatch answers\<close>

lemmas dispatch_simps = dispatch_def precheckRpcMethod_def Let_def

lemma handleRpcMethodError_id:
  assumes "rd_requestId d \<noteq> ''''"
  shows "str_includes REQUEST_ID_STRING (err_message (handleRpcMethodError st e d))"
  using newWithRequestId_id [OF assms] by (simp add: handleRpcMethodError_def Let_def)

lemma newWithRequestId_code [simp]: "err_code (newWithRequestId e r) = err_code e"
  by (simp add: newWithRequestId_def JsonRpcError_def)

lemma newWithRequestId_data [simp]: "err_data (newWithRequestId e r) = err_data e"
  by (simp add: newWithRequestId_def JsonRpcError_def)

lemma handleRpcMethodError_code:
  "err_code (handleRpcMethodError st e d) =
     (case e of ThrownRpc je \<Rightarrow> err_code je
      | ThrownSdk se \<Rightarrow> if sdk_isGrpcTimeout st se then -32010 else -32603
      | ThrownMirror me \<Rightarrow> -32020
      | ThrownOther m \<Rightarrow> -32603)"
  by (simp add: handleRpcMethodError_def Let_def REQUEST_TIMEOUT_def INTERNAL_ERROR_def
      MIRROR_NODE_UPSTREAM_FAIL_def JsonRpcError_def split: thrown.split)

lemma unregistered_error_code: "err_code (unregistered_error m) = -32601"
  by (simp add: unregistered_error_def UNSUPPORTED_METHOD_def NOT_YET_IMPLEMENTED_def METHOD_NOT_FOUND_def
      JsonRpcError_def)

text \<open>
  A request for a method that is not served, or with parameters its rules reject, never reaches a
  handler: the state of the services is untouched, and the answer is the error of an unknown method
  (\<open>-32601\<close>) or of invalid parameters (\<open>-32602\<close>).
\<close>

theorem dispatch_rejects_before_running:
  assumes "case registry m of None \<Rightarrow> True
      | Some h \<Rightarrow> (case op_validationRules h of None \<Rightarrow> False
          | Some rules \<Rightarrow> (\<exists>e. validateParams (case ps of None \<Rightarrow> [] | Some ps \<Rightarrow> ps) rules = Inl e) \<and>
              (\<forall>(i, sch) \<in> set rules. known_type (getParamType (mp_type sch))))"
  shows "\<exists>err. dispatch st registry m ps d s = (Inl err, s) \<and>
    err_code err = (if registry m = None then -32601 else -32602)"
proof (cases "registry m")
  case None
  then show ?thesis
    by (simp add: dispatch_def precheckRpcMethod_def handleRpcMethodError_code unregistered_error_code)
next
  case (Some h)
  then obtain rules e where rules: "op_validationRules h = Some rules"
      "validateParams (case ps of None \<Rightarrow> [] | Some ps \<Rightarrow> ps) rules = Inl e"
      "\<forall>(i, sch) \<in> set rules. known_type (getParamType (mp_type sch))"
    using assms by (auto split: option.splits)
  obtain je where "e = ThrownRpc je" "err_code je = -32602"
    using validateParams_rpc_code [OF rules(3,2)] by auto
  with Some rules(1,2) show ?thesis
    by (simp add: dispatch_def precheckRpcMethod_def handleRpcMethodError_code)
qed

definition sample_status :: sdk_status_table where
  "sample_status =
     \<lparr> st_Unknown = 21, st_InvalidAccountId = 15, st_InvalidContractId = 16,
       st_InvalidContractId_name = ''INVALID_CONTRACT_ID'', st_ContractDeleted = 72, st_InsufficientTxFee = 9,
       st_ContractRevertExecuted = 33, st_ContractRevertExecuted_name = ''CONTRACT_REVERT_EXECUTED'',
       st_InvalidTransactionId = 4 \<rparr>"

definition sample_details :: request_details where
  "sample_details = \<lparr> rd_requestId = ''7'', rd_ipAddress = ''1.2.3.4'', rd_connectionId = None \<rparr>"

theorem dispatch_rejects_before_running_witness:
  "\<exists>err. dispatch sample_status (registerRpcMethods sample_services) ''web3_sha3'' (Some [JStr ''zz'']) sample_details () = (Inl err, ()) \<and>
    err_code err = -32602"
  using dispatch_rejects_before_running [where registry = "registerRpcMethods sample_services" and m = "''web3_sha3''"
      and ps = "Some [JStr ''zz'']" and st = sample_status and d = sample_details and s = "()"]
  by (simp add: sample_services_def registerRpcMethods_def registrable_def qualified_method_name_def
      precheckRpcMethod_def sample_handler_def validateParams_def validateParam_def getParamType_def type_table_def
      param_at_def Let_def requiredIsMissing_def lift_basic_def hex_test_def hex_text_of_length_def
      param_text_def int_to_base_def to_base.simps digit_char_eval ensure_def)

text \<open>
  Whatever a handler does, a request that passes the prechecks runs it once, with the arranged
  parameters; the answer is the value it returned, or an error whose message carries the request
  id and whose code tells the failure: the code of a JSON-RPC error as it is (thrown or returned),
  \<open>-32010\<close> for a gRPC timeout, \<open>-32020\<close> for the mirror node with its status as data, and
  \<open>-32603\<close> for everything else.
\<close>

theorem dispatch_answers:
  assumes "precheckRpcMethod registry m params = Inr (h, params')"
    and "op_run h (arrangeRpcParams h params') d s = (r, s')" and "rd_requestId d \<noteq> ''''"
  shows "\<exists>answer. dispatch st registry m (Some params) d s = (answer, s') \<and>
    (case answer of
       Inr v \<Rightarrow> r = Inr (Value v)
     | Inl err \<Rightarrow> str_includes REQUEST_ID_STRING (err_message err) \<and>
         (case r of
            Inl (ThrownRpc e) \<Rightarrow> err_code err = err_code e \<and> err_data err = err_data e
          | Inr (ReturnedRpc e) \<Rightarrow> err_code err = err_code e \<and> err_data err = err_data e
          | Inl (ThrownMirror e) \<Rightarrow> err_code err = -32020 \<and> err_data err = Some (show_int (mne_statusCode e))
          | Inr (ReturnedMirror e) \<Rightarrow> err_code err = -32020 \<and> err_data err = Some (show_int (mne_statusCode e))
          | Inl (ThrownSdk e) \<Rightarrow> err_code err = (if sdk_isGrpcTimeout st e then -32010 else -32603)
          | Inr (ReturnedSdk e) \<Rightarrow> err_code err = (if sdk_isGrpcTimeout st e then -32010 else -32603)
          | Inl (ThrownOther msg) \<Rightarrow> err_code err = -32603
          | Inr (Value v) \<Rightarrow> False))"
proof -
  have mirror: "err_data (handleRpcMethodError st (ThrownMirror e) d) = Some (show_int (mne_statusCode e))" for e
    by (simp add: handleRpcMethodError_def Let_def MIRROR_NODE_UPSTREAM_FAIL_def JsonRpcError_def)
  have rpc: "err_data (handleRpcMethodError st (ThrownRpc e) d) = err_data e" for e
    by (simp add: handleRpcMethodError_def Let_def)
  note facts = handleRpcMethodError_id [OF assms(3)] handleRpcMethodError_code mirror rpc
  show ?thesis
    using assms(1,2)
    by (auto simp: dispatch_def processRpcMethod_def facts split: sum.splits handler_result.splits thrown.splits)
qed

lemma sample_prechecks:
  "precheckRpcMethod (\<lambda>m. Some sample_handler) ''web3_sha3'' [JStr ''0xff''] = Inr (sample_handler, [JStr ''0xff''])"
  by (simp add: precheckRpcMethod_def sample_handler_def validateParams_def validateParam_def getParamType_def
      type_table_def param_at_def Let_def requiredIsMissing_def lift_basic_def hex_test_def hex_text_of_length_def
      is_digit_in_def digit_val_def ensure_def)

theorem dispatch_answers_witness:
  "\<exists>answer. dispatch sample_status (\<lambda>m. Some sample_handler) ''web3_sha3'' (Some [JStr ''0xff'']) sample_details () = (answer, ())"
  using dispatch_answers [OF sample_prechecks, of sample_details "()"
      "Inr (Value (JStr ''0x12a''))" "()" sample_status]
  by (auto simp: sample_handler_def sample_details_def)

end
