(* ===== verification/KoaServer.thy ===== *)
theory KoaServer
  imports Dispatcher
begin

section \<open>The HTTP JSON-RPC server\<close>

text \<open>
  Models \<open>packages/server/src/koaJsonRpc\<close>: the server's own errors (\<open>RpcError.ts\<close>), the
  response builder (\<open>RpcResponse.ts\<close>), the HTTP status of an error (\<open>httpErrorMapper.ts\<close>) and
  the class \<open>KoaJsonRpc\<close> with its single and batch requests.

  What the rate limiter and the relay answer to a request is a record of two functions, one
  such record for every item of a batch, so that a statement about all of them covers every
  interleaving of the concurrent items. An exception that leaves an asynchronous function is
  \<open>Inl\<close> with its text; Koa answers it with status 500. The parser of the body is co-body, which
  gives an object, an array or an error.
\<close>

subsection \<open>Errors of the server\<close>

definition ParseError :: json_rpc_error where
  "ParseError = plain_error (-32700) ''Parse error''"

definition InvalidRequest :: json_rpc_error where
  "InvalidRequest = plain_error (-32600) ''Invalid Request''"

definition MethodNotFound :: "string \<Rightarrow> json_rpc_error" where
  "MethodNotFound methodName = plain_error (-32601) (''Method '' @ methodName @ '' not found'')"

definition InvalidParams :: json_rpc_error where
  "InvalidParams = plain_error (-32602) ''Invalid params''"

definition InternalError :: "jsv \<Rightarrow> json_rpc_error" where
  "InternalError err =
     plain_error (-32603)
       (if truthy err \<and> truthy (js_prop err ''message'') then js_to_string (js_prop err ''message'')
        else ''Internal error'')"

definition Unauthorized :: json_rpc_error where
  "Unauthorized = plain_error (-32604) ''Unauthorized''"

definition ServerError :: "int \<Rightarrow> string + json_rpc_error" where
  "ServerError c =
     (if c < -32099 \<or> -32000 < c then Inl ''Invalid error code'' else Inr (plain_error c ''Server error''))"

definition IPRateLimitExceeded :: "string \<Rightarrow> json_rpc_error" where
  "IPRateLimitExceeded methodName = plain_error (-32605) (''IP Rate limit exceeded on '' @ methodName)"

definition HBARRateLimitExceeded :: json_rpc_error where
  "HBARRateLimitExceeded = plain_error (-32606) ''HBAR Rate limit exceeded''"

subsection \<open>\<open>jsonResp\<close>\<close>

record response =
  resp_id :: jsv
  resp_outcome :: "json_rpc_error + jsv"

definition jsonResp :: "jsv \<Rightarrow> json_rpc_error option \<Rightarrow> jsv \<Rightarrow> string + response" where
  "jsonResp i error result =
     (if error \<noteq> None \<and> truthy result then Inl ''Mutually exclusive error and result exist''
      else if i \<noteq> JNull \<and> js_typeof i \<noteq> ''string'' \<and> js_typeof i \<noteq> ''number''
           then Inl (''Invalid id type '' @ js_typeof i)
      else if js_typeof result \<noteq> ''undefined'' then Inr \<lparr> resp_id = i, resp_outcome = Inr result \<rparr>
      else (case error of
              Some e \<Rightarrow> Inr \<lparr> resp_id = i, resp_outcome = Inl e \<rparr>
            | None \<Rightarrow> Inl ''Missing result or error''))"

subsection \<open>The HTTP status of an error\<close>

definition ERROR_CODE_MAP :: "(int \<times> int) list" where
  "ERROR_CODE_MAP =
     [(3, 200), (-32603, 500), (-32600, 400), (-32602, 400), (-32601, 400), (-32605, 429)]"

definition MIRROR_NODE_ERROR_MAP :: "(string \<times> int) list" where
  "MIRROR_NODE_ERROR_MAP = [(''404'', 400), (''429'', 429), (''501'', 501)]"

definition translateRpcErrorToHttpStatus :: "json_rpc_error \<Rightarrow> int \<times> string" where
  "translateRpcErrorToHttpStatus e =
     (let statusErrorCode = (case map_of ERROR_CODE_MAP (err_code e) of Some c \<Rightarrow> c | None \<Rightarrow> 400)
      in (case err_data e of
            Some d \<Rightarrow>
              if err_code e = -32020 \<and> d \<noteq> ''''
              then (case map_of MIRROR_NODE_ERROR_MAP d of Some c \<Rightarrow> c | None \<Rightarrow> 500)
              else statusErrorCode
          | None \<Rightarrow> statusErrorCode,
          err_message e))"

subsection \<open>\<open>KoaJsonRpc\<close>\<close>

record koa_config =
  requestIdIsOptional :: bool
  batchRequestsEnabled :: bool
  batchRequestsMaxSize :: nat
  batchDisallowedMethods :: "string list"
  methodConfig_total :: "string \<Rightarrow> int option"
  defaultRateLimit :: int

text \<open>What \<open>rateLimiter.shouldRateLimit\<close> and \<open>relay.executeRpcMethod\<close> answer.\<close>

record call_answers =
  answer_shouldRateLimit :: "string \<Rightarrow> jsv \<Rightarrow> int \<Rightarrow> string + bool"
  answer_executeRpcMethod :: "jsv \<Rightarrow> jsv \<Rightarrow> string + (json_rpc_error + jsv)"

text \<open>The request comes back with the id that an optional id defaults to.\<close>

definition hasInvalidRequestId :: "koa_config \<Rightarrow> jsv \<Rightarrow> bool \<times> jsv" where
  "hasInvalidRequestId cfg body =
     (let hasId = has_own body ''id''
      in if requestIdIsOptional cfg \<and> \<not> hasId then (False, js_set_prop body ''id'' (JStr ''0''))
         else (\<not> hasId, body))"

text \<open>\<open>None\<close> is the TypeError of a request that is \<open>null\<close>.\<close>

definition validateJsonRpcRequest :: "koa_config \<Rightarrow> jsv \<Rightarrow> (bool \<times> jsv) option" where
  "validateJsonRpcRequest cfg body =
     (case js_get body ''jsonrpc'' of
        None \<Rightarrow> None
      | Some version \<Rightarrow>
          if version \<noteq> JStr ''2.0'' \<or> \<not> has_own body ''method'' then Some (False, body)
          else (let (invalidId, body') = hasInvalidRequestId cfg body
                in if invalidId \<or> \<not> has_own body' ''id'' then Some (False, body') else Some (True, body')))"

definition null_property_error :: string where
  "null_property_error = ''Cannot read properties of null''"

text \<open>The \<open>catch\<close> clause of \<open>getRequestResult\<close>; it may throw itself.\<close>

definition catch_clause :: "jsv \<Rightarrow> string \<Rightarrow> string + response" where
  "catch_clause request msg =
     (case js_get request ''id'' of
        None \<Rightarrow> Inl null_property_error
      | Some i \<Rightarrow> jsonResp i (Some (InternalError (JStr msg))) JUndef)"

fun guarded :: "jsv \<Rightarrow> string + response \<Rightarrow> string + response" where
  "guarded request (Inr r) = Inr r"
| "guarded request (Inl msg) = catch_clause request msg"

definition getRequestResult :: "koa_config \<Rightarrow> call_answers \<Rightarrow> jsv \<Rightarrow> string \<Rightarrow> string + response" where
  "getRequestResult cfg env request ip =
     (case validateJsonRpcRequest cfg request of
        None \<Rightarrow> catch_clause request null_property_error
      | Some (False, request) \<Rightarrow>
          guarded request
            (jsonResp (if truthy (js_prop request ''id'') then js_prop request ''id'' else JNull)
              (Some InvalidRequest) JUndef)
      | Some (True, request) \<Rightarrow>
          (let i = js_prop request ''id''; method = js_prop request ''method'';
               methodTotalLimit =
                 (case methodConfig_total cfg (js_to_string method) of Some t \<Rightarrow> t | None \<Rightarrow> defaultRateLimit cfg)
           in case answer_shouldRateLimit env ip method methodTotalLimit of
                Inl msg \<Rightarrow> catch_clause request msg
              | Inr True \<Rightarrow> guarded request (jsonResp i (Some (IPRateLimitExceeded (js_to_string method))) JUndef)
              | Inr False \<Rightarrow>
                  (case answer_executeRpcMethod env method (js_prop request ''params'') of
                     Inl msg \<Rightarrow> catch_clause request msg
                   | Inr (Inl e) \<Rightarrow> guarded request (jsonResp i (Some e) JUndef)
                   | Inr (Inr v) \<Rightarrow> guarded request (jsonResp i None v))))"

datatype reply_body = SingleReply response | BatchReply "response list"

record http_reply =
  reply_status :: int
  reply_body :: reply_body
  reply_stateStatus :: "string option"
  reply_methodName :: jsv

definition status_text :: "int \<Rightarrow> string \<Rightarrow> string option" where
  "status_text c msg = Some (show_int c @ '' ('' @ msg @ '')'')"

definition handleSingleRequest :: "koa_config \<Rightarrow> call_answers \<Rightarrow> jsv \<Rightarrow> string \<Rightarrow> string + http_reply" where
  "handleSingleRequest cfg env body ip =
     and_then (getRequestResult cfg env body ip) (\<lambda>r.
       (case resp_outcome r of
          Inl e \<Rightarrow>
            (let (statusErrorCode, statusErrorMessage) = translateRpcErrorToHttpStatus e
             in Inr \<lparr> reply_status = statusErrorCode, reply_body = SingleReply r,
                      reply_stateStatus = status_text statusErrorCode statusErrorMessage,
                      reply_methodName = js_prop body ''method'' \<rparr>)
        | Inr v \<Rightarrow>
            Inr \<lparr> reply_status = 200, reply_body = SingleReply r, reply_stateStatus = None,
                  reply_methodName = js_prop body ''method'' \<rparr>))"

definition handleBatchItem :: "koa_config \<Rightarrow> call_answers \<Rightarrow> jsv \<Rightarrow> string \<Rightarrow> string + response" where
  "handleBatchItem cfg env item ip =
     (case js_get item ''method'' of
        None \<Rightarrow> Inl null_property_error
      | Some method \<Rightarrow>
          (if method \<in> JStr ` set (batchDisallowedMethods cfg)
           then jsonResp (js_prop item ''id'') (Some (BATCH_REQUESTS_METHOD_NOT_PERMITTED (js_to_string method))) JUndef
           else getRequestResult cfg env item ip))"

text \<open>\<open>Promise.all\<close>: all the results in their order, or a rejection when one is rejected.\<close>

fun promise_all :: "('e + 'a) list \<Rightarrow> 'e + 'a list" where
  "promise_all [] = Inr []"
| "promise_all (p # ps) = and_then p (\<lambda>r. and_then (promise_all ps) (\<lambda>rs. Inr (r # rs)))"

definition INVALID_REQUEST_TEXT :: string where
  "INVALID_REQUEST_TEXT = ''INVALID REQUEST''"

definition rejected_reply :: "jsv \<Rightarrow> json_rpc_error \<Rightarrow> string + http_reply" where
  "rejected_reply method e =
     and_then (jsonResp JNull (Some e) JUndef) (\<lambda>r.
       Inr \<lparr> reply_status = 400, reply_body = SingleReply r,
             reply_stateStatus = status_text 400 INVALID_REQUEST_TEXT, reply_methodName = method \<rparr>)"

definition handleMultipleRequest ::
  "koa_config \<Rightarrow> (nat \<Rightarrow> call_answers) \<Rightarrow> jsv list \<Rightarrow> string \<Rightarrow> string + http_reply" where
  "handleMultipleRequest cfg env body ip =
     (if \<not> batchRequestsEnabled cfg then rejected_reply JUndef BATCH_REQUESTS_DISABLED
      else if batchRequestsMaxSize cfg < length body
        then rejected_reply JUndef
          (BATCH_REQUESTS_AMOUNT_MAX_EXCEEDED (int (length body)) (int (batchRequestsMaxSize cfg)))
      else and_then (promise_all (map (\<lambda>i. handleBatchItem cfg (env i) (body ! i) ip) [0..<length body]))
        (\<lambda>rs. Inr \<lparr> reply_status = 200, reply_body = BatchReply rs, reply_stateStatus = Some ''200'',
                     reply_methodName = JStr ''batch_request'' \<rparr>))"

definition rpcApp ::
  "koa_config \<Rightarrow> (nat \<Rightarrow> call_answers) \<Rightarrow> string \<Rightarrow> string + jsv \<Rightarrow> string \<Rightarrow> string + http_reply" where
  "rpcApp cfg env httpMethod parsed ip =
     (if httpMethod \<noteq> ''POST'' then rejected_reply JUndef InvalidRequest
      else (case parsed of
              Inl err \<Rightarrow>
                and_then (jsonResp JNull (Some ParseError) JUndef) (\<lambda>r.
                  Inr \<lparr> reply_status = 200, reply_body = SingleReply r, reply_stateStatus = None,
                        reply_methodName = JUndef \<rparr>)
            | Inr (JArr items) \<Rightarrow> handleMultipleRequest cfg env items ip
            | Inr body \<Rightarrow> handleSingleRequest cfg (env 0) body ip))"

text \<open>The status the client sees.\<close>

fun http_status :: "string + http_reply \<Rightarrow> int" where
  "http_status (Inl msg) = 500"
| "http_status (Inr r) = reply_status r"

subsection \<open>Responses\<close>

definition response_id :: "jsv \<Rightarrow> bool" where
  "response_id i = (i = JNull \<or> js_typeof i = ''string'' \<or> js_typeof i = ''number'')"

lemma jsonResp_error: "jsonResp i (Some e) JUndef =
    (if response_id i then Inr \<lparr> resp_id = i, resp_outcome = Inl e \<rparr> else Inl (''Invalid id type '' @ js_typeof i))"
  by (auto simp: jsonResp_def response_id_def)

lemma js_typeof_undefined [simp]: "js_typeof v = ''undefined'' \<longleftrightarrow> v = JUndef"
  by (cases v) auto

lemma jsonResp_result: "jsonResp i None v =
    (if \<not> response_id i then Inl (''Invalid id type '' @ js_typeof i)
     else if v = JUndef then Inl ''Missing result or error'' else Inr \<lparr> resp_id = i, resp_outcome = Inr v \<rparr>)"
  by (auto simp: jsonResp_def response_id_def)

lemma InternalError_text: "InternalError (JStr msg) = plain_error (-32603) ''Internal error''"
  by (simp add: InternalError_def js_prop_def)

lemmas response_simps = jsonResp_error jsonResp_result InternalError_text catch_clause_def

text \<open>What JSON-RPC 2.0 asks of a request, and what the server should answer to it.\<close>

definition well_formed :: "koa_config \<Rightarrow> jsv \<Rightarrow> bool" where
  "well_formed cfg request =
     (js_prop request ''jsonrpc'' = JStr ''2.0'' \<and> has_own request ''method'' \<and>
      (has_own request ''id'' \<or> requestIdIsOptional cfg))"

definition expected_id :: "koa_config \<Rightarrow> jsv \<Rightarrow> jsv" where
  "expected_id cfg request =
     (if well_formed cfg request
      then (if has_own request ''id'' then js_prop request ''id'' else JStr ''0'')
      else if truthy (js_prop request ''id'') then js_prop request ''id'' else JNull)"

definition method_limit :: "koa_config \<Rightarrow> jsv \<Rightarrow> int" where
  "method_limit cfg method =
     (case methodConfig_total cfg (js_to_string method) of Some t \<Rightarrow> t | None \<Rightarrow> defaultRateLimit cfg)"

definition expected_outcome :: "koa_config \<Rightarrow> call_answers \<Rightarrow> jsv \<Rightarrow> string \<Rightarrow> json_rpc_error + jsv" where
  "expected_outcome cfg env request ip =
     (let method = js_prop request ''method''; internal = plain_error (-32603) ''Internal error''
      in if \<not> well_formed cfg request then Inl InvalidRequest
         else (case answer_shouldRateLimit env ip method (method_limit cfg method) of
                 Inl msg \<Rightarrow> Inl internal
               | Inr True \<Rightarrow> Inl (IPRateLimitExceeded (js_to_string method))
               | Inr False \<Rightarrow>
                   (case answer_executeRpcMethod env method (js_prop request ''params'') of
                      Inl msg \<Rightarrow> Inl internal
                    | Inr (Inl e) \<Rightarrow> Inl e
                    | Inr (Inr v) \<Rightarrow> if v = JUndef then Inl internal else Inr v)))"

lemma validateJsonRpcRequest_object:
  assumes "is_plain_object request"
  shows "validateJsonRpcRequest cfg request =
     (if well_formed cfg request
      then Some (True, if has_own request ''id'' then request else js_set_prop request ''id'' (JStr ''0''))
      else Some (False, request))"
proof -
  obtain ps where "request = JObj ps" using assms by (cases request) auto
  then show ?thesis
    by (auto simp: validateJsonRpcRequest_def hasInvalidRequestId_def well_formed_def Let_def js_prop_def
        split: option.splits)
qed

lemma request_is_answered:
  assumes "is_plain_object request" and "has_own request ''id'' \<longrightarrow> response_id (js_prop request ''id'')"
  shows "getRequestResult cfg env request ip =
    Inr \<lparr> resp_id = expected_id cfg request, resp_outcome = expected_outcome cfg env request ip \<rparr>"
proof -
  obtain ps where obj: "request = JObj ps" using assms(1) by (cases request) auto
  define r where "r = (if has_own request ''id'' then request else js_set_prop request ''id'' (JStr ''0''))"
  have own: "js_get r ''id'' = Some (js_prop r ''id'')" by (simp add: r_def obj)
  have rid: "js_prop r ''id'' = (if has_own request ''id'' then js_prop request ''id'' else JStr ''0'')"
    using js_prop_set_same [OF assms(1)] by (simp add: r_def)
  with assms(2) have ok: "response_id (js_prop r ''id'')" by (simp add: response_id_def)
  have same: "js_prop r ''method'' = js_prop request ''method''" "js_prop r ''params'' = js_prop request ''params''"
    by (simp_all add: r_def js_prop_set_other)
  note result = getRequestResult_def validateJsonRpcRequest_object [OF assms(1)] expected_id_def expected_outcome_def
  show ?thesis
  proof (cases "well_formed cfg request")
    case True
    have eid: "expected_id cfg request = js_prop r ''id''" using True rid by (simp add: expected_id_def)
    from True show ?thesis
      using own ok same
      by (simp add: getRequestResult_def validateJsonRpcRequest_object [OF assms(1)] expected_outcome_def eid
          r_def [symmetric] response_simps Let_def method_limit_def split: sum.split bool.split)
  next
    case False
    have "\<not> has_own request ''id'' \<Longrightarrow> js_prop request ''id'' = JUndef"
      using prop_lookup_own [of ps "''id''"] by (auto simp: obj)
    with assms(2) have "truthy (js_prop request ''id'') \<Longrightarrow> response_id (js_prop request ''id'')"
      by (cases "has_own request ''id''") auto
    then have "jsonResp (expected_id cfg request) (Some InvalidRequest) JUndef =
        Inr \<lparr> resp_id = expected_id cfg request, resp_outcome = Inl InvalidRequest \<rparr>"
      using False by (auto simp: expected_id_def jsonResp_error) (simp add: response_id_def)
    with False show ?thesis by (simp add: result)
  qed
qed

text \<open>
  C2. The answer to a request object whose id is absent, \<open>null\<close>, a string or a number: it always comes,
  it echoes the id (with the default of an optional one), and its outcome is the one the protocol
  asks for. A failure inside the server is the error \<open>-32603\<close> \<open>Internal error\<close>, whose text says
  nothing of the failure.
\<close>

theorem getRequestResult_answers:
  assumes "is_plain_object request" and "has_own request ''id'' \<longrightarrow> response_id (js_prop request ''id'')"
  shows "getRequestResult cfg env request ip =
    Inr \<lparr> resp_id = expected_id cfg request, resp_outcome = expected_outcome cfg env request ip \<rparr>"
  by (rule request_is_answered [OF assms])

definition sample_koa :: koa_config where
  "sample_koa =
     \<lparr> requestIdIsOptional = True, batchRequestsEnabled = True, batchRequestsMaxSize = 100,
       batchDisallowedMethods = [''debug_traceTransaction''], methodConfig_total = Map.empty, defaultRateLimit = 200 \<rparr>"

definition sample_answers :: call_answers where
  "sample_answers =
     \<lparr> answer_shouldRateLimit = (\<lambda>ip m l. Inr False), answer_executeRpcMethod = (\<lambda>m ps. Inr (Inr (JStr ''0x12a''))) \<rparr>"

definition sample_request :: jsv where
  "sample_request = JObj [(''jsonrpc'', JStr ''2.0''), (''method'', JStr ''eth_chainId'')]"

theorem getRequestResult_answers_witness:
  "getRequestResult sample_koa sample_answers sample_request ''1.2.3.4'' =
     Inr \<lparr> resp_id = JStr ''0'', resp_outcome = Inr (JStr ''0x12a'') \<rparr>"
  using getRequestResult_answers [of sample_request sample_koa sample_answers "''1.2.3.4''"]
  by (simp add: sample_koa_def sample_answers_def sample_request_def expected_id_def expected_outcome_def
      well_formed_def response_id_def Let_def)

subsection \<open>Batches\<close>

lemma promise_all_Inr: "promise_all ps = Inr rs \<longleftrightarrow> ps = map Inr rs"
  by (induction ps arbitrary: rs) (auto simp: outcome_simps)

lemma promise_all_rejected: "Inl e \<in> set ps \<Longrightarrow> \<exists>e'. promise_all ps = Inl e'"
  by (cases "promise_all ps") (auto simp: promise_all_Inr)

definition batch_ready :: "koa_config \<Rightarrow> jsv list \<Rightarrow> bool" where
  "batch_ready cfg body = (batchRequestsEnabled cfg \<and> length body \<le> batchRequestsMaxSize cfg)"

lemma handleMultipleRequest_ready:
  "batch_ready cfg body \<Longrightarrow> handleMultipleRequest cfg env body ip =
     and_then (promise_all (map (\<lambda>i. handleBatchItem cfg (env i) (body ! i) ip) [0..<length body]))
       (\<lambda>rs. Inr \<lparr> reply_status = 200, reply_body = BatchReply rs, reply_stateStatus = Some ''200'',
                    reply_methodName = JStr ''batch_request'' \<rparr>)"
  by (auto simp: handleMultipleRequest_def batch_ready_def)

text \<open>What one item of a batch should be answered: a method that batches may not call is refused.\<close>

definition not_in_batches :: "koa_config \<Rightarrow> jsv \<Rightarrow> bool" where
  "not_in_batches cfg item = (js_prop item ''method'' \<in> JStr ` set (batchDisallowedMethods cfg))"

definition expected_item :: "koa_config \<Rightarrow> call_answers \<Rightarrow> jsv \<Rightarrow> string \<Rightarrow> response" where
  "expected_item cfg env item ip =
     (if not_in_batches cfg item
      then \<lparr> resp_id = js_prop item ''id'',
             resp_outcome = Inl (BATCH_REQUESTS_METHOD_NOT_PERMITTED (js_to_string (js_prop item ''method''))) \<rparr>
      else \<lparr> resp_id = expected_id cfg item, resp_outcome = expected_outcome cfg env item ip \<rparr>)"

lemma batch_item_answered:
  assumes "is_plain_object item" and "has_own item ''id'' \<longrightarrow> response_id (js_prop item ''id'')"
    and "not_in_batches cfg item \<longrightarrow> has_own item ''id''"
  shows "handleBatchItem cfg env item ip = Inr (expected_item cfg env item ip)"
proof -
  have "js_get item ''method'' = Some (js_prop item ''method'')" using assms(1) by (cases item) auto
  with assms show ?thesis
    using request_is_answered [OF assms(1,2)]
    by (simp add: handleBatchItem_def expected_item_def not_in_batches_def response_simps)
qed

text \<open>
  C13. A batch within the limits whose items are objects that can be answered (an id, where there is one, is
  \<open>null\<close>, a text or a number, and a call of a method that batches may not make has one) is answered with status 200
  and, in the order of the items, for each item its own id and the outcome the protocol asks for: the result or the
  error of its own call, an error for a malformed item, and a refusal for a method that batches may not call. A batch
  that is too long, or that comes when batches are switched off, is refused as a whole, and no item is answered.
\<close>

theorem batch_in_order:
  assumes "\<forall>item \<in> set body. is_plain_object item \<and> (has_own item ''id'' \<longrightarrow> response_id (js_prop item ''id'')) \<and>
      (not_in_batches cfg item \<longrightarrow> has_own item ''id'')"
  shows "handleMultipleRequest cfg env body ip =
    (if \<not> batchRequestsEnabled cfg
     then Inr \<lparr> reply_status = 400, reply_body = SingleReply \<lparr> resp_id = JNull, resp_outcome = Inl BATCH_REQUESTS_DISABLED \<rparr>,
                reply_stateStatus = status_text 400 INVALID_REQUEST_TEXT, reply_methodName = JUndef \<rparr>
     else if batchRequestsMaxSize cfg < length body
     then Inr \<lparr> reply_status = 400,
                reply_body = SingleReply \<lparr> resp_id = JNull, resp_outcome =
                  Inl (BATCH_REQUESTS_AMOUNT_MAX_EXCEEDED (int (length body)) (int (batchRequestsMaxSize cfg))) \<rparr>,
                reply_stateStatus = status_text 400 INVALID_REQUEST_TEXT, reply_methodName = JUndef \<rparr>
     else Inr \<lparr> reply_status = 200,
                reply_body = BatchReply (map (\<lambda>i. expected_item cfg (env i) (body ! i) ip) [0..<length body]),
                reply_stateStatus = Some ''200'', reply_methodName = JStr ''batch_request'' \<rparr>)"
proof -
  have "map (\<lambda>i. handleBatchItem cfg (env i) (body ! i) ip) [0..<length body] =
      map Inr (map (\<lambda>i. expected_item cfg (env i) (body ! i) ip) [0..<length body])"
    using assms by (simp add: batch_item_answered)
  then have "promise_all (map (\<lambda>i. handleBatchItem cfg (env i) (body ! i) ip) [0..<length body]) =
      Inr (map (\<lambda>i. expected_item cfg (env i) (body ! i) ip) [0..<length body])"
    by (simp only: promise_all_Inr)
  then show ?thesis
    by (simp add: handleMultipleRequest_def rejected_reply_def jsonResp_error response_id_def)
qed

theorem batch_in_order_witness:
  "handleMultipleRequest sample_koa (\<lambda>i. sample_answers)
     [sample_request, JObj [(''id'', JNum 7), (''method'', JStr ''debug_traceTransaction'')], JObj [(''id'', JStr ''x'')]] ''1.2.3.4'' =
    Inr \<lparr> reply_status = 200,
          reply_body = BatchReply
            [\<lparr> resp_id = JStr ''0'', resp_outcome = Inr (JStr ''0x12a'') \<rparr>,
             \<lparr> resp_id = JNum 7, resp_outcome = Inl (BATCH_REQUESTS_METHOD_NOT_PERMITTED ''debug_traceTransaction'') \<rparr>,
             \<lparr> resp_id = JStr ''x'', resp_outcome = Inl InvalidRequest \<rparr>],
          reply_stateStatus = Some ''200'', reply_methodName = JStr ''batch_request'' \<rparr>"
  by (subst batch_in_order)
    (auto simp: sample_koa_def sample_answers_def sample_request_def expected_item_def not_in_batches_def expected_id_def
      expected_outcome_def well_formed_def response_id_def Let_def js_prop_def image_iff upt_rec)

text \<open>
  One item decides over the whole batch: when answering it throws, every other item loses its
  response and the client sees status 500. Such items are a \<open>null\<close>, one whose id is an object, and
  one that calls a disallowed method without an id, even where the id is optional.
\<close>

theorem batch_poisoned:
  assumes "batch_ready cfg body" and "i < length body"
    and "body ! i = JNull \<or>
      (\<exists>ps m. body ! i = JObj ps \<and> m \<in> set (batchDisallowedMethods cfg) \<and> prop_lookup ps ''method'' = JStr m \<and>
        prop_lookup ps ''id'' = JUndef) \<or>
      (\<exists>ps fields. body ! i = JObj ps \<and> prop_lookup ps ''id'' = JObj fields)"
  shows "http_status (handleMultipleRequest cfg env body ip) = 500"
proof -
  have "\<exists>msg. handleBatchItem cfg (env i) (body ! i) ip = Inl msg"
    using assms(3)
  proof (elim disjE exE conjE)
    fix ps fields assume obj: "body ! i = JObj ps" "prop_lookup ps ''id'' = JObj fields"
    then have own: "has_own (JObj ps) ''id''"
      using prop_lookup_own [of ps "''id''"] by simp
    show ?thesis using obj(2) validateJsonRpcRequest_object [of "JObj ps" cfg] own
      by (auto simp: obj(1) handleBatchItem_def getRequestResult_def response_simps response_id_def Let_def
          split: sum.split bool.split)
  qed (auto simp: handleBatchItem_def response_simps response_id_def image_iff)
  then obtain msg where "Inl msg \<in> set (map (\<lambda>i. handleBatchItem cfg (env i) (body ! i) ip) [0..<length body])"
    using assms(2) by (force simp: image_iff)
  from promise_all_rejected [OF this] assms(1) show ?thesis
    by (auto simp: handleMultipleRequest_ready)
qed

theorem batch_poisoned_witness:
  "http_status (handleMultipleRequest sample_koa (\<lambda>i. sample_answers)
     [sample_request, JObj [(''jsonrpc'', JStr ''2.0''), (''method'', JStr ''debug_traceTransaction'')]] ''1.2.3.4'') = 500"
  by (rule batch_poisoned [where i = 1]) (simp_all add: batch_ready_def sample_koa_def)

subsection \<open>The HTTP status\<close>

text \<open>
  A failure of the mirror node reaches the client with the HTTP status that belongs to it: a 404
  becomes 400, a 429 stays 429, a 501 stays 501, any other status becomes 500. It holds for the
  whole way from the exception of the handler through the dispatcher to the reply.
\<close>

theorem mirror_failure_status:
  assumes "getRequestResult cfg env body ip = Inr r"
    and "resp_outcome r = Inl (handleRpcMethodError st (ThrownMirror e) d)"
  shows "http_status (handleSingleRequest cfg env body ip) =
    (if mne_statusCode e = 404 then 400 else if mne_statusCode e = 429 then 429
     else if mne_statusCode e = 501 then 501 else 500)"
proof -
  let ?err = "handleRpcMethodError st (ThrownMirror e) d"
  have err: "err_code ?err = -32020" "err_data ?err = Some (show_int (mne_statusCode e))"
    by (simp_all add: handleRpcMethodError_def Let_def MIRROR_NODE_UPSTREAM_FAIL_def JsonRpcError_def)
  have decimal: "show_int (mne_statusCode e) = show_int n \<longleftrightarrow> mne_statusCode e = n" for n
    using show_int_inject by blast
  have "show_int 404 = ''404''" "show_int 429 = ''429''" "show_int 501 = ''501''"
    by (simp_all add: int_to_base_def to_base.simps digit_char_eval)
  then have num: "show_int (mne_statusCode e) = ''404'' \<longleftrightarrow> mne_statusCode e = 404"
    "show_int (mne_statusCode e) = ''429'' \<longleftrightarrow> mne_statusCode e = 429"
    "show_int (mne_statusCode e) = ''501'' \<longleftrightarrow> mne_statusCode e = 501"
    using decimal [of 404] decimal [of 429] decimal [of 501] by simp_all
  have "show_int (mne_statusCode e) \<noteq> ''''" by (rule show_int_not_Nil)
  then have "fst (translateRpcErrorToHttpStatus ?err) =
      (if mne_statusCode e = 404 then 400 else if mne_statusCode e = 429 then 429
       else if mne_statusCode e = 501 then 501 else 500)"
    by (simp add: translateRpcErrorToHttpStatus_def Let_def err MIRROR_NODE_ERROR_MAP_def num)
  with assms show ?thesis by (simp add: handleSingleRequest_def case_prod_beta)
qed

theorem mirror_failure_status_witness:
  "http_status (handleSingleRequest sample_koa
      \<lparr> answer_shouldRateLimit = (\<lambda>ip m l. Inr False),
        answer_executeRpcMethod = (\<lambda>m ps. Inr (Inl (handleRpcMethodError sample_status
           (ThrownMirror \<lparr> mne_message = ''busy'', mne_statusCode = 429, mne_detail = None, mne_data = None \<rparr>) sample_details))) \<rparr>
      sample_request ''1.2.3.4'') = 429"
  by (subst mirror_failure_status
      [where e = "\<lparr> mne_message = ''busy'', mne_statusCode = 429, mne_detail = None, mne_data = None \<rparr>"
        and st = sample_status and d = sample_details,
        OF getRequestResult_answers])
    (simp_all add: sample_koa_def sample_request_def expected_outcome_def well_formed_def Let_def)

subsection \<open>Concurrent requests and the details of a request\<close>

text \<open>
  \<open>KoaJsonRpc\<close> keeps the id and the address of "the" request in fields of the one server object.
  A request sets them when it arrives, then waits for its body; it reads them back when it asks
  the rate limiter and, after another wait, when it calls the relay, which uses the address for
  the spending plan of the caller. The events of the requests interleave freely at the waits.
\<close>

datatype koa_event = Arrives nat | AsksLimiter nat | CallsRelay nat

record koa_shared =
  shared_details :: request_details
  limiter_details :: "nat \<Rightarrow> request_details option"
  relay_details :: "nat \<Rightarrow> request_details option"

fun koa_step :: "(nat \<Rightarrow> request_details) \<Rightarrow> koa_event \<Rightarrow> koa_shared \<Rightarrow> koa_shared" where
  "koa_step own (Arrives k) s = s\<lparr> shared_details := own k \<rparr>"
| "koa_step own (AsksLimiter k) s = s\<lparr> limiter_details := (limiter_details s)(k \<mapsto> shared_details s) \<rparr>"
| "koa_step own (CallsRelay k) s = s\<lparr> relay_details := (relay_details s)(k \<mapsto> shared_details s) \<rparr>"

definition koa_run :: "(nat \<Rightarrow> request_details) \<Rightarrow> koa_event list \<Rightarrow> koa_shared \<Rightarrow> koa_shared" where
  "koa_run own evs s = foldl (\<lambda>s ev. koa_step own ev s) s evs"

fun last_arrival :: "koa_event list \<Rightarrow> nat option \<Rightarrow> nat option" where
  "last_arrival [] k = k"
| "last_arrival (Arrives j # evs) k = last_arrival evs (Some j)"
| "last_arrival (ev # evs) k = last_arrival evs k"

lemma shared_details_last_arrival:
  "shared_details s = (case k of None \<Rightarrow> d0 | Some j \<Rightarrow> own j) \<Longrightarrow>
   shared_details (koa_run own evs s) = (case last_arrival evs k of None \<Rightarrow> d0 | Some j \<Rightarrow> own j)"
proof (induction evs arbitrary: s k)
  case (Cons ev evs)
  then show ?case by (cases ev) (auto simp: koa_run_def)
qed (simp add: koa_run_def)

text \<open>
  The relay is called with the details of the request that arrived last, not of the request that
  is served: they are its own exactly when no other request with different details arrived while
  it waited.
\<close>

theorem relay_details_are_of_last_arrival:
  assumes "last_arrival evs (Some k) = Some j"
  shows "relay_details (koa_run own ([Arrives k] @ evs @ [CallsRelay k]) s) k = Some (own j)"
proof -
  have "shared_details (koa_run own evs (koa_step own (Arrives k) s)) = own j"
    using shared_details_last_arrival [where s = "koa_step own (Arrives k) s" and k = "Some k" and own = own and evs = evs] assms
    by simp
  then show ?thesis by (simp add: koa_run_def)
qed

definition sample_own :: "nat \<Rightarrow> request_details" where
  "sample_own k = \<lparr> rd_requestId = show_int (int k), rd_ipAddress = (if k = 0 then ''10.0.0.1'' else ''10.0.0.2''),
     rd_connectionId = None \<rparr>"

definition sample_shared :: koa_shared where
  "sample_shared =
     \<lparr> shared_details = sample_own 0, limiter_details = Map.empty, relay_details = Map.empty \<rparr>"

theorem relay_details_are_of_last_arrival_witness:
  "map_option rd_ipAddress (relay_details
     (koa_run sample_own [Arrives 0, Arrives 1, AsksLimiter 0, CallsRelay 0] sample_shared) 0) = Some ''10.0.0.2''"
  using relay_details_are_of_last_arrival [of "[Arrives 1, AsksLimiter 0]" 0 1 sample_own sample_shared]
  by (simp add: sample_own_def)

end
