(* ===== verification/RateLimiter.thy ===== *)
theory RateLimiter
  imports Dispatcher
begin

section \<open>Rate limits by address and method\<close>

text \<open>
  Models \<open>packages/relay/src/lib/services/rateLimiterService\<close>: the in-memory store
  (\<open>LruRateLimitStore.ts\<close>), the Redis store with its script (\<open>RedisRateLimitStore.ts\<close>) and the
  service that chooses a store and consults it, and \<open>types/rateLimiter.ts\<close>.

  The contract both stores are for is the locale \<open>rate_limit_store\<close>: inside one time window a key
  has a quota that every admitted request takes one from. The in-memory store is an
  interpretation of it; the Redis store satisfies it under the documented behaviour of \<open>INCR\<close> and
  \<open>EXPIRE\<close> (\<open>redis_counter_laws\<close>), whose server is an argument of the model.

  Times are milliseconds. One call reads the clock once. Method names are not members of
  \<open>Object.prototype\<close>.
\<close>

subsection \<open>The contract of a store\<close>

locale rate_limit_store =
  fixes check :: "'s \<Rightarrow> int \<Rightarrow> 'k \<Rightarrow> bool \<times> 's"
    and quota :: "'s \<Rightarrow> 'k \<Rightarrow> nat"
    and in_window :: "'s \<Rightarrow> int \<Rightarrow> 'k \<Rightarrow> bool"
  assumes limited: "in_window s t k \<Longrightarrow> check s t k = (True, s') \<Longrightarrow> quota s k = 0 \<and> quota s' k = 0"
    and admitted: "in_window s t k \<Longrightarrow> check s t k = (False, s') \<Longrightarrow> quota s k = Suc (quota s' k)"
    and others: "in_window s t k \<Longrightarrow> k' \<noteq> k \<Longrightarrow> check s t k' = (b, s') \<Longrightarrow> quota s' k = quota s k"
    and stays_open: "in_window s t k \<Longrightarrow> in_window s u k \<Longrightarrow> check s t k' = (b, s') \<Longrightarrow> in_window s' u k"
begin

text \<open>How many of the requests for a key are admitted, when the store sees the requests in order.\<close>

fun admitted_count :: "'k \<Rightarrow> 's \<Rightarrow> (int \<times> 'k) list \<Rightarrow> nat" where
  "admitted_count k s [] = 0"
| "admitted_count k s ((t, k') # reqs) =
     (case check s t k' of (b, s') \<Rightarrow> (if k' = k \<and> \<not> b then 1 else 0) + admitted_count k s' reqs)"

text \<open>Inside one window the store admits as many requests for a key as its quota allows, no more
  and no fewer, whatever other keys ask in between.\<close>

lemma admitted_exactly:
  assumes "\<forall>(t, k') \<in> set reqs. in_window s t k"
  shows "admitted_count k s reqs = min (quota s k) (length (filter (\<lambda>r. snd r = k) reqs))"
  using assms
proof (induction reqs arbitrary: s)
  case (Cons req reqs)
  obtain t k' where req: "req = (t, k')" by (cases req)
  obtain b s' where step: "check s t k' = (b, s')" by (cases "check s t k'")
  from Cons.prems have t: "in_window s t k" by (simp add: req)
  have "\<forall>(u, k'') \<in> set reqs. in_window s' u k"
    using Cons.prems stays_open [OF t _ step] by (auto simp: req)
  then have IH: "admitted_count k s' reqs = min (quota s' k) (length (filter (\<lambda>r. snd r = k) reqs))"
    by (rule Cons.IH)
  consider "k' \<noteq> k" | "k' = k" "b" | "k' = k" "\<not> b" by blast
  then show ?case
  proof cases
    case 1
    then show ?thesis using others [OF t _ step] IH by (simp add: req step)
  next
    case 2
    then show ?thesis using limited [OF t] step IH by (simp add: req)
  next
    case 3
    then show ?thesis using admitted [OF t] step IH by (simp add: req)
  qed
qed simp

end

subsection \<open>\<open>LruRateLimitStore\<close>\<close>

record method_database =
  md_methodName :: string
  md_remaining :: int
  md_total :: int

record database_entry =
  de_reset :: int
  de_methodInfo :: "string \<Rightarrow> method_database option"

type_synonym database = "string \<Rightarrow> database_entry option"

definition setNewIp :: "int \<Rightarrow> int \<Rightarrow> string \<Rightarrow> database \<Rightarrow> database" where
  "setNewIp now duration ip db = db(ip \<mapsto> \<lparr> de_reset = now + duration, de_methodInfo = Map.empty \<rparr>)"

definition update_entry :: "string \<Rightarrow> (database_entry \<Rightarrow> database_entry) \<Rightarrow> database \<Rightarrow> database" where
  "update_entry ip f db = (case db ip of None \<Rightarrow> db | Some e \<Rightarrow> db(ip \<mapsto> f e))"

definition setNewMethod :: "string \<Rightarrow> string \<Rightarrow> int \<Rightarrow> database \<Rightarrow> database" where
  "setNewMethod ip methodName allowed =
     update_entry ip (\<lambda>e. e\<lparr> de_methodInfo := (de_methodInfo e)
       (methodName \<mapsto> \<lparr> md_methodName = methodName, md_remaining = allowed, md_total = allowed \<rparr>) \<rparr>)"

definition checkIpExist :: "string \<Rightarrow> database \<Rightarrow> bool" where
  "checkIpExist ip db = (db ip \<noteq> None)"

definition method_entry :: "string \<Rightarrow> string \<Rightarrow> database \<Rightarrow> method_database option" where
  "method_entry ip m db = (case db ip of None \<Rightarrow> None | Some e \<Rightarrow> de_methodInfo e m)"

definition checkMethodExist :: "string \<Rightarrow> string \<Rightarrow> database \<Rightarrow> bool" where
  "checkMethodExist ip m db = (method_entry ip m db \<noteq> None)"

definition lru_precheck :: "int \<Rightarrow> int \<Rightarrow> string \<Rightarrow> string \<Rightarrow> int \<Rightarrow> database \<Rightarrow> database" where
  "lru_precheck now duration ip m allowed db =
     (let db1 = (if checkIpExist ip db then db else setNewIp now duration ip db)
      in if checkMethodExist ip m db1 then db1 else setNewMethod ip m allowed db1)"

definition checkRemaining :: "string \<Rightarrow> string \<Rightarrow> database \<Rightarrow> bool" where
  "checkRemaining ip m db = (case method_entry ip m db of None \<Rightarrow> False | Some d \<Rightarrow> 0 < md_remaining d)"

definition shouldReset :: "int \<Rightarrow> string \<Rightarrow> database \<Rightarrow> bool" where
  "shouldReset now ip db = (case db ip of None \<Rightarrow> False | Some e \<Rightarrow> de_reset e < now)"

definition lru_reset :: "int \<Rightarrow> int \<Rightarrow> string \<Rightarrow> string \<Rightarrow> int \<Rightarrow> database \<Rightarrow> database" where
  "lru_reset now duration ip m allowed =
     update_entry ip (\<lambda>e.
       (let restored = (\<lambda>k. map_option (\<lambda>d. d\<lparr> md_remaining := md_total d \<rparr>) (de_methodInfo e k))
        in e\<lparr> de_reset := now + duration,
              de_methodInfo := restored
                (m := map_option (\<lambda>d. d\<lparr> md_remaining := allowed, md_total := allowed \<rparr>) (restored m)) \<rparr>))"

definition decreaseRemaining :: "string \<Rightarrow> string \<Rightarrow> database \<Rightarrow> database" where
  "decreaseRemaining ip m =
     update_entry ip (\<lambda>e. e\<lparr> de_methodInfo := (de_methodInfo e)
       (m := map_option (\<lambda>d. d\<lparr> md_remaining := (if 0 < md_remaining d then md_remaining d - 1 else 0) \<rparr>)
               (de_methodInfo e m)) \<rparr>)"

definition lru_incrementAndCheck ::
  "int \<Rightarrow> int \<Rightarrow> string \<Rightarrow> string \<Rightarrow> int \<Rightarrow> database \<Rightarrow> bool \<times> database" where
  "lru_incrementAndCheck now duration ip m limit db =
     (let db1 = lru_precheck now duration ip m limit db
      in if \<not> shouldReset now ip db1
         then (if checkRemaining ip m db1 then (False, decreaseRemaining ip m db1) else (True, db1))
         else (False, decreaseRemaining ip m (lru_reset now duration ip m limit db1)))"

text \<open>The store as an instance of the contract, with a limit for every method.\<close>

definition lru_check :: "int \<Rightarrow> (string \<Rightarrow> int) \<Rightarrow> database \<Rightarrow> int \<Rightarrow> string \<times> string \<Rightarrow> bool \<times> database" where
  "lru_check duration limits db now k = lru_incrementAndCheck now duration (fst k) (snd k) (limits (snd k)) db"

definition lru_quota :: "(string \<Rightarrow> int) \<Rightarrow> database \<Rightarrow> string \<times> string \<Rightarrow> nat" where
  "lru_quota limits db k =
     (case method_entry (fst k) (snd k) db of None \<Rightarrow> nat (limits (snd k)) | Some d \<Rightarrow> nat (md_remaining d))"

definition lru_in_window :: "database \<Rightarrow> int \<Rightarrow> string \<times> string \<Rightarrow> bool" where
  "lru_in_window db now k = (case db (fst k) of None \<Rightarrow> False | Some e \<Rightarrow> now \<le> de_reset e)"

lemma lru_check_in_window:
  assumes "db ip = Some e" and "now \<le> de_reset e"
  shows "lru_incrementAndCheck now duration ip m limit db =
    (let left = (case de_methodInfo e m of None \<Rightarrow> limit | Some d \<Rightarrow> md_remaining d);
         d = (case de_methodInfo e m of
                None \<Rightarrow> \<lparr> md_methodName = m, md_remaining = limit, md_total = limit \<rparr> | Some d \<Rightarrow> d)
     in (\<not> 0 < left,
         db(ip \<mapsto> e\<lparr> de_methodInfo := (de_methodInfo e)
             (m \<mapsto> (if 0 < left then d\<lparr> md_remaining := left - 1 \<rparr> else d)) \<rparr>)))"
  using assms
  by (cases "de_methodInfo e m")
    (auto simp: lru_incrementAndCheck_def lru_precheck_def checkIpExist_def checkMethodExist_def method_entry_def
      setNewMethod_def update_entry_def shouldReset_def checkRemaining_def decreaseRemaining_def Let_def
      fun_upd_idem map_upd_triv)

lemma Suc_nat_pred: "0 < i \<Longrightarrow> Suc (nat (i - 1)) = nat i"
  by simp

lemma lru_check_other_ip:
  assumes "lru_incrementAndCheck now duration ip' m limit db = (b, db')" and "ip' \<noteq> ip"
  shows "db' ip = db ip"
  using assms
  by (auto simp: lru_incrementAndCheck_def lru_precheck_def setNewIp_def setNewMethod_def update_entry_def
      lru_reset_def decreaseRemaining_def Let_def split: option.splits if_splits)

interpretation lru: rate_limit_store "lru_check duration limits" "lru_quota limits" lru_in_window
  for duration :: int and limits :: "string \<Rightarrow> int"
proof
  fix s t u k k' s' b
  assume win: "lru_in_window s t k"
  then obtain e where e: "s (fst k) = Some e" "t \<le> de_reset e"
    by (auto simp: lru_in_window_def split: option.splits)
  note here = lru_check_in_window [where db = s and ip = "fst k" and e = e and now = t, OF e]
  show "lru_quota limits s k = 0 \<and> lru_quota limits s' k = 0" if "lru_check duration limits s t k = (True, s')"
    using that e
    by (auto simp: lru_check_def here lru_quota_def method_entry_def Let_def split: option.splits)
  show "lru_quota limits s k = Suc (lru_quota limits s' k)" if "lru_check duration limits s t k = (False, s')"
    using that e
    by (auto simp: lru_check_def here lru_quota_def method_entry_def Let_def Suc_nat_pred split: option.splits)
  show "lru_quota limits s' k = lru_quota limits s k"
    if "k' \<noteq> k" and step: "lru_check duration limits s t k' = (b, s')"
  proof (cases "fst k' = fst k")
    case True
    with \<open>k' \<noteq> k\<close> have "snd k' \<noteq> snd k" by (metis prod.collapse)
    with True step e show ?thesis
      by (auto simp: lru_check_def here lru_quota_def method_entry_def Let_def split: option.splits)
  next
    case False
    with lru_check_other_ip [OF step [unfolded lru_check_def]] show ?thesis
      by (simp add: lru_quota_def method_entry_def)
  qed
  show "lru_in_window s' u k" if "lru_in_window s u k" and step: "lru_check duration limits s t k' = (b, s')"
  proof (cases "fst k' = fst k")
    case True
    with step e that(1) show ?thesis
      by (auto simp: lru_check_def here lru_in_window_def Let_def split: option.splits)
  next
    case False
    with lru_check_other_ip [OF step [unfolded lru_check_def]] that(1) show ?thesis
      by (simp add: lru_in_window_def)
  qed
qed

fun lru_admitted :: "int \<Rightarrow> (string \<Rightarrow> int) \<Rightarrow> string \<times> string \<Rightarrow> database \<Rightarrow> (int \<times> string \<times> string) list \<Rightarrow> nat" where
  "lru_admitted duration limits k db [] = 0"
| "lru_admitted duration limits k db ((t, k') # reqs) =
     (case lru_check duration limits db t k' of
        (b, db') \<Rightarrow> (if k' = k \<and> \<not> b then 1 else 0) + lru_admitted duration limits k db' reqs)"

lemma lru_admitted_eq: "lru_admitted duration limits k db reqs = lru.admitted_count duration limits k db reqs"
  by (induction reqs arbitrary: db) (auto split: prod.split)

subsubsection \<open>Windows of the in-memory store\<close>

text \<open>The store after a history of requests, from the empty store on.\<close>

definition lru_store :: "int \<Rightarrow> (string \<Rightarrow> int) \<Rightarrow> (int \<times> string \<times> string) list \<Rightarrow> database" where
  "lru_store duration limits hist = foldl (\<lambda>db r. snd (lru_check duration limits db (fst r) (snd r))) Map.empty hist"

text \<open>Every entry of a method keeps the limit of the method as its total.\<close>

definition totals_are_limits :: "(string \<Rightarrow> int) \<Rightarrow> database \<Rightarrow> bool" where
  "totals_are_limits limits db = (\<forall>ip m d. method_entry ip m db = Some d \<longrightarrow> md_total d = limits m)"

lemma totals_are_limits_step: "totals_are_limits limits db \<Longrightarrow> totals_are_limits limits (snd (lru_check duration limits db t k))"
  by (auto simp: totals_are_limits_def lru_check_def lru_incrementAndCheck_def lru_precheck_def checkIpExist_def checkMethodExist_def
      method_entry_def setNewMethod_def setNewIp_def update_entry_def lru_reset_def decreaseRemaining_def Let_def
      split: option.splits if_splits)

lemma totals_are_limits_store: "totals_are_limits limits (lru_store duration limits hist)"
  unfolding lru_store_def
proof (induction hist rule: rev_induct)
  case (snoc r hist)
  then show ?case by (simp add: totals_are_limits_step)
qed (simp add: totals_are_limits_def method_entry_def)

text \<open>The request that finds no open window opens one; after an expired one it is admitted without a look at the limit.\<close>

lemma lru_opening_request:
  assumes "0 \<le> duration" and "\<not> lru_in_window db t0 (ip, m)" and "totals_are_limits limits db"
    and "lru_check duration limits db t0 (ip, m') = (b, db')"
  shows "(case db' ip of None \<Rightarrow> False | Some e \<Rightarrow> de_reset e = t0 + duration)"
    and "b = (db ip = None \<and> limits m' \<le> 0)"
    and "lru_quota limits db' (ip, m) = (if m' = m then nat (limits m - 1) else nat (limits m))"
proof -
  have all: "(case db' ip of None \<Rightarrow> False | Some e \<Rightarrow> de_reset e = t0 + duration) \<and> b = (db ip = None \<and> limits m' \<le> 0) \<and>
    lru_quota limits db' (ip, m) = (if m' = m then nat (limits m - 1) else nat (limits m))"
  proof (cases "db ip")
    case None
    with assms(1,4) show ?thesis
      by (auto simp: lru_check_def lru_incrementAndCheck_def lru_precheck_def checkIpExist_def checkMethodExist_def method_entry_def
          setNewMethod_def setNewIp_def update_entry_def shouldReset_def checkRemaining_def decreaseRemaining_def Let_def lru_quota_def
          split: if_splits)
  next
    case (Some e)
    with assms(2) have "de_reset e < t0" by (simp add: lru_in_window_def)
    moreover have "md_total d = limits k" if "de_methodInfo e k = Some d" for k d
      using assms(3) [unfolded totals_are_limits_def, rule_format, of ip k d] that Some by (simp add: method_entry_def)
    ultimately show ?thesis using assms(4) Some
      by (cases "de_methodInfo e m'"; cases "de_methodInfo e m"; cases "m' = m")
        (auto simp: lru_check_def lru_incrementAndCheck_def lru_precheck_def checkIpExist_def checkMethodExist_def method_entry_def
          setNewMethod_def update_entry_def shouldReset_def lru_reset_def decreaseRemaining_def Let_def lru_quota_def)
  qed
  from all show "case db' ip of None \<Rightarrow> False | Some e \<Rightarrow> de_reset e = t0 + duration" and "b = (db ip = None \<and> limits m' \<le> 0)"
    and "lru_quota limits db' (ip, m) = (if m' = m then nat (limits m - 1) else nat (limits m))" by blast+
qed

text \<open>
  C10. Whatever requests came before, a request of an address that has no open window, because none was opened yet or
  because the last one expired, opens the next. Of all the requests that arrive within its duration, from any address
  for any method, as many for a method of this address are admitted as its limit allows, no more and no fewer; only
  where the limit is not positive and the window follows an expired one, the request that opens it is admitted.
\<close>

theorem lru_window_exact:
  assumes "0 \<le> duration" and "\<not> lru_in_window (lru_store duration limits hist) t0 (ip, m)"
    and "\<forall>(t, k') \<in> set reqs. t0 \<le> t \<and> t \<le> t0 + duration"
  shows "lru_admitted duration limits (ip, m) (lru_store duration limits hist) ((t0, (ip, m')) # reqs) =
    (if m' = m \<and> limits m \<le> 0 \<and> lru_store duration limits hist ip \<noteq> None then 1
     else min (nat (limits m)) (length (filter (\<lambda>r. snd r = (ip, m)) ((t0, (ip, m')) # reqs))))"
proof -
  define db where "db = lru_store duration limits hist"
  define n where "n = length (filter (\<lambda>r. snd r = (ip, m)) reqs)"
  obtain b db' where step: "lru_check duration limits db t0 (ip, m') = (b, db')" by fastforce
  note opened = lru_opening_request [OF assms(1) assms(2) [folded db_def] totals_are_limits_store [of limits duration hist, folded db_def] step]
  have "lru_in_window db' t k'" if "(t, k'') \<in> set reqs" "fst k' = ip" for t k' k''
    using opened(1) assms(3) that by (auto simp: lru_in_window_def split: option.split_asm)
  then have "lru.admitted_count duration limits (ip, m) db' reqs = min (lru_quota limits db' (ip, m)) n"
    unfolding n_def by (intro lru.admitted_exactly) auto
  then have rest: "lru_admitted duration limits (ip, m) db' reqs = min (if m' = m then nat (limits m - 1) else nat (limits m)) n"
    by (simp add: lru_admitted_eq opened(3))
  have "lru_admitted duration limits (ip, m) db ((t0, (ip, m')) # reqs) =
      (if m' = m \<and> \<not> b then 1 else 0) + min (if m' = m then nat (limits m - 1) else nat (limits m)) n"
    by (simp add: step rest)
  moreover have "length (filter (\<lambda>r. snd r = (ip, m)) ((t0, (ip, m')) # reqs)) = (if m' = m then Suc n else n)"
    by (simp add: n_def)
  ultimately show ?thesis unfolding opened(2) db_def [symmetric] by (auto simp del: lru_admitted.simps)
qed

theorem lru_window_exact_witness:
  "lru_admitted 1000 (\<lambda>m. 2) (''1.1.1.1'', ''eth_call'')
     (lru_store 1000 (\<lambda>m. 2) [(5, (''1.1.1.1'', ''eth_call'')), (6, (''1.1.1.1'', ''eth_call'')), (7, (''1.1.1.1'', ''eth_call''))])
     [(1006, (''1.1.1.1'', ''eth_call'')), (1007, (''2.2.2.2'', ''eth_call'')), (1008, (''1.1.1.1'', ''eth_call'')),
      (2006, (''1.1.1.1'', ''eth_call''))] = 2"
proof -
  have "\<not> lru_in_window (lru_store 1000 (\<lambda>m. 2)
      [(5, (''1.1.1.1'', ''eth_call'')), (6, (''1.1.1.1'', ''eth_call'')), (7, (''1.1.1.1'', ''eth_call''))]) 1006 (''1.1.1.1'', ''eth_call'')"
    by (simp add: lru_store_def lru_check_def lru_incrementAndCheck_def lru_precheck_def checkIpExist_def checkMethodExist_def
        method_entry_def setNewMethod_def setNewIp_def update_entry_def shouldReset_def checkRemaining_def decreaseRemaining_def
        Let_def lru_in_window_def)
  then show ?thesis by (subst lru_window_exact) simp_all
qed

text \<open>
  The window after an expired one starts without a look at the quota: a request that finds its
  window expired is admitted even where the limit is zero, where no request of a first window
  is.
\<close>

theorem lru_zero_limit_admits:
  assumes "db ip = Some e" and "de_reset e < now"
  shows "fst (lru_incrementAndCheck now duration ip m 0 db) = False \<and>
    fst (lru_incrementAndCheck now duration ip m 0 (setNewIp now duration ip db)) = (0 \<le> duration)"
  using assms
  by (auto simp: lru_incrementAndCheck_def lru_precheck_def checkIpExist_def checkMethodExist_def method_entry_def
      setNewMethod_def setNewIp_def update_entry_def shouldReset_def checkRemaining_def Let_def split: option.splits)

theorem lru_zero_limit_admits_witness:
  "fst (lru_incrementAndCheck 11 5 ''a'' ''m'' 0 [''a'' \<mapsto> \<lparr> de_reset = 10, de_methodInfo = Map.empty \<rparr>]) = False"
  using lru_zero_limit_admits [of "[''a'' \<mapsto> \<lparr> de_reset = 10, de_methodInfo = Map.empty \<rparr>]" "''a''"
      "\<lparr> de_reset = 10, de_methodInfo = Map.empty \<rparr>" 11 5 "''m''"] by simp

text \<open>
  Although the store is called LRU, nothing ever leaves it: an entry made for an address and a
  method stays whatever requests follow, so its size grows with the addresses and methods seen.
\<close>

theorem lru_store_never_forgets:
  "checkMethodExist ip m (snd (lru_incrementAndCheck now duration ip m limit db)) \<and>
   (case method_entry ip' m' db of None \<Rightarrow> True
    | Some d \<Rightarrow> checkMethodExist ip' m' (snd (lru_incrementAndCheck now duration ip m limit db)))"
  by (auto simp: lru_incrementAndCheck_def lru_precheck_def checkIpExist_def checkMethodExist_def method_entry_def
      setNewMethod_def setNewIp_def update_entry_def lru_reset_def decreaseRemaining_def Let_def
      split: option.splits)

subsection \<open>\<open>RedisRateLimitStore\<close>\<close>

text \<open>\<open>RateLimitKey.toString\<close>.\<close>

definition RateLimitKey_toString :: "string \<Rightarrow> string \<Rightarrow> string" where
  "RateLimitKey_toString ip method = ''ratelimit:'' @ ip @ '':'' @ method"

text \<open>The two commands of a Redis server the script calls; the server's state is its own.\<close>

record 'r redis_commands =
  redis_INCR :: "int \<Rightarrow> string \<Rightarrow> 'r \<Rightarrow> int \<times> 'r"
  redis_EXPIRE :: "int \<Rightarrow> string \<Rightarrow> int \<Rightarrow> 'r \<Rightarrow> 'r"

text \<open>\<open>LUA_SCRIPT\<close> with its key and arguments.\<close>

definition lua_script :: "'r redis_commands \<Rightarrow> int \<Rightarrow> string \<Rightarrow> int \<Rightarrow> int \<Rightarrow> 'r \<Rightarrow> int \<times> 'r" where
  "lua_script cmds now key limit seconds r =
     (let (current, r1) = redis_INCR cmds now key r;
          r2 = (if current = 1 then redis_EXPIRE cmds now key seconds r1 else r1)
      in (if limit < current then 1 else 0, r2))"

text \<open>The connection: up, not connected, or failing while the script runs.\<close>

datatype redis_link = LinkUp | LinkDown | LinkFails

text \<open>\<open>Math.ceil(duration / 1000)\<close> for a number of milliseconds.\<close>

definition durationSeconds :: "int \<Rightarrow> int" where
  "durationSeconds duration = (duration + 999) div 1000"

definition redis_incrementAndCheck ::
  "'r redis_commands \<Rightarrow> redis_link \<Rightarrow> int \<Rightarrow> int \<Rightarrow> string \<Rightarrow> int \<Rightarrow> 'r \<Rightarrow> bool \<times> 'r" where
  "redis_incrementAndCheck cmds link now duration key limit r =
     (case link of
        LinkUp \<Rightarrow> (case lua_script cmds now key limit (durationSeconds duration) r of (res, r') \<Rightarrow> (res = 1, r'))
      | LinkDown \<Rightarrow> (False, r)
      | LinkFails \<Rightarrow> (False, r))"

text \<open>
  The documented behaviour of \<open>INCR\<close> and \<open>EXPIRE\<close>, over what a client can observe: a key's value
  and its deadline, if it has one. A key is live until its deadline; \<open>INCR\<close> counts a key that is
  not live from zero and keeps the deadline of a live one.
\<close>

definition live :: "(int \<times> int option) option \<Rightarrow> int \<Rightarrow> bool" where
  "live v now = (case v of None \<Rightarrow> False | Some (n, None) \<Rightarrow> True | Some (n, Some d) \<Rightarrow> now < d)"

definition redis_counter_laws ::
  "'r redis_commands \<Rightarrow> ('r \<Rightarrow> string \<Rightarrow> (int \<times> int option) option) \<Rightarrow> bool" where
  "redis_counter_laws cmds look \<longleftrightarrow>
     (\<forall>now key r.
        (let v = look r key; (n, r') = redis_INCR cmds now key r
         in (if live v now then n = fst (the v) + 1 \<and> look r' = (look r)(key \<mapsto> (n, snd (the v)))
             else n = 1 \<and> look r' = (look r)(key \<mapsto> (1, None))))) \<and>
     (\<forall>now key seconds r n d.
        look r key = Some (n, d) \<longrightarrow>
        look (redis_EXPIRE cmds now key seconds r) = (look r)(key \<mapsto> (n, Some (now + 1000 * seconds))))"

lemma redis_counter_laws_INCR:
  assumes "redis_counter_laws cmds look" and "redis_INCR cmds now key r = (n, r')"
  shows "if live (look r key) now
         then n = fst (the (look r key)) + 1 \<and> look r' = (look r)(key \<mapsto> (n, snd (the (look r key))))
         else n = 1 \<and> look r' = (look r)(key \<mapsto> (1, None))"
proof -
  from assms(1) have "let v = look r key; (n, r') = redis_INCR cmds now key r
      in (if live v now then n = fst (the v) + 1 \<and> look r' = (look r)(key \<mapsto> (n, snd (the v)))
          else n = 1 \<and> look r' = (look r)(key \<mapsto> (1, None)))"
    unfolding redis_counter_laws_def by (elim conjE allE)
  with assms(2) show ?thesis by (simp only: Let_def prod.case)
qed

lemma redis_counter_laws_EXPIRE:
  assumes "redis_counter_laws cmds look" and "look r key = Some (n, d)"
  shows "look (redis_EXPIRE cmds now key seconds r) = (look r)(key \<mapsto> (n, Some (now + 1000 * seconds)))"
  using assms by (simp add: redis_counter_laws_def)

definition redis_check ::
  "'r redis_commands \<Rightarrow> int \<Rightarrow> (string \<Rightarrow> int) \<Rightarrow> 'r \<Rightarrow> int \<Rightarrow> string \<Rightarrow> bool \<times> 'r" where
  "redis_check cmds duration limits r now key = redis_incrementAndCheck cmds LinkUp now duration key (limits key) r"

definition redis_quota ::
  "('r \<Rightarrow> string \<Rightarrow> (int \<times> int option) option) \<Rightarrow> (string \<Rightarrow> int) \<Rightarrow> 'r \<Rightarrow> string \<Rightarrow> nat" where
  "redis_quota look limits r key =
     nat (limits key - (case look r key of None \<Rightarrow> 0 | Some (n, d) \<Rightarrow> n))"

definition redis_in_window ::
  "('r \<Rightarrow> string \<Rightarrow> (int \<times> int option) option) \<Rightarrow> 'r \<Rightarrow> int \<Rightarrow> string \<Rightarrow> bool" where
  "redis_in_window look r now key = (case look r key of Some (n, Some d) \<Rightarrow> 1 \<le> n \<and> now < d | _ \<Rightarrow> False)"

lemma redis_check_other:
  assumes "redis_counter_laws cmds look" and "redis_check cmds duration limits r t key' = (b, r')" and "key' \<noteq> key"
  shows "look r' key = look r key"
proof -
  obtain n r1 where incr: "redis_INCR cmds t key' r = (n, r1)" by (cases "redis_INCR cmds t key' r")
  have r1: "look r1 key = look r key" "\<exists>d. look r1 key' = Some (n, d)"
    using redis_counter_laws_INCR [OF assms(1) incr] assms(3) by (auto split: if_splits)
  then obtain d where "look r1 key' = Some (n, d)" by blast
  from redis_counter_laws_EXPIRE [OF assms(1) this] r1(1) assms(2,3) incr
  show ?thesis
    by (auto simp: redis_check_def redis_incrementAndCheck_def lua_script_def split: if_splits)
qed

lemma redis_check_open:
  assumes laws: "redis_counter_laws cmds look" and win: "redis_in_window look r t key"
    and step: "redis_check cmds duration limits r t key = (b, r')"
  shows "\<exists>n d. look r key = Some (n, Some d) \<and> 1 \<le> n \<and> look r' key = Some (n + 1, Some d) \<and> b = (limits key < n + 1)"
proof -
  obtain n d where look: "look r key = Some (n, Some d)" "1 \<le> n" "t < d"
    using win by (auto simp: redis_in_window_def split: option.splits)
  obtain c r1 where incr: "redis_INCR cmds t key r = (c, r1)" by (cases "redis_INCR cmds t key r")
  from redis_counter_laws_INCR [OF laws incr] look
  have "c = n + 1" "look r1 key = Some (n + 1, Some d)" by (auto simp: live_def)
  with step incr look show ?thesis
    by (auto simp: redis_check_def redis_incrementAndCheck_def lua_script_def split: if_splits)
qed

lemma redis_store:
  assumes laws: "redis_counter_laws cmds look"
  shows "rate_limit_store (redis_check cmds duration limits) (redis_quota look limits) (redis_in_window look)"
proof
  fix s t u k k' s' b
  assume win: "redis_in_window look s t k"
  note opened = redis_check_open [OF laws win]
  show "redis_quota look limits s k = 0 \<and> redis_quota look limits s' k = 0"
    if "redis_check cmds duration limits s t k = (True, s')"
    using opened [OF that] by (auto simp: redis_quota_def)
  show "redis_quota look limits s k = Suc (redis_quota look limits s' k)"
    if "redis_check cmds duration limits s t k = (False, s')"
    using opened [OF that] by (auto simp: redis_quota_def)
  show "redis_quota look limits s' k = redis_quota look limits s k"
    if "k' \<noteq> k" and "redis_check cmds duration limits s t k' = (b, s')"
    using redis_check_other [OF laws that(2,1)] by (simp add: redis_quota_def)
  show "redis_in_window look s' u k"
    if win': "redis_in_window look s u k" and step: "redis_check cmds duration limits s t k' = (b, s')"
  proof (cases "k' = k")
    case True
    from opened [OF step [unfolded True]] win' show ?thesis by (auto simp: redis_in_window_def)
  next
    case False
    from redis_check_other [OF laws step False] win' show ?thesis by (simp add: redis_in_window_def)
  qed
qed

fun redis_admitted ::
  "'r redis_commands \<Rightarrow> int \<Rightarrow> (string \<Rightarrow> int) \<Rightarrow> string \<Rightarrow> 'r \<Rightarrow> (int \<times> string) list \<Rightarrow> nat" where
  "redis_admitted cmds duration limits key r [] = 0"
| "redis_admitted cmds duration limits key r ((t, key') # reqs) =
     (case redis_check cmds duration limits r t key' of
        (b, r') \<Rightarrow> (if key' = key \<and> \<not> b then 1 else 0) + redis_admitted cmds duration limits key r' reqs)"

lemma redis_admitted_eq:
  assumes "redis_counter_laws cmds look"
  shows "redis_admitted cmds duration limits key r reqs =
    rate_limit_store.admitted_count (redis_check cmds duration limits) key r reqs"
  by (induction reqs arbitrary: r)
    (auto simp: rate_limit_store.admitted_count.simps [OF redis_store [OF assms]] split: prod.split)

lemma redis_first_request:
  assumes laws: "redis_counter_laws cmds look" and "\<not> live (look r key) t"
    and "redis_check cmds duration limits r t key = (b, r')"
  shows "b = (limits key < 1) \<and> look r' key = Some (1, Some (t + 1000 * durationSeconds duration))"
proof -
  obtain c r1 where incr: "redis_INCR cmds t key r = (c, r1)" by (cases "redis_INCR cmds t key r")
  from redis_counter_laws_INCR [OF laws incr] assms(2)
  have "c = 1" "look r1 key = Some (1, None)" by auto
  with redis_counter_laws_EXPIRE [OF laws, of r1 key 1 None t "durationSeconds duration"] incr assms(3)
  show ?thesis
    by (auto simp: redis_check_def redis_incrementAndCheck_def lua_script_def split: if_splits)
qed

text \<open>
  With a Redis server that behaves as documented, the window of a key opens with the first
  request that finds it absent or expired and lasts the duration rounded up to seconds; in it,
  exactly the first \<open>limit\<close> requests for the key are admitted, here also for a limit of zero.
\<close>

theorem redis_window_exact:
  assumes laws: "redis_counter_laws cmds look" and new: "\<not> live (look r key) t0"
    and within: "\<forall>(t, k) \<in> set reqs. t0 \<le> t \<and> t < t0 + 1000 * durationSeconds duration"
  shows "redis_admitted cmds duration limits key r ((t0, key) # reqs) =
    min (nat (limits key)) (Suc (length (filter (\<lambda>q. snd q = key) reqs)))"
proof -
  obtain b r' where step: "redis_check cmds duration limits r t0 key = (b, r')"
    by (cases "redis_check cmds duration limits r t0 key")
  from redis_first_request [OF laws new step]
  have b: "b = (limits key < 1)" and r': "look r' key = Some (1, Some (t0 + 1000 * durationSeconds duration))"
    by auto
  have "redis_admitted cmds duration limits key r' reqs =
      min (redis_quota look limits r' key) (length (filter (\<lambda>q. snd q = key) reqs))"
    unfolding redis_admitted_eq [OF laws]
    using within r' by (intro rate_limit_store.admitted_exactly [OF redis_store [OF laws]])
      (auto simp: redis_in_window_def)
  moreover have "redis_quota look limits r' key = nat (limits key - 1)"
    by (simp add: redis_quota_def r')
  ultimately show ?thesis by (auto simp: step b)
qed

definition map_redis :: "(string \<Rightarrow> (int \<times> int option) option) redis_commands" where
  "map_redis =
     \<lparr> redis_INCR = (\<lambda>now key r.
         if live (r key) now
         then (fst (the (r key)) + 1, r(key \<mapsto> (fst (the (r key)) + 1, snd (the (r key)))))
         else (1, r(key \<mapsto> (1, None)))),
       redis_EXPIRE = (\<lambda>now key seconds r.
         case r key of None \<Rightarrow> r | Some (n, d) \<Rightarrow> r(key \<mapsto> (n, Some (now + 1000 * seconds)))) \<rparr>"

lemma map_redis_laws: "redis_counter_laws map_redis (\<lambda>r. r)"
  by (auto simp: redis_counter_laws_def map_redis_def Let_def)

theorem redis_window_exact_witness:
  "redis_admitted map_redis 1500 (\<lambda>k. 2) ''k'' Map.empty [(5, ''k''), (6, ''k''), (7, ''j''), (2004, ''k'')] = 2"
  by (subst redis_window_exact [OF map_redis_laws]) (simp_all add: live_def durationSeconds_def)

text \<open>
  The keys of two clients differ when their addresses hold no colon; the keys of IPv6 addresses
  need not: a method name with a colon makes the key of another address.
\<close>

theorem rate_limit_key_injective:
  assumes "CHR '':'' \<notin> set ip" and "CHR '':'' \<notin> set ip'"
  shows "RateLimitKey_toString ip m = RateLimitKey_toString ip' m' \<longleftrightarrow> ip = ip' \<and> m = m'"
proof
  assume "RateLimitKey_toString ip m = RateLimitKey_toString ip' m'"
  then have eq: "ip @ CHR '':'' # m = ip' @ CHR '':'' # m'" by (simp add: RateLimitKey_toString_def)
  then have "takeWhile (\<lambda>c. c \<noteq> CHR '':'') (ip @ CHR '':'' # m) = takeWhile (\<lambda>c. c \<noteq> CHR '':'') (ip' @ CHR '':'' # m')"
    by simp
  moreover have "CHR '':'' \<notin> set s \<Longrightarrow> takeWhile (\<lambda>c. c \<noteq> CHR '':'') (s @ CHR '':'' # t) = s" for s t
    by (induction s) auto
  ultimately have "ip = ip'" using assms by simp
  with eq show "ip = ip' \<and> m = m'" by simp
qed simp

theorem rate_limit_key_injective_witness:
  "RateLimitKey_toString ''1.2.3.4'' ''a:b'' \<noteq> RateLimitKey_toString ''1.2.3.5'' ''a:b'' \<and>
   RateLimitKey_toString ''::1'' ''5:x'' = RateLimitKey_toString ''::1:5'' ''x''"
  using rate_limit_key_injective [of "''1.2.3.4''" "''1.2.3.5''" "''a:b''" "''a:b''"]
  by (simp add: RateLimitKey_toString_def)

subsection \<open>\<open>IPRateLimiterService\<close>\<close>

datatype store_type = REDIS | LRU

definition to_upper :: "char \<Rightarrow> char" where
  "to_upper c = (let n = (of_char c :: nat) in if 97 \<le> n \<and> n \<le> 122 then char_of (n - 32) else c)"

text \<open>The configured type is a text or \<open>null\<close>; characters outside ASCII never make one of the names.\<close>

definition determineStoreType :: "string option \<Rightarrow> bool \<Rightarrow> string + store_type" where
  "determineStoreType configured redisEnabled =
     (case configured of
        Some s \<Rightarrow>
          (let normalized = map to_upper (js_trim s)
           in if normalized = ''REDIS'' then Inr REDIS
              else if normalized = ''LRU'' then Inr LRU
              else Inl (''Unsupported IP_RATE_LIMIT_STORE value: '' @ dquote s
                        @ ''. Supported values are: REDIS, LRU''))
      | None \<Rightarrow> Inr (if redisEnabled then REDIS else LRU))"

text \<open>The store is any state with its \<open>incrementAndCheck\<close>; the counter counts limited requests.\<close>

definition shouldRateLimit ::
  "('s \<Rightarrow> string \<Rightarrow> string \<Rightarrow> int \<Rightarrow> bool \<times> 's) \<Rightarrow> bool \<Rightarrow> string \<Rightarrow> string \<Rightarrow> int \<Rightarrow> 's \<times> (string \<Rightarrow> nat)
   \<Rightarrow> bool \<times> 's \<times> (string \<Rightarrow> nat)" where
  "shouldRateLimit incrementAndCheck rateLimitDisabled ip methodName limit st =
     (if rateLimitDisabled then (False, st)
      else (case incrementAndCheck (fst st) ip methodName limit of
              (True, s') \<Rightarrow> (True, s', (snd st)(methodName := snd st methodName + 1))
            | (False, s') \<Rightarrow> (False, s', snd st)))"

end
