(* ===== verification/LocalCache.thy ===== *)
theory LocalCache
  imports JsonValues "HOL-Library.AList"
begin

section \<open>The in-memory cache\<close>

text \<open>
  Models \<open>clients/cache/localLRUCache.ts\<close>: a cache of the lru-cache library for ordinary keys and
  a second one, as large as the set of reserved keys, for those, so that they are never evicted.

  The library is an argument (\<open>lru_ops\<close>). What its documentation promises is \<open>lru_laws\<close>, over what
  a client can observe: the entry of a key with its deadline, and the capacity. The contract the
  clients of a cache rely on is the locale \<open>cache_client\<close>. Times are milliseconds.

  The pattern of \<open>keys\<close> is modelled for ordinary characters, \<open>*\<close>, \<open>?\<close> and the dot.
\<close>

datatype ttl = Ms int | Infinite

record 'c lru_ops =
  lru_get :: "int \<Rightarrow> string \<Rightarrow> 'c \<Rightarrow> jsv \<times> 'c"
  lru_set :: "int \<Rightarrow> string \<Rightarrow> jsv \<Rightarrow> ttl \<Rightarrow> 'c \<Rightarrow> 'c"
  lru_delete :: "string \<Rightarrow> 'c \<Rightarrow> 'c"
  lru_clear :: "'c \<Rightarrow> 'c"
  lru_getRemainingTTL :: "int \<Rightarrow> string \<Rightarrow> 'c \<Rightarrow> ttl"
  lru_rkeys :: "'c \<Rightarrow> string list"
  lru_purgeStale :: "int \<Rightarrow> 'c \<Rightarrow> 'c"

record 'c local_cache =
  lc_cache :: 'c
  lc_reservedCache :: "'c option"
  lc_reservedKeys :: "string list"
  lc_ttl :: int

subsection \<open>The operations\<close>

definition uses_reserved :: "string \<Rightarrow> 'c local_cache \<Rightarrow> bool" where
  "uses_reserved key s = (lc_reservedCache s \<noteq> None \<and> key \<in> set (lc_reservedKeys s))"

definition getCacheInstance :: "string \<Rightarrow> 'c local_cache \<Rightarrow> 'c" where
  "getCacheInstance key s = (if uses_reserved key s then the (lc_reservedCache s) else lc_cache s)"

definition put_instance :: "string \<Rightarrow> 'c \<Rightarrow> 'c local_cache \<Rightarrow> 'c local_cache" where
  "put_instance key c s =
     (if uses_reserved key s then s\<lparr> lc_reservedCache := Some c \<rparr> else s\<lparr> lc_cache := c \<rparr>)"

definition local_get :: "'c lru_ops \<Rightarrow> int \<Rightarrow> string \<Rightarrow> 'c local_cache \<Rightarrow> jsv \<times> 'c local_cache" where
  "local_get ops now key s =
     (case lru_get ops now key (getCacheInstance key s) of
        (v, c) \<Rightarrow> (if v \<noteq> JUndef then v else JNull, put_instance key c s))"

definition local_getRemainingTtl :: "'c lru_ops \<Rightarrow> int \<Rightarrow> string \<Rightarrow> 'c local_cache \<Rightarrow> ttl" where
  "local_getRemainingTtl ops now key s = lru_getRemainingTTL ops now key (getCacheInstance key s)"

text \<open>The time to live that is passed on; zero means for ever.\<close>

definition resolve_ttl :: "ttl option \<Rightarrow> int \<Rightarrow> ttl" where
  "resolve_ttl t dflt =
     (case (case t of None \<Rightarrow> Ms dflt | Some t' \<Rightarrow> t') of
        Infinite \<Rightarrow> Infinite
      | Ms n \<Rightarrow> if 0 < n then Ms n else Ms 0)"

definition local_set ::
  "'c lru_ops \<Rightarrow> int \<Rightarrow> string \<Rightarrow> jsv \<Rightarrow> ttl option \<Rightarrow> 'c local_cache \<Rightarrow> 'c local_cache" where
  "local_set ops now key v t s =
     put_instance key (lru_set ops now key v (resolve_ttl t (lc_ttl s)) (getCacheInstance key s)) s"

definition local_multiSet ::
  "'c lru_ops \<Rightarrow> int \<Rightarrow> (string \<times> jsv) list \<Rightarrow> 'c local_cache \<Rightarrow> 'c local_cache" where
  "local_multiSet ops now kvs s = foldl (\<lambda>s (k, v). local_set ops now k v None s) s kvs"

definition local_pipelineSet ::
  "'c lru_ops \<Rightarrow> int \<Rightarrow> (string \<times> jsv) list \<Rightarrow> ttl option \<Rightarrow> 'c local_cache \<Rightarrow> 'c local_cache" where
  "local_pipelineSet ops now kvs t s = foldl (\<lambda>s (k, v). local_set ops now k v t s) s kvs"

definition local_delete :: "'c lru_ops \<Rightarrow> string \<Rightarrow> 'c local_cache \<Rightarrow> 'c local_cache" where
  "local_delete ops key s = put_instance key (lru_delete ops key (getCacheInstance key s)) s"

definition local_purgeStale :: "'c lru_ops \<Rightarrow> int \<Rightarrow> 'c local_cache \<Rightarrow> 'c local_cache" where
  "local_purgeStale ops now s = s\<lparr> lc_cache := lru_purgeStale ops now (lc_cache s) \<rparr>"

definition local_clear :: "'c lru_ops \<Rightarrow> 'c local_cache \<Rightarrow> 'c local_cache" where
  "local_clear ops s =
     s\<lparr> lc_cache := lru_clear ops (lc_cache s),
        lc_reservedCache := map_option (lru_clear ops) (lc_reservedCache s) \<rparr>"

subsection \<open>Keys by pattern\<close>

text \<open>
  The pattern becomes the text of a regular expression in twelve replacements; the one that puts a
  character class in place of itself is left out. \<open>replace_unescaped\<close> is the replacement with the
  look-behind \<open>(?<!\\)\<close>: its flag says that the character before is a backslash.
\<close>

abbreviation backslash :: char where
  "backslash \<equiv> CHR 0x5C"

fun replace_all :: "string \<Rightarrow> string \<Rightarrow> string \<Rightarrow> string" where
  "replace_all p r [] = []"
| "replace_all p r (c # s) =
     (if p \<noteq> [] \<and> starts_with p (c # s) then r @ replace_all p r (drop (length p - 1) s)
      else c # replace_all p r s)"

fun replace_unescaped :: "string \<Rightarrow> string \<Rightarrow> bool \<Rightarrow> string \<Rightarrow> string" where
  "replace_unescaped p r escaped [] = []"
| "replace_unescaped p r escaped (c # s) =
     (if p \<noteq> [] \<and> \<not> escaped \<and> starts_with p (c # s)
      then r @ replace_unescaped p r (last p = backslash) (drop (length p - 1) s)
      else c # replace_unescaped p r (c = backslash) s)"

fun name_escapes :: "string \<Rightarrow> string" where
  "name_escapes [] = []"
| "name_escapes [c] = [c]"
| "name_escapes (c # d # s) =
     (if c = backslash \<and> d \<in> set ''*?[]'' then ''__ESCAPED_'' @ [d] @ ''__'' @ name_escapes s
      else c # name_escapes (d # s))"

definition hide_escapes :: "string \<Rightarrow> string" where
  "hide_escapes p =
     replace_all [backslash, CHR '']''] ''__ESCAPED_CLOSE_BRACKET__''
      (replace_all [backslash, CHR ''['' ] ''__ESCAPED_OPEN_BRACKET__''
       (replace_all [backslash, CHR ''?''] ''__ESCAPED_QUESTION__''
        (replace_all [backslash, CHR ''*''] ''__ESCAPED_STAR__'' p)))"

definition glob_to_regex :: "string \<Rightarrow> string" where
  "glob_to_regex p =
     replace_unescaped ''[!]'' ''[^]'' False
      (replace_unescaped ''?'' ''.'' False (replace_unescaped ''*'' ''.*'' False (name_escapes p)))"

definition show_escapes :: "string \<Rightarrow> string" where
  "show_escapes p =
     replace_all ''__ESCAPED_CLOSE_BRACKET__'' [backslash, CHR '']'']
      (replace_all ''__ESCAPED_OPEN_BRACKET__'' [backslash, CHR ''['' ]
       (replace_all ''__ESCAPED_QUESTION__'' [backslash, CHR ''?'']
        (replace_all ''__ESCAPED_STAR__'' [backslash, CHR ''*''] p)))"

definition keys_regex :: "string \<Rightarrow> string" where
  "keys_regex pattern = show_escapes (glob_to_regex (hide_escapes pattern))"

text \<open>
  \<open>new RegExp\<close>, for the expressions made of characters, escaped punctuation, dots and plain classes,
  each with at most one quantifier. An expression outside of this (groups, anchors, alternatives,
  braces, ranges, or a text that is no expression) has no value here.
\<close>

datatype rx_atom = RxChar char | RxAny | RxClass bool string
datatype rx_count = Once | Star | Plus | Opt

type_synonym regex = "(rx_atom \<times> rx_count) list"

definition is_alnum :: "char \<Rightarrow> bool" where
  "is_alnum c = (let n = (of_char c :: nat) in
     (48 \<le> n \<and> n \<le> 57) \<or> (65 \<le> n \<and> n \<le> 90) \<or> (97 \<le> n \<and> n \<le> 122))"

fun regex_atom :: "string \<Rightarrow> (rx_atom \<times> string) option" where
  "regex_atom [] = None"
| "regex_atom (c # s) =
     (if c = backslash then
        (case s of d # s' \<Rightarrow> if is_alnum d then None else Some (RxChar d, s') | [] \<Rightarrow> None)
      else if c = CHR ''['' then
        (let neg = starts_with ''^'' s; body = takeWhile (\<lambda>d. d \<noteq> CHR '']'') (if neg then tl s else s)
         in if backslash \<in> set body \<or> CHR ''-'' \<in> set body \<or> CHR '']'' \<notin> set s then None
            else Some (RxClass neg body, tl (dropWhile (\<lambda>d. d \<noteq> CHR '']'') s)))
      else if c \<in> set ''^$+*?(){}|'' then None
      else if c = CHR ''.'' then Some (RxAny, s)
      else Some (RxChar c, s))"

fun regex_count :: "string \<Rightarrow> rx_count \<times> string" where
  "regex_count (c # s) =
     (if c = CHR ''*'' then (Star, s) else if c = CHR ''+'' then (Plus, s)
      else if c = CHR ''?'' then (Opt, s) else (Once, c # s))"
| "regex_count [] = (Once, [])"

fun parse_regex :: "nat \<Rightarrow> string \<Rightarrow> regex option" where
  "parse_regex n [] = Some []"
| "parse_regex 0 s = None"
| "parse_regex (Suc n) s =
     (case regex_atom s of
        None \<Rightarrow> None
      | Some (a, s1) \<Rightarrow>
          (let (q, s2) = regex_count s1 in map_option (\<lambda>r. (a, q) # r) (parse_regex n s2)))"

definition new_RegExp :: "string \<Rightarrow> regex option" where
  "new_RegExp s = parse_regex (length s) s"

definition not_newline :: "char \<Rightarrow> bool" where
  "not_newline c = ((of_char c :: nat) \<noteq> 10 \<and> (of_char c :: nat) \<noteq> 13)"

fun atom_matches :: "rx_atom \<Rightarrow> char \<Rightarrow> bool" where
  "atom_matches (RxChar c) x = (x = c)"
| "atom_matches RxAny x = not_newline x"
| "atom_matches (RxClass neg body) x = ((x \<in> set body) \<noteq> neg)"

fun match_here :: "regex \<Rightarrow> string \<Rightarrow> bool" where
  "match_here [] s = True"
| "match_here ((a, Once) # r) s = (case s of [] \<Rightarrow> False | x # s' \<Rightarrow> atom_matches a x \<and> match_here r s')"
| "match_here ((a, Opt) # r) s =
     (match_here r s \<or> (case s of [] \<Rightarrow> False | x # s' \<Rightarrow> atom_matches a x \<and> match_here r s'))"
| "match_here ((a, Star) # r) s =
     (match_here r s \<or> (case s of [] \<Rightarrow> False | x # s' \<Rightarrow> atom_matches a x \<and> match_here ((a, Star) # r) s'))"
| "match_here ((a, Plus) # r) s =
     (case s of [] \<Rightarrow> False
      | x # s' \<Rightarrow> atom_matches a x \<and> (match_here r s' \<or> match_here ((a, Plus) # r) s'))"

text \<open>\<open>regex.test\<close>: a match anywhere in the text.\<close>

fun regex_test :: "regex \<Rightarrow> string \<Rightarrow> bool" where
  "regex_test r [] = match_here r []"
| "regex_test r (x # xs) = (match_here r (x # xs) \<or> regex_test r xs)"

definition local_keys :: "'c lru_ops \<Rightarrow> string \<Rightarrow> 'c local_cache \<Rightarrow> string list option" where
  "local_keys ops pattern s =
     map_option (\<lambda>regex. filter (regex_test regex)
       (lru_rkeys ops (lc_cache s) @
        (case lc_reservedCache s of None \<Rightarrow> [] | Some c \<Rightarrow> lru_rkeys ops c)))
       (new_RegExp (keys_regex pattern))"

subsection \<open>What the library promises\<close>

type_synonym 'c lru_look = "'c \<Rightarrow> string \<Rightarrow> (jsv \<times> int option) option"

definition deadline :: "int \<Rightarrow> ttl \<Rightarrow> int option" where
  "deadline now t = (case t of Infinite \<Rightarrow> None | Ms n \<Rightarrow> if n = 0 then None else Some (now + n))"

definition fresh :: "int \<Rightarrow> (jsv \<times> int option) option \<Rightarrow> bool" where
  "fresh now e = (case e of None \<Rightarrow> False | Some (v, None) \<Rightarrow> True | Some (v, Some d) \<Rightarrow> now \<le> d)"

text \<open>
  \<open>set\<close> stores the entry and evicts others only when the capacity is exceeded; \<open>get\<close> answers the
  value of a fresh entry and drops at most the stale entry of its own key; \<open>delete\<close>, \<open>clear\<close> and
  \<open>getRemainingTTL\<close> do what their names say; \<open>rkeys\<close> lists the keys.
\<close>

definition lru_laws :: "'c lru_ops \<Rightarrow> 'c lru_look \<Rightarrow> ('c \<Rightarrow> nat) \<Rightarrow> bool" where
  "lru_laws ops look cap \<longleftrightarrow>
     (\<forall>now k v t c. let c' = lru_set ops now k v t c in
        cap c' = cap c \<and> look c' k = Some (v, deadline now t) \<and>
        (\<forall>k'. k' \<noteq> k \<longrightarrow> look c' k' \<in> {look c k', None}) \<and>
        (card (insert k (dom (look c))) \<le> cap c \<longrightarrow> (\<forall>k'. k' \<noteq> k \<longrightarrow> look c' k' = look c k'))) \<and>
     (\<forall>now k c. let (v, c') = lru_get ops now k c in
        cap c' = cap c \<and> v = (if fresh now (look c k) then fst (the (look c k)) else JUndef) \<and>
        (\<forall>k'. k' \<noteq> k \<longrightarrow> look c' k' = look c k') \<and>
        (fresh now (look c k) \<longrightarrow> look c' k = look c k) \<and> look c' k \<in> {look c k, None}) \<and>
     (\<forall>k c. cap (lru_delete ops k c) = cap c \<and> look (lru_delete ops k c) = (look c)(k := None)) \<and>
     (\<forall>c. cap (lru_clear ops c) = cap c \<and> look (lru_clear ops c) = Map.empty) \<and>
     (\<forall>c. set (lru_rkeys ops c) = dom (look c))"

locale lru_library =
  fixes ops :: "'c lru_ops" and look :: "'c lru_look" and cap :: "'c \<Rightarrow> nat"
  assumes laws: "lru_laws ops look cap"
begin

lemma set_self: "look (lru_set ops now k v t c) k = Some (v, deadline now t)"
  using laws unfolding lru_laws_def Let_def by blast

lemma set_other: "k' \<noteq> k \<Longrightarrow> look (lru_set ops now k v t c) k' \<in> {look c k', None}"
  using laws unfolding lru_laws_def Let_def by blast

lemma set_room:
  "card (insert k (dom (look c))) \<le> cap c \<Longrightarrow> k' \<noteq> k \<Longrightarrow> look (lru_set ops now k v t c) k' = look c k'"
  using laws unfolding lru_laws_def Let_def by blast

lemma set_cap: "cap (lru_set ops now k v t c) = cap c"
  using laws unfolding lru_laws_def Let_def by blast

lemma get_law:
  assumes get: "lru_get ops now k c = (v, c')"
  shows "cap c' = cap c \<and> v = (if fresh now (look c k) then fst (the (look c k)) else JUndef) \<and>
   (\<forall>k'. k' \<noteq> k \<longrightarrow> look c' k' = look c k') \<and>
   (fresh now (look c k) \<longrightarrow> look c' k = look c k) \<and> look c' k \<in> {look c k, None}"
proof -
  from laws have "let (v, c') = lru_get ops now k c in
      cap c' = cap c \<and> v = (if fresh now (look c k) then fst (the (look c k)) else JUndef) \<and>
      (\<forall>k'. k' \<noteq> k \<longrightarrow> look c' k' = look c k') \<and>
      (fresh now (look c k) \<longrightarrow> look c' k = look c k) \<and> look c' k \<in> {look c k, None}"
    unfolding lru_laws_def by (elim conjE allE)
  then show ?thesis unfolding get Let_def prod.case .
qed

lemma delete_look: "look (lru_delete ops k c) = (look c)(k := None)"
  using laws unfolding lru_laws_def by blast

lemma delete_cap: "cap (lru_delete ops k c) = cap c"
  using laws unfolding lru_laws_def by blast

end

lemmas lru_set_self = lru_library.set_self [OF lru_library.intro]
lemmas lru_set_other = lru_library.set_other [OF lru_library.intro]
lemmas lru_set_room = lru_library.set_room [OF lru_library.intro]
lemmas lru_set_cap = lru_library.set_cap [OF lru_library.intro]
lemmas lru_get_law = lru_library.get_law [OF lru_library.intro]
lemmas lru_delete_look = lru_library.delete_look [OF lru_library.intro]
lemmas lru_delete_cap = lru_library.delete_cap [OF lru_library.intro]

subsection \<open>A library that keeps the promises\<close>

text \<open>
  Entries with distinct keys, the most recently used first, at most \<open>n + 1\<close> of them. It shows that
  the promises can hold and is what the examples compute with.
\<close>

type_synonym list_lru = "nat \<times> (string \<times> jsv \<times> int option) list"

definition list_lru_put :: "string \<Rightarrow> jsv \<times> int option \<Rightarrow> list_lru \<Rightarrow> list_lru" where
  "list_lru_put k e c = (fst c, take (Suc (fst c)) ((k, e) # filter (\<lambda>p. fst p \<noteq> k) (AList.clearjunk (snd c))))"

definition list_lru_drop :: "string \<Rightarrow> list_lru \<Rightarrow> list_lru" where
  "list_lru_drop k c = (fst c, filter (\<lambda>p. fst p \<noteq> k) (snd c))"

definition list_lru_look :: "list_lru lru_look" where
  "list_lru_look c = map_of (snd c)"

definition list_lru_ops :: "list_lru lru_ops" where
  "list_lru_ops =
     \<lparr> lru_get = (\<lambda>now k c.
         if fresh now (list_lru_look c k)
         then (fst (the (list_lru_look c k)), (fst c, (k, the (list_lru_look c k)) # filter (\<lambda>p. fst p \<noteq> k) (snd c)))
         else (JUndef, list_lru_drop k c)),
       lru_set = (\<lambda>now k v t c. list_lru_put k (v, deadline now t) c),
       lru_delete = list_lru_drop,
       lru_clear = (\<lambda>c. (fst c, [])),
       lru_getRemainingTTL = (\<lambda>now k c.
         case list_lru_look c k of None \<Rightarrow> Ms 0 | Some (v, None) \<Rightarrow> Infinite | Some (v, Some d) \<Rightarrow> Ms (d - now)),
       lru_rkeys = (\<lambda>c. remdups (rev (map fst (snd c)))),
       lru_purgeStale = (\<lambda>now c. (fst c, filter (\<lambda>p. fresh now (list_lru_look c (fst p))) (snd c))) \<rparr>"

lemma map_of_filter_neq: "map_of (filter (\<lambda>p. fst p \<noteq> k) xs) = (map_of xs)(k := None)"
  by (induction xs) auto

lemma map_of_take: "distinct (map fst xs) \<Longrightarrow> map_of (take n xs) k \<in> {map_of xs k, None}"
proof (induction xs arbitrary: n)
  case (Cons x xs)
  then show ?case
    by (cases n) (auto simp: map_of_eq_None_iff dest: in_set_takeD)
qed simp

lemma list_lru_put_distinct:
  "distinct (map fst ((k, e) # filter (\<lambda>p. fst p \<noteq> k) (AList.clearjunk xs)))"
  by (auto simp: distinct_map_filter)

lemma list_lru_put_look:
  "map_of ((k, e) # filter (\<lambda>p. fst p \<noteq> k) (AList.clearjunk xs)) = (map_of xs)(k \<mapsto> e)"
  by (auto simp: map_of_filter_neq map_of_clearjunk)

lemma list_lru_put_room:
  assumes "card (insert k (dom (map_of xs))) \<le> Suc n"
  shows "take (Suc n) ((k, e) # filter (\<lambda>p. fst p \<noteq> k) (AList.clearjunk xs)) =
    (k, e) # filter (\<lambda>p. fst p \<noteq> k) (AList.clearjunk xs)"
proof -
  let ?ys = "(k, e) # filter (\<lambda>p. fst p \<noteq> k) (AList.clearjunk xs)"
  have "length ?ys = card (set (map fst ?ys))"
    using distinct_card [OF list_lru_put_distinct, of k e xs] by (simp only: length_map)
  also have "set (map fst ?ys) = dom (map_of ?ys)" by (simp only: dom_map_of_conv_image_fst list.set_map)
  also have "\<dots> = insert k (dom (map_of xs))" by (simp only: list_lru_put_look dom_fun_upd) simp
  finally show ?thesis using assms by simp
qed

lemma list_lru_laws: "lru_laws list_lru_ops list_lru_look (\<lambda>c. Suc (fst c))"
  unfolding lru_laws_def
proof (intro conjI allI)
  fix now k v t and c :: list_lru
  let ?ys = "(k, (v, deadline now t)) # filter (\<lambda>p. fst p \<noteq> k) (AList.clearjunk (snd c))"
  have cap: "fst (lru_set list_lru_ops now k v t c) = fst c"
    by (simp add: list_lru_ops_def list_lru_put_def)
  have look: "list_lru_look (lru_set list_lru_ops now k v t c) = map_of (take (Suc (fst c)) ?ys)"
    by (simp add: list_lru_look_def list_lru_ops_def list_lru_put_def)
  have "map_of (take (Suc (fst c)) ?ys) k' \<in> {list_lru_look c k', None}" if "k' \<noteq> k" for k'
    using map_of_take [OF list_lru_put_distinct, of "Suc (fst c)" k "(v, deadline now t)" "snd c" k'] that
    by (simp add: map_of_filter_neq map_of_clearjunk list_lru_look_def)
  moreover have "map_of (take (Suc (fst c)) ?ys) k' = list_lru_look c k'"
    if "card (insert k (dom (list_lru_look c))) \<le> Suc (fst c)" "k' \<noteq> k" for k'
    using that(2) by (subst list_lru_put_room)
      (use that(1) in \<open>simp_all add: list_lru_look_def map_of_filter_neq map_of_clearjunk\<close>)
  ultimately show "let c' = lru_set list_lru_ops now k v t c in
      Suc (fst c') = Suc (fst c) \<and> list_lru_look c' k = Some (v, deadline now t) \<and>
      (\<forall>k'. k' \<noteq> k \<longrightarrow> list_lru_look c' k' \<in> {list_lru_look c k', None}) \<and>
      (card (insert k (dom (list_lru_look c))) \<le> Suc (fst c) \<longrightarrow>
        (\<forall>k'. k' \<noteq> k \<longrightarrow> list_lru_look c' k' = list_lru_look c k'))"
    by (simp add: cap look)
next
  fix now k and c :: list_lru
  show "let (v, c') = lru_get list_lru_ops now k c in
      Suc (fst c') = Suc (fst c) \<and>
      v = (if fresh now (list_lru_look c k) then fst (the (list_lru_look c k)) else JUndef) \<and>
      (\<forall>k'. k' \<noteq> k \<longrightarrow> list_lru_look c' k' = list_lru_look c k') \<and>
      (fresh now (list_lru_look c k) \<longrightarrow> list_lru_look c' k = list_lru_look c k) \<and>
      list_lru_look c' k \<in> {list_lru_look c k, None}"
    by (auto simp: list_lru_ops_def list_lru_drop_def list_lru_look_def map_of_filter_neq fresh_def split: option.splits)
next
  show "list_lru_look (lru_delete list_lru_ops k c) = (list_lru_look c)(k := None)" for k c
    by (simp add: list_lru_ops_def list_lru_drop_def list_lru_look_def map_of_filter_neq)
  show "set (lru_rkeys list_lru_ops c) = dom (list_lru_look c)" for c
    by (simp add: list_lru_ops_def list_lru_look_def dom_map_of_conv_image_fst)
qed (auto simp: list_lru_ops_def list_lru_drop_def list_lru_look_def)

subsection \<open>The contract of a cache client\<close>

locale cache_client =
  fixes get :: "int \<Rightarrow> string \<Rightarrow> 's \<Rightarrow> jsv \<times> 's"
    and put :: "int \<Rightarrow> string \<Rightarrow> jsv \<Rightarrow> ttl option \<Rightarrow> 's \<Rightarrow> 's"
    and remove :: "int \<Rightarrow> string \<Rightarrow> 's \<Rightarrow> 's"
  assumes get_put: "v \<noteq> JUndef \<Longrightarrow> fst (get now k (put now k v t s)) = v"
    and get_again: "fst (get now k (snd (get now k s))) = fst (get now k s)"
    and get_remove: "fst (get now k (remove now k s)) = JNull"
begin

text \<open>Reading a value and storing a new one made from it, as counters and lists are kept.\<close>

definition modify :: "(jsv \<Rightarrow> jsv) \<Rightarrow> ('s \<Rightarrow> ttl option) \<Rightarrow> int \<Rightarrow> string \<Rightarrow> 's \<Rightarrow> 's" where
  "modify f ttl_of now k s =
     (let s1 = snd (get now k s) in put now k (f (fst (get now k s))) (ttl_of s1) s1)"

lemma get_modify:
  "f (fst (get now k s)) \<noteq> JUndef \<Longrightarrow> fst (get now k (modify f ttl_of now k s)) = f (fst (get now k s))"
  by (simp add: modify_def Let_def get_put)

lemma get_modify_fold:
  assumes "\<And>x v. ok v \<Longrightarrow> x \<in> set xs \<Longrightarrow> f x v \<noteq> JUndef \<and> ok (f x v)" and "ok (fst (get now k s))"
  shows "fst (get now k (fold (\<lambda>x. modify (f x) ttl_of now k) xs s)) = fold f xs (fst (get now k s))"
  using assms
proof (induction xs arbitrary: s)
  case (Cons x xs)
  have step: "fst (get now k (modify (f x) ttl_of now k s)) = f x (fst (get now k s))"
    using Cons.prems(1) [of "fst (get now k s)" x] Cons.prems(2) by (intro get_modify) simp
  with Cons.prems have "ok (fst (get now k (modify (f x) ttl_of now k s)))" by simp
  with Cons.IH [of "modify (f x) ttl_of now k s"] Cons.prems(1) step show ?case by simp
qed simp

end

lemma put_instance_same [simp]: "getCacheInstance key (put_instance key c s) = c"
  by (simp add: getCacheInstance_def put_instance_def uses_reserved_def)

lemma fresh_deadline: "fresh now (Some (v, deadline now (resolve_ttl t d)))"
  by (auto simp: fresh_def deadline_def resolve_ttl_def split: ttl.splits option.splits)

lemma local_cache_client:
  assumes laws: "lru_laws ops look cap"
  shows "cache_client (local_get ops) (local_set ops) (\<lambda>now. local_delete ops)"
proof
  fix v :: jsv and now k t and s :: "'a local_cache"
  show "fst (local_get ops now k (local_set ops now k v t s)) = v" if "v \<noteq> JUndef"
  proof -
    let ?c = "lru_set ops now k v (resolve_ttl t (lc_ttl s)) (getCacheInstance k s)"
    obtain w c' where get: "lru_get ops now k ?c = (w, c')" by (cases "lru_get ops now k ?c")
    from lru_get_law [OF laws get] lru_set_self [OF laws] have "w = v" by (simp add: fresh_deadline)
    with get that show ?thesis by (simp add: local_get_def local_set_def)
  qed
  show "fst (local_get ops now k (snd (local_get ops now k s))) = fst (local_get ops now k s)"
  proof -
    obtain w c' where get: "lru_get ops now k (getCacheInstance k s) = (w, c')"
      by (cases "lru_get ops now k (getCacheInstance k s)")
    obtain w' c'' where get': "lru_get ops now k c' = (w', c'')" by (cases "lru_get ops now k c'")
    have "w' = w"
      using lru_get_law [OF laws get] lru_get_law [OF laws get'] by (auto simp: fresh_def)
    with get get' show ?thesis by (simp add: local_get_def)
  qed
  show "fst (local_get ops now k (local_delete ops k s)) = JNull"
  proof -
    let ?c = "lru_delete ops k (getCacheInstance k s)"
    obtain w c' where get: "lru_get ops now k ?c = (w, c')" by (cases "lru_get ops now k ?c")
    from lru_get_law [OF laws get] lru_delete_look [OF laws] have "w = JUndef" by (simp add: fresh_def)
    with get show ?thesis by (simp add: local_get_def local_delete_def)
  qed
qed

text \<open>Every library that keeps its promises makes the in-memory cache a cache client.\<close>

sublocale lru_library \<subseteq> cached: cache_client "local_get ops" "local_set ops" "\<lambda>now. local_delete ops"
  by (rule local_cache_client [OF laws])

interpretation list_lru: lru_library list_lru_ops list_lru_look "\<lambda>c. Suc (fst c)"
  by unfold_locales (rule list_lru_laws)

subsection \<open>Reserved keys are never evicted\<close>

text \<open>All operations that change the cache; \<open>getRemainingTtl\<close> and \<open>keys\<close> only read it.\<close>

datatype cache_op =
    OpGet int string | OpSet int string jsv "ttl option" | OpMultiSet int "(string \<times> jsv) list"
  | OpPipelineSet int "(string \<times> jsv) list" "ttl option" | OpDelete string | OpPurge int | OpClear

fun local_step :: "'c lru_ops \<Rightarrow> cache_op \<Rightarrow> 'c local_cache \<Rightarrow> 'c local_cache" where
  "local_step ops (OpGet now k) s = snd (local_get ops now k s)"
| "local_step ops (OpSet now k v t) s = local_set ops now k v t s"
| "local_step ops (OpMultiSet now kvs) s = local_multiSet ops now kvs s"
| "local_step ops (OpPipelineSet now kvs t) s = local_pipelineSet ops now kvs t s"
| "local_step ops (OpDelete k) s = local_delete ops k s"
| "local_step ops (OpPurge now) s = local_purgeStale ops now s"
| "local_step ops OpClear s = local_clear ops s"

text \<open>The operations that may change what is stored for a key: those that name it, and \<open>clear\<close>.\<close>

fun changes :: "string \<Rightarrow> cache_op \<Rightarrow> bool" where
  "changes k (OpSet now k' v t) = (k' = k)"
| "changes k (OpMultiSet now kvs) = (k \<in> fst ` set kvs)"
| "changes k (OpPipelineSet now kvs t) = (k \<in> fst ` set kvs)"
| "changes k (OpDelete k') = (k' = k)"
| "changes k OpClear = True"
| "changes k _ = False"

definition reserved_ok :: "'c lru_look \<Rightarrow> ('c \<Rightarrow> nat) \<Rightarrow> 'c local_cache \<Rightarrow> bool" where
  "reserved_ok look cap s =
     (case lc_reservedCache s of
        None \<Rightarrow> False
      | Some c \<Rightarrow> dom (look c) \<subseteq> set (lc_reservedKeys s) \<and> cap c = card (set (lc_reservedKeys s)))"

definition reserved_entry :: "'c lru_look \<Rightarrow> 'c local_cache \<Rightarrow> string \<Rightarrow> (jsv \<times> int option) option" where
  "reserved_entry look s k = (case lc_reservedCache s of None \<Rightarrow> None | Some c \<Rightarrow> look c k)"

lemma reserved_set:
  assumes laws: "lru_laws ops look cap" and ok: "reserved_ok look cap s"
  shows "reserved_ok look cap (local_set ops now k v t s) \<and>
    (\<forall>k'. k' \<noteq> k \<longrightarrow> reserved_entry look (local_set ops now k v t s) k' = reserved_entry look s k') \<and>
    (uses_reserved k s \<longrightarrow>
      reserved_entry look (local_set ops now k v t s) k = Some (v, deadline now (resolve_ttl t (lc_ttl s))))"
proof -
  obtain c where c: "lc_reservedCache s = Some c" "dom (look c) \<subseteq> set (lc_reservedKeys s)"
    "cap c = card (set (lc_reservedKeys s))"
    using ok by (auto simp: reserved_ok_def split: option.splits)
  show ?thesis
  proof (cases "uses_reserved k s")
    case True
    then have k: "k \<in> set (lc_reservedKeys s)" by (simp add: uses_reserved_def)
    with c have "card (insert k (dom (look c))) \<le> cap c" by (simp add: card_mono)
    note room = lru_set_room [OF laws this]
    have "dom (look (lru_set ops now k v t' c)) \<subseteq> set (lc_reservedKeys s)" for t'
    proof
      fix k' assume "k' \<in> dom (look (lru_set ops now k v t' c))"
      then show "k' \<in> set (lc_reservedKeys s)"
        using k c(2) lru_set_other [OF laws, of k' k now v t' c] by (cases "k' = k") auto
    qed
    with True c room show ?thesis
      by (simp add: reserved_ok_def reserved_entry_def local_set_def put_instance_def getCacheInstance_def
          lru_set_cap [OF laws] lru_set_self [OF laws])
  next
    case False
    with c show ?thesis
      by (simp add: reserved_ok_def reserved_entry_def local_set_def put_instance_def)
  qed
qed

lemma reserved_get:
  assumes laws: "lru_laws ops look cap" and ok: "reserved_ok look cap s"
  shows "reserved_ok look cap (snd (local_get ops now k s)) \<and>
    (\<forall>k'. k' \<noteq> k \<or> fresh now (reserved_entry look s k) \<longrightarrow>
      reserved_entry look (snd (local_get ops now k s)) k' = reserved_entry look s k')"
proof -
  obtain c where c: "lc_reservedCache s = Some c" "dom (look c) \<subseteq> set (lc_reservedKeys s)"
    "cap c = card (set (lc_reservedKeys s))"
    using ok by (auto simp: reserved_ok_def split: option.splits)
  obtain w c' where get: "lru_get ops now k (getCacheInstance k s) = (w, c')"
    by (cases "lru_get ops now k (getCacheInstance k s)")
  note law = lru_get_law [OF laws get]
  show ?thesis
  proof (cases "uses_reserved k s")
    case True
    with c have "getCacheInstance k s = c" by (simp add: getCacheInstance_def)
    have "dom (look c') \<subseteq> dom (look c)"
    proof
      fix k' assume "k' \<in> dom (look c')"
      then show "k' \<in> dom (look c)" using law by (cases "k' = k") (auto simp: \<open>getCacheInstance k s = c\<close>)
    qed
    with True c law \<open>getCacheInstance k s = c\<close> get show ?thesis
      by (auto simp: reserved_ok_def reserved_entry_def local_get_def put_instance_def split: if_splits)
  next
    case False
    with c get show ?thesis by (simp add: reserved_ok_def reserved_entry_def local_get_def put_instance_def)
  qed
qed

lemma local_set_fields [simp]:
  "lc_reservedKeys (local_set ops now k v t s) = lc_reservedKeys s" "lc_ttl (local_set ops now k v t s) = lc_ttl s"
  by (simp_all add: local_set_def put_instance_def)

lemma set_all_fields [simp]:
  "lc_reservedKeys (foldl (\<lambda>s (k, v). local_set ops now k v t s) s kvs) = lc_reservedKeys s"
  "lc_ttl (foldl (\<lambda>s (k, v). local_set ops now k v t s) s kvs) = lc_ttl s"
  by (induction kvs arbitrary: s) (simp_all add: case_prod_beta)

lemma local_step_fields [simp]:
  "lc_reservedKeys (local_step ops op s) = lc_reservedKeys s" "lc_ttl (local_step ops op s) = lc_ttl s"
  by (cases op; auto simp: local_get_def local_delete_def local_purgeStale_def local_clear_def put_instance_def
      local_multiSet_def local_pipelineSet_def split: prod.split)+

lemma reserved_set_all:
  assumes laws: "lru_laws ops look cap" and "reserved_ok look cap s" and "k \<notin> fst ` set kvs"
    and "reserved_entry look s k = e"
  shows "reserved_ok look cap (foldl (\<lambda>s (k, v). local_set ops now k v t s) s kvs) \<and>
    reserved_entry look (foldl (\<lambda>s (k, v). local_set ops now k v t s) s kvs) k = e"
  using assms(2-4)
proof (induction kvs arbitrary: s)
  case (Cons p kvs)
  obtain k' v where p: "p = (k', v)" by (cases p)
  with Cons.prems(2) have "k \<noteq> k'" by simp
  with reserved_set [OF laws Cons.prems(1), of now k' v t] Cons.prems
  show ?case unfolding p foldl_Cons prod.case by (intro Cons.IH) auto
qed simp

lemma reserved_step:
  assumes laws: "lru_laws ops look cap" and ok: "reserved_ok look cap s" and "\<not> changes k op"
    and entry: "reserved_entry look s k = Some (v, None)"
  shows "reserved_ok look cap (local_step ops op s) \<and> reserved_entry look (local_step ops op s) k = Some (v, None)"
proof (cases op)
  case (OpGet now k')
  with reserved_get [OF laws ok, of now k'] entry show ?thesis by (cases "k' = k") (auto simp: fresh_def)
next
  case (OpSet now k' w t)
  with reserved_set [OF laws ok, of now k' w t] assms(3) entry show ?thesis by auto
next
  case (OpMultiSet now kvs)
  with reserved_set_all [OF laws ok _ entry] assms(3) show ?thesis by (simp add: local_multiSet_def)
next
  case (OpPipelineSet now kvs t)
  with reserved_set_all [OF laws ok _ entry] assms(3) show ?thesis by (simp add: local_pipelineSet_def)
next
  case (OpDelete k')
  with assms(3) have "k' \<noteq> k" by simp
  moreover obtain c where "lc_reservedCache s = Some c" using entry by (auto simp: reserved_entry_def split: option.splits)
  ultimately show ?thesis
    using ok entry OpDelete
    by (auto simp: local_delete_def put_instance_def getCacheInstance_def reserved_ok_def reserved_entry_def
        lru_delete_look [OF laws] lru_delete_cap [OF laws])
next
  case OpClear
  with assms(3) show ?thesis by simp
qed (use ok entry in \<open>simp_all add: local_purgeStale_def reserved_ok_def reserved_entry_def split: option.splits\<close>)

lemma cleared_get:
  assumes laws: "lru_laws ops look cap"
  shows "fst (local_get ops now k (local_clear ops s)) = JNull"
proof -
  let ?c = "getCacheInstance k (local_clear ops s)"
  have "look (lru_clear ops c) = Map.empty" for c using laws unfolding lru_laws_def by blast
  then have none: "look ?c k = None" by (auto simp: getCacheInstance_def uses_reserved_def local_clear_def)
  obtain w c' where get: "lru_get ops now k ?c = (w, c')" by (cases "lru_get ops now k ?c")
  from lru_get_law [OF laws get] none have "w = JUndef" by (simp add: fresh_def)
  with get show ?thesis by (simp add: local_get_def)
qed

text \<open>
  C12. A value stored for a reserved key without a time limit survives every operation of the cache but those that
  name its key and \<open>clear\<close>: no number of entries stored, alone or several at once, read, deleted or purged,
  for reserved keys or not, at whatever times, takes it away. Only \<open>clear\<close> empties the reserved keys as well.
\<close>

theorem reserved_never_evicted:
  assumes laws: "lru_laws ops look cap" and ok: "reserved_ok look cap s"
    and k: "k \<in> set (lc_reservedKeys s)" and n: "n \<le> 0" and v: "v \<noteq> JUndef"
    and others: "list_all (\<lambda>op. \<not> changes k op) hist"
  shows "fst (local_get ops now' k
      (foldl (\<lambda>s op. local_step ops op s) (local_set ops now k v (Some (Ms n)) s) hist)) = v \<and>
    fst (local_get ops now' k
      (foldl (\<lambda>s op. local_step ops op s) (local_set ops now k v (Some (Ms n)) s) (hist @ [OpClear]))) = JNull"
proof -
  have res: "uses_reserved k s" using ok k by (auto simp: uses_reserved_def reserved_ok_def split: option.splits)
  have start: "reserved_ok look cap (local_set ops now k v (Some (Ms n)) s)"
    "reserved_entry look (local_set ops now k v (Some (Ms n)) s) k = Some (v, None)"
    using reserved_set [OF laws ok, of now k v "Some (Ms n)"] res n by (simp_all add: resolve_ttl_def deadline_def)
  have keys: "lc_reservedKeys (foldl (\<lambda>s op. local_step ops op s) s0 hist) = lc_reservedKeys s0" for s0
    by (induction hist arbitrary: s0) simp_all
  have final: "reserved_ok look cap (foldl (\<lambda>s op. local_step ops op s) s0 hist) \<and>
      reserved_entry look (foldl (\<lambda>s op. local_step ops op s) s0 hist) k = Some (v, None)"
    if "reserved_ok look cap s0" "reserved_entry look s0 k = Some (v, None)" for s0
    using that others by (induction hist arbitrary: s0) (use reserved_step [OF laws] in auto)
  let ?s = "foldl (\<lambda>s op. local_step ops op s) (local_set ops now k v (Some (Ms n)) s) hist"
  obtain c where c: "lc_reservedCache ?s = Some c" "look c k = Some (v, None)"
    using final [OF start] by (auto simp: reserved_entry_def split: option.splits)
  have "k \<in> set (lc_reservedKeys ?s)"
    unfolding keys using k local_step_fields(1) [of ops "OpSet now k v (Some (Ms n))" s] by simp
  then have inst: "getCacheInstance k ?s = c" using c by (simp add: getCacheInstance_def uses_reserved_def)
  obtain w c' where get: "lru_get ops now' k c = (w, c')" by (cases "lru_get ops now' k c")
  from lru_get_law [OF laws get] c have "w = v" by (simp add: fresh_def)
  with v get inst have "fst (local_get ops now' k ?s) = v" by (simp add: local_get_def)
  then show ?thesis by (simp add: cleared_get [OF laws])
qed

definition sample_cache :: "list_lru local_cache" where
  "sample_cache =
     \<lparr> lc_cache = (0, []), lc_reservedCache = Some (0, []), lc_reservedKeys = [''plan''], lc_ttl = 1000 \<rparr>"

theorem reserved_never_evicted_witness:
  "fst (local_get list_lru_ops 9000 ''plan''
     (foldl (\<lambda>s op. local_step list_lru_ops op s)
       (local_set list_lru_ops 1 ''plan'' (JNum 7) (Some (Ms (-1))) sample_cache)
       [OpSet 2 ''a'' (JNum 1) None, OpMultiSet 3 [(''b'', JNum 2), (''c'', JNum 3)], OpDelete ''a'', OpPurge 8000])) = JNum 7"
proof -
  have ok: "reserved_ok list_lru_look (\<lambda>c. Suc (fst c)) sample_cache" "''plan'' \<in> set (lc_reservedKeys sample_cache)"
    by (simp_all add: reserved_ok_def sample_cache_def list_lru_look_def)
  show ?thesis
    by (rule conjunct1 [OF reserved_never_evicted [OF list_lru_laws ok]]) simp_all
qed

subsection \<open>The pattern of \<open>keys\<close> is not anchored\<close>

lemma replace_all_absent: "hd p \<notin> set s \<Longrightarrow> replace_all p r s = s"
  by (induction s) (auto simp: starts_with_def neq_Nil_conv)

lemma replace_unescaped_absent: "hd p \<notin> set s \<Longrightarrow> replace_unescaped p r e s = s"
  by (induction s arbitrary: e) (auto simp: starts_with_def neq_Nil_conv)

lemma name_escapes_absent: "backslash \<notin> set s \<Longrightarrow> name_escapes s = s"
  by (induction s rule: name_escapes.induct) auto

definition plain_key :: "string \<Rightarrow> bool" where
  "plain_key = list_all (\<lambda>c. is_alnum c \<or> c = CHR '':'')"

lemma plain_key_chars:
  assumes "plain_key p" and "c \<in> set p"
  shows "c \<notin> set ''*?[]_.^$+(){}|'' \<and> c \<noteq> backslash"
  using assms by (auto simp: plain_key_def list_all_iff is_alnum_def)

lemma plain_key_absent:
  assumes "plain_key p" and "c \<in> set ''*?[]_.^$+(){}|'' \<or> c = backslash"
  shows "c \<notin> set p"
  using plain_key_chars [OF assms(1), of c] assms(2) by blast

lemma star_last: "\<forall>c \<in> set p. c \<noteq> CHR ''*'' \<and> c \<noteq> backslash \<Longrightarrow> \<not> e \<or> p \<noteq> [] \<Longrightarrow>
    replace_unescaped ''*'' ''.*'' e (p @ ''*'') = p @ ''.*''"
  by (induction p arbitrary: e) (auto simp: starts_with_def)

lemma keys_regex_prefix:
  assumes "plain_key p"
  shows "keys_regex (p @ ''*'') = p @ ''.*''"
proof -
  have chars: "CHR ''_'' \<notin> set p" "CHR ''['' \<notin> set p" "CHR ''?'' \<notin> set p" "backslash \<notin> set p"
    by (rule plain_key_absent [OF assms]; simp)+
  have hide: "hide_escapes (p @ ''*'') = p @ ''*''"
    using chars by (simp add: hide_escapes_def replace_all_absent)
  have star: "replace_unescaped ''*'' ''.*'' False (p @ ''*'') = p @ ''.*''"
    using plain_key_absent [OF assms, of "CHR ''*''"] chars(4) by (intro star_last) auto
  have glob: "glob_to_regex (p @ ''*'') = p @ ''.*''"
    using chars by (simp add: glob_to_regex_def name_escapes_absent star replace_unescaped_absent)
  show ?thesis using chars by (simp add: keys_regex_def hide glob show_escapes_def replace_all_absent)
qed

lemma parse_prefix:
  assumes "plain_key p" and "length p < n"
  shows "parse_regex n (p @ ''.*'') = Some (map (\<lambda>c. (RxChar c, Once)) p @ [(RxAny, Star)])"
  using assms
proof (induction p arbitrary: n)
  case Nil
  then obtain m where "n = Suc m" by (cases n) auto
  then show ?case by simp
next
  case (Cons c p)
  then obtain m where m: "n = Suc m" by (cases n) auto
  have p: "plain_key p" using Cons.prems by (simp add: plain_key_def)
  have c: "regex_atom (c # p @ ''.*'') = Some (RxChar c, p @ ''.*'')"
    using plain_key_chars [OF Cons.prems(1), of c] by simp
  have rest: "regex_count (p @ ''.*'') = (Once, p @ ''.*'')"
    using plain_key_absent [OF p, of "CHR ''*''"] plain_key_absent [OF p, of "CHR ''+''"]
      plain_key_absent [OF p, of "CHR ''?''"] by (cases p) auto
  from Cons.IH [OF p, of m] Cons.prems(2) m c rest show ?case by simp
qed

lemma match_prefix_star: "match_here (map (\<lambda>c. (RxChar c, Once)) p @ [(RxAny, Star)]) s = starts_with p s"
proof (induction p arbitrary: s)
  case Nil
  show ?case by (simp add: starts_with_def)
next
  case (Cons c p)
  then show ?case by (cases s) (simp_all add: starts_with_def)
qed

text \<open>
  Asked for the keys \<open>p*\<close>, the in-memory cache answers every key that contains \<open>p\<close>, while Redis,
  whose patterns match the whole key, answers those that start with it.
\<close>

theorem keys_prefix_pattern:
  assumes "plain_key p"
  shows "local_keys ops (p @ ''*'') s = Some
    (filter (str_includes p)
      (lru_rkeys ops (lc_cache s) @ (case lc_reservedCache s of None \<Rightarrow> [] | Some c \<Rightarrow> lru_rkeys ops c)))"
proof -
  let ?r = "map (\<lambda>c. (RxChar c, Once)) p @ [(RxAny, Star)]"
  have regex: "new_RegExp (keys_regex (p @ ''*'')) = Some ?r"
    using parse_prefix [OF assms] by (simp add: new_RegExp_def keys_regex_prefix [OF assms])
  have "regex_test ?r s = str_includes p s" for s
  proof (induction s)
    case Nil
    show ?case by (cases p) (auto simp: match_prefix_star starts_with_def)
  next
    case (Cons c s)
    then show ?case by (simp only: regex_test.simps match_prefix_star str_includes.simps)
  qed
  then show ?thesis by (simp add: local_keys_def regex cong: filter_cong)
qed

theorem keys_prefix_pattern_witness:
  "local_keys list_lru_ops ''ab*''
     (local_set list_lru_ops 1 ''xaby'' (JNum 1) None
       \<lparr> lc_cache = (5, []), lc_reservedCache = None, lc_reservedKeys = [], lc_ttl = 10 \<rparr>) = Some [''xaby'']"
  using keys_prefix_pattern [of "''ab''" list_lru_ops "local_set list_lru_ops 1 ''xaby'' (JNum 1) None
       \<lparr> lc_cache = (5, []), lc_reservedCache = None, lc_reservedKeys = [], lc_ttl = 10 \<rparr>"]
  by (simp add: local_set_def put_instance_def getCacheInstance_def uses_reserved_def list_lru_ops_def
      list_lru_put_def starts_with_def plain_key_def is_alnum_def)

end
