(* ===== verification/CacheService.thy ===== *)
theory CacheService
  imports LocalCache
begin

section \<open>The cache service\<close>

text \<open>
  Models \<open>clients/cache/redisCache.ts\<close> and \<open>services/cacheService/cacheService.ts\<close>: the cache
  shared through Redis, the internal cache behind it, and the fallback from the one to the other
  when an operation on Redis fails.

  The Redis client is an argument; each of its operations fails (\<open>Inl\<close>) or succeeds. A text in
  Redis is represented by the JSON value it is the text of: \<open>json_copy\<close> is \<open>JSON.parse\<close> after
  \<open>JSON.stringify\<close>. The metrics counters, the log and the connection handling are not modelled.
\<close>

record 'r redis_client =
  rc_get :: "int \<Rightarrow> string \<Rightarrow> 'r \<Rightarrow> (string + jsv option) \<times> 'r"
  rc_set :: "int \<Rightarrow> string \<Rightarrow> jsv \<Rightarrow> ttl option \<Rightarrow> 'r \<Rightarrow> (string + unit) \<times> 'r"
  rc_mSet :: "int \<Rightarrow> (string \<times> jsv) list \<Rightarrow> 'r \<Rightarrow> (string + unit) \<times> 'r"
  rc_pipelineSet :: "int \<Rightarrow> (string \<times> jsv) list \<Rightarrow> ttl \<Rightarrow> 'r \<Rightarrow> (string + unit) \<times> 'r"
  rc_del :: "int \<Rightarrow> string \<Rightarrow> 'r \<Rightarrow> (string + unit) \<times> 'r"
  rc_flushAll :: "'r \<Rightarrow> (string + unit) \<times> 'r"
  rc_incrBy :: "int \<Rightarrow> string \<Rightarrow> int \<Rightarrow> 'r \<Rightarrow> (string + int) \<times> 'r"
  rc_rPush :: "int \<Rightarrow> string \<Rightarrow> jsv \<Rightarrow> 'r \<Rightarrow> (string + int) \<times> 'r"
  rc_lRange :: "int \<Rightarrow> string \<Rightarrow> int \<Rightarrow> int \<Rightarrow> 'r \<Rightarrow> (string + jsv list) \<times> 'r"
  rc_keys :: "int \<Rightarrow> string \<Rightarrow> 'r \<Rightarrow> (string + string list) \<times> 'r"

subsection \<open>\<open>RedisCache\<close>\<close>

definition redis_get :: "'r redis_client \<Rightarrow> int \<Rightarrow> string \<Rightarrow> 'r \<Rightarrow> (string + jsv) \<times> 'r" where
  "redis_get rc now key r =
     (case rc_get rc now key r of
        (Inl e, r') \<Rightarrow> (Inl e, r')
      | (Inr None, r') \<Rightarrow> (Inr JNull, r')
      | (Inr (Some v), r') \<Rightarrow> (Inr v, r'))"

definition redis_ttl :: "ttl option \<Rightarrow> int \<Rightarrow> ttl" where
  "redis_ttl t dflt = (case t of None \<Rightarrow> Ms dflt | Some t' \<Rightarrow> t')"

text \<open>\<open>JSON.stringify(undefined)\<close> is not a text, which the client refuses.\<close>

definition redis_set ::
  "'r redis_client \<Rightarrow> int \<Rightarrow> int \<Rightarrow> string \<Rightarrow> jsv \<Rightarrow> ttl option \<Rightarrow> 'r \<Rightarrow> (string + unit) \<times> 'r" where
  "redis_set rc dflt now key v t r =
     (if v = JUndef then (Inl ''Invalid argument type'', r)
      else (case redis_ttl t dflt of
              Infinite \<Rightarrow> rc_set rc now key (json_copy v) (Some Infinite) r
            | Ms n \<Rightarrow> rc_set rc now key (json_copy v) (if 0 < n then Some (Ms n) else None) r))"

definition redis_multiSet :: "'r redis_client \<Rightarrow> int \<Rightarrow> (string \<times> jsv) list \<Rightarrow> 'r \<Rightarrow> (string + unit) \<times> 'r" where
  "redis_multiSet rc now kvs r =
     (if JUndef \<in> snd ` set kvs then (Inl ''Invalid argument type'', r)
      else rc_mSet rc now (map (\<lambda>(k, v). (k, json_copy v)) kvs) r)"

definition redis_pipelineSet ::
  "'r redis_client \<Rightarrow> int \<Rightarrow> int \<Rightarrow> (string \<times> jsv) list \<Rightarrow> ttl option \<Rightarrow> 'r \<Rightarrow> (string + unit) \<times> 'r" where
  "redis_pipelineSet rc dflt now kvs t r =
     (if JUndef \<in> snd ` set kvs then (Inl ''Invalid argument type'', r)
      else rc_pipelineSet rc now (map (\<lambda>(k, v). (k, json_copy v)) kvs) (redis_ttl t dflt) r)"

definition redis_rPush :: "'r redis_client \<Rightarrow> int \<Rightarrow> string \<Rightarrow> jsv \<Rightarrow> 'r \<Rightarrow> (string + int) \<times> 'r" where
  "redis_rPush rc now key v r =
     (if v = JUndef then (Inl ''Invalid argument type'', r) else rc_rPush rc now key (json_copy v) r)"

subsection \<open>\<open>CacheService\<close>\<close>

record ('c, 'r) cache_env =
  ce_lru :: "'c lru_ops"
  ce_redis :: "'r redis_client"
  ce_isSharedCacheEnabled :: bool
  ce_shouldMultiSet :: bool
  ce_redisTtl :: int

record ('c, 'r) cache_state =
  cs_internal :: "'c local_cache"
  cs_shared :: 'r

definition isSharedCacheEnabled :: "bool \<Rightarrow> bool \<Rightarrow> string option \<Rightarrow> bool" where
  "isSharedCacheEnabled test redisEnabled redisUrl =
     (\<not> test \<and> redisEnabled \<and> (case redisUrl of None \<Rightarrow> False | Some u \<Rightarrow> u \<noteq> ''''))"

definition getFromInternalCache ::
  "('c, 'r) cache_env \<Rightarrow> int \<Rightarrow> string \<Rightarrow> ('c, 'r) cache_state \<Rightarrow> jsv \<times> ('c, 'r) cache_state" where
  "getFromInternalCache env now key s =
     (case local_get (ce_lru env) now key (cs_internal s) of (v, i) \<Rightarrow> (v, s\<lparr> cs_internal := i \<rparr>))"

definition getFromSharedCache ::
  "('c, 'r) cache_env \<Rightarrow> int \<Rightarrow> string \<Rightarrow> ('c, 'r) cache_state \<Rightarrow> jsv \<times> ('c, 'r) cache_state" where
  "getFromSharedCache env now key s =
     (case redis_get (ce_redis env) now key (cs_shared s) of
        (Inr v, r) \<Rightarrow> (v, s\<lparr> cs_shared := r \<rparr>)
      | (Inl e, r) \<Rightarrow> getFromInternalCache env now key (s\<lparr> cs_shared := r \<rparr>))"

definition getAsync ::
  "('c, 'r) cache_env \<Rightarrow> int \<Rightarrow> string \<Rightarrow> ('c, 'r) cache_state \<Rightarrow> jsv \<times> ('c, 'r) cache_state" where
  "getAsync env now key s =
     (if ce_isSharedCacheEnabled env then getFromSharedCache env now key s
      else getFromInternalCache env now key s)"

text \<open>An operation on Redis, and what is done on the internal cache when it fails or there is none.\<close>

definition with_fallback ::
  "('c, 'r) cache_env \<Rightarrow> ('r \<Rightarrow> (string + 'a) \<times> 'r) \<Rightarrow> ('a \<Rightarrow> 'b) \<Rightarrow>
   (('c, 'r) cache_state \<Rightarrow> 'b \<times> ('c, 'r) cache_state) \<Rightarrow> ('c, 'r) cache_state \<Rightarrow> 'b \<times> ('c, 'r) cache_state" where
  "with_fallback env shared ok fallback s =
     (if ce_isSharedCacheEnabled env
      then (case shared (cs_shared s) of
              (Inr a, r) \<Rightarrow> (ok a, s\<lparr> cs_shared := r \<rparr>)
            | (Inl e, r) \<Rightarrow> fallback (s\<lparr> cs_shared := r \<rparr>))
      else fallback s)"

definition cache_set ::
  "('c, 'r) cache_env \<Rightarrow> int \<Rightarrow> string \<Rightarrow> jsv \<Rightarrow> ttl option \<Rightarrow> ('c, 'r) cache_state \<Rightarrow> ('c, 'r) cache_state" where
  "cache_set env now key v t s =
     snd (with_fallback env (redis_set (ce_redis env) (ce_redisTtl env) now key v t) (\<lambda>u. ())
       (\<lambda>s. ((), s\<lparr> cs_internal := local_set (ce_lru env) now key v t (cs_internal s) \<rparr>)) s)"

definition multiSet ::
  "('c, 'r) cache_env \<Rightarrow> int \<Rightarrow> (string \<times> jsv) list \<Rightarrow> ttl option \<Rightarrow> ('c, 'r) cache_state \<Rightarrow> ('c, 'r) cache_state" where
  "multiSet env now entries t s =
     snd (with_fallback env
       (if ce_shouldMultiSet env then redis_multiSet (ce_redis env) now entries
        else redis_pipelineSet (ce_redis env) (ce_redisTtl env) now entries t) (\<lambda>u. ())
       (\<lambda>s. ((), s\<lparr> cs_internal := local_pipelineSet (ce_lru env) now entries t (cs_internal s) \<rparr>)) s)"

definition cache_delete ::
  "('c, 'r) cache_env \<Rightarrow> int \<Rightarrow> string \<Rightarrow> ('c, 'r) cache_state \<Rightarrow> ('c, 'r) cache_state" where
  "cache_delete env now key s =
     snd (with_fallback env (rc_del (ce_redis env) now key) (\<lambda>u. ())
       (\<lambda>s. ((), s\<lparr> cs_internal := local_delete (ce_lru env) key (cs_internal s) \<rparr>)) s)"

definition cache_clear :: "('c, 'r) cache_env \<Rightarrow> ('c, 'r) cache_state \<Rightarrow> ('c, 'r) cache_state" where
  "cache_clear env s =
     snd (with_fallback env (rc_flushAll (ce_redis env)) (\<lambda>u. ())
       (\<lambda>s. ((), s\<lparr> cs_internal := local_clear (ce_lru env) (cs_internal s) \<rparr>)) s)"

text \<open>\<open>value + amount\<close> for a cached value and a number.\<close>

fun js_add_number :: "jsv \<Rightarrow> int \<Rightarrow> jsv" where
  "js_add_number (JNum n) a = JNum (n + a)"
| "js_add_number JNull a = JNum a"
| "js_add_number (JBool b) a = JNum ((if b then 1 else 0) + a)"
| "js_add_number JUndef a = JUndef"
| "js_add_number v a = JStr (js_to_string v @ show_int a)"

definition incrBy ::
  "('c, 'r) cache_env \<Rightarrow> int \<Rightarrow> string \<Rightarrow> int \<Rightarrow> ('c, 'r) cache_state \<Rightarrow> jsv \<times> ('c, 'r) cache_state" where
  "incrBy env now key amount =
     with_fallback env (rc_incrBy (ce_redis env) now key amount) JNum
       (\<lambda>s. let (v, s1) = getFromInternalCache env now key s;
                newValue = js_add_number v amount;
                remainingTtl = local_getRemainingTtl (ce_lru env) now key (cs_internal s1)
            in (newValue,
                s1\<lparr> cs_internal := local_set (ce_lru env) now key newValue (Some remainingTtl) (cs_internal s1) \<rparr>))"

definition not_an_array :: "string \<Rightarrow> string" where
  "not_an_array key = ''Value at key '' @ key @ '' is not an array''"

fun stored_list :: "jsv \<Rightarrow> jsv list option" where
  "stored_list JNull = Some []"
| "stored_list (JArr xs) = Some xs"
| "stored_list _ = None"

definition rPush ::
  "('c, 'r) cache_env \<Rightarrow> int \<Rightarrow> string \<Rightarrow> jsv \<Rightarrow> ('c, 'r) cache_state \<Rightarrow> (string + int) \<times> ('c, 'r) cache_state" where
  "rPush env now key v =
     with_fallback env (redis_rPush (ce_redis env) now key v) Inr
       (\<lambda>s. let (stored, s1) = getFromInternalCache env now key s
            in case stored_list stored of
                 None \<Rightarrow> (Inl (not_an_array key), s1)
               | Some values \<Rightarrow>
                   (let remainingTtl = local_getRemainingTtl (ce_lru env) now key (cs_internal s1)
                    in (Inr (int (length values) + 1),
                        s1\<lparr> cs_internal := local_set (ce_lru env) now key (JArr (values @ [v])) (Some remainingTtl)
                              (cs_internal s1) \<rparr>)))"

text \<open>\<open>values.slice(start, stop)\<close>: a negative index counts from the end.\<close>

definition js_array_slice :: "int \<Rightarrow> int \<Rightarrow> 'a list \<Rightarrow> 'a list" where
  "js_array_slice start stop xs =
     (let n = int (length xs);
          from = (if start < 0 then max 0 (n + start) else min start n);
          upto = (if stop < 0 then max 0 (n + stop) else min stop n)
      in take (nat (upto - from)) (drop (nat from) xs))"

definition fallback_range :: "int \<Rightarrow> int \<Rightarrow> 'a list \<Rightarrow> 'a list" where
  "fallback_range start stop xs =
     (let stop' = (if stop < 0 then int (length xs) + stop else stop) in js_array_slice start (stop' + 1) xs)"

definition lRange ::
  "('c, 'r) cache_env \<Rightarrow> int \<Rightarrow> string \<Rightarrow> int \<Rightarrow> int \<Rightarrow> ('c, 'r) cache_state
   \<Rightarrow> (string + jsv list) \<times> ('c, 'r) cache_state" where
  "lRange env now key start stop =
     with_fallback env (rc_lRange (ce_redis env) now key start stop) Inr
       (\<lambda>s. let (stored, s1) = getFromInternalCache env now key s
            in case stored_list stored of
                 None \<Rightarrow> (Inl (not_an_array key), s1)
               | Some values \<Rightarrow> (Inr (fallback_range start stop values), s1))"

definition cache_keys ::
  "('c, 'r) cache_env \<Rightarrow> int \<Rightarrow> string \<Rightarrow> ('c, 'r) cache_state \<Rightarrow> string list option \<times> ('c, 'r) cache_state" where
  "cache_keys env now pattern =
     with_fallback env (rc_keys (ce_redis env) now pattern) Some
       (\<lambda>s. (local_keys (ce_lru env) pattern (cs_internal s), s))"

subsection \<open>The service as a cache client\<close>

text \<open>The service works on its internal cache when Redis is not used or fails.\<close>

definition redis_down :: "'r redis_client \<Rightarrow> bool" where
  "redis_down rc \<longleftrightarrow>
     (\<forall>now k r. \<exists>e. rc_get rc now k r = (Inl e, r)) \<and>
     (\<forall>now k v t r. \<exists>e. rc_set rc now k v t r = (Inl e, r)) \<and>
     (\<forall>now k r. \<exists>e. rc_del rc now k r = (Inl e, r)) \<and>
     (\<forall>now k a r. \<exists>e. rc_incrBy rc now k a r = (Inl e, r)) \<and>
     (\<forall>now k v r. \<exists>e. rc_rPush rc now k v r = (Inl e, r)) \<and>
     (\<forall>now k a b r. \<exists>e. rc_lRange rc now k a b r = (Inl e, r))"

lemma redis_downD:
  assumes "redis_down rc"
  shows "\<exists>e. rc_get rc now k r = (Inl e, r)" "\<exists>e. rc_set rc now k v t r = (Inl e, r)"
    "\<exists>e. rc_del rc now k r = (Inl e, r)" "\<exists>e. rc_incrBy rc now k a r = (Inl e, r)"
    "\<exists>e. rc_rPush rc now k v r = (Inl e, r)" "\<exists>e. rc_lRange rc now k a b r = (Inl e, r)"
  using assms by (simp_all add: redis_down_def)

definition internal_only :: "('c, 'r) cache_env \<Rightarrow> bool" where
  "internal_only env = (ce_isSharedCacheEnabled env \<longrightarrow> redis_down (ce_redis env))"

lemma internal_simps:
  assumes "internal_only env"
  shows "getAsync env now k s = getFromInternalCache env now k s"
    and "cache_set env now k v t s = s\<lparr> cs_internal := local_set (ce_lru env) now k v t (cs_internal s) \<rparr>"
    and "cache_delete env now k s = s\<lparr> cs_internal := local_delete (ce_lru env) k (cs_internal s) \<rparr>"
proof -
  have down: "ce_isSharedCacheEnabled env \<Longrightarrow> redis_down (ce_redis env)" using assms by (simp add: internal_only_def)
  show "getAsync env now k s = getFromInternalCache env now k s"
    using redis_downD(1) [OF down, of now k "cs_shared s"]
    by (auto simp: getAsync_def getFromSharedCache_def redis_get_def)
  have "ce_isSharedCacheEnabled env \<Longrightarrow>
      \<exists>e. redis_set (ce_redis env) (ce_redisTtl env) now k v t (cs_shared s) = (Inl e, cs_shared s)"
    using redis_downD(2) [OF down] by (auto simp: redis_set_def split: ttl.split)
  then show "cache_set env now k v t s = s\<lparr> cs_internal := local_set (ce_lru env) now k v t (cs_internal s) \<rparr>"
    by (auto simp: cache_set_def with_fallback_def)
  show "cache_delete env now k s = s\<lparr> cs_internal := local_delete (ce_lru env) k (cs_internal s) \<rparr>"
    using redis_downD(3) [OF down, of now k "cs_shared s"] by (auto simp: cache_delete_def with_fallback_def)
qed

lemma cache_service_client:
  assumes laws: "lru_laws (ce_lru env) look cap" and internal: "internal_only env"
  shows "cache_client (getAsync env) (cache_set env) (cache_delete env)"
proof -
  have local: "cache_client (local_get (ce_lru env)) (local_set (ce_lru env)) (\<lambda>now. local_delete (ce_lru env))"
    by (rule local_cache_client [OF laws])
  show ?thesis
    by unfold_locales
      (simp_all add: internal_simps [OF internal] getFromInternalCache_def case_prod_beta
        cache_client.get_put [OF local] cache_client.get_again [OF local] cache_client.get_remove [OF local])
qed

definition no_redis :: "unit redis_client" where
  "no_redis =
     \<lparr> rc_get = (\<lambda>now k r. (Inl ''down'', r)), rc_set = (\<lambda>now k v t r. (Inl ''down'', r)),
       rc_mSet = (\<lambda>now kvs r. (Inl ''down'', r)), rc_pipelineSet = (\<lambda>now kvs t r. (Inl ''down'', r)),
       rc_del = (\<lambda>now k r. (Inl ''down'', r)), rc_flushAll = (\<lambda>r. (Inl ''down'', r)),
       rc_incrBy = (\<lambda>now k a r. (Inl ''down'', r)), rc_rPush = (\<lambda>now k v r. (Inl ''down'', r)),
       rc_lRange = (\<lambda>now k a b r. (Inl ''down'', r)), rc_keys = (\<lambda>now p r. (Inl ''down'', r)) \<rparr>"

definition sample_env :: "(list_lru, unit) cache_env" where
  "sample_env =
     \<lparr> ce_lru = list_lru_ops, ce_redis = no_redis, ce_isSharedCacheEnabled = True, ce_shouldMultiSet = False,
       ce_redisTtl = 1000 \<rparr>"

definition sample_store :: "(list_lru, unit) cache_state" where
  "sample_store =
     \<lparr> cs_internal = \<lparr> lc_cache = (9, []), lc_reservedCache = None, lc_reservedKeys = [], lc_ttl = 1000 \<rparr>,
       cs_shared = () \<rparr>"

lemma sample_env_simps [simp]: "internal_only sample_env" "lru_laws (ce_lru sample_env) list_lru_look (\<lambda>c. Suc (fst c))"
  by (simp_all add: internal_only_def redis_down_def sample_env_def no_redis_def list_lru_laws)

interpretation service: cache_client "getAsync sample_env" "cache_set sample_env" "cache_delete sample_env"
  by (rule cache_service_client [OF sample_env_simps(2,1)])

lemma incrBy_modify:
  assumes laws: "lru_laws (ce_lru env) look cap" and internal: "internal_only env"
  shows "snd (incrBy env now k a s) =
    cache_client.modify (getAsync env) (cache_set env) (\<lambda>v. js_add_number v a)
      (\<lambda>s. Some (local_getRemainingTtl (ce_lru env) now k (cs_internal s))) now k s"
proof -
  have "ce_isSharedCacheEnabled env \<Longrightarrow> redis_down (ce_redis env)" using internal by (simp add: internal_only_def)
  from redis_downD(4) [OF this, of now k a "cs_shared s"] show ?thesis
    by (auto simp: incrBy_def with_fallback_def cache_client.modify_def [OF cache_service_client [OF assms]]
        internal_simps [OF internal] case_prod_beta Let_def)
qed

lemma rPush_modify:
  assumes laws: "lru_laws (ce_lru env) look cap" and internal: "internal_only env"
    and stored: "stored_list (fst (getAsync env now k s)) = Some xs"
  shows "fst (rPush env now k v s) = Inr (int (length xs) + 1) \<and> snd (rPush env now k v s) =
    cache_client.modify (getAsync env) (cache_set env) (\<lambda>w. JArr (the (stored_list w) @ [v]))
      (\<lambda>s. Some (local_getRemainingTtl (ce_lru env) now k (cs_internal s))) now k s \<or> v = JUndef"
proof -
  have "ce_isSharedCacheEnabled env \<Longrightarrow> redis_down (ce_redis env)" using internal by (simp add: internal_only_def)
  from redis_downD(5) [OF this, of now k "json_copy v" "cs_shared s"] stored show ?thesis
    by (auto simp: rPush_def redis_rPush_def with_fallback_def internal_simps [OF internal] case_prod_beta Let_def
        cache_client.modify_def [OF cache_service_client [OF laws internal]])
qed

text \<open>
  While the service works on its internal cache, a counter holds the sum of all the amounts added
  to it.
\<close>

theorem incrBy_accumulates:
  assumes "lru_laws (ce_lru env) look cap" and "internal_only env" and "fst (getAsync env now k s) = JNum n"
  shows "fst (getAsync env now k (fold (\<lambda>a s. snd (incrBy env now k a s)) amounts s)) = JNum (n + sum_list amounts)"
proof -
  note client = cache_service_client [OF assms(1,2)]
  have "fst (getAsync env now k (fold (\<lambda>a s. snd (incrBy env now k a s)) amounts s)) =
      fold (\<lambda>a v. js_add_number v a) amounts (JNum n)"
    unfolding incrBy_modify [OF assms(1,2)] assms(3) [symmetric]
    by (rule cache_client.get_modify_fold [OF client, where ok = "\<lambda>v. \<exists>n. v = JNum n"]) (use assms(3) in auto)
  also have "\<dots> = JNum (n + sum_list amounts)" by (induction amounts arbitrary: n) simp_all
  finally show ?thesis .
qed

theorem incrBy_accumulates_witness:
  "fst (getAsync sample_env 5 ''spent''
      (fold (\<lambda>a s. snd (incrBy sample_env 5 ''spent'' a s)) [30, 12] (cache_set sample_env 5 ''spent'' (JNum 0) None sample_store)))
   = JNum 42"
  using incrBy_accumulates [OF sample_env_simps(2,1), where n = 0 and now = 5 and k = "''spent''" and amounts = "[30, 12]"]
  by (simp add: service.get_put)

text \<open>
  \<open>LRANGE\<close> as Redis documents it, which the fallback of \<open>lRange\<close> stands in for.
\<close>

definition redis_range :: "int \<Rightarrow> int \<Rightarrow> 'a list \<Rightarrow> 'a list" where
  "redis_range start stop xs =
     (let n = int (length xs);
          a = max 0 (if start < 0 then n + start else start);
          b = min (n - 1) (if stop < 0 then n + stop else stop)
      in if b < a then [] else take (nat (b - a + 1)) (drop (nat a) xs))"

text \<open>
  The fallback answers what Redis answers as long as the end of the range is not more than one place
  before the first element, for every start; a smaller end is counted from the end of the list once
  more, and the fallback answers elements where Redis answers none.
\<close>

theorem lRange_fallback_is_redis_range:
  assumes "- int (length xs) - 1 \<le> stop"
  shows "fallback_range start stop xs = redis_range start stop xs"
proof -
  define n where "n = int (length xs)"
  define stop' where "stop' = (if stop < 0 then n + stop else stop)"
  define a where "a = max 0 (if start < 0 then n + start else start)"
  define b where "b = min (n - 1) stop'"
  define f where "f = (if start < 0 then max 0 (n + start) else min start n)"
  have n: "0 \<le> n" by (simp add: n_def)
  have stop': "0 \<le> stop' + 1" using assms by (simp add: stop'_def n_def)
  then have "(if stop' + 1 < 0 then max 0 (n + (stop' + 1)) else min (stop' + 1) n) = b + 1"
    by (auto simp: b_def min_def)
  then have fallback: "fallback_range start stop xs = take (nat (b + 1 - f)) (drop (nat f) xs)"
    by (simp only: fallback_range_def js_array_slice_def Let_def n_def [symmetric] stop'_def [symmetric]
        f_def [symmetric])
  have redis: "redis_range start stop xs = (if b < a then [] else take (nat (b - a + 1)) (drop (nat a) xs))"
    by (simp add: redis_range_def Let_def n_def [symmetric] a_def b_def stop'_def)
  have f: "f = min a n" using n by (auto simp: f_def a_def)
  show ?thesis
  proof (cases "b < a")
    case True
    then have "b + 1 \<le> f" using f by (simp add: b_def)
    with True show ?thesis by (simp add: fallback redis)
  next
    case False
    then have "f = a" using f by (simp add: b_def)
    with False show ?thesis by (simp add: fallback redis algebra_simps)
  qed
qed

theorem lRange_fallback_is_redis_range_witness:
  "fallback_range 0 (-1) [JNum 1, JNum 2] = redis_range 0 (-1) [JNum 1, JNum 2]"
  by (rule lRange_fallback_is_redis_range) simp

text \<open>
  The fallback of a range whose end lies more than one place before the first element, but less than
  the length of the list further, answers elements, where Redis answers an empty list.
\<close>

theorem lRange_fallback_wraps:
  assumes "stop < - int (length xs) - 1" and "- 2 * int (length xs) - 1 < stop"
  shows "redis_range 0 stop xs = [] \<and> fallback_range 0 stop xs \<noteq> []"
  using assms by (auto simp: fallback_range_def redis_range_def js_array_slice_def Let_def max_def min_def)

theorem lRange_fallback_wraps_witness:
  "redis_range 0 (-5) [JNum 1, JNum 2, JNum 3] = [] \<and> fallback_range 0 (-5) [JNum 1, JNum 2, JNum 3] \<noteq> []"
  by (rule lRange_fallback_wraps) simp_all

text \<open>
  A write that fails on Redis goes to the internal cache alone. Once Redis answers again, a read
  finds the value that was there before the failed write, and the newer one is out of reach.
\<close>

theorem stale_after_failed_write:
  assumes "ce_isSharedCacheEnabled env" and "v1 \<noteq> JUndef" and "v2 \<noteq> JUndef"
    and "\<And>v t r r'. redis_set (ce_redis env) (ce_redisTtl env) now k v t r = (Inr (), r') \<Longrightarrow>
      fst (redis_get (ce_redis env) now k r') = Inr (json_copy v)"
    and "redis_set (ce_redis env) (ce_redisTtl env) now k v1 t (cs_shared s) = (Inr (), r1)"
    and "redis_set (ce_redis env) (ce_redisTtl env) now k v2 t r1 = (Inl e, r1)"
  shows "fst (getAsync env now k (cache_set env now k v2 t (cache_set env now k v1 t s))) = json_copy v1"
proof -
  obtain r2 where "redis_get (ce_redis env) now k r1 = (Inr (json_copy v1), r2)"
    using assms(4) [OF assms(5)] by (cases "redis_get (ce_redis env) now k r1") auto
  with assms(1,5,6) show ?thesis
    by (simp add: getAsync_def getFromSharedCache_def cache_set_def with_fallback_def)
qed

text \<open>A Redis that loses its link after the first write and finds it again for the next read.\<close>

definition flaky_redis :: "jsv option redis_client" where
  "flaky_redis =
     \<lparr> rc_get = (\<lambda>now k r. (Inr r, r)),
       rc_set = (\<lambda>now k v t r. if r = None then (Inr (), Some v) else (Inl ''socket closed'', r)),
       rc_mSet = (\<lambda>now kvs r. (Inl ''down'', r)), rc_pipelineSet = (\<lambda>now kvs t r. (Inl ''down'', r)),
       rc_del = (\<lambda>now k r. (Inl ''down'', r)), rc_flushAll = (\<lambda>r. (Inl ''down'', r)),
       rc_incrBy = (\<lambda>now k a r. (Inl ''down'', r)), rc_rPush = (\<lambda>now k v r. (Inl ''down'', r)),
       rc_lRange = (\<lambda>now k a b r. (Inl ''down'', r)), rc_keys = (\<lambda>now p r. (Inl ''down'', r)) \<rparr>"

definition flaky_env :: "(list_lru, jsv option) cache_env" where
  "flaky_env =
     \<lparr> ce_lru = list_lru_ops, ce_redis = flaky_redis, ce_isSharedCacheEnabled = True, ce_shouldMultiSet = False,
       ce_redisTtl = 1000 \<rparr>"

theorem stale_after_failed_write_witness:
  "fst (getAsync flaky_env 1 ''k'' (cache_set flaky_env 1 ''k'' (JNum 2) None
     (cache_set flaky_env 1 ''k'' (JNum 1) None \<lparr> cs_internal = cs_internal sample_store, cs_shared = None \<rparr>))) = json_copy (JNum 1)"
proof (rule stale_after_failed_write)
  show "fst (redis_get (ce_redis flaky_env) 1 ''k'' r') = Inr (json_copy v)"
    if "redis_set (ce_redis flaky_env) (ce_redisTtl flaky_env) 1 ''k'' v t r = (Inr (), r')" for v t r r'
    using that
    by (auto simp: flaky_env_def flaky_redis_def redis_set_def redis_get_def split: if_splits ttl.splits)
qed (auto simp: flaky_env_def flaky_redis_def redis_set_def redis_ttl_def)

end
