(* ===== verification/HbarPlans.thy ===== *)
theory HbarPlans
  imports JsCore
begin

section \<open>HBAR spending plans\<close>

text \<open>
  Models \<open>packages/relay/src/lib/db\<close>: the entities of the HBAR limiter and the repositories of
  spending plans and of the plans linked to EVM and IP addresses.

  The repositories keep everything in the cache service. Here the cache is a timed map: a key has
  a typed value and perhaps a deadline, from which on it is gone. What the cache service adds
  (eviction, the fallback from Redis) is in \<open>CacheService\<close>. Every read of the clock in one
  operation sees the same time. Amounts are integers.
\<close>

subsection \<open>Entities\<close>

datatype SubscriptionTier = BASIC | EXTENDED | PRIVILEGED | OPERATOR

record spending_plan =
  plan_id :: string
  plan_subscriptionTier :: SubscriptionTier
  plan_createdAt :: int
  plan_active :: bool

record spending_record =
  record_amount :: int
  record_timestamp :: int

record detailed_plan = spending_plan +
  plan_spendingHistory :: "spending_record list"
  plan_amountSpent :: int

definition HbarSpendingPlanNotFoundError :: "string \<Rightarrow> string" where
  "HbarSpendingPlanNotFoundError i = ''HbarSpendingPlan with ID '' @ i @ '' not found''"

definition HbarSpendingPlanNotActiveError :: "string \<Rightarrow> string" where
  "HbarSpendingPlanNotActiveError i = ''HbarSpendingPlan with ID '' @ i @ '' is not active''"

definition EvmAddressHbarSpendingPlanNotFoundError :: "string \<Rightarrow> string" where
  "EvmAddressHbarSpendingPlanNotFoundError a = ''EvmAddressHbarSpendingPlan with address '' @ a @ '' not found''"

definition IPAddressHbarSpendingPlanNotFoundError :: string where
  "IPAddressHbarSpendingPlanNotFoundError = ''IPAddressHbarSpendingPlan not found''"

subsection \<open>The store\<close>

datatype cache_value =
    PlanValue spending_plan
  | LinkValue string string
  | AmountValue int
  | HistoryValue "spending_record list"

type_synonym store = "string \<Rightarrow> (cache_value \<times> int option) option"

definition tm_get :: "int \<Rightarrow> string \<Rightarrow> store \<Rightarrow> cache_value option" where
  "tm_get now k st =
     (case st k of
        None \<Rightarrow> None
      | Some (v, None) \<Rightarrow> Some v
      | Some (v, Some d) \<Rightarrow> if now < d then Some v else None)"

definition tm_set :: "int \<Rightarrow> string \<Rightarrow> cache_value \<Rightarrow> int \<Rightarrow> store \<Rightarrow> store" where
  "tm_set now k v ttl st = st(k \<mapsto> (v, if 0 < ttl then Some (now + ttl) else None))"

definition tm_delete :: "string \<Rightarrow> store \<Rightarrow> store" where
  "tm_delete k st = st(k := None)"

text \<open>A value that is replaced keeps its deadline; one that is not there starts without.\<close>

definition tm_replace :: "int \<Rightarrow> string \<Rightarrow> cache_value \<Rightarrow> store \<Rightarrow> store" where
  "tm_replace now k v st =
     st(k \<mapsto> (v, if tm_get now k st = None then None else snd (the (st k))))"

subsection \<open>\<open>HbarSpendingPlanRepository\<close>\<close>

definition plan_key :: "string \<Rightarrow> string" where
  "plan_key i = ''hbarSpendingPlan:'' @ i"

definition getAmountSpentKey :: "string \<Rightarrow> string" where
  "getAmountSpentKey i = ''hbarSpendingPlan:'' @ i @ '':amountSpent''"

definition getSpendingHistoryKey :: "string \<Rightarrow> string" where
  "getSpendingHistoryKey i = ''hbarSpendingPlan:'' @ i @ '':spendingHistory''"

definition findById :: "int \<Rightarrow> string \<Rightarrow> store \<Rightarrow> string + spending_plan" where
  "findById now i st =
     (case tm_get now (plan_key i) st of
        Some (PlanValue p) \<Rightarrow> Inr p
      | _ \<Rightarrow> Inl (HbarSpendingPlanNotFoundError i))"

definition checkExistsAndActive :: "int \<Rightarrow> string \<Rightarrow> store \<Rightarrow> string + unit" where
  "checkExistsAndActive now i st =
     and_then (findById now i st) (\<lambda>p. ensure (plan_active p) (HbarSpendingPlanNotActiveError i))"

definition stored_amount :: "int \<Rightarrow> string \<Rightarrow> store \<Rightarrow> int" where
  "stored_amount now i st =
     (case tm_get now (getAmountSpentKey i) st of Some (AmountValue a) \<Rightarrow> a | _ \<Rightarrow> 0)"

definition getAmountSpent :: "int \<Rightarrow> string \<Rightarrow> store \<Rightarrow> string + int" where
  "getAmountSpent now i st =
     and_then (checkExistsAndActive now i st) (\<lambda>_. Inr (stored_amount now i st))"

definition make_detailed :: "spending_plan \<Rightarrow> spending_record list \<Rightarrow> int \<Rightarrow> detailed_plan" where
  "make_detailed p hist amount =
     \<lparr> plan_id = plan_id p, plan_subscriptionTier = plan_subscriptionTier p, plan_createdAt = plan_createdAt p,
       plan_active = plan_active p, plan_spendingHistory = hist, plan_amountSpent = amount \<rparr>"

definition findByIdWithDetails :: "int \<Rightarrow> string \<Rightarrow> store \<Rightarrow> string + detailed_plan" where
  "findByIdWithDetails now i st =
     and_then (findById now i st) (\<lambda>p.
     and_then (getAmountSpent now i st) (\<lambda>amount. Inr (make_detailed p [] amount)))"

definition create_plan :: "SubscriptionTier \<Rightarrow> int \<Rightarrow> int \<Rightarrow> string \<Rightarrow> store \<Rightarrow> detailed_plan \<times> store" where
  "create_plan tier now ttl planId st =
     (let p = \<lparr> plan_id = planId, plan_subscriptionTier = tier, plan_createdAt = now, plan_active = True \<rparr>
      in (make_detailed p [] 0, tm_set now (plan_key planId) (PlanValue p) ttl st))"

definition delete_plan :: "string \<Rightarrow> store \<Rightarrow> store" where
  "delete_plan i st = tm_delete (plan_key i) st"

definition stored_history :: "int \<Rightarrow> string \<Rightarrow> store \<Rightarrow> spending_record list" where
  "stored_history now i st =
     (case tm_get now (getSpendingHistoryKey i) st of Some (HistoryValue h) \<Rightarrow> h | _ \<Rightarrow> [])"

definition getSpendingHistory :: "int \<Rightarrow> string \<Rightarrow> store \<Rightarrow> string + spending_record list" where
  "getSpendingHistory now i st =
     and_then (checkExistsAndActive now i st) (\<lambda>_. Inr (stored_history now i st))"

definition addAmountToSpendingHistory :: "int \<Rightarrow> string \<Rightarrow> int \<Rightarrow> store \<Rightarrow> (string + nat) \<times> store" where
  "addAmountToSpendingHistory now i amount st =
     (case checkExistsAndActive now i st of
        Inl e \<Rightarrow> (Inl e, st)
      | Inr u \<Rightarrow>
          (let h = stored_history now i st @ [\<lparr> record_amount = amount, record_timestamp = now \<rparr>]
           in (Inr (length h), tm_replace now (getSpendingHistoryKey i) (HistoryValue h) st)))"

definition is_amount_key :: "string \<Rightarrow> bool" where
  "is_amount_key k =
     (starts_with ''hbarSpendingPlan:'' k \<and>
      starts_with (rev '':amountSpent'') (rev (drop (length ''hbarSpendingPlan:'') k)))"

definition resetAmountSpentOfAllPlans :: "store \<Rightarrow> store" where
  "resetAmountSpentOfAllPlans st = (\<lambda>k. if is_amount_key k then None else st k)"

definition addToAmountSpent :: "int \<Rightarrow> string \<Rightarrow> int \<Rightarrow> int \<Rightarrow> store \<Rightarrow> (string + unit) \<times> store" where
  "addToAmountSpent now i amount ttl st =
     (case checkExistsAndActive now i st of
        Inl e \<Rightarrow> (Inl e, st)
      | Inr u \<Rightarrow>
          (let k = getAmountSpentKey i; old = stored_amount now i st
           in if old = 0 then (Inr (), tm_set now k (AmountValue amount) ttl st)
              else (Inr (), tm_replace now k (AmountValue (old + amount)) st)))"

subsection \<open>The plans linked to addresses\<close>

definition lower_char :: "char \<Rightarrow> char" where
  "lower_char c = (let n = (of_char c :: nat) in if 65 \<le> n \<and> n \<le> 90 then char_of (n + 32) else c)"

definition trim_spaces :: "string \<Rightarrow> string" where
  "trim_spaces s = rev (dropWhile js_space (rev (dropWhile js_space s)))"

definition evm_key :: "string \<Rightarrow> string" where
  "evm_key a = ''evmAddressHbarSpendingPlan:'' @ map lower_char (trim_spaces a)"

definition ip_key :: "string \<Rightarrow> string" where
  "ip_key a = ''ipAddressHbarSpendingPlan:'' @ a"

definition find_link :: "int \<Rightarrow> string \<Rightarrow> store \<Rightarrow> string option" where
  "find_link now k st = (case tm_get now k st of Some (LinkValue a p) \<Rightarrow> Some p | _ \<Rightarrow> None)"

definition evm_findByAddress :: "int \<Rightarrow> string \<Rightarrow> store \<Rightarrow> string + string" where
  "evm_findByAddress now a st =
     (case find_link now (evm_key a) st of
        Some p \<Rightarrow> Inr p | None \<Rightarrow> Inl (EvmAddressHbarSpendingPlanNotFoundError a))"

definition evm_existsByAddress :: "int \<Rightarrow> string \<Rightarrow> store \<Rightarrow> bool" where
  "evm_existsByAddress now a st = (find_link now (evm_key a) st \<noteq> None)"

definition evm_save :: "int \<Rightarrow> string \<Rightarrow> string \<Rightarrow> int \<Rightarrow> store \<Rightarrow> store" where
  "evm_save now a planId ttl st = tm_set now (evm_key a) (LinkValue a planId) ttl st"

definition evm_delete :: "string \<Rightarrow> store \<Rightarrow> store" where
  "evm_delete a st = tm_delete (evm_key a) st"

definition ip_findByAddress :: "int \<Rightarrow> string \<Rightarrow> store \<Rightarrow> string + string" where
  "ip_findByAddress now a st =
     (case find_link now (ip_key a) st of Some p \<Rightarrow> Inr p | None \<Rightarrow> Inl IPAddressHbarSpendingPlanNotFoundError)"

definition ip_existsByAddress :: "int \<Rightarrow> string \<Rightarrow> store \<Rightarrow> bool" where
  "ip_existsByAddress now a st = (find_link now (ip_key a) st \<noteq> None)"

definition ip_save :: "int \<Rightarrow> string \<Rightarrow> string \<Rightarrow> int \<Rightarrow> store \<Rightarrow> store" where
  "ip_save now a planId ttl st = tm_set now (ip_key a) (LinkValue a planId) ttl st"

definition ip_delete :: "string \<Rightarrow> store \<Rightarrow> store" where
  "ip_delete a st = tm_delete (ip_key a) st"

text \<open>\<open>deleteAllByPlanId\<close> of either repository: all the keys of its collection that link the plan.\<close>

definition delete_links :: "string \<Rightarrow> int \<Rightarrow> string \<Rightarrow> store \<Rightarrow> store" where
  "delete_links prefix now planId st =
     (\<lambda>k. if starts_with prefix k \<and> find_link now k st = Some planId then None else st k)"

definition evm_deleteAllByPlanId :: "int \<Rightarrow> string \<Rightarrow> store \<Rightarrow> store" where
  "evm_deleteAllByPlanId = delete_links ''evmAddressHbarSpendingPlan:''"

definition ip_deleteAllByPlanId :: "int \<Rightarrow> string \<Rightarrow> store \<Rightarrow> store" where
  "ip_deleteAllByPlanId = delete_links ''ipAddressHbarSpendingPlan:''"

subsection \<open>Keys\<close>

lemmas key_defs = plan_key_def getAmountSpentKey_def evm_key_def ip_key_def getSpendingHistoryKey_def

lemma amount_key_inject [simp]: "getAmountSpentKey i = getAmountSpentKey j \<longleftrightarrow> i = j"
  by (simp add: getAmountSpentKey_def)

lemma plan_key_inject [simp]: "plan_key i = plan_key j \<longleftrightarrow> i = j"
  by (simp add: plan_key_def)

lemma plan_key_not_amount_key [simp]: "CHR '':'' \<notin> set i \<Longrightarrow> plan_key i \<noteq> getAmountSpentKey j"
  by (auto simp: plan_key_def getAmountSpentKey_def)

lemma link_keys_distinct [simp]:
  "evm_key a \<noteq> plan_key i" "evm_key a \<noteq> getAmountSpentKey i" "ip_key a \<noteq> plan_key i" "ip_key a \<noteq> getAmountSpentKey i"
  "evm_key a \<noteq> ip_key b" "plan_key i \<noteq> evm_key a" "getAmountSpentKey i \<noteq> evm_key a"
  "plan_key i \<noteq> ip_key a" "getAmountSpentKey i \<noteq> ip_key a" "ip_key b \<noteq> evm_key a"
  by (simp_all add: key_defs)

lemma is_amount_key_amount_key [simp]: "is_amount_key (getAmountSpentKey i)"
  by (simp add: is_amount_key_def getAmountSpentKey_def starts_with_def)

lemma ends_with_colon: "starts_with (rev '':amountSpent'') (rev s) \<Longrightarrow> CHR '':'' \<in> set s"
proof -
  assume "starts_with (rev '':amountSpent'') (rev s)"
  then obtain t where "rev s = rev '':amountSpent'' @ t" by (auto simp: starts_with_iff)
  then have "s = rev t @ '':amountSpent''" by (metis rev_append rev_rev_ident)
  then show ?thesis by simp
qed

lemma is_amount_key_plan_key [simp]: "CHR '':'' \<notin> set i \<Longrightarrow> \<not> is_amount_key (plan_key i)"
  using ends_with_colon [of i] by (auto simp: is_amount_key_def plan_key_def)

lemma is_amount_key_links [simp]: "\<not> is_amount_key (evm_key a)" "\<not> is_amount_key (ip_key a)"
  by (simp_all add: is_amount_key_def key_defs starts_with_def)

subsection \<open>Reading after writing\<close>

lemma tm_get_set [simp]:
  "tm_get now k (tm_set now' k v ttl st) = (if ttl \<le> 0 \<or> now < now' + ttl then Some v else None)"
  "k' \<noteq> k \<Longrightarrow> tm_get now k' (tm_set now' k v ttl st) = tm_get now k' st"
  by (auto simp: tm_get_def tm_set_def)

lemma tm_get_replace [simp]:
  "tm_get now k (tm_replace now k v st) = Some v"
  "k' \<noteq> k \<Longrightarrow> tm_get u k' (tm_replace now k v st) = tm_get u k' st"
  by (auto simp: tm_get_def tm_replace_def split: option.splits)

lemma tm_get_delete [simp]:
  "tm_get now k (tm_delete k st) = None" "k' \<noteq> k \<Longrightarrow> tm_get now k' (tm_delete k st) = tm_get now k' st"
  by (auto simp: tm_get_def tm_delete_def)

lemma tm_get_reset: "tm_get now k (resetAmountSpentOfAllPlans st) = (if is_amount_key k then None else tm_get now k st)"
  by (simp add: tm_get_def resetAmountSpentOfAllPlans_def)

lemma findById_cong: "tm_get now (plan_key i) st' = tm_get now (plan_key i) st \<Longrightarrow> findById now i st' = findById now i st"
  by (simp add: findById_def)

lemma stored_amount_cong:
  "tm_get now (getAmountSpentKey i) st' = tm_get now (getAmountSpentKey i) st \<Longrightarrow> stored_amount now i st' = stored_amount now i st"
  by (simp add: stored_amount_def)

definition active_plan :: "int \<Rightarrow> string \<Rightarrow> spending_plan \<Rightarrow> store \<Rightarrow> bool" where
  "active_plan now i p st = (findById now i st = Inr p \<and> plan_active p)"

lemma active_plan_checks: "active_plan now i p st \<Longrightarrow> checkExistsAndActive now i st = Inr ()"
  by (simp add: active_plan_def checkExistsAndActive_def ensure_def)

lemma findByIdWithDetails_active:
  "active_plan now i p st \<Longrightarrow> findByIdWithDetails now i st = Inr (make_detailed p [] (stored_amount now i st))"
  using active_plan_checks [of now i p st] by (simp add: findByIdWithDetails_def getAmountSpent_def active_plan_def)

lemma addToAmountSpent_active:
  assumes "active_plan now i p st" and "0 < ttl"
  shows "\<exists>st'. addToAmountSpent now i amount ttl st = (Inr (), st') \<and>
    stored_amount now i st' = stored_amount now i st + amount \<and>
    (\<forall>k u. k \<noteq> getAmountSpentKey i \<longrightarrow> tm_get u k st' = tm_get u k st)"
  using active_plan_checks [OF assms(1)] assms(2)
  by (cases "stored_amount now i st = 0") (auto simp: addToAmountSpent_def Let_def stored_amount_def)

text \<open>
  Spending on an active plan adds the amount to the plan and changes nothing else: not the amount of
  any other plan, no plan, no link.
\<close>

theorem addToAmountSpent_exact:
  assumes "active_plan now i p st" and "0 < ttl" and "j \<noteq> i" and "CHR '':'' \<notin> set i"
  shows "(case addToAmountSpent now i amount ttl st of
      (r, st') \<Rightarrow> r = Inr () \<and> getAmountSpent now i st' = Inr (stored_amount now i st + amount) \<and>
        stored_amount now j st' = stored_amount now j st \<and>
        evm_findByAddress now a st' = evm_findByAddress now a st \<and>
        ip_findByAddress now b st' = ip_findByAddress now b st)"
proof -
  obtain st' where st': "addToAmountSpent now i amount ttl st = (Inr (), st')"
    "stored_amount now i st' = stored_amount now i st + amount"
    "\<And>k u. k \<noteq> getAmountSpentKey i \<Longrightarrow> tm_get u k st' = tm_get u k st"
    using addToAmountSpent_active [OF assms(1,2)] by blast
  have "active_plan now i p st'"
    using assms(1,4) findById_cong [OF st'(3)] by (simp add: active_plan_def)
  then have "checkExistsAndActive now i st' = Inr ()" by (rule active_plan_checks)
  then show ?thesis
    using st' assms(3)
    by (simp add: getAmountSpent_def stored_amount_def evm_findByAddress_def ip_findByAddress_def find_link_def)
qed

definition sample_plan :: spending_plan where
  "sample_plan = \<lparr> plan_id = ''p'', plan_subscriptionTier = BASIC, plan_createdAt = 1, plan_active = True \<rparr>"

theorem addToAmountSpent_exact_witness:
  "fst (addToAmountSpent 2 ''p'' 7 1000 (tm_set 1 (plan_key ''p'') (PlanValue sample_plan) 1000 Map.empty)) = Inr ()"
  using addToAmountSpent_exact [of 2 "''p''" sample_plan "tm_set 1 (plan_key ''p'') (PlanValue sample_plan) 1000 Map.empty"
      1000 "''q''" 7]
  by (simp add: active_plan_def findById_def sample_plan_def case_prod_beta)

end
