(* ===== verification/HbarLimiter.thy ===== *)
theory HbarLimiter
  imports HbarPlans
begin

section \<open>The HBAR limiter\<close>

text \<open>
  Models \<open>packages/relay/src/lib/services/hbarLimitService/index.ts\<close>: the budget of the operator
  and of every spending plan within one limit period, when a request is limited, how an expense is
  booked, and the reset at the end of the period.

  One operation sees one time \<open>now\<close>. Amounts are integers of tinybars. Identifiers of new plans come
  from a stream of fresh names. The gauges of the remaining budget and the counter of plans used in
  the period are part of the state; the average per tier, computed in the background for the metrics
  alone, is not modelled.
\<close>

record hbar_config =
  TIER_LIMITS :: "SubscriptionTier \<Rightarrow> int"
  operatorAddress :: string
  limitDuration :: int
  uuid_of :: "nat \<Rightarrow> string"

record hbar_state =
  hl_store :: store
  hl_reset :: int
  hl_nextUuid :: nat
  hl_remainingGauge :: int
  hl_limitCounter :: nat
  hl_uniquePlans :: "SubscriptionTier \<Rightarrow> nat"

definition isEnabled :: "hbar_config \<Rightarrow> bool" where
  "isEnabled cfg = (\<not> TIER_LIMITS cfg OPERATOR \<le> 0)"

subsection \<open>The reset time\<close>

text \<open>\<open>Math.ceil(a / b)\<close> for integers.\<close>

definition ceil_div :: "int \<Rightarrow> int \<Rightarrow> int" where
  "ceil_div a b = - ((- a) div b)"

text \<open>The loop of \<open>getResetTimestamp\<close>, with fuel; \<open>None\<close> is a loop that has not ended.\<close>

fun reset_loop :: "nat \<Rightarrow> int \<Rightarrow> int \<Rightarrow> int \<Rightarrow> int option" where
  "reset_loop 0 now duration resetDate = None"
| "reset_loop (Suc fuel) now duration resetDate =
     (if resetDate < now
      then reset_loop fuel now duration (resetDate + ceil_div (now - resetDate) duration * duration)
      else Some resetDate)"

definition getResetTimestamp :: "int \<Rightarrow> int \<Rightarrow> int \<Rightarrow> int" where
  "getResetTimestamp now duration base = the (reset_loop 2 now duration base)"

definition shouldResetLimiter :: "int \<Rightarrow> hbar_state \<Rightarrow> bool" where
  "shouldResetLimiter now s = (hl_reset s \<le> now)"

subsection \<open>Spending plans of a caller\<close>

definition getSpendingPlanByEvmAddress :: "int \<Rightarrow> string \<Rightarrow> store \<Rightarrow> string + detailed_plan" where
  "getSpendingPlanByEvmAddress now a st =
     and_then (evm_findByAddress now a st) (\<lambda>i. findByIdWithDetails now i st)"

definition getSpendingPlanByIPAddress :: "int \<Rightarrow> string \<Rightarrow> store \<Rightarrow> string + detailed_plan" where
  "getSpendingPlanByIPAddress now a st =
     and_then (ip_findByAddress now a st) (\<lambda>i. findByIdWithDetails now i st)"

text \<open>An address that is not given is the empty text. Failures of the two look-ups are swallowed.\<close>

definition getSpendingPlan :: "int \<Rightarrow> string \<Rightarrow> string \<Rightarrow> store \<Rightarrow> detailed_plan option" where
  "getSpendingPlan now evmAddress ipAddress st =
     (case (if evmAddress \<noteq> '''' then getSpendingPlanByEvmAddress now evmAddress st else Inl '''') of
        Inr p \<Rightarrow> Some p
      | Inl e \<Rightarrow>
          (case (if ipAddress \<noteq> '''' then getSpendingPlanByIPAddress now ipAddress st else Inl '''') of
             Inr p \<Rightarrow> Some p
           | Inl e' \<Rightarrow> None))"

definition no_address_error :: string where
  "no_address_error = ''Cannot create a spending plan without an associated evm address''"

definition createSpendingPlanForAddress ::
  "hbar_config \<Rightarrow> int \<Rightarrow> string \<Rightarrow> SubscriptionTier \<Rightarrow> hbar_state \<Rightarrow> (string + detailed_plan) \<times> hbar_state" where
  "createSpendingPlanForAddress cfg now evmAddress tier s =
     (if evmAddress = '''' then (Inl no_address_error, s)
      else (let planId = uuid_of cfg (hl_nextUuid s);
                (p, st1) = create_plan tier now (limitDuration cfg) planId (hl_store s);
                st2 = evm_save now evmAddress planId (limitDuration cfg) st1
            in (Inr p, s\<lparr> hl_store := st2, hl_nextUuid := hl_nextUuid s + 1 \<rparr>)))"

definition getOperatorSpendingPlan ::
  "hbar_config \<Rightarrow> int \<Rightarrow> string \<Rightarrow> hbar_state \<Rightarrow> (string + detailed_plan) \<times> hbar_state" where
  "getOperatorSpendingPlan cfg now ipAddress s =
     (case getSpendingPlan now (operatorAddress cfg) ipAddress (hl_store s) of
        Some p \<Rightarrow> (Inr p, s)
      | None \<Rightarrow> createSpendingPlanForAddress cfg now (operatorAddress cfg) OPERATOR s)"

definition getRemainingBudget :: "hbar_config \<Rightarrow> int \<Rightarrow> string \<Rightarrow> hbar_state \<Rightarrow> int \<times> hbar_state" where
  "getRemainingBudget cfg now ipAddress s =
     (case getOperatorSpendingPlan cfg now ipAddress s of
        (Inr p, s') \<Rightarrow> (TIER_LIMITS cfg OPERATOR - plan_amountSpent p, s')
      | (Inl e, s') \<Rightarrow> (TIER_LIMITS cfg OPERATOR, s'))"

subsection \<open>The operations\<close>

definition resetLimiter :: "hbar_config \<Rightarrow> int \<Rightarrow> string \<Rightarrow> hbar_state \<Rightarrow> hbar_state" where
  "resetLimiter cfg now ipAddress s =
     (let (remaining, s1) =
            getRemainingBudget cfg now ipAddress (s\<lparr> hl_store := resetAmountSpentOfAllPlans (hl_store s) \<rparr>)
      in s1\<lparr> hl_remainingGauge := remaining, hl_uniquePlans := (\<lambda>t. 0),
             hl_reset := getResetTimestamp now (limitDuration cfg) (hl_reset s1) \<rparr>)"

definition isTotalBudgetExceeded ::
  "hbar_config \<Rightarrow> int \<Rightarrow> string \<Rightarrow> int \<Rightarrow> hbar_state \<Rightarrow> bool \<times> hbar_state" where
  "isTotalBudgetExceeded cfg now ipAddress estimatedTxFee s =
     (let s1 = (if shouldResetLimiter now s then resetLimiter cfg now ipAddress s else s);
          (remaining, s2) = getRemainingBudget cfg now ipAddress s1
      in if remaining \<le> 0 \<or> remaining - estimatedTxFee < 0
         then (True, s2\<lparr> hl_limitCounter := hl_limitCounter s2 + 1 \<rparr>) else (False, s2))"

definition exceedsLimit :: "hbar_config \<Rightarrow> detailed_plan \<Rightarrow> int \<Rightarrow> bool" where
  "exceedsLimit cfg p estimatedTxFee =
     (let spendingLimit = TIER_LIMITS cfg (plan_subscriptionTier p)
      in spendingLimit \<le> plan_amountSpent p \<or> spendingLimit < plan_amountSpent p + estimatedTxFee)"

definition shouldLimit ::
  "hbar_config \<Rightarrow> int \<Rightarrow> string \<Rightarrow> string \<Rightarrow> int \<Rightarrow> hbar_state \<Rightarrow> (string + bool) \<times> hbar_state" where
  "shouldLimit cfg now evmAddress ipAddress estimatedTxFee s =
     (if \<not> isEnabled cfg then (Inr False, s)
      else (case isTotalBudgetExceeded cfg now ipAddress estimatedTxFee s of
              (True, s1) \<Rightarrow> (Inr True, s1)
            | (False, s1) \<Rightarrow>
                (if evmAddress = '''' \<and> ipAddress = '''' then (Inr False, s1)
                 else (case getSpendingPlan now evmAddress ipAddress (hl_store s1) of
                         Some p \<Rightarrow> (Inr (exceedsLimit cfg p estimatedTxFee), s1)
                       | None \<Rightarrow>
                           (case createSpendingPlanForAddress cfg now evmAddress BASIC s1 of
                              (Inr p, s2) \<Rightarrow> (Inr (exceedsLimit cfg p estimatedTxFee), s2)
                            | (Inl e, s2) \<Rightarrow> (Inl e, s2))))))"

definition book :: "hbar_config \<Rightarrow> int \<Rightarrow> string \<Rightarrow> int \<Rightarrow> hbar_state \<Rightarrow> (string + unit) \<times> hbar_state" where
  "book cfg now planId cost s =
     (case addToAmountSpent now planId cost (limitDuration cfg) (hl_store s) of
        (r, st) \<Rightarrow> (r, s\<lparr> hl_store := st \<rparr>))"

definition addExpense ::
  "hbar_config \<Rightarrow> int \<Rightarrow> int \<Rightarrow> string \<Rightarrow> string \<Rightarrow> hbar_state \<Rightarrow> (string + unit) \<times> hbar_state" where
  "addExpense cfg now cost evmAddress ipAddress s =
     (if \<not> isEnabled cfg then (Inr (), s)
      else (case getOperatorSpendingPlan cfg now ipAddress s of
              (Inl e, s1) \<Rightarrow> (Inl e, s1)
            | (Inr operatorPlan, s1) \<Rightarrow>
                (case book cfg now (plan_id operatorPlan) cost s1 of
                   (Inl e, s2) \<Rightarrow> (Inl e, s2)
                 | (Inr u, s2) \<Rightarrow>
                     (let (remaining, s3) = getRemainingBudget cfg now ipAddress s2;
                          s4 = s3\<lparr> hl_remainingGauge := remaining \<rparr>;
                          (plan, s5) =
                            (case getSpendingPlan now evmAddress ipAddress (hl_store s4) of
                               Some p \<Rightarrow> (Inr (Some p), s4)
                             | None \<Rightarrow>
                                 (if evmAddress \<noteq> ''''
                                  then (case createSpendingPlanForAddress cfg now evmAddress BASIC s4 of
                                          (Inr p, s') \<Rightarrow> (Inr (Some p), s')
                                        | (Inl e, s') \<Rightarrow> (Inl e, s'))
                                  else (Inr None, s4)))
                      in case plan of
                           Inl e \<Rightarrow> (Inl e, s5)
                         | Inr None \<Rightarrow> (Inr (), s5)
                         | Inr (Some p) \<Rightarrow>
                             (let s6 = (if plan_amountSpent p = 0
                                        then s5\<lparr> hl_uniquePlans := (hl_uniquePlans s5)
                                          (plan_subscriptionTier p := hl_uniquePlans s5 (plan_subscriptionTier p) + 1) \<rparr>
                                        else s5)
                              in book cfg now (plan_id p) cost s6)))))"

subsection \<open>The reset time\<close>

lemma ceil_div_bounds:
  assumes "0 < b"
  shows "a \<le> ceil_div a b * b" and "ceil_div a b * b < a + b"
proof -
  have "(- a) div b * b = - a - (- a) mod b" using div_mult_mod_eq [of "- a" b] by linarith
  then have "ceil_div a b * b = a + (- a) mod b" by (simp add: ceil_div_def)
  moreover have "0 \<le> (- a) mod b" "(- a) mod b < b" using assms by (rule pos_mod_sign, rule pos_mod_bound)
  ultimately show "a \<le> ceil_div a b * b" "ceil_div a b * b < a + b" by linarith+
qed

lemma reset_loop_result:
  assumes "0 < duration"
  shows "\<exists>r. reset_loop (Suc (Suc fuel)) now duration base = Some r \<and> now \<le> r \<and> duration dvd (r - base) \<and>
    (base < now \<longrightarrow> r < now + duration) \<and> (now \<le> base \<longrightarrow> r = base)"
  using ceil_div_bounds [OF assms, of "now - base"] by auto

lemma getResetTimestamp_ge: "0 < duration \<Longrightarrow> now \<le> getResetTimestamp now duration base"
  using reset_loop_result [of duration 0 now base] by (auto simp: getResetTimestamp_def numeral_2_eq_2)

text \<open>
  C37. The loop that computes the next reset ends, after at most one step: the next reset is not before
  now, less than one period away, and a whole number of periods after the previous one.
\<close>

theorem reset_loop_ends:
  assumes "0 < duration"
  shows "\<exists>r. reset_loop (Suc (Suc fuel)) now duration base = Some r \<and> now \<le> r \<and> duration dvd (r - base) \<and>
    (base < now \<longrightarrow> r < now + duration) \<and> (now \<le> base \<longrightarrow> r = base)"
  using assms by (rule reset_loop_result)

theorem reset_loop_ends_witness:
  "\<exists>r. reset_loop 2 100 30 7 = Some r \<and> (100::int) \<le> r \<and> r < 130"
  using reset_loop_ends [of 30 0 100 7] by (auto simp: numeral_2_eq_2)

subsection \<open>Booking and limiting\<close>

text \<open>An address with a link to a plan that is there and active.\<close>

definition has_plan :: "int \<Rightarrow> string \<Rightarrow> string \<Rightarrow> spending_plan \<Rightarrow> store \<Rightarrow> bool" where
  "has_plan now a i p st =
     (a \<noteq> '''' \<and> evm_findByAddress now a st = Inr i \<and> active_plan now i p st \<and> plan_id p = i \<and> CHR '':'' \<notin> set i)"

lemma has_plan_found:
  "has_plan now a i p st \<Longrightarrow> getSpendingPlan now a ip st = Some (make_detailed p [] (stored_amount now i st))"
  using findByIdWithDetails_active [of now i p st]
  by (simp add: has_plan_def getSpendingPlan_def getSpendingPlanByEvmAddress_def)

lemma make_detailed_fields [simp]:
  "plan_id (make_detailed p h a) = plan_id p" "plan_amountSpent (make_detailed p h a) = a"
  "plan_subscriptionTier (make_detailed p h a) = plan_subscriptionTier p"
  by (simp_all add: make_detailed_def)

lemma has_plan_operator:
  "has_plan now (operatorAddress cfg) i p (hl_store s) \<Longrightarrow>
   getOperatorSpendingPlan cfg now ip s = (Inr (make_detailed p [] (stored_amount now i (hl_store s))), s)"
  by (simp add: getOperatorSpendingPlan_def has_plan_found)

lemma has_plan_budget:
  "has_plan now (operatorAddress cfg) i p (hl_store s) \<Longrightarrow>
   getRemainingBudget cfg now ip s = (TIER_LIMITS cfg OPERATOR - stored_amount now i (hl_store s), s)"
  by (simp add: getRemainingBudget_def has_plan_operator)

lemma book_active:
  assumes "has_plan now a i p (hl_store s)" and "0 < limitDuration cfg"
  shows "\<exists>st. book cfg now i cost s = (Inr (), s\<lparr> hl_store := st \<rparr>) \<and>
    stored_amount now i st = stored_amount now i (hl_store s) + cost \<and>
    (\<forall>j. j \<noteq> i \<longrightarrow> stored_amount now j st = stored_amount now j (hl_store s)) \<and>
    (\<forall>a j q. has_plan now a j q (hl_store s) \<longrightarrow> has_plan now a j q st)"
proof -
  from assms obtain st where st: "addToAmountSpent now i cost (limitDuration cfg) (hl_store s) = (Inr (), st)"
    "stored_amount now i st = stored_amount now i (hl_store s) + cost"
    "\<And>k u. k \<noteq> getAmountSpentKey i \<Longrightarrow> tm_get u k st = tm_get u k (hl_store s)"
    using addToAmountSpent_active [of now i p "hl_store s" "limitDuration cfg" cost] by (auto simp: has_plan_def)
  have "stored_amount now j st = stored_amount now j (hl_store s)" if "j \<noteq> i" for j
    using stored_amount_cong [OF st(3)] that by simp
  moreover have "has_plan now b j q st" if "has_plan now b j q (hl_store s)" for b j q
    using that st(3) findById_cong [of now j st "hl_store s"]
    by (simp add: has_plan_def active_plan_def evm_findByAddress_def find_link_def)
  ultimately show ?thesis using st by (auto simp: book_def)
qed

lemma shouldLimit_spec:
  assumes "isEnabled cfg" and "now < hl_reset s"
    and "has_plan now (operatorAddress cfg) oid op (hl_store s)" and "has_plan now a i p (hl_store s)"
  shows "\<exists>s'. shouldLimit cfg now a ip fee s =
      (Inr (let left = TIER_LIMITS cfg OPERATOR - stored_amount now oid (hl_store s);
                own = TIER_LIMITS cfg (plan_subscriptionTier p) - stored_amount now i (hl_store s)
            in left \<le> 0 \<or> left < fee \<or> own \<le> 0 \<or> own < fee), s') \<and> hl_store s' = hl_store s"
proof -
  have "\<not> shouldResetLimiter now s" using assms(2) by (simp add: shouldResetLimiter_def)
  moreover have "a \<noteq> ''''" using assms(4) by (simp add: has_plan_def)
  ultimately show ?thesis
    using assms(1)
    by (auto simp: shouldLimit_def isTotalBudgetExceeded_def Let_def has_plan_budget [OF assms(3)]
        has_plan_found [OF assms(4)] exceedsLimit_def)
qed

text \<open>
  A caller with a plan of its own is limited exactly when the operator's budget or the budget of its
  tier is used up, or the estimated fee exceeds what is left of one of them; the decision books
  nothing.
\<close>

theorem shouldLimit_iff:
  assumes "isEnabled cfg" and "now < hl_reset s"
    and "has_plan now (operatorAddress cfg) oid op (hl_store s)" and "has_plan now a i p (hl_store s)"
  shows "\<exists>s'. shouldLimit cfg now a ip fee s =
      (Inr (let left = TIER_LIMITS cfg OPERATOR - stored_amount now oid (hl_store s);
                own = TIER_LIMITS cfg (plan_subscriptionTier p) - stored_amount now i (hl_store s)
            in left \<le> 0 \<or> left < fee \<or> own \<le> 0 \<or> own < fee), s') \<and> hl_store s' = hl_store s"
  using assms by (rule shouldLimit_spec)

lemma addExpense_full:
  assumes "isEnabled cfg" and "0 < limitDuration cfg" and "i \<noteq> oid"
    and "has_plan now (operatorAddress cfg) oid op (hl_store s)" and "has_plan now a i p (hl_store s)"
  shows "\<exists>s'. addExpense cfg now cost a ip s = (Inr (), s') \<and>
    stored_amount now oid (hl_store s') = stored_amount now oid (hl_store s) + cost \<and>
    stored_amount now i (hl_store s') = stored_amount now i (hl_store s) + cost \<and>
    (\<forall>j. j \<noteq> i \<and> j \<noteq> oid \<longrightarrow> stored_amount now j (hl_store s') = stored_amount now j (hl_store s)) \<and>
    hl_remainingGauge s' = TIER_LIMITS cfg OPERATOR - (stored_amount now oid (hl_store s) + cost) \<and>
    (\<forall>b j q. has_plan now b j q (hl_store s) \<longrightarrow> has_plan now b j q (hl_store s'))"
proof -
  have op_id: "plan_id op = oid" and p_id: "plan_id p = i" using assms(4,5) by (simp_all add: has_plan_def)
  obtain st where st: "book cfg now oid cost s = (Inr (), s\<lparr> hl_store := st \<rparr>)"
    "stored_amount now oid st = stored_amount now oid (hl_store s) + cost"
    "\<And>j. j \<noteq> oid \<Longrightarrow> stored_amount now j st = stored_amount now j (hl_store s)"
    "\<And>a j q. has_plan now a j q (hl_store s) \<Longrightarrow> has_plan now a j q st"
    using book_active [OF assms(4,2)] by metis
  let ?s3 = "s\<lparr> hl_store := st \<rparr>"
  have budget: "getRemainingBudget cfg now ip ?s3 =
      (TIER_LIMITS cfg OPERATOR - (stored_amount now oid (hl_store s) + cost), ?s3)"
    using has_plan_budget [of now cfg oid op ?s3] st(4) [OF assms(4)] st(2) by simp
  define s6 where "s6 = (let s5 = ?s3\<lparr> hl_remainingGauge := TIER_LIMITS cfg OPERATOR - (stored_amount now oid (hl_store s) + cost) \<rparr>
      in if stored_amount now i st = 0
         then s5\<lparr> hl_uniquePlans := (hl_uniquePlans s5)
           (plan_subscriptionTier p := hl_uniquePlans s5 (plan_subscriptionTier p) + 1) \<rparr> else s5)"
  have s6: "hl_store s6 = st"
    "hl_remainingGauge s6 = TIER_LIMITS cfg OPERATOR - (stored_amount now oid (hl_store s) + cost)"
    by (simp_all add: s6_def Let_def)
  have found: "getSpendingPlan now a ip st = Some (make_detailed p [] (stored_amount now i st))"
    using has_plan_found st(4) assms(5) by blast
  have step: "addExpense cfg now cost a ip s = book cfg now i cost s6"
    using assms(1)
    by (simp add: addExpense_def has_plan_operator [OF assms(4)] op_id p_id st(1) budget found Let_def s6_def)
  obtain st' where "book cfg now i cost s6 = (Inr (), s6\<lparr> hl_store := st' \<rparr>)"
    "stored_amount now i st' = stored_amount now i st + cost"
    "\<And>j. j \<noteq> i \<Longrightarrow> stored_amount now j st' = stored_amount now j st"
    "\<And>b j q. has_plan now b j q st \<Longrightarrow> has_plan now b j q st'"
    using book_active [of now a i p s6 cfg cost] st(4) [OF assms(5)] s6(1) assms(2) by metis
  with step st s6 assms(3) show ?thesis by auto
qed

lemma addExpense_spec:
  assumes "isEnabled cfg" and "0 < limitDuration cfg" and "i \<noteq> oid"
    and "has_plan now (operatorAddress cfg) oid op (hl_store s)" and "has_plan now a i p (hl_store s)"
  shows "\<exists>s'. addExpense cfg now cost a ip s = (Inr (), s') \<and>
    stored_amount now oid (hl_store s') = stored_amount now oid (hl_store s) + cost \<and>
    stored_amount now i (hl_store s') = stored_amount now i (hl_store s) + cost \<and>
    (\<forall>j. j \<noteq> i \<and> j \<noteq> oid \<longrightarrow> stored_amount now j (hl_store s') = stored_amount now j (hl_store s)) \<and>
    hl_remainingGauge s' = TIER_LIMITS cfg OPERATOR - (stored_amount now oid (hl_store s) + cost)"
  using addExpense_full [OF assms, of cost ip] by blast

text \<open>
  C11. An expense is booked once on the operator's plan and once on the caller's; no other plan changes,
  and the gauge shows what is left of the operator's budget.
\<close>

theorem addExpense_books_both:
  assumes "isEnabled cfg" and "0 < limitDuration cfg" and "i \<noteq> oid"
    and "has_plan now (operatorAddress cfg) oid op (hl_store s)" and "has_plan now a i p (hl_store s)"
  shows "\<exists>s'. addExpense cfg now cost a ip s = (Inr (), s') \<and>
    stored_amount now oid (hl_store s') = stored_amount now oid (hl_store s) + cost \<and>
    stored_amount now i (hl_store s') = stored_amount now i (hl_store s) + cost \<and>
    (\<forall>j. j \<noteq> i \<and> j \<noteq> oid \<longrightarrow> stored_amount now j (hl_store s') = stored_amount now j (hl_store s)) \<and>
    hl_remainingGauge s' = TIER_LIMITS cfg OPERATOR - (stored_amount now oid (hl_store s) + cost)"
  using assms by (rule addExpense_spec)

definition sample_cfg :: hbar_config where
  "sample_cfg =
     \<lparr> TIER_LIMITS = (\<lambda>t. case t of BASIC \<Rightarrow> 100 | EXTENDED \<Rightarrow> 300 | PRIVILEGED \<Rightarrow> 500 | OPERATOR \<Rightarrow> 1000),
       operatorAddress = ''0xop'', limitDuration = 1000, uuid_of = (\<lambda>n. ''u'' @ replicate n (CHR ''1'')) \<rparr>"

definition plan_of :: "string \<Rightarrow> SubscriptionTier \<Rightarrow> spending_plan" where
  "plan_of i t = \<lparr> plan_id = i, plan_subscriptionTier = t, plan_createdAt = 1, plan_active = True \<rparr>"

definition sample_store :: store where
  "sample_store = [plan_key ''o'' \<mapsto> (PlanValue (plan_of ''o'' OPERATOR), None), evm_key ''0xop'' \<mapsto> (LinkValue ''0xop'' ''o'', None),
     plan_key ''b'' \<mapsto> (PlanValue (plan_of ''b'' BASIC), None), evm_key ''0xaa'' \<mapsto> (LinkValue ''0xaa'' ''b'', None),
     getAmountSpentKey ''b'' \<mapsto> (AmountValue 95, None)]"

definition sample_state :: hbar_state where
  "sample_state =
     \<lparr> hl_store = sample_store, hl_reset = 5000, hl_nextUuid = 0, hl_remainingGauge = 0, hl_limitCounter = 0,
       hl_uniquePlans = (\<lambda>t. 0) \<rparr>"

lemma sample_keys:
  "evm_key ''0xop'' = ''evmAddressHbarSpendingPlan:0xop''" "evm_key ''0xaa'' = ''evmAddressHbarSpendingPlan:0xaa''"
  by (simp_all add: evm_key_def trim_spaces_def js_space_def lower_char_def Let_def)

lemma sample_facts:
  "isEnabled sample_cfg" "0 < limitDuration sample_cfg" "100 < hl_reset sample_state"
  "has_plan 100 (operatorAddress sample_cfg) ''o'' (plan_of ''o'' OPERATOR) (hl_store sample_state)"
  "has_plan 100 ''0xaa'' ''b'' (plan_of ''b'' BASIC) (hl_store sample_state)"
  "stored_amount 100 ''o'' (hl_store sample_state) = 0" "stored_amount 100 ''b'' (hl_store sample_state) = 95"
  by (simp_all add: isEnabled_def sample_cfg_def sample_state_def sample_store_def has_plan_def plan_of_def
      active_plan_def findById_def evm_findByAddress_def find_link_def tm_get_def stored_amount_def sample_keys
      plan_key_def getAmountSpentKey_def)

theorem shouldLimit_iff_witness:
  "fst (shouldLimit sample_cfg 100 ''0xaa'' ''10.0.0.1'' 6 sample_state) = Inr True"
  using shouldLimit_iff [OF sample_facts(1,3,4,5), of "''10.0.0.1''" 6] sample_facts(6,7)
  by (auto simp: sample_cfg_def plan_of_def)

theorem addExpense_books_both_witness:
  "\<exists>s'. addExpense sample_cfg 100 5 ''0xaa'' ''10.0.0.1'' sample_state = (Inr (), s') \<and>
     stored_amount 100 ''b'' (hl_store s') = 100"
  using addExpense_books_both [OF sample_facts(1,2) _ sample_facts(4,5), of 5 "''10.0.0.1''"] sample_facts(7) by auto

subsection \<open>The budget is kept\<close>

text \<open>
  C1. When a request with an estimated fee is not limited and costs no more than the estimate, booking
  it leaves both the operator and the caller within their limits. When it costs more, they exceed
  them by no more than the difference, and before the booking each of them had some budget left.
\<close>

theorem admitted_expense_within_budget:
  assumes "isEnabled cfg" and "0 < limitDuration cfg" and "now < hl_reset s" and "i \<noteq> oid"
    and "has_plan now (operatorAddress cfg) oid op (hl_store s)" and "has_plan now a i p (hl_store s)"
    and "shouldLimit cfg now a ip fee s = (Inr False, s1)"
    and "addExpense cfg now cost a ip s1 = (r, s2)"
  shows "stored_amount now oid (hl_store s) < TIER_LIMITS cfg OPERATOR \<and>
    stored_amount now i (hl_store s) < TIER_LIMITS cfg (plan_subscriptionTier p) \<and>
    stored_amount now oid (hl_store s2) \<le> TIER_LIMITS cfg OPERATOR + max 0 (cost - max 0 fee) \<and>
    stored_amount now i (hl_store s2) \<le> TIER_LIMITS cfg (plan_subscriptionTier p) + max 0 (cost - max 0 fee)"
proof -
  let ?left = "TIER_LIMITS cfg OPERATOR - stored_amount now oid (hl_store s)"
  let ?own = "TIER_LIMITS cfg (plan_subscriptionTier p) - stored_amount now i (hl_store s)"
  have "\<not> ?left \<le> 0" "\<not> ?left < fee" "\<not> ?own \<le> 0" "\<not> ?own < fee" and same: "hl_store s1 = hl_store s"
    using shouldLimit_spec [OF assms(1,3,5,6), of ip fee] assms(7) by (auto simp: Let_def)
  moreover have "stored_amount now oid (hl_store s2) = stored_amount now oid (hl_store s) + cost"
    "stored_amount now i (hl_store s2) = stored_amount now i (hl_store s) + cost"
    using addExpense_spec [of cfg i oid now op s1 a p cost ip] assms(1,2,4-6,8) same by auto
  ultimately show ?thesis by auto
qed

theorem admitted_expense_within_budget_witness:
  "\<exists>s1 r s2. shouldLimit sample_cfg 100 ''0xaa'' ''10.0.0.1'' 5 sample_state = (Inr False, s1) \<and>
     addExpense sample_cfg 100 5 ''0xaa'' ''10.0.0.1'' s1 = (r, s2) \<and> stored_amount 100 ''b'' (hl_store s2) \<le> 100"
proof -
  obtain s1 where s1: "shouldLimit sample_cfg 100 ''0xaa'' ''10.0.0.1'' 5 sample_state = (Inr False, s1)"
    using shouldLimit_spec [OF sample_facts(1,3,4,5), of "''10.0.0.1''" 5] sample_facts(6,7)
    by (auto simp: sample_cfg_def plan_of_def)
  obtain r s2 where s2: "addExpense sample_cfg 100 5 ''0xaa'' ''10.0.0.1'' s1 = (r, s2)"
    by (cases "addExpense sample_cfg 100 5 ''0xaa'' ''10.0.0.1'' s1")
  from admitted_expense_within_budget [OF sample_facts(1,2,3) _ sample_facts(4,5) s1 s2]
  have "stored_amount 100 ''b'' (hl_store s2) \<le> 100" by (simp add: sample_cfg_def plan_of_def)
  with s1 s2 show ?thesis by blast
qed

subsection \<open>Where the budget is not kept\<close>

text \<open>
  The plan of the operator lives one period from the moment it was created, which the resets do not
  move. When it expires inside a period, a new plan with nothing spent takes its place: whatever
  was spent in this period, the total budget is whole again before the next reset.
\<close>

theorem budget_restarts_when_plan_expires:
  assumes "0 < limitDuration cfg" and "operatorAddress cfg \<noteq> ''''" and "now < hl_reset s"
    and "hl_store s (evm_key (operatorAddress cfg)) = Some (LinkValue (operatorAddress cfg) oid, Some d)" and "d \<le> now"
    and "stored_amount now oid (hl_store s) = spent"
  shows "fst (isTotalBudgetExceeded cfg now '''' fee s) =
    (TIER_LIMITS cfg OPERATOR \<le> 0 \<or> TIER_LIMITS cfg OPERATOR < fee)"
proof -
  have "find_link now (evm_key (operatorAddress cfg)) (hl_store s) = None"
    using assms(4,5) by (simp add: find_link_def tm_get_def)
  then have "getSpendingPlan now (operatorAddress cfg) '''' (hl_store s) = None"
    by (simp add: getSpendingPlan_def getSpendingPlanByEvmAddress_def evm_findByAddress_def)
  then have "fst (getRemainingBudget cfg now '''' s) = TIER_LIMITS cfg OPERATOR"
    using assms(2)
    by (simp add: getRemainingBudget_def getOperatorSpendingPlan_def createSpendingPlanForAddress_def
        create_plan_def Let_def)
  moreover have "\<not> shouldResetLimiter now s" using assms(3) by (simp add: shouldResetLimiter_def)
  ultimately show ?thesis by (auto simp: isTotalBudgetExceeded_def case_prod_beta Let_def)
qed

theorem budget_restarts_when_plan_expires_witness:
  "\<exists>s. 50 < hl_reset s \<and> stored_amount 50 ''o'' (hl_store s) = 1000 \<and>
     fst (isTotalBudgetExceeded sample_cfg 50 '''' 1000 s) = False"
proof -
  let ?s = "sample_state\<lparr> hl_reset := 51, hl_store :=
    [evm_key ''0xop'' \<mapsto> (LinkValue ''0xop'' ''o'', Some 50), getAmountSpentKey ''o'' \<mapsto> (AmountValue 1000, None)] \<rparr>"
  have "stored_amount 50 ''o'' (hl_store ?s) = 1000"
    by (simp add: stored_amount_def tm_get_def)
  with budget_restarts_when_plan_expires [of sample_cfg 50 ?s "''o''" 50 1000 1000]
  show ?thesis by (intro exI [of _ ?s]) (simp add: sample_cfg_def)
qed

text \<open>
  While the operator has no plan, the look-up of the operator's plan falls back to the plan of the
  caller's IP address. Such a caller is charged twice for an expense, and the operator's budget not
  at all: no plan is made for the operator.
\<close>

theorem ip_plan_charged_twice:
  assumes "isEnabled cfg" and "0 < limitDuration cfg" and "ip \<noteq> ''''"
    and "find_link now (evm_key (operatorAddress cfg)) (hl_store s) = None"
    and "find_link now (evm_key a) (hl_store s) = None"
    and "find_link now (ip_key ip) (hl_store s) = Some i" and "active_plan now i p (hl_store s)"
    and "plan_id p = i" and "CHR '':'' \<notin> set i"
  shows "\<exists>s'. addExpense cfg now cost a ip s = (Inr (), s') \<and>
    stored_amount now i (hl_store s') = stored_amount now i (hl_store s) + 2 * cost \<and>
    find_link now (evm_key (operatorAddress cfg)) (hl_store s') = None"
proof -
  have links: "getSpendingPlan now b ip st = Some (make_detailed p [] (stored_amount now i st))"
    if "find_link now (evm_key b) st = None" "find_link now (ip_key ip) st = Some i" "active_plan now i p st" for b st
    using that assms(3) findByIdWithDetails_active [of now i p st]
    by (simp add: getSpendingPlan_def getSpendingPlanByEvmAddress_def getSpendingPlanByIPAddress_def
        evm_findByAddress_def ip_findByAddress_def)
  have booked: "\<exists>st'. addToAmountSpent now i cost (limitDuration cfg) st = (Inr (), st') \<and>
      stored_amount now i st' = stored_amount now i st + cost \<and> active_plan now i p st' \<and>
      (\<forall>b. find_link now (evm_key b) st' = find_link now (evm_key b) st) \<and>
      find_link now (ip_key ip) st' = find_link now (ip_key ip) st" if "active_plan now i p st" for st
  proof -
    note active = that
    obtain st' where st': "addToAmountSpent now i cost (limitDuration cfg) st = (Inr (), st')"
      "stored_amount now i st' = stored_amount now i st + cost"
      "\<And>k u. k \<noteq> getAmountSpentKey i \<Longrightarrow> tm_get u k st' = tm_get u k st"
      using addToAmountSpent_active [OF active assms(2)] by blast
    then show ?thesis using active findById_cong [of now i st' st] assms(9)
      by (auto simp: active_plan_def find_link_def)
  qed
  obtain st1 where st1: "addToAmountSpent now i cost (limitDuration cfg) (hl_store s) = (Inr (), st1)"
    "stored_amount now i st1 = stored_amount now i (hl_store s) + cost" "active_plan now i p st1"
    "\<And>b. find_link now (evm_key b) st1 = find_link now (evm_key b) (hl_store s)"
    "find_link now (ip_key ip) st1 = Some i"
    using booked [OF assms(7)] assms(6) by metis
  obtain st2 where st2: "addToAmountSpent now i cost (limitDuration cfg) st1 = (Inr (), st2)"
    "stored_amount now i st2 = stored_amount now i st1 + cost"
    "\<And>b. find_link now (evm_key b) st2 = find_link now (evm_key b) st1"
    using booked [OF st1(3)] by metis
  have found: "getSpendingPlan now (operatorAddress cfg) ip (hl_store s) = Some (make_detailed p [] (stored_amount now i (hl_store s)))"
    "getSpendingPlan now (operatorAddress cfg) ip st1 = Some (make_detailed p [] (stored_amount now i st1))"
    "getSpendingPlan now a ip st1 = Some (make_detailed p [] (stored_amount now i st1))"
    using links assms(4-7) st1 by auto
  show ?thesis
    using assms(1,8) st1 st2 assms(4)
    by (simp add: addExpense_def getOperatorSpendingPlan_def getRemainingBudget_def found book_def Let_def)
qed

theorem ip_plan_charged_twice_witness:
  "\<exists>s s'. addExpense sample_cfg 9 30 ''0xbb'' ''1.2.3.4'' s = (Inr (), s') \<and>
     stored_amount 9 ''b'' (hl_store s') = stored_amount 9 ''b'' (hl_store s) + 60"
proof -
  let ?st = "[plan_key ''b'' \<mapsto> (PlanValue (plan_of ''b'' EXTENDED), None), ip_key ''1.2.3.4'' \<mapsto> (LinkValue ''1.2.3.4'' ''b'', None)]"
  let ?s = "sample_state\<lparr> hl_store := ?st \<rparr>"
  have none: "find_link 9 (evm_key b) (hl_store ?s) = None" for b
    by (simp add: find_link_def tm_get_def)
  have link: "find_link 9 (ip_key ''1.2.3.4'') (hl_store ?s) = Some ''b''"
    by (simp add: find_link_def tm_get_def)
  have active: "active_plan 9 ''b'' (plan_of ''b'' EXTENDED) (hl_store ?s)"
    by (simp add: active_plan_def findById_def tm_get_def plan_of_def)
  have "\<exists>s'. addExpense sample_cfg 9 30 ''0xbb'' ''1.2.3.4'' ?s = (Inr (), s') \<and>
     stored_amount 9 ''b'' (hl_store s') = stored_amount 9 ''b'' (hl_store ?s) + 2 * 30 \<and>
     find_link 9 (evm_key (operatorAddress sample_cfg)) (hl_store s') = None"
    by (rule ip_plan_charged_twice [OF sample_facts(1,2) _ none none link active]) (simp_all add: plan_of_def)
  then obtain s' where "addExpense sample_cfg 9 30 ''0xbb'' ''1.2.3.4'' ?s = (Inr (), s')"
    "stored_amount 9 ''b'' (hl_store s') = stored_amount 9 ''b'' (hl_store ?s) + 60" by auto
  then show ?thesis by (intro exI [of _ ?s] exI [of _ s'] conjI)
qed

end
