(* ===== verification/Subscriptions.thy ===== *)
theory Subscriptions
  imports LocalCache "HOL-Library.Multiset"
begin

section \<open>Subscriptions of websocket clients\<close>

text \<open>
  Models \<open>packages/ws-server/src/service\<close>: the poller (\<open>pollerService.ts\<close>) and the subscription
  service (\<open>subscriptionService.ts\<close>). A tag is the object whose JSON text is the key; two tags are
  the same when their texts are. The interval timer is a flag, the gauges of active polls are
  numbers; the answers of the relay, the hash function and the ids of new subscriptions are
  parameters, and lru-cache is the parameter of \<open>LocalCache\<close>.
\<close>

subsection \<open>The poller\<close>

record tag =
  tag_event :: string
  tag_filters :: "jsv option"

definition tag_text :: "tag \<Rightarrow> string" where
  "tag_text t =
     json_stringify (JObj ((''event'', JStr (tag_event t)) #
       (case tag_filters t of None \<Rightarrow> [] | Some f \<Rightarrow> [(''filters'', f)])))"

record poll =
  poll_tag :: tag
  poll_lastPolled :: "string option"

record poller =
  po_polls :: "poll list"
  po_interval :: bool
  po_latestBlock :: "string option"
  po_activePolls :: int
  po_activeNewHeadsPolls :: int

definition NEW_HEADS_EVENT :: string where
  "NEW_HEADS_EVENT = ''newHeads''"

definition hasPoll :: "string \<Rightarrow> poller \<Rightarrow> bool" where
  "hasPoll txt p = (filter (\<lambda>q. tag_text (poll_tag q) = txt) (po_polls p) \<noteq> [])"

definition isPolling :: "poller \<Rightarrow> bool" where
  "isPolling p = po_interval p"

definition poller_start :: "poller \<Rightarrow> poller" where
  "poller_start p = p\<lparr> po_interval := True \<rparr>"

definition poller_stop :: "poller \<Rightarrow> poller" where
  "poller_stop p = (if isPolling p then p\<lparr> po_interval := False \<rparr> else p)"

definition count_poll :: "string \<Rightarrow> int \<Rightarrow> poller \<Rightarrow> poller" where
  "count_poll event n p =
     (if event = NEW_HEADS_EVENT
      then p\<lparr> po_activeNewHeadsPolls := po_activeNewHeadsPolls p + n \<rparr>
      else p\<lparr> po_activePolls := po_activePolls p + n \<rparr>)"

definition poller_add :: "tag \<Rightarrow> poller \<Rightarrow> poller" where
  "poller_add t p =
     (let p1 = (if hasPoll (tag_text t) p then p
                else count_poll (tag_event t) 1
                       (p\<lparr> po_polls := po_polls p @ [\<lparr> poll_tag = t, poll_lastPolled = None \<rparr>] \<rparr>))
      in if isPolling p1 then p1 else poller_start p1)"

definition poller_remove :: "tag \<Rightarrow> poller \<Rightarrow> poller" where
  "poller_remove t p =
     (let pollsAtStart = length (po_polls p);
          p1 = p\<lparr> po_polls := filter (\<lambda>q. tag_text (poll_tag q) \<noteq> tag_text t) (po_polls p) \<rparr>;
          pollsRemoved = int pollsAtStart - int (length (po_polls p1));
          p2 = (if 0 < pollsRemoved then count_poll (tag_event t) (- pollsRemoved) p1 else p1)
      in if po_polls p2 = [] then poller_stop p2 else p2)"

text \<open>One round of \<open>poll()\<close> for one poll: the request it sends and what it does with the answer.\<close>

datatype poll_request = GetLogs string jsv jsv | GetBlockByNumber jsv | UnsupportedEvent

definition js_or :: "jsv \<Rightarrow> jsv \<Rightarrow> jsv" where
  "js_or v w = (if truthy v then v else w)"

definition text_or :: "string option \<Rightarrow> string \<Rightarrow> string" where
  "text_or s d = (case s of None \<Rightarrow> d | Some t \<Rightarrow> if t = '''' then d else t)"

definition parsed_filters :: "poll \<Rightarrow> jsv" where
  "parsed_filters q = (case tag_filters (poll_tag q) of None \<Rightarrow> JUndef | Some f \<Rightarrow> json_copy f)"

definition poll_request :: "bool \<Rightarrow> poller \<Rightarrow> poll \<Rightarrow> poll_request" where
  "poll_request newHeadsEnabled p q =
     (let event = tag_event (poll_tag q); filters = parsed_filters q
      in if event = ''logs'' then
           GetLogs (text_or (poll_lastPolled q) (text_or (po_latestBlock p) ''latest''))
             (js_or (js_prop filters ''address'') JNull) (js_or (js_prop filters ''topics'') JNull)
         else if event = NEW_HEADS_EVENT \<and> newHeadsEnabled then
           GetBlockByNumber (case js_prop filters ''includeTransactions'' of
             JUndef \<Rightarrow> JBool False | JNull \<Rightarrow> JBool False | v \<Rightarrow> v)
         else UnsupportedEvent)"

fun poll_results :: "jsv \<Rightarrow> jsv list" where
  "poll_results (JArr ds) = ds"
| "poll_results d = [d]"

text \<open>
  The answer may be an exception, which is only logged. The block that \<open>lastPolled\<close> is set to is the
  latest one known when the answer arrives, not when the request was sent.
\<close>

definition poll_settles :: "bool \<Rightarrow> poller \<Rightarrow> poll \<Rightarrow> string + jsv \<Rightarrow> poll \<times> jsv list" where
  "poll_settles newHeadsEnabled p q answer =
     (case poll_request newHeadsEnabled p q of
        GetLogs from address topics \<Rightarrow>
          (case answer of
             Inl e \<Rightarrow> (q, [])
           | Inr data \<Rightarrow> (q\<lparr> poll_lastPolled := po_latestBlock p \<rparr>, poll_results data))
      | GetBlockByNumber includeTransactions \<Rightarrow>
          (case answer of
             Inl e \<Rightarrow> (q, [])
           | Inr data \<Rightarrow>
               if data = JNull \<or> data = JUndef then (q, [])
               else (q\<lparr> poll_lastPolled := po_latestBlock p \<rparr>,
                     poll_results (js_set_prop data ''jsonrpc'' (JStr ''2.0''))))
      | UnsupportedEvent \<Rightarrow> (q, [JUndef]))"

subsection \<open>What the subscription service asks of the poller\<close>

locale poll_list =
  fixes ok :: "'p \<Rightarrow> bool"
    and add :: "tag \<Rightarrow> 'p \<Rightarrow> 'p"
    and remove :: "tag \<Rightarrow> 'p \<Rightarrow> 'p"
    and has :: "string \<Rightarrow> 'p \<Rightarrow> bool"
    and polling :: "'p \<Rightarrow> bool"
  assumes ok_add: "ok p \<Longrightarrow> ok (add t p)"
    and ok_remove: "ok p \<Longrightarrow> ok (remove t p)"
    and has_add: "has x (add t p) \<longleftrightarrow> x = tag_text t \<or> has x p"
    and has_remove: "has x (remove t p) \<longleftrightarrow> x \<noteq> tag_text t \<and> has x p"
    and polling: "ok p \<Longrightarrow> polling p \<longleftrightarrow> (\<exists>x. has x p)"
begin

text \<open>Any number of tags added and removed again leaves exactly the others.\<close>

lemma has_fold_add: "has x (fold add ts p) \<longleftrightarrow> x \<in> tag_text ` set ts \<or> has x p"
  by (induction ts arbitrary: p) (auto simp: has_add)

lemma has_fold_remove: "has x (fold remove ts p) \<longleftrightarrow> x \<notin> tag_text ` set ts \<and> has x p"
  by (induction ts arbitrary: p) (auto simp: has_remove)

lemma ok_fold_remove: "ok p \<Longrightarrow> ok (fold remove ts p)"
  by (induction ts arbitrary: p) (auto simp: ok_remove)

lemma idle_after_removing_all:
  "ok p \<Longrightarrow> \<forall>x. has x p \<longrightarrow> x \<in> tag_text ` set ts \<Longrightarrow> \<not> polling (fold remove ts p)"
  by (simp add: polling ok_fold_remove has_fold_remove) blast

end

text \<open>The number of polls with a tag is never more than one, and the gauges count the polls.\<close>

definition polls_of :: "bool \<Rightarrow> poller \<Rightarrow> poll list" where
  "polls_of heads p = filter (\<lambda>q. (tag_event (poll_tag q) = NEW_HEADS_EVENT) = heads) (po_polls p)"

definition poller_ok :: "poller \<Rightarrow> bool" where
  "poller_ok p \<longleftrightarrow>
     distinct (map (\<lambda>q. tag_text (poll_tag q)) (po_polls p)) \<and>
     (po_interval p \<longleftrightarrow> po_polls p \<noteq> []) \<and>
     po_activePolls p = int (length (polls_of False p)) \<and>
     po_activeNewHeadsPolls p = int (length (polls_of True p))"

lemma json_stringify_first_member:
  assumes "v \<noteq> JUndef"
  shows "\<exists>rest. json_stringify (JObj ((k, v) # ps)) = CHR ''{'' # json_quote k @ CHR '':'' # json_stringify v @ rest"
proof (cases "filter (\<lambda>p. snd p \<noteq> JUndef) ps")
  case Nil
  with assms show ?thesis by (intro exI [of _ "''}''"]) simp
next
  case (Cons m ms)
  with assms show ?thesis by simp
qed

lemma tag_text_quote: "\<exists>rest. tag_text t = CHR ''{'' # json_quote ''event'' @ CHR '':'' # json_quote (tag_event t) @ rest"
  unfolding tag_text_def json_stringify.simps(5) [of "tag_event t", symmetric]
  by (rule json_stringify_first_member) simp

lemma tag_text_event: "tag_text t = tag_text u \<Longrightarrow> tag_event t = tag_event u"
proof -
  assume eq: "tag_text t = tag_text u"
  obtain r where "tag_text t = CHR ''{'' # json_quote ''event'' @ CHR '':'' # json_quote (tag_event t) @ r"
    using tag_text_quote [of t] by blast
  moreover obtain r' where "tag_text u = CHR ''{'' # json_quote ''event'' @ CHR '':'' # json_quote (tag_event u) @ r'"
    using tag_text_quote [of u] by blast
  ultimately have "json_quote (tag_event t) @ r = json_quote (tag_event u) @ r'" 
    using eq by (simp only: list.inject append_same_eq append_eq_append_conv same_append_eq simp_thms)
  then show ?thesis using json_quote_prefix by blast
qed

lemma poller_polls [simp]:
  "po_polls (poller_start p) = po_polls p" "po_polls (poller_stop p) = po_polls p"
  "po_polls (count_poll e n p) = po_polls p" "po_interval (count_poll e n p) = po_interval p"
  "po_interval (poller_start p)" "\<not> po_interval (poller_stop p)"
  by (simp_all add: poller_start_def poller_stop_def count_poll_def isPolling_def)

lemma poller_gauges [simp]:
  "po_activePolls (poller_start p) = po_activePolls p" "po_activePolls (poller_stop p) = po_activePolls p"
  "po_activeNewHeadsPolls (poller_start p) = po_activeNewHeadsPolls p"
  "po_activeNewHeadsPolls (poller_stop p) = po_activeNewHeadsPolls p"
  "po_activePolls (count_poll e n p) = po_activePolls p + (if e = NEW_HEADS_EVENT then 0 else n)"
  "po_activeNewHeadsPolls (count_poll e n p) = po_activeNewHeadsPolls p + (if e = NEW_HEADS_EVENT then n else 0)"
  by (simp_all add: poller_start_def poller_stop_def count_poll_def)

lemma hasPoll_iff: "hasPoll x p \<longleftrightarrow> x \<in> (\<lambda>q. tag_text (poll_tag q)) ` set (po_polls p)"
  by (auto simp: hasPoll_def filter_empty_conv)

lemma poller_add_polls: "po_polls (poller_add t p) =
    (if hasPoll (tag_text t) p then po_polls p else po_polls p @ [\<lparr> poll_tag = t, poll_lastPolled = None \<rparr>])"
  by (simp add: poller_add_def Let_def)

lemma poller_remove_polls:
  "po_polls (poller_remove t p) = filter (\<lambda>q. tag_text (poll_tag q) \<noteq> tag_text t) (po_polls p)"
  by (simp add: poller_remove_def Let_def)

lemma poller_add_gauges:
  "po_activePolls (poller_add t p) =
     po_activePolls p + (if hasPoll (tag_text t) p \<or> tag_event t = NEW_HEADS_EVENT then 0 else 1)"
  "po_activeNewHeadsPolls (poller_add t p) =
     po_activeNewHeadsPolls p + (if hasPoll (tag_text t) p \<or> tag_event t \<noteq> NEW_HEADS_EVENT then 0 else 1)"
  "po_interval (poller_add t p)"
  by (simp_all add: poller_add_def Let_def isPolling_def)

lemma poller_add_ok:
  assumes ok: "poller_ok p"
  shows "poller_ok (poller_add t p)"
proof (cases "hasPoll (tag_text t) p")
  case True
  moreover from True have "po_polls p \<noteq> []" by (auto simp: hasPoll_iff)
  ultimately show ?thesis
    using ok by (simp add: poller_ok_def poller_add_gauges poller_add_polls polls_of_def)
next
  case False
  then have "tag_text t \<notin> set (map (\<lambda>q. tag_text (poll_tag q)) (po_polls p))" by (simp add: hasPoll_iff)
  with False ok show ?thesis
    by (simp add: poller_ok_def poller_add_gauges poller_add_polls polls_of_def)
qed

text \<open>Removing a tag takes away at most one poll, of the event of the tag.\<close>

lemma removed_polls:
  assumes "distinct (map (\<lambda>q. tag_text (poll_tag q)) qs)"
  shows "int (length (filter (\<lambda>q. P (tag_event (poll_tag q))) qs)) -
     int (length (filter (\<lambda>q. P (tag_event (poll_tag q))) (filter (\<lambda>q. tag_text (poll_tag q) \<noteq> tag_text t) qs))) =
     (if P (tag_event t) then int (length qs) - int (length (filter (\<lambda>q. tag_text (poll_tag q) \<noteq> tag_text t) qs)) else 0)"
  using assms
proof (induction qs)
  case (Cons q qs)
  show ?case
  proof (cases "tag_text (poll_tag q) = tag_text t")
    case True
    moreover have "filter (\<lambda>q. tag_text (poll_tag q) \<noteq> tag_text t) qs = qs"
      using Cons.prems True by (auto simp: filter_id_conv image_iff)
    ultimately show ?thesis using tag_text_event [OF True] by simp
  next
    case False
    with Cons show ?thesis by auto
  qed
qed simp

lemma poller_remove_gauges:
  fixes t p
  defines "removed \<equiv> int (length (po_polls p)) -
    int (length (filter (\<lambda>q. tag_text (poll_tag q) \<noteq> tag_text t) (po_polls p)))"
  shows "po_activePolls (poller_remove t p) = po_activePolls p - (if tag_event t = NEW_HEADS_EVENT then 0 else removed)"
    and "po_activeNewHeadsPolls (poller_remove t p) =
      po_activeNewHeadsPolls p - (if tag_event t = NEW_HEADS_EVENT then removed else 0)"
    and "po_interval (poller_remove t p) = (po_interval p \<and> po_polls (poller_remove t p) \<noteq> [])"
proof -
  have "0 \<le> removed" by (simp add: removed_def)
  then show "po_activePolls (poller_remove t p) = po_activePolls p - (if tag_event t = NEW_HEADS_EVENT then 0 else removed)"
    "po_activeNewHeadsPolls (poller_remove t p) =
      po_activeNewHeadsPolls p - (if tag_event t = NEW_HEADS_EVENT then removed else 0)"
    "po_interval (poller_remove t p) = (po_interval p \<and> po_polls (poller_remove t p) \<noteq> [])"
    by (simp_all add: poller_remove_def Let_def removed_def [symmetric] del: filter_filter)
qed

lemma poller_remove_ok:
  assumes ok: "poller_ok p"
  shows "poller_ok (poller_remove t p)"
proof -
  have dist: "distinct (map (\<lambda>q. tag_text (poll_tag q)) (po_polls p))" using ok by (simp add: poller_ok_def)
  note heads = removed_polls [OF dist, where P = "\<lambda>e. e = NEW_HEADS_EVENT" and t = t]
  note logs = removed_polls [OF dist, where P = "\<lambda>e. e \<noteq> NEW_HEADS_EVENT" and t = t]
  have "po_activePolls (poller_remove t p) = int (length (polls_of False (poller_remove t p)))"
    using ok logs
    by (cases "tag_event t = NEW_HEADS_EVENT")
      (simp_all add: poller_ok_def poller_remove_gauges poller_remove_polls polls_of_def del: filter_filter)
  moreover have "po_activeNewHeadsPolls (poller_remove t p) = int (length (polls_of True (poller_remove t p)))"
    using ok heads
    by (cases "tag_event t = NEW_HEADS_EVENT")
      (simp_all add: poller_ok_def poller_remove_gauges poller_remove_polls polls_of_def del: filter_filter)
  moreover have "po_interval (poller_remove t p) \<longleftrightarrow> po_polls (poller_remove t p) \<noteq> []"
    using ok by (auto simp: poller_ok_def poller_remove_gauges(3) poller_remove_polls)
  ultimately show ?thesis using dist
    by (simp add: poller_ok_def poller_remove_polls distinct_map_filter)
qed

interpretation poller: poll_list poller_ok poller_add poller_remove hasPoll isPolling
proof
  show "hasPoll x (poller_add t p) \<longleftrightarrow> x = tag_text t \<or> hasPoll x p" for x t p
    by (auto simp: hasPoll_iff poller_add_polls)
  show "hasPoll x (poller_remove t p) \<longleftrightarrow> x \<noteq> tag_text t \<and> hasPoll x p" for x t p
    by (auto simp: hasPoll_iff poller_remove_polls)
  show "isPolling p \<longleftrightarrow> (\<exists>x. hasPoll x p)" if "poller_ok p" for p
    using that by (auto simp: poller_ok_def isPolling_def hasPoll_iff neq_Nil_conv)
qed (simp_all add: poller_add_ok poller_remove_ok)

subsection \<open>The subscription service\<close>

record subscriber =
  su_connection :: string
  su_id :: string

record 'c subscription_env =
  se_sameSubForSameEvent :: bool
  se_createHash :: "string \<Rightarrow> string"
  se_lru :: "'c lru_ops"
  se_cacheTtl :: int

text \<open>The subscriptions in the order the object keeps its keys, which are never integers.\<close>

record 'c subscription_state =
  ss_subscriptions :: "(tag \<times> subscriber list) list"
  ss_poller :: poller
  ss_cache :: 'c

definition make_tag :: "string \<Rightarrow> jsv \<Rightarrow> tag" where
  "make_tag event filters =
     \<lparr> tag_event = event,
       tag_filters = (if truthy filters \<and> js_keys filters \<noteq> [] then Some filters else None) \<rparr>"

definition subscribers :: "string \<Rightarrow> (tag \<times> subscriber list) list \<Rightarrow> subscriber list option" where
  "subscribers txt es = map_option snd (find (\<lambda>e. tag_text (fst e) = txt) es)"

definition push_subscriber ::
  "string \<Rightarrow> subscriber \<Rightarrow> (tag \<times> subscriber list) list \<Rightarrow> (tag \<times> subscriber list) list" where
  "push_subscriber txt sub es = map (\<lambda>e. if tag_text (fst e) = txt then (fst e, snd e @ [sub]) else e) es"

definition ss_subscribe ::
  "'c subscription_env \<Rightarrow> string \<Rightarrow> string \<Rightarrow> string \<Rightarrow> jsv \<Rightarrow> 'c subscription_state
   \<Rightarrow> string \<times> 'c subscription_state" where
  "ss_subscribe env generatedId connection event filters s =
     (let t = make_tag event filters; txt = tag_text t;
          es = (if subscribers txt (ss_subscriptions s) = None then ss_subscriptions s @ [(t, [])]
                else ss_subscriptions s);
          existingSub = (if se_sameSubForSameEvent env
            then find (\<lambda>sub. su_connection sub = connection) (the (subscribers txt es)) else None)
      in case existingSub of
           Some sub \<Rightarrow> (su_id sub, s\<lparr> ss_subscriptions := es \<rparr>)
         | None \<Rightarrow>
             (generatedId,
              s\<lparr> ss_subscriptions :=
                   push_subscriber txt \<lparr> su_connection = connection, su_id = generatedId \<rparr> es,
                 ss_poller := poller_add t (ss_poller s) \<rparr>))"

definition unsubscribed_by :: "string \<Rightarrow> jsv \<Rightarrow> subscriber \<Rightarrow> bool" where
  "unsubscribed_by connection subId sub =
     (su_connection sub = connection \<and> (\<not> truthy subId \<or> subId = JStr (su_id sub)))"

fun unsubscribe_entries ::
  "string \<Rightarrow> jsv \<Rightarrow> (tag \<times> subscriber list) list \<Rightarrow> poller
   \<Rightarrow> nat \<times> (tag \<times> subscriber list) list \<times> poller" where
  "unsubscribe_entries connection subId [] p = (0, [], p)"
| "unsubscribe_entries connection subId ((t, subs) # es) p =
     (let kept = filter (\<lambda>sub. \<not> unsubscribed_by connection subId sub) subs;
          (n, es', p') = unsubscribe_entries connection subId es (if kept = [] then poller_remove t p else p)
      in (length subs - length kept + n, if kept = [] then es' else (t, kept) # es', p'))"

definition ss_unsubscribe ::
  "string \<Rightarrow> jsv \<Rightarrow> 'c subscription_state \<Rightarrow> nat \<times> 'c subscription_state" where
  "ss_unsubscribe connection subId s =
     (case unsubscribe_entries connection subId (ss_subscriptions s) (ss_poller s) of
        (subCount, es, p) \<Rightarrow> (subCount, s\<lparr> ss_subscriptions := es, ss_poller := p \<rparr>))"

definition subscription_data :: "jsv \<Rightarrow> string \<Rightarrow> jsv" where
  "subscription_data data subId = JObj [(''result'', data), (''subscription'', JStr subId)]"

definition subscription_message :: "jsv \<Rightarrow> string \<Rightarrow> jsv" where
  "subscription_message data subId =
     JObj [(''jsonrpc'', JStr ''2.0''), (''method'', JStr ''eth_subscription''), (''params'', subscription_data data subId)]"

definition notify_one ::
  "'c subscription_env \<Rightarrow> int \<Rightarrow> jsv \<Rightarrow> subscriber \<Rightarrow> 'c \<times> (string \<times> jsv) list \<Rightarrow> 'c \<times> (string \<times> jsv) list" where
  "notify_one env now data sub st =
     (let hash = se_createHash env (json_stringify (subscription_data data (su_id sub)));
          (seen, cache) = lru_get (se_lru env) now hash (fst st)
      in if truthy seen then (cache, snd st)
         else (lru_set (se_lru env) now hash (JBool True) (Ms (se_cacheTtl env)) cache,
               snd st @ [(su_connection sub, subscription_message data (su_id sub))]))"

definition notifySubscribers ::
  "'c subscription_env \<Rightarrow> int \<Rightarrow> string \<Rightarrow> jsv \<Rightarrow> 'c subscription_state
   \<Rightarrow> (string \<times> jsv) list \<times> 'c subscription_state" where
  "notifySubscribers env now txt data s =
     (case subscribers txt (ss_subscriptions s) of
        None \<Rightarrow> ([], s)
      | Some subs \<Rightarrow>
          (let (cache, sent) = foldl (\<lambda>st sub. notify_one env now data sub st) (ss_cache s, []) subs
           in (sent, s\<lparr> ss_cache := cache \<rparr>)))"

subsection \<open>The polls are the tags with subscribers\<close>

definition tag_texts :: "(tag \<times> subscriber list) list \<Rightarrow> string list" where
  "tag_texts es = map (\<lambda>e. tag_text (fst e)) es"

definition service_ok :: "'c subscription_state \<Rightarrow> bool" where
  "service_ok s \<longleftrightarrow>
     distinct (tag_texts (ss_subscriptions s)) \<and> [] \<notin> snd ` set (ss_subscriptions s) \<and>
     poller_ok (ss_poller s) \<and> (\<forall>x. hasPoll x (ss_poller s) \<longleftrightarrow> x \<in> set (tag_texts (ss_subscriptions s)))"

text \<open>What a connection has subscribed to, with the ids it got.\<close>

definition connection_subs :: "string \<Rightarrow> (tag \<times> subscriber list) list \<Rightarrow> (tag \<times> string) list" where
  "connection_subs connection es =
     concat (map (\<lambda>e. map (\<lambda>sub. (fst e, su_id sub)) (filter (\<lambda>sub. su_connection sub = connection) (snd e))) es)"

lemma subscribers_None_iff: "subscribers x es = None \<longleftrightarrow> x \<notin> set (tag_texts es)"
  by (force simp: subscribers_def find_None_iff tag_texts_def)

lemma subscribers_Some:
  assumes "subscribers x es = Some subs"
  shows "\<exists>t. tag_text t = x \<and> (t, subs) \<in> set es"
proof -
  obtain e where "find (\<lambda>e. tag_text (fst e) = x) es = Some e" "subs = snd e"
    using assms by (auto simp: subscribers_def)
  then have "e \<in> set es" "tag_text (fst e) = x" by (auto simp: find_Some_iff)
  with \<open>subs = snd e\<close> show ?thesis by (intro exI [of _ "fst e"]) simp
qed

lemma subscribers_snoc:
  "subscribers x es = None \<Longrightarrow> subscribers x (es @ [e]) = (if tag_text (fst e) = x then Some (snd e) else None)"
  by (induction es) (auto simp: subscribers_def split: if_splits)

lemma tag_texts_push [simp]: "tag_texts (push_subscriber x sub es) = tag_texts es"
  by (simp add: tag_texts_def push_subscriber_def)

lemma tag_texts_append [simp]: "tag_texts (es @ fs) = tag_texts es @ tag_texts fs"
  by (simp add: tag_texts_def)

lemma subscribe_ok:
  assumes ok: "service_ok s"
  shows "service_ok (snd (ss_subscribe env i connection event filters s))"
proof -
  define t where "t = make_tag event filters"
  define es where "es = (if subscribers (tag_text t) (ss_subscriptions s) = None
    then ss_subscriptions s @ [(t, [])] else ss_subscriptions s)"
  have texts: "set (tag_texts es) = insert (tag_text t) (set (tag_texts (ss_subscriptions s)))"
    by (auto simp: es_def subscribers_None_iff tag_texts_def)
  have dist: "distinct (tag_texts es)"
    using ok by (simp add: es_def service_ok_def subscribers_None_iff tag_texts_def image_iff)
  have empty: "tag_text (fst e) = tag_text t" if "e \<in> set es" "snd e = []" for e
    using that ok by (auto simp: es_def service_ok_def split: if_splits) force+
  show ?thesis
  proof (cases "if se_sameSubForSameEvent env
      then find (\<lambda>sub. su_connection sub = connection) (the (subscribers (tag_text t) es)) else None")
    case None
    then have s': "snd (ss_subscribe env i connection event filters s) =
        s\<lparr> ss_subscriptions := push_subscriber (tag_text t) \<lparr> su_connection = connection, su_id = i \<rparr> es,
           ss_poller := poller_add t (ss_poller s) \<rparr>"
      unfolding ss_subscribe_def Let_def t_def [symmetric] es_def [symmetric] None by simp
    have "[] \<notin> snd ` set (push_subscriber (tag_text t) sub es)" for sub
      using empty by (force simp: push_subscriber_def)
    then show ?thesis
      unfolding s' using ok dist texts by (simp add: service_ok_def poller.ok_add poller.has_add)
  next
    case (Some sub)
    then have "find (\<lambda>sub. su_connection sub = connection) (the (subscribers (tag_text t) es)) = Some sub"
      by (simp split: if_splits)
    then have "subscribers (tag_text t) (ss_subscriptions s) \<noteq> None"
      using subscribers_snoc [of "tag_text t" "ss_subscriptions s" "(t, [])"]
      by (intro notI) (simp add: es_def)
    then have "es = ss_subscriptions s" by (simp add: es_def)
    moreover have "snd (ss_subscribe env i connection event filters s) = s\<lparr> ss_subscriptions := es \<rparr>"
      unfolding ss_subscribe_def Let_def t_def [symmetric] es_def [symmetric] Some by simp
    ultimately show ?thesis using ok by simp
  qed
qed

lemma unsubscribe_entries_result:
  assumes "unsubscribe_entries connection subId es p = (n, es', p')"
  shows "es' = filter (\<lambda>e. snd e \<noteq> []) (map (\<lambda>e. (fst e, filter (\<lambda>sub. \<not> unsubscribed_by connection subId sub) (snd e))) es)
    \<and> n = length (filter (unsubscribed_by connection subId) (concat (map snd es)))
    \<and> p' = fold poller_remove
        (map fst (filter (\<lambda>e. filter (\<lambda>sub. \<not> unsubscribed_by connection subId sub) (snd e) = []) es)) p"
  using assms
proof (induction es arbitrary: p n es' p')
  case (Cons e es)
  obtain t subs where e: "e = (t, subs)" by (cases e)
  let ?kept = "filter (\<lambda>sub. \<not> unsubscribed_by connection subId sub) subs"
  obtain m fs q where rec: "unsubscribe_entries connection subId es (if ?kept = [] then poller_remove t p else p) = (m, fs, q)"
    by (metis prod_cases3)
  note IH = Cons.IH [OF rec]
  have len: "length subs - length ?kept = length (filter (unsubscribed_by connection subId) subs)"
    using sum_length_filter_compl [of "unsubscribed_by connection subId" subs] by simp
  from Cons.prems have res: "n = length subs - length ?kept + m" "es' = (if ?kept = [] then fs else (t, ?kept) # fs)" "p' = q"
    unfolding e unsubscribe_entries.simps Let_def rec by simp_all
  show ?case
    unfolding res len using IH by (simp add: e)
qed simp

lemma unsubscribe_ok:
  assumes ok: "service_ok s"
  shows "service_ok (snd (ss_unsubscribe connection subId s))"
proof -
  let ?keep = "\<lambda>e. filter (\<lambda>sub. \<not> unsubscribed_by connection subId sub) (snd e)"
  let ?es = "ss_subscriptions s"
  obtain n es' p' where res: "unsubscribe_entries connection subId ?es (ss_poller s) = (n, es', p')"
    by (metis prod_cases3)
  note r = unsubscribe_entries_result [OF res]
  have es': "es' = filter (\<lambda>e. snd e \<noteq> []) (map (\<lambda>e. (fst e, ?keep e)) ?es)" using r by simp
  have p': "p' = fold poller_remove (map fst (filter (\<lambda>e. ?keep e = []) ?es)) (ss_poller s)" using r by simp
  have dist: "distinct (tag_texts ?es)" using ok by (simp add: service_ok_def)
  have "distinct (tag_texts es')"
    using dist unfolding es' tag_texts_def by (simp add: filter_map comp_def distinct_map_filter)
  moreover have "[] \<notin> snd ` set es'" by (auto simp: es')
  moreover have "poller_ok p'" using ok unfolding p' by (simp add: service_ok_def poller.ok_fold_remove)
  moreover have "hasPoll x p' \<longleftrightarrow> x \<in> set (tag_texts es')" for x
  proof -
    have "hasPoll x p' \<longleftrightarrow> x \<in> set (tag_texts ?es) \<and> (\<forall>e \<in> set ?es. ?keep e = [] \<longrightarrow> tag_text (fst e) \<noteq> x)"
      using ok unfolding p' poller.has_fold_remove by (auto simp: service_ok_def)
    also have "\<dots> \<longleftrightarrow> (\<exists>e \<in> set ?es. ?keep e \<noteq> [] \<and> tag_text (fst e) = x)"
    proof -
      have "e = e'" if "e \<in> set ?es" "e' \<in> set ?es" "tag_text (fst e) = tag_text (fst e')" for e e'
        using dist that by (simp add: tag_texts_def distinct_map inj_on_def)
      then show ?thesis by (auto simp: tag_texts_def)
    qed
    also have "\<dots> \<longleftrightarrow> x \<in> set (tag_texts es')" by (auto simp: es' tag_texts_def image_iff)
    finally show ?thesis .
  qed
  ultimately show ?thesis by (simp add: ss_unsubscribe_def res service_ok_def)
qed

text \<open>
  What may happen to the service: a client subscribes (under a new id) or unsubscribes, data of a tag
  is sent out, the interval learns the latest block, or the answer to a poll arrives.
\<close>

inductive service_step :: "'c subscription_env \<Rightarrow> 'c subscription_state \<Rightarrow> 'c subscription_state \<Rightarrow> bool"
  for env where
  subscribes: "service_step env s (snd (ss_subscribe env generatedId connection event filters s))"
| unsubscribes: "service_step env s (snd (ss_unsubscribe connection subId s))"
| notifies: "service_step env s (snd (notifySubscribers env now txt data s))"
| ticks: "service_step env s (s\<lparr> ss_poller := (ss_poller s)\<lparr> po_latestBlock := Some block \<rparr> \<rparr>)"
| settles: "q \<in> set (po_polls (ss_poller s)) \<Longrightarrow> service_step env s
    (s\<lparr> ss_poller := (ss_poller s)\<lparr> po_polls :=
       map (\<lambda>q'. if q' = q then fst (poll_settles newHeadsEnabled (ss_poller s) q answer) else q')
         (po_polls (ss_poller s)) \<rparr> \<rparr>)"

inductive service_reachable :: "'c subscription_env \<Rightarrow> 'c \<Rightarrow> 'c subscription_state \<Rightarrow> bool"
  for env c where
  initially: "service_reachable env c
    \<lparr> ss_subscriptions = [],
      ss_poller = \<lparr> po_polls = [], po_interval = False, po_latestBlock = None, po_activePolls = 0,
                    po_activeNewHeadsPolls = 0 \<rparr>,
      ss_cache = c \<rparr>"
| later: "service_reachable env c s \<Longrightarrow> service_step env s s' \<Longrightarrow> service_reachable env c s'"

lemma poll_settles_tag: "poll_tag (fst (poll_settles b p q answer)) = poll_tag q"
  by (simp add: poll_settles_def split: poll_request.split sum.split)

lemma notify_keeps:
  "ss_subscriptions (snd (notifySubscribers env now x d s)) = ss_subscriptions s"
  "ss_poller (snd (notifySubscribers env now x d s)) = ss_poller s"
  by (simp_all add: notifySubscribers_def split: option.split prod.split)

lemma service_step_ok:
  assumes "service_step env s s'" and ok: "service_ok s"
  shows "service_ok s'"
  using assms(1)
proof (cases rule: service_step.cases)
  case (subscribes generatedId connection event filters)
  then show ?thesis using subscribe_ok [OF ok] by simp
next
  case (unsubscribes connection subId)
  then show ?thesis using unsubscribe_ok [OF ok] by simp
next
  case (notifies now x data)
  then show ?thesis using ok by (simp add: service_ok_def notify_keeps)
next
  case (ticks block)
  then show ?thesis using ok by (simp add: service_ok_def poller_ok_def polls_of_def hasPoll_iff)
next
  case (settles q newHeadsEnabled answer)
  let ?f = "\<lambda>q'. if q' = q then fst (poll_settles newHeadsEnabled (ss_poller s) q answer) else q'"
  let ?p = "ss_poller s" let ?p' = "(ss_poller s)\<lparr> po_polls := map ?f (po_polls (ss_poller s)) \<rparr>"
  have tag: "poll_tag (?f q') = poll_tag q'" for q' by (simp add: poll_settles_tag)
  have polls: "map (\<lambda>q. tag_text (poll_tag q)) (po_polls ?p') = map (\<lambda>q. tag_text (poll_tag q)) (po_polls ?p)"
    by (simp add: poll_settles_tag)
  moreover have "length (polls_of b ?p') = length (polls_of b ?p)" for b
    by (simp add: polls_of_def filter_map comp_def tag del: if_image_distrib)
  moreover have "hasPoll x ?p' = hasPoll x ?p" for x
    unfolding hasPoll_iff using arg_cong [OF polls, of set] by (simp only: list.set_map)
  moreover have "distinct (map (\<lambda>q. tag_text (poll_tag q)) (po_polls ?p'))"
    unfolding polls using ok by (simp add: service_ok_def poller_ok_def)
  ultimately have "poller_ok ?p'"
    using ok by (simp only: service_ok_def poller_ok_def) simp
  with ok \<open>\<And>x. hasPoll x ?p' = hasPoll x ?p\<close> show ?thesis unfolding settles(1) by (simp add: service_ok_def)
qed

lemma service_reachable_ok: "service_reachable env c s \<Longrightarrow> service_ok s"
  by (induction rule: service_reachable.induct)
    (simp_all add: service_step_ok, simp add: service_ok_def tag_texts_def poller_ok_def polls_of_def hasPoll_def)

text \<open>
  C38. Whatever clients and polls do in whatever order: the poller runs exactly while somebody is
  subscribed, it polls every tag that has subscribers once and no other, and its two gauges count the
  polled tags for new heads and for logs.
\<close>

theorem polls_are_subscriptions:
  assumes "service_reachable env c s"
  shows "(isPolling (ss_poller s) \<longleftrightarrow> ss_subscriptions s \<noteq> []) \<and>
    mset (map (\<lambda>q. tag_text (poll_tag q)) (po_polls (ss_poller s))) =
      mset (map (\<lambda>e. tag_text (fst e)) (filter (\<lambda>e. snd e \<noteq> []) (ss_subscriptions s))) \<and>
    po_activeNewHeadsPolls (ss_poller s) =
      int (length (filter (\<lambda>q. tag_event (poll_tag q) = ''newHeads'') (po_polls (ss_poller s)))) \<and>
    po_activePolls (ss_poller s) + po_activeNewHeadsPolls (ss_poller s) = int (length (po_polls (ss_poller s)))"
proof -
  have ok: "service_ok s" by (rule service_reachable_ok [OF assms])
  then have texts: "set (map (\<lambda>q. tag_text (poll_tag q)) (po_polls (ss_poller s))) = set (tag_texts (ss_subscriptions s))"
    by (auto simp: service_ok_def hasPoll_iff)
  have "filter (\<lambda>e. snd e \<noteq> []) (ss_subscriptions s) = ss_subscriptions s"
    using ok by (force simp: service_ok_def filter_id_conv)
  moreover have "mset (map (\<lambda>q. tag_text (poll_tag q)) (po_polls (ss_poller s))) = mset (tag_texts (ss_subscriptions s))"
    using ok texts by (intro set_eq_iff_mset_eq_distinct [THEN iffD1]) (simp_all add: service_ok_def poller_ok_def)
  moreover have "isPolling (ss_poller s) \<longleftrightarrow> ss_subscriptions s \<noteq> []"
    using ok texts by (auto simp: service_ok_def poller_ok_def isPolling_def tag_texts_def)
  moreover have "length (polls_of False (ss_poller s)) + length (polls_of True (ss_poller s)) = length (po_polls (ss_poller s))"
    using sum_length_filter_compl [of "\<lambda>q. tag_event (poll_tag q) = NEW_HEADS_EVENT" "po_polls (ss_poller s)"]
    by (simp add: polls_of_def)
  ultimately show ?thesis
    using ok by (simp add: service_ok_def poller_ok_def tag_texts_def polls_of_def NEW_HEADS_EVENT_def)
qed

definition idle_service :: "'c \<Rightarrow> 'c subscription_state" where
  "idle_service c =
     \<lparr> ss_subscriptions = [],
       ss_poller = \<lparr> po_polls = [], po_interval = False, po_latestBlock = None, po_activePolls = 0,
                     po_activeNewHeadsPolls = 0 \<rparr>,
       ss_cache = c \<rparr>"

definition sample_subscription_env :: "list_lru subscription_env" where
  "sample_subscription_env =
     \<lparr> se_sameSubForSameEvent = True, se_createHash = id, se_lru = list_lru_ops, se_cacheTtl = 20000 \<rparr>"

lemma sample_reachable: "service_reachable sample_subscription_env (9, [])
    (snd (ss_subscribe sample_subscription_env ''0x1'' ''conn'' ''newHeads'' JUndef (idle_service (9, []))))"
  by (rule service_reachable.later [OF _ service_step.subscribes])
    (simp add: idle_service_def service_reachable.initially)

theorem polls_are_subscriptions_witness:
  "isPolling (ss_poller (snd (ss_subscribe sample_subscription_env ''0x1'' ''conn'' ''newHeads'' JUndef (idle_service (9, [])))))"
  using polls_are_subscriptions [OF sample_reachable]
  by (simp add: ss_subscribe_def idle_service_def subscribers_def push_subscriber_def sample_subscription_env_def Let_def)

subsection \<open>What a connection is subscribed to\<close>

lemma connection_subs_simps [simp]:
  "connection_subs c [] = []"
  "connection_subs c (e # es) =
     map (\<lambda>sub. (fst e, su_id sub)) (filter (\<lambda>sub. su_connection sub = c) (snd e)) @ connection_subs c es"
  "connection_subs c (es @ fs) = connection_subs c es @ connection_subs c fs"
  by (simp_all add: connection_subs_def)

lemma connection_subs_nonempty [simp]: "connection_subs c (filter (\<lambda>e. snd e \<noteq> []) es) = connection_subs c es"
  by (induction es) auto

lemma connection_subs_own:
  "connection_subs connection (map (\<lambda>e. (fst e, filter (\<lambda>sub. \<not> unsubscribed_by connection subId sub) (snd e))) es) =
     filter (\<lambda>(t, i). truthy subId \<and> subId \<noteq> JStr i) (connection_subs connection es)"
proof (induction es)
  case (Cons e es)
  have "map (\<lambda>sub. (fst e, su_id sub)) (filter (\<lambda>sub. su_connection sub = connection)
        (filter (\<lambda>sub. \<not> unsubscribed_by connection subId sub) subs)) =
      filter (\<lambda>(t, i). truthy subId \<and> subId \<noteq> JStr i)
        (map (\<lambda>sub. (fst e, su_id sub)) (filter (\<lambda>sub. su_connection sub = connection) subs))" for subs
    by (induction subs) (auto simp: unsubscribed_by_def)
  with Cons show ?case by simp
qed simp

lemma connection_subs_other:
  "c \<noteq> connection \<Longrightarrow>
   connection_subs c (map (\<lambda>e. (fst e, filter (\<lambda>sub. \<not> unsubscribed_by connection subId sub) (snd e))) es) =
     connection_subs c es"
proof (induction es)
  case (Cons e es)
  have "filter (\<lambda>sub. su_connection sub = c) (filter (\<lambda>sub. \<not> unsubscribed_by connection subId sub) subs) =
      filter (\<lambda>sub. su_connection sub = c) subs" for subs
    using Cons.prems by (induction subs) (auto simp: unsubscribed_by_def)
  with Cons show ?case by simp
qed simp

lemma connection_subs_count:
  "length (filter (unsubscribed_by connection subId) (concat (map snd es))) +
     length (filter (\<lambda>(t, i). truthy subId \<and> subId \<noteq> JStr i) (connection_subs connection es)) =
   length (connection_subs connection es)"
proof (induction es)
  case (Cons e es)
  have "length (filter (unsubscribed_by connection subId) subs) +
      length (filter (\<lambda>(t, i). truthy subId \<and> subId \<noteq> JStr i)
        (map (\<lambda>sub. (fst e, su_id sub)) (filter (\<lambda>sub. su_connection sub = connection) subs))) =
      length (filter (\<lambda>sub. su_connection sub = connection) subs)" for subs
    by (induction subs) (auto simp: unsubscribed_by_def)
  from this [of "snd e"] Cons show ?case by simp
qed simp

lemma unsubscribe_result:
  "(case ss_unsubscribe connection subId s of
      (n, s') \<Rightarrow>
        connection_subs c (ss_subscriptions s') =
          (if c = connection
           then filter (\<lambda>(t, i). truthy subId \<and> subId \<noteq> JStr i) (connection_subs c (ss_subscriptions s))
           else connection_subs c (ss_subscriptions s)) \<and>
        n + length (connection_subs connection (ss_subscriptions s')) =
          length (connection_subs connection (ss_subscriptions s)))"
proof -
  obtain n es' p' where res: "unsubscribe_entries connection subId (ss_subscriptions s) (ss_poller s) = (n, es', p')"
    by (metis prod_cases3)
  note r = unsubscribe_entries_result [OF res]
  show ?thesis
    using r connection_subs_count [of connection subId "ss_subscriptions s"]
    by (simp add: ss_unsubscribe_def res connection_subs_own connection_subs_other)
qed

text \<open>
  \<open>eth_unsubscribe\<close> takes exactly the named subscription of the connection away, or all of them
  where no id is given, an empty one or \<open>null\<close>; the number it answers is the number of subscriptions
  taken away, and no other connection loses one.
\<close>

theorem unsubscribe_exact:
  "(case ss_unsubscribe connection subId s of
      (n, s') \<Rightarrow>
        connection_subs c (ss_subscriptions s') =
          (if c = connection
           then filter (\<lambda>(t, i). truthy subId \<and> subId \<noteq> JStr i) (connection_subs c (ss_subscriptions s))
           else connection_subs c (ss_subscriptions s)) \<and>
        n + length (connection_subs connection (ss_subscriptions s')) =
          length (connection_subs connection (ss_subscriptions s)))"
  by (rule unsubscribe_result)

definition subscribed :: "string \<Rightarrow> (tag \<times> subscriber list) list \<Rightarrow> (string \<times> string) multiset" where
  "subscribed c es = mset (map (\<lambda>(t, i). (tag_text t, i)) (connection_subs c es))"

lemma push_absent: "x \<notin> set (tag_texts es) \<Longrightarrow> push_subscriber x sub es = es"
  by (induction es) (auto simp: push_subscriber_def tag_texts_def)

lemma subscribed_push:
  "distinct (tag_texts es) \<Longrightarrow> x \<in> set (tag_texts es) \<Longrightarrow>
   subscribed c (push_subscriber x sub es) =
     subscribed c es + (if su_connection sub = c then {# (x, su_id sub) #} else {#})"
proof (induction es)
  case (Cons e es)
  have step: "push_subscriber x sub (e # es) =
      (if tag_text (fst e) = x then (fst e, snd e @ [sub]) else e) # push_subscriber x sub es"
    by (simp add: push_subscriber_def)
  show ?case
  proof (cases "tag_text (fst e) = x")
    case True
    with Cons.prems have "push_subscriber x sub es = es"
      by (intro push_absent) (auto simp: tag_texts_def)
    with True show ?thesis unfolding step by (simp add: subscribed_def)
  next
    case False
    with Cons show ?thesis unfolding step by (simp add: subscribed_def tag_texts_def)
  qed
qed (simp add: tag_texts_def)

lemma find_own_subscription:
  assumes "distinct (tag_texts es)"
  shows "map_option su_id (Option.bind (subscribers x es) (find (\<lambda>sub. su_connection sub = c))) =
    map_option snd (find (\<lambda>p. tag_text (fst p) = x) (connection_subs c es))"
  using assms
proof (induction es)
  case (Cons e es)
  have here: "find (\<lambda>p. tag_text (fst p) = x) (map (\<lambda>sub. (fst e, su_id sub)) (filter (\<lambda>sub. su_connection sub = c) subs)) =
      (if tag_text (fst e) = x then map_option (\<lambda>sub. (fst e, su_id sub)) (find (\<lambda>sub. su_connection sub = c) subs) else None)"
    for subs by (induction subs) auto
  have append: "find P (xs @ ys) = (case find P xs of None \<Rightarrow> find P ys | Some y \<Rightarrow> Some y)" for P and xs ys :: "(tag \<times> string) list"
    by (induction xs) auto
  show ?case
  proof (cases "tag_text (fst e) = x")
    case True
    then have "x \<notin> set (tag_texts es)" using Cons.prems by (auto simp: tag_texts_def)
    then have "find (\<lambda>p. tag_text (fst p) = x) (connection_subs c es) = None"
      by (auto simp: find_None_iff connection_subs_def tag_texts_def)
    with True show ?thesis by (simp add: append here subscribers_def option.map_comp comp_def split: option.split)
  next
    case False
    with Cons show ?thesis by (simp add: append here subscribers_def tag_texts_def)
  qed
qed (simp add: subscribers_def)

lemma subscribe_result:
  assumes "service_ok s"
  shows "(case ss_subscribe env generatedId connection event filters s of
      (r, s') \<Rightarrow>
        (case (if se_sameSubForSameEvent env
               then find (\<lambda>p. tag_text (fst p) = tag_text (make_tag event filters))
                      (connection_subs connection (ss_subscriptions s))
               else None) of
           Some (t, i) \<Rightarrow> r = i \<and> s' = s
         | None \<Rightarrow> r = generatedId \<and>
             (\<forall>c. subscribed c (ss_subscriptions s') = subscribed c (ss_subscriptions s) +
               (if c = connection then {# (tag_text (make_tag event filters), generatedId) #} else {#}))))"
proof -
  define t where "t = make_tag event filters"
  define es where "es = (if subscribers (tag_text t) (ss_subscriptions s) = None
    then ss_subscriptions s @ [(t, [])] else ss_subscriptions s)"
  have dist: "distinct (tag_texts (ss_subscriptions s))"
    using assms by (simp add: service_ok_def)
  have es: "distinct (tag_texts es)" "tag_text t \<in> set (tag_texts es)"
    using dist by (auto simp: es_def subscribers_None_iff) (simp_all add: tag_texts_def)
  have same: "subscribed c es = subscribed c (ss_subscriptions s)" for c
    by (simp add: es_def subscribed_def)
  have existing: "find (\<lambda>sub. su_connection sub = connection) (the (subscribers (tag_text t) es)) =
      Option.bind (subscribers (tag_text t) (ss_subscriptions s)) (find (\<lambda>sub. su_connection sub = connection))"
    using subscribers_snoc [of "tag_text t" "ss_subscriptions s" "(t, [])"] by (auto simp: es_def)
  show ?thesis
  proof (cases "if se_sameSubForSameEvent env
      then find (\<lambda>sub. su_connection sub = connection) (the (subscribers (tag_text t) es)) else None")
    case None
    then have result: "ss_subscribe env generatedId connection event filters s =
        (generatedId, s\<lparr> ss_subscriptions :=
           push_subscriber (tag_text t) \<lparr> su_connection = connection, su_id = generatedId \<rparr> es,
         ss_poller := poller_add t (ss_poller s) \<rparr>)"
      unfolding ss_subscribe_def Let_def t_def [symmetric] es_def [symmetric] None by simp
    have own: "(if se_sameSubForSameEvent env
        then find (\<lambda>p. tag_text (fst p) = tag_text t) (connection_subs connection (ss_subscriptions s)) else None) = None"
      using None find_own_subscription [OF dist, of "tag_text t" connection] unfolding existing
      by (auto split: if_splits)
    show ?thesis unfolding t_def [symmetric] result own by (simp add: subscribed_push [OF es] same)
  next
    case (Some sub)
    then have same_sub: "se_sameSubForSameEvent env"
      and bound: "Option.bind (subscribers (tag_text t) (ss_subscriptions s)) (find (\<lambda>sub. su_connection sub = connection)) = Some sub"
      unfolding existing by (auto split: if_splits)
    then have "es = ss_subscriptions s" by (cases "subscribers (tag_text t) (ss_subscriptions s)") (simp_all add: es_def)
    then have "ss_subscribe env generatedId connection event filters s = (su_id sub, s)"
      unfolding ss_subscribe_def Let_def t_def [symmetric] es_def [symmetric] Some by simp
    moreover obtain p where "find (\<lambda>p. tag_text (fst p) = tag_text t) (connection_subs connection (ss_subscriptions s)) = Some p"
      "snd p = su_id sub"
      using find_own_subscription [OF dist, of "tag_text t" connection, unfolded bound, symmetric] by auto
    ultimately show ?thesis using same_sub by (simp add: t_def [symmetric] case_prod_beta)
  qed
qed

text \<open>
  \<open>eth_subscribe\<close> answers the id of the subscription the connection already has to the same event
  and filters, where the server is configured so, and changes nothing. Otherwise it answers the new
  id and adds exactly this one subscription.
\<close>

theorem subscribe_exact:
  assumes "service_reachable env c0 s"
  shows "(case ss_subscribe env generatedId connection event filters s of
      (r, s') \<Rightarrow>
        (case (if se_sameSubForSameEvent env
               then find (\<lambda>p. tag_text (fst p) = tag_text (make_tag event filters))
                      (connection_subs connection (ss_subscriptions s))
               else None) of
           Some (t, i) \<Rightarrow> r = i \<and> s' = s
         | None \<Rightarrow> r = generatedId \<and>
             (\<forall>c. subscribed c (ss_subscriptions s') = subscribed c (ss_subscriptions s) +
               (if c = connection then {# (tag_text (make_tag event filters), generatedId) #} else {#}))))"
  by (rule subscribe_result [OF service_reachable_ok [OF assms]])

theorem subscribe_exact_witness:
  "fst (ss_subscribe sample_subscription_env ''0x2'' ''conn'' ''newHeads'' JUndef
     (snd (ss_subscribe sample_subscription_env ''0x1'' ''conn'' ''newHeads'' JUndef (idle_service (9, []))))) = ''0x1''"
proof -
  from subscribe_exact [OF sample_reachable, of "''0x2''" "''conn''" "''newHeads''" JUndef] show ?thesis
    by (simp add: ss_subscribe_def idle_service_def subscribers_def push_subscriber_def sample_subscription_env_def
        Let_def make_tag_def)
qed

subsection \<open>Every subscriber gets the data once\<close>

definition dedupe_key :: "'c subscription_env \<Rightarrow> jsv \<Rightarrow> subscriber \<Rightarrow> string" where
  "dedupe_key env data sub = se_createHash env (json_stringify (subscription_data data (su_id sub)))"

definition recently_sent ::
  "'c lru_look \<Rightarrow> 'c subscription_env \<Rightarrow> int \<Rightarrow> jsv \<Rightarrow> 'c \<Rightarrow> subscriber \<Rightarrow> bool" where
  "recently_sent look env now data c sub =
     (fresh now (look c (dedupe_key env data sub)) \<and> truthy (fst (the (look c (dedupe_key env data sub)))))"

lemma notify_one_spec:
  assumes laws: "lru_laws (se_lru env) look cap" and ttl: "0 \<le> se_cacheTtl env"
    and room: "finite D" "card D \<le> cap c" "dom (look c) \<subseteq> D" "dedupe_key env data sub \<in> D"
  shows "\<exists>c'. notify_one env now data sub (c, sent) =
      (c', sent @ (if recently_sent look env now data c sub then []
                   else [(su_connection sub, subscription_message data (su_id sub))])) \<and>
    cap c' = cap c \<and> dom (look c') \<subseteq> D \<and> recently_sent look env now data c' sub \<and>
    (\<forall>k. k \<noteq> dedupe_key env data sub \<longrightarrow> look c' k = look c k)"
proof -
  let ?k = "dedupe_key env data sub"
  obtain v c1 where get: "lru_get (se_lru env) now ?k c = (v, c1)" by (cases "lru_get (se_lru env) now ?k c")
  note law = lru_get_law [OF laws get]
  have dom1: "dom (look c1) \<subseteq> dom (look c)"
  proof
    fix k assume "k \<in> dom (look c1)"
    then show "k \<in> dom (look c)" using law by (cases "k = ?k") auto
  qed
  have seen: "truthy v \<longleftrightarrow> recently_sent look env now data c sub"
    using law by (simp add: recently_sent_def)
  show ?thesis
  proof (cases "recently_sent look env now data c sub")
    case True
    then have "look c1 ?k = look c ?k" using law by (simp add: recently_sent_def)
    with True dom1 law room seen get show ?thesis
      by (intro exI [of _ c1]) (auto simp: notify_one_def Let_def dedupe_key_def [symmetric] recently_sent_def)
  next
    case False
    let ?c2 = "lru_set (se_lru env) now ?k (JBool True) (Ms (se_cacheTtl env)) c1"
    have "card (insert ?k (dom (look c1))) \<le> card D"
      using room dom1 by (intro card_mono) auto
    then have fits: "card (insert ?k (dom (look c1))) \<le> cap c1" using room(2) law by simp
    have others: "k \<noteq> ?k \<Longrightarrow> look ?c2 k = look c k" for k
      using lru_set_room [OF laws fits, of k now "JBool True" "Ms (se_cacheTtl env)"] law by simp
    have self: "look ?c2 ?k = Some (JBool True, deadline now (Ms (se_cacheTtl env)))"
      by (rule lru_set_self [OF laws])
    have "dom (look ?c2) \<subseteq> D"
    proof
      fix k assume "k \<in> dom (look ?c2)"
      then show "k \<in> D" using others room by (cases "k = ?k") (auto simp: domIff)
    qed
    moreover have "recently_sent look env now data ?c2 sub"
      using self ttl by (simp add: recently_sent_def fresh_def deadline_def)
    ultimately show ?thesis using False seen get others law
      by (intro exI [of _ ?c2])
        (auto simp: notify_one_def Let_def dedupe_key_def [symmetric] lru_set_cap [OF laws])
  qed
qed

lemma notify_fold:
  assumes laws: "lru_laws (se_lru env) look cap" and ttl: "0 \<le> se_cacheTtl env" and "finite D"
  shows "distinct (map (dedupe_key env data) subs) \<Longrightarrow> card D \<le> cap c \<Longrightarrow> dom (look c) \<subseteq> D \<Longrightarrow>
    dedupe_key env data ` set subs \<subseteq> D \<Longrightarrow>
    \<exists>c'. foldl (\<lambda>st sub. notify_one env now data sub st) (c, sent) subs =
      (c', sent @ map (\<lambda>sub. (su_connection sub, subscription_message data (su_id sub)))
        (filter (\<lambda>sub. \<not> recently_sent look env now data c sub) subs)) \<and>
    cap c' = cap c \<and> dom (look c') \<subseteq> D \<and> list_all (recently_sent look env now data c') subs \<and>
    (\<forall>k. k \<notin> dedupe_key env data ` set subs \<longrightarrow> look c' k = look c k)"
proof (induction subs arbitrary: c sent)
  case (Cons sub subs)
  obtain c1 where one: "notify_one env now data sub (c, sent) =
      (c1, sent @ (if recently_sent look env now data c sub then []
                   else [(su_connection sub, subscription_message data (su_id sub))]))"
    and c1: "cap c1 = cap c" "dom (look c1) \<subseteq> D" "recently_sent look env now data c1 sub"
      "\<forall>k. k \<noteq> dedupe_key env data sub \<longrightarrow> look c1 k = look c k"
    using notify_one_spec [OF laws ttl assms(3) Cons.prems(2,3), of data sub now sent] Cons.prems(4) by auto
  define sent1 where "sent1 = sent @ (if recently_sent look env now data c sub then []
                   else [(su_connection sub, subscription_message data (su_id sub))])"
  have "\<exists>c'. foldl (\<lambda>st sub. notify_one env now data sub st) (c1, sent1) subs =
      (c', sent1 @ map (\<lambda>sub. (su_connection sub, subscription_message data (su_id sub)))
        (filter (\<lambda>sub. \<not> recently_sent look env now data c1 sub) subs)) \<and>
      cap c' = cap c1 \<and> dom (look c') \<subseteq> D \<and> list_all (recently_sent look env now data c') subs \<and>
      (\<forall>k. k \<notin> dedupe_key env data ` set subs \<longrightarrow> look c' k = look c1 k)"
    using Cons.prems c1 by (intro Cons.IH) simp_all
  then obtain c' where rest: "foldl (\<lambda>st sub. notify_one env now data sub st) (c1, sent1) subs =
      (c', sent1 @ map (\<lambda>sub. (su_connection sub, subscription_message data (su_id sub)))
        (filter (\<lambda>sub. \<not> recently_sent look env now data c1 sub) subs))"
    and c': "cap c' = cap c1" "dom (look c') \<subseteq> D" "list_all (recently_sent look env now data c') subs"
      "\<forall>k. k \<notin> dedupe_key env data ` set subs \<longrightarrow> look c' k = look c1 k"
    by blast
  have same: "recently_sent look env now data c1 sub' = recently_sent look env now data c sub'" if "sub' \<in> set subs" for sub'
  proof -
    have "dedupe_key env data sub' \<noteq> dedupe_key env data sub" using Cons.prems(1) that by (auto simp: image_iff)
    with c1(4) show ?thesis by (simp add: recently_sent_def)
  qed
  have "dedupe_key env data sub \<notin> dedupe_key env data ` set subs" using Cons.prems(1) by simp
  then have "recently_sent look env now data c' sub" using c'(4) c1(3) by (simp add: recently_sent_def)
  with rest c' c1 same show ?case by (simp add: one sent1_def cong: filter_cong)
qed simp

text \<open>
  Data found for a tag is sent to every subscriber of the tag, in the order they subscribed, except
  to those it was sent to within the time to live of the cache; the same data found again right away
  is sent to nobody. It takes hashes that differ, and room in the cache for one entry per
  subscriber.
\<close>

theorem notify_once:
  assumes "lru_laws (se_lru env) look cap" and "0 \<le> se_cacheTtl env"
    and "subscribers x (ss_subscriptions s) = Some subs" and "distinct (map (dedupe_key env data) subs)"
    and "finite (dom (look (ss_cache s)))"
    and "card (dom (look (ss_cache s)) \<union> dedupe_key env data ` set subs) \<le> cap (ss_cache s)"
  shows "(case notifySubscribers env now x data s of
      (sent, s') \<Rightarrow>
        sent = map (\<lambda>sub. (su_connection sub, subscription_message data (su_id sub)))
          (filter (\<lambda>sub. \<not> recently_sent look env now data (ss_cache s) sub) subs) \<and>
        fst (notifySubscribers env now x data s') = [])"
proof -
  let ?D = "dom (look (ss_cache s)) \<union> dedupe_key env data ` set subs"
  have D: "finite ?D" using assms(5) by simp
  obtain c' where first: "foldl (\<lambda>st sub. notify_one env now data sub st) (ss_cache s, []) subs =
      (c', map (\<lambda>sub. (su_connection sub, subscription_message data (su_id sub)))
        (filter (\<lambda>sub. \<not> recently_sent look env now data (ss_cache s) sub) subs))"
    and c': "cap c' = cap (ss_cache s)" "dom (look c') \<subseteq> ?D" "list_all (recently_sent look env now data c') subs"
    using notify_fold [OF assms(1,2) D assms(4,6), of now "[]"] by auto
  have "card ?D \<le> cap c'" using assms(6) c'(1) by simp
  from notify_fold [OF assms(1,2) D assms(4) this c'(2), of now "[]"] obtain c'' where
    "foldl (\<lambda>st sub. notify_one env now data sub st) (c', []) subs =
      (c'', map (\<lambda>sub. (su_connection sub, subscription_message data (su_id sub)))
        (filter (\<lambda>sub. \<not> recently_sent look env now data c' sub) subs))" by auto
  moreover have "filter (\<lambda>sub. \<not> recently_sent look env now data c' sub) subs = []"
    using c'(3) by (simp add: list_all_iff filter_empty_conv)
  ultimately show ?thesis using assms(3) first by (simp add: notifySubscribers_def)
qed

theorem notify_once_witness:
  "fst (notifySubscribers sample_subscription_env 5 (tag_text (make_tag ''newHeads'' JUndef)) (JNum 7)
     (snd (ss_subscribe sample_subscription_env ''0x1'' ''conn'' ''newHeads'' JUndef (idle_service (9, []))))) =
   [(''conn'', subscription_message (JNum 7) ''0x1'')]"
proof -
  let ?s = "snd (ss_subscribe sample_subscription_env ''0x1'' ''conn'' ''newHeads'' JUndef (idle_service (9, [])))"
  have sub: "subscribers (tag_text (make_tag ''newHeads'' JUndef)) (ss_subscriptions ?s) =
      Some [\<lparr> su_connection = ''conn'', su_id = ''0x1'' \<rparr>]"
    by (simp add: ss_subscribe_def idle_service_def subscribers_def push_subscriber_def sample_subscription_env_def
        Let_def)
  have cache: "ss_cache ?s = (9, [])"
    by (simp add: ss_subscribe_def idle_service_def subscribers_def push_subscriber_def sample_subscription_env_def
        Let_def)
  have "lru_laws (se_lru sample_subscription_env) list_lru_look (\<lambda>c. Suc (fst c))" "0 \<le> se_cacheTtl sample_subscription_env"
    by (simp_all add: sample_subscription_env_def list_lru_laws)
  from notify_once [OF this sub, of "JNum 7" 5] show ?thesis
    by (auto simp: cache list_lru_look_def recently_sent_def fresh_def)
qed

end
