(* ===== verification/WsConnections.thy ===== *)
theory WsConnections
  imports Subscriptions JsonRpcErrors
begin

section \<open>Connections of the websocket server\<close>

text \<open>
  Models \<open>packages/ws-server/src/metrics/connectionLimiter.ts\<close> and the life of a connection in
  \<open>webSocketServer.ts\<close>, \<open>utils.ts\<close> and the two subscription controllers: counting and limiting
  connections, the inactivity timer, subscriptions with their quota, and what the end of a connection
  leaves behind. Sockets are named by their id. A timer is a pending time-out with its deadline, as
  \<open>setTimeout\<close> and \<open>clearTimeout\<close> keep them; the number of open TCP connections of the HTTP server is
  given by Node with every new connection.
\<close>

subsection \<open>The connection limiter\<close>

record ws_config =
  WS_CONNECTION_LIMIT :: int
  WS_CONNECTION_LIMIT_PER_IP :: int
  WS_MAX_INACTIVITY_TTL :: int
  WS_SUBSCRIPTION_LIMIT :: int

record ws_socket =
  so_ip :: string
  so_ipCounted :: bool
  so_subscriptions :: int
  so_closed :: bool
  so_closeCode :: "int option"
  so_inactivityTTL :: "nat option"

record ws_limiter =
  li_connectedClients :: int
  li_clientIps :: "string \<Rightarrow> int option"
  li_activeConnectionsGauge :: int
  li_activeConnectionsGaugeByIP :: "string \<Rightarrow> int option"
  li_connectionLimitCounter :: int
  li_ipConnectionLimitCounter :: "string \<Rightarrow> int"
  li_inactivityTTLCounter :: int

record 'c ws_server =
  sv_limiter :: ws_limiter
  sv_sockets :: "string \<Rightarrow> ws_socket option"
  sv_timers :: "nat \<Rightarrow> (string \<times> int) option"
  sv_nextTimer :: nat
  sv_sent :: "(string \<times> web_socket_error) list"
  sv_service :: "'c subscription_state"
  sv_validating :: "(string \<times> string \<times> jsv) list"

definition update_socket :: "string \<Rightarrow> (ws_socket \<Rightarrow> ws_socket) \<Rightarrow> 'c ws_server \<Rightarrow> 'c ws_server" where
  "update_socket i f s = s\<lparr> sv_sockets := (sv_sockets s)(i := map_option f (sv_sockets s i)) \<rparr>"

definition socket_ip :: "string \<Rightarrow> 'c ws_server \<Rightarrow> string" where
  "socket_ip i s = (case sv_sockets s i of None \<Rightarrow> '''' | Some so \<Rightarrow> so_ip so)"

definition incrementCounters :: "int \<Rightarrow> string \<Rightarrow> 'c ws_server \<Rightarrow> 'c ws_server" where
  "incrementCounters connections i s =
     (let ip = socket_ip i s; li = sv_limiter s;
          n = (case li_clientIps li ip of None \<Rightarrow> 1 | Some n \<Rightarrow> if n = 0 then 1 else n + 1)
      in update_socket i (\<lambda>so. so\<lparr> so_ipCounted := True, so_subscriptions := 0 \<rparr>)
           (s\<lparr> sv_limiter := li\<lparr> li_connectedClients := connections,
                li_clientIps := (li_clientIps li)(ip \<mapsto> n), li_activeConnectionsGauge := connections,
                li_activeConnectionsGaugeByIP := (li_activeConnectionsGaugeByIP li)(ip \<mapsto> n) \<rparr> \<rparr>))"

text \<open>An address without a count has none to decrement; the invariant below excludes the case.\<close>

definition decrementCounters :: "string \<Rightarrow> 'c ws_server \<Rightarrow> 'c ws_server" where
  "decrementCounters i s =
     (let ip = socket_ip i s; li = sv_limiter s;
          li1 = (if (case sv_sockets s i of None \<Rightarrow> False | Some so \<Rightarrow> so_ipCounted so)
                 then (case li_clientIps li ip of
                         None \<Rightarrow> li
                       | Some n \<Rightarrow>
                           li\<lparr> li_clientIps := (li_clientIps li)(ip := (if n - 1 = 0 then None else Some (n - 1))),
                               li_activeConnectionsGaugeByIP := (li_activeConnectionsGaugeByIP li)(ip \<mapsto> n - 1) \<rparr>)
                 else li);
          connected = li_connectedClients li1 - 1
      in s\<lparr> sv_limiter := li1\<lparr> li_connectedClients := connected, li_activeConnectionsGauge := connected \<rparr> \<rparr>)"

definition send_and_close :: "web_socket_error \<Rightarrow> string \<Rightarrow> 'c ws_server \<Rightarrow> 'c ws_server" where
  "send_and_close e i s =
     update_socket i (\<lambda>so. so\<lparr> so_closeCode := Some (wse_code e) \<rparr>) (s\<lparr> sv_sent := sv_sent s @ [(i, e)] \<rparr>)"

definition startInactivityTTLTimer :: "ws_config \<Rightarrow> int \<Rightarrow> string \<Rightarrow> 'c ws_server \<Rightarrow> 'c ws_server" where
  "startInactivityTTLTimer cfg now i s =
     update_socket i (\<lambda>so. so\<lparr> so_inactivityTTL := Some (sv_nextTimer s) \<rparr>)
       (s\<lparr> sv_timers := (sv_timers s)(sv_nextTimer s \<mapsto> (i, now + WS_MAX_INACTIVITY_TTL cfg)),
          sv_nextTimer := Suc (sv_nextTimer s) \<rparr>)"

definition resetInactivityTTLTimer :: "ws_config \<Rightarrow> int \<Rightarrow> string \<Rightarrow> 'c ws_server \<Rightarrow> 'c ws_server" where
  "resetInactivityTTLTimer cfg now i s =
     (let s1 = (case Option.bind (sv_sockets s i) so_inactivityTTL of
                  None \<Rightarrow> s
                | Some h \<Rightarrow> s\<lparr> sv_timers := (sv_timers s)(h := None) \<rparr>)
      in startInactivityTTLTimer cfg now i s1)"

definition inactivity_timeout :: "nat \<Rightarrow> 'c ws_server \<Rightarrow> 'c ws_server" where
  "inactivity_timeout h s =
     (case sv_timers s h of
        None \<Rightarrow> s
      | Some (i, due) \<Rightarrow>
          (let s1 = s\<lparr> sv_timers := (sv_timers s)(h := None) \<rparr>
           in if (case sv_sockets s i of None \<Rightarrow> True | Some so \<Rightarrow> so_closed so) then s1
              else send_and_close TTL_EXPIRED i
                (s1\<lparr> sv_limiter := (sv_limiter s1)\<lparr> li_inactivityTTLCounter :=
                   li_inactivityTTLCounter (sv_limiter s1) + 1 \<rparr> \<rparr>)))"

definition applyLimits :: "ws_config \<Rightarrow> int \<Rightarrow> string \<Rightarrow> 'c ws_server \<Rightarrow> 'c ws_server" where
  "applyLimits cfg now i s =
     (let li = sv_limiter s; ip = socket_ip i s;
          n = (case li_clientIps li ip of None \<Rightarrow> 0 | Some n \<Rightarrow> n)
      in if WS_CONNECTION_LIMIT cfg < li_connectedClients li then
           send_and_close CONNECTION_LIMIT_EXCEEDED i
             (s\<lparr> sv_limiter := li\<lparr> li_connectionLimitCounter := li_connectionLimitCounter li + 1 \<rparr> \<rparr>)
         else if n \<noteq> 0 \<and> WS_CONNECTION_LIMIT_PER_IP cfg < n then
           send_and_close CONNECTION_IP_LIMIT_EXCEEDED i
             (s\<lparr> sv_limiter := li\<lparr> li_ipConnectionLimitCounter :=
                (li_ipConnectionLimitCounter li)(ip := li_ipConnectionLimitCounter li ip + 1) \<rparr> \<rparr>)
         else startInactivityTTLTimer cfg now i s)"

definition incrementSubs :: "string \<Rightarrow> 'c ws_server \<Rightarrow> 'c ws_server" where
  "incrementSubs i = update_socket i (\<lambda>so. so\<lparr> so_subscriptions := so_subscriptions so + 1 \<rparr>)"

definition decrementSubs :: "string \<Rightarrow> int \<Rightarrow> 'c ws_server \<Rightarrow> 'c ws_server" where
  "decrementSubs i amount = update_socket i (\<lambda>so. so\<lparr> so_subscriptions := so_subscriptions so - amount \<rparr>)"

definition validateSubscriptionLimit :: "ws_config \<Rightarrow> string \<Rightarrow> 'c ws_server \<Rightarrow> bool" where
  "validateSubscriptionLimit cfg i s =
     (case sv_sockets s i of None \<Rightarrow> False | Some so \<Rightarrow> so_subscriptions so < WS_SUBSCRIPTION_LIMIT cfg)"

subsection \<open>The life of a connection\<close>

definition new_socket :: "string \<Rightarrow> ws_socket" where
  "new_socket ip =
     \<lparr> so_ip = ip, so_ipCounted = False, so_subscriptions = 0, so_closed = False, so_closeCode = None,
       so_inactivityTTL = None \<rparr>"

definition on_connection ::
  "ws_config \<Rightarrow> int \<Rightarrow> int \<Rightarrow> string \<Rightarrow> string \<Rightarrow> 'c ws_server \<Rightarrow> 'c ws_server" where
  "on_connection cfg now connections i ip s =
     applyLimits cfg now i
       (incrementCounters connections i (s\<lparr> sv_sockets := (sv_sockets s)(i \<mapsto> new_socket ip) \<rparr>))"

definition handleConnectionClose :: "string \<Rightarrow> 'c ws_server \<Rightarrow> 'c ws_server" where
  "handleConnectionClose i s =
     decrementCounters i (s\<lparr> sv_service := snd (ss_unsubscribe i JUndef (sv_service s)) \<rparr>)"

definition on_close :: "string \<Rightarrow> 'c ws_server \<Rightarrow> 'c ws_server" where
  "on_close i s = handleConnectionClose i (update_socket i (\<lambda>so. so\<lparr> so_closed := True \<rparr>) s)"

text \<open>
  \<open>eth_subscribe\<close> in its two parts: the quota is looked at when the request arrives; the subscription
  is made when the mirror node has confirmed the addresses of the filter.
\<close>

definition subscribe_arrives ::
  "ws_config \<Rightarrow> string \<Rightarrow> string \<Rightarrow> jsv \<Rightarrow> 'c ws_server \<Rightarrow> 'c ws_server" where
  "subscribe_arrives cfg i event filters s =
     (if validateSubscriptionLimit cfg i s
      then s\<lparr> sv_validating := sv_validating s @ [(i, event, filters)] \<rparr> else s)"

definition subscribe_validated ::
  "'c subscription_env \<Rightarrow> string \<Rightarrow> string \<times> string \<times> jsv \<Rightarrow> 'c ws_server \<Rightarrow> 'c ws_server" where
  "subscribe_validated env generatedId r s =
     (case r of (i, event, filters) \<Rightarrow>
        incrementSubs i
          (s\<lparr> sv_validating := remove1 r (sv_validating s),
             sv_service := snd (ss_subscribe env generatedId i event filters (sv_service s)) \<rparr>))"

definition subscribe_refused :: "string \<times> string \<times> jsv \<Rightarrow> 'c ws_server \<Rightarrow> 'c ws_server" where
  "subscribe_refused r s = s\<lparr> sv_validating := remove1 r (sv_validating s) \<rparr>"

definition unsubscribe_arrives :: "string \<Rightarrow> jsv \<Rightarrow> 'c ws_server \<Rightarrow> 'c ws_server" where
  "unsubscribe_arrives i subId s =
     (case ss_unsubscribe i subId (sv_service s) of
        (n, service) \<Rightarrow> decrementSubs i (int n) (s\<lparr> sv_service := service \<rparr>))"

text \<open>
  The events of the server. A connection gets an id of its own; Node counts it among the open TCP
  connections, as it does every other websocket that is not closed. Handling a message may outlive
  the connection it came from, so the steps after the arrival need no open socket.
\<close>

definition open_sockets :: "'c ws_server \<Rightarrow> string set" where
  "open_sockets s = {i. \<exists>so. sv_sockets s i = Some so \<and> \<not> so_closed so}"

datatype ws_event =
    Connects string string
  | Uses string
  | TimesOut nat
  | SubscribeArrives string
  | SubscribeEnds string
  | UnsubscribeArrives string
  | Notifies
  | Closes string

inductive ws_step ::
  "ws_config \<Rightarrow> 'c subscription_env \<Rightarrow> 'c ws_server \<Rightarrow> ws_event \<Rightarrow> 'c ws_server \<Rightarrow> bool" for cfg env where
  connects: "sv_sockets s i = None \<Longrightarrow> int (card (open_sockets s)) < connections \<Longrightarrow>
    ws_step cfg env s (Connects i ip) (on_connection cfg now connections i ip s)"
| uses: "sv_sockets s i \<noteq> None \<Longrightarrow> ws_step cfg env s (Uses i) (resetInactivityTTLTimer cfg now i s)"
| times_out: "sv_timers s h = Some (i, due) \<Longrightarrow> ws_step cfg env s (TimesOut h) (inactivity_timeout h s)"
| subscribe_arrives: "sv_sockets s i \<noteq> None \<Longrightarrow>
    ws_step cfg env s (SubscribeArrives i) (subscribe_arrives cfg i event filters s)"
| subscribe_validated: "(i, event, filters) \<in> set (sv_validating s) \<Longrightarrow>
    ws_step cfg env s (SubscribeEnds i) (subscribe_validated env generatedId (i, event, filters) s)"
| subscribe_refused: "(i, event, filters) \<in> set (sv_validating s) \<Longrightarrow>
    ws_step cfg env s (SubscribeEnds i) (subscribe_refused (i, event, filters) s)"
| unsubscribe_arrives: "sv_sockets s i \<noteq> None \<Longrightarrow> \<not> so_closed (the (sv_sockets s i)) \<Longrightarrow>
    ws_step cfg env s (UnsubscribeArrives i) (unsubscribe_arrives i subId s)"
| notifies: "ws_step cfg env s Notifies
    (s\<lparr> sv_service := snd (notifySubscribers env now x data (sv_service s)) \<rparr>)"
| closes: "sv_sockets s i \<noteq> None \<Longrightarrow> \<not> so_closed (the (sv_sockets s i)) \<Longrightarrow>
    ws_step cfg env s (Closes i) (on_close i s)"

inductive_cases ws_closesE: "ws_step cfg env s (Closes i) s'"
inductive_simps ws_closes_iff: "ws_step cfg env s (Closes i) s'"

definition started_server :: "'c \<Rightarrow> 'c ws_server" where
  "started_server c =
     \<lparr> sv_limiter = \<lparr> li_connectedClients = 0, li_clientIps = Map.empty, li_activeConnectionsGauge = 0,
                      li_activeConnectionsGaugeByIP = Map.empty, li_connectionLimitCounter = 0,
                      li_ipConnectionLimitCounter = (\<lambda>ip. 0), li_inactivityTTLCounter = 0 \<rparr>,
       sv_sockets = Map.empty, sv_timers = Map.empty, sv_nextTimer = 0, sv_sent = [],
       sv_service = idle_service c, sv_validating = [] \<rparr>"

inductive ws_reachable :: "ws_config \<Rightarrow> 'c subscription_env \<Rightarrow> 'c \<Rightarrow> 'c ws_server \<Rightarrow> bool" for cfg env c where
  started: "ws_reachable cfg env c (started_server c)"
| proceeds: "ws_reachable cfg env c s \<Longrightarrow> ws_step cfg env s ev s' \<Longrightarrow> ws_reachable cfg env c s'"

subsection \<open>What the operations keep\<close>

lemma update_socket_simps [simp]:
  "sv_limiter (update_socket i f s) = sv_limiter s" "sv_timers (update_socket i f s) = sv_timers s"
  "sv_nextTimer (update_socket i f s) = sv_nextTimer s" "sv_service (update_socket i f s) = sv_service s"
  "sv_validating (update_socket i f s) = sv_validating s"
  "sv_sockets (update_socket i f s) = (sv_sockets s)(i := map_option f (sv_sockets s i))"
  by (simp_all add: update_socket_def)

text \<open>
  The parts of a socket that the counts depend on: its address, whether it was counted, whether it is
  closed.
\<close>

definition socket_view :: "'c ws_server \<Rightarrow> string \<Rightarrow> (string \<times> bool \<times> bool) option" where
  "socket_view s i = map_option (\<lambda>so. (so_ip so, so_ipCounted so, so_closed so)) (sv_sockets s i)"

definition same_counts :: "'c ws_server \<Rightarrow> 'c ws_server \<Rightarrow> bool" where
  "same_counts s s' \<longleftrightarrow> socket_view s' = socket_view s \<and>
     li_clientIps (sv_limiter s') = li_clientIps (sv_limiter s) \<and>
     li_connectedClients (sv_limiter s') = li_connectedClients (sv_limiter s)"

lemma same_counts_trans: "same_counts s t \<Longrightarrow> same_counts t u \<Longrightarrow> same_counts s u"
  by (simp add: same_counts_def)

lemma same_counts_update:
  "(\<And>so. so_ip (f so) = so_ip so \<and> so_ipCounted (f so) = so_ipCounted so \<and> so_closed (f so) = so_closed so) \<Longrightarrow>
   sv_sockets s' = sv_sockets s \<Longrightarrow>
   li_clientIps (sv_limiter s') = li_clientIps (sv_limiter s) \<Longrightarrow>
   li_connectedClients (sv_limiter s') = li_connectedClients (sv_limiter s) \<Longrightarrow>
   same_counts s (update_socket i f s')"
  by (auto simp: same_counts_def socket_view_def fun_eq_iff option.map_comp comp_def)

lemma same_counts_ops:
  "same_counts s (send_and_close e i s)"
  "same_counts s (startInactivityTTLTimer cfg now i s)"
  "same_counts s (resetInactivityTTLTimer cfg now i s)"
  "same_counts s (inactivity_timeout h s)"
  "same_counts s (applyLimits cfg now i s)"
  "same_counts s (subscribe_arrives cfg i event filters s)"
  "same_counts s (subscribe_validated env gid r s)"
  "same_counts s (subscribe_refused r s)"
  "same_counts s (unsubscribe_arrives i subId s)"
  "same_counts s (s\<lparr> sv_service := service \<rparr>)"
proof -
  show close: "same_counts s (send_and_close e i s)" for e i and s :: "'a ws_server"
    unfolding send_and_close_def by (rule same_counts_update) simp_all
  show start: "same_counts s (startInactivityTTLTimer cfg now i s)" for cfg now i and s :: "'a ws_server"
    unfolding startInactivityTTLTimer_def by (rule same_counts_update) simp_all
  have upd: "same_counts s (s\<lparr> sv_timers := t \<rparr>)" "same_counts s (s\<lparr> sv_service := sr \<rparr>)"
    "same_counts s (s\<lparr> sv_validating := v \<rparr>)" for s :: "'a ws_server" and t sr v
    by (simp_all add: same_counts_def socket_view_def fun_eq_iff)
  show "same_counts s (resetInactivityTTLTimer cfg now i s)"
    using same_counts_trans [OF upd(1) start] start by (simp add: resetInactivityTTLTimer_def Let_def split: option.split)
  have count: "same_counts s (s\<lparr> sv_timers := t, sv_limiter := (sv_limiter s)\<lparr> li_inactivityTTLCounter := n \<rparr> \<rparr>)"
    "same_counts s (s\<lparr> sv_limiter := (sv_limiter s)\<lparr> li_connectionLimitCounter := n \<rparr> \<rparr>)"
    "same_counts s (s\<lparr> sv_limiter := (sv_limiter s)\<lparr> li_ipConnectionLimitCounter := m \<rparr> \<rparr>)" for t n m
    by (simp_all add: same_counts_def socket_view_def fun_eq_iff)
  show "same_counts s (inactivity_timeout h s)"
    using same_counts_trans [OF count(1) close] upd(1)
    by (auto simp: inactivity_timeout_def Let_def same_counts_def split: option.split)
  show "same_counts s (applyLimits cfg now i s)"
    using same_counts_trans [OF count(2) close] same_counts_trans [OF count(3) close] start
    by (simp add: applyLimits_def Let_def)
  show "same_counts s (subscribe_arrives cfg i event filters s)"
    using upd(3) by (simp add: subscribe_arrives_def same_counts_def)
  show "same_counts s (subscribe_validated env gid r s)"
    unfolding subscribe_validated_def incrementSubs_def
    by (cases r) (auto intro!: same_counts_update)
  show "same_counts s (subscribe_refused r s)" using upd(3) by (simp add: subscribe_refused_def)
  show "same_counts s (unsubscribe_arrives i subId s)"
    unfolding unsubscribe_arrives_def decrementSubs_def
    by (auto intro!: same_counts_update split: prod.split)
  show "same_counts s (s\<lparr> sv_service := service \<rparr>)" by (rule upd(2))
qed

subsection \<open>The count of an address is the number of its open connections\<close>

definition open_from :: "string \<Rightarrow> 'c ws_server \<Rightarrow> string set" where
  "open_from ip s = {i. \<exists>counted. socket_view s i = Some (ip, counted, False)}"

definition counts_ok :: "'c ws_server \<Rightarrow> bool" where
  "counts_ok s \<longleftrightarrow>
     finite (dom (socket_view s)) \<and>
     (\<forall>i ip counted. socket_view s i = Some (ip, counted, False) \<longrightarrow> counted) \<and>
     (\<forall>ip. li_clientIps (sv_limiter s) ip =
        (if open_from ip s = {} then None else Some (int (card (open_from ip s)))))"

lemma counts_ok_same: "same_counts s s' \<Longrightarrow> counts_ok s \<Longrightarrow> counts_ok s'"
  unfolding same_counts_def counts_ok_def open_from_def by auto

lemma finite_open_from: "counts_ok s \<Longrightarrow> finite (open_from ip s)"
  by (rule finite_subset [of _ "dom (socket_view s)"]) (auto simp: open_from_def counts_ok_def)

lemma counts_ok_increment:
  assumes ok: "counts_ok s" and new: "sv_sockets s i = None"
  shows "counts_ok (incrementCounters n i (s\<lparr> sv_sockets := (sv_sockets s)(i \<mapsto> new_socket ip) \<rparr>))"
    (is "counts_ok ?s")
proof -
  have view: "socket_view ?s = (socket_view s)(i \<mapsto> (ip, True, False))"
    by (auto simp: incrementCounters_def Let_def socket_view_def new_socket_def socket_ip_def fun_eq_iff)
  have from_ip: "open_from a ?s = (if a = ip then insert i (open_from a s) else open_from a s)" for a
    using new by (auto simp: open_from_def view socket_view_def)
  have "i \<notin> open_from ip s" using new by (simp add: open_from_def socket_view_def)
  then have card: "card (insert i (open_from ip s)) = Suc (card (open_from ip s))"
    using finite_open_from [OF ok] by simp
  have ips: "li_clientIps (sv_limiter ?s) = (li_clientIps (sv_limiter s))
      (ip \<mapsto> (case li_clientIps (sv_limiter s) ip of None \<Rightarrow> 1 | Some n \<Rightarrow> if n = 0 then 1 else n + 1))"
    by (simp add: incrementCounters_def Let_def socket_ip_def new_socket_def)
  have "li_clientIps (sv_limiter ?s) a =
      (if open_from a ?s = {} then None else Some (int (card (open_from a ?s))))" for a
  proof (cases "a = ip")
    case True
    then show ?thesis using ok finite_open_from [OF ok, of ip] by (simp add: ips from_ip card counts_ok_def)
  next
    case False
    then show ?thesis using ok by (simp add: ips from_ip counts_ok_def)
  qed
  then show ?thesis using ok by (auto simp: counts_ok_def view)
qed

lemma counts_ok_close:
  assumes ok: "counts_ok s" and so: "sv_sockets s i = Some so" "\<not> so_closed so"
  shows "counts_ok (on_close i s)"
proof -
  let ?s = "on_close i s" let ?ip = "so_ip so"
  have counted: "so_ipCounted so" using ok so by (auto simp: counts_ok_def socket_view_def)
  have mem: "i \<in> open_from ?ip s" using so by (simp add: open_from_def socket_view_def)
  then have ips0: "li_clientIps (sv_limiter s) ?ip = Some (int (card (open_from ?ip s)))"
    using ok by (auto simp: counts_ok_def)
  have ips: "li_clientIps (sv_limiter ?s) = (li_clientIps (sv_limiter s))
      (?ip := (if int (card (open_from ?ip s)) - 1 = 0 then None else Some (int (card (open_from ?ip s)) - 1)))"
    using so counted ips0
    by (simp add: on_close_def handleConnectionClose_def decrementCounters_def Let_def socket_ip_def)
  have sockets: "sv_sockets ?s = (sv_sockets s)(i \<mapsto> so\<lparr> so_closed := True \<rparr>)"
    using so by (simp add: on_close_def handleConnectionClose_def decrementCounters_def Let_def fun_eq_iff)
  then have view: "socket_view ?s = (socket_view s)(i \<mapsto> (?ip, True, True))"
    using counted by (simp add: socket_view_def fun_eq_iff)
  have from_ip: "open_from a ?s = (if a = ?ip then open_from a s - {i} else open_from a s)" for a
    using so by (auto simp: open_from_def view) (simp add: socket_view_def)
  have card: "card (open_from ?ip s - {i}) = card (open_from ?ip s) - 1" "0 < card (open_from ?ip s)"
    using mem finite_open_from [OF ok, of ?ip] by (simp_all add: card_gt_0_iff) blast
  have "li_clientIps (sv_limiter ?s) a =
      (if open_from a ?s = {} then None else Some (int (card (open_from a ?s))))" for a
  proof (cases "a = ?ip")
    case True
    have "open_from ?ip s - {i} = {} \<longleftrightarrow> card (open_from ?ip s) - 1 = 0"
      using card(1) finite_open_from [OF ok, of ?ip] by (metis card_0_eq finite_Diff)
    with True card show ?thesis unfolding ips from_ip by (auto simp: of_nat_diff)
  next
    case False
    then show ?thesis using ok by (simp add: ips from_ip counts_ok_def)
  qed
  then show ?thesis using ok by (auto simp: counts_ok_def view split: if_splits)
qed

lemma ws_step_counts:
  assumes "ws_step cfg env s ev s'" and ok: "counts_ok s"
  shows "counts_ok s'"
  using assms(1)
proof (cases rule: ws_step.cases)
  case (connects i connections ip now)
  then show ?thesis
    using counts_ok_same [OF same_counts_ops(5) counts_ok_increment [OF ok, of i]] by (simp add: on_connection_def)
next
  case (closes i)
  then show ?thesis using counts_ok_close [OF ok] by auto
qed (auto intro: counts_ok_same [OF _ ok] same_counts_ops)

lemma ws_reachable_counts: "ws_reachable cfg env c s \<Longrightarrow> counts_ok s"
proof (induction rule: ws_reachable.induct)
  case started
  show ?case by (auto simp: counts_ok_def started_server_def socket_view_def open_from_def dom_def)
qed (rule ws_step_counts)

subsection \<open>Admitted connections are within the limits\<close>

text \<open>A connection is admitted until the server asks to close it or it is closed.\<close>

definition admitted_view :: "'c ws_server \<Rightarrow> string \<Rightarrow> (string \<times> bool) option" where
  "admitted_view s i =
     map_option (\<lambda>so. (so_ip so, \<not> so_closed so \<and> so_closeCode so = None)) (sv_sockets s i)"

definition admitted :: "'c ws_server \<Rightarrow> string set" where
  "admitted s = {i. \<exists>ip. admitted_view s i = Some (ip, True)}"

definition admitted_from :: "string \<Rightarrow> 'c ws_server \<Rightarrow> string set" where
  "admitted_from ip s = {i. admitted_view s i = Some (ip, True)}"

definition fewer :: "'c ws_server \<Rightarrow> 'c ws_server \<Rightarrow> bool" where
  "fewer s s' \<longleftrightarrow> (\<forall>ip. admitted_from ip s' \<subseteq> admitted_from ip s)"

lemma admitted_from_all: "admitted s = (\<Union>ip. admitted_from ip s)"
  by (auto simp: admitted_def admitted_from_def)

lemma fewer_admitted: "fewer s s' \<Longrightarrow> admitted s' \<subseteq> admitted s"
  unfolding admitted_from_all fewer_def by blast

lemma fewer_trans: "fewer s t \<Longrightarrow> fewer t u \<Longrightarrow> fewer s u"
  unfolding fewer_def by blast

lemma fewer_sockets: "sv_sockets s' = sv_sockets s \<Longrightarrow> fewer s s'"
  by (simp add: fewer_def admitted_from_def admitted_view_def)

lemma fewer_update:
  assumes "\<And>so. so_ip (f so) = so_ip so"
    and "\<And>so. \<not> so_closed (f so) \<and> so_closeCode (f so) = None \<Longrightarrow> \<not> so_closed so \<and> so_closeCode so = None"
    and "sv_sockets s' = sv_sockets s"
  shows "fewer s (update_socket i f s')"
proof -
  have "admitted_view (update_socket i f s') j = Some (ip, True) \<Longrightarrow> admitted_view s j = Some (ip, True)" for j ip
    using assms(1) [of "the (sv_sockets s i)"] assms(2) [of "the (sv_sockets s i)"]
    by (cases "sv_sockets s i") (auto simp: admitted_view_def assms(3) split: if_splits)
  then show ?thesis by (auto simp: fewer_def admitted_from_def)
qed

lemma fewer_ops:
  "fewer s (send_and_close e i s)"
  "fewer s (startInactivityTTLTimer cfg now i s)"
  "fewer s (resetInactivityTTLTimer cfg now i s)"
  "fewer s (inactivity_timeout h s)"
  "fewer s (applyLimits cfg now i s)"
  "fewer s (subscribe_arrives cfg i event filters s)"
  "fewer s (subscribe_validated env gid r s)"
  "fewer s (subscribe_refused r s)"
  "fewer s (unsubscribe_arrives i subId s)"
  "fewer s (s\<lparr> sv_service := service \<rparr>)"
  "fewer s (on_close i s)"
proof -
  show close: "fewer s (send_and_close e i s)" for e i and s :: "'a ws_server"
    unfolding send_and_close_def by (rule fewer_update) simp_all
  show start: "fewer s (startInactivityTTLTimer cfg now i s)" for cfg now i and s :: "'a ws_server"
    unfolding startInactivityTTLTimer_def by (rule fewer_update) simp_all
  show "fewer s (resetInactivityTTLTimer cfg now i s)"
    using fewer_trans [OF fewer_sockets start] start by (simp add: resetInactivityTTLTimer_def Let_def split: option.split)
  show "fewer s (inactivity_timeout h s)"
    by (auto simp: inactivity_timeout_def Let_def split: option.split
        intro: fewer_sockets fewer_trans [OF fewer_sockets close])
  show "fewer s (applyLimits cfg now i s)"
    using fewer_trans [OF fewer_sockets close] start by (simp add: applyLimits_def Let_def)
  show "fewer s (subscribe_validated env gid r s)"
    unfolding subscribe_validated_def incrementSubs_def by (cases r) (auto intro!: fewer_update)
  show "fewer s (unsubscribe_arrives i subId s)"
    unfolding unsubscribe_arrives_def decrementSubs_def by (auto intro!: fewer_update split: prod.split)
  show "fewer s (on_close i s)"
  proof (rule fewer_trans)
    show "fewer s (update_socket i (\<lambda>so. so\<lparr> so_closed := True \<rparr>) s)" by (rule fewer_update) simp_all
    show "fewer (update_socket i (\<lambda>so. so\<lparr> so_closed := True \<rparr>) s) (on_close i s)"
      by (rule fewer_sockets) (simp add: on_close_def handleConnectionClose_def decrementCounters_def Let_def)
  qed
qed (simp_all add: fewer_sockets subscribe_arrives_def subscribe_refused_def)

definition within_limits :: "ws_config \<Rightarrow> 'c ws_server \<Rightarrow> bool" where
  "within_limits cfg s \<longleftrightarrow>
     card (admitted s) \<le> nat (WS_CONNECTION_LIMIT cfg) \<and>
     (\<forall>ip. card (admitted_from ip s) \<le> nat (WS_CONNECTION_LIMIT_PER_IP cfg))"

lemma admitted_open: "admitted_from ip s \<subseteq> open_from ip s" "admitted s \<subseteq> open_sockets s"
  by (auto simp: admitted_from_def admitted_def open_from_def open_sockets_def admitted_view_def socket_view_def)

lemma finite_open: "counts_ok s \<Longrightarrow> finite (open_sockets s)"
  by (rule finite_subset [of _ "dom (socket_view s)"])
    (auto simp: open_sockets_def counts_ok_def socket_view_def dom_def)

lemma within_fewer:
  assumes "fewer s s'" and "counts_ok s" and "within_limits cfg s"
  shows "within_limits cfg s'"
proof -
  have fin: "finite (admitted s)" "finite (admitted_from ip s)" for ip
    using admitted_open finite_open [OF assms(2)] finite_open_from [OF assms(2)] by (meson finite_subset)+
  have "card (admitted s') \<le> card (admitted s)" by (rule card_mono [OF fin(1) fewer_admitted [OF assms(1)]])
  moreover have "card (admitted_from ip s') \<le> card (admitted_from ip s)" for ip
    by (rule card_mono [OF fin(2)]) (use assms(1) in \<open>simp add: fewer_def\<close>)
  ultimately show ?thesis using assms(3) unfolding within_limits_def by (meson le_trans)
qed

lemma within_connect:
  assumes ok: "counts_ok s" and within: "within_limits cfg s" and new: "sv_sockets s i = None"
    and conns: "int (card (open_sockets s)) < connections"
  shows "within_limits cfg (on_connection cfg now connections i ip s)"
proof -
  define t where "t = incrementCounters connections i (s\<lparr> sv_sockets := (sv_sockets s)(i \<mapsto> new_socket ip) \<rparr>)"
  have t: "on_connection cfg now connections i ip s = applyLimits cfg now i t" by (simp add: on_connection_def t_def)
  have okt: "counts_ok t" unfolding t_def by (rule counts_ok_increment [OF ok new])
  have sockets: "sv_sockets t = (sv_sockets s)(i \<mapsto> (new_socket ip)\<lparr> so_ipCounted := True, so_subscriptions := 0 \<rparr>)"
    by (simp add: t_def incrementCounters_def Let_def)
  have ip: "socket_ip i t = ip" by (simp add: socket_ip_def sockets new_socket_def)
  have connected: "li_connectedClients (sv_limiter t) = connections"
    by (simp add: t_def incrementCounters_def Let_def)
  have others: "admitted_view t j = admitted_view s j" if "j \<noteq> i" for j
    using that by (simp add: admitted_view_def sockets)
  have rejected: "fewer s (send_and_close e i (t\<lparr> sv_limiter := l \<rparr>))" for e l
  proof -
    have "admitted_view (send_and_close e i (t\<lparr> sv_limiter := l \<rparr>)) =
        (admitted_view s)(i \<mapsto> (ip, False))"
      using others by (auto simp: admitted_view_def send_and_close_def sockets new_socket_def fun_eq_iff)
    then show ?thesis by (auto simp: fewer_def admitted_from_def)
  qed
  show ?thesis
  proof (cases "WS_CONNECTION_LIMIT cfg < connections \<or>
      WS_CONNECTION_LIMIT_PER_IP cfg < (case li_clientIps (sv_limiter t) ip of None \<Rightarrow> 0 | Some n \<Rightarrow> n)
      \<and> (case li_clientIps (sv_limiter t) ip of None \<Rightarrow> 0 | Some n \<Rightarrow> n) \<noteq> 0")
    case True
    then have "fewer s (applyLimits cfg now i t)"
      using rejected by (auto simp: applyLimits_def Let_def connected ip)
    then show ?thesis unfolding t by (rule within_fewer [OF _ ok within])
  next
    case False
    then have start: "applyLimits cfg now i t = startInactivityTTLTimer cfg now i t"
      by (auto simp: applyLimits_def Let_def connected ip)
    have view: "admitted_view (startInactivityTTLTimer cfg now i t) = (admitted_view s)(i \<mapsto> (ip, True))"
      using others by (auto simp: admitted_view_def startInactivityTTLTimer_def sockets new_socket_def fun_eq_iff)
    have "admitted (startInactivityTTLTimer cfg now i t) \<subseteq> insert i (open_sockets s)"
      using admitted_open(2) [of s] by (auto simp: admitted_def view)
    then have "card (admitted (startInactivityTTLTimer cfg now i t)) \<le> card (insert i (open_sockets s))"
      using finite_open [OF ok] by (intro card_mono) simp_all
    also have "\<dots> \<le> Suc (card (open_sockets s))" using finite_open [OF ok] by (simp add: card_insert_if)
    finally have "card (admitted (startInactivityTTLTimer cfg now i t)) \<le> Suc (card (open_sockets s))" .
    then have total: "card (admitted (startInactivityTTLTimer cfg now i t)) \<le> nat (WS_CONNECTION_LIMIT cfg)"
      using conns False by linarith
    have "card (admitted_from a (startInactivityTTLTimer cfg now i t)) \<le> nat (WS_CONNECTION_LIMIT_PER_IP cfg)" for a
    proof (cases "a = ip")
      case True
      have "open_from ip t \<noteq> {}" by (auto simp: open_from_def socket_view_def sockets new_socket_def)
      then have count: "li_clientIps (sv_limiter t) ip = Some (int (card (open_from ip t)))" "0 < card (open_from ip t)"
        using okt finite_open_from [OF okt, of ip] by (auto simp: counts_ok_def card_gt_0_iff)
      have "admitted_from ip (startInactivityTTLTimer cfg now i t) \<subseteq> open_from ip t"
        using admitted_open(1) [of ip s] by (auto simp: admitted_from_def view open_from_def socket_view_def sockets new_socket_def split: if_splits)
      then have "card (admitted_from ip (startInactivityTTLTimer cfg now i t)) \<le> card (open_from ip t)"
        by (rule card_mono [OF finite_open_from [OF okt]])
      with True False count show ?thesis by auto
    next
      case False
      then have "admitted_from a (startInactivityTTLTimer cfg now i t) = admitted_from a s"
        using new by (auto simp: admitted_from_def view admitted_view_def)
      with within show ?thesis by (simp add: within_limits_def)
    qed
    with total show ?thesis unfolding t start within_limits_def by simp
  qed
qed

lemma ws_step_limits:
  assumes "ws_step cfg env s ev s'" and "counts_ok s" and "within_limits cfg s"
  shows "within_limits cfg s'"
  using assms(1)
proof (cases rule: ws_step.cases)
  case (connects i connections ip now)
  then show ?thesis using within_connect [OF assms(2,3)] by blast
qed (auto intro: within_fewer [OF _ assms(2,3)] fewer_ops)

text \<open>
  C39. Whatever clients do: the count kept for an address is the number of its connections that are not
  closed, and there is none for an address without connections; and the connections that the server
  has not asked to close are never more than the two limits allow, in all and for each address.
\<close>

theorem connections_counted_and_limited:
  assumes "ws_reachable cfg env c s"
  shows "li_clientIps (sv_limiter s) ip =
      (let n = card {i. \<exists>so. sv_sockets s i = Some so \<and> so_ip so = ip \<and> \<not> so_closed so}
       in if n = 0 then None else Some (int n)) \<and>
    card {i. \<exists>so. sv_sockets s i = Some so \<and> \<not> so_closed so \<and> so_closeCode so = None}
      \<le> nat (WS_CONNECTION_LIMIT cfg) \<and>
    card {i. \<exists>so. sv_sockets s i = Some so \<and> so_ip so = ip \<and> \<not> so_closed so \<and> so_closeCode so = None}
      \<le> nat (WS_CONNECTION_LIMIT_PER_IP cfg)"
proof -
  have counts: "counts_ok s" by (rule ws_reachable_counts [OF assms])
  have limits: "within_limits cfg s"
    using assms
  proof (induction rule: ws_reachable.induct)
    case started
    show ?case by (simp add: within_limits_def admitted_def admitted_from_def admitted_view_def started_server_def)
  next
    case (proceeds s ev s')
    show ?case by (rule ws_step_limits [OF proceeds.hyps(2) ws_reachable_counts [OF proceeds.hyps(1)] proceeds.IH])
  qed
  have from_ip: "{i. \<exists>so. sv_sockets s i = Some so \<and> so_ip so = ip \<and> \<not> so_closed so} = open_from ip s"
    by (auto simp: open_from_def socket_view_def)
  have adm: "{i. \<exists>so. sv_sockets s i = Some so \<and> \<not> so_closed so \<and> so_closeCode so = None} = admitted s"
    by (auto simp: admitted_def admitted_view_def)
  have adm_ip: "{i. \<exists>so. sv_sockets s i = Some so \<and> so_ip so = ip \<and> \<not> so_closed so \<and> so_closeCode so = None} =
      admitted_from ip s"
    by (auto simp: admitted_from_def admitted_view_def)
  have "open_from ip s = {} \<longleftrightarrow> card (open_from ip s) = 0"
    using finite_open_from [OF counts, of ip] by simp
  then show ?thesis unfolding from_ip adm adm_ip Let_def using counts limits
    unfolding counts_ok_def within_limits_def by simp
qed

subsection \<open>Every admitted connection has one inactivity timer\<close>

definition timer_of :: "'c ws_server \<Rightarrow> string \<Rightarrow> nat option" where
  "timer_of s i = Option.bind (sv_sockets s i) so_inactivityTTL"

text \<open>No two sockets share a handle, and a pending time-out is the current one of its socket.\<close>

definition handles_ok :: "'c ws_server \<Rightarrow> bool" where
  "handles_ok s \<longleftrightarrow>
     (\<forall>i h. timer_of s i = Some h \<longrightarrow> h < sv_nextTimer s) \<and>
     (\<forall>i j h. timer_of s i = Some h \<longrightarrow> timer_of s j = Some h \<longrightarrow> i = j) \<and>
     (\<forall>h i due. sv_timers s h = Some (i, due) \<longrightarrow> timer_of s i = Some h)"

definition timers_ok :: "'c ws_server \<Rightarrow> bool" where
  "timers_ok s \<longleftrightarrow> handles_ok s \<and>
     (\<forall>i \<in> admitted s. \<exists>h due. timer_of s i = Some h \<and> sv_timers s h = Some (i, due))"

lemma handles_okD:
  assumes "handles_ok s"
  shows "timer_of s i = Some h \<Longrightarrow> h < sv_nextTimer s"
    and "timer_of s i = Some h \<Longrightarrow> timer_of s j = Some h \<Longrightarrow> i = j"
    and "sv_timers s h = Some (i, due) \<Longrightarrow> timer_of s i = Some h"
  using assms unfolding handles_ok_def by blast+

definition same_timers :: "'c ws_server \<Rightarrow> 'c ws_server \<Rightarrow> bool" where
  "same_timers s s' \<longleftrightarrow> sv_timers s' = sv_timers s \<and> sv_nextTimer s' = sv_nextTimer s \<and> timer_of s' = timer_of s"

lemma timers_ok_same: "same_timers s s' \<Longrightarrow> fewer s s' \<Longrightarrow> timers_ok s \<Longrightarrow> timers_ok s'"
  using fewer_admitted [of s s'] by (auto simp: same_timers_def timers_ok_def handles_ok_def)

lemma same_timers_update:
  "(\<And>so. so_inactivityTTL (f so) = so_inactivityTTL so) \<Longrightarrow> sv_sockets s' = sv_sockets s \<Longrightarrow>
   sv_timers s' = sv_timers s \<Longrightarrow> sv_nextTimer s' = sv_nextTimer s \<Longrightarrow> same_timers s (update_socket i f s')"
  by (auto simp: same_timers_def timer_of_def fun_eq_iff split: bind_splits)

lemma same_timers_ops:
  "same_timers s (subscribe_arrives cfg i event filters s)"
  "same_timers s (subscribe_validated env gid r s)"
  "same_timers s (subscribe_refused r s)"
  "same_timers s (unsubscribe_arrives i subId s)"
  "same_timers s (s\<lparr> sv_service := service \<rparr>)"
  "same_timers s (on_close i s)"
proof -
  show "same_timers s (subscribe_validated env gid r s)"
    unfolding subscribe_validated_def incrementSubs_def by (cases r) (auto intro!: same_timers_update)
  show "same_timers s (unsubscribe_arrives i subId s)"
    unfolding unsubscribe_arrives_def decrementSubs_def by (auto intro!: same_timers_update split: prod.split)
  show "same_timers s (on_close i s)"
    by (auto simp: on_close_def handleConnectionClose_def decrementCounters_def Let_def same_timers_def timer_of_def
        fun_eq_iff split: bind_splits)
qed (simp_all add: same_timers_def timer_of_def fun_eq_iff subscribe_arrives_def subscribe_refused_def)

text \<open>A timer may be started where none is pending for the socket.\<close>

lemma timers_ok_start:
  assumes handles: "handles_ok s"
    and idle: "\<And>h due. sv_timers s h \<noteq> Some (i, due)" and known: "sv_sockets s i \<noteq> None"
    and others: "\<And>j. j \<in> admitted s \<Longrightarrow> j \<noteq> i \<Longrightarrow> \<exists>h due. timer_of s j = Some h \<and> sv_timers s h = Some (j, due)"
  shows "timers_ok (startInactivityTTLTimer cfg now i s)"
proof -
  let ?s = "startInactivityTTLTimer cfg now i s"
  have timers: "sv_timers ?s = (sv_timers s)(sv_nextTimer s \<mapsto> (i, now + WS_MAX_INACTIVITY_TTL cfg))"
    "sv_nextTimer ?s = Suc (sv_nextTimer s)"
    by (simp_all add: startInactivityTTLTimer_def)
  have of: "timer_of ?s j = (if j = i then Some (sv_nextTimer s) else timer_of s j)" for j
    using known by (auto simp: startInactivityTTLTimer_def timer_of_def)
  have adm: "j \<in> admitted ?s \<Longrightarrow> j \<in> admitted s" for j
    using fewer_admitted [OF fewer_ops(2)] by blast
  have less: "timer_of s j = Some h \<Longrightarrow> h < sv_nextTimer s" for j h by (rule handles_okD(1) [OF handles])
  have pending: "timer_of ?s j = Some h" if "sv_timers ?s h = Some (j, due)" for h j due
  proof (cases "h = sv_nextTimer s")
    case False
    then have "sv_timers s h = Some (j, due)" using that by (simp add: timers)
    moreover from this idle have "j \<noteq> i" by blast
    ultimately show ?thesis by (simp add: of handles_okD(3) [OF handles])
  next
    case True
    then have "j = i" using that by (simp add: timers)
    then show ?thesis using True by (simp only: of simp_thms if_True)
  qed
  have unique: "j = k" if "timer_of ?s j = Some h" "timer_of ?s k = Some h" for j k h
  proof -
    have "timer_of s l \<noteq> Some (sv_nextTimer s)" for l using less [of l "sv_nextTimer s"] by auto
    with that handles_okD(2) [OF handles, of j h k] show ?thesis by (auto simp: of split: if_splits)
  qed
  have "h < sv_nextTimer ?s" if "timer_of ?s j = Some h" for j h
    using that less [of j h] by (auto simp: of timers split: if_splits)
  then have "handles_ok ?s" using pending unique unfolding handles_ok_def by blast
  moreover have "\<exists>h due. timer_of ?s j = Some h \<and> sv_timers ?s h = Some (j, due)" if j: "j \<in> admitted ?s" for j
  proof (cases "j = i")
    case False
    then obtain h due where h: "timer_of s j = Some h" "sv_timers s h = Some (j, due)"
      using others [OF adm [OF j]] by blast
    then have "h \<noteq> sv_nextTimer s" using less by fastforce
    with h False show ?thesis by (simp add: of timers)
  qed (simp add: of timers)
  ultimately show ?thesis unfolding timers_ok_def by blast
qed

lemma timers_ok_reset:
  assumes ok: "timers_ok s" and known: "sv_sockets s i \<noteq> None"
  shows "timers_ok (resetInactivityTTLTimer cfg now i s)"
proof -
  have handles: "handles_ok s" and covered: "\<And>j. j \<in> admitted s \<Longrightarrow> \<exists>h due. timer_of s j = Some h \<and> sv_timers s h = Some (j, due)"
    using ok by (simp_all add: timers_ok_def)
  show ?thesis
  proof (cases "timer_of s i")
    case None
    then have "resetInactivityTTLTimer cfg now i s = startInactivityTTLTimer cfg now i s"
      by (simp add: resetInactivityTTLTimer_def timer_of_def)
    moreover have "sv_timers s h \<noteq> Some (i, due)" for h due
      using handles_okD(3) [OF handles, of h i due] None by auto
    ultimately show ?thesis using timers_ok_start [OF handles _ known] covered by simp
  next
    case (Some h)
    let ?t = "s\<lparr> sv_timers := (sv_timers s)(h := None) \<rparr>"
    have reset: "resetInactivityTTLTimer cfg now i s = startInactivityTTLTimer cfg now i ?t"
      using Some by (simp add: resetInactivityTTLTimer_def timer_of_def)
    have of: "timer_of ?t j = timer_of s j" "sv_nextTimer ?t = sv_nextTimer s" "admitted ?t = admitted s" for j
      by (simp_all add: timer_of_def admitted_def admitted_view_def)
    have sub: "sv_timers ?t k = Some x \<Longrightarrow> k \<noteq> h \<and> sv_timers s k = Some x" for k x by (simp split: if_splits)
    show ?thesis unfolding reset
    proof (rule timers_ok_start)
      show "handles_ok ?t"
        unfolding handles_ok_def of
      proof (intro conjI allI impI)
        show "timer_of s j = Some k" if "sv_timers ?t k = Some (j, due)" for j k due
          using handles_okD(3) [OF handles] sub [OF that] by blast
      qed (use handles_okD(1,2) [OF handles] in blast)+
      show "sv_timers ?t k \<noteq> Some (i, due)" for k due
      proof
        assume eq: "sv_timers ?t k = Some (i, due)"
        then have "timer_of s i = Some k" using handles_okD(3) [OF handles] sub by blast
        with Some have "k = h" by simp
        with sub [OF eq] show False by simp
      qed
      show "sv_sockets ?t i \<noteq> None" using known by simp
      show "\<exists>k due. timer_of ?t j = Some k \<and> sv_timers ?t k = Some (j, due)"
        if "j \<in> admitted ?t" and "j \<noteq> i" for j
      proof -
        obtain k due where k: "timer_of s j = Some k" "sv_timers s k = Some (j, due)"
          using covered [of j] \<open>j \<in> admitted ?t\<close> of(3) by auto
        then have "k \<noteq> h" using handles_okD(2) [OF handles, of j k i] Some \<open>j \<noteq> i\<close> by auto
        with k show ?thesis by (simp add: of)
      qed
    qed
  qed
qed

lemma timers_ok_timeout:
  assumes ok: "timers_ok s" and pending: "sv_timers s h = Some (i, due)"
  shows "timers_ok (inactivity_timeout h s)"
proof -
  let ?s = "inactivity_timeout h s"
  have timers: "sv_timers ?s = (sv_timers s)(h := None)" "sv_nextTimer ?s = sv_nextTimer s" "timer_of ?s j = timer_of s j" for j
    using pending by (auto simp: inactivity_timeout_def Let_def send_and_close_def timer_of_def split: option.split)
  have handles: "handles_ok s" using ok by (simp add: timers_ok_def)
  have gone: "i \<notin> admitted ?s"
    using pending
    by (auto simp: inactivity_timeout_def Let_def send_and_close_def admitted_def admitted_view_def split: option.splits)
  have "handles_ok ?s" using handles by (auto simp: handles_ok_def timers)
  moreover have "\<exists>k d. timer_of ?s j = Some k \<and> sv_timers ?s k = Some (j, d)" if "j \<in> admitted ?s" for j
  proof -
    have "j \<in> admitted s" using that fewer_admitted [OF fewer_ops(4)] by blast
    then obtain k d where k: "timer_of s j = Some k" "sv_timers s k = Some (j, d)"
      using ok unfolding timers_ok_def by blast
    have "k \<noteq> h" using k(2) pending that gone by auto
    with k show ?thesis by (simp add: timers)
  qed
  ultimately show ?thesis by (simp add: timers_ok_def)
qed

lemma timers_ok_connect:
  assumes ok: "timers_ok s" and new: "sv_sockets s i = None"
  shows "timers_ok (on_connection cfg now connections i ip s)"
proof -
  define t where "t = incrementCounters connections i (s\<lparr> sv_sockets := (sv_sockets s)(i \<mapsto> new_socket ip) \<rparr>)"
  have t: "on_connection cfg now connections i ip s = applyLimits cfg now i t" by (simp add: on_connection_def t_def)
  have sockets: "sv_sockets t = (sv_sockets s)(i \<mapsto> (new_socket ip)\<lparr> so_ipCounted := True, so_subscriptions := 0 \<rparr>)"
    by (simp add: t_def incrementCounters_def Let_def)
  have timers: "sv_timers t = sv_timers s" "sv_nextTimer t = sv_nextTimer s"
    by (simp_all add: t_def incrementCounters_def Let_def)
  have of: "timer_of t j = timer_of s j" for j
    using new by (auto simp: timer_of_def sockets new_socket_def)
  have handles: "handles_ok s" "handles_ok t" using ok by (simp_all add: timers_ok_def handles_ok_def of timers)
  have covered: "\<exists>h due. timer_of t j = Some h \<and> sv_timers t h = Some (j, due)" if "j \<in> admitted t" "j \<noteq> i" for j
  proof -
    have "j \<in> admitted s" using that by (auto simp: admitted_def admitted_view_def sockets)
    with ok show ?thesis unfolding timers_ok_def of timers by blast
  qed
  have rejected: "timers_ok (send_and_close e i (t\<lparr> sv_limiter := l \<rparr>))" for e l
  proof -
    let ?r = "send_and_close e i (t\<lparr> sv_limiter := l \<rparr>)"
    have r: "sv_timers ?r = sv_timers t" "sv_nextTimer ?r = sv_nextTimer t" "timer_of ?r j = timer_of t j" for j
      by (auto simp: send_and_close_def timer_of_def split: bind_splits)
    have "i \<notin> admitted ?r" by (simp add: send_and_close_def admitted_def admitted_view_def sockets)
    moreover have "j \<in> admitted ?r \<Longrightarrow> j \<in> admitted t" for j
      by (auto simp: send_and_close_def admitted_def admitted_view_def split: if_splits)
    ultimately show ?thesis using handles(2) covered unfolding timers_ok_def handles_ok_def r by metis
  qed
  have "timers_ok (startInactivityTTLTimer cfg now i t)"
  proof (rule timers_ok_start [OF handles(2)])
    show "sv_timers t h \<noteq> Some (i, due)" for h due
      using handles_okD(3) [OF handles(1), of h i due] new by (auto simp: timers timer_of_def)
  qed (simp add: sockets, rule covered)
  with rejected show ?thesis unfolding t applyLimits_def Let_def by simp
qed

lemma ws_step_timers:
  assumes "ws_step cfg env s ev s'" and ok: "timers_ok s"
  shows "timers_ok s'"
  using assms(1)
proof (cases rule: ws_step.cases)
  case (connects i connections ip now)
  then show ?thesis using timers_ok_connect [OF ok] by simp
next
  case (uses i now)
  then show ?thesis using timers_ok_reset [OF ok] by simp
next
  case (times_out h i due)
  then show ?thesis using timers_ok_timeout [OF ok] by simp
qed (auto intro: timers_ok_same [OF _ _ ok] same_timers_ops fewer_ops)

text \<open>
  C40. Every connection that the server has not asked to close has exactly one time-out pending, so a
  client that falls silent is disconnected: when that time-out fires, the connection is told that its
  time expired and is closed with code 4002, and the time-out was set to the configured time after
  the last use.
\<close>

theorem idle_connections_are_closed:
  assumes "ws_reachable cfg env c s" and "sv_sockets s i = Some so" and "\<not> so_closed so" and "so_closeCode so = None"
  shows "\<exists>h due so'. {k. \<exists>d. sv_timers s k = Some (i, d)} = {h} \<and> sv_timers s h = Some (i, due) \<and>
    ws_step cfg env s (TimesOut h) (inactivity_timeout h s) \<and>
    sv_sent (inactivity_timeout h s) = sv_sent s @ [(i, TTL_EXPIRED)] \<and>
    sv_sockets (inactivity_timeout h s) i = Some so' \<and> so_closeCode so' = Some 4002 \<and>
    (\<exists>h'. sv_timers (resetInactivityTTLTimer cfg now i s) h' = Some (i, now + WS_MAX_INACTIVITY_TTL cfg))"
proof -
  have ok: "timers_ok s"
    using assms(1)
  proof (induction rule: ws_reachable.induct)
    case started
    show ?case
      by (simp add: timers_ok_def handles_ok_def started_server_def timer_of_def admitted_def admitted_view_def)
  qed (rule ws_step_timers)
  have "i \<in> admitted s" using assms(2-4) by (simp add: admitted_def admitted_view_def)
  then obtain h due where h: "timer_of s i = Some h" "sv_timers s h = Some (i, due)"
    using ok unfolding timers_ok_def by blast
  have handles: "handles_ok s" using ok by (simp add: timers_ok_def)
  have "{k. \<exists>d. sv_timers s k = Some (i, d)} = {h}"
    using handles_okD(3) [OF handles, of _ i] h by fastforce
  moreover have "ws_step cfg env s (TimesOut h) (inactivity_timeout h s)" by (rule ws_step.times_out [OF h(2)])
  moreover have "sv_sent (inactivity_timeout h s) = sv_sent s @ [(i, TTL_EXPIRED)]"
    using h(2) assms(2,3) by (simp add: inactivity_timeout_def send_and_close_def Let_def update_socket_def)
  moreover have "sv_sockets (inactivity_timeout h s) i = Some (so\<lparr> so_closeCode := Some 4002 \<rparr>)"
    using h(2) assms(2,3) by (simp add: inactivity_timeout_def send_and_close_def Let_def TTL_EXPIRED_def)
  moreover have "\<exists>h'. sv_timers (resetInactivityTTLTimer cfg now i s) h' = Some (i, now + WS_MAX_INACTIVITY_TTL cfg)"
    by (rule exI [of _ "sv_nextTimer s"])
      (simp add: resetInactivityTTLTimer_def startInactivityTTLTimer_def Let_def split: option.split)
  ultimately show ?thesis using h(2) by (intro exI [of _ h] exI [of _ due] exI) auto
qed

subsection \<open>Subscriptions and their quota\<close>

abbreviation subs_of :: "string \<Rightarrow> 'c ws_server \<Rightarrow> (tag \<times> string) list" where
  "subs_of i s \<equiv> connection_subs i (ss_subscriptions (sv_service s))"

lemma limiter_service [simp]:
  "sv_service (send_and_close e i s) = sv_service s" "sv_validating (send_and_close e i s) = sv_validating s"
  "sv_service (startInactivityTTLTimer cfg now i s) = sv_service s"
  "sv_validating (startInactivityTTLTimer cfg now i s) = sv_validating s"
  "sv_service (resetInactivityTTLTimer cfg now i s) = sv_service s"
  "sv_validating (resetInactivityTTLTimer cfg now i s) = sv_validating s"
  "sv_service (inactivity_timeout h s) = sv_service s" "sv_validating (inactivity_timeout h s) = sv_validating s"
  "sv_service (on_connection cfg now n i ip s) = sv_service s"
  "sv_validating (on_connection cfg now n i ip s) = sv_validating s"
  by (simp_all add: send_and_close_def startInactivityTTLTimer_def resetInactivityTTLTimer_def inactivity_timeout_def
      on_connection_def applyLimits_def incrementCounters_def Let_def split: option.split prod.split)

lemma ws_step_service:
  assumes "ws_step cfg env s ev s'"
  shows "sv_service s' = sv_service s \<or> service_step env (sv_service s) (sv_service s')"
  using assms
  by (cases rule: ws_step.cases)
    (auto simp: subscribe_arrives_def subscribe_validated_def incrementSubs_def subscribe_refused_def
      unsubscribe_arrives_def decrementSubs_def on_close_def handleConnectionClose_def decrementCounters_def Let_def
      case_prod_beta intro: service_step.intros)

lemma ws_reachable_service: "ws_reachable cfg env c s \<Longrightarrow> service_ok (sv_service s)"
proof (induction rule: ws_reachable.induct)
  case started
  show ?case
    by (simp add: started_server_def idle_service_def service_ok_def tag_texts_def poller_ok_def polls_of_def hasPoll_def)
next
  case (proceeds s ev s')
  then show ?case using ws_step_service [OF proceeds.hyps(2)] service_step_ok by metis
qed

text \<open>Subscribing answers an id that is there already or adds one subscription to the connection.\<close>

lemma subscribe_subs:
  assumes "service_ok s"
  shows "length (connection_subs i (ss_subscriptions (snd (ss_subscribe env gid i event filters s)))) \<in>
      {length (connection_subs i (ss_subscriptions s)), Suc (length (connection_subs i (ss_subscriptions s)))}"
    and "\<not> se_sameSubForSameEvent env \<Longrightarrow>
      length (connection_subs i (ss_subscriptions (snd (ss_subscribe env gid i event filters s)))) =
      Suc (length (connection_subs i (ss_subscriptions s)))"
    and "subscribed j (ss_subscriptions s) \<subseteq># subscribed j (ss_subscriptions (snd (ss_subscribe env gid i event filters s)))"
    and "j \<noteq> i \<Longrightarrow> length (connection_subs j (ss_subscriptions (snd (ss_subscribe env gid i event filters s)))) =
      length (connection_subs j (ss_subscriptions s))"
proof -
  obtain r s' where s': "ss_subscribe env gid i event filters s = (r, s')" by (cases "ss_subscribe env gid i event filters s")
  have len: "length (connection_subs c es) = size (subscribed c es)" for c es by (simp add: subscribed_def)
  note result = subscribe_result [OF assms, where env = env and generatedId = gid and connection = i
    and event = event and filters = filters, unfolded s' prod.case]
  have sub: "s' = s \<and> se_sameSubForSameEvent env \<or>
      (\<forall>c. subscribed c (ss_subscriptions s') = subscribed c (ss_subscriptions s) +
        (if c = i then {# (tag_text (make_tag event filters), gid) #} else {#}))"
    using result by (auto split: option.splits if_splits)
  show "length (connection_subs i (ss_subscriptions (snd (ss_subscribe env gid i event filters s)))) \<in>
      {length (connection_subs i (ss_subscriptions s)), Suc (length (connection_subs i (ss_subscriptions s)))}"
    using sub by (auto simp: s' len)
  show "length (connection_subs i (ss_subscriptions (snd (ss_subscribe env gid i event filters s)))) =
      Suc (length (connection_subs i (ss_subscriptions s)))" if "\<not> se_sameSubForSameEvent env"
    using sub that by (auto simp: s' len)
  show "subscribed j (ss_subscriptions s) \<subseteq># subscribed j (ss_subscriptions (snd (ss_subscribe env gid i event filters s)))"
    using sub by (auto simp: s')
  show "length (connection_subs j (ss_subscriptions (snd (ss_subscribe env gid i event filters s)))) =
      length (connection_subs j (ss_subscriptions s))" if "j \<noteq> i"
    using sub that by (auto simp: s' len)
qed

definition quota_ok :: "'c subscription_env \<Rightarrow> 'c ws_server \<Rightarrow> bool" where
  "quota_ok env s \<longleftrightarrow>
     (\<forall>i. sv_sockets s i = None \<longrightarrow> subs_of i s = [] \<and> i \<notin> fst ` set (sv_validating s)) \<and>
     (\<forall>i so. sv_sockets s i = Some so \<longrightarrow> \<not> so_closed so \<longrightarrow>
        int (length (subs_of i s)) \<le> so_subscriptions so \<and>
        (\<not> se_sameSubForSameEvent env \<longrightarrow> so_subscriptions so = int (length (subs_of i s))))"

text \<open>What of a socket the quota depends on.\<close>

definition quota_view :: "'c ws_server \<Rightarrow> string \<Rightarrow> (int \<times> bool) option" where
  "quota_view s i = map_option (\<lambda>so. (so_subscriptions so, so_closed so)) (sv_sockets s i)"

lemma quota_ok_view: "quota_ok env s \<longleftrightarrow>
     (\<forall>i. quota_view s i = None \<longrightarrow> subs_of i s = [] \<and> i \<notin> fst ` set (sv_validating s)) \<and>
     (\<forall>i n. quota_view s i = Some (n, False) \<longrightarrow>
        int (length (subs_of i s)) \<le> n \<and> (\<not> se_sameSubForSameEvent env \<longrightarrow> n = int (length (subs_of i s))))"
  unfolding quota_ok_def quota_view_def by auto

lemma quota_view_ops [simp]:
  "quota_view (send_and_close e i s) = quota_view s"
  "quota_view (startInactivityTTLTimer cfg now i s) = quota_view s"
  "quota_view (resetInactivityTTLTimer cfg now i s) = quota_view s"
  "quota_view (inactivity_timeout h s) = quota_view s"
  "quota_view (s\<lparr> sv_service := service \<rparr>) = quota_view s"
  "quota_view (s\<lparr> sv_validating := v \<rparr>) = quota_view s"
  "quota_view (s\<lparr> sv_limiter := l \<rparr>) = quota_view s"
  "quota_view (s\<lparr> sv_timers := t \<rparr>) = quota_view s"
  by (auto simp: fun_eq_iff quota_view_def send_and_close_def startInactivityTTLTimer_def resetInactivityTTLTimer_def
      inactivity_timeout_def Let_def option.map_comp comp_def split: option.split)

lemma quota_view_subs [simp]:
  "quota_view (incrementSubs i s) = (quota_view s)(i := map_option (\<lambda>(n, c). (n + 1, c)) (quota_view s i))"
  "quota_view (decrementSubs i k s) = (quota_view s)(i := map_option (\<lambda>(n, c). (n - k, c)) (quota_view s i))"
  "sv_service (incrementSubs i s) = sv_service s" "sv_service (decrementSubs i k s) = sv_service s"
  "sv_validating (incrementSubs i s) = sv_validating s" "sv_validating (decrementSubs i k s) = sv_validating s"
  by (auto simp: fun_eq_iff quota_view_def incrementSubs_def decrementSubs_def option.map_comp comp_def)

lemma quota_view_connection:
  "quota_view (on_connection cfg now k i ip s) = (quota_view s)(i \<mapsto> (0, False))"
  by (auto simp: on_connection_def applyLimits_def Let_def)
    (auto simp: quota_view_def incrementCounters_def Let_def new_socket_def fun_eq_iff)

lemma quota_view_close:
  "quota_view (on_close i s) = (quota_view s)(i := map_option (\<lambda>(n, c). (n, True)) (quota_view s i))"
  by (auto simp: quota_view_def on_close_def handleConnectionClose_def decrementCounters_def Let_def fun_eq_iff
      option.map_comp comp_def)

lemma unsubscribe_subs:
  "subs_of c (s\<lparr> sv_service := snd (ss_unsubscribe i k (sv_service s)) \<rparr>) =
     (if c = i then filter (\<lambda>(t, j). truthy k \<and> k \<noteq> JStr j) (subs_of c s) else subs_of c s)"
  "int (fst (ss_unsubscribe i k (sv_service s))) =
     int (length (subs_of i s)) - int (length (subs_of i (s\<lparr> sv_service := snd (ss_unsubscribe i k (sv_service s)) \<rparr>)))"
  using unsubscribe_result [where connection = i and subId = k and s = "sv_service s" and c = c]
    unsubscribe_result [where connection = i and subId = k and s = "sv_service s" and c = i]
  by (auto split: prod.splits)

lemma quota_step:
  assumes "ws_step cfg env s ev s'" and ok: "quota_ok env s" and service: "service_ok (sv_service s)"
  shows "quota_ok env s'"
  using assms(1)
proof (cases rule: ws_step.cases)
  case (connects i connections ip now)
  then have "quota_view s i = None" by (simp add: quota_view_def)
  with ok show ?thesis unfolding connects(2) quota_ok_view quota_view_connection by auto
next
  case (subscribe_arrives i event filters)
  then show ?thesis using ok unfolding subscribe_arrives quota_ok_view
    by (auto simp: subscribe_arrives_def quota_view_def)
next
  case (subscribe_validated i event filters generatedId)
  note subs = subscribe_subs [OF service]
  have known: "quota_view s i \<noteq> None" using ok subscribe_validated unfolding quota_ok_view by force
  have view: "quota_view s' = (quota_view s)(i := map_option (\<lambda>(n, c). (n + 1, c)) (quota_view s i))"
    by (simp add: subscribe_validated subscribe_validated_def)
  have len: "subs_of c s' = connection_subs c (ss_subscriptions (snd (ss_subscribe env generatedId i event filters (sv_service s))))" for c
    by (simp add: subscribe_validated subscribe_validated_def)
  have rest: "set (sv_validating s') \<subseteq> set (sv_validating s)"
    using set_remove1_subset by (auto simp: subscribe_validated subscribe_validated_def dest: set_remove1_subset [THEN subsetD])
  show ?thesis unfolding quota_ok_view
  proof (intro conjI allI impI)
    fix c assume c: "quota_view s' c = None"
    then have none: "quota_view s c = None" "c \<noteq> i" using known by (auto simp: view split: if_splits)
    then have "length (subs_of c s') = 0" using ok subs(4) [of c i] by (simp add: len quota_ok_view)
    then show "subs_of c s' = []" by simp
    show "c \<notin> fst ` set (sv_validating s')" using ok none rest unfolding quota_ok_view by blast
  next
    fix c n assume "quota_view s' c = Some (n, False)"
    then obtain m where m: "quota_view s c = Some (m, False)" "n = (if c = i then m + 1 else m)"
      by (auto simp: view split: if_splits)
    then have old: "int (length (subs_of c s)) \<le> m" "\<not> se_sameSubForSameEvent env \<Longrightarrow> m = int (length (subs_of c s))"
      using ok unfolding quota_ok_view by blast+
    show "int (length (subs_of c s')) \<le> n" unfolding len using m old subs(1) [of i env generatedId event filters] subs(4) [of c i]
      by (cases "c = i") auto
    show "n = int (length (subs_of c s'))" if "\<not> se_sameSubForSameEvent env"
      unfolding len using m old(2) [OF that] subs(2) [OF that] subs(4) [of c i] by (cases "c = i") auto
  qed
next
  case (subscribe_refused i event filters)
  have "set (sv_validating s') \<subseteq> set (sv_validating s)"
    using set_remove1_subset by (auto simp: subscribe_refused subscribe_refused_def dest: set_remove1_subset [THEN subsetD])
  then show ?thesis using ok unfolding quota_ok_view by (simp add: subscribe_refused subscribe_refused_def) blast
next
  case (unsubscribe_arrives i k)
  let ?s = "s\<lparr> sv_service := snd (ss_unsubscribe i k (sv_service s)) \<rparr>"
  have s': "s' = decrementSubs i (int (fst (ss_unsubscribe i k (sv_service s)))) ?s"
    by (simp add: unsubscribe_arrives unsubscribe_arrives_def case_prod_beta)
  have subs: "subs_of c s' = (if c = i then filter (\<lambda>(t, j). truthy k \<and> k \<noteq> JStr j) (subs_of c s) else subs_of c s)" for c
    unfolding s' using unsubscribe_subs(1) [where c = c and s = s and i = i and k = k] by simp
  have view: "quota_view s' = (quota_view s)(i := map_option (\<lambda>(n, c).
      (n - (int (length (subs_of i s)) - int (length (subs_of i s'))), c)) (quota_view s i))"
    unfolding s' using unsubscribe_subs(2) [where s = s and i = i and k = k] by simp
  have validating: "sv_validating s' = sv_validating s" by (simp add: s')
  show ?thesis using ok unfolding quota_ok_view validating
    by (intro conjI allI impI; (subst (asm) view)?) (auto simp: subs split: if_splits)
next
  case (notifies now x data)
  then show ?thesis using ok unfolding quota_ok_view by (simp add: notify_keeps)
next
  case (closes i)
  have subs: "subs_of c s' = (if c = i then [] else subs_of c s)" for c
    using unsubscribe_subs(1) [where c = c and s = s and i = i and k = JUndef]
    by (simp add: closes on_close_def handleConnectionClose_def decrementCounters_def Let_def)
  have validating: "sv_validating s' = sv_validating s"
    by (simp add: closes on_close_def handleConnectionClose_def decrementCounters_def Let_def)
  have view: "quota_view s' = (quota_view s)(i := map_option (\<lambda>(n, c). (n, True)) (quota_view s i))"
    by (simp add: closes quota_view_close)
  show ?thesis using ok unfolding quota_ok_view validating by (auto simp: subs view split: if_splits)
qed (use ok in \<open>simp_all add: quota_ok_view\<close>)

lemma ws_reachable_quota: "ws_reachable cfg env c s \<Longrightarrow> quota_ok env s"
proof (induction rule: ws_reachable.induct)
  case started
  show ?case by (simp add: quota_ok_def started_server_def idle_service_def)
next
  case (proceeds s ev s')
  show ?case by (rule quota_step [OF proceeds.hyps(2) proceeds.IH ws_reachable_service [OF proceeds.hyps(1)]])
qed

text \<open>
  The number of subscriptions that a connection is charged with is never less than the number it has,
  and it is that number where the server makes a new subscription for every request.
\<close>

theorem quota_counts_subscriptions:
  assumes "ws_reachable cfg env c s" and "sv_sockets s i = Some so" and "\<not> so_closed so"
  shows "int (length (subs_of i s)) \<le> so_subscriptions so \<and>
    (se_sameSubForSameEvent env \<or> so_subscriptions so = int (length (subs_of i s)))"
  using ws_reachable_quota [OF assms(1)] assms(2,3) unfolding quota_ok_def by blast

text \<open>One round of \<open>eth_subscribe\<close>: the request arrives and its validation succeeds at once.\<close>

definition subscribe_round ::
  "ws_config \<Rightarrow> 'c subscription_env \<Rightarrow> string \<Rightarrow> string \<Rightarrow> string \<Rightarrow> jsv \<Rightarrow> 'c ws_server \<Rightarrow> 'c ws_server" where
  "subscribe_round cfg env gid i event filters s =
     subscribe_validated env gid (i, event, filters) (subscribe_arrives cfg i event filters s)"

lemma subscribe_round_reachable:
  assumes "ws_reachable cfg env c s" and "validateSubscriptionLimit cfg i s"
  shows "ws_reachable cfg env c (subscribe_round cfg env gid i event filters s)"
proof -
  have "sv_sockets s i \<noteq> None" using assms(2) by (auto simp: validateSubscriptionLimit_def split: option.splits)
  then have "ws_reachable cfg env c (subscribe_arrives cfg i event filters s)"
    by (rule ws_reachable.proceeds [OF assms(1) ws_step.subscribe_arrives])
  moreover have "(i, event, filters) \<in> set (sv_validating (subscribe_arrives cfg i event filters s))"
    using assms(2) by (simp add: subscribe_arrives_def)
  ultimately show ?thesis
    unfolding subscribe_round_def by (rule ws_reachable.proceeds [OF _ ws_step.subscribe_validated])
qed

lemma subscribe_round_socket:
  assumes "sv_sockets s i = Some so"
  shows "sv_sockets (subscribe_round cfg env gid i event filters s) i = Some (so\<lparr> so_subscriptions := so_subscriptions so + 1 \<rparr>)"
  using assms by (simp add: subscribe_round_def subscribe_validated_def subscribe_arrives_def incrementSubs_def)

lemma subscribe_round_service:
  "sv_service (subscribe_round cfg env gid i event filters s) = snd (ss_subscribe env gid i event filters (sv_service s))"
  by (simp add: subscribe_round_def subscribe_validated_def subscribe_arrives_def incrementSubs_def)

text \<open>
  Where the server answers a repeated subscription with the one that exists, the quota is charged all
  the same: a client that asks again for what it has ends up with no quota and the one subscription
  it had.
\<close>

theorem repeated_subscription_uses_up_quota:
  assumes "ws_reachable cfg env c s" and "se_sameSubForSameEvent env"
    and "sv_sockets s i = Some so"
    and "find (\<lambda>p. tag_text (fst p) = tag_text (make_tag event filters)) (subs_of i s) \<noteq> None"
  shows "\<exists>s'. ws_reachable cfg env c s' \<and> \<not> validateSubscriptionLimit cfg i s' \<and> subs_of i s' = subs_of i s"
  using assms
proof (induction "nat (WS_SUBSCRIPTION_LIMIT cfg - so_subscriptions so)" arbitrary: s so)
  case 0
  then have "\<not> validateSubscriptionLimit cfg i s" by (simp add: validateSubscriptionLimit_def)
  with 0 show ?case by blast
next
  case (Suc n)
  let ?s = "subscribe_round cfg env ''0x0'' i event filters s"
  have room: "validateSubscriptionLimit cfg i s" using Suc by (simp add: validateSubscriptionLimit_def)
  have service: "sv_service ?s = sv_service s"
    using subscribe_result [OF ws_reachable_service [OF Suc.prems(1)], where env = env and generatedId = "''0x0''"
        and connection = i and event = event and filters = filters] Suc.prems(2,4)
    unfolding subscribe_round_service by (auto split: prod.splits option.splits)
  have "\<exists>s'. ws_reachable cfg env c s' \<and> \<not> validateSubscriptionLimit cfg i s' \<and> subs_of i s' = subs_of i ?s"
  proof (rule Suc.hyps(1))
    show "n = nat (WS_SUBSCRIPTION_LIMIT cfg - so_subscriptions (so\<lparr> so_subscriptions := so_subscriptions so + 1 \<rparr>))"
      using Suc.hyps(2) by simp
    show "ws_reachable cfg env c ?s" by (rule subscribe_round_reachable [OF Suc.prems(1) room])
    show "sv_sockets ?s i = Some (so\<lparr> so_subscriptions := so_subscriptions so + 1 \<rparr>)"
      by (rule subscribe_round_socket [OF Suc.prems(3)])
    show "find (\<lambda>p. tag_text (fst p) = tag_text (make_tag event filters)) (subs_of i ?s) \<noteq> None"
      using Suc.prems(4) service by simp
  qed (rule Suc.prems(2))
  then show ?case using service by simp
qed

lemma arrivals_reachable:
  assumes "ws_reachable cfg env c s" and "validateSubscriptionLimit cfg i s"
  shows "ws_reachable cfg env c (s\<lparr> sv_validating := sv_validating s @ replicate n (i, event, filters) \<rparr>)"
proof (induction n)
  case 0
  then show ?case using assms(1) by simp
next
  case (Suc n)
  let ?t = "s\<lparr> sv_validating := sv_validating s @ replicate n (i, event, filters) \<rparr>"
  have "validateSubscriptionLimit cfg i ?t" using assms(2) by (simp add: validateSubscriptionLimit_def)
  then have "subscribe_arrives cfg i event filters ?t =
      s\<lparr> sv_validating := sv_validating s @ replicate (Suc n) (i, event, filters) \<rparr>"
    by (simp add: subscribe_arrives_def replicate_append_same)
  moreover have "sv_sockets ?t i \<noteq> None" using assms(2) by (auto simp: validateSubscriptionLimit_def split: option.splits)
  ultimately show ?case using ws_reachable.proceeds [OF Suc ws_step.subscribe_arrives] by metis
qed

lemma validations_reachable:
  assumes "ws_reachable cfg env c s" and "sv_sockets s i = Some so"
    and "n \<le> count (mset (sv_validating s)) (i, event, filters)"
  shows "\<exists>s' so'. ws_reachable cfg env c s' \<and> sv_sockets s' i = Some so' \<and> so_closed so' = so_closed so \<and>
    so_subscriptions so' = so_subscriptions so + int n"
  using assms
proof (induction n arbitrary: s so)
  case 0
  then show ?case by auto
next
  case (Suc n)
  let ?t = "subscribe_validated env ''0x0'' (i, event, filters) s"
  have "(i, event, filters) \<in> set (sv_validating s)" using Suc.prems(3) by (metis Suc_le_eq count_greater_zero_iff gr_zeroI not_less0 set_mset_mset)
  then have "ws_reachable cfg env c ?t" by (rule ws_reachable.proceeds [OF Suc.prems(1) ws_step.subscribe_validated])
  moreover have "sv_sockets ?t i = Some (so\<lparr> so_subscriptions := so_subscriptions so + 1 \<rparr>)"
    using Suc.prems(2) by (simp add: subscribe_validated_def incrementSubs_def)
  moreover have "n \<le> count (mset (sv_validating ?t)) (i, event, filters)"
    using Suc.prems(3) by (simp add: subscribe_validated_def)
  ultimately show ?case using Suc.IH [of ?t "so\<lparr> so_subscriptions := so_subscriptions so + 1 \<rparr>"] by auto
qed

text \<open>
  The quota is looked at when a request arrives and charged when its validation is done: requests that
  arrive together all find room, and together take a connection any number over its limit.
\<close>

theorem concurrent_subscriptions_exceed_limit:
  assumes "ws_reachable cfg env c s" and "sv_sockets s i = Some so"
    and "so_subscriptions so < WS_SUBSCRIPTION_LIMIT cfg"
  shows "\<exists>s' so'. ws_reachable cfg env c s' \<and> sv_sockets s' i = Some so' \<and> so_closed so' = so_closed so \<and>
    so_subscriptions so' = so_subscriptions so + int n"
proof -
  have room: "validateSubscriptionLimit cfg i s" using assms(2,3) by (simp add: validateSubscriptionLimit_def)
  show ?thesis
    using validations_reachable [OF arrivals_reachable [OF assms(1) room, of n "''logs''" "JObj [(''address'', JStr ''0x67'')]"],
        of i so n "''logs''" "JObj [(''address'', JStr ''0x67'')]"]
      assms(2) by simp
qed

abbreviation ws_steps :: "ws_config \<Rightarrow> 'c subscription_env \<Rightarrow> 'c ws_server \<Rightarrow> 'c ws_server \<Rightarrow> bool" where
  "ws_steps cfg env \<equiv> (\<lambda>s s'. \<exists>ev. ws_step cfg env s ev s')\<^sup>*\<^sup>*"

lemma closed_stays:
  assumes "ws_step cfg env s ev s'" and "sv_sockets s i = Some so" and "so_closed so"
  shows "\<exists>so'. sv_sockets s' i = Some so' \<and> so_closed so'"
proof -
  have view: "quota_view s i = Some (so_subscriptions so, True)"
    using assms(2,3) by (simp add: quota_view_def)
  have "\<exists>n. quota_view s' i = Some (n, True)"
    using assms(1)
  proof (cases rule: ws_step.cases)
    case (connects j connections ip now)
    then have "j \<noteq> i" using assms(2) by auto
    with view show ?thesis by (simp add: connects(2) quota_view_connection)
  qed (use view in \<open>auto simp: quota_view_close subscribe_arrives_def subscribe_validated_def subscribe_refused_def
      unsubscribe_arrives_def case_prod_beta\<close>)
  then show ?thesis by (auto simp: quota_view_def)
qed

lemma closed_subscriptions_stay:
  assumes step: "ws_step cfg env s ev s'" and so: "sv_sockets s i = Some so" "so_closed so"
    and service: "service_ok (sv_service s)"
  shows "subscribed i (ss_subscriptions (sv_service s)) \<subseteq># subscribed i (ss_subscriptions (sv_service s'))"
  using step
proof (cases rule: ws_step.cases)
  case (subscribe_validated j event filters generatedId)
  then show ?thesis using subscribe_subs(3) [OF service] by (simp add: subscribe_validated_def incrementSubs_def)
next
  case (unsubscribe_arrives j k)
  then have "j \<noteq> i" using so by auto
  then have "subs_of i s' = subs_of i s"
    using unsubscribe_subs(1) [where c = i and s = s and i = j and k = k]
    by (simp add: unsubscribe_arrives unsubscribe_arrives_def case_prod_beta)
  then show ?thesis by (simp add: subscribed_def)
next
  case (closes j)
  then have "j \<noteq> i" using so by auto
  then have "subs_of i s' = subs_of i s"
    using unsubscribe_subs(1) [where c = i and s = s and i = j and k = JUndef]
    by (simp add: closes on_close_def handleConnectionClose_def decrementCounters_def Let_def)
  then show ?thesis by (simp add: subscribed_def)
qed (simp_all add: subscribe_arrives_def subscribe_refused_def notify_keeps)

text \<open>
  A validation that ends after its connection was closed still makes a subscription, which nothing
  takes away again: connections unsubscribe by their own id while they are open, or when they close.
\<close>

theorem late_validation_leaks_subscription:
  assumes reachable: "ws_reachable cfg env c s" and so: "sv_sockets s i = Some so" "\<not> so_closed so"
    and "so_subscriptions so < WS_SUBSCRIPTION_LIMIT cfg"
  shows "\<exists>s'. ws_reachable cfg env c s' \<and> so_closed (the (sv_sockets s' i)) \<and>
    (\<forall>s''. ws_steps cfg env s' s'' \<longrightarrow> subs_of i s'' \<noteq> [] \<and> isPolling (ss_poller (sv_service s'')))"
proof -
  let ?filters = "JObj [(''address'', JStr ''0x67'')]"
  define s1 where "s1 = subscribe_arrives cfg i ''logs'' ?filters s"
  define s2 where "s2 = on_close i s1"
  define s3 where "s3 = subscribe_validated env ''0x0'' (i, ''logs'', ?filters) s2"
  have room: "validateSubscriptionLimit cfg i s" using assms(2,4) by (simp add: validateSubscriptionLimit_def)
  have r1: "ws_reachable cfg env c s1"
    unfolding s1_def by (rule ws_reachable.proceeds [OF reachable ws_step.subscribe_arrives]) (simp add: so)
  have so1: "sv_sockets s1 i = Some so" using so by (simp add: s1_def subscribe_arrives_def)
  have r2: "ws_reachable cfg env c s2"
    unfolding s2_def by (rule ws_reachable.proceeds [OF r1 ws_step.closes]) (simp_all add: so1 so)
  have in2: "(i, ''logs'', ?filters) \<in> set (sv_validating s2)"
    using room by (simp add: s2_def s1_def subscribe_arrives_def on_close_def handleConnectionClose_def
        decrementCounters_def Let_def)
  have r3: "ws_reachable cfg env c s3"
    unfolding s3_def by (rule ws_reachable.proceeds [OF r2 ws_step.subscribe_validated [OF in2]])
  have empty: "subs_of i s2 = []"
    using unsubscribe_subs(1) [where c = i and s = s1 and i = i and k = JUndef]
    by (simp add: s2_def on_close_def handleConnectionClose_def decrementCounters_def Let_def)
  have closed: "\<exists>so'. sv_sockets s3 i = Some so' \<and> so_closed so'"
    using so1 by (simp add: s3_def s2_def subscribe_validated_def incrementSubs_def on_close_def handleConnectionClose_def
        decrementCounters_def Let_def)
  have leaked: "subscribed i (ss_subscriptions (sv_service s3)) \<noteq> {#}"
    using subscribe_result [OF ws_reachable_service [OF r2], where env = env and generatedId = "''0x0''"
        and connection = i and event = "''logs''" and filters = ?filters] empty
    by (auto simp: s3_def subscribe_validated_def incrementSubs_def split: prod.splits if_splits)
  have stay: "ws_reachable cfg env c s'' \<and> (\<exists>so'. sv_sockets s'' i = Some so' \<and> so_closed so') \<and>
      subscribed i (ss_subscriptions (sv_service s'')) \<noteq> {#}" if "ws_steps cfg env s3 s''" for s''
    using that
  proof (induction rule: rtranclp_induct)
    case (step t u)
    then obtain ev so' where ev: "ws_step cfg env t ev u" "sv_sockets t i = Some so'" "so_closed so'"
      and t: "ws_reachable cfg env c t" "subscribed i (ss_subscriptions (sv_service t)) \<noteq> {#}" by blast
    have "subscribed i (ss_subscriptions (sv_service t)) \<subseteq># subscribed i (ss_subscriptions (sv_service u))"
      by (rule closed_subscriptions_stay [OF ev ws_reachable_service [OF t(1)]])
    then have "subscribed i (ss_subscriptions (sv_service u)) \<noteq> {#}" using t(2) by auto
    with closed_stays [OF ev] ws_reachable.proceeds [OF t(1) ev(1)] show ?case by blast
  qed (use r3 closed leaked in blast)
  have "subs_of i s'' \<noteq> [] \<and> isPolling (ss_poller (sv_service s''))" if "ws_steps cfg env s3 s''" for s''
  proof -
    have subs: "subs_of i s'' \<noteq> []" using stay [OF that] by (auto simp: subscribed_def)
    have "service_ok (sv_service s'')" using stay [OF that] by (blast intro: ws_reachable_service)
    moreover from subs have "ss_subscriptions (sv_service s'') \<noteq> []" by auto
    then have "\<exists>x. x \<in> set (tag_texts (ss_subscriptions (sv_service s'')))"
      by (auto simp: tag_texts_def neq_Nil_conv)
    ultimately show ?thesis using subs by (simp add: service_ok_def poller.polling)
  qed
  with r3 closed show ?thesis by (intro exI [of _ s3]) auto
qed

subsection \<open>A server with one connection\<close>

definition sample_ws_config :: ws_config where
  "sample_ws_config =
     \<lparr> WS_CONNECTION_LIMIT = 10, WS_CONNECTION_LIMIT_PER_IP = 10, WS_MAX_INACTIVITY_TTL = 300000,
       WS_SUBSCRIPTION_LIMIT = 10 \<rparr>"

definition sample_server :: "list_lru ws_server" where
  "sample_server = on_connection sample_ws_config 50 1 ''c1'' ''1.2.3.4'' (started_server (9, []))"

definition sample_subscribed :: "list_lru ws_server" where
  "sample_subscribed =
     subscribe_round sample_ws_config sample_subscription_env ''0x1'' ''c1'' ''newHeads'' JUndef sample_server"

lemma sample_server_reachable: "ws_reachable sample_ws_config sample_subscription_env (9, []) sample_server"
  unfolding sample_server_def
  by (rule ws_reachable.proceeds [OF ws_reachable.started ws_step.connects])
    (simp_all add: started_server_def open_sockets_def)

lemma sample_server_sockets: "sv_sockets sample_server =
    [''c1'' \<mapsto> \<lparr> so_ip = ''1.2.3.4'', so_ipCounted = True, so_subscriptions = 0, so_closed = False,
               so_closeCode = None, so_inactivityTTL = Some 0 \<rparr>]"
  by (simp add: sample_server_def on_connection_def applyLimits_def incrementCounters_def started_server_def
      sample_ws_config_def startInactivityTTLTimer_def new_socket_def socket_ip_def Let_def)

lemma sample_subscribed_reachable: "ws_reachable sample_ws_config sample_subscription_env (9, []) sample_subscribed"
  unfolding sample_subscribed_def
  by (rule subscribe_round_reachable [OF sample_server_reachable])
    (simp add: validateSubscriptionLimit_def sample_server_sockets sample_ws_config_def)

lemma sample_subscribed_facts:
  "sv_sockets sample_subscribed ''c1'' =
    Some \<lparr> so_ip = ''1.2.3.4'', so_ipCounted = True, so_subscriptions = 1, so_closed = False,
           so_closeCode = None, so_inactivityTTL = Some 0 \<rparr>"
  "subs_of ''c1'' sample_subscribed = [(make_tag ''newHeads'' JUndef, ''0x1'')]"
proof -
  show "sv_sockets sample_subscribed ''c1'' =
    Some \<lparr> so_ip = ''1.2.3.4'', so_ipCounted = True, so_subscriptions = 1, so_closed = False,
           so_closeCode = None, so_inactivityTTL = Some 0 \<rparr>"
    using subscribe_round_socket [where s = sample_server and i = "''c1''"]
    by (simp add: sample_subscribed_def sample_server_sockets)
  have "sv_service sample_server = idle_service (9, [])" by (simp add: sample_server_def started_server_def)
  then show "subs_of ''c1'' sample_subscribed = [(make_tag ''newHeads'' JUndef, ''0x1'')]"
    by (simp add: sample_subscribed_def subscribe_round_service ss_subscribe_def idle_service_def subscribers_def
        push_subscriber_def sample_subscription_env_def Let_def)
qed

theorem connections_counted_and_limited_witness:
  "li_clientIps (sv_limiter sample_server) ''1.2.3.4'' = Some 1"
proof -
  have "{i. \<exists>so. sv_sockets sample_server i = Some so \<and> so_ip so = ''1.2.3.4'' \<and> \<not> so_closed so} = {''c1''}"
    by (auto simp: sample_server_sockets)
  with connections_counted_and_limited [OF sample_server_reachable, of "''1.2.3.4''"] show ?thesis by simp
qed

theorem idle_connections_are_closed_witness:
  "\<exists>h due. sv_timers sample_server h = Some (''c1'', due) \<and>
     sv_sent (inactivity_timeout h sample_server) = [(''c1'', TTL_EXPIRED)]"
proof -
  have "sv_sent sample_server = []"
    by (simp add: sample_server_def on_connection_def applyLimits_def incrementCounters_def started_server_def
        sample_ws_config_def startInactivityTTLTimer_def update_socket_def Let_def new_socket_def socket_ip_def)
  moreover obtain so where "sv_sockets sample_server ''c1'' = Some so" "\<not> so_closed so" "so_closeCode so = None"
    by (simp add: sample_server_sockets)
  ultimately show ?thesis
    using idle_connections_are_closed [OF sample_server_reachable, of "''c1''" so 0] by (simp only: append_Nil) blast
qed

theorem quota_counts_subscriptions_witness:
  "int (length (subs_of ''c1'' sample_subscribed)) \<le> 1"
  using quota_counts_subscriptions [OF sample_subscribed_reachable sample_subscribed_facts(1)] by simp

theorem repeated_subscription_uses_up_quota_witness:
  "\<exists>s' :: list_lru ws_server. \<not> validateSubscriptionLimit sample_ws_config ''c1'' s' \<and>
     subs_of ''c1'' s' = [(make_tag ''newHeads'' JUndef, ''0x1'')]"
proof -
  have "\<exists>s'. ws_reachable sample_ws_config sample_subscription_env (9, []) s' \<and>
      \<not> validateSubscriptionLimit sample_ws_config ''c1'' s' \<and> subs_of ''c1'' s' = subs_of ''c1'' sample_subscribed"
    by (rule repeated_subscription_uses_up_quota
        [OF sample_subscribed_reachable _ sample_subscribed_facts(1), of "''newHeads''" JUndef])
      (simp_all add: sample_subscription_env_def sample_subscribed_facts(2))
  then show ?thesis unfolding sample_subscribed_facts(2) by blast
qed

theorem concurrent_subscriptions_exceed_limit_witness:
  "\<exists>s' so'. ws_reachable sample_ws_config sample_subscription_env (9, []) s' \<and>
     sv_sockets s' ''c1'' = Some so' \<and> so_subscriptions so' = 1000"
  using concurrent_subscriptions_exceed_limit [OF sample_server_reachable, of "''c1''" _ 1000]
  by (auto simp: sample_server_sockets sample_ws_config_def)

theorem late_validation_leaks_subscription_witness:
  "\<exists>s'. so_closed (the (sv_sockets s' ''c1'')) \<and>
     ws_reachable sample_ws_config sample_subscription_env (9, []) s' \<and> isPolling (ss_poller (sv_service s'))"
  using late_validation_leaks_subscription [OF sample_server_reachable, of "''c1''"]
  by (simp add: sample_server_sockets sample_ws_config_def) blast

end
