(* ===== verification/WsController.thy ===== *)
theory WsController
  imports WsConnections KoaServer
begin

section \<open>Requests of websocket clients\<close>

text \<open>
  Models \<open>packages/ws-server/src/controllers\<close>, the validation of a request in \<open>utils/utils.ts\<close> and
  \<open>utils/validators.ts\<close>, and what \<open>webSocketServer.ts\<close> does with a message. The state is the server
  of \<open>WsConnections\<close>; the answers of the rate limiter, the relay and the mirror node are in the
  environment. \<open>Inl\<close> is an exception that leaves the handler: it is only logged, and the client gets
  no answer. The items of a batch are handled one after the other here; what their interleaving does
  to the quota of subscriptions is in \<open>WsConnections\<close>.
\<close>

record 'c ws_env =
  we_requestIdIsOptional :: bool
  we_subscriptionsEnabled :: bool
  we_newHeadsEnabled :: bool
  we_multipleAddressesEnabled :: bool
  we_batchRequestsEnabled :: bool
  we_batchRequestsMaxSize :: nat
  we_batchDisallowedMethods :: "string list"
  we_config :: ws_config
  we_subscription_env :: "'c subscription_env"
  we_generateId :: string
  we_methodConfiguration :: "string \<Rightarrow> int option"
  we_shouldRateLimit :: "string \<Rightarrow> string \<Rightarrow> int \<Rightarrow> bool"
  we_executeRpcMethod :: "jsv \<Rightarrow> jsv \<Rightarrow> string + (json_rpc_error + jsv)"
  we_resolveEntityType :: "string \<Rightarrow> thrown + bool"

subsection \<open>Validation of a request\<close>

definition ws_hasInvalidRequestId :: "'c ws_env \<Rightarrow> jsv \<Rightarrow> bool \<times> jsv" where
  "ws_hasInvalidRequestId env request =
     (let hasId = has_own request ''id''
      in if we_requestIdIsOptional env \<and> \<not> hasId then (False, js_set_prop request ''id'' (JStr ''0''))
         else (\<not> hasId, request))"

definition ws_validateJsonRpcRequest :: "'c ws_env \<Rightarrow> jsv \<Rightarrow> bool \<times> jsv" where
  "ws_validateJsonRpcRequest env request =
     (if js_prop request ''jsonrpc'' \<noteq> JStr ''2.0'' \<or> \<not> has_own request ''method'' then (False, request)
      else (let (invalidId, request') = ws_hasInvalidRequestId env request
            in (\<not> invalidId \<and> has_own request' ''id'', request')))"

definition WS_METHODS :: "string list" where
  "WS_METHODS =
     [''ETH_CALL'', ''ETH_CHAINID'', ''ETH_GETLOGS'', ''ETH_GETCODE'', ''ETH_GASPRICE'', ''ETH_SUBSCRIBE'',
      ''ETH_NEWFILTER'', ''ETH_GETBALANCE'', ''ETH_UNSUBSCRIBE'', ''ETH_BLOCKNUMBER'', ''ETH_ESTIMATEGAS'',
      ''ETH_GETSTORAGEAT'', ''ETH_GETBLOCKBYHASH'', ''ETH_GETBLOCKBYNUMBER'', ''ETH_SENDRAWTRANSACTION'',
      ''ETH_GETTRANSACTIONCOUNT'', ''ETH_GETTRANSACTIONBYHASH'', ''ETH_GETTRANSACTIONRECEIPT'',
      ''ETH_MAXPRIORITYFEEPERGAS'', ''WEB3_CLIENTVERSION'', ''WEB3_SHA3'']"

definition js_toUpperCase :: "string \<Rightarrow> string" where
  "js_toUpperCase s =
     map (\<lambda>c. let n = (of_char c :: nat) in if 97 \<le> n \<and> n \<le> 122 then char_of (n - 32) else c) s"

text \<open>\<open>None\<close> is the TypeError of a method that is no text.\<close>

definition verifySupportedMethod :: "jsv \<Rightarrow> bool option" where
  "verifySupportedMethod method =
     (case method of JStr m \<Rightarrow> Some (js_toUpperCase m \<in> set WS_METHODS) | _ \<Rightarrow> None)"

definition ETH_SUBSCRIBE :: string where "ETH_SUBSCRIBE = ''eth_subscribe''"
definition ETH_UNSUBSCRIBE :: string where "ETH_UNSUBSCRIBE = ''eth_unsubscribe''"

text \<open>\<open>None\<close> is the TypeError of a method without a configuration.\<close>

definition shouldRateLimitOnMethod :: "'c ws_env \<Rightarrow> string \<Rightarrow> string \<Rightarrow> bool option" where
  "shouldRateLimitOnMethod env ip methodName =
     (if methodName = ETH_SUBSCRIBE \<or> methodName = ETH_UNSUBSCRIBE then Some False
      else map_option (we_shouldRateLimit env ip methodName) (we_methodConfiguration env methodName))"

subsection \<open>Subscriptions\<close>

definition index_of_params :: "jsv \<Rightarrow> nat \<Rightarrow> jsv" where
  "index_of_params params n =
     (case params of
        JArr xs \<Rightarrow> if n < length xs then xs ! n else JUndef
      | JStr s \<Rightarrow> if n < length s then JStr [s ! n] else JUndef
      | JObj ps \<Rightarrow> prop_lookup ps (show_int (int n))
      | _ \<Rightarrow> JUndef)"

text \<open>\<open>None\<close> is the TypeError of \<open>Object.entries\<close>.\<close>

definition constructValidLogSubscriptionFilter :: "jsv \<Rightarrow> jsv option" where
  "constructValidLogSubscriptionFilter filters =
     (case filters of
        JUndef \<Rightarrow> None
      | JNull \<Rightarrow> None
      | JObj ps \<Rightarrow> Some (JObj (filter (\<lambda>(k, v). v \<noteq> JUndef \<and> (k = ''address'' \<or> k = ''topics'')) ps))
      | _ \<Rightarrow> Some (JObj []))"

definition validateIsContractOrTokenAddress :: "'c ws_env \<Rightarrow> request_details \<Rightarrow> jsv \<Rightarrow> thrown + unit" where
  "validateIsContractOrTokenAddress env d address =
     and_then (we_resolveEntityType env (js_to_string address)) (\<lambda>isContractOrToken.
       if isContractOrToken then Inr ()
       else Inl (ThrownRpc (newWithRequestId
         (INVALID_PARAMETER ''filters.address''
           (js_to_string address @ '' is not a valid contract or token type or does not exists''))
         (formattedRequestId d))))"

fun validate_addresses :: "'c ws_env \<Rightarrow> request_details \<Rightarrow> jsv list \<Rightarrow> thrown + unit" where
  "validate_addresses env d [] = Inr ()"
| "validate_addresses env d (a # as) =
     and_then (validateIsContractOrTokenAddress env d a) (\<lambda>_. validate_addresses env d as)"

definition validateSubscribeEthLogsParams :: "'c ws_env \<Rightarrow> request_details \<Rightarrow> jsv \<Rightarrow> thrown + unit" where
  "validateSubscribeEthLogsParams env d filters =
     and_then (EthSubscribeLogsParamsObject_validate filters) (\<lambda>(object, valid).
       let address = js_prop object ''address''
       in if truthy address
          then (case address of JArr as \<Rightarrow> validate_addresses env d as
                | _ \<Rightarrow> validateIsContractOrTokenAddress env d address)
          else Inr ())"

type_synonym 'c handler_outcome = "(thrown + response) \<times> 'c ws_server"

fun throw_text :: "string + 'a \<Rightarrow> thrown + 'a" where
  "throw_text (Inl msg) = Inl (ThrownOther msg)"
| "throw_text (Inr v) = Inr v"

definition make_subscription ::
  "'c ws_env \<Rightarrow> string \<Rightarrow> jsv \<Rightarrow> string \<Rightarrow> jsv \<Rightarrow> 'c ws_server \<Rightarrow> 'c handler_outcome" where
  "make_subscription env i requestId event filters s =
     (let (subscriptionId, service) =
            ss_subscribe (we_subscription_env env) (we_generateId env) i event filters (sv_service s)
      in (throw_text (jsonResp requestId None (JStr subscriptionId)), s\<lparr> sv_service := service \<rparr>))"

definition handleEthSubscribeNewHeads ::
  "'c ws_env \<Rightarrow> string \<Rightarrow> jsv \<Rightarrow> jsv \<Rightarrow> 'c ws_server \<Rightarrow> 'c handler_outcome" where
  "handleEthSubscribeNewHeads env i requestId filters s =
     (if \<not> we_newHeadsEnabled env then (Inl (ThrownRpc UNSUPPORTED_METHOD), s)
      else make_subscription env i requestId ''newHeads'' filters s)"

definition handleEthSubscribeLogs ::
  "'c ws_env \<Rightarrow> request_details \<Rightarrow> string \<Rightarrow> jsv \<Rightarrow> jsv \<Rightarrow> 'c ws_server \<Rightarrow> 'c handler_outcome" where
  "handleEthSubscribeLogs env d i requestId filters s =
     (case constructValidLogSubscriptionFilter filters of
        None \<Rightarrow> (Inl (ThrownOther ''Cannot convert undefined or null to object''), s)
      | Some validFiltersObject \<Rightarrow>
          (case validateSubscribeEthLogsParams env d validFiltersObject of
             Inl e \<Rightarrow> (Inl e, s)
           | Inr u \<Rightarrow>
               if \<not> we_multipleAddressesEnabled env \<and>
                  (case js_prop validFiltersObject ''address'' of JArr as \<Rightarrow> 1 < length as | _ \<Rightarrow> False)
               then (Inl (ThrownRpc (INVALID_PARAMETER ''filters.address'' ''Only one contract address is allowed'')), s)
               else make_subscription env i requestId ''logs'' validFiltersObject s))"

definition subscriptions_disabled :: "thrown + response" where
  "subscriptions_disabled = throw_text (jsonResp JNull (Some WS_SUBSCRIPTIONS_DISABLED) JUndef)"

definition handleEthSubscribe ::
  "'c ws_env \<Rightarrow> request_details \<Rightarrow> string \<Rightarrow> jsv \<Rightarrow> jsv \<Rightarrow> 'c ws_server \<Rightarrow> 'c handler_outcome" where
  "handleEthSubscribe env d i requestId params s =
     (if \<not> we_subscriptionsEnabled env then (subscriptions_disabled, s)
      else (let event = index_of_params params 0; filters = index_of_params params 1;
                (response, s') =
                  (if event = JStr ''logs'' then handleEthSubscribeLogs env d i requestId filters s
                   else if event = JStr ''newHeads'' then handleEthSubscribeNewHeads env i requestId filters s
                   else (Inl (ThrownRpc UNSUPPORTED_METHOD), s))
            in (response, case response of Inl e \<Rightarrow> s' | Inr r \<Rightarrow> incrementSubs i s')))"

definition handleEthUnsubscribe ::
  "'c ws_env \<Rightarrow> string \<Rightarrow> jsv \<Rightarrow> jsv \<Rightarrow> 'c ws_server \<Rightarrow> 'c handler_outcome" where
  "handleEthUnsubscribe env i requestId params s =
     (if \<not> we_subscriptionsEnabled env then (subscriptions_disabled, s)
      else (let (unsubbedCount, service) = ss_unsubscribe i (index_of_params params 0) (sv_service s)
            in (throw_text (jsonResp requestId None (JBool (unsubbedCount \<noteq> 0))),
                decrementSubs i (int unsubbedCount) (s\<lparr> sv_service := service \<rparr>))))"

subsection \<open>One request\<close>

definition handleSendingRequestsToRelay :: "'c ws_env \<Rightarrow> jsv \<Rightarrow> jsv \<Rightarrow> jsv \<Rightarrow> thrown + response" where
  "handleSendingRequestsToRelay env requestId method params =
     (case (case we_executeRpcMethod env method params of
              Inl msg \<Rightarrow> Inl msg
            | Inr (Inl e) \<Rightarrow> jsonResp requestId (Some e) JUndef
            | Inr (Inr v) \<Rightarrow> jsonResp requestId None v) of
        Inr r \<Rightarrow> Inr r
      | Inl msg \<Rightarrow> throw_text (jsonResp requestId (Some (InternalError (JStr msg))) JUndef))"

fun caught_error :: "thrown \<Rightarrow> json_rpc_error" where
  "caught_error (ThrownRpc e) = e"
| "caught_error e = INTERNAL_ERROR (json_quote (thrown_message_text e))"

definition ws_getRequestResult ::
  "'c ws_env \<Rightarrow> request_details \<Rightarrow> string \<Rightarrow> jsv \<Rightarrow> 'c ws_server \<Rightarrow> (string + response) \<times> 'c ws_server" where
  "ws_getRequestResult env d i request s =
     (if request = JNull \<or> request = JUndef then (Inl null_property_error, s)
      else (let method = js_prop request ''method'';
                params = (if truthy (js_prop request ''params'') then js_prop request ''params'' else JArr []);
                (valid, request') = ws_validateJsonRpcRequest env request;
                requestId = js_prop request' ''id'';
                idOrNull = (if truthy requestId then requestId else JNull)
            in if \<not> valid then (jsonResp idOrNull (Some InvalidRequest) JUndef, s)
               else (case verifySupportedMethod method of
                 None \<Rightarrow> (Inl ''method.toUpperCase is not a function'', s)
               | Some False \<Rightarrow> (jsonResp idOrNull (Some (MethodNotFound (js_to_string method))) JUndef, s)
               | Some True \<Rightarrow>
                   (case shouldRateLimitOnMethod env (socket_ip i s) (js_to_string method) of
                      None \<Rightarrow> (Inl ''Cannot read properties of undefined'', s)
                    | Some True \<Rightarrow> (jsonResp JNull (Some (IPRateLimitExceeded (js_to_string method))) JUndef, s)
                    | Some False \<Rightarrow>
                        if method = JStr ETH_SUBSCRIBE \<and> \<not> validateSubscriptionLimit (we_config env) i s
                        then (jsonResp requestId (Some MAX_SUBSCRIPTIONS) JUndef, s)
                        else (let (outcome, s') =
                                    (if method = JStr ETH_SUBSCRIBE then handleEthSubscribe env d i requestId params s
                                     else if method = JStr ETH_UNSUBSCRIBE then handleEthUnsubscribe env i requestId params s
                                     else (handleSendingRequestsToRelay env requestId method params, s))
                              in (case outcome of
                                    Inr r \<Rightarrow> Inr r
                                  | Inl e \<Rightarrow> jsonResp requestId (Some (caught_error e)) JUndef, s'))))))"

subsection \<open>One message\<close>

datatype ws_reply = WsSingle response | WsBatch "response list" | WsRawError json_rpc_error

fun ws_batch ::
  "'c ws_env \<Rightarrow> request_details \<Rightarrow> string \<Rightarrow> jsv list \<Rightarrow> 'c ws_server \<Rightarrow> (string + response list) \<times> 'c ws_server" where
  "ws_batch env d i [] s = (Inr [], s)"
| "ws_batch env d i (item # items) s =
     (let (r, s1) = (case js_get item ''method'' of
            None \<Rightarrow> (Inl null_property_error, s)
          | Some method \<Rightarrow>
              if method \<in> JStr ` set (we_batchDisallowedMethods env)
              then (jsonResp (js_prop item ''id'') (Some (BATCH_REQUESTS_METHOD_NOT_PERMITTED (js_to_string method))) JUndef, s)
              else ws_getRequestResult env d i item s)
      in case r of
           Inl msg \<Rightarrow> (Inl msg, s1)
         | Inr resp \<Rightarrow> (case ws_batch env d i items s1 of
             (Inl msg, s2) \<Rightarrow> (Inl msg, s2) | (Inr resps, s2) \<Rightarrow> (Inr (resp # resps), s2)))"

text \<open>The message comes as parsed JSON, or not at all where it is none.\<close>

definition on_message ::
  "'c ws_env \<Rightarrow> request_details \<Rightarrow> int \<Rightarrow> string \<Rightarrow> jsv option \<Rightarrow> 'c ws_server \<Rightarrow> (string + ws_reply) \<times> 'c ws_server" where
  "on_message env d now i parsed s0 =
     (let cfg = we_config env; s = resetInactivityTTLTimer cfg now i s0 in
      case parsed of
        None \<Rightarrow> (Inr (WsRawError (JsonRpcError (err_code INVALID_REQUEST) (err_message INVALID_REQUEST) (err_data INVALID_REQUEST) None)), s)
      | Some (JArr request) \<Rightarrow>
          if \<not> we_batchRequestsEnabled env then
            (map_sum id (\<lambda>r. WsBatch [r]) (jsonResp JNull (Some WS_BATCH_REQUESTS_DISABLED) JUndef), s)
          else if we_batchRequestsMaxSize env < length request then
            (map_sum id (\<lambda>r. WsBatch [r]) (jsonResp JNull (Some (BATCH_REQUESTS_AMOUNT_MAX_EXCEEDED
               (int (length request)) (int (we_batchRequestsMaxSize env)))) JUndef), s)
          else (case ws_batch env d i request s of
                  (Inl msg, s1) \<Rightarrow> (Inl msg, s1)
                | (Inr rs, s1) \<Rightarrow> (Inr (WsBatch rs), resetInactivityTTLTimer cfg now i s1))
      | Some request \<Rightarrow>
          (case ws_getRequestResult env d i request s of
             (Inl msg, s1) \<Rightarrow> (Inl msg, s1)
           | (Inr r, s1) \<Rightarrow> (Inr (WsSingle r), resetInactivityTTLTimer cfg now i s1)))"

subsection \<open>What a client is answered\<close>

lemma ws_validate_object:
  assumes "is_plain_object request"
  shows "ws_validateJsonRpcRequest env request =
    (let ok = js_prop request ''jsonrpc'' = JStr ''2.0'' \<and> has_own request ''method'' \<and>
              (has_own request ''id'' \<or> we_requestIdIsOptional env)
     in (ok, if ok \<and> \<not> has_own request ''id'' then js_set_prop request ''id'' (JStr ''0'') else request))"
  using assms by (auto simp: ws_validateJsonRpcRequest_def ws_hasInvalidRequestId_def Let_def has_own_set_prop)

definition ws_id :: "'c ws_env \<Rightarrow> jsv \<Rightarrow> jsv" where
  "ws_id env request = (if has_own request ''id'' then js_prop request ''id'' else JStr ''0'')"

definition ws_well_formed :: "'c ws_env \<Rightarrow> jsv \<Rightarrow> bool" where
  "ws_well_formed env request \<longleftrightarrow>
     is_plain_object request \<and> js_prop request ''jsonrpc'' = JStr ''2.0'' \<and> has_own request ''method'' \<and>
     (has_own request ''id'' \<or> we_requestIdIsOptional env)"

lemma ws_validate_well_formed:
  assumes "ws_well_formed env request"
  shows "\<exists>request'. ws_validateJsonRpcRequest env request = (True, request') \<and> js_prop request' ''id'' = ws_id env request"
  using assms unfolding ws_well_formed_def
  by (auto simp: ws_validate_object Let_def ws_id_def js_prop_set_same)

lemma ws_well_formed_defined: "ws_well_formed env request \<Longrightarrow> request \<noteq> JNull \<and> request \<noteq> JUndef"
  by (auto simp: ws_well_formed_def)

text \<open>
  A well-formed request for a method of the relay is answered once, with its id: with the result, the
  error of the relay, or an internal error where the relay throws or answers nothing. Only when the
  rate limit is exceeded the answer has no id.
\<close>

theorem ws_relay_request_answered:
  assumes "ws_well_formed env request" and "js_prop request ''method'' = JStr m"
    and "js_toUpperCase m \<in> set WS_METHODS" and "m \<noteq> ''eth_subscribe''" and "m \<noteq> ''eth_unsubscribe''"
    and "we_methodConfiguration env m = Some limit" and "response_id (ws_id env request)"
  shows "ws_getRequestResult env d i request s =
    (Inr (if we_shouldRateLimit env (socket_ip i s) m limit
          then \<lparr> resp_id = JNull, resp_outcome = Inl (IPRateLimitExceeded m) \<rparr>
          else \<lparr> resp_id = ws_id env request,
                 resp_outcome =
                   (case we_executeRpcMethod env (JStr m)
                      (if truthy (js_prop request ''params'') then js_prop request ''params'' else JArr []) of
                      Inl msg \<Rightarrow> Inl (plain_error (-32603) ''Internal error'')
                    | Inr (Inl e) \<Rightarrow> Inl e
                    | Inr (Inr v) \<Rightarrow> if v = JUndef then Inl (plain_error (-32603) ''Internal error'') else Inr v) \<rparr>), s)"
proof -
  obtain request' where valid: "ws_validateJsonRpcRequest env request = (True, request')"
    "js_prop request' ''id'' = ws_id env request"
    using ws_validate_well_formed [OF assms(1)] by blast
  note defined = ws_well_formed_defined [OF assms(1)]
  have null: "response_id JNull" by (simp add: response_id_def)
  show ?thesis
    using assms(2-7) defined
    by (simp add: ws_getRequestResult_def valid Let_def verifySupportedMethod_def shouldRateLimitOnMethod_def
        ETH_SUBSCRIBE_def ETH_UNSUBSCRIBE_def handleSendingRequestsToRelay_def jsonResp_error jsonResp_result
        InternalError_text null split: sum.split)
qed

text \<open>
  A method whose name is supported but for its upper and lower case letters is let through to the rate
  limiter, which has no configuration for it and throws: the client never gets an answer, neither to
  this request nor to any other of its batch.
\<close>

theorem ws_unconfigured_method_unanswered:
  assumes "ws_well_formed env request" and "js_prop request ''method'' = JStr m"
    and "js_toUpperCase m \<in> set WS_METHODS" and "m \<noteq> ''eth_subscribe''" and "m \<noteq> ''eth_unsubscribe''"
    and "we_methodConfiguration env m = None" and "m \<notin> set (we_batchDisallowedMethods env)"
    and "we_batchRequestsEnabled env" and "Suc (length items) \<le> we_batchRequestsMaxSize env"
  shows "\<exists>msg msg'. fst (on_message env d now i (Some request) s) = Inl msg \<and>
    fst (on_message env d now i (Some (JArr (items @ [request]))) s) = Inl msg'"
proof -
  obtain request' where valid: "ws_validateJsonRpcRequest env request = (True, request')"
    using ws_validate_well_formed [OF assms(1)] by blast
  note defined = ws_well_formed_defined [OF assms(1)]
  have single: "\<exists>msg. ws_getRequestResult env d i request t = (Inl msg, t)" for t
    using assms(2-6) defined
    by (simp add: ws_getRequestResult_def valid Let_def verifySupportedMethod_def shouldRateLimitOnMethod_def
        ETH_SUBSCRIBE_def ETH_UNSUBSCRIBE_def)
  obtain ps where ps: "request = JObj ps" using assms(1) by (cases request) (auto simp: ws_well_formed_def)
  have item: "\<exists>msg. fst (ws_batch env d i [request] t) = Inl msg" for t
    using single [of t] assms(2,7) by (auto simp: ps js_prop_def image_iff)
  have batch: "\<exists>msg. fst (ws_batch env d i (items @ [request]) t) = Inl msg" for t
  proof (induction items arbitrary: t)
    case Nil
    show ?case using item by simp
  next
    case (Cons x xs)
    have IH: "ws_batch env d i (xs @ [request]) t' \<noteq> (Inr rs, t'')" for t' rs t''
      using Cons [of t'] by auto
    show ?case by (auto simp: Let_def IH split: prod.split sum.split)
  qed
  have "\<exists>msg. fst (on_message env d now i (Some request) s) = Inl msg"
    using single [of "resetInactivityTTLTimer (we_config env) now i s"] by (auto simp: on_message_def Let_def ps)
  moreover have "\<exists>msg. fst (on_message env d now i (Some (JArr (items @ [request]))) s) = Inl msg"
    using batch [of "resetInactivityTTLTimer (we_config env) now i s"] assms(8,9)
    by (auto simp: on_message_def Let_def case_prod_beta split: sum.split)
  ultimately show ?thesis by blast
qed

text \<open>An outcome that may become an error answer has changed nothing.\<close>

definition harmless :: "jsv \<Rightarrow> 'c ws_server \<Rightarrow> 'c handler_outcome \<Rightarrow> bool" where
  "harmless requestId s out =
     (case out of
        (Inr r, s') \<Rightarrow> s' = s \<or> (\<exists>v. resp_outcome r = Inr v)
      | (Inl e, s') \<Rightarrow> s' = s \<or> \<not> response_id requestId)"

lemma harmless_make_subscription: "harmless requestId s (make_subscription env i requestId event filters s)"
  by (simp add: make_subscription_def harmless_def jsonResp_result split: prod.split)

lemma harmless_logs: "harmless requestId s (handleEthSubscribeLogs env d i requestId filters s)"
  using harmless_make_subscription [of requestId s env i]
  by (auto simp: handleEthSubscribeLogs_def split: option.split sum.split) (simp_all add: harmless_def)

lemma harmless_heads: "harmless requestId s (handleEthSubscribeNewHeads env i requestId filters s)"
  using harmless_make_subscription [of requestId s env i]
  by (simp add: handleEthSubscribeNewHeads_def) (simp add: harmless_def)

lemma harmless_disabled: "harmless requestId s (subscriptions_disabled, s)"
  by (simp add: harmless_def split: sum.split)

lemma logs_answer: "handleEthSubscribeLogs env d i requestId filters s = (Inr r, s') \<Longrightarrow> \<exists>v. resp_outcome r = Inr v"
  by (auto simp: handleEthSubscribeLogs_def make_subscription_def jsonResp_result Let_def
      split: option.splits sum.splits if_splits prod.splits)

lemma heads_answer: "handleEthSubscribeNewHeads env i requestId filters s = (Inr r, s') \<Longrightarrow> \<exists>v. resp_outcome r = Inr v"
  by (auto simp: handleEthSubscribeNewHeads_def make_subscription_def jsonResp_result Let_def
      split: if_splits prod.splits)

lemma harmless_subscribe: "harmless requestId s (handleEthSubscribe env d i requestId params s)"
proof (cases "we_subscriptionsEnabled env")
  case True
  let ?filters = "index_of_params params 1"
  obtain o1 s1 where o1: "handleEthSubscribeLogs env d i requestId ?filters s = (o1, s1)"
    by (cases "handleEthSubscribeLogs env d i requestId ?filters s")
  obtain o2 s2 where o2: "handleEthSubscribeNewHeads env i requestId ?filters s = (o2, s2)"
    by (cases "handleEthSubscribeNewHeads env i requestId ?filters s")
  have "harmless requestId s (o1, case o1 of Inl e \<Rightarrow> s1 | Inr r \<Rightarrow> incrementSubs i s1)"
    using harmless_logs [of requestId s env d i ?filters] logs_answer [of env d i requestId ?filters s] o1
    by (cases o1) (auto simp: harmless_def)
  moreover have "harmless requestId s (o2, case o2 of Inl e \<Rightarrow> s2 | Inr r \<Rightarrow> incrementSubs i s2)"
    using harmless_heads [of requestId s env i ?filters] heads_answer [of env i requestId ?filters s] o2
    by (cases o2) (auto simp: harmless_def)
  moreover have "harmless requestId s (Inl (ThrownRpc UNSUPPORTED_METHOD), s)"
    by (simp add: harmless_def)
  ultimately show ?thesis
    using True by (simp add: handleEthSubscribe_def Let_def o1 o2 del: One_nat_def)
qed (simp add: handleEthSubscribe_def harmless_disabled)

lemma harmless_unsubscribe: "harmless requestId s (handleEthUnsubscribe env i requestId params s)"
  by (auto simp: handleEthUnsubscribe_def harmless_disabled Let_def)
    (auto simp: harmless_def jsonResp_result split: prod.split sum.split)

lemma ws_getRequestResult_harmless:
  assumes "ws_getRequestResult env d i request s = (answer, s')"
  defines "requestId \<equiv> js_prop (snd (ws_validateJsonRpcRequest env request)) ''id''"
  shows "s' = s \<or> (\<exists>out. harmless requestId s (out, s') \<and>
    answer = (case out of Inr r \<Rightarrow> Inr r | Inl e \<Rightarrow> jsonResp requestId (Some (caught_error e)) JUndef))"
proof -
  obtain valid request' where v: "ws_validateJsonRpcRequest env request = (valid, request')"
    by (cases "ws_validateJsonRpcRequest env request")
  have id: "requestId = js_prop request' ''id''" by (simp add: requestId_def v)
  let ?params = "if truthy (js_prop request ''params'') then js_prop request ''params'' else JArr []"
  obtain o1 s1 where o1: "handleEthSubscribe env d i requestId ?params s = (o1, s1)"
    by (cases "handleEthSubscribe env d i requestId ?params s")
  obtain o2 s2 where o2: "handleEthUnsubscribe env i requestId ?params s = (o2, s2)"
    by (cases "handleEthUnsubscribe env i requestId ?params s")
  have "harmless requestId s (o1, s1)" "harmless requestId s (o2, s2)"
    using harmless_subscribe [of requestId s env d i ?params] harmless_unsubscribe [of requestId s env i ?params] o1 o2
    by simp_all
  moreover have "harmless requestId s (handleSendingRequestsToRelay env requestId (js_prop request ''method'') ?params, s)"
    by (simp add: harmless_def split: sum.split)
  moreover obtain out s'' where handled:
    "(out, s'') = (if js_prop request ''method'' = JStr ETH_SUBSCRIBE then handleEthSubscribe env d i requestId ?params s
       else if js_prop request ''method'' = JStr ETH_UNSUBSCRIBE then handleEthUnsubscribe env i requestId ?params s
       else (handleSendingRequestsToRelay env requestId (js_prop request ''method'') ?params, s))"
    by (metis surj_pair)
  ultimately have "harmless requestId s (out, s'')"
    using o1 o2 by (simp split: if_split_asm)
  moreover have "s' = s \<or> s' = s'' \<and>
      answer = (case out of Inr r \<Rightarrow> Inr r | Inl e \<Rightarrow> jsonResp requestId (Some (caught_error e)) JUndef)"
    using assms(1) unfolding ws_getRequestResult_def v Let_def prod.case id [symmetric] handled [symmetric]
    by (simp split: if_split_asm option.split_asm bool.split_asm)
  ultimately show ?thesis by blast
qed

text \<open>
  A request that is answered with an error has changed nothing: no subscription, no quota, no timer.
\<close>

theorem ws_error_changes_nothing:
  assumes "ws_getRequestResult env d i request s = (Inr r, s')" and "resp_outcome r = Inl e"
  shows "s' = s"
  using ws_getRequestResult_harmless [OF assms(1)] assms(2)
  by (auto simp: harmless_def jsonResp_error split: sum.splits if_splits)

subsection \<open>A server that answers\<close>

definition sample_ws_env :: "list_lru ws_env" where
  "sample_ws_env =
     \<lparr> we_requestIdIsOptional = False, we_subscriptionsEnabled = True, we_newHeadsEnabled = False,
       we_multipleAddressesEnabled = False, we_batchRequestsEnabled = True, we_batchRequestsMaxSize = 20,
       we_batchDisallowedMethods = [''eth_subscribe''], we_config = sample_ws_config,
       we_subscription_env = sample_subscription_env, we_generateId = ''0x1'',
       we_methodConfiguration = [''eth_chainId'' \<mapsto> 1600], we_shouldRateLimit = (\<lambda>ip m limit. False),
       we_executeRpcMethod = (\<lambda>m ps. Inr (Inr (JStr ''0x12a''))), we_resolveEntityType = (\<lambda>a. Inr True) \<rparr>"

definition sample_request :: "string \<Rightarrow> jsv" where
  "sample_request method =
     JObj [(''jsonrpc'', JStr ''2.0''), (''id'', JNum 7), (''method'', JStr method),
           (''params'', JArr [JStr ''newHeads''])]"

lemma sample_methods:
  "js_toUpperCase ''eth_chainId'' = ''ETH_CHAINID''"
  "js_toUpperCase ''eth_chainid'' = ''ETH_CHAINID''"
  "js_toUpperCase ''eth_subscribe'' = ''ETH_SUBSCRIBE''"
  by code_simp+

theorem ws_relay_request_answered_witness:
  "ws_getRequestResult sample_ws_env sample_details ''c1'' (sample_request ''eth_chainId'') sample_server =
    (Inr \<lparr> resp_id = JNum 7, resp_outcome = Inr (JStr ''0x12a'') \<rparr>, sample_server)"
  by (subst ws_relay_request_answered [where m = "''eth_chainId''" and limit = 1600])
    (simp_all add: ws_well_formed_def sample_request_def sample_ws_env_def sample_methods WS_METHODS_def ws_id_def
      response_id_def)

theorem ws_unconfigured_method_unanswered_witness:
  "\<exists>msg. fst (on_message sample_ws_env sample_details 60 ''c1''
     (Some (JArr [sample_request ''eth_chainId'', sample_request ''eth_chainid''])) sample_server) = Inl msg"
  using ws_unconfigured_method_unanswered
    [where request = "sample_request ''eth_chainid''" and m = "''eth_chainid''" and env = sample_ws_env
      and items = "[sample_request ''eth_chainId'']"]
  by (force simp: ws_well_formed_def sample_request_def sample_ws_env_def sample_methods WS_METHODS_def)

theorem ws_error_changes_nothing_witness:
  "\<exists>r s'. ws_getRequestResult sample_ws_env sample_details ''c1'' (sample_request ''eth_subscribe'') sample_server = (Inr r, s') \<and>
     s' = sample_server"
proof -
  have "\<exists>r s' e. ws_getRequestResult sample_ws_env sample_details ''c1'' (sample_request ''eth_subscribe'') sample_server =
      (Inr r, s') \<and> resp_outcome r = Inl e"
    by (simp add: ws_getRequestResult_def ws_validateJsonRpcRequest_def ws_hasInvalidRequestId_def Let_def
        sample_request_def sample_ws_env_def verifySupportedMethod_def sample_methods WS_METHODS_def
        shouldRateLimitOnMethod_def ETH_SUBSCRIBE_def validateSubscriptionLimit_def sample_server_sockets
        sample_ws_config_def handleEthSubscribe_def index_of_params_def handleEthSubscribeNewHeads_def
        jsonResp_error response_id_def)
  with ws_error_changes_nothing show ?thesis by blast
qed

end
