(* ===== verification/RelayMonad.thy ===== *)
theory RelayMonad
  imports JsonRpcErrors
begin

section \<open>Computations that may throw\<close>

text \<open>
  An \<open>async\<close> function of the relay, run from one state to the next: \<open>Inl\<close> is what it throws.
  \<open>and_do\<close> is \<open>await\<close> followed by the rest, \<open>catch_do\<close> is \<open>try ... catch\<close>, \<open>map_do\<close> awaits the
  same call for every element of a list, in order.
\<close>

type_synonym ('s, 'a) action = "'s \<Rightarrow> (thrown + 'a) \<times> 's"

named_theorems run_simps "evaluation of actions"

definition ret :: "'a \<Rightarrow> ('s, 'a) action" where
  "ret a = (\<lambda>s. (Inr a, s))"

definition throw :: "thrown \<Rightarrow> ('s, 'a) action" where
  "throw e = (\<lambda>s. (Inl e, s))"

definition and_do :: "('s, 'a) action \<Rightarrow> ('a \<Rightarrow> ('s, 'b) action) \<Rightarrow> ('s, 'b) action" where
  "and_do m f = (\<lambda>s. case m s of (Inl e, s') \<Rightarrow> (Inl e, s') | (Inr a, s') \<Rightarrow> f a s')"

definition catch_do :: "('s, 'a) action \<Rightarrow> (thrown \<Rightarrow> ('s, 'a) action) \<Rightarrow> ('s, 'a) action" where
  "catch_do m h = (\<lambda>s. case m s of (Inl e, s') \<Rightarrow> h e s' | (Inr a, s') \<Rightarrow> (Inr a, s'))"

definition lift :: "thrown + 'a \<Rightarrow> ('s, 'a) action" where
  "lift r = (\<lambda>s. (r, s))"

fun map_do :: "('a \<Rightarrow> ('s, 'b) action) \<Rightarrow> 'a list \<Rightarrow> ('s, 'b list) action" where
  "map_do f [] = ret []"
| "map_do f (x # xs) = and_do (f x) (\<lambda>y. and_do (map_do f xs) (\<lambda>ys. ret (y # ys)))"

subsection \<open>Evaluation\<close>

lemma ret_run [run_simps]: "ret a s = (Inr a, s)"
  by (simp add: ret_def)

lemma throw_run [run_simps]: "throw e s = (Inl e, s)"
  by (simp add: throw_def)

lemma lift_run [run_simps]: "lift r s = (r, s)"
  by (simp add: lift_def)

lemma and_do_Inr [run_simps]: "m s = (Inr a, s') \<Longrightarrow> and_do m f s = f a s'"
  by (simp add: and_do_def)

lemma and_do_Inl [run_simps]: "m s = (Inl e, s') \<Longrightarrow> and_do m f s = (Inl e, s')"
  by (simp add: and_do_def)

lemma catch_do_Inr [run_simps]: "m s = (Inr a, s') \<Longrightarrow> catch_do m h s = (Inr a, s')"
  by (simp add: catch_do_def)

lemma catch_do_Inl [run_simps]: "m s = (Inl e, s') \<Longrightarrow> catch_do m h s = h e s'"
  by (simp add: catch_do_def)

lemma and_do_ret [simp]: "and_do (ret a) f = f a"
  by (simp add: and_do_def ret_def)

lemma and_do_throw [simp]: "and_do (throw e) f = throw e"
  by (simp add: and_do_def throw_def)

lemma and_do_assoc: "and_do (and_do m f) g = and_do m (\<lambda>a. and_do (f a) g)"
  by (auto simp: and_do_def fun_eq_iff split: prod.split sum.split)

lemma and_do_Inr_iff: "and_do m f s = (Inr b, s'') \<longleftrightarrow> (\<exists>a s'. m s = (Inr a, s') \<and> f a s' = (Inr b, s''))"
  by (auto simp: and_do_def split: prod.split sum.split)

lemma and_do_Inl_iff:
  "and_do m f s = (Inl e, s'') \<longleftrightarrow> m s = (Inl e, s'') \<or> (\<exists>a s'. m s = (Inr a, s') \<and> f a s' = (Inl e, s''))"
  by (auto simp: and_do_def split: prod.split sum.split)

lemma and_do_cong [fundef_cong]:
  "m s = m' s' \<Longrightarrow> (\<And>a t. m' s' = (Inr a, t) \<Longrightarrow> f a t = f' a t) \<Longrightarrow> and_do m f s = and_do m' f' s'"
  by (auto simp: and_do_def split: prod.split sum.split)

subsection \<open>What an action keeps\<close>

text \<open>\<open>keeps I m\<close>: whatever \<open>m\<close> returns or throws, \<open>I\<close> still holds if it held before.\<close>

definition keeps :: "('s \<Rightarrow> bool) \<Rightarrow> ('s, 'a) action \<Rightarrow> bool" where
  "keeps I m \<longleftrightarrow> (\<forall>s. I s \<longrightarrow> I (snd (m s)))"

named_theorems keeps_intros "actions that keep an invariant"

lemma keepsD: "keeps I m \<Longrightarrow> I s \<Longrightarrow> I (snd (m s))"
  by (simp add: keeps_def)

lemma keeps_ret [keeps_intros]: "keeps I (ret a)"
  by (simp add: keeps_def ret_def)

lemma keeps_throw [keeps_intros]: "keeps I (throw e)"
  by (simp add: keeps_def throw_def)

lemma keeps_lift [keeps_intros]: "keeps I (lift r)"
  by (simp add: keeps_def lift_def)

lemma keeps_and_do [keeps_intros]:
  assumes "keeps I m" and "\<And>a. keeps I (f a)"
  shows "keeps I (and_do m f)"
proof -
  have "I (snd (and_do m f s))" if "I s" for s
    using assms(1)[THEN keepsD, OF that] assms(2)[THEN keepsD]
    by (cases "m s") (auto simp: and_do_def split: sum.split)
  then show ?thesis by (simp add: keeps_def)
qed

lemma keeps_catch_do [keeps_intros]:
  assumes "keeps I m" and "\<And>e. keeps I (h e)"
  shows "keeps I (catch_do m h)"
proof -
  have "I (snd (catch_do m h s))" if "I s" for s
    using assms(1)[THEN keepsD, OF that] assms(2)[THEN keepsD]
    by (cases "m s") (auto simp: catch_do_def split: sum.split)
  then show ?thesis by (simp add: keeps_def)
qed

lemma keeps_if [keeps_intros]: "keeps I m \<Longrightarrow> keeps I m' \<Longrightarrow> keeps I (if b then m else m')"
  by simp

lemma keeps_map_do [keeps_intros]: "(\<And>x. keeps I (f x)) \<Longrightarrow> keeps I (map_do f xs)"
  by (induction xs) (simp_all add: keeps_intros)

end
