(* ===== verification/MirrorClient.thy ===== *)
theory MirrorClient
  imports RelayMonad CacheService Dispatcher
begin

section \<open>The client of the mirror node\<close>

text \<open>
  Models \<open>clients/mirrorNodeClient.ts\<close>. The HTTP library with its own retries, the clock and the
  mirror node behind it are one world, a parameter of the model: a request takes it from one state
  to the next and is answered with the parsed body or with a failure. The responses are cached with
  the operations of \<open>CacheService\<close>. Logging and metrics are left out.
\<close>

datatype http_client = RestClient | Web3Client

record http_request =
  hr_client :: http_client
  hr_method :: string
  hr_path :: string
  hr_headers :: "(string \<times> string) list"
  hr_data :: jsv
  hr_retries :: "int option"
  hr_bigNumbers :: bool

text \<open>A failure has the status of the response, if there was one, and the code of the library.\<close>

datatype http_answer = HttpOk jsv | HttpFailed http_client_error "int option" "string option"

record ('c, 'r, 'w) mirror_env =
  me_cache :: "('c, 'r) cache_env"
  me_http :: "http_request \<Rightarrow> 'w \<Rightarrow> http_answer \<times> 'w"
  me_now :: "'w \<Rightarrow> int"
  me_sleep :: "int \<Rightarrow> 'w \<Rightarrow> 'w"
  me_tokenAnswersFirst :: "'w \<Rightarrow> bool"
  me_callAcceptedErrors :: "int list"
  me_retryDelay :: int
  me_requestRetryCount :: nat
  me_limitParam :: int
  me_resultsPageMax :: int
  me_logsPageMax :: int

record ('c, 'r, 'w) relay_state =
  rs_cache :: "('c, 'r) cache_state"
  rs_world :: 'w

type_synonym ('c, 'r, 'w, 'a) relay_action = "(('c, 'r, 'w) relay_state, 'a) action"

definition cached_get :: "('c, 'r, 'w) mirror_env \<Rightarrow> string \<Rightarrow> ('c, 'r, 'w, jsv) relay_action" where
  "cached_get env key =
     (\<lambda>s. case getAsync (me_cache env) (me_now env (rs_world s)) key (rs_cache s) of
        (v, c) \<Rightarrow> (Inr v, s\<lparr> rs_cache := c \<rparr>))"

definition cached_set ::
  "('c, 'r, 'w) mirror_env \<Rightarrow> string \<Rightarrow> jsv \<Rightarrow> ttl option \<Rightarrow> ('c, 'r, 'w, unit) relay_action" where
  "cached_set env key v t =
     (\<lambda>s. (Inr (), s\<lparr> rs_cache := cache_set (me_cache env) (me_now env (rs_world s)) key v t (rs_cache s) \<rparr>))"

definition cached_delete :: "('c, 'r, 'w) mirror_env \<Rightarrow> string \<Rightarrow> ('c, 'r, 'w, unit) relay_action" where
  "cached_delete env key =
     (\<lambda>s. (Inr (), s\<lparr> rs_cache := cache_delete (me_cache env) (me_now env (rs_world s)) key (rs_cache s) \<rparr>))"

definition sleep :: "('c, 'r, 'w) mirror_env \<Rightarrow> ('c, 'r, 'w, unit) relay_action" where
  "sleep env = (\<lambda>s. (Inr (), s\<lparr> rs_world := me_sleep env (me_retryDelay env) (rs_world s) \<rparr>))"

subsection \<open>Paths\<close>

abbreviation GET_ACCOUNTS_BY_ID_ENDPOINT :: string where "GET_ACCOUNTS_BY_ID_ENDPOINT \<equiv> ''accounts/''"
abbreviation GET_BALANCE_ENDPOINT :: string where "GET_BALANCE_ENDPOINT \<equiv> ''balances''"
abbreviation GET_BLOCK_ENDPOINT :: string where "GET_BLOCK_ENDPOINT \<equiv> ''blocks/''"
abbreviation GET_BLOCKS_ENDPOINT :: string where "GET_BLOCKS_ENDPOINT \<equiv> ''blocks''"
abbreviation GET_TOKENS_ENDPOINT :: string where "GET_TOKENS_ENDPOINT \<equiv> ''tokens''"
abbreviation GET_CONTRACT_ENDPOINT :: string where "GET_CONTRACT_ENDPOINT \<equiv> ''contracts/''"
abbreviation CONTRACT_CALL_ENDPOINT :: string where "CONTRACT_CALL_ENDPOINT \<equiv> ''contracts/call''"
abbreviation GET_NETWORK_FEES_ENDPOINT :: string where "GET_NETWORK_FEES_ENDPOINT \<equiv> ''network/fees''"
abbreviation GET_NETWORK_EXCHANGERATE_ENDPOINT :: string where
  "GET_NETWORK_EXCHANGERATE_ENDPOINT \<equiv> ''network/exchangerate''"
abbreviation GET_TRANSACTIONS_ENDPOINT :: string where "GET_TRANSACTIONS_ENDPOINT \<equiv> ''transactions''"
abbreviation GET_CONTRACT_RESULT_ENDPOINT :: string where "GET_CONTRACT_RESULT_ENDPOINT \<equiv> ''contracts/results/''"
abbreviation GET_CONTRACT_RESULTS_ENDPOINT :: string where "GET_CONTRACT_RESULTS_ENDPOINT \<equiv> ''contracts/results''"
abbreviation GET_CONTRACT_RESULT_LOGS_ENDPOINT :: string where
  "GET_CONTRACT_RESULT_LOGS_ENDPOINT \<equiv> ''contracts/results/logs''"
abbreviation CONTRACT_ADDRESS_STATE_ENDPOINT :: string where
  "CONTRACT_ADDRESS_STATE_ENDPOINT \<equiv> ''contracts/{address}/state''"
abbreviation GET_CONTRACT_RESULTS_BY_ADDRESS_ENDPOINT :: string where
  "GET_CONTRACT_RESULTS_BY_ADDRESS_ENDPOINT \<equiv> ''contracts/{address}/results''"
abbreviation GET_TRANSACTIONS_ENDPOINT_TRANSACTION_ID :: string where
  "GET_TRANSACTIONS_ENDPOINT_TRANSACTION_ID \<equiv> ''transactions/{transactionId}''"
abbreviation GET_CONTRACTS_RESULTS_ACTIONS :: string where
  "GET_CONTRACTS_RESULTS_ACTIONS \<equiv> ''contracts/results/{transactionId}/actions''"
abbreviation GET_CONTRACTS_RESULTS_OPCODES :: string where
  "GET_CONTRACTS_RESULTS_OPCODES \<equiv> ''contracts/results/{transactionId}/opcodes''"
abbreviation GET_CONTRACT_RESULT_LOGS_BY_ADDRESS_ENDPOINT :: string where
  "GET_CONTRACT_RESULT_LOGS_BY_ADDRESS_ENDPOINT \<equiv> ''contracts/{address}/results/logs''"
abbreviation GET_CONTRACT_RESULTS_DETAILS_BY_CONTRACT_ID_ENDPOINT :: string where
  "GET_CONTRACT_RESULTS_DETAILS_BY_CONTRACT_ID_ENDPOINT \<equiv> ''contracts/{contractId}/results/{timestamp}''"
abbreviation GET_CONTRACT_RESULTS_DETAILS_BY_ADDRESS_AND_TIMESTAMP_ENDPOINT :: string where
  "GET_CONTRACT_RESULTS_DETAILS_BY_ADDRESS_AND_TIMESTAMP_ENDPOINT \<equiv> ''contracts/{address}/results/{timestamp}''"

definition accepting_404 :: "string list" where
  "accepting_404 =
     [GET_ACCOUNTS_BY_ID_ENDPOINT, GET_BALANCE_ENDPOINT, GET_BLOCK_ENDPOINT, GET_BLOCKS_ENDPOINT,
      GET_CONTRACT_ENDPOINT, GET_CONTRACT_RESULTS_BY_ADDRESS_ENDPOINT,
      GET_CONTRACT_RESULTS_DETAILS_BY_CONTRACT_ID_ENDPOINT,
      GET_CONTRACT_RESULTS_DETAILS_BY_ADDRESS_AND_TIMESTAMP_ENDPOINT, GET_CONTRACT_RESULT_ENDPOINT,
      GET_CONTRACT_RESULT_LOGS_ENDPOINT, GET_CONTRACT_RESULT_LOGS_BY_ADDRESS_ENDPOINT,
      GET_CONTRACT_RESULTS_ENDPOINT, GET_CONTRACTS_RESULTS_ACTIONS, GET_CONTRACTS_RESULTS_OPCODES,
      GET_NETWORK_EXCHANGERATE_ENDPOINT, GET_NETWORK_FEES_ENDPOINT, GET_TOKENS_ENDPOINT,
      GET_TRANSACTIONS_ENDPOINT, CONTRACT_CALL_ENDPOINT, CONTRACT_ADDRESS_STATE_ENDPOINT]"

definition acceptedErrorStatuses :: "('c, 'r, 'w) mirror_env \<Rightarrow> string \<Rightarrow> int list" where
  "acceptedErrorStatuses env pathLabel =
     (if pathLabel = CONTRACT_CALL_ENDPOINT \<and> me_callAcceptedErrors env \<noteq> [] then me_callAcceptedErrors env
      else if pathLabel \<in> set accepting_404 then [404] else [])"

definition buildUrl :: "string \<Rightarrow> string" where
  "buildUrl baseUrl =
     (let a = (if starts_with ''http://'' baseUrl \<or> starts_with ''https://'' baseUrl then baseUrl
               else ''https://'' @ baseUrl);
          b = (if a \<noteq> [] \<and> last a = CHR ''/'' then a else a @ ''/'')
      in b @ ''api/v1/'')"

subsection \<open>One request\<close>

definition formatIpForForwardedHeader :: "string \<Rightarrow> string" where
  "formatIpForForwardedHeader ip =
     (if CHR '':'' \<in> set ip \<and> \<not> starts_with ''['' ip then ''['' @ ip @ '']'' else ip)"

definition effectiveStatusCode :: "int option \<Rightarrow> string option \<Rightarrow> int" where
  "effectiveStatusCode status code =
     (if status \<noteq> None \<and> status \<noteq> Some 0 then the status
      else case code of
        Some c \<Rightarrow> (if c = ''ECONNABORTED'' then 504
                   else if c = ''CONTRACT_REVERT_EXECUTED'' then 400
                   else if c = ''NOT_SUPPORTED'' then 501 else 567)
      | None \<Rightarrow> 567)"

definition handleError ::
  "('c, 'r, 'w) mirror_env \<Rightarrow> http_client_error \<Rightarrow> bool \<Rightarrow> string \<Rightarrow> int \<Rightarrow> thrown + jsv" where
  "handleError env e responded pathLabel statusCode =
     (if responded \<and> statusCode \<in> set (acceptedErrorStatuses env pathLabel) then Inr JNull
      else Inl (ThrownMirror (MirrorNodeClientError e statusCode)))"

definition request_headers :: "request_details \<Rightarrow> (string \<times> string) list" where
  "request_headers d =
     (''requestId'', rd_requestId d) #
     (if js_trim (rd_ipAddress d) \<noteq> ''''
      then [(''Forwarded'', ''for='' @ [CHR 34] @ formatIpForForwardedHeader (rd_ipAddress d) @ [CHR 34])] else [])"

definition mn_request ::
  "('c, 'r, 'w) mirror_env \<Rightarrow> string \<Rightarrow> string \<Rightarrow> string \<Rightarrow> request_details \<Rightarrow> jsv \<Rightarrow> int option
   \<Rightarrow> ('c, 'r, 'w, jsv) relay_action" where
  "mn_request env path pathLabel meth d data retries =
     (\<lambda>s. let get = (meth = ''GET''); rest = (get \<and> pathLabel \<noteq> GET_CONTRACTS_RESULTS_OPCODES);
              req = \<lparr> hr_client = (if rest then RestClient else Web3Client), hr_method = meth, hr_path = path,
                      hr_headers = request_headers d, hr_data = (if get then JUndef else data),
                      hr_retries = retries, hr_bigNumbers = rest \<rparr>;
              (answer, w) = me_http env req (rs_world s); s' = s\<lparr> rs_world := w \<rparr>
          in (case answer of
                HttpOk v \<Rightarrow> Inr v
              | HttpFailed e status code \<Rightarrow>
                  handleError env e (status \<noteq> None) pathLabel (effectiveStatusCode status code), s'))"

definition mn_get ::
  "('c, 'r, 'w) mirror_env \<Rightarrow> string \<Rightarrow> string \<Rightarrow> request_details \<Rightarrow> int option \<Rightarrow> ('c, 'r, 'w, jsv) relay_action" where
  "mn_get env path pathLabel d retries = mn_request env path pathLabel ''GET'' d JNull retries"

definition mn_post ::
  "('c, 'r, 'w) mirror_env \<Rightarrow> string \<Rightarrow> jsv \<Rightarrow> string \<Rightarrow> request_details \<Rightarrow> int option
   \<Rightarrow> ('c, 'r, 'w, jsv) relay_action" where
  "mn_post env path data pathLabel d retries =
     mn_request env path pathLabel ''POST'' d (if truthy data then data else JObj []) retries"

subsection \<open>Query parameters\<close>

fun query_text :: "string \<Rightarrow> jsv \<Rightarrow> string" where
  "query_text key (JArr vs) = intercalate ''&'' (map (\<lambda>v. key @ ''='' @ js_to_string v) vs)"
| "query_text key v = key @ ''='' @ js_to_string v"

definition getQueryParams :: "(string \<times> jsv) list \<Rightarrow> string" where
  "getQueryParams params =
     foldl (\<lambda>paramString (key, v). if paramString = '''' then ''?'' @ query_text key v
                                   else paramString @ ''&'' @ query_text key v) '''' params"

definition set_key :: "string \<Rightarrow> jsv \<Rightarrow> (string \<times> jsv) list \<Rightarrow> (string \<times> jsv) list" where
  "set_key k v ps =
     (if k \<in> fst ` set ps then map (\<lambda>p. if fst p = k then (k, v) else p) ps else ps @ [(k, v)])"

definition setQueryParam :: "string \<Rightarrow> jsv \<Rightarrow> (string \<times> jsv) list \<Rightarrow> (string \<times> jsv) list" where
  "setQueryParam key v ps =
     (if key \<noteq> '''' \<and> v \<noteq> JUndef \<and> v \<noteq> JNull \<and> v \<noteq> JStr '''' then
        (if \<not> truthy (prop_lookup ps key) then set_key key v ps
         else set_key key (JStr (js_to_string (prop_lookup ps key) @ ''&'' @ key @ ''='' @ js_to_string v)) ps)
      else ps)"

definition getLimitOrderQueryParam :: "int \<Rightarrow> string \<Rightarrow> jsv" where
  "getLimitOrderQueryParam limit order = JObj [(''limit'', JNum limit), (''order'', JStr order)]"

definition setLimitOrderParams ::
  "('c, 'r, 'w) mirror_env \<Rightarrow> jsv \<Rightarrow> (string \<times> jsv) list \<Rightarrow> (string \<times> jsv) list" where
  "setLimitOrderParams env limitOrderParams ps =
     (if truthy limitOrderParams
      then setQueryParam ''order'' (js_prop limitOrderParams ''order'')
             (setQueryParam ''limit'' (js_prop limitOrderParams ''limit'') ps)
      else setQueryParam ''order'' (JStr ''asc'') (setQueryParam ''limit'' (JNum (me_limitParam env)) ps))"

definition copy_params :: "(string \<times> string) list \<Rightarrow> jsv \<Rightarrow> (string \<times> jsv) list \<Rightarrow> (string \<times> jsv) list" where
  "copy_params names v ps = foldl (\<lambda>ps (key, field). setQueryParam key (js_prop v field) ps) ps names"

definition setContractResultsParams :: "jsv \<Rightarrow> (string \<times> jsv) list \<Rightarrow> (string \<times> jsv) list" where
  "setContractResultsParams contractResultsParams ps =
     (if truthy contractResultsParams
      then copy_params [(''block.hash'', ''blockHash''), (''block.number'', ''blockNumber''), (''from'', ''from''),
             (''internal'', ''internal''), (''timestamp'', ''timestamp''), (''transaction.index'', ''transactionIndex'')]
             contractResultsParams ps
      else ps)"

definition prepareLogsParams :: "('c, 'r, 'w) mirror_env \<Rightarrow> jsv \<Rightarrow> jsv \<Rightarrow> string" where
  "prepareLogsParams env contractLogsResultsParams limitOrderParams =
     getQueryParams (setLimitOrderParams env limitOrderParams
       (if truthy contractLogsResultsParams
        then copy_params (map (\<lambda>k. (k, k))
               [''transaction.hash'', ''index'', ''timestamp'', ''topic0'', ''topic1'', ''topic2'', ''topic3''])
               contractLogsResultsParams []
        else []))"

subsection \<open>Pages\<close>

fun js_concat :: "jsv list \<Rightarrow> jsv \<Rightarrow> jsv list" where
  "js_concat xs (JArr ys) = xs @ ys"
| "js_concat xs v = xs @ [v]"

function getPaginatedResults ::
  "('c, 'r, 'w) mirror_env \<Rightarrow> string \<Rightarrow> string \<Rightarrow> string \<Rightarrow> request_details \<Rightarrow> jsv list \<Rightarrow> int \<Rightarrow> int
   \<Rightarrow> ('c, 'r, 'w, jsv list) relay_action" where
  "getPaginatedResults env url pathLabel resultProperty d results page pageMax s =
     (case mn_get env url pathLabel d None s of
        (Inl e, s1) \<Rightarrow> (Inl e, s1)
      | (Inr result, s1) \<Rightarrow>
          (let results1 = (if truthy result \<and> truthy (js_prop result resultProperty)
                           then js_concat results (js_prop result resultProperty) else results);
               next = js_prop (js_prop result ''links'') ''next''
           in if page = pageMax then (Inl (ThrownRpc (PAGINATION_MAX pageMax)), s1)
              else if truthy next \<and> page < pageMax then
                (case next of
                   JStr link \<Rightarrow> getPaginatedResults env (replace_first ''/api/v1/'' '''' link) pathLabel resultProperty d
                                 results1 (page + 1) pageMax s1
                 | _ \<Rightarrow> (Inl (ThrownOther ''result.links.next.replace is not a function''), s1))
              else (Inr results1, s1)))"
  by pat_completeness auto
termination
  by (relation "measure (\<lambda>(env, url, pathLabel, resultProperty, d, results, page, pageMax, s). nat (pageMax - page))") auto

declare getPaginatedResults.simps [simp del]

definition allPages ::
  "('c, 'r, 'w) mirror_env \<Rightarrow> string \<Rightarrow> string \<Rightarrow> string \<Rightarrow> request_details \<Rightarrow> int \<Rightarrow> ('c, 'r, 'w, jsv) relay_action" where
  "allPages env url pathLabel resultProperty d pageMax =
     and_do (getPaginatedResults env url pathLabel resultProperty d [] 1 pageMax) (\<lambda>rs. ret (JArr rs))"

abbreviation MAX_MIRROR_NODE_PAGINATION :: int where "MAX_MIRROR_NODE_PAGINATION \<equiv> 20"
abbreviation MIRROR_NODE_QUERY_LIMIT :: int where "MIRROR_NODE_QUERY_LIMIT \<equiv> 100"

subsection \<open>Accounts and transactions\<close>

definition mn_getAccount ::
  "('c, 'r, 'w) mirror_env \<Rightarrow> string \<Rightarrow> request_details \<Rightarrow> int option \<Rightarrow> jsv \<Rightarrow> ('c, 'r, 'w, jsv) relay_action" where
  "mn_getAccount env idOrAliasOrEvmAddress d retries timestamp =
     mn_get env (GET_ACCOUNTS_BY_ID_ENDPOINT @ idOrAliasOrEvmAddress @
       getQueryParams (setQueryParam ''transactions'' (JStr ''false'') (setQueryParam ''timestamp'' timestamp [])))
       GET_ACCOUNTS_BY_ID_ENDPOINT d retries"

definition getAccountLatestEthereumTransactionsByTimestamp ::
  "('c, 'r, 'w) mirror_env \<Rightarrow> string \<Rightarrow> string \<Rightarrow> request_details \<Rightarrow> int \<Rightarrow> ('c, 'r, 'w, jsv) relay_action" where
  "getAccountLatestEthereumTransactionsByTimestamp env idOrAliasOrEvmAddress timestampTo d numberOfTransactions =
     mn_get env (GET_ACCOUNTS_BY_ID_ENDPOINT @ idOrAliasOrEvmAddress @
       getQueryParams (setLimitOrderParams env (getLimitOrderQueryParam numberOfTransactions ''desc'')
         (setQueryParam ''timestamp'' (JStr (''lte:'' @ timestampTo))
           (setQueryParam ''transactiontype'' (JStr ''ETHEREUMTRANSACTION'') []))))
       GET_ACCOUNTS_BY_ID_ENDPOINT d None"

definition getAccountPageLimit ::
  "('c, 'r, 'w) mirror_env \<Rightarrow> string \<Rightarrow> request_details \<Rightarrow> ('c, 'r, 'w, jsv) relay_action" where
  "getAccountPageLimit env idOrAliasOrEvmAddress d =
     mn_get env (GET_ACCOUNTS_BY_ID_ENDPOINT @ idOrAliasOrEvmAddress @ ''?limit='' @ show_int MIRROR_NODE_QUERY_LIMIT)
       GET_ACCOUNTS_BY_ID_ENDPOINT d None"

text \<open>The text after the first \<open>/accounts/\<close>, if there is one.\<close>

fun after_accounts :: "string \<Rightarrow> string option" where
  "after_accounts [] = None"
| "after_accounts (c # cs) =
     (if starts_with ''/accounts/'' (c # cs) then Some (drop 10 (c # cs)) else after_accounts cs)"

text \<open>A regular expression is tried at every place; so is the account id after each \<open>/accounts/\<close>.\<close>

fun first_account_match :: "(string \<Rightarrow> string option) \<Rightarrow> string \<Rightarrow> string option" where
  "first_account_match m [] = None"
| "first_account_match m (c # cs) =
     (case (if starts_with ''/accounts/'' (c # cs) then m (drop 10 (c # cs)) else None) of
        Some x \<Rightarrow> Some x | None \<Rightarrow> first_account_match m cs)"

definition evm_address_prefix :: "string \<Rightarrow> string option" where
  "evm_address_prefix s =
     (if take 2 s = ''0x'' \<and> length (takeWhile (is_digit_in 16) (drop 2 s)) \<ge> 40 then Some (take 42 s) else None)"

definition account_id_prefix :: "string \<Rightarrow> string option" where
  "account_id_prefix s =
     (let ds = takeWhile (\<lambda>c. is_digit_in 10 c \<or> c = CHR ''.'') s in if ds = [] then None else Some ds)"

text \<open>When the url has no \<open>/accounts/\<close>, \<open>startsWith\<close> looks from place nine.\<close>

definition extractAccountIdFromUrl :: "string \<Rightarrow> string" where
  "extractAccountIdFromUrl url =
     (let rest = (case after_accounts url of None \<Rightarrow> drop 9 url | Some r \<Rightarrow> r);
          m = first_account_match (if starts_with ''0x'' rest then evm_address_prefix else account_id_prefix) url
      in case m of None \<Rightarrow> ''null'' | Some i \<Rightarrow> i)"

text \<open>
  \<open>new URLSearchParams(url.split('?')[1]).get('timestamp')\<close> for values without percent signs and plus
  signs, which it would decode.
\<close>

definition url_param :: "string \<Rightarrow> string \<Rightarrow> jsv" where
  "url_param name url =
     (case split_on CHR ''?'' url of
        a # q # _ \<Rightarrow>
          (case find (\<lambda>p. takeWhile (\<lambda>c. c \<noteq> CHR ''='') p = name) (split_on CHR ''&'' q) of
             None \<Rightarrow> JNull | Some p \<Rightarrow> JStr (drop 1 (dropWhile (\<lambda>c. c \<noteq> CHR ''='') p)))
      | _ \<Rightarrow> JNull)"

definition getAccountPaginated ::
  "('c, 'r, 'w) mirror_env \<Rightarrow> string \<Rightarrow> request_details \<Rightarrow> ('c, 'r, 'w, jsv) relay_action" where
  "getAccountPaginated env url d =
     allPages env (GET_ACCOUNTS_BY_ID_ENDPOINT @ extractAccountIdFromUrl url @
       getQueryParams (setQueryParam ''timestamp'' (url_param ''timestamp'' url)
         (setQueryParam ''limit'' (JNum MIRROR_NODE_QUERY_LIMIT) [])))
       GET_ACCOUNTS_BY_ID_ENDPOINT ''transactions'' d MAX_MIRROR_NODE_PAGINATION"

definition getTransactionsForAccount ::
  "('c, 'r, 'w) mirror_env \<Rightarrow> string \<Rightarrow> string \<Rightarrow> string \<Rightarrow> request_details \<Rightarrow> ('c, 'r, 'w, jsv) relay_action" where
  "getTransactionsForAccount env accountId timestampFrom timestampTo d =
     allPages env (GET_TRANSACTIONS_ENDPOINT @
       getQueryParams (setQueryParam ''timestamp'' (JStr (''lt:'' @ timestampTo))
         (setQueryParam ''timestamp'' (JStr (''gte:'' @ timestampFrom))
           (setQueryParam ''account.id'' (JStr accountId) []))))
       GET_TRANSACTIONS_ENDPOINT ''transactions'' d MAX_MIRROR_NODE_PAGINATION"

definition getBalanceAtTimestamp ::
  "('c, 'r, 'w) mirror_env \<Rightarrow> string \<Rightarrow> request_details \<Rightarrow> jsv \<Rightarrow> ('c, 'r, 'w, jsv) relay_action" where
  "getBalanceAtTimestamp env accountId d timestamp =
     mn_get env (GET_BALANCE_ENDPOINT @
       getQueryParams (setQueryParam ''timestamp'' timestamp (setQueryParam ''account.id'' (JStr accountId) [])))
       GET_BALANCE_ENDPOINT d None"

subsection \<open>Blocks\<close>

definition mn_getBlock ::
  "('c, 'r, 'w) mirror_env \<Rightarrow> jsv \<Rightarrow> request_details \<Rightarrow> ('c, 'r, 'w, jsv) relay_action" where
  "mn_getBlock env hashOrBlockNumber d =
     (let cachedLabel = ''getBlock.'' @ js_to_string hashOrBlockNumber in
      and_do (cached_get env cachedLabel) (\<lambda>cachedResponse.
        if truthy cachedResponse then ret cachedResponse
        else and_do (mn_get env (GET_BLOCK_ENDPOINT @ js_to_string hashOrBlockNumber) GET_BLOCK_ENDPOINT d None) (\<lambda>block.
          if truthy block then and_do (cached_set env cachedLabel block None) (\<lambda>u. ret block) else ret block)))"

definition getBlocks ::
  "('c, 'r, 'w) mirror_env \<Rightarrow> request_details \<Rightarrow> jsv \<Rightarrow> jsv \<Rightarrow> jsv \<Rightarrow> ('c, 'r, 'w, jsv) relay_action" where
  "getBlocks env d blockNumber timestamp limitOrderParams =
     mn_get env (GET_BLOCKS_ENDPOINT @
       getQueryParams (setLimitOrderParams env limitOrderParams
         (setQueryParam ''timestamp'' timestamp (setQueryParam ''block.number'' blockNumber []))))
       GET_BLOCKS_ENDPOINT d None"

definition getLatestBlock :: "('c, 'r, 'w) mirror_env \<Rightarrow> request_details \<Rightarrow> ('c, 'r, 'w, jsv) relay_action" where
  "getLatestBlock env d = getBlocks env d JUndef JUndef (getLimitOrderQueryParam 1 ''desc'')"

text \<open>\<open>blocks.blocks.length > 0\<close>, and the first block; a body without the array makes it throw.\<close>

definition array_of :: "jsv \<Rightarrow> thrown + jsv list" where
  "array_of v =
     (case v of
        JArr xs \<Rightarrow> Inr xs
      | JUndef \<Rightarrow> Inl (ThrownOther ''Cannot read properties of undefined'')
      | JNull \<Rightarrow> Inl (ThrownOther ''Cannot read properties of null'')
      | _ \<Rightarrow> Inr [])"

definition getEarliestBlock :: "('c, 'r, 'w) mirror_env \<Rightarrow> request_details \<Rightarrow> ('c, 'r, 'w, jsv) relay_action" where
  "getEarliestBlock env d =
     and_do (cached_get env ''getBlock.earliest'') (\<lambda>cachedResponse.
       if cachedResponse \<noteq> JUndef \<and> cachedResponse \<noteq> JNull then ret cachedResponse
       else and_do (getBlocks env d JUndef JUndef (getLimitOrderQueryParam 1 ''asc'')) (\<lambda>blocks.
         if truthy blocks then
           and_do (lift (array_of (js_prop blocks ''blocks''))) (\<lambda>bs.
             case bs of
               [] \<Rightarrow> ret JNull
             | block # _ \<Rightarrow> and_do (cached_set env ''getBlock.earliest'' block (Some (Ms 86400000))) (\<lambda>u. ret block))
         else ret JNull))"

subsection \<open>Contracts\<close>

definition mn_getContract ::
  "('c, 'r, 'w) mirror_env \<Rightarrow> string \<Rightarrow> request_details \<Rightarrow> int option \<Rightarrow> jsv \<Rightarrow> ('c, 'r, 'w, jsv) relay_action" where
  "mn_getContract env contractIdOrAddress d retries timestamp =
     mn_get env (GET_CONTRACT_ENDPOINT @ contractIdOrAddress @ getQueryParams (setQueryParam ''timestamp'' timestamp []))
       GET_CONTRACT_ENDPOINT d retries"

definition getContractId ::
  "('c, 'r, 'w) mirror_env \<Rightarrow> string \<Rightarrow> request_details \<Rightarrow> int option \<Rightarrow> ('c, 'r, 'w, jsv) relay_action" where
  "getContractId env contractIdOrAddress d retries =
     (let cachedLabel = ''getContract.id.'' @ contractIdOrAddress in
      and_do (cached_get env cachedLabel) (\<lambda>cachedResponse.
        if cachedResponse \<noteq> JUndef \<and> cachedResponse \<noteq> JNull then ret cachedResponse
        else and_do (mn_get env (GET_CONTRACT_ENDPOINT @ contractIdOrAddress) GET_CONTRACT_ENDPOINT d retries) (\<lambda>contract.
          if contract \<noteq> JUndef \<and> contract \<noteq> JNull then
            (let i = js_prop contract ''contract_id''
             in and_do (cached_set env cachedLabel i (Some (Ms 86400000))) (\<lambda>u. ret i))
          else ret JNull)))"

definition getIsValidContractCacheLabel :: "string \<Rightarrow> string" where
  "getIsValidContractCacheLabel contractIdOrAddress = ''getContract.valid.'' @ contractIdOrAddress"

definition isValidContract ::
  "('c, 'r, 'w) mirror_env \<Rightarrow> string \<Rightarrow> request_details \<Rightarrow> int option \<Rightarrow> ('c, 'r, 'w, jsv) relay_action" where
  "isValidContract env contractIdOrAddress d retries =
     and_do (cached_get env (getIsValidContractCacheLabel contractIdOrAddress)) (\<lambda>cachedResponse.
       if cachedResponse \<noteq> JUndef \<and> cachedResponse \<noteq> JNull then ret cachedResponse
       else and_do (getContractId env contractIdOrAddress d retries) (\<lambda>contract.
         let valid = JBool (contract \<noteq> JUndef \<and> contract \<noteq> JNull)
         in and_do (cached_set env (getIsValidContractCacheLabel contractIdOrAddress) valid (Some (Ms 86400000)))
              (\<lambda>u. ret valid)))"

definition getContractResult ::
  "('c, 'r, 'w) mirror_env \<Rightarrow> string \<Rightarrow> request_details \<Rightarrow> ('c, 'r, 'w, jsv) relay_action" where
  "getContractResult env transactionIdOrHash d =
     (let cacheKey = ''getContractResult.'' @ transactionIdOrHash in
      and_do (cached_get env cacheKey) (\<lambda>cachedResponse.
        if truthy cachedResponse then ret cachedResponse
        else and_do (mn_get env (GET_CONTRACT_RESULT_ENDPOINT @ transactionIdOrHash) GET_CONTRACT_RESULT_ENDPOINT d None)
          (\<lambda>response.
             if response \<notin> {JUndef, JNull} \<and> js_prop response ''transaction_index'' \<notin> {JUndef, JNull} \<and>
                js_prop response ''block_number'' \<notin> {JUndef, JNull} \<and> js_prop response ''block_hash'' \<noteq> JStr ''0x'' \<and>
                js_prop response ''result'' = JStr ''SUCCESS''
             then and_do (cached_set env cacheKey response (Some (Ms 3600000))) (\<lambda>u. ret response)
             else ret response)))"

definition getContractResults ::
  "('c, 'r, 'w) mirror_env \<Rightarrow> request_details \<Rightarrow> jsv \<Rightarrow> jsv \<Rightarrow> ('c, 'r, 'w, jsv) relay_action" where
  "getContractResults env d contractResultsParams limitOrderParams =
     allPages env (GET_CONTRACT_RESULTS_ENDPOINT @
       getQueryParams (setLimitOrderParams env limitOrderParams (setContractResultsParams contractResultsParams [])))
       GET_CONTRACT_RESULTS_ENDPOINT ''results'' d (me_resultsPageMax env)"

definition getContractResultsDetails ::
  "('c, 'r, 'w) mirror_env \<Rightarrow> string \<Rightarrow> string \<Rightarrow> request_details \<Rightarrow> ('c, 'r, 'w, jsv) relay_action" where
  "getContractResultsDetails env contractId timestamp d =
     mn_get env (replace_first ''{timestamp}'' timestamp (replace_first ''{contractId}'' contractId
         GET_CONTRACT_RESULTS_DETAILS_BY_CONTRACT_ID_ENDPOINT))
       GET_CONTRACT_RESULTS_DETAILS_BY_CONTRACT_ID_ENDPOINT d None"

definition getContractsResultsActions ::
  "('c, 'r, 'w) mirror_env \<Rightarrow> string \<Rightarrow> request_details \<Rightarrow> ('c, 'r, 'w, jsv) relay_action" where
  "getContractsResultsActions env transactionIdOrHash d =
     allPages env (replace_first ''{transactionId}'' transactionIdOrHash GET_CONTRACTS_RESULTS_ACTIONS)
       GET_CONTRACTS_RESULTS_ACTIONS ''actions'' d MAX_MIRROR_NODE_PAGINATION"

definition getContractsResultsOpcodes ::
  "('c, 'r, 'w) mirror_env \<Rightarrow> string \<Rightarrow> request_details \<Rightarrow> (string \<times> jsv) list option \<Rightarrow> ('c, 'r, 'w, jsv) relay_action" where
  "getContractsResultsOpcodes env transactionIdOrHash d params =
     mn_get env (replace_first ''{transactionId}'' transactionIdOrHash GET_CONTRACTS_RESULTS_OPCODES @
         (case params of None \<Rightarrow> '''' | Some ps \<Rightarrow> getQueryParams ps))
       GET_CONTRACTS_RESULTS_OPCODES d None"

definition getContractResultsByAddress ::
  "('c, 'r, 'w) mirror_env \<Rightarrow> string \<Rightarrow> request_details \<Rightarrow> jsv \<Rightarrow> jsv \<Rightarrow> ('c, 'r, 'w, jsv) relay_action" where
  "getContractResultsByAddress env contractIdOrAddress d contractResultsParams limitOrderParams =
     mn_get env (replace_first ''{address}'' contractIdOrAddress GET_CONTRACT_RESULTS_BY_ADDRESS_ENDPOINT @
       getQueryParams (setLimitOrderParams env limitOrderParams (setContractResultsParams contractResultsParams [])))
       GET_CONTRACT_RESULTS_BY_ADDRESS_ENDPOINT d None"

definition getContractResultsByAddressAndTimestamp ::
  "('c, 'r, 'w) mirror_env \<Rightarrow> string \<Rightarrow> string \<Rightarrow> request_details \<Rightarrow> ('c, 'r, 'w, jsv) relay_action" where
  "getContractResultsByAddressAndTimestamp env contractIdOrAddress timestamp d =
     mn_get env (replace_first ''{timestamp}'' timestamp (replace_first ''{address}'' contractIdOrAddress
         GET_CONTRACT_RESULTS_DETAILS_BY_ADDRESS_AND_TIMESTAMP_ENDPOINT))
       GET_CONTRACT_RESULTS_DETAILS_BY_ADDRESS_AND_TIMESTAMP_ENDPOINT d None"

definition getLatestContractResultsByAddress ::
  "('c, 'r, 'w) mirror_env \<Rightarrow> string \<Rightarrow> string option \<Rightarrow> int \<Rightarrow> request_details \<Rightarrow> ('c, 'r, 'w, jsv) relay_action" where
  "getLatestContractResultsByAddress env address blockEndTimestamp limit d =
     getContractResultsByAddress env address d
       (case blockEndTimestamp of
          None \<Rightarrow> JObj [] | Some t \<Rightarrow> if t = '''' then JObj [] else JObj [(''timestamp'', JStr (''lte:'' @ t))])
       (getLimitOrderQueryParam limit ''desc'')"

definition getContractState ::
  "('c, 'r, 'w) mirror_env \<Rightarrow> string \<Rightarrow> request_details \<Rightarrow> jsv \<Rightarrow> ('c, 'r, 'w, jsv) relay_action" where
  "getContractState env address d timestamp =
     allPages env (replace_first ''{address}'' address CONTRACT_ADDRESS_STATE_ENDPOINT @
       getQueryParams (setLimitOrderParams env (getLimitOrderQueryParam MIRROR_NODE_QUERY_LIMIT ''desc'')
         (setQueryParam ''timestamp'' timestamp [])))
       CONTRACT_ADDRESS_STATE_ENDPOINT ''state'' d MAX_MIRROR_NODE_PAGINATION"

definition getContractStateByAddressAndSlot ::
  "('c, 'r, 'w) mirror_env \<Rightarrow> string \<Rightarrow> string \<Rightarrow> request_details \<Rightarrow> jsv \<Rightarrow> ('c, 'r, 'w, jsv) relay_action" where
  "getContractStateByAddressAndSlot env address slot d blockEndTimestamp =
     mn_get env (replace_first ''{address}'' address CONTRACT_ADDRESS_STATE_ENDPOINT @
       getQueryParams (setLimitOrderParams env (getLimitOrderQueryParam MIRROR_NODE_QUERY_LIMIT ''desc'')
         (setQueryParam ''slot'' (JStr slot)
           (if truthy blockEndTimestamp then setQueryParam ''timestamp'' blockEndTimestamp [] else []))))
       CONTRACT_ADDRESS_STATE_ENDPOINT d None"

definition postContractCall ::
  "('c, 'r, 'w) mirror_env \<Rightarrow> jsv \<Rightarrow> request_details \<Rightarrow> ('c, 'r, 'w, jsv) relay_action" where
  "postContractCall env callData d =
     mn_post env CONTRACT_CALL_ENDPOINT callData CONTRACT_CALL_ENDPOINT d (Some 1)"

definition getTokenById ::
  "('c, 'r, 'w) mirror_env \<Rightarrow> string \<Rightarrow> request_details \<Rightarrow> int option \<Rightarrow> ('c, 'r, 'w, jsv) relay_action" where
  "getTokenById env tokenId d retries =
     mn_get env (GET_TOKENS_ENDPOINT @ ''/'' @ tokenId) GET_TOKENS_ENDPOINT d retries"

definition getNetworkExchangeRate ::
  "('c, 'r, 'w) mirror_env \<Rightarrow> request_details \<Rightarrow> jsv \<Rightarrow> ('c, 'r, 'w, jsv) relay_action" where
  "getNetworkExchangeRate env d timestamp =
     mn_get env (GET_NETWORK_EXCHANGERATE_ENDPOINT @ getQueryParams (setQueryParam ''timestamp'' timestamp []))
       GET_NETWORK_EXCHANGERATE_ENDPOINT d None"

definition getNetworkFees ::
  "('c, 'r, 'w) mirror_env \<Rightarrow> request_details \<Rightarrow> jsv \<Rightarrow> jsv \<Rightarrow> ('c, 'r, 'w, jsv) relay_action" where
  "getNetworkFees env d timestamp order =
     mn_get env (GET_NETWORK_FEES_ENDPOINT @
       getQueryParams (setQueryParam ''order'' order (setQueryParam ''timestamp'' timestamp [])))
       GET_NETWORK_FEES_ENDPOINT d None"

subsection \<open>Records that are not complete yet\<close>

definition nullish :: "jsv \<Rightarrow> bool" where
  "nullish v = (v = JUndef \<or> v = JNull)"

text \<open>\<open>v == '0x'\<close>.\<close>

fun loosely_empty_hex :: "jsv \<Rightarrow> bool" where
  "loosely_empty_hex (JStr s) = (s = ''0x'')"
| "loosely_empty_hex (JArr xs) = (js_to_string (JArr xs) = ''0x'')"
| "loosely_empty_hex v = False"

definition immature_result :: "jsv \<Rightarrow> bool" where
  "immature_result v =
     (truthy v \<and> (nullish (js_prop v ''transaction_index'') \<or> nullish (js_prop v ''block_number'') \<or>
                  loosely_empty_hex (js_prop v ''block_hash'')))"

definition immature_results :: "jsv \<Rightarrow> bool" where
  "immature_results contractResult =
     list_ex immature_result (case contractResult of JArr xs \<Rightarrow> xs | v \<Rightarrow> [v])"

definition immature_log :: "jsv \<Rightarrow> bool" where
  "immature_log v =
     (truthy v \<and> (nullish (js_prop v ''transaction_index'') \<or> nullish (js_prop v ''block_number'') \<or>
                  nullish (js_prop v ''index'') \<or> js_prop v ''block_hash'' = JStr ''0x''))"

definition immature_logs :: "jsv \<Rightarrow> bool" where
  "immature_logs logResults = list_ex immature_log (case logResults of JArr xs \<Rightarrow> xs | _ \<Rightarrow> [])"

text \<open>
  The loop both methods share: \<open>n\<close> attempts are left, \<open>r\<close> is the latest answer. Waiting comes before
  the next request, and the last incomplete answer is an error.
\<close>

fun until_mature ::
  "('c, 'r, 'w) mirror_env \<Rightarrow> (jsv \<Rightarrow> bool) \<Rightarrow> ('c, 'r, 'w, jsv) relay_action \<Rightarrow> nat \<Rightarrow> jsv \<Rightarrow> ('c, 'r, 'w, jsv) relay_action"
where
  "until_mature env immature fetch 0 r = ret r"
| "until_mature env immature fetch (Suc n) r =
     (if \<not> truthy r \<or> \<not> immature r then ret r
      else if n = 0 then throw (ThrownRpc DEPENDENT_SERVICE_IMMATURE_RECORDS)
      else and_do (sleep env) (\<lambda>u. and_do fetch (until_mature env immature fetch n)))"

definition getContractResultWithRetry ::
  "('c, 'r, 'w) mirror_env \<Rightarrow> ('c, 'r, 'w, jsv) relay_action \<Rightarrow> ('c, 'r, 'w, jsv) relay_action" where
  "getContractResultWithRetry env fetch =
     and_do fetch (until_mature env immature_results fetch (me_requestRetryCount env))"

definition getContractResultsLogsWithRetry ::
  "('c, 'r, 'w) mirror_env \<Rightarrow> request_details \<Rightarrow> jsv \<Rightarrow> jsv \<Rightarrow> ('c, 'r, 'w, jsv) relay_action" where
  "getContractResultsLogsWithRetry env d contractLogsResultsParams limitOrderParams =
     (let fetch = allPages env
            (GET_CONTRACT_RESULT_LOGS_ENDPOINT @ prepareLogsParams env contractLogsResultsParams limitOrderParams)
            GET_CONTRACT_RESULT_LOGS_ENDPOINT ''logs'' d (me_logsPageMax env)
      in and_do fetch (until_mature env immature_logs fetch (me_requestRetryCount env)))"

definition ZeroAddress :: string where
  "ZeroAddress = ''0x'' @ replicate 40 (CHR ''0'')"

definition getContractResultsLogsByAddress ::
  "('c, 'r, 'w) mirror_env \<Rightarrow> string \<Rightarrow> request_details \<Rightarrow> jsv \<Rightarrow> jsv \<Rightarrow> ('c, 'r, 'w, jsv) relay_action" where
  "getContractResultsLogsByAddress env address d contractLogsResultsParams limitOrderParams =
     (if address = ZeroAddress then ret (JArr [])
      else allPages env (replace_first ''{address}'' address GET_CONTRACT_RESULT_LOGS_BY_ADDRESS_ENDPOINT @
             prepareLogsParams env contractLogsResultsParams limitOrderParams)
             GET_CONTRACT_RESULT_LOGS_BY_ADDRESS_ENDPOINT ''logs'' d (me_logsPageMax env))"

text \<open>
  \<open>repeatedRequest\<close>: a 404 is an answer of \<open>null\<close>, any other failure leaves the answer as it was.
\<close>

fun repeat_request ::
  "('c, 'r, 'w) mirror_env \<Rightarrow> ('c, 'r, 'w, jsv) relay_action \<Rightarrow> nat \<Rightarrow> jsv \<Rightarrow> ('c, 'r, 'w, jsv) relay_action" where
  "repeat_request env fetch 0 result = ret result"
| "repeat_request env fetch (Suc n) result =
     and_do (catch_do fetch (\<lambda>e. ret (case e of ThrownMirror m \<Rightarrow> if mne_statusCode m = 404 then JNull else result
                                             | _ \<Rightarrow> result)))
       (\<lambda>result'. if truthy result' then ret result'
                  else and_do (sleep env) (\<lambda>u. repeat_request env fetch n result'))"

definition repeatedRequest ::
  "('c, 'r, 'w) mirror_env \<Rightarrow> ('c, 'r, 'w, jsv) relay_action \<Rightarrow> nat \<Rightarrow> ('c, 'r, 'w, jsv) relay_action" where
  "repeatedRequest env fetch repeatCount = repeat_request env fetch repeatCount JUndef"

subsection \<open>What an identifier names\<close>

definition hex_number_text :: "string \<Rightarrow> string" where
  "hex_number_text s = (case js_parse_int 16 s of None \<Rightarrow> ''NaN'' | Some n \<Rightarrow> show_int n)"

definition toEntityId :: "string \<Rightarrow> string" where
  "toEntityId address =
     (let a = drop 2 address
      in hex_number_text (take 8 a) @ ''.'' @ hex_number_text (substr 8 24 a) @ ''.'' @ hex_number_text (drop 24 a))"

definition TYPE_CONTRACT :: string where "TYPE_CONTRACT = ''CONTRACT''"
definition TYPE_ACCOUNT :: string where "TYPE_ACCOUNT = ''ACCOUNT''"
definition TYPE_TOKEN :: string where "TYPE_TOKEN = ''TOKEN''"

definition or_null :: "('c, 'r, 'w, jsv) relay_action \<Rightarrow> ('c, 'r, 'w, jsv) relay_action" where
  "or_null m = catch_do m (\<lambda>e. ret JNull)"

definition entity_response :: "string \<Rightarrow> jsv \<Rightarrow> jsv" where
  "entity_response type entity = JObj [(''type'', JStr type), (''entity'', entity)]"

text \<open>
  The account and the token are asked for at the same time and the first that exists wins; when both
  do, the world decides which answer comes first. The type searched for is not part of the key under
  which the answer is cached.
\<close>

definition resolve_label :: "string \<Rightarrow> string option \<Rightarrow> string" where
  "resolve_label entityIdentifier timestamp =
     ''resolveEntityType_'' @ entityIdentifier @
     (case timestamp of None \<Rightarrow> '''' | Some t \<Rightarrow> if t = '''' then '''' else ''_'' @ t)"

definition found_entity :: "bool \<Rightarrow> jsv \<Rightarrow> jsv \<Rightarrow> jsv option" where
  "found_entity tokenFirst account token =
     (if nullish account \<and> nullish token then None
      else if nullish account \<or> (\<not> nullish token \<and> tokenFirst) then Some (entity_response TYPE_TOKEN token)
      else Some (entity_response TYPE_ACCOUNT account))"

definition resolveEntityType ::
  "('c, 'r, 'w) mirror_env \<Rightarrow> string \<Rightarrow> request_details \<Rightarrow> string list \<Rightarrow> int option \<Rightarrow> string option
   \<Rightarrow> ('c, 'r, 'w, jsv) relay_action" where
  "resolveEntityType env entityIdentifier d searchableTypes retries timestamp =
     (let cachedLabel = resolve_label entityIdentifier timestamp;
          ts = (case timestamp of None \<Rightarrow> JUndef | Some t \<Rightarrow> JStr t);
          answer = (\<lambda>response. and_do (cached_set env cachedLabel response None) (\<lambda>u. ret response))
      in and_do (cached_get env cachedLabel) (\<lambda>cachedResponse.
        if truthy cachedResponse then ret cachedResponse
        else and_do (if TYPE_CONTRACT \<in> set searchableTypes
                     then or_null (mn_getContract env entityIdentifier d retries ts) else ret JNull) (\<lambda>contract.
          if truthy contract then answer (entity_response TYPE_CONTRACT contract)
          else and_do (if TYPE_ACCOUNT \<in> set searchableTypes
                       then or_null (mn_getAccount env entityIdentifier d retries ts) else ret JNull) (\<lambda>account.
            and_do (if TYPE_TOKEN \<in> set searchableTypes
                    then or_null (getTokenById env (toEntityId entityIdentifier) d retries) else ret JNull) (\<lambda>token.
              \<lambda>s. (case found_entity (me_tokenAnswersFirst env (rs_world s)) account token of
                     None \<Rightarrow> ret JNull s
                   | Some response \<Rightarrow> answer response s))))))"

subsection \<open>Transaction records\<close>

definition getTransactionById ::
  "('c, 'r, 'w) mirror_env \<Rightarrow> string \<Rightarrow> request_details \<Rightarrow> jsv \<Rightarrow> ('c, 'r, 'w, jsv) relay_action" where
  "getTransactionById env transactionId d nonce =
     (case formatTransactionId transactionId of
        None \<Rightarrow> ret JNull
      | Some formattedId \<Rightarrow>
          mn_get env (replace_first ''{transactionId}'' formattedId GET_TRANSACTIONS_ENDPOINT_TRANSACTION_ID @
              getQueryParams (setQueryParam ''nonce'' nonce []))
            GET_TRANSACTIONS_ENDPOINT_TRANSACTION_ID d None)"

definition getTransferAmountSumForAccount :: "jsv list \<Rightarrow> string \<Rightarrow> int" where
  "getTransferAmountSumForAccount transfers accountId =
     foldl (\<lambda>acc transfer. case js_prop transfer ''amount'' of JNum n \<Rightarrow> acc - n | _ \<Rightarrow> acc) 0
       (filter (\<lambda>transfer. js_prop transfer ''account'' = JStr accountId \<and>
                 (case js_prop transfer ''amount'' of JNum n \<Rightarrow> n < 0 | _ \<Rightarrow> False)) transfers)"

record record_metric =
  trm_transactionFee :: int
  trm_txRecordChargeAmount :: int
  trm_gasUsed :: int
  trm_status :: jsv

definition no_record_error :: "string \<Rightarrow> string \<Rightarrow> thrown" where
  "no_record_error transactionId txConstructorName =
     ThrownMirror (MirrorNodeClientError
       \<lparr> hce_message = ''No transaction record retrieved: transactionId='' @ transactionId @
           '', txConstructorName='' @ txConstructorName @ ''.'', hce_status_messages = [] \<rparr> 404)"

definition transaction_record_metric ::
  "jsv \<Rightarrow> string \<Rightarrow> string \<Rightarrow> thrown + record_metric" where
  "transaction_record_metric transactionRecords transactionId operatorAccountId =
     and_then (array_of (js_prop transactionRecords ''transactions'')) (\<lambda>txs.
       case find (\<lambda>tx. Some (js_prop tx ''transaction_id'') = map_option JStr (formatTransactionId transactionId)) txs of
         None \<Rightarrow> Inl (ThrownOther ''Cannot read properties of undefined'')
       | Some transactionRecord \<Rightarrow>
           and_then (array_of (js_prop transactionRecord ''transfers'')) (\<lambda>transfers.
             Inr \<lparr> trm_transactionFee = getTransferAmountSumForAccount transfers operatorAccountId,
                   trm_txRecordChargeAmount = 0, trm_gasUsed = 0, trm_status = js_prop transactionRecord ''result'' \<rparr>))"

definition getTransactionRecordMetrics ::
  "('c, 'r, 'w) mirror_env \<Rightarrow> string \<Rightarrow> string \<Rightarrow> string \<Rightarrow> request_details
   \<Rightarrow> ('c, 'r, 'w, record_metric) relay_action" where
  "getTransactionRecordMetrics env transactionId txConstructorName operatorAccountId d =
     (let modifiedRequestDetails = \<lparr> rd_requestId = rd_requestId d, rd_ipAddress = ''xxx.xxx.xxx.xxx'', rd_connectionId = None \<rparr>
      in and_do (repeatedRequest env (getTransactionById env transactionId modifiedRequestDetails (JNum 0))
                   (me_requestRetryCount env)) (\<lambda>transactionRecords.
           if \<not> truthy transactionRecords then throw (no_record_error transactionId txConstructorName)
           else lift (transaction_record_metric transactionRecords transactionId operatorAccountId)))"

text \<open>The first place where the expression of transaction ids matches, with at most ten and nine digits.\<close>

definition digits_prefix :: "nat \<Rightarrow> string \<Rightarrow> string" where
  "digits_prefix n s = take n (takeWhile dec_digit s)"

definition transaction_id_at :: "string \<Rightarrow> string option" where
  "transaction_id_at s =
     (let account = digits_prefix 10 (drop 4 s); after = drop (4 + length account) s;
          seconds = digits_prefix 10 (drop 1 after); rest = drop (1 + length seconds) after;
          nanos = digits_prefix 9 (drop 1 rest)
      in if tx_id_match_at s
         then Some (take (4 + length account + 1 + length seconds + 1 + length nanos) s) else None)"

fun transaction_id_in :: "string \<Rightarrow> string option" where
  "transaction_id_in [] = None"
| "transaction_id_in (c # cs) = (case transaction_id_at (c # cs) of Some t \<Rightarrow> Some t | None \<Rightarrow> transaction_id_in cs)"

definition getContractRevertReasonFromTransaction ::
  "('c, 'r, 'w) mirror_env \<Rightarrow> sdk_status_table \<Rightarrow> thrown \<Rightarrow> request_details \<Rightarrow> ('c, 'r, 'w, jsv) relay_action" where
  "getContractRevertReasonFromTransaction env st e d =
     (case e of
        ThrownSdk se \<Rightarrow>
          if \<not> sdk_isContractRevertExecuted st se then ret JUndef
          else (case transaction_id_in (sdk_message se) of
                  None \<Rightarrow> ret JUndef
                | Some transactionId \<Rightarrow>
                    and_do (getTransactionById env transactionId d JUndef) (\<lambda>tx.
                      if tx = JNull \<or> tx = JArr [] then ret JNull
                      else and_do (lift (array_of (js_prop tx ''transactions''))) (\<lambda>txs.
                        ret (if 1 < length txs then js_prop (txs ! 1) ''result'' else JUndef))))
      | _ \<Rightarrow> ret JUndef)"

subsection \<open>All pages, or an error\<close>

definition page_items :: "string \<Rightarrow> jsv \<Rightarrow> jsv list" where
  "page_items property v =
     (if truthy v \<and> truthy (js_prop v property) then js_concat [] (js_prop v property) else [])"

text \<open>
  \<open>serves\<close>: from the url on, the mirror node answers with these pages, each with a link to the next.
\<close>

fun serves ::
  "('c, 'r, 'w) mirror_env \<Rightarrow> string \<Rightarrow> string \<Rightarrow> request_details \<Rightarrow> string \<Rightarrow> jsv list list
   \<Rightarrow> ('c, 'r, 'w) relay_state \<Rightarrow> ('c, 'r, 'w) relay_state \<Rightarrow> bool" where
  "serves env pathLabel property d url [] s s' \<longleftrightarrow> False"
| "serves env pathLabel property d url (p # ps) s s' \<longleftrightarrow>
     (\<exists>v s1. mn_get env url pathLabel d None s = (Inr v, s1) \<and> page_items property v = p \<and>
        (if ps = [] then \<not> truthy (js_prop (js_prop v ''links'') ''next'') \<and> s' = s1
         else (\<exists>link. js_prop (js_prop v ''links'') ''next'' = JStr link \<and> link \<noteq> '''' \<and>
                serves env pathLabel property d (replace_first ''/api/v1/'' '''' link) ps s1 s')))"

lemma js_concat_append: "js_concat (xs @ ys) v = xs @ js_concat ys v"
  by (cases v) auto

lemma js_concat_items:
  "(if truthy v \<and> truthy (js_prop v property) then js_concat xs (js_prop v property) else xs) = xs @ page_items property v"
  using js_concat_append [of xs "[]" "js_prop v property"] by (auto simp: page_items_def)

lemma getPaginatedResults_serves:
  assumes "serves env pathLabel property d url pages s s'" and "page \<le> pageMax"
  shows "if int (length pages) \<le> pageMax - page
    then getPaginatedResults env url pathLabel property d results page pageMax s = (Inr (results @ concat pages), s')
    else fst (getPaginatedResults env url pathLabel property d results page pageMax s) = Inl (ThrownRpc (PAGINATION_MAX pageMax))"
  using assms
proof (induction pages arbitrary: url results page s)
  case (Cons p ps)
  then obtain v s1 where v: "mn_get env url pathLabel d None s = (Inr v, s1)" and p: "page_items property v = p" by auto
  have step: "getPaginatedResults env url pathLabel property d results page pageMax s =
      (let next = js_prop (js_prop v ''links'') ''next''
       in if page = pageMax then (Inl (ThrownRpc (PAGINATION_MAX pageMax)), s1)
          else if truthy next \<and> page < pageMax then
            (case next of
               JStr link \<Rightarrow> getPaginatedResults env (replace_first ''/api/v1/'' '''' link) pathLabel property d
                             (results @ p) (page + 1) pageMax s1
             | _ \<Rightarrow> (Inl (ThrownOther ''result.links.next.replace is not a function''), s1))
          else (Inr (results @ p), s1))"
    by (subst getPaginatedResults.simps) (simp add: v p js_concat_items Let_def)
  show ?case
  proof (cases "ps = []")
    case True
    with Cons.prems v have "\<not> truthy (js_prop (js_prop v ''links'') ''next'')" "s' = s1" by auto
    with True Cons.prems(2) show ?thesis by (simp add: step Let_def)
  next
    case False
    with Cons.prems v obtain link where link: "js_prop (js_prop v ''links'') ''next'' = JStr link" "link \<noteq> ''''"
      and rest: "serves env pathLabel property d (replace_first ''/api/v1/'' '''' link) ps s1 s'" by auto
    show ?thesis
    proof (cases "page = pageMax")
      case True
      then show ?thesis using step by (simp add: Let_def)
    next
      case False
      with Cons.prems(2) have "page + 1 \<le> pageMax" by simp
      from Cons.IH [OF rest this, of "results @ p"] False Cons.prems(2) show ?thesis
        by (simp add: step link Let_def algebra_simps split: if_splits)
    qed
  qed
qed simp

text \<open>
  C21. Results that come in fewer pages than the limit are all returned, in order. As soon as the limit is
  reached the request fails, even when the page that reaches it is the last one.
\<close>

theorem pages_complete_or_refused:
  assumes "serves env pathLabel property d url pages s s'" and "1 \<le> pageMax"
  shows "if int (length pages) < pageMax
    then getPaginatedResults env url pathLabel property d [] 1 pageMax s = (Inr (concat pages), s')
    else fst (getPaginatedResults env url pathLabel property d [] 1 pageMax s) = Inl (ThrownRpc (PAGINATION_MAX pageMax))"
  using getPaginatedResults_serves [OF assms, of "[]"] by (auto split: if_splits)

subsection \<open>Incomplete records are asked for again\<close>

text \<open>The \<open>k\<close>-th answer: that many times the client has waited and asked again.\<close>

fun nth_answer :: "('c, 'r, 'w) mirror_env \<Rightarrow> ('c, 'r, 'w, jsv) relay_action \<Rightarrow> nat \<Rightarrow> ('c, 'r, 'w, jsv) relay_action" where
  "nth_answer env fetch 0 = fetch"
| "nth_answer env fetch (Suc k) = and_do (nth_answer env fetch k) (\<lambda>r. and_do (sleep env) (\<lambda>u. fetch))"

definition complete :: "(jsv \<Rightarrow> bool) \<Rightarrow> jsv \<Rightarrow> bool" where
  "complete immature r \<longleftrightarrow> \<not> truthy r \<or> \<not> immature r"

lemma sleep_run [run_simps]: "sleep env s = (Inr (), s\<lparr> rs_world := me_sleep env (me_retryDelay env) (rs_world s) \<rparr>)"
  by (simp add: sleep_def)

lemma nth_answer_Suc:
  "nth_answer env fetch (Suc k) = and_do fetch (\<lambda>r. and_do (sleep env) (\<lambda>u. nth_answer env fetch k))"
  by (induction k) (simp_all add: and_do_assoc)

lemma ex_le_Suc_shift:
  assumes "\<And>k. Q (Suc k) \<longleftrightarrow> R k" and "\<not> Q 0"
  shows "(\<exists>k \<le> Suc n. Q k) \<longleftrightarrow> (\<exists>k \<le> n. R k)"
proof
  assume "\<exists>k \<le> Suc n. Q k"
  then obtain k where "k \<le> Suc n" "Q k" by blast
  with assms show "\<exists>k \<le> n. R k" by (cases k) auto
next
  assume "\<exists>k \<le> n. R k"
  with assms(1) show "\<exists>k \<le> Suc n. Q k" by auto
qed

lemma until_mature_iff:
  assumes "fetch s = (Inr r0, s0)"
  shows "until_mature env immature fetch (Suc n) r0 s0 = (Inr r, s') \<longleftrightarrow>
    (\<exists>k \<le> n. nth_answer env fetch k s = (Inr r, s') \<and> complete immature r \<and>
       (\<forall>j < k. \<exists>q t. nth_answer env fetch j s = (Inr q, t) \<and> \<not> complete immature q))"
  using assms
proof (induction n arbitrary: s r0 s0)
  case 0
  show ?case using 0 by (auto simp: complete_def ret_def throw_def)
next
  case (Suc n)
  show ?case
  proof (cases "complete immature r0")
    case True
    have "k = 0" if "\<forall>j < k. \<exists>q t. nth_answer env fetch j s = (Inr q, t) \<and> \<not> complete immature q" for k
    proof (rule ccontr)
      assume "k \<noteq> 0"
      with that have "\<exists>q t. nth_answer env fetch 0 s = (Inr q, t) \<and> \<not> complete immature q" by blast
      with Suc.prems True show False by simp
    qed
    with True Suc.prems show ?thesis by (force simp: complete_def ret_def)
  next
    case False
    let ?s1 = "s0\<lparr> rs_world := me_sleep env (me_retryDelay env) (rs_world s0) \<rparr>"
    have later: "nth_answer env fetch (Suc k) s = nth_answer env fetch k ?s1" for k
      using Suc.prems unfolding nth_answer_Suc by (simp add: and_do_def sleep_run)
    have left: "until_mature env immature fetch (Suc (Suc n)) r0 s0 =
        and_do fetch (until_mature env immature fetch (Suc n)) ?s1"
      using False by (simp add: complete_def and_do_Inr sleep_run del: until_mature.simps)
        (simp add: and_do_Inr [OF sleep_run])
    let ?Q = "\<lambda>k s. nth_answer env fetch k s = (Inr r, s') \<and> complete immature r \<and>
      (\<forall>j < k. \<exists>q t. nth_answer env fetch j s = (Inr q, t) \<and> \<not> complete immature q)"
    have "?Q (Suc k) s \<longleftrightarrow> ?Q k ?s1" for k
      using False Suc.prems by (simp add: All_less_Suc2 later del: nth_answer.simps(2))
    moreover have "\<not> ?Q 0 s" using False Suc.prems by auto
    ultimately have "(\<exists>k \<le> Suc n. ?Q k s) \<longleftrightarrow> (\<exists>k \<le> n. ?Q k ?s1)"
      by (rule ex_le_Suc_shift)
    moreover have "until_mature env immature fetch (Suc (Suc n)) r0 s0 = (Inr r, s') \<longleftrightarrow> (\<exists>k \<le> n. ?Q k ?s1)"
    proof (cases "fetch ?s1")
      case (Pair out s2)
      show ?thesis
      proof (cases out)
        case (Inl e)
        have "nth_answer env fetch k ?s1 = (Inl e, s2)" for k
          using Pair Inl by (cases k) (simp_all add: nth_answer_Suc and_do_Inl del: nth_answer.simps(2))
        with Pair Inl show ?thesis unfolding left by (simp add: and_do_Inl)
      next
        case (Inr r1)
        with Pair Suc.IH [of ?s1 r1 s2] show ?thesis unfolding left by (simp add: and_do_Inr del: until_mature.simps)
      qed
    qed
    ultimately show ?thesis by blast
  qed
qed

text \<open>
  C22. A result that is returned is the first complete answer, after at most the configured number of
  requests; every answer before it had an incomplete record.
\<close>

theorem retry_returns_first_complete:
  assumes "0 < me_requestRetryCount env"
  shows "getContractResultWithRetry env fetch s = (Inr r, s') \<longleftrightarrow>
    (\<exists>k < me_requestRetryCount env. nth_answer env fetch k s = (Inr r, s') \<and> complete immature_results r \<and>
       (\<forall>j < k. \<exists>q t. nth_answer env fetch j s = (Inr q, t) \<and> \<not> complete immature_results q))"
proof -
  obtain n where n: "me_requestRetryCount env = Suc n" using assms by (cases "me_requestRetryCount env") auto
  obtain out s0 where first: "fetch s = (out, s0)" by (cases "fetch s")
  show ?thesis
  proof (cases out)
    case (Inl e)
    have "nth_answer env fetch k s = (Inl e, s0)" for k
      using first Inl by (cases k) (simp_all add: nth_answer_Suc and_do_Inl del: nth_answer.simps(2))
    with first Inl show ?thesis by (simp add: getContractResultWithRetry_def and_do_Inl)
  next
    case (Inr r0)
    with first until_mature_iff [of fetch s r0 s0 env immature_results n r s'] show ?thesis
      by (simp add: getContractResultWithRetry_def and_do_Inr n less_Suc_eq_le del: until_mature.simps)
  qed
qed

subsection \<open>Cached answers\<close>

text \<open>The cache the client works on: what is stored is found again, and reading changes nothing.\<close>

definition caching :: "('c, 'r, 'w) mirror_env \<Rightarrow> bool" where
  "caching env = cache_client (getAsync (me_cache env)) (cache_set (me_cache env)) (cache_delete (me_cache env))"

lemma cachingI: "lru_laws (ce_lru (me_cache env)) look cap \<Longrightarrow> internal_only (me_cache env) \<Longrightarrow> caching env"
  unfolding caching_def by (rule cache_service_client)

lemma cached_get_run [run_simps]:
  "cached_get env k s =
     (Inr (fst (getAsync (me_cache env) (me_now env (rs_world s)) k (rs_cache s))),
      s\<lparr> rs_cache := snd (getAsync (me_cache env) (me_now env (rs_world s)) k (rs_cache s)) \<rparr>)"
  by (simp add: cached_get_def case_prod_beta)

lemma cached_set_run [run_simps]:
  "cached_set env k v t s =
     (Inr (), s\<lparr> rs_cache := cache_set (me_cache env) (me_now env (rs_world s)) k v t (rs_cache s) \<rparr>)"
  by (simp add: cached_set_def)

lemma get_after_set: "caching env \<Longrightarrow> v \<noteq> JUndef \<Longrightarrow> fst (cached_get env k (snd (cached_set env k v t s))) = Inr v"
  by (simp add: caching_def cached_get_run cached_set_run cache_client.get_put)

lemma get_after_get: "caching env \<Longrightarrow> fst (cached_get env k (snd (cached_get env k s))) = fst (cached_get env k s)"
  by (simp add: caching_def cached_get_run cache_client.get_again)

lemma resolveEntityType_hit:
  assumes "fst (cached_get env (resolve_label i timestamp) s) = Inr v" and "truthy v"
  shows "resolveEntityType env i d types retries timestamp s = (Inr v, snd (cached_get env (resolve_label i timestamp) s))"
  using assms unfolding resolveEntityType_def Let_def
  by (simp add: and_do_def cached_get_run ret_def)

lemma resolveEntityType_stored:
  assumes "resolveEntityType env i d types retries timestamp s = (Inr v, s1)" and "truthy v"
  shows "cached_get env (resolve_label i timestamp) s = (Inr v, s1) \<or>
    (\<exists>t. s1 = snd (cached_set env (resolve_label i timestamp) v None t))"
  using assms unfolding resolveEntityType_def Let_def
  by (auto simp: and_do_Inr_iff ret_def cached_set_run split: if_split_asm option.split_asm)

text \<open>
  The types a caller searches for are not part of the key of a cached answer: once an identifier has
  been resolved for one caller, the next one gets the same entity, whatever types it asked for.
\<close>

theorem resolved_type_ignores_search:
  assumes "lru_laws (ce_lru (me_cache env)) look cap" and "internal_only (me_cache env)"
    and "resolveEntityType env i d types retries timestamp s = (Inr v, s1)" and "truthy v"
  shows "fst (resolveEntityType env i d' types' retries' timestamp s1) = Inr v"
proof -
  have caching: "caching env" using assms(1,2) by (rule cachingI)
  have "v \<noteq> JUndef" using assms(4) by auto
  then have "fst (cached_get env (resolve_label i timestamp) s1) = Inr v"
    using resolveEntityType_stored [OF assms(3,4)] get_after_set [OF caching] get_after_get [OF caching]
    by (metis fst_conv snd_conv)
  from resolveEntityType_hit [OF this assms(4)] show ?thesis by simp
qed

subsection \<open>A mirror node with a few answers\<close>

definition canned_http :: "(string \<times> jsv) list \<Rightarrow> http_request \<Rightarrow> nat \<Rightarrow> http_answer \<times> nat" where
  "canned_http table req w =
     (case map_of table (hr_path req) of
        Some v \<Rightarrow> HttpOk v
      | None \<Rightarrow> HttpFailed \<lparr> hce_message = ''Not found'', hce_status_messages = [] \<rparr> (Some 404) None, w + 1)"

definition canned_mirror :: "(string \<times> jsv) list \<Rightarrow> (list_lru, unit, nat) mirror_env" where
  "canned_mirror table =
     \<lparr> me_cache = sample_env, me_http = canned_http table, me_now = int, me_sleep = (\<lambda>n w. w), me_tokenAnswersFirst = (\<lambda>w. False),
       me_callAcceptedErrors = [], me_retryDelay = 2000, me_requestRetryCount = 10, me_limitParam = 100,
       me_resultsPageMax = 25, me_logsPageMax = 200 \<rparr>"

definition quiet_relay :: "(list_lru, unit, nat) relay_state" where
  "quiet_relay = \<lparr> rs_cache = sample_store, rs_world = 0 \<rparr>"

lemma mn_get_canned:
  "mn_get (canned_mirror table) path label d retries s =
     (case map_of table path of
        Some v \<Rightarrow> Inr v
      | None \<Rightarrow> if label \<in> set accepting_404 then Inr JNull
                else Inl (ThrownMirror \<lparr> mne_message = ''Not found'', mne_statusCode = 404, mne_detail = None, mne_data = None \<rparr>),
      s\<lparr> rs_world := rs_world s + 1 \<rparr>)"
  by (simp add: mn_get_def mn_request_def canned_mirror_def canned_http_def Let_def handleError_def
      acceptedErrorStatuses_def MirrorNodeClientError_def effectiveStatusCode_def split: option.split)

lemma empty_cache_miss: "fst (getAsync (me_cache (canned_mirror table)) now k (rs_cache quiet_relay)) = JNull"
  by (simp add: canned_mirror_def quiet_relay_def sample_env_def sample_store_def getAsync_def getFromSharedCache_def
      redis_get_def no_redis_def getFromInternalCache_def local_get_def getCacheInstance_def uses_reserved_def
      list_lru_ops_def list_lru_look_def fresh_def)

definition two_pages :: "(string \<times> jsv) list" where
  "two_pages =
     [(''first'', JObj [(''logs'', JArr [JNum 1, JNum 2]), (''links'', JObj [(''next'', JStr ''/api/v1/second'')])]),
      (''second'', JObj [(''logs'', JArr [JNum 3]), (''links'', JObj [(''next'', JNull)])])]"

lemma two_pages_served:
  "serves (canned_mirror two_pages) label ''logs'' d ''first'' [[JNum 1, JNum 2], [JNum 3]] s
     (s\<lparr> rs_world := rs_world s + 2 \<rparr>)"
  by (simp add: mn_get_canned two_pages_def page_items_def starts_with_def)

theorem pages_complete_or_refused_witness:
  "getPaginatedResults (canned_mirror two_pages) ''first'' ''contracts/results/logs'' ''logs'' sample_details [] 1 3 quiet_relay =
     (Inr [JNum 1, JNum 2, JNum 3], quiet_relay\<lparr> rs_world := 2 \<rparr>) \<and>
   fst (getPaginatedResults (canned_mirror two_pages) ''first'' ''contracts/results/logs'' ''logs'' sample_details [] 1 2 quiet_relay) =
     Inl (ThrownRpc (PAGINATION_MAX 2))"
  using pages_complete_or_refused [OF two_pages_served, of 3 "''contracts/results/logs''" sample_details quiet_relay]
    pages_complete_or_refused [OF two_pages_served, of 2 "''contracts/results/logs''" sample_details quiet_relay]
  by (simp add: quiet_relay_def)

definition complete_record :: jsv where
  "complete_record = JObj [(''transaction_index'', JNum 1), (''block_number'', JNum 5), (''block_hash'', JStr ''0xab'')]"

theorem retry_returns_first_complete_witness:
  "fst (getContractResultWithRetry (canned_mirror [(''contracts/results/0x1'', complete_record)])
     (mn_get (canned_mirror [(''contracts/results/0x1'', complete_record)]) ''contracts/results/0x1'' ''contracts/results/'' sample_details None)
     quiet_relay) = Inr complete_record"
proof -
  let ?env = "canned_mirror [(''contracts/results/0x1'', complete_record)]"
  let ?fetch = "mn_get ?env ''contracts/results/0x1'' ''contracts/results/'' sample_details None"
  have "getContractResultWithRetry ?env ?fetch quiet_relay = (Inr complete_record, quiet_relay\<lparr> rs_world := 1 \<rparr>)"
    by (subst retry_returns_first_complete)
      (auto simp: canned_mirror_def mn_get_canned [unfolded canned_mirror_def] quiet_relay_def complete_def
        immature_results_def immature_result_def complete_record_def nullish_def intro!: exI [of _ 0])
  then show ?thesis by simp
qed

definition account_only :: "(string \<times> jsv) list" where
  "account_only = [(''accounts/0x67?transactions=false'', JObj [(''account'', JStr ''0.0.5'')])]"

theorem resolved_type_ignores_search_witness:
  "\<exists>s1. fst (resolveEntityType (canned_mirror account_only) ''0x67'' sample_details [TYPE_CONTRACT, TYPE_TOKEN] None None s1) =
     Inr (entity_response TYPE_ACCOUNT (JObj [(''account'', JStr ''0.0.5'')]))"
proof -
  let ?env = "canned_mirror account_only"
  let ?v = "entity_response TYPE_ACCOUNT (JObj [(''account'', JStr ''0.0.5'')])"
  have "\<exists>s1. resolveEntityType ?env ''0x67'' sample_details [TYPE_ACCOUNT] None None quiet_relay = (Inr ?v, s1)"
    by (simp add: resolveEntityType_def Let_def and_do_def cached_get_run empty_cache_miss ret_def or_null_def catch_do_def
        mn_getAccount_def mn_get_canned account_only_def getQueryParams_def setQueryParam_def set_key_def TYPE_ACCOUNT_def
        TYPE_CONTRACT_def TYPE_TOKEN_def found_entity_def nullish_def cached_set_run)
  then obtain s1 where "resolveEntityType ?env ''0x67'' sample_details [TYPE_ACCOUNT] None None quiet_relay = (Inr ?v, s1)" ..
  from resolved_type_ignores_search [OF _ _ this, of list_lru_look "\<lambda>c. Suc (fst c)" sample_details "[TYPE_CONTRACT, TYPE_TOKEN]" None]
  show ?thesis by (auto simp: canned_mirror_def entity_response_def)
qed

end
