(* ===== verification/JsDoubles.thy ===== *)
theory JsDoubles
  imports Complex_Main Formatters JsonValues
begin

section \<open>Numbers with a fraction\<close>

text \<open>
  A binary64 number is its value, a rational: \<open>double_of_rat\<close> rounds an exact result to the nearest
  number of 53 significant bits, ties to the even one (between the subnormal numbers and the overflow
  to infinity, where the code's values never come). \<open>js_Number\<close> is the conversion of a value that is
  an integer, \<open>decimal_value\<close> reads a text with a decimal point.
\<close>

definition quotient_even :: "nat \<Rightarrow> nat \<Rightarrow> nat" where
  "quotient_even n d =
     (let q = n div d; r = n mod d in if d < 2 * r \<or> (2 * r = d \<and> odd q) then q + 1 else q)"

definition scaled_quotient :: "(nat \<Rightarrow> nat \<Rightarrow> nat) \<Rightarrow> nat \<Rightarrow> nat \<Rightarrow> int \<Rightarrow> nat" where
  "scaled_quotient f n d k = (if 0 \<le> k then f n (d * 2 ^ nat k) else f (n * 2 ^ nat (- k)) d)"

definition double_pos :: "nat \<Rightarrow> nat \<Rightarrow> rat" where
  "double_pos n d =
     (let k0 = int (bit_len n) - int (bit_len d) - 53;
          k = (if 2 ^ 53 \<le> scaled_quotient (div) n d k0 then k0 + 1 else k0);
          m = of_nat (scaled_quotient quotient_even n d k)
      in if 0 \<le> k then m * 2 ^ nat k else m / 2 ^ nat (- k))"

definition double_of_rat :: "rat \<Rightarrow> rat" where
  "double_of_rat x =
     (let (a, b) = quotient_of x
      in if a = 0 then 0 else if a < 0 then - double_pos (nat (- a)) (nat b) else double_pos (nat a) (nat b))"

lemma quotient_even_1: "quotient_even n (Suc 0) = n"
  by (simp add: quotient_even_def)

lemma bit_len_1: "bit_len (Suc 0) = Suc 0"
  by (subst bit_len.simps) (simp add: bit_len.simps [of 0])

lemma double_pos_nat:
  assumes "n < 2 ^ 53"
  shows "double_pos n 1 = of_nat n"
proof -
  have "bit_len n \<le> 53" using assms by (rule bit_len_le)
  then have k0: "int (bit_len n) - int (bit_len 1) - 53 < 0" by (simp add: bit_len_1)
  have "scaled_quotient quotient_even n 1 k = n * 2 ^ nat (- k)" if "k \<le> 0" for k
    using that by (auto simp: scaled_quotient_def quotient_even_1)
  with k0 show ?thesis
    by (simp add: double_pos_def Let_def split: if_split)
qed

lemma double_of_rat_int:
  assumes "\<bar>i\<bar> < 2 ^ 53"
  shows "double_of_rat (of_int i) = of_int i"
proof -
  have "quotient_of (of_int i) = (i, 1)" by (simp add: quotient_of_int)
  moreover have "double_pos (nat \<bar>i\<bar>) 1 = of_nat (nat \<bar>i\<bar>)"
    using assms by (intro double_pos_nat) auto
  ultimately show ?thesis by (auto simp: double_of_rat_def abs_if)
qed

definition js_mul :: "rat \<Rightarrow> rat \<Rightarrow> rat" where "js_mul a b = double_of_rat (a * b)"
definition js_div :: "rat \<Rightarrow> rat \<Rightarrow> rat" where "js_div a b = double_of_rat (a / b)"
definition js_add :: "rat \<Rightarrow> rat \<Rightarrow> rat" where "js_add a b = double_of_rat (a + b)"
definition js_sub :: "rat \<Rightarrow> rat \<Rightarrow> rat" where "js_sub a b = double_of_rat (a - b)"
definition js_round :: "rat \<Rightarrow> int" where "js_round x = \<lfloor>x + 1 / 2\<rfloor>"

subsection \<open>The error of rounding\<close>

lemma quotient_even_error:
  assumes "0 < d"
  shows "\<bar>of_nat (quotient_even n d) - (of_nat n / of_nat d :: rat)\<bar> \<le> 1 / 2"
proof -
  let ?q = "n div d" and ?r = "n mod d"
  let ?f = "of_nat ?r / of_nat d :: rat"
  have n: "(of_nat n :: rat) = of_nat ?q * of_nat d + of_nat ?r"
    by (metis div_mult_mod_eq of_nat_add of_nat_mult)
  have x: "(of_nat n / of_nat d :: rat) = of_nat ?q + ?f"
    using assms by (simp add: n add_divide_distrib)
  have pos: "0 < (of_nat d :: rat)" using assms by simp
  have "?f \<le> 1 / 2" if "2 * ?r \<le> d"
  proof -
    have "2 * of_nat ?r \<le> (of_nat d :: rat)" using that by (metis of_nat_le_iff of_nat_mult of_nat_numeral)
    with pos show ?thesis by (simp add: field_simps)
  qed
  moreover have "1 / 2 \<le> ?f" if "d \<le> 2 * ?r"
  proof -
    have "(of_nat d :: rat) \<le> 2 * of_nat ?r" using that by (metis of_nat_le_iff of_nat_mult of_nat_numeral)
    with pos show ?thesis by (simp add: field_simps)
  qed
  moreover have "0 \<le> ?f" "?f < 1" using pos assms by simp_all
  ultimately show ?thesis unfolding x quotient_even_def Let_def
    by (cases "d < 2 * ?r \<or> (2 * ?r = d \<and> odd ?q)") (auto simp: abs_le_iff)
qed

lemma bit_len_lower: "0 < n \<Longrightarrow> 2 ^ (bit_len n - 1) \<le> n"
proof -
  assume "0 < n"
  have "\<not> n < 2 ^ (bit_len n - 1)"
  proof
    assume "n < 2 ^ (bit_len n - 1)"
    from bit_len_le [OF this] \<open>0 < n\<close> show False by (simp add: bit_len.simps [of n])
  qed
  then show ?thesis by simp
qed

lemma bit_len_bounds:
  assumes "0 < n"
  shows "2 powi (int (bit_len n) - 1) \<le> (of_nat n :: rat)" and "of_nat n < (2 powi int (bit_len n) :: rat)"
proof -
  have pos: "0 < bit_len n" using assms by (simp add: bit_len.simps [of n])
  have "(of_nat (2 ^ (bit_len n - 1)) :: rat) \<le> of_nat n" using bit_len_lower [OF assms] by (simp only: of_nat_le_iff)
  moreover have e: "int (bit_len n) - 1 = int (bit_len n - 1)" using pos by simp
  ultimately show "2 powi (int (bit_len n) - 1) \<le> (of_nat n :: rat)" unfolding e power_int_of_nat by simp
  have "of_nat n < (of_nat (2 ^ bit_len n) :: rat)" using less_two_power_bit_len [of n] by (simp only: of_nat_less_iff)
  then show "of_nat n < (2 powi int (bit_len n) :: rat)" unfolding power_int_of_nat by simp
qed

lemma scaled_quotient_value:
  assumes "0 < d"
  shows "\<exists>n' d'. 0 < d' \<and> (\<forall>f. scaled_quotient f n d k = f n' d') \<and>
    (of_nat n' / of_nat d' :: rat) = of_nat n / of_nat d / 2 powi k"
proof (cases "0 \<le> k")
  case True
  then show ?thesis using assms
    by (intro exI [of _ n] exI [of _ "d * 2 ^ nat k"]) (simp add: scaled_quotient_def power_int_def)
next
  case False
  then show ?thesis using assms
    by (intro exI [of _ "n * 2 ^ nat (- k)"] exI [of _ d]) (simp add: scaled_quotient_def power_int_def power_inverse field_simps)
qed

lemma scale_powi: "(if 0 \<le> k then m * 2 ^ nat k else m / 2 ^ nat (- k)) = (m * 2 powi k :: rat)"
proof (cases "0 \<le> k")
  case True
  then show ?thesis by (simp add: power_int_nonneg_exp)
next
  case False
  then obtain j where "k = - int j" using int_cases [of k] by (metis int_cases2 of_nat_0_le_iff)
  with False show ?thesis by (simp add: power_int_minus divide_inverse)
qed

lemma double_pos_error:
  assumes "0 < n" and "0 < d"
  shows "\<bar>double_pos n d - of_nat n / of_nat d\<bar> \<le> of_nat n / of_nat d / 2 ^ 53"
proof -
  let ?x = "of_nat n / of_nat d :: rat"
  define k0 where "k0 = int (bit_len n) - int (bit_len d) - 53"
  define k where "k = (if 2 ^ 53 \<le> scaled_quotient (div) n d k0 then k0 + 1 else k0)"
  have k0: "2 ^ 52 \<le> ?x / 2 powi k0"
  proof -
    have "2 powi (int (bit_len n) - 1) / 2 powi int (bit_len d) \<le> ?x"
      using bit_len_bounds [OF assms(1)] bit_len_bounds [OF assms(2)] assms
      by (intro frac_le) simp_all
    moreover have "(2 powi (int (bit_len n) - 1) / 2 powi int (bit_len d) :: rat) = 2 powi (k0 + 52)"
      by (subst power_int_diff [symmetric]) (simp_all add: k0_def algebra_simps)
    moreover have "(2 powi (k0 + 52) :: rat) = 2 powi k0 * 2 ^ 52" by (subst power_int_add) simp_all
    ultimately have "2 powi k0 * 2 ^ 52 \<le> ?x" by simp
    moreover have "0 < (2 powi k0 :: rat)" by simp
    ultimately show ?thesis by (simp only: pos_le_divide_eq mult.commute)
  qed
  have unit: "1 / 2 \<le> y / 2 ^ 53" if "2 ^ 52 \<le> y" for y :: rat using that by simp
  have half: "2 ^ 52 \<le> y / 2" if "2 ^ 53 \<le> y" for y :: rat using that by simp
  have k: "2 ^ 52 \<le> ?x / 2 powi k"
  proof (cases "2 ^ 53 \<le> scaled_quotient (div) n d k0")
    case True
    obtain n' d' where v: "0 < d'" "scaled_quotient (div) n d k0 = n' div d'" "(of_nat n' / of_nat d' :: rat) = ?x / 2 powi k0"
      using scaled_quotient_value [OF assms(2)] by meson
    have "(of_nat (2 ^ 53) :: rat) \<le> of_nat (n' div d')" using True v(2) by (simp only: of_nat_le_iff)
    also have "\<dots> \<le> of_nat n' / of_nat d'" by (rule of_nat_div_le_of_nat)
    finally have "2 ^ 53 \<le> ?x / 2 powi k0" by (simp add: v(3))
    then have "2 ^ 52 \<le> ?x / 2 powi k0 / 2" by (rule half)
    moreover have "?x / 2 powi k = ?x / 2 powi k0 / 2"
      using True by (simp only: k_def if_True) (subst power_int_add, simp_all)
    ultimately show ?thesis by (simp only:)
  next
    case False
    with k0 show ?thesis by (simp add: k_def)
  qed
  obtain n' d' where v: "0 < d'" "scaled_quotient quotient_even n d k = quotient_even n' d'"
    "(of_nat n' / of_nat d' :: rat) = ?x / 2 powi k"
    using scaled_quotient_value [OF assms(2)] by meson
  let ?m = "of_nat (quotient_even n' d') :: rat"
  have "double_pos n d = ?m * 2 powi k"
    unfolding double_pos_def Let_def k0_def [symmetric] k_def [symmetric] v(2)
    by (rule scale_powi)
  then have "\<bar>double_pos n d - ?x\<bar> = 2 powi k * \<bar>?m - ?x / 2 powi k\<bar>"
    by (simp add: abs_mult_pos' right_diff_distrib mult.commute flip: abs_mult_pos)
  also have "\<bar>?m - ?x / 2 powi k\<bar> \<le> 1 / 2" using quotient_even_error [OF v(1), of n'] by (simp add: v(3))
  also have "(1 / 2 :: rat) \<le> ?x / 2 powi k / 2 ^ 53" using k by (rule unit)
  finally show ?thesis by simp
qed


lemma double_of_rat_error: "\<bar>double_of_rat x - x\<bar> \<le> \<bar>x\<bar> / 2 ^ 53"
proof -
  obtain a b where q: "quotient_of x = (a, b)" by (cases "quotient_of x")
  then have b: "0 < b" and x: "x = of_int a / of_int b"
    by (rule quotient_of_denom_pos, rule quotient_of_div)
  have nat_b: "(of_nat (nat b) :: rat) = of_int b" using b by simp
  have pos: "\<bar>double_pos (nat \<bar>a\<bar>) (nat b) - of_int \<bar>a\<bar> / of_int b\<bar> \<le> of_int \<bar>a\<bar> / of_int b / 2 ^ 53" if "a \<noteq> 0"
    using double_pos_error [of "nat \<bar>a\<bar>" "nat b"] that b by (simp add: nat_b)
  show ?thesis
  proof (cases a "0 :: int" rule: linorder_cases)
    case less
    let ?y = "of_int \<bar>a\<bar> / of_int b :: rat"
    have x': "x = - ?y" "\<bar>x\<bar> = ?y" using less b by (simp_all add: x abs_divide)
    have "double_of_rat x = - double_pos (nat \<bar>a\<bar>) (nat b)" using less by (simp add: double_of_rat_def q)
    then have "double_of_rat x - x = - (double_pos (nat \<bar>a\<bar>) (nat b) - ?y)" by (simp add: x'(1))
    then show ?thesis using pos less by (simp only: abs_minus_cancel x'(2))
  next
    case equal
    then show ?thesis by (simp add: double_of_rat_def q x)
  next
    case greater
    have "double_of_rat x = double_pos (nat \<bar>a\<bar>) (nat b)" using greater by (simp add: double_of_rat_def q)
    moreover have "x = of_int \<bar>a\<bar> / of_int b" "\<bar>x\<bar> = of_int \<bar>a\<bar> / of_int b" using greater b by (simp_all add: x)
    ultimately show ?thesis using pos greater by simp
  qed
qed

lemma double_of_rat_nonneg: "0 \<le> x \<Longrightarrow> 0 \<le> double_of_rat x"
proof -
  assume "0 \<le> x"
  then have "x / 2 ^ 53 \<le> x" by simp
  with \<open>0 \<le> x\<close> double_of_rat_error [of x] show ?thesis unfolding abs_le_iff by linarith
qed

lemma js_round_error: "\<bar>of_int (js_round x) - x\<bar> \<le> 1 / 2"
  unfolding js_round_def by linarith

lemma js_round_nonneg: "0 \<le> x \<Longrightarrow> 0 \<le> js_round x"
  by (simp add: js_round_def)

subsection \<open>Texts of numbers\<close>

definition decimal_value :: "string \<Rightarrow> rat option" where
  "decimal_value s =
     (let whole = takeWhile (\<lambda>c. c \<noteq> CHR ''.'') s; fraction = drop (Suc (length whole)) s
      in if whole @ fraction \<noteq> [] \<and> list_all (is_digit_in 10) (whole @ fraction)
         then Some (double_of_rat (of_nat (of_base 10 (whole @ fraction)) / 10 ^ length fraction)) else None)"

text \<open>\<open>Number(v)\<close> for integers and their texts; anything else is not a number here.\<close>

fun js_Number :: "jsv \<Rightarrow> js_number" where
  "js_Number JUndef = NotANumber"
| "js_Number JNull = Num 0"
| "js_Number (JBool b) = Num (if b then 1 else 0)"
| "js_Number (JNum n) = Num n"
| "js_Number (JStr s) = (case js_string_to_bigint s of Some n \<Rightarrow> Num (to_number n) | None \<Rightarrow> NotANumber)"
| "js_Number v = NotANumber"

fun num_less :: "js_number \<Rightarrow> js_number \<Rightarrow> bool" where
  "num_less (Num a) (Num b) = (a < b)"
| "num_less _ _ = False"

fun num_equal :: "js_number \<Rightarrow> js_number \<Rightarrow> bool" where
  "num_equal (Num a) (Num b) = (a = b)"
| "num_equal _ _ = False"

fun num_truthy :: "js_number \<Rightarrow> bool" where
  "num_truthy (Num n) = (n \<noteq> 0)"
| "num_truthy NotANumber = False"

fun num_text :: "js_number \<Rightarrow> string" where
  "num_text (Num n) = show_int n"
| "num_text NotANumber = ''NaN''"

end
