(* ===== verification/CommonQueries.thy ===== *)
theory CommonQueries
  imports MirrorClient JsDoubles "HOL-Library.List_Lexorder" "HOL-Library.Char_ord" "HOL-Library.Multiset"
begin

section \<open>Queries the services share\<close>

text \<open>
  Models \<open>services/ethService/ethCommonService/CommonService.ts\<close>: block tags, the range of a log
  query, logs, gas prices and the form of a transaction. A block tag is any value, since filters keep
  numbers where clients send texts. The error a JavaScript operation on \<open>undefined\<close> or \<open>null\<close> throws
  is a \<open>ThrownOther\<close>; its text is not modelled. Configured values are fields of the environment.
\<close>

record ('c, 'r, 'w) relay_env =
  re_mirror :: "('c, 'r, 'w) mirror_env"
  re_maxBlockRange :: int
  re_logsBlockRangeLimit :: int
  re_gasPricePercentageBuffer :: rat

definition type_error :: thrown where
  "type_error = ThrownOther ''TypeError''"

definition genericErrorHandler :: "thrown \<Rightarrow> thrown" where
  "genericErrorHandler e = (case e of ThrownOther m \<Rightarrow> ThrownRpc (INTERNAL_ERROR m) | _ \<Rightarrow> e)"

subsection \<open>Block tags\<close>

definition BLOCK_LATEST :: jsv where "BLOCK_LATEST = JStr ''latest''"
definition BLOCK_EARLIEST :: jsv where "BLOCK_EARLIEST = JStr ''earliest''"
definition BLOCK_PENDING :: jsv where "BLOCK_PENDING = JStr ''pending''"
definition BLOCK_SAFE :: jsv where "BLOCK_SAFE = JStr ''safe''"
definition BLOCK_FINALIZED :: jsv where "BLOCK_FINALIZED = JStr ''finalized''"

definition blockTagIsLatestOrPendingStrict :: "jsv \<Rightarrow> bool" where
  "blockTagIsLatestOrPendingStrict tag = (tag = BLOCK_LATEST \<or> tag = BLOCK_PENDING)"

definition blockTagIsLatestOrPending :: "jsv \<Rightarrow> bool" where
  "blockTagIsLatestOrPending tag =
     (nullish tag \<or> tag = BLOCK_LATEST \<or> tag = BLOCK_PENDING \<or> tag = BLOCK_SAFE \<or> tag = BLOCK_FINALIZED)"

definition isBlockTagEarliest :: "jsv \<Rightarrow> bool" where
  "isBlockTagEarliest tag = (tag = BLOCK_EARLIEST)"

definition isBlockTagFinalized :: "jsv \<Rightarrow> bool" where
  "isBlockTagFinalized tag = (tag = BLOCK_FINALIZED \<or> tag = BLOCK_LATEST \<or> tag = BLOCK_PENDING \<or> tag = BLOCK_SAFE)"

text \<open>\<open>/^0[xX]([1-9A-Fa-f]+[0-9A-Fa-f]{0,13}|0)$/\<close> and a safe integer.\<close>

definition isBlockNumValid :: "string \<Rightarrow> bool" where
  "isBlockNumValid num =
     (let r = drop 2 num; lead = takeWhile (\<lambda>c. is_digit_in 16 c \<and> c \<noteq> CHR ''0'') r in
      (take 2 num = ''0x'' \<or> take 2 num = ''0X'') \<and>
      (r = ''0'' \<or> (lead \<noteq> [] \<and> list_all (is_digit_in 16) r \<and> length r \<le> length lead + 13)) \<and>
      (case js_Number (JStr num) of Num n \<Rightarrow> n \<le> 9007199254740991 | NotANumber \<Rightarrow> False))"

definition isBlockParamValid :: "jsv \<Rightarrow> bool" where
  "isBlockParamValid tag =
     (nullish tag \<or> isBlockTagEarliest tag \<or> isBlockTagFinalized tag \<or>
      (case tag of JStr s \<Rightarrow> isBlockNumValid s | _ \<Rightarrow> isBlockNumValid (js_to_string tag)))"

definition isBlockHash :: "string \<Rightarrow> bool" where
  "isBlockHash blockHash = hex_text_of_length (\<lambda>n. n = 64) blockHash"

subsection \<open>Blocks\<close>

text \<open>\<open>latestBlockResponse.blocks[0]\<close>.\<close>

definition first_block :: "jsv \<Rightarrow> thrown + jsv" where
  "first_block response =
     (if nullish response then Inl type_error
      else (case js_prop response ''blocks'' of
              JArr (b # bs) \<Rightarrow> Inr b | JUndef \<Rightarrow> Inl type_error | JNull \<Rightarrow> Inl type_error | _ \<Rightarrow> Inr JUndef))"

fun number_field :: "jsv \<Rightarrow> string \<Rightarrow> thrown + js_number" where
  "number_field v k = (if nullish v then Inl type_error else Inr (js_Number (js_prop v k)))"

fun text_length :: "jsv \<Rightarrow> nat option" where
  "text_length (JStr s) = Some (length s)"
| "text_length (JArr xs) = Some (length xs)"
| "text_length v = None"

definition shorter_than_32 :: "jsv \<Rightarrow> bool" where
  "shorter_than_32 v = (case text_length v of None \<Rightarrow> False | Some n \<Rightarrow> n < 32)"

definition latest_block :: "('c, 'r, 'w) relay_env \<Rightarrow> request_details \<Rightarrow> ('c, 'r, 'w, jsv) relay_action" where
  "latest_block env d = and_do (getLatestBlock (re_mirror env) d) (\<lambda>response. lift (first_block response))"

definition getHistoricalBlockResponse ::
  "('c, 'r, 'w) relay_env \<Rightarrow> request_details \<Rightarrow> jsv \<Rightarrow> bool \<Rightarrow> ('c, 'r, 'w, jsv) relay_action" where
  "getHistoricalBlockResponse env d tag returnLatest =
     (if \<not> returnLatest \<and> blockTagIsLatestOrPending tag then ret JNull
      else if tag = JStr EMPTY_HEX then ret JNull
      else and_do
        (if \<not> nullish tag \<and> shorter_than_32 tag \<and> js_Number tag \<noteq> NotANumber then
           and_do (latest_block env d) (\<lambda>latestBlock.
             and_do (lift (number_field latestBlock ''number'')) (\<lambda>n.
               ret (num_less (case n of Num k \<Rightarrow> Num (k + re_maxBlockRange env) | NotANumber \<Rightarrow> NotANumber) (js_Number tag))))
         else ret False)
        (\<lambda>beyond.
           if beyond then ret JNull
           else if blockTagIsLatestOrPending tag then latest_block env d
           else if tag = BLOCK_EARLIEST then mn_getBlock (re_mirror env) (JNum 0) d
           else if shorter_than_32 tag then
             mn_getBlock (re_mirror env) (case js_Number tag of Num n \<Rightarrow> JNum n | NotANumber \<Rightarrow> JStr ''NaN'') d
           else mn_getBlock (re_mirror env) tag d))"

text \<open>\<open>numberTo0x(v)\<close>: \<open>v.toString(16)\<close> after the prefix.\<close>

fun to_0x :: "jsv \<Rightarrow> thrown + string" where
  "to_0x (JNum n) = Inr (numberTo0x n)"
| "to_0x JUndef = Inl type_error"
| "to_0x JNull = Inl type_error"
| "to_0x v = Inr (EMPTY_HEX @ js_to_string v)"

definition getLatestBlockNumber :: "('c, 'r, 'w) relay_env \<Rightarrow> request_details \<Rightarrow> ('c, 'r, 'w, string) relay_action" where
  "getLatestBlockNumber env d =
     and_do (getLatestBlock (re_mirror env) d) (\<lambda>blocksResponse.
       if blocksResponse = JUndef then throw type_error
       else (case js_prop blocksResponse ''blocks'' of
         JArr (b # bs) \<Rightarrow>
           if nullish b then throw type_error else lift (to_0x (js_prop b ''number''))
       | _ \<Rightarrow> throw (ThrownRpc COULD_NOT_RETRIEVE_LATEST_BLOCK)))"

definition translateBlockTag ::
  "('c, 'r, 'w) relay_env \<Rightarrow> jsv \<Rightarrow> request_details \<Rightarrow> ('c, 'r, 'w, js_number) relay_action" where
  "translateBlockTag env tag d =
     (if blockTagIsLatestOrPending tag
      then and_do (getLatestBlockNumber env d) (\<lambda>n. ret (js_Number (JStr n)))
      else if tag = BLOCK_EARLIEST then ret (Num 0)
      else ret (js_Number tag))"

subsection \<open>Ranges of blocks\<close>

text \<open>A lower end is needed unless the upper end is the latest block.\<close>

definition require_from_block ::
  "('c, 'r, 'w) relay_env \<Rightarrow> jsv \<Rightarrow> jsv \<Rightarrow> request_details \<Rightarrow> ('c, 'r, 'w, unit) relay_action" where
  "require_from_block env fromBlock toBlock d =
     and_do (getLatestBlockNumber env d) (\<lambda>latestBlockNumber.
       if \<not> num_equal (js_Number toBlock) (js_Number (JStr latestBlockNumber)) \<and> \<not> truthy fromBlock
       then throw (ThrownRpc MISSING_FROM_BLOCK_PARAM) else ret ())"

text \<open>\<open>parseInt(block.number)\<close>.\<close>

definition block_number :: "jsv \<Rightarrow> js_number" where
  "block_number v =
     (case js_prop v ''number'' of
        JNum n \<Rightarrow> Num n
      | w \<Rightarrow> (case js_parse_int_auto (js_to_string w) of None \<Rightarrow> NotANumber | Some n \<Rightarrow> Num n))"

definition timestamp_field :: "jsv \<Rightarrow> string \<Rightarrow> thrown + jsv" where
  "timestamp_field block k =
     (if nullish (js_prop block ''timestamp'') then Inl type_error else Inr (js_prop (js_prop block ''timestamp'') k))"

definition seconds_of :: "jsv \<Rightarrow> rat option" where
  "seconds_of v =
     (case v of
        JStr s \<Rightarrow> decimal_value s
      | JNum n \<Rightarrow> Some (of_int n)
      | JNull \<Rightarrow> Some 0
      | _ \<Rightarrow> None)"

abbreviation maxTimestampParamRange :: rat where
  "maxTimestampParamRange \<equiv> 604800"

definition timestamps_too_far :: "jsv \<Rightarrow> jsv \<Rightarrow> bool" where
  "timestamps_too_far from till =
     (case (seconds_of from, seconds_of till) of
        (Some a, Some b) \<Rightarrow> maxTimestampParamRange < js_sub b a
      | _ \<Rightarrow> False)"

definition isSingleAddress :: "jsv \<Rightarrow> bool" where
  "isSingleAddress address =
     (case address of JArr xs \<Rightarrow> length xs = 1 | JStr s \<Rightarrow> s \<noteq> '''' | _ \<Rightarrow> False)"

definition num_minus :: "js_number \<Rightarrow> js_number \<Rightarrow> js_number" where
  "num_minus a b = (case (a, b) of (Num x, Num y) \<Rightarrow> Num (to_number (x - y)) | _ \<Rightarrow> NotANumber)"

definition hex_of_number :: "js_number \<Rightarrow> string" where
  "hex_of_number a = prepend0x (case a of Num n \<Rightarrow> int_to_base 16 n | NotANumber \<Rightarrow> ''NaN'')"

text \<open>
  The checks that follow once both blocks are known: the seven days, the order and the number of
  blocks. The answer is the pair of timestamp parameters.
\<close>

definition check_block_range ::
  "('c, 'r, 'w) relay_env \<Rightarrow> jsv \<Rightarrow> jsv \<Rightarrow> jsv \<Rightarrow> thrown + jsv list" where
  "check_block_range env fromResponse toResponse address =
     (let fromBlockNum = block_number fromResponse; toBlockNum = block_number toResponse in
      and_then (timestamp_field fromResponse ''from'') (\<lambda>from.
      and_then (timestamp_field toResponse ''to'') (\<lambda>till.
        if timestamps_too_far from till
        then Inl (ThrownRpc (TIMESTAMP_RANGE_TOO_LARGE (hex_of_number fromBlockNum) (js_to_string from)
               (hex_of_number toBlockNum) (js_to_string till)))
        else if num_less toBlockNum fromBlockNum then Inl (ThrownRpc INVALID_BLOCK_RANGE)
        else if \<not> isSingleAddress address \<and> num_less (Num (re_logsBlockRangeLimit env)) (num_minus toBlockNum fromBlockNum)
        then Inl (ThrownRpc (RANGE_TOO_LARGE (re_logsBlockRangeLimit env)))
        else Inr [JStr (''gte:'' @ js_to_string from), JStr (''lte:'' @ js_to_string till)])))"

text \<open>\<open>None\<close>: there is no such block, and the caller answers with nothing.\<close>

definition validateBlockRangeAndAddTimestampToParams ::
  "('c, 'r, 'w) relay_env \<Rightarrow> jsv \<Rightarrow> jsv \<Rightarrow> request_details \<Rightarrow> jsv \<Rightarrow> ('c, 'r, 'w, jsv list option) relay_action" where
  "validateBlockRangeAndAddTimestampToParams env fromBlock toBlock d address =
     (let toBlock' = (if blockTagIsLatestOrPending toBlock then BLOCK_LATEST else toBlock);
          fromBlock' = (if blockTagIsLatestOrPending fromBlock then BLOCK_LATEST else fromBlock)
      in and_do (if blockTagIsLatestOrPending toBlock then ret () else require_from_block env fromBlock toBlock d) (\<lambda>u.
         and_do (getHistoricalBlockResponse env d fromBlock' True) (\<lambda>fromBlockResponse.
           if \<not> truthy fromBlockResponse then ret None
           else and_do (lift (timestamp_field fromBlockResponse ''from'')) (\<lambda>from.
             if fromBlock' = toBlock' then
               and_do (lift (timestamp_field fromBlockResponse ''to'')) (\<lambda>till.
                 ret (Some [JStr (''gte:'' @ js_to_string from), JStr (''lte:'' @ js_to_string till)]))
             else and_do (getHistoricalBlockResponse env d toBlock' True) (\<lambda>toBlockResponse.
               if \<not> truthy toBlockResponse then ret None
               else and_do (lift (check_block_range env fromBlockResponse toBlockResponse address)) (\<lambda>ts. ret (Some ts)))))))"

text \<open>\<open>null\<close> is \<open>None\<close>, which is less than every positive number.\<close>

definition null_number :: "js_number option \<Rightarrow> js_number" where
  "null_number n = (case n of None \<Rightarrow> Num 0 | Some a \<Rightarrow> a)"

definition validateBlockRange ::
  "('c, 'r, 'w) relay_env \<Rightarrow> jsv \<Rightarrow> jsv \<Rightarrow> request_details \<Rightarrow> ('c, 'r, 'w, bool) relay_action" where
  "validateBlockRange env fromBlock toBlock d =
     (let latestTo = blockTagIsLatestOrPending toBlock; latestFrom = blockTagIsLatestOrPending fromBlock;
          toBlock' = (if latestTo then BLOCK_LATEST else toBlock);
          fromBlock' = (if latestFrom then BLOCK_LATEST else fromBlock);
          toNumber = (if latestTo then None else Some (js_Number toBlock));
          fromNumber = (if latestFrom then None else Some (js_Number fromBlock));
          compare = (\<lambda>a b. if num_less (null_number b) (null_number a)
                           then throw (ThrownRpc INVALID_BLOCK_RANGE) else ret True)
      in and_do (if latestTo then ret () else require_from_block env fromBlock toBlock d) (\<lambda>u.
           if \<not> num_truthy (null_number fromNumber) \<or> \<not> num_truthy (null_number toNumber) then
             and_do (getHistoricalBlockResponse env d fromBlock' True) (\<lambda>fromBlockResponse.
             and_do (getHistoricalBlockResponse env d toBlock' True) (\<lambda>toBlockResponse.
               compare (if truthy fromBlockResponse then Some (block_number fromBlockResponse) else fromNumber)
                       (if truthy toBlockResponse then Some (block_number toBlockResponse) else toNumber)))
           else compare fromNumber toNumber))"

subsection \<open>Logs\<close>

definition validateBlockHashAndAddTimestampToParams ::
  "('c, 'r, 'w) relay_env \<Rightarrow> string \<Rightarrow> request_details \<Rightarrow> ('c, 'r, 'w, jsv list option) relay_action" where
  "validateBlockHashAndAddTimestampToParams env blockHash d =
     catch_do
       (and_do (mn_getBlock (re_mirror env) (JStr blockHash) d) (\<lambda>block.
          if \<not> truthy block then ret None
          else and_do (lift (timestamp_field block ''from'')) (\<lambda>from.
               and_do (lift (timestamp_field block ''to'')) (\<lambda>till.
                 ret (Some [JStr (''gte:'' @ js_to_string from), JStr (''lte:'' @ js_to_string till)])))))
       (\<lambda>e. case e of
          ThrownMirror m \<Rightarrow> if mne_isNotFound m then ret None else throw e
        | _ \<Rightarrow> throw e)"

definition addTopicsToParams :: "jsv \<Rightarrow> (string \<times> jsv) list" where
  "addTopicsToParams topics =
     (case topics of
        JArr ts \<Rightarrow> map (\<lambda>i. (''topic'' @ show_int (int i), ts ! i)) (filter (\<lambda>i. \<not> nullish (ts ! i)) [0..<length ts])
      | _ \<Rightarrow> [])"

definition array_items :: "jsv \<Rightarrow> jsv list" where
  "array_items v = (case v of JArr xs \<Rightarrow> xs | _ \<Rightarrow> [])"

text \<open>Sorting is stable: the comparison never says that two logs are equal, but only asks for less.\<close>

definition getLogsByAddress ::
  "('c, 'r, 'w) relay_env \<Rightarrow> jsv \<Rightarrow> jsv \<Rightarrow> request_details \<Rightarrow> ('c, 'r, 'w, jsv list) relay_action" where
  "getLogsByAddress env address params d =
     (let addresses = (case address of JArr as \<Rightarrow> as | _ \<Rightarrow> [address])
      in and_do (map_do (\<lambda>addr. getContractResultsLogsByAddress (re_mirror env) (js_to_string addr) d params JUndef) addresses)
           (\<lambda>logResults. ret (sort_key (\<lambda>entry. js_to_string (js_prop entry ''timestamp'')) (concat (map array_items logResults)))))"

fun hash32_of :: "jsv \<Rightarrow> thrown + string" where
  "hash32_of (JStr s) = Inr (toHash32 s)"
| "hash32_of v = Inl type_error"

definition make_log :: "jsv \<Rightarrow> thrown + jsv" where
  "make_log entry =
     (if nullish entry then Inl type_error
      else and_then (hash32_of (js_prop entry ''block_hash'')) (\<lambda>blockHash.
        and_then (to_0x (js_prop entry ''block_number'')) (\<lambda>blockNumber.
        and_then (to_0x (js_prop entry ''index'')) (\<lambda>logIndex.
        and_then (hash32_of (js_prop entry ''transaction_hash'')) (\<lambda>transactionHash.
        and_then (to_0x (js_prop entry ''transaction_index'')) (\<lambda>transactionIndex.
          Inr (JObj [(''address'', js_prop entry ''address''), (''blockHash'', JStr blockHash),
                     (''blockNumber'', JStr blockNumber), (''data'', js_prop entry ''data''), (''logIndex'', JStr logIndex),
                     (''removed'', JBool False), (''topics'', js_prop entry ''topics''),
                     (''transactionHash'', JStr transactionHash), (''transactionIndex'', JStr transactionIndex)])))))))"

fun map_outcome :: "('a \<Rightarrow> 'e + 'b) \<Rightarrow> 'a list \<Rightarrow> 'e + 'b list" where
  "map_outcome f [] = Inr []"
| "map_outcome f (x # xs) = and_then (f x) (\<lambda>y. and_then (map_outcome f xs) (\<lambda>ys. Inr (y # ys)))"

definition getLogsWithParams ::
  "('c, 'r, 'w) relay_env \<Rightarrow> jsv \<Rightarrow> jsv \<Rightarrow> request_details \<Rightarrow> ('c, 'r, 'w, jsv list) relay_action" where
  "getLogsWithParams env address params d =
     and_do (if truthy address then getLogsByAddress env address params d
             else and_do (getContractResultsLogsWithRetry (re_mirror env) d params JUndef) (\<lambda>r. ret (array_items r)))
       (\<lambda>logResults. lift (map_outcome make_log logResults))"

definition getLogs ::
  "('c, 'r, 'w) relay_env \<Rightarrow> jsv \<Rightarrow> jsv \<Rightarrow> jsv \<Rightarrow> jsv \<Rightarrow> jsv \<Rightarrow> request_details \<Rightarrow> ('c, 'r, 'w, jsv list) relay_action" where
  "getLogs env blockHash fromBlock toBlock address topics d =
     and_do (if truthy blockHash then validateBlockHashAndAddTimestampToParams env (js_to_string blockHash) d
             else validateBlockRangeAndAddTimestampToParams env fromBlock toBlock d address)
       (\<lambda>timestamps. case timestamps of
          None \<Rightarrow> ret []
        | Some ts \<Rightarrow> getLogsWithParams env address (JObj ((''timestamp'', JArr ts) # addTopicsToParams topics)) d)"

subsection \<open>Addresses and accounts\<close>

definition resolveEvmAddress ::
  "('c, 'r, 'w) relay_env \<Rightarrow> string \<Rightarrow> request_details \<Rightarrow> string list \<Rightarrow> ('c, 'r, 'w, string) relay_action" where
  "resolveEvmAddress env address d searchableTypes =
     (if address = '''' then ret address
      else and_do (resolveEntityType (re_mirror env) address d searchableTypes (Some 0) None) (\<lambda>entity.
        let evm = js_prop (js_prop entity ''entity'') ''evm_address''
        in ret (if truthy entity \<and> js_prop entity ''type'' \<in> {JStr TYPE_CONTRACT, JStr TYPE_ACCOUNT} \<and> truthy evm
                then js_to_string evm else address)))"

definition cs_getAccount ::
  "('c, 'r, 'w) relay_env \<Rightarrow> string \<Rightarrow> request_details \<Rightarrow> ('c, 'r, 'w, jsv) relay_action" where
  "cs_getAccount env address d =
     (let key = ''account_'' @ address; m = re_mirror env in
      and_do (cached_get m key) (\<lambda>account.
        if truthy account then ret account
        else and_do (mn_getAccount m address d None JUndef) (\<lambda>account.
          and_do (cached_set m key account None) (\<lambda>u. ret account))))"

definition HTS_CREATE_FUNCTIONS_SELECTORS :: "string list" where
  "HTS_CREATE_FUNCTIONS_SELECTORS =
     [''0x27d97be3'', ''0xc23baeb6'', ''0x0fb65bf3'', ''0x2af0c59a'', ''0xb937581a'', ''0xef2d1098'',
      ''0x9dc711e0'', ''0x9c89bb35'', ''0xea83f293'', ''0x5bc7c0e6'', ''0x45733969'', ''0xabb54eb5'']"

definition getContractAddressFromReceipt :: "jsv \<Rightarrow> thrown + jsv" where
  "getContractAddressFromReceipt receiptResponse =
     (case js_prop receiptResponse ''function_parameters'' of
        JStr function_parameters \<Rightarrow>
          if substr 0 10 function_parameters \<notin> set HTS_CREATE_FUNCTIONS_SELECTORS
          then Inr (js_prop receiptResponse ''address'')
          else (case js_prop receiptResponse ''call_result'' of
                  JStr call_result \<Rightarrow> Inr (JStr (prepend0x (drop (length call_result - 40) call_result)))
                | _ \<Rightarrow> Inl type_error)
      | _ \<Rightarrow> Inl type_error)"

definition redirectBytecodeAddressReplace :: "string \<Rightarrow> string" where
  "redirectBytecodeAddressReplace address =
     ''0x6080604052348015600f57600080fd5b506000610167905077618dc65e'' @ drop 2 address @
     ''600052366000602037600080366018016008845af43d806000803e8160008114605857816000f35b816000fdfea2646970667358221220d8378feed472ba49a0005514ef7087017f707b45fb9bf56bb81bb93ff19a238b64736f6c634300080b0033''"

subsection \<open>The price of gas\<close>

definition addPercentageBufferToGasPrice :: "rat \<Rightarrow> int \<Rightarrow> int" where
  "addPercentageBufferToGasPrice percentage gasPrice =
     to_number (gasPrice +
       to_number (js_round (js_mul (js_div (of_int gasPrice) (of_int TINYBAR_TO_WEIBAR_COEF)) (js_div percentage 100)) *
         TINYBAR_TO_WEIBAR_COEF))"

definition ethereum_fee :: "jsv list \<Rightarrow> jsv" where
  "ethereum_fee fees =
     (case find (\<lambda>fee. js_prop fee ''transaction_type'' = JStr ''EthereumTransaction'') fees of
        None \<Rightarrow> JUndef | Some fee \<Rightarrow> js_prop fee ''gas'')"

definition getGasPriceInWeibars ::
  "('c, 'r, 'w) relay_env \<Rightarrow> request_details \<Rightarrow> jsv \<Rightarrow> ('c, 'r, 'w, int) relay_action" where
  "getGasPriceInWeibars env d timestamp =
     and_do (getNetworkFees (re_mirror env) d timestamp JUndef) (\<lambda>networkFees.
       case ethereum_fee (array_items (js_prop networkFees ''fees'')) of
         JNum gas \<Rightarrow> if gas \<noteq> 0 then ret (to_number (gas * TINYBAR_TO_WEIBAR_COEF))
                     else throw (ThrownRpc COULD_NOT_ESTIMATE_GAS_PRICE)
       | _ \<Rightarrow> throw (ThrownRpc COULD_NOT_ESTIMATE_GAS_PRICE))"

definition gasPrice :: "('c, 'r, 'w) relay_env \<Rightarrow> request_details \<Rightarrow> ('c, 'r, 'w, string) relay_action" where
  "gasPrice env d =
     catch_do (and_do (getGasPriceInWeibars env d JUndef) (\<lambda>price.
                 ret (numberTo0x (addPercentageBufferToGasPrice (re_gasPricePercentageBuffer env) price))))
       (\<lambda>e. throw (genericErrorHandler e))"

definition getCurrentGasPriceForBlock ::
  "('c, 'r, 'w) relay_env \<Rightarrow> string \<Rightarrow> request_details \<Rightarrow> ('c, 'r, 'w, string) relay_action" where
  "getCurrentGasPriceForBlock env blockHash d =
     and_do (mn_getBlock (re_mirror env) (JStr blockHash) d) (\<lambda>block.
     and_do (if truthy block
             then and_do (lift (timestamp_field block ''from'')) (\<lambda>from.
                    case from of JStr s \<Rightarrow> ret (JStr (takeWhile (\<lambda>c. c \<noteq> CHR ''.'') s)) | _ \<Rightarrow> throw type_error)
             else ret (JStr '''')) (\<lambda>timestamp.
     and_do (getGasPriceInWeibars env d timestamp) (\<lambda>price. ret (numberTo0x price))))"


subsection \<open>What a log query is answered with\<close>

lemma map_do_Inr:
  "map_do f xs s = (Inr ys, s') \<Longrightarrow> list_all2 (\<lambda>x y. \<exists>t t'. f x t = (Inr y, t')) xs ys"
  by (induction xs arbitrary: s ys) (auto simp: ret_def and_do_Inr_iff)

text \<open>
  C36. The logs of several addresses are the logs the mirror node gives for each of them, all of them,
  sorted by their timestamps.
\<close>

theorem logs_by_address_complete:
  assumes "getLogsByAddress env (JArr addresses) params d s = (Inr logs, s')"
  shows "sorted (map (\<lambda>entry. js_to_string (js_prop entry ''timestamp'')) logs) \<and>
    (\<exists>answers. list_all2 (\<lambda>addr answer. \<exists>t t'. getContractResultsLogsByAddress (re_mirror env) (js_to_string addr) d params JUndef t =
          (Inr answer, t')) addresses answers \<and>
       mset logs = mset (concat (map array_items answers)))"
proof -
  obtain answers where answers: "map_do (\<lambda>addr. getContractResultsLogsByAddress (re_mirror env) (js_to_string addr) d params JUndef)
      addresses s = (Inr answers, s')"
    and logs: "logs = sort_key (\<lambda>entry. js_to_string (js_prop entry ''timestamp'')) (concat (map array_items answers))"
    using assms by (auto simp: getLogsByAddress_def Let_def and_do_Inr_iff ret_def)
  from map_do_Inr [OF answers] show ?thesis
    unfolding logs by (intro conjI exI [of _ answers]) (simp_all add: mset_sort)
qed

lemma check_block_range_Inr:
  assumes "check_block_range env fromResponse toResponse address = Inr ts"
  shows "\<exists>from till. timestamp_field fromResponse ''from'' = Inr from \<and> timestamp_field toResponse ''to'' = Inr till \<and>
    ts = [JStr (''gte:'' @ js_to_string from), JStr (''lte:'' @ js_to_string till)] \<and>
    \<not> num_less (block_number toResponse) (block_number fromResponse) \<and>
    (isSingleAddress address \<or>
      \<not> num_less (Num (re_logsBlockRangeLimit env)) (num_minus (block_number toResponse) (block_number fromResponse))) \<and>
    (\<forall>a b. seconds_of from = Some a \<and> seconds_of till = Some b \<longrightarrow> js_sub b a \<le> 604800)"
  using assms
  by (auto simp: check_block_range_def Let_def timestamps_too_far_def and_then_Inr_iff split: if_split_asm)

text \<open>
  The timestamps a log query is sent with: an accepted range of two different tags is in order, covers
  at most seven days and, unless the query is for one address, at most the configured number of blocks.
\<close>

theorem block_range_within_limits:
  assumes "validateBlockRangeAndAddTimestampToParams env fromBlock toBlock d address s = (Inr (Some ts), s')"
    and "\<not> (blockTagIsLatestOrPending fromBlock \<and> blockTagIsLatestOrPending toBlock)" and "fromBlock \<noteq> toBlock"
  shows "\<exists>fromResponse toResponse from till.
    timestamp_field fromResponse ''from'' = Inr from \<and> timestamp_field toResponse ''to'' = Inr till \<and>
    ts = [JStr (''gte:'' @ js_to_string from), JStr (''lte:'' @ js_to_string till)] \<and>
    \<not> num_less (block_number toResponse) (block_number fromResponse) \<and>
    (isSingleAddress address \<or>
      \<not> num_less (Num (re_logsBlockRangeLimit env)) (num_minus (block_number toResponse) (block_number fromResponse))) \<and>
    (\<forall>a b. seconds_of from = Some a \<and> seconds_of till = Some b \<longrightarrow> js_sub b a \<le> 604800) \<and>
    (\<exists>t t'. getHistoricalBlockResponse env d (if blockTagIsLatestOrPending fromBlock then BLOCK_LATEST else fromBlock) True t = (Inr fromResponse, t')) \<and>
    (\<exists>t t'. getHistoricalBlockResponse env d (if blockTagIsLatestOrPending toBlock then BLOCK_LATEST else toBlock) True t = (Inr toResponse, t'))"
proof -
  let ?tag = "\<lambda>b. if blockTagIsLatestOrPending b then BLOCK_LATEST else b"
  have latest: "blockTagIsLatestOrPending BLOCK_LATEST" by (simp add: blockTagIsLatestOrPending_def)
  then have "?tag fromBlock \<noteq> ?tag toBlock" using assms(2,3) by auto
  with assms(1) obtain fromResponse toResponse s1 s2 s3 where
    responses: "getHistoricalBlockResponse env d (?tag fromBlock) True s1 = (Inr fromResponse, s2)"
      "getHistoricalBlockResponse env d (?tag toBlock) True s2 = (Inr toResponse, s3)"
    and checked: "check_block_range env fromResponse toResponse address = Inr ts"
    unfolding validateBlockRangeAndAddTimestampToParams_def Let_def
    by (auto simp: and_do_Inr_iff ret_def lift_def split: if_split_asm)
  show ?thesis
    using check_block_range_Inr [OF checked] responses by blast
qed

subsection \<open>The price with its buffer\<close>

lemma js_div_int_exact: "\<bar>k\<bar> < 2 ^ 53 \<Longrightarrow> 0 < c \<Longrightarrow> js_div (of_int (k * c)) (of_int c) = of_int k"
  by (simp add: js_div_def double_of_rat_int)

lemma two_errors:
  fixes M D Q :: rat
  assumes "D \<le> 2 * Q" and "\<bar>D - Q\<bar> \<le> Q / 2 ^ 53" and "0 \<le> Q" and "\<bar>M - D\<bar> \<le> D / 2 ^ 53"
  shows "\<bar>M - Q\<bar> \<le> Q / 2 ^ 51"
proof -
  have "\<bar>M - Q\<bar> \<le> \<bar>M - D\<bar> + \<bar>D - Q\<bar>" by linarith
  also have "\<dots> \<le> D / 2 ^ 53 + Q / 2 ^ 53" using assms(2,4) by (rule add_mono [rotated])
  also have "\<dots> \<le> Q / 2 ^ 51" using assms(1,3) by simp
  finally show ?thesis .
qed

lemma js_mul_div_error:
  assumes "0 \<le> t" and "0 \<le> p"
  shows "\<bar>js_mul t (js_div p 100) - t * p / 100\<bar> \<le> t * p / 100 / 2 ^ 51"
proof -
  let ?q = "p / 100" let ?d = "js_div p 100"
  have d: "\<bar>?d - ?q\<bar> \<le> ?q / 2 ^ 53" using double_of_rat_error [of ?q] assms(2) by (simp add: js_div_def)
  have "?q / 2 ^ 53 \<le> ?q" using assms(2) by simp
  with d have d2: "0 \<le> ?d" "?d \<le> 2 * ?q"
    using double_of_rat_nonneg [of ?q] assms(2) unfolding abs_le_iff by (simp_all only: js_div_def) linarith+
  have m: "\<bar>js_mul t ?d - t * ?d\<bar> \<le> t * ?d / 2 ^ 53"
    using double_of_rat_error [of "t * ?d"] assms(1) d2(1) by (simp add: js_mul_def abs_mult)
  have "t * ?d \<le> t * (2 * ?q)" using assms(1) d2(2) by (rule mult_left_mono [rotated])
  moreover have "t * \<bar>?d - ?q\<bar> \<le> t * (?q / 2 ^ 53)" using d assms(1) by (rule mult_left_mono)
  then have "\<bar>t * (?d - ?q)\<bar> \<le> t * ?q / 2 ^ 53" using assms(1) by (simp only: abs_mult abs_of_nonneg) simp
  then have "\<bar>t * ?d - t * ?q\<bar> \<le> t * ?q / 2 ^ 53" by (simp only: right_diff_distrib)
  moreover have "0 \<le> t * ?q" using assms by simp
  ultimately have "\<bar>js_mul t ?d - t * ?q\<bar> \<le> t * ?q / 2 ^ 51" using m by (intro two_errors [of "t * ?d"]) (simp_all only: mult.left_commute)
  then show ?thesis by simp
qed

text \<open>
  C31. The price with its buffer is a whole number of tinybars, never below the price itself, and within
  one tinybar of what the percentage asks for.
\<close>

theorem buffered_price_bounds:
  assumes "0 \<le> t" and "0 \<le> p" and "(of_int t * (1 + p / 100) + 1) * 5 ^ 10 < 2 ^ 53"
  shows "\<exists>n. addPercentageBufferToGasPrice p (t * TINYBAR_TO_WEIBAR_COEF) = n * TINYBAR_TO_WEIBAR_COEF \<and>
    t \<le> n \<and> \<bar>of_int n - of_int t * (1 + p / 100)\<bar> < 1"
proof -
  let ?T = "of_int t :: rat"
  let ?x = "js_mul ?T (js_div p 100)"
  define r where "r = js_round ?x"
  have share: "0 \<le> ?T * p / 100" using assms by simp
  have total: "(?T + ?T * p / 100 + 1) * 5 ^ 10 < 2 ^ 53" using assms(3) by (simp add: algebra_simps)
  have x: "0 \<le> ?x" using assms by (simp add: js_mul_def js_div_def double_of_rat_nonneg)
  have small: "?T * p / 100 / 2 ^ 51 < 1 / 2" using total share assms(1) by simp
  with js_mul_div_error [of ?T p] js_round_error [of ?x] assms(1,2)
  have near: "\<bar>of_int r - ?T * p / 100\<bar> < 1" unfolding r_def by linarith
  then have "?T + of_int r < ?T + ?T * p / 100 + 1" by linarith
  then have "(?T + of_int r) * 5 ^ 10 < (?T + ?T * p / 100 + 1) * 5 ^ 10" by (rule mult_strict_right_mono) simp
  with total have "(?T + of_int r) * 5 ^ 10 < 2 ^ 53" by simp
  then have "of_int ((t + r) * 5 ^ 10) < (of_int (2 ^ 53) :: rat)" by simp
  then have bound: "(t + r) * 5 ^ 10 < 2 ^ 53" by (simp only: of_int_less_iff)
  have r: "0 \<le> r" unfolding r_def using x by (rule js_round_nonneg)
  have "js_div (of_int (t * TINYBAR_TO_WEIBAR_COEF)) (of_int TINYBAR_TO_WEIBAR_COEF) = ?T"
    using bound r assms(1) by (intro js_div_int_exact) (simp_all add: TINYBAR_TO_WEIBAR_COEF_def)
  then have "addPercentageBufferToGasPrice p (t * TINYBAR_TO_WEIBAR_COEF) =
      to_number (t * TINYBAR_TO_WEIBAR_COEF + to_number (r * TINYBAR_TO_WEIBAR_COEF))"
    by (simp add: addPercentageBufferToGasPrice_def r_def)
  also have "to_number (r * TINYBAR_TO_WEIBAR_COEF) = r * TINYBAR_TO_WEIBAR_COEF"
    using to_number_tinybars [of r] r bound assms(1) by (simp add: TINYBAR_TO_WEIBAR_COEF_def)
  also have "to_number (t * TINYBAR_TO_WEIBAR_COEF + r * TINYBAR_TO_WEIBAR_COEF) = (t + r) * TINYBAR_TO_WEIBAR_COEF"
    using to_number_tinybars [of "t + r"] r bound assms(1) by (simp add: TINYBAR_TO_WEIBAR_COEF_def distrib_right)
  finally show ?thesis
    using r near by (intro exI [of _ "t + r"]) (simp add: algebra_simps)
qed

theorem buffered_price_bounds_witness:
  "\<exists>n. addPercentageBufferToGasPrice 10 (71 * TINYBAR_TO_WEIBAR_COEF) = n * TINYBAR_TO_WEIBAR_COEF \<and> 71 \<le> n \<and>
     \<bar>of_int n - 71 * (1 + 10 / 100)\<bar> < (1 :: rat)"
  using buffered_price_bounds [of 71 10] by simp


subsection \<open>A relay over canned answers\<close>

definition sample_relay :: "(string \<times> jsv) list \<Rightarrow> (list_lru, unit, nat) relay_env" where
  "sample_relay table =
     \<lparr> re_mirror = canned_mirror table, re_maxBlockRange = 5, re_logsBlockRangeLimit = 1000,
       re_gasPricePercentageBuffer = 0 \<rparr>"

definition sample_block :: "int \<Rightarrow> string \<Rightarrow> string \<Rightarrow> jsv" where
  "sample_block n from till =
     JObj [(''number'', JNum n), (''timestamp'', JObj [(''from'', JStr from), (''to'', JStr till)])]"

definition zero_to_nine :: "(string \<times> jsv) list" where
  "zero_to_nine =
     [(''blocks?limit=1&order=desc'', JObj [(''blocks'', JArr [sample_block 9 ''18.0'' ''20.0''])]),
      (''blocks/0'', sample_block 0 ''10.0'' ''11.0'')]"

lemma double_of_rat_numeral: "numeral n < (2 ^ 53 :: int) \<Longrightarrow> double_of_rat (numeral n) = numeral n"
  using double_of_rat_int [of "numeral n"] by simp

lemma decimal_value_samples: "decimal_value ''10.0'' = Some 10" "decimal_value ''20.0'' = Some 20"
  by (simp_all add: decimal_value_def of_base_def digit_val_def is_digit_in_def double_of_rat_numeral)

lemma zero_to_nine_checked:
  "check_block_range (sample_relay table) (sample_block 0 ''10.0'' ''11.0'') (sample_block 9 ''18.0'' ''20.0'') JNull =
     Inr [JStr ''gte:10.0'', JStr ''lte:20.0'']"
  by (simp add: check_block_range_def sample_block_def timestamp_field_def block_number_def timestamps_too_far_def
      seconds_of_def nullish_def decimal_value_samples js_sub_def double_of_rat_numeral sample_relay_def num_minus_def to_number_exact)

lemma mn_getBlock_canned:
  assumes "map_of table (''blocks/'' @ js_to_string v) = Some b" and "truthy b"
  shows "\<exists>s'. mn_getBlock (canned_mirror table) v d quiet_relay = (Inr b, s')"
  using assms
  by (simp add: mn_getBlock_def Let_def and_do_def cached_get_run empty_cache_miss mn_get_canned cached_set_run ret_def)

lemma earliest_canned:
  "\<exists>s'. getHistoricalBlockResponse (sample_relay zero_to_nine) sample_details BLOCK_EARLIEST True quiet_relay =
    (Inr (sample_block 0 ''10.0'' ''11.0''), s')"
proof -
  have number: "js_Number BLOCK_EARLIEST = NotANumber" unfolding BLOCK_EARLIEST_def by code_simp
  have "map_of zero_to_nine (''blocks/'' @ js_to_string (JNum 0)) = Some (sample_block 0 ''10.0'' ''11.0'')"
    by code_simp
  from mn_getBlock_canned [OF this, of sample_details] number show ?thesis
    by (simp add: getHistoricalBlockResponse_def blockTagIsLatestOrPending_def BLOCK_EARLIEST_def BLOCK_LATEST_def EMPTY_HEX_def
      BLOCK_PENDING_def BLOCK_SAFE_def BLOCK_FINALIZED_def nullish_def sample_relay_def sample_block_def)
qed

lemma latest_block_canned:
 "\<exists>s'. latest_block (sample_relay zero_to_nine) sample_details s = (Inr (sample_block 9 ''18.0'' ''20.0''), s')"
proof -
  have one: "to_base 10 (Suc 0) = ''1''" by code_simp
  then show ?thesis
   by (simp add: latest_block_def and_do_def getLatestBlock_def getBlocks_def  sample_relay_def mn_get_canned zero_to_nine_def
    getQueryParams_def setLimitOrderParams_def getLimitOrderQueryParam_def setQueryParam_def set_key_def int_to_base_def first_block_def nullish_def lift_def)
qed

lemma historical_latest:
  "blockTagIsLatestOrPending tag \<Longrightarrow> js_Number tag = NotANumber \<Longrightarrow> tag \<noteq> JStr EMPTY_HEX \<Longrightarrow>
   getHistoricalBlockResponse env d tag True = latest_block env d"
  by (simp add: getHistoricalBlockResponse_def)

lemma number_latest: "js_Number BLOCK_LATEST = NotANumber" "BLOCK_LATEST \<noteq> JStr EMPTY_HEX"
  unfolding BLOCK_LATEST_def EMPTY_HEX_def by code_simp+

theorem block_range_within_limits_witness:
  "\<exists>fromResponse toResponse from till.
    timestamp_field fromResponse ''from'' = Inr from \<and> timestamp_field toResponse ''to'' = Inr till \<and>
    [JStr ''gte:10.0'', JStr ''lte:20.0''] = [JStr (''gte:'' @ js_to_string from), JStr (''lte:'' @ js_to_string till)] \<and>
    \<not> num_less (block_number toResponse) (block_number fromResponse) \<and>
    \<not> num_less (Num 1000) (num_minus (block_number toResponse) (block_number fromResponse))"
proof -
  let ?env = "sample_relay zero_to_nine"
  have tags: "blockTagIsLatestOrPending BLOCK_LATEST" "\<not> blockTagIsLatestOrPending BLOCK_EARLIEST" "BLOCK_EARLIEST \<noteq> BLOCK_LATEST"
    by (simp_all add: blockTagIsLatestOrPending_def BLOCK_EARLIEST_def BLOCK_LATEST_def BLOCK_PENDING_def BLOCK_SAFE_def
        BLOCK_FINALIZED_def nullish_def)
  obtain s1 where 1: "getHistoricalBlockResponse ?env sample_details BLOCK_EARLIEST True quiet_relay = (Inr (sample_block 0 ''10.0'' ''11.0''), s1)"
    using earliest_canned by blast
  obtain s2 where "latest_block ?env sample_details s1 = (Inr (sample_block 9 ''18.0'' ''20.0''), s2)"
    using latest_block_canned by blast
  then have 2: "getHistoricalBlockResponse ?env sample_details BLOCK_LATEST True s1 = (Inr (sample_block 9 ''18.0'' ''20.0''), s2)"
    by (simp add: historical_latest tags(1) number_latest)
  have "validateBlockRangeAndAddTimestampToParams ?env BLOCK_EARLIEST BLOCK_LATEST sample_details JNull quiet_relay =
      (Inr (Some [JStr ''gte:10.0'', JStr ''lte:20.0'']), s2)"
    using zero_to_nine_checked [of zero_to_nine] 1 2 tags
    by (simp add: validateBlockRangeAndAddTimestampToParams_def and_do_def lift_def ret_def
       timestamp_field_def sample_block_def nullish_def)
  from block_range_within_limits [OF this] tags show ?thesis
    by (auto simp: isSingleAddress_def sample_relay_def)
qed

definition log_at :: "string \<Rightarrow> jsv" where
  "log_at t = JObj [(''timestamp'', JStr t)]"

definition two_addresses :: "(string \<times> jsv) list" where
  "two_addresses =
     [(''contracts/0xa/results/logs?limit=100&order=asc'', JObj [(''logs'', JArr [log_at ''2''])]),
      (''contracts/0xb/results/logs?limit=100&order=asc'', JObj [(''logs'', JArr [log_at ''1''])])]"

lemma two_addresses_logs:
  "fst (getLogsByAddress (sample_relay two_addresses) (JArr [JStr ''0xa'', JStr ''0xb'']) (JObj []) sample_details quiet_relay) =
    Inr [log_at ''1'', log_at ''2'']"
  by code_simp

theorem logs_by_address_complete_witness:
  "\<exists>logs. fst (getLogsByAddress (sample_relay two_addresses) (JArr [JStr ''0xa'', JStr ''0xb'']) (JObj []) sample_details quiet_relay) = Inr logs \<and>
     logs = [log_at ''1'', log_at ''2''] \<and> sorted (map (\<lambda>entry. js_to_string (js_prop entry ''timestamp'')) logs)"
proof -
  obtain s' where "getLogsByAddress (sample_relay two_addresses) (JArr [JStr ''0xa'', JStr ''0xb'']) (JObj []) sample_details quiet_relay =
      (Inr [log_at ''1'', log_at ''2''], s')"
    using two_addresses_logs by (metis prod.collapse)
  from logs_by_address_complete [OF this] two_addresses_logs show ?thesis by simp
qed

end
