(* ===== verification/Filters.thy ===== *)
theory Filters
  imports CommonQueries "HOL-Library.Sublist"
begin

section \<open>Filters\<close>

text \<open>
  Models \<open>services/ethService/ethFilterService/FilterService.ts\<close>. A filter is an object in the cache
  under its id, with a type, parameters and the block it was last asked up to; it lives as long as it
  is used. The random id of a new filter is an argument.
\<close>

record ('c, 'r, 'w) filter_env =
  fe_relay :: "('c, 'r, 'w) relay_env"
  fe_filterApiEnabled :: bool
  fe_filterTtl :: int

definition FILTER_TYPE_LOG :: jsv where "FILTER_TYPE_LOG = JStr ''log''"
definition FILTER_TYPE_NEW_BLOCK :: jsv where "FILTER_TYPE_NEW_BLOCK = JStr ''newBlock''"

definition filter_key :: "string \<Rightarrow> string" where
  "filter_key filterId = ''filterId_'' @ filterId"

definition filter_object :: "jsv \<Rightarrow> jsv \<Rightarrow> jsv \<Rightarrow> jsv" where
  "filter_object type params lastQueried =
     JObj [(''type'', type), (''params'', params), (''lastQueried'', lastQueried)]"

definition requireFiltersEnabled :: "('c, 'r, 'w) filter_env \<Rightarrow> ('c, 'r, 'w, unit) relay_action" where
  "requireFiltersEnabled env =
     (if fe_filterApiEnabled env then ret () else throw (ThrownRpc UNSUPPORTED_METHOD))"

definition store_filter ::
  "('c, 'r, 'w) filter_env \<Rightarrow> string \<Rightarrow> jsv \<Rightarrow> ('c, 'r, 'w, unit) relay_action" where
  "store_filter env filterId v =
     cached_set (re_mirror (fe_relay env)) (filter_key filterId) v (Some (Ms (fe_filterTtl env)))"

definition load_filter :: "('c, 'r, 'w) filter_env \<Rightarrow> string \<Rightarrow> ('c, 'r, 'w, jsv) relay_action" where
  "load_filter env filterId = cached_get (re_mirror (fe_relay env)) (filter_key filterId)"

definition createFilter ::
  "('c, 'r, 'w) filter_env \<Rightarrow> string \<Rightarrow> jsv \<Rightarrow> jsv \<Rightarrow> ('c, 'r, 'w, string) relay_action" where
  "createFilter env generatedId type params =
     and_do (store_filter env generatedId (filter_object type params JNull)) (\<lambda>u. ret generatedId)"

definition handling_errors :: "('s, 'a) action \<Rightarrow> ('s, 'a) action" where
  "handling_errors m = catch_do m (\<lambda>e. throw (genericErrorHandler e))"

definition newFilter ::
  "('c, 'r, 'w) filter_env \<Rightarrow> string \<Rightarrow> jsv \<Rightarrow> request_details \<Rightarrow> ('c, 'r, 'w, string) relay_action" where
  "newFilter env generatedId params d =
     (let fromBlock = (if js_prop params ''fromBlock'' = JUndef then BLOCK_LATEST else js_prop params ''fromBlock'');
          toBlock = (if js_prop params ''toBlock'' = JUndef then BLOCK_LATEST else js_prop params ''toBlock'')
      in handling_errors
          (and_do (requireFiltersEnabled env) (\<lambda>u.
           and_do (validateBlockRange (fe_relay env) fromBlock toBlock d) (\<lambda>valid.
             if \<not> valid then throw (ThrownRpc INVALID_BLOCK_RANGE)
             else and_do (if fromBlock = BLOCK_LATEST
                          then and_do (getLatestBlockNumber (fe_relay env) d) (\<lambda>n. ret (JStr n)) else ret fromBlock) (\<lambda>start.
               createFilter env generatedId FILTER_TYPE_LOG
                 (JObj [(''fromBlock'', start), (''toBlock'', toBlock), (''address'', js_prop params ''address''),
                        (''topics'', js_prop params ''topics'')]))))))"

definition newBlockFilter ::
  "('c, 'r, 'w) filter_env \<Rightarrow> string \<Rightarrow> request_details \<Rightarrow> ('c, 'r, 'w, string) relay_action" where
  "newBlockFilter env generatedId d =
     handling_errors
       (and_do (requireFiltersEnabled env) (\<lambda>u.
        and_do (getLatestBlockNumber (fe_relay env) d) (\<lambda>n.
          createFilter env generatedId FILTER_TYPE_NEW_BLOCK (JObj [(''blockAtCreation'', JStr n)]))))"

definition uninstallFilter ::
  "('c, 'r, 'w) filter_env \<Rightarrow> string \<Rightarrow> ('c, 'r, 'w, bool) relay_action" where
  "uninstallFilter env filterId =
     and_do (requireFiltersEnabled env) (\<lambda>u.
     and_do (load_filter env filterId) (\<lambda>stored.
       if truthy stored
       then and_do (cached_delete (re_mirror (fe_relay env)) (filter_key filterId)) (\<lambda>u. ret True)
       else ret False))"

definition newPendingTransactionFilter :: json_rpc_error where
  "newPendingTransactionFilter = UNSUPPORTED_METHOD"

definition filter_logs ::
  "('c, 'r, 'w) filter_env \<Rightarrow> jsv \<Rightarrow> jsv \<Rightarrow> request_details \<Rightarrow> ('c, 'r, 'w, jsv list) relay_action" where
  "filter_logs env stored fromBlock d =
     (let params = js_prop stored ''params''
      in getLogs (fe_relay env) JNull fromBlock (js_prop params ''toBlock'') (js_prop params ''address'')
           (js_prop params ''topics'') d)"

definition getFilterLogs ::
  "('c, 'r, 'w) filter_env \<Rightarrow> string \<Rightarrow> request_details \<Rightarrow> ('c, 'r, 'w, jsv list) relay_action" where
  "getFilterLogs env filterId d =
     and_do (requireFiltersEnabled env) (\<lambda>u.
     and_do (load_filter env filterId) (\<lambda>stored.
       if js_prop stored ''type'' \<noteq> FILTER_TYPE_LOG then throw (ThrownRpc FILTER_NOT_FOUND)
       else and_do (filter_logs env stored (js_prop (js_prop stored ''params'') ''fromBlock'') d) (\<lambda>logs.
         and_do (store_filter env filterId
                   (filter_object (js_prop stored ''type'') (js_prop stored ''params'') (js_prop stored ''lastQueried'')))
           (\<lambda>u. ret logs))))"

text \<open>\<open>Number(n) + 1\<close>; a number that is none is stored as \<open>null\<close> by the shared cache.\<close>

fun number_value :: "js_number \<Rightarrow> jsv" where
  "number_value (Num n) = JNum n"
| "number_value NotANumber = JNull"

definition next_block :: "js_number \<Rightarrow> jsv" where
  "next_block n = number_value (case n of Num k \<Rightarrow> Num (to_number (k + 1)) | NotANumber \<Rightarrow> NotANumber)"

definition log_changes ::
  "('c, 'r, 'w) filter_env \<Rightarrow> jsv \<Rightarrow> request_details \<Rightarrow> ('c, 'r, 'w, jsv list \<times> jsv) relay_action" where
  "log_changes env stored d =
     and_do (filter_logs env stored
               (if truthy (js_prop stored ''lastQueried'') then js_prop stored ''lastQueried''
                else js_prop (js_prop stored ''params'') ''fromBlock'') d) (\<lambda>logs.
       if logs \<noteq> [] then ret (logs, next_block (js_Number (js_prop (last logs) ''blockNumber'')))
       else and_do (getLatestBlockNumber (fe_relay env) d) (\<lambda>n. ret (logs, next_block (js_Number (JStr n)))))"

definition block_changes ::
  "('c, 'r, 'w) filter_env \<Rightarrow> jsv \<Rightarrow> request_details \<Rightarrow> ('c, 'r, 'w, jsv list \<times> jsv) relay_action" where
  "block_changes env stored d =
     (let after = (if truthy (js_prop stored ''lastQueried'') then js_prop stored ''lastQueried''
                   else js_prop (js_prop stored ''params'') ''blockAtCreation'')
      in and_do (getBlocks (re_mirror (fe_relay env)) d (JArr [JStr (''gt:'' @ js_to_string after)]) JUndef
                   (JObj [(''order'', JStr ''asc'')])) (\<lambda>result.
         let blocks = array_items (js_prop result ''blocks'')
         in and_do (if blocks \<noteq> [] then ret (js_Number (js_prop (last blocks) ''number''))
                    else and_do (getLatestBlockNumber (fe_relay env) d) (\<lambda>n. ret (js_Number (JStr n)))) (\<lambda>latest.
              ret (map (\<lambda>b. js_prop b ''hash'') blocks, number_value latest))))"

definition getFilterChanges ::
  "('c, 'r, 'w) filter_env \<Rightarrow> string \<Rightarrow> request_details \<Rightarrow> ('c, 'r, 'w, jsv list) relay_action" where
  "getFilterChanges env filterId d =
     and_do (requireFiltersEnabled env) (\<lambda>u.
     and_do (load_filter env filterId) (\<lambda>stored.
       if \<not> truthy stored then throw (ThrownRpc FILTER_NOT_FOUND)
       else and_do (if js_prop stored ''type'' = FILTER_TYPE_LOG then log_changes env stored d
                    else if js_prop stored ''type'' = FILTER_TYPE_NEW_BLOCK then block_changes env stored d
                    else throw (ThrownRpc UNSUPPORTED_METHOD)) (\<lambda>(result, latestBlockNumber).
         and_do (store_filter env filterId
                   (filter_object (js_prop stored ''type'') (js_prop stored ''params'') latestBlockNumber))
           (\<lambda>u. ret result))))"

subsection \<open>A block filter reports every block once\<close>

text \<open>
  A block is its number and its hash; a chain is the list of its blocks, and grows at its end. What a
  poll of a block filter should do: the next page of the blocks after its position, and the position
  of the last of them. When there is none, the position is the last block of the chain the latest block
  is taken from, which may have grown since.
\<close>

type_synonym chain_block = "int \<times> string"

definition block_json :: "chain_block \<Rightarrow> jsv" where
  "block_json b = JObj [(''number'', JNum (fst b)), (''hash'', JStr (snd b))]"

definition blocks_json :: "chain_block list \<Rightarrow> jsv" where
  "blocks_json bs = JObj [(''blocks'', JArr (map block_json bs))]"

definition chain_wf :: "chain_block list \<Rightarrow> bool" where
  "chain_wf c \<longleftrightarrow> sorted_wrt (<) (map fst c) \<and> list_all (\<lambda>b. 0 \<le> fst b \<and> fst b < 2 ^ 53) c \<and> c \<noteq> [] \<and> 0 < fst (last c)"

definition next_page :: "nat \<Rightarrow> int \<Rightarrow> chain_block list \<Rightarrow> chain_block list" where
  "next_page page n c = take page (filter (\<lambda>b. n < fst b) c)"

definition spec_poll :: "nat \<Rightarrow> chain_block list \<Rightarrow> chain_block list \<Rightarrow> int \<Rightarrow> string list \<times> int" where
  "spec_poll page c c' n =
     (let bs = next_page page n c in (map snd bs, if bs = [] then fst (last c') else fst (last bs)))"

definition position_value :: "jsv \<Rightarrow> jsv" where
  "position_value stored =
     (if truthy (js_prop stored ''lastQueried'') then js_prop stored ''lastQueried''
      else js_prop (js_prop stored ''params'') ''blockAtCreation'')"

text \<open>The filter is a block filter that has reported the blocks up to a number.\<close>

definition block_filter_at :: "jsv \<Rightarrow> int \<Rightarrow> bool" where
  "block_filter_at stored n \<longleftrightarrow>
     truthy stored \<and> js_prop stored ''type'' = FILTER_TYPE_NEW_BLOCK \<and> js_Number (position_value stored) = Num n"

text \<open>The mirror node: the page is that of the chain \<open>c\<close>, the latest block that of \<open>c'\<close>.\<close>

definition poll_answers ::
  "('c, 'r, 'w) filter_env \<Rightarrow> request_details \<Rightarrow> nat \<Rightarrow> jsv \<Rightarrow> int \<Rightarrow> chain_block list \<Rightarrow> chain_block list
   \<Rightarrow> ('c, 'r, 'w) relay_state \<Rightarrow> ('c, 'r, 'w) relay_state \<Rightarrow> bool" where
  "poll_answers env d page after n c c' s s' \<longleftrightarrow>
     (\<exists>s1. getBlocks (re_mirror (fe_relay env)) d (JArr [JStr (''gt:'' @ js_to_string after)]) JUndef
             (JObj [(''order'', JStr ''asc'')]) s = (Inr (blocks_json (next_page page n c)), s1) \<and>
           (if next_page page n c = []
            then getLatestBlock (re_mirror (fe_relay env)) d s1 = (Inr (blocks_json [last c']), s') else s' = s1))"

lemma next_page_after: "b \<in> set (next_page page n c) \<Longrightarrow> n < fst b \<and> b \<in> set c"
  by (auto simp: next_page_def dest: in_set_takeD)

lemma hex_block_number:
  assumes "0 \<le> n" and "n < 2 ^ 53"
  shows "js_Number (JStr (numberTo0x n)) = Num n"
  using assms by (simp add: js_string_to_bigint_numberTo0x to_number_exact)

lemma chain_last: "chain_wf c \<Longrightarrow> 0 < fst (last c) \<and> fst (last c) < 2 ^ 53"
  by (auto simp: chain_wf_def list_all_iff)

lemma getLatestBlockNumber_chain:
  assumes "getLatestBlock (re_mirror env) d s = (Inr (blocks_json [b]), s')"
  shows "getLatestBlockNumber env d s = (Inr (numberTo0x (fst b)), s')"
  using assms by (simp add: getLatestBlockNumber_def and_do_Inr blocks_json_def block_json_def nullish_def lift_def)

lemma block_changes_spec:
  assumes "poll_answers env d page (position_value stored) n c c' s s'" and "chain_wf c'"
  shows "block_changes env stored d s =
    (Inr (map JStr (fst (spec_poll page c c' n)), JNum (snd (spec_poll page c c' n))), s')"
proof -
  let ?bs = "next_page page n c"
  obtain s1 where s1: "getBlocks (re_mirror (fe_relay env)) d (JArr [JStr (''gt:'' @ js_to_string (position_value stored))]) JUndef
      (JObj [(''order'', JStr ''asc'')]) s = (Inr (blocks_json ?bs), s1)"
    "if ?bs = [] then getLatestBlock (re_mirror (fe_relay env)) d s1 = (Inr (blocks_json [last c']), s') else s' = s1"
    using assms(1) by (auto simp: poll_answers_def)
  show ?thesis
  proof (cases "?bs = []")
    case True
    with s1(2) have "getLatestBlockNumber (fe_relay env) d s1 = (Inr (numberTo0x (fst (last c'))), s')"
      by (simp add: getLatestBlockNumber_chain)
    with s1(1) True chain_last [OF assms(2)] show ?thesis
      by (simp add: block_changes_def position_value_def [symmetric] and_do_Inr blocks_json_def array_items_def
          ret_def spec_poll_def hex_block_number del: js_Number.simps)
  next
    case False
    with s1 show ?thesis
      by (simp add: block_changes_def position_value_def [symmetric] and_do_Inr blocks_json_def array_items_def
          ret_def spec_poll_def last_map block_json_def Let_def)
  qed
qed


lemma load_after_store:
  "caching (re_mirror (fe_relay env)) \<Longrightarrow> v \<noteq> JUndef \<Longrightarrow>
   fst (load_filter env i (snd (store_filter env i v s))) = Inr v"
  by (simp add: load_filter_def store_filter_def get_after_set)

text \<open>
  Asking a block filter for its changes does what a poll should do: the hashes of the next page are
  the answer, and the filter that is stored is a block filter at the new position.
\<close>

lemma getFilterChanges_refines:
  assumes "caching (re_mirror (fe_relay env))" and "fe_filterApiEnabled env"
    and load: "load_filter env i s = (Inr stored, s0)" and "block_filter_at stored n"
    and answers: "poll_answers env d page (position_value stored) n c c' s0 s1" and "chain_wf c" "chain_wf c'"
    and "0 \<le> n" 
  shows "\<exists>s2 stored'. getFilterChanges env i d s = (Inr (map JStr (fst (spec_poll page c c' n))), s2) \<and>
    fst (load_filter env i s2) = Inr stored' \<and> block_filter_at stored' (snd (spec_poll page c c' n)) \<and>
    0 < snd (spec_poll page c c' n)"
proof -
  let ?m = "snd (spec_poll page c c' n)"
  let ?stored' = "filter_object FILTER_TYPE_NEW_BLOCK (js_prop stored ''params'') (JNum ?m)"
  have "truthy stored" and type: "js_prop stored ''type'' = FILTER_TYPE_NEW_BLOCK"
    using assms(4) by (simp_all add: block_filter_at_def)
  moreover from type have "js_prop stored ''type'' \<noteq> FILTER_TYPE_LOG" by (simp add: FILTER_TYPE_NEW_BLOCK_def FILTER_TYPE_LOG_def)
  ultimately have run: "getFilterChanges env i d s =
      (Inr (map JStr (fst (spec_poll page c c' n))), snd (store_filter env i ?stored' s1))"
    using assms(2) load block_changes_spec [OF answers assms(7)]
    by (simp add: getFilterChanges_def requireFiltersEnabled_def and_do_Inr store_filter_def cached_set_run ret_def)
  have "0 < ?m"
  proof (cases "next_page page n c = []")
    case True
    with assms(7) show ?thesis by (simp add: spec_poll_def chain_last)
  next
    case False
    then have "n < fst (last (next_page page n c))"
      using next_page_after last_in_set by blast
    with False assms(8) show ?thesis by (simp add: spec_poll_def Let_def)
  qed
  then have "block_filter_at ?stored' ?m"
    by (simp add: block_filter_at_def filter_object_def position_value_def)
  with run \<open>0 < ?m\<close> load_after_store [OF assms(1), of ?stored' i s1] show ?thesis
    by (auto simp: filter_object_def)
qed


text \<open>
  A session of polls. Between two polls anything may happen as long as the filter stays stored, and the
  chain may grow; while a poll runs, the chain stays as it is.
\<close>

inductive session ::
  "('c, 'r, 'w) filter_env \<Rightarrow> string \<Rightarrow> request_details \<Rightarrow> nat \<Rightarrow> ('c, 'r, 'w) relay_state \<times> chain_block list
   \<Rightarrow> jsv list \<Rightarrow> ('c, 'r, 'w) relay_state \<times> chain_block list \<Rightarrow> bool"
  for env i d page a where
  session_start: "session env i d page a [] a"
| session_wait: "session env i d page a rs (s, c) \<Longrightarrow> fst (load_filter env i s') = fst (load_filter env i s) \<Longrightarrow>
    prefix c c' \<Longrightarrow> chain_wf c' \<Longrightarrow> session env i d page a rs (s', c')"
| session_poll: "session env i d page a rs (s, c) \<Longrightarrow> load_filter env i s = (Inr stored, s0) \<Longrightarrow>
    js_Number (position_value stored) = Num n \<Longrightarrow> poll_answers env d page (position_value stored) n c c s0 s1 \<Longrightarrow>
    getFilterChanges env i d s = (Inr r, s2) \<Longrightarrow> session env i d page a (rs @ r) (s2, c)"

definition blocks_between :: "int \<Rightarrow> int \<Rightarrow> chain_block list \<Rightarrow> chain_block list" where
  "blocks_between n m c = filter (\<lambda>b. n < fst b \<and> fst b \<le> m) c"

lemma chain_wf_last: "chain_wf c \<Longrightarrow> b \<in> set c \<Longrightarrow> fst b \<le> fst (last c)"
  by (cases c rule: rev_cases) (auto simp: chain_wf_def sorted_wrt_append)

lemma blocks_between_grown:
  assumes "prefix c c'" and "chain_wf c'" and "c \<noteq> []" and "m \<le> fst (last c)"
  shows "blocks_between n m c' = blocks_between n m c"
proof -
  obtain e where e: "c' = c @ e" using assms(1) by (auto simp: prefix_def)
  have "fst (last c) < fst b" if "b \<in> set e" for b
    using assms(2,3) that unfolding e chain_wf_def by (auto simp: sorted_wrt_append)
  with assms(4) have "blocks_between n m e = []" by (fastforce simp: blocks_between_def filter_empty_conv)
  then show ?thesis by (simp add: e blocks_between_def)
qed

lemma blocks_between_append:
  assumes "sorted_wrt (<) (map fst c)" and "n \<le> m" and "m \<le> k"
  shows "blocks_between n m c @ blocks_between m k c = blocks_between n k c"
  using assms
proof (induction c)
  case (Cons b c)
  then have later: "fst b < fst x" if "x \<in> set c" for x using that by auto
  show ?case
  proof (cases "m < fst b")
    case True
    then have "blocks_between n m c = []" using later by (fastforce simp: blocks_between_def filter_empty_conv)
    with True Cons show ?thesis by (auto simp: blocks_between_def)
  next
    case False
    with Cons show ?thesis by (auto simp: blocks_between_def)
  qed
qed (simp add: blocks_between_def)

lemma take_sorted:
  "sorted_wrt (<) (map fst xs) \<Longrightarrow> take k xs \<noteq> [] \<Longrightarrow> filter (\<lambda>b. fst b \<le> (fst (last (take k xs)) :: int)) xs = take k xs"
proof -
  assume sorted: "sorted_wrt (<) (map fst xs)" and ne: "take k xs \<noteq> []"
  let ?a = "take k xs" and ?b = "drop k xs"
  have split: "sorted_wrt (<) (map fst ?a @ map fst ?b)"
    using sorted by (simp flip: map_append)
  have "fst (last ?a) < fst b" if "b \<in> set ?b" for b
    using split last_in_set [OF ne] that unfolding sorted_wrt_append by auto
  then have "filter (\<lambda>b. fst b \<le> fst (last ?a)) ?b = []" by (auto simp: filter_empty_conv not_le)
  moreover have "filter (\<lambda>b. fst b \<le> fst (last ?a)) ?a = ?a"
    using split ne by (cases ?a rule: rev_cases) (auto simp: sorted_wrt_append filter_id_conv)
  ultimately have "filter (\<lambda>b. fst b \<le> fst (last ?a)) (?a @ ?b) = ?a" unfolding filter_append by simp
  then show ?thesis by simp
qed

lemma sorted_filter_fst: "sorted_wrt (<) (map fst c) \<Longrightarrow> sorted_wrt (<) (map fst (filter P c))"
  by (induction c) auto

lemma spec_poll_between:
  assumes "chain_wf c" and "0 < page" and "n \<le> fst (last c)" and "spec_poll page c c n = (hs, m)"
  shows "n \<le> m \<and> m \<le> fst (last c) \<and> hs = map snd (blocks_between n m c)"
proof (cases "next_page page n c = []")
  case True
  then have "filter (\<lambda>b. n < fst b) c = []" using assms(2) by (simp add: next_page_def)
  then have "fst (last c) \<le> n" and "blocks_between n (fst (last c)) c = []"
    using assms(1) by (auto simp: filter_empty_conv blocks_between_def chain_wf_def not_less)
  with True assms show ?thesis by (simp add: spec_poll_def)
next
  case False
  let ?bs = "next_page page n c"
  have m: "m = fst (last ?bs)" "hs = map snd ?bs" using False assms(4) by (auto simp: spec_poll_def Let_def)
  have "last ?bs \<in> set ?bs" using False by simp
  from next_page_after [OF this] m(1) have "n < m" "m \<le> fst (last c)"
    using chain_wf_last [OF assms(1)] by auto
  moreover have "?bs = filter (\<lambda>b. fst b \<le> m) (filter (\<lambda>b. n < fst b) c)"
    using take_sorted [OF sorted_filter_fst, of c page "\<lambda>b. n < fst b"] False assms(1)
    by (simp add: m(1) next_page_def chain_wf_def)
  then have "?bs = blocks_between n m c" unfolding blocks_between_def filter_filter by (simp add: conj_commute)
  ultimately show ?thesis using m(2) by simp
qed

lemma session_reports:
  assumes "session env i d page (s, c) rs (s', c')"
    and env: "caching (re_mirror (fe_relay env))" "fe_filterApiEnabled env" "0 < page"
    and start: "fst (load_filter env i s) = Inr stored" "block_filter_at stored n" "0 \<le> n" "n \<le> fst (last c)" "chain_wf c"
  shows "\<exists>stored' m. fst (load_filter env i s') = Inr stored' \<and> block_filter_at stored' m \<and> n \<le> m \<and> m \<le> fst (last c') \<and>
    chain_wf c' \<and> rs = map (\<lambda>b. JStr (snd b)) (blocks_between n m c')"
  using assms(1)
proof (induction rs "(s', c')" arbitrary: s' c')
  case session_start
  then show ?case using start by (auto simp: blocks_between_def intro!: exI [of _ stored] exI [of _ n])
next
  case (session_wait rs s1 c1 s2 c2)
  then obtain stored' m where IH: "fst (load_filter env i s1) = Inr stored'" "block_filter_at stored' m" "n \<le> m"
    "m \<le> fst (last c1)" "chain_wf c1" "rs = map (\<lambda>b. JStr (snd b)) (blocks_between n m c1)" by blast
  then have "c1 \<noteq> []" by (simp add: chain_wf_def)
  moreover from this session_wait have "fst (last c1) \<le> fst (last c2)"
    using chain_wf_last [of c2 "last c1"] by (auto simp: prefix_def)
  ultimately show ?case
    using session_wait IH blocks_between_grown [OF \<open>prefix c1 c2\<close> \<open>chain_wf c2\<close>, of m n]
    by (intro exI [of _ stored'] exI [of _ m]) auto
next
  case (session_poll rs s1 c1 stored1 t1 k t2 r s2)
  then obtain stored' m where IH: "fst (load_filter env i s1) = Inr stored'" "block_filter_at stored' m" "n \<le> m"
    "m \<le> fst (last c1)" "chain_wf c1" "rs = map (\<lambda>b. JStr (snd b)) (blocks_between n m c1)" by blast
  have same: "stored' = stored1" "k = m"
    using session_poll IH(1,2) by (auto simp: block_filter_at_def)
  obtain hs m' where spec: "spec_poll page c1 c1 m = (hs, m')" by (cases "spec_poll page c1 c1 m")
  have between: "m \<le> m'" "m' \<le> fst (last c1)" "hs = map snd (blocks_between m m' c1)"
    using spec_poll_between [OF IH(5) env(3) IH(4) spec] by auto
  obtain s3 stored3 where "getFilterChanges env i d s1 = (Inr (map JStr hs), s3)"
    "fst (load_filter env i s3) = Inr stored3" "block_filter_at stored3 m'"
    using getFilterChanges_refines [OF env(1,2), of i s1 stored1 t1 m d page c1 c1 t2] session_poll IH start(3)
    unfolding same spec by auto
  moreover have "blocks_between n m c1 @ blocks_between m m' c1 = blocks_between n m' c1"
    using IH(3,5) between(1) by (intro blocks_between_append) (simp_all add: chain_wf_def)
  ultimately show ?case
    using session_poll(6) IH(3,5,6) between
    by (intro exI [of _ stored3] exI [of _ m']) (auto simp: comp_def simp flip: map_append)
qed


text \<open>
  C20. In a session of polls, however they are spread, a block filter reports the hashes of exactly the
  blocks between the place it started from and the place where it stands, each once and in order.
\<close>

theorem block_filter_exactly_once:
  assumes "session env i d page (s, c) rs (s', c')"
    and "caching (re_mirror (fe_relay env))" and "fe_filterApiEnabled env" and "0 < page"
    and "fst (load_filter env i s) = Inr stored" and "block_filter_at stored n"
    and "0 \<le> n" and "n \<le> fst (last c)" and "chain_wf c"
  shows "\<exists>stored' m. fst (load_filter env i s') = Inr stored' \<and> block_filter_at stored' m \<and> n \<le> m \<and>
    m \<le> fst (last c') \<and> rs = map (\<lambda>b. JStr (snd b)) (blocks_between n m c')"
  using session_reports [OF assms] by blast

text \<open>
  When the page is empty and blocks are added before the latest block is asked for, the poll reports
  nothing and moves past them: no session after it reports one of them.
\<close>

theorem block_filter_skips_blocks:
  assumes "load_filter env i s = (Inr stored, s0)" and "block_filter_at stored n" and "0 \<le> n"
    and "next_page page n c = []" and "poll_answers env d page (position_value stored) n c c' s0 s1"
    and "chain_wf c" "chain_wf c'" and "caching (re_mirror (fe_relay env))" "fe_filterApiEnabled env" "0 < page"
  shows "\<exists>s2. getFilterChanges env i d s = (Inr [], s2) \<and>
    (\<forall>rs s3 c3. session env i d page (s2, c') rs (s3, c3) \<longrightarrow>
       (\<exists>m. rs = map (\<lambda>b. JStr (snd b)) (blocks_between (fst (last c')) m c3)))"
proof -
  have poll: "spec_poll page c c' n = ([], fst (last c'))" using assms(4) by (simp add: spec_poll_def)
  obtain s2 stored2 where s2: "getFilterChanges env i d s = (Inr [], s2)" "fst (load_filter env i s2) = Inr stored2"
    "block_filter_at stored2 (fst (last c'))"
    using getFilterChanges_refines [OF assms(8,9,1,2,5-7,3)] unfolding poll by auto
  then show ?thesis
    using session_reports [OF _ assms(8-10) s2(2,3)] chain_last [OF assms(7)] assms(7) by fastforce
qed

subsection \<open>A filter over a few blocks\<close>

definition sample_filters :: "(string \<times> jsv) list \<Rightarrow> (list_lru, unit, nat) filter_env" where
  "sample_filters table =
     \<lparr> fe_relay = sample_relay table, fe_filterApiEnabled = True, fe_filterTtl = 300000 \<rparr>"

definition sample_filter :: jsv where
  "sample_filter = filter_object FILTER_TYPE_NEW_BLOCK (JObj [(''blockAtCreation'', JStr ''0x5'')]) JNull"

definition with_filter :: "(string \<times> jsv) list \<Rightarrow> (list_lru, unit, nat) relay_state" where
  "with_filter table = snd (store_filter (sample_filters table) ''0xf1'' sample_filter quiet_relay)"

lemma sample_filters_env:
  "caching (re_mirror (fe_relay (sample_filters table)))" "fe_filterApiEnabled (sample_filters table)"
  using cachingI [of "canned_mirror table" list_lru_look "\<lambda>c. Suc (fst c)"]
  by (simp_all add: sample_filters_def sample_relay_def canned_mirror_def)

lemma sample_filter_stored: "\<exists>s. load_filter (sample_filters table) ''0xf1'' (with_filter table) = (Inr sample_filter, s)"
  using load_after_store [OF sample_filters_env(1), of sample_filter table "''0xf1''" quiet_relay]
  by (simp add: with_filter_def sample_filter_def filter_object_def prod_eq_iff)

lemma sample_filter_at_5: "block_filter_at sample_filter 5" "position_value sample_filter = JStr ''0x5''"
proof -
  have "numberTo0x 5 = ''0x5''" by code_simp
  with hex_block_number [of 5] show "position_value sample_filter = JStr ''0x5''" "block_filter_at sample_filter 5"
    by (simp_all add: block_filter_at_def position_value_def sample_filter_def filter_object_def)
qed

definition five_to_seven :: "chain_block list" where
  "five_to_seven = [(5, ''0xa''), (6, ''0xb''), (7, ''0xc'')]"

definition answers_after_5 :: "chain_block list \<Rightarrow> (string \<times> jsv) list" where
  "answers_after_5 bs =
     [(''blocks?block.number=gt:0x5&order=asc'', blocks_json bs),
      (''blocks?limit=1&order=desc'', blocks_json [last five_to_seven])]"

lemma five_to_seven_wf: "chain_wf five_to_seven" "chain_wf [(5, ''0xa'')]"
  by (simp_all add: chain_wf_def five_to_seven_def)

lemma page_of_7: "next_page 100 5 five_to_seven = [(6, ''0xb''), (7, ''0xc'')]" "next_page 100 5 [(5, ''0xa'')] = []"
  by (simp_all add: next_page_def five_to_seven_def)

lemma answers_given:
  assumes "next_page 100 5 c = bs"
  shows "\<exists>s'. poll_answers (sample_filters (answers_after_5 bs)) sample_details 100 (JStr ''0x5'') 5 c five_to_seven s s'"
proof -
  have one: "to_base 10 (Suc 0) = ''1''" by code_simp
  show ?thesis
    using assms one
    by (cases "bs = []") (simp_all add: poll_answers_def sample_filters_def sample_relay_def getBlocks_def getLatestBlock_def mn_get_canned answers_after_5_def
        getQueryParams_def setLimitOrderParams_def getLimitOrderQueryParam_def setQueryParam_def set_key_def
        int_to_base_def)
qed

theorem block_filter_exactly_once_witness:
  "\<exists>s' stored' m. fst (load_filter (sample_filters (answers_after_5 [(6, ''0xb''), (7, ''0xc'')])) ''0xf1'' s') = Inr stored' \<and>
     block_filter_at stored' m \<and> 5 \<le> m \<and> [JStr ''0xb'', JStr ''0xc''] = map (\<lambda>b. JStr (snd b)) (blocks_between 5 m five_to_seven)"
proof -
  let ?t = "answers_after_5 [(6, ''0xb''), (7, ''0xc'')]"
  let ?env = "sample_filters ?t"
  obtain s0 where load: "load_filter ?env ''0xf1'' (with_filter ?t) = (Inr sample_filter, s0)"
    using sample_filter_stored by blast
  obtain s1 where answers: "poll_answers ?env sample_details 100 (JStr ''0x5'') 5 five_to_seven five_to_seven s0 s1"
    using answers_given [OF page_of_7(1)] by blast
  have poll: "fst (spec_poll 100 five_to_seven five_to_seven 5) = [''0xb'', ''0xc'']"
    by (simp add: spec_poll_def page_of_7)
  obtain s2 where get: "getFilterChanges ?env ''0xf1'' sample_details (with_filter ?t) = (Inr [JStr ''0xb'', JStr ''0xc''], s2)"
    using getFilterChanges_refines [OF sample_filters_env load sample_filter_at_5(1), unfolded sample_filter_at_5(2), OF answers
        five_to_seven_wf(1) five_to_seven_wf(1)] poll by auto
  have number: "js_Number (position_value sample_filter) = Num 5"
    using sample_filter_at_5(1) by (simp add: block_filter_at_def)
  have session: "session ?env ''0xf1'' sample_details 100 (with_filter ?t, five_to_seven) ([] @ [JStr ''0xb'', JStr ''0xc''])
      (s2, five_to_seven)"
    using answers by (intro session_poll [OF session_start load number _ get]) (simp add: sample_filter_at_5(2))
  show ?thesis
    using block_filter_exactly_once [OF session sample_filters_env _ _ sample_filter_at_5(1), of ] load five_to_seven_wf(1)
    by (force simp: five_to_seven_def)
qed

theorem block_filter_skips_blocks_witness:
  "\<exists>s2. getFilterChanges (sample_filters (answers_after_5 [])) ''0xf1'' sample_details (with_filter (answers_after_5 [])) = (Inr [], s2) \<and>
    (\<forall>rs s3 c3. session (sample_filters (answers_after_5 [])) ''0xf1'' sample_details 100 (s2, five_to_seven) rs (s3, c3) \<longrightarrow>
       (\<exists>m. rs = map (\<lambda>b. JStr (snd b)) (blocks_between 7 m c3)))"
proof -
  let ?t = "answers_after_5 []"
  obtain s0 where load: "load_filter (sample_filters ?t) ''0xf1'' (with_filter ?t) = (Inr sample_filter, s0)"
    using sample_filter_stored by blast
  obtain s1 where answers: "poll_answers (sample_filters ?t) sample_details 100 (JStr ''0x5'') 5 [(5, ''0xa'')] five_to_seven s0 s1"
    using answers_given [OF page_of_7(2)] by blast
  have last: "fst (last five_to_seven) = 7" by (simp add: five_to_seven_def)
  show ?thesis
    using block_filter_skips_blocks [OF load sample_filter_at_5(1) _ page_of_7(2), unfolded sample_filter_at_5(2), OF _ answers
        five_to_seven_wf(2) five_to_seven_wf(1) sample_filters_env, unfolded last]
    by simp
qed

end
