(* ===== verification/CacheDecorator.thy ===== *)
theory CacheDecorator
  imports MirrorClient
begin

section \<open>Cached methods\<close>

text \<open>
  Models \<open>decorators/cache.decorator.ts\<close>: a method whose results are kept in the cache under its name
  and arguments, unless an argument says that they change. An argument is a value or the request
  details. A method returns a value or an error object; the class of an error object is a property
  of value \<open>undefined\<close> of its representation, which like a prototype is not part of its JSON text.
\<close>

datatype js_arg = ArgValue jsv | ArgDetails request_details

datatype js_result = ResultValue jsv | ResultError json_rpc_error

definition class_property :: "string \<times> jsv" where
  "class_property = (''class JsonRpcError'', JUndef)"

definition error_object :: "json_rpc_error \<Rightarrow> jsv" where
  "error_object e =
     JObj [class_property, (''code'', JNum (err_code e)), (''message'', JStr (err_message e)),
           (''data'', case err_data e of None \<Rightarrow> JUndef | Some d \<Rightarrow> JStr d)]"

fun stored_form :: "js_result \<Rightarrow> jsv" where
  "stored_form (ResultValue v) = v"
| "stored_form (ResultError e) = error_object e"

fun result_of_stored :: "jsv \<Rightarrow> js_result" where
  "result_of_stored (JObj [c, (k1, JNum n), (k2, JStr m), (k3, d)]) =
     (if c = class_property
      then ResultError \<lparr> err_code = n, err_message = m, err_data = (case d of JStr t \<Rightarrow> Some t | _ \<Rightarrow> None) \<rparr>
      else ResultValue (JObj [c, (k1, JNum n), (k2, JStr m), (k3, d)]))"
| "result_of_stored v = ResultValue v"

fun result_truthy :: "js_result \<Rightarrow> bool" where
  "result_truthy (ResultValue v) = truthy v"
| "result_truthy (ResultError e) = True"

subsection \<open>What is not cached\<close>

record single_param =
  sp_index :: nat
  sp_value :: string

record named_params =
  np_index :: nat
  np_fields :: "(string \<times> string) list"

record cache_options =
  co_skipParams :: "single_param list"
  co_skipNamedParams :: "named_params list"
  co_ttl :: "int option"

definition one_of :: "jsv \<Rightarrow> string \<Rightarrow> bool" where
  "one_of v alternatives = (case v of JStr s \<Rightarrow> s \<in> set (split_on CHR ''|'' alternatives) | _ \<Rightarrow> False)"

fun arg_value :: "js_arg list \<Rightarrow> nat \<Rightarrow> jsv option" where
  "arg_value args i = (if i < length args then (case args ! i of ArgValue v \<Rightarrow> Some v | ArgDetails d \<Rightarrow> None) else Some JUndef)"

fun arg_is_one_of :: "js_arg list \<Rightarrow> nat \<Rightarrow> string \<Rightarrow> bool" where
  "arg_is_one_of args i alternatives = (case arg_value args i of Some v \<Rightarrow> one_of v alternatives | None \<Rightarrow> False)"

definition shouldSkipCachingForSingleParams :: "js_arg list \<Rightarrow> single_param list \<Rightarrow> bool" where
  "shouldSkipCachingForSingleParams args params =
     list_ex (\<lambda>p. arg_is_one_of args (sp_index p) (sp_value p) \<or> arg_value args (sp_index p) = Some JUndef) params"

text \<open>
  A field of \<open>undefined\<close> or \<open>null\<close> cannot be read: the call throws after the method has run. The
  fields of the request details are none of those that are looked for.
\<close>

fun named_params_skip :: "js_arg list \<Rightarrow> named_params list \<Rightarrow> thrown + bool" where
  "named_params_skip args [] = Inr False"
| "named_params_skip args (p # ps) =
     (case arg_value args (np_index p) of
        None \<Rightarrow> named_params_skip args ps
      | Some input \<Rightarrow>
          if np_fields p = [] then named_params_skip args ps
          else if nullish input then Inl (ThrownOther ''TypeError'')
          else if list_ex (\<lambda>k. one_of (js_prop input k) (the (map_of (rev (np_fields p)) k))) (map fst (np_fields p)) then Inr True
          else named_params_skip args ps)"

definition shouldSkipCachingForNamedParams :: "js_arg list \<Rightarrow> named_params list \<Rightarrow> thrown + bool" where
  "shouldSkipCachingForNamedParams args params = named_params_skip args params"

subsection \<open>The key\<close>

fun arg_text :: "js_arg \<Rightarrow> string" where
  "arg_text (ArgDetails d) = ''''"
| "arg_text (ArgValue v) =
     ''_'' @ (case v of JArr xs \<Rightarrow> json_stringify v | JObj ps \<Rightarrow> json_stringify v | _ \<Rightarrow> js_to_string v)"

definition generateCacheKey :: "string \<Rightarrow> js_arg list \<Rightarrow> string" where
  "generateCacheKey methodName args = foldl (\<lambda>cacheKey v. cacheKey @ arg_text v) methodName args"

fun extractRequestDetails :: "js_arg list \<Rightarrow> request_details" where
  "extractRequestDetails [] = \<lparr> rd_requestId = '''', rd_ipAddress = '''', rd_connectionId = None \<rparr>"
| "extractRequestDetails (ArgDetails d # args) = d"
| "extractRequestDetails (ArgValue v # args) = extractRequestDetails args"

subsection \<open>The decorator\<close>

definition cached_method ::
  "('c, 'r, 'w) mirror_env \<Rightarrow> int \<Rightarrow> cache_options \<Rightarrow> string \<Rightarrow> (js_arg list \<Rightarrow> ('c, 'r, 'w, js_result) relay_action)
   \<Rightarrow> js_arg list \<Rightarrow> ('c, 'r, 'w, js_result) relay_action" where
  "cached_method env CACHE_TTL options methodName meth args =
     (let cacheKey = generateCacheKey methodName args in
      and_do (cached_get env cacheKey) (\<lambda>cachedResponse.
        if truthy cachedResponse then ret (result_of_stored cachedResponse)
        else and_do (meth args) (\<lambda>result.
          if result_truthy result \<and> \<not> shouldSkipCachingForSingleParams args (co_skipParams options) then
            and_do (lift (shouldSkipCachingForNamedParams args (co_skipNamedParams options))) (\<lambda>skip.
              if skip then ret result
              else and_do (cached_set env cacheKey (stored_form result)
                     (Some (Ms (case co_ttl options of None \<Rightarrow> CACHE_TTL | Some t \<Rightarrow> t)))) (\<lambda>u. ret result))
          else ret result)))"


subsection \<open>A cached method answers as it did before\<close>

lemma generateCacheKey_append: "generateCacheKey m args = m @ concat (map arg_text args)"
proof -
  have "foldl (\<lambda>cacheKey v. cacheKey @ arg_text v) k args = k @ concat (map arg_text args)" for k
    by (induction args arbitrary: k) simp_all
  then show ?thesis by (simp add: generateCacheKey_def)
qed

lemma result_of_error [simp]: "result_of_stored (error_object e) = ResultError e"
  by (cases e) (auto simp: error_object_def split: option.split)

lemma stored_truthy: "result_truthy r \<Longrightarrow> truthy (stored_form r)"
  by (cases r) (simp_all add: error_object_def)

definition storable :: "js_result \<Rightarrow> bool" where
  "storable r \<longleftrightarrow> result_truthy r \<and> result_of_stored (stored_form r) = r"

lemma cached_method_hit:
  assumes "fst (cached_get env (generateCacheKey m args) s) = Inr v" and "truthy v"
  shows "cached_method env T options m meth args s = (Inr (result_of_stored v), snd (cached_get env (generateCacheKey m args) s))"
  using assms unfolding cached_method_def Let_def by (simp add: and_do_def cached_get_run ret_def)

lemma cached_method_miss:
  assumes "fst (cached_get env (generateCacheKey m args) s) = Inr v" and "\<not> truthy v"
    and "meth args (snd (cached_get env (generateCacheKey m args) s)) = (Inr r, s1)" and "result_truthy r"
    and "\<not> shouldSkipCachingForSingleParams args (co_skipParams options)"
    and "shouldSkipCachingForNamedParams args (co_skipNamedParams options) = Inr False"
  shows "cached_method env T options m meth args s = (Inr r, snd (cached_set env (generateCacheKey m args) (stored_form r)
    (Some (Ms (case co_ttl options of None \<Rightarrow> T | Some t \<Rightarrow> t))) s1))"
  using assms unfolding cached_method_def Let_def
  by (simp add: and_do_def cached_get_run cached_set_run ret_def lift_def)

lemma world_of_get: "rs_world (snd (cached_get env k s)) = rs_world s"
  by (simp add: cached_get_run)

lemma cached_get_within:
  assumes laws: "lru_laws (ce_lru (me_cache env)) look cap" and internal: "internal_only (me_cache env)"
    and "v \<noteq> JUndef" and "0 < n"
    and cache: "rs_cache s' = rs_cache (snd (cached_set env k v (Some (Ms n)) s))"
    and "me_now env (rs_world s') \<le> me_now env (rs_world s) + n"
  shows "fst (cached_get env k s') = Inr v"
proof -
  let ?i = "cs_internal (rs_cache s)" and ?now = "me_now env (rs_world s)" and ?now' = "me_now env (rs_world s')"
  let ?c = "lru_set (ce_lru (me_cache env)) ?now k v (Ms n) (getCacheInstance k ?i)"
  obtain w c' where get: "lru_get (ce_lru (me_cache env)) ?now' k ?c = (w, c')"
    by (cases "lru_get (ce_lru (me_cache env)) ?now' k ?c")
  have "fresh ?now' (Some (v, deadline ?now (Ms n)))" using assms(4,6) by (simp add: fresh_def deadline_def)
  with lru_get_law [OF laws get] lru_set_self [OF laws] have "w = v" by simp
  with get assms(3,4) cache show ?thesis
    by (simp add: cached_get_run cached_set_run internal_simps [OF internal] getFromInternalCache_def local_get_def local_set_def
        resolve_ttl_def)
qed

definition options_ttl :: "int \<Rightarrow> cache_options \<Rightarrow> int" where
  "options_ttl T options = (case co_ttl options of None \<Rightarrow> T | Some t \<Rightarrow> t)"

lemma cached_result_lasts:
  assumes "lru_laws (ce_lru (me_cache env)) look cap" and "internal_only (me_cache env)"
    and "fst (cached_get env (generateCacheKey m args) s) = Inr v" and "\<not> truthy v"
    and "meth args (snd (cached_get env (generateCacheKey m args) s)) = (Inr r, s0)" and "storable r"
    and "\<not> shouldSkipCachingForSingleParams args (co_skipParams options)"
    and "shouldSkipCachingForNamedParams args (co_skipNamedParams options) = Inr False"
    and "generateCacheKey m args' = generateCacheKey m args" and "0 < options_ttl T options"
  shows "\<exists>s1. cached_method env T options m meth args s = (Inr r, s1) \<and>
    (\<forall>s2. rs_cache s2 = rs_cache s1 \<and> me_now env (rs_world s2) \<le> me_now env (rs_world s0) + options_ttl T options \<longrightarrow>
       (\<exists>s3. cached_method env T options m meth args' s2 = (Inr r, s3) \<and> rs_world s3 = rs_world s2))"
proof -
  let ?k = "generateCacheKey m args"
  let ?s1 = "snd (cached_set env ?k (stored_form r) (Some (Ms (options_ttl T options))) s0)"
  have "cached_method env T options m meth args s = (Inr r, ?s1)"
    using cached_method_miss [of env m args s v meth r s0 options T] assms(3-8)
    by (simp add: storable_def options_ttl_def)
  moreover have "\<exists>s3. cached_method env T options m meth args' s2 = (Inr r, s3) \<and> rs_world s3 = rs_world s2"
    if "rs_cache s2 = rs_cache ?s1" "me_now env (rs_world s2) \<le> me_now env (rs_world s0) + options_ttl T options" for s2
  proof -
    have form: "truthy (stored_form r)" "stored_form r \<noteq> JUndef" "result_of_stored (stored_form r) = r"
      using assms(6) stored_truthy [of r] by (auto simp: storable_def)
    have "fst (cached_get env ?k s2) = Inr (stored_form r)"
      by (rule cached_get_within [OF assms(1,2) form(2) assms(10) that])
    with cached_method_hit [of env m args' s2 "stored_form r" T options meth] assms(9) form show ?thesis
      by (simp add: world_of_get)
  qed
  ultimately show ?thesis by blast
qed

text \<open>
  A result that is cached is the answer to every call with the same key as long as its time to live
  has not passed, and no service is asked for it.
\<close>

theorem cached_call_repeats:
  assumes "lru_laws (ce_lru (me_cache env)) look cap" and "internal_only (me_cache env)"
    and "fst (cached_get env (generateCacheKey m args) s) = Inr v" and "\<not> truthy v"
    and "meth args (snd (cached_get env (generateCacheKey m args) s)) = (Inr r, s0)" and "storable r"
    and "\<not> shouldSkipCachingForSingleParams args (co_skipParams options)"
    and "shouldSkipCachingForNamedParams args (co_skipNamedParams options) = Inr False"
    and "generateCacheKey m args' = generateCacheKey m args" and "0 < options_ttl T options"
  shows "\<exists>s1. cached_method env T options m meth args s = (Inr r, s1) \<and>
    (\<forall>s2. rs_cache s2 = rs_cache s1 \<and> me_now env (rs_world s2) \<le> me_now env (rs_world s0) + options_ttl T options \<longrightarrow>
       (\<exists>s3. cached_method env T options m meth args' s2 = (Inr r, s3) \<and> rs_world s3 = rs_world s2))"
  using assms by (rule cached_result_lasts)

subsection \<open>An error in the shared cache\<close>

text \<open>What Redis promises for a key that has just been set.\<close>

definition redis_keeps :: "'r redis_client \<Rightarrow> bool" where
  "redis_keeps rc \<longleftrightarrow>
     (\<forall>now k v t r. fst (rc_set rc now k v t r) = Inr () \<and> fst (rc_get rc now k (snd (rc_set rc now k v t r))) = Inr (Some v))"

lemma redis_get_after_set:
  assumes "ce_isSharedCacheEnabled (me_cache env)" and "redis_keeps (ce_redis (me_cache env))" and "v \<noteq> JUndef"
  shows "fst (cached_get env k (snd (cached_set env k v t s))) = Inr (json_copy v)"
proof -
  let ?rc = "ce_redis (me_cache env)"
  let ?now = "me_now env (rs_world s)"
  have keeps: "fst (rc_set ?rc now k v t r) = Inr ()" "fst (rc_get ?rc now k (snd (rc_set ?rc now k v t r))) = Inr (Some v)"
    for now k v t r using assms(2) by (simp_all add: redis_keeps_def)
  obtain t' where set: "redis_set ?rc (ce_redisTtl (me_cache env)) ?now k v t (cs_shared (rs_cache s)) =
      rc_set ?rc ?now k (json_copy v) t' (cs_shared (rs_cache s))"
    using assms(3) by (cases "redis_ttl t (ce_redisTtl (me_cache env))") (auto simp: redis_set_def)
  obtain r where r: "rc_set ?rc ?now k (json_copy v) t' (cs_shared (rs_cache s)) = (Inr (), r)"
    using keeps(1) by (metis prod.collapse)
  then have "fst (rc_get ?rc ?now k r) = Inr (Some (json_copy v))"
    using keeps(2) [of ?now k "json_copy v" t' "cs_shared (rs_cache s)"] by simp
  then obtain r' where "rc_get ?rc ?now k r = (Inr (Some (json_copy v)), r')" by (metis prod.collapse)
  with set r show ?thesis
    using assms(1)
    by (simp add: cached_get_run cached_set_run cache_set_def with_fallback_def getAsync_def getFromSharedCache_def redis_get_def)
qed

text \<open>
  An error object that a cached method returns comes back from Redis without its class: the next
  call with the same key is answered with a plain object, which is not an error any more.
\<close>

theorem cached_error_becomes_result:
  assumes "ce_isSharedCacheEnabled (me_cache env)" and "redis_keeps (ce_redis (me_cache env))"
    and "fst (cached_get env (generateCacheKey m args) s) = Inr v" and "\<not> truthy v"
    and "meth args (snd (cached_get env (generateCacheKey m args) s)) = (Inr (ResultError e), s0)"
    and "\<not> shouldSkipCachingForSingleParams args (co_skipParams options)"
    and "shouldSkipCachingForNamedParams args (co_skipNamedParams options) = Inr False"
  shows "\<exists>s1 s2 o'. cached_method env T options m meth args s = (Inr (ResultError e), s1) \<and>
    cached_method env T options m meth args s1 = (Inr (ResultValue o'), s2) \<and>
    js_prop o' ''code'' = JNum (err_code e) \<and> js_prop o' ''message'' = JStr (err_message e)"
proof -
  let ?k = "generateCacheKey m args"
  let ?o = "json_copy (error_object e)"
  define s1 where "s1 = snd (cached_set env ?k (error_object e) (Some (Ms (case co_ttl options of None \<Rightarrow> T | Some t \<Rightarrow> t))) s0)"
  have "cached_method env T options m meth args s = (Inr (ResultError e), s1)"
    using cached_method_miss [of env m args s v meth "ResultError e" s0 options T] assms(3-7) by (simp add: s1_def)
  moreover have "fst (cached_get env ?k s1) = Inr ?o"
    unfolding s1_def by (rule redis_get_after_set [OF assms(1,2)]) (simp add: error_object_def)
  moreover have "truthy ?o" "result_of_stored ?o = ResultValue ?o"
    "js_prop ?o ''code'' = JNum (err_code e)" "js_prop ?o ''message'' = JStr (err_message e)"
    by (simp_all add: error_object_def class_property_def split: option.split)
  ultimately show ?thesis
    using cached_method_hit [where env = env and m = m and args = args and s = s1 and v = ?o and T = T and options = options
        and meth = meth] by auto
qed

subsection \<open>Keys\<close>

fun scalar :: "jsv \<Rightarrow> bool" where
  "scalar (JArr xs) = False"
| "scalar (JObj ps) = False"
| "scalar v = True"

definition call_args :: "jsv list \<Rightarrow> request_details \<Rightarrow> js_arg list" where
  "call_args xs d = map ArgValue xs @ [ArgDetails d]"

lemma key_parts:
  assumes "CHR ''_'' \<notin> set m" and "list_all (\<lambda>v. scalar v \<and> CHR ''_'' \<notin> set (js_to_string v)) xs"
  shows "split_on CHR ''_'' (generateCacheKey m (call_args xs d)) = m # map js_to_string xs"
  using assms
proof (induction xs arbitrary: m)
  case Nil
  then show ?case by (simp add: generateCacheKey_append call_args_def split_on_no_sep)
next
  case (Cons x xs)
  have x: "arg_text (ArgValue x) = ''_'' @ js_to_string x" using Cons.prems by (cases x) auto
  have "generateCacheKey m (call_args (x # xs) d) = m @ CHR ''_'' # generateCacheKey (js_to_string x) (call_args xs d)"
    by (simp add: generateCacheKey_append call_args_def x del: arg_text.simps)
  with Cons show ?case by (simp add: split_on_append)
qed

text \<open>
  Calls whose arguments are texts, numbers or truth values without underscores share a cached result
  only if they are calls of the same method whose arguments read the same.
\<close>

theorem cache_keys_apart:
  assumes "CHR ''_'' \<notin> set m" and "list_all (\<lambda>v. scalar v \<and> CHR ''_'' \<notin> set (js_to_string v)) xs"
    and "CHR ''_'' \<notin> set m'" and "list_all (\<lambda>v. scalar v \<and> CHR ''_'' \<notin> set (js_to_string v)) ys"
    and "generateCacheKey m (call_args xs d) = generateCacheKey m' (call_args ys d')"
  shows "m = m' \<and> map js_to_string xs = map js_to_string ys"
  using key_parts [OF assms(1,2), of d] key_parts [OF assms(3,4), of d'] assms(5) by simp


theorem cache_keys_apart_witness:
  "''getBalance'' = ''getBalance'' \<and> map js_to_string [JStr ''0xa'', JStr ''0x1''] = map js_to_string [JStr ''0xa'', JStr ''0x1'']"
  using cache_keys_apart [of "''getBalance''" "[JStr ''0xa'', JStr ''0x1'']" "''getBalance''" "[JStr ''0xa'', JStr ''0x1'']"
      sample_details sample_details] by simp

definition plain_options :: cache_options where
  "plain_options = \<lparr> co_skipParams = [], co_skipNamedParams = [], co_ttl = Some 500 \<rparr>"

lemma plain_options_skip [simp]:
  "\<not> shouldSkipCachingForSingleParams args (co_skipParams plain_options)"
  "shouldSkipCachingForNamedParams args (co_skipNamedParams plain_options) = Inr False"
  by (simp_all add: plain_options_def shouldSkipCachingForSingleParams_def shouldSkipCachingForNamedParams_def)

lemma plain_options_ttl: "co_ttl plain_options = Some 500"
  by (simp add: plain_options_def)

lemma canned_mirror_simps [simp]: "me_cache (canned_mirror table) = sample_env" "me_now (canned_mirror table) = int"
  by (simp_all add: canned_mirror_def)

lemma sample_cache_miss [simp]: "fst (getAsync sample_env now k (rs_cache quiet_relay)) = JNull"
  using empty_cache_miss [of "[]" now k] by simp

theorem cached_call_repeats_witness:
  "\<exists>s1. cached_method (canned_mirror []) 1000 plain_options ''blockNumber'' (\<lambda>args. ret (ResultValue (JStr ''0x5''))) [] quiet_relay =
      (Inr (ResultValue (JStr ''0x5'')), s1) \<and>
    (\<exists>s3. cached_method (canned_mirror []) 1000 plain_options ''blockNumber'' (\<lambda>args. ret (ResultValue (JStr ''0x5''))) []
        (s1\<lparr> rs_world := 499 \<rparr>) = (Inr (ResultValue (JStr ''0x5'')), s3) \<and> rs_world s3 = 499)"
proof -
  let ?env = "canned_mirror []"
  let ?meth = "\<lambda>args. ret (ResultValue (JStr ''0x5''))"
  have "fst (cached_get ?env (generateCacheKey ''blockNumber'' []) quiet_relay) = Inr JNull"
    by (simp add: cached_get_run)
  moreover have "?meth [] (snd (cached_get ?env (generateCacheKey ''blockNumber'' []) quiet_relay)) =
      (Inr (ResultValue (JStr ''0x5'')), snd (cached_get ?env (generateCacheKey ''blockNumber'' []) quiet_relay))"
    by (simp add: ret_def)
  ultimately obtain s1 where "cached_method ?env 1000 plain_options ''blockNumber'' ?meth [] quiet_relay = (Inr (ResultValue (JStr ''0x5'')), s1)"
    "\<forall>s2. rs_cache s2 = rs_cache s1 \<and> int (rs_world s2) \<le> 500 \<longrightarrow>
       (\<exists>s3. cached_method ?env 1000 plain_options ''blockNumber'' ?meth [] s2 = (Inr (ResultValue (JStr ''0x5'')), s3) \<and>
         rs_world s3 = rs_world s2)"
    using cached_call_repeats [of ?env list_lru_look "\<lambda>c. Suc (fst c)" "''blockNumber''" "[]" quiet_relay JNull ?meth
        "ResultValue (JStr ''0x5'')" _ plain_options "[]" 1000]
    by (fastforce simp: storable_def world_of_get quiet_relay_def options_ttl_def plain_options_ttl)
  from this(1) this(2) [rule_format, of "s1\<lparr> rs_world := 499 \<rparr>"] show ?thesis
    by (intro exI [of _ s1]) simp
qed

definition map_redis :: "(string \<Rightarrow> jsv option) redis_client" where
  "map_redis =
     \<lparr> rc_get = (\<lambda>now k r. (Inr (r k), r)), rc_set = (\<lambda>now k v t r. (Inr (), r(k \<mapsto> v))),
       rc_mSet = (\<lambda>now kvs r. (Inl ''unused'', r)), rc_pipelineSet = (\<lambda>now kvs t r. (Inl ''unused'', r)),
       rc_del = (\<lambda>now k r. (Inr (), r(k := None))), rc_flushAll = (\<lambda>r. (Inr (), Map.empty)),
       rc_incrBy = (\<lambda>now k a r. (Inl ''unused'', r)), rc_rPush = (\<lambda>now k v r. (Inl ''unused'', r)),
       rc_lRange = (\<lambda>now k a b r. (Inl ''unused'', r)), rc_keys = (\<lambda>now p r. (Inl ''unused'', r)) \<rparr>"

definition redis_mirror :: "(list_lru, string \<Rightarrow> jsv option, nat) mirror_env" where
  "redis_mirror =
     \<lparr> me_cache = \<lparr> ce_lru = list_lru_ops, ce_redis = map_redis, ce_isSharedCacheEnabled = True, ce_shouldMultiSet = False,
                    ce_redisTtl = 1000 \<rparr>,
       me_http = canned_http [], me_now = int, me_sleep = (\<lambda>n w. w), me_tokenAnswersFirst = (\<lambda>w. False),
       me_callAcceptedErrors = [], me_retryDelay = 2000, me_requestRetryCount = 10, me_limitParam = 100,
       me_resultsPageMax = 25, me_logsPageMax = 200 \<rparr>"

definition redis_relay :: "(list_lru, string \<Rightarrow> jsv option, nat) relay_state" where
  "redis_relay = \<lparr> rs_cache = \<lparr> cs_internal = cs_internal sample_store, cs_shared = Map.empty \<rparr>, rs_world = 0 \<rparr>"

theorem cached_error_becomes_result_witness:
  "\<exists>s1 s2 o'. cached_method redis_mirror 1000 plain_options ''feeHistory'' (\<lambda>args. ret (ResultError UNSUPPORTED_METHOD)) [] redis_relay =
      (Inr (ResultError UNSUPPORTED_METHOD), s1) \<and>
    cached_method redis_mirror 1000 plain_options ''feeHistory'' (\<lambda>args. ret (ResultError UNSUPPORTED_METHOD)) [] s1 = (Inr (ResultValue o'), s2)"
proof -
  let ?meth = "\<lambda>args. ret (ResultError UNSUPPORTED_METHOD)"
  have redis: "ce_isSharedCacheEnabled (me_cache redis_mirror)" "redis_keeps (ce_redis (me_cache redis_mirror))"
    by (simp_all add: redis_mirror_def redis_keeps_def map_redis_def)
  have "fst (cached_get redis_mirror (generateCacheKey ''feeHistory'' []) redis_relay) = Inr JNull"
    by (simp add: cached_get_run getAsync_def redis_mirror_def getFromSharedCache_def redis_get_def map_redis_def redis_relay_def)
  from cached_error_becomes_result [OF redis this, of ?meth UNSUPPORTED_METHOD _ plain_options 1000] show ?thesis
    by (fastforce simp: ret_def)
qed

end
