(* ===== verification/FeeHistory.thy ===== *)
theory FeeHistory
  imports CommonQueries CacheDecorator
begin

section \<open>Fees\<close>

text \<open>
  Models \<open>services/ethService/feeService/FeeService.ts\<close>. The number of blocks is the integer that the
  parameter layout makes of the hexadecimal parameter; a block number that is none stays one, as in
  the code. The ratio 0.5, the only number with a fraction in an answer, is written as its text.
\<close>

record ('c, 'r, 'w) fee_env =
  fee_relay :: "('c, 'r, 'w) relay_env"
  fee_maxResults :: int
  fee_fixed :: bool

definition ZERO_HEX :: string where "ZERO_HEX = ''0x0''"
definition DEFAULT_GAS_USED_RATIO :: jsv where "DEFAULT_GAS_USED_RATIO = JStr ''0.5''"
definition FEE_HISTORY_REWARD_PERCENTILES_MAX_SIZE :: nat where "FEE_HISTORY_REWARD_PERCENTILES_MAX_SIZE = 100"

text \<open>\<open>numberTo0x\<close> of a number that may be none.\<close>

definition number_hex :: "js_number \<Rightarrow> string" where
  "number_hex a = (case a of Num n \<Rightarrow> numberTo0x n | NotANumber \<Rightarrow> ''0xNaN'')"

definition num_add :: "js_number \<Rightarrow> int \<Rightarrow> js_number" where
  "num_add a k = (case a of Num n \<Rightarrow> Num (n + k) | NotANumber \<Rightarrow> NotANumber)"

definition percentile_count :: "jsv \<Rightarrow> nat" where
  "percentile_count rewardPercentiles = (case rewardPercentiles of JArr xs \<Rightarrow> length xs | _ \<Rightarrow> 0)"

definition reward_rows :: "int \<Rightarrow> jsv \<Rightarrow> (string \<times> jsv) list" where
  "reward_rows blockCount rewardPercentiles =
     (let n = percentile_count rewardPercentiles
      in if 0 < n then [(''reward'', JArr (replicate (nat blockCount) (JArr (replicate n (JStr ZERO_HEX)))))] else [])"

definition getFeeByBlockNumber ::
  "('c, 'r, 'w) fee_env \<Rightarrow> int \<Rightarrow> request_details \<Rightarrow> ('c, 'r, 'w, string) relay_action" where
  "getFeeByBlockNumber env blockNumber d =
     and_do (catch_do
       (and_do (mn_getBlock (re_mirror (fee_relay env)) (JNum blockNumber) d) (\<lambda>block.
        and_do (lift (if nullish block then Inl type_error else timestamp_field block ''to'')) (\<lambda>till.
          getGasPriceInWeibars (fee_relay env) d (JStr (''lte:'' @ js_to_string till)))))
       (\<lambda>e. ret 0)) (\<lambda>fee. ret (numberTo0x fee))"

text \<open>The numbers of the blocks of the loop; there are none when an end is not a number.\<close>

definition loop_blocks :: "js_number \<Rightarrow> js_number \<Rightarrow> int list" where
  "loop_blocks oldest newest = (case (oldest, newest) of (Num a, Num b) \<Rightarrow> [a..b] | _ \<Rightarrow> [])"

definition oldest_block :: "js_number \<Rightarrow> int \<Rightarrow> js_number" where
  "oldest_block newest blockCount = (case newest of Num n \<Rightarrow> Num (max 0 (n - blockCount + 1)) | NotANumber \<Rightarrow> NotANumber)"

definition getFeeHistory ::
  "('c, 'r, 'w) fee_env \<Rightarrow> int \<Rightarrow> js_number \<Rightarrow> js_number \<Rightarrow> jsv \<Rightarrow> request_details \<Rightarrow> ('c, 'r, 'w, jsv) relay_action" where
  "getFeeHistory env blockCount newestBlockNumber latestBlockNumber rewardPercentiles d =
     (let oldest = oldest_block newestBlockNumber blockCount in
      and_do (map_do (\<lambda>n. getFeeByBlockNumber env n d) (loop_blocks oldest newestBlockNumber)) (\<lambda>fees.
      and_do (case newestBlockNumber of
                Num n \<Rightarrow> if num_less (Num n) latestBlockNumber
                         then and_do (getFeeByBlockNumber env (n + 1) d) (\<lambda>fee. ret [fee])
                         else ret (if fees = [] then [] else [last fees])
              | NotANumber \<Rightarrow> ret (if fees = [] then [] else [last fees])) (\<lambda>next.
        ret (JObj ([(''baseFeePerGas'', JArr (map JStr (fees @ filter (\<lambda>f. f \<noteq> '''') next))),
                    (''gasUsedRatio'', JArr (replicate (length fees) DEFAULT_GAS_USED_RATIO)),
                    (''oldestBlock'', JStr (number_hex oldest))] @ reward_rows blockCount rewardPercentiles)))))"

definition getRepeatedFeeHistory :: "int \<Rightarrow> js_number \<Rightarrow> jsv \<Rightarrow> string \<Rightarrow> jsv" where
  "getRepeatedFeeHistory blockCount oldestBlockNumber rewardPercentiles fee =
     JObj ([(''baseFeePerGas'', JArr (replicate (nat blockCount) (JStr fee) @ [JStr fee])),
            (''gasUsedRatio'', JArr (replicate (nat blockCount) DEFAULT_GAS_USED_RATIO)),
            (''oldestBlock'', JStr (number_hex oldestBlockNumber))] @ reward_rows blockCount rewardPercentiles)"

definition feeHistoryZeroBlockCountResponse :: jsv where
  "feeHistoryZeroBlockCountResponse =
     JObj [(''gasUsedRatio'', JNull), (''oldestBlock'', JStr ZERO_HEX), (''baseFeePerGas'', JUndef)]"

definition feeHistoryEmptyResponse :: jsv where
  "feeHistoryEmptyResponse =
     JObj [(''baseFeePerGas'', JArr []), (''gasUsedRatio'', JArr []), (''reward'', JArr []), (''oldestBlock'', JStr ZERO_HEX)]"

definition beyond_head :: "js_number \<Rightarrow> js_number \<Rightarrow> json_rpc_error" where
  "beyond_head requested latest =
     (case (requested, latest) of (Num a, Num b) \<Rightarrow> REQUEST_BEYOND_HEAD_BLOCK a b | _ \<Rightarrow> REQUEST_BEYOND_HEAD_BLOCK 0 0)"

text \<open>What the \<open>try\<close> block does once the two block numbers are known.\<close>

definition history_of ::
  "('c, 'r, 'w) fee_env \<Rightarrow> int \<Rightarrow> js_number \<Rightarrow> js_number \<Rightarrow> jsv \<Rightarrow> request_details \<Rightarrow> ('c, 'r, 'w, js_result) relay_action" where
  "history_of env blockCount newestBlockNumber latestBlockNumber rewardPercentiles d =
     (let listed = (if fee_maxResults env < blockCount then fee_maxResults env else blockCount) in
      if num_less latestBlockNumber newestBlockNumber
      then ret (ResultError (beyond_head newestBlockNumber latestBlockNumber))
      else if listed \<le> 0 then ret (ResultValue feeHistoryZeroBlockCountResponse)
      else if fee_fixed env then
        (let oldest = num_add newestBlockNumber (1 - listed);
             early = (case oldest of Num n \<Rightarrow> n \<le> 0 | NotANumber \<Rightarrow> False)
         in and_do (gasPrice (fee_relay env) d) (\<lambda>fee.
              ret (ResultValue (getRepeatedFeeHistory (if early then 1 else listed) (if early then Num 1 else oldest)
                     rewardPercentiles fee))))
      else and_do (getFeeHistory env listed newestBlockNumber latestBlockNumber rewardPercentiles d) (\<lambda>h. ret (ResultValue h)))"

definition feeHistory ::
  "('c, 'r, 'w) fee_env \<Rightarrow> int \<Rightarrow> jsv \<Rightarrow> jsv \<Rightarrow> request_details \<Rightarrow> ('c, 'r, 'w, js_result) relay_action" where
  "feeHistory env blockCount newestBlock rewardPercentiles d =
     (if FEE_HISTORY_REWARD_PERCENTILES_MAX_SIZE < percentile_count rewardPercentiles
      then throw (ThrownRpc (INVALID_PARAMETER (show_int 2)
             (''Reward percentiles size '' @ show_int (int (percentile_count rewardPercentiles)) @
              '' is greater than the maximum allowed size '' @ show_int (int FEE_HISTORY_REWARD_PERCENTILES_MAX_SIZE))))
      else catch_do
        (and_do (translateBlockTag (fee_relay env) BLOCK_LATEST d) (\<lambda>latestBlockNumber.
         and_do (if newestBlock = BLOCK_LATEST \<or> newestBlock = BLOCK_PENDING then ret latestBlockNumber
                 else translateBlockTag (fee_relay env) newestBlock d) (\<lambda>newestBlockNumber.
           history_of env blockCount newestBlockNumber latestBlockNumber rewardPercentiles d)))
        (\<lambda>e. ret (ResultValue feeHistoryEmptyResponse)))"

definition maxPriorityFeePerGas :: string where
  "maxPriorityFeePerGas = ZERO_HEX"

subsection \<open>The shape of a fee history\<close>

lemma getFeeByBlockNumber_total: "\<exists>fee s'. getFeeByBlockNumber env n d s = (Inr (numberTo0x fee), s')"
proof -
  let ?m = "catch_do
       (and_do (mn_getBlock (re_mirror (fee_relay env)) (JNum n) d) (\<lambda>block.
        and_do (lift (if nullish block then Inl type_error else timestamp_field block ''to'')) (\<lambda>till.
          getGasPriceInWeibars (fee_relay env) d (JStr (''lte:'' @ js_to_string till)))))
       (\<lambda>e. ret 0)"
  have "\<exists>fee s'. catch_do m (\<lambda>e. ret 0) s = (Inr fee, s')" for m :: "('a, 'b, 'c, int) relay_action"
    by (auto simp: catch_do_def ret_def split: prod.split sum.split)
  then obtain fee s' where "?m s = (Inr fee, s')" by blast
  then show ?thesis unfolding getFeeByBlockNumber_def by (auto simp: and_do_Inr ret_def)
qed

lemma fees_total: "\<exists>fees s'. map_do (\<lambda>n. getFeeByBlockNumber env n d) ns s = (Inr (map numberTo0x fees), s') \<and> length fees = length ns"
proof (induction ns arbitrary: s)
  case Nil
  then show ?case by (simp add: ret_def)
next
  case (Cons n ns)
  obtain fee s1 where "getFeeByBlockNumber env n d s = (Inr (numberTo0x fee), s1)" using getFeeByBlockNumber_total by blast
  moreover obtain fees s2 where "map_do (\<lambda>n. getFeeByBlockNumber env n d) ns s1 = (Inr (map numberTo0x fees), s2)" "length fees = length ns"
    using Cons by blast
  ultimately show ?case by (auto simp: and_do_def ret_def intro: exI [of _ "fee # fees"])
qed

lemma numberTo0x_not_empty: "numberTo0x n \<noteq> ''''"
  by (simp add: numberTo0x_def EMPTY_HEX_def)

lemma getFeeHistory_shape:
  assumes "0 \<le> n" and "n \<le> latest" and "0 < listed"
  shows "\<exists>fees s'. getFeeHistory env listed (Num n) (Num latest) rewardPercentiles d s =
      (Inr (JObj ([(''baseFeePerGas'', JArr (map (\<lambda>f. JStr (numberTo0x f)) fees)),
                   (''gasUsedRatio'', JArr (replicate (nat (min listed (n + 1))) DEFAULT_GAS_USED_RATIO)),
                   (''oldestBlock'', JStr (numberTo0x (max 0 (n - listed + 1))))] @ reward_rows listed rewardPercentiles)), s') \<and>
      length fees = nat (min listed (n + 1)) + 1"
proof -
  let ?ns = "loop_blocks (oldest_block (Num n) listed) (Num n)"
  have ns: "length ?ns = nat (min listed (n + 1))" using assms by (auto simp: loop_blocks_def oldest_block_def)
  obtain fees s1 where fees: "map_do (\<lambda>n. getFeeByBlockNumber env n d) ?ns s = (Inr (map numberTo0x fees), s1)"
    "length fees = length ?ns" using fees_total by blast
  have "fees \<noteq> []" using fees(2) ns assms by auto
  obtain fee s2 where fee: "getFeeByBlockNumber env (n + 1) d s1 = (Inr (numberTo0x fee), s2)"
    using getFeeByBlockNumber_total by blast
  show ?thesis
  proof (cases "n < latest")
    case True
    then show ?thesis using fees fee ns numberTo0x_not_empty
      by (intro exI [of _ "fees @ [fee]"] exI [of _ s2])
        (simp add: getFeeHistory_def Let_def and_do_def ret_def number_hex_def oldest_block_def comp_def)
  next
    case False
    then show ?thesis using fees ns \<open>fees \<noteq> []\<close> numberTo0x_not_empty
      by (intro exI [of _ "fees @ [last fees]"] exI [of _ s1])
        (simp add: getFeeHistory_def Let_def and_do_def ret_def number_hex_def oldest_block_def comp_def last_map)
  qed
qed

text \<open>
  A fee history lists the fees of the blocks up to the newest one and of the block after it: with
  the ratios one entry for each block, the base fees one more. The rewards have a row for each block
  that was asked for, even when there are not that many.
\<close>

theorem fee_history_shape:
  assumes "\<not> fee_fixed env" and "percentile_count rewardPercentiles \<le> 100" and "0 < blockCount" and "0 < fee_maxResults env"
    and "translateBlockTag (fee_relay env) BLOCK_LATEST d s = (Inr (Num latest), s1)"
    and "newestBlock \<noteq> BLOCK_LATEST" and "newestBlock \<noteq> BLOCK_PENDING"
    and "translateBlockTag (fee_relay env) newestBlock d s1 = (Inr (Num n), s2)" and "0 \<le> n" and "n \<le> latest"
  defines "listed \<equiv> min blockCount (fee_maxResults env)"
  shows "\<exists>history s'. feeHistory env blockCount newestBlock rewardPercentiles d s = (Inr (ResultValue history), s') \<and>
    js_prop history ''oldestBlock'' = JStr (numberTo0x (max 0 (n - listed + 1))) \<and>
    text_length (js_prop history ''gasUsedRatio'') = Some (nat (min listed (n + 1))) \<and>
    text_length (js_prop history ''baseFeePerGas'') = Some (nat (min listed (n + 1)) + 1) \<and>
    (0 < percentile_count rewardPercentiles \<longrightarrow> text_length (js_prop history ''reward'') = Some (nat listed))"
proof -
  have listed: "listed = (if fee_maxResults env < blockCount then fee_maxResults env else blockCount)" "0 < listed"
    using assms(3,4) by (auto simp: listed_def)
  obtain fees s3 where h: "getFeeHistory env listed (Num n) (Num latest) rewardPercentiles d s2 =
      (Inr (JObj ([(''baseFeePerGas'', JArr (map (\<lambda>f. JStr (numberTo0x f)) fees)),
                   (''gasUsedRatio'', JArr (replicate (nat (min listed (n + 1))) DEFAULT_GAS_USED_RATIO)),
                   (''oldestBlock'', JStr (numberTo0x (max 0 (n - listed + 1))))] @ reward_rows listed rewardPercentiles)), s3)"
    "length fees = nat (min listed (n + 1)) + 1"
    using getFeeHistory_shape [OF assms(9,10) listed(2)] by blast
  have "history_of env blockCount (Num n) (Num latest) rewardPercentiles d s2 =
      and_do (getFeeHistory env listed (Num n) (Num latest) rewardPercentiles d) (\<lambda>h. ret (ResultValue h)) s2"
    using assms(1,10) listed by (simp add: history_of_def Let_def)
  then show ?thesis
    using assms(2,5-8) h
    by (simp add: feeHistory_def FEE_HISTORY_REWARD_PERCENTILES_MAX_SIZE_def catch_do_def and_do_def ret_def reward_rows_def Let_def)
qed

subsection \<open>A history that was asked for too early\<close>

definition NON_CACHABLE_BLOCK_PARAMS :: string where
  "NON_CACHABLE_BLOCK_PARAMS = ''latest|pending|finalized|safe''"

definition fee_history_options :: cache_options where
  "fee_history_options =
     \<lparr> co_skipParams = [\<lparr> sp_index = 1, sp_value = NON_CACHABLE_BLOCK_PARAMS \<rparr>], co_skipNamedParams = [], co_ttl = Some 900000 \<rparr>"

text \<open>The method of \<open>eth.ts\<close>, with its cache.\<close>

fun fee_history_method :: "('c, 'r, 'w) fee_env \<Rightarrow> js_arg list \<Rightarrow> ('c, 'r, 'w, js_result) relay_action" where
  "fee_history_method env [ArgValue (JNum blockCount), ArgValue newestBlock, ArgValue rewardPercentiles, ArgDetails d] =
     feeHistory env blockCount newestBlock rewardPercentiles d"
| "fee_history_method env args = throw type_error"

definition eth_feeHistory ::
  "('c, 'r, 'w) fee_env \<Rightarrow> int \<Rightarrow> js_arg list \<Rightarrow> ('c, 'r, 'w, js_result) relay_action" where
  "eth_feeHistory env CACHE_TTL =
     cached_method (re_mirror (fee_relay env)) CACHE_TTL fee_history_options ''feeHistory'' (fee_history_method env)"

definition fee_history_args :: "int \<Rightarrow> string \<Rightarrow> jsv \<Rightarrow> request_details \<Rightarrow> js_arg list" where
  "fee_history_args blockCount newestBlock rewardPercentiles d =
     [ArgValue (JNum blockCount), ArgValue (JStr newestBlock), ArgValue rewardPercentiles, ArgDetails d]"

lemma fee_history_cached:
  assumes "newestBlock \<notin> set (split_on CHR ''|'' NON_CACHABLE_BLOCK_PARAMS)"
  shows "\<not> shouldSkipCachingForSingleParams (fee_history_args blockCount newestBlock rewardPercentiles d) (co_skipParams fee_history_options)"
    and "shouldSkipCachingForNamedParams (fee_history_args blockCount newestBlock rewardPercentiles d)
           (co_skipNamedParams fee_history_options) = Inr False"
  using assms
  by (simp_all add: shouldSkipCachingForSingleParams_def shouldSkipCachingForNamedParams_def fee_history_options_def
      fee_history_args_def one_of_def)

text \<open>
  A history of a block that does not exist yet is answered with an error that is kept in the cache:
  for a quarter of an hour the same request gets it, whether the block has appeared or not.
\<close>

theorem fee_history_error_sticks:
  assumes "lru_laws (ce_lru (me_cache (re_mirror (fee_relay env)))) look cap"
    and "internal_only (me_cache (re_mirror (fee_relay env)))"
    and "newestBlock \<notin> set (split_on CHR ''|'' NON_CACHABLE_BLOCK_PARAMS)"
    and "cached_get (re_mirror (fee_relay env)) (generateCacheKey ''feeHistory'' (fee_history_args blockCount newestBlock rewardPercentiles d)) s =
      (Inr v, s')" and "\<not> truthy v"
    and "feeHistory env blockCount (JStr newestBlock) rewardPercentiles d s' = (Inr (ResultError e), s0)"
  shows "\<exists>s1. eth_feeHistory env T (fee_history_args blockCount newestBlock rewardPercentiles d) s = (Inr (ResultError e), s1) \<and>
    (\<forall>s2 d'. rs_cache s2 = rs_cache s1 \<and>
        me_now (re_mirror (fee_relay env)) (rs_world s2) \<le> me_now (re_mirror (fee_relay env)) (rs_world s0) + 900000 \<longrightarrow>
       (\<exists>s3. eth_feeHistory env T (fee_history_args blockCount newestBlock rewardPercentiles d') s2 = (Inr (ResultError e), s3)))"
proof -
  let ?m = "re_mirror (fee_relay env)"
  let ?args = "fee_history_args blockCount newestBlock rewardPercentiles"
  have key: "generateCacheKey ''feeHistory'' (?args d') = generateCacheKey ''feeHistory'' (?args d)" for d'
    by (simp add: generateCacheKey_append fee_history_args_def)
  have run: "fee_history_method env (?args d) (snd (cached_get ?m (generateCacheKey ''feeHistory'' (?args d)) s)) =
      (Inr (ResultError e), s0)"
    using assms(4,6) by (simp add: fee_history_args_def)
  have ttl: "options_ttl T fee_history_options = 900000" by (simp add: options_ttl_def fee_history_options_def)
  have lasts: "\<exists>s1. cached_method ?m T fee_history_options ''feeHistory'' (fee_history_method env) (?args d) s = (Inr (ResultError e), s1) \<and>
    (\<forall>s2. rs_cache s2 = rs_cache s1 \<and> me_now ?m (rs_world s2) \<le> me_now ?m (rs_world s0) + 900000 \<longrightarrow>
       (\<exists>s3. cached_method ?m T fee_history_options ''feeHistory'' (fee_history_method env) (?args d') s2 =
           (Inr (ResultError e), s3) \<and> rs_world s3 = rs_world s2))" for d'
    using cached_result_lasts [of ?m look cap "''feeHistory''" "?args d" s v "fee_history_method env" "ResultError e" s0
        fee_history_options "?args d'" T] assms(1-5) run key fee_history_cached [OF assms(3)] ttl
    by (simp add: storable_def)
  from lasts [of d] obtain s1 where s1: "cached_method ?m T fee_history_options ''feeHistory'' (fee_history_method env) (?args d) s =
      (Inr (ResultError e), s1)" by blast
  with lasts show ?thesis unfolding eth_feeHistory_def by (intro exI [of _ s1]) fastforce
qed

definition sample_fees :: "(list_lru, unit, nat) fee_env" where
  "sample_fees = \<lparr> fee_relay = sample_relay zero_to_nine, fee_maxResults = 10, fee_fixed = False \<rparr>"

lemma latest_is_9: "\<exists>s'. translateBlockTag (sample_relay zero_to_nine) BLOCK_LATEST d s = (Inr (Num 9), s')"
proof -
  have one: "to_base 10 (Suc 0) = ''1''" by code_simp
  have "js_Number (JStr (numberTo0x 9)) = Num 9" by (simp add: js_string_to_bigint_numberTo0x to_number_exact)
  then show ?thesis
    using one number_latest
    by (simp add: translateBlockTag_def blockTagIsLatestOrPending_def getLatestBlockNumber_def getLatestBlock_def getBlocks_def
        and_do_def sample_relay_def mn_get_canned zero_to_nine_def getQueryParams_def setLimitOrderParams_def
        getLimitOrderQueryParam_def setQueryParam_def set_key_def int_to_base_def sample_block_def nullish_def lift_def ret_def)
qed

lemma hex_tags:
  "translateBlockTag env (JStr ''0x2'') d s = (Inr (Num 2), s)" "translateBlockTag env (JStr ''0xa'') d s = (Inr (Num 10), s)"
  "JStr ''0x2'' \<noteq> BLOCK_LATEST" "JStr ''0x2'' \<noteq> BLOCK_PENDING" "JStr ''0xa'' \<noteq> BLOCK_LATEST" "JStr ''0xa'' \<noteq> BLOCK_PENDING"
proof -
  have "numberTo0x 2 = ''0x2''" "numberTo0x 10 = ''0xa''" by code_simp+
  then have "js_Number (JStr ''0x2'') = Num 2" "js_Number (JStr ''0xa'') = Num 10"
    using js_string_to_bigint_numberTo0x [of 2] js_string_to_bigint_numberTo0x [of 10] by (simp_all add: to_number_exact)
  then show "translateBlockTag env (JStr ''0x2'') d s = (Inr (Num 2), s)" "translateBlockTag env (JStr ''0xa'') d s = (Inr (Num 10), s)"
    by (simp_all add: translateBlockTag_def blockTagIsLatestOrPending_def nullish_def BLOCK_LATEST_def BLOCK_PENDING_def
        BLOCK_SAFE_def BLOCK_FINALIZED_def BLOCK_EARLIEST_def ret_def del: js_Number.simps)
qed (simp_all add: BLOCK_LATEST_def BLOCK_PENDING_def)

theorem fee_history_shape_witness:
  "\<exists>history s'. feeHistory sample_fees 5 (JStr ''0x2'') (JArr [JNum 25]) sample_details quiet_relay = (Inr (ResultValue history), s') \<and>
    text_length (js_prop history ''gasUsedRatio'') = Some 3 \<and> text_length (js_prop history ''baseFeePerGas'') = Some 4 \<and>
    text_length (js_prop history ''reward'') = Some 5"
proof -
  obtain s' where latest: "translateBlockTag (fee_relay sample_fees) BLOCK_LATEST sample_details quiet_relay = (Inr (Num 9), s')"
    using latest_is_9 by (auto simp: sample_fees_def)
  from fee_history_shape [OF _ _ _ _ latest hex_tags(3,4,1), of "JArr [JNum 25]" 5] show ?thesis
    by (fastforce simp: sample_fees_def percentile_count_def)
qed

theorem fee_history_error_sticks_witness:
  "\<exists>s1 s3. eth_feeHistory sample_fees 1000 (fee_history_args 5 ''0xa'' JUndef sample_details) quiet_relay =
      (Inr (ResultError (REQUEST_BEYOND_HEAD_BLOCK 10 9)), s1) \<and>
    eth_feeHistory sample_fees 1000 (fee_history_args 5 ''0xa'' JUndef sample_details) (s1\<lparr> rs_world := 800000 \<rparr>) =
      (Inr (ResultError (REQUEST_BEYOND_HEAD_BLOCK 10 9)), s3)"
proof -
  let ?args = "fee_history_args 5 ''0xa'' JUndef sample_details"
  let ?k = "generateCacheKey ''feeHistory'' ?args"
  define m where "m = re_mirror (fee_relay sample_fees)"
  have m: "m = canned_mirror zero_to_nine" by (simp add: m_def sample_fees_def sample_relay_def)
  define s0 where "s0 = snd (cached_get m ?k quiet_relay)"
  have miss: "cached_get m ?k quiet_relay = (Inr JNull, s0)" by (simp add: s0_def m cached_get_run)
  obtain s' where latest: "translateBlockTag (fee_relay sample_fees) BLOCK_LATEST sample_details s0 = (Inr (Num 9), s')"
    using latest_is_9 by (auto simp: sample_fees_def)
  then have run: "feeHistory sample_fees 5 (JStr ''0xa'') JUndef sample_details s0 = (Inr (ResultError (REQUEST_BEYOND_HEAD_BLOCK 10 9)), s')"
    by (simp add: hex_tags feeHistory_def percentile_count_def catch_do_def and_do_def history_of_def Let_def ret_def beyond_head_def
        sample_fees_def)
  have tag: "''0xa'' \<notin> set (split_on CHR ''|'' NON_CACHABLE_BLOCK_PARAMS)" by code_simp
  obtain s1 where "eth_feeHistory sample_fees 1000 ?args quiet_relay = (Inr (ResultError (REQUEST_BEYOND_HEAD_BLOCK 10 9)), s1)"
    "\<forall>s2 d'. rs_cache s2 = rs_cache s1 \<and> int (rs_world s2) \<le> int (rs_world s') + 900000 \<longrightarrow>
       (\<exists>s3. eth_feeHistory sample_fees 1000 (fee_history_args 5 ''0xa'' JUndef d') s2 =
          (Inr (ResultError (REQUEST_BEYOND_HEAD_BLOCK 10 9)), s3))"
    using fee_history_error_sticks [OF _ _ tag miss [unfolded m_def] _ run, of list_lru_look "\<lambda>c. Suc (fst c)" 1000]
    by (auto simp: m_def [symmetric] m)
  from this(1) this(2) [rule_format, of "s1\<lparr> rs_world := 800000 \<rparr>"] show ?thesis by auto
qed

end
