(* ===== verification/LogsBloom.thy ===== *)
theory LogsBloom
  imports FeeHistory "HOL-Library.Word"
begin

unbundle bit_operations_syntax

section \<open>The bloom of a transaction's logs and the receipts of a block\<close>

text \<open>
  Models \<open>logsBloomUtils.ts\<close> and \<open>receiptsRootUtils.ts\<close>. The third-party functions are fields of an
  environment: \<open>keccak256\<close> (as the 32 bytes of the digest), the conversions of the Ethereum utilities,
  the RLP encoding and the root of the trie after the given entries were put in order. A conversion
  that throws gives \<open>None\<close>.
\<close>

datatype rlp_item = RlpBytes "8 word list" | RlpNumber int | RlpList "rlp_item list"

record crypto_env =
  ce_keccak256 :: "string \<Rightarrow> 8 word list"
  ce_hexToBytes :: "string \<Rightarrow> 8 word list option"
  ce_bytesToInt :: "8 word list \<Rightarrow> int"
  ce_intToBytes :: "int \<Rightarrow> 8 word list"
  ce_intToHex :: "int \<Rightarrow> string option"
  ce_rlpEncode :: "rlp_item \<Rightarrow> 8 word list"
  ce_trieRoot :: "(8 word list \<times> 8 word list) list \<Rightarrow> 8 word list"

definition BYTE_SIZE :: nat where "BYTE_SIZE = 256"
definition MASK :: "16 word" where "MASK = 0x7ff"
definition EMPTY_BLOOM :: string where "EMPTY_BLOOM = ''0x'' @ replicate 512 (CHR ''0'')"

definition bytes_hex :: "8 word list \<Rightarrow> string" where
  "bytes_hex bs = prepend0x (toHexString (map unat bs))"

subsection \<open>The bloom\<close>

text \<open>\<open>DataView.getUint16\<close>: the first byte is the high one.\<close>

definition getUint16 :: "8 word list \<Rightarrow> nat \<Rightarrow> 16 word" where
  "getUint16 item n = push_bit 8 (ucast (item ! n)) OR ucast (item ! Suc n)"

definition bloom_location :: "8 word list \<Rightarrow> nat \<Rightarrow> 16 word" where
  "bloom_location item i = MASK AND getUint16 item (i * 2)"

definition set_location :: "8 word list \<Rightarrow> 16 word \<Rightarrow> 8 word list" where
  "set_location bitvector loc =
     (let byteLoc = unat (drop_bit 3 loc); bitLoc = push_bit (unat (loc mod 8)) (1 :: 8 word);
          k = BYTE_SIZE - byteLoc - 1
      in bitvector[k := (bitvector ! k) OR bitLoc])"

definition add_item :: "crypto_env \<Rightarrow> 8 word list \<Rightarrow> string \<Rightarrow> 8 word list" where
  "add_item ce bitvector item =
     foldl (\<lambda>bs i. set_location bs (bloom_location (ce_keccak256 ce item) i)) bitvector [0, 1, 2]"

definition bloom_bits :: "crypto_env \<Rightarrow> string list \<Rightarrow> 8 word list" where
  "bloom_bits ce items = foldl (add_item ce) (replicate BYTE_SIZE 0) items"

definition buildLogsBloom :: "crypto_env \<Rightarrow> string \<Rightarrow> string list \<Rightarrow> string" where
  "buildLogsBloom ce address topics =
     (if address = [] then EMPTY_BLOOM
      else if topics = [] then EMPTY_BLOOM
      else bytes_hex (bloom_bits ce (address # topics)))"

text \<open>Bit \<open>n\<close> of a bloom, as Ethereum numbers them: the last byte holds the first eight.\<close>

definition has_bit :: "8 word list \<Rightarrow> nat \<Rightarrow> bool" where
  "has_bit bs n = bit (bs ! (BYTE_SIZE - n div 8 - 1)) (n mod 8)"

definition item_locations :: "crypto_env \<Rightarrow> string \<Rightarrow> nat set" where
  "item_locations ce item = (\<lambda>i. unat (bloom_location (ce_keccak256 ce item) i)) ` {0, 1, 2}"

lemma MASK_mask: "MASK = mask 11"
  by (simp add: MASK_def mask_eq_exp_minus_1)

lemma location_less: "unat (bloom_location item i) < 2048"
proof -
  have "bloom_location item i = take_bit 11 (getUint16 item (i * 2))"
    by (simp add: bloom_location_def MASK_mask take_bit_eq_mask and.commute)
  then have "unat (bloom_location item i) = take_bit 11 (unat (getUint16 item (i * 2)))"
    by (simp add: unsigned_take_bit_eq)
  then show ?thesis by (simp add: take_bit_eq_mod)
qed

lemma set_location_length [simp]: "length (set_location bs loc) = length bs"
  by (simp add: set_location_def Let_def)

lemma has_bit_set_location:
  assumes "length bs = BYTE_SIZE" and "unat loc < 2048" and "n < 2048"
  shows "has_bit (set_location bs loc) n \<longleftrightarrow> has_bit bs n \<or> n = unat loc"
proof -
  let ?m = "unat loc"
  have byte: "unat (drop_bit 3 loc) = ?m div 8" by (simp add: unsigned_drop_bit_eq drop_bit_eq_div unat_div)
  have mod: "unat (loc mod 8) = ?m mod 8" by (simp add: unat_mod)
  have k: "255 - ?m div 8 < 256" by simp
  have bit: "bit (2 ^ j :: 8 word) i \<longleftrightarrow> i = j" if "i < 8" for i j
    using that by (auto simp: bit_exp_iff)
  show ?thesis
  proof (cases "n div 8 = ?m div 8")
    case True
    then have "n = ?m \<longleftrightarrow> n mod 8 = ?m mod 8" by (metis mult_div_mod_eq)
    with True assms k show ?thesis
      by (simp add: has_bit_def set_location_def Let_def byte mod BYTE_SIZE_def bit_or_iff bit)
  next
    case False
    then have "255 - n div 8 \<noteq> 255 - ?m div 8" using assms by linarith
    with False show ?thesis
      by (auto simp: has_bit_def set_location_def Let_def byte BYTE_SIZE_def)
  qed
qed

lemma add_item_length [simp]: "length (add_item ce bs item) = length bs"
  by (simp add: add_item_def)

lemma has_bit_add_item:
  assumes "length bs = BYTE_SIZE" and "n < 2048"
  shows "has_bit (add_item ce bs item) n \<longleftrightarrow> has_bit bs n \<or> n \<in> item_locations ce item"
  using assms by (auto simp: add_item_def item_locations_def has_bit_set_location location_less)

lemma has_bit_items:
  assumes "n < 2048"
  shows "length bs = BYTE_SIZE \<Longrightarrow>
     has_bit (foldl (add_item ce) bs items) n \<longleftrightarrow> has_bit bs n \<or> (\<exists>item \<in> set items. n \<in> item_locations ce item)"
  by (induction items arbitrary: bs) (auto simp: has_bit_add_item assms)

lemma bloom_bits_length [simp]: "length (bloom_bits ce items) = BYTE_SIZE"
proof -
  have "length (foldl (add_item ce) bs items) = length bs" for bs by (induction items arbitrary: bs) auto
  then show ?thesis by (simp add: bloom_bits_def)
qed

lemma bloom_bits_exact: "n < 2048 \<Longrightarrow> has_bit (bloom_bits ce items) n \<longleftrightarrow> (\<exists>item \<in> set items. n \<in> item_locations ce item)"
proof -
  assume n: "n < 2048"
  then have "\<not> has_bit (replicate BYTE_SIZE 0) n"
    by (simp add: has_bit_def BYTE_SIZE_def)
  with has_bit_items [OF n, of "replicate BYTE_SIZE 0"] show ?thesis by (simp add: bloom_bits_def)
qed

text \<open>
  C23. The bloom is the set of the three positions of the address and of each topic, as 256 bytes in hex:
  a bit is set exactly when some item has it, so that a search never misses a log.
\<close>

theorem bloom_holds_the_items:
  assumes "address \<noteq> []" and "topics \<noteq> []"
  shows "\<exists>bs. buildLogsBloom ce address topics = ''0x'' @ toHexString (map unat bs) \<and> length bs = 256 \<and>
     (\<forall>n < 2048. has_bit bs n \<longleftrightarrow> (\<exists>item \<in> set (address # topics). n \<in> item_locations ce item))"
proof (intro exI conjI)
  let ?bs = "bloom_bits ce (address # topics)"
  have "hd (drop 1 (toHexString (map unat ?bs))) \<noteq> CHR ''x''"
  proof -
    obtain b bs where b: "?bs = b # bs" using bloom_bits_length [of ce "address # topics"]
      by (cases ?bs) (auto simp: BYTE_SIZE_def)
    have "digit_char (n mod 16) \<noteq> CHR ''x''" for n
    proof
      assume "digit_char (n mod 16) = CHR ''x''"
      moreover have "digit_val (digit_char (n mod 16)) = Some (n mod 16)" by (rule digit_val_digit_char) simp
      moreover have "digit_val (CHR ''x'') = None" by code_simp
      ultimately show False by simp
    qed
    then show ?thesis by (simp add: b toHexString_def byte_hex_def)
  qed
  then have "\<not> starts_with EMPTY_HEX (toHexString (map unat ?bs))"
    by (cases "toHexString (map unat ?bs)"; cases "tl (toHexString (map unat ?bs))")
       (auto simp: starts_with_def EMPTY_HEX_def)
  then show "buildLogsBloom ce address topics = ''0x'' @ toHexString (map unat ?bs)"
    using assms by (simp add: buildLogsBloom_def bytes_hex_def prepend0x_def EMPTY_HEX_def)
  show "length ?bs = 256" by (simp add: BYTE_SIZE_def)
  show "\<forall>n < 2048. has_bit ?bs n \<longleftrightarrow> (\<exists>item \<in> set (address # topics). n \<in> item_locations ce item)"
    using bloom_bits_exact by blast
qed

definition sample_crypto :: crypto_env where
  "sample_crypto =
     \<lparr> ce_keccak256 = (\<lambda>s. replicate 32 (if s = ''0xa'' then 1 else 2)), ce_hexToBytes = (\<lambda>s. Some [1]),
       ce_bytesToInt = (\<lambda>b. 1), ce_intToBytes = (\<lambda>n. [1]), ce_intToHex = (\<lambda>n. Some (numberTo0x n)),
       ce_rlpEncode = (\<lambda>r. [1]), ce_trieRoot = (\<lambda>e. [7]) \<rparr>"

lemma sample_locations: "item_locations sample_crypto s = (if s = ''0xa'' then {257} else {514})"
proof -
  have "MASK AND getUint16 (replicate 32 1) 0 = 257" "MASK AND getUint16 (replicate 32 1) 2 = 257"
    "MASK AND getUint16 (replicate 32 1) 4 = 257" "MASK AND getUint16 (replicate 32 2) 0 = 514"
    "MASK AND getUint16 (replicate 32 2) 2 = 514" "MASK AND getUint16 (replicate 32 2) 4 = 514" by code_simp+
  then show ?thesis by (simp add: item_locations_def bloom_location_def sample_crypto_def)
qed

theorem bloom_holds_the_items_witness:
  "\<exists>bs. buildLogsBloom sample_crypto ''0xa'' [''0xb''] = ''0x'' @ toHexString (map unat bs) \<and> length bs = 256 \<and>
     (\<forall>n < 2048. has_bit bs n \<longleftrightarrow> n = 257 \<or> n = 514)"
  using bloom_holds_the_items [of "''0xa''" "[''0xb'']" sample_crypto] by (simp add: sample_locations)

subsection \<open>The receipts of a block\<close>

record receipt_root_hash =
  rr_cumulativeGasUsed :: jsv
  rr_logs :: "jsv list"
  rr_logsBloom :: jsv
  rr_root :: jsv
  rr_status :: jsv
  rr_transactionIndex :: jsv
  rr_type :: jsv

definition ONE_HEX :: string where "ONE_HEX = ''0x1''"
definition ZERO_HEX_32_BYTE :: string where "ZERO_HEX_32_BYTE = ''0x'' @ replicate 64 (CHR ''0'')"

fun hex_bytes :: "crypto_env \<Rightarrow> jsv \<Rightarrow> thrown + 8 word list" where
  "hex_bytes ce (JStr s) = (case ce_hexToBytes ce s of Some bs \<Rightarrow> Inr bs | None \<Rightarrow> Inl type_error)"
| "hex_bytes ce v = Inl type_error"

fun int_hex :: "crypto_env \<Rightarrow> jsv \<Rightarrow> thrown + jsv" where
  "int_hex ce (JNum n) = (case ce_intToHex ce n of Some s \<Rightarrow> Inr (JStr s) | None \<Rightarrow> Inl type_error)"
| "int_hex ce v = Inl type_error"

fun elements :: "jsv \<Rightarrow> thrown + jsv list" where
  "elements (JArr xs) = Inr xs"
| "elements v = Inl type_error"

definition encodeLog :: "crypto_env \<Rightarrow> jsv \<Rightarrow> thrown + rlp_item" where
  "encodeLog ce lg =
     and_then (and_then (elements (js_prop lg ''topics'')) (map_outcome (hex_bytes ce))) (\<lambda>topics.
     and_then (hex_bytes ce (js_prop lg ''address'')) (\<lambda>address.
     and_then (hex_bytes ce (js_prop lg ''data'')) (\<lambda>data.
       Inr (RlpList [RlpBytes address, RlpList (map RlpBytes topics), RlpBytes data]))))"

definition encodeLogs :: "crypto_env \<Rightarrow> jsv list \<Rightarrow> thrown + rlp_item" where
  "encodeLogs ce logs = and_then (map_outcome (encodeLog ce) logs) (\<lambda>serializedLogs. Inr (RlpList serializedLogs))"

definition receipt_status_bytes :: "crypto_env \<Rightarrow> receipt_root_hash \<Rightarrow> thrown + 8 word list" where
  "receipt_status_bytes ce receipt =
     (if truthy (rr_root receipt) then hex_bytes ce (rr_root receipt)
      else and_then (hex_bytes ce (rr_status receipt)) (\<lambda>status.
        if ce_bytesToInt ce status = 0 then Inr [] else hex_bytes ce (JStr ONE_HEX)))"

definition encodeReceipt :: "crypto_env \<Rightarrow> receipt_root_hash \<Rightarrow> int \<Rightarrow> thrown + 8 word list" where
  "encodeReceipt ce receipt txType =
     and_then (receipt_status_bytes ce receipt) (\<lambda>receiptRoot.
     and_then (hex_bytes ce (rr_cumulativeGasUsed receipt)) (\<lambda>cumulativeGasUsed.
     and_then (hex_bytes ce (rr_logsBloom receipt)) (\<lambda>logsBloom.
     and_then (encodeLogs ce (rr_logs receipt)) (\<lambda>logs.
       let encodedReceipt = ce_rlpEncode ce (RlpList [RlpBytes receiptRoot, RlpBytes cumulativeGasUsed, RlpBytes logsBloom, logs])
       in Inr (if txType = 0 then encodedReceipt else ce_intToBytes ce txType @ encodedReceipt)))))"

definition receipt_log :: "jsv \<Rightarrow> jsv" where
  "receipt_log lg = JObj [(''address'', js_prop lg ''address''), (''data'', js_prop lg ''data''), (''topics'', js_prop lg ''topics'')]"

text \<open>\<open>buildLogsBloom\<close> of properties that may be missing.\<close>

definition logs_bloom_of :: "crypto_env \<Rightarrow> jsv \<Rightarrow> jsv \<Rightarrow> jsv" where
  "logs_bloom_of ce address topics =
     JStr (buildLogsBloom ce (case address of JStr a \<Rightarrow> a | _ \<Rightarrow> [])
             (case topics of JArr ts \<Rightarrow> map js_to_string ts | _ \<Rightarrow> []))"

definition buildReceiptRootHash :: "crypto_env \<Rightarrow> jsv list \<Rightarrow> jsv list \<Rightarrow> jsv \<Rightarrow> thrown + receipt_root_hash" where
  "buildReceiptRootHash ce contractResults logs txHash =
     (let logsPerTx = filter (\<lambda>lg. js_prop lg ''transactionHash'' = txHash) logs;
          crPerTx = filter (\<lambda>cr. js_prop cr ''hash'' = txHash) contractResults;
          cr = (case crPerTx of [] \<Rightarrow> JUndef | c # cs \<Rightarrow> c)
      in and_then
           (if crPerTx \<noteq> [] \<and> \<not> nullish (js_prop cr ''transaction_index'') then int_hex ce (js_prop cr ''transaction_index'')
            else if logsPerTx \<noteq> [] then Inr (js_prop (hd logsPerTx) ''transactionIndex'') else Inr JNull) (\<lambda>transactionIndex.
         and_then (if crPerTx \<noteq> [] \<and> truthy (js_prop cr ''type'') then int_hex ce (js_prop cr ''type'') else Inr JNull) (\<lambda>type.
         and_then (if crPerTx \<noteq> [] \<and> truthy (js_prop cr ''block_gas_used'') then int_hex ce (js_prop cr ''block_gas_used'')
                   else Inr (JStr ZERO_HEX)) (\<lambda>cumulativeGasUsed.
         and_then (if crPerTx \<noteq> [] then Inr (js_prop cr ''bloom'')
                   else if logs = [] \<or> logsPerTx = [] then Inl type_error
                   else Inr (logs_bloom_of ce (js_prop (hd logs) ''address'') (js_prop (hd logsPerTx) ''topics''))) (\<lambda>logsBloom.
           Inr \<lparr> rr_cumulativeGasUsed = cumulativeGasUsed, rr_logs = map receipt_log logsPerTx, rr_logsBloom = logsBloom,
                 rr_root = (if crPerTx \<noteq> [] then js_prop cr ''root'' else JStr ZERO_HEX_32_BYTE),
                 rr_status = (if crPerTx \<noteq> [] then js_prop cr ''status'' else JStr ONE_HEX),
                 rr_transactionIndex = transactionIndex, rr_type = type \<rparr>)))))"

definition buildReceiptRootHashes :: "crypto_env \<Rightarrow> jsv list \<Rightarrow> jsv list \<Rightarrow> jsv list \<Rightarrow> thrown + receipt_root_hash list" where
  "buildReceiptRootHashes ce txHashes contractResults logs = map_outcome (buildReceiptRootHash ce contractResults logs) txHashes"

text \<open>
  The entries are put by callbacks nobody waits for: one that throws is an unhandled rejection and its
  receipt is not in the trie.
\<close>

definition trie_entry :: "crypto_env \<Rightarrow> receipt_root_hash \<Rightarrow> thrown + 8 word list \<times> 8 word list" where
  "trie_entry ce receipt =
     and_then
       (if rr_transactionIndex receipt = JStr ZERO_HEX then Inr (ce_rlpEncode ce (RlpBytes []))
        else and_then (hex_bytes ce (if nullish (rr_transactionIndex receipt) then JStr ZERO_HEX else rr_transactionIndex receipt))
               (\<lambda>index. Inr (ce_rlpEncode ce (RlpNumber (ce_bytesToInt ce index))))) (\<lambda>path.
     and_then (hex_bytes ce (if nullish (rr_type receipt) then JStr ZERO_HEX else rr_type receipt)) (\<lambda>type.
     and_then (encodeReceipt ce receipt (ce_bytesToInt ce type)) (\<lambda>encoded. Inr (path, encoded))))"

definition getRootHash :: "crypto_env \<Rightarrow> receipt_root_hash list \<Rightarrow> string" where
  "getRootHash ce receipts =
     (if receipts = [] then ZERO_HEX_32_BYTE
      else bytes_hex (ce_trieRoot ce
        (List.map_filter (\<lambda>receipt. case trie_entry ce receipt of Inr e \<Rightarrow> Some e | Inl e \<Rightarrow> None) receipts)))"

subsection \<open>What a block's receipts hold\<close>

lemma map_outcome_Inr: "map_outcome f xs = Inr ys \<Longrightarrow> list_all2 (\<lambda>x y. f x = Inr y) xs ys"
  by (induction xs arbitrary: ys) (auto simp: and_then_Inr_iff)

lemma buildReceiptRootHash_logs:
  "buildReceiptRootHash ce crs logs h = Inr r \<Longrightarrow>
     rr_logs r = map receipt_log (filter (\<lambda>lg. js_prop lg ''transactionHash'' = h) logs)"
  by (auto simp: buildReceiptRootHash_def Let_def and_then_Inr_iff)

text \<open>
  The receipts of a block are one for each transaction, in the order of the transactions, and each
  has exactly the logs of its transaction, in their order.
\<close>

theorem receipts_follow_transactions:
  assumes "buildReceiptRootHashes ce txHashes contractResults logs = Inr receipts"
  shows "length receipts = length txHashes \<and>
    (\<forall>i < length txHashes. rr_logs (receipts ! i) =
       map receipt_log (filter (\<lambda>lg. js_prop lg ''transactionHash'' = txHashes ! i) logs))"
  using map_outcome_Inr [OF assms [unfolded buildReceiptRootHashes_def]]
  by (auto simp: list_all2_conv_all_nth buildReceiptRootHash_logs)

text \<open>
  The bloom of a transaction without a contract result is made from the address of the first log of
  the whole block, whatever the address of its own log is.
\<close>

theorem synthetic_bloom_of_first_address:
  assumes "buildReceiptRootHash ce contractResults (lg # logs) txHash = Inr receipt"
    and "\<forall>cr \<in> set contractResults. js_prop cr ''hash'' \<noteq> txHash"
  shows "\<exists>own. own \<in> set (lg # logs) \<and> js_prop own ''transactionHash'' = txHash \<and>
    rr_logsBloom receipt = logs_bloom_of ce (js_prop lg ''address'') (js_prop own ''topics'')"
proof -
  let ?own = "filter (\<lambda>lg. js_prop lg ''transactionHash'' = txHash) (lg # logs)"
  have none: "filter (\<lambda>cr. js_prop cr ''hash'' = txHash) contractResults = []" using assms(2) by (simp add: filter_empty_conv)
  from assms(1) have "?own \<noteq> [] \<and> rr_logsBloom receipt = logs_bloom_of ce (js_prop lg ''address'') (js_prop (hd ?own) ''topics'')"
    unfolding buildReceiptRootHash_def Let_def none and_then_Inr_iff by (auto split: if_splits)
  moreover from this have "hd ?own \<in> set ?own" using hd_in_set by blast
  then have "hd ?own \<in> set (lg # logs) \<and> js_prop (hd ?own) ''transactionHash'' = txHash"
    unfolding set_filter by blast
  ultimately show ?thesis by blast
qed

definition log_of :: "string \<Rightarrow> string \<Rightarrow> jsv" where
  "log_of txHash address =
     JObj [(''address'', JStr address), (''data'', JStr ''0x''), (''topics'', JArr [JStr ''0xb'']),
           (''transactionHash'', JStr txHash), (''transactionIndex'', JStr ''0x1'')]"

theorem receipts_follow_transactions_witness:
  "\<exists>receipts. buildReceiptRootHashes sample_crypto [JStr ''t2'', JStr ''t1''] [] [log_of ''t1'' ''0xa'', log_of ''t2'' ''0xc''] = Inr receipts \<and>
     length receipts = 2 \<and> rr_logs (receipts ! 0) = [receipt_log (log_of ''t2'' ''0xc'')]"
proof -
  obtain receipts where r: "buildReceiptRootHashes sample_crypto [JStr ''t2'', JStr ''t1''] [] [log_of ''t1'' ''0xa'', log_of ''t2'' ''0xc''] = Inr receipts"
    by (auto simp: buildReceiptRootHashes_def buildReceiptRootHash_def log_of_def)
  from receipts_follow_transactions [OF this] r show ?thesis by (simp add: log_of_def)
qed

theorem synthetic_bloom_of_first_address_witness:
  "\<exists>receipt. buildReceiptRootHash sample_crypto [] [log_of ''t1'' ''0xa'', log_of ''t2'' ''0xc''] (JStr ''t2'') = Inr receipt \<and>
     rr_logsBloom receipt = logs_bloom_of sample_crypto (JStr ''0xa'') (JArr [JStr ''0xb''])"
proof -
  obtain receipt where r: "buildReceiptRootHash sample_crypto [] [log_of ''t1'' ''0xa'', log_of ''t2'' ''0xc''] (JStr ''t2'') = Inr receipt"
    by (auto simp: buildReceiptRootHash_def log_of_def)
  from synthetic_bloom_of_first_address [OF this] r show ?thesis by (auto simp: log_of_def)
qed

end
