(* ===== verification/EthObjects.thy ===== *)
theory EthObjects
  imports LogsBloom
begin

section \<open>Blocks, transactions and receipts as the client gets them\<close>

text \<open>
  Models the classes of \<open>model.ts\<close> the block and transaction services build, the factories
  (\<open>factories/transactionFactory.ts\<close>, \<open>transactionReceiptFactory.ts\<close>, \<open>blockFactory.ts\<close>) and
  \<open>CommonService.formatContractResult\<close>. An object is the list of its fields; a field that is
  \<open>undefined\<close> is not in its JSON.
\<close>

subsection \<open>Constants and conversions\<close>

definition ZERO_HEX_8_BYTE :: string where "ZERO_HEX_8_BYTE = ''0x0000000000000000''"
definition TWO_HEX :: string where "TWO_HEX = ''0x2''"
definition ONE_TWO_THREE_FOUR_HEX :: string where "ONE_TWO_THREE_FOUR_HEX = ''0x1234''"
definition INVALID_EVM_INSTRUCTION :: string where "INVALID_EVM_INSTRUCTION = ''0xfe''"
definition TX_DEFAULT_GAS_DEFAULT :: int where "TX_DEFAULT_GAS_DEFAULT = 400000"
definition BLOCK_GAS_LIMIT :: int where "BLOCK_GAS_LIMIT = 30000000"
definition EMPTY_ARRAY_HEX :: string where
  "EMPTY_ARRAY_HEX = ''0x1dcc4de8dec75d7aab85b567b6ccd41ad312451b948a7413f0a142fd40d49347''"
definition DEFAULT_ROOT_HASH :: string where
  "DEFAULT_ROOT_HASH = ''0x56e81f171bcc55a6ff8345e692c0f86e5b48e01b996cadc001622fb5e363b421''"

text \<open>\<open>v.substring(a, b)\<close>.\<close>

fun text_between :: "nat \<Rightarrow> nat \<Rightarrow> jsv \<Rightarrow> thrown + string" where
  "text_between a b (JStr s) = Inr (substr a b s)"
| "text_between a b v = Inl type_error"

text \<open>The conversions of \<open>formatters.ts\<close> on a value that may be missing or a text.\<close>

definition nullable_0x :: "jsv \<Rightarrow> jsv" where
  "nullable_0x v =
     (if nullish v then JNull else case v of JNum n \<Rightarrow> JStr (numberTo0x n) | _ \<Rightarrow> JStr (EMPTY_HEX @ js_to_string v))"

definition nan_or_0x :: "jsv \<Rightarrow> jsv" where
  "nan_or_0x v =
     (if nullish v then JStr (numberTo0x 0)
      else case v of JNum n \<Rightarrow> JStr (nanOrNumberTo0x (Some (Num n))) | _ \<Rightarrow> JStr (EMPTY_HEX @ js_to_string v))"

subsection \<open>Transactions\<close>

definition transaction_fields :: "string list" where
  "transaction_fields =
     [''blockHash'', ''blockNumber'', ''chainId'', ''from'', ''gas'', ''gasPrice'', ''hash'', ''input'', ''nonce'',
      ''r'', ''s'', ''to'', ''transactionIndex'', ''type'', ''v'', ''value'']"

definition Transaction :: "jsv \<Rightarrow> (string \<times> jsv) list" where
  "Transaction args = map (\<lambda>k. (k, js_prop args k)) transaction_fields"

definition Transaction2930 :: "jsv \<Rightarrow> (string \<times> jsv) list" where
  "Transaction2930 args = Transaction args @ [(''yParity'', js_prop args ''v''), (''accessList'', js_prop args ''accessList'')]"

definition Transaction1559 :: "jsv \<Rightarrow> (string \<times> jsv) list" where
  "Transaction1559 args =
     Transaction2930 args @
     [(''maxPriorityFeePerGas'', js_prop args ''maxPriorityFeePerGas''), (''maxFeePerGas'', js_prop args ''maxFeePerGas'')]"

text \<open>\<open>parseInt(v, 16)\<close> of a missing value is not a number; its text is taken otherwise.\<close>

definition fee_field :: "jsv \<Rightarrow> jsv" where
  "fee_field v =
     (if v = JNull \<or> v = JStr EMPTY_HEX then JStr ZERO_HEX else JStr (prepend0x (trimPrecedingZeros (js_to_string v))))"

definition createTransactionByType :: "jsv \<Rightarrow> jsv \<Rightarrow> jsv" where
  "createTransactionByType type args =
     (if type = JNum 0 then JObj (Transaction args)
      else if type = JNum 1 then JObj (Transaction2930 (js_set_prop args ''accessList'' (JArr [])))
      else if type = JNum 2 then
        JObj (Transaction1559
          (js_set_prop
            (js_set_prop (js_set_prop args ''accessList'' (JArr []))
               ''maxPriorityFeePerGas'' (fee_field (js_prop args ''maxPriorityFeePerGas'')))
            ''maxFeePerGas'' (fee_field (js_prop args ''maxFeePerGas''))))
      else if type = JNull then JObj (Transaction args)
      else JNull)"

definition createTransactionFromLog :: "string \<Rightarrow> jsv \<Rightarrow> jsv" where
  "createTransactionFromLog chainId lg =
     createTransactionByType (JNum 2)
       (JObj [(''accessList'', JUndef), (''blockHash'', js_prop lg ''blockHash''),
              (''blockNumber'', js_prop lg ''blockNumber''), (''chainId'', JStr chainId), (''from'', js_prop lg ''address''),
              (''gas'', JStr (numberTo0x TX_DEFAULT_GAS_DEFAULT)), (''gasPrice'', JStr INVALID_EVM_INSTRUCTION),
              (''hash'', js_prop lg ''transactionHash''), (''input'', JStr ZERO_HEX_8_BYTE),
              (''maxPriorityFeePerGas'', JStr ZERO_HEX), (''maxFeePerGas'', JStr ZERO_HEX), (''nonce'', nan_or_0x (JNum 0)),
              (''r'', JStr EMPTY_HEX), (''s'', JStr EMPTY_HEX), (''to'', js_prop lg ''address''),
              (''transactionIndex'', js_prop lg ''transactionIndex''), (''type'', JStr TWO_HEX), (''v'', JStr ZERO_HEX)])"

subsection \<open>A contract result as a transaction\<close>

definition contract_gas_price :: "jsv \<Rightarrow> jsv" where
  "contract_gas_price gas_price =
     (if gas_price = JNull \<or> gas_price = JStr EMPTY_HEX then JStr ZERO_HEX
      else case gas_price of
        JStr s \<Rightarrow> if isHex s then (case js_string_to_bigint s of Some n \<Rightarrow> JStr (numberTo0x (n * TINYBAR_TO_WEIBAR_COEF)) | None \<Rightarrow> JNull)
                  else nan_or_0x gas_price
      | _ \<Rightarrow> nan_or_0x gas_price)"

definition signature_field :: "jsv \<Rightarrow> thrown + jsv" where
  "signature_field v =
     (if v = JNull then Inr (JStr ZERO_HEX)
      else and_then (text_between 0 66 v) (\<lambda>s. Inr (JStr (stripLeadingZeroForSignatures s))))"

definition recipient_field :: "jsv \<Rightarrow> thrown + jsv" where
  "recipient_field v = (if nullish v then Inr JUndef else and_then (text_between 0 42 v) (\<lambda>s. Inr (JStr s)))"

text \<open>An amount of tinybars; its errors are those of \<open>tinybarsToWeibars\<close>.\<close>

definition value_field :: "jsv \<Rightarrow> thrown + jsv" where
  "value_field amount =
     (case tinybarsToWeibars (case amount of JNum n \<Rightarrow> Some n | _ \<Rightarrow> None) True of
        Inl m \<Rightarrow> Inl (ThrownOther m)
      | Inr w \<Rightarrow> Inr (JStr (nanOrNumberInt64To0x (map_option Num w))))"

definition or_zero_hex :: "jsv \<Rightarrow> jsv" where
  "or_zero_hex v = (if v = JNull then JStr ZERO_HEX else nan_or_0x v)"

definition common_fields :: "jsv \<Rightarrow> thrown + (string \<times> jsv) list" where
  "common_fields cr =
     and_then (hash32_of (js_prop cr ''block_hash'')) (\<lambda>blockHash.
     and_then (text_between 0 42 (js_prop cr ''from'')) (\<lambda>from.
     and_then (text_between 0 66 (js_prop cr ''hash'')) (\<lambda>hash.
     and_then (signature_field (js_prop cr ''r'')) (\<lambda>r.
     and_then (signature_field (js_prop cr ''s'')) (\<lambda>s.
     and_then (recipient_field (js_prop cr ''to'')) (\<lambda>to.
     and_then (value_field (js_prop cr ''amount'')) (\<lambda>v.
       Inr [(''blockHash'', JStr blockHash), (''blockNumber'', nullable_0x (js_prop cr ''block_number'')),
            (''from'', JStr from), (''gas'', nan_or_0x (js_prop cr ''gas_used'')),
            (''gasPrice'', contract_gas_price (js_prop cr ''gas_price'')), (''hash'', JStr hash),
            (''input'', js_prop cr ''function_parameters''), (''nonce'', nan_or_0x (js_prop cr ''nonce'')), (''r'', r),
            (''s'', s), (''to'', to), (''transactionIndex'', nullable_0x (js_prop cr ''transaction_index'')),
            (''type'', or_zero_hex (js_prop cr ''type'')), (''v'', or_zero_hex (js_prop cr ''v'')), (''value'', v),
            (''chainId'', if js_prop cr ''chain_id'' = JStr EMPTY_HEX then JUndef else js_prop cr ''chain_id'')])))))))"

definition formatContractResult :: "jsv \<Rightarrow> thrown + jsv" where
  "formatContractResult cr =
     (if cr = JNull then Inr JNull
      else and_then (common_fields cr) (\<lambda>commonFields.
        Inr (createTransactionByType (js_prop cr ''type'')
          (JObj (commonFields @ [(''maxPriorityFeePerGas'', js_prop cr ''max_priority_fee_per_gas''),
                                 (''maxFeePerGas'', js_prop cr ''max_fee_per_gas'')])))))"

subsection \<open>Receipts\<close>

fun indexed :: "jsv \<Rightarrow> thrown + jsv" where
  "indexed (JArr (x # xs)) = Inr x"
| "indexed _ = Inl type_error"

definition createSyntheticReceipt :: "crypto_env \<Rightarrow> jsv list \<Rightarrow> jsv \<Rightarrow> thrown + jsv" where
  "createSyntheticReceipt ce syntheticLogs gasPriceForTimestamp =
     and_then (indexed (JArr syntheticLogs)) (\<lambda>lg.
       Inr (JObj [(''blockHash'', js_prop lg ''blockHash''), (''blockNumber'', js_prop lg ''blockNumber''),
                  (''contractAddress'', js_prop lg ''address''), (''cumulativeGasUsed'', JStr ZERO_HEX),
                  (''effectiveGasPrice'', gasPriceForTimestamp), (''from'', JStr ZeroAddress),
                  (''gasUsed'', JStr ZERO_HEX), (''logs'', JArr [lg]),
                  (''logsBloom'', logs_bloom_of ce (js_prop lg ''address'') (js_prop lg ''topics'')),
                  (''root'', JStr DEFAULT_ROOT_HASH), (''status'', JStr ONE_HEX), (''to'', js_prop lg ''address''),
                  (''transactionHash'', js_prop lg ''transactionHash''), (''transactionIndex'', js_prop lg ''transactionIndex''),
                  (''type'', JNull)]))"

text \<open>The text of an error is given as it is when it is hex, as hex otherwise.\<close>

definition revert_reason :: "jsv \<Rightarrow> jsv" where
  "revert_reason error_message =
     (let m = js_to_string error_message
      in if isHex (prepend0x m) then error_message else JStr (prepend0x (ASCIIToHex m)))"

definition array_includes :: "jsv \<Rightarrow> jsv \<Rightarrow> thrown + bool" where
  "array_includes v x = and_then (elements v) (\<lambda>xs. Inr (x \<in> set xs))"

definition createRegularReceipt :: "jsv \<Rightarrow> jsv \<Rightarrow> jsv list \<Rightarrow> jsv \<Rightarrow> jsv \<Rightarrow> thrown + jsv" where
  "createRegularReceipt effectiveGas from logs receiptResponse toParam =
     and_then (getContractAddressFromReceipt receiptResponse) (\<lambda>contractAddress.
     and_then (array_includes (js_prop receiptResponse ''created_contract_ids'') (js_prop receiptResponse ''contract_id'')) (\<lambda>created.
     and_then (hash32_of (js_prop receiptResponse ''block_hash'')) (\<lambda>blockHash.
     and_then (to_0x (js_prop receiptResponse ''block_number'')) (\<lambda>blockNumber.
     and_then (to_0x (js_prop receiptResponse ''block_gas_used'')) (\<lambda>cumulativeGasUsed.
     and_then (hash32_of (js_prop receiptResponse ''hash'')) (\<lambda>transactionHash.
     and_then (to_0x (js_prop receiptResponse ''transaction_index'')) (\<lambda>transactionIndex.
       Inr (JObj ([(''blockHash'', JStr blockHash), (''blockNumber'', JStr blockNumber), (''from'', from),
                   (''to'', if created then JNull else toParam), (''cumulativeGasUsed'', JStr cumulativeGasUsed),
                   (''gasUsed'', nan_or_0x (js_prop receiptResponse ''gas_used'')), (''contractAddress'', contractAddress),
                   (''logs'', JArr logs),
                   (''logsBloom'', if js_prop receiptResponse ''bloom'' = JStr EMPTY_HEX then JStr EMPTY_BLOOM
                                    else js_prop receiptResponse ''bloom''),
                   (''transactionHash'', JStr transactionHash), (''transactionIndex'', JStr transactionIndex),
                   (''effectiveGasPrice'', effectiveGas),
                   (''root'', if truthy (js_prop receiptResponse ''root'') then js_prop receiptResponse ''root''
                              else JStr DEFAULT_ROOT_HASH),
                   (''status'', js_prop receiptResponse ''status''), (''type'', nullable_0x (js_prop receiptResponse ''type''))] @
                  (if truthy (js_prop receiptResponse ''error_message'')
                   then [(''revertReason'', revert_reason (js_prop receiptResponse ''error_message''))] else []))))))))))"

subsection \<open>Blocks\<close>

definition seconds_text :: "string \<Rightarrow> string" where
  "seconds_text timestamp = (if CHR ''.'' \<in> set timestamp then takeWhile (\<lambda>c. c \<noteq> CHR ''.'') timestamp else [])"

text \<open>\<open>v | 0\<close> of an integer: its 32 bit word.\<close>

definition or_zero :: "jsv \<Rightarrow> int" where
  "or_zero v = (case js_Number v of Num n \<Rightarrow> sint (word_of_int n :: 32 word) | NotANumber \<Rightarrow> 0)"

definition createBlock :: "crypto_env \<Rightarrow> jsv \<Rightarrow> receipt_root_hash list \<Rightarrow> jsv list \<Rightarrow> string \<Rightarrow> thrown + jsv" where
  "createBlock ce blockResponse receipts txArray price =
     and_then (hash32_of (js_prop blockResponse ''hash'')) (\<lambda>blockHash.
     and_then (if nullish (js_prop blockResponse ''timestamp'') then Inl type_error
               else case js_prop (js_prop blockResponse ''timestamp'') ''from'' of JStr s \<Rightarrow> Inr (seconds_text s) | _ \<Rightarrow> Inl type_error) (\<lambda>timestamp.
     and_then (to_0x (js_prop blockResponse ''gas_used'')) (\<lambda>gasUsed.
     and_then (to_0x (js_prop blockResponse ''number'')) (\<lambda>number.
     and_then (text_between 0 66 (js_prop blockResponse ''previous_hash'')) (\<lambda>parentHash.
       Inr (JObj [(''timestamp'', JStr (EMPTY_HEX @ (case js_Number (JStr timestamp) of Num n \<Rightarrow> int_to_base 16 n | NotANumber \<Rightarrow> ''NaN''))),
                  (''number'', JStr number), (''hash'', JStr blockHash), (''difficulty'', JStr ZERO_HEX),
                  (''extraData'', JStr EMPTY_HEX), (''gasLimit'', JStr (numberTo0x BLOCK_GAS_LIMIT)),
                  (''baseFeePerGas'', JStr price), (''gasUsed'', JStr gasUsed),
                  (''logsBloom'', if js_prop blockResponse ''logs_bloom'' = JStr EMPTY_HEX then JStr EMPTY_BLOOM
                                   else js_prop blockResponse ''logs_bloom''),
                  (''miner'', JStr ZeroAddress), (''mixHash'', JStr ZERO_HEX_32_BYTE), (''nonce'', JStr ZERO_HEX_8_BYTE),
                  (''parentHash'', JStr parentHash), (''receiptsRoot'', JStr (getRootHash ce receipts)),
                  (''sha3Uncles'', JStr EMPTY_ARRAY_HEX), (''size'', JStr (numberTo0x (or_zero (js_prop blockResponse ''size'')))),
                  (''stateRoot'', JStr DEFAULT_ROOT_HASH), (''totalDifficulty'', JStr ZERO_HEX),
                  (''transactions'', JArr txArray),
                  (''transactionsRoot'', JStr (if txArray = [] then DEFAULT_ROOT_HASH else blockHash)),
                  (''uncles'', JArr []), (''withdrawals'', JArr []), (''withdrawalsRoot'', JStr ZERO_HEX_32_BYTE)]))))))"

text \<open>\<open>Block.getNum\<close>: the digits after the prefix, read as decimal.\<close>

definition getNum :: "jsv \<Rightarrow> thrown + js_number" where
  "getNum block = (case js_prop block ''number'' of JStr s \<Rightarrow> Inr (js_Number (JStr (drop 2 s))) | _ \<Rightarrow> Inl type_error)"

subsection \<open>Quantities\<close>

text \<open>A text \<open>0x\<close> and at least one hex digit.\<close>

fun is_quantity :: "jsv \<Rightarrow> bool" where
  "is_quantity (JStr s) = isHex s"
| "is_quantity v = False"

fun natural :: "jsv \<Rightarrow> bool" where
  "natural (JNum n) = (0 \<le> n)"
| "natural v = False"

named_theorems quantities "texts that are quantities"

lemma isHex_numberTo0x: "0 \<le> n \<Longrightarrow> isHex (numberTo0x n)"
  using all_digits_to_base [of 16 "nat n"] by (simp add: numberTo0x_nonneg isHex_def EMPTY_HEX_def)

lemma isHex_constants: "isHex ZERO_HEX"
  unfolding ZERO_HEX_def by code_simp

lemma nullable_0x_quantity [quantities]: "natural v \<Longrightarrow> is_quantity (nullable_0x v)"
  by (cases v) (auto simp: nullable_0x_def nullish_def isHex_numberTo0x)

lemma nan_or_0x_quantity [quantities]: "natural v \<or> nullish v \<Longrightarrow> is_quantity (nan_or_0x v)"
  by (cases v) (auto simp: nan_or_0x_def nullish_def isHex_numberTo0x nanOrNumberTo0x_def)

lemma or_zero_hex_quantity [quantities]: "natural v \<or> v = JNull \<Longrightarrow> is_quantity (or_zero_hex v)"
  by (auto simp: or_zero_hex_def quantities isHex_constants)

lemma isHex_bigint: "isHex s \<Longrightarrow> \<exists>n. js_string_to_bigint s = Some n \<and> 0 \<le> n"
proof -
  assume h: "isHex s"
  then obtain c cs where s: "s = CHR ''0'' # CHR ''x'' # c # cs" and all: "list_all (is_digit_in 16) (c # cs)"
    by (cases s; cases "tl s"; cases "tl (tl s)") (auto simp: isHex_def all_digits_def)
  have sp: "\<not> js_space (CHR ''0'')" by code_simp
  moreover have "\<not> js_space (last s)"
    using all is_digit_in_not_space [of 16 "last (c # cs)"] by (simp add: s list_all_iff)
  then have "dropWhile js_space (rev s) = rev s"
    by (cases "rev s") (auto simp: s last_snoc [symmetric] hd_rev [symmetric] split: if_splits)
  ultimately have "js_trim s = s" using sp by (simp add: js_trim_def) (simp add: s)
  with h show ?thesis by (simp add: js_string_to_bigint_def Let_def isHex_def s)
qed

lemma contract_gas_price_text: "isHex s \<Longrightarrow> is_quantity (contract_gas_price (JStr s))"
  using isHex_bigint [of s]
  by (auto simp: contract_gas_price_def isHex_constants TINYBAR_TO_WEIBAR_COEF_def isHex_numberTo0x)

lemma contract_gas_price_quantity [quantities]:
  "v \<in> {JNull, JStr EMPTY_HEX} \<or> is_quantity v \<or> natural v \<Longrightarrow> is_quantity (contract_gas_price v)"
proof (cases v)
  case (JStr s)
  assume "v \<in> {JNull, JStr EMPTY_HEX} \<or> is_quantity v \<or> natural v"
  with JStr show ?thesis
    using contract_gas_price_text [of s] by (auto simp: contract_gas_price_def isHex_constants)
qed (auto simp: contract_gas_price_def isHex_constants quantities)

lemma value_field_quantity:
  assumes "amount = JNum n" and "- (2 ^ 63) \<le> n" and "n \<le> TOTAL_SUPPLY_TINYBARS"
  shows "\<exists>s. value_field amount = Inr (JStr s) \<and> isHex s"
proof (cases "n < 0")
  case True
  with assms(2) have "0 \<le> bigint_rem (n + 2 ^ 64) (2 ^ 64)"
    by (auto simp: bigint_rem_def bigint_div_def sgn_if)
  with True assms(1) show ?thesis
    by (simp add: value_field_def tinybarsToWeibars_def nanOrNumberInt64To0x_def isHex_numberTo0x)
next
  case False
  then have "0 \<le> to_number (n * TINYBAR_TO_WEIBAR_COEF)" by (simp add: to_number_def TINYBAR_TO_WEIBAR_COEF_def)
  with False assms show ?thesis
    by (simp add: value_field_def tinybarsToWeibars_def nanOrNumberInt64To0x_def nanOrNumberTo0x_def isHex_numberTo0x)
qed

lemma fee_field_quantity [quantities]: "v \<in> {JNull, JStr EMPTY_HEX} \<or> is_quantity v \<Longrightarrow> is_quantity (fee_field v)"
proof (cases "v = JNull \<or> v = JStr EMPTY_HEX")
  case False
  moreover assume "v \<in> {JNull, JStr EMPTY_HEX} \<or> is_quantity v"
  ultimately obtain s where v: "v = JStr s" and h: "isHex s" by (cases v) auto
  then obtain r where s: "s = ''0x'' @ r" and r: "all_digits 16 r"
    by (metis append_take_drop_id isHex_def)
  have sp: "\<not> js_space (CHR ''0'')" by code_simp
  have "takeWhile (is_digit_in 16) r = r" using r by (auto simp: all_digits_def list_all_iff takeWhile_eq_all_conv)
  then have "js_parse_int 16 s = Some (to_number (int (of_base 16 r)))"
    using r sp by (simp only: js_parse_int_def s Let_def) (simp add: starts_with_def strip_hex_mark_def all_digits_def del: takeWhile_eq_all_conv)
  moreover have "0 \<le> to_number (int (of_base 16 r))" by (simp add: to_number_def)
  then have "\<exists>k. int_to_base 16 (to_number (int (of_base 16 r))) = to_base 16 k" by (auto simp: int_to_base_def)
  ultimately obtain k where t: "trimPrecedingZeros s = to_base 16 k" by (auto simp: trimPrecedingZeros_def)
  have d: "all_digits 16 (to_base 16 k)" by (simp add: all_digits_to_base)
  then have "\<not> starts_with EMPTY_HEX (to_base 16 k)"
    using is_digit_in_not_mark [of 16 "CHR ''x''"]
    by (cases "to_base 16 k"; cases "tl (to_base 16 k)") (auto simp: starts_with_def EMPTY_HEX_def all_digits_def)
  with False v d show ?thesis by (simp add: fee_field_def t prepend0x_def isHex_def EMPTY_HEX_def)
qed (auto simp: fee_field_def isHex_constants)

subsection \<open>What the client gets\<close>

text \<open>
  The schema of a contract result in the mirror node's API, as far as the transaction is made of it.
\<close>

definition fee_text :: "jsv \<Rightarrow> bool" where
  "fee_text v = (v = JNull \<or> v = JStr EMPTY_HEX \<or> is_quantity v)"

fun is_text :: "jsv \<Rightarrow> bool" where
  "is_text (JStr s) = True"
| "is_text v = False"

definition contract_result_schema :: "jsv \<Rightarrow> bool" where
  "contract_result_schema cr =
     (is_plain_object cr \<and>
      (\<forall>k \<in> set [''block_hash'', ''from'', ''hash'']. is_text (js_prop cr k)) \<and>
      (\<forall>k \<in> set [''r'', ''s'', ''to'']. is_text (js_prop cr k) \<or> js_prop cr k = JNull) \<and>
      (\<forall>k \<in> set [''block_number'', ''transaction_index'']. natural (js_prop cr k)) \<and>
      (\<forall>k \<in> set [''gas_used'', ''nonce'', ''v'']. natural (js_prop cr k) \<or> js_prop cr k = JNull) \<and>
      (\<forall>k \<in> set [''gas_price'', ''max_fee_per_gas'', ''max_priority_fee_per_gas'']. fee_text (js_prop cr k)) \<and>
      js_prop cr ''type'' \<in> set [JNum 0, JNum 1, JNum 2, JNull] \<and>
      (\<exists>n. js_prop cr ''amount'' = JNum n \<and> - (2 ^ 63) \<le> n \<and> n \<le> TOTAL_SUPPLY_TINYBARS))"

definition fields_of_type :: "jsv \<Rightarrow> string list" where
  "fields_of_type type =
     transaction_fields @
     (if type = JNum 1 \<or> type = JNum 2 then [''yParity'', ''accessList''] else []) @
     (if type = JNum 2 then [''maxPriorityFeePerGas'', ''maxFeePerGas''] else [])"

definition quantity_fields :: "jsv \<Rightarrow> string list" where
  "quantity_fields type =
     [''blockNumber'', ''gas'', ''gasPrice'', ''nonce'', ''transactionIndex'', ''type'', ''v'', ''value''] @
     (if type = JNum 1 \<or> type = JNum 2 then [''yParity''] else []) @
     (if type = JNum 2 then [''maxPriorityFeePerGas'', ''maxFeePerGas''] else [])"

lemma text_between_text: "is_text v \<Longrightarrow> \<exists>s. text_between a b v = Inr s"
  by (cases v) auto

lemma hash32_text: "is_text v \<Longrightarrow> \<exists>s. hash32_of v = Inr s"
  by (cases v) auto

lemma signature_ok: "is_text v \<or> v = JNull \<Longrightarrow> \<exists>s. signature_field v = Inr s"
  using text_between_text [of v 0 66] by (auto simp: signature_field_def)

lemma recipient_ok: "is_text v \<or> v = JNull \<Longrightarrow> \<exists>s. recipient_field v = Inr s"
  using text_between_text [of v 0 42] by (auto simp: recipient_field_def nullish_def)

text \<open>The object \<open>createTransactionByType\<close> is given.\<close>

definition transaction_args :: "jsv \<Rightarrow> string \<Rightarrow> string \<Rightarrow> string \<Rightarrow> jsv \<Rightarrow> jsv \<Rightarrow> jsv \<Rightarrow> string \<Rightarrow> jsv" where
  "transaction_args cr blockHash sender hash r s to v = JObj
     [(''blockHash'', JStr blockHash), (''blockNumber'', nullable_0x (js_prop cr ''block_number'')),
      (''from'', JStr sender), (''gas'', nan_or_0x (js_prop cr ''gas_used'')),
      (''gasPrice'', contract_gas_price (js_prop cr ''gas_price'')), (''hash'', JStr hash),
      (''input'', js_prop cr ''function_parameters''), (''nonce'', nan_or_0x (js_prop cr ''nonce'')), (''r'', r),
      (''s'', s), (''to'', to), (''transactionIndex'', nullable_0x (js_prop cr ''transaction_index'')),
      (''type'', or_zero_hex (js_prop cr ''type'')), (''v'', or_zero_hex (js_prop cr ''v'')), (''value'', JStr v),
      (''chainId'', if js_prop cr ''chain_id'' = JStr EMPTY_HEX then JUndef else js_prop cr ''chain_id''),
      (''maxPriorityFeePerGas'', js_prop cr ''max_priority_fee_per_gas''), (''maxFeePerGas'', js_prop cr ''max_fee_per_gas'')]"

lemma schema_parts:
  assumes "contract_result_schema cr"
  shows "k \<in> set [''block_hash'', ''from'', ''hash''] \<Longrightarrow> is_text (js_prop cr k)"
    and "k \<in> set [''r'', ''s'', ''to''] \<Longrightarrow> is_text (js_prop cr k) \<or> js_prop cr k = JNull"
    and "k \<in> set [''block_number'', ''transaction_index''] \<Longrightarrow> natural (js_prop cr k)"
    and "k \<in> set [''gas_used'', ''nonce'', ''v''] \<Longrightarrow> natural (js_prop cr k) \<or> js_prop cr k = JNull"
    and "k \<in> set [''gas_price'', ''max_fee_per_gas'', ''max_priority_fee_per_gas''] \<Longrightarrow> fee_text (js_prop cr k)"
    and "js_prop cr ''type'' \<in> set [JNum 0, JNum 1, JNum 2, JNull]"
    and "\<exists>n. js_prop cr ''amount'' = JNum n \<and> - (2 ^ 63) \<le> n \<and> n \<le> TOTAL_SUPPLY_TINYBARS"
    and "cr \<noteq> JNull"
proof -
  note texts = assms [unfolded contract_result_schema_def, THEN conjunct2]
  note optional = texts [THEN conjunct2]
  note naturals = optional [THEN conjunct2]
  note optional_naturals = naturals [THEN conjunct2]
  note fees = optional_naturals [THEN conjunct2]
  note type = fees [THEN conjunct2]
  show "k \<in> set [''block_hash'', ''from'', ''hash''] \<Longrightarrow> is_text (js_prop cr k)"
    by (rule texts [THEN conjunct1, THEN bspec])
  show "k \<in> set [''r'', ''s'', ''to''] \<Longrightarrow> is_text (js_prop cr k) \<or> js_prop cr k = JNull"
    by (rule optional [THEN conjunct1, THEN bspec])
  show "k \<in> set [''block_number'', ''transaction_index''] \<Longrightarrow> natural (js_prop cr k)"
    by (rule naturals [THEN conjunct1, THEN bspec])
  show "k \<in> set [''gas_used'', ''nonce'', ''v''] \<Longrightarrow> natural (js_prop cr k) \<or> js_prop cr k = JNull"
    by (rule optional_naturals [THEN conjunct1, THEN bspec])
  show "k \<in> set [''gas_price'', ''max_fee_per_gas'', ''max_priority_fee_per_gas''] \<Longrightarrow> fee_text (js_prop cr k)"
    by (rule fees [THEN conjunct1, THEN bspec])
  show "js_prop cr ''type'' \<in> set [JNum 0, JNum 1, JNum 2, JNull]"
    by (rule type [THEN conjunct1])
  show "\<exists>n. js_prop cr ''amount'' = JNum n \<and> - (2 ^ 63) \<le> n \<and> n \<le> TOTAL_SUPPLY_TINYBARS"
    by (rule type [THEN conjunct2])
  show "cr \<noteq> JNull"
    using assms unfolding contract_result_schema_def by (cases cr) simp_all
qed

lemma schema_formatted:
  assumes "contract_result_schema cr"
  shows "\<exists>blockHash sender hash r s to v. isHex v \<and> formatContractResult cr =
     Inr (createTransactionByType (js_prop cr ''type'') (transaction_args cr blockHash sender hash r s to v))"
proof -
  note parts = schema_parts [OF assms]
  obtain blockHash where 1: "hash32_of (js_prop cr ''block_hash'') = Inr blockHash"
    using hash32_text [OF parts(1), of "''block_hash''"] by auto
  obtain sender where 2: "text_between 0 42 (js_prop cr ''from'') = Inr sender"
    using text_between_text [OF parts(1), of "''from''" 0 42] by auto
  obtain hash where 3: "text_between 0 66 (js_prop cr ''hash'') = Inr hash"
    using text_between_text [OF parts(1), of "''hash''" 0 66] by auto
  obtain r where 4: "signature_field (js_prop cr ''r'') = Inr r"
    using signature_ok [OF parts(2), of "''r''"] by auto
  obtain s where 5: "signature_field (js_prop cr ''s'') = Inr s"
    using signature_ok [OF parts(2), of "''s''"] by auto
  obtain to where 6: "recipient_field (js_prop cr ''to'') = Inr to"
    using recipient_ok [OF parts(2), of "''to''"] by auto
  obtain v where 7: "value_field (js_prop cr ''amount'') = Inr (JStr v)" "isHex v"
    using parts(7) value_field_quantity by blast
  from parts(8) have "formatContractResult cr =
     Inr (createTransactionByType (js_prop cr ''type'') (transaction_args cr blockHash sender hash r s to v))"
    unfolding formatContractResult_def common_fields_def transaction_args_def 1 2 3 4 5 6 7(1)
    by (simp only: if_False and_then.simps append.simps)
  with 7(2) show ?thesis by blast
qed

lemma transaction_args_props:
  fixes cr blockHash sender hash r s to v
  defines "args \<equiv> transaction_args cr blockHash sender hash r s to v"
  shows "js_prop args ''blockNumber'' = nullable_0x (js_prop cr ''block_number'')"
    and "js_prop args ''gas'' = nan_or_0x (js_prop cr ''gas_used'')"
    and "js_prop args ''gasPrice'' = contract_gas_price (js_prop cr ''gas_price'')"
    and "js_prop args ''nonce'' = nan_or_0x (js_prop cr ''nonce'')"
    and "js_prop args ''transactionIndex'' = nullable_0x (js_prop cr ''transaction_index'')"
    and "js_prop args ''type'' = or_zero_hex (js_prop cr ''type'')"
    and "js_prop args ''v'' = or_zero_hex (js_prop cr ''v'')"
    and "js_prop args ''value'' = JStr v"
    and "js_prop args ''maxPriorityFeePerGas'' = js_prop cr ''max_priority_fee_per_gas''"
    and "js_prop args ''maxFeePerGas'' = js_prop cr ''max_fee_per_gas''"
  by (simp_all only: args_def transaction_args_def js_prop_JObj prop_lookup_Cons) simp_all

lemma schema_quantities:
  assumes "contract_result_schema cr"
  shows "is_quantity (nullable_0x (js_prop cr ''block_number''))" "is_quantity (nan_or_0x (js_prop cr ''gas_used''))"
    "is_quantity (contract_gas_price (js_prop cr ''gas_price''))" "is_quantity (nan_or_0x (js_prop cr ''nonce''))"
    "is_quantity (nullable_0x (js_prop cr ''transaction_index''))" "is_quantity (or_zero_hex (js_prop cr ''type''))"
    "is_quantity (or_zero_hex (js_prop cr ''v''))" "is_quantity (fee_field (js_prop cr ''max_fee_per_gas''))"
    "is_quantity (fee_field (js_prop cr ''max_priority_fee_per_gas''))"
proof -
  note parts = schema_parts [OF assms]
  show "is_quantity (nullable_0x (js_prop cr ''block_number''))" "is_quantity (nullable_0x (js_prop cr ''transaction_index''))"
    using parts(3) [of "''block_number''"] parts(3) [of "''transaction_index''"] by (simp_all add: nullable_0x_quantity)
  show "is_quantity (nan_or_0x (js_prop cr ''gas_used''))" "is_quantity (nan_or_0x (js_prop cr ''nonce''))"
    "is_quantity (or_zero_hex (js_prop cr ''v''))"
    using parts(4) [of "''gas_used''"] parts(4) [of "''nonce''"] parts(4) [of "''v''"]
    by (auto simp: nullish_def intro!: nan_or_0x_quantity or_zero_hex_quantity)
  show "is_quantity (contract_gas_price (js_prop cr ''gas_price''))" "is_quantity (fee_field (js_prop cr ''max_fee_per_gas''))"
    "is_quantity (fee_field (js_prop cr ''max_priority_fee_per_gas''))"
    using parts(5) [of "''gas_price''"] parts(5) [of "''max_fee_per_gas''"] parts(5) [of "''max_priority_fee_per_gas''"]
    by (auto simp: fee_text_def intro!: contract_gas_price_quantity fee_field_quantity)
  show "is_quantity (or_zero_hex (js_prop cr ''type''))"
    using parts(6) by (auto intro!: or_zero_hex_quantity)
qed

lemma Transaction_fields: "map fst (Transaction args) = transaction_fields"
  by (simp add: Transaction_def o_def)

lemma lookup_map_keys:
  "prop_lookup (map (\<lambda>k. (k, f k)) ks @ rest) x = (if x \<in> set ks then f x else prop_lookup rest x)"
  by (induction ks) auto

lemma Transaction_lookup: "prop_lookup (Transaction args @ rest) k =
    (if k \<in> set transaction_fields then js_prop args k else prop_lookup rest k)"
  by (simp add: Transaction_def lookup_map_keys)

lemma is_plain_object_set: "is_plain_object (js_set_prop v k x) = is_plain_object v"
  by (cases v) auto

lemma quantity_names:
  "list_all (\<lambda>k. k \<in> set transaction_fields \<and> k \<notin> set [''accessList'', ''maxPriorityFeePerGas'', ''maxFeePerGas''])
     [''blockNumber'', ''gas'', ''gasPrice'', ''nonce'', ''transactionIndex'', ''type'', ''v'', ''value'']"
  "list_all (\<lambda>k. k \<notin> set transaction_fields) [''yParity'', ''accessList'', ''maxPriorityFeePerGas'', ''maxFeePerGas'']"
  by (simp_all add: transaction_fields_def)

text \<open>
  C25. A contract result that follows the mirror node's schema is a transaction with exactly the fields of
  its type, and every quantity of it is a hex text.
\<close>

theorem transaction_well_typed:
  assumes "contract_result_schema cr"
  shows "\<exists>ps. formatContractResult cr = Inr (JObj ps) \<and> map fst ps = fields_of_type (js_prop cr ''type'') \<and>
    (\<forall>k \<in> set (quantity_fields (js_prop cr ''type'')). is_quantity (prop_lookup ps k))"
proof -
  obtain blockHash sender hash r s to v where v: "isHex v" and f: "formatContractResult cr =
     Inr (createTransactionByType (js_prop cr ''type'') (transaction_args cr blockHash sender hash r s to v))"
    using schema_formatted [OF assms] by blast
  let ?a = "transaction_args cr blockHash sender hash r s to v"
  let ?common = "[''blockNumber'', ''gas'', ''gasPrice'', ''nonce'', ''transactionIndex'', ''type'', ''v'', ''value'']"
  have q: "\<forall>k \<in> set ?common. is_quantity (js_prop ?a k)"
    using v schema_quantities [OF assms] by (simp add: transaction_args_props)
  have own: "is_plain_object ?a" by (simp add: transaction_args_def)
  consider "js_prop cr ''type'' = JNum 0" | "js_prop cr ''type'' = JNull" | "js_prop cr ''type'' = JNum 1" | "js_prop cr ''type'' = JNum 2"
    using schema_parts(6) [OF assms] by auto
  then show ?thesis
  proof cases
    case 1
    with q quantity_names show ?thesis
      by (simp add: f createTransactionByType_def fields_of_type_def quantity_fields_def Transaction_fields Transaction_lookup [of _ "[]", simplified])
  next
    case 2
    with q quantity_names show ?thesis
      by (simp add: f createTransactionByType_def fields_of_type_def quantity_fields_def Transaction_fields Transaction_lookup [of _ "[]", simplified])
  next
    case 3
    with q quantity_names show ?thesis
      by (simp add: f createTransactionByType_def fields_of_type_def quantity_fields_def Transaction_fields Transaction_lookup
          Transaction2930_def js_prop_set_other)
  next
    case 4
    with q quantity_names schema_quantities [OF assms] own show ?thesis
      by (simp add: f createTransactionByType_def fields_of_type_def quantity_fields_def Transaction_fields Transaction_lookup
          Transaction2930_def Transaction1559_def js_prop_set_other js_prop_set_same is_plain_object_set transaction_args_props)
  qed
qed

definition sample_result :: jsv where
  "sample_result = JObj
     [(''block_hash'', JStr ''0xb''), (''from'', JStr ''0xf''), (''hash'', JStr ''0x1''), (''r'', JStr ''0x0a''), (''s'', JNull),
      (''to'', JNull), (''block_number'', JNum 7), (''transaction_index'', JNum 1), (''gas_used'', JNum 21000), (''nonce'', JNum 0),
      (''v'', JNum 1), (''gas_price'', JStr ''0x47''), (''max_fee_per_gas'', JStr ''0x''), (''max_priority_fee_per_gas'', JNull),
      (''type'', JNum 2), (''amount'', JNum 5), (''chain_id'', JStr ''0x128''), (''function_parameters'', JStr ''0x'')]"

theorem transaction_well_typed_witness:
  "\<exists>ps. formatContractResult sample_result = Inr (JObj ps) \<and> map fst ps = fields_of_type (JNum 2) \<and>
     is_quantity (prop_lookup ps ''maxFeePerGas'')"
proof -
  have "isHex ''0x47''" by code_simp
  then have "contract_result_schema sample_result"
    by (simp add: contract_result_schema_def sample_result_def fee_text_def EMPTY_HEX_def TOTAL_SUPPLY_TINYBARS_def)
  from transaction_well_typed [OF this] show ?thesis
    by (auto simp: sample_result_def quantity_fields_def)
qed

end
