(* ===== verification/Blocks.thy ===== *)
theory Blocks
  imports EthObjects
begin

section \<open>Blocks and their receipts\<close>

text \<open>
  Models \<open>services/ethService/blockService/BlockService.ts\<close> and
  \<open>Utils.isRevertedDueToHederaSpecificValidation\<close>. Calls that run at the same time (\<open>Promise.all\<close>) are
  run one after the other. The environment adds to that of the common queries the chain, the largest
  number of transactions of a detailed block, the statuses of a reverted validation and the
  cryptographic functions.
\<close>

record ('c, 'r, 'w) block_env =
  be_relay :: "('c, 'r, 'w) relay_env"
  be_chain :: string
  be_maxTransactions :: int
  be_revertStatuses :: "string list"
  be_crypto :: crypto_env

abbreviation be_mirror :: "('c, 'r, 'w) block_env \<Rightarrow> ('c, 'r, 'w) mirror_env" where
  "be_mirror env \<equiv> re_mirror (be_relay env)"

definition isRevertedDueToHederaSpecificValidation :: "string list \<Rightarrow> jsv \<Rightarrow> bool" where
  "isRevertedDueToHederaSpecificValidation statuses contractResult =
     (js_prop contractResult ''result'' \<in> JStr ` set statuses \<or>
      hexToASCII (strip0x (if nullish (js_prop contractResult ''error_message'') then ''''
                           else js_to_string (js_prop contractResult ''error_message''))) \<in> set statuses)"

text \<open>An address that may be missing is looked up only when it is a text with something in it.\<close>

definition resolve_value ::
  "('c, 'r, 'w) block_env \<Rightarrow> jsv \<Rightarrow> request_details \<Rightarrow> string list \<Rightarrow> ('c, 'r, 'w, jsv) relay_action" where
  "resolve_value env v d searchableTypes =
     (if \<not> truthy v then ret v
      else and_do (resolveEvmAddress (be_relay env) (js_to_string v) d searchableTypes) (\<lambda>a. ret (JStr a)))"

definition every_type :: "string list" where
  "every_type = [TYPE_CONTRACT, TYPE_TOKEN, TYPE_ACCOUNT]"

subsection \<open>The transactions of a block\<close>

definition prepare_one ::
  "('c, 'r, 'w) block_env \<Rightarrow> bool \<Rightarrow> request_details \<Rightarrow> jsv \<Rightarrow> ('c, 'r, 'w, jsv list) relay_action" where
  "prepare_one env showDetails d contractResult =
     (if isRevertedDueToHederaSpecificValidation (be_revertStatuses env) contractResult then ret []
      else and_do (resolve_value env (js_prop contractResult ''from'') d [TYPE_ACCOUNT]) (\<lambda>from.
        and_do (resolve_value env (js_prop contractResult ''to'') d every_type) (\<lambda>to.
          let cr = js_set_prop (js_set_prop contractResult ''from'' from) ''to'' to;
              cr = js_set_prop cr ''chain_id''
                     (if truthy (js_prop cr ''chain_id'') then js_prop cr ''chain_id'' else JStr (be_chain env))
          in if showDetails then and_do (lift (formatContractResult cr)) (\<lambda>tx. ret [tx])
             else ret [js_prop cr ''hash''])))"

definition prepareTransactionArray ::
  "('c, 'r, 'w) block_env \<Rightarrow> jsv list \<Rightarrow> bool \<Rightarrow> request_details \<Rightarrow> ('c, 'r, 'w, jsv list) relay_action" where
  "prepareTransactionArray env contractResults showDetails d =
     and_do (map_do (prepare_one env showDetails d) contractResults) (\<lambda>txs. ret (concat txs))"

definition synthetic_transaction :: "string \<Rightarrow> jsv \<Rightarrow> jsv" where
  "synthetic_transaction chain lg =
     createTransactionByType (JNum 2)
       (JObj [(''accessList'', JUndef), (''blockHash'', js_prop lg ''blockHash''),
              (''blockNumber'', js_prop lg ''blockNumber''), (''chainId'', JStr chain), (''from'', js_prop lg ''address''),
              (''gas'', JStr (numberTo0x TX_DEFAULT_GAS_DEFAULT)), (''gasPrice'', JStr INVALID_EVM_INSTRUCTION),
              (''hash'', js_prop lg ''transactionHash''), (''input'', JStr ZERO_HEX_8_BYTE),
              (''maxPriorityFeePerGas'', JStr ZERO_HEX), (''maxFeePerGas'', JStr ZERO_HEX), (''nonce'', nan_or_0x (JNum 0)),
              (''r'', JStr ZERO_HEX), (''s'', JStr ZERO_HEX), (''to'', js_prop lg ''address''),
              (''transactionIndex'', js_prop lg ''transactionIndex''), (''type'', JStr TWO_HEX), (''v'', JStr ZERO_HEX),
              (''value'', JStr ONE_TWO_THREE_FOUR_HEX)])"

text \<open>\<open>some(transaction => transaction.hash === h)\<close>: a \<open>null\<close> that is reached throws.\<close>

fun some_with_hash :: "jsv list \<Rightarrow> jsv \<Rightarrow> thrown + bool" where
  "some_with_hash [] h = Inr False"
| "some_with_hash (tx # txs) h =
     (if nullish tx then Inl type_error else if js_prop tx ''hash'' = h then Inr True else some_with_hash txs h)"

fun filter_outcome :: "('a \<Rightarrow> 'e + bool) \<Rightarrow> 'a list \<Rightarrow> 'e + 'a list" where
  "filter_outcome p [] = Inr []"
| "filter_outcome p (x # xs) =
     and_then (p x) (\<lambda>b. and_then (filter_outcome p xs) (\<lambda>ys. Inr (if b then x # ys else ys)))"

text \<open>\<open>_.uniqWith(_, _.isEqual)\<close>: the first of equal elements stays.\<close>

definition uniq :: "'a list \<Rightarrow> 'a list" where
  "uniq xs = rev (remdups (rev xs))"

definition populateSyntheticTransactions :: "string \<Rightarrow> bool \<Rightarrow> jsv list \<Rightarrow> jsv list \<Rightarrow> thrown + jsv list" where
  "populateSyntheticTransactions chain showDetails logs transactionsArray =
     (if showDetails then
        and_then (filter_outcome (\<lambda>lg. and_then (some_with_hash transactionsArray (js_prop lg ''transactionHash'')) (\<lambda>b. Inr (\<not> b))) logs)
          (\<lambda>filteredLogs. Inr (uniq (transactionsArray @ filter (\<lambda>tx. tx \<noteq> JNull) (map (synthetic_transaction chain) filteredLogs))))
      else Inr (uniq (transactionsArray @
             map (\<lambda>lg. js_prop lg ''transactionHash'')
               (filter (\<lambda>lg. js_prop lg ''transactionHash'' \<notin> set transactionsArray) logs))))"

definition hash_of_transaction :: "bool \<Rightarrow> jsv \<Rightarrow> thrown + jsv" where
  "hash_of_transaction showDetails tx =
     (if \<not> showDetails then Inr tx else if nullish tx then Inl type_error else Inr (js_prop tx ''hash''))"

subsection \<open>A block\<close>

definition max_block_size :: "jsv \<Rightarrow> json_rpc_error" where
  "max_block_size transactions =
     (case transactions of JNum n \<Rightarrow> MAX_BLOCK_SIZE n
      | _ \<Rightarrow> plain_error (-32000) (''Exceeded max transactions that can be returned in a block: '' @ js_to_string transactions))"

definition timestamp_range :: "jsv \<Rightarrow> thrown + string \<times> string" where
  "timestamp_range block =
     and_then (timestamp_field block ''from'') (\<lambda>from. and_then (timestamp_field block ''to'') (\<lambda>to.
       Inr (''gte:'' @ js_to_string from, ''lte:'' @ js_to_string to)))"

definition bs_getBlock ::
  "('c, 'r, 'w) block_env \<Rightarrow> jsv \<Rightarrow> bool \<Rightarrow> request_details \<Rightarrow> ('c, 'r, 'w, jsv) relay_action" where
  "bs_getBlock env blockHashOrNumber showDetails d =
     and_do (getHistoricalBlockResponse (be_relay env) d blockHashOrNumber True) (\<lambda>blockResponse.
       if nullish blockResponse then ret JNull
       else and_do (lift (timestamp_range blockResponse)) (\<lambda>(gte, lte).
         let params = JObj [(''timestamp'', JArr [JStr gte, JStr lte])]
         in and_do (getContractResultWithRetry (be_mirror env) (getContractResults (be_mirror env) d params JUndef)) (\<lambda>contractResults.
            and_do (getLogsWithParams (be_relay env) JNull params d) (\<lambda>logs.
              if nullish contractResults \<and> logs = [] then ret JNull
              else and_do (lift (elements contractResults)) (\<lambda>crs.
                if showDetails \<and> be_maxTransactions env \<le> int (length crs)
                then throw (ThrownRpc (max_block_size (js_prop blockResponse ''count'')))
                else and_do (prepareTransactionArray env crs showDetails d) (\<lambda>txArray.
                  and_do (lift (populateSyntheticTransactions (be_chain env) showDetails logs txArray)) (\<lambda>txArray.
                  and_do (lift (map_outcome (hash_of_transaction showDetails) txArray)) (\<lambda>txHashes.
                  and_do (lift (buildReceiptRootHashes (be_crypto env) txHashes crs logs)) (\<lambda>receipts.
                  and_do (gasPrice (be_relay env) d) (\<lambda>price.
                    lift (createBlock (be_crypto env) blockResponse receipts txArray price))))))))))) "

definition getBlockByHash ::
  "('c, 'r, 'w) block_env \<Rightarrow> jsv \<Rightarrow> bool \<Rightarrow> request_details \<Rightarrow> ('c, 'r, 'w, jsv) relay_action" where
  "getBlockByHash env hash showDetails d =
     catch_do (bs_getBlock env hash showDetails d) (\<lambda>e. throw (genericErrorHandler e))"

definition getBlockByNumber ::
  "('c, 'r, 'w) block_env \<Rightarrow> jsv \<Rightarrow> bool \<Rightarrow> request_details \<Rightarrow> ('c, 'r, 'w, jsv) relay_action" where
  "getBlockByNumber env blockNumber showDetails d =
     catch_do (bs_getBlock env blockNumber showDetails d) (\<lambda>e. throw (genericErrorHandler e))"

subsection \<open>The number of transactions, uncles\<close>

definition getTransactionCountFromBlockResponse :: "jsv \<Rightarrow> thrown + jsv" where
  "getTransactionCountFromBlockResponse block =
     (if block = JNull then Inr JNull
      else if block = JUndef then Inl type_error
      else if js_prop block ''count'' = JUndef then Inr JNull
      else and_then (to_0x (js_prop block ''count'')) (\<lambda>s. Inr (JStr s)))"

definition count_of_block ::
  "('c, 'r, 'w) block_env \<Rightarrow> jsv \<Rightarrow> request_details \<Rightarrow> ('c, 'r, 'w, jsv) relay_action" where
  "count_of_block env hashOrNumber d =
     catch_do (and_do (mn_getBlock (be_mirror env) hashOrNumber d) (\<lambda>block. lift (getTransactionCountFromBlockResponse block)))
       (\<lambda>e. throw (genericErrorHandler e))"

definition getBlockTransactionCountByHash ::
  "('c, 'r, 'w) block_env \<Rightarrow> jsv \<Rightarrow> request_details \<Rightarrow> ('c, 'r, 'w, jsv) relay_action" where
  "getBlockTransactionCountByHash env hash d = count_of_block env hash d"

definition getBlockTransactionCountByNumber ::
  "('c, 'r, 'w) block_env \<Rightarrow> jsv \<Rightarrow> request_details \<Rightarrow> ('c, 'r, 'w, jsv) relay_action" where
  "getBlockTransactionCountByNumber env blockNumOrTag d =
     and_do (translateBlockTag (be_relay env) blockNumOrTag d) (\<lambda>blockNum.
       count_of_block env (case blockNum of Num n \<Rightarrow> JNum n | NotANumber \<Rightarrow> JStr ''NaN'') d)"

definition getUncleByBlockHashAndIndex :: jsv where "getUncleByBlockHashAndIndex = JNull"
definition getUncleByBlockNumberAndIndex :: jsv where "getUncleByBlockNumberAndIndex = JNull"
definition getUncleCountByBlockHash :: jsv where "getUncleCountByBlockHash = JStr ZERO_HEX"
definition getUncleCountByBlockNumber :: jsv where "getUncleCountByBlockNumber = JStr ZERO_HEX"

subsection \<open>The receipts of a block\<close>

text \<open>A \<open>Map\<close> from the hashes to their logs, in the order in which the hashes were first met.\<close>

definition logs_of_hash :: "jsv list \<Rightarrow> jsv \<Rightarrow> jsv list" where
  "logs_of_hash logs h = filter (\<lambda>lg. js_prop lg ''transactionHash'' = h) logs"

definition logs_by_hash :: "jsv list \<Rightarrow> (jsv \<times> jsv list) list" where
  "logs_by_hash logs =
     foldl (\<lambda>m lg. let h = js_prop lg ''transactionHash'' in
       (case map_of m h of
          Some _ \<Rightarrow> map (\<lambda>(k, ls). if k = h then (k, ls @ [lg]) else (k, ls)) m
        | None \<Rightarrow> m @ [(h, [lg])])) [] logs"

definition lookup_logs :: "(jsv \<times> jsv list) list \<Rightarrow> jsv \<Rightarrow> jsv list" where
  "lookup_logs m h = (case map_of m h of Some ls \<Rightarrow> ls | None \<Rightarrow> [])"

definition receipt_of_result ::
  "('c, 'r, 'w) block_env \<Rightarrow> request_details \<Rightarrow> jsv \<Rightarrow> (jsv \<times> jsv list) list \<Rightarrow> jsv \<Rightarrow> ('c, 'r, 'w, jsv list) relay_action" where
  "receipt_of_result env d effectiveGas logsByHash contractResult =
     (if isRevertedDueToHederaSpecificValidation (be_revertStatuses env) contractResult then ret []
      else let logs = lookup_logs logsByHash (js_prop contractResult ''hash'') in
        and_do (resolve_value env (js_prop contractResult ''from'') d every_type) (\<lambda>from.
        and_do (if js_prop contractResult ''to'' = JNull then ret JNull
                else resolve_value env (js_prop contractResult ''to'') d every_type) (\<lambda>to.
        and_do (lift (createRegularReceipt effectiveGas from logs contractResult to)) (\<lambda>receipt. ret [receipt]))))"

text \<open>The logs whose transaction has no contract result.\<close>

definition synthetic_groups :: "jsv list \<Rightarrow> (jsv \<times> jsv list) list \<Rightarrow> (jsv \<times> jsv list) list" where
  "synthetic_groups crs logsByHash = filter (\<lambda>g. fst g \<notin> (\<lambda>cr. js_prop cr ''hash'') ` set crs) logsByHash"

definition synthetic_receipt :: "crypto_env \<Rightarrow> jsv \<Rightarrow> jsv \<times> jsv list \<Rightarrow> thrown + jsv" where
  "synthetic_receipt ce effectiveGas g = createSyntheticReceipt ce (snd g) effectiveGas"

text \<open>
  The price is asked for with the first seconds of the block in the place of the request details, so that
  no time is given and the request carries no identifier and no address.
\<close>

definition text_as_details :: request_details where
  "text_as_details = \<lparr> rd_requestId = '''', rd_ipAddress = '''', rd_connectionId = None \<rparr>"

definition getBlockReceipts ::
  "('c, 'r, 'w) block_env \<Rightarrow> jsv \<Rightarrow> request_details \<Rightarrow> ('c, 'r, 'w, jsv) relay_action" where
  "getBlockReceipts env blockHashOrBlockNumber d =
     and_do (getHistoricalBlockResponse (be_relay env) d blockHashOrBlockNumber True) (\<lambda>block.
       if nullish block then ret JNull
       else and_do (lift (timestamp_range block)) (\<lambda>(gte, lte).
         let paramTimestamp = JObj [(''timestamp'', JArr [JStr lte, JStr gte])]
         in and_do (getContractResults (be_mirror env) d paramTimestamp JUndef) (\<lambda>contractResults.
            if \<not> truthy contractResults \<or> contractResults = JArr [] then ret (JArr [])
            else and_do (lift (and_then (timestamp_field block ''from'') (\<lambda>from. case from of JStr s \<Rightarrow> Inr s | _ \<Rightarrow> Inl type_error))) (\<lambda>from.
              and_do (getGasPriceInWeibars (be_relay env) text_as_details JUndef) (\<lambda>price.
              and_do (getLogsWithParams (be_relay env) JNull paramTimestamp d) (\<lambda>logs.
                let effectiveGas = JStr (numberTo0x price); logsByHash = logs_by_hash logs
                in and_do (lift (elements contractResults)) (\<lambda>crs.
                   and_do (map_do (receipt_of_result env d effectiveGas logsByHash) crs) (\<lambda>receipts.
                   and_do (lift (map_outcome (synthetic_receipt (be_crypto env) effectiveGas) (synthetic_groups crs logsByHash))) (\<lambda>synthetic.
                     ret (JArr (concat receipts @ synthetic)))))))))))"

subsection \<open>The transactions a block lists\<close>

lemma uniq_set [simp]: "set (uniq xs) = set xs" and uniq_distinct [simp]: "distinct (uniq xs)"
  by (simp_all add: uniq_def)

lemma lift_Inr_iff: "lift r s = (Inr a, s') \<longleftrightarrow> r = Inr a \<and> s' = s"
  by (auto simp: lift_def)

lemma prepare_one_hash:
  assumes "prepare_one env False d cr s = (Inr txs, s')"
  shows "txs = (if isRevertedDueToHederaSpecificValidation (be_revertStatuses env) cr then [] else [js_prop cr ''hash''])"
  using assms by (auto simp: prepare_one_def and_do_Inr_iff ret_def Let_def js_prop_set_other split: if_splits)

lemma prepareTransactionArray_hashes:
  assumes "prepareTransactionArray env crs False d s = (Inr txs, s')"
  shows "txs = map (\<lambda>cr. js_prop cr ''hash'')
    (filter (\<lambda>cr. \<not> isRevertedDueToHederaSpecificValidation (be_revertStatuses env) cr) crs)"
proof -
  have "map_do (prepare_one env False d) crs t = (Inr yss, t') \<Longrightarrow> concat yss = map (\<lambda>cr. js_prop cr ''hash'')
    (filter (\<lambda>cr. \<not> isRevertedDueToHederaSpecificValidation (be_revertStatuses env) cr) crs)" for yss t t'
  proof (induction crs arbitrary: yss t)
    case (Cons cr crs)
    then show ?case by (auto simp: and_do_Inr_iff ret_def dest: prepare_one_hash)
  qed (simp add: ret_def)
  with assms show ?thesis by (auto simp: prepareTransactionArray_def and_do_Inr_iff ret_def)
qed

lemma populate_hashes:
  assumes "populateSyntheticTransactions chain False logs txs = Inr ys"
  shows "distinct ys \<and> set ys = set txs \<union> (\<lambda>lg. js_prop lg ''transactionHash'') ` set logs"
  using assms by (auto simp: populateSyntheticTransactions_def)

lemma createBlock_transactions:
  "createBlock ce blockResponse receipts txArray price = Inr block \<Longrightarrow> js_prop block ''transactions'' = JArr txArray"
  by (auto simp: createBlock_def and_then_Inr_iff)

text \<open>
  C24. A block asked for without details lists the hash of every transaction once: those of the contract results that
  the mirror node has between the first and the last instant of the block, as far as they did not fail a Hedera
  validation, and those of its logs of the same time.
\<close>

theorem block_lists_transactions_once:
  assumes "bs_getBlock env tag False d s = (Inr block, s')" and "block \<noteq> JNull"
  shows "\<exists>blockResponse first last' params crs logs txs r1 r2 r3.
    getHistoricalBlockResponse (be_relay env) d tag True s = (Inr blockResponse, r1) \<and>
    timestamp_field blockResponse ''from'' = Inr first \<and> timestamp_field blockResponse ''to'' = Inr last' \<and>
    params = JObj [(''timestamp'', JArr [JStr (''gte:'' @ js_to_string first), JStr (''lte:'' @ js_to_string last')])] \<and>
    getContractResultWithRetry (be_mirror env) (getContractResults (be_mirror env) d params JUndef) r1 = (Inr (JArr crs), r2) \<and>
    getLogsWithParams (be_relay env) JNull params d r2 = (Inr logs, r3) \<and>
    js_prop block ''transactions'' = JArr txs \<and> distinct txs \<and>
    set txs = (\<lambda>cr. js_prop cr ''hash'') ` {cr \<in> set crs. \<not> isRevertedDueToHederaSpecificValidation (be_revertStatuses env) cr} \<union>
              (\<lambda>lg. js_prop lg ''transactionHash'') ` set logs"
proof -
  from assms obtain blockResponse gte lte results logs crs r1 r2 r3 r4 txs ys receipts price where
    response: "getHistoricalBlockResponse (be_relay env) d tag True s = (Inr blockResponse, r1)"
      "timestamp_range blockResponse = Inr (gte, lte)"
    and crs: "getContractResultWithRetry (be_mirror env)
      (getContractResults (be_mirror env) d (JObj [(''timestamp'', JArr [JStr gte, JStr lte])]) JUndef) r1 = (Inr results, r2)"
      "elements results = Inr crs"
    and logs: "getLogsWithParams (be_relay env) JNull (JObj [(''timestamp'', JArr [JStr gte, JStr lte])]) d r2 = (Inr logs, r3)"
    and txs: "prepareTransactionArray env crs False d r3 = (Inr txs, r4)"
    and ys: "populateSyntheticTransactions (be_chain env) False logs txs = Inr ys"
    and block: "createBlock (be_crypto env) blockResponse receipts ys price = Inr block"
    by (auto simp: bs_getBlock_def and_do_Inr_iff lift_Inr_iff ret_def Let_def split: if_splits prod.splits)
  obtain first last' where times: "timestamp_field blockResponse ''from'' = Inr first" "timestamp_field blockResponse ''to'' = Inr last'"
    "gte = ''gte:'' @ js_to_string first" "lte = ''lte:'' @ js_to_string last'"
    using response(2) by (auto simp: timestamp_range_def and_then_Inr_iff)
  have "results = JArr crs" using crs(2) by (cases results) auto
  with response(1) crs(1) logs times populate_hashes [OF ys] createBlock_transactions [OF block] prepareTransactionArray_hashes [OF txs]
  show ?thesis by (intro exI conjI) auto
qed

text \<open>
  With details a synthetic transaction is listed once for every address among its logs: two logs of it
  from different addresses give two different transactions with one hash.
\<close>

theorem details_repeat_synthetic_transactions:
  assumes "populateSyntheticTransactions chain True logs txs = Inr ys"
    and "lg1 \<in> set logs" "lg2 \<in> set logs" "js_prop lg1 ''transactionHash'' = h" "js_prop lg2 ''transactionHash'' = h"
    and "js_prop lg1 ''address'' \<noteq> js_prop lg2 ''address''"
    and "\<forall>tx \<in> set txs. js_prop tx ''hash'' \<noteq> h"
  shows "\<exists>tx1 \<in> set ys. \<exists>tx2 \<in> set ys. tx1 \<noteq> tx2 \<and> js_prop tx1 ''hash'' = h \<and> js_prop tx2 ''hash'' = h"
proof -
  have fields: "js_prop (synthetic_transaction chain lg) ''hash'' = js_prop lg ''transactionHash''"
    "js_prop (synthetic_transaction chain lg) ''from'' = js_prop lg ''address''" "synthetic_transaction chain lg \<noteq> JNull" for lg
    by (simp_all add: synthetic_transaction_def createTransactionByType_def Transaction1559_def Transaction2930_def
        Transaction_def transaction_fields_def)
  obtain kept where kept: "filter_outcome (\<lambda>lg. and_then (some_with_hash txs (js_prop lg ''transactionHash'')) (\<lambda>b. Inr (\<not> b))) logs = Inr kept"
    and ys: "set ys = set txs \<union> set (map (synthetic_transaction chain) kept)"
    using assms(1) fields(3) by (auto simp: populateSyntheticTransactions_def and_then_Inr_iff)
  have "some_with_hash ts h \<noteq> Inr True" if "\<forall>tx \<in> set ts. js_prop tx ''hash'' \<noteq> h" for ts
    using that by (induction ts) auto
  with assms(7) have absent: "some_with_hash txs h \<noteq> Inr True" by blast
  have "lg \<in> set kept" if "lg \<in> set logs" and h: "js_prop lg ''transactionHash'' = h" for lg
  proof -
    have "some_with_hash txs (js_prop lg ''transactionHash'') \<noteq> Inr True" using absent h by simp
    with kept that(1) show ?thesis
      by (induction logs arbitrary: kept) (auto simp: and_then_Inr_iff)
  qed
  then have "synthetic_transaction chain lg1 \<in> set ys" "synthetic_transaction chain lg2 \<in> set ys"
    using assms(2-5) by (auto simp: ys)
  then show ?thesis using fields assms(4-6) by metis
qed

subsection \<open>The receipts of a block\<close>

lemma logs_by_hash_snoc:
  "logs_by_hash (logs @ [lg]) =
     (let h = js_prop lg ''transactionHash''; m = logs_by_hash logs in
      case map_of m h of
        Some _ \<Rightarrow> map (\<lambda>(k, ls). if k = h then (k, ls @ [lg]) else (k, ls)) m
      | None \<Rightarrow> m @ [(h, [lg])])"
  by (simp add: logs_by_hash_def Let_def)

lemma logs_by_hash_groups:
  "map_of (logs_by_hash logs) h = (if h \<in> (\<lambda>lg. js_prop lg ''transactionHash'') ` set logs then Some (logs_of_hash logs h) else None)"
proof (induction logs rule: rev_induct)
  case (snoc lg logs)
  have upd: "map_of (map (\<lambda>(k, ls). if k = h' then (k, ls @ [lg]) else (k, ls)) m) h =
      (if h = h' then map_option (\<lambda>ls. ls @ [lg]) (map_of m h) else map_of m h)" for m h'
    by (induction m) auto
  show ?case
    using snoc by (auto simp: logs_by_hash_snoc Let_def upd logs_of_hash_def map_add_def filter_empty_conv image_iff split: option.splits if_splits)
qed (simp add: logs_by_hash_def)


lemma lookup_logs_groups: "lookup_logs (logs_by_hash logs) h = logs_of_hash logs h"
  by (auto simp: lookup_logs_def logs_by_hash_groups logs_of_hash_def intro!: filter_False [symmetric])

lemma logs_by_hash_distinct: "distinct (map fst (logs_by_hash logs))"
proof (induction logs rule: rev_induct)
  case (snoc lg logs)
  have keys: "map fst (map (\<lambda>(k, ls). if k = h then (k, ls @ [lg]) else (k, ls)) m) = map fst m" for h and m :: "(jsv \<times> jsv list) list"
    by (induction m) auto
  show ?case
  proof (cases "map_of (logs_by_hash logs) (js_prop lg ''transactionHash'')")
    case None
    then have "js_prop lg ''transactionHash'' \<notin> set (map fst (logs_by_hash logs))" by (simp add: map_of_eq_None_iff)
    with snoc None show ?thesis by (simp add: logs_by_hash_snoc Let_def)
  next
    case (Some ls)
    show ?thesis by (simp only: logs_by_hash_snoc Let_def Some option.case keys snoc)
  qed
qed (simp add: logs_by_hash_def)

lemma logs_by_hash_entry:
  assumes "(h, ls) \<in> set (logs_by_hash logs)"
  shows "ls = logs_of_hash logs h \<and> ls \<noteq> []"
  using map_of_is_SomeI [OF logs_by_hash_distinct assms] logs_by_hash_groups [of logs h]
  by (auto simp: logs_of_hash_def filter_empty_conv split: if_splits)

lemma createRegularReceipt_logs:
  "createRegularReceipt effectiveGas from logs cr to = Inr r \<Longrightarrow> js_prop r ''logs'' = JArr logs"
  by (auto simp: createRegularReceipt_def and_then_Inr_iff)

lemma createSyntheticReceipt_logs:
  "createSyntheticReceipt ce logs price = Inr r \<Longrightarrow> logs \<noteq> [] \<and> js_prop r ''logs'' = JArr [hd logs] \<and>
     js_prop r ''transactionHash'' = js_prop (hd logs) ''transactionHash''"
  by (cases logs) (auto simp: createSyntheticReceipt_def and_then_Inr_iff)

lemma receipts_of_results:
  assumes "map_do (receipt_of_result env d price (logs_by_hash logs)) crs s = (Inr rss, s')"
  shows "map (\<lambda>r. js_prop r ''logs'') (concat rss) =
    map (\<lambda>cr. JArr (logs_of_hash logs (js_prop cr ''hash'')))
      (filter (\<lambda>cr. \<not> isRevertedDueToHederaSpecificValidation (be_revertStatuses env) cr) crs)"
  using assms
proof (induction crs arbitrary: s rss)
  case (Cons cr crs)
  then show ?case
    by (auto simp: and_do_Inr_iff ret_def receipt_of_result_def Let_def lift_Inr_iff lookup_logs_groups
        dest!: createRegularReceipt_logs split: if_splits)
qed (simp add: ret_def)

lemma synthetic_receipts:
  assumes "map_outcome (synthetic_receipt ce price) groups = Inr rs" and "set groups \<subseteq> set (logs_by_hash logs)"
  shows "map (\<lambda>r. js_prop r ''logs'') rs = map (\<lambda>h. JArr [hd (logs_of_hash logs h)]) (map fst groups)"
  using assms
proof (induction groups arbitrary: rs)
  case (Cons g groups)
  then show ?case
    by (cases g) (auto simp: and_then_Inr_iff synthetic_receipt_def dest!: createSyntheticReceipt_logs dest: logs_by_hash_entry)
qed simp

lemma synthetic_groups_hashes:
  "set (map fst (synthetic_groups crs (logs_by_hash logs))) =
     (\<lambda>lg. js_prop lg ''transactionHash'') ` set logs - (\<lambda>cr. js_prop cr ''hash'') ` set crs"
proof -
  have "fst ` set (logs_by_hash logs) = (\<lambda>lg. js_prop lg ''transactionHash'') ` set logs"
    using logs_by_hash_groups [of logs] map_of_eq_None_iff [of "logs_by_hash logs"]
    by (metis (mono_tags, lifting) option.distinct(1) set_eqI)
  moreover have "fst ` set (filter (\<lambda>g. fst g \<notin> X) m) = fst ` set m - X" for X and m :: "(jsv \<times> jsv list) list"
    by force
  ultimately show ?thesis by (simp only: synthetic_groups_def set_map)
qed

lemma getBlockReceipts_run:
  assumes "getBlockReceipts env tag d s = (Inr (JArr receipts), s')" and "receipts \<noteq> []"
  obtains params results crs logs rss synthetic price r1 r2 r3 r4 r5 r6 where
    "getContractResults (be_mirror env) d params JUndef r1 = (Inr results, r2)" "elements results = Inr crs"
    "getLogsWithParams (be_relay env) JNull params d r3 = (Inr logs, r4)"
    "map_do (receipt_of_result env d price (logs_by_hash logs)) crs r5 = (Inr rss, r6)"
    "map_outcome (synthetic_receipt (be_crypto env) price) (synthetic_groups crs (logs_by_hash logs)) = Inr synthetic"
    "receipts = concat rss @ synthetic"
proof -
  obtain v S where v: "v = JArr receipts" and "v \<notin> S" "JArr [] \<in> S" "JNull \<in> S" and "getBlockReceipts env tag d s = (Inr v, s')"
    using assms by (meson insertCI insertE jsv.distinct jsv.inject(4) singletonD)
  from this(2-5) obtain results crs logs rss synthetic params price r1 r2 r3 r4 r5 r6 where
    "getContractResults (be_mirror env) d params JUndef r1 = (Inr results, r2)" "elements results = Inr crs"
    "getLogsWithParams (be_relay env) JNull params d r3 = (Inr logs, r4)"
    "map_do (receipt_of_result env d price (logs_by_hash logs)) crs r5 = (Inr rss, r6)"
    "map_outcome (synthetic_receipt (be_crypto env) price) (synthetic_groups crs (logs_by_hash logs)) = Inr synthetic"
    "v = JArr (concat rss @ synthetic)"
    by (auto simp: getBlockReceipts_def and_do_Inr_iff lift_Inr_iff ret_def Let_def simp del: jsv.inject split: if_splits prod.splits)
  with v that show ?thesis by simp
qed

text \<open>
  In the receipts of a block every contract result that did not fail a Hedera validation has all the
  logs of its transaction, in their order, while the receipt of a synthetic transaction has only the
  first of its logs.
\<close>

theorem block_receipts_have_logs:
  assumes "getBlockReceipts env tag d s = (Inr (JArr receipts), s')" and "receipts \<noteq> []"
  shows "\<exists>params crs logs hashes r1 r2 r3 r4.
    getContractResults (be_mirror env) d params JUndef r1 = (Inr (JArr crs), r2) \<and>
    getLogsWithParams (be_relay env) JNull params d r3 = (Inr logs, r4) \<and>
    distinct hashes \<and>
    set hashes = (\<lambda>lg. js_prop lg ''transactionHash'') ` set logs - (\<lambda>cr. js_prop cr ''hash'') ` set crs \<and>
    map (\<lambda>r. js_prop r ''logs'') receipts =
      map (\<lambda>cr. JArr (logs_of_hash logs (js_prop cr ''hash'')))
        (filter (\<lambda>cr. \<not> isRevertedDueToHederaSpecificValidation (be_revertStatuses env) cr) crs) @
      map (\<lambda>h. JArr [hd (logs_of_hash logs h)]) hashes"
proof -
  from assms obtain params results crs logs rss synthetic price r1 r2 r3 r4 r5 r6 where
    crs: "getContractResults (be_mirror env) d params JUndef r1 = (Inr results, r2)" "elements results = Inr crs"
    and logs: "getLogsWithParams (be_relay env) JNull params d r3 = (Inr logs, r4)"
    and rss: "map_do (receipt_of_result env d price (logs_by_hash logs)) crs r5 = (Inr rss, r6)"
    and synthetic: "map_outcome (synthetic_receipt (be_crypto env) price) (synthetic_groups crs (logs_by_hash logs)) = Inr synthetic"
    and receipts: "receipts = concat rss @ synthetic"
    by (rule getBlockReceipts_run)
  have results: "results = JArr crs" using crs(2) by (cases results) auto
  have "set (synthetic_groups crs (logs_by_hash logs)) \<subseteq> set (logs_by_hash logs)" by (auto simp: synthetic_groups_def)
  note logs' = synthetic_receipts [OF synthetic this]
  have "distinct (map fst (synthetic_groups crs (logs_by_hash logs)))"
    by (simp add: synthetic_groups_def distinct_map_filter logs_by_hash_distinct)
  with synthetic_groups_hashes [of crs logs] crs(1) [unfolded results] logs show ?thesis
    unfolding receipts map_append receipts_of_results [OF rss] logs' by (intro exI conjI) (assumption | rule refl)+
qed

subsection \<open>A block over canned answers\<close>

definition one_page :: "string \<Rightarrow> jsv list \<Rightarrow> jsv" where
  "one_page key xs = JObj [(key, JArr xs), (''links'', JObj [(''next'', JNull)])]"

lemma allPages_canned:
  assumes "map_of table path = Some (one_page key xs)" and "key \<noteq> ''links''" and "1 < n"
  shows "allPages (canned_mirror table) path label key d n s = (Inr (JArr xs), s\<lparr> rs_world := rs_world s + 1 \<rparr>)"
  using assms by (simp add: allPages_def and_do_def getPaginatedResults.simps mn_get_canned one_page_def ret_def Let_def)

definition small_result :: jsv where
  "small_result = JObj
     [(''hash'', JStr ''t1''), (''from'', JNull), (''to'', JNull), (''result'', JStr ''SUCCESS''), (''transaction_index'', JNum 0),
      (''block_number'', JNum 7), (''block_hash'', JStr ''0xb''), (''block_gas_used'', JNum 9), (''type'', JNum 2),
      (''function_parameters'', JStr ''0x''), (''created_contract_ids'', JArr []), (''status'', JStr ''0x1'')]"

definition small_log :: "string \<Rightarrow> int \<Rightarrow> string \<Rightarrow> jsv" where
  "small_log txHash index address = JObj
     [(''address'', JStr address), (''block_hash'', JStr ''0xb''), (''block_number'', JNum 7), (''data'', JStr ''0x''),
      (''index'', JNum index), (''topics'', JArr [JStr ''0xb'']), (''transaction_hash'', JStr txHash), (''transaction_index'', JNum 1)]"

definition block_seven :: jsv where
  "block_seven = JObj
     [(''number'', JNum 7), (''hash'', JStr ''0xb''), (''timestamp'', JObj [(''from'', JStr ''1.0''), (''to'', JStr ''2.0'')]),
      (''gas_used'', JNum 9), (''previous_hash'', JStr ''0xa''), (''logs_bloom'', JStr ''0x''), (''size'', JNum 5), (''count'', JNum 2)]"

definition one_block :: "(string \<times> jsv) list" where
  "one_block =
     [(''blocks?limit=1&order=desc'', JObj [(''blocks'', JArr [block_seven])]),
      (''contracts/results?timestamp=gte:1.0&timestamp=lte:2.0&limit=100&order=asc'', one_page ''results'' [small_result]),
      (''contracts/results/logs?timestamp=gte:1.0&timestamp=lte:2.0&limit=100&order=asc'',
         one_page ''logs'' [small_log ''t2'' 0 ''0xa'', small_log ''t2'' 1 ''0xc'']),
      (''contracts/results?timestamp=lte:2.0&timestamp=gte:1.0&limit=100&order=asc'', one_page ''results'' [small_result]),
      (''contracts/results/logs?timestamp=lte:2.0&timestamp=gte:1.0&limit=100&order=asc'',
         one_page ''logs'' [small_log ''t2'' 0 ''0xa'', small_log ''t2'' 1 ''0xc'']),
      (''network/fees'', JObj [(''fees'', JArr [JObj [(''transaction_type'', JStr ''EthereumTransaction''), (''gas'', JNum 71)]])])]"

definition sample_blocks :: "(list_lru, unit, nat) block_env" where
  "sample_blocks =
     \<lparr> be_relay = sample_relay one_block, be_chain = ''0x128'', be_maxTransactions = 1000,
       be_revertStatuses = [''WRONG_NONCE'', ''INVALID_ACCOUNT_ID''], be_crypto = sample_crypto \<rparr>"

abbreviation range_params :: "string \<Rightarrow> string \<Rightarrow> jsv" where
  "range_params a b \<equiv> JObj [(''timestamp'', JArr [JStr a, JStr b])]"

lemma seven_latest:
  "\<exists>s'. getHistoricalBlockResponse (sample_relay one_block) d BLOCK_LATEST True s = (Inr block_seven, s')"
proof -
  have path: "map_of one_block (GET_BLOCKS_ENDPOINT @ getQueryParams (setLimitOrderParams (canned_mirror one_block)
      (getLimitOrderQueryParam 1 ''desc'') (setQueryParam ''timestamp'' JUndef (setQueryParam ''block.number'' JUndef [])))) =
      Some (JObj [(''blocks'', JArr [block_seven])])" by code_simp
  have tag: "blockTagIsLatestOrPending BLOCK_LATEST" by (simp add: blockTagIsLatestOrPending_def)
  show ?thesis
    by (simp add: historical_latest [OF tag number_latest] latest_block_def and_do_def getLatestBlock_def getBlocks_def
        sample_relay_def mn_get_canned path [simplified] first_block_def nullish_def lift_def)
qed

lemma seven_results:
  assumes "(a, b) = (''gte:1.0'', ''lte:2.0'') \<or> (a, b) = (''lte:2.0'', ''gte:1.0'')"
  shows "\<exists>s'. getContractResults (canned_mirror one_block) d (range_params a b) JUndef s = (Inr (JArr [small_result]), s')"
proof -
  have "map_of one_block (GET_CONTRACT_RESULTS_ENDPOINT @ getQueryParams (setLimitOrderParams (canned_mirror one_block) JUndef
      (setContractResultsParams (range_params ''gte:1.0'' ''lte:2.0'') []))) = Some (one_page ''results'' [small_result])"
    "map_of one_block (GET_CONTRACT_RESULTS_ENDPOINT @ getQueryParams (setLimitOrderParams (canned_mirror one_block) JUndef
      (setContractResultsParams (range_params ''lte:2.0'' ''gte:1.0'') []))) = Some (one_page ''results'' [small_result])"
    by code_simp+
  with assms have "map_of one_block (GET_CONTRACT_RESULTS_ENDPOINT @ getQueryParams (setLimitOrderParams (canned_mirror one_block) JUndef
      (setContractResultsParams (range_params a b) []))) = Some (one_page ''results'' [small_result])" by auto
  from allPages_canned [OF this] show ?thesis by (simp add: getContractResults_def canned_mirror_def)
qed

definition seven_logs :: "jsv list" where
  "seven_logs = (case map_outcome make_log [small_log ''t2'' 0 ''0xa'', small_log ''t2'' 1 ''0xc''] of Inr ls \<Rightarrow> ls | Inl e \<Rightarrow> [])"

lemma seven_logs_read:
  assumes "(a, b) = (''gte:1.0'', ''lte:2.0'') \<or> (a, b) = (''lte:2.0'', ''gte:1.0'')"
  shows "\<exists>s'. getLogsWithParams (sample_relay one_block) JNull (range_params a b) d s = (Inr seven_logs, s')"
proof -
  let ?logs = "[small_log ''t2'' 0 ''0xa'', small_log ''t2'' 1 ''0xc'']"
  have "map_of one_block (GET_CONTRACT_RESULT_LOGS_ENDPOINT @ prepareLogsParams (canned_mirror one_block)
      (range_params ''gte:1.0'' ''lte:2.0'') JUndef) = Some (one_page ''logs'' ?logs)"
    "map_of one_block (GET_CONTRACT_RESULT_LOGS_ENDPOINT @ prepareLogsParams (canned_mirror one_block)
      (range_params ''lte:2.0'' ''gte:1.0'') JUndef) = Some (one_page ''logs'' ?logs)" by code_simp+
  with assms have path: "map_of one_block (GET_CONTRACT_RESULT_LOGS_ENDPOINT @ prepareLogsParams (canned_mirror one_block)
      (range_params a b) JUndef) = Some (one_page ''logs'' ?logs)" by auto
  have mature: "\<not> immature_logs (JArr ?logs)" by code_simp
  have logs: "map_outcome make_log ?logs = Inr seven_logs" by code_simp
  have "getContractResultsLogsWithRetry (canned_mirror one_block) d (range_params a b) JUndef s =
      (Inr (JArr ?logs), s\<lparr> rs_world := rs_world s + 1 \<rparr>)"
    using allPages_canned [OF path, of 200] mature
    by (simp add: getContractResultsLogsWithRetry_def Let_def and_do_def canned_mirror_def eval_nat_numeral ret_def)
  then show ?thesis
    by (simp add: getLogsWithParams_def and_do_def sample_relay_def ret_def array_items_def lift_def logs [simplified])
qed

lemma seven_price:
  "\<exists>s'. getGasPriceInWeibars (sample_relay one_block) d JUndef s = (Inr 710000000000, s')"
proof -
  have path: "map_of one_block (GET_NETWORK_FEES_ENDPOINT @
       getQueryParams (setQueryParam ''order'' JUndef (setQueryParam ''timestamp'' JUndef []))) =
     Some (JObj [(''fees'', JArr [JObj [(''transaction_type'', JStr ''EthereumTransaction''), (''gas'', JNum 71)]])])" by code_simp
  have "to_number 710000000000 = 710000000000" by (simp add: to_number_exact)
  then show ?thesis
    by (simp add: getGasPriceInWeibars_def getNetworkFees_def and_do_def sample_relay_def mn_get_canned path [simplified] ret_def
        array_items_def ethereum_fee_def TINYBAR_TO_WEIBAR_COEF_def)
qed


lemma small_valid: "\<not> isRevertedDueToHederaSpecificValidation [''WRONG_NONCE'', ''INVALID_ACCOUNT_ID''] small_result"
  by code_simp

lemma seven_hashes: "map (\<lambda>lg. js_prop lg ''transactionHash'') seven_logs = [JStr ''t2'', JStr ''t2'']"
  "map (\<lambda>lg. js_prop lg ''address'') seven_logs = [JStr ''0xa'', JStr ''0xc'']"
  by code_simp+

lemma seven_logs_shape:
  "\<exists>a b. seven_logs = [a, b] \<and> js_prop a ''transactionHash'' = JStr ''t2'' \<and> js_prop b ''transactionHash'' = JStr ''t2'' \<and>
     js_prop a ''address'' = JStr ''0xa'' \<and> js_prop b ''address'' = JStr ''0xc''"
proof -
  have "\<exists>a b. ls = [a, b] \<and> f a = t \<and> f b = t \<and> g a = x \<and> g b = y" if "map f ls = [t, t]" "map g ls = [x, y]"
    for ls and f g :: "jsv \<Rightarrow> jsv" and t x y
    using that by auto
  from this [OF seven_hashes] show ?thesis .
qed

lemma seven_populated:
  "\<exists>receipts. populateSyntheticTransactions ''0x128'' False seven_logs [JStr ''t1''] = Inr [JStr ''t1'', JStr ''t2''] \<and>
     buildReceiptRootHashes sample_crypto [JStr ''t1'', JStr ''t2''] [small_result] seven_logs = Inr receipts"
proof -
  obtain a b where logs: "seven_logs = [a, b]" and h: "js_prop a ''transactionHash'' = JStr ''t2''" "js_prop b ''transactionHash'' = JStr ''t2''"
    using seven_logs_shape by blast
  have "populateSyntheticTransactions ''0x128'' False seven_logs [JStr ''t1''] = Inr [JStr ''t1'', JStr ''t2'']"
    by (simp add: populateSyntheticTransactions_def logs h uniq_def)
  moreover have "\<exists>receipts. buildReceiptRootHashes sample_crypto [JStr ''t1'', JStr ''t2''] [small_result] seven_logs = Inr receipts"
    by (simp add: buildReceiptRootHashes_def buildReceiptRootHash_def logs h small_result_def sample_crypto_def Let_def nullish_def)
  ultimately show ?thesis by blast
qed

lemma seven_block_runs: "\<exists>block s'. bs_getBlock sample_blocks BLOCK_LATEST False d s = (Inr block, s') \<and> block \<noteq> JNull"
proof -
  let ?table = "canned_mirror one_block"
  obtain s1 where 1: "getHistoricalBlockResponse (sample_relay one_block) d BLOCK_LATEST True s = (Inr block_seven, s1)"
    using seven_latest by blast
  obtain s2 where "getContractResults ?table d (range_params ''gte:1.0'' ''lte:2.0'') JUndef s1 = (Inr (JArr [small_result]), s2)"
    using seven_results by blast
  moreover have "\<not> immature_results (JArr [small_result])" by code_simp
  ultimately have 2: "getContractResultWithRetry ?table (getContractResults ?table d (range_params ''gte:1.0'' ''lte:2.0'') JUndef) s1 =
      (Inr (JArr [small_result]), s2)"
    by (simp add: getContractResultWithRetry_def and_do_def canned_mirror_def eval_nat_numeral ret_def)
  obtain s3 where 3: "getLogsWithParams (sample_relay one_block) JNull (range_params ''gte:1.0'' ''lte:2.0'') d s2 = (Inr seven_logs, s3)"
    using seven_logs_read by blast
  have 4: "prepareTransactionArray sample_blocks [small_result] False d s3 = (Inr [JStr ''t1''], s3)"
    by (simp add: prepareTransactionArray_def prepare_one_def small_valid [unfolded small_result_def] sample_blocks_def and_do_def ret_def resolve_value_def
        small_result_def Let_def)
  obtain receipts where 5: "populateSyntheticTransactions ''0x128'' False seven_logs [JStr ''t1''] = Inr [JStr ''t1'', JStr ''t2'']"
    "buildReceiptRootHashes sample_crypto [JStr ''t1'', JStr ''t2''] [small_result] seven_logs = Inr receipts"
    using seven_populated by blast
  obtain price s4 where 6: "gasPrice (sample_relay one_block) d s3 = (Inr price, s4)"
    using seven_price [of d s3] by (auto simp: gasPrice_def and_do_def catch_do_def ret_def)
  have 7: "timestamp_range block_seven = Inr (''gte:1.0'', ''lte:2.0'')" by code_simp
  obtain block where 8: "createBlock sample_crypto block_seven receipts [JStr ''t1'', JStr ''t2''] price = Inr block" "block \<noteq> JNull"
    by (auto simp: createBlock_def block_seven_def nullish_def)
  show ?thesis
    using 1 2 3 4 5 6 7 8 by (simp add: bs_getBlock_def and_do_def sample_blocks_def lift_def sample_relay_def Let_def ret_def
        hash_of_transaction_def nullish_def block_seven_def)
qed

theorem block_lists_transactions_once_witness:
  "\<exists>block s' txs. bs_getBlock sample_blocks BLOCK_LATEST False sample_details quiet_relay = (Inr block, s') \<and>
     js_prop block ''transactions'' = JArr txs \<and> distinct txs"
proof -
  obtain block s' where "bs_getBlock sample_blocks BLOCK_LATEST False sample_details quiet_relay = (Inr block, s')" "block \<noteq> JNull"
    using seven_block_runs by blast
  with block_lists_transactions_once [OF this] show ?thesis by blast
qed

theorem details_repeat_synthetic_transactions_witness:
  "\<exists>ys. populateSyntheticTransactions ''0x128'' True seven_logs [] = Inr ys \<and>
     (\<exists>tx1 \<in> set ys. \<exists>tx2 \<in> set ys. tx1 \<noteq> tx2 \<and> js_prop tx1 ''hash'' = JStr ''t2'' \<and> js_prop tx2 ''hash'' = JStr ''t2'')"
proof -
  obtain a b where logs: "seven_logs = [a, b]" and h: "js_prop a ''transactionHash'' = JStr ''t2''" "js_prop b ''transactionHash'' = JStr ''t2''"
    and "js_prop a ''address'' = JStr ''0xa''" "js_prop b ''address'' = JStr ''0xc''"
    using seven_logs_shape by blast
  then have "js_prop a ''address'' \<noteq> js_prop b ''address''" by simp
  moreover obtain ys where "populateSyntheticTransactions ''0x128'' True seven_logs [] = Inr ys"
    by (simp add: populateSyntheticTransactions_def logs)
  ultimately show ?thesis
    using details_repeat_synthetic_transactions [of "''0x128''" seven_logs "[]" ys a b "JStr ''t2''"] h by (simp add: logs)
qed

lemma seven_receipts_run:
  "\<exists>rs s'. getBlockReceipts sample_blocks BLOCK_LATEST d s = (Inr (JArr rs), s') \<and> rs \<noteq> []"
proof -
  let ?table = "canned_mirror one_block"
  obtain s1 where 1: "getHistoricalBlockResponse (sample_relay one_block) d BLOCK_LATEST True s = (Inr block_seven, s1)"
    using seven_latest by blast
  obtain s2 where 2: "getContractResults ?table d (range_params ''lte:2.0'' ''gte:1.0'') JUndef s1 = (Inr (JArr [small_result]), s2)"
    using seven_results by blast
  obtain s3 where 3: "getGasPriceInWeibars (sample_relay one_block) text_as_details JUndef s2 = (Inr 710000000000, s3)"
    using seven_price by blast
  obtain s4 where 4: "getLogsWithParams (sample_relay one_block) JNull (range_params ''lte:2.0'' ''gte:1.0'') d s3 = (Inr seven_logs, s4)"
    using seven_logs_read by blast
  have 5: "timestamp_range block_seven = Inr (''gte:1.0'', ''lte:2.0'')" "timestamp_field block_seven ''from'' = Inr (JStr ''1.0'')"
    by code_simp+
  let ?p = "JStr (numberTo0x 710000000000)"
  have 6: "\<exists>r. receipt_of_result sample_blocks d p m small_result s4 = (Inr [r], s4)" for p m
    by (simp add: receipt_of_result_def small_valid [unfolded small_result_def] small_result_def sample_blocks_def resolve_value_def
        and_do_def ret_def lift_def createRegularReceipt_def getContractAddressFromReceipt_def array_includes_def
        HTS_CREATE_FUNCTIONS_SELECTORS_def substr_def)
  obtain r where 7: "receipt_of_result sample_blocks d ?p (logs_by_hash seven_logs) small_result s4 = (Inr [r], s4)"
    using 6 by blast
  obtain rs where 8: "map_outcome (synthetic_receipt sample_crypto ?p) (synthetic_groups [small_result] (logs_by_hash seven_logs)) = Inr rs"
  proof -
    obtain a b where logs: "seven_logs = [a, b]" and h: "js_prop a ''transactionHash'' = JStr ''t2''" "js_prop b ''transactionHash'' = JStr ''t2''"
      using seven_logs_shape by blast
    have "logs_by_hash seven_logs = [(JStr ''t2'', [a, b])]" unfolding logs logs_by_hash_def by (simp add: h)
    then show ?thesis
      by (intro that) (simp add: synthetic_groups_def small_result_def synthetic_receipt_def createSyntheticReceipt_def)
  qed
  have "getBlockReceipts sample_blocks BLOCK_LATEST d s = (Inr (JArr (r # rs)), s4)"
    using 1 2 3 4 5 7 8
    by (simp add: getBlockReceipts_def and_do_def sample_blocks_def lift_def sample_relay_def Let_def ret_def nullish_def block_seven_def)
  then show ?thesis by blast
qed

theorem block_receipts_have_logs_witness:
  "\<exists>receipts s' crs logs hashes.
     getBlockReceipts sample_blocks BLOCK_LATEST sample_details quiet_relay = (Inr (JArr receipts), s') \<and> receipts \<noteq> [] \<and>
     distinct hashes \<and>
     map (\<lambda>r. js_prop r ''logs'') receipts =
       map (\<lambda>cr. JArr (logs_of_hash logs (js_prop cr ''hash'')))
         (filter (\<lambda>cr. \<not> isRevertedDueToHederaSpecificValidation (be_revertStatuses sample_blocks) cr) crs) @
       map (\<lambda>h. JArr [hd (logs_of_hash logs h)]) hashes"
proof -
  obtain rs s' where run: "getBlockReceipts sample_blocks BLOCK_LATEST sample_details quiet_relay = (Inr (JArr rs), s')" "rs \<noteq> []"
    using seven_receipts_run by blast
  from block_receipts_have_logs [OF run] obtain crs logs hashes where "distinct hashes"
    "map (\<lambda>r. js_prop r ''logs'') rs =
       map (\<lambda>cr. JArr (logs_of_hash logs (js_prop cr ''hash'')))
         (filter (\<lambda>cr. \<not> isRevertedDueToHederaSpecificValidation (be_revertStatuses sample_blocks) cr) crs) @
       map (\<lambda>h. JArr [hd (logs_of_hash logs h)]) hashes"
    by (elim exE conjE) rule
  with run show ?thesis by (intro exI conjI)
qed

end
