(* ===== verification/Accounts.thy ===== *)
theory Accounts
  imports Blocks CacheDecorator
begin

section \<open>Balances and nonces of accounts\<close>

text \<open>
  Models \<open>services/ethService/accountService/AccountService.ts\<close>. Amounts are tinybars; sums of them are
  JavaScript numbers. Timestamps are the mirror node's texts and are compared as texts. The times to
  live are fields of the environment, logging is left out.
\<close>

record ('c, 'r, 'w) account_env =
  ae_relay :: "('c, 'r, 'w) relay_env"
  ae_blockNumberTtl :: int
  ae_transactionCountTtl :: int

abbreviation ae_mirror :: "('c, 'r, 'w) account_env \<Rightarrow> ('c, 'r, 'w) mirror_env" where
  "ae_mirror env \<equiv> re_mirror (ae_relay env)"

definition BALANCES_UPDATE_INTERVAL :: int where "BALANCES_UPDATE_INTERVAL = 900"
definition ETH_BLOCK_NUMBER :: string where "ETH_BLOCK_NUMBER = ''eth_block_number''"
definition BLOCK_HASH_LENGTH :: nat where "BLOCK_HASH_LENGTH = 66"
definition ONE_DAY :: int where "ONE_DAY = 86400000"

subsection \<open>The latest block\<close>

definition blockNumberTimestamp ::
  "('c, 'r, 'w) account_env \<Rightarrow> request_details \<Rightarrow> ('c, 'r, 'w, jsv \<times> jsv) relay_action" where
  "blockNumberTimestamp env d =
     and_do (getLatestBlock (ae_mirror env) d) (\<lambda>blocksResponse.
       if blocksResponse = JUndef then throw type_error
       else (case js_prop blocksResponse ''blocks'' of
         JArr (b # bs) \<Rightarrow>
           if nullish b then throw type_error
           else and_do (lift (to_0x (js_prop b ''number''))) (\<lambda>currentBlock.
             and_do (lift (timestamp_field b ''to'')) (\<lambda>timestamp.
               and_do (cached_set (ae_mirror env) ETH_BLOCK_NUMBER (JStr currentBlock) (Some (Ms (ae_blockNumberTtl env))))
                 (\<lambda>u. ret (JStr currentBlock, timestamp))))
       | _ \<Rightarrow> throw (ThrownRpc COULD_NOT_RETRIEVE_LATEST_BLOCK)))"

definition near_head :: "js_number \<Rightarrow> js_number \<Rightarrow> bool" where
  "near_head latest current = (case num_minus latest current of Num n \<Rightarrow> n \<le> 1 | NotANumber \<Rightarrow> False)"

definition longer_than_32 :: "jsv \<Rightarrow> bool" where
  "longer_than_32 v = (case text_length v of None \<Rightarrow> False | Some n \<Rightarrow> 32 < n)"

definition extractBlockNumberAndTimestamp ::
  "('c, 'r, 'w) account_env \<Rightarrow> jsv \<Rightarrow> request_details \<Rightarrow> ('c, 'r, 'w, (jsv \<times> jsv) \<times> jsv) relay_action" where
  "extractBlockNumberAndTimestamp env tag d =
     and_do (cached_get (ae_mirror env) ETH_BLOCK_NUMBER) (\<lambda>blockNumberCached.
     and_do (if truthy blockNumberCached then ret (blockNumberCached, JStr ''0'') else blockNumberTimestamp env d) (\<lambda>latestBlock.
     and_do (if \<not> nullish tag \<and> longer_than_32 tag
             then and_do (mn_getBlock (ae_mirror env) tag d) (\<lambda>block. lift (number_field block ''number''))
             else ret (js_Number tag)) (\<lambda>currentBlockNumber.
       let tag' = (if near_head (js_Number (fst latestBlock)) currentBlockNumber then BLOCK_LATEST else tag)
       in if tag' \<noteq> BLOCK_LATEST \<and> snd latestBlock = JStr ''0''
          then and_do (blockNumberTimestamp env d) (\<lambda>latestBlock. ret (latestBlock, tag'))
          else ret (latestBlock, tag'))))"

subsection \<open>Balances\<close>

text \<open>\<open>BigInt(v)\<close> of a number or a text.\<close>

definition bigint_of :: "jsv \<Rightarrow> thrown + int" where
  "bigint_of v =
     (case v of
        JNum n \<Rightarrow> Inr n
      | JStr s \<Rightarrow> (case js_string_to_bigint s of Some n \<Rightarrow> Inr n | None \<Rightarrow> Inl (ThrownOther ''SyntaxError''))
      | JBool b \<Rightarrow> Inr (if b then 1 else 0)
      | _ \<Rightarrow> Inl type_error)"

fun seconds_number :: "jsv \<Rightarrow> thrown + js_number" where
  "seconds_number (JStr s) = Inr (js_Number (JStr (takeWhile (\<lambda>c. c \<noteq> CHR ''.'') s)))"
| "seconds_number v = Inl type_error"

fun text_ge :: "jsv \<Rightarrow> jsv \<Rightarrow> bool" where
  "text_ge (JStr a) (JStr b) = (b \<le> a)"
| "text_ge _ _ = False"

definition own_transfers :: "jsv \<Rightarrow> jsv \<Rightarrow> thrown + jsv list" where
  "own_transfers account transaction =
     and_then (elements (js_prop transaction ''transfers'')) (\<lambda>transfers.
       Inr (filter (\<lambda>transfer. js_prop transfer ''account'' = account \<and> \<not> truthy (js_prop transfer ''is_approval'')) transfers))"

definition sum_amounts :: "int list \<Rightarrow> int" where
  "sum_amounts amounts = foldl (\<lambda>t amount. to_number (t + amount)) 0 amounts"

definition amount_of :: "jsv \<Rightarrow> int" where
  "amount_of transfer = (case js_prop transfer ''amount'' of JNum n \<Rightarrow> n | _ \<Rightarrow> 0)"

definition getBalanceAtBlockTimestamp :: "jsv \<Rightarrow> jsv list \<Rightarrow> jsv \<Rightarrow> thrown + int" where
  "getBalanceAtBlockTimestamp account transactions blockTimestamp =
     and_then (map_outcome (own_transfers account)
        (filter (\<lambda>transaction. text_ge (js_prop transaction ''consensus_timestamp'') blockTimestamp) transactions)) (\<lambda>transfers.
       Inr (sum_amounts (map amount_of (concat transfers))))"

definition getPagedTransactions ::
  "('c, 'r, 'w) account_env \<Rightarrow> jsv \<Rightarrow> jsv \<Rightarrow> request_details \<Rightarrow> ('c, 'r, 'w, jsv) relay_action" where
  "getPagedTransactions env nextPage block d =
     (case nextPage of
        JStr url \<Rightarrow>
          (case url_param ''timestamp'' url of
             JStr marker \<Rightarrow>
               and_do (lift (timestamp_field block ''to'')) (\<lambda>to.
                 if marker \<noteq> '''' \<and> (case split_on CHR '':'' marker of a # b # cs \<Rightarrow> text_ge (JStr b) to | _ \<Rightarrow> False)
                 then getAccountPaginated (ae_mirror env) url d else ret (JArr []))
           | _ \<Rightarrow> ret (JArr []))
      | _ \<Rightarrow> throw type_error)"

definition getBalanceAtBlockNumber ::
  "('c, 'r, 'w) account_env \<Rightarrow> string \<Rightarrow> jsv \<Rightarrow> jsv \<times> jsv \<Rightarrow> request_details \<Rightarrow> ('c, 'r, 'w, bool \<times> int) relay_action" where
  "getBalanceAtBlockNumber env account block latestBlock d =
     and_do (lift (seconds_number (snd latestBlock))) (\<lambda>latestTimestamp.
     and_do (lift (timestamp_field block ''from'')) (\<lambda>from.
     and_do (lift (seconds_number from)) (\<lambda>blockTimestamp.
       if num_less (Num BALANCES_UPDATE_INTERVAL) (num_minus latestTimestamp blockTimestamp) then
         and_do (getBalanceAtTimestamp (ae_mirror env) account d from) (\<lambda>balance.
           case js_prop balance ''balances'' of
             JArr (b # bs) \<Rightarrow> and_do (lift (bigint_of (js_prop b ''balance''))) (\<lambda>tinybars. ret (True, tinybars * TINYBAR_TO_WEIBAR_COEF))
           | _ \<Rightarrow> ret (True, 0))
       else
         and_do (getAccountPageLimit (ae_mirror env) account d) (\<lambda>mirrorAccount.
           if \<not> truthy mirrorAccount then ret (False, 0)
           else
             let currentBalance = (if truthy (js_prop mirrorAccount ''balance'')
                                   then js_prop (js_prop mirrorAccount ''balance'') ''balance'' else JNum 0)
             in if nullish (js_prop mirrorAccount ''links'') then throw type_error
                else let nextPage = js_prop (js_prop mirrorAccount ''links'') ''next'' in
                  and_do (lift (elements (js_prop mirrorAccount ''transactions''))) (\<lambda>own.
                  and_do (if truthy nextPage then and_do (getPagedTransactions env nextPage block d) (\<lambda>paged. ret (js_concat own paged))
                          else ret own) (\<lambda>transactions.
                  and_do (lift (timestamp_field block ''to'')) (\<lambda>to.
                  and_do (lift (getBalanceAtBlockTimestamp (js_prop mirrorAccount ''account'') transactions to)) (\<lambda>balanceFromTxs.
                    case currentBalance of
                      JNum n \<Rightarrow> ret (True, to_number (n - balanceFromTxs) * TINYBAR_TO_WEIBAR_COEF)
                    | _ \<Rightarrow> throw type_error)))))))) "

text \<open>
  The number of the block is compared with the hex text of the latest one: a number never equals a text,
  so that the comparison does not stop the search for a historical balance.
\<close>

definition historical_balance ::
  "('c, 'r, 'w) account_env \<Rightarrow> string \<Rightarrow> jsv \<Rightarrow> (jsv \<times> jsv) option \<Rightarrow> request_details \<Rightarrow> ('c, 'r, 'w, bool \<times> int) relay_action" where
  "historical_balance env account tag latestBlock d =
     (if blockTagIsLatestOrPending tag then ret (False, 0)
      else and_do (getHistoricalBlockResponse (ae_relay env) d tag True) (\<lambda>block.
        case latestBlock of
          Some latest \<Rightarrow> if truthy block \<and> js_prop block ''number'' \<noteq> fst latest
                         then getBalanceAtBlockNumber env account block latest d else ret (False, 0)
        | None \<Rightarrow> ret (False, 0)))"

definition getBalance ::
  "('c, 'r, 'w) account_env \<Rightarrow> string \<Rightarrow> jsv \<Rightarrow> request_details \<Rightarrow> ('c, 'r, 'w, string) relay_action" where
  "getBalance env account blockNumberOrTagOrHash d =
     and_do (if blockTagIsLatestOrPending blockNumberOrTagOrHash then ret (None, blockNumberOrTagOrHash)
             else and_do (extractBlockNumberAndTimestamp env blockNumberOrTagOrHash d) (\<lambda>(latestBlock, tag). ret (Some latestBlock, tag)))
       (\<lambda>(latestBlock, tag).
          catch_do
            (and_do (historical_balance env account tag latestBlock d) (\<lambda>(balanceFound, weibars).
               if balanceFound then ret (numberTo0x weibars)
               else and_do (getAccountPageLimit (ae_mirror env) account d) (\<lambda>mirrorAccount.
                 if nullish mirrorAccount then ret ZERO_HEX
                 else if nullish (js_prop mirrorAccount ''balance'') then throw type_error
                 else and_do (lift (bigint_of (js_prop (js_prop mirrorAccount ''balance'') ''balance''))) (\<lambda>tinybars.
                   ret (numberTo0x (tinybars * TINYBAR_TO_WEIBAR_COEF))))))
            (\<lambda>e. throw (genericErrorHandler e)))"

subsection \<open>Nonces\<close>

definition getAccountLatestEthereumNonce ::
  "('c, 'r, 'w) account_env \<Rightarrow> string \<Rightarrow> request_details \<Rightarrow> ('c, 'r, 'w, string) relay_action" where
  "getAccountLatestEthereumNonce env address d =
     and_do (mn_getAccount (ae_mirror env) address d None JUndef) (\<lambda>accountData.
       if truthy accountData
       then (if js_prop accountData ''ethereum_nonce'' \<noteq> JNull
             then lift (to_0x (js_prop accountData ''ethereum_nonce'')) else ret ONE_HEX)
       else ret ZERO_HEX)"

definition lower_char :: "char \<Rightarrow> char" where
  "lower_char c = (let n = (of_char c :: nat) in if 65 \<le> n \<and> n \<le> 90 then char_of (n + 32) else c)"

definition getAccountNonceFromContractResult ::
  "('c, 'r, 'w) account_env \<Rightarrow> string \<Rightarrow> jsv \<Rightarrow> request_details \<Rightarrow> ('c, 'r, 'w, string) relay_action" where
  "getAccountNonceFromContractResult env address blockNumOrHash d =
     and_do (mn_getBlock (ae_mirror env) blockNumOrHash d) (\<lambda>block.
       if nullish block then throw (ThrownRpc (UNKNOWN_BLOCK None))
       else and_do (lift (timestamp_field block ''to'')) (\<lambda>to.
         and_do (getAccountLatestEthereumTransactionsByTimestamp (ae_mirror env) address (js_to_string to) d 2) (\<lambda>ethereumTransactions.
           if nullish ethereumTransactions then ret ZERO_HEX
           else and_do (lift (elements (js_prop ethereumTransactions ''transactions''))) (\<lambda>transactions.
             if transactions = [] then ret ZERO_HEX
             else if length transactions = 1 then ret ONE_HEX
             else let transaction_id = js_to_string (js_prop (hd transactions) ''transaction_id'') in
               and_do (getContractResult (ae_mirror env) transaction_id d) (\<lambda>transactionResult.
                 if nullish transactionResult
                 then throw (ThrownRpc (RESOURCE_NOT_FOUND (''Failed to retrieve contract results for transaction '' @ transaction_id)))
                 else and_do (mn_getAccount (ae_mirror env) (js_to_string (js_prop transactionResult ''from'')) d None JUndef) (\<lambda>accountResult.
                   if nullish accountResult then throw type_error
                   else if js_prop accountResult ''evm_address'' \<noteq> JStr (map lower_char address)
                   then getAccountLatestEthereumNonce env address d
                   else (case js_prop transactionResult ''nonce'' of
                           JNum n \<Rightarrow> ret (numberTo0x (n + 1))
                         | JNull \<Rightarrow> ret (numberTo0x 1)
                         | _ \<Rightarrow> ret (EMPTY_HEX @ ''NaN''))))))))"

definition getAccountNonceForHistoricBlock ::
  "('c, 'r, 'w) account_env \<Rightarrow> string \<Rightarrow> jsv \<Rightarrow> request_details \<Rightarrow> ('c, 'r, 'w, string) relay_action" where
  "getAccountNonceForHistoricBlock env address blockNumOrHash d =
     and_do
       (case blockNumOrHash of
          JNum n \<Rightarrow> if n < 0 then throw (ThrownRpc (UNKNOWN_BLOCK None)) else ret (JNum n)
        | _ \<Rightarrow> and_do (mn_getBlock (ae_mirror env) blockNumOrHash d) (\<lambda>block.
                 if nullish block then throw type_error else ret (js_prop block ''number''))) (\<lambda>blockNum.
     and_do (getLatestBlock (ae_mirror env) d) (\<lambda>blockResponse.
       if nullish blockResponse then throw (ThrownRpc (UNKNOWN_BLOCK None))
       else and_do (lift (elements (js_prop blockResponse ''blocks''))) (\<lambda>blocks.
         if blocks = [] then throw (ThrownRpc (UNKNOWN_BLOCK None))
         else and_do (lift (number_field (hd blocks) ''number'')) (\<lambda>latest.
           if (case num_minus latest (js_Number blockNum) of Num n \<Rightarrow> n \<le> re_maxBlockRange (ae_relay env) | NotANumber \<Rightarrow> False)
           then getAccountLatestEthereumNonce env address d
           else getAccountNonceFromContractResult env address blockNum d))))"

definition getAccountNonceForEarliestBlock ::
  "('c, 'r, 'w) account_env \<Rightarrow> request_details \<Rightarrow> ('c, 'r, 'w, string) relay_action" where
  "getAccountNonceForEarliestBlock env d =
     and_do (getEarliestBlock (ae_mirror env) d) (\<lambda>block.
       if nullish block then throw (ThrownRpc (INTERNAL_ERROR ''No network blocks found''))
       else case js_prop block ''number'' of
         JNum n \<Rightarrow> if n \<le> 1 then ret ZERO_HEX
                   else throw (ThrownRpc (INTERNAL_ERROR
                     (''Partial mirror node encountered, earliest block number is '' @ show_int n)))
       | v \<Rightarrow> throw (ThrownRpc (INTERNAL_ERROR
                     (''Partial mirror node encountered, earliest block number is '' @ js_to_string v))))"

text \<open>The nonce at a block, before it is cached.\<close>

definition nonce_at ::
  "('c, 'r, 'w) account_env \<Rightarrow> string \<Rightarrow> jsv \<Rightarrow> request_details \<Rightarrow> ('c, 'r, 'w, string) relay_action" where
  "nonce_at env address tag d =
     (if blockTagIsLatestOrPending tag then getAccountLatestEthereumNonce env address d
      else if tag = BLOCK_EARLIEST then getAccountNonceForEarliestBlock env d
      else if num_less (Num 0) (js_Number tag) \<and> text_length tag \<noteq> Some BLOCK_HASH_LENGTH
      then getAccountNonceForHistoricBlock env address (case js_Number tag of Num n \<Rightarrow> JNum n | NotANumber \<Rightarrow> tag) d
      else if text_length tag = Some BLOCK_HASH_LENGTH \<and> (case tag of JStr s \<Rightarrow> starts_with EMPTY_HEX s | _ \<Rightarrow> False)
      then getAccountNonceForHistoricBlock env address tag d
      else throw (ThrownRpc (UNKNOWN_BLOCK None)))"

definition transaction_count_key :: "string \<Rightarrow> jsv \<Rightarrow> string" where
  "transaction_count_key address tag = ''eth_getTransactionCount_'' @ address @ ''_'' @ js_to_string tag"

definition transaction_count_ttl :: "('c, 'r, 'w) account_env \<Rightarrow> jsv \<Rightarrow> int" where
  "transaction_count_ttl env tag =
     (if tag = BLOCK_EARLIEST \<or> js_Number tag \<noteq> NotANumber then ONE_DAY else ae_transactionCountTtl env)"

definition getTransactionCount ::
  "('c, 'r, 'w) account_env \<Rightarrow> string \<Rightarrow> jsv \<Rightarrow> request_details \<Rightarrow> ('c, 'r, 'w, jsv) relay_action" where
  "getTransactionCount env address blockNumOrTag d =
     (let cacheKey = transaction_count_key address blockNumOrTag in
      and_do (cached_get (ae_mirror env) cacheKey) (\<lambda>nonceCount.
        if truthy nonceCount then ret nonceCount
        else if js_Number blockNumOrTag = Num 0 \<or> js_Number blockNumOrTag = Num 1 then ret (JStr ZERO_HEX)
        else and_do (nonce_at env address blockNumOrTag d) (\<lambda>nonceCount.
          and_do (cached_set (ae_mirror env) cacheKey (JStr nonceCount) (Some (Ms (transaction_count_ttl env blockNumOrTag))))
            (\<lambda>u. ret (JStr nonceCount)))))"

subsection \<open>The balance at a recent block\<close>

lemma sum_amounts_from:
  "\<bar>t\<bar> + sum_list (map abs xs) < 2 ^ 53 \<Longrightarrow> foldl (\<lambda>t amount. to_number (t + amount)) t xs = t + sum_list xs"
proof (induction xs arbitrary: t)
  case (Cons x xs)
  have pos: "0 \<le> sum_list (map abs xs)" for xs :: "int list" by (induction xs) auto
  from Cons.prems have "\<bar>t + x\<bar> < 2 ^ 53" "\<bar>t + x\<bar> + sum_list (map abs xs) < 2 ^ 53"
    using pos [of xs] by auto
  with Cons.IH [of "t + x"] show ?case by (simp add: to_number_exact)
qed simp

lemma sum_amounts_exact: "sum_list (map abs xs) < 2 ^ 53 \<Longrightarrow> sum_amounts xs = sum_list xs"
  using sum_amounts_from [of 0 xs] by (simp add: sum_amounts_def)

text \<open>The amounts an account's transactions moved, as the mirror node lists them.\<close>

definition moved :: "jsv \<Rightarrow> jsv \<Rightarrow> int list" where
  "moved account transaction = (case own_transfers account transaction of Inr ts \<Rightarrow> map amount_of ts | Inl e \<Rightarrow> [])"

definition total_moved :: "jsv \<Rightarrow> jsv list \<Rightarrow> int" where
  "total_moved account transactions = sum_list (concat (map (moved account) transactions))"

lemma total_moved_append: "total_moved a (xs @ ys) = total_moved a xs + total_moved a ys"
  by (simp add: total_moved_def)

lemma total_moved_partition: "total_moved a xs = total_moved a (filter P xs) + total_moved a (filter (\<lambda>x. \<not> P x) xs)"
  by (induction xs) (simp_all add: total_moved_def)

lemma map_outcome_moved:
  "map_outcome (own_transfers a) ts = Inr yss \<Longrightarrow> map amount_of (concat yss) = concat (map (moved a) ts)"
  by (induction ts arbitrary: yss) (auto simp: and_then_Inr_iff moved_def)

lemma getBalanceAtBlockTimestamp_total:
  assumes "getBalanceAtBlockTimestamp a ts t = Inr b"
    and "sum_list (map abs (concat (map (moved a) ts))) < 2 ^ 53"
  shows "b = total_moved a (filter (\<lambda>x. text_ge (js_prop x ''consensus_timestamp'') t) ts)"
proof -
  let ?late = "filter (\<lambda>x. text_ge (js_prop x ''consensus_timestamp'') t) ts"
  have "sum_list (map abs (concat (map (moved a) (filter P ts)))) \<le> sum_list (map abs (concat (map (moved a) ts)))" for P
  proof (induction ts)
    case (Cons x ts)
    have "0 \<le> sum_list (map abs xs)" for xs :: "int list" by (induction xs) auto
    with Cons show ?case by (auto simp: add_increasing)
  qed simp
  with assms(2) have "sum_list (map abs (concat (map (moved a) ?late))) < 2 ^ 53" by (rule le_less_trans [rotated])
  with assms(1) show ?thesis
    by (auto simp: getBalanceAtBlockTimestamp_def and_then_Inr_iff total_moved_def map_outcome_moved sum_amounts_exact)
qed

text \<open>
  For a block of the last fifteen minutes the balance is that of just before the end of the block: what
  the account had before its listed transactions, and what they moved before the last instant of the
  block. A transaction at that instant, although it is in the block, is not counted.
\<close>

theorem recent_balance_before_block_end:
  assumes "getBalanceAtBlockNumber env account block latestBlock d s = (Inr (found, weibars), s')"
    and "seconds_number (snd latestBlock) = Inr (Num now)" and "timestamp_field block ''from'' = Inr from"
    and "seconds_number from = Inr (Num start)" and "\<bar>now - start\<bar> \<le> BALANCES_UPDATE_INTERVAL"
    and "getAccountPageLimit (ae_mirror env) account d s = (Inr mirrorAccount, s1)"
    and "js_prop (js_prop mirrorAccount ''links'') ''next'' = JNull"
    and "js_prop mirrorAccount ''transactions'' = JArr transactions"
    and "js_prop (js_prop mirrorAccount ''balance'') ''balance'' = JNum n" "truthy (js_prop mirrorAccount ''balance'')"
    and "n = earlier + total_moved (js_prop mirrorAccount ''account'') transactions"
    and "sum_list (map abs (concat (map (moved (js_prop mirrorAccount ''account'')) transactions))) < 2 ^ 53"
    and "\<bar>earlier + total_moved (js_prop mirrorAccount ''account'') before\<bar> < 2 ^ 53"
    and "timestamp_field block ''to'' = Inr to"
    and "before = filter (\<lambda>t. \<not> text_ge (js_prop t ''consensus_timestamp'') to) transactions"
  shows "found \<and> weibars = (earlier + total_moved (js_prop mirrorAccount ''account'') before) * TINYBAR_TO_WEIBAR_COEF"
proof -
  let ?a = "js_prop mirrorAccount ''account''"
  have account: "truthy mirrorAccount" "\<not> nullish (js_prop mirrorAccount ''links'')"
    using assms(7,8) by (cases mirrorAccount; force simp: js_prop_def nullish_def split: option.splits)+
  have "\<not> num_less (Num BALANCES_UPDATE_INTERVAL) (num_minus (Num now) (Num start))"
    using assms(5) by (simp add: num_minus_def BALANCES_UPDATE_INTERVAL_def to_number_exact)
  with assms account obtain b where b: "getBalanceAtBlockTimestamp ?a transactions to = Inr b"
    and w: "found" "weibars = to_number (n - b) * TINYBAR_TO_WEIBAR_COEF"
    by (auto simp: getBalanceAtBlockNumber_def and_do_Inr_iff lift_Inr_iff ret_def Let_def split: if_splits)
  have "n - b = earlier + total_moved ?a before"
    using getBalanceAtBlockTimestamp_total [OF b assms(12)] assms(11,15)
      total_moved_partition [of ?a transactions "\<lambda>t. text_ge (js_prop t ''consensus_timestamp'') to"] by simp
  with w assms(13) show ?thesis by (simp add: to_number_exact)
qed

definition transfer_at :: "string \<Rightarrow> int \<Rightarrow> jsv" where
  "transfer_at t amount = JObj
     [(''consensus_timestamp'', JStr t),
      (''transfers'', JArr [JObj [(''account'', JStr ''0.0.5''), (''amount'', JNum amount), (''is_approval'', JBool False)]])]"

definition recent_account :: "(string \<times> jsv) list" where
  "recent_account =
     [(''accounts/0xa?limit=100'',
       JObj [(''account'', JStr ''0.0.5''), (''balance'', JObj [(''balance'', JNum 100)]),
             (''transactions'', JArr [transfer_at ''9.0'' 20, transfer_at ''5.0'' 10]), (''links'', JObj [(''next'', JNull)])])]"

definition sample_accounts :: "(string \<times> jsv) list \<Rightarrow> (list_lru, unit, nat) account_env" where
  "sample_accounts table = \<lparr> ae_relay = sample_relay table, ae_blockNumberTtl = 1000, ae_transactionCountTtl = 500 \<rparr>"

theorem recent_balance_before_block_end_witness:
  "\<exists>s'. getBalanceAtBlockNumber (sample_accounts recent_account) ''0xa'' (sample_block 3 ''4.0'' ''9.0'') (JStr ''0x5'', JStr ''12.0'')
     sample_details quiet_relay = (Inr (True, 80 * TINYBAR_TO_WEIBAR_COEF), s')"
proof -
  let ?env = "sample_accounts recent_account" and ?block = "sample_block 3 ''4.0'' ''9.0''"
  obtain r s' where run: "getBalanceAtBlockNumber ?env ''0xa'' ?block (JStr ''0x5'', JStr ''12.0'') sample_details quiet_relay = (r, s')"
    by fastforce
  have "fst (getBalanceAtBlockNumber ?env ''0xa'' ?block (JStr ''0x5'', JStr ''12.0'') sample_details quiet_relay) =
      Inr (True, 800000000000)" by code_simp
  with run have r: "r = Inr (True, 800000000000)" by simp
  let ?ts = "[transfer_at ''9.0'' 20, transfer_at ''5.0'' 10]" and ?a = "JStr ''0.0.5''"
  have numbers: "seconds_number (snd (JStr ''0x5'', JStr ''12.0'')) = Inr (Num 12)" "seconds_number (JStr ''4.0'') = Inr (Num 4)"
    "timestamp_field ?block ''from'' = Inr (JStr ''4.0'')" "timestamp_field ?block ''to'' = Inr (JStr ''9.0'')"
    "fst (getAccountPageLimit (ae_mirror ?env) ''0xa'' sample_details quiet_relay) = Inr (snd (hd recent_account))"
    "concat (map (moved ?a) ?ts) = [20, 10]" "concat (map (moved ?a) [transfer_at ''5.0'' 10]) = [10]"
    "filter (\<lambda>t. \<not> text_ge (js_prop t ''consensus_timestamp'') (JStr ''9.0'')) ?ts = [transfer_at ''5.0'' 10]"
    by code_simp+
  obtain s1 where page: "getAccountPageLimit (ae_mirror ?env) ''0xa'' sample_details quiet_relay = (Inr (snd (hd recent_account)), s1)"
    using numbers(5) by (metis prod.collapse)
  let ?page = "snd (hd recent_account)"
  have fields: "js_prop (js_prop ?page ''links'') ''next'' = JNull" "js_prop ?page ''transactions'' = JArr ?ts"
    "js_prop (js_prop ?page ''balance'') ''balance'' = JNum 100" "truthy (js_prop ?page ''balance'')" "js_prop ?page ''account'' = ?a"
    by (simp_all add: recent_account_def)
  have earlier: "100 = 70 + total_moved (js_prop ?page ''account'') ?ts" "total_moved ?a [transfer_at ''5.0'' 10] = 10"
    "sum_list (map abs (concat (map (moved (js_prop ?page ''account'')) ?ts))) < 2 ^ 53"
    "\<bar>70 + total_moved (js_prop ?page ''account'') [transfer_at ''5.0'' 10]\<bar> < 2 ^ 53"
    unfolding fields(5) total_moved_def numbers(6,7) by simp_all
  have "\<bar>12 - 4\<bar> \<le> BALANCES_UPDATE_INTERVAL" by (simp add: BALANCES_UPDATE_INTERVAL_def)
  from recent_balance_before_block_end [OF run [unfolded r] numbers(1,3,2) this page fields(1,2,3,4) earlier(1,3,4) numbers(4) numbers(8) [symmetric]]
  show ?thesis using run r earlier(2) by (auto simp: fields(5) TINYBAR_TO_WEIBAR_COEF_def)
qed

subsection \<open>The nonce at a block that is still to come\<close>

lemma transaction_count_miss:
  assumes "fst (cached_get (ae_mirror env) (transaction_count_key address tag) s) = Inr v" and "\<not> truthy v"
    and "js_Number tag \<noteq> Num 0" "js_Number tag \<noteq> Num 1"
    and "nonce_at env address tag d (snd (cached_get (ae_mirror env) (transaction_count_key address tag) s)) = (Inr c, s0)"
  shows "getTransactionCount env address tag d s = (Inr (JStr c),
     snd (cached_set (ae_mirror env) (transaction_count_key address tag) (JStr c) (Some (Ms (transaction_count_ttl env tag))) s0))"
  using assms unfolding getTransactionCount_def Let_def by (simp add: and_do_def cached_get_run cached_set_run ret_def)

lemma transaction_count_hit:
  assumes "fst (cached_get (ae_mirror env) (transaction_count_key address tag) s) = Inr v" and "truthy v"
  shows "getTransactionCount env address tag d s = (Inr v, snd (cached_get (ae_mirror env) (transaction_count_key address tag) s))"
  using assms unfolding getTransactionCount_def Let_def by (simp add: and_do_def cached_get_run ret_def)

lemma nonce_near_head:
  assumes "js_Number tag = Num n" and "0 < n" and "text_length tag \<noteq> Some BLOCK_HASH_LENGTH" and "\<not> blockTagIsLatestOrPending tag"
    and "tag \<noteq> BLOCK_EARLIEST"
    and "getLatestBlock (ae_mirror env) d s = (Inr (JObj [(''blocks'', JArr [head])]), s1)" and "js_prop head ''number'' = JNum h"
    and "\<bar>h - n\<bar> < 2 ^ 53" and "h - n \<le> re_maxBlockRange (ae_relay env)"
    and "mn_getAccount (ae_mirror env) address d None JUndef s1 = (Inr account, s2)" and "js_prop account ''ethereum_nonce'' = JNum k"
  shows "nonce_at env address tag d s = (Inr (numberTo0x k), s2)"
proof -
  have "\<not> nullish head" "truthy account" using assms(7,11)
    by (cases head; force simp: js_prop_def nullish_def split: option.splits)
       (use assms(11) in \<open>cases account; force simp: js_prop_def nullish_def split: option.splits\<close>)
  with assms show ?thesis
    by (simp add: nonce_at_def getAccountNonceForHistoricBlock_def and_do_def ret_def lift_def nullish_def num_minus_def
        to_number_exact getAccountLatestEthereumNonce_def)
qed

text \<open>
  The nonce at a block beyond the head, or near it, is the nonce of now, and is the answer for that
  block for a whole day, also when the block has come and the account has sent more transactions.
\<close>

theorem nonce_of_coming_block_lasts:
  assumes "lru_laws (ce_lru (me_cache (ae_mirror env))) look cap" and "internal_only (me_cache (ae_mirror env))"
    and "js_Number tag = Num n" and "1 < n" and "text_length tag \<noteq> Some BLOCK_HASH_LENGTH" and "\<not> blockTagIsLatestOrPending tag"
    and "tag \<noteq> BLOCK_EARLIEST"
    and "fst (cached_get (ae_mirror env) (transaction_count_key address tag) s) = Inr v" and "\<not> truthy v"
    and "getLatestBlock (ae_mirror env) d (snd (cached_get (ae_mirror env) (transaction_count_key address tag) s)) =
           (Inr (JObj [(''blocks'', JArr [head])]), s1)"
    and "js_prop head ''number'' = JNum h" and "\<bar>h - n\<bar> < 2 ^ 53" and "h - n \<le> re_maxBlockRange (ae_relay env)"
    and "mn_getAccount (ae_mirror env) address d None JUndef s1 = (Inr account, s2)" and "js_prop account ''ethereum_nonce'' = JNum k"
  shows "\<exists>s3. getTransactionCount env address tag d s = (Inr (JStr (numberTo0x k)), s3) \<and>
    (\<forall>s4. rs_cache s4 = rs_cache s3 \<and> me_now (ae_mirror env) (rs_world s4) \<le> me_now (ae_mirror env) (rs_world s2) + ONE_DAY \<longrightarrow>
       (\<exists>s5. getTransactionCount env address tag d s4 = (Inr (JStr (numberTo0x k)), s5) \<and> rs_world s5 = rs_world s4))"
proof -
  let ?m = "ae_mirror env" and ?key = "transaction_count_key address tag" and ?c = "JStr (numberTo0x k)"
  have ttl: "transaction_count_ttl env tag = ONE_DAY" using assms(3) by (simp add: transaction_count_ttl_def)
  let ?s3 = "snd (cached_set ?m ?key ?c (Some (Ms ONE_DAY)) s2)"
  have "nonce_at env address tag d (snd (cached_get ?m ?key s)) = (Inr (numberTo0x k), s2)"
    using assms(4) by (intro nonce_near_head [OF assms(3) _ assms(5-7,10-15)]) simp
  from transaction_count_miss [OF assms(8,9) _ _ this] have "getTransactionCount env address tag d s = (Inr ?c, ?s3)"
    using assms(3,4) by (simp add: ttl)
  moreover have "\<exists>s5. getTransactionCount env address tag d s4 = (Inr ?c, s5) \<and> rs_world s5 = rs_world s4"
    if "rs_cache s4 = rs_cache ?s3" "me_now ?m (rs_world s4) \<le> me_now ?m (rs_world s2) + ONE_DAY" for s4
  proof -
    have "fst (cached_get ?m ?key s4) = Inr ?c"
      by (rule cached_get_within [OF assms(1,2) _ _ that]) (simp_all add: ONE_DAY_def)
    moreover have "truthy ?c" by (simp add: numberTo0x_def EMPTY_HEX_def)
    ultimately show ?thesis by (simp add: transaction_count_hit world_of_get)
  qed
  ultimately show ?thesis by blast
qed

definition early_account :: "(string \<times> jsv) list" where
  "early_account =
     [(''blocks?limit=1&order=desc'', JObj [(''blocks'', JArr [sample_block 9 ''18.0'' ''20.0''])]),
      (''accounts/0xa?transactions=false'', JObj [(''ethereum_nonce'', JNum 4)])]"

theorem nonce_of_coming_block_lasts_witness:
  "\<exists>s3. getTransactionCount (sample_accounts early_account) ''0xa'' (JStr ''0x64'') sample_details quiet_relay = (Inr (JStr ''0x4''), s3) \<and>
    (\<exists>s5. getTransactionCount (sample_accounts early_account) ''0xa'' (JStr ''0x64'') sample_details (s3\<lparr> rs_world := 80000000 \<rparr>) =
       (Inr (JStr ''0x4''), s5) \<and> rs_world s5 = 80000000)"
proof -
  let ?env = "sample_accounts early_account" and ?tag = "JStr ''0x64''"
  let ?key = "transaction_count_key ''0xa'' ?tag" and ?head = "sample_block 9 ''18.0'' ''20.0''"
  have tag: "js_Number ?tag = Num 100" "numberTo0x 4 = ''0x4''" "\<not> blockTagIsLatestOrPending ?tag" "?tag \<noteq> BLOCK_EARLIEST"
    "text_length ?tag \<noteq> Some BLOCK_HASH_LENGTH" "js_prop ?head ''number'' = JNum 9"
    by code_simp+
  have paths: "map_of early_account (GET_BLOCKS_ENDPOINT @ getQueryParams (setLimitOrderParams (canned_mirror early_account)
      (getLimitOrderQueryParam 1 ''desc'') (setQueryParam ''timestamp'' JUndef (setQueryParam ''block.number'' JUndef [])))) =
      Some (JObj [(''blocks'', JArr [?head])])"
    "map_of early_account (GET_ACCOUNTS_BY_ID_ENDPOINT @ ''0xa'' @
       getQueryParams (setQueryParam ''transactions'' (JStr ''false'') (setQueryParam ''timestamp'' JUndef []))) =
     Some (JObj [(''ethereum_nonce'', JNum 4)])" by code_simp+
  have mirror: "ae_mirror ?env = canned_mirror early_account" by (simp add: sample_accounts_def sample_relay_def)
  have miss: "fst (cached_get (ae_mirror ?env) ?key quiet_relay) = Inr JNull" by (simp add: mirror cached_get_run)
  let ?s0 = "snd (cached_get (ae_mirror ?env) ?key quiet_relay)"
  have head: "getLatestBlock (ae_mirror ?env) sample_details ?s0 =
      (Inr (JObj [(''blocks'', JArr [?head])]), ?s0\<lparr> rs_world := rs_world ?s0 + 1 \<rparr>)"
    by (simp add: mirror getLatestBlock_def getBlocks_def mn_get_canned paths(1) [simplified])
  let ?s1 = "?s0\<lparr> rs_world := rs_world ?s0 + 1 \<rparr>"
  have account: "mn_getAccount (ae_mirror ?env) ''0xa'' sample_details None JUndef ?s1 =
      (Inr (JObj [(''ethereum_nonce'', JNum 4)]), ?s1\<lparr> rs_world := rs_world ?s1 + 1 \<rparr>)"
    by (simp add: mirror mn_getAccount_def mn_get_canned paths(2) [simplified])
  have laws: "lru_laws (ce_lru (me_cache (ae_mirror ?env))) list_lru_look (\<lambda>c. Suc (fst c))" "internal_only (me_cache (ae_mirror ?env))"
    by (simp_all add: mirror)
  have range: "9 - 100 \<le> re_maxBlockRange (ae_relay ?env)" by (simp add: sample_accounts_def sample_relay_def)
  have "\<bar>9 - 100 :: int\<bar> < 2 ^ 53" by simp
  from nonce_of_coming_block_lasts [OF laws tag(1) _ tag(5,3,4) miss _ head tag(6) this range account] tag(2)
  obtain s3 where 1: "getTransactionCount ?env ''0xa'' ?tag sample_details quiet_relay = (Inr (JStr ''0x4''), s3)"
    and 2: "\<forall>s4. rs_cache s4 = rs_cache s3 \<and> me_now (ae_mirror ?env) (rs_world s4) \<le> me_now (ae_mirror ?env) (rs_world (?s1\<lparr> rs_world := rs_world ?s1 + 1 \<rparr>)) + ONE_DAY \<longrightarrow>
       (\<exists>s5. getTransactionCount ?env ''0xa'' ?tag sample_details s4 = (Inr (JStr ''0x4''), s5) \<and> rs_world s5 = rs_world s4)"
    by auto
  have "\<exists>s5. getTransactionCount ?env ''0xa'' ?tag sample_details (s3\<lparr> rs_world := 80000000 \<rparr>) = (Inr (JStr ''0x4''), s5) \<and>
      rs_world s5 = rs_world (s3\<lparr> rs_world := 80000000 \<rparr>)"
    by (rule 2 [rule_format]) (simp add: mirror ONE_DAY_def)
  with 1 show ?thesis by auto
qed

end
