(* ===== verification/Contracts.thy ===== *)
theory Contracts
  imports Accounts Precheck
begin

section \<open>Calls, gas estimates, code and storage of contracts\<close>

text \<open>
  Models \<open>services/ethService/contractService/ContractService.ts\<close>. The request of a call is an object the
  code changes on its way (amount, prices, \<open>input\<close> moved to \<open>data\<close>). The query of the consensus node, its
  operator and SHA-1 are fields of the environment, as are the configured values; logging and the error
  counter of the consensus client are left out. A number that is not a number is \<open>null\<close>, which is how it
  is sent to the mirror node.
\<close>

record ('c, 'r, 'w) contract_env =
  ct_relay :: "('c, 'r, 'w) relay_env"
  ct_defaultGas :: string
  ct_estimateGasThrows :: bool
  ct_consensusSelectors :: "string list"
  ct_defaultToConsensus :: bool
  ct_ethCallCacheTtl :: int
  ct_operatorKeyIsEcdsa :: bool
  ct_operatorEvmAddress :: jsv
  ct_operatorId :: string
  ct_sha1 :: "string \<Rightarrow> string"
  ct_contractCallQuery ::
    "jsv \<Rightarrow> jsv \<Rightarrow> js_number \<Rightarrow> jsv \<Rightarrow> request_details \<Rightarrow> 'w \<Rightarrow> (thrown + 8 word list option) \<times> 'w"

abbreviation ct_mirror :: "('c, 'r, 'w) contract_env \<Rightarrow> ('c, 'r, 'w) mirror_env" where
  "ct_mirror env \<equiv> re_mirror (ct_relay env)"

definition MAX_GAS_PER_SEC :: int where "MAX_GAS_PER_SEC = 15000000"
definition TX_CONTRACT_CALL_AVERAGE_GAS :: int where "TX_CONTRACT_CALL_AVERAGE_GAS = 500000"
definition MIN_TX_HOLLOW_ACCOUNT_CREATION_GAS :: int where "MIN_TX_HOLLOW_ACCOUNT_CREATION_GAS = 587000"
definition FUNCTION_SELECTOR_CHAR_LENGTH :: nat where "FUNCTION_SELECTOR_CHAR_LENGTH = 10"
definition HTS_ADDRESS :: string where "HTS_ADDRESS = ''0x0000000000000000000000000000000000000167''"
definition ETH_CALL :: string where "ETH_CALL = ''eth_call''"

definition INVALID_HEX :: string where "INVALID_HEX = ''data field invalid hexadecimal string''"

definition mne_isContractRevertOpcodeExecuted :: "mirror_node_error \<Rightarrow> bool" where
  "mne_isContractRevertOpcodeExecuted e = (mne_message e = ''CONTRACT_REVERT_EXECUTED'')"

text \<open>\<open>predefined.CONTRACT_REVERT\<close> with data that may be missing.\<close>

definition contract_revert :: "string option \<Rightarrow> string option \<Rightarrow> json_rpc_error" where
  "contract_revert message data =
     (case data of
        Some d \<Rightarrow> CONTRACT_REVERT message d
      | None \<Rightarrow> JsonRpcError 3 (err_message (CONTRACT_REVERT message '''')) None None)"

definition valid_address :: "jsv \<Rightarrow> bool" where
  "valid_address v = isValidEthereumAddress (case v of JStr s \<Rightarrow> Some s | _ \<Rightarrow> None)"

subsection \<open>Preparing a request\<close>

definition parse_int_field :: "jsv \<Rightarrow> jsv" where
  "parse_int_field v = (case js_parse_int_auto (js_to_string v) of None \<Rightarrow> JNull | Some n \<Rightarrow> JNum n)"

definition weibars_of :: "jsv \<Rightarrow> thrown + int" where
  "weibars_of v =
     (case (case v of JStr s \<Rightarrow> weibarHexToTinyBarInt (BigOfString s) | JNum n \<Rightarrow> weibarHexToTinyBarInt (BigOfInt n)
            | JBool b \<Rightarrow> weibarHexToTinyBarInt (BigOfBool b) | _ \<Rightarrow> Inl ''SyntaxError'') of
        Inl m \<Rightarrow> Inl (ThrownOther m) | Inr n \<Rightarrow> Inr n)"

definition data_from_input :: "jsv \<Rightarrow> jsv" where
  "data_from_input transaction =
     (let input = js_prop transaction ''input''; data = js_prop transaction ''data''
      in if truthy input \<and> (data = JUndef \<or> truthy data)
         then js_delete_prop (js_set_prop transaction ''data'' input) ''input'' else transaction)"

definition operator_address :: "('c, 'r, 'w) contract_env \<Rightarrow> request_details \<Rightarrow> ('c, 'r, 'w, jsv) relay_action" where
  "operator_address env d =
     (if ct_operatorKeyIsEcdsa env then ret (ct_operatorEvmAddress env)
      else and_do (cs_getAccount (ct_relay env) (ct_operatorId env) d) (\<lambda>operatorAccount.
        ret (if nullish operatorAccount then JUndef else js_prop operatorAccount ''evm_address'')))"

text \<open>
  \<open>contractCallFormat\<close> returns what it threw, if it did, and the request as far as it was changed: the
  caller sees the changes also when a later step throws.
\<close>

definition attempt :: "('c, 'r, 'w, 'a) relay_action \<Rightarrow> ('c, 'r, 'w, thrown + 'a) relay_action" where
  "attempt m = (\<lambda>s. case m s of (r, s') \<Rightarrow> (Inr r, s'))"

definition format_sender ::
  "('c, 'r, 'w) contract_env \<Rightarrow> jsv \<Rightarrow> request_details \<Rightarrow> ('c, 'r, 'w, thrown option \<times> jsv) relay_action" where
  "format_sender env transaction d =
     (if \<not> truthy (js_prop transaction ''from'') \<and> (case js_prop transaction ''value'' of JNum n \<Rightarrow> 0 < n | _ \<Rightarrow> False)
      then and_do (attempt (operator_address env d)) (\<lambda>r. case r of
             Inl e \<Rightarrow> ret (Some e, transaction)
           | Inr from \<Rightarrow> ret (None, data_from_input (js_set_prop transaction ''from'' from)))
      else ret (None, data_from_input transaction))"

definition contractCallFormat ::
  "('c, 'r, 'w) contract_env \<Rightarrow> jsv \<Rightarrow> request_details \<Rightarrow> ('c, 'r, 'w, thrown option \<times> jsv) relay_action" where
  "contractCallFormat env transaction d =
     (case (if truthy (js_prop transaction ''value'')
            then and_then (weibars_of (js_prop transaction ''value'')) (\<lambda>n. Inr (js_set_prop transaction ''value'' (JNum n)))
            else Inr transaction) of
        Inl e \<Rightarrow> ret (Some e, transaction)
      | Inr transaction \<Rightarrow>
          and_do (attempt (if truthy (js_prop transaction ''gasPrice'') then ret (parse_int_field (js_prop transaction ''gasPrice''))
                           else and_do (gasPrice (ct_relay env) d) (\<lambda>price. ret (parse_int_field (JStr price))))) (\<lambda>r.
            case r of
              Inl e \<Rightarrow> ret (Some e, transaction)
            | Inr price \<Rightarrow>
                let transaction = js_set_prop transaction ''gasPrice'' price;
                    transaction = (if truthy (js_prop transaction ''gas'')
                                   then js_set_prop transaction ''gas'' (parse_int_field (js_prop transaction ''gas'')) else transaction)
                in format_sender env transaction d))"

text \<open>The gas of a call is cut to the limit of the network; \<open>None\<close> is \<open>null\<close>.\<close>

definition getCappedBlockGasLimit :: "jsv \<Rightarrow> jsv option" where
  "getCappedBlockGasLimit gas =
     (if nullish gas \<or> js_to_string gas = '''' then None
      else case js_parse_int_auto (js_to_string gas) of
        Some n \<Rightarrow> Some (JNum (if MAX_GAS_PER_SEC < n then MAX_GAS_PER_SEC else n))
      | None \<Rightarrow> Some JNull)"

definition getBlockNumberFromHash ::
  "('c, 'r, 'w) contract_env \<Rightarrow> jsv \<Rightarrow> request_details \<Rightarrow> ('c, 'r, 'w, jsv) relay_action" where
  "getBlockNumberFromHash env blockHash d =
     and_do (mn_getBlock (ct_mirror env) blockHash d) (\<lambda>block.
       if nullish block
       then throw (ThrownRpc (RESOURCE_NOT_FOUND (''Block Hash: '' @ [CHR 39] @ js_to_string blockHash @ [CHR 39])))
       else and_do (lift (to_0x (js_prop block ''number''))) (\<lambda>n. ret (JStr n)))"

definition extractBlockNumberOrTag ::
  "('c, 'r, 'w) contract_env \<Rightarrow> jsv \<Rightarrow> request_details \<Rightarrow> ('c, 'r, 'w, jsv) relay_action" where
  "extractBlockNumberOrTag env blockParam d =
     (case blockParam of
        JObj ps \<Rightarrow>
          if \<not> nullish (prop_lookup ps ''blockNumber'') then ret (prop_lookup ps ''blockNumber'')
          else if \<not> nullish (prop_lookup ps ''blockHash'') then getBlockNumberFromHash env (prop_lookup ps ''blockHash'') d
          else throw (ThrownRpc (INVALID_ARGUMENTS ''neither block nor hash specified''))
      | JArr xs \<Rightarrow> throw (ThrownRpc (INVALID_ARGUMENTS ''neither block nor hash specified''))
      | JStr s \<Rightarrow> if s = '''' then ret JNull
                 else if isBlockHash s then getBlockNumberFromHash env blockParam d else ret blockParam
      | _ \<Rightarrow> ret JNull)"

definition spread :: "jsv \<Rightarrow> (string \<times> jsv) list \<Rightarrow> jsv" where
  "spread v ps = foldl (\<lambda>v (k, x). js_set_prop v k x) v ps"

definition prepareMirrorNodeCallData :: "jsv \<Rightarrow> jsv option \<Rightarrow> jsv \<Rightarrow> jsv \<Rightarrow> jsv" where
  "prepareMirrorNodeCallData call gas v block =
     spread call
       ((case gas of Some g \<Rightarrow> [(''gas'', g)] | None \<Rightarrow> []) @ (if v \<noteq> JNull then [(''value'', v)] else []) @
        [(''estimate'', JBool False)] @ (if block \<noteq> JNull then [(''block'', block)] else []))"

subsection \<open>Calls\<close>

definition internal_result :: "thrown \<Rightarrow> js_result" where
  "internal_result e = ResultError (INTERNAL_ERROR (thrown_message_text e))"

definition handleMirrorNodeClientError :: "mirror_node_error \<Rightarrow> thrown + js_result" where
  "handleMirrorNodeClientError e =
     (if mne_isFailInvalid e \<or> mne_isInvalidTransaction e then Inr (ResultValue (JStr EMPTY_HEX))
      else if mne_isContractReverted e
      then Inr (ResultError (contract_revert (case mne_detail e of Some m \<Rightarrow> if m \<noteq> '''' then Some m else Some (mne_message e)
                                                               | None \<Rightarrow> Some (mne_message e)) (mne_data e)))
      else Inl (ThrownMirror e))"

definition handleMirrorNodeError :: "thrown \<Rightarrow> thrown + js_result" where
  "handleMirrorNodeError e =
     (case e of
        ThrownRpc r \<Rightarrow> Inr (ResultError r)
      | ThrownMirror m \<Rightarrow> handleMirrorNodeClientError m
      | _ \<Rightarrow> Inr (internal_result e))"

definition executeMirrorNodeCall ::
  "('c, 'r, 'w) contract_env \<Rightarrow> jsv \<Rightarrow> request_details \<Rightarrow> ('c, 'r, 'w, js_result) relay_action" where
  "executeMirrorNodeCall env callData d =
     and_do (postContractCall (ct_mirror env) callData d) (\<lambda>contractCallResponse.
       let result = js_prop contractCallResponse ''result''
       in ret (ResultValue (JStr (if truthy result then prepend0x (js_to_string result) else EMPTY_HEX))))"

definition callMirrorNode ::
  "('c, 'r, 'w) contract_env \<Rightarrow> jsv \<Rightarrow> jsv option \<Rightarrow> jsv \<Rightarrow> jsv \<Rightarrow> request_details \<Rightarrow> ('c, 'r, 'w, js_result) relay_action" where
  "callMirrorNode env call gas v block d =
     catch_do (executeMirrorNodeCall env (prepareMirrorNodeCallData call gas v block) d)
       (\<lambda>e. lift (handleMirrorNodeError e))"

definition validateAddresses :: "jsv \<Rightarrow> thrown + unit" where
  "validateAddresses call =
     (let from = js_prop call ''from''; to = js_prop call ''to'' in
      if truthy from \<and> \<not> valid_address from then Inl (ThrownRpc (NON_EXISTING_ACCOUNT (js_to_string from)))
      else if \<not> valid_address to then Inl (ThrownRpc (INVALID_CONTRACT_ADDRESS (if truthy to then js_to_string to else '''')))
      else Inr ())"

definition call_key :: "('c, 'r, 'w) contract_env \<Rightarrow> jsv \<Rightarrow> string" where
  "call_key env call =
     (let data = js_prop call ''data'' in
      ETH_CALL @ '':'' @ (if truthy (js_prop call ''from'') then js_to_string (js_prop call ''from'') else '''') @ ''.'' @
      js_to_string (js_prop call ''to'') @ ''.'' @ (if truthy data then ct_sha1 env (js_to_string data) else ''null''))"

definition tryGetCachedResponse ::
  "('c, 'r, 'w) contract_env \<Rightarrow> jsv \<Rightarrow> ('c, 'r, 'w, jsv) relay_action" where
  "tryGetCachedResponse env call =
     and_do (cached_get (ct_mirror env) (call_key env call)) (\<lambda>cachedResponse.
       ret (if cachedResponse = JNull then JUndef else cachedResponse))"

definition cacheResponse ::
  "('c, 'r, 'w) contract_env \<Rightarrow> jsv \<Rightarrow> string \<Rightarrow> ('c, 'r, 'w, unit) relay_action" where
  "cacheResponse env call response =
     cached_set (ct_mirror env) (call_key env call) (JStr response) (Some (Ms (ct_ethCallCacheTtl env)))"

definition executeConsensusNodeCall ::
  "('c, 'r, 'w) contract_env \<Rightarrow> jsv \<Rightarrow> js_number \<Rightarrow> request_details \<Rightarrow> ('c, 'r, 'w, js_result) relay_action" where
  "executeConsensusNodeCall env call gas d =
     and_do (\<lambda>s. case ct_contractCallQuery env (js_prop call ''to'') (js_prop call ''data'') gas (js_prop call ''from'') d (rs_world s) of
                   (r, w) \<Rightarrow> (r, s\<lparr> rs_world := w \<rparr>)) (\<lambda>contractCallResponse.
       case contractCallResponse of
         None \<Rightarrow> ret (ResultError (INTERNAL_ERROR ''Invalid contractCallResponse from consensus-node: undefined''))
       | Some bs \<Rightarrow>
           and_do (cacheResponse env call (bytes_hex bs)) (\<lambda>u. ret (ResultValue (JStr (bytes_hex bs)))))"

definition handleConsensusNodeError :: "thrown \<Rightarrow> js_result" where
  "handleConsensusNodeError e = (case e of ThrownRpc r \<Rightarrow> ResultError r | _ \<Rightarrow> internal_result e)"

definition callConsensusNode ::
  "('c, 'r, 'w) contract_env \<Rightarrow> jsv \<Rightarrow> jsv option \<Rightarrow> request_details \<Rightarrow> ('c, 'r, 'w, js_result) relay_action" where
  "callConsensusNode env call gas d =
     (let gas' = (case gas of
                    None \<Rightarrow> (case js_parse_int_auto (ct_defaultGas env) of Some n \<Rightarrow> Num n | None \<Rightarrow> NotANumber)
                  | Some (JNum n) \<Rightarrow> Num n
                  | Some _ \<Rightarrow> NotANumber)
      in catch_do
           (and_do (lift (validateAddresses call)) (\<lambda>u.
            and_do (tryGetCachedResponse env call) (\<lambda>cachedResponse.
              if \<not> nullish cachedResponse then ret (ResultValue cachedResponse)
              else executeConsensusNodeCall env call gas' d)))
           (\<lambda>e. ret (handleConsensusNodeError e)))"

definition routeAndExecuteCall ::
  "('c, 'r, 'w) contract_env \<Rightarrow> jsv \<Rightarrow> jsv option \<Rightarrow> jsv \<Rightarrow> request_details \<Rightarrow> ('c, 'r, 'w, js_result) relay_action" where
  "routeAndExecuteCall env call gas blockNumberOrTag d =
     (let selector = getFunctionSelector (Some (if truthy (js_prop call ''data'') then js_to_string (js_prop call ''data'') else ''0x''));
          shouldForceToConsensus = (selector \<noteq> '''' \<and> selector \<in> set (ct_consensusSelectors env))
      in if shouldForceToConsensus \<or> ct_defaultToConsensus env then callConsensusNode env call gas d
         else callMirrorNode env call gas (js_prop call ''value'') blockNumberOrTag d)"

definition eth_call ::
  "('c, 'r, 'w) contract_env \<Rightarrow> jsv \<Rightarrow> jsv \<Rightarrow> request_details \<Rightarrow> ('c, 'r, 'w, js_result) relay_action" where
  "eth_call env call blockParam d =
     catch_do
       (if truthy (js_prop call ''to'') \<and> \<not> valid_address (js_prop call ''to'')
        then throw (ThrownRpc (INVALID_CONTRACT_ADDRESS (js_to_string (js_prop call ''to''))))
        else and_do (extractBlockNumberOrTag env blockParam d) (\<lambda>blockNumberOrTag.
          let gas = getCappedBlockGasLimit (js_prop call ''gas'') in
          and_do (contractCallFormat env call d) (\<lambda>(failure, call).
            case failure of
              Some e \<Rightarrow> throw e
            | None \<Rightarrow> routeAndExecuteCall env call gas blockNumberOrTag d)))
       (\<lambda>e. case e of
          ThrownRpc r \<Rightarrow> throw e
        | ThrownMirror m \<Rightarrow> throw e
        | _ \<Rightarrow> ret (internal_result e))"

definition accounts :: "jsv list" where
  "accounts = []"

subsection \<open>Estimating gas\<close>

definition estimateGasFromMirrorNode ::
  "('c, 'r, 'w) contract_env \<Rightarrow> jsv \<Rightarrow> request_details \<Rightarrow> ('c, 'r, 'w, jsv) relay_action" where
  "estimateGasFromMirrorNode env transaction d =
     postContractCall (ct_mirror env) (spread transaction [(''estimate'', JBool True)]) d"

definition simple_transfer_gas ::
  "('c, 'r, 'w) contract_env \<Rightarrow> jsv \<Rightarrow> request_details \<Rightarrow> ('c, 'r, 'w, js_result) relay_action" where
  "simple_transfer_gas env transaction d =
     (if (case js_Number (js_prop transaction ''value'') of Num n \<Rightarrow> 0 \<le> n | NotANumber \<Rightarrow> False) then
        and_do (cs_getAccount (ct_relay env) (js_to_string (js_prop transaction ''to'')) d) (\<lambda>account.
          ret (ResultValue (JStr (numberTo0x (if truthy account then TX_BASE_COST else MIN_TX_HOLLOW_ACCOUNT_CREATION_GAS)))))
      else ret (ResultError (INVALID_PARAMETER ''0''
             (''Invalid '' @ [CHR 39] @ ''value'' @ [CHR 39] @
              '' field in transaction param. Value must be greater than or equal to 0''))))"

text \<open>
  \<open>error?.isContractReverted()\<close>: there is no such method on an error of another class, and calling it
  throws.
\<close>

definition reverted_creation :: "thrown option \<Rightarrow> thrown + json_rpc_error option" where
  "reverted_creation failure =
     (case failure of
        None \<Rightarrow> Inr None
      | Some (ThrownMirror m) \<Rightarrow>
          Inr (if mne_isContractReverted m \<and> mne_message m \<noteq> INVALID_HEX
               then Some (contract_revert (mne_detail m) (mne_data m)) else None)
      | Some _ \<Rightarrow> Inl type_error)"

definition predefinedGasForTransaction ::
  "('c, 'r, 'w) contract_env \<Rightarrow> jsv \<Rightarrow> request_details \<Rightarrow> thrown option \<Rightarrow> ('c, 'r, 'w, js_result) relay_action" where
  "predefinedGasForTransaction env transaction d failure =
     (let to = js_prop transaction ''to''; data = js_prop transaction ''data'';
          isSimpleTransfer = (truthy to \<and> (\<not> truthy data \<or> data = JStr EMPTY_HEX));
          isContractCall = (truthy to \<and> truthy data \<and> (case text_length data of Some n \<Rightarrow> FUNCTION_SELECTOR_CHAR_LENGTH \<le> n | None \<Rightarrow> False));
          isContractCreate = (\<not> truthy to \<and> truthy data \<and> data \<noteq> JStr EMPTY_HEX)
      in if isSimpleTransfer then simple_transfer_gas env transaction d
         else if isContractCreate then
           and_do (lift (if ct_estimateGasThrows env then reverted_creation failure else Inr None)) (\<lambda>revert.
             ret (case revert of
                    Some e \<Rightarrow> ResultError e
                  | None \<Rightarrow> ResultValue (JStr (numberTo0x (transactionIntrinsicGasCost (js_to_string data))))))
         else if isContractCall then ret (ResultValue (JStr (numberTo0x TX_CONTRACT_CALL_AVERAGE_GAS)))
         else ret (ResultValue (JStr (ct_defaultGas env))))"

definition estimate_failed ::
  "('c, 'r, 'w) contract_env \<Rightarrow> jsv \<Rightarrow> request_details \<Rightarrow> thrown \<Rightarrow> ('c, 'r, 'w, js_result) relay_action" where
  "estimate_failed env transaction d e =
     (case e of
        ThrownMirror m \<Rightarrow>
          if ct_estimateGasThrows env \<and> mne_isContractRevertOpcodeExecuted m
          then ret (ResultError (contract_revert (case mne_detail m of Some t \<Rightarrow> Some t | None \<Rightarrow> Some (mne_message m)) (mne_data m)))
          else predefinedGasForTransaction env transaction d (Some e)
      | _ \<Rightarrow> predefinedGasForTransaction env transaction d (Some e))"

definition estimateGas ::
  "('c, 'r, 'w) contract_env \<Rightarrow> jsv \<Rightarrow> request_details \<Rightarrow> ('c, 'r, 'w, js_result) relay_action" where
  "estimateGas env transaction d =
     and_do (contractCallFormat env transaction d) (\<lambda>(failure, transaction).
       case failure of
         Some e \<Rightarrow> estimate_failed env transaction d e
       | None \<Rightarrow>
           catch_do
             (and_do (estimateGasFromMirrorNode env transaction d) (\<lambda>response.
                if truthy (js_prop response ''result'')
                then ret (ResultValue (JStr (prepend0x (trimPrecedingZeros (js_to_string (js_prop response ''result''))))))
                else predefinedGasForTransaction env transaction d None))
             (estimate_failed env transaction d))"

subsection \<open>Code, storage and logs\<close>

text \<open>\<open>parseFloat(a) > parseFloat(b)\<close> of the mirror node's timestamps.\<close>

definition later_than :: "jsv \<Rightarrow> jsv \<Rightarrow> bool" where
  "later_than a b = (case (seconds_of a, seconds_of b) of (Some x, Some y) \<Rightarrow> y < x | _ \<Rightarrow> False)"

definition getCode ::
  "('c, 'r, 'w) contract_env \<Rightarrow> string \<Rightarrow> jsv \<Rightarrow> request_details \<Rightarrow> ('c, 'r, 'w, jsv) relay_action" where
  "getCode env address blockNumber d =
     (if \<not> isBlockParamValid blockNumber
      then throw (ThrownRpc (UNKNOWN_BLOCK (Some
             (''The value passed is not a valid blockHash/blockNumber/blockTag value: '' @ js_to_string blockNumber))))
      else if address = HTS_ADDRESS then ret (JStr INVALID_EVM_INSTRUCTION)
      else and_do (resolveEntityType (ct_mirror env) address d [TYPE_CONTRACT, TYPE_TOKEN] None None) (\<lambda>result.
        if truthy result then
          and_do (getHistoricalBlockResponse (ct_relay env) d blockNumber True) (\<lambda>blockInfo.
            if \<not> truthy blockInfo then ret (JStr EMPTY_HEX)
            else and_do (lift (timestamp_field blockInfo ''to'')) (\<lambda>to.
              let entity = js_prop result ''entity'' in
              if later_than (js_prop entity ''created_timestamp'') to then ret (JStr EMPTY_HEX)
              else if js_prop result ''type'' = JStr TYPE_TOKEN then ret (JStr (redirectBytecodeAddressReplace address))
              else if js_prop result ''type'' = JStr TYPE_CONTRACT then
                (if nullish entity then throw type_error
                 else if js_prop entity ''runtime_bytecode'' \<noteq> JStr EMPTY_HEX then ret (js_prop entity ''runtime_bytecode'')
                 else ret (JStr EMPTY_HEX))
              else ret (JStr EMPTY_HEX)))
        else ret (JStr EMPTY_HEX)))"

definition getStorageAt ::
  "('c, 'r, 'w) contract_env \<Rightarrow> string \<Rightarrow> string \<Rightarrow> jsv \<Rightarrow> request_details \<Rightarrow> ('c, 'r, 'w, jsv) relay_action" where
  "getStorageAt env address slot blockNumberOrTagOrHash d =
     and_do (getHistoricalBlockResponse (ct_relay env) d blockNumberOrTagOrHash False) (\<lambda>blockResponse.
       if \<not> blockTagIsLatestOrPending blockNumberOrTagOrHash \<and> nullish blockResponse
       then throw (ThrownRpc (RESOURCE_NOT_FOUND (''block '' @ [CHR 39] @ js_to_string blockNumberOrTagOrHash @ [CHR 39] @ ''.'')))
       else let blockEndTimestamp = js_prop (js_prop blockResponse ''timestamp'') ''to'' in
         catch_do
           (and_do (getContractStateByAddressAndSlot (ct_mirror env) address slot d blockEndTimestamp) (\<lambda>response.
              if response = JNull then ret (JStr ZERO_HEX_32_BYTE)
              else if response = JUndef then throw type_error
              else case js_prop response ''state'' of
                JArr [] \<Rightarrow> ret (JStr ZERO_HEX_32_BYTE)
              | JArr (entry # rest) \<Rightarrow> if nullish entry then throw type_error else ret (js_prop entry ''value'')
              | v \<Rightarrow> if nullish v then throw type_error else ret (JStr ZERO_HEX_32_BYTE)))
           (\<lambda>e. throw (genericErrorHandler e)))"

definition contract_getLogs ::
  "('c, 'r, 'w) contract_env \<Rightarrow> jsv \<Rightarrow> request_details \<Rightarrow> ('c, 'r, 'w, jsv list) relay_action" where
  "contract_getLogs env params d =
     getLogs (ct_relay env) (js_prop params ''blockHash'') (js_prop params ''fromBlock'') (js_prop params ''toBlock'')
       (js_prop params ''address'') (js_prop params ''topics'') d"

subsection \<open>Block hashes\<close>

lemma block_hash_not_number: "isBlockHash h \<Longrightarrow> \<not> isBlockNumValid h"
proof
  assume hash: "isBlockHash h" and number: "isBlockNumValid h"
  let ?r = "drop 2 h"
  have r: "length ?r = 64" "list_all (is_digit_in 16) ?r" and p: "take 2 h = ''0x'' \<or> take 2 h = ''0X''"
    using hash by (auto simp: isBlockHash_def hex_text_of_length_def)
  from r obtain c cs where c: "?r = c # cs" and len: "length cs = 63" by (cases ?r) auto
  have nz: "c \<noteq> CHR ''0''" and digit: "is_digit_in 16 c"
    using number r c by (auto simp: isBlockNumValid_def Let_def split: if_splits)
  have "(of_char c :: nat) \<noteq> of_char (CHR ''0'')" using nz by (metis char_of_char)
  with digit obtain d where d: "digit_val c = Some d" "0 < d"
    by (auto simp: is_digit_in_def digit_val_def Let_def split: if_splits option.splits)
  have "16 ^ 63 \<le> of_base 16 ?r" using of_base_Cons_ge [OF d, of 16 cs] by (simp add: c len)
  have space: "\<not> js_space (CHR ''0'')" by code_simp
  have h: "h = take 2 h @ ?r" by simp
  have "hd h = CHR ''0''" using p by (cases h) (auto simp: numeral_2_eq_2)
  moreover have "last h = last ?r" using r by (subst h) (auto simp: last_append)
  moreover have "is_digit_in 16 (last ?r)" using r c by (metis last_in_set list.discI list_all_iff)
  ultimately have "js_trim h = h" using space c is_digit_in_not_space by (intro js_trim_id) auto
  then have "js_string_to_bigint h = Some (int (of_base 16 ?r))"
    using p r c by (auto simp: js_string_to_bigint_def Let_def all_digits_def)
  then have "to_number (int (of_base 16 ?r)) < 2 ^ 53" using number by (simp add: isBlockNumValid_def Let_def)
  then have "int (of_base 16 ?r) < 2 ^ 53" by (rule to_number_safe) simp
  with \<open>16 ^ 63 \<le> of_base 16 ?r\<close> show False by simp
qed

text \<open>
  The code of a contract cannot be asked for at a block hash: although the parameter may be one, it is
  refused as not being a valid block hash, number or tag, before anything is looked up.
\<close>

theorem code_at_block_hash_refused:
  assumes "isBlockHash h"
  shows "getCode env address (JStr h) d s = (Inl (ThrownRpc (UNKNOWN_BLOCK (Some
     (''The value passed is not a valid blockHash/blockNumber/blockTag value: '' @ h)))), s)"
proof -
  have "length h = 66" using assms by (auto simp: isBlockHash_def hex_text_of_length_def)
  then have "\<not> isBlockParamValid (JStr h)"
    using block_hash_not_number [OF assms]
    by (auto simp: isBlockParamValid_def nullish_def isBlockTagEarliest_def isBlockTagFinalized_def BLOCK_EARLIEST_def
        BLOCK_FINALIZED_def BLOCK_LATEST_def BLOCK_PENDING_def BLOCK_SAFE_def)
  then show ?thesis by (simp add: getCode_def throw_def)
qed

subsection \<open>The gas of a call\<close>

lemma data_from_input_prop: "k \<notin> {''data'', ''input''} \<Longrightarrow> js_prop (data_from_input t) k = js_prop t k"
proof -
  assume k: "k \<notin> {''data'', ''input''}"
  have "js_prop (js_delete_prop v ''input'') k = js_prop v k" for v
    using k prop_lookup_filter [of "\<lambda>a. a \<noteq> ''input''"] by (cases v) auto
  with k show ?thesis by (auto simp: data_from_input_def Let_def js_prop_set_other)
qed

lemma attempt_case_Inr_iff:
  "and_do (attempt m) (\<lambda>r. case r of Inl e \<Rightarrow> f e | Inr a \<Rightarrow> g a) s = (Inr b, s'') \<longleftrightarrow>
     (\<exists>e s1. m s = (Inl e, s1) \<and> f e s1 = (Inr b, s'')) \<or> (\<exists>a s1. m s = (Inr a, s1) \<and> g a s1 = (Inr b, s''))"
  by (cases "m s") (auto simp: and_do_def attempt_def split: sum.split)

lemma is_plain_object_from_input: "is_plain_object (data_from_input t) = is_plain_object t"
proof -
  have "is_plain_object (js_delete_prop v k) = is_plain_object v" for v k by (cases v) auto
  then show ?thesis by (simp add: data_from_input_def Let_def is_plain_object_set)
qed

lemma format_sender_gas:
  "format_sender env t d s = (Inr (None, t'), s') \<Longrightarrow>
     js_prop t' ''gas'' = js_prop t ''gas'' \<and> is_plain_object t' = is_plain_object t"
  by (auto simp: format_sender_def attempt_case_Inr_iff ret_def data_from_input_prop js_prop_set_other
      is_plain_object_from_input is_plain_object_set split: if_splits)

lemma format_gas:
  assumes "contractCallFormat env call d s = (Inr (None, call'), s')" and "is_plain_object call"
  shows "js_prop call' ''gas'' = (if truthy (js_prop call ''gas'') then parse_int_field (js_prop call ''gas'') else js_prop call ''gas'')"
    and "is_plain_object call'"
proof -
  from assms(1) obtain t price s1 where t: "(if truthy (js_prop call ''value'')
            then and_then (weibars_of (js_prop call ''value'')) (\<lambda>n. Inr (js_set_prop call ''value'' (JNum n)))
            else Inr call) = Inr t"
    and f: "format_sender env (if truthy (js_prop (js_set_prop t ''gasPrice'' price) ''gas'')
        then js_set_prop (js_set_prop t ''gasPrice'' price) ''gas'' (parse_int_field (js_prop (js_set_prop t ''gasPrice'' price) ''gas''))
        else js_set_prop t ''gasPrice'' price) d s1 = (Inr (None, call'), s')"
    unfolding contractCallFormat_def Let_def
    by (cases "if truthy (js_prop call ''value'')
            then and_then (weibars_of (js_prop call ''value'')) (\<lambda>n. Inr (js_set_prop call ''value'' (JNum n)))
            else Inr call") (auto simp: attempt_case_Inr_iff ret_def)
  from t have "js_prop t ''gas'' = js_prop call ''gas''" "is_plain_object t"
    using assms(2) by (auto simp: and_then_Inr_iff js_prop_set_other is_plain_object_set split: if_splits)
  with format_sender_gas [OF f]
  show "js_prop call' ''gas'' = (if truthy (js_prop call ''gas'') then parse_int_field (js_prop call ''gas'') else js_prop call ''gas'')"
    and "is_plain_object call'"
    by (auto simp: js_prop_set_other js_prop_set_same is_plain_object_set split: if_splits)
qed

lemma parse_int_empty: "js_parse_int_auto '''' = None"
  by code_simp

lemma spread_other: "k \<notin> fst ` set ps \<Longrightarrow> js_prop (spread v ps) k = js_prop v k"
  by (induction ps arbitrary: v) (auto simp: spread_def js_prop_set_other)

lemma posted_gas:
  "is_plain_object call \<Longrightarrow> js_prop (prepareMirrorNodeCallData call gas v block) ''gas'' =
     (case gas of Some g \<Rightarrow> g | None \<Rightarrow> js_prop call ''gas'')"
proof (cases gas)
  case (Some g)
  assume "is_plain_object call"
  moreover have "prepareMirrorNodeCallData call gas v block = spread (js_set_prop call ''gas'' g)
     ((if v \<noteq> JNull then [(''value'', v)] else []) @ [(''estimate'', JBool False)] @ (if block \<noteq> JNull then [(''block'', block)] else []))"
    by (simp add: prepareMirrorNodeCallData_def Some spread_def)
  ultimately show ?thesis by (subst \<open>prepareMirrorNodeCallData call gas v block = _\<close>) (auto simp: spread_other js_prop_set_same Some)
qed (auto simp: prepareMirrorNodeCallData_def intro!: spread_other)

text \<open>
  Whatever gas the client names, the call that is sent to the mirror node has none above the limit of
  the network.
\<close>

theorem posted_gas_within_limit:
  assumes "contractCallFormat env call d s = (Inr (None, call'), s')" and "is_plain_object call"
    and "js_prop (prepareMirrorNodeCallData call' (getCappedBlockGasLimit (js_prop call ''gas'')) v block) ''gas'' = JNum n"
  shows "n \<le> MAX_GAS_PER_SEC"
proof -
  have "is_plain_object call'" by (rule format_gas(2) [OF assms(1,2)])
  then have "(case getCappedBlockGasLimit (js_prop call ''gas'') of Some g \<Rightarrow> g | None \<Rightarrow> js_prop call' ''gas'') = JNum n"
    using posted_gas assms(3) by simp
  then show ?thesis
    using format_gas(1) [OF assms(1,2)] parse_int_empty
    by (cases "js_prop call ''gas''") (auto simp: getCappedBlockGasLimit_def nullish_def parse_int_field_def split: option.splits if_splits)
qed

definition sample_contracts :: "(string \<times> jsv) list \<Rightarrow> (list_lru, unit, nat) contract_env" where
  "sample_contracts table =
     \<lparr> ct_relay = sample_relay table, ct_defaultGas = ''0x61a80'', ct_estimateGasThrows = True, ct_consensusSelectors = [],
       ct_defaultToConsensus = False, ct_ethCallCacheTtl = 200, ct_operatorKeyIsEcdsa = True, ct_operatorEvmAddress = JStr ''0xop'',
       ct_operatorId = ''0.0.2'', ct_sha1 = (\<lambda>s. s), ct_contractCallQuery = (\<lambda>to data gas from d w. (Inr None, w)) \<rparr>"

definition greedy_call :: jsv where
  "greedy_call = JObj [(''to'', JStr ''0x00000000000000000000000000000000000000aa''), (''gas'', JNum 20000000), (''gasPrice'', JNum 1)]"

lemma parse_int_auto_show:
  assumes "0 \<le> n" and "n < 2 ^ 53"
  shows "js_parse_int_auto (show_int n) = Some n"
proof -
  let ?t = "to_base 10 (nat n)"
  have digits: "\<forall>c \<in> set ?t. is_digit_in 10 c" by (rule to_base_digits) simp_all
  obtain c cs where t: "?t = c # cs" by (cases ?t) auto
  then have c: "is_digit_in 10 c" "\<forall>c \<in> set cs. is_digit_in 10 c" using digits by auto
  have start: "dropWhile js_space ?t = ?t" "\<not> starts_with ''-'' ?t" "\<not> starts_with ''+'' ?t" "\<not> starts_with ''0x'' ?t" "\<not> starts_with ''0X'' ?t"
    using c is_digit_in_not_space [of 10 c] is_digit_in_not_mark [of 10 c] is_digit_in_not_mark [of 10 "hd cs"]
    by (cases cs; simp add: t starts_with_def; force)+
  then have "js_parse_int_auto ?t = js_parse_int 10 ?t" by (simp add: js_parse_int_auto_def Let_def)
  also have "\<dots> = Some n"
    using assms js_parse_int_to_base [of 10 "nat n"] by (simp add: to_number_exact)
  finally show ?thesis using assms by (simp add: int_to_base_def)
qed

lemma greedy_numbers: "parse_int_field (JNum 20000000) = JNum 20000000" "parse_int_field (JNum 1) = JNum 1"
  "getCappedBlockGasLimit (JNum 20000000) = Some (JNum 15000000)"
  using parse_int_auto_show [of 20000000] parse_int_auto_show [of 1] show_int_not_Nil [of 20000000]
  by (simp_all add: parse_int_field_def getCappedBlockGasLimit_def nullish_def MAX_GAS_PER_SEC_def)

lemma greedy_formatted: "contractCallFormat env greedy_call d s = (Inr (None, greedy_call), s)"
  by (simp add: contractCallFormat_def greedy_call_def attempt_def and_do_def ret_def greedy_numbers format_sender_def data_from_input_def)

theorem code_at_block_hash_refused_witness:
  "fst (getCode (sample_contracts []) ''0xa'' (JStr (''0x'' @ replicate 64 (CHR ''7''))) sample_details quiet_relay) =
     Inl (ThrownRpc (UNKNOWN_BLOCK (Some
       (''The value passed is not a valid blockHash/blockNumber/blockTag value: '' @ ''0x'' @ replicate 64 (CHR ''7'')))))"
proof -
  have "isBlockHash (''0x'' @ replicate 64 (CHR ''7''))" by code_simp
  from code_at_block_hash_refused [OF this, of "sample_contracts []" "''0xa''" sample_details quiet_relay] show ?thesis by simp
qed

theorem posted_gas_within_limit_witness:
  "js_prop (prepareMirrorNodeCallData greedy_call (getCappedBlockGasLimit (JNum 20000000)) JUndef JNull) ''gas'' = JNum 15000000 \<and>
     15000000 \<le> MAX_GAS_PER_SEC"
proof -
  have gas: "js_prop greedy_call ''gas'' = JNum 20000000" "is_plain_object greedy_call" by (simp_all add: greedy_call_def)
  have "js_prop (prepareMirrorNodeCallData greedy_call (getCappedBlockGasLimit (js_prop greedy_call ''gas'')) JUndef JNull) ''gas'' = JNum 15000000"
    by (simp add: posted_gas gas greedy_numbers)
  with posted_gas_within_limit [OF greedy_formatted gas(2) this] gas(1) show ?thesis by simp
qed

subsection \<open>Failures of a call\<close>

text \<open>
  C32. When the mirror node fails a call, the client gets an empty result for an invalid transaction, the
  revert with its reason for a status of 400, and the failure itself for any other status.
\<close>

theorem call_failure_reported:
  assumes "\<not> truthy (js_prop call ''to'') \<or> valid_address (js_prop call ''to'')"
    and "extractBlockNumberOrTag env blockParam d s = (Inr block, s1)"
    and "contractCallFormat env call d s1 = (Inr (None, call'), s2)"
    and "\<not> ct_defaultToConsensus env" and "ct_consensusSelectors env = []"
    and "postContractCall (ct_mirror env) (prepareMirrorNodeCallData call' (getCappedBlockGasLimit (js_prop call ''gas''))
           (js_prop call' ''value'') block) d s2 = (Inl (ThrownMirror m), s3)"
  shows "eth_call env call blockParam d s =
    (if mne_message m = ''FAIL_INVALID'' \<or> mne_message m = ''INVALID_TRANSACTION'' then Inr (ResultValue (JStr ''0x''))
     else if mne_statusCode m = 400
     then Inr (ResultError (contract_revert (Some (case mne_detail m of Some t \<Rightarrow> if t \<noteq> '''' then t else mne_message m | None \<Rightarrow> mne_message m))
                              (mne_data m)))
     else Inl (ThrownMirror m), s3)"
proof -
  let ?gas = "getCappedBlockGasLimit (js_prop call ''gas'')"
  have "routeAndExecuteCall env call' ?gas block d s2 = (handleMirrorNodeClientError m, s3)"
    using assms(4-6)
    by (simp add: routeAndExecuteCall_def Let_def callMirrorNode_def executeMirrorNodeCall_def and_do_def catch_do_def lift_def
        handleMirrorNodeError_def)
  moreover have to: "(truthy (js_prop call ''to'') \<and> \<not> valid_address (js_prop call ''to'')) = False" using assms(1) by blast
  moreover have "handleMirrorNodeClientError m = Inl e \<Longrightarrow> e = ThrownMirror m" for e
    by (simp add: handleMirrorNodeClientError_def split: if_splits)
  ultimately have "eth_call env call blockParam d s = (handleMirrorNodeClientError m, s3)"
    using assms(2,3) unfolding eth_call_def to
    by (cases "handleMirrorNodeClientError m") (simp_all add: and_do_def catch_do_def throw_def)
  then show ?thesis
    by (simp add: handleMirrorNodeClientError_def mne_isFailInvalid_def mne_isInvalidTransaction_def
        mne_isContractReverted_def EMPTY_HEX_def split: option.split)
qed

text \<open>A web3 module that answers every post with a failure.\<close>

definition failing_web3 :: "int \<Rightarrow> string \<Rightarrow> (list_lru, unit, nat) contract_env" where
  "failing_web3 status message =
     (let env = sample_contracts []; relay = ct_relay env; mirror = re_mirror relay
      in env\<lparr> ct_relay := relay\<lparr> re_mirror := mirror\<lparr> me_http := (\<lambda>req w.
           (HttpFailed \<lparr> hce_message = message, hce_status_messages = [] \<rparr> (Some status) None, w)) \<rparr> \<rparr> \<rparr>)"

theorem call_failure_reported_witness:
  "eth_call (failing_web3 429 ''Too Many Requests'') greedy_call JNull sample_details quiet_relay =
     (Inl (ThrownMirror \<lparr> mne_message = ''Too Many Requests'', mne_statusCode = 429, mne_detail = None, mne_data = None \<rparr>), quiet_relay)"
proof -
  let ?env = "failing_web3 429 ''Too Many Requests''"
  let ?m = "\<lparr> mne_message = ''Too Many Requests'', mne_statusCode = 429, mne_detail = None, mne_data = None \<rparr>"
  have to: "\<not> truthy (js_prop greedy_call ''to'') \<or> valid_address (js_prop greedy_call ''to'')" by code_simp
  have block: "extractBlockNumberOrTag ?env JNull sample_details quiet_relay = (Inr JNull, quiet_relay)"
    by (simp add: extractBlockNumberOrTag_def ret_def)
  have posted: "postContractCall (ct_mirror ?env) v sample_details quiet_relay = (Inl (ThrownMirror ?m), quiet_relay)" for v
    by (simp add: failing_web3_def Let_def postContractCall_def mn_post_def mn_request_def handleError_def acceptedErrorStatuses_def
        sample_contracts_def sample_relay_def canned_mirror_def effectiveStatusCode_def MirrorNodeClientError_def accepting_404_def)
  have route: "\<not> ct_defaultToConsensus ?env" "ct_consensusSelectors ?env = []"
    by (simp_all add: failing_web3_def Let_def sample_contracts_def)
  from call_failure_reported [OF to block greedy_formatted route posted] show ?thesis by simp
qed

subsection \<open>Estimates without the mirror node\<close>

text \<open>
  When the mirror node gives no estimate, a transfer whose value is left out is refused as having a
  negative one.
\<close>

theorem transfer_without_value_refused:
  assumes "truthy (js_prop transaction ''to'')" and "\<not> truthy (js_prop transaction ''data'')"
    and "js_prop transaction ''value'' = JUndef"
  shows "predefinedGasForTransaction env transaction d failure s =
    (Inr (ResultError (INVALID_PARAMETER ''0''
       (''Invalid '' @ [CHR 39] @ ''value'' @ [CHR 39] @ '' field in transaction param. Value must be greater than or equal to 0''))), s)"
  using assms by (simp add: predefinedGasForTransaction_def Let_def simple_transfer_gas_def ret_def)

text \<open>
  The estimate of a contract creation throws a \<open>TypeError\<close> when the failure is not one of the mirror
  node: the method it asks the error for does not exist.
\<close>

theorem creation_estimate_throws:
  assumes "\<not> truthy (js_prop transaction ''to'')" and "js_prop transaction ''data'' = JStr code" and "code \<noteq> ''''" "code \<noteq> EMPTY_HEX"
    and "ct_estimateGasThrows env" and "\<forall>m. e \<noteq> ThrownMirror m"
  shows "estimate_failed env transaction d e s = (Inl type_error, s)"
  using assms
  by (cases e) (simp_all add: estimate_failed_def predefinedGasForTransaction_def Let_def reverted_creation_def and_do_def lift_def)

end
