(* ===== verification/SdkClient.thy ===== *)
theory SdkClient
  imports Contracts HbarLimiter
begin

section \<open>The consensus node: clients, queries and transactions\<close>

text \<open>
  Models \<open>services/hapiService/hapiService.ts\<close>, \<open>clients/sdkClient.ts\<close>, the part of \<open>utils.ts\<close> they use and
  the listeners of \<open>services/metricService/metricService.ts\<close>. The Hedera SDK with the network behind it is a
  parameter: a submission, a receipt, a query take the network from one state to the next and are answered
  with a value or a failure. The state has the mirror node, the HBAR limiter, the clients, the network, and
  the events emitted so far; a listener is a later step that takes one event. Logging and the Prometheus
  metrics are left out.
\<close>

subsection \<open>Operators and clients\<close>

datatype key_format = DerKey | Ed25519Key | EcdsaKey

definition createPrivateKeyBasedOnFormat ::
  "string option \<Rightarrow> (key_format \<Rightarrow> string \<Rightarrow> string + 'k) \<Rightarrow> string \<Rightarrow> string + 'k" where
  "createPrivateKeyBasedOnFormat format parse operatorMainKey =
     (case format of
        None \<Rightarrow> parse DerKey operatorMainKey
      | Some f \<Rightarrow>
          if f = ''DER'' then parse DerKey operatorMainKey
          else if f = ''HEX_ED25519'' then parse Ed25519Key operatorMainKey
          else if f = ''HEX_ECDSA'' then parse EcdsaKey operatorMainKey
          else Inl (''Invalid OPERATOR_KEY_FORMAT provided: '' @ f))"

record 'k operator_config =
  oc_mainId :: string
  oc_mainKey :: string
  oc_sendRawId :: string
  oc_sendRawKey :: string
  oc_format :: "string option"
  oc_parseKey :: "key_format \<Rightarrow> string \<Rightarrow> string + 'k"
  oc_parseAccount :: "string \<Rightarrow> string + string"

record 'k operator =
  op_privateKey :: 'k
  op_accountId :: string

definition js_trim_text :: "string \<Rightarrow> string" where
  "js_trim_text s = rev (dropWhile js_space (rev (dropWhile js_space s)))"

definition getOperator :: "'k operator_config \<Rightarrow> string option \<Rightarrow> string + 'k operator option" where
  "getOperator cfg type =
     (let (operatorId, operatorKey) =
            (if type = Some ''eth_sendRawTransaction'' then (oc_sendRawId cfg, oc_sendRawKey cfg)
             else (oc_mainId cfg, oc_mainKey cfg))
      in if operatorId = '''' \<or> operatorKey = '''' then Inr None
         else and_then (createPrivateKeyBasedOnFormat (oc_format cfg) (oc_parseKey cfg) operatorKey) (\<lambda>k.
              and_then (oc_parseAccount cfg (js_trim_text operatorId)) (\<lambda>a.
              Inr (Some \<lparr> op_privateKey = k, op_accountId = a \<rparr>))))"

definition CHAIN_IDS :: "(string \<times> int) list" where
  "CHAIN_IDS = [(''mainnet'', 295), (''testnet'', 296), (''previewnet'', 297)]"

datatype network = NamedNetwork string | ListedNetwork jsv

record 'k client =
  cl_network :: network
  cl_operator :: "'k operator option"
  cl_transportSecurity :: bool
  cl_requestTimeout :: int

definition initClient ::
  "'k operator_config \<Rightarrow> (string \<Rightarrow> string + jsv) \<Rightarrow> bool \<Rightarrow> int \<Rightarrow> string \<Rightarrow> string option \<Rightarrow> string + 'k client" where
  "initClient cfg json_parse transportSecurity requestTimeout hederaNetwork type =
     and_then (if hederaNetwork \<in> fst ` set CHAIN_IDS then Inr (NamedNetwork hederaNetwork)
               else and_then (json_parse hederaNetwork) (\<lambda>v. Inr (ListedNetwork v))) (\<lambda>network.
     and_then (getOperator cfg type) (\<lambda>operator.
     Inr \<lparr> cl_network = network, cl_operator = operator, cl_transportSecurity = transportSecurity,
           cl_requestTimeout = requestTimeout \<rparr>))"

definition getNetworkNameByChainId :: "string \<Rightarrow> string" where
  "getNetworkNameByChainId chainId =
     (if chainId = ''0x127'' then ''mainnet''
      else if chainId = ''0x128'' then ''testnet''
      else if chainId = ''0x129'' then ''previewnet'' else ''local'')"

subsection \<open>When a client is replaced\<close>

record hapi_config =
  hc_transactionReset :: int
  hc_durationReset :: int
  hc_errorReset :: "int list"

text \<open>A client is the number of clients made before it.\<close>

record hapi_state =
  hs_client :: nat
  hs_transactionCount :: int
  hs_resetDuration :: int
  hs_shouldReset :: bool

definition isTimeResetDisabled :: "hapi_config \<Rightarrow> bool" where
  "isTimeResetDisabled cfg = (hc_durationReset cfg = 0)"

definition isReinitEnabled :: "hapi_config \<Rightarrow> bool" where
  "isReinitEnabled cfg = (\<not> (hc_transactionReset cfg = 0 \<and> hc_errorReset cfg = [] \<and> isTimeResetDisabled cfg))"

definition new_hapi :: "hapi_config \<Rightarrow> int \<Rightarrow> hapi_state" where
  "new_hapi cfg now =
     \<lparr> hs_client = 0, hs_transactionCount = hc_transactionReset cfg,
       hs_resetDuration = now + hc_durationReset cfg, hs_shouldReset = False \<rparr>"

definition decrementTransactionCounter :: "hapi_state \<Rightarrow> hapi_state" where
  "decrementTransactionCounter h =
     (if hs_transactionCount h = 0 then h
      else let h' = h\<lparr> hs_transactionCount := hs_transactionCount h - 1 \<rparr>
           in if hs_transactionCount h' \<le> 0 then h'\<lparr> hs_shouldReset := True \<rparr> else h')"

definition decrementErrorCounter :: "hapi_config \<Rightarrow> int \<Rightarrow> hapi_state \<Rightarrow> hapi_state" where
  "decrementErrorCounter cfg statusCode h =
     (if \<not> isReinitEnabled cfg \<or> hc_errorReset cfg = [] then h
      else if statusCode \<in> set (hc_errorReset cfg) then h\<lparr> hs_shouldReset := True \<rparr> else h)"

definition checkResetDuration :: "hapi_config \<Rightarrow> int \<Rightarrow> hapi_state \<Rightarrow> hapi_state" where
  "checkResetDuration cfg now h =
     (if isTimeResetDisabled cfg then h
      else if hs_resetDuration h < now then h\<lparr> hs_shouldReset := True \<rparr> else h)"

definition resetCounters :: "hapi_config \<Rightarrow> int \<Rightarrow> hapi_state \<Rightarrow> hapi_state" where
  "resetCounters cfg now h =
     h\<lparr> hs_transactionCount := hc_transactionReset cfg, hs_resetDuration := now + hc_durationReset cfg,
        hs_shouldReset := False \<rparr>"

definition resetClient :: "hapi_config \<Rightarrow> int \<Rightarrow> hapi_state \<Rightarrow> hapi_state" where
  "resetClient cfg now h = resetCounters cfg now (h\<lparr> hs_client := hs_client h + 1 \<rparr>)"

definition getSDKClient :: "hapi_config \<Rightarrow> int \<Rightarrow> hapi_state \<Rightarrow> nat \<times> hapi_state" where
  "getSDKClient cfg now h =
     (if \<not> isReinitEnabled cfg then (hs_client h, h)
      else let h1 = (if hs_shouldReset h then resetClient cfg now h else h);
               h2 = checkResetDuration cfg now (decrementTransactionCounter h1)
           in (hs_client h2, h2))"

definition getTimeUntilReset :: "int \<Rightarrow> hapi_state \<Rightarrow> int" where
  "getTimeUntilReset now h = hs_resetDuration h - now"

text \<open>What happens to the service: a client is asked for, or the code of a failure is noted.\<close>

datatype hapi_event = AskClient int | NoteError int

definition hapi_step :: "hapi_config \<Rightarrow> hapi_event \<Rightarrow> hapi_state \<Rightarrow> nat list \<times> hapi_state" where
  "hapi_step cfg e h =
     (case e of
        AskClient now \<Rightarrow> (case getSDKClient cfg now h of (c, h') \<Rightarrow> ([c], h'))
      | NoteError code \<Rightarrow> ([], decrementErrorCounter cfg code h))"

fun hapi_run :: "hapi_config \<Rightarrow> hapi_event list \<Rightarrow> hapi_state \<Rightarrow> nat list" where
  "hapi_run cfg [] h = []"
| "hapi_run cfg (e # es) h = (case hapi_step cfg e h of (cs, h') \<Rightarrow> cs @ hapi_run cfg es h')"

definition hapi_ok :: "hapi_config \<Rightarrow> hapi_state \<Rightarrow> bool" where
  "hapi_ok cfg h \<longleftrightarrow>
     0 \<le> hs_transactionCount h \<and> hs_transactionCount h \<le> hc_transactionReset cfg \<and>
     (hs_transactionCount h = 0 \<longrightarrow> hs_shouldReset h)"

lemma hapi_step_ok:
  assumes "0 < hc_transactionReset cfg" and "hapi_ok cfg h"
  shows "hapi_ok cfg (snd (hapi_step cfg e h))"
  using assms
  by (auto simp: hapi_step_def hapi_ok_def getSDKClient_def isReinitEnabled_def resetClient_def resetCounters_def
      decrementTransactionCounter_def checkResetDuration_def decrementErrorCounter_def Let_def split: hapi_event.split)

text \<open>How often the client of a state can still be handed out.\<close>

definition uses_left :: "hapi_state \<Rightarrow> nat" where
  "uses_left h = (if hs_shouldReset h then 0 else nat (hs_transactionCount h))"

lemma same_client [simp]:
  "hs_client (decrementTransactionCounter h) = hs_client h" "hs_client (checkResetDuration cfg now h) = hs_client h"
  "hs_client (resetClient cfg now h) = Suc (hs_client h)"
  by (simp_all add: decrementTransactionCounter_def checkResetDuration_def resetClient_def resetCounters_def Let_def)

lemma uses_checked: "uses_left (checkResetDuration cfg now h) \<le> uses_left h"
  by (simp add: uses_left_def checkResetDuration_def)

lemma uses_decremented:
  assumes "0 < hs_transactionCount h" and "\<not> hs_shouldReset h"
  shows "Suc (uses_left (decrementTransactionCounter h)) \<le> nat (hs_transactionCount h)"
  using assms by (cases "hs_transactionCount h \<le> 1") (simp_all add: uses_left_def decrementTransactionCounter_def Let_def)

lemma client_kept:
  assumes "0 < hc_transactionReset cfg" and "hapi_ok cfg h" and "\<not> hs_shouldReset h"
    and "getSDKClient cfg now h = (c, h')"
  shows "c = hs_client h \<and> hs_client h' = hs_client h \<and> Suc (uses_left h') \<le> uses_left h"
proof -
  have n: "0 < hs_transactionCount h" using assms(2,3) by (auto simp: hapi_ok_def)
  have "(c, h') = (hs_client h, checkResetDuration cfg now (decrementTransactionCounter h))"
    using assms(1,3,4) by (auto simp: getSDKClient_def isReinitEnabled_def Let_def)
  moreover have "nat (hs_transactionCount h) = uses_left h" using assms(3) by (simp add: uses_left_def)
  ultimately show ?thesis
    using uses_decremented [OF n assms(3)] uses_checked [of cfg now "decrementTransactionCounter h"] by simp
qed

lemma client_renewed:
  assumes "0 < hc_transactionReset cfg" and "hs_shouldReset h" and "getSDKClient cfg now h = (c, h')"
  shows "c = Suc (hs_client h) \<and> hs_client h' = c \<and> Suc (uses_left h') \<le> nat (hc_transactionReset cfg)"
proof -
  have "(c, h') = (Suc (hs_client h), checkResetDuration cfg now (decrementTransactionCounter (resetClient cfg now h)))"
    using assms by (auto simp: getSDKClient_def isReinitEnabled_def Let_def)
  moreover have "hs_transactionCount (resetClient cfg now h) = hc_transactionReset cfg" "\<not> hs_shouldReset (resetClient cfg now h)"
    by (simp_all add: resetClient_def resetCounters_def)
  ultimately show ?thesis
    using uses_decremented [of "resetClient cfg now h"] assms(1)
      uses_checked [of cfg now "decrementTransactionCounter (resetClient cfg now h)"] by simp
qed

lemma error_noted:
  "hs_client (decrementErrorCounter cfg code h) = hs_client h \<and> uses_left (decrementErrorCounter cfg code h) \<le> uses_left h"
  by (simp add: decrementErrorCounter_def uses_left_def)

definition handed_out_at_most :: "hapi_config \<Rightarrow> hapi_state \<Rightarrow> nat \<Rightarrow> nat" where
  "handed_out_at_most cfg h c =
     (if c < hs_client h then 0 else if c = hs_client h then uses_left h else nat (hc_transactionReset cfg))"

lemma hapi_run_count:
  assumes "0 < hc_transactionReset cfg" and "hapi_ok cfg h"
  shows "count_list (hapi_run cfg es h) c \<le> handed_out_at_most cfg h c"
  using assms(2)
proof (induction es arbitrary: h)
  case (Cons e es)
  obtain cs h' where step: "hapi_step cfg e h = (cs, h')" by (cases "hapi_step cfg e h")
  have "hapi_ok cfg h'" using hapi_step_ok [OF assms(1) Cons.prems, of e] step by simp
  then have "count_list (hapi_run cfg es h') c \<le> handed_out_at_most cfg h' c" by (rule Cons.IH)
  moreover have "count_list cs c + handed_out_at_most cfg h' c \<le> handed_out_at_most cfg h c"
  proof (cases e)
    case (AskClient now)
    obtain d g where ask: "getSDKClient cfg now h = (d, g)" by (cases "getSDKClient cfg now h")
    then have "cs = [d]" "h' = g" using step AskClient by (simp_all add: hapi_step_def)
    with client_kept [OF assms(1) Cons.prems _ ask] client_renewed [OF assms(1) _ ask] show ?thesis
      by (cases "hs_shouldReset h") (auto simp: handed_out_at_most_def)
  next
    case (NoteError code)
    with step error_noted [of cfg code h] show ?thesis by (auto simp: hapi_step_def handed_out_at_most_def)
  qed
  ultimately show ?case using step by (simp add: count_list_append)
qed simp

text \<open>
  C35. Whatever the order of requests and failures, no client of the consensus network is handed out more
  often than the configured number of transactions.
\<close>

theorem client_uses_bounded:
  assumes "0 < hc_transactionReset cfg"
  shows "int (count_list (hapi_run cfg es (new_hapi cfg now)) c) \<le> hc_transactionReset cfg"
proof -
  have "hapi_ok cfg (new_hapi cfg now)" using assms by (simp add: hapi_ok_def new_hapi_def)
  from hapi_run_count [OF assms this, of es c] show ?thesis
    using assms by (auto simp: new_hapi_def uses_left_def handed_out_at_most_def split: if_splits)
qed

definition sample_hapi :: hapi_config where
  "sample_hapi = \<lparr> hc_transactionReset = 2, hc_durationReset = 0, hc_errorReset = [21] \<rparr>"

theorem client_uses_bounded_witness:
  "hapi_run sample_hapi [AskClient 5, AskClient 6, AskClient 7, NoteError 21, AskClient 8] (new_hapi sample_hapi 0) = [0, 0, 1, 2] \<and>
   int (count_list (hapi_run sample_hapi [AskClient 5, AskClient 6, AskClient 7, NoteError 21, AskClient 8] (new_hapi sample_hapi 0)) 0) \<le> 2"
proof
  show "hapi_run sample_hapi [AskClient 5, AskClient 6, AskClient 7, NoteError 21, AskClient 8] (new_hapi sample_hapi 0) = [0, 0, 1, 2]"
    by code_simp
  have "0 < hc_transactionReset sample_hapi" "hc_transactionReset sample_hapi = 2" by (simp_all add: sample_hapi_def)
  then show "int (count_list (hapi_run sample_hapi [AskClient 5, AskClient 6, AskClient 7, NoteError 21, AskClient 8] (new_hapi sample_hapi 0)) 0) \<le> 2"
    using client_uses_bounded [of sample_hapi] by metis
qed

subsection \<open>What the network is asked\<close>

text \<open>A failure of the SDK: its message, the status code when a node answered, and what it knows of the attempt.\<close>

record sdk_failure =
  sf_message :: string
  sf_code :: "int option"
  sf_transactionId :: "string option"
  sf_nodeAccountId :: "string option"
  sf_revertMessage :: "string option"

record eth_data =
  ed_to :: string
  ed_callData :: "8 word list"
  ed_rest :: string

datatype sdk_transaction =
    EthereumTransaction "8 word list" "string option" int
  | FileCreateTransaction string bool
  | FileAppendTransaction string string nat nat
  | FileDeleteTransaction string int

fun constructor_name :: "sdk_transaction \<Rightarrow> string" where
  "constructor_name (EthereumTransaction _ _ _) = ''EthereumTransaction''"
| "constructor_name (FileCreateTransaction _ _) = ''FileCreateTransaction''"
| "constructor_name (FileAppendTransaction _ _ _ _) = ''FileAppendTransaction''"
| "constructor_name (FileDeleteTransaction _ _) = ''FileDeleteTransaction''"

datatype contract_id = FromSolidityAddress string | FromEvmAddress string

datatype sdk_query =
    FileInfoQuery string
  | ContractCallQuery contract_id js_number "8 word list option" "string option" bool

fun query_name :: "sdk_query \<Rightarrow> string" where
  "query_name (FileInfoQuery _) = ''FileInfoQuery''"
| "query_name (ContractCallQuery _ _ _ _ _) = ''ContractCallQuery''"

fun has_payment :: "sdk_query \<Rightarrow> bool" where
  "has_payment (FileInfoQuery _) = False"
| "has_payment (ContractCallQuery _ _ _ _ paid) = paid"

datatype query_answer = FileInfo int bool | CallResult "8 word list"

record transaction_record =
  tr_status :: string
  tr_exchangeRateInCents :: rat
  tr_transfers :: "(string \<times> int) list"
  tr_gasUsed :: "int option"

record executed_transaction =
  et_transactionId :: string
  et_details :: request_details
  et_constructor :: string
  et_operatorAccountId :: string
  et_caller :: string

record executed_query =
  eq_mode :: string
  eq_constructor :: string
  eq_cost :: int
  eq_gasUsed :: int
  eq_status :: string
  eq_details :: request_details
  eq_caller :: "string option"

datatype node_event =
    TransactionExecuted executed_transaction
  | QueryExecuted executed_query
  | EthExecution string

record ('c, 'r, 'w, 'n) node_state =
  ns_relay :: "('c, 'r, 'w) relay_state"
  ns_hbar :: hbar_state
  ns_hapi :: hapi_state
  ns_net :: 'n
  ns_events :: "node_event list"

record ('c, 'r, 'w, 'n) node_env =
  ne_relay :: "('c, 'r, 'w) relay_env"
  ne_hbar :: hbar_config
  ne_hapi :: hapi_config
  ne_table :: sdk_status_table
  ne_statusText :: "int \<Rightarrow> string"
  ne_WrongNonce :: int
  ne_operatorId :: "string option"
  ne_fromBytes :: "8 word list \<Rightarrow> string + eth_data"
  ne_toBytes :: "eth_data \<Rightarrow> 8 word list"
  ne_execute :: "sdk_transaction \<Rightarrow> 'n \<Rightarrow> (sdk_failure + string) \<times> 'n"
  ne_executeAll :: "sdk_transaction \<Rightarrow> 'n \<Rightarrow> (sdk_failure + string list) \<times> 'n"
  ne_receipt :: "string \<Rightarrow> 'n \<Rightarrow> (sdk_failure + string option) \<times> 'n"
  ne_queryCost :: "sdk_query \<Rightarrow> 'n \<Rightarrow> (sdk_failure + int) \<times> 'n"
  ne_query :: "sdk_query \<Rightarrow> int option \<Rightarrow> 'n \<Rightarrow> ((sdk_failure + query_answer) \<times> int option) \<times> 'n"
  ne_record :: "string \<Rightarrow> 'n \<Rightarrow> (sdk_failure + transaction_record) \<times> 'n"
  ne_chunkSize :: nat
  ne_maxChunks :: nat
  ne_jumboTx :: bool
  ne_maxFeeThreshold :: int
  ne_queryRetries :: nat
  ne_recordFromConsensus :: bool

type_synonym ('c, 'r, 'w, 'n, 'a) node_action = "(('c, 'r, 'w, 'n) node_state, 'a) action"

abbreviation ne_mirror :: "('c, 'r, 'w, 'n) node_env \<Rightarrow> ('c, 'r, 'w) mirror_env" where
  "ne_mirror env \<equiv> re_mirror (ne_relay env)"

definition node_now :: "('c, 'r, 'w, 'n) node_env \<Rightarrow> ('c, 'r, 'w, 'n) node_state \<Rightarrow> int" where
  "node_now env s = me_now (ne_mirror env) (rs_world (ns_relay s))"

definition on_relay :: "('c, 'r, 'w, 'a) relay_action \<Rightarrow> ('c, 'r, 'w, 'n, 'a) node_action" where
  "on_relay m = (\<lambda>s. case m (ns_relay s) of (r, t) \<Rightarrow> (r, s\<lparr> ns_relay := t \<rparr>))"

definition on_net :: "('n \<Rightarrow> 'a \<times> 'n) \<Rightarrow> ('c, 'r, 'w, 'n, 'a) node_action" where
  "on_net f = (\<lambda>s. case f (ns_net s) of (r, n) \<Rightarrow> (Inr r, s\<lparr> ns_net := n \<rparr>))"

definition emit :: "node_event \<Rightarrow> ('c, 'r, 'w, 'n, unit) node_action" where
  "emit e = (\<lambda>s. (Inr (), s\<lparr> ns_events := ns_events s @ [e] \<rparr>))"

definition wait_ms :: "('c, 'r, 'w, 'n) node_env \<Rightarrow> int \<Rightarrow> ('c, 'r, 'w, 'n, unit) node_action" where
  "wait_ms env ms =
     (\<lambda>s. (Inr (), s\<lparr> ns_relay := (ns_relay s)\<lparr> rs_world := me_sleep (ne_mirror env) ms (rs_world (ns_relay s)) \<rparr> \<rparr>))"

text \<open>The error the relay makes of a failure, and of an error that was already made.\<close>

definition sdk_error ::
  "('c, 'r, 'w, 'n) node_env \<Rightarrow> sdk_failure \<Rightarrow> string option \<Rightarrow> string option \<Rightarrow> sdk_client_error" where
  "sdk_error env f =
     SDKClientError (ne_table env) (Some \<lparr> thrown_message = sf_message f, thrown_code = sf_code f \<rparr>) (Some (sf_message f))"

definition wrapped_error :: "('c, 'r, 'w, 'n) node_env \<Rightarrow> thrown \<Rightarrow> sdk_client_error" where
  "wrapped_error env e =
     SDKClientError (ne_table env)
       (Some \<lparr> thrown_message = thrown_message_text e,
               thrown_code = (case e of ThrownSdk se \<Rightarrow> Some (sdk_status se) | _ \<Rightarrow> None) \<rparr>)
       (Some (thrown_message_text e)) None None"

subsection \<open>Fees\<close>

definition TRANSACTION_GET_RECORD :: rat where "TRANSACTION_GET_RECORD = double_of_rat (1 / 100)"
definition FILE_CREATE_PER_5_KB :: rat where "FILE_CREATE_PER_5_KB = double_of_rat (951 / 100)"
definition FILE_APPEND_PER_5_KB :: rat where "FILE_APPEND_PER_5_KB = double_of_rat (955 / 100)"
definition FILE_APPEND_BASE_FEE :: rat where "FILE_APPEND_BASE_FEE = double_of_rat (39 / 10)"
definition FILE_APPEND_RATE_PER_BYTE :: rat where "FILE_APPEND_RATE_PER_BYTE = double_of_rat (11 / 10000)"
definition HBAR_TO_TINYBAR_COEF :: rat where "HBAR_TO_TINYBAR_COEF = 100000000"

definition estimateFileTransactionsFee :: "int \<Rightarrow> int \<Rightarrow> rat \<Rightarrow> int" where
  "estimateFileTransactionsFee callDataSize fileChunkSize currentNetworkExchangeRateInCents =
     (let fileAppendTransactions = \<lfloor>js_div (of_int callDataSize) (of_int fileChunkSize)\<rfloor> - 1;
          lastFileAppendChunkSize = callDataSize mod fileChunkSize;
          lastFileAppendChunkFeeInCents =
            js_add FILE_APPEND_BASE_FEE (js_mul (of_int lastFileAppendChunkSize) FILE_APPEND_RATE_PER_BYTE);
          totalTxFeeInCents =
            js_add (js_add (js_mul 1 FILE_CREATE_PER_5_KB) (js_mul FILE_APPEND_PER_5_KB (of_int fileAppendTransactions)))
              lastFileAppendChunkFeeInCents
      in js_round (js_mul (js_div totalTxFeeInCents currentNetworkExchangeRateInCents) HBAR_TO_TINYBAR_COEF))"

definition calculateTxRecordChargeAmount :: "rat \<Rightarrow> int" where
  "calculateTxRecordChargeAmount exchangeRateInCents =
     js_round (js_mul (js_div TRANSACTION_GET_RECORD exchangeRateInCents) HBAR_TO_TINYBAR_COEF)"

definition record_transfer_sum :: "(string \<times> int) list \<Rightarrow> string \<Rightarrow> int" where
  "record_transfer_sum transfers accountId =
     foldl (\<lambda>acc (a, n). acc - n) 0 (filter (\<lambda>(a, n). a = accountId \<and> n < 0) transfers)"

subsection \<open>Transactions\<close>

definition limit_guard ::
  "('c, 'r, 'w, 'n) node_env \<Rightarrow> string \<Rightarrow> request_details \<Rightarrow> int \<Rightarrow> ('c, 'r, 'w, 'n, unit) node_action" where
  "limit_guard env originalCallerAddress d estimatedTxFee =
     (\<lambda>s. case shouldLimit (ne_hbar env) (node_now env s) originalCallerAddress (rd_ipAddress d) estimatedTxFee (ns_hbar s) of
        (Inl m, h) \<Rightarrow> (Inl (ThrownOther m), s\<lparr> ns_hbar := h \<rparr>)
      | (Inr limited, h) \<Rightarrow>
          (if limited then Inl (ThrownRpc HBAR_RATE_LIMIT_EXCEEDED) else Inr (), s\<lparr> ns_hbar := h \<rparr>))"

definition or_null_text :: "string option \<Rightarrow> string" where
  "or_null_text t = (case t of None \<Rightarrow> ''null'' | Some t \<Rightarrow> t)"

text \<open>What is thrown when no response came back.\<close>

definition not_executed ::
  "('c, 'r, 'w, 'n) node_env \<Rightarrow> sdk_transaction \<Rightarrow> string \<Rightarrow> request_details \<Rightarrow> sdk_failure \<Rightarrow> thrown" where
  "not_executed env transaction callerName d f =
     (let sdkClientError = sdk_error env f (sf_transactionId f) (sf_nodeAccountId f)
      in if sdk_status sdkClientError = ne_WrongNonce env then ThrownSdk sdkClientError
         else if sdk_isConnectionDropped (ne_table env) sdkClientError \<or> sdk_isTimeoutExceeded (ne_table env) sdkClientError
         then ThrownSdk sdkClientError
         else ThrownRpc (INTERNAL_ERROR (formattedRequestId d @ '' Transaction execution returns a null value: transactionId='' @
           or_null_text (sf_transactionId f) @ '', callerName='' @ callerName @ '', txConstructorName='' @ constructor_name transaction)))"

definition after_receipt ::
  "('c, 'r, 'w, 'n) node_env \<Rightarrow> string \<Rightarrow> sdk_failure + string option \<Rightarrow> thrown + string" where
  "after_receipt env transactionId receipt =
     (case receipt of
        Inr fileId \<Rightarrow> Inr transactionId
      | Inl f \<Rightarrow>
          (let sdkClientError = sdk_error env f (sf_transactionId f) (sf_nodeAccountId f)
           in if sdk_status sdkClientError = ne_WrongNonce env then Inl (ThrownSdk sdkClientError) else Inr transactionId))"

definition report_transaction ::
  "('c, 'r, 'w, 'n) node_env \<Rightarrow> string \<Rightarrow> string \<Rightarrow> string \<Rightarrow> request_details \<Rightarrow> ('c, 'r, 'w, 'n, unit) node_action" where
  "report_transaction env transactionId txConstructorName originalCallerAddress d =
     (if transactionId = '''' then ret ()
      else case ne_operatorId env of
        None \<Rightarrow> throw type_error
      | Some operatorId \<Rightarrow>
          emit (TransactionExecuted \<lparr> et_transactionId = transactionId, et_details = d, et_constructor = txConstructorName,
            et_operatorAccountId = operatorId, et_caller = originalCallerAddress \<rparr>))"

text \<open>\<open>executeTransaction\<close> gives the identifier of the transaction whose response it returns.\<close>

definition executeTransaction ::
  "('c, 'r, 'w, 'n) node_env \<Rightarrow> sdk_transaction \<Rightarrow> string \<Rightarrow> request_details \<Rightarrow> bool \<Rightarrow> string \<Rightarrow> int
   \<Rightarrow> ('c, 'r, 'w, 'n, string) node_action" where
  "executeTransaction env transaction callerName d shouldThrowHbarLimit originalCallerAddress estimatedTxFee =
     and_do (if shouldThrowHbarLimit then limit_guard env originalCallerAddress d estimatedTxFee else ret ()) (\<lambda>_.
     and_do (on_net (ne_execute env transaction)) (\<lambda>response.
       case response of
         Inl f \<Rightarrow> throw (not_executed env transaction callerName d f)
       | Inr transactionId \<Rightarrow>
           and_do (on_net (ne_receipt env transactionId)) (\<lambda>receipt.
           and_do (report_transaction env transactionId (constructor_name transaction) originalCallerAddress d) (\<lambda>_.
             lift (after_receipt env transactionId receipt)))))"

definition executeAllTransaction ::
  "('c, 'r, 'w, 'n) node_env \<Rightarrow> sdk_transaction \<Rightarrow> request_details \<Rightarrow> bool \<Rightarrow> string \<Rightarrow> int
   \<Rightarrow> ('c, 'r, 'w, 'n, unit) node_action" where
  "executeAllTransaction env transaction d shouldThrowHbarLimit originalCallerAddress estimatedTxFee =
     and_do (if shouldThrowHbarLimit then limit_guard env originalCallerAddress d estimatedTxFee else ret ()) (\<lambda>_.
     and_do (on_net (ne_executeAll env transaction)) (\<lambda>responses.
       case responses of
         Inl f \<Rightarrow> throw (ThrownSdk (sdk_error env f None (sf_nodeAccountId f)))
       | Inr transactionIds \<Rightarrow>
           and_do (map_do (\<lambda>t. report_transaction env t (constructor_name transaction) originalCallerAddress d) transactionIds) (\<lambda>_.
             ret ())))"

subsection \<open>Queries\<close>

definition cost_multiplier :: "nat \<Rightarrow> rat" where
  "cost_multiplier n =
     (if n = 2 then 12100000000000002 / 10 ^ 16 else if n = 3 then 13310000000000004 / 10 ^ 16 else (11 / 10) ^ n)"

text \<open>
  A query is paid with its cost times \<open>Math.pow(1.1, n)\<close> at the \<open>n\<close>-th retry, as decimal texts are
  multiplied and rounded. The payment that was set last is returned with the answer.
\<close>

function increaseCostAndRetryExecution ::
  "('c, 'r, 'w, 'n) node_env \<Rightarrow> sdk_query \<Rightarrow> int \<Rightarrow> nat \<Rightarrow> nat \<Rightarrow> 'n \<Rightarrow> ((sdk_failure + query_answer) \<times> int) \<times> 'n" where
  "increaseCostAndRetryExecution env query baseCost maxRetries currentRetry net =
     (let cost = js_round (of_int baseCost * cost_multiplier currentRetry);
          (answer, net') = ne_query env query (Some cost) net
      in case fst answer of
           Inr resp \<Rightarrow> ((Inr resp, cost), net')
         | Inl f \<Rightarrow>
             (if currentRetry < maxRetries \<and> sdk_isInsufficientTxFee (ne_table env) (sdk_error env f None None)
              then increaseCostAndRetryExecution env query baseCost maxRetries (currentRetry + 1) net'
              else ((Inl f, cost), net')))"
  by pat_completeness auto
termination by (relation "measure (\<lambda>(env, query, baseCost, maxRetries, currentRetry, net). maxRetries - currentRetry)") auto

definition pay_and_execute ::
  "('c, 'r, 'w, 'n) node_env \<Rightarrow> sdk_query \<Rightarrow> 'n \<Rightarrow> ((sdk_failure + query_answer) \<times> int option) \<times> 'n" where
  "pay_and_execute env query net =
     (if has_payment query
      then (case ne_queryCost env query net of
              (Inl f, net') \<Rightarrow> ((Inl f, None), net')
            | (Inr baseCost, net') \<Rightarrow>
                (case increaseCostAndRetryExecution env query baseCost 3 0 net' of ((r, cost), net'') \<Rightarrow> ((r, Some cost), net'')))
      else ne_query env query None net)"

definition failed_query :: "('c, 'r, 'w, 'n) node_env \<Rightarrow> sdk_failure \<Rightarrow> thrown" where
  "failed_query env f =
     (case sf_revertMessage f of
        Some m \<Rightarrow> if m \<noteq> '''' then ThrownRpc (contract_revert (Some m) None)
                  else if sdk_isGrpcTimeout (ne_table env) (sdk_error env f None None) then ThrownRpc REQUEST_TIMEOUT
                  else ThrownSdk (sdk_error env f None None)
      | None \<Rightarrow> if sdk_isGrpcTimeout (ne_table env) (sdk_error env f None None) then ThrownRpc REQUEST_TIMEOUT
                else ThrownSdk (sdk_error env f None None))"

definition executeQuery ::
  "('c, 'r, 'w, 'n) node_env \<Rightarrow> sdk_query \<Rightarrow> request_details \<Rightarrow> string option \<Rightarrow> ('c, 'r, 'w, 'n, query_answer) node_action" where
  "executeQuery env query d originalCallerAddress =
     and_do (on_net (pay_and_execute env query)) (\<lambda>(answer, payment).
       let status = (case answer of Inr r \<Rightarrow> ''SUCCESS'' | Inl f \<Rightarrow> ne_statusText env (sdk_status (sdk_error env f None None)))
       in and_do (case payment of
                    Some cost \<Rightarrow>
                      if cost \<noteq> 0
                      then emit (QueryExecuted \<lparr> eq_mode = ''QUERY'', eq_constructor = query_name query, eq_cost = cost,
                             eq_gasUsed = 0, eq_status = status, eq_details = d, eq_caller = originalCallerAddress \<rparr>)
                      else ret ()
                  | None \<Rightarrow> ret ()) (\<lambda>_.
            lift (case answer of Inr r \<Rightarrow> Inr r | Inl f \<Rightarrow> Inl (failed_query env f))))"

subsection \<open>Files\<close>

definition createFile ::
  "('c, 'r, 'w, 'n) node_env \<Rightarrow> 8 word list \<Rightarrow> request_details \<Rightarrow> string \<Rightarrow> string \<Rightarrow> rat
   \<Rightarrow> ('c, 'r, 'w, 'n, string option) node_action" where
  "createFile env callData d callerName originalCallerAddress currentNetworkExchangeRateInCents =
     (let hexedCallData = toHexString (map unat callData);
          chunk = ne_chunkSize env;
          estimatedTxFee = estimateFileTransactionsFee (int (length hexedCallData)) (int chunk) currentNetworkExchangeRateInCents
      in and_do (limit_guard env originalCallerAddress d estimatedTxFee) (\<lambda>_.
         and_do (executeTransaction env (FileCreateTransaction (take chunk hexedCallData) (ne_operatorId env \<noteq> None))
                   callerName d False originalCallerAddress 0) (\<lambda>response.
         and_do (on_net (ne_receipt env response)) (\<lambda>receipt.
           case receipt of
             Inl f \<Rightarrow> throw (ThrownOther (sf_message f))
           | Inr None \<Rightarrow> ret None
           | Inr (Some fileId) \<Rightarrow>
               and_do (if chunk < length callData
                       then executeAllTransaction env (FileAppendTransaction fileId (drop chunk hexedCallData) chunk (ne_maxChunks env))
                              d False originalCallerAddress 0
                       else ret ()) (\<lambda>_.
               and_do (executeQuery env (FileInfoQuery fileId) d (Some originalCallerAddress)) (\<lambda>fileInfo.
                 case fileInfo of
                   FileInfo fileSize isDeleted \<Rightarrow>
                     if fileSize = 0
                     then throw (ThrownSdk (SDKClientError (ne_table env) None
                            (Some (formattedRequestId d @ '' Created file is empty. '')) None None))
                     else ret (Some fileId)
                 | CallResult bs \<Rightarrow> throw type_error))))))"

definition deleteFile ::
  "('c, 'r, 'w, 'n) node_env \<Rightarrow> string \<Rightarrow> request_details \<Rightarrow> string \<Rightarrow> string \<Rightarrow> ('c, 'r, 'w, 'n, unit) node_action" where
  "deleteFile env fileId d callerName originalCallerAddress =
     catch_do
       (and_do (executeTransaction env (FileDeleteTransaction fileId 2) callerName d False originalCallerAddress 0) (\<lambda>_.
        and_do (executeQuery env (FileInfoQuery fileId) d (Some originalCallerAddress)) (\<lambda>_. ret ())))
       (\<lambda>error. ret ())"

definition max_transaction_fee :: "('c, 'r, 'w, 'n) node_env \<Rightarrow> int \<Rightarrow> thrown + int" where
  "max_transaction_fee env networkGasPriceInWeiBars =
     (case weibarHexToTinyBarInt (BigOfInt networkGasPriceInWeiBars) of
        Inl m \<Rightarrow> Inl (ThrownOther m)
      | Inr tinybars \<Rightarrow> Inr (to_number (tinybars * ne_maxFeeThreshold env)))"

text \<open>The data of a transaction, and the file that holds its call data when it is too large.\<close>

definition place_call_data ::
  "('c, 'r, 'w, 'n) node_env \<Rightarrow> eth_data \<Rightarrow> string \<Rightarrow> request_details \<Rightarrow> string \<Rightarrow> rat
   \<Rightarrow> ('c, 'r, 'w, 'n, 8 word list \<times> string option) node_action" where
  "place_call_data env ethereumTransactionData callerName d originalCallerAddress rate =
     (if ne_jumboTx env \<or> length (ed_callData ethereumTransactionData) \<le> ne_chunkSize env
      then ret (ne_toBytes env ethereumTransactionData, None)
      else and_do (createFile env (ed_callData ethereumTransactionData) d callerName originalCallerAddress rate) (\<lambda>fileId.
        case fileId of
          None \<Rightarrow> throw (ThrownSdk (SDKClientError (ne_table env) None
                     (Some (formattedRequestId d @ '' No fileId created for transaction. '')) None None))
        | Some f \<Rightarrow> ret (ne_toBytes env (ethereumTransactionData\<lparr> ed_callData := [] \<rparr>), Some f)))"

definition submitEthereumTransaction ::
  "('c, 'r, 'w, 'n) node_env \<Rightarrow> 8 word list \<Rightarrow> string \<Rightarrow> request_details \<Rightarrow> string \<Rightarrow> int \<Rightarrow> rat
   \<Rightarrow> ('c, 'r, 'w, 'n, string \<times> string option) node_action" where
  "submitEthereumTransaction env transactionBuffer callerName d originalCallerAddress networkGasPriceInWeiBars rate =
     (case ne_fromBytes env transactionBuffer of
        Inl m \<Rightarrow> throw (ThrownOther m)
      | Inr ethereumTransactionData \<Rightarrow>
          and_do (place_call_data env ethereumTransactionData callerName d originalCallerAddress rate) (\<lambda>(ethereumData, fileId).
          and_do (lift (max_transaction_fee env networkGasPriceInWeiBars)) (\<lambda>fee.
          and_do (executeTransaction env (EthereumTransaction ethereumData fileId fee) callerName d True originalCallerAddress 0)
            (\<lambda>txResponse. ret (txResponse, fileId)))))"

subsection \<open>Contract calls\<close>

text \<open>\<open>Buffer.from(s, 'hex')\<close> ends at the first pair that is no byte.\<close>

fun buffer_of_hex :: "string \<Rightarrow> 8 word list" where
  "buffer_of_hex (a # b # s) =
     (if is_digit_in 16 a \<and> is_digit_in 16 b
      then word_of_nat (of_base 16 [a, b]) # buffer_of_hex s else [])"
| "buffer_of_hex _ = []"

definition sdk_prune0x :: "string \<Rightarrow> string" where
  "sdk_prune0x input = (if starts_with ''0x'' input then drop 2 input else input)"

definition submitContractCallQuery ::
  "('c, 'r, 'w, 'n) node_env \<Rightarrow> string \<Rightarrow> string \<Rightarrow> js_number \<Rightarrow> string \<Rightarrow> request_details \<Rightarrow> ('c, 'r, 'w, 'n, query_answer) node_action" where
  "submitContractCallQuery env to data gas sender d =
     (let contract = sdk_prune0x to;
          contractId = (if starts_with ''00000000000'' contract then FromSolidityAddress contract else FromEvmAddress contract)
      in executeQuery env
           (ContractCallQuery contractId gas (if data \<noteq> '''' then Some (buffer_of_hex (sdk_prune0x data)) else None)
              (if sender \<noteq> '''' then Some sender else None) (ne_operatorId env \<noteq> None))
           d (Some sender))"

text \<open>The loop over the retries: how many are left, and how many were made.\<close>

fun query_with_retry ::
  "('c, 'r, 'w, 'n) node_env \<Rightarrow> ('c, 'r, 'w, 'n, query_answer) node_action \<Rightarrow> nat \<Rightarrow> nat
   \<Rightarrow> ('c, 'r, 'w, 'n, query_answer option) node_action" where
  "query_with_retry env submit 0 retries = ret None"
| "query_with_retry env submit (Suc left) retries =
     catch_do (and_do submit (\<lambda>resp. ret (Some resp))) (\<lambda>e.
       if sdk_isTimeoutExceeded (ne_table env) (wrapped_error env e)
       then and_do (wait_ms env (int retries * 1000)) (\<lambda>_. query_with_retry env submit left (retries + 1))
       else case e of ThrownRpc r \<Rightarrow> throw e | _ \<Rightarrow> throw (ThrownSdk (wrapped_error env e)))"

definition submitContractCallQueryWithRetry ::
  "('c, 'r, 'w, 'n) node_env \<Rightarrow> string \<Rightarrow> string \<Rightarrow> js_number \<Rightarrow> string \<Rightarrow> request_details
   \<Rightarrow> ('c, 'r, 'w, 'n, query_answer option) node_action" where
  "submitContractCallQueryWithRetry env to data gas sender d =
     query_with_retry env (submitContractCallQuery env to data gas sender d) (ne_queryRetries env) 0"

subsection \<open>What was spent\<close>

definition sdk_getTransactionRecordMetrics ::
  "('c, 'r, 'w, 'n) node_env \<Rightarrow> string \<Rightarrow> string \<Rightarrow> ('c, 'r, 'w, 'n, record_metric) node_action" where
  "sdk_getTransactionRecordMetrics env transactionId operatorAccountId =
     and_do (on_net (ne_record env transactionId)) (\<lambda>r.
       case r of
         Inl f \<Rightarrow> throw (ThrownSdk (sdk_error env f None None))
       | Inr transactionRecord \<Rightarrow>
           ret \<lparr> trm_transactionFee = record_transfer_sum (tr_transfers transactionRecord) operatorAccountId,
                 trm_txRecordChargeAmount = calculateTxRecordChargeAmount (tr_exchangeRateInCents transactionRecord),
                 trm_gasUsed = (case tr_gasUsed transactionRecord of None \<Rightarrow> 0 | Some g \<Rightarrow> g),
                 trm_status = JStr (tr_status transactionRecord) \<rparr>)"

definition record_metrics ::
  "('c, 'r, 'w, 'n) node_env \<Rightarrow> executed_transaction \<Rightarrow> ('c, 'r, 'w, 'n, record_metric option) node_action" where
  "record_metrics env t =
     catch_do
       (and_do (if ne_recordFromConsensus env
                then sdk_getTransactionRecordMetrics env (et_transactionId t) (et_operatorAccountId t)
                else on_relay (getTransactionRecordMetrics (ne_mirror env) (et_transactionId t) (et_constructor t)
                       (et_operatorAccountId t) (et_details t)))
          (\<lambda>m. ret (Some m)))
       (\<lambda>error. ret None)"

definition addExpenseAndCaptureMetrics ::
  "('c, 'r, 'w, 'n) node_env \<Rightarrow> int \<Rightarrow> string option \<Rightarrow> request_details \<Rightarrow> ('c, 'r, 'w, 'n, unit) node_action" where
  "addExpenseAndCaptureMetrics env cost originalCallerAddress d =
     (\<lambda>s. case addExpense (ne_hbar env) (node_now env s) cost
                 (case originalCallerAddress of None \<Rightarrow> '''' | Some a \<Rightarrow> a) (rd_ipAddress d) (ns_hbar s) of
        (Inl m, h) \<Rightarrow> (Inl (ThrownOther m), s\<lparr> ns_hbar := h \<rparr>)
      | (Inr u, h) \<Rightarrow> (Inr (), s\<lparr> ns_hbar := h \<rparr>))"

definition captureTransactionMetrics ::
  "('c, 'r, 'w, 'n) node_env \<Rightarrow> executed_transaction \<Rightarrow> ('c, 'r, 'w, 'n, unit) node_action" where
  "captureTransactionMetrics env t =
     and_do (record_metrics env t) (\<lambda>metrics.
       case metrics of
         None \<Rightarrow> ret ()
       | Some m \<Rightarrow>
           and_do (if trm_transactionFee m \<noteq> 0
                   then addExpenseAndCaptureMetrics env (trm_transactionFee m) (Some (et_caller t)) (et_details t) else ret ()) (\<lambda>_.
           if trm_txRecordChargeAmount m \<noteq> 0
           then addExpenseAndCaptureMetrics env (trm_txRecordChargeAmount m) (Some (et_caller t)) (et_details t) else ret ()))"

text \<open>A listener takes the oldest event.\<close>

definition listener :: "('c, 'r, 'w, 'n) node_env \<Rightarrow> node_event \<Rightarrow> ('c, 'r, 'w, 'n, unit) node_action" where
  "listener env e =
     (case e of
        TransactionExecuted t \<Rightarrow> captureTransactionMetrics env t
      | QueryExecuted q \<Rightarrow> addExpenseAndCaptureMetrics env (eq_cost q) (eq_caller q) (eq_details q)
      | EthExecution m \<Rightarrow> ret ())"

subsection \<open>Fees reach the limiter\<close>

lemma limit_guard_run:
  assumes "shouldLimit (ne_hbar env) (node_now env s) a (rd_ipAddress d) fee (ns_hbar s) = (Inr limited, h)"
  shows "limit_guard env a d fee s = (if limited then Inl (ThrownRpc HBAR_RATE_LIMIT_EXCEEDED) else Inr (), s\<lparr> ns_hbar := h \<rparr>)"
  using assms by (simp add: limit_guard_def)

lemma execute_admitted:
  assumes "ne_operatorId env = Some operator"
    and "\<And>n. fst (ne_execute env tx n) \<noteq> Inr ''''"
    and "executeTransaction env tx m d False a fee s = (r, s')"
  shows "ns_relay s' = ns_relay s \<and> ns_hbar s' = ns_hbar s \<and>
    (case fst (ne_execute env tx (ns_net s)) of
       Inl f \<Rightarrow> ns_events s' = ns_events s
     | Inr t \<Rightarrow> ns_events s' = ns_events s @ [TransactionExecuted \<lparr> et_transactionId = t, et_details = d,
                  et_constructor = constructor_name tx, et_operatorAccountId = operator, et_caller = a \<rparr>])"
proof -
  obtain answer n where ex: "ne_execute env tx (ns_net s) = (answer, n)" by fastforce
  show ?thesis
  proof (cases answer)
    case (Inl f)
    with assms(3) ex show ?thesis by (auto simp: executeTransaction_def on_net_def and_do_def ret_def throw_def)
  next
    case (Inr t)
    then have t: "t \<noteq> ''''" using assms(2) [of "ns_net s"] ex by auto
    obtain receipt n' where "ne_receipt env t n = (receipt, n')" by fastforce
    with assms(1,3) ex Inr t show ?thesis
      by (auto simp: executeTransaction_def on_net_def and_do_def ret_def report_transaction_def emit_def lift_def)
  qed
qed

lemma guarded_execution:
  "executeTransaction env tx m d True a fee s =
     (case limit_guard env a d fee s of
        (Inl e, t) \<Rightarrow> (Inl e, t) | (Inr u, t) \<Rightarrow> executeTransaction env tx m d False a fee t)"
  by (simp add: executeTransaction_def and_do_def ret_def split: prod.split sum.split)

definition charge :: "transaction_record \<Rightarrow> string \<Rightarrow> int" where
  "charge record operator =
     record_transfer_sum (tr_transfers record) operator + calculateTxRecordChargeAmount (tr_exchangeRateInCents record)"

lemma expense_added:
  assumes "isEnabled (ne_hbar env)" and "0 < limitDuration (ne_hbar env)" and "i \<noteq> oid"
    and "has_plan (node_now env s) (operatorAddress (ne_hbar env)) oid op (hl_store (ns_hbar s))"
    and "has_plan (node_now env s) a i p (hl_store (ns_hbar s))"
  shows "\<exists>h. (if cost \<noteq> 0 then addExpenseAndCaptureMetrics env cost (Some a) d else ret ()) s = (Inr (), s\<lparr> ns_hbar := h \<rparr>) \<and>
    stored_amount (node_now env s) oid (hl_store h) = stored_amount (node_now env s) oid (hl_store (ns_hbar s)) + cost \<and>
    stored_amount (node_now env s) i (hl_store h) = stored_amount (node_now env s) i (hl_store (ns_hbar s)) + cost \<and>
    (\<forall>b j q. has_plan (node_now env s) b j q (hl_store (ns_hbar s)) \<longrightarrow> has_plan (node_now env s) b j q (hl_store h))"
proof (cases "cost = 0")
  case True
  then show ?thesis by (intro exI [of _ "ns_hbar s"]) (simp add: ret_def)
next
  case False
  then show ?thesis using addExpense_full [OF assms, of cost "rd_ipAddress d"] by (auto simp: addExpenseAndCaptureMetrics_def)
qed

lemma two_expenses:
  assumes "isEnabled (ne_hbar env)" and "0 < limitDuration (ne_hbar env)" and "i \<noteq> oid"
    and "has_plan (node_now env s) (operatorAddress (ne_hbar env)) oid op (hl_store (ns_hbar s))"
    and "has_plan (node_now env s) a i p (hl_store (ns_hbar s))"
  shows "\<exists>h. and_do (if x \<noteq> 0 then addExpenseAndCaptureMetrics env x (Some a) d else ret ())
      (\<lambda>_. if y \<noteq> 0 then addExpenseAndCaptureMetrics env y (Some a) d else ret ()) s = (Inr (), s\<lparr> ns_hbar := h \<rparr>) \<and>
    stored_amount (node_now env s) oid (hl_store h) = stored_amount (node_now env s) oid (hl_store (ns_hbar s)) + (x + y) \<and>
    stored_amount (node_now env s) i (hl_store h) = stored_amount (node_now env s) i (hl_store (ns_hbar s)) + (x + y)"
proof -
  obtain h where h: "(if x \<noteq> 0 then addExpenseAndCaptureMetrics env x (Some a) d else ret ()) s = (Inr (), s\<lparr> ns_hbar := h \<rparr>)"
    "stored_amount (node_now env s) oid (hl_store h) = stored_amount (node_now env s) oid (hl_store (ns_hbar s)) + x"
    "stored_amount (node_now env s) i (hl_store h) = stored_amount (node_now env s) i (hl_store (ns_hbar s)) + x"
    "\<And>b j q. has_plan (node_now env s) b j q (hl_store (ns_hbar s)) \<Longrightarrow> has_plan (node_now env s) b j q (hl_store h)"
    using expense_added [OF assms, of x d] by blast
  let ?s1 = "s\<lparr> ns_hbar := h \<rparr>"
  have now: "node_now env ?s1 = node_now env s" by (simp add: node_now_def)
  have plans: "has_plan (node_now env ?s1) (operatorAddress (ne_hbar env)) oid op (hl_store (ns_hbar ?s1))"
    "has_plan (node_now env ?s1) a i p (hl_store (ns_hbar ?s1))"
    using h(4) assms(4,5) now by simp_all
  obtain h' where "(if y \<noteq> 0 then addExpenseAndCaptureMetrics env y (Some a) d else ret ()) ?s1 = (Inr (), ?s1\<lparr> ns_hbar := h' \<rparr>)"
    "stored_amount (node_now env s) oid (hl_store h') = stored_amount (node_now env s) oid (hl_store h) + y"
    "stored_amount (node_now env s) i (hl_store h') = stored_amount (node_now env s) i (hl_store h) + y"
    using expense_added [OF assms(1-3) plans, of y d] now by auto
  with h show ?thesis by (intro exI [of _ h']) (simp add: and_do_Inr)
qed

lemma listener_books:
  assumes "isEnabled (ne_hbar env)" and "0 < limitDuration (ne_hbar env)" and "i \<noteq> oid"
    and "has_plan (node_now env s) (operatorAddress (ne_hbar env)) oid op (hl_store (ns_hbar s))"
    and "has_plan (node_now env s) (et_caller e) i p (hl_store (ns_hbar s))"
    and "ne_recordFromConsensus env" and "ne_record env (et_transactionId e) (ns_net s) = (Inr record, n)"
  shows "\<exists>s2. listener env (TransactionExecuted e) s = (Inr (), s2) \<and>
    stored_amount (node_now env s) oid (hl_store (ns_hbar s2)) =
      stored_amount (node_now env s) oid (hl_store (ns_hbar s)) + charge record (et_operatorAccountId e) \<and>
    stored_amount (node_now env s) i (hl_store (ns_hbar s2)) =
      stored_amount (node_now env s) i (hl_store (ns_hbar s)) + charge record (et_operatorAccountId e)"
proof -
  let ?t = "s\<lparr> ns_net := n \<rparr>"
  let ?x = "record_transfer_sum (tr_transfers record) (et_operatorAccountId e)"
  let ?y = "calculateTxRecordChargeAmount (tr_exchangeRateInCents record)"
  have now: "node_now env ?t = node_now env s" by (simp add: node_now_def)
  obtain h where h: "and_do (if ?x \<noteq> 0 then addExpenseAndCaptureMetrics env ?x (Some (et_caller e)) (et_details e) else ret ())
      (\<lambda>_. if ?y \<noteq> 0 then addExpenseAndCaptureMetrics env ?y (Some (et_caller e)) (et_details e) else ret ()) ?t = (Inr (), ?t\<lparr> ns_hbar := h \<rparr>)"
    "stored_amount (node_now env s) oid (hl_store h) = stored_amount (node_now env s) oid (hl_store (ns_hbar s)) + (?x + ?y)"
    "stored_amount (node_now env s) i (hl_store h) = stored_amount (node_now env s) i (hl_store (ns_hbar s)) + (?x + ?y)"
    using two_expenses [OF assms(1-3), of ?t op "et_caller e" p ?x "et_details e" ?y] assms(4,5) now by auto
  have "record_metrics env e s = (Inr (Some \<lparr> trm_transactionFee = ?x, trm_txRecordChargeAmount = ?y,
        trm_gasUsed = (case tr_gasUsed record of None \<Rightarrow> 0 | Some g \<Rightarrow> g), trm_status = JStr (tr_status record) \<rparr>), ?t)"
    using assms(6,7) by (simp add: record_metrics_def sdk_getTransactionRecordMetrics_def catch_do_def and_do_def on_net_def ret_def)
  then have "listener env (TransactionExecuted e) s =
      and_do (if ?x \<noteq> 0 then addExpenseAndCaptureMetrics env ?x (Some (et_caller e)) (et_details e) else ret ())
        (\<lambda>_. if ?y \<noteq> 0 then addExpenseAndCaptureMetrics env ?y (Some (et_caller e)) (et_details e) else ret ()) ?t"
    by (simp add: listener_def captureTransactionMetrics_def and_do_Inr)
  from trans [OF this h(1)] h(2,3) show ?thesis by (auto simp: charge_def)
qed

text \<open>
  C9. A transaction that is weighed against the budgets is either refused with nothing sent, reported or
  booked, or it fails before the network accepts it and is not reported, or it is reported exactly once;
  handling the report books what the operator paid for it, and for reading its record, on the caller's plan
  and on the operator's, both of which had some budget left.
\<close>

theorem transaction_fee_booked:
  assumes "isEnabled (ne_hbar env)" and "0 < limitDuration (ne_hbar env)" and "i \<noteq> oid"
    and "node_now env s < hl_reset (ns_hbar s)"
    and "has_plan (node_now env s) (operatorAddress (ne_hbar env)) oid op (hl_store (ns_hbar s))"
    and "has_plan (node_now env s) a i p (hl_store (ns_hbar s))"
    and "ne_operatorId env = Some operator" and "\<And>n. fst (ne_execute env tx n) \<noteq> Inr ''''"
    and "ne_recordFromConsensus env"
    and "executeTransaction env tx m d True a 0 s = (r, s1)" and "ns_events s = []"
  shows "hl_store (ns_hbar s1) = hl_store (ns_hbar s) \<and>
    (r = Inl (ThrownRpc HBAR_RATE_LIMIT_EXCEEDED) \<and> ns_net s1 = ns_net s \<and> ns_events s1 = [] \<or>
     (\<exists>f. fst (ne_execute env tx (ns_net s)) = Inl f) \<and> ns_events s1 = [] \<or>
     (\<exists>t. ns_events s1 = [TransactionExecuted t] \<and>
        stored_amount (node_now env s) oid (hl_store (ns_hbar s)) < TIER_LIMITS (ne_hbar env) OPERATOR \<and>
        stored_amount (node_now env s) i (hl_store (ns_hbar s)) < TIER_LIMITS (ne_hbar env) (plan_subscriptionTier p) \<and>
        (\<forall>record n. ne_record env (et_transactionId t) (ns_net s1) = (Inr record, n) \<longrightarrow>
          (\<exists>s2. listener env (TransactionExecuted t) s1 = (Inr (), s2) \<and>
             stored_amount (node_now env s) oid (hl_store (ns_hbar s2)) =
               stored_amount (node_now env s) oid (hl_store (ns_hbar s)) + charge record operator \<and>
             stored_amount (node_now env s) i (hl_store (ns_hbar s2)) =
               stored_amount (node_now env s) i (hl_store (ns_hbar s)) + charge record operator))))"
proof -
  let ?now = "node_now env s"
  let ?limited = "let left = TIER_LIMITS (ne_hbar env) OPERATOR - stored_amount ?now oid (hl_store (ns_hbar s));
      own = TIER_LIMITS (ne_hbar env) (plan_subscriptionTier p) - stored_amount ?now i (hl_store (ns_hbar s))
    in left \<le> 0 \<or> left < 0 \<or> own \<le> 0 \<or> own < 0"
  obtain h where h: "shouldLimit (ne_hbar env) ?now a (rd_ipAddress d) 0 (ns_hbar s) = (Inr ?limited, h)"
    "hl_store h = hl_store (ns_hbar s)"
    using shouldLimit_spec [OF assms(1,4-6), of "rd_ipAddress d" 0] by blast
  note guard = limit_guard_run [OF h(1)]
  show ?thesis
  proof (cases ?limited)
    case True
    then show ?thesis using assms(10,11) guard h(2) by (auto simp: guarded_execution simp del: Let_def)
  next
    case False
    have run: "executeTransaction env tx m d False a 0 (s\<lparr> ns_hbar := h \<rparr>) = (r, s1)"
      using assms(10) guard False by (simp add: guarded_execution del: Let_def)
    note ran = execute_admitted [OF assms(7,8) run]
    have now: "node_now env s1 = ?now" and store: "hl_store (ns_hbar s1) = hl_store (ns_hbar s)"
      using ran h(2) by (simp_all add: node_now_def)
    have left: "stored_amount ?now oid (hl_store (ns_hbar s)) < TIER_LIMITS (ne_hbar env) OPERATOR"
      "stored_amount ?now i (hl_store (ns_hbar s)) < TIER_LIMITS (ne_hbar env) (plan_subscriptionTier p)"
      using False by (simp_all add: Let_def)
    show ?thesis
    proof (cases "fst (ne_execute env tx (ns_net s))")
      case (Inl f)
      with ran store assms(11) show ?thesis by simp
    next
      case (Inr t)
      let ?e = "\<lparr> et_transactionId = t, et_details = d, et_constructor = constructor_name tx, et_operatorAccountId = operator, et_caller = a \<rparr>"
      have "ns_events s1 = [TransactionExecuted ?e]" using ran assms(11) Inr by simp
      moreover have "\<exists>s2. listener env (TransactionExecuted ?e) s1 = (Inr (), s2) \<and>
          stored_amount ?now oid (hl_store (ns_hbar s2)) = stored_amount ?now oid (hl_store (ns_hbar s)) + charge rec operator \<and>
          stored_amount ?now i (hl_store (ns_hbar s2)) = stored_amount ?now i (hl_store (ns_hbar s)) + charge rec operator"
        if "ne_record env (et_transactionId ?e) (ns_net s1) = (Inr rec, n)" for rec n
        using listener_books [OF assms(1-3) _ _ assms(9) that, of op p] assms(5,6) now store by simp
      ultimately show ?thesis using left store by auto
    qed
  qed
qed

subsection \<open>What a query costs\<close>

lemma cost_multiplier_bounds: "n \<le> 3 \<Longrightarrow> 1 \<le> cost_multiplier n \<and> cost_multiplier n \<le> 4 / 3"
proof -
  assume "n \<le> 3"
  then consider "n = 0" | "n = 1" | "n = 2" | "n = 3" by linarith
  then show ?thesis by cases (simp_all add: cost_multiplier_def)
qed

lemma paid_cost:
  assumes "currentRetry \<le> maxRetries"
    and "increaseCostAndRetryExecution env query baseCost maxRetries currentRetry net = ((r, cost), net')"
  shows "\<exists>k. k \<le> maxRetries \<and> cost = js_round (of_int baseCost * cost_multiplier k)"
  using assms
proof (induction env query baseCost maxRetries currentRetry net rule: increaseCostAndRetryExecution.induct)
  case (1 env query baseCost maxRetries currentRetry net)
  let ?cost = "js_round (of_int baseCost * cost_multiplier currentRetry)"
  obtain answer n where q: "ne_query env query (Some ?cost) net = (answer, n)" by fastforce
  note unfold = increaseCostAndRetryExecution.simps [of env query baseCost maxRetries currentRetry net]
  show ?case
  proof (cases "\<exists>f. fst answer = Inl f \<and> currentRetry < maxRetries \<and> sdk_isInsufficientTxFee (ne_table env) (sdk_error env f None None)")
    case True
    then obtain f where f: "fst answer = Inl f" "currentRetry < maxRetries" "sdk_isInsufficientTxFee (ne_table env) (sdk_error env f None None)"
      by blast
    then have "increaseCostAndRetryExecution env query baseCost maxRetries (currentRetry + 1) n = ((r, cost), net')"
      using "1.prems"(2) q unfold by (simp add: Let_def)
    with "1.IH" [OF refl q [symmetric] refl f(1)] f(2,3) show ?thesis by auto
  next
    case False
    then have "cost = ?cost" using "1.prems"(2) q unfold by (auto simp: Let_def split: sum.splits)
    with "1.prems"(1) show ?thesis by blast
  qed
qed

text \<open>
  However often a query is repeated because its fee was too low, what is paid for it in the end is
  between its base price and four thirds of it, rounded to a tinybar.
\<close>

theorem query_cost_bounds:
  assumes "0 \<le> baseCost"
    and "increaseCostAndRetryExecution env query baseCost 3 0 net = ((r, cost), net')"
  shows "baseCost \<le> cost \<and> 3 * cost \<le> 4 * baseCost + 1"
proof -
  obtain k where k: "k \<le> 3" and cost: "cost = js_round (of_int baseCost * cost_multiplier k)"
    using paid_cost [OF _ assms(2)] by auto
  have base: "(0 :: rat) \<le> of_int baseCost" using assms(1) by simp
  have low: "of_int baseCost \<le> of_int baseCost * cost_multiplier k"
    using cost_multiplier_bounds [OF k] mult_left_mono [OF _ base, of 1 "cost_multiplier k"] by simp
  have high: "of_int baseCost * cost_multiplier k \<le> of_int baseCost * (4 / 3)"
    using cost_multiplier_bounds [OF k] base by (intro mult_left_mono) auto
  have "of_int cost \<le> of_int baseCost * cost_multiplier k + 1 / 2" by (simp add: cost js_round_def)
  with high have "2 * (3 * of_int cost) \<le> (8 * of_int baseCost + 3 :: rat)" by simp
  then have "2 * (3 * cost) \<le> 8 * baseCost + 3" by linarith
  moreover have "baseCost \<le> cost" using low by (simp add: cost js_round_def le_floor_iff)
  ultimately show ?thesis by simp
qed

subsection \<open>Call data kept in a file\<close>

lemma toHexString_length: "length (toHexString bs) = 2 * length bs"
  by (induction bs) (simp_all add: toHexString_def byte_hex_def)

lemma createFile_steps:
  assumes "createFile env callData d m a rate s = (Inr (Some f), s')" and "ne_chunkSize env < length callData"
  shows "\<exists>s1 t s2 s3 u s4 answer.
    executeTransaction env (FileCreateTransaction (take (ne_chunkSize env) (toHexString (map unat callData))) (ne_operatorId env \<noteq> None)) m d False a 0 s1
      = (Inr t, s2) \<and>
    on_net (ne_receipt env t) s2 = (Inr (Inr (Some f)), s3) \<and>
    executeAllTransaction env (FileAppendTransaction f (drop (ne_chunkSize env) (toHexString (map unat callData))) (ne_chunkSize env) (ne_maxChunks env))
      d False a 0 s3 = (Inr u, s4) \<and>
    executeQuery env (FileInfoQuery f) d (Some a) s4 = (Inr answer, s')"
proof -
  obtain s1 t s2 r s3 where steps:
    "executeTransaction env (FileCreateTransaction (take (ne_chunkSize env) (toHexString (map unat callData))) (ne_operatorId env \<noteq> None)) m d False a 0 s1
      = (Inr t, s2)"
    "on_net (ne_receipt env t) s2 = (Inr r, s3)"
    and rest: "(case r of Inl f \<Rightarrow> throw (ThrownOther (sf_message f)) | Inr None \<Rightarrow> ret None
      | Inr (Some fileId) \<Rightarrow>
          and_do (if ne_chunkSize env < length callData
                  then executeAllTransaction env (FileAppendTransaction fileId (drop (ne_chunkSize env) (toHexString (map unat callData)))
                         (ne_chunkSize env) (ne_maxChunks env)) d False a 0
                  else ret ()) (\<lambda>_.
          and_do (executeQuery env (FileInfoQuery fileId) d (Some a)) (\<lambda>fileInfo.
            case fileInfo of
              FileInfo fileSize isDeleted \<Rightarrow>
                if fileSize = 0
                then throw (ThrownSdk (SDKClientError (ne_table env) None (Some (formattedRequestId d @ '' Created file is empty. '')) None None))
                else ret (Some fileId)
            | CallResult bs \<Rightarrow> throw type_error))) s3 = (Inr (Some f), s')"
    using assms(1) unfolding createFile_def Let_def and_do_Inr_iff by blast
  then obtain g where g: "r = Inr (Some g)" by (cases r) (auto simp: throw_def ret_def split: option.splits)
  with rest assms(2) have "and_do (executeAllTransaction env (FileAppendTransaction g (drop (ne_chunkSize env) (toHexString (map unat callData)))
      (ne_chunkSize env) (ne_maxChunks env)) d False a 0) (\<lambda>_.
          and_do (executeQuery env (FileInfoQuery g) d (Some a)) (\<lambda>fileInfo.
            case fileInfo of
              FileInfo fileSize isDeleted \<Rightarrow>
                if fileSize = 0
                then throw (ThrownSdk (SDKClientError (ne_table env) None (Some (formattedRequestId d @ '' Created file is empty. '')) None None))
                else ret (Some g)
            | CallResult bs \<Rightarrow> throw type_error)) s3 = (Inr (Some f), s')" by simp
  then obtain u s4 answer s5 where more:
    "executeAllTransaction env (FileAppendTransaction g (drop (ne_chunkSize env) (toHexString (map unat callData)))
      (ne_chunkSize env) (ne_maxChunks env)) d False a 0 s3 = (Inr u, s4)"
    "executeQuery env (FileInfoQuery g) d (Some a) s4 = (Inr answer, s5)"
    "(case answer of FileInfo fileSize isDeleted \<Rightarrow>
                if fileSize = 0
                then throw (ThrownSdk (SDKClientError (ne_table env) None (Some (formattedRequestId d @ '' Created file is empty. '')) None None))
                else ret (Some g)
            | CallResult bs \<Rightarrow> throw type_error) s5 = (Inr (Some f), s')"
    unfolding and_do_Inr_iff by blast
  then have "g = f" "s5 = s'" by (auto simp: ret_def throw_def split: query_answer.splits if_splits)
  with steps more g show ?thesis by blast
qed

lemma execute_network:
  assumes "executeTransaction env tx m d False a fee s = (Inr t, s')"
  shows "\<exists>n. ne_execute env tx (ns_net s) = (Inr t, n) \<and> ns_net s' = snd (ne_receipt env t n)"
proof -
  obtain r n where ex: "ne_execute env tx (ns_net s) = (r, n)" by fastforce
  then obtain u where u: "r = Inr u" using assms by (cases r) (auto simp: executeTransaction_def and_do_def ret_def on_net_def throw_def)
  obtain receipt n' where "ne_receipt env u n = (receipt, n')" by fastforce
  with ex u assms show ?thesis
    by (auto simp: executeTransaction_def and_do_def ret_def on_net_def throw_def report_transaction_def emit_def lift_def
        after_receipt_def Let_def split: sum.splits if_splits option.splits)
qed

lemma reports_keep_network: "keeps (\<lambda>s. ns_net s = n) (map_do (\<lambda>t. report_transaction env t c a d) ts)"
  by (intro keeps_map_do) (auto simp: keeps_def report_transaction_def ret_def throw_def emit_def split: option.split)

lemma execute_all_network:
  assumes "executeAllTransaction env tx d False a fee s = (Inr u, s')"
  shows "\<exists>ts. ne_executeAll env tx (ns_net s) = (Inr ts, ns_net s')"
proof -
  obtain r n where ex: "ne_executeAll env tx (ns_net s) = (r, n)" by fastforce
  then obtain ts where ts: "r = Inr ts" using assms by (cases r) (auto simp: executeAllTransaction_def and_do_def ret_def on_net_def throw_def)
  let ?reports = "map_do (\<lambda>t. report_transaction env t (constructor_name tx) a d) ts"
  from ex ts assms have "s' = snd (?reports (s\<lparr> ns_net := n \<rparr>))"
    by (auto simp: executeAllTransaction_def and_do_def ret_def on_net_def split: prod.splits sum.splits)
  with keepsD [OF reports_keep_network [of n env "constructor_name tx" a d ts], of "s\<lparr> ns_net := n \<rparr>"] ex ts show ?thesis by auto
qed

lemma query_network: "ns_net (snd (executeQuery env (FileInfoQuery f) d a s)) = snd (ne_query env (FileInfoQuery f) None (ns_net s))"
  by (simp add: executeQuery_def and_do_def on_net_def pay_and_execute_def Let_def emit_def ret_def lift_def split: prod.split option.split)

text \<open>
  When the call data does not fit into one chunk and a file is made for it, the file holds all of the
  call data, in order, when the Ethereum transaction that refers to it is submitted; the submitted data
  itself has none. What is relied on: a file that was created holds what was given, an append adds to its
  end, and neither receipts nor queries change it.
\<close>

theorem file_holds_call_data:
  assumes create: "\<And>c k n t n1 r n2 f n3. ne_execute env (FileCreateTransaction c k) n = (Inr t, n1) \<Longrightarrow>
      ne_receipt env t n1 = (r, n2) \<Longrightarrow> ne_receipt env t n2 = (Inr (Some f), n3) \<Longrightarrow> contents n3 f = c"
    and append: "\<And>f c chunk mx n ts n1. ne_executeAll env (FileAppendTransaction f c chunk mx) n = (Inr ts, n1) \<Longrightarrow>
      contents n1 f = contents n f @ c"
    and same: "\<And>f n. contents (snd (ne_query env (FileInfoQuery f) None n)) f = contents n f"
    and placed: "place_call_data env tx m d a rate s = (Inr (bytes, Some f), s')"
  shows "contents (ns_net s') f = toHexString (map unat (ed_callData tx)) \<and>
    bytes = ne_toBytes env (tx\<lparr> ed_callData := [] \<rparr>) \<and> ne_chunkSize env < length (ed_callData tx)"
proof -
  let ?hex = "toHexString (map unat (ed_callData tx))"
  have large: "ne_chunkSize env < length (ed_callData tx)"
    using placed by (auto simp: place_call_data_def ret_def split: if_splits)
  have made: "createFile env (ed_callData tx) d m a rate s = (Inr (Some f), s')" and bytes: "bytes = ne_toBytes env (tx\<lparr> ed_callData := [] \<rparr>)"
    using placed by (auto simp: place_call_data_def and_do_Inr_iff ret_def throw_def split: if_splits option.splits)
  from createFile_steps [OF made large] obtain s1 t s2 s3 u s4 answer where
    step: "executeTransaction env (FileCreateTransaction (take (ne_chunkSize env) ?hex) (ne_operatorId env \<noteq> None)) m d False a 0 s1 = (Inr t, s2)"
    and receipt: "on_net (ne_receipt env t) s2 = (Inr (Inr (Some f)), s3)"
    and more: "executeAllTransaction env (FileAppendTransaction f (drop (ne_chunkSize env) ?hex) (ne_chunkSize env) (ne_maxChunks env)) d False a 0 s3 = (Inr u, s4)"
    and query: "executeQuery env (FileInfoQuery f) d (Some a) s4 = (Inr answer, s')"
    by blast
  obtain n1 where "ne_execute env (FileCreateTransaction (take (ne_chunkSize env) ?hex) (ne_operatorId env \<noteq> None)) (ns_net s1) = (Inr t, n1)"
    "ns_net s2 = snd (ne_receipt env t n1)" using execute_network [OF step] by blast
  with receipt have "contents (ns_net s3) f = take (ne_chunkSize env) ?hex"
    using create [of "take (ne_chunkSize env) ?hex" "ne_operatorId env \<noteq> None" "ns_net s1" t n1 "fst (ne_receipt env t n1)" "ns_net s2" f "ns_net s3"]
    by (auto simp: on_net_def split: prod.splits)
  moreover obtain ts where "ne_executeAll env (FileAppendTransaction f (drop (ne_chunkSize env) ?hex) (ne_chunkSize env) (ne_maxChunks env)) (ns_net s3) = (Inr ts, ns_net s4)"
    using execute_all_network [OF more] by blast
  ultimately have "contents (ns_net s4) f = ?hex" using append by simp
  moreover have "contents (ns_net s') f = contents (ns_net s4) f"
    using query_network [of env f d "Some a" s4] query same by simp
  ultimately show ?thesis using large bytes by simp
qed

subsection \<open>A network with one file\<close>

definition net_execute :: "sdk_transaction \<Rightarrow> string \<Rightarrow> (sdk_failure + string) \<times> string" where
  "net_execute t n = (Inr ''0.0.2@3.4'', case t of FileCreateTransaction c k \<Rightarrow> c | _ \<Rightarrow> n)"

definition net_executeAll :: "sdk_transaction \<Rightarrow> string \<Rightarrow> (sdk_failure + string list) \<times> string" where
  "net_executeAll t n = (Inr [''0.0.2@5.6''], case t of FileAppendTransaction f c chunk mx \<Rightarrow> n @ c | _ \<Rightarrow> n)"

definition net_query :: "sdk_query \<Rightarrow> int option \<Rightarrow> string \<Rightarrow> ((sdk_failure + query_answer) \<times> int option) \<times> string" where
  "net_query q payment n =
     ((case q of FileInfoQuery f \<Rightarrow> Inr (FileInfo (int (length n)) False)
       | _ \<Rightarrow> if payment = Some 1000
              then Inl \<lparr> sf_message = ''low'', sf_code = Some 9, sf_transactionId = None, sf_nodeAccountId = None, sf_revertMessage = None \<rparr>
              else Inr (CallResult [7]), payment), n)"

definition net_record :: transaction_record where
  "net_record = \<lparr> tr_status = ''SUCCESS'', tr_exchangeRateInCents = 1000000, tr_transfers = [(''0.0.2'', -3), (''0.0.5'', 2)], tr_gasUsed = None \<rparr>"

definition sample_node :: "hbar_config \<Rightarrow> (list_lru, unit, nat, string) node_env" where
  "sample_node cfg =
     \<lparr> ne_relay = sample_relay [], ne_hbar = cfg, ne_hapi = sample_hapi, ne_table = sample_status, ne_statusText = show_int,
       ne_WrongNonce = 24, ne_operatorId = Some ''0.0.2'', ne_fromBytes = (\<lambda>bs. Inr \<lparr> ed_to = '''', ed_callData = bs, ed_rest = '''' \<rparr>),
       ne_toBytes = ed_callData, ne_execute = net_execute, ne_executeAll = net_executeAll, ne_receipt = (\<lambda>t n. (Inr (Some ''0.0.7''), n)),
       ne_queryCost = (\<lambda>q n. (Inr 1000, n)), ne_query = net_query, ne_record = (\<lambda>t n. (Inr net_record, n)), ne_chunkSize = 2,
       ne_maxChunks = 20, ne_jumboTx = False, ne_maxFeeThreshold = 15000000, ne_queryRetries = 3, ne_recordFromConsensus = True \<rparr>"

definition node_start :: "nat \<Rightarrow> hbar_state \<Rightarrow> (list_lru, unit, nat, string) node_state" where
  "node_start now h =
     \<lparr> ns_relay = quiet_relay\<lparr> rs_world := now \<rparr>, ns_hbar = h, ns_hapi = new_hapi sample_hapi 0, ns_net = '''', ns_events = [] \<rparr>"

theorem query_cost_bounds_witness:
  "\<exists>r cost n. increaseCostAndRetryExecution (sample_node sample_cfg) (ContractCallQuery (FromEvmAddress ''0a'') (Num 5) None None True) 1000 3 0 ''''
     = ((r, cost), n) \<and> 1000 \<le> cost \<and> 3 * cost \<le> 4001"
proof -
  obtain r cost n where "increaseCostAndRetryExecution (sample_node sample_cfg)
      (ContractCallQuery (FromEvmAddress ''0a'') (Num 5) None None True) 1000 3 0 '''' = ((r, cost), n)" by (metis surj_pair)
  with query_cost_bounds [OF _ this] show ?thesis by auto
qed

lemma sample_node_facts:
  "node_now (sample_node cfg) (node_start now h) = int now" "ns_hbar (node_start now h) = h" "ns_events (node_start now h) = []"
  "ne_hbar (sample_node cfg) = cfg" "ne_operatorId (sample_node cfg) = Some ''0.0.2''"
  "fst (ne_execute (sample_node cfg) tx n) \<noteq> Inr ''''" "ne_recordFromConsensus (sample_node cfg)"
  "ne_record (sample_node cfg) t n' = (Inr net_record, n')"
  by (simp_all add: sample_node_def node_start_def node_now_def sample_relay_def canned_mirror_def net_execute_def)

theorem transaction_fee_booked_witness:
  "\<exists>r s1. executeTransaction (sample_node sample_cfg) (FileDeleteTransaction ''0.0.7'' 2) ''eth'' sample_details True ''0xaa'' 0
       (node_start 100 HbarLimiter.sample_state) = (r, s1) \<and> hl_store (ns_hbar s1) = HbarLimiter.sample_store"
proof -
  let ?s = "node_start 100 HbarLimiter.sample_state"
  obtain r s1 where run: "executeTransaction (sample_node sample_cfg) (FileDeleteTransaction ''0.0.7'' 2) ''eth'' sample_details True ''0xaa'' 0 ?s = (r, s1)"
    by fastforce
  have "''b'' \<noteq> ''o''" by simp
  from transaction_fee_booked [of "sample_node sample_cfg" "''b''" "''o''" ?s "plan_of ''o'' OPERATOR" "''0xaa''" "plan_of ''b'' BASIC",
      OF _ _ this _ _ _ sample_node_facts(5,6,7) run sample_node_facts(3)]
  have "hl_store (ns_hbar s1) = hl_store HbarLimiter.sample_state"
    using HbarLimiter.sample_facts by (simp add: sample_node_facts)
  with run show ?thesis by (simp add: HbarLimiter.sample_state_def)
qed

definition closed_cfg :: hbar_config where
  "closed_cfg = sample_cfg\<lparr> TIER_LIMITS := (\<lambda>t. 0) \<rparr>"

theorem file_holds_call_data_witness:
  "\<exists>bytes f s'. place_call_data (sample_node closed_cfg) \<lparr> ed_to = '''', ed_callData = [1, 2, 255], ed_rest = '''' \<rparr> ''eth'' sample_details ''0xaa'' 12
      (node_start 100 HbarLimiter.sample_state) = (Inr (bytes, Some f), s') \<and> ns_net s' = ''0102ff'' \<and> bytes = []"
proof -
  let ?tx = "\<lparr> ed_to = '''', ed_callData = [1, 2, 255], ed_rest = '''' \<rparr>"
  let ?env = "sample_node closed_cfg"
  have hex: "toHexString (map unat [1, 2, 255 :: 8 word]) = ''0102ff''" by code_simp
  have off: "\<not> isEnabled closed_cfg" by (simp add: isEnabled_def closed_cfg_def)
  have "\<exists>s'. place_call_data ?env ?tx ''eth'' sample_details ''0xaa'' 12 (node_start 100 HbarLimiter.sample_state) = (Inr ([], Some ''0.0.7''), s')"
    using off hex
    by (simp add: place_call_data_def createFile_def limit_guard_def shouldLimit_def executeTransaction_def executeAllTransaction_def executeQuery_def
        pay_and_execute_def and_do_def on_net_def ret_def lift_def report_transaction_def emit_def after_receipt_def Let_def
        sample_node_def node_start_def net_execute_def net_executeAll_def net_query_def)
  then obtain s' where placed: "place_call_data ?env ?tx ''eth'' sample_details ''0xaa'' 12 (node_start 100 HbarLimiter.sample_state) = (Inr ([], Some ''0.0.7''), s')"
    by blast
  have "ns_net s' = toHexString (map unat (ed_callData ?tx)) \<and> [] = ne_toBytes ?env (?tx\<lparr> ed_callData := [] \<rparr>) \<and> ne_chunkSize ?env < length (ed_callData ?tx)"
    by (rule file_holds_call_data [where contents = "\<lambda>n f. n", OF _ _ _ placed])
      (auto simp: sample_node_def net_execute_def net_executeAll_def net_query_def)
  with placed hex show ?thesis by simp
qed

end
