(* ===== verification/Transactions.thy ===== *)
theory Transactions
  imports Blocks SdkClient
begin

section \<open>Transactions\<close>

text \<open>
  Models \<open>services/ethService/transactionService/TransactionService.ts\<close>, the look-ups of \<open>precheck.ts\<close> and
  \<open>Utils.computeTransactionHash\<close>. Sending a raw transaction runs through the parser, the prechecks, the
  consensus node and the mirror node; its state is that of \<open>SdkClient\<close>. The deletion of a file and, when
  transactions are processed in the background, the processing are run at the place where they are started.
  An exchange rate has two numbers, the second not 0. Logging is left out.
\<close>

record ('c, 'r, 'w, 'n) transaction_env =
  te_node :: "('c, 'r, 'w, 'n) node_env"
  te_chain :: string
  te_crypto :: crypto_env
  te_precheck :: precheck_config
  te_parse :: "string \<Rightarrow> string + eth_tx"
  te_keccak256 :: "8 word list \<Rightarrow> 8 word list"
  te_asyncProcessing :: bool

abbreviation te_relay :: "('c, 'r, 'w, 'n) transaction_env \<Rightarrow> ('c, 'r, 'w) relay_env" where
  "te_relay env \<equiv> ne_relay (te_node env)"

abbreviation te_mirror :: "('c, 'r, 'w, 'n) transaction_env \<Rightarrow> ('c, 'r, 'w) mirror_env" where
  "te_mirror env \<equiv> re_mirror (ne_relay (te_node env))"

definition te_blocks :: "('c, 'r, 'w, 'n) transaction_env \<Rightarrow> ('c, 'r, 'w) block_env" where
  "te_blocks env =
     \<lparr> be_relay = te_relay env, be_chain = te_chain env, be_maxTransactions = 0, be_revertStatuses = [], be_crypto = te_crypto env \<rparr>"

subsection \<open>Transactions and receipts by hash, block and index\<close>

text \<open>The transaction of a contract result, with its addresses resolved.\<close>

definition with_addresses :: "jsv \<Rightarrow> jsv \<Rightarrow> jsv \<Rightarrow> jsv" where
  "with_addresses contractResult from to = js_set_prop (js_set_prop contractResult ''from'' from) ''to'' to"

definition number_or_NaN :: "js_number \<Rightarrow> jsv" where
  "number_or_NaN n = (case n of Num k \<Rightarrow> JNum k | NotANumber \<Rightarrow> JStr ''NaN'')"

definition getTransactionByBlockHashOrBlockNumAndIndex ::
  "('c, 'r, 'w, 'n) transaction_env \<Rightarrow> string \<Rightarrow> jsv \<Rightarrow> jsv \<Rightarrow> request_details \<Rightarrow> ('c, 'r, 'w, jsv) relay_action" where
  "getTransactionByBlockHashOrBlockNumAndIndex env title value transactionIndex d =
     and_do (getContractResultWithRetry (te_mirror env)
               (getContractResults (te_mirror env) d
                  (JObj [(title, value), (''transactionIndex'', number_or_NaN (js_Number transactionIndex))]) JUndef))
       (\<lambda>contractResults. and_do (lift (elements contractResults)) (\<lambda>results.
          case results of
            [] \<Rightarrow> ret JNull
          | r # rs \<Rightarrow>
              if \<not> truthy r then ret JNull
              else and_do (resolve_value (te_blocks env) (js_prop r ''to'') d every_type) (\<lambda>to.
                   and_do (resolve_value (te_blocks env) (js_prop r ''from'') d [TYPE_ACCOUNT]) (\<lambda>from.
                   lift (formatContractResult (with_addresses r from to))))))"

definition getTransactionByBlockHashAndIndex ::
  "('c, 'r, 'w, 'n) transaction_env \<Rightarrow> jsv \<Rightarrow> jsv \<Rightarrow> request_details \<Rightarrow> ('c, 'r, 'w, jsv) relay_action" where
  "getTransactionByBlockHashAndIndex env blockHash transactionIndex d =
     catch_do (getTransactionByBlockHashOrBlockNumAndIndex env ''blockHash'' blockHash transactionIndex d)
       (\<lambda>e. throw (genericErrorHandler e))"

definition getTransactionByBlockNumberAndIndex ::
  "('c, 'r, 'w, 'n) transaction_env \<Rightarrow> jsv \<Rightarrow> jsv \<Rightarrow> request_details \<Rightarrow> ('c, 'r, 'w, jsv) relay_action" where
  "getTransactionByBlockNumberAndIndex env blockNumOrTag transactionIndex d =
     and_do (translateBlockTag (te_relay env) blockNumOrTag d) (\<lambda>blockNum.
       catch_do (getTransactionByBlockHashOrBlockNumAndIndex env ''blockNumber'' (number_or_NaN blockNum) transactionIndex d)
         (\<lambda>e. throw (genericErrorHandler e)))"

definition logs_of_transaction ::
  "('c, 'r, 'w, 'n) transaction_env \<Rightarrow> string \<Rightarrow> request_details \<Rightarrow> ('c, 'r, 'w, jsv list) relay_action" where
  "logs_of_transaction env hash d = getLogsWithParams (te_relay env) JNull (JObj [(''transaction.hash'', JStr hash)]) d"

text \<open>\<open>result === null || result.hash === undefined\<close>.\<close>

definition no_contract_result :: "jsv \<Rightarrow> thrown + bool" where
  "no_contract_result result =
     (if result = JNull then Inr True else if result = JUndef then Inl type_error else Inr (js_prop result ''hash'' = JUndef))"

definition getTransactionByHash ::
  "('c, 'r, 'w, 'n) transaction_env \<Rightarrow> string \<Rightarrow> request_details \<Rightarrow> ('c, 'r, 'w, jsv) relay_action" where
  "getTransactionByHash env hash d =
     and_do (getContractResultWithRetry (te_mirror env) (getContractResult (te_mirror env) hash d)) (\<lambda>contractResult.
     and_do (lift (no_contract_result contractResult)) (\<lambda>synthetic.
       if synthetic then
         and_do (logs_of_transaction env hash d) (\<lambda>syntheticLogs.
           ret (case syntheticLogs of [] \<Rightarrow> JNull | lg # ls \<Rightarrow> createTransactionFromLog (te_chain env) lg))
       else
         and_do (resolve_value (te_blocks env) (js_prop contractResult ''from'') d [TYPE_ACCOUNT]) (\<lambda>fromAddress.
         and_do (resolve_value (te_blocks env) (js_prop contractResult ''to'') d every_type) (\<lambda>toAddress.
           lift (formatContractResult (with_addresses
             (js_set_prop contractResult ''chain_id''
               (if truthy (js_prop contractResult ''chain_id'') then js_prop contractResult ''chain_id'' else JStr (te_chain env)))
             fromAddress toAddress))))))"

definition receipt_log :: "jsv \<Rightarrow> jsv \<Rightarrow> thrown + jsv" where
  "receipt_log receiptResponse lg =
     (if nullish lg then Inl type_error
      else and_then (hash32_of (js_prop receiptResponse ''block_hash'')) (\<lambda>blockHash.
        and_then (to_0x (js_prop receiptResponse ''block_number'')) (\<lambda>blockNumber.
        and_then (to_0x (js_prop lg ''index'')) (\<lambda>logIndex.
        and_then (hash32_of (js_prop receiptResponse ''hash'')) (\<lambda>transactionHash.
        and_then (to_0x (js_prop receiptResponse ''transaction_index'')) (\<lambda>transactionIndex.
          Inr (JObj [(''address'', js_prop lg ''address''), (''blockHash'', JStr blockHash),
                     (''blockNumber'', JStr blockNumber), (''data'', js_prop lg ''data''), (''logIndex'', JStr logIndex),
                     (''removed'', JBool False), (''topics'', js_prop lg ''topics''),
                     (''transactionHash'', JStr transactionHash), (''transactionIndex'', JStr transactionIndex)])))))))"

definition handleRegularTransactionReceipt ::
  "('c, 'r, 'w, 'n) transaction_env \<Rightarrow> jsv \<Rightarrow> request_details \<Rightarrow> ('c, 'r, 'w, jsv) relay_action" where
  "handleRegularTransactionReceipt env receiptResponse d =
     and_do (getCurrentGasPriceForBlock (te_relay env) (js_to_string (js_prop receiptResponse ''block_hash'')) d) (\<lambda>effectiveGas.
     and_do (lift (and_then (elements (js_prop receiptResponse ''logs'')) (map_outcome (receipt_log receiptResponse)))) (\<lambda>logs.
     and_do (resolve_value (te_blocks env) (js_prop receiptResponse ''from'') d every_type) (\<lambda>from.
     and_do (resolve_value (te_blocks env) (js_prop receiptResponse ''to'') d every_type) (\<lambda>to.
       lift (createRegularReceipt (JStr effectiveGas) from logs receiptResponse to)))))"

definition handleSyntheticTransactionReceipt ::
  "('c, 'r, 'w, 'n) transaction_env \<Rightarrow> string \<Rightarrow> request_details \<Rightarrow> ('c, 'r, 'w, jsv) relay_action" where
  "handleSyntheticTransactionReceipt env hash d =
     and_do (logs_of_transaction env hash d) (\<lambda>syntheticLogs.
       case syntheticLogs of
         [] \<Rightarrow> ret JNull
       | lg # ls \<Rightarrow>
           and_do (getCurrentGasPriceForBlock (te_relay env) (js_to_string (js_prop lg ''blockHash'')) d) (\<lambda>gasPriceForTimestamp.
             lift (createSyntheticReceipt (te_crypto env) syntheticLogs (JStr gasPriceForTimestamp))))"

definition getTransactionReceipt ::
  "('c, 'r, 'w, 'n) transaction_env \<Rightarrow> string \<Rightarrow> request_details \<Rightarrow> ('c, 'r, 'w, jsv) relay_action" where
  "getTransactionReceipt env hash d =
     and_do (getContractResultWithRetry (te_mirror env) (getContractResult (te_mirror env) hash d)) (\<lambda>receiptResponse.
     and_do (lift (no_contract_result receiptResponse)) (\<lambda>synthetic.
       if synthetic then handleSyntheticTransactionReceipt env hash d
       else handleRegularTransactionReceipt env receiptResponse d))"

definition sendTransaction :: json_rpc_error where "sendTransaction = UNSUPPORTED_METHOD"
definition signTransaction :: json_rpc_error where "signTransaction = UNSUPPORTED_METHOD"
definition eth_sign :: json_rpc_error where "eth_sign = UNSUPPORTED_METHOD"

subsection \<open>Prechecks that ask the mirror node\<close>

text \<open>The fields of an account the checks read; a nonce that is missing passes the check of the nonce, as 0 does.\<close>

definition account_of_json :: "jsv \<Rightarrow> mirror_account option" where
  "account_of_json v =
     (if nullish v then None
      else Some \<lparr> ethereum_nonce = (case js_prop v ''ethereum_nonce'' of JNum n \<Rightarrow> n | _ \<Rightarrow> 0),
                  account_balance = (case js_prop (js_prop v ''balance'') ''balance'' of JNum n \<Rightarrow> Some n | _ \<Rightarrow> None),
                  receiver_sig_required = truthy (js_prop v ''receiver_sig_required'') \<rparr>)"

definition ask_account ::
  "('c, 'r, 'w) mirror_env \<Rightarrow> string option \<Rightarrow> request_details \<Rightarrow> ('c, 'r, 'w, mirror_account option) relay_action" where
  "ask_account env address d =
     and_do (mn_getAccount env (or_null_text address) d None JUndef) (\<lambda>v. ret (account_of_json v))"

definition ask_verifyAccount ::
  "('c, 'r, 'w) mirror_env \<Rightarrow> eth_tx \<Rightarrow> request_details \<Rightarrow> ('c, 'r, 'w, mirror_account) relay_action" where
  "ask_verifyAccount env tx d =
     and_do (ask_account env (tx_from tx) d) (\<lambda>accountInfo. lift (verifyAccount (\<lambda>a. Inr accountInfo) tx))"

definition ask_receiverAccount ::
  "('c, 'r, 'w) mirror_env \<Rightarrow> eth_tx \<Rightarrow> request_details \<Rightarrow> ('c, 'r, 'w, unit) relay_action" where
  "ask_receiverAccount env tx d =
     (case tx_to tx of
        None \<Rightarrow> ret ()
      | Some to \<Rightarrow>
          if to = '''' then ret ()
          else and_do (ask_account env (Some to) d) (\<lambda>acc. lift (receiverAccount_check (\<lambda>a. Inr acc) tx)))"

definition run_sendRawTransactionCheck ::
  "('c, 'r, 'w) mirror_env \<Rightarrow> precheck_config \<Rightarrow> eth_tx \<Rightarrow> int \<Rightarrow> request_details \<Rightarrow> ('c, 'r, 'w, unit) relay_action" where
  "run_sendRawTransactionCheck env cfg parsedTx networkGasPriceInWeiBars d =
     and_do (lift (callDataSize_check cfg parsedTx)) (\<lambda>_.
     and_do (lift (transactionSize_check cfg parsedTx)) (\<lambda>_.
     and_do (lift (transactionType_check parsedTx)) (\<lambda>_.
     and_do (lift (gasLimit_check cfg parsedTx)) (\<lambda>_.
     and_do (ask_verifyAccount env parsedTx d) (\<lambda>mirrorAccountInfo.
     and_do (lift (nonce_check parsedTx (ethereum_nonce mirrorAccountInfo))) (\<lambda>_.
     and_do (lift (chainId_check cfg parsedTx)) (\<lambda>_.
     and_do (lift (value_check parsedTx)) (\<lambda>_.
     and_do (lift (gasPrice_check cfg parsedTx networkGasPriceInWeiBars)) (\<lambda>_.
     and_do (lift (balance_check parsedTx (Some mirrorAccountInfo))) (\<lambda>_.
     ask_receiverAccount env parsedTx d))))))))))"

definition validateRawTransaction ::
  "('c, 'r, 'w, 'n) transaction_env \<Rightarrow> eth_tx \<Rightarrow> int \<Rightarrow> request_details \<Rightarrow> ('c, 'r, 'w, unit) relay_action" where
  "validateRawTransaction env parsedTx networkGasPriceInWeiBars d =
     catch_do (run_sendRawTransactionCheck (te_mirror env) (te_precheck env) parsedTx networkGasPriceInWeiBars d)
       (\<lambda>e. throw (genericErrorHandler e))"

subsection \<open>Submitting\<close>

definition prune0x :: "string \<Rightarrow> string" where
  "prune0x input = (if starts_with EMPTY_HEX input then drop 2 input else input)"

definition computeTransactionHash :: "('c, 'r, 'w, 'n) transaction_env \<Rightarrow> 8 word list \<Rightarrow> string" where
  "computeTransactionHash env transactionBuffer = prepend0x (toHexString (map unat (te_keccak256 env transactionBuffer)))"

definition emitEthExecutionEvent :: "('c, 'r, 'w, 'n, unit) node_action" where
  "emitEthExecutionEvent = emit (EthExecution ''eth_sendRawTransaction'')"

definition rate_in_cents :: "jsv \<Rightarrow> thrown + rat" where
  "rate_in_cents v =
     (if nullish v then Inl type_error
      else Inr (case (js_prop v ''cent_equivalent'', js_prop v ''hbar_equivalent'') of
                  (JNum c, JNum h) \<Rightarrow> js_div (of_int c) (of_int h) | _ \<Rightarrow> 0))"

definition getCurrentNetworkExchangeRateInCents ::
  "('c, 'r, 'w, 'n) transaction_env \<Rightarrow> request_details \<Rightarrow> ('c, 'r, 'w, rat) relay_action" where
  "getCurrentNetworkExchangeRateInCents env d =
     and_do (cached_get (te_mirror env) ''currentNetworkExchangeRate'') (\<lambda>cached.
     and_do (if truthy cached then ret cached
             else and_do (getNetworkExchangeRate (te_mirror env) d JUndef) (\<lambda>response.
                  if nullish response then throw type_error
                  else and_do (cached_set (te_mirror env) ''currentNetworkExchangeRate'' (js_prop response ''current_rate'') (Some (Ms 900000)))
                         (\<lambda>_. ret (js_prop response ''current_rate'')))) (\<lambda>rate.
       lift (rate_in_cents rate)))"

definition next_client :: "('c, 'r, 'w, 'n) node_env \<Rightarrow> ('c, 'r, 'w, 'n, nat) node_action" where
  "next_client env =
     (\<lambda>s. case getSDKClient (ne_hapi env) (node_now env s) (ns_hapi s) of (c, h) \<Rightarrow> (Inr c, s\<lparr> ns_hapi := h \<rparr>))"

text \<open>An action whose failure is a value.\<close>

definition outcome_of :: "('s, 'a) action \<Rightarrow> ('s, thrown + 'a) action" where
  "outcome_of m = (\<lambda>s. case m s of (r, s') \<Rightarrow> (Inr r, s'))"

definition submitted_id ::
  "('c, 'r, 'w, 'n) transaction_env \<Rightarrow> thrown + string \<times> string option \<Rightarrow> bool \<times> string \<times> thrown option" where
  "submitted_id env result =
     (case result of
        Inr (transactionId, fileId) \<Rightarrow>
          (True, transactionId,
           if tx_id_regex_test transactionId then None
           else Some (ThrownRpc (INTERNAL_ERROR
             (''Transaction successfully submitted but returned invalid transactionID: transactionId=='' @ transactionId))))
      | Inl e \<Rightarrow>
          (False,
           (case e of
              ThrownSdk se \<Rightarrow>
                if sdk_isConnectionDropped (ne_table (te_node env)) se \<or> sdk_isTimeoutExceeded (ne_table (te_node env)) se
                then sdk_transactionId se else ''''
            | _ \<Rightarrow> ''''),
           Some e))"

definition submitTransaction ::
  "('c, 'r, 'w, 'n) transaction_env \<Rightarrow> 8 word list \<Rightarrow> string \<Rightarrow> int \<Rightarrow> request_details
   \<Rightarrow> ('c, 'r, 'w, 'n, bool \<times> string \<times> thrown option) node_action" where
  "submitTransaction env transactionBuffer originalCallerAddress networkGasPriceInWeiBars d =
     and_do (outcome_of
       (and_do (next_client (te_node env)) (\<lambda>_.
        and_do (on_relay (getCurrentNetworkExchangeRateInCents env d)) (\<lambda>rate.
        submitEthereumTransaction (te_node env) transactionBuffer ''eth_sendRawTransaction'' d originalCallerAddress
          networkGasPriceInWeiBars rate)))) (\<lambda>result.
     and_do (case result of
               Inr (transactionId, Some fileId) \<Rightarrow>
                 and_do (next_client (te_node env)) (\<lambda>_.
                 deleteFile (te_node env) fileId d ''eth_sendRawTransaction'' originalCallerAddress)
             | _ \<Rightarrow> ret ()) (\<lambda>_.
       ret (submitted_id env result)))"

subsection \<open>The answer to a raw transaction\<close>

text \<open>The loop that waits for the mirror node to know another nonce than that of the transaction.\<close>

fun poll_nonce ::
  "('c, 'r, 'w) mirror_env \<Rightarrow> eth_tx \<Rightarrow> request_details \<Rightarrow> nat \<Rightarrow> ('c, 'r, 'w, jsv) relay_action" where
  "poll_nonce env parsedTx d 0 = ret JNull"
| "poll_nonce env parsedTx d (Suc left) =
     and_do (mn_getAccount env (or_null_text (tx_from parsedTx)) d None JUndef) (\<lambda>accountInfo.
       if nullish accountInfo then throw type_error
       else if js_prop accountInfo ''ethereum_nonce'' \<noteq> JNum (tx_nonce parsedTx)
       then ret (js_prop accountInfo ''ethereum_nonce'')
       else and_do (sleep env) (\<lambda>_. poll_nonce env parsedTx d left))"

definition wrong_nonce_answer :: "eth_tx \<Rightarrow> jsv \<Rightarrow> thrown + js_result" where
  "wrong_nonce_answer parsedTx accountNonce =
     (if \<not> truthy accountNonce
      then Inl (ThrownRpc (INTERNAL_ERROR ''Cannot find updated account nonce for WRONG_NONCE error.''))
      else case accountNonce of
        JNum n \<Rightarrow> Inr (ResultError (if n < tx_nonce parsedTx then NONCE_TOO_HIGH (tx_nonce parsedTx) n else NONCE_TOO_LOW (tx_nonce parsedTx) n))
      | _ \<Rightarrow> Inl type_error)"

definition note_error :: "('c, 'r, 'w, 'n) node_env \<Rightarrow> int \<Rightarrow> ('c, 'r, 'w, 'n, unit) node_action" where
  "note_error env statusCode = (\<lambda>s. (Inr (), s\<lparr> ns_hapi := decrementErrorCounter (ne_hapi env) statusCode (ns_hapi s) \<rparr>))"

definition computed_or_error ::
  "('c, 'r, 'w, 'n) transaction_env \<Rightarrow> thrown \<Rightarrow> 8 word list \<Rightarrow> bool \<Rightarrow> request_details \<Rightarrow> ('c, 'r, 'w, 'n, js_result) node_action" where
  "computed_or_error env e transactionBuffer txSubmitted d =
     (if \<not> txSubmitted then ret (ResultError (INTERNAL_ERROR (thrown_message_text e)))
      else and_do (on_relay (getContractRevertReasonFromTransaction (te_mirror env) (ne_table (te_node env)) e d)) (\<lambda>_.
           ret (ResultValue (JStr (computeTransactionHash env transactionBuffer)))))"

definition sendRawTransactionErrorHandler ::
  "('c, 'r, 'w, 'n) transaction_env \<Rightarrow> thrown \<Rightarrow> 8 word list \<Rightarrow> bool \<Rightarrow> eth_tx \<Rightarrow> request_details
   \<Rightarrow> ('c, 'r, 'w, 'n, js_result) node_action" where
  "sendRawTransactionErrorHandler env e transactionBuffer txSubmitted parsedTx d =
     (case e of
        ThrownRpc r \<Rightarrow> ret (ResultError r)
      | ThrownSdk se \<Rightarrow>
          and_do (note_error (te_node env) (sdk_status se)) (\<lambda>_.
            if ne_statusText (te_node env) (sdk_status se) = ''WRONG_NONCE''
            then and_do (on_relay (poll_nonce (te_mirror env) parsedTx d (me_requestRetryCount (te_mirror env)))) (\<lambda>accountNonce.
                 lift (wrong_nonce_answer parsedTx accountNonce))
            else computed_or_error env e transactionBuffer txSubmitted d)
      | _ \<Rightarrow> computed_or_error env e transactionBuffer txSubmitted d)"

definition recorded_hash ::
  "('c, 'r, 'w, 'n) transaction_env \<Rightarrow> string \<Rightarrow> thrown option \<Rightarrow> request_details \<Rightarrow> ('c, 'r, 'w, jsv) relay_action" where
  "recorded_hash env submittedTransactionId sendRawTransactionError d =
     and_do (repeatedRequest (te_mirror env)
               (getContractResult (te_mirror env) (or_null_text (formatTransactionIdWithoutQueryParams submittedTransactionId))
                  (d\<lparr> rd_ipAddress := ''xxx.xxx.xxx.xxx'' \<rparr>))
               (me_requestRetryCount (te_mirror env))) (\<lambda>contractResult.
       if \<not> truthy contractResult
       then (case sendRawTransactionError of
               Some (ThrownSdk se) \<Rightarrow>
                 if sdk_isConnectionDropped (ne_table (te_node env)) se \<or> sdk_isTimeoutExceeded (ne_table (te_node env)) se
                 then throw (ThrownSdk se)
                 else throw (ThrownRpc (INTERNAL_ERROR (''No matching transaction record retrieved: transactionId='' @ submittedTransactionId)))
             | _ \<Rightarrow> throw (ThrownRpc (INTERNAL_ERROR (''No matching transaction record retrieved: transactionId='' @ submittedTransactionId))))
       else if nullish (js_prop contractResult ''hash'')
       then throw (ThrownRpc (INTERNAL_ERROR (''Transaction returned a null transaction hash: transactionId='' @ submittedTransactionId)))
       else ret (js_prop contractResult ''hash''))"

definition sendRawTransactionProcessor ::
  "('c, 'r, 'w, 'n) transaction_env \<Rightarrow> 8 word list \<Rightarrow> eth_tx \<Rightarrow> int \<Rightarrow> request_details \<Rightarrow> ('c, 'r, 'w, 'n, js_result) node_action" where
  "sendRawTransactionProcessor env transactionBuffer parsedTx networkGasPriceInWeiBars d =
     and_do emitEthExecutionEvent (\<lambda>_.
     and_do (submitTransaction env transactionBuffer (case tx_from parsedTx of None \<Rightarrow> '''' | Some a \<Rightarrow> a) networkGasPriceInWeiBars d)
       (\<lambda>(txSubmitted, submittedTransactionId, error).
     and_do (if submittedTransactionId \<noteq> '''' then outcome_of (on_relay (recorded_hash env submittedTransactionId error d))
             else ret (Inl (case error of None \<Rightarrow> type_error | Some e \<Rightarrow> e))) (\<lambda>recorded.
       case recorded of
         Inr hash \<Rightarrow> ret (ResultValue hash)
       | Inl e \<Rightarrow> sendRawTransactionErrorHandler env e transactionBuffer txSubmitted parsedTx d)))"

definition sendRawTransaction ::
  "('c, 'r, 'w, 'n) transaction_env \<Rightarrow> string \<Rightarrow> request_details \<Rightarrow> ('c, 'r, 'w, 'n, js_result) node_action" where
  "sendRawTransaction env transaction d =
     (let transactionBuffer = buffer_of_hex (prune0x transaction) in
      and_do (lift (parseRawTransaction (te_parse env) (Inl transaction))) (\<lambda>parsedTx.
      and_do (on_relay (getGasPriceInWeibars (te_relay env) d JUndef)) (\<lambda>price.
      let networkGasPriceInWeiBars = addPercentageBufferToGasPrice (re_gasPricePercentageBuffer (te_relay env)) price in
      and_do (on_relay (validateRawTransaction env parsedTx networkGasPriceInWeiBars d)) (\<lambda>_.
        if te_asyncProcessing env
        then and_do (outcome_of (sendRawTransactionProcessor env transactionBuffer parsedTx networkGasPriceInWeiBars d)) (\<lambda>_.
             ret (ResultValue (JStr (computeTransactionHash env transactionBuffer))))
        else sendRawTransactionProcessor env transactionBuffer parsedTx networkGasPriceInWeiBars d))))"

subsection \<open>The prechecks ask what they should\<close>

lemma ask_verifyAccount_Inr:
  "ask_verifyAccount env tx d s = (Inr acc, s') \<longleftrightarrow>
     (\<exists>a. mn_getAccount env (or_null_text (tx_from tx)) d None JUndef s = (Inr a, s') \<and> account_of_json a = Some acc)"
  by (auto simp: ask_verifyAccount_def ask_account_def and_do_Inr_iff lift_Inr_iff ret_def account_checks_ok)

lemma ask_receiverAccount_Inr:
  "ask_receiverAccount env tx d s = (Inr u, s') \<longleftrightarrow>
     (case tx_to tx of None \<Rightarrow> s' = s
      | Some to \<Rightarrow> if to = '''' then s' = s
                   else \<exists>v. mn_getAccount env to d None JUndef s = (Inr v, s') \<and>
                          (\<forall>r. account_of_json v = Some r \<longrightarrow> \<not> receiver_sig_required r))"
proof (cases "tx_to tx")
  case (Some to)
  then show ?thesis
    by (auto simp: ask_receiverAccount_def ask_account_def and_do_Inr_iff lift_Inr_iff ret_def or_null_text_def
        receiverAccount_check_ok not_None_eq)
qed (auto simp: ask_receiverAccount_def ret_def)

text \<open>What the mirror node said about the accounts of a transaction that passed.\<close>

lemma prechecks_passed:
  assumes "run_sendRawTransactionCheck env cfg tx networkPrice d s = (Inr (), s')"
  shows "\<exists>a acc t. mn_getAccount env (or_null_text (tx_from tx)) d None JUndef s = (Inr a, t) \<and> account_of_json a = Some acc \<and>
    ethereum_nonce acc \<le> tx_nonce tx \<and> balance_check tx (Some acc) = Inr () \<and> gasLimit_check cfg tx = Inr () \<and>
    gasPrice_check cfg tx networkPrice = Inr () \<and> chainId_check cfg tx = Inr () \<and> value_check tx = Inr () \<and>
    ask_receiverAccount env tx d t = (Inr (), s')"
  using assms by (auto simp: run_sendRawTransactionCheck_def and_do_Inr_iff lift_Inr_iff ask_verifyAccount_Inr account_checks_ok)

subsection \<open>What reaches the consensus node\<close>

lemma on_relay_same:
  "on_relay m s = (r, s') \<Longrightarrow> s' = s\<lparr> ns_relay := ns_relay s' \<rparr> \<and> m (ns_relay s) = (r, ns_relay s')"
  by (cases "m (ns_relay s)") (auto simp: on_relay_def)

lemma untouched_or_prechecked:
  assumes "sendRawTransaction env transaction d s = (r, s')"
  shows "s' = s\<lparr> ns_relay := ns_relay s' \<rparr> \<or> (\<exists>parsedTx price t1 t2.
    te_parse env transaction = Inr parsedTx \<and> getGasPriceInWeibars (te_relay env) d JUndef (ns_relay s) = (Inr price, t1) \<and>
    run_sendRawTransactionCheck (te_mirror env) (te_precheck env) parsedTx
      (addPercentageBufferToGasPrice (re_gasPricePercentageBuffer (te_relay env)) price) d t1 = (Inr (), t2))"
proof -
  obtain parsed where parsed: "parseRawTransaction (te_parse env) (Inl transaction) = parsed" by blast
  show ?thesis
  proof (cases parsed)
    case (Inl e)
    with assms parsed show ?thesis by (auto simp: sendRawTransaction_def and_do_def lift_def Let_def)
  next
    case (Inr tx)
    then have tx: "te_parse env transaction = Inr tx" using parsed by (auto simp: parseRawTransaction_def split: sum.splits)
    obtain q s1 where price: "on_relay (getGasPriceInWeibars (te_relay env) d JUndef) s = (q, s1)" by fastforce
    note price' = on_relay_same [OF price]
    show ?thesis
    proof (cases q)
      case (Inl e)
      with assms parsed Inr price have "s' = s1" by (simp add: sendRawTransaction_def and_do_def lift_def Let_def)
      with price' show ?thesis by simp
    next
      case q: (Inr p)
      let ?price = "addPercentageBufferToGasPrice (re_gasPricePercentageBuffer (te_relay env)) p"
      obtain v s2 where valid: "on_relay (validateRawTransaction env tx ?price d) s1 = (v, s2)" by fastforce
      note valid' = on_relay_same [OF valid]
      show ?thesis
      proof (cases v)
        case (Inl e)
        with assms(1) parsed Inr price q valid have "s' = s2" by (simp add: sendRawTransaction_def and_do_def lift_def Let_def)
        then have "s' = s\<lparr> ns_relay := ns_relay s' \<rparr>" using price' valid'
          by (metis (no_types, lifting) node_state.surjective node_state.update_convs(1) node_state.select_convs(1))
        then show ?thesis by blast
      next
        case (Inr u)
        with valid' have "run_sendRawTransactionCheck (te_mirror env) (te_precheck env) tx ?price d (ns_relay s1) = (Inr (), ns_relay s2)"
          by (auto simp: validateRawTransaction_def catch_do_def throw_def split: prod.splits sum.splits)
        with tx price' q show ?thesis by blast
      qed
    qed
  qed
qed

text \<open>
  C5. Sending a raw transaction changes nothing outside the view of the mirror node (no client is taken,
  nothing is submitted, weighed or reported) unless the transaction could be parsed and passed all its
  prechecks at the buffered price of the network.
\<close>

theorem sent_only_after_prechecks:
  assumes "sendRawTransaction env transaction d s = (r, s')"
  shows "s' = s\<lparr> ns_relay := ns_relay s' \<rparr> \<or> (\<exists>parsedTx price t1 t2.
    te_parse env transaction = Inr parsedTx \<and> getGasPriceInWeibars (te_relay env) d JUndef (ns_relay s) = (Inr price, t1) \<and>
    run_sendRawTransactionCheck (te_mirror env) (te_precheck env) parsedTx
      (addPercentageBufferToGasPrice (re_gasPricePercentageBuffer (te_relay env)) price) d t1 = (Inr (), t2))"
  by (rule untouched_or_prechecked [OF assms])


subsection \<open>What a hash means\<close>

lemma executed_id:
  assumes "executeTransaction env tx m d b a fee s = (Inr t, s')"
  shows "\<exists>n. fst (ne_execute env tx n) = Inr t"
proof -
  from assms obtain u s1 where "executeTransaction env tx m d False a fee s1 = (Inr t, s')"
    by (cases b) (auto simp: guarded_execution split: prod.splits sum.splits)
  from execute_network [OF this] have "fst (ne_execute env tx (ns_net s1)) = Inr t" by auto
  then show ?thesis by blast
qed

text \<open>
  What is sent to the network for the bytes of a raw transaction: these bytes, as the SDK writes what it read from them;
  or, when the call data is too long for one transaction, the same without its call data, which a file holds that was
  made from it. The fee that may be charged is that for the price of the network.
\<close>

definition sent_for ::
  "('c, 'r, 'w, 'n) node_env \<Rightarrow> 8 word list \<Rightarrow> string \<Rightarrow> int \<Rightarrow> request_details \<Rightarrow> sdk_transaction \<Rightarrow> bool" where
  "sent_for env buffer caller price d sent =
     (\<exists>data fee. ne_fromBytes env buffer = Inr data \<and> max_transaction_fee env price = Inr fee \<and>
        (if ne_jumboTx env \<or> length (ed_callData data) \<le> ne_chunkSize env
         then sent = EthereumTransaction (ne_toBytes env data) None fee
         else \<exists>fileId rate s1 s2. createFile env (ed_callData data) d ''eth_sendRawTransaction'' caller rate s1 = (Inr (Some fileId), s2) \<and>
                sent = EthereumTransaction (ne_toBytes env (data\<lparr> ed_callData := [] \<rparr>)) (Some fileId) fee))"

lemma placed_data:
  assumes "place_call_data env data m d a rate s = (Inr (bytes, fileId), s')"
  shows "if ne_jumboTx env \<or> length (ed_callData data) \<le> ne_chunkSize env then bytes = ne_toBytes env data \<and> fileId = None
    else \<exists>f. createFile env (ed_callData data) d m a rate s = (Inr (Some f), s') \<and>
             bytes = ne_toBytes env (data\<lparr> ed_callData := [] \<rparr>) \<and> fileId = Some f"
  using assms by (auto simp: place_call_data_def ret_def throw_def and_do_Inr_iff split: if_split_asm option.split_asm)

lemma accepted_submission:
  assumes "submitEthereumTransaction env buffer ''eth_sendRawTransaction'' d a price rate s = (Inr (t, f), s')"
  shows "\<exists>sent n. sent_for env buffer a price d sent \<and> fst (ne_execute env sent n) = Inr t"
proof -
  from assms obtain data bytes fileId fee s1 s2 where
    data: "ne_fromBytes env buffer = Inr data" "place_call_data env data ''eth_sendRawTransaction'' d a rate s = (Inr (bytes, fileId), s1)"
    and fee: "max_transaction_fee env price = Inr fee"
    and run: "executeTransaction env (EthereumTransaction bytes fileId fee) ''eth_sendRawTransaction'' d True a 0 s2 = (Inr t, s')"
    by (auto simp: submitEthereumTransaction_def and_do_Inr_iff throw_def ret_def lift_Inr_iff split: sum.splits prod.splits)
  have "sent_for env buffer a price d (EthereumTransaction bytes fileId fee)"
    unfolding sent_for_def using data(1) fee placed_data [OF data(2)] by (intro exI conjI) (auto split: if_splits)
  with executed_id [OF run] show ?thesis by blast
qed

definition connection_lost :: "('c, 'r, 'w, 'n) transaction_env \<Rightarrow> thrown \<Rightarrow> string \<Rightarrow> bool" where
  "connection_lost env e transactionId =
     (\<exists>se. e = ThrownSdk se \<and> sdk_transactionId se = transactionId \<and>
       (sdk_isConnectionDropped (ne_table (te_node env)) se \<or> sdk_isTimeoutExceeded (ne_table (te_node env)) se))"

lemma submission_outcome:
  assumes "submitTransaction env buffer a price d s = (Inr answer, s')"
  shows "\<exists>result. answer = submitted_id env result \<and>
    (\<forall>t f. result = Inr (t, f) \<longrightarrow> (\<exists>sent n. sent_for (te_node env) buffer a price d sent \<and> fst (ne_execute (te_node env) sent n) = Inr t))"
proof -
  let ?run = "and_do (next_client (te_node env)) (\<lambda>_. and_do (on_relay (getCurrentNetworkExchangeRateInCents env d)) (\<lambda>rate.
      submitEthereumTransaction (te_node env) buffer ''eth_sendRawTransaction'' d a price rate))"
  obtain result s1 where run: "?run s = (result, s1)" by fastforce
  have "answer = submitted_id env result"
    using assms unfolding submitTransaction_def and_do_Inr_iff [of _ _ s] by (auto simp: outcome_of_def run ret_def and_do_Inr_iff)
  moreover have "\<exists>sent n. sent_for (te_node env) buffer a price d sent \<and> fst (ne_execute (te_node env) sent n) = Inr t"
    if "result = Inr (t, f)" for t f
  proof -
    have "?run s = (Inr (t, f), s1)" using run that by simp
    then obtain s2 rate where "submitEthereumTransaction (te_node env) buffer ''eth_sendRawTransaction'' d a price rate s2 = (Inr (t, f), s1)"
      unfolding and_do_Inr_iff by blast
    then show ?thesis by (rule accepted_submission)
  qed
  ultimately show ?thesis by blast
qed

lemma submitted_accepted:
  assumes "submitTransaction env buffer a price d s = (Inr (submitted, transactionId, error), s')"
  shows "submitted \<and> (\<exists>sent n. sent_for (te_node env) buffer a price d sent \<and> fst (ne_execute (te_node env) sent n) = Inr transactionId) \<or>
    \<not> submitted \<and> (transactionId \<noteq> '''' \<longrightarrow> (\<exists>e. error = Some e \<and> connection_lost env e transactionId))"
proof -
  obtain result where r: "(submitted, transactionId, error) = submitted_id env result"
    "\<forall>t f. result = Inr (t, f) \<longrightarrow> (\<exists>sent n. sent_for (te_node env) buffer a price d sent \<and> fst (ne_execute (te_node env) sent n) = Inr t)"
    using submission_outcome [OF assms] by blast
  then show ?thesis
    by (cases result) (auto simp: submitted_id_def connection_lost_def split: thrown.splits if_splits)
qed

lemma error_answer_is_computed:
  assumes "sendRawTransactionErrorHandler env e buffer submitted tx d s = (Inr (ResultValue v), s')"
  shows "submitted \<and> v = JStr (computeTransactionHash env buffer)"
  using assms
  by (auto simp: sendRawTransactionErrorHandler_def computed_or_error_def wrong_nonce_answer_def ret_def lift_def and_do_Inr_iff
      split: thrown.splits if_splits jsv.splits)


subsection \<open>Wrong nonces\<close>

definition account_query ::
  "('c, 'r, 'w) mirror_env \<Rightarrow> eth_tx \<Rightarrow> request_details \<Rightarrow> ('c, 'r, 'w, jsv) relay_action" where
  "account_query env tx d = mn_getAccount env (or_null_text (tx_from tx)) d None JUndef"

lemma poll_until_changed:
  assumes "\<forall>j < k. \<exists>a. fst (nth_answer env (account_query env tx d) j s) = Inr a \<and> \<not> nullish a \<and>
      js_prop a ''ethereum_nonce'' = JNum (tx_nonce tx)"
    and "nth_answer env (account_query env tx d) k s = (Inr a, t)" and "\<not> nullish a"
    and "js_prop a ''ethereum_nonce'' = JNum n" and "n \<noteq> tx_nonce tx" and "k < tries"
  shows "poll_nonce env tx d tries s = (Inr (JNum n), t)"
  using assms
proof (induction k arbitrary: s tries)
  case 0
  then show ?case by (cases tries) (auto simp: account_query_def and_do_Inr ret_def)
next
  case (Suc k)
  then obtain tries' where tries: "tries = Suc tries'" by (cases tries) auto
  from Suc.prems(1) obtain b where "fst (account_query env tx d s) = Inr b" and b: "\<not> nullish b" "js_prop b ''ethereum_nonce'' = JNum (tx_nonce tx)"
    by force
  then obtain s1 where first: "account_query env tx d s = (Inr b, s1)" by (metis fst_conv surj_pair)
  obtain s2 where pause: "sleep env s1 = (Inr (), s2)" by (simp add: sleep_def)
  have later: "nth_answer env (account_query env tx d) (Suc j) s = nth_answer env (account_query env tx d) j s2" for j
    unfolding nth_answer_Suc by (simp add: and_do_def first pause)
  have "poll_nonce env tx d tries' s2 = (Inr (JNum n), t)"
  proof (rule Suc.IH)
    show "\<forall>j < k. \<exists>a. fst (nth_answer env (account_query env tx d) j s2) = Inr a \<and> \<not> nullish a \<and>
        js_prop a ''ethereum_nonce'' = JNum (tx_nonce tx)"
    proof (intro allI impI)
      fix j assume "j < k"
      then have "Suc j < Suc k" by simp
      with Suc.prems(1) later [of j] show "\<exists>a. fst (nth_answer env (account_query env tx d) j s2) = Inr a \<and> \<not> nullish a \<and>
        js_prop a ''ethereum_nonce'' = JNum (tx_nonce tx)" by metis
    qed
    show "nth_answer env (account_query env tx d) k s2 = (Inr a, t)" using Suc.prems(2) later [of k] by simp
  qed (use Suc.prems tries in simp_all)
  then show ?case
    using first b pause by (simp add: tries account_query_def and_do_Inr)
qed

text \<open>
  C34. When the network refuses the nonce of a transaction and the mirror node comes to know another nonce
  of the account within the polls, the client is told both, and whether its own is too high or too low.
  An account whose nonce is 0 is the exception: the client gets an internal error instead.
\<close>

theorem wrong_nonce_answered:
  assumes "ne_statusText (te_node env) (sdk_status se) = ''WRONG_NONCE''"
    and "\<forall>j < k. \<exists>a. fst (nth_answer (te_mirror env) (account_query (te_mirror env) tx d) j (ns_relay s)) = Inr a \<and> \<not> nullish a \<and>
      js_prop a ''ethereum_nonce'' = JNum (tx_nonce tx)"
    and "nth_answer (te_mirror env) (account_query (te_mirror env) tx d) k (ns_relay s) = (Inr a, t)"
    and "\<not> nullish a" and "js_prop a ''ethereum_nonce'' = JNum n" and "n \<noteq> tx_nonce tx"
    and "k < me_requestRetryCount (te_mirror env)"
  shows "fst (sendRawTransactionErrorHandler env (ThrownSdk se) buffer submitted tx d s) =
    (if n = 0 then Inl (ThrownRpc (INTERNAL_ERROR ''Cannot find updated account nonce for WRONG_NONCE error.''))
     else if n < tx_nonce tx then Inr (ResultError (NONCE_TOO_HIGH (tx_nonce tx) n))
     else Inr (ResultError (NONCE_TOO_LOW (tx_nonce tx) n)))"
proof -
  have "poll_nonce (te_mirror env) tx d (me_requestRetryCount (te_mirror env)) (ns_relay s) = (Inr (JNum n), t)"
    by (rule poll_until_changed [OF assms(2-7)])
  then show ?thesis
    using assms(1)
    by (simp add: sendRawTransactionErrorHandler_def note_error_def and_do_def on_relay_def lift_def wrong_nonce_answer_def)
qed

subsection \<open>Files of transactions that failed\<close>

text \<open>
  When the file for the call data was made and the Ethereum transaction then fails, the file is not
  deleted: nothing more is asked of the network after the failure.
\<close>

theorem failed_submission_leaves_file:
  assumes "next_client (te_node env) s = (Inr c, s1)"
    and "on_relay (getCurrentNetworkExchangeRateInCents env d) s1 = (Inr rate, s2)"
    and "ne_fromBytes (te_node env) buffer = Inr ethData"
    and "place_call_data (te_node env) ethData ''eth_sendRawTransaction'' d a rate s2 = (Inr (bytes, Some fileId), s3)"
    and "max_transaction_fee (te_node env) price = Inr fee"
    and "executeTransaction (te_node env) (EthereumTransaction bytes (Some fileId) fee) ''eth_sendRawTransaction'' d True a 0 s3 = (Inl e, s4)"
  shows "\<exists>t. submitTransaction env buffer a price d s = (Inr (False, t, Some e), s4)"
proof -
  have "submitEthereumTransaction (te_node env) buffer ''eth_sendRawTransaction'' d a price rate s2 = (Inl e, s4)"
    using assms(3-6) by (simp add: submitEthereumTransaction_def and_do_Inr lift_def and_do_Inl)
  with assms(1,2) show ?thesis
    by (simp add: submitTransaction_def and_do_def outcome_of_def ret_def submitted_id_def)
qed

subsection \<open>A relay without a cache\<close>

definition no_cache :: "(unit, unit) cache_env" where
  "no_cache =
     \<lparr> ce_lru = \<lparr> lru_get = (\<lambda>now k c. (JUndef, c)), lru_set = (\<lambda>now k v t c. c), lru_delete = (\<lambda>k c. c), lru_clear = (\<lambda>c. c),
         lru_getRemainingTTL = (\<lambda>now k c. Ms 0), lru_rkeys = (\<lambda>c. []), lru_purgeStale = (\<lambda>now c. c) \<rparr>,
       ce_redis = no_redis, ce_isSharedCacheEnabled = True, ce_shouldMultiSet = False, ce_redisTtl = 1000 \<rparr>"

definition blank_relay :: "(unit, unit, nat) relay_state" where
  "blank_relay =
     \<lparr> rs_cache = \<lparr> cs_internal = \<lparr> lc_cache = (), lc_reservedCache = None, lc_reservedKeys = [], lc_ttl = 1000 \<rparr>, cs_shared = () \<rparr>,
       rs_world = 100 \<rparr>"

definition plain_mirror :: "(string \<times> jsv) list \<Rightarrow> (unit, unit, nat) mirror_env" where
  "plain_mirror table =
     \<lparr> me_cache = no_cache, me_http = canned_http table, me_now = int, me_sleep = (\<lambda>n w. w), me_tokenAnswersFirst = (\<lambda>w. False),
       me_callAcceptedErrors = [], me_retryDelay = 2000, me_requestRetryCount = 10, me_limitParam = 100,
       me_resultsPageMax = 25, me_logsPageMax = 200 \<rparr>"

definition plain_relay :: "(string \<times> jsv) list \<Rightarrow> (unit, unit, nat) relay_env" where
  "plain_relay table =
     \<lparr> re_mirror = plain_mirror table, re_maxBlockRange = 5, re_logsBlockRangeLimit = 1000, re_gasPricePercentageBuffer = 0 \<rparr>"

definition plain_node :: "(string \<times> jsv) list \<Rightarrow> (unit, unit, nat, string) node_env" where
  "plain_node table =
     \<lparr> ne_relay = plain_relay table, ne_hbar = closed_cfg, ne_hapi = sample_hapi, ne_table = sample_status,
       ne_statusText = (\<lambda>c. if c = 24 then ''WRONG_NONCE'' else ''UNKNOWN''),
       ne_WrongNonce = 24, ne_operatorId = Some ''0.0.2'', ne_fromBytes = (\<lambda>bs. Inr \<lparr> ed_to = '''', ed_callData = bs, ed_rest = '''' \<rparr>),
       ne_toBytes = ed_callData, ne_execute = net_execute, ne_executeAll = net_executeAll, ne_receipt = (\<lambda>t n. (Inr (Some ''0.0.7''), n)),
       ne_queryCost = (\<lambda>q n. (Inr 1000, n)), ne_query = net_query, ne_record = (\<lambda>t n. (Inr net_record, n)), ne_chunkSize = 2,
       ne_maxChunks = 20, ne_jumboTx = False, ne_maxFeeThreshold = 15000000, ne_queryRetries = 3, ne_recordFromConsensus = True \<rparr>"

definition plain_env :: "(string \<times> jsv) list \<Rightarrow> (unit, unit, nat, string) transaction_env" where
  "plain_env table =
     \<lparr> te_node = plain_node table, te_chain = ''0x12a'', te_crypto = sample_crypto, te_precheck = sample_precheck_config,
       te_parse = (\<lambda>t. Inr sample_tx), te_keccak256 = (\<lambda>bs. [7]), te_asyncProcessing = False \<rparr>"

definition plain_start :: "(unit, unit, nat, string) node_state" where
  "plain_start =
     \<lparr> ns_relay = blank_relay, ns_hbar = HbarLimiter.sample_state, ns_hapi = new_hapi sample_hapi 0, ns_net = '''', ns_events = [] \<rparr>"

lemma no_cache_steps:
  "getAsync no_cache now k (rs_cache blank_relay) = (JNull, rs_cache blank_relay)"
  "cache_set no_cache now k v t (rs_cache blank_relay) = rs_cache blank_relay"
  by (simp_all add: no_cache_def blank_relay_def getAsync_def getFromSharedCache_def redis_get_def no_redis_def getFromInternalCache_def
      local_get_def getCacheInstance_def uses_reserved_def cache_set_def with_fallback_def redis_set_def local_set_def put_instance_def
      split: prod.split sum.split)

definition blank_at :: "nat \<Rightarrow> (unit, unit, nat) relay_state" where
  "blank_at w = blank_relay\<lparr> rs_world := w \<rparr>"

lemma blank_at_steps:
  "cached_get (plain_mirror table) k (blank_at w) = (Inr JNull, blank_at w)"
  "cached_set (plain_mirror table) k v t (blank_at w) = (Inr (), blank_at w)"
  "mn_get (plain_mirror table) path label d retries (blank_at w) =
     (case map_of table path of
        Some v \<Rightarrow> Inr v
      | None \<Rightarrow> if label \<in> set accepting_404 then Inr JNull
                else Inl (ThrownMirror \<lparr> mne_message = ''Not found'', mne_statusCode = 404, mne_detail = None, mne_data = None \<rparr>),
      blank_at (Suc w))"
  using no_cache_steps
  by (simp_all add: cached_get_def cached_set_def plain_mirror_def blank_at_def mn_get_def mn_request_def canned_http_def Let_def handleError_def
      acceptedErrorStatuses_def MirrorNodeClientError_def effectiveStatusCode_def split: option.split)

definition recorded_run :: "(string \<times> jsv) list" where
  "recorded_run =
     [(''network/exchangerate'', JObj [(''current_rate'', JObj [(''cent_equivalent'', JNum 12), (''hbar_equivalent'', JNum 1)])]),
      (''contracts/results/0.0.2-3-4'', JObj [(''hash'', JStr ''0xabc'')])]"

lemma recorded_lookups:
  "getCurrentNetworkExchangeRateInCents (plain_env recorded_run) d (blank_at w) = (Inr (js_div 12 1), blank_at (Suc w))"
  "recorded_hash (plain_env recorded_run) ''0.0.2@3.4'' error d (blank_at w) = (Inr (JStr ''0xabc''), blank_at (Suc w))"
proof -
  have id: "formatTransactionIdWithoutQueryParams ''0.0.2@3.4'' = Some ''0.0.2-3-4''" by code_simp
  have relay: "te_mirror (plain_env recorded_run) = plain_mirror recorded_run" by (simp add: plain_env_def plain_node_def plain_relay_def)
  have path: "GET_NETWORK_EXCHANGERATE_ENDPOINT @ getQueryParams (setQueryParam ''timestamp'' JUndef []) = ''network/exchangerate''"
    by code_simp
  show "getCurrentNetworkExchangeRateInCents (plain_env recorded_run) d (blank_at w) = (Inr (js_div 12 1), blank_at (Suc w))"
    unfolding getCurrentNetworkExchangeRateInCents_def relay getNetworkExchangeRate_def path
    by (simp add: and_do_def blank_at_steps ret_def lift_def recorded_run_def nullish_def rate_in_cents_def)
  have fetched: "getContractResult (plain_mirror recorded_run) ''0.0.2-3-4'' d' (blank_at w) = (Inr (JObj [(''hash'', JStr ''0xabc'')]), blank_at (Suc w))" for d'
    by (simp add: getContractResult_def Let_def and_do_def blank_at_steps ret_def recorded_run_def)
  have tries: "me_requestRetryCount (plain_mirror recorded_run) = Suc 9" by (simp add: plain_mirror_def)
  show "recorded_hash (plain_env recorded_run) ''0.0.2@3.4'' error d (blank_at w) = (Inr (JStr ''0xabc''), blank_at (Suc w))"
    unfolding recorded_hash_def relay id repeatedRequest_def tries repeat_request.simps(2)
    by (simp add: or_null_text_def and_do_def catch_do_def fetched ret_def nullish_def)
qed

lemma max_fee_made: "\<exists>fee. max_transaction_fee env price = Inr fee"
  by (simp add: max_transaction_fee_def weibarHexToTinyBarInt_def Let_def split: sum.split)

lemma recorded_answer:
  "fst (sendRawTransactionProcessor (plain_env recorded_run) [1] sample_tx 1000 sample_details plain_start) = Inr (ResultValue (JStr ''0xabc''))"
proof -
  have off: "\<not> isEnabled closed_cfg" by (simp add: isEnabled_def closed_cfg_def)
  have id: "tx_id_regex_test ''0.0.2@3.4''" by code_simp
  have start: "plain_start = \<lparr> ns_relay = blank_at 100, ns_hbar = HbarLimiter.sample_state, ns_hapi = new_hapi sample_hapi 0, ns_net = '''', ns_events = [] \<rparr>"
    by (simp add: plain_start_def blank_at_def blank_relay_def)
  obtain fee where fee: "max_transaction_fee (plain_node recorded_run) 1000 = Inr fee" using max_fee_made by blast
  have node: "te_node (plain_env recorded_run) = plain_node recorded_run" by (simp add: plain_env_def)
  have env: "ne_fromBytes (plain_node recorded_run) [1] = Inr \<lparr> ed_to = '''', ed_callData = [1], ed_rest = '''' \<rparr>"
    "ne_chunkSize (plain_node recorded_run) = 2" "ne_execute (plain_node recorded_run) = net_execute"
    "ne_receipt (plain_node recorded_run) = (\<lambda>t n. (Inr (Some ''0.0.7''), n))" "ne_operatorId (plain_node recorded_run) = Some ''0.0.2''"
    "ne_hbar (plain_node recorded_run) = closed_cfg"
    by (simp_all add: plain_node_def)
  show ?thesis
    using off id
    by (simp add: sendRawTransactionProcessor_def emitEthExecutionEvent_def emit_def submitTransaction_def next_client_def outcome_of_def and_do_def
        on_relay_def start recorded_lookups submitEthereumTransaction_def place_call_data_def ret_def lift_def fee node env
        executeTransaction_def limit_guard_def shouldLimit_def on_net_def net_execute_def report_transaction_def after_receipt_def submitted_id_def
        split: prod.split)
qed


theorem sent_only_after_prechecks_witness:
  "\<exists>r s'. sendRawTransaction (plain_env []) ''0x02'' sample_details plain_start = (r, s') \<and> s' = plain_start\<lparr> ns_relay := ns_relay s' \<rparr>"
proof -
  obtain r s' where run: "sendRawTransaction (plain_env []) ''0x02'' sample_details plain_start = (r, s')" by fastforce
  have "te_relay (plain_env []) = plain_relay []" "ns_relay plain_start = blank_at 100"
    by (simp_all add: plain_env_def plain_node_def plain_start_def blank_at_def blank_relay_def)
  then have "fst (getGasPriceInWeibars (te_relay (plain_env [])) sample_details JUndef (ns_relay plain_start)) = Inl (ThrownRpc COULD_NOT_ESTIMATE_GAS_PRICE)"
    by (simp add: getGasPriceInWeibars_def getNetworkFees_def plain_relay_def and_do_def blank_at_steps accepting_404_def ethereum_fee_def
        array_items_def throw_def js_prop_def)
  with sent_only_after_prechecks [OF run] run show ?thesis by auto
qed

theorem wrong_nonce_answered_witness:
  "fst (sendRawTransactionErrorHandler (plain_env [(''accounts/0xa?transactions=false'', JObj [(''ethereum_nonce'', JNum 0)])])
     (ThrownSdk \<lparr> sdk_message = ''bad nonce'', sdk_status = 24, sdk_validNetworkError = True, sdk_transactionId = '''', sdk_nodeAccountId = None \<rparr>)
     [1] False sample_tx sample_details plain_start) =
   Inl (ThrownRpc (INTERNAL_ERROR ''Cannot find updated account nonce for WRONG_NONCE error.''))"
proof -
  let ?table = "[(''accounts/0xa?transactions=false'', JObj [(''ethereum_nonce'', JNum 0)])]"
  let ?se = "\<lparr> sdk_message = ''bad nonce'', sdk_status = 24, sdk_validNetworkError = True, sdk_transactionId = '''', sdk_nodeAccountId = None \<rparr>"
  have status: "ne_statusText (te_node (plain_env ?table)) (sdk_status ?se) = ''WRONG_NONCE''" by (simp add: plain_env_def plain_node_def)
  have relay: "te_mirror (plain_env ?table) = plain_mirror ?table" "ns_relay plain_start = blank_at 100"
    by (simp_all add: plain_env_def plain_node_def plain_relay_def plain_start_def blank_at_def blank_relay_def)
  have path: "GET_ACCOUNTS_BY_ID_ENDPOINT @ or_null_text (tx_from sample_tx) @
      getQueryParams (setQueryParam ''transactions'' (JStr ''false'') (setQueryParam ''timestamp'' JUndef [])) = ''accounts/0xa?transactions=false''"
    by code_simp
  have "nth_answer (te_mirror (plain_env ?table)) (account_query (te_mirror (plain_env ?table)) sample_tx sample_details) 0 (ns_relay plain_start) =
      (Inr (JObj [(''ethereum_nonce'', JNum 0)]), blank_at 101)"
    unfolding relay nth_answer.simps account_query_def mn_getAccount_def path by (simp add: blank_at_steps)
  from wrong_nonce_answered [OF status _ this, of 0 "[1]" False] show ?thesis
    by (simp add: nullish_def sample_tx_def plain_env_def plain_node_def plain_relay_def plain_mirror_def)
qed

definition rich_account :: "(string \<times> jsv) list" where
  "rich_account =
     [(''network/fees'', JObj [(''fees'', JArr [JObj [(''transaction_type'', JStr ''EthereumTransaction''), (''gas'', JNum 71)]])]),
      (''accounts/0xa?transactions=false'', JObj [(''ethereum_nonce'', JNum 2), (''balance'', JObj [(''balance'', JNum 100000000)])]),
      (''accounts/0xb?transactions=false'', JObj [(''receiver_sig_required'', JBool False)])]"

definition priced_tx :: eth_tx where
  "priced_tx = sample_tx\<lparr> tx_maxFeePerGas := Some 709999999990 \<rparr>"

definition priced_env :: "(unit, unit, nat, string) transaction_env" where
  "priced_env = (plain_env rich_account)\<lparr> te_parse := (\<lambda>t. Inr priced_tx) \<rparr>"

lemma priced_parts:
  "te_relay priced_env = plain_relay rich_account" "te_mirror priced_env = plain_mirror rich_account" "te_node priced_env = plain_node rich_account"
  "te_precheck priced_env = sample_precheck_config" "te_parse priced_env = (\<lambda>t. Inr priced_tx)" "re_mirror (plain_relay rich_account) = plain_mirror rich_account"
  "ne_relay (plain_node rich_account) = plain_relay rich_account" "ns_relay plain_start = blank_at 100"
  "re_gasPricePercentageBuffer (plain_relay rich_account) = 0" "\<not> te_asyncProcessing priced_env"
  by (simp_all add: priced_env_def plain_env_def plain_node_def plain_relay_def plain_start_def blank_at_def blank_relay_def)

lemma rich_price:
  "getGasPriceInWeibars (plain_relay rich_account) d JUndef (blank_at w) = (Inr 710000000000, blank_at (Suc w))"
proof -
  have path: "GET_NETWORK_FEES_ENDPOINT @ getQueryParams (setQueryParam ''order'' JUndef (setQueryParam ''timestamp'' JUndef [])) = ''network/fees''"
    by code_simp
  have "to_number 710000000000 = 710000000000" by (simp add: to_number_exact)
  then show ?thesis
    unfolding getGasPriceInWeibars_def getNetworkFees_def path priced_parts
    by (simp add: and_do_def blank_at_steps ret_def rich_account_def array_items_def ethereum_fee_def TINYBAR_TO_WEIBAR_COEF_def)
qed

lemma rich_accounts:
  "mn_getAccount (plain_mirror rich_account) ''0xa'' d None JUndef (blank_at w) =
     (Inr (JObj [(''ethereum_nonce'', JNum 2), (''balance'', JObj [(''balance'', JNum 100000000)])]), blank_at (Suc w))"
  "mn_getAccount (plain_mirror rich_account) ''0xb'' d None JUndef (blank_at w) = (Inr (JObj [(''receiver_sig_required'', JBool False)]), blank_at (Suc w))"
proof -
  have paths: "GET_ACCOUNTS_BY_ID_ENDPOINT @ ''0xa'' @
      getQueryParams (setQueryParam ''transactions'' (JStr ''false'') (setQueryParam ''timestamp'' JUndef [])) = ''accounts/0xa?transactions=false''"
    "GET_ACCOUNTS_BY_ID_ENDPOINT @ ''0xb'' @
      getQueryParams (setQueryParam ''transactions'' (JStr ''false'') (setQueryParam ''timestamp'' JUndef [])) = ''accounts/0xb?transactions=false''"
    by code_simp+
  show "mn_getAccount (plain_mirror rich_account) ''0xa'' d None JUndef (blank_at w) =
     (Inr (JObj [(''ethereum_nonce'', JNum 2), (''balance'', JObj [(''balance'', JNum 100000000)])]), blank_at (Suc w))"
    unfolding mn_getAccount_def paths by (simp add: blank_at_steps rich_account_def)
  show "mn_getAccount (plain_mirror rich_account) ''0xb'' d None JUndef (blank_at w) = (Inr (JObj [(''receiver_sig_required'', JBool False)]), blank_at (Suc w))"
    unfolding mn_getAccount_def paths by (simp add: blank_at_steps rich_account_def)
qed

lemma priced_tx_checked:
  "run_sendRawTransactionCheck (plain_mirror rich_account) sample_precheck_config priced_tx 710000000000 d (blank_at w) = (Inr (), blank_at (w + 2))"
proof -
  note simps = priced_tx_def sample_tx_def sample_precheck_config_def effective_gas_price_def transactionIntrinsicGasCost_def starts_with_Cons
      TX_BASE_COST_def TX_DATA_ZERO_COST_def ISTANBUL_TX_DATA_NON_ZERO_COST_def to_number_exact int_to_base_def to_base.simps digit_char_eval
      prepend0x_def EMPTY_HEX_def isLegacyUnprotectedEtx_def
  define acc where "acc = \<lparr> ethereum_nonce = 2, account_balance = Some 100000000, receiver_sig_required = False \<rparr>"
  have tx: "tx_from priced_tx = Some ''0xa''" "tx_to priced_tx = Some ''0xb''" by (simp_all add: priced_tx_def sample_tx_def)
  have sender: "account_of_json (JObj [(''ethereum_nonce'', JNum 2), (''balance'', JObj [(''balance'', JNum 100000000)])]) = Some acc"
    by (simp add: account_of_json_def nullish_def acc_def)
  have receiver: "account_of_json (JObj [(''receiver_sig_required'', JBool False)]) =
      Some \<lparr> ethereum_nonce = 0, account_balance = None, receiver_sig_required = False \<rparr>"
    by (simp add: account_of_json_def nullish_def js_prop_def)
  have "callDataSize_check sample_precheck_config priced_tx = Inr ()" "transactionSize_check sample_precheck_config priced_tx = Inr ()"
    "transactionType_check priced_tx = Inr ()" "gasLimit_check sample_precheck_config priced_tx = Inr ()" "nonce_check priced_tx 2 = Inr ()"
    "chainId_check sample_precheck_config priced_tx = Inr ()" "value_check priced_tx = Inr ()"
    "gasPrice_check sample_precheck_config priced_tx 710000000000 = Inr ()" "balance_check priced_tx (Some acc) = Inr ()"
    by (simp_all add: checks_ok simps acc_def gasLimit_check_def)
  then show ?thesis
    by (simp add: run_sendRawTransactionCheck_def and_do_def lift_def ask_verifyAccount_def ask_receiverAccount_def ask_account_def tx
        or_null_text_def rich_accounts ret_def sender receiver verifyAccount_def receiverAccount_check_def acc_def)
qed

lemma priced_tx_leaves_trace:
  "snd (sendRawTransaction priced_env ''0x02'' sample_details plain_start) \<noteq>
     plain_start\<lparr> ns_relay := ns_relay (snd (sendRawTransaction priced_env ''0x02'' sample_details plain_start)) \<rparr>"
proof -
  have path: "GET_NETWORK_EXCHANGERATE_ENDPOINT @ getQueryParams (setQueryParam ''timestamp'' JUndef []) = ''network/exchangerate''"
    by code_simp
  have unknown: "map_of rich_account GET_NETWORK_EXCHANGERATE_ENDPOINT = None" by code_simp
  have rate: "getCurrentNetworkExchangeRateInCents priced_env sample_details (blank_at 103) = (Inl type_error, blank_at 104)"
    unfolding getCurrentNetworkExchangeRateInCents_def getNetworkExchangeRate_def path
    by (simp add: priced_parts and_do_def blank_at_steps unknown accepting_404_def ret_def nullish_def throw_def)
  have price: "addPercentageBufferToGasPrice 0 710000000000 = 710000000000"
  proof -
    have "\<lfloor>1 / 2 :: rat\<rfloor> = 0" by linarith
    then show ?thesis
      by (simp add: addPercentageBufferToGasPrice_def js_div_def js_mul_def js_round_def double_of_rat_def to_number_exact)
  qed
  have parsed: "parseRawTransaction (\<lambda>t. Inr priced_tx) (Inl t) = Inr priced_tx" for t by (simp add: parseRawTransaction_def)
  have events: "ns_events plain_start = []" by (simp add: plain_start_def)
  have id: "submitted_id priced_env (Inl type_error) = (False, '''', Some type_error)" by (simp add: submitted_id_def type_error_def)
  have processed: "ns_events (snd (sendRawTransactionProcessor priced_env bs priced_tx price sample_details st)) = [EthExecution ''eth_sendRawTransaction'']"
    if "ns_relay st = blank_at 103" "ns_events st = []" for bs price st
  proof -
    define st1 where "st1 = st\<lparr> ns_events := [EthExecution ''eth_sendRawTransaction''] \<rparr>"
    have emitted: "emitEthExecutionEvent st = (Inr (), st1)" by (simp add: emitEthExecutionEvent_def emit_def st1_def that)
    obtain c h where client: "next_client (te_node priced_env) st1 = (Inr c, st1\<lparr> ns_hapi := h \<rparr>)"
      by (cases "getSDKClient (ne_hapi (te_node priced_env)) (node_now (te_node priced_env) st1) (ns_hapi st1)") (simp add: next_client_def)
    have submitted: "submitTransaction priced_env bs a price sample_details st1 =
        (Inr (False, '''', Some type_error), st1\<lparr> ns_hapi := h, ns_relay := blank_at 104 \<rparr>)" for a
      using client by (simp add: submitTransaction_def outcome_of_def and_do_def on_relay_def rate id st1_def that ret_def)
    show ?thesis
      by (simp add: sendRawTransactionProcessor_def and_do_def emitted submitted ret_def sendRawTransactionErrorHandler_def
          computed_or_error_def type_error_def) (simp add: st1_def)
  qed
  have "sendRawTransaction priced_env ''0x02'' sample_details plain_start =
      sendRawTransactionProcessor priced_env (buffer_of_hex (prune0x ''0x02'')) priced_tx 710000000000 sample_details
        (plain_start\<lparr> ns_relay := blank_at 103 \<rparr>)"
    by (simp add: sendRawTransaction_def parsed and_do_def lift_def on_relay_def priced_parts rich_price price validateRawTransaction_def
        catch_do_def priced_tx_checked Let_def)
  then have "ns_events (snd (sendRawTransaction priced_env ''0x02'' sample_details plain_start)) = [EthExecution ''eth_sendRawTransaction'']"
    using processed by (simp add: events)
  then show ?thesis using events by (metis node_state.select_convs(5) node_state.surjective node_state.update_convs(1) list.distinct(1))
qed


end
