(* ===== verification/Debug.thy ===== *)
theory Debug
  imports Transactions
begin

section \<open>Tracing of transactions and blocks\<close>

text \<open>
  Models \<open>debug.ts\<close>: \<open>debug_traceTransaction\<close> with the call tracer and the opcode logger, and
  \<open>debug_traceBlockByNumber\<close> with the call tracer and the prestate tracer. What the code asks for at the
  same time (\<open>Promise.all\<close>) is asked for in the order of the list, and the first failure of the list is
  the failure. The two flags of the configuration are fields of the environment, logging is left out.
\<close>

record ('c, 'r, 'w) debug_env =
  de_relay :: "('c, 'r, 'w) relay_env"
  de_debugApiEnabled :: bool
  de_opcodeLoggerEnabled :: bool

abbreviation de_mirror :: "('c, 'r, 'w) debug_env \<Rightarrow> ('c, 'r, 'w) mirror_env" where
  "de_mirror env \<equiv> re_mirror (de_relay env)"

definition CallTracer :: jsv where "CallTracer = JStr ''callTracer''"
definition OpcodeLogger :: jsv where "OpcodeLogger = JStr ''opcodeLogger''"
definition PrestateTracer :: jsv where "PrestateTracer = JStr ''prestateTracer''"
definition SUCCESS :: jsv where "SUCCESS = JStr ''SUCCESS''"
definition CREATE :: jsv where "CREATE = JStr ''CREATE''"
definition WRONG_NONCE_RESULT :: jsv where "WRONG_NONCE_RESULT = JStr ''WRONG_NONCE''"

definition requireDebugAPIEnabled :: "('c, 'r, 'w) debug_env \<Rightarrow> thrown + unit" where
  "requireDebugAPIEnabled env = ensure (de_debugApiEnabled env) (ThrownRpc UNSUPPORTED_METHOD)"

text \<open>\<open>v?.k\<close> and \<open>v ?? w\<close>.\<close>

definition coalesce :: "jsv \<Rightarrow> jsv \<Rightarrow> jsv" where
  "coalesce v w = (if nullish v then w else v)"

definition no_results :: "string \<Rightarrow> thrown" where
  "no_results transactionHash =
     ThrownRpc (RESOURCE_NOT_FOUND (''Failed to retrieve contract results for transaction '' @ transactionHash))"

subsection \<open>Addresses\<close>

text \<open>An entity that is a contract or an account has its EVM address; everything else stays as it is.\<close>

definition evm_address_of :: "jsv \<Rightarrow> jsv \<Rightarrow> jsv" where
  "evm_address_of address entity =
     (if truthy entity \<and> js_prop entity ''type'' \<in> {JStr TYPE_CONTRACT, JStr TYPE_ACCOUNT} \<and>
         truthy (js_prop (js_prop entity ''entity'') ''evm_address'')
      then js_prop (js_prop entity ''entity'') ''evm_address'' else address)"

definition resolveAddress ::
  "('c, 'r, 'w) debug_env \<Rightarrow> jsv \<Rightarrow> request_details \<Rightarrow> string list \<Rightarrow> ('c, 'r, 'w, jsv) relay_action" where
  "resolveAddress env address d types =
     (if \<not> truthy address then ret address
      else and_do (resolveEntityType (de_mirror env) (js_to_string address) d types None None) (\<lambda>entity.
        ret (evm_address_of address entity)))"

definition resolveMultipleAddresses ::
  "('c, 'r, 'w) debug_env \<Rightarrow> jsv \<Rightarrow> jsv \<Rightarrow> request_details \<Rightarrow> ('c, 'r, 'w, jsv \<times> jsv) relay_action" where
  "resolveMultipleAddresses env from to d =
     and_do (resolveAddress env from d [TYPE_CONTRACT, TYPE_TOKEN, TYPE_ACCOUNT]) (\<lambda>resolvedFrom.
     and_do (resolveAddress env to d [TYPE_CONTRACT, TYPE_TOKEN, TYPE_ACCOUNT]) (\<lambda>resolvedTo.
       ret (resolvedFrom, resolvedTo)))"

subsection \<open>The call tracer\<close>

definition hex_field :: "jsv \<Rightarrow> string \<Rightarrow> thrown + jsv" where
  "hex_field v k = and_then (to_0x (js_prop v k)) (\<lambda>t. Inr (JStr t))"

text \<open>
  One action of the mirror node's list. The code that a nested CREATE deployed is not in the action, so
  the contract is asked for.
\<close>

definition format_action ::
  "('c, 'r, 'w) debug_env \<Rightarrow> request_details \<Rightarrow> nat \<times> jsv \<Rightarrow> ('c, 'r, 'w, jsv) relay_action" where
  "format_action env d indexed_action =
     (let (index, action) = indexed_action in
      if nullish action then throw type_error
      else and_do (resolveMultipleAddresses env (js_prop action ''from'') (js_prop action ''to'') d) (\<lambda>(resolvedFrom, resolvedTo).
        and_do (if index \<noteq> 0 \<and> js_prop action ''call_operation_type'' = CREATE
                then mn_getContract (de_mirror env) (js_to_string (js_prop action ''to'')) d None JUndef else ret JUndef) (\<lambda>contract.
        and_do (lift (hex_field action ''gas'')) (\<lambda>gas.
        and_do (lift (hex_field action ''gas_used'')) (\<lambda>gasUsed.
        and_do (lift (hex_field action ''value'')) (\<lambda>v.
          ret (JObj [(''type'', js_prop action ''call_operation_type''), (''from'', resolvedFrom), (''to'', resolvedTo),
                     (''gas'', gas), (''gasUsed'', gasUsed),
                     (''input'', coalesce (js_prop contract ''bytecode'') (js_prop action ''input'')),
                     (''output'', coalesce (js_prop contract ''runtime_bytecode'') (js_prop action ''result_data'')),
                     (''value'', v)])))))))"

definition formatActionsResult ::
  "('c, 'r, 'w) debug_env \<Rightarrow> jsv list \<Rightarrow> request_details \<Rightarrow> ('c, 'r, 'w, jsv list) relay_action" where
  "formatActionsResult env actions d = map_do (format_action env d) (enumerate 0 actions)"

definition error_text :: "jsv \<Rightarrow> thrown + jsv" where
  "error_text v =
     (if \<not> truthy v then Inr (JStr '''')
      else case v of JStr s \<Rightarrow> Inr (JStr (decodeErrorMessage (Some s))) | _ \<Rightarrow> Inl type_error)"

definition failure_fields :: "jsv \<Rightarrow> thrown + (string \<times> jsv) list" where
  "failure_fields transaction =
     (if js_prop transaction ''result'' = SUCCESS then Inr []
      else and_then (error_text (js_prop transaction ''error_message'')) (\<lambda>reason.
        Inr [(''error'', js_prop transaction ''result''), (''revertReason'', reason)]))"

definition call_fields :: "jsv \<Rightarrow> jsv \<Rightarrow> jsv \<Rightarrow> jsv \<Rightarrow> jsv \<Rightarrow> thrown + jsv" where
  "call_fields type transaction resolvedFrom resolvedTo calls =
     and_then (hex_field transaction ''amount'') (\<lambda>v.
     and_then (hex_field transaction ''gas_limit'') (\<lambda>gas.
     and_then (hex_field transaction ''gas_used'') (\<lambda>gasUsed.
     and_then (failure_fields transaction) (\<lambda>failure.
       Inr (JObj ([(''type'', type), (''from'', resolvedFrom), (''to'', resolvedTo), (''value'', v), (''gas'', gas),
                   (''gasUsed'', gasUsed), (''input'', js_prop transaction ''function_parameters''),
                   (''output'', if js_prop transaction ''result'' = SUCCESS then js_prop transaction ''call_result''
                                else js_prop transaction ''error_message'')] @ failure @ [(''calls'', calls)]))))))"

text \<open>The first action is the call itself; the others are its sub-calls.\<close>

definition selected_calls :: "jsv \<Rightarrow> jsv list \<Rightarrow> jsv list \<Rightarrow> jsv" where
  "selected_calls tracerConfig actions formattedActions =
     (if truthy (js_prop tracerConfig ''onlyTopCall'') \<or> length actions = 1 then JUndef else JArr (tl formattedActions))"

definition callTracer ::
  "('c, 'r, 'w) debug_env \<Rightarrow> string \<Rightarrow> jsv \<Rightarrow> request_details \<Rightarrow> ('c, 'r, 'w, jsv) relay_action" where
  "callTracer env transactionHash tracerConfig d =
     catch_do
       (and_do (getContractsResultsActions (de_mirror env) transactionHash d) (\<lambda>actionsResponse.
        and_do (getContractResultWithRetry (de_mirror env) (getContractResult (de_mirror env) transactionHash d)) (\<lambda>transactionsResponse.
          if \<not> truthy actionsResponse \<or> \<not> truthy transactionsResponse then throw (no_results transactionHash)
          else and_do (lift (elements actionsResponse)) (\<lambda>actions.
            case actions of
              [] \<Rightarrow> ret JNull
            | first # rest \<Rightarrow>
                if nullish first then throw type_error
                else and_do (formatActionsResult env actions d) (\<lambda>formattedActions.
                  and_do (resolveMultipleAddresses env (js_prop transactionsResponse ''from'') (js_prop transactionsResponse ''to'') d)
                    (\<lambda>(resolvedFrom, resolvedTo).
                      lift (call_fields (js_prop first ''call_type'') transactionsResponse resolvedFrom resolvedTo
                        (selected_calls tracerConfig actions formattedActions))))))))
       (\<lambda>e. throw (genericErrorHandler e))"

subsection \<open>The opcode logger\<close>

text \<open>\<open>v ? strip0x(v) : w\<close>.\<close>

fun strip0x_text :: "jsv \<Rightarrow> thrown + jsv" where
  "strip0x_text (JStr s) = Inr (JStr (strip0x s))"
| "strip0x_text v = Inl type_error"

definition stripped_or :: "jsv \<Rightarrow> jsv \<Rightarrow> thrown + jsv" where
  "stripped_or v w = (if truthy v then strip0x_text v else Inr w)"

text \<open>\<open>shown ? v?.map(strip0x) || [] : null\<close>.\<close>

definition shown_list :: "bool \<Rightarrow> jsv \<Rightarrow> thrown + jsv" where
  "shown_list shown v =
     (if \<not> shown then Inr JNull
      else if nullish v then Inr (JArr [])
      else and_then (elements v) (\<lambda>xs. and_then (map_outcome strip0x_text xs) (\<lambda>ys. Inr (JArr ys))))"

definition object_entries :: "jsv \<Rightarrow> (string \<times> jsv) list" where
  "object_entries v = map (\<lambda>k. (k, js_prop v k)) (js_keys v)"

definition shown_storage :: "bool \<Rightarrow> jsv \<Rightarrow> thrown + jsv" where
  "shown_storage shown v =
     (if \<not> shown then Inr JNull
      else let target = object_entries (coalesce v (JObj [])) in
        and_then (map_outcome (\<lambda>p. strip0x_text (snd p)) target) (\<lambda>_.
          Inr (JObj (mapKeysAndValues target strip0x (\<lambda>x. case strip0x_text x of Inr y \<Rightarrow> y | Inl e \<Rightarrow> x)))))"

record opcode_options =
  oo_memory :: bool
  oo_stack :: bool
  oo_storage :: bool

definition struct_log :: "opcode_options \<Rightarrow> jsv \<Rightarrow> thrown + jsv" where
  "struct_log options opcode =
     (if nullish opcode then Inl type_error
      else and_then (shown_list (oo_stack options) (js_prop opcode ''stack'')) (\<lambda>stack.
        and_then (shown_list (oo_memory options) (js_prop opcode ''memory'')) (\<lambda>memory.
        and_then (shown_storage (oo_storage options) (js_prop opcode ''storage'')) (\<lambda>storage.
        and_then (stripped_or (js_prop opcode ''reason'') JNull) (\<lambda>reason.
          Inr (JObj [(''pc'', js_prop opcode ''pc''), (''op'', js_prop opcode ''op''), (''gas'', js_prop opcode ''gas''),
                     (''gasCost'', js_prop opcode ''gas_cost''), (''depth'', js_prop opcode ''depth''),
                     (''stack'', stack), (''memory'', memory), (''storage'', storage), (''reason'', reason)]))))))"

definition formatOpcodesResult :: "jsv \<Rightarrow> opcode_options \<Rightarrow> thrown + jsv" where
  "formatOpcodesResult result options =
     (if \<not> truthy result
      then Inr (JObj [(''gas'', JNum 0), (''failed'', JBool True), (''returnValue'', JStr ''''), (''structLogs'', JArr [])])
      else and_then (stripped_or (js_prop result ''return_value'') (JStr '''')) (\<lambda>returnValue.
        and_then (if nullish (js_prop result ''opcodes'') then Inr JUndef
                  else and_then (elements (js_prop result ''opcodes'')) (\<lambda>opcodes.
                    and_then (map_outcome (struct_log options) opcodes) (\<lambda>logs. Inr (JArr logs)))) (\<lambda>structLogs.
          Inr (JObj [(''gas'', js_prop result ''gas''), (''failed'', js_prop result ''failed''),
                     (''returnValue'', returnValue), (''structLogs'', structLogs)]))))"

definition opcode_options_of :: "jsv \<Rightarrow> opcode_options" where
  "opcode_options_of tracerConfig =
     \<lparr> oo_memory = truthy (js_prop tracerConfig ''enableMemory''),
       oo_stack = \<not> truthy (js_prop tracerConfig ''disableStack''),
       oo_storage = \<not> truthy (js_prop tracerConfig ''disableStorage'') \<rparr>"

definition option_params :: "opcode_options \<Rightarrow> (string \<times> jsv) list" where
  "option_params options =
     [(''memory'', JBool (oo_memory options)), (''stack'', JBool (oo_stack options)), (''storage'', JBool (oo_storage options))]"

definition callOpcodeLogger ::
  "('c, 'r, 'w) debug_env \<Rightarrow> string \<Rightarrow> jsv \<Rightarrow> request_details \<Rightarrow> ('c, 'r, 'w, jsv) relay_action" where
  "callOpcodeLogger env transactionIdOrHash tracerConfig d =
     (let options = opcode_options_of tracerConfig in
      catch_do
        (and_do (getContractsResultsOpcodes (de_mirror env) transactionIdOrHash d (Some (option_params options))) (\<lambda>response.
           if \<not> truthy response then throw (no_results transactionIdOrHash)
           else lift (formatOpcodesResult response options)))
        (\<lambda>e. throw (genericErrorHandler e)))"

definition traceTransaction ::
  "('c, 'r, 'w) debug_env \<Rightarrow> string \<Rightarrow> jsv \<Rightarrow> request_details \<Rightarrow> ('c, 'r, 'w, jsv) relay_action" where
  "traceTransaction env transactionIdOrHash tracerObject d =
     (if js_prop tracerObject ''tracer'' = PrestateTracer
      then throw (ThrownRpc (INVALID_PARAMETER ''1'' ''Prestate tracer is not yet supported on debug_traceTransaction''))
      else
        let tracer = coalesce (js_prop tracerObject ''tracer'') OpcodeLogger;
            tracerConfig = coalesce (js_prop tracerObject ''tracerConfig'') (JObj [])
        in catch_do
             (and_do (lift (requireDebugAPIEnabled env)) (\<lambda>_.
                if tracer = CallTracer then callTracer env transactionIdOrHash tracerConfig d
                else and_do (lift (ensure (de_opcodeLoggerEnabled env) (ThrownRpc UNSUPPORTED_METHOD))) (\<lambda>_.
                  callOpcodeLogger env transactionIdOrHash tracerConfig d)))
             (\<lambda>e. throw (genericErrorHandler e)))"

subsection \<open>The prestate tracer\<close>

definition prestate_key :: "string \<Rightarrow> jsv \<Rightarrow> string" where
  "prestate_key transactionHash onlyTopCall = ''prestateTracer_'' @ transactionHash @ ''_'' @ js_to_string onlyTopCall"

text \<open>
  \<open>addressMap\<close>: the type and the timestamp an address was last seen with. The first place it was seen
  at decides its place in the list.
\<close>

definition seen_address :: "jsv \<Rightarrow> jsv \<Rightarrow> jsv \<Rightarrow> (jsv \<times> jsv \<times> jsv) list \<Rightarrow> (jsv \<times> jsv \<times> jsv) list" where
  "seen_address address type timestamp seen =
     (if truthy address then AList.update address (type, timestamp) seen else seen)"

definition action_addresses :: "jsv \<Rightarrow> (jsv \<times> jsv \<times> jsv) list \<Rightarrow> (jsv \<times> jsv \<times> jsv) list" where
  "action_addresses action seen =
     seen_address (js_prop action ''to'') (js_prop action ''recipient_type'') (js_prop action ''timestamp'')
       (seen_address (js_prop action ''from'') (js_prop action ''caller_type'') (js_prop action ''timestamp'') seen)"

definition addressMap :: "jsv list \<Rightarrow> (jsv \<times> jsv \<times> jsv) list" where
  "addressMap actions = fold action_addresses actions []"

definition storage_map :: "jsv list \<Rightarrow> thrown + jsv" where
  "storage_map items =
     (if list_ex nullish items then Inl type_error
      else Inr (foldl (\<lambda>m item. js_set_prop m (js_to_string (js_prop item ''slot'')) (js_prop item ''value'')) (JObj []) items))"

definition balance_hex :: "jsv \<Rightarrow> thrown + jsv" where
  "balance_hex balance = and_then (to_0x (if truthy balance then balance else JStr ''0'')) (\<lambda>t. Inr (JStr t))"

text \<open>\<open>balanceResponse.balances[0]?.balance\<close>.\<close>

definition first_balance :: "jsv \<Rightarrow> thrown + jsv" where
  "first_balance response =
     (if nullish response \<or> nullish (js_prop response ''balances'') then Inl type_error
      else Inr (case js_prop response ''balances'' of JArr (b # bs) \<Rightarrow> js_prop b ''balance'' | _ \<Rightarrow> JUndef))"

definition entity_state :: "jsv \<Rightarrow> jsv \<Rightarrow> jsv \<Rightarrow> jsv \<Rightarrow> jsv" where
  "entity_state balance nonce code storage =
     JObj [(''balance'', balance), (''nonce'', nonce), (''code'', code), (''storage'', storage)]"

text \<open>The state of one entity; \<open>None\<close> when there is no entity with an EVM address.\<close>

definition trace_entity ::
  "('c, 'r, 'w) debug_env \<Rightarrow> request_details \<Rightarrow> jsv \<times> jsv \<times> jsv \<Rightarrow> ('c, 'r, 'w, (string \<times> jsv) option) relay_action" where
  "trace_entity env d accountEntity =
     (let (address, type, timestamp) = accountEntity in
      and_do (resolveEntityType (de_mirror env) (js_to_string address) d [js_to_string type] (Some 1)
                (if truthy timestamp then Some (js_to_string timestamp) else None)) (\<lambda>entityObject.
        let entity = js_prop entityObject ''entity''; evmAddress = js_prop entity ''evm_address'' in
        if \<not> truthy entityObject \<or> \<not> truthy evmAddress then ret None
        else if js_prop entityObject ''type'' = JStr TYPE_CONTRACT then
          (let contractId = js_to_string (js_prop entity ''contract_id'') in
           and_do (getBalanceAtTimestamp (de_mirror env) contractId d timestamp) (\<lambda>balanceResponse.
           and_do (getContractState (de_mirror env) contractId d timestamp) (\<lambda>stateResponse.
           and_do (lift (and_then (elements stateResponse) storage_map)) (\<lambda>storage.
           and_do (lift (and_then (first_balance balanceResponse) balance_hex)) (\<lambda>balance.
             ret (Some (js_to_string evmAddress,
                    entity_state balance (js_prop entity ''nonce'') (js_prop entity ''runtime_bytecode'') storage)))))))
        else if js_prop entityObject ''type'' = JStr TYPE_ACCOUNT then
          and_do (lift (balance_hex (js_prop (js_prop entity ''balance'') ''balance''))) (\<lambda>balance.
            ret (Some (js_to_string evmAddress, entity_state balance (js_prop entity ''ethereum_nonce'') (JStr EMPTY_HEX) (JObj []))))
        else ret None))"

definition add_entity :: "jsv \<Rightarrow> (string \<times> jsv) option \<Rightarrow> jsv" where
  "add_entity result traced = (case traced of None \<Rightarrow> result | Some (a, v) \<Rightarrow> js_set_prop result a v)"

definition prestateTracer ::
  "('c, 'r, 'w) debug_env \<Rightarrow> string \<Rightarrow> jsv \<Rightarrow> request_details \<Rightarrow> ('c, 'r, 'w, jsv) relay_action" where
  "prestateTracer env transactionHash onlyTopCall d =
     (let onlyTopCall' = (if onlyTopCall = JUndef then JBool False else onlyTopCall);
          cacheKey = prestate_key transactionHash onlyTopCall'
      in and_do (cached_get (de_mirror env) cacheKey) (\<lambda>cachedResult.
        if truthy cachedResult then ret cachedResult
        else and_do (getContractsResultsActions (de_mirror env) transactionHash d) (\<lambda>actionsResponse.
          if \<not> truthy actionsResponse then throw (no_results transactionHash)
          else and_do (lift (elements actionsResponse)) (\<lambda>actions.
            if list_ex nullish actions then throw type_error
            else
              let filteredActions = (if truthy onlyTopCall' then filter (\<lambda>action. js_prop action ''call_depth'' = JNum 0) actions
                                     else actions);
                  accountEntities = addressMap filteredActions
              in if accountEntities = [] then ret (JObj [])
                 else and_do (map_do (\<lambda>accountEntity. catch_do (trace_entity env d accountEntity) (\<lambda>e. ret None)) accountEntities) (\<lambda>traced.
                   let result = foldl add_entity (JObj []) traced
                   in and_do (cached_set (de_mirror env) cacheKey result None) (\<lambda>_. ret result))))))"

subsection \<open>Tracing a block\<close>

definition traced_results :: "jsv list \<Rightarrow> jsv list" where
  "traced_results contractResults = filter (\<lambda>contractResult. js_prop contractResult ''result'' \<noteq> WRONG_NONCE_RESULT) contractResults"

definition trace_each ::
  "(string \<Rightarrow> ('c, 'r, 'w, jsv) relay_action) \<Rightarrow> jsv list \<Rightarrow> ('c, 'r, 'w, jsv) relay_action" where
  "trace_each trace contractResults =
     (if list_ex nullish contractResults then throw type_error
      else and_do (map_do (\<lambda>contractResult.
         and_do (trace (js_to_string (js_prop contractResult ''hash''))) (\<lambda>result.
           ret (JObj [(''txHash'', js_prop contractResult ''hash''), (''result'', result)]))) (traced_results contractResults))
       (\<lambda>results. ret (JArr results)))"

text \<open>The tracer of the request: the call tracer without one, and with an object the tracer that is in it.\<close>

definition block_tracer :: "jsv \<Rightarrow> jsv \<times> jsv" where
  "block_tracer tracerObject =
     (if truthy tracerObject
      then (js_prop tracerObject ''tracer'', js_prop (js_prop tracerObject ''tracerConfig'') ''onlyTopCall'')
      else (CallTracer, JUndef))"

definition timestamp_range :: "jsv \<Rightarrow> thrown + jsv" where
  "timestamp_range block =
     and_then (timestamp_field block ''from'') (\<lambda>from.
     and_then (timestamp_field block ''to'') (\<lambda>to.
       Inr (JArr [JStr (''gte:'' @ js_to_string from), JStr (''lte:'' @ js_to_string to)])))"

definition traceBlockByNumber ::
  "('c, 'r, 'w) debug_env \<Rightarrow> jsv \<Rightarrow> jsv \<Rightarrow> request_details \<Rightarrow> ('c, 'r, 'w, jsv) relay_action" where
  "traceBlockByNumber env blockNumber tracerObject d =
     catch_do
       (and_do (lift (requireDebugAPIEnabled env)) (\<lambda>_.
        and_do (getHistoricalBlockResponse (de_relay env) d blockNumber True) (\<lambda>blockResponse.
          if nullish blockResponse
          then throw (ThrownRpc (RESOURCE_NOT_FOUND (''Block '' @ js_to_string blockNumber @ '' not found'')))
          else and_do (lift (timestamp_range blockResponse)) (\<lambda>timestampRangeParams.
            and_do (getContractResultWithRetry (de_mirror env)
                     (getContractResults (de_mirror env) d (JObj [(''timestamp'', timestampRangeParams)]) JUndef)) (\<lambda>contractResults.
              if nullish contractResults then ret (JArr [])
              else and_do (lift (elements contractResults)) (\<lambda>results.
                if results = [] then ret (JArr [])
                else let (tracer, onlyTopCall) = block_tracer tracerObject in
                  if tracer = CallTracer
                  then trace_each (\<lambda>hash. callTracer env hash (JObj [(''onlyTopCall'', onlyTopCall)]) d) results
                  else if tracer = PrestateTracer
                  then trace_each (\<lambda>hash. prestateTracer env hash onlyTopCall d) results
                  else ret (JArr [])))))))
       (\<lambda>e. throw (genericErrorHandler e))"

subsection \<open>A closed API answers nothing\<close>

lemma handled_throw: "catch_do (throw (ThrownRpc e)) (\<lambda>e. throw (genericErrorHandler e)) s = (Inl (ThrownRpc e), s)"
  by (simp add: catch_do_def throw_def genericErrorHandler_def)

text \<open>
  Without \<open>DEBUG_API_ENABLED\<close> no tracing method asks the mirror node or touches the cache: it answers
  that the method is not supported.
\<close>

theorem closed_debug_api_asks_nothing:
  assumes "\<not> de_debugApiEnabled env"
  shows "traceBlockByNumber env blockNumber tracerObject d s = (Inl (ThrownRpc UNSUPPORTED_METHOD), s) \<and>
    (js_prop tracerObject ''tracer'' \<noteq> PrestateTracer \<longrightarrow>
       traceTransaction env hash tracerObject d s = (Inl (ThrownRpc UNSUPPORTED_METHOD), s))"
  using assms
  by (simp_all add: traceBlockByNumber_def traceTransaction_def requireDebugAPIEnabled_def ensure_def Let_def
      catch_do_def and_do_def lift_def throw_def genericErrorHandler_def)

subsection \<open>What the call tracer lists\<close>

lemma handled_Inr: "catch_do m (\<lambda>e. throw (h e)) s = (Inr v, s') \<longleftrightarrow> m s = (Inr v, s')"
  by (auto simp: catch_do_def throw_def split: prod.split sum.split)

lemma format_action_type:
  "format_action env d (i, action) s = (Inr v, s') \<Longrightarrow> js_prop v ''type'' = js_prop action ''call_operation_type''"
  by (auto simp: format_action_def and_do_Inr_iff ret_def throw_def split: if_split_asm)

lemma formatted_types:
  assumes "formatActionsResult env actions d s = (Inr vs, s')"
  shows "map (\<lambda>v. js_prop v ''type'') vs = map (\<lambda>a. js_prop a ''call_operation_type'') actions"
proof -
  have "list_all2 (\<lambda>p v. js_prop v ''type'' = js_prop (snd p) ''call_operation_type'') (enumerate 0 actions) vs"
    using map_do_Inr [OF assms [unfolded formatActionsResult_def]]
    by (rule list_all2_mono) (auto dest: format_action_type)
  then have "map (\<lambda>v. js_prop v ''type'') vs = map (\<lambda>p. js_prop (snd p) ''call_operation_type'') (enumerate 0 actions)"
    by (induction rule: list_all2_induct) auto
  also have "\<dots> = map (\<lambda>a. js_prop a ''call_operation_type'') (map snd (enumerate 0 actions))"
    by (simp only: map_map o_def)
  finally show ?thesis by (simp only: map_snd_enumerate)
qed

text \<open>The sub-calls of a trace, by their operation.\<close>

definition sub_calls :: "jsv \<Rightarrow> jsv \<Rightarrow> jsv list \<Rightarrow> jsv \<Rightarrow> bool" where
  "sub_calls tracerConfig trace actions tx \<longleftrightarrow>
     js_prop trace ''type'' = js_prop (hd actions) ''call_type'' \<and>
     (if truthy (js_prop tracerConfig ''onlyTopCall'') \<or> length actions = 1 then js_prop trace ''calls'' = JUndef
      else \<exists>calls. js_prop trace ''calls'' = JArr calls \<and>
        map (\<lambda>c. js_prop c ''type'') calls = map (\<lambda>a. js_prop a ''call_operation_type'') (tl actions)) \<and>
     (has_own trace ''error'' \<longleftrightarrow> js_prop tx ''result'' \<noteq> SUCCESS)"

lemma call_fields_shape:
  assumes "call_fields type tx a b calls = Inr v"
  shows "js_prop v ''type'' = type" and "js_prop v ''calls'' = calls"
    and "has_own v ''error'' \<longleftrightarrow> js_prop tx ''result'' \<noteq> SUCCESS"
  using assms by (auto simp: call_fields_def failure_fields_def and_then_Inr_iff split: if_split_asm)

text \<open>
  C26. The call tracer reports the first action of a transaction as the call and every other action, in the
  order of the mirror node, as one of its sub-calls, none when only the top call was asked for; the trace has
  an error exactly when the transaction did not succeed.
\<close>

theorem call_trace_lists_actions:
  assumes "getContractsResultsActions (de_mirror env) hash d s = (Inr (JArr actions), s1)" and "actions \<noteq> []"
    and "getContractResultWithRetry (de_mirror env) (getContractResult (de_mirror env) hash d) s1 = (Inr tx, s2)"
    and "callTracer env hash tracerConfig d s = (Inr trace, s')"
  shows "sub_calls tracerConfig trace actions tx"
proof -
  obtain first rest where actions: "actions = first # rest" using assms(2) by (cases actions) auto
  obtain formatted s3 resolvedFrom resolvedTo where
    formatted: "formatActionsResult env actions d s2 = (Inr formatted, s3)" and
    trace: "call_fields (js_prop first ''call_type'') tx resolvedFrom resolvedTo
      (selected_calls tracerConfig actions formatted) = Inr trace"
    using assms(4) unfolding callTracer_def handled_Inr
    by (auto simp: and_do_Inr_iff assms(1,3) actions throw_def lift_def split: if_split_asm prod.splits)
  have "map (\<lambda>c. js_prop c ''type'') (tl formatted) = map (\<lambda>a. js_prop a ''call_operation_type'') (tl actions)"
    using formatted_types [OF formatted] by (metis map_tl)
  with call_fields_shape [OF trace] show ?thesis
    by (auto simp: sub_calls_def selected_calls_def actions)
qed

subsection \<open>What the opcode logger shows\<close>

definition hidden_as_asked :: "opcode_options \<Rightarrow> jsv \<Rightarrow> bool" where
  "hidden_as_asked options entry \<longleftrightarrow>
     (js_prop entry ''stack'' = JNull \<longleftrightarrow> \<not> oo_stack options) \<and>
     (js_prop entry ''memory'' = JNull \<longleftrightarrow> \<not> oo_memory options) \<and>
     (js_prop entry ''storage'' = JNull \<longleftrightarrow> \<not> oo_storage options)"

lemma shown_list_null: "shown_list shown v = Inr r \<Longrightarrow> r = JNull \<longleftrightarrow> \<not> shown"
  by (auto simp: shown_list_def and_then_Inr_iff split: if_split_asm)

lemma shown_storage_null: "shown_storage shown v = Inr r \<Longrightarrow> r = JNull \<longleftrightarrow> \<not> shown"
  by (auto simp: shown_storage_def Let_def and_then_Inr_iff split: if_split_asm)

lemma struct_log_shape:
  assumes "struct_log options opcode = Inr entry"
  shows "js_prop entry ''pc'' = js_prop opcode ''pc'' \<and> js_prop entry ''op'' = js_prop opcode ''op'' \<and>
    js_prop entry ''gasCost'' = js_prop opcode ''gas_cost'' \<and> hidden_as_asked options entry"
  using assms
  by (auto simp: struct_log_def hidden_as_asked_def and_then_Inr_iff split: if_split_asm
      dest!: shown_list_null shown_storage_null)

text \<open>
  The opcode logger shows one entry for every opcode of the mirror node's list, in its order and with its
  position, name and cost; stack, memory and storage are there exactly when the configuration wants them.
\<close>

theorem opcode_log_follows_trace:
  assumes "formatOpcodesResult result options = Inr answer" and "truthy result"
    and "js_prop result ''opcodes'' = JArr opcodes"
  shows "\<exists>entries. js_prop answer ''structLogs'' = JArr entries \<and>
    list_all2 (\<lambda>opcode entry. js_prop entry ''pc'' = js_prop opcode ''pc'' \<and> js_prop entry ''op'' = js_prop opcode ''op'' \<and>
      js_prop entry ''gasCost'' = js_prop opcode ''gas_cost'' \<and> hidden_as_asked options entry) opcodes entries"
proof -
  obtain entries where entries: "map_outcome (struct_log options) opcodes = Inr entries"
    and answer: "js_prop answer ''structLogs'' = JArr entries"
    using assms by (auto simp: formatOpcodesResult_def and_then_Inr_iff nullish_def)
  have "list_all2 (\<lambda>opcode entry. struct_log options opcode = Inr entry) opcodes entries"
    using entries by (rule map_outcome_Inr)
  then show ?thesis using answer by (auto elim!: list_all2_mono dest: struct_log_shape)
qed

subsection \<open>The transactions of a block\<close>

lemma trace_each_hashes:
  assumes "trace_each trace results s = (Inr v, s')"
  shows "\<exists>items. v = JArr items \<and>
    map (\<lambda>item. js_prop item ''txHash'') items = map (\<lambda>r. js_prop r ''hash'') (traced_results results) \<and>
    list_all2 (\<lambda>r item. \<exists>t t'. trace (js_to_string (js_prop r ''hash'')) t = (Inr (js_prop item ''result''), t'))
      (traced_results results) items"
proof -
  obtain items where v: "v = JArr items" and "list_all2 (\<lambda>r item. \<exists>t t'. and_do (trace (js_to_string (js_prop r ''hash'')))
      (\<lambda>result. ret (JObj [(''txHash'', js_prop r ''hash''), (''result'', result)])) t = (Inr item, t')) (traced_results results) items"
    using assms by (auto simp: trace_each_def and_do_Inr_iff ret_def throw_def split: if_split_asm dest!: map_do_Inr)
  from this(2) have "list_all2 (\<lambda>r item. js_prop item ''txHash'' = js_prop r ''hash'' \<and>
      (\<exists>t t'. trace (js_to_string (js_prop r ''hash'')) t = (Inr (js_prop item ''result''), t'))) (traced_results results) items"
    by (rule list_all2_mono) (auto simp: and_do_Inr_iff ret_def, blast)
  then show ?thesis unfolding v
    by (induction rule: list_all2_induct) auto
qed

text \<open>
  A traced block lists the hashes of its transactions in the order of the mirror node, without those that
  failed with a wrong nonce, and with the result of tracing each of them.
\<close>

theorem block_trace_lists_transactions:
  assumes "de_debugApiEnabled env"
    and "getHistoricalBlockResponse (de_relay env) d blockNumber True s = (Inr block, s1)" and "\<not> nullish block"
    and "timestamp_range block = Inr rng"
    and "getContractResultWithRetry (de_mirror env)
           (getContractResults (de_mirror env) d (JObj [(''timestamp'', rng)]) JUndef) s1 = (Inr (JArr results), s2)"
    and "traceBlockByNumber env blockNumber tracerObject d s = (Inr v, s')"
    and "block_tracer tracerObject = (CallTracer, onlyTopCall)"
  shows "\<exists>items. v = JArr items \<and>
    map (\<lambda>item. js_prop item ''txHash'') items = map (\<lambda>r. js_prop r ''hash'') (traced_results results) \<and>
    list_all2 (\<lambda>r item. \<exists>t t'. callTracer env (js_to_string (js_prop r ''hash'')) (JObj [(''onlyTopCall'', onlyTopCall)]) d t =
        (Inr (js_prop item ''result''), t')) (traced_results results) items"
proof (cases "results = []")
  case True
  with assms have "v = JArr []"
    unfolding traceBlockByNumber_def handled_Inr
    by (simp add: and_do_def lift_def ret_def requireDebugAPIEnabled_def ensure_def nullish_def)
  with True show ?thesis by (simp add: traced_results_def)
next
  case False
  with assms have "trace_each (\<lambda>hash. callTracer env hash (JObj [(''onlyTopCall'', onlyTopCall)]) d) results s2 = (Inr v, s')"
    unfolding traceBlockByNumber_def handled_Inr
    by (simp add: and_do_def lift_def ret_def requireDebugAPIEnabled_def ensure_def nullish_def)
  then show ?thesis by (rule trace_each_hashes)
qed

subsection \<open>A prestate that is remembered\<close>

lemma foldl_add_entity: "is_plain_object m \<Longrightarrow> is_plain_object (foldl add_entity m traced)"
proof (induction traced arbitrary: m)
  case (Cons t traced)
  have "is_plain_object (add_entity m t)"
    using Cons.prems by (cases m) (auto simp: add_entity_def split: option.split)
  with Cons.IH show ?case by simp
qed simp

lemma plain_object_truthy: "is_plain_object v \<Longrightarrow> truthy v"
  by (cases v) auto

lemma map_do_caught_Inr: "\<exists>ys s'. map_do (\<lambda>x. catch_do (f x) (\<lambda>e. ret (g x))) xs s = (Inr ys, s')"
proof (induction xs arbitrary: s)
  case (Cons x xs)
  obtain y s1 where "catch_do (f x) (\<lambda>e. ret (g x)) s = (Inr y, s1)"
    by (cases "f x s", cases "fst (f x s)") (auto simp: catch_do_def ret_def)
  moreover obtain ys s2 where "map_do (\<lambda>x. catch_do (f x) (\<lambda>e. ret (g x))) xs s1 = (Inr ys, s2)"
    using Cons.IH by blast
  ultimately show ?case by (auto simp: and_do_def ret_def)
qed (simp add: ret_def)

definition top_call_flag :: "jsv \<Rightarrow> jsv" where
  "top_call_flag onlyTopCall = (if onlyTopCall = JUndef then JBool False else onlyTopCall)"

definition prestate_accounts :: "jsv \<Rightarrow> jsv list \<Rightarrow> (jsv \<times> jsv \<times> jsv) list" where
  "prestate_accounts onlyTopCall actions =
     addressMap (if truthy onlyTopCall then filter (\<lambda>action. js_prop action ''call_depth'' = JNum 0) actions else actions)"

lemma prestate_hit:
  assumes "fst (cached_get (de_mirror env) (prestate_key hash (top_call_flag onlyTopCall)) s) = Inr v" and "truthy v"
  shows "prestateTracer env hash onlyTopCall d s =
    (Inr v, snd (cached_get (de_mirror env) (prestate_key hash (top_call_flag onlyTopCall)) s))"
  using assms unfolding prestateTracer_def Let_def top_call_flag_def
  by (simp add: and_do_def cached_get_run ret_def)

text \<open>
  C27. Once the actions of a transaction are known, the prestate tracer always answers: an entity whose look-up
  fails is left out. What it answered, complete or not, is what it answers from then on, whatever the mirror
  node would say.
\<close>

theorem prestate_answered_and_kept:
  assumes "lru_laws (ce_lru (me_cache (de_mirror env))) look cap" and "internal_only (me_cache (de_mirror env))"
    and "cached_get (de_mirror env) (prestate_key hash (top_call_flag onlyTopCall)) s = (Inr JNull, s1)"
    and "getContractsResultsActions (de_mirror env) hash d s1 = (Inr (JArr actions), s2)"
    and "\<not> list_ex nullish actions" and "prestate_accounts (top_call_flag onlyTopCall) actions \<noteq> []"
  shows "\<exists>v s'. prestateTracer env hash onlyTopCall d s = (Inr v, s') \<and> is_plain_object v \<and>
    fst (prestateTracer env hash onlyTopCall d' s') = Inr v \<and>
    rs_world (snd (prestateTracer env hash onlyTopCall d' s')) = rs_world s'"
proof -
  let ?key = "prestate_key hash (top_call_flag onlyTopCall)"
  let ?accounts = "prestate_accounts (top_call_flag onlyTopCall) actions"
  obtain traced s3 where traced:
    "map_do (\<lambda>a. catch_do (trace_entity env d a) (\<lambda>e. ret None)) ?accounts s2 = (Inr traced, s3)"
    using map_do_caught_Inr [of "trace_entity env d" "\<lambda>_. None" ?accounts s2] by blast
  define v where "v = foldl add_entity (JObj []) traced"
  define s' where "s' = snd (cached_set (de_mirror env) ?key v None s3)"
  have v: "is_plain_object v" by (simp add: v_def foldl_add_entity)
  have first: "prestateTracer env hash onlyTopCall d s = (Inr v, s')"
    using assms(3-6) traced unfolding prestateTracer_def Let_def top_call_flag_def [symmetric] prestate_accounts_def [symmetric]
    by (simp add: and_do_Inr lift_def ret_def v_def s'_def cached_set_run)
  have caching: "caching (de_mirror env)" using assms(1,2) by (rule cachingI)
  have "v \<noteq> JUndef" using v by auto
  with caching have "fst (cached_get (de_mirror env) ?key s') = Inr v"
    by (simp add: s'_def get_after_set)
  from prestate_hit [OF this plain_object_truthy [OF v]] first v show ?thesis
    by (auto simp: cached_get_run)
qed

subsection \<open>Traces of small transactions\<close>

definition plain_debug :: "(string \<times> jsv) list \<Rightarrow> (unit, unit, nat) debug_env" where
  "plain_debug table = \<lparr> de_relay = plain_relay table, de_debugApiEnabled = True, de_opcodeLoggerEnabled = True \<rparr>"

theorem closed_debug_api_asks_nothing_witness:
  "fst (traceTransaction ((plain_debug [])\<lparr> de_debugApiEnabled := False \<rparr>) ''0xab'' JUndef sample_details blank_relay) =
     Inl (ThrownRpc UNSUPPORTED_METHOD)"
  using closed_debug_api_asks_nothing [of "(plain_debug [])\<lparr> de_debugApiEnabled := False \<rparr>" JNull JUndef sample_details blank_relay]
  by (simp add: PrestateTracer_def js_prop_def)

definition action_of :: "string \<Rightarrow> jsv" where
  "action_of operation =
     JObj [(''call_type'', JStr ''CALL''), (''call_operation_type'', JStr operation), (''gas'', JNum 100), (''gas_used'', JNum 90),
           (''value'', JNum 0), (''input'', JStr ''0x''), (''result_data'', JStr ''0x01''), (''call_depth'', JNum 0)]"

definition call_result :: jsv where
  "call_result =
     JObj [(''hash'', JStr ''0xab''), (''amount'', JNum 5), (''gas_limit'', JNum 300), (''gas_used'', JNum 200),
           (''function_parameters'', JStr ''0x''), (''call_result'', JStr ''0x01''), (''result'', JStr ''SUCCESS''),
           (''transaction_index'', JNum 1), (''block_number'', JNum 7), (''block_hash'', JStr ''0xbb'')]"

definition wrong_nonce_result :: jsv where
  "wrong_nonce_result =
     JObj [(''hash'', JStr ''0xcd''), (''result'', JStr ''WRONG_NONCE''), (''transaction_index'', JNum 2), (''block_number'', JNum 7),
           (''block_hash'', JStr ''0xbb'')]"

definition block_seven :: jsv where
  "block_seven = JObj [(''number'', JNum 7), (''timestamp'', JObj [(''from'', JStr ''1''), (''to'', JStr ''2'')])]"

definition traced_block :: "(string \<times> jsv) list" where
  "traced_block =
     [(''contracts/results/0xab/actions'',
        JObj [(''actions'', JArr [action_of ''CALL'', action_of ''STATICCALL'']), (''links'', JObj [(''next'', JNull)])]),
      (''contracts/results/0xab'', call_result),
      (''blocks?limit=1&order=desc'', JObj [(''blocks'', JArr [block_seven])]),
      (''contracts/results?timestamp=gte:1&timestamp=lte:2&limit=100&order=asc'',
        JObj [(''results'', JArr [call_result, wrong_nonce_result]), (''links'', JObj [(''next'', JNull)])])]"

lemma plain_debug_fields [simp]:
  "de_relay (plain_debug table) = plain_relay table" "re_mirror (plain_relay table) = plain_mirror table"
  "de_debugApiEnabled (plain_debug table)"
  by (simp_all add: plain_debug_def plain_relay_def)

lemma retry_mature:
  assumes "fetch s = (Inr r, s')" and "\<not> immature_results r" and "0 < me_requestRetryCount env"
  shows "getContractResultWithRetry env fetch s = (Inr r, s')"
  using assms by (cases "me_requestRetryCount env") (simp_all add: getContractResultWithRetry_def and_do_def ret_def)

lemma sample_results_mature:
  "\<not> immature_results call_result" "\<not> immature_results (JArr [call_result, wrong_nonce_result])"
  by (simp_all add: immature_results_def immature_result_def call_result_def wrong_nonce_result_def nullish_def)

lemma sample_actions:
  "getContractsResultsActions (plain_mirror traced_block) ''0xab'' sample_details (blank_at w) =
     (Inr (JArr [action_of ''CALL'', action_of ''STATICCALL'']), blank_at (Suc w))"
  by (simp add: getContractsResultsActions_def allPages_def and_do_def getPaginatedResults.simps blank_at_steps traced_block_def ret_def
      Let_def starts_with_def)

lemma sample_fetch:
  "getContractResult (plain_mirror traced_block) ''0xab'' sample_details (blank_at w) = (Inr call_result, blank_at (Suc w))"
  by (simp add: getContractResult_def Let_def and_do_def blank_at_steps traced_block_def ret_def)

lemma sample_transaction:
  "getContractResultWithRetry (plain_mirror traced_block) (getContractResult (plain_mirror traced_block) ''0xab'' sample_details)
     (blank_at w) = (Inr call_result, blank_at (Suc w))"
  by (rule retry_mature) (simp_all add: sample_fetch sample_results_mature, simp add: plain_mirror_def)

lemma sample_addresses: "resolveMultipleAddresses env JUndef JUndef d s = (Inr (JUndef, JUndef), s)"
  by (simp add: resolveMultipleAddresses_def resolveAddress_def ret_def and_do_def)

lemma sample_format: "\<exists>v. format_action env d (i, action_of ''CALL'') s = (Inr v, s)" "\<exists>v. format_action env d (i, action_of ''STATICCALL'') s = (Inr v, s)"
  by (simp_all add: format_action_def action_of_def nullish_def sample_addresses and_do_def CREATE_def lift_def hex_field_def ret_def)

lemma sample_formatted:
  "\<exists>vs. formatActionsResult env [action_of ''CALL'', action_of ''STATICCALL''] d s = (Inr vs, s)"
proof -
  obtain v where v: "format_action env d (0, action_of ''CALL'') s = (Inr v, s)" using sample_format by blast
  obtain v' where v': "format_action env d (Suc 0, action_of ''STATICCALL'') s = (Inr v', s)" using sample_format by blast
  show ?thesis by (simp add: formatActionsResult_def and_do_def v v' ret_def)
qed

lemma sample_trace:
  "\<exists>trace. callTracer (plain_debug traced_block) ''0xab'' (JObj ps) sample_details (blank_at w) = (Inr trace, blank_at (Suc (Suc w)))"
proof -
  obtain vs where vs: "formatActionsResult (plain_debug traced_block) [action_of ''CALL'', action_of ''STATICCALL''] sample_details
      (blank_at (Suc (Suc w))) = (Inr vs, blank_at (Suc (Suc w)))"
    using sample_formatted by blast
  obtain trace where trace: "call_fields (js_prop (action_of ''CALL'') ''call_type'') call_result JUndef JUndef
      (selected_calls (JObj ps) [action_of ''CALL'', action_of ''STATICCALL''] vs) = Inr trace"
    by (simp add: call_fields_def hex_field_def call_result_def failure_fields_def SUCCESS_def)
  have "truthy call_result" "\<not> nullish (action_of ''CALL'')" "js_prop call_result ''from'' = JUndef" "js_prop call_result ''to'' = JUndef"
    by (simp_all add: call_result_def action_of_def nullish_def)
  then show ?thesis
    using vs trace unfolding callTracer_def handled_Inr
    by (simp add: and_do_def sample_actions sample_transaction lift_def sample_addresses eval_nat_numeral)
qed

theorem call_trace_lists_actions_witness:
  "\<exists>trace. fst (callTracer (plain_debug traced_block) ''0xab'' (JObj []) sample_details (blank_at 0)) = Inr trace \<and>
     sub_calls (JObj []) trace [action_of ''CALL'', action_of ''STATICCALL''] call_result"
proof -
  obtain trace s' where trace: "callTracer (plain_debug traced_block) ''0xab'' (JObj []) sample_details (blank_at 0) = (Inr trace, s')"
    using sample_trace by blast
  from call_trace_lists_actions [OF _ _ _ trace, of "[action_of ''CALL'', action_of ''STATICCALL'']" "blank_at 1" call_result "blank_at 2"]
  show ?thesis using trace by (simp add: sample_actions sample_transaction eval_nat_numeral)
qed

definition sample_opcodes :: jsv where
  "sample_opcodes =
     JObj [(''gas'', JNum 10), (''failed'', JBool False), (''return_value'', JStr ''0x01''),
           (''opcodes'', JArr [JObj [(''pc'', JNum 0), (''op'', JStr ''PUSH1''), (''gas'', JNum 10), (''gas_cost'', JNum 3),
              (''depth'', JNum 1), (''stack'', JArr [JStr ''0x05'']), (''storage'', JObj [(''0x1'', JStr ''0x2'')]), (''reason'', JNull)]])]"

theorem opcode_log_follows_trace_witness:
  "\<exists>answer entry. formatOpcodesResult sample_opcodes \<lparr> oo_memory = False, oo_stack = True, oo_storage = True \<rparr> = Inr answer \<and>
     js_prop answer ''structLogs'' = JArr [entry] \<and> js_prop entry ''op'' = JStr ''PUSH1'' \<and> js_prop entry ''memory'' = JNull"
proof -
  let ?options = "\<lparr> oo_memory = False, oo_stack = True, oo_storage = True \<rparr>"
  have "case formatOpcodesResult sample_opcodes ?options of Inr _ \<Rightarrow> True | Inl _ \<Rightarrow> False" by code_simp
  then obtain answer where answer: "formatOpcodesResult sample_opcodes ?options = Inr answer" by (auto split: sum.split_asm)
  from opcode_log_follows_trace [OF this, of "case js_prop sample_opcodes ''opcodes'' of JArr xs \<Rightarrow> xs | _ \<Rightarrow> []"] answer
  show ?thesis by (auto simp: sample_opcodes_def list_all2_Cons1 hidden_as_asked_def)
qed

lemma latest_block_seven:
  "getHistoricalBlockResponse (plain_relay traced_block) sample_details BLOCK_LATEST True (blank_at w) = (Inr block_seven, blank_at (Suc w))"
proof -
  have tags: "js_Number BLOCK_LATEST = NotANumber" "blockTagIsLatestOrPending BLOCK_LATEST" "BLOCK_LATEST \<noteq> JStr EMPTY_HEX"
    by code_simp+
  have "show_int 1 = ''1''" by code_simp
  then have "getLatestBlock (plain_mirror traced_block) sample_details (blank_at w) =
      (Inr (JObj [(''blocks'', JArr [block_seven])]), blank_at (Suc w))"
    by (simp add: getLatestBlock_def getBlocks_def getLimitOrderQueryParam_def setLimitOrderParams_def setQueryParam_def set_key_def
        getQueryParams_def blank_at_steps traced_block_def)
  then have "latest_block (plain_relay traced_block) sample_details (blank_at w) = (Inr block_seven, blank_at (Suc w))"
    by (simp add: latest_block_def plain_relay_def and_do_def first_block_def nullish_def lift_def)
  with tags show ?thesis by (simp add: getHistoricalBlockResponse_def)
qed

lemma results_of_block_seven:
  "getContractResultWithRetry (plain_mirror traced_block) (getContractResults (plain_mirror traced_block) sample_details
       (JObj [(''timestamp'', JArr [JStr ''gte:1'', JStr ''lte:2''])]) JUndef) (blank_at w) =
     (Inr (JArr [call_result, wrong_nonce_result]), blank_at (Suc w))"
proof (rule retry_mature)
  have "me_limitParam (plain_mirror traced_block) = 100" "me_resultsPageMax (plain_mirror traced_block) = 25"
    by (simp_all add: plain_mirror_def)
  moreover have "show_int 100 = ''100''" by code_simp
  ultimately show "getContractResults (plain_mirror traced_block) sample_details
       (JObj [(''timestamp'', JArr [JStr ''gte:1'', JStr ''lte:2''])]) JUndef (blank_at w) =
     (Inr (JArr [call_result, wrong_nonce_result]), blank_at (Suc w))"
    by (simp add: getContractResults_def setLimitOrderParams_def setContractResultsParams_def copy_params_def setQueryParam_def set_key_def
        getQueryParams_def allPages_def and_do_def getPaginatedResults.simps blank_at_steps traced_block_def ret_def Let_def)
qed (simp_all add: sample_results_mature, simp add: plain_mirror_def)

theorem block_trace_lists_transactions_witness:
  "\<exists>item. fst (traceBlockByNumber (plain_debug traced_block) BLOCK_LATEST JUndef sample_details (blank_at 0)) = Inr (JArr [item]) \<and>
     js_prop item ''txHash'' = JStr ''0xab''"
proof -
  let ?env = "plain_debug traced_block" and ?range = "JArr [JStr ''gte:1'', JStr ''lte:2'']"
  have block: "getHistoricalBlockResponse (de_relay ?env) sample_details BLOCK_LATEST True (blank_at 0) = (Inr block_seven, blank_at 1)"
    by (simp add: latest_block_seven)
  have rng: "timestamp_range block_seven = Inr ?range" "\<not> nullish block_seven"
    by (simp_all add: block_seven_def timestamp_range_def timestamp_field_def nullish_def)
  have sent: "traced_results [call_result, wrong_nonce_result] = [call_result]" "\<not> nullish call_result" "\<not> nullish wrong_nonce_result"
      "js_prop call_result ''hash'' = JStr ''0xab''"
    by (simp_all add: traced_results_def call_result_def wrong_nonce_result_def WRONG_NONCE_RESULT_def nullish_def)
  obtain trace where "callTracer ?env ''0xab'' (JObj [(''onlyTopCall'', JUndef)]) sample_details (blank_at 2) = (Inr trace, blank_at 4)"
    using sample_trace [of "[(''onlyTopCall'', JUndef)]" 2] by (auto simp: eval_nat_numeral)
  then have "\<exists>v s'. traceBlockByNumber ?env BLOCK_LATEST JUndef sample_details (blank_at 0) = (Inr v, s')"
    using block rng sent results_of_block_seven [of 1] unfolding traceBlockByNumber_def handled_Inr
    by (simp add: requireDebugAPIEnabled_def ensure_def and_do_def lift_def nullish_def block_tracer_def
        CallTracer_def trace_each_def ret_def eval_nat_numeral)
  then obtain v s' where v: "traceBlockByNumber ?env BLOCK_LATEST JUndef sample_details (blank_at 0) = (Inr v, s')" by blast
  from block_trace_lists_transactions [OF _ block rng(2,1) _ v, of "[call_result, wrong_nonce_result]" "blank_at 2" JUndef]
  show ?thesis
    using v sent results_of_block_seven [of 1]
    by (auto simp: block_tracer_def list_all2_Cons1 eval_nat_numeral)
qed

definition one_sender :: "(string \<times> jsv) list" where
  "one_sender =
     [(''contracts/results/0xab/actions'',
        JObj [(''actions'', JArr [JObj [(''from'', JStr ''0xaa''), (''caller_type'', JStr ''ACCOUNT''), (''timestamp'', JStr ''1'')]]),
              (''links'', JObj [(''next'', JNull)])])]"

definition cached_debug :: "(string \<times> jsv) list \<Rightarrow> (list_lru, unit, nat) debug_env" where
  "cached_debug table =
     \<lparr> de_relay = \<lparr> re_mirror = canned_mirror table, re_maxBlockRange = 5, re_logsBlockRangeLimit = 1000,
                    re_gasPricePercentageBuffer = 0 \<rparr>,
       de_debugApiEnabled = True, de_opcodeLoggerEnabled = True \<rparr>"

theorem prestate_answered_and_kept_witness:
  "\<exists>v s'. prestateTracer (cached_debug one_sender) ''0xab'' JUndef sample_details quiet_relay = (Inr v, s') \<and>
     fst (prestateTracer (cached_debug one_sender) ''0xab'' JUndef sample_details s') = Inr v"
proof -
  let ?action = "JObj [(''from'', JStr ''0xaa''), (''caller_type'', JStr ''ACCOUNT''), (''timestamp'', JStr ''1'')]"
  let ?s1 = "snd (cached_get (canned_mirror one_sender) (prestate_key ''0xab'' (JBool False)) quiet_relay)"
  have miss: "cached_get (canned_mirror one_sender) k quiet_relay = (Inr JNull, snd (cached_get (canned_mirror one_sender) k quiet_relay))" for k
    by (simp add: cached_get_run empty_cache_miss)
  have actions: "getContractsResultsActions (canned_mirror one_sender) ''0xab'' sample_details s =
      (Inr (JArr [?action]), s\<lparr> rs_world := rs_world s + 1 \<rparr>)" for s
    by (simp add: getContractsResultsActions_def allPages_def and_do_def getPaginatedResults.simps mn_get_canned one_sender_def ret_def
        Let_def starts_with_def)
  have accounts: "prestate_accounts (JBool False) [?action] \<noteq> []" "\<not> list_ex nullish [?action]"
    by (simp_all add: prestate_accounts_def addressMap_def action_addresses_def seen_address_def nullish_def)
  from prestate_answered_and_kept [of "cached_debug one_sender" list_lru_look "\<lambda>c. Suc (fst c)" "''0xab''" JUndef quiet_relay ?s1
      sample_details "[?action]" _ sample_details]
  show ?thesis
    using miss actions accounts by (auto simp: cached_debug_def top_call_flag_def canned_mirror_def)
qed

end
