(* ===== verification/RpcMethods.thy ===== *)
theory RpcMethods
  imports Debug Filters
begin

section \<open>The RPC methods of the relay\<close>

text \<open>
  Models \<open>eth.ts\<close>, \<open>net.ts\<close>, \<open>web3.ts\<close> and the tracing methods of \<open>debug.ts\<close> as the method registry
  sees them: for every method the rules its parameters are validated with, how they are arranged, whether
  its answers are cached, and the service that answers. The services share the mirror node client, the
  cache and the node of the environment, as the constructors \<open>Relay\<close> and \<open>EthImpl\<close> arrange it. The name
  of the package, Keccak-256 and the random name of a filter are fields of the environment.
\<close>

record ('c, 'r, 'w, 'n) eth_env =
  ee_transactions :: "('c, 'r, 'w, 'n) transaction_env"
  ee_contracts :: "('c, 'r, 'w) contract_env"
  ee_blockNumberTtl :: int
  ee_transactionCountTtl :: int
  ee_maxTransactions :: int
  ee_revertStatuses :: "string list"
  ee_feeMaxResults :: int
  ee_feeFixed :: bool
  ee_filterApiEnabled :: bool
  ee_filterTtl :: int
  ee_newFilterId :: "'w \<Rightarrow> string"
  ee_debugApiEnabled :: bool
  ee_opcodeLoggerEnabled :: bool
  ee_cacheTtl :: int
  ee_chainIdConfig :: string
  ee_packageVersion :: string
  ee_keccakText :: "string \<Rightarrow> string"

abbreviation ee_relay :: "('c, 'r, 'w, 'n) eth_env \<Rightarrow> ('c, 'r, 'w) relay_env" where
  "ee_relay env \<equiv> te_relay (ee_transactions env)"

abbreviation ee_mirror :: "('c, 'r, 'w, 'n) eth_env \<Rightarrow> ('c, 'r, 'w) mirror_env" where
  "ee_mirror env \<equiv> re_mirror (te_relay (ee_transactions env))"

subsection \<open>The services\<close>

definition filterService :: "('c, 'r, 'w, 'n) eth_env \<Rightarrow> ('c, 'r, 'w) filter_env" where
  "filterService env =
     \<lparr> fe_relay = ee_relay env, fe_filterApiEnabled = ee_filterApiEnabled env, fe_filterTtl = ee_filterTtl env \<rparr>"

definition feeService :: "('c, 'r, 'w, 'n) eth_env \<Rightarrow> ('c, 'r, 'w) fee_env" where
  "feeService env = \<lparr> fee_relay = ee_relay env, fee_maxResults = ee_feeMaxResults env, fee_fixed = ee_feeFixed env \<rparr>"

definition contractService :: "('c, 'r, 'w, 'n) eth_env \<Rightarrow> ('c, 'r, 'w) contract_env" where
  "contractService env = (ee_contracts env)\<lparr> ct_relay := ee_relay env \<rparr>"

definition accountService :: "('c, 'r, 'w, 'n) eth_env \<Rightarrow> ('c, 'r, 'w) account_env" where
  "accountService env =
     \<lparr> ae_relay = ee_relay env, ae_blockNumberTtl = ee_blockNumberTtl env, ae_transactionCountTtl = ee_transactionCountTtl env \<rparr>"

definition blockService :: "('c, 'r, 'w, 'n) eth_env \<Rightarrow> ('c, 'r, 'w) block_env" where
  "blockService env =
     \<lparr> be_relay = ee_relay env, be_chain = te_chain (ee_transactions env), be_maxTransactions = ee_maxTransactions env,
       be_revertStatuses = ee_revertStatuses env, be_crypto = te_crypto (ee_transactions env) \<rparr>"

definition debugService :: "('c, 'r, 'w, 'n) eth_env \<Rightarrow> ('c, 'r, 'w) debug_env" where
  "debugService env =
     \<lparr> de_relay = ee_relay env, de_debugApiEnabled = ee_debugApiEnabled env, de_opcodeLoggerEnabled = ee_opcodeLoggerEnabled env \<rparr>"

subsection \<open>Decorated methods\<close>

type_synonym ('c, 'r, 'w, 'n) rpc_body = "jsv list \<Rightarrow> request_details \<Rightarrow> ('c, 'r, 'w, 'n, js_result) node_action"

fun handler_value :: "js_result \<Rightarrow> handler_result" where
  "handler_value (ResultValue v) = Value v"
| "handler_value (ResultError e) = ReturnedRpc e"

definition answer_value :: "('c, 'r, 'w, jsv) relay_action \<Rightarrow> ('c, 'r, 'w, 'n, js_result) node_action" where
  "answer_value m = and_do (on_relay m) (\<lambda>v. ret (ResultValue v))"

definition answer_text :: "('c, 'r, 'w, string) relay_action \<Rightarrow> ('c, 'r, 'w, 'n, js_result) node_action" where
  "answer_text m = and_do (on_relay m) (\<lambda>t. ret (ResultValue (JStr t)))"

definition answer_list :: "('c, 'r, 'w, jsv list) relay_action \<Rightarrow> ('c, 'r, 'w, 'n, js_result) node_action" where
  "answer_list m = and_do (on_relay m) (\<lambda>vs. ret (ResultValue (JArr vs)))"

text \<open>\<open>@cache\<close> around a method that may also reach the consensus node and announce events.\<close>

definition cached_node_method ::
  "('c, 'r, 'w, 'n) eth_env \<Rightarrow> cache_options \<Rightarrow> string \<Rightarrow> ('c, 'r, 'w, 'n) rpc_body \<Rightarrow> ('c, 'r, 'w, 'n) rpc_body" where
  "cached_node_method env options methodName meth xs d =
     (let args = call_args xs d; cacheKey = generateCacheKey methodName args in
      and_do (on_relay (cached_get (ee_mirror env) cacheKey)) (\<lambda>cachedResponse.
        if truthy cachedResponse then ret (result_of_stored cachedResponse)
        else and_do (meth xs d) (\<lambda>result.
          if result_truthy result \<and> \<not> shouldSkipCachingForSingleParams args (co_skipParams options) then
            and_do (lift (shouldSkipCachingForNamedParams args (co_skipNamedParams options))) (\<lambda>skip.
              if skip then ret result
              else and_do (on_relay (cached_set (ee_mirror env) cacheKey (stored_form result)
                     (Some (Ms (case co_ttl options of None \<Rightarrow> ee_cacheTtl env | Some t \<Rightarrow> t))))) (\<lambda>u. ret result))
          else ret result)))"

text \<open>A method: its name, the rules for its parameters, their layout, its cache and its body.\<close>

definition rpc_method ::
  "string \<Rightarrow> (string \<times> bool) list option \<Rightarrow> param_layout \<Rightarrow> ('c, 'r, 'w, 'n) rpc_body
   \<Rightarrow> (('c, 'r, 'w, 'n) node_state) service_member" where
  "rpc_method name rules layout body =
     \<lparr> sm_name = name, sm_isFunction = True, sm_isRpcMethod = True,
       sm_handler =
         \<lparr> op_validationRules = map_option (\<lambda>ps. map (\<lambda>(i, t, r). (i, \<lparr> mp_type = t, mp_required = r \<rparr>)) (enumerate 0 ps)) rules,
           op_layout = layout,
           op_run = (\<lambda>xs d. and_do (body xs d) (\<lambda>r. ret (handler_value r))) \<rparr> \<rparr>"

definition NON_CACHABLE_BLOCK_PARAMS :: string where "NON_CACHABLE_BLOCK_PARAMS = ''latest|pending|finalized|safe''"
definition FIFTEEN_MINUTES :: int where "FIFTEEN_MINUTES = 900000"

definition cache_all :: cache_options where
  "cache_all = \<lparr> co_skipParams = [], co_skipNamedParams = [], co_ttl = None \<rparr>"

definition cache_unless_tag :: "nat \<Rightarrow> cache_options" where
  "cache_unless_tag i =
     \<lparr> co_skipParams = [\<lparr> sp_index = i, sp_value = NON_CACHABLE_BLOCK_PARAMS \<rparr>], co_skipNamedParams = [], co_ttl = None \<rparr>"

definition first_params :: "nat \<Rightarrow> param_layout" where
  "first_params n = CustomLayout (\<lambda>params. map (param_at params) [0..<n])"

definition constant_method ::
  "string \<Rightarrow> js_result \<Rightarrow> (('c, 'r, 'w, 'n) node_state) service_member" where
  "constant_method name r = rpc_method name None RequestDetailsOnly (\<lambda>xs d. ret r)"

subsection \<open>Methods of \<open>eth\<close>\<close>

text \<open>Only a request with the data of a call is announced to the metrics before it is estimated.\<close>

definition estimated_transaction :: "jsv \<Rightarrow> jsv" where
  "estimated_transaction transaction =
     (if js_prop transaction ''data'' = JStr EMPTY_HEX then js_delete_prop transaction ''data'' else transaction)"

definition data_size :: "jsv \<Rightarrow> nat" where
  "data_size transaction =
     (let callData = (if truthy (js_prop transaction ''data'') then js_prop transaction ''data'' else js_prop transaction ''input'')
      in case text_length callData of None \<Rightarrow> 0 | Some n \<Rightarrow> n)"

definition eth_estimateGas ::
  "('c, 'r, 'w, 'n) eth_env \<Rightarrow> jsv \<Rightarrow> request_details \<Rightarrow> ('c, 'r, 'w, 'n, js_result) node_action" where
  "eth_estimateGas env transaction d =
     (let transaction = estimated_transaction transaction in
      and_do (if FUNCTION_SELECTOR_CHAR_LENGTH \<le> data_size transaction then emit (EthExecution ''eth_estimateGas'') else ret ()) (\<lambda>_.
        on_relay (estimateGas (contractService env) transaction d)))"

definition announced_call ::
  "('c, 'r, 'w, 'n) eth_env \<Rightarrow> jsv \<Rightarrow> jsv \<Rightarrow> request_details \<Rightarrow> ('c, 'r, 'w, 'n, js_result) node_action" where
  "announced_call env call blockParam d =
     and_do (emit (EthExecution ETH_CALL)) (\<lambda>_. on_relay (eth_call (contractService env) call blockParam d))"

text \<open>The first parameter of \<open>eth_feeHistory\<close> becomes a number. It is hexadecimal when the rules accept it.\<close>

definition fee_layout :: param_layout where
  "fee_layout = CustomLayout (\<lambda>params. [number_or_NaN (js_Number (param_at params 0)), param_at params 1, param_at params 2])"

definition log_cache :: cache_options where
  "log_cache =
     \<lparr> co_skipParams = [],
       co_skipNamedParams =
         [\<lparr> np_index = 0, np_fields = [(''fromBlock'', NON_CACHABLE_BLOCK_PARAMS), (''toBlock'', NON_CACHABLE_BLOCK_PARAMS)] \<rparr>],
       co_ttl = None \<rparr>"

definition m_accounts :: "('c, 'r, 'w, 'n) eth_env \<Rightarrow> (('c, 'r, 'w, 'n) node_state) service_member" where
  "m_accounts env =
     constant_method ''accounts'' (ResultValue (JArr accounts))"

definition m_feeHistory :: "('c, 'r, 'w, 'n) eth_env \<Rightarrow> (('c, 'r, 'w, 'n) node_state) service_member" where
  "m_feeHistory env =
     rpc_method ''feeHistory'' (Some [(''hex'', True), (''blockNumber'', True), (''array'', False)]) fee_layout
       (cached_node_method env ((cache_unless_tag 1)\<lparr> co_ttl := Some FIFTEEN_MINUTES \<rparr>) ''feeHistory''
        (\<lambda>xs d. case param_at xs 0 of JNum n \<Rightarrow> on_relay (feeHistory (feeService env) n (param_at xs 1) (param_at xs 2) d) | _ \<Rightarrow> throw type_error))"

definition m_blockNumber :: "('c, 'r, 'w, 'n) eth_env \<Rightarrow> (('c, 'r, 'w, 'n) node_state) service_member" where
  "m_blockNumber env =
     rpc_method ''blockNumber'' None RequestDetailsOnly
       (cached_node_method env (cache_all\<lparr> co_ttl := Some 500 \<rparr>) ''blockNumber''
        (\<lambda>xs d. answer_text (getLatestBlockNumber (ee_relay env) d)))"

definition m_chainId :: "('c, 'r, 'w, 'n) eth_env \<Rightarrow> (('c, 'r, 'w, 'n) node_state) service_member" where
  "m_chainId env =
     constant_method ''chainId'' (ResultValue (JStr (te_chain (ee_transactions env))))"

definition m_estimateGas :: "('c, 'r, 'w, 'n) eth_env \<Rightarrow> (('c, 'r, 'w, 'n) node_state) service_member" where
  "m_estimateGas env =
     rpc_method ''estimateGas'' (Some [(''transaction'', True), (''blockNumber'', False)]) (first_params 2)
       (\<lambda>xs d. eth_estimateGas env (param_at xs 0) d)"

definition m_gasPrice :: "('c, 'r, 'w, 'n) eth_env \<Rightarrow> (('c, 'r, 'w, 'n) node_state) service_member" where
  "m_gasPrice env =
     rpc_method ''gasPrice'' None RequestDetailsOnly
       (cached_node_method env (cache_all\<lparr> co_ttl := Some FIFTEEN_MINUTES \<rparr>) ''gasPrice''
        (\<lambda>xs d. answer_text (gasPrice (ee_relay env) d)))"

definition m_mining :: "('c, 'r, 'w, 'n) eth_env \<Rightarrow> (('c, 'r, 'w, 'n) node_state) service_member" where
  "m_mining env =
     constant_method ''mining'' (ResultValue (JBool False))"

definition m_newFilter :: "('c, 'r, 'w, 'n) eth_env \<Rightarrow> (('c, 'r, 'w, 'n) node_state) service_member" where
  "m_newFilter env =
     rpc_method ''newFilter'' (Some [(''filter'', True)]) DefaultLayout
       (\<lambda>xs d. \<lambda>s. answer_text (newFilter (filterService env) (ee_newFilterId env (rs_world (ns_relay s))) (param_at xs 0) d) s)"

definition m_getFilterLogs :: "('c, 'r, 'w, 'n) eth_env \<Rightarrow> (('c, 'r, 'w, 'n) node_state) service_member" where
  "m_getFilterLogs env =
     rpc_method ''getFilterLogs'' (Some [(''hex'', True)]) DefaultLayout
       (\<lambda>xs d. answer_list (getFilterLogs (filterService env) (js_to_string (param_at xs 0)) d))"

definition m_getFilterChanges :: "('c, 'r, 'w, 'n) eth_env \<Rightarrow> (('c, 'r, 'w, 'n) node_state) service_member" where
  "m_getFilterChanges env =
     rpc_method ''getFilterChanges'' (Some [(''hex'', True)]) DefaultLayout
       (\<lambda>xs d. answer_list (getFilterChanges (filterService env) (js_to_string (param_at xs 0)) d))"

definition m_newBlockFilter :: "('c, 'r, 'w, 'n) eth_env \<Rightarrow> (('c, 'r, 'w, 'n) node_state) service_member" where
  "m_newBlockFilter env =
     rpc_method ''newBlockFilter'' None RequestDetailsOnly
       (\<lambda>xs d. \<lambda>s. answer_text (newBlockFilter (filterService env) (ee_newFilterId env (rs_world (ns_relay s))) d) s)"

definition m_uninstallFilter :: "('c, 'r, 'w, 'n) eth_env \<Rightarrow> (('c, 'r, 'w, 'n) node_state) service_member" where
  "m_uninstallFilter env =
     rpc_method ''uninstallFilter'' (Some [(''hex'', True)]) DefaultLayout
       (\<lambda>xs d. answer_value (and_do (uninstallFilter (filterService env) (js_to_string (param_at xs 0))) (\<lambda>b. ret (JBool b))))"

definition m_newPendingTransactionFilter :: "('c, 'r, 'w, 'n) eth_env \<Rightarrow> (('c, 'r, 'w, 'n) node_state) service_member" where
  "m_newPendingTransactionFilter env =
     constant_method ''newPendingTransactionFilter'' (ResultError newPendingTransactionFilter)"

definition m_submitWork :: "('c, 'r, 'w, 'n) eth_env \<Rightarrow> (('c, 'r, 'w, 'n) node_state) service_member" where
  "m_submitWork env =
     constant_method ''submitWork'' (ResultValue (JBool False))"

definition m_syncing :: "('c, 'r, 'w, 'n) eth_env \<Rightarrow> (('c, 'r, 'w, 'n) node_state) service_member" where
  "m_syncing env =
     constant_method ''syncing'' (ResultValue (JBool False))"

definition m_getUncleByBlockHashAndIndex :: "('c, 'r, 'w, 'n) eth_env \<Rightarrow> (('c, 'r, 'w, 'n) node_state) service_member" where
  "m_getUncleByBlockHashAndIndex env =
     constant_method ''getUncleByBlockHashAndIndex'' (ResultValue getUncleByBlockHashAndIndex)"

definition m_getUncleByBlockNumberAndIndex :: "('c, 'r, 'w, 'n) eth_env \<Rightarrow> (('c, 'r, 'w, 'n) node_state) service_member" where
  "m_getUncleByBlockNumberAndIndex env =
     constant_method ''getUncleByBlockNumberAndIndex'' (ResultValue getUncleByBlockNumberAndIndex)"

definition m_getUncleCountByBlockHash :: "('c, 'r, 'w, 'n) eth_env \<Rightarrow> (('c, 'r, 'w, 'n) node_state) service_member" where
  "m_getUncleCountByBlockHash env =
     constant_method ''getUncleCountByBlockHash'' (ResultValue getUncleCountByBlockHash)"

definition m_getUncleCountByBlockNumber :: "('c, 'r, 'w, 'n) eth_env \<Rightarrow> (('c, 'r, 'w, 'n) node_state) service_member" where
  "m_getUncleCountByBlockNumber env =
     constant_method ''getUncleCountByBlockNumber'' (ResultValue getUncleCountByBlockNumber)"

definition m_hashrate :: "('c, 'r, 'w, 'n) eth_env \<Rightarrow> (('c, 'r, 'w, 'n) node_state) service_member" where
  "m_hashrate env =
     constant_method ''hashrate'' (ResultValue (JStr ZERO_HEX))"

definition m_getWork :: "('c, 'r, 'w, 'n) eth_env \<Rightarrow> (('c, 'r, 'w, 'n) node_state) service_member" where
  "m_getWork env =
     constant_method ''getWork'' (ResultError UNSUPPORTED_METHOD)"

definition m_submitHashrate :: "('c, 'r, 'w, 'n) eth_env \<Rightarrow> (('c, 'r, 'w, 'n) node_state) service_member" where
  "m_submitHashrate env =
     constant_method ''submitHashrate'' (ResultError UNSUPPORTED_METHOD)"

definition m_signTransaction :: "('c, 'r, 'w, 'n) eth_env \<Rightarrow> (('c, 'r, 'w, 'n) node_state) service_member" where
  "m_signTransaction env =
     constant_method ''signTransaction'' (ResultError signTransaction)"

definition m_sign :: "('c, 'r, 'w, 'n) eth_env \<Rightarrow> (('c, 'r, 'w, 'n) node_state) service_member" where
  "m_sign env =
     constant_method ''sign'' (ResultError eth_sign)"

definition m_sendTransaction :: "('c, 'r, 'w, 'n) eth_env \<Rightarrow> (('c, 'r, 'w, 'n) node_state) service_member" where
  "m_sendTransaction env =
     constant_method ''sendTransaction'' (ResultError sendTransaction)"

definition m_protocolVersion :: "('c, 'r, 'w, 'n) eth_env \<Rightarrow> (('c, 'r, 'w, 'n) node_state) service_member" where
  "m_protocolVersion env =
     constant_method ''protocolVersion'' (ResultError UNSUPPORTED_METHOD)"

definition m_coinbase :: "('c, 'r, 'w, 'n) eth_env \<Rightarrow> (('c, 'r, 'w, 'n) node_state) service_member" where
  "m_coinbase env =
     constant_method ''coinbase'' (ResultError UNSUPPORTED_METHOD)"

definition m_blobBaseFee :: "('c, 'r, 'w, 'n) eth_env \<Rightarrow> (('c, 'r, 'w, 'n) node_state) service_member" where
  "m_blobBaseFee env =
     constant_method ''blobBaseFee'' (ResultError UNSUPPORTED_METHOD)"

definition m_getStorageAt :: "('c, 'r, 'w, 'n) eth_env \<Rightarrow> (('c, 'r, 'w, 'n) node_state) service_member" where
  "m_getStorageAt env =
     rpc_method ''getStorageAt'' (Some [(''address'', True), (''hex64'', True), (''blockNumber|blockHash'', True)]) (first_params 3)
       (cached_node_method env (cache_unless_tag 2) ''getStorageAt''
        (\<lambda>xs d. answer_value (getStorageAt (contractService env) (js_to_string (param_at xs 0)) (js_to_string (param_at xs 1)) (param_at xs 2) d)))"

definition m_getBalance :: "('c, 'r, 'w, 'n) eth_env \<Rightarrow> (('c, 'r, 'w, 'n) node_state) service_member" where
  "m_getBalance env =
     rpc_method ''getBalance'' (Some [(''address'', True), (''blockNumber|blockHash'', True)]) DefaultLayout
       (cached_node_method env (cache_unless_tag 1) ''getBalance''
        (\<lambda>xs d. answer_text (getBalance (accountService env) (js_to_string (param_at xs 0)) (param_at xs 1) d)))"

definition m_getCode :: "('c, 'r, 'w, 'n) eth_env \<Rightarrow> (('c, 'r, 'w, 'n) node_state) service_member" where
  "m_getCode env =
     rpc_method ''getCode'' (Some [(''address'', True), (''blockNumber|blockHash'', True)]) DefaultLayout
       (cached_node_method env (cache_unless_tag 1) ''getCode''
        (\<lambda>xs d. answer_value (getCode (contractService env) (js_to_string (param_at xs 0)) (param_at xs 1) d)))"

definition m_getBlockByHash :: "('c, 'r, 'w, 'n) eth_env \<Rightarrow> (('c, 'r, 'w, 'n) node_state) service_member" where
  "m_getBlockByHash env =
     rpc_method ''getBlockByHash'' (Some [(''blockHash'', True), (''boolean'', True)]) DefaultLayout
       (cached_node_method env cache_all ''getBlockByHash''
        (\<lambda>xs d. answer_value (getBlockByHash (blockService env) (param_at xs 0) (truthy (param_at xs 1)) d)))"

definition m_getBlockTransactionCountByHash :: "('c, 'r, 'w, 'n) eth_env \<Rightarrow> (('c, 'r, 'w, 'n) node_state) service_member" where
  "m_getBlockTransactionCountByHash env =
     rpc_method ''getBlockTransactionCountByHash'' (Some [(''blockHash'', True)]) DefaultLayout
       (cached_node_method env cache_all ''getBlockTransactionCountByHash''
        (\<lambda>xs d. answer_value (getBlockTransactionCountByHash (blockService env) (param_at xs 0) d)))"

definition m_getBlockTransactionCountByNumber :: "('c, 'r, 'w, 'n) eth_env \<Rightarrow> (('c, 'r, 'w, 'n) node_state) service_member" where
  "m_getBlockTransactionCountByNumber env =
     rpc_method ''getBlockTransactionCountByNumber'' (Some [(''blockNumber'', True)]) DefaultLayout
       (cached_node_method env (cache_unless_tag 0) ''getBlockTransactionCountByNumber''
        (\<lambda>xs d. answer_value (getBlockTransactionCountByNumber (blockService env) (param_at xs 0) d)))"

definition m_getTransactionByBlockHashAndIndex :: "('c, 'r, 'w, 'n) eth_env \<Rightarrow> (('c, 'r, 'w, 'n) node_state) service_member" where
  "m_getTransactionByBlockHashAndIndex env =
     rpc_method ''getTransactionByBlockHashAndIndex'' (Some [(''blockHash'', True), (''hex'', True)]) DefaultLayout
       (cached_node_method env cache_all ''getTransactionByBlockHashAndIndex''
        (\<lambda>xs d. answer_value (getTransactionByBlockHashAndIndex (ee_transactions env) (param_at xs 0) (param_at xs 1) d)))"

definition m_getTransactionByBlockNumberAndIndex :: "('c, 'r, 'w, 'n) eth_env \<Rightarrow> (('c, 'r, 'w, 'n) node_state) service_member" where
  "m_getTransactionByBlockNumberAndIndex env =
     rpc_method ''getTransactionByBlockNumberAndIndex'' (Some [(''blockNumber'', True), (''hex'', True)]) DefaultLayout
       (cached_node_method env (cache_unless_tag 0) ''getTransactionByBlockNumberAndIndex''
        (\<lambda>xs d. answer_value (getTransactionByBlockNumberAndIndex (ee_transactions env) (param_at xs 0) (param_at xs 1) d)))"

definition m_getBlockByNumber :: "('c, 'r, 'w, 'n) eth_env \<Rightarrow> (('c, 'r, 'w, 'n) node_state) service_member" where
  "m_getBlockByNumber env =
     rpc_method ''getBlockByNumber'' (Some [(''blockNumber'', True), (''boolean'', True)]) DefaultLayout
       (cached_node_method env (cache_unless_tag 0) ''getBlockByNumber''
        (\<lambda>xs d. answer_value (getBlockByNumber (blockService env) (param_at xs 0) (truthy (param_at xs 1)) d)))"

definition m_getTransactionCount :: "('c, 'r, 'w, 'n) eth_env \<Rightarrow> (('c, 'r, 'w, 'n) node_state) service_member" where
  "m_getTransactionCount env =
     rpc_method ''getTransactionCount'' (Some [(''address'', True), (''blockNumber|blockHash'', True)]) DefaultLayout
       (cached_node_method env (cache_unless_tag 1) ''getTransactionCount''
        (\<lambda>xs d. answer_value (getTransactionCount (accountService env) (js_to_string (param_at xs 0)) (param_at xs 1) d)))"

definition m_sendRawTransaction :: "('c, 'r, 'w, 'n) eth_env \<Rightarrow> (('c, 'r, 'w, 'n) node_state) service_member" where
  "m_sendRawTransaction env =
     rpc_method ''sendRawTransaction'' (Some [(''hex'', True)]) DefaultLayout
       (\<lambda>xs d. sendRawTransaction (ee_transactions env) (js_to_string (param_at xs 0)) d)"

definition m_call :: "('c, 'r, 'w, 'n) eth_env \<Rightarrow> (('c, 'r, 'w, 'n) node_state) service_member" where
  "m_call env =
     rpc_method ''call'' (Some [(''transaction'', True), (''blockParams'', True)]) DefaultLayout
       (cached_node_method env (cache_unless_tag 1) ''call''
        (\<lambda>xs d. announced_call env (param_at xs 0) (param_at xs 1) d))"

definition m_getTransactionByHash :: "('c, 'r, 'w, 'n) eth_env \<Rightarrow> (('c, 'r, 'w, 'n) node_state) service_member" where
  "m_getTransactionByHash env =
     rpc_method ''getTransactionByHash'' (Some [(''transactionHash'', True)]) DefaultLayout
       (cached_node_method env cache_all ''getTransactionByHash''
        (\<lambda>xs d. answer_value (getTransactionByHash (ee_transactions env) (js_to_string (param_at xs 0)) d)))"

definition m_getTransactionReceipt :: "('c, 'r, 'w, 'n) eth_env \<Rightarrow> (('c, 'r, 'w, 'n) node_state) service_member" where
  "m_getTransactionReceipt env =
     rpc_method ''getTransactionReceipt'' (Some [(''transactionHash'', True)]) DefaultLayout
       (cached_node_method env cache_all ''getTransactionReceipt''
        (\<lambda>xs d. answer_value (getTransactionReceipt (ee_transactions env) (js_to_string (param_at xs 0)) d)))"

definition m_getLogs :: "('c, 'r, 'w, 'n) eth_env \<Rightarrow> (('c, 'r, 'w, 'n) node_state) service_member" where
  "m_getLogs env =
     rpc_method ''getLogs'' (Some [(''filter'', True)]) DefaultLayout
       (cached_node_method env log_cache ''getLogs''
        (\<lambda>xs d. answer_list (contract_getLogs (contractService env) (param_at xs 0) d)))"

definition m_maxPriorityFeePerGas :: "('c, 'r, 'w, 'n) eth_env \<Rightarrow> (('c, 'r, 'w, 'n) node_state) service_member" where
  "m_maxPriorityFeePerGas env =
     constant_method ''maxPriorityFeePerGas'' (ResultValue (JStr ZERO_HEX))"

definition m_getBlockReceipts :: "('c, 'r, 'w, 'n) eth_env \<Rightarrow> (('c, 'r, 'w, 'n) node_state) service_member" where
  "m_getBlockReceipts env =
     rpc_method ''getBlockReceipts'' (Some [(''blockNumber|blockHash'', True)]) DefaultLayout
       (cached_node_method env (cache_unless_tag 0) ''getBlockReceipts''
        (\<lambda>xs d. answer_value (getBlockReceipts (blockService env) (param_at xs 0) d)))"

definition m_getProof :: "('c, 'r, 'w, 'n) eth_env \<Rightarrow> (('c, 'r, 'w, 'n) node_state) service_member" where
  "m_getProof env =
     constant_method ''getProof'' (ResultError UNSUPPORTED_METHOD)"

definition m_createAccessList :: "('c, 'r, 'w, 'n) eth_env \<Rightarrow> (('c, 'r, 'w, 'n) node_state) service_member" where
  "m_createAccessList env =
     constant_method ''createAccessList'' (ResultError UNSUPPORTED_METHOD)"

definition eth_members :: "('c, 'r, 'w, 'n) eth_env \<Rightarrow> (('c, 'r, 'w, 'n) node_state) service_member list" where
  "eth_members env =
     [m_accounts env, m_feeHistory env, m_blockNumber env, m_chainId env, m_estimateGas env, m_gasPrice env,
      m_mining env, m_newFilter env, m_getFilterLogs env, m_getFilterChanges env, m_newBlockFilter env,
      m_uninstallFilter env, m_newPendingTransactionFilter env, m_submitWork env, m_syncing env,
      m_getUncleByBlockHashAndIndex env, m_getUncleByBlockNumberAndIndex env, m_getUncleCountByBlockHash env,
      m_getUncleCountByBlockNumber env, m_hashrate env, m_getWork env, m_submitHashrate env, m_signTransaction env,
      m_sign env, m_sendTransaction env, m_protocolVersion env, m_coinbase env, m_blobBaseFee env, m_getStorageAt env,
      m_getBalance env, m_getCode env, m_getBlockByHash env, m_getBlockTransactionCountByHash env,
      m_getBlockTransactionCountByNumber env, m_getTransactionByBlockHashAndIndex env,
      m_getTransactionByBlockNumberAndIndex env, m_getBlockByNumber env, m_getTransactionCount env,
      m_sendRawTransaction env, m_call env, m_getTransactionByHash env, m_getTransactionReceipt env, m_getLogs env,
      m_maxPriorityFeePerGas env, m_getBlockReceipts env, m_getProof env, m_createAccessList env]"

subsection \<open>Methods of \<open>net\<close>, \<open>web3\<close> and \<open>debug\<close>\<close>

definition net_chainId :: "('c, 'r, 'w, 'n) eth_env \<Rightarrow> string" where
  "net_chainId env = (case js_parse_int 16 (ee_chainIdConfig env) of Some n \<Rightarrow> show_int n | None \<Rightarrow> ''NaN'')"

definition net_method :: "string \<Rightarrow> js_result \<Rightarrow> (('c, 'r, 'w, 'n) node_state) service_member" where
  "net_method name r = rpc_method name None DefaultLayout (\<lambda>xs d. ret r)"

definition m_listening :: "('c, 'r, 'w, 'n) eth_env \<Rightarrow> (('c, 'r, 'w, 'n) node_state) service_member" where
  "m_listening env = net_method ''listening'' (ResultValue (JBool True))"

definition m_version :: "('c, 'r, 'w, 'n) eth_env \<Rightarrow> (('c, 'r, 'w, 'n) node_state) service_member" where
  "m_version env = net_method ''version'' (ResultValue (JStr (net_chainId env)))"

definition m_peerCount :: "('c, 'r, 'w, 'n) eth_env \<Rightarrow> (('c, 'r, 'w, 'n) node_state) service_member" where
  "m_peerCount env = net_method ''peerCount'' (ResultError UNSUPPORTED_METHOD)"

definition m_clientVersion :: "('c, 'r, 'w, 'n) eth_env \<Rightarrow> (('c, 'r, 'w, 'n) node_state) service_member" where
  "m_clientVersion env = net_method ''clientVersion'' (ResultValue (JStr (''relay/'' @ ee_packageVersion env)))"

definition m_sha3 :: "('c, 'r, 'w, 'n) eth_env \<Rightarrow> (('c, 'r, 'w, 'n) node_state) service_member" where
  "m_sha3 env =
     rpc_method ''sha3'' (Some [(''hex'', True)]) DefaultLayout
       (\<lambda>xs d. ret (ResultValue (JStr (ee_keccakText env (js_to_string (param_at xs 0))))))"

definition m_traceTransaction :: "('c, 'r, 'w, 'n) eth_env \<Rightarrow> (('c, 'r, 'w, 'n) node_state) service_member" where
  "m_traceTransaction env =
     rpc_method ''traceTransaction'' (Some [(''transactionHash|transactionId'', True), (''tracerConfigWrapper'', False)]) (first_params 2)
       (cached_node_method env cache_all ''traceTransaction''
        (\<lambda>xs d. answer_value (traceTransaction (debugService env) (js_to_string (param_at xs 0)) (param_at xs 1) d)))"

definition m_traceBlockByNumber :: "('c, 'r, 'w, 'n) eth_env \<Rightarrow> (('c, 'r, 'w, 'n) node_state) service_member" where
  "m_traceBlockByNumber env =
     rpc_method ''traceBlockByNumber'' (Some [(''blockNumber'', True), (''tracerConfigWrapper'', False)]) (first_params 2)
       (cached_node_method env (cache_unless_tag 0) ''traceBlockByNumber''
        (\<lambda>xs d. answer_value (traceBlockByNumber (debugService env) (param_at xs 0) (param_at xs 1) d)))"

subsection \<open>The registry\<close>

definition relay_services :: "('c, 'r, 'w, 'n) eth_env \<Rightarrow> (string \<times> (('c, 'r, 'w, 'n) node_state) service_member list) list" where
  "relay_services env =
     [(''eth'', eth_members env), (''net'', [m_listening env, m_version env, m_peerCount env]),
      (''web3'', [m_clientVersion env, m_sha3 env]), (''debug'', [m_traceTransaction env, m_traceBlockByNumber env])]"

definition relay_registry :: "('c, 'r, 'w, 'n) eth_env \<Rightarrow> (('c, 'r, 'w, 'n) node_state) rpc_registry" where
  "relay_registry env = registerRpcMethods (relay_services env)"

definition executeRpcMethod ::
  "sdk_status_table \<Rightarrow> ('c, 'r, 'w, 'n) eth_env \<Rightarrow> string \<Rightarrow> jsv list option \<Rightarrow> request_details
   \<Rightarrow> ('c, 'r, 'w, 'n) node_state \<Rightarrow> (json_rpc_error + jsv) \<times> ('c, 'r, 'w, 'n) node_state" where
  "executeRpcMethod st env = dispatch st (relay_registry env)"

subsection \<open>Names and rules of the methods\<close>

lemmas method_defs =
    m_accounts_def m_feeHistory_def m_blockNumber_def m_chainId_def m_estimateGas_def m_gasPrice_def m_mining_def
    m_newFilter_def m_getFilterLogs_def m_getFilterChanges_def m_newBlockFilter_def m_uninstallFilter_def
    m_newPendingTransactionFilter_def m_submitWork_def m_syncing_def m_getUncleByBlockHashAndIndex_def
    m_getUncleByBlockNumberAndIndex_def m_getUncleCountByBlockHash_def m_getUncleCountByBlockNumber_def
    m_hashrate_def m_getWork_def m_submitHashrate_def m_signTransaction_def m_sign_def m_sendTransaction_def
    m_protocolVersion_def m_coinbase_def m_blobBaseFee_def m_getStorageAt_def m_getBalance_def m_getCode_def
    m_getBlockByHash_def m_getBlockTransactionCountByHash_def m_getBlockTransactionCountByNumber_def
    m_getTransactionByBlockHashAndIndex_def m_getTransactionByBlockNumberAndIndex_def m_getBlockByNumber_def
    m_getTransactionCount_def m_sendRawTransaction_def m_call_def m_getTransactionByHash_def
    m_getTransactionReceipt_def m_getLogs_def m_maxPriorityFeePerGas_def m_getBlockReceipts_def m_getProof_def
    m_createAccessList_def m_listening_def m_version_def m_peerCount_def m_clientVersion_def m_sha3_def
    m_traceTransaction_def m_traceBlockByNumber_def

lemmas decorator_defs = rpc_method_def constant_method_def net_method_def

lemma method_names [simp]:
  "sm_name (m_accounts env) = ''accounts''" "sm_name (m_feeHistory env) = ''feeHistory''"
  "sm_name (m_blockNumber env) = ''blockNumber''" "sm_name (m_chainId env) = ''chainId''"
  "sm_name (m_estimateGas env) = ''estimateGas''" "sm_name (m_gasPrice env) = ''gasPrice''"
  "sm_name (m_mining env) = ''mining''" "sm_name (m_newFilter env) = ''newFilter''"
  "sm_name (m_getFilterLogs env) = ''getFilterLogs''" "sm_name (m_getFilterChanges env) = ''getFilterChanges''"
  "sm_name (m_newBlockFilter env) = ''newBlockFilter''" "sm_name (m_uninstallFilter env) = ''uninstallFilter''"
  "sm_name (m_newPendingTransactionFilter env) = ''newPendingTransactionFilter''"
  "sm_name (m_submitWork env) = ''submitWork''" "sm_name (m_syncing env) = ''syncing''"
  "sm_name (m_getUncleByBlockHashAndIndex env) = ''getUncleByBlockHashAndIndex''"
  "sm_name (m_getUncleByBlockNumberAndIndex env) = ''getUncleByBlockNumberAndIndex''"
  "sm_name (m_getUncleCountByBlockHash env) = ''getUncleCountByBlockHash''"
  "sm_name (m_getUncleCountByBlockNumber env) = ''getUncleCountByBlockNumber''"
  "sm_name (m_hashrate env) = ''hashrate''" "sm_name (m_getWork env) = ''getWork''"
  "sm_name (m_submitHashrate env) = ''submitHashrate''" "sm_name (m_signTransaction env) = ''signTransaction''"
  "sm_name (m_sign env) = ''sign''" "sm_name (m_sendTransaction env) = ''sendTransaction''"
  "sm_name (m_protocolVersion env) = ''protocolVersion''" "sm_name (m_coinbase env) = ''coinbase''"
  "sm_name (m_blobBaseFee env) = ''blobBaseFee''" "sm_name (m_getStorageAt env) = ''getStorageAt''"
  "sm_name (m_getBalance env) = ''getBalance''" "sm_name (m_getCode env) = ''getCode''"
  "sm_name (m_getBlockByHash env) = ''getBlockByHash''"
  "sm_name (m_getBlockTransactionCountByHash env) = ''getBlockTransactionCountByHash''"
  "sm_name (m_getBlockTransactionCountByNumber env) = ''getBlockTransactionCountByNumber''"
  "sm_name (m_getTransactionByBlockHashAndIndex env) = ''getTransactionByBlockHashAndIndex''"
  "sm_name (m_getTransactionByBlockNumberAndIndex env) = ''getTransactionByBlockNumberAndIndex''"
  "sm_name (m_getBlockByNumber env) = ''getBlockByNumber''"
  "sm_name (m_getTransactionCount env) = ''getTransactionCount''"
  "sm_name (m_sendRawTransaction env) = ''sendRawTransaction''" "sm_name (m_call env) = ''call''"
  "sm_name (m_getTransactionByHash env) = ''getTransactionByHash''"
  "sm_name (m_getTransactionReceipt env) = ''getTransactionReceipt''" "sm_name (m_getLogs env) = ''getLogs''"
  "sm_name (m_maxPriorityFeePerGas env) = ''maxPriorityFeePerGas''"
  "sm_name (m_getBlockReceipts env) = ''getBlockReceipts''" "sm_name (m_getProof env) = ''getProof''"
  "sm_name (m_createAccessList env) = ''createAccessList''" "sm_name (m_listening env) = ''listening''"
  "sm_name (m_version env) = ''version''" "sm_name (m_peerCount env) = ''peerCount''"
  "sm_name (m_clientVersion env) = ''clientVersion''" "sm_name (m_sha3 env) = ''sha3''"
  "sm_name (m_traceTransaction env) = ''traceTransaction''"
  "sm_name (m_traceBlockByNumber env) = ''traceBlockByNumber''"
  by (simp_all add: method_defs decorator_defs)

definition eth_names :: "string list" where
  "eth_names =
     [''accounts'', ''feeHistory'', ''blockNumber'', ''chainId'', ''estimateGas'', ''gasPrice'', ''mining'',
     ''newFilter'', ''getFilterLogs'', ''getFilterChanges'', ''newBlockFilter'', ''uninstallFilter'',
     ''newPendingTransactionFilter'', ''submitWork'', ''syncing'', ''getUncleByBlockHashAndIndex'',
     ''getUncleByBlockNumberAndIndex'', ''getUncleCountByBlockHash'', ''getUncleCountByBlockNumber'', ''hashrate'',
     ''getWork'', ''submitHashrate'', ''signTransaction'', ''sign'', ''sendTransaction'', ''protocolVersion'',
     ''coinbase'', ''blobBaseFee'', ''getStorageAt'', ''getBalance'', ''getCode'', ''getBlockByHash'',
     ''getBlockTransactionCountByHash'', ''getBlockTransactionCountByNumber'', ''getTransactionByBlockHashAndIndex'',
     ''getTransactionByBlockNumberAndIndex'', ''getBlockByNumber'', ''getTransactionCount'', ''sendRawTransaction'',
     ''call'', ''getTransactionByHash'', ''getTransactionReceipt'', ''getLogs'', ''maxPriorityFeePerGas'',
     ''getBlockReceipts'', ''getProof'', ''createAccessList'']"

lemma eth_member_names: "map sm_name (eth_members env) = eth_names"
  by (simp add: eth_members_def eth_names_def)

definition relay_table :: "('c, 'r, 'w, 'n) eth_env \<Rightarrow> (string \<times> (('c, 'r, 'w, 'n) node_state) operation_handler) list" where
  "relay_table env =
     concat (map (\<lambda>(ns, ms). map (\<lambda>m. (qualified_method_name ns (sm_name m), sm_handler m)) ms) (relay_services env))"

text \<open>The names the relay serves.\<close>

definition served_names :: "string list" where
  "served_names =
     map (qualified_method_name ''eth'') eth_names @
     [''net_listening'', ''net_version'', ''net_peerCount'', ''web3_clientVersion'', ''web3_sha3'', ''debug_traceTransaction'',
      ''debug_traceBlockByNumber'']"

lemma relay_table_names: "map fst (relay_table env) = served_names"
  unfolding relay_table_def relay_services_def served_names_def eth_member_names [of env, symmetric]
  by (simp add: qualified_method_name_def o_def)

lemma served_names_distinct: "distinct served_names"
  by code_simp

lemma rpc_method_registrable: "registrable (rpc_method n r l b) \<longleftrightarrow> n \<noteq> ''constructor''"
  by (simp add: registrable_def rpc_method_def)

lemma eth_members_registrable: "list_all registrable (eth_members env)"
  by (simp add: eth_members_def method_defs constant_method_def rpc_method_registrable)

lemma relay_members_registrable: "list_all (\<lambda>(ns, ms). list_all registrable ms) (relay_services env)"
  using eth_members_registrable [of env]
  by (simp add: relay_services_def method_defs constant_method_def net_method_def rpc_method_registrable)

lemma register_service_map:
  "list_all registrable ms \<Longrightarrow> register_service registry ns ms =
     registry ++ map_of (rev (map (\<lambda>m. (qualified_method_name ns (sm_name m), sm_handler m)) ms))"
  by (induction ms arbitrary: registry) (simp_all add: map_add_def fun_eq_iff split: option.split)

lemma registerRpcMethods_map:
  assumes "list_all (\<lambda>(ns, ms). list_all registrable ms) services"
  shows "registerRpcMethods services =
    map_of (rev (concat (map (\<lambda>(ns, ms). map (\<lambda>m. (qualified_method_name ns (sm_name m), sm_handler m)) ms) services)))"
proof -
  have "foldl (\<lambda>registry service. register_service registry (fst service) (snd service)) registry services =
      registry ++ map_of (rev (concat (map (\<lambda>(ns, ms). map (\<lambda>m. (qualified_method_name ns (sm_name m), sm_handler m)) ms) services)))"
    for registry
    using assms by (induction services arbitrary: registry) (auto simp: register_service_map)
  then show ?thesis by (simp add: registerRpcMethods_def)
qed

lemma relay_registry_table: "relay_registry env = map_of (relay_table env)"
proof -
  have "distinct (map fst (relay_table env))" by (simp only: relay_table_names served_names_distinct)
  then have "map_of (rev (relay_table env)) = map_of (relay_table env)"
    by (simp add: map_of_inject_set rev_map [symmetric])
  then show ?thesis by (simp add: relay_registry_def registerRpcMethods_map relay_members_registrable relay_table_def)
qed

lemma relay_serves_member:
  "(ns, ms) \<in> set (relay_services env) \<Longrightarrow> m \<in> set ms \<Longrightarrow>
     relay_registry env (qualified_method_name ns (sm_name m)) = Some (sm_handler m)"
  unfolding relay_registry_table
  by (rule map_of_is_SomeI) (auto simp: relay_table_names served_names_distinct relay_table_def [of env, symmetric],
      auto simp: relay_table_def)

subsection \<open>What the relay rejects\<close>

lemma served_iff: "relay_registry env m = None \<longleftrightarrow> m \<notin> set served_names"
  unfolding relay_registry_table map_of_eq_None_iff relay_table_names [of env, symmetric] by simp

text \<open>
  C4. The relay serves the methods of its table and no other: every other name is answered with an error of
  code \<open>-32601\<close>, and no service is asked.
\<close>

theorem relay_serves_its_table:
  "(relay_registry env m = None \<longleftrightarrow> m \<notin> set served_names) \<and>
   (m \<notin> set served_names \<longrightarrow> (\<exists>err. executeRpcMethod st env m ps d s = (Inl err, s) \<and> err_code err = -32601))"
  using served_iff [of env m] dispatch_rejects_before_running [where registry = "relay_registry env" and m = m and ps = ps and st = st and d = d and s = s]
  by (auto simp: executeRpcMethod_def)

lemma known_types:
  "list_all (\<lambda>t. known_type (getParamType t))
     [''hex'', ''hex64'', ''blockNumber'', ''blockHash'', ''blockNumber|blockHash'', ''array'', ''transaction'', ''filter'', ''boolean'',
      ''address'', ''blockParams'', ''transactionHash'', ''transactionHash|transactionId'', ''tracerConfigWrapper'']"
  by code_simp

definition rules_known :: "'s operation_handler \<Rightarrow> bool" where
  "rules_known h \<longleftrightarrow>
     (case op_validationRules h of None \<Rightarrow> True | Some rules \<Rightarrow> list_all (\<lambda>(i, sch). known_type (getParamType (mp_type sch))) rules)"

lemma rules_known_rpc_method [simp]:
  "rules_known (sm_handler (rpc_method n rules l b)) \<longleftrightarrow>
     (case rules of None \<Rightarrow> True | Some ps \<Rightarrow> list_all (\<lambda>(t, r). known_type (getParamType t)) ps)"
proof (cases rules)
  case (Some ps)
  have "list_all (\<lambda>(i, sch). known_type (getParamType (mp_type sch)))
      (map (\<lambda>(i, t, r). (i, \<lparr> mp_type = t, mp_required = r \<rparr>)) (enumerate k ps)) \<longleftrightarrow>
      list_all (\<lambda>(t, r). known_type (getParamType t)) ps" for k
    by (induction ps arbitrary: k) auto
  with Some show ?thesis by (simp add: rules_known_def rpc_method_def)
qed (simp add: rules_known_def rpc_method_def)

lemma members_rules_known: "list_all (\<lambda>(ns, ms). list_all (\<lambda>m. rules_known (sm_handler m)) ms) (relay_services env)"
  using known_types by (simp add: relay_services_def eth_members_def method_defs constant_method_def net_method_def)

lemma served_rules_known:
  assumes "relay_registry env m = Some h"
  shows "rules_known h"
proof -
  have "(m, h) \<in> set (relay_table env)" using assms by (simp add: relay_registry_table map_of_SomeD)
  then show ?thesis using members_rules_known [of env] by (auto simp: relay_table_def list_all_iff)
qed

text \<open>
  C14. Parameters that the rules of a served method reject reach no service: the answer has code \<open>-32602\<close> and
  nothing has changed.
\<close>

theorem bad_parameters_reach_no_service:
  assumes "relay_registry env m = Some h" and "op_validationRules h = Some rules"
    and "validateParams params rules = Inl e"
  shows "\<exists>err. executeRpcMethod st env m (Some params) d s = (Inl err, s) \<and> err_code err = -32602"
  using dispatch_rejects_before_running [where registry = "relay_registry env" and m = m and ps = "Some params"
      and st = st and d = d and s = s] served_rules_known [OF assms(1)] assms
  by (auto simp: executeRpcMethod_def rules_known_def list_all_iff)

subsection \<open>What the relay does not support\<close>

definition unsupported_names :: "string list" where
  "unsupported_names =
     map (qualified_method_name ''eth'')
       [''newPendingTransactionFilter'', ''getWork'', ''submitHashrate'', ''signTransaction'', ''sign'', ''sendTransaction'',
        ''protocolVersion'', ''coinbase'', ''blobBaseFee'', ''getProof'', ''createAccessList''] @
     [''net_peerCount'']"

lemma dispatch_constant:
  assumes "registry m = Some (sm_handler (rpc_method n None l (\<lambda>xs d. ret (ResultError e))))"
  shows "dispatch st registry m ps d s = (Inl (handleRpcMethodError st (ThrownRpc e) d), s)"
  using assms by (simp add: dispatch_def precheckRpcMethod_def processRpcMethod_def rpc_method_def and_do_def ret_def)

definition unsupported_methods :: "('c, 'r, 'w, 'n) eth_env \<Rightarrow> (('c, 'r, 'w, 'n) node_state) service_member list" where
  "unsupported_methods env =
     [m_newPendingTransactionFilter env, m_getWork env, m_submitHashrate env, m_signTransaction env, m_sign env, m_sendTransaction env,
      m_protocolVersion env, m_coinbase env, m_blobBaseFee env, m_getProof env, m_createAccessList env]"

lemma unsupported_methods_constant:
  "x \<in> set (m_peerCount env # unsupported_methods env) \<Longrightarrow>
     \<exists>n l. x = rpc_method n None l (\<lambda>xs d. ret (ResultError UNSUPPORTED_METHOD))"
  by (auto simp: unsupported_methods_def method_defs constant_method_def net_method_def newPendingTransactionFilter_def
      signTransaction_def eth_sign_def sendTransaction_def)

lemma unsupported_member:
  assumes "m \<in> set unsupported_names"
  shows "\<exists>n l. relay_registry env m = Some (sm_handler (rpc_method n None l (\<lambda>xs d. ret (ResultError UNSUPPORTED_METHOD))))"
proof -
  have names: "set unsupported_names = (\<lambda>x. qualified_method_name ''eth'' (sm_name x)) ` set (unsupported_methods env) \<union>
      {qualified_method_name ''net'' (sm_name (m_peerCount env))}"
    by (simp add: unsupported_names_def unsupported_methods_def qualified_method_name_def del: Un_insert_right)
  from assms [unfolded names]
  consider x where "x \<in> set (unsupported_methods env)" "m = qualified_method_name ''eth'' (sm_name x)"
    | "m = qualified_method_name ''net'' (sm_name (m_peerCount env))"
    by blast
  then obtain ns ms x where "m = qualified_method_name ns (sm_name x)" "(ns, ms) \<in> set (relay_services env)" "x \<in> set ms"
      "x \<in> set (m_peerCount env # unsupported_methods env)"
  proof cases
    case 1
    have "set (unsupported_methods env) \<subseteq> set (eth_members env)"
      by (simp add: unsupported_methods_def eth_members_def)
    then show ?thesis using that [of "''eth''" x "eth_members env"] 1 by (auto simp: relay_services_def)
  next
    case 2
    then show ?thesis using that [of "''net''" "m_peerCount env"] by (simp add: relay_services_def)
  qed
  then show ?thesis using relay_serves_member [of ns ms env x] unsupported_methods_constant [of x env] by auto
qed

text \<open>
  The methods that Hedera has no equivalent of are answered with the error of an unsupported method,
  whatever the parameters, and change nothing.
\<close>

theorem unsupported_methods_answered:
  assumes "m \<in> set unsupported_names"
  shows "executeRpcMethod st env m ps d s = (Inl (newWithRequestId UNSUPPORTED_METHOD (rd_requestId d)), s)"
  using unsupported_member [OF assms, of env]
  by (auto simp: executeRpcMethod_def dispatch_constant handleRpcMethodError_def Let_def)

subsection \<open>An answer is given again\<close>

lemma answer_node_run:
  "on_relay m s = (r, s') \<longleftrightarrow> (\<exists>t. m (ns_relay s) = (r, t) \<and> s' = s\<lparr> ns_relay := t \<rparr>)"
  by (cases "m (ns_relay s)") (auto simp: on_relay_def)

lemma cached_node_kept:
  assumes "caching (ee_mirror env)"
    and "cached_node_method env options name body xs d s = (Inr (ResultValue v), s1)" and "storable (ResultValue v)"
    and "\<not> shouldSkipCachingForSingleParams (call_args xs d) (co_skipParams options)"
    and "shouldSkipCachingForNamedParams (call_args xs d) (co_skipNamedParams options) = Inr False"
    and "generateCacheKey name (call_args xs d') = generateCacheKey name (call_args xs d)"
  shows "\<exists>t. cached_node_method env options name body xs d' s1 = (Inr (ResultValue v), s1\<lparr> ns_relay := t \<rparr>) \<and>
    rs_world t = rs_world (ns_relay s1)"
proof -
  let ?get = "cached_get (ee_mirror env) (generateCacheKey name (call_args xs d))"
  have v: "truthy v" "result_of_stored v = ResultValue v" "v \<noteq> JUndef"
    using assms(3) by (auto simp: storable_def)
  obtain c where c: "truthy c" "result_of_stored c = ResultValue v" "fst (?get (ns_relay s1)) = Inr c"
  proof (cases "truthy (case fst (?get (ns_relay s)) of Inr c \<Rightarrow> c | Inl e \<Rightarrow> JNull)")
    case True
    then obtain c where c: "?get (ns_relay s) = (Inr c, snd (?get (ns_relay s)))" "truthy c"
      by (auto simp: cached_get_run)
    then have "result_of_stored c = ResultValue v" "s1 = s\<lparr> ns_relay := snd (?get (ns_relay s)) \<rparr>"
      using assms(2) unfolding cached_node_method_def Let_def
      by (auto simp: and_do_Inr_iff answer_node_run ret_def cached_get_run)
    with c get_after_get [OF assms(1)] show ?thesis by (intro that [of c]) (simp_all, metis fst_conv)
  next
    case False
    then obtain t u where "cached_set (ee_mirror env) (generateCacheKey name (call_args xs d)) v
          (Some (Ms (case co_ttl options of None \<Rightarrow> ee_cacheTtl env | Some t \<Rightarrow> t))) u = (Inr (), t)"
        "ns_relay s1 = t"
      using assms(2,4,5) v(1) unfolding cached_node_method_def Let_def
      by (auto simp: and_do_Inr_iff answer_node_run ret_def cached_get_run lift_def cached_set_run split: if_split_asm)
    then have "fst (?get (ns_relay s1)) = Inr v"
      using get_after_set [OF assms(1) v(3)] by (metis snd_conv)
    with v show ?thesis by (intro that [of v])
  qed
  then have "cached_node_method env options name body xs d' s1 =
      (Inr (ResultValue v), s1\<lparr> ns_relay := snd (?get (ns_relay s1)) \<rparr>)"
    using assms(6) unfolding cached_node_method_def Let_def
    by (simp add: and_do_def on_relay_def cached_get_run ret_def)
  then show ?thesis by (auto simp: cached_get_run)
qed

lemma key_ignores_details: "generateCacheKey m (call_args xs d') = generateCacheKey m (call_args xs d)"
  by (simp add: generateCacheKey_append call_args_def)

lemma cache_all_skip [simp]:
  "\<not> shouldSkipCachingForSingleParams args (co_skipParams cache_all)"
  "shouldSkipCachingForNamedParams args (co_skipNamedParams cache_all) = Inr False"
  by (simp_all add: cache_all_def shouldSkipCachingForSingleParams_def shouldSkipCachingForNamedParams_def)

lemma dispatch_value_iff:
  assumes "registry m = Some (sm_handler (rpc_method n (Some rules) DefaultLayout body))"
  shows "dispatch st registry m (Some params) d s = (Inr v, s') \<longleftrightarrow>
    (\<exists>xs. precheckRpcMethod registry m params = Inr (sm_handler (rpc_method n (Some rules) DefaultLayout body), xs) \<and>
       body xs d s = (Inr (ResultValue v), s'))"
proof -
  have val: "handler_value r = Value v \<longleftrightarrow> r = ResultValue v" for r by (cases r) auto
  have run: "processRpcMethod (sm_handler (rpc_method n (Some rules) DefaultLayout body)) xs d s = (Inr v, s') \<longleftrightarrow>
      body xs d s = (Inr (ResultValue v), s')" for xs
    by (cases "body xs d s", cases "fst (body xs d s)")
      (auto simp: processRpcMethod_def arrangeRpcParams_def rpc_method_def and_do_def ret_def val split: handler_result.split)
  have same: "fst p = sm_handler (rpc_method n (Some rules) DefaultLayout body)" if "precheckRpcMethod registry m params = Inr p" for p
    using that assms by (auto simp: precheckRpcMethod_def and_then_Inr_iff split: option.split_asm)
  show ?thesis
    by (cases "precheckRpcMethod registry m params")
      (auto simp: dispatch_def run [symmetric] dest: same split: prod.splits sum.splits)
qed

definition lasting_methods :: "('c, 'r, 'w, 'n) eth_env \<Rightarrow> (('c, 'r, 'w, 'n) node_state) service_member list" where
  "lasting_methods env =
     [m_getBlockByHash env, m_getBlockTransactionCountByHash env, m_getTransactionByBlockHashAndIndex env,
      m_getTransactionByHash env, m_getTransactionReceipt env]"

definition lasting_names :: "string list" where
  "lasting_names =
     [''eth_getBlockByHash'', ''eth_getBlockTransactionCountByHash'', ''eth_getTransactionByBlockHashAndIndex'',
      ''eth_getTransactionByHash'', ''eth_getTransactionReceipt'']"

lemma lasting_member:
  assumes "m \<in> set lasting_names"
  shows "\<exists>n rules body. relay_registry env m =
    Some (sm_handler (rpc_method n (Some rules) DefaultLayout (cached_node_method env cache_all n body)))"
proof -
  have names: "set lasting_names = (\<lambda>x. qualified_method_name ''eth'' (sm_name x)) ` set (lasting_methods env)"
    by (simp add: lasting_names_def lasting_methods_def qualified_method_name_def)
  from assms [unfolded names] obtain x where
    x: "x \<in> set (lasting_methods env)" "m = qualified_method_name ''eth'' (sm_name x)"
    by blast
  have "set (lasting_methods env) \<subseteq> set (eth_members env)"
    by (simp add: lasting_methods_def eth_members_def)
  then have "relay_registry env m = Some (sm_handler x)"
    using relay_serves_member [of "''eth''" "eth_members env" env x] x by (auto simp: relay_services_def)
  moreover have "\<exists>n rules body. x = rpc_method n (Some rules) DefaultLayout (cached_node_method env cache_all n body)"
    using x(1)
    by (auto simp: lasting_methods_def m_getBlockByHash_def m_getBlockTransactionCountByHash_def
        m_getTransactionByBlockHashAndIndex_def m_getTransactionByHash_def m_getTransactionReceipt_def)
  ultimately show ?thesis by auto
qed

text \<open>
  C7. What was answered for a block or a transaction that is named by its hash is answered again, to whoever asks
  the same question next, and no request is made for it.
\<close>

theorem repeated_query_asks_nothing:
  assumes "lru_laws (ce_lru (me_cache (ee_mirror env))) look cap" and "internal_only (me_cache (ee_mirror env))"
    and "m \<in> set lasting_names"
    and "executeRpcMethod st env m (Some params) d s = (Inr v, s1)" and "storable (ResultValue v)"
  shows "\<exists>t. executeRpcMethod st env m (Some params) d' s1 = (Inr v, s1\<lparr> ns_relay := t \<rparr>) \<and>
    rs_world t = rs_world (ns_relay s1)"
proof -
  have caching: "caching (ee_mirror env)" using assms(1,2) by (rule cachingI)
  obtain n rules body where h: "relay_registry env m =
      Some (sm_handler (rpc_method n (Some rules) DefaultLayout (cached_node_method env cache_all n body)))"
    using lasting_member [OF assms(3)] by blast
  from assms(4) [unfolded executeRpcMethod_def dispatch_value_iff [where registry = "relay_registry env", OF h]] obtain xs where
    xs: "precheckRpcMethod (relay_registry env) m params =
      Inr (sm_handler (rpc_method n (Some rules) DefaultLayout (cached_node_method env cache_all n body)), xs)"
      "cached_node_method env cache_all n body xs d s = (Inr (ResultValue v), s1)"
    by blast
  from cached_node_kept [OF caching xs(2) assms(5) _ _ key_ignores_details, of d'] show ?thesis
    using xs(1) by (auto simp: executeRpcMethod_def dispatch_value_iff [where registry = "relay_registry env", OF h])
qed

subsection \<open>A small relay\<close>

definition sample_node :: "(string \<times> jsv) list \<Rightarrow> (list_lru, unit, nat, string) node_env" where
  "sample_node table =
     \<lparr> ne_relay = sample_relay table, ne_hbar = closed_cfg, ne_hapi = sample_hapi, ne_table = sample_status,
       ne_statusText = (\<lambda>c. ''UNKNOWN''), ne_WrongNonce = 24, ne_operatorId = Some ''0.0.2'',
       ne_fromBytes = (\<lambda>bs. Inr \<lparr> ed_to = '''', ed_callData = bs, ed_rest = '''' \<rparr>),
       ne_toBytes = ed_callData, ne_execute = net_execute, ne_executeAll = net_executeAll, ne_receipt = (\<lambda>t n. (Inr (Some ''0.0.7''), n)),
       ne_queryCost = (\<lambda>q n. (Inr 1000, n)), ne_query = net_query, ne_record = (\<lambda>t n. (Inr net_record, n)), ne_chunkSize = 2,
       ne_maxChunks = 20, ne_jumboTx = False, ne_maxFeeThreshold = 15000000, ne_queryRetries = 3, ne_recordFromConsensus = True \<rparr>"

definition sample_eth :: "(string \<times> jsv) list \<Rightarrow> (list_lru, unit, nat, string) eth_env" where
  "sample_eth table =
     \<lparr> ee_transactions =
         \<lparr> te_node = sample_node table, te_chain = ''0x12a'', te_crypto = sample_crypto, te_precheck = sample_precheck_config,
           te_parse = (\<lambda>t. Inr sample_tx), te_keccak256 = (\<lambda>bs. [7]), te_asyncProcessing = False \<rparr>,
       ee_contracts = sample_contracts table, ee_blockNumberTtl = 1000, ee_transactionCountTtl = 500, ee_maxTransactions = 100,
       ee_revertStatuses = [], ee_feeMaxResults = 10, ee_feeFixed = True, ee_filterApiEnabled = True, ee_filterTtl = 300000,
       ee_newFilterId = (\<lambda>w. ''0xf1''), ee_debugApiEnabled = False, ee_opcodeLoggerEnabled = True, ee_cacheTtl = 3600000,
       ee_chainIdConfig = ''0x12a'', ee_packageVersion = ''0.70.0'', ee_keccakText = (\<lambda>t. t) \<rparr>"

definition quiet_node :: "(list_lru, unit, nat, string) node_state" where
  "quiet_node =
     \<lparr> ns_relay = quiet_relay, ns_hbar = HbarLimiter.sample_state, ns_hapi = new_hapi sample_hapi 0, ns_net = '''', ns_events = [] \<rparr>"

definition sample_hash :: string where "sample_hash = ''0x'' @ replicate 64 (CHR ''a'')"

definition three_transactions :: "(string \<times> jsv) list" where
  "three_transactions = [(''blocks/'' @ sample_hash, JObj [(''count'', JNum 3)])]"

lemma quiet_get: "cached_get (canned_mirror table) k quiet_relay = (Inr JNull, quiet_relay)"
  by (simp add: cached_get_run canned_mirror_def quiet_relay_def CacheService.sample_env_def CacheService.sample_store_def getAsync_def getFromSharedCache_def
      redis_get_def no_redis_def getFromInternalCache_def local_get_def getCacheInstance_def uses_reserved_def
      list_lru_ops_def list_lru_look_def fresh_def put_instance_def list_lru_drop_def)

lemma sample_eth_mirror [simp]: "ee_mirror (sample_eth table) = canned_mirror table"
  by (simp add: sample_eth_def sample_node_def sample_relay_def)

theorem relay_serves_its_table_witness:
  "relay_registry (sample_eth []) ''eth_mint'' = None \<and>
   (\<exists>err. executeRpcMethod sample_status (sample_eth []) ''eth_mint'' None sample_details quiet_node = (Inl err, quiet_node) \<and>
     err_code err = -32601)"
proof -
  have "''eth_mint'' \<notin> set served_names" by code_simp
  then show ?thesis
    using relay_serves_its_table [of "sample_eth []" "''eth_mint''" sample_status None sample_details quiet_node] by simp
qed

theorem bad_parameters_reach_no_service_witness:
  "\<exists>err. executeRpcMethod sample_status (sample_eth []) ''eth_sendRawTransaction'' (Some [JStr ''zz'']) sample_details quiet_node =
     (Inl err, quiet_node) \<and> err_code err = -32602"
proof -
  have "relay_registry (sample_eth []) ''eth_sendRawTransaction'' = Some (sm_handler (m_sendRawTransaction (sample_eth [])))"
    using relay_serves_member [of "''eth''" "eth_members (sample_eth [])" "sample_eth []" "m_sendRawTransaction (sample_eth [])"]
    by (simp add: relay_services_def eth_members_def qualified_method_name_def)
  moreover have "op_validationRules (sm_handler (m_sendRawTransaction (sample_eth []))) =
      Some [(0, \<lparr> mp_type = ''hex'', mp_required = True \<rparr>)]"
    by (simp add: m_sendRawTransaction_def rpc_method_def)
  moreover have "\<exists>e. validateParams [JStr ''zz''] [(0, \<lparr> mp_type = ''hex'', mp_required = True \<rparr>)] = Inl e"
    by (simp add: validateParams_def validateParam_def getParamType_def type_table_def
      param_at_def Let_def requiredIsMissing_def lift_basic_def hex_test_def hex_text_of_length_def
      param_text_def int_to_base_def to_base.simps digit_char_eval ensure_def)
  ultimately show ?thesis
    using bad_parameters_reach_no_service [of "sample_eth []" "''eth_sendRawTransaction''"] by blast
qed

theorem unsupported_methods_answered_witness:
  "fst (executeRpcMethod sample_status (sample_eth []) ''eth_coinbase'' None sample_details quiet_node) =
     Inl (newWithRequestId UNSUPPORTED_METHOD ''7'')"
  using unsupported_methods_answered [of "''eth_coinbase''" sample_status "sample_eth []" None sample_details quiet_node]
  by (simp add: unsupported_names_def qualified_method_name_def sample_details_def)

lemma hash_rules:
  "precheckRpcMethod (relay_registry (sample_eth table)) ''eth_getBlockTransactionCountByHash'' [JStr sample_hash] =
     Inr (sm_handler (m_getBlockTransactionCountByHash (sample_eth table)), [JStr sample_hash])"
proof -
  have "relay_registry (sample_eth table) ''eth_getBlockTransactionCountByHash'' =
      Some (sm_handler (m_getBlockTransactionCountByHash (sample_eth table)))"
    using relay_serves_member [of "''eth''" "eth_members (sample_eth table)" "sample_eth table"
        "m_getBlockTransactionCountByHash (sample_eth table)"]
    by (simp add: relay_services_def eth_members_def qualified_method_name_def)
  moreover have "op_validationRules (sm_handler (m_getBlockTransactionCountByHash (sample_eth table))) =
      Some [(0, \<lparr> mp_type = ''blockHash'', mp_required = True \<rparr>)]"
    by (simp add: m_getBlockTransactionCountByHash_def rpc_method_def)
  moreover have "validateParams [JStr sample_hash] [(0, \<lparr> mp_type = ''blockHash'', mp_required = True \<rparr>)] = Inr ()"
    by code_simp
  moreover have "prune_params [JStr sample_hash] [(0, \<lparr> mp_type = ''blockHash'', mp_required = True \<rparr>)] = [JStr sample_hash]"
    by (simp add: getParamType_def type_table_def)
  ultimately show ?thesis by (simp add: precheckRpcMethod_def)
qed

theorem repeated_query_asks_nothing_witness:
  "\<exists>s1 t. executeRpcMethod sample_status (sample_eth three_transactions) ''eth_getBlockTransactionCountByHash''
      (Some [JStr sample_hash]) sample_details quiet_node = (Inr (JStr ''0x3''), s1) \<and>
    executeRpcMethod sample_status (sample_eth three_transactions) ''eth_getBlockTransactionCountByHash''
      (Some [JStr sample_hash]) sample_details s1 = (Inr (JStr ''0x3''), s1\<lparr> ns_relay := t \<rparr>) \<and> rs_world t = rs_world (ns_relay s1)"
proof -
  let ?env = "sample_eth three_transactions"
  have "numberTo0x 3 = ''0x3''" by code_simp
  then have "\<exists>t. mn_getBlock (canned_mirror three_transactions) (JStr sample_hash) sample_details quiet_relay =
      (Inr (JObj [(''count'', JNum 3)]), t)"
    by (simp add: mn_getBlock_def Let_def and_do_def quiet_get mn_get_canned three_transactions_def ret_def cached_set_run)
  then obtain t where "mn_getBlock (canned_mirror three_transactions) (JStr sample_hash) sample_details quiet_relay =
      (Inr (JObj [(''count'', JNum 3)]), t)" ..
  then have "getBlockTransactionCountByHash (blockService ?env) (JStr sample_hash) sample_details quiet_relay = (Inr (JStr ''0x3''), t)"
    using \<open>numberTo0x 3 = ''0x3''\<close>
    by (simp add: getBlockTransactionCountByHash_def count_of_block_def catch_do_def and_do_def blockService_def lift_def
        getTransactionCountFromBlockResponse_def sample_eth_mirror [simplified])
  then have "\<exists>s1. cached_node_method ?env cache_all ''getBlockTransactionCountByHash''
      (\<lambda>xs d. answer_value (getBlockTransactionCountByHash (blockService ?env) (param_at xs 0) d)) [JStr sample_hash] sample_details quiet_node =
      (Inr (ResultValue (JStr ''0x3'')), s1)"
    by (simp add: cached_node_method_def Let_def and_do_def on_relay_def quiet_get quiet_node_def answer_value_def param_at_def lift_def ret_def
        cached_set_run)
  then obtain s1 where "executeRpcMethod sample_status ?env ''eth_getBlockTransactionCountByHash''
      (Some [JStr sample_hash]) sample_details quiet_node = (Inr (JStr ''0x3''), s1)"
    by (auto simp: executeRpcMethod_def dispatch_def hash_rules processRpcMethod_def m_getBlockTransactionCountByHash_def rpc_method_def
        arrangeRpcParams_def and_do_def ret_def)
  from repeated_query_asks_nothing [OF _ _ _ this, of list_lru_look "\<lambda>c. Suc (fst c)" sample_details] this show ?thesis
    by (auto simp: canned_mirror_def lasting_names_def storable_def)
qed

end
