(* ===== verification/ConfigService.thy ===== *)
theory ConfigService
  imports CommonQueries
begin

section \<open>The configuration\<close>

text \<open>
  Models the package \<open>config-service\<close>: the table of the settings (\<open>globalConfig.ts\<close>), their validation and
  conversion (\<open>validationService.ts\<close>), reading and masking (\<open>index.ts\<close>, \<open>loggerService.ts\<close>), and the
  configuration that \<open>admin.ts\<close> publishes. The environment variables are a list of names and texts, the
  casted settings a list in the order of the table. \<open>JSON.parse\<close> and the text of a fraction are
  parameters; the text of a number is an integer, a hexadecimal integer or a decimal fraction.
\<close>

subsection \<open>Settings\<close>

datatype config_type = StringType | NumberType | BooleanType | StrArrayType | NumArrayType

text \<open>A number is \<open>None\<close> when it is not a number. What \<open>JSON.parse\<close> gives need not be an array.\<close>

datatype config_value = CText string | CNumber "rat option" | CFlag bool | CJson jsv

type_synonym config_property = "string \<times> config_type \<times> bool \<times> config_value option"

record config_env =
  cf_parse :: "string \<Rightarrow> jsv option"
  cf_fractionText :: "rat \<Rightarrow> string"

definition config_entries_1 :: "config_property list" where
  "config_entries_1 =
     [(''BATCH_REQUESTS_DISALLOWED_METHODS'', StrArrayType, False, (Some (CJson (JArr [JStr ''debug_traceTransaction'', JStr ''debug_traceBlockByNumber'',
         JStr ''eth_newFilter'', JStr ''eth_uninstallFilter'', JStr ''eth_getFilterChanges'', JStr ''eth_getFilterLogs'',
         JStr ''eth_newBlockFilter'', JStr ''eth_newPendingTransactionFilter''])))),
      (''BATCH_REQUESTS_ENABLED'', BooleanType, False, (Some (CFlag True))),
      (''BATCH_REQUESTS_MAX_SIZE'', NumberType, False, (Some (CNumber (Some 100)))),
      (''CACHE_MAX'', NumberType, False, (Some (CNumber (Some 1000)))),
      (''CACHE_TTL'', NumberType, False, (Some (CNumber (Some 3600000)))),
      (''CALL_DATA_SIZE_LIMIT'', NumberType, False, (Some (CNumber (Some 131072)))),
      (''CHAIN_ID'', StringType, True, (Some (CText ''0x12a''))),
      (''CLIENT_TRANSPORT_SECURITY'', BooleanType, False, (Some (CFlag False))),
      (''CONSENSUS_MAX_EXECUTION_TIME'', NumberType, False, (Some (CNumber (Some 15000)))),
      (''CONTRACT_CALL_GAS_LIMIT'', NumberType, False, (Some (CNumber (Some 50000000)))),
      (''CONTRACT_QUERY_TIMEOUT_RETRIES'', NumberType, False, (Some (CNumber (Some 3)))),
      (''DEBUG_API_ENABLED'', BooleanType, False, (Some (CFlag False))),
      (''DEFAULT_RATE_LIMIT'', NumberType, False, (Some (CNumber (Some 200)))),
      (''DEV_MODE'', BooleanType, False, (Some (CFlag False))),
      (''DISABLE_ADMIN_NAMESPACE'', BooleanType, False, (Some (CFlag False))),
      (''E2E_RELAY_HOST'', StringType, False, (Some (CText ''http://localhost:7546''))),
      (''E2E_SERVER_PORT'', NumberType, False, (Some (CNumber (Some 7546)))),
      (''ESTIMATE_GAS_THROWS'', BooleanType, False, (Some (CFlag True))),
      (''ETH_BLOCK_NUMBER_CACHE_TTL_MS'', NumberType, False, (Some (CNumber (Some 1000)))),
      (''ETH_CALL_ACCEPTED_ERRORS'', NumArrayType, False, (Some (CJson (JArr [])))),
      (''ETH_CALL_CACHE_TTL'', NumberType, False, (Some (CNumber (Some 200)))),
      (''ETH_CALL_CONSENSUS_SELECTORS'', StrArrayType, False, (Some (CJson (JArr [])))),
      (''ETH_CALL_DEFAULT_TO_CONSENSUS_NODE'', BooleanType, False, (Some (CFlag False)))]"

definition config_entries_2 :: "config_property list" where
  "config_entries_2 =
     [(''ETH_FEE_HISTORY_FIXED'', BooleanType, False, (Some (CFlag True))),
      (''ETH_GET_BALANCE_CACHE_TTL_MS'', NumberType, False, (Some (CNumber (Some 1000)))),
      (''ETH_GET_GAS_PRICE_CACHE_TTL_MS'', NumberType, False, (Some (CNumber (Some 1800000)))),
      (''ETH_GET_LOGS_BLOCK_RANGE_LIMIT'', NumberType, False, (Some (CNumber (Some 1000)))),
      (''ETH_GET_TRANSACTION_COUNT_CACHE_TTL'', NumberType, False, (Some (CNumber (Some 500)))),
      (''ETH_GET_TRANSACTION_COUNT_MAX_BLOCK_RANGE'', NumberType, False, (Some (CNumber (Some 1000)))),
      (''HEDERA_SPECIFIC_REVERT_STATUSES'', StrArrayType, False, (Some (CJson (JArr [JStr ''WRONG_NONCE'', JStr ''INVALID_ACCOUNT_ID''])))),
      (''FEE_HISTORY_MAX_RESULTS'', NumberType, False, (Some (CNumber (Some 10)))),
      (''FILE_APPEND_CHUNK_SIZE'', NumberType, False, (Some (CNumber (Some 5120)))),
      (''FILE_APPEND_MAX_CHUNKS'', NumberType, False, (Some (CNumber (Some 20)))),
      (''FILTER_API_ENABLED'', BooleanType, False, (Some (CFlag True))),
      (''FILTER_TTL'', NumberType, False, (Some (CNumber (Some 300000)))),
      (''GAS_PRICE_PERCENTAGE_BUFFER'', NumberType, False, (Some (CNumber (Some 0)))),
      (''GAS_PRICE_TINY_BAR_BUFFER'', NumberType, False, (Some (CNumber (Some 10000000000)))),
      (''GET_RECORD_DEFAULT_TO_CONSENSUS_NODE'', BooleanType, False, (Some (CFlag False))),
      (''GH_ACCESS_TOKEN'', StringType, False, None),
      (''GITHUB_PR_NUMBER'', StringType, False, None),
      (''GITHUB_REPOSITORY'', StringType, False, None),
      (''GITHUB_TOKEN'', StringType, False, None),
      (''HAPI_CLIENT_DURATION_RESET'', NumberType, False, (Some (CNumber (Some 3600000)))),
      (''HAPI_CLIENT_ERROR_RESET'', NumArrayType, False, (Some (CJson (JArr [JNum 21, JNum 50])))),
      (''HAPI_CLIENT_TRANSACTION_RESET'', NumberType, False, (Some (CNumber (Some 50)))),
      (''HBAR_RATE_LIMIT_BASIC'', NumberType, False, (Some (CNumber (Some 1120000000)))),
      (''HBAR_RATE_LIMIT_EXTENDED'', NumberType, False, (Some (CNumber (Some 3200000000)))),
      (''HBAR_RATE_LIMIT_PRIVILEGED'', NumberType, False, (Some (CNumber (Some 8000000000))))]"

definition config_entries_3 :: "config_property list" where
  "config_entries_3 =
     [(''HBAR_RATE_LIMIT_DURATION'', NumberType, False, (Some (CNumber (Some 86400000)))),
      (''HBAR_RATE_LIMIT_TINYBAR'', NumberType, False, (Some (CNumber (Some 800000000000)))),
      (''HEDERA_NETWORK'', StringType, True, None),
      (''HBAR_SPENDING_PLANS_CONFIG'', StringType, False, (Some (CText ''spendingPlansConfig.json''))),
      (''INITIAL_BALANCE'', NumberType, False, (Some (CNumber (Some 5000000000)))),
      (''INPUT_SIZE_LIMIT'', NumberType, False, (Some (CNumber (Some 1)))),
      (''JUMBO_TX_ENABLED'', BooleanType, False, (Some (CFlag True))),
      (''LIMIT_DURATION'', NumberType, False, (Some (CNumber (Some 60000)))),
      (''LOCAL_NODE'', BooleanType, False, None),
      (''LOG_LEVEL'', StringType, False, (Some (CText ''trace''))),
      (''MAX_BLOCK_RANGE'', NumberType, False, (Some (CNumber (Some 5)))),
      (''MAX_TRANSACTION_FEE_THRESHOLD'', NumberType, False, (Some (CNumber (Some 15000000)))),
      (''MEMWATCH_ENABLED'', BooleanType, False, None),
      (''MIRROR_NODE_AGENT_CACHEABLE_DNS'', BooleanType, False, (Some (CFlag True))),
      (''MIRROR_NODE_CONTRACT_RESULTS_LOGS_PG_MAX'', NumberType, False, (Some (CNumber (Some 200)))),
      (''MIRROR_NODE_CONTRACT_RESULTS_PG_MAX'', NumberType, False, (Some (CNumber (Some 25)))),
      (''MIRROR_NODE_HTTP_KEEP_ALIVE'', BooleanType, False, (Some (CFlag True))),
      (''MIRROR_NODE_HTTP_KEEP_ALIVE_MSECS'', NumberType, False, (Some (CNumber (Some 1000)))),
      (''MIRROR_NODE_HTTP_MAX_SOCKETS'', NumberType, False, (Some (CNumber (Some 300)))),
      (''MIRROR_NODE_HTTP_MAX_TOTAL_SOCKETS'', NumberType, False, (Some (CNumber (Some 300)))),
      (''MIRROR_NODE_HTTP_SOCKET_TIMEOUT'', NumberType, False, (Some (CNumber (Some 60000)))),
      (''MIRROR_NODE_LIMIT_PARAM'', NumberType, False, (Some (CNumber (Some 100)))),
      (''MIRROR_NODE_MAX_REDIRECTS'', NumberType, False, (Some (CNumber (Some 5)))),
      (''MIRROR_NODE_RETRIES'', NumberType, False, (Some (CNumber (Some 0)))),
      (''MIRROR_NODE_RETRIES_DEVMODE'', NumberType, False, (Some (CNumber (Some 5))))]"

definition config_entries_4 :: "config_property list" where
  "config_entries_4 =
     [(''MIRROR_NODE_RETRY_CODES'', StrArrayType, False, (Some (CJson (JArr [])))),
      (''MIRROR_NODE_RETRY_DELAY'', NumberType, False, (Some (CNumber (Some 2000)))),
      (''MIRROR_NODE_RETRY_DELAY_DEVMODE'', NumberType, False, (Some (CNumber (Some 200)))),
      (''MIRROR_NODE_REQUEST_RETRY_COUNT'', NumberType, False, (Some (CNumber (Some 10)))),
      (''MIRROR_NODE_TIMEOUT'', NumberType, False, (Some (CNumber (Some 10000)))),
      (''MIRROR_NODE_URL'', StringType, True, None),
      (''MIRROR_NODE_URL_HEADER_X_API_KEY'', StringType, False, None),
      (''MIRROR_NODE_URL_WEB3'', StringType, False, None),
      (''MULTI_SET'', BooleanType, False, (Some (CFlag False))),
      (''npm_package_version'', StringType, True, None),
      (''OPCODELOGGER_ENABLED'', BooleanType, False, (Some (CFlag True))),
      (''OPERATOR_ID_ETH_SENDRAWTRANSACTION'', StringType, False, None),
      (''OPERATOR_ID_MAIN'', StringType, True, None),
      (''OPERATOR_KEY_ETH_SENDRAWTRANSACTION'', StringType, False, None),
      (''OPERATOR_KEY_FORMAT'', StringType, False, None),
      (''OPERATOR_KEY_MAIN'', StringType, True, None),
      (''RATE_LIMIT_DISABLED'', BooleanType, False, (Some (CFlag False))),
      (''REDIS_ENABLED'', BooleanType, False, (Some (CFlag True))),
      (''IP_RATE_LIMIT_STORE'', StringType, False, None),
      (''REDIS_RECONNECT_DELAY_MS'', NumberType, False, (Some (CNumber (Some 1000)))),
      (''REDIS_URL'', StringType, False, (Some (CText ''redis://127.0.0.1:6379''))),
      (''REQUEST_ID_IS_OPTIONAL'', BooleanType, False, (Some (CFlag False))),
      (''SDK_REQUEST_TIMEOUT'', NumberType, False, (Some (CNumber (Some 10000)))),
      (''SEND_RAW_TRANSACTION_SIZE_LIMIT'', NumberType, False, (Some (CNumber (Some 133120))))]"

definition config_entries_5 :: "config_property list" where
  "config_entries_5 =
     [(''SERVER_HOST'', StringType, False, None),
      (''SERVER_PORT'', NumberType, False, (Some (CNumber (Some 7546)))),
      (''SERVER_REQUEST_TIMEOUT_MS'', NumberType, False, (Some (CNumber (Some 60000)))),
      (''SUBSCRIPTIONS_ENABLED'', BooleanType, False, (Some (CFlag False))),
      (''TEST'', BooleanType, False, None),
      (''TEST_GAS_PRICE_DEVIATION'', NumberType, False, (Some (CNumber (Some (2 / 10))))),
      (''TEST_INITIAL_ACCOUNT_STARTING_BALANCE'', NumberType, False, (Some (CNumber (Some 2000)))),
      (''TEST_TRANSACTION_RECORD_COST_TOLERANCE'', NumberType, False, (Some (CNumber (Some (2 / 100))))),
      (''TEST_WS_SERVER'', BooleanType, False, (Some (CFlag False))),
      (''TIER_1_RATE_LIMIT'', NumberType, False, (Some (CNumber (Some 100)))),
      (''TIER_2_RATE_LIMIT'', NumberType, False, (Some (CNumber (Some 800)))),
      (''TIER_3_RATE_LIMIT'', NumberType, False, (Some (CNumber (Some 1600)))),
      (''TX_DEFAULT_GAS'', NumberType, False, None),
      (''USE_ASYNC_TX_PROCESSING'', BooleanType, False, (Some (CFlag True))),
      (''USE_MIRROR_NODE_MODULARIZED_SERVICES'', BooleanType, False, None),
      (''WEB_SOCKET_HTTP_PORT'', NumberType, False, (Some (CNumber (Some 8547)))),
      (''WEB_SOCKET_PORT'', NumberType, False, (Some (CNumber (Some 8546)))),
      (''WRITE_SNAPSHOT_ON_MEMORY_LEAK'', BooleanType, False, None),
      (''WS_BATCH_REQUESTS_ENABLED'', BooleanType, False, (Some (CFlag True))),
      (''WS_BATCH_REQUESTS_MAX_SIZE'', NumberType, False, (Some (CNumber (Some 20)))),
      (''WS_CACHE_TTL'', NumberType, False, (Some (CNumber (Some 20000)))),
      (''WS_CONNECTION_LIMIT'', NumberType, False, (Some (CNumber (Some 10)))),
      (''WS_CONNECTION_LIMIT_PER_IP'', NumberType, False, (Some (CNumber (Some 10)))),
      (''WS_MAX_INACTIVITY_TTL'', NumberType, False, (Some (CNumber (Some 300000)))),
      (''WS_MULTIPLE_ADDRESSES_ENABLED'', BooleanType, False, (Some (CFlag False)))]"

definition config_entries_6 :: "config_property list" where
  "config_entries_6 =
     [(''WS_NEW_HEADS_ENABLED'', BooleanType, False, (Some (CFlag True))),
      (''WS_PING_INTERVAL'', NumberType, False, (Some (CNumber (Some 100000)))),
      (''WS_POLLING_INTERVAL'', NumberType, False, (Some (CNumber (Some 500)))),
      (''WS_RELAY_URL'', StringType, False, (Some (CText ''ws://127.0.0.1:8546''))),
      (''WS_SAME_SUB_FOR_SAME_EVENT'', BooleanType, False, (Some (CFlag True))),
      (''WS_SUBSCRIPTION_LIMIT'', NumberType, False, (Some (CNumber (Some 10))))]"

definition ENTRIES :: "config_property list" where
  "ENTRIES = config_entries_1 @ config_entries_2 @ config_entries_3 @ config_entries_4 @ config_entries_5 @ config_entries_6"

subsection \<open>Validation and conversion\<close>

definition mandatory_error :: "string \<Rightarrow> string" where
  "mandatory_error name = ''Configuration error: '' @ name @ '' is a mandatory configuration for relay operation.''"

definition number_of_text :: "string \<Rightarrow> rat option" where
  "number_of_text s = (case js_Number (JStr s) of Num n \<Rightarrow> Some (of_int n) | NotANumber \<Rightarrow> decimal_value (js_trim s))"

fun is_number :: "jsv \<Rightarrow> bool" where
  "is_number (JNum n) = True"
| "is_number v = False"

fun is_string :: "jsv \<Rightarrow> bool" where
  "is_string (JStr s) = True"
| "is_string v = False"

definition check_array :: "config_env \<Rightarrow> string \<Rightarrow> config_type \<Rightarrow> string \<Rightarrow> string + unit" where
  "check_array env name type s =
     (case cf_parse env s of
        None \<Rightarrow> Inl (''Configuration error: '' @ name @ '' must be a valid JSON string.'')
      | Some (JArr items) \<Rightarrow>
          ensure (list_all (if type = NumArrayType then is_number else is_string) items)
            (''Configuration error: '' @ name @ '' must contain only '' @ (if type = NumArrayType then ''numbers'' else ''strings'') @ ''.'')
      | Some v \<Rightarrow> Inl (''Configuration error: '' @ name @ '' must be a valid JSON array.''))"

definition check_entry :: "config_env \<Rightarrow> (string \<times> string) list \<Rightarrow> config_property \<Rightarrow> string + unit" where
  "check_entry env envs entry =
     (case entry of (name, type, required, _) \<Rightarrow>
        if \<not> required then Inr ()
        else case map_of envs name of
          None \<Rightarrow> Inl (mandatory_error name)
        | Some s \<Rightarrow>
            if type = NumberType \<and> number_of_text s = None
            then Inl (''Configuration error: '' @ name @ '' must be a valid number.'')
            else if type \<in> {StrArrayType, NumArrayType} \<and> s \<noteq> '''' then check_array env name type s
            else Inr ())"

fun check_entries :: "config_env \<Rightarrow> (string \<times> string) list \<Rightarrow> config_property list \<Rightarrow> string + unit" where
  "check_entries env envs [] = Inr ()"
| "check_entries env envs (e # es) = and_then (check_entry env envs e) (\<lambda>_. check_entries env envs es)"

definition startUp :: "config_env \<Rightarrow> (string \<times> string) list \<Rightarrow> string + unit" where
  "startUp env envs = check_entries env envs ENTRIES"

definition cast_value :: "config_env \<Rightarrow> config_type \<Rightarrow> string \<Rightarrow> string + config_value" where
  "cast_value env type s =
     (case type of
        NumberType \<Rightarrow> Inr (CNumber (number_of_text s))
      | BooleanType \<Rightarrow> Inr (CFlag (s = ''true''))
      | StringType \<Rightarrow> Inr (CText s)
      | _ \<Rightarrow> (case cf_parse env (if s = '''' then ''[]'' else s) of None \<Rightarrow> Inl ''SyntaxError'' | Some v \<Rightarrow> Inr (CJson v)))"

fun cast_entries ::
  "config_env \<Rightarrow> (string \<times> string) list \<Rightarrow> config_property list \<Rightarrow> string + (string \<times> config_value) list" where
  "cast_entries env envs [] = Inr []"
| "cast_entries env envs ((name, type, required, fallback) # es) =
     and_then (case map_of envs name of
         None \<Rightarrow> Inr (case fallback of None \<Rightarrow> [] | Some v \<Rightarrow> [(name, v)])
       | Some s \<Rightarrow> and_then (cast_value env type s) (\<lambda>v. Inr [(name, v)])) (\<lambda>here.
     and_then (cast_entries env envs es) (\<lambda>rest. Inr (here @ rest)))"

definition typeCasting :: "config_env \<Rightarrow> (string \<times> string) list \<Rightarrow> string + (string \<times> config_value) list" where
  "typeCasting env envs = cast_entries env envs ENTRIES"

text \<open>The constructor of \<open>ConfigService\<close>: the casted settings, or what it throws.\<close>

definition load_config :: "config_env \<Rightarrow> (string \<times> string) list \<Rightarrow> string + (string \<times> config_value) list" where
  "load_config env envs = and_then (startUp env envs) (\<lambda>_. typeCasting env envs)"

subsection \<open>Reading a setting\<close>

definition chain_id_hex :: "config_value \<Rightarrow> config_value" where
  "chain_id_hex v =
     (case v of
        CText s \<Rightarrow> CText (case js_Number (JStr s) of Num n \<Rightarrow> numberTo0x n | NotANumber \<Rightarrow> EMPTY_HEX @ ''NaN'')
      | _ \<Rightarrow> v)"

text \<open>\<open>== undefined\<close> holds of \<open>null\<close> as well, the value of a setting that is the JSON text \<open>null\<close>.\<close>

fun given_value :: "config_value option \<Rightarrow> config_value option" where
  "given_value (Some (CJson JNull)) = None"
| "given_value v = v"

definition config_get :: "(string \<times> config_value) list \<Rightarrow> string \<Rightarrow> string + config_value option" where
  "config_get envs name =
     (let entry = map_of ENTRIES name;
          found = (case given_value (map_of envs name) of
                     None \<Rightarrow> (case entry of Some (type, required, fallback) \<Rightarrow> fallback | None \<Rightarrow> None)
                   | Some v \<Rightarrow> Some v)
      in if found = None \<and> (case entry of Some (type, required, fallback) \<Rightarrow> required | None \<Rightarrow> False)
         then Inl (mandatory_error name)
         else Inr (if name = ''CHAIN_ID'' then map_option chain_id_hex found else found))"

subsection \<open>Masking\<close>

definition SENSITIVE_FIELDS :: "string list" where
  "SENSITIVE_FIELDS = [''OPERATOR_KEY_MAIN'', ''OPERATOR_KEY_ETH_SENDRAWTRANSACTION'', ''GITHUB_TOKEN'', ''GH_ACCESS_TOKEN'']"

definition alphanumeric :: "char \<Rightarrow> bool" where
  "alphanumeric c = (let n = (of_char c :: nat) in (48 \<le> n \<and> n \<le> 57) \<or> (65 \<le> n \<and> n \<le> 90) \<or> (97 \<le> n \<and> n \<le> 122))"

text \<open>\<open>GITHUB_SECRET_PATTERN\<close>: \<open>gh[pousr]_\<close> and 36 to 251 letters or digits, or \<open>github_pat_\<close>, 22, an underscore and 59.\<close>

definition github_secret :: "string \<Rightarrow> bool" where
  "github_secret s \<longleftrightarrow>
     (4 \<le> length s \<and> take 2 s = ''gh'' \<and> s ! 2 \<in> set ''pousr'' \<and> s ! 3 = CHR ''_'' \<and>
        list_all alphanumeric (drop 4 s) \<and> 36 \<le> length (drop 4 s) \<and> length (drop 4 s) \<le> 251) \<or>
     (length s = 93 \<and> take 11 s = ''github_pat_'' \<and> list_all alphanumeric (take 22 (drop 11 s)) \<and> s ! 33 = CHR ''_'' \<and>
        list_all alphanumeric (drop 34 s))"

definition number_text :: "config_env \<Rightarrow> rat option \<Rightarrow> string" where
  "number_text env v =
     (case v of None \<Rightarrow> ''NaN'' | Some r \<Rightarrow> if of_int \<lfloor>r\<rfloor> = r then show_int \<lfloor>r\<rfloor> else cf_fractionText env r)"

fun config_text :: "config_env \<Rightarrow> config_value \<Rightarrow> string" where
  "config_text env (CText s) = s"
| "config_text env (CNumber v) = number_text env v"
| "config_text env (CFlag b) = (if b then ''true'' else ''false'')"
| "config_text env (CJson v) = js_to_string v"

definition masked_text :: string where "masked_text = ''**********''"

definition maskUpEnv :: "config_env \<Rightarrow> string \<Rightarrow> config_value \<Rightarrow> string" where
  "maskUpEnv env envName envValue =
     (let isSensitiveField = (envName \<in> set SENSITIVE_FIELDS);
          isKnownSecret = (case envValue of CText s \<Rightarrow> github_secret s | _ \<Rightarrow> False)
      in envName @ '' = '' @ (if isSensitiveField \<or> isKnownSecret then masked_text else config_text env envValue))"

text \<open>What stands before the first \<open>sep\<close>, and what stands after it.\<close>

fun before_text :: "string \<Rightarrow> string \<Rightarrow> string" where
  "before_text sep [] = []"
| "before_text sep (c # cs) = (if take (length sep) (c # cs) = sep then [] else c # before_text sep cs)"

definition after_text :: "string \<Rightarrow> string \<Rightarrow> string" where
  "after_text sep s = drop (length (before_text sep s) + length sep) s"

text \<open>\<open>maskedAsText.split(' = ')\<close>, of which the first and the second part are used.\<close>

definition masked_pair :: "config_env \<Rightarrow> string \<times> config_value \<Rightarrow> string \<times> string" where
  "masked_pair env setting =
     (let maskedAsText = maskUpEnv env (fst setting) (snd setting)
      in (before_text '' = '' maskedAsText, before_text '' = '' (after_text '' = '' maskedAsText)))"

definition getAllMasked :: "config_env \<Rightarrow> (string \<times> config_value) list \<Rightarrow> (string \<times> string) list" where
  "getAllMasked env envs = map (masked_pair env) envs"

subsection \<open>The published configuration\<close>

text \<open>
  \<open>getConsensusNodeVersion\<close>: the status page is a parameter, \<open>None\<close> when it cannot be read; the version
  stands in brackets in the name of the component of the network.
\<close>

definition index_of_char :: "char \<Rightarrow> string \<Rightarrow> int" where
  "index_of_char c s = (if c \<in> set s then int (length (takeWhile (\<lambda>x. x \<noteq> c) s)) else - 1)"

definition js_substring :: "int \<Rightarrow> int \<Rightarrow> string \<Rightarrow> string" where
  "js_substring a b s =
     (let n = int (length s); a' = min (max a 0) n; b' = min (max b 0) n
      in take (nat (max a' b' - min a' b')) (drop (nat (min a' b')) s))"

definition ends_with :: "string \<Rightarrow> string \<Rightarrow> bool" where
  "ends_with suffix s = (drop (length s - length suffix) s = suffix)"

definition to_lower :: "char \<Rightarrow> char" where
  "to_lower c = (let n = (of_char c :: nat) in if 65 \<le> n \<and> n \<le> 90 then char_of (n + 32) else c)"

definition getConsensusNodeVersion :: "string \<Rightarrow> string list option \<Rightarrow> string" where
  "getConsensusNodeVersion targetNetwork components =
     (case components of
        None \<Rightarrow> ''local''
      | Some names \<Rightarrow>
          (case filter (\<lambda>name. ends_with '' | Network Uptime'' name \<and> str_includes targetNetwork (map to_lower name)) names of
             [] \<Rightarrow> ''local''
           | networkName # _ \<Rightarrow>
               js_substring (index_of_char CHR ''('' networkName + 2) (index_of_char CHR '')'' networkName) networkName))"

definition config_object :: "(string \<times> string) list \<Rightarrow> jsv" where
  "config_object ps = JObj (map (\<lambda>(k, v). (k, JStr v)) ps)"

definition sdk_setting :: "string \<times> string \<Rightarrow> bool" where "sdk_setting p = starts_with ''SDK_'' (fst p)"
definition mirror_setting :: "string \<times> string \<Rightarrow> bool" where "mirror_setting p = starts_with ''MIRROR_NODE_'' (fst p)"

definition admin_info :: "jsv \<Rightarrow> (string \<times> string) list \<Rightarrow> string \<Rightarrow> jsv" where
  "admin_info version maskedEnvs consensusVersion =
     JObj [(''relay'', JObj [(''version'', version),
              (''config'', config_object (filter (\<lambda>p. \<not> sdk_setting p \<and> \<not> mirror_setting p) maskedEnvs))]),
           (''upstreamDependencies'', JArr
              [JObj [(''service'', JStr ''consensusNode''), (''version'', JStr consensusVersion),
                     (''config'', config_object (filter sdk_setting maskedEnvs))],
               JObj [(''service'', JStr ''mirrorNode''), (''config'', config_object (filter mirror_setting maskedEnvs))]])]"

definition ADMIN_CONFIG :: string where "ADMIN_CONFIG = ''ADMIN_CONFIG''"

definition admin_config ::
  "('c, 'r, 'w) mirror_env \<Rightarrow> config_env \<Rightarrow> (string \<times> config_value) list \<Rightarrow> string \<Rightarrow> string list option \<Rightarrow> ('c, 'r, 'w, jsv) relay_action"
where
  "admin_config env cfg envs targetNetwork components =
     and_do (cached_get env ADMIN_CONFIG) (\<lambda>cached.
       if truthy cached then ret cached
       else and_do (lift (case config_get envs ''npm_package_version'' of Inl m \<Rightarrow> Inl (ThrownOther m) | Inr v \<Rightarrow> Inr v)) (\<lambda>version.
         let info = admin_info (case version of Some (CText s) \<Rightarrow> JStr s | _ \<Rightarrow> JUndef) (getAllMasked cfg envs)
                      (getConsensusNodeVersion targetNetwork components)
         in and_do (cached_set env ADMIN_CONFIG info None) (\<lambda>_. ret info)))"

subsection \<open>The table\<close>

fun has_type :: "config_type \<Rightarrow> config_value \<Rightarrow> bool" where
  "has_type StringType (CText s) = True"
| "has_type NumberType (CNumber n) = True"
| "has_type BooleanType (CFlag b) = True"
| "has_type StrArrayType (CJson v) = True"
| "has_type NumArrayType (CJson v) = True"
| "has_type _ _ = False"

definition mandatory_names :: "string list" where
  "mandatory_names = [''CHAIN_ID'', ''HEDERA_NETWORK'', ''MIRROR_NODE_URL'', ''npm_package_version'', ''OPERATOR_ID_MAIN'', ''OPERATOR_KEY_MAIN'']"

lemmas config_entries_defs =
  config_entries_1_def config_entries_2_def config_entries_3_def config_entries_4_def config_entries_5_def config_entries_6_def

definition config_names :: "string list" where
  "config_names =
     [''BATCH_REQUESTS_DISALLOWED_METHODS'', ''BATCH_REQUESTS_ENABLED'', ''BATCH_REQUESTS_MAX_SIZE'', ''CACHE_MAX'',
      ''CACHE_TTL'', ''CALL_DATA_SIZE_LIMIT'', ''CHAIN_ID'', ''CLIENT_TRANSPORT_SECURITY'', ''CONSENSUS_MAX_EXECUTION_TIME'',
      ''CONTRACT_CALL_GAS_LIMIT'', ''CONTRACT_QUERY_TIMEOUT_RETRIES'', ''DEBUG_API_ENABLED'', ''DEFAULT_RATE_LIMIT'',
      ''DEV_MODE'', ''DISABLE_ADMIN_NAMESPACE'', ''E2E_RELAY_HOST'', ''E2E_SERVER_PORT'', ''ESTIMATE_GAS_THROWS'',
      ''ETH_BLOCK_NUMBER_CACHE_TTL_MS'', ''ETH_CALL_ACCEPTED_ERRORS'', ''ETH_CALL_CACHE_TTL'',
      ''ETH_CALL_CONSENSUS_SELECTORS'', ''ETH_CALL_DEFAULT_TO_CONSENSUS_NODE'', ''ETH_FEE_HISTORY_FIXED'',
      ''ETH_GET_BALANCE_CACHE_TTL_MS'', ''ETH_GET_GAS_PRICE_CACHE_TTL_MS'', ''ETH_GET_LOGS_BLOCK_RANGE_LIMIT'',
      ''ETH_GET_TRANSACTION_COUNT_CACHE_TTL'', ''ETH_GET_TRANSACTION_COUNT_MAX_BLOCK_RANGE'',
      ''HEDERA_SPECIFIC_REVERT_STATUSES'', ''FEE_HISTORY_MAX_RESULTS'', ''FILE_APPEND_CHUNK_SIZE'',
      ''FILE_APPEND_MAX_CHUNKS'', ''FILTER_API_ENABLED'', ''FILTER_TTL'', ''GAS_PRICE_PERCENTAGE_BUFFER'',
      ''GAS_PRICE_TINY_BAR_BUFFER'', ''GET_RECORD_DEFAULT_TO_CONSENSUS_NODE'', ''GH_ACCESS_TOKEN'', ''GITHUB_PR_NUMBER'',
      ''GITHUB_REPOSITORY'', ''GITHUB_TOKEN'', ''HAPI_CLIENT_DURATION_RESET'', ''HAPI_CLIENT_ERROR_RESET'',
      ''HAPI_CLIENT_TRANSACTION_RESET'', ''HBAR_RATE_LIMIT_BASIC'', ''HBAR_RATE_LIMIT_EXTENDED'',
      ''HBAR_RATE_LIMIT_PRIVILEGED'', ''HBAR_RATE_LIMIT_DURATION'', ''HBAR_RATE_LIMIT_TINYBAR'', ''HEDERA_NETWORK'',
      ''HBAR_SPENDING_PLANS_CONFIG'', ''INITIAL_BALANCE'', ''INPUT_SIZE_LIMIT'', ''JUMBO_TX_ENABLED'', ''LIMIT_DURATION'',
      ''LOCAL_NODE'', ''LOG_LEVEL'', ''MAX_BLOCK_RANGE'', ''MAX_TRANSACTION_FEE_THRESHOLD'', ''MEMWATCH_ENABLED'',
      ''MIRROR_NODE_AGENT_CACHEABLE_DNS'', ''MIRROR_NODE_CONTRACT_RESULTS_LOGS_PG_MAX'',
      ''MIRROR_NODE_CONTRACT_RESULTS_PG_MAX'', ''MIRROR_NODE_HTTP_KEEP_ALIVE'', ''MIRROR_NODE_HTTP_KEEP_ALIVE_MSECS'',
      ''MIRROR_NODE_HTTP_MAX_SOCKETS'', ''MIRROR_NODE_HTTP_MAX_TOTAL_SOCKETS'', ''MIRROR_NODE_HTTP_SOCKET_TIMEOUT'',
      ''MIRROR_NODE_LIMIT_PARAM'', ''MIRROR_NODE_MAX_REDIRECTS'', ''MIRROR_NODE_RETRIES'', ''MIRROR_NODE_RETRIES_DEVMODE'',
      ''MIRROR_NODE_RETRY_CODES'', ''MIRROR_NODE_RETRY_DELAY'', ''MIRROR_NODE_RETRY_DELAY_DEVMODE'',
      ''MIRROR_NODE_REQUEST_RETRY_COUNT'', ''MIRROR_NODE_TIMEOUT'', ''MIRROR_NODE_URL'',
      ''MIRROR_NODE_URL_HEADER_X_API_KEY'', ''MIRROR_NODE_URL_WEB3'', ''MULTI_SET'', ''npm_package_version'',
      ''OPCODELOGGER_ENABLED'', ''OPERATOR_ID_ETH_SENDRAWTRANSACTION'', ''OPERATOR_ID_MAIN'',
      ''OPERATOR_KEY_ETH_SENDRAWTRANSACTION'', ''OPERATOR_KEY_FORMAT'', ''OPERATOR_KEY_MAIN'', ''RATE_LIMIT_DISABLED'',
      ''REDIS_ENABLED'', ''IP_RATE_LIMIT_STORE'', ''REDIS_RECONNECT_DELAY_MS'', ''REDIS_URL'', ''REQUEST_ID_IS_OPTIONAL'',
      ''SDK_REQUEST_TIMEOUT'', ''SEND_RAW_TRANSACTION_SIZE_LIMIT'', ''SERVER_HOST'', ''SERVER_PORT'',
      ''SERVER_REQUEST_TIMEOUT_MS'', ''SUBSCRIPTIONS_ENABLED'', ''TEST'', ''TEST_GAS_PRICE_DEVIATION'',
      ''TEST_INITIAL_ACCOUNT_STARTING_BALANCE'', ''TEST_TRANSACTION_RECORD_COST_TOLERANCE'', ''TEST_WS_SERVER'',
      ''TIER_1_RATE_LIMIT'', ''TIER_2_RATE_LIMIT'', ''TIER_3_RATE_LIMIT'', ''TX_DEFAULT_GAS'', ''USE_ASYNC_TX_PROCESSING'',
      ''USE_MIRROR_NODE_MODULARIZED_SERVICES'', ''WEB_SOCKET_HTTP_PORT'', ''WEB_SOCKET_PORT'',
      ''WRITE_SNAPSHOT_ON_MEMORY_LEAK'', ''WS_BATCH_REQUESTS_ENABLED'', ''WS_BATCH_REQUESTS_MAX_SIZE'', ''WS_CACHE_TTL'',
      ''WS_CONNECTION_LIMIT'', ''WS_CONNECTION_LIMIT_PER_IP'', ''WS_MAX_INACTIVITY_TTL'', ''WS_MULTIPLE_ADDRESSES_ENABLED'',
      ''WS_NEW_HEADS_ENABLED'', ''WS_PING_INTERVAL'', ''WS_POLLING_INTERVAL'', ''WS_RELAY_URL'',
      ''WS_SAME_SUB_FOR_SAME_EVENT'', ''WS_SUBSCRIPTION_LIMIT'']"

lemma config_names: "map fst ENTRIES = config_names"
  by (simp add: ENTRIES_def config_entries_defs config_names_def)

definition name_number :: "string \<Rightarrow> int" where
  "name_number s = foldl (\<lambda>n c. 2 * n + of_char c) 0 s"

lemma config_names_distinct: "distinct config_names"
proof -
  have "distinct (map name_number config_names)" by code_simp
  then show ?thesis by (simp add: distinct_map)
qed

lemma entries_distinct: "distinct (map fst ENTRIES)"
  by (simp only: config_names config_names_distinct)

lemma mandatory_entries: "map fst (filter (\<lambda>(name, type, required, fallback). required) ENTRIES) = mandatory_names"
  by (simp add: ENTRIES_def config_entries_defs mandatory_names_def)

lemma mandatory_text: "list_all (\<lambda>(name, type, required, fallback). required \<longrightarrow> type = StringType) ENTRIES"
  by (simp add: ENTRIES_def config_entries_defs)

lemma fallback_typed:
  "list_all (\<lambda>(name, type, required, fallback). case fallback of None \<Rightarrow> True | Some v \<Rightarrow> has_type type v) ENTRIES"
  by (simp add: ENTRIES_def config_entries_defs)

subsection \<open>What the start-up checks\<close>

lemma check_entries_iff: "check_entries env envs es = Inr () \<longleftrightarrow> list_all (\<lambda>e. check_entry env envs e = Inr ()) es"
  by (induction es) (auto simp: and_then_Inr_iff)

lemma check_text_entry:
  assumes "case e of (name, type, required, fallback) \<Rightarrow> required \<longrightarrow> type = StringType"
  shows "check_entry env envs e = Inr () \<longleftrightarrow>
    (case e of (name, type, required, fallback) \<Rightarrow> required \<longrightarrow> name \<in> fst ` set envs)"
  using assms
proof (cases e)
  case (fields name type required fallback)
  have present: "name \<in> fst ` set envs \<longleftrightarrow> map_of envs name \<noteq> None"
    by (simp add: map_of_eq_None_iff)
  show ?thesis
    using assms by (cases "map_of envs name") (auto simp: fields check_entry_def present)
qed

text \<open>
  The start-up accepts an environment exactly when it names the six mandatory settings; the checks of numbers
  and of arrays never apply, because every mandatory setting is a text.
\<close>

theorem startup_checks_presence: "startUp env envs = Inr () \<longleftrightarrow> set mandatory_names \<subseteq> fst ` set envs"
proof -
  have "startUp env envs = Inr () \<longleftrightarrow>
      list_all (\<lambda>(name, type, required, fallback). required \<longrightarrow> name \<in> fst ` set envs) ENTRIES"
    using mandatory_text unfolding startUp_def check_entries_iff list_all_iff by (auto simp: check_text_entry)
  also have "\<dots> \<longleftrightarrow> set (map fst (filter (\<lambda>(name, type, required, fallback). required) ENTRIES)) \<subseteq> fst ` set envs"
    by (fastforce simp: list_all_iff image_subset_iff)
  finally show ?thesis by (simp only: mandatory_entries)
qed

subsection \<open>What the conversion gives\<close>

definition entry_settings ::
  "config_env \<Rightarrow> (string \<times> string) list \<Rightarrow> config_property \<Rightarrow> (string \<times> config_value) list" where
  "entry_settings env envs entry =
     (case entry of (name, type, required, fallback) \<Rightarrow>
        case (case map_of envs name of
                None \<Rightarrow> fallback
              | Some s \<Rightarrow> (case cast_value env type s of Inr v \<Rightarrow> Some v | Inl m \<Rightarrow> None)) of
          None \<Rightarrow> [] | Some v \<Rightarrow> [(name, v)])"

lemma cast_entries_list: "cast_entries env envs es = Inr settings \<Longrightarrow> settings = concat (map (entry_settings env envs) es)"
proof (induction es arbitrary: settings)
  case (Cons e es)
  obtain name type required fallback where "e = (name, type, required, fallback)" by (cases e)
  with Cons show ?case
    by (auto simp: entry_settings_def and_then_Inr_iff split: option.split_asm option.split)
qed simp

lemma entry_settings_name: "fst ` set (entry_settings env envs e) \<subseteq> {fst e}"
  by (auto simp: entry_settings_def split: option.splits prod.splits)

lemma map_of_entry_settings:
  "distinct (map fst es) \<Longrightarrow> map_of (concat (map (entry_settings env envs) es)) name =
     (case map_of es name of None \<Rightarrow> None | Some e \<Rightarrow> map_of (entry_settings env envs (name, e)) name)"
proof (induction es)
  case (Cons e es)
  have skip: "map_of (entry_settings env envs e) name = None" if "fst e \<noteq> name"
    using entry_settings_name [of env envs e] that by (auto simp: map_of_eq_None_iff)
  show ?case
  proof (cases "fst e = name")
    case True
    then have "map_of (concat (map (entry_settings env envs) es)) name = None"
      using Cons.IH Cons.prems by (auto simp: map_of_eq_None_iff split: option.split) (metis map_of_SomeD fst_conv image_eqI option.exhaust)
    with True show ?thesis by (cases e) (auto simp: map_add_def split: option.split)
  next
    case False
    with skip Cons show ?thesis by (cases e) (auto simp: map_add_def split: option.split)
  qed
qed simp

lemma typeCasting_list: "typeCasting env envs = Inr settings \<Longrightarrow> settings = concat (map (entry_settings env envs) ENTRIES)"
  unfolding typeCasting_def by (rule cast_entries_list)

lemma typeCasting_lookup:
  assumes "typeCasting env envs = Inr settings"
  shows "map_of settings name =
    (case map_of ENTRIES name of None \<Rightarrow> None | Some e \<Rightarrow> map_of (entry_settings env envs (name, e)) name)"
  using map_of_entry_settings [OF entries_distinct] typeCasting_list [OF assms] by simp

lemma cast_value_typed: "cast_value env type s = Inr v \<Longrightarrow> has_type type v"
  by (cases type) (auto simp: cast_value_def split: option.split_asm)

lemma entry_settings_typed:
  assumes "map_of ENTRIES name = Some (type, required, fallback)"
    and "map_of (entry_settings env envs (name, type, required, fallback)) name = Some v"
  shows "has_type type v"
proof -
  have "(name, type, required, fallback) \<in> set ENTRIES" using assms(1) by (rule map_of_SomeD)
  then have "case fallback of None \<Rightarrow> True | Some v \<Rightarrow> has_type type v"
    using fallback_typed by (auto simp: list_all_iff)
  then show ?thesis
    using assms(2) by (auto simp: entry_settings_def cast_value_typed split: option.split_asm sum.split_asm)
qed

lemma given_value_Some: "given_value x = Some v \<Longrightarrow> x = Some v"
  by (cases x rule: given_value.cases) simp_all

lemma config_get_text:
  assumes "name \<noteq> ''CHAIN_ID''"
  shows "config_get settings name =
    (case given_value (map_of settings name) of
       Some v \<Rightarrow> Inr (Some v)
     | None \<Rightarrow> (case map_of ENTRIES name of
          None \<Rightarrow> Inr None
        | Some (type, required, fallback) \<Rightarrow>
            (case fallback of Some v \<Rightarrow> Inr (Some v) | None \<Rightarrow> if required then Inl (mandatory_error name) else Inr None)))"
  using assms by (auto simp: config_get_def Let_def split: option.split)

text \<open>
  A setting that is read after the conversion has the type its entry declares.
\<close>

theorem settings_have_their_types:
  assumes "typeCasting env envs = Inr settings" and "map_of ENTRIES name = Some (type, required, fallback)"
    and "config_get settings name = Inr (Some v)"
  shows "has_type type v"
proof -
  have "(name, type, required, fallback) \<in> set ENTRIES" using assms(2) by (rule map_of_SomeD)
  then have fallback: "case fallback of None \<Rightarrow> True | Some v \<Rightarrow> has_type type v"
    using fallback_typed by (auto simp: list_all_iff)
  define found where "found = (case given_value (map_of settings name) of None \<Rightarrow> fallback | Some v \<Rightarrow> Some v)"
  have typed: "has_type type w" if "found = Some w" for w
    using that fallback typeCasting_lookup [OF assms(1), of name] entry_settings_typed [OF assms(2), of env envs]
    by (auto simp: found_def assms(2) dest: given_value_Some split: option.split_asm)
  have chain: "has_type type (chain_id_hex w)" if "has_type type w" for w
    using that by (cases w; cases type) (simp_all add: chain_id_hex_def)
  have "Some v = (if name = ''CHAIN_ID'' then map_option chain_id_hex found else found)"
    using assms(2,3) by (auto simp: config_get_def Let_def found_def split: if_split_asm option.split_asm)
  then show ?thesis using typed chain by (cases found) (auto split: if_split_asm)
qed

text \<open>
  C19. Once the configuration is loaded, no setting fails to be read, and the mandatory ones have a value.
\<close>

theorem loaded_config_never_fails:
  assumes "load_config env envs = Inr settings"
  shows "\<exists>v. config_get settings name = Inr v \<and> (name \<in> set mandatory_names \<longrightarrow> v \<noteq> None)"
proof -
  have cast: "typeCasting env envs = Inr settings" and present: "set mandatory_names \<subseteq> fst ` set envs"
    using assms by (auto simp: load_config_def and_then_Inr_iff startup_checks_presence)
  have found: "given_value (map_of settings name) \<noteq> None" if "name \<in> set mandatory_names"
  proof -
    have "name \<in> set (map fst (filter (\<lambda>(name, type, required, fallback). required) ENTRIES))"
      using that by (simp only: mandatory_entries)
    then obtain type fallback where entry: "(name, type, True, fallback) \<in> set ENTRIES" by auto
    have lookup: "map_of ENTRIES name = Some (type, True, fallback)"
      by (rule map_of_is_SomeI [OF entries_distinct entry])
    have "type = StringType"
      using bspec [OF mandatory_text [unfolded list_all_iff] entry] by simp
    have "map_of envs name \<noteq> None"
      using subsetD [OF present that] by (simp only: map_of_eq_None_iff not_not)
    then obtain s where "map_of envs name = Some s" by (cases "map_of envs name") simp_all
    with \<open>type = StringType\<close> show ?thesis
      by (simp add: typeCasting_lookup [OF cast] lookup entry_settings_def cast_value_def)
  qed
  have mandatory: "name \<in> set mandatory_names" if "map_of ENTRIES name = Some (type, True, fallback)" for type fallback
    using map_of_SomeD [OF that] unfolding mandatory_entries [symmetric] by force
  define reading where "reading = (case given_value (map_of settings name) of
      None \<Rightarrow> (case map_of ENTRIES name of Some (type, required, fallback) \<Rightarrow> fallback | None \<Rightarrow> None) | Some v \<Rightarrow> Some v)"
  have some: "reading \<noteq> None" if "name \<in> set mandatory_names"
    using found [OF that] by (auto simp: reading_def)
  have "\<not> (reading = None \<and> (case map_of ENTRIES name of Some (type, required, fallback) \<Rightarrow> required | None \<Rightarrow> False))"
    using some mandatory by (cases "map_of ENTRIES name") auto
  then have "config_get settings name = Inr (if name = ''CHAIN_ID'' then map_option chain_id_hex reading else reading)"
    by (simp only: config_get_def Let_def reading_def [symmetric] if_False)
  with some show ?thesis by simp
qed

text \<open>The smallest environment that the start-up accepts, with a JSON reader that knows only the empty array.\<close>

definition sample_config_env :: config_env where
  "sample_config_env = \<lparr> cf_parse = \<lambda>s. if s = ''[]'' then Some (JArr []) else None, cf_fractionText = \<lambda>_. ''0.5'' \<rparr>"

definition sample_process_env :: "string \<Rightarrow> (string \<times> string) list" where
  "sample_process_env secret = map (\<lambda>name. (name, if name = ''OPERATOR_KEY_MAIN'' then secret else ''298'')) mandatory_names"

lemma config_entries_all:
  "ENTRIES = config_entries_1 @ config_entries_2 @ config_entries_3 @ config_entries_4 @ config_entries_5 @ config_entries_6"
  by (simp add: ENTRIES_def)

lemma sample_config_loads: "\<exists>settings. load_config sample_config_env (sample_process_env secret) = Inr settings"
proof -
  have present: "startUp sample_config_env (sample_process_env secret) = Inr ()"
    unfolding startup_checks_presence by (simp add: sample_process_env_def image_image)
  have "\<exists>settings. cast_entries sample_config_env (sample_process_env secret) es = Inr settings"
    if "list_all (\<lambda>(name, type, required, fallback). name \<in> set mandatory_names \<longrightarrow> type = StringType) es" for es
    using that
  proof (induction es)
    case (Cons e es)
    obtain name type required fallback where e: "e = (name, type, required, fallback)" by (cases e)
    obtain rest where rest: "cast_entries sample_config_env (sample_process_env secret) es = Inr rest"
      using Cons by auto
    have "map_of (sample_process_env secret) name = None \<or> type = StringType"
      using Cons.prems by (auto simp: e map_of_eq_None_iff sample_process_env_def)
    then show ?case
      by (cases "map_of (sample_process_env secret) name") (auto simp: e rest cast_value_def)
  qed simp
  moreover have "list_all (\<lambda>(name, type, required, fallback). name \<in> set mandatory_names \<longrightarrow> type = StringType) ENTRIES"
    by (simp add: ENTRIES_def config_entries_defs mandatory_names_def)
  ultimately have "\<exists>settings. typeCasting sample_config_env (sample_process_env secret) = Inr settings"
    by (simp add: typeCasting_def)
  with present show ?thesis by (auto simp: load_config_def)
qed

lemma loaded_config_never_fails_witness:
  "\<exists>settings v. load_config sample_config_env (sample_process_env ''key'') = Inr settings \<and>
     config_get settings ''CHAIN_ID'' = Inr (Some v)"
proof -
  obtain settings where "load_config sample_config_env (sample_process_env ''key'') = Inr settings"
    using sample_config_loads by blast
  with loaded_config_never_fails [OF this, of "''CHAIN_ID''"] show ?thesis by (auto simp: mandatory_names_def)
qed

lemma settings_have_their_types_witness:
  "\<exists>settings v. load_config sample_config_env (sample_process_env ''key'') = Inr settings \<and>
     config_get settings ''CACHE_MAX'' = Inr (Some v) \<and> has_type NumberType v"
proof -
  obtain settings where settings: "load_config sample_config_env (sample_process_env ''key'') = Inr settings"
    using sample_config_loads by blast
  have cast: "typeCasting sample_config_env (sample_process_env ''key'') = Inr settings"
    using settings by (auto simp: load_config_def and_then_Inr_iff)
  have entry: "map_of ENTRIES ''CACHE_MAX'' = Some (NumberType, False, Some (CNumber (Some 1000)))"
    by (rule map_of_is_SomeI [OF entries_distinct]) (simp add: ENTRIES_def config_entries_1_def)
  have "map_of (sample_process_env ''key'') ''CACHE_MAX'' = None"
    by (simp add: sample_process_env_def mandatory_names_def)
  then have "config_get settings ''CACHE_MAX'' = Inr (Some (CNumber (Some 1000)))"
    by (simp add: config_get_text typeCasting_lookup [OF cast] entry entry_settings_def)
  with settings settings_have_their_types [OF cast entry] show ?thesis by blast
qed

subsection \<open>What is published\<close>

lemma sensitive_text:
  "list_all (\<lambda>(name, type, required, fallback). name \<in> set SENSITIVE_FIELDS \<longrightarrow> type = StringType) ENTRIES"
  by (simp add: ENTRIES_def config_entries_defs SENSITIVE_FIELDS_def)

lemma masked_sensitive: "name \<in> set SENSITIVE_FIELDS \<Longrightarrow> masked_pair env (name, v) = masked_pair env (name, w)"
  by (simp add: masked_pair_def maskUpEnv_def)

lemma same_entry_masked:
  assumes "e \<in> set ENTRIES"
    and "\<And>name. map_of envs name = None \<longleftrightarrow> map_of envs' name = None"
    and "\<And>name. name \<notin> set SENSITIVE_FIELDS \<Longrightarrow> map_of envs name = map_of envs' name"
  shows "map (masked_pair env) (entry_settings env envs e) = map (masked_pair env) (entry_settings env envs' e)"
proof -
  obtain name type required fallback where e: "e = (name, type, required, fallback)" by (cases e)
  show ?thesis
  proof (cases "name \<in> set SENSITIVE_FIELDS")
    case False
    then show ?thesis using assms(3) [of name] by (simp add: entry_settings_def e)
  next
    case True
    then have string: "type = StringType"
      using bspec [OF sensitive_text [unfolded list_all_iff] assms(1)] by (simp add: e)
    show ?thesis
      using assms(2) [of name] masked_sensitive [OF True]
      by (auto simp: entry_settings_def e string cast_value_def split: option.split)
  qed
qed

text \<open>
  C18. What the relay publishes of its configuration does not depend on the private keys of the operators nor on the
  tokens for GitHub: two environments that differ only in these four settings are published alike.
\<close>

theorem published_config_hides_keys:
  assumes "load_config env envs = Inr settings" and "load_config env envs' = Inr settings'"
    and "\<And>name. map_of envs name = None \<longleftrightarrow> map_of envs' name = None"
    and "\<And>name. name \<notin> {''OPERATOR_KEY_MAIN'', ''OPERATOR_KEY_ETH_SENDRAWTRANSACTION'', ''GITHUB_TOKEN'', ''GH_ACCESS_TOKEN''} \<Longrightarrow>
         map_of envs name = map_of envs' name"
  shows "admin_info version (getAllMasked env settings) consensusVersion =
    admin_info version (getAllMasked env settings') consensusVersion"
proof -
  have same: "map_of envs name = map_of envs' name" if "name \<notin> set SENSITIVE_FIELDS" for name
    using assms(4) [of name] that by (simp add: SENSITIVE_FIELDS_def)
  have lists: "settings = concat (map (entry_settings env envs) ENTRIES)"
    "settings' = concat (map (entry_settings env envs') ENTRIES)"
    using assms(1,2) by (auto simp: load_config_def and_then_Inr_iff typeCasting_list)
  have "map (map (masked_pair env) \<circ> entry_settings env envs) ENTRIES = map (map (masked_pair env) \<circ> entry_settings env envs') ENTRIES"
    using same_entry_masked [OF _ assms(3) same] by simp
  then have "getAllMasked env settings = getAllMasked env settings'"
    unfolding getAllMasked_def lists map_concat map_map by (rule arg_cong)
  then show ?thesis by simp
qed

lemma published_config_hides_keys_witness:
  "\<exists>settings settings'. load_config sample_config_env (sample_process_env ''key'') = Inr settings \<and>
     load_config sample_config_env (sample_process_env ''other'') = Inr settings' \<and>
     admin_info (JStr ''1'') (getAllMasked sample_config_env settings) ''v2'' =
     admin_info (JStr ''1'') (getAllMasked sample_config_env settings') ''v2''"
proof -
  obtain settings settings' where loaded: "load_config sample_config_env (sample_process_env ''key'') = Inr settings"
    "load_config sample_config_env (sample_process_env ''other'') = Inr settings'"
    using sample_config_loads by blast
  have "map_of (sample_process_env ''key'') name = None \<longleftrightarrow> map_of (sample_process_env ''other'') name = None" for name
    by (simp add: sample_process_env_def map_of_eq_None_iff image_image)
  moreover have "map_of (sample_process_env ''key'') name = map_of (sample_process_env ''other'') name"
    if "name \<notin> {''OPERATOR_KEY_MAIN'', ''OPERATOR_KEY_ETH_SENDRAWTRANSACTION'', ''GITHUB_TOKEN'', ''GH_ACCESS_TOKEN''}" for name
    using that by (simp add: sample_process_env_def mandatory_names_def)
  ultimately show ?thesis using published_config_hides_keys [OF loaded] loaded by blast
qed

end
