(* ===== verification/SpendingPlanConfig.thy ===== *)
theory SpendingPlanConfig
  imports HbarPlans JsonValues "HOL-Library.AList"
begin

section \<open>Configured spending plans\<close>

text \<open>
  Models \<open>hbarSpendingPlanConfigService.ts\<close> and \<open>spendingPlanConfig.ts\<close>: the plans that the operator
  writes in \<open>HBAR_SPENDING_PLANS_CONFIG\<close> or in a file, and how a start brings the stored plans and the
  links of the addresses in line with them. The cache is the timed map of \<open>HbarPlans\<close>, kept here as the
  list of its entries, because the service asks for the keys of a collection. \<open>JSON.parse\<close> and the
  file system are parameters. The addresses of a plan are texts, as its interface declares.
\<close>

subsection \<open>The entries of the cache\<close>

type_synonym entries = "(string \<times> cache_value \<times> int option) list"

definition kv_set :: "int \<Rightarrow> string \<Rightarrow> cache_value \<Rightarrow> int \<Rightarrow> entries \<Rightarrow> entries" where
  "kv_set now k v ttl es = AList.update k (v, if 0 < ttl then Some (now + ttl) else None) es"

definition kv_delete :: "string \<Rightarrow> entries \<Rightarrow> entries" where
  "kv_delete k es = AList.delete k es"

text \<open>\<open>cache.keys(prefix + '*')\<close>.\<close>

definition kv_keys :: "int \<Rightarrow> string \<Rightarrow> entries \<Rightarrow> string list" where
  "kv_keys now prefix es = filter (\<lambda>k. starts_with prefix k \<and> tm_get now k (map_of es) \<noteq> None) (map fst es)"

lemma map_of_kv_set [simp]: "map_of (kv_set now k v ttl es) = tm_set now k v ttl (map_of es)"
  by (simp add: kv_set_def tm_set_def update_conv')

lemma map_of_kv_delete [simp]: "map_of (kv_delete k es) = tm_delete k (map_of es)"
  by (simp add: kv_delete_def tm_delete_def delete_conv')

lemma set_kv_keys: "set (kv_keys now prefix es) = {k. starts_with prefix k \<and> tm_get now k (map_of es) \<noteq> None}"
proof -
  have "k \<in> fst ` set es" if "tm_get now k (map_of es) \<noteq> None" for k
    using that by (auto simp: tm_get_def dom_map_of_conv_image_fst [symmetric] split: option.split_asm)
  then show ?thesis by (auto simp: kv_keys_def)
qed

subsection \<open>The repositories\<close>

definition evm_prefix :: string where "evm_prefix = ''evmAddressHbarSpendingPlan:''"
definition ip_prefix :: string where "ip_prefix = ''ipAddressHbarSpendingPlan:''"
definition plan_prefix :: string where "plan_prefix = ''hbarSpendingPlan:''"

text \<open>\<open>findAllActiveBySubscriptionTier\<close>: under the prefix of the plans are also their amounts, which have no tier.\<close>

definition plan_at :: "int \<Rightarrow> SubscriptionTier list \<Rightarrow> entries \<Rightarrow> string \<Rightarrow> spending_plan list" where
  "plan_at now tiers es k =
     (case tm_get now k (map_of es) of
        Some (PlanValue p) \<Rightarrow> if plan_subscriptionTier p \<in> set tiers \<and> plan_active p then [p] else []
      | _ \<Rightarrow> [])"

fun with_amounts :: "int \<Rightarrow> entries \<Rightarrow> spending_plan list \<Rightarrow> string + detailed_plan list" where
  "with_amounts now es [] = Inr []"
| "with_amounts now es (p # ps) =
     and_then (getAmountSpent now (plan_id p) (map_of es)) (\<lambda>amount.
     and_then (with_amounts now es ps) (\<lambda>rest. Inr (make_detailed p [] amount # rest)))"

definition findAllActiveBySubscriptionTier :: "int \<Rightarrow> SubscriptionTier list \<Rightarrow> entries \<Rightarrow> string + detailed_plan list" where
  "findAllActiveBySubscriptionTier now tiers es =
     with_amounts now es (concat (map (plan_at now tiers es) (kv_keys now plan_prefix es)))"

definition findAllByPlanId :: "string \<Rightarrow> int \<Rightarrow> string \<Rightarrow> entries \<Rightarrow> string list" where
  "findAllByPlanId prefix now planId es =
     concat (map (\<lambda>k. case tm_get now k (map_of es) of
         Some (LinkValue a p) \<Rightarrow> if p = planId then [a] else [] | _ \<Rightarrow> []) (kv_keys now prefix es))"

definition deleteAllByPlanId :: "string \<Rightarrow> int \<Rightarrow> string \<Rightarrow> entries \<Rightarrow> entries" where
  "deleteAllByPlanId prefix now planId es =
     foldl (\<lambda>es k. if find_link now k (map_of es) = Some planId then kv_delete k es else es) es (kv_keys now prefix es)"

subsection \<open>The configuration\<close>

record plan_config =
  pc_id :: string
  pc_name :: string
  pc_evmAddresses :: "string list option"
  pc_ipAddresses :: "string list option"
  pc_subscriptionTier :: SubscriptionTier

fun tier_of_text :: "string \<Rightarrow> SubscriptionTier option" where
  "tier_of_text s =
     (if s = ''BASIC'' then Some BASIC else if s = ''EXTENDED'' then Some EXTENDED
      else if s = ''PRIVILEGED'' then Some PRIVILEGED else if s = ''OPERATOR'' then Some OPERATOR else None)"

fun filled_array :: "jsv \<Rightarrow> bool" where
  "filled_array (JArr xs) = (xs \<noteq> [])"
| "filled_array _ = False"

definition isValidSpendingPlanConfig :: "jsv \<Rightarrow> bool" where
  "isValidSpendingPlanConfig plan \<longleftrightarrow>
     truthy plan \<and> js_typeof (js_prop plan ''id'') = ''string'' \<and> js_typeof (js_prop plan ''name'') = ''string'' \<and>
     js_typeof (js_prop plan ''subscriptionTier'') = ''string'' \<and>
     tier_of_text (js_to_string (js_prop plan ''subscriptionTier'')) \<noteq> None \<and>
     (filled_array (js_prop plan ''evmAddresses'') \<or> filled_array (js_prop plan ''ipAddresses''))"

fun address_texts :: "jsv \<Rightarrow> string list option" where
  "address_texts (JArr xs) = Some (map js_to_string xs)"
| "address_texts _ = None"

definition plan_config_of :: "jsv \<Rightarrow> plan_config" where
  "plan_config_of plan =
     \<lparr> pc_id = js_to_string (js_prop plan ''id''), pc_name = js_to_string (js_prop plan ''name''),
       pc_evmAddresses = address_texts (js_prop plan ''evmAddresses''),
       pc_ipAddresses = address_texts (js_prop plan ''ipAddresses''),
       pc_subscriptionTier = the (tier_of_text (js_to_string (js_prop plan ''subscriptionTier''))) \<rparr>"

definition evm_of :: "plan_config \<Rightarrow> string list" where
  "evm_of c = (case pc_evmAddresses c of None \<Rightarrow> [] | Some as \<Rightarrow> as)"

definition ip_of :: "plan_config \<Rightarrow> string list" where
  "ip_of c = (case pc_ipAddresses c of None \<Rightarrow> [] | Some as \<Rightarrow> as)"

text \<open>
  \<open>sp_parse\<close> gives the message of the syntax error, \<open>sp_file\<close> the message when the file cannot be
  read and \<open>None\<close> when there is none.
\<close>

record plan_source =
  sp_parse :: "string \<Rightarrow> string + jsv"
  sp_file :: "string \<Rightarrow> string + string option"

definition loadSpendingPlansConfig :: "plan_source \<Rightarrow> string option \<Rightarrow> string + jsv" where
  "loadSpendingPlansConfig src spendingPlanConfig =
     (case spendingPlanConfig of
        None \<Rightarrow> Inr (JArr [])
      | Some s \<Rightarrow>
          if s = '''' then Inr (JArr [])
          else (case sp_parse src s of
              Inr v \<Rightarrow> Inr v
            | Inl _ \<Rightarrow>
                (case sp_file src s of
                   Inl m \<Rightarrow> Inl (''File error: '' @ m)
                 | Inr None \<Rightarrow> Inr (JArr [])
                 | Inr (Some content) \<Rightarrow>
                     (case sp_parse src content of Inl m \<Rightarrow> Inl (''File error: '' @ m) | Inr v \<Rightarrow> Inr v))))"

fun validateSpendingPlanConfig :: "jsv list \<Rightarrow> string + unit" where
  "validateSpendingPlanConfig [] = Inr ()"
| "validateSpendingPlanConfig (plan # plans) =
     (if isValidSpendingPlanConfig plan then validateSpendingPlanConfig plans
      else Inl (''Invalid spending plan configuration: '' @ json_stringify plan))"

subsection \<open>The keys that are kept apart in the memory cache\<close>

definition all_texts :: "jsv list \<Rightarrow> bool" where
  "all_texts xs = list_all (\<lambda>x. js_typeof x = ''string'') xs"

text \<open>The keys of one plan; \<open>None\<close> is an exception.\<close>

definition plan_keys :: "jsv \<Rightarrow> string list option" where
  "plan_keys plan =
     (if plan = JNull \<or> plan = JUndef then None
      else let i = js_to_string (js_prop plan ''id'');
               evm = (case js_prop plan ''evmAddresses'' of
                        JUndef \<Rightarrow> Some []
                      | JArr xs \<Rightarrow> if all_texts xs then Some (map (\<lambda>x. evm_key (js_to_string x)) xs) else None
                      | _ \<Rightarrow> None);
               ip = (case js_prop plan ''ipAddresses'' of
                       JUndef \<Rightarrow> Some [] | JArr xs \<Rightarrow> Some (map (\<lambda>x. ip_key (js_to_string x)) xs) | _ \<Rightarrow> None)
           in case (evm, ip) of
                (Some es, Some is) \<Rightarrow> Some ([plan_key i, getAmountSpentKey i, getSpendingHistoryKey i] @ es @ is)
              | _ \<Rightarrow> None)"

fun all_plan_keys :: "jsv list \<Rightarrow> string list option" where
  "all_plan_keys [] = Some []"
| "all_plan_keys (plan # plans) =
     (case plan_keys plan of
        None \<Rightarrow> None
      | Some ks \<Rightarrow> (case all_plan_keys plans of None \<Rightarrow> None | Some ks' \<Rightarrow> Some (ks @ ks')))"

definition getPreconfiguredSpendingPlanKeys :: "plan_source \<Rightarrow> string option \<Rightarrow> string list" where
  "getPreconfiguredSpendingPlanKeys src spendingPlanConfig =
     (case loadSpendingPlansConfig src spendingPlanConfig of
        Inr (JArr plans) \<Rightarrow> (case all_plan_keys plans of None \<Rightarrow> [] | Some ks \<Rightarrow> remdups ks)
      | _ \<Rightarrow> [])"

subsection \<open>Bringing the store in line\<close>

definition TTL :: int where "TTL = - 1"

definition obsolete_plans :: "plan_config list \<Rightarrow> detailed_plan list \<Rightarrow> detailed_plan list" where
  "obsolete_plans spendingPlanConfigs existingPlans =
     filter (\<lambda>p. \<not> list_ex (\<lambda>spc. pc_id spc = plan_id p) spendingPlanConfigs) existingPlans"

definition remove_plan :: "int \<Rightarrow> string \<Rightarrow> entries \<Rightarrow> entries" where
  "remove_plan now i es =
     deleteAllByPlanId ip_prefix now i (deleteAllByPlanId evm_prefix now i (kv_delete (plan_key i) es))"

definition deleteObsoletePlans :: "int \<Rightarrow> detailed_plan list \<Rightarrow> plan_config list \<Rightarrow> entries \<Rightarrow> nat \<times> entries" where
  "deleteObsoletePlans now existingPlans spendingPlanConfigs es =
     (let plansToDelete = obsolete_plans spendingPlanConfigs existingPlans
      in (length plansToDelete, foldl (\<lambda>es p. remove_plan now (plan_id p) es) es plansToDelete))"

definition new_plans :: "plan_config list \<Rightarrow> detailed_plan list \<Rightarrow> plan_config list" where
  "new_plans spendingPlanConfigs existingPlans =
     filter (\<lambda>spc. \<not> list_ex (\<lambda>p. plan_id p = pc_id spc) existingPlans) spendingPlanConfigs"

definition store_plan :: "int \<Rightarrow> plan_config \<Rightarrow> entries \<Rightarrow> entries" where
  "store_plan now c es =
     kv_set now (plan_key (pc_id c))
       (PlanValue \<lparr> plan_id = pc_id c, plan_subscriptionTier = pc_subscriptionTier c, plan_createdAt = now, plan_active = True \<rparr>)
       TTL es"

definition addNewPlans :: "int \<Rightarrow> plan_config list \<Rightarrow> detailed_plan list \<Rightarrow> entries \<Rightarrow> nat \<times> entries" where
  "addNewPlans now spendingPlanConfigs existingPlans es =
     (let plansToAdd = new_plans spendingPlanConfigs existingPlans
      in (length plansToAdd, foldl (\<lambda>es c. store_plan now c es) es plansToAdd))"

text \<open>
  The two kinds of addresses differ in their keys. \<open>unlink_others\<close> is
  \<open>deleteObsoleteEvmAddressAssociations\<close>, \<open>update_links\<close> is \<open>updateEvmAddressAssociations\<close>.
\<close>

definition unlink_others :: "(string \<Rightarrow> string) \<Rightarrow> int \<Rightarrow> string \<Rightarrow> string list \<Rightarrow> entries \<Rightarrow> entries" where
  "unlink_others key now planId addresses es =
     foldl (\<lambda>es a. case find_link now (key a) (map_of es) of
         Some p \<Rightarrow> if p \<noteq> planId then kv_delete (key a) es else es | None \<Rightarrow> es) es addresses"

definition update_links :: "(string \<Rightarrow> string) \<Rightarrow> string \<Rightarrow> int \<Rightarrow> string \<Rightarrow> string list \<Rightarrow> entries \<Rightarrow> entries" where
  "update_links key prefix now planId addresses es =
     (let current = findAllByPlanId prefix now planId es;
          addressesToDelete = filter (\<lambda>a. a \<notin> set addresses) current;
          addressesToAdd = filter (\<lambda>a. a \<notin> set current) addresses
      in foldl (\<lambda>es a. kv_set now (key a) (LinkValue a planId) TTL es)
           (foldl (\<lambda>es a. kv_delete (key a) es) es addressesToDelete) addressesToAdd)"

definition deleteObsoleteEvmAddressAssociations :: "int \<Rightarrow> plan_config \<Rightarrow> entries \<Rightarrow> entries" where
  "deleteObsoleteEvmAddressAssociations now c es = unlink_others evm_key now (pc_id c) (evm_of c) es"

definition deleteObsoleteIpAddressAssociations :: "int \<Rightarrow> plan_config \<Rightarrow> entries \<Rightarrow> entries" where
  "deleteObsoleteIpAddressAssociations now c es = unlink_others ip_key now (pc_id c) (ip_of c) es"

definition updateEvmAddressAssociations :: "int \<Rightarrow> plan_config \<Rightarrow> entries \<Rightarrow> entries" where
  "updateEvmAddressAssociations now c es = update_links evm_key evm_prefix now (pc_id c) (evm_of c) es"

definition updateIpAddressAssociations :: "int \<Rightarrow> plan_config \<Rightarrow> entries \<Rightarrow> entries" where
  "updateIpAddressAssociations now c es = update_links ip_key ip_prefix now (pc_id c) (ip_of c) es"

definition update_associations :: "int \<Rightarrow> plan_config \<Rightarrow> entries \<Rightarrow> entries" where
  "update_associations now c es =
     updateIpAddressAssociations now c (updateEvmAddressAssociations now c
       (deleteObsoleteIpAddressAssociations now c (deleteObsoleteEvmAddressAssociations now c es)))"

definition updatePlanAssociations :: "int \<Rightarrow> plan_config list \<Rightarrow> entries \<Rightarrow> entries" where
  "updatePlanAssociations now spendingPlanConfigs es = foldl (\<lambda>es c. update_associations now c es) es spendingPlanConfigs"

definition configured_tiers :: "SubscriptionTier list" where "configured_tiers = [EXTENDED, PRIVILEGED]"

definition populate_plans :: "int \<Rightarrow> plan_config list \<Rightarrow> entries \<Rightarrow> (string + nat) \<times> entries" where
  "populate_plans now plans es =
     (case findAllActiveBySubscriptionTier now configured_tiers es of
        Inl m \<Rightarrow> (Inl m, es)
      | Inr existingPlans \<Rightarrow>
          (case deleteObsoletePlans now existingPlans plans es of
             (plansDeleted, es1) \<Rightarrow>
               (case addNewPlans now plans existingPlans es1 of
                  (plansAdded, es2) \<Rightarrow> (Inr (plansDeleted + plansAdded), updatePlanAssociations now plans es2))))"

text \<open>
  What the configuration holds when it is not an array: the length of a text is its characters, none of
  which is a plan; an object may have a length, but is not iterable.
\<close>

definition populatePreconfiguredSpendingPlans ::
  "plan_source \<Rightarrow> string option \<Rightarrow> int \<Rightarrow> entries \<Rightarrow> (string + nat) \<times> entries" where
  "populatePreconfiguredSpendingPlans src spendingPlanConfig now es =
     (case loadSpendingPlansConfig src spendingPlanConfig of
        Inl m \<Rightarrow> (Inl m, es)
      | Inr v \<Rightarrow>
          (case v of
             JArr plans \<Rightarrow>
               if plans = [] then (Inr 0, es)
               else (case validateSpendingPlanConfig plans of
                   Inl m \<Rightarrow> (Inl m, es)
                 | Inr _ \<Rightarrow> populate_plans now (map plan_config_of plans) es)
           | JStr s \<Rightarrow>
               (case validateSpendingPlanConfig (map (\<lambda>c. JStr [c]) s) of Inl m \<Rightarrow> (Inl m, es) | Inr _ \<Rightarrow> (Inr 0, es))
           | JNull \<Rightarrow> (Inl ''Cannot read properties of null'', es)
           | JUndef \<Rightarrow> (Inl ''Cannot read properties of undefined'', es)
           | _ \<Rightarrow> if truthy (js_prop v ''length'') then (Inl ''spendingPlans is not iterable'', es) else (Inr 0, es)))"

text \<open>What the constructor of \<open>RelayImpl\<close> does with the outcome: a failure is a warning in the log.\<close>

definition populate_at_startup :: "plan_source \<Rightarrow> string option \<Rightarrow> int \<Rightarrow> entries \<Rightarrow> string option \<times> entries" where
  "populate_at_startup src spendingPlanConfig now es =
     (case populatePreconfiguredSpendingPlans src spendingPlanConfig now es of
        (Inl m, es') \<Rightarrow> (Some (''Failed to load pre-configured spending plans: '' @ m), es')
      | (Inr plansUpdated, es') \<Rightarrow>
          (if 0 < plansUpdated then Some ''Pre-configured spending plans populated successfully'' else None, es'))"

subsection \<open>What the operations do to the links\<close>

definition well_linked :: "(string \<Rightarrow> string) \<Rightarrow> string \<Rightarrow> int \<Rightarrow> entries \<Rightarrow> bool" where
  "well_linked key prefix now es \<longleftrightarrow>
     (\<forall>k a p. starts_with prefix k \<longrightarrow> tm_get now k (map_of es) = Some (LinkValue a p) \<longrightarrow> k = key a)"

lemma well_linkedI:
  "(\<And>k a p. starts_with prefix k \<Longrightarrow> tm_get now k (map_of es) = Some (LinkValue a p) \<Longrightarrow> k = key a) \<Longrightarrow> well_linked key prefix now es"
  by (simp add: well_linked_def)

lemma well_linkedD:
  "well_linked key prefix now es \<Longrightarrow> starts_with prefix k \<Longrightarrow> tm_get now k (map_of es) = Some (LinkValue a p) \<Longrightarrow> k = key a"
  by (simp add: well_linked_def)

lemma find_link_iff: "find_link now k st = Some p \<longleftrightarrow> (\<exists>a. tm_get now k st = Some (LinkValue a p))"
  by (auto simp: find_link_def split: option.splits cache_value.splits)

lemma find_link_cong: "tm_get now k st = tm_get now k st' \<Longrightarrow> find_link now k st = find_link now k st'"
  by (simp add: find_link_def)

lemma tm_get_set_if:
  "tm_get now k' (tm_set now k v TTL st) = (if k' = k then Some v else tm_get now k' st)"
  by (simp add: TTL_def)

lemma tm_get_delete_if: "tm_get now k' (tm_delete k st) = (if k' = k then None else tm_get now k' st)"
  by simp

lemma get_delete_all:
  "tm_get now k (map_of (foldl (\<lambda>es a. kv_delete (key a) es) es as)) =
     (if k \<in> key ` set as then None else tm_get now k (map_of es))"
  by (induction as arbitrary: es) (auto simp: tm_get_delete_if)

lemma get_save_all:
  "k \<notin> key ` set as \<Longrightarrow>
     tm_get now k (map_of (foldl (\<lambda>es a. kv_set now (key a) (LinkValue a i) TTL es) es as)) = tm_get now k (map_of es)"
  by (induction as arbitrary: es) (auto simp: tm_get_set_if)

lemma get_saved:
  "k \<in> key ` set as \<Longrightarrow>
     \<exists>a \<in> set as. k = key a \<and>
       tm_get now k (map_of (foldl (\<lambda>es a. kv_set now (key a) (LinkValue a i) TTL es) es as)) = Some (LinkValue a i)"
proof (induction as arbitrary: es)
  case (Cons a as)
  show ?case
  proof (cases "k \<in> key ` set as")
    case True
    with Cons.IH show ?thesis by fastforce
  next
    case False
    with Cons.prems show ?thesis by (auto simp: get_save_all tm_get_set_if)
  qed
qed simp

lemma get_unlink_others:
  "k \<notin> key ` set as \<Longrightarrow> tm_get now k (map_of (unlink_others key now i as es)) = tm_get now k (map_of es)"
  unfolding unlink_others_def
  by (induction as arbitrary: es) (auto simp: tm_get_delete_if split: option.split)

lemma get_unlink_others_some:
  "tm_get now k (map_of (unlink_others key now i as es)) = Some v \<Longrightarrow> tm_get now k (map_of es) = Some v"
proof (induction as arbitrary: es)
  case (Cons a as)
  have "tm_get now k (map_of (unlink_others key now i [a] es)) = Some v"
    using Cons.IH Cons.prems by (simp add: unlink_others_def)
  then show ?case by (auto simp: unlink_others_def tm_get_delete_if split: option.split_asm if_split_asm)
qed (simp add: unlink_others_def)

lemma set_findAllByPlanId:
  "set (findAllByPlanId prefix now i es) = {a. \<exists>k. starts_with prefix k \<and> tm_get now k (map_of es) = Some (LinkValue a i)}"
  by (fastforce simp: findAllByPlanId_def set_kv_keys split: option.splits cache_value.splits if_split_asm)

locale address_links =
  fixes key :: "string \<Rightarrow> string" and prefix :: string
  assumes keyed: "starts_with prefix (key a)"
begin

lemma unlinked_well_linked: "well_linked key prefix now es \<Longrightarrow> well_linked key prefix now (unlink_others key now i as es)"
  by (rule well_linkedI) (metis get_unlink_others_some well_linkedD)

lemma untouched:
  assumes "\<not> starts_with prefix k" and "well_linked key prefix now es"
  shows "tm_get now k (map_of (update_links key prefix now i as es)) = tm_get now k (map_of es)"
proof -
  have "k \<notin> key ` A" for A using assms(1) keyed by auto
  then show ?thesis by (simp add: update_links_def Let_def get_save_all get_delete_all)
qed

lemma updated:
  assumes "well_linked key prefix now es"
  shows "find_link now k (map_of (update_links key prefix now i as es)) =
      (if k \<in> key ` set as then Some i
       else if starts_with prefix k \<and> find_link now k (map_of es) = Some i then None else find_link now k (map_of es))"
    and "well_linked key prefix now (update_links key prefix now i as es)"
proof -
  define current where "current = findAllByPlanId prefix now i es"
  define es1 where "es1 = foldl (\<lambda>es a. kv_delete (key a) es) es (filter (\<lambda>a. a \<notin> set as) current)"
  define es2 where "es2 = foldl (\<lambda>es a. kv_set now (key a) (LinkValue a i) TTL es) es1 (filter (\<lambda>a. a \<notin> set current) as)"
  have es2: "update_links key prefix now i as es = es2"
    by (simp add: update_links_def Let_def current_def es1_def es2_def)
  have linked: "tm_get now (key a) (map_of es) = Some (LinkValue a i)" if "a \<in> set current" for a
    using that well_linkedD [OF assms] unfolding current_def set_findAllByPlanId by auto
  have current: "a \<in> set current" if "starts_with prefix k" "tm_get now k (map_of es) = Some (LinkValue a i)" for k a
    using that unfolding current_def set_findAllByPlanId by auto
  have removed: "tm_get now k (map_of es1) =
      (if \<exists>a. a \<in> set current \<and> a \<notin> set as \<and> k = key a then None else tm_get now k (map_of es))" for k
    unfolding es1_def get_delete_all by auto
  have added: "find_link now k (map_of es2) = Some i" if "a \<in> set as" "a \<notin> set current" "k = key a" for k a
  proof -
    have "k \<in> key ` set (filter (\<lambda>a. a \<notin> set current) as)" using that by auto
    from get_saved [OF this, of now i es1] show ?thesis unfolding es2_def find_link_iff by blast
  qed
  have kept: "tm_get now k (map_of es2) = tm_get now k (map_of es1)" if "\<And>a. a \<in> set as \<Longrightarrow> k = key a \<Longrightarrow> a \<in> set current" for k
    unfolding es2_def by (rule get_save_all) (use that in auto)
  show "find_link now k (map_of (update_links key prefix now i as es)) =
      (if k \<in> key ` set as then Some i
       else if starts_with prefix k \<and> find_link now k (map_of es) = Some i then None else find_link now k (map_of es))"
    unfolding es2
  proof (cases "\<exists>a. a \<in> set as \<and> a \<notin> set current \<and> k = key a")
    case True
    then show "find_link now k (map_of es2) =
      (if k \<in> key ` set as then Some i
       else if starts_with prefix k \<and> find_link now k (map_of es) = Some i then None else find_link now k (map_of es))"
      using added by auto
  next
    case False
    then have same: "tm_get now k (map_of es2) = tm_get now k (map_of es1)" by (intro kept) auto
    show "find_link now k (map_of es2) =
      (if k \<in> key ` set as then Some i
       else if starts_with prefix k \<and> find_link now k (map_of es) = Some i then None else find_link now k (map_of es))"
    proof (cases "k \<in> key ` set as")
      case True
      then obtain a where a: "a \<in> set as" "k = key a" by auto
      with False have "a \<in> set current" by auto
      with a linked have get: "tm_get now k (map_of es) = Some (LinkValue a i)" by simp
      have "\<not> (\<exists>b. b \<in> set current \<and> b \<notin> set as \<and> k = key b)"
        using linked a(1) get by fastforce
      with get same removed [of k] True show ?thesis by (simp add: find_link_iff)
    next
      case False
      have "(\<exists>a. a \<in> set current \<and> a \<notin> set as \<and> k = key a) \<longleftrightarrow>
          starts_with prefix k \<and> find_link now k (map_of es) = Some i"
        using False linked current well_linkedD [OF assms] keyed unfolding find_link_iff by (smt (verit) image_eqI)
      with same removed [of k] False show ?thesis by (simp add: find_link_def)
    qed
  qed
  show "well_linked key prefix now (update_links key prefix now i as es)"
    unfolding es2
  proof (rule well_linkedI)
    fix k a p assume k: "starts_with prefix k" "tm_get now k (map_of es2) = Some (LinkValue a p)"
    show "k = key a"
    proof (cases "k \<in> key ` set (filter (\<lambda>a. a \<notin> set current) as)")
      case True
      from get_saved [OF this, of now i es1] k(2) show ?thesis unfolding es2_def by auto
    next
      case False
      then have "tm_get now k (map_of es2) = tm_get now k (map_of es1)" unfolding es2_def by (rule get_save_all)
      with k removed [of k] have "tm_get now k (map_of es) = Some (LinkValue a p)" by (auto split: if_split_asm)
      with k(1) show ?thesis by (rule well_linkedD [OF assms])
    qed
  qed
qed

end

interpretation evm: address_links evm_key evm_prefix
  by unfold_locales (simp add: evm_key_def evm_prefix_def starts_with_iff)

interpretation ip: address_links ip_key ip_prefix
  by unfold_locales (simp add: ip_key_def ip_prefix_def starts_with_iff)

text \<open>The keys of the addresses, and those that a configured plan asks for.\<close>

definition address_key :: "string \<Rightarrow> bool" where
  "address_key k \<longleftrightarrow> starts_with evm_prefix k \<or> starts_with ip_prefix k"

definition config_keys :: "plan_config \<Rightarrow> string set" where
  "config_keys c = evm_key ` set (evm_of c) \<union> ip_key ` set (ip_of c)"

definition links_ok :: "int \<Rightarrow> entries \<Rightarrow> bool" where
  "links_ok now es \<longleftrightarrow> well_linked evm_key evm_prefix now es \<and> well_linked ip_key ip_prefix now es"

lemma prefixes_exclusive: "starts_with evm_prefix k \<Longrightarrow> \<not> starts_with ip_prefix k"
  by (auto simp: evm_prefix_def ip_prefix_def starts_with_iff)

lemma config_keys_are_address_keys: "k \<in> config_keys c \<Longrightarrow> address_key k"
  using evm.keyed ip.keyed by (auto simp: config_keys_def address_key_def)

lemma plan_keys_are_no_address_keys [simp]: "\<not> address_key (plan_key i)" "\<not> address_key (getAmountSpentKey i)"
  by (auto simp: address_key_def key_defs evm_prefix_def ip_prefix_def starts_with_iff)

lemma well_linked_cong:
  "well_linked key prefix now es \<Longrightarrow> (\<And>k. starts_with prefix k \<Longrightarrow> tm_get now k (map_of es') = tm_get now k (map_of es)) \<Longrightarrow>
     well_linked key prefix now es'"
  by (simp add: well_linked_def)

text \<open>Only the entries of the address keys change, and those of one kind only by their own operation.\<close>

lemma update_ip_keeps_evm:
  "well_linked ip_key ip_prefix now es \<Longrightarrow> well_linked evm_key evm_prefix now es \<Longrightarrow>
     well_linked evm_key evm_prefix now (update_links ip_key ip_prefix now i as es)"
  by (erule well_linked_cong) (auto intro: ip.untouched dest: prefixes_exclusive)

lemma update_evm_keeps_ip:
  "well_linked evm_key evm_prefix now es \<Longrightarrow> well_linked ip_key ip_prefix now es \<Longrightarrow>
     well_linked ip_key ip_prefix now (update_links evm_key evm_prefix now i as es)"
  by (erule well_linked_cong) (auto intro: evm.untouched dest: prefixes_exclusive)

lemma unlinked_links_ok:
  "links_ok now es \<Longrightarrow> links_ok now (unlink_others key now i as es)"
  unfolding links_ok_def by (auto intro!: well_linkedI dest: get_unlink_others_some well_linkedD)

lemma updated_links_ok:
  "links_ok now es \<Longrightarrow> links_ok now (update_links evm_key evm_prefix now i as es)"
  "links_ok now es \<Longrightarrow> links_ok now (update_links ip_key ip_prefix now i as es)"
  unfolding links_ok_def
  by (auto intro: evm.updated(2) ip.updated(2) update_ip_keeps_evm update_evm_keeps_ip)

lemmas association_defs = update_associations_def updateIpAddressAssociations_def updateEvmAddressAssociations_def
  deleteObsoleteIpAddressAssociations_def deleteObsoleteEvmAddressAssociations_def

lemma update_associations_links_ok: "links_ok now es \<Longrightarrow> links_ok now (update_associations now c es)"
  by (simp add: association_defs unlinked_links_ok updated_links_ok)

lemma update_associations_other:
  assumes "links_ok now es" and "\<not> address_key k"
  shows "tm_get now k (map_of (update_associations now c es)) = tm_get now k (map_of es)"
proof -
  have "k \<notin> evm_key ` A" "k \<notin> ip_key ` A" for A
    using assms(2) evm.keyed ip.keyed by (auto simp: address_key_def)
  moreover have "\<not> starts_with evm_prefix k" "\<not> starts_with ip_prefix k" using assms(2) by (simp_all add: address_key_def)
  ultimately show ?thesis
    using assms(1) updated_links_ok unlinked_links_ok
    by (simp add: association_defs evm.untouched ip.untouched get_unlink_others links_ok_def)
qed

lemma update_associations_link:
  assumes ok: "links_ok now es"
  shows "find_link now k (map_of (update_associations now c es)) =
    (if k \<in> config_keys c then Some (pc_id c)
     else if address_key k \<and> find_link now k (map_of es) = Some (pc_id c) then None else find_link now k (map_of es))"
proof -
  define es1 where "es1 = unlink_others ip_key now (pc_id c) (ip_of c) (unlink_others evm_key now (pc_id c) (evm_of c) es)"
  define es2 where "es2 = update_links evm_key evm_prefix now (pc_id c) (evm_of c) es1"
  have es: "update_associations now c es = update_links ip_key ip_prefix now (pc_id c) (ip_of c) es2"
    by (simp add: association_defs es1_def es2_def)
  have ok1: "links_ok now es1" unfolding es1_def by (intro unlinked_links_ok ok)
  then have ok2: "links_ok now es2" unfolding es2_def by (rule updated_links_ok)
  have get1: "find_link now k (map_of es1) = find_link now k (map_of es)" if "k \<notin> config_keys c"
    using that by (intro find_link_cong) (simp add: es1_def get_unlink_others config_keys_def)
  have evm_not_ip: "k \<notin> ip_key ` set (ip_of c)" if "starts_with evm_prefix k"
    using ip.keyed prefixes_exclusive [OF that] by auto
  have evm_key_prefix: "starts_with evm_prefix k" if "k \<in> evm_key ` A" for A
    using that evm.keyed by auto
  have link2: "find_link now k (map_of es2) =
      (if k \<in> evm_key ` set (evm_of c) then Some (pc_id c)
       else if starts_with evm_prefix k \<and> find_link now k (map_of es1) = Some (pc_id c) then None
       else find_link now k (map_of es1))"
    unfolding es2_def by (rule evm.updated(1)) (use ok1 in \<open>simp add: links_ok_def\<close>)
  have link3: "find_link now k (map_of (update_associations now c es)) =
      (if k \<in> ip_key ` set (ip_of c) then Some (pc_id c)
       else if starts_with ip_prefix k \<and> find_link now k (map_of es2) = Some (pc_id c) then None
       else find_link now k (map_of es2))"
    unfolding es by (rule ip.updated(1)) (use ok2 in \<open>simp add: links_ok_def\<close>)
  show ?thesis
  proof (cases "k \<in> config_keys c")
    case True
    show ?thesis
    proof (cases "k \<in> ip_key ` set (ip_of c)")
      case False
      with True have "k \<in> evm_key ` set (evm_of c)" by (auto simp: config_keys_def)
      with evm_key_prefix [OF this] prefixes_exclusive [of k] True False show ?thesis by (simp add: link2 link3)
    qed (use True in \<open>simp add: link3\<close>)
  next
    case False
    then have "k \<notin> evm_key ` set (evm_of c)" "k \<notin> ip_key ` set (ip_of c)" by (simp_all add: config_keys_def)
    then show ?thesis using False by (simp add: link2 link3 get1 address_key_def)
  qed
qed

subsection \<open>All the plans\<close>

lemma update_all_links_ok: "links_ok now es \<Longrightarrow> links_ok now (updatePlanAssociations now cs es)"
  unfolding updatePlanAssociations_def
  by (induction cs arbitrary: es) (simp_all add: update_associations_links_ok)

lemma update_all_other:
  "links_ok now es \<Longrightarrow> \<not> address_key k \<Longrightarrow> tm_get now k (map_of (updatePlanAssociations now cs es)) = tm_get now k (map_of es)"
  unfolding updatePlanAssociations_def
  by (induction cs arbitrary: es) (simp_all add: update_associations_links_ok update_associations_other)

text \<open>The plans have different identifiers and share no address.\<close>

definition plans_apart :: "plan_config list \<Rightarrow> bool" where
  "plans_apart cs \<longleftrightarrow>
     distinct (map pc_id cs) \<and> (\<forall>c \<in> set cs. \<forall>d \<in> set cs. c \<noteq> d \<longrightarrow> config_keys c \<inter> config_keys d = {})"

lemma plans_apart_snoc: "plans_apart (cs @ [c]) \<Longrightarrow> plans_apart cs"
  by (simp add: plans_apart_def)

lemma update_all_link:
  assumes "links_ok now es" and "plans_apart cs" and "c \<in> set cs" and "address_key k"
  shows "find_link now k (map_of (updatePlanAssociations now cs es)) = Some (pc_id c) \<longleftrightarrow> k \<in> config_keys c"
  using assms(2,3)
proof (induction cs rule: rev_induct)
  case (snoc d cs)
  have ok: "links_ok now (updatePlanAssociations now cs es)" by (rule update_all_links_ok [OF assms(1)])
  have last: "updatePlanAssociations now (cs @ [d]) es = update_associations now d (updatePlanAssociations now cs es)"
    by (simp add: updatePlanAssociations_def)
  show ?case
  proof (cases "c = d")
    case True
    show ?thesis unfolding last update_associations_link [OF ok] using assms(4) by (simp add: True)
  next
    case False
    with snoc.prems have c: "c \<in> set cs" by simp
    then have other: "pc_id d \<noteq> pc_id c" using snoc.prems(1) by (auto simp: plans_apart_def)
    have apart: "config_keys c \<inter> config_keys d = {}" using snoc.prems False by (auto simp: plans_apart_def)
    have "find_link now k (map_of (updatePlanAssociations now cs es)) = Some (pc_id c) \<longleftrightarrow> k \<in> config_keys c"
      by (rule snoc.IH [OF plans_apart_snoc [OF snoc.prems(1)] c])
    then show ?thesis
      unfolding last update_associations_link [OF ok] using other apart by auto
  qed
qed simp

text \<open>Removing a plan takes its entry and the links to it.\<close>

lemma get_delete_links:
  "tm_get now k (map_of (foldl (\<lambda>es k. if find_link now k (map_of es) = Some i then kv_delete k es else es) es ks)) =
     (if k \<in> set ks \<and> find_link now k (map_of es) = Some i then None else tm_get now k (map_of es))"
  by (induction ks arbitrary: es) (auto simp: tm_get_delete_if find_link_def)

text \<open>The loop of the repository gives what its description by a predicate gives.\<close>

lemma get_deleteAllByPlanId:
  "tm_get now k (map_of (deleteAllByPlanId prefix now i es)) = tm_get now k (delete_links prefix now i (map_of es))"
proof -
  have "find_link now k (map_of es) = None" if "tm_get now k (map_of es) = None" using that by (simp add: find_link_def)
  then show ?thesis
    unfolding deleteAllByPlanId_def get_delete_links set_kv_keys by (auto simp: delete_links_def tm_get_def)
qed

lemma get_remove_plan:
  "tm_get now k (map_of (remove_plan now i es)) =
     (if k = plan_key i \<or> (address_key k \<and> find_link now k (map_of es) = Some i) then None else tm_get now k (map_of es))"
proof -
  have del: "tm_get now k (delete_links prefix now i st) =
      (if starts_with prefix k \<and> find_link now k st = Some i then None else tm_get now k st)" for prefix st
    by (simp add: delete_links_def tm_get_def)
  show ?thesis
    unfolding remove_plan_def get_deleteAllByPlanId del address_key_def
    by (simp add: find_link_def get_deleteAllByPlanId del tm_get_delete_if)
qed

lemma get_removed_all:
  "tm_get now k (map_of (foldl (\<lambda>es p. remove_plan now (plan_id p) es) es ps)) =
     (if \<exists>p \<in> set ps. k = plan_key (plan_id p) \<or> (address_key k \<and> find_link now k (map_of es) = Some (plan_id p)) then None
      else tm_get now k (map_of es))"
proof (induction ps arbitrary: es)
  case (Cons p ps)
  show ?case using Cons.IH [of "remove_plan now (plan_id p) es"] by (auto simp: get_remove_plan find_link_def)
qed simp

lemma get_stored_all:
  "tm_get now k (map_of (foldl (\<lambda>es c. store_plan now c es) es cs)) = tm_get now k (map_of es)"
  if "k \<notin> plan_key ` pc_id ` set cs"
  using that by (induction cs arbitrary: es) (auto simp: store_plan_def tm_get_set_if)

lemma get_stored:
  assumes "distinct (map pc_id cs)" and "c \<in> set cs"
  shows "tm_get now (plan_key (pc_id c)) (map_of (foldl (\<lambda>es c. store_plan now c es) es cs)) =
    Some (PlanValue \<lparr> plan_id = pc_id c, plan_subscriptionTier = pc_subscriptionTier c, plan_createdAt = now, plan_active = True \<rparr>)"
  using assms
proof (induction cs arbitrary: es)
  case (Cons d cs)
  show ?case
  proof (cases "c = d")
    case True
    then have "plan_key (pc_id c) \<notin> plan_key ` pc_id ` set cs" using Cons.prems(1) by auto
    then show ?thesis using True by (simp add: get_stored_all) (simp add: store_plan_def TTL_def)
  qed (use Cons in simp)
qed simp

subsection \<open>A start\<close>

definition removed_state :: "int \<Rightarrow> plan_config list \<Rightarrow> detailed_plan list \<Rightarrow> entries \<Rightarrow> entries" where
  "removed_state now cs existing es = snd (deleteObsoletePlans now existing cs es)"

definition stored_state :: "int \<Rightarrow> plan_config list \<Rightarrow> detailed_plan list \<Rightarrow> entries \<Rightarrow> entries" where
  "stored_state now cs existing es = snd (addNewPlans now cs existing (removed_state now cs existing es))"

lemma populate_plans_Inr:
  "populate_plans now cs es = (Inr n, es') \<longleftrightarrow>
     (\<exists>existing. findAllActiveBySubscriptionTier now configured_tiers es = Inr existing \<and>
        n = length (obsolete_plans cs existing) + length (new_plans cs existing) \<and>
        es' = updatePlanAssociations now cs (stored_state now cs existing es))"
  by (auto simp: populate_plans_def removed_state_def stored_state_def deleteObsoletePlans_def addNewPlans_def Let_def
      split: sum.split)

lemma get_removed_state:
  "tm_get now k (map_of (removed_state now cs existing es)) =
     (if \<exists>p \<in> set (obsolete_plans cs existing).
           k = plan_key (plan_id p) \<or> (address_key k \<and> find_link now k (map_of es) = Some (plan_id p)) then None
      else tm_get now k (map_of es))"
  by (simp add: removed_state_def deleteObsoletePlans_def Let_def get_removed_all)

lemma get_stored_state:
  "k \<notin> plan_key ` pc_id ` set (new_plans cs existing) \<Longrightarrow>
     tm_get now k (map_of (stored_state now cs existing es)) = tm_get now k (map_of (removed_state now cs existing es))"
  by (simp add: stored_state_def addNewPlans_def Let_def get_stored_all)

lemma stored_state_links_ok: "links_ok now es \<Longrightarrow> links_ok now (stored_state now cs existing es)"
proof -
  have "tm_get now k (map_of es) = Some v" if "address_key k" "tm_get now k (map_of (stored_state now cs existing es)) = Some v" for k v
  proof -
    have "k \<notin> plan_key ` A" for A using that(1) by auto
    with that(2) show ?thesis by (auto simp: get_stored_state get_removed_state split: if_split_asm)
  qed
  then show "links_ok now es \<Longrightarrow> links_ok now (stored_state now cs existing es)"
    by (auto simp: links_ok_def well_linked_def address_key_def)
qed

lemma with_amounts_Inr:
  "with_amounts now es ps = Inr ds \<Longrightarrow>
     map plan_id ds = map plan_id ps \<and> (\<forall>p \<in> set ps. \<exists>q. active_plan now (plan_id p) q (map_of es))"
proof (induction ps arbitrary: ds)
  case (Cons p ps)
  from Cons.prems obtain amount rest where amount: "getAmountSpent now (plan_id p) (map_of es) = Inr amount"
    and rest: "with_amounts now es ps = Inr rest" and ds: "ds = make_detailed p [] amount # rest"
    by (auto simp: and_then_Inr_iff)
  from amount obtain q where "findById now (plan_id p) (map_of es) = Inr q" "plan_active q"
    by (auto simp: getAmountSpent_def checkExistsAndActive_def and_then_Inr_iff ensure_Inr_iff)
  with Cons.IH [OF rest] show ?case by (auto simp: ds make_detailed_def active_plan_def)
qed simp

text \<open>The plans that a start finds.\<close>

definition found_plans :: "int \<Rightarrow> entries \<Rightarrow> spending_plan list" where
  "found_plans now es = concat (map (plan_at now configured_tiers es) (kv_keys now plan_prefix es))"

lemma plan_key_prefix: "starts_with plan_prefix (plan_key i)"
  by (simp add: plan_prefix_def plan_key_def starts_with_iff)

lemma set_found_plans:
  "set (found_plans now es) =
     {p. \<exists>k. starts_with plan_prefix k \<and> tm_get now k (map_of es) = Some (PlanValue p) \<and>
        plan_subscriptionTier p \<in> set configured_tiers \<and> plan_active p}"
  by (fastforce simp: found_plans_def set_kv_keys plan_at_def split: option.splits cache_value.splits if_split_asm)

lemma existing_plans:
  assumes "findAllActiveBySubscriptionTier now configured_tiers es = Inr existing"
  shows "map plan_id existing = map plan_id (found_plans now es)"
    and "p \<in> set existing \<Longrightarrow> \<exists>q. active_plan now (plan_id p) q (map_of es)"
proof -
  have all: "map plan_id existing = map plan_id (found_plans now es) \<and>
      (\<forall>p \<in> set (found_plans now es). \<exists>q. active_plan now (plan_id p) q (map_of es))"
    using assms unfolding findAllActiveBySubscriptionTier_def found_plans_def [symmetric] by (rule with_amounts_Inr)
  then show ids: "map plan_id existing = map plan_id (found_plans now es)" by (rule conjunct1)
  assume "p \<in> set existing"
  then have "plan_id p \<in> set (map plan_id existing)" by simp
  then have "plan_id p \<in> set (map plan_id (found_plans now es))" by (simp only: ids)
  then obtain r where "r \<in> set (found_plans now es)" "plan_id p = plan_id r" by auto
  with all show "\<exists>q. active_plan now (plan_id p) q (map_of es)" by auto
qed

lemma active_plan_get: "active_plan now i p st \<longleftrightarrow> tm_get now (plan_key i) st = Some (PlanValue p) \<and> plan_active p"
  by (auto simp: active_plan_def findById_def split: option.splits cache_value.splits)

lemma not_new_plan: "c \<in> set cs \<Longrightarrow> c \<notin> set (new_plans cs existing) \<longleftrightarrow> (\<exists>p \<in> set existing. plan_id p = pc_id c)"
  by (auto simp: new_plans_def list_ex_iff)

lemma not_obsolete: "c \<in> set cs \<Longrightarrow> p \<in> set (obsolete_plans cs existing) \<Longrightarrow> plan_id p \<noteq> pc_id c"
  by (auto simp: obsolete_plans_def list_ex_iff)

lemma distinct_new_plans: "distinct (map pc_id cs) \<Longrightarrow> distinct (map pc_id (new_plans cs existing))"
  by (simp add: new_plans_def distinct_map_filter)

text \<open>A plan of the configuration that was there stays as it was; one that was not is stored.\<close>

lemma configured_plan_stored:
  assumes ok: "links_ok now es" and apart: "distinct (map pc_id cs)" and c: "c \<in> set cs"
    and es': "es' = updatePlanAssociations now cs (stored_state now cs existing es)"
  shows "tm_get now (plan_key (pc_id c)) (map_of es') =
    (if \<exists>p \<in> set existing. plan_id p = pc_id c then tm_get now (plan_key (pc_id c)) (map_of es)
     else Some (PlanValue \<lparr> plan_id = pc_id c, plan_subscriptionTier = pc_subscriptionTier c, plan_createdAt = now, plan_active = True \<rparr>))"
proof -
  have step: "tm_get now (plan_key (pc_id c)) (map_of es') = tm_get now (plan_key (pc_id c)) (map_of (stored_state now cs existing es))"
    unfolding es' by (rule update_all_other) (simp_all add: stored_state_links_ok [OF ok])
  show ?thesis
  proof (cases "c \<in> set (new_plans cs existing)")
    case True
    then have "\<not> (\<exists>p \<in> set existing. plan_id p = pc_id c)" using not_new_plan [OF c] by blast
    then show ?thesis
      using get_stored [OF distinct_new_plans [OF apart] True] by (simp add: step stored_state_def addNewPlans_def Let_def)
  next
    case False
    then have existing: "\<exists>p \<in> set existing. plan_id p = pc_id c" using not_new_plan [OF c] by blast
    have "pc_id c \<notin> pc_id ` set (new_plans cs existing)"
      using existing by (force simp: new_plans_def list_ex_iff)
    then have "plan_key (pc_id c) \<notin> plan_key ` pc_id ` set (new_plans cs existing)" by auto
    then have "tm_get now (plan_key (pc_id c)) (map_of (stored_state now cs existing es)) =
        tm_get now (plan_key (pc_id c)) (map_of (removed_state now cs existing es))" by (rule get_stored_state)
    also have "\<dots> = tm_get now (plan_key (pc_id c)) (map_of es)"
      using not_obsolete [OF c, of _ existing] by (auto simp: get_removed_state dest: sym)
    finally show ?thesis using existing by (simp add: step)
  qed
qed

lemma populate_configured:
  assumes "populatePreconfiguredSpendingPlans src setting now es = (Inr n, es')"
    and "loadSpendingPlansConfig src setting = Inr (JArr items)" and "items \<noteq> []"
  shows "populate_plans now (map plan_config_of items) es = (Inr n, es')"
  using assms by (simp add: populatePreconfiguredSpendingPlans_def split: sum.split_asm)

lemma found_link: "find_link now k st = Some p \<Longrightarrow> (case find_link now k st of Some p \<Rightarrow> Inr p | None \<Rightarrow> e) = Inr p"
  by simp

text \<open>
  C8. A start that succeeds leaves every configured plan active and every configured address linked to its own
  plan, and no other address is linked to it.
\<close>

theorem configured_plans_take_effect:
  assumes run: "populatePreconfiguredSpendingPlans src setting now es = (Inr n, es')"
    and loaded: "loadSpendingPlansConfig src setting = Inr (JArr items)" and item: "item \<in> set items"
    and ok: "links_ok now es" and apart: "plans_apart (map plan_config_of items)"
  shows "(\<exists>p. findById now (pc_id (plan_config_of item)) (map_of es') = Inr p \<and> plan_active p) \<and>
    (\<forall>a \<in> set (evm_of (plan_config_of item)). evm_findByAddress now a (map_of es') = Inr (pc_id (plan_config_of item))) \<and>
    (\<forall>a \<in> set (ip_of (plan_config_of item)). ip_findByAddress now a (map_of es') = Inr (pc_id (plan_config_of item))) \<and>
    (\<forall>k. address_key k \<longrightarrow> find_link now k (map_of es') = Some (pc_id (plan_config_of item)) \<longrightarrow> k \<in> config_keys (plan_config_of item))"
proof -
  define cs where "cs = map plan_config_of items"
  define c where "c = plan_config_of item"
  have c: "c \<in> set cs" using item by (simp add: c_def cs_def)
  have "items \<noteq> []" using item by auto
  from populate_configured [OF run loaded this] obtain existing
    where existing: "findAllActiveBySubscriptionTier now configured_tiers es = Inr existing"
      and es': "es' = updatePlanAssociations now cs (stored_state now cs existing es)"
    unfolding populate_plans_Inr cs_def by auto
  have ids: "distinct (map pc_id cs)" using apart by (simp add: plans_apart_def cs_def)
  have "\<exists>p. active_plan now (pc_id c) p (map_of es')"
    using configured_plan_stored [OF ok ids c es'] existing_plans(2) [OF existing]
    by (auto simp: active_plan_get split: if_split_asm) (metis active_plan_get)
  moreover have link: "find_link now k (map_of es') = Some (pc_id c) \<longleftrightarrow> k \<in> config_keys c" if "address_key k" for k
    unfolding es' by (rule update_all_link [OF stored_state_links_ok [OF ok] _ c that]) (use apart cs_def in simp)
  moreover have "find_link now k (map_of es') = Some (pc_id c)" if "k \<in> config_keys c" for k
    using link [OF config_keys_are_address_keys [OF that]] that by simp
  ultimately show ?thesis
    unfolding c_def [symmetric]
    by (auto simp: active_plan_def evm_findByAddress_def ip_findByAddress_def config_keys_def)
qed

text \<open>
  A start removes the plans of the two upper tiers that are no longer configured, with all their links.
\<close>

theorem obsolete_plans_are_removed:
  assumes run: "populatePreconfiguredSpendingPlans src setting now es = (Inr n, es')"
    and loaded: "loadSpendingPlansConfig src setting = Inr (JArr items)" and some: "items \<noteq> []"
    and ok: "links_ok now es"
    and stored: "findById now i (map_of es) = Inr p" "plan_id p = i" "plan_active p"
    and tier: "plan_subscriptionTier p \<in> {EXTENDED, PRIVILEGED}"
    and gone: "i \<notin> pc_id ` plan_config_of ` set items"
  shows "findById now i (map_of es') = Inl (HbarSpendingPlanNotFoundError i) \<and>
    (\<forall>k. address_key k \<longrightarrow> find_link now k (map_of es') \<noteq> Some i)"
proof -
  define cs where "cs = map plan_config_of items"
  from populate_configured [OF run loaded some] obtain existing
    where existing: "findAllActiveBySubscriptionTier now configured_tiers es = Inr existing"
      and es': "es' = updatePlanAssociations now cs (stored_state now cs existing es)"
    unfolding populate_plans_Inr cs_def by auto
  have foreign: "pc_id c \<noteq> i" if "c \<in> set cs" for c using gone that by (auto simp: cs_def)
  have get: "tm_get now (plan_key i) (map_of es) = Some (PlanValue p)"
    using stored(1) by (auto simp: findById_def split: option.split_asm cache_value.split_asm)
  have "p \<in> set (found_plans now es)"
    using get stored(3) tier plan_key_prefix unfolding set_found_plans configured_tiers_def by auto
  then have "i \<in> set (map plan_id existing)" using stored(2) unfolding existing_plans(1) [OF existing] by auto
  then obtain d where d: "d \<in> set existing" "plan_id d = i" by auto
  then have obsolete: "d \<in> set (obsolete_plans cs existing)" using foreign by (auto simp: obsolete_plans_def list_ex_iff)
  have new: "k \<notin> plan_key ` pc_id ` set (new_plans cs existing)" if "k = plan_key i \<or> address_key k" for k
    using that foreign by (auto simp: new_plans_def)
  have removed: "tm_get now k (map_of (stored_state now cs existing es)) = None"
    if "k = plan_key i \<or> address_key k \<and> find_link now k (map_of es) = Some i" for k
  proof -
    have "k \<notin> plan_key ` pc_id ` set (new_plans cs existing)" by (rule new) (use that in blast)
    note get_stored_state [OF this, of now es]
    then show ?thesis using that obsolete d(2) by (auto simp: get_removed_state)
  qed
  have "tm_get now (plan_key i) (map_of es') = None"
    unfolding es' using removed by (subst update_all_other) (simp_all add: stored_state_links_ok [OF ok])
  moreover have "find_link now k (map_of es') \<noteq> Some i" if k: "address_key k" for k
  proof -
    have "find_link now k (map_of (stored_state now cs existing es)) \<noteq> Some i"
      using removed [of k] k new [of k]
      by (cases "find_link now k (map_of es) = Some i") (auto simp: find_link_def get_stored_state get_removed_state)
    moreover have "find_link now k (map_of (updatePlanAssociations now ds st)) \<noteq> Some i"
      if "find_link now k (map_of st) \<noteq> Some i" "links_ok now st" "\<And>c. c \<in> set ds \<Longrightarrow> pc_id c \<noteq> i" for ds st
      using that unfolding updatePlanAssociations_def
      by (induction ds arbitrary: st) (simp_all add: update_associations_link update_associations_links_ok)
    ultimately show ?thesis using stored_state_links_ok [OF ok] foreign unfolding es' by blast
  qed
  ultimately show ?thesis by (simp add: findById_def)
qed

lemma validate_iff: "validateSpendingPlanConfig items = Inr () \<longleftrightarrow> list_all isValidSpendingPlanConfig items"
  by (induction items) simp_all

text \<open>
  One invalid plan and nothing of the configuration is applied: the start reports an error and the cache stays
  as it was.
\<close>

theorem invalid_configuration_changes_nothing:
  assumes "loadSpendingPlansConfig src setting = Inr (JArr items)" and "item \<in> set items"
    and "\<not> isValidSpendingPlanConfig item"
  shows "\<exists>m. populatePreconfiguredSpendingPlans src setting now es = (Inl m, es)"
proof -
  have "validateSpendingPlanConfig items \<noteq> Inr ()" using assms(2,3) by (auto simp: validate_iff list_all_iff)
  moreover have "items \<noteq> []" using assms(2) by auto
  ultimately show ?thesis
    using assms(1) by (cases "validateSpendingPlanConfig items") (simp_all add: populatePreconfiguredSpendingPlans_def)
qed

subsection \<open>A second start\<close>

definition plans_ok :: "int \<Rightarrow> entries \<Rightarrow> bool" where
  "plans_ok now es \<longleftrightarrow>
     (\<forall>k p. starts_with plan_prefix k \<longrightarrow> tm_get now k (map_of es) = Some (PlanValue p) \<longrightarrow> k = plan_key (plan_id p))"

lemma with_amounts_total:
  "\<forall>p \<in> set ps. \<exists>q. active_plan now (plan_id p) q (map_of es) \<Longrightarrow> \<exists>ds. with_amounts now es ps = Inr ds"
proof (induction ps)
  case (Cons p ps)
  then obtain q rest where "active_plan now (plan_id p) q (map_of es)" and rest: "with_amounts now es ps = Inr rest" by auto
  then have "getAmountSpent now (plan_id p) (map_of es) = Inr (stored_amount now (plan_id p) (map_of es))"
    using active_plan_checks by (simp add: getAmountSpent_def)
  with rest show ?case by simp
qed simp

lemma plan_prefix_no_address_key: "starts_with plan_prefix k \<Longrightarrow> \<not> address_key k"
  by (auto simp: plan_prefix_def address_key_def evm_prefix_def ip_prefix_def starts_with_iff)

lemma found_iff:
  assumes "plans_ok now es"
  shows "p \<in> set (found_plans now es) \<longleftrightarrow>
    tm_get now (plan_key (plan_id p)) (map_of es) = Some (PlanValue p) \<and>
      plan_subscriptionTier p \<in> set configured_tiers \<and> plan_active p"
  using assms plan_key_prefix unfolding set_found_plans plans_ok_def by auto

lemma found_existing:
  assumes "plans_ok now es"
  shows "\<exists>existing. findAllActiveBySubscriptionTier now configured_tiers es = Inr existing"
  unfolding findAllActiveBySubscriptionTier_def found_plans_def [symmetric]
  by (rule with_amounts_total) (auto simp: found_iff [OF assms] active_plan_get)

lemma existing_ids:
  assumes "findAllActiveBySubscriptionTier now configured_tiers es = Inr existing"
  shows "(\<exists>d \<in> set existing. plan_id d = i) \<longleftrightarrow> (\<exists>p \<in> set (found_plans now es). plan_id p = i)"
proof -
  have "plan_id ` set existing = plan_id ` set (found_plans now es)"
    using arg_cong [OF existing_plans(1) [OF assms], of set] by simp
  then have "i \<in> plan_id ` set existing \<longleftrightarrow> i \<in> plan_id ` set (found_plans now es)" by (simp only:)
  then show ?thesis by (simp add: image_iff eq_commute [of i])
qed

lemma plans_ok_after:
  assumes "plans_ok now es" and "links_ok now es"
    and es': "es' = updatePlanAssociations now cs (stored_state now cs existing es)" and "distinct (map pc_id cs)"
  shows "plans_ok now es'"
  unfolding plans_ok_def
proof (intro allI impI)
  fix k p assume k: "starts_with plan_prefix k" and "tm_get now k (map_of es') = Some (PlanValue p)"
  then have get: "tm_get now k (map_of (stored_state now cs existing es)) = Some (PlanValue p)"
    unfolding es' by (simp add: update_all_other stored_state_links_ok assms(2) plan_prefix_no_address_key)
  show "k = plan_key (plan_id p)"
  proof (cases "k \<in> plan_key ` pc_id ` set (new_plans cs existing)")
    case True
    then obtain c where "c \<in> set (new_plans cs existing)" "k = plan_key (pc_id c)" by auto
    with get get_stored [OF distinct_new_plans [OF assms(4)], of c existing now] show ?thesis
      by (auto simp: stored_state_def addNewPlans_def Let_def)
  next
    case False
    with get have "tm_get now k (map_of es) = Some (PlanValue p)"
      by (auto simp: get_stored_state get_removed_state split: if_split_asm)
    with assms(1) k show ?thesis by (simp add: plans_ok_def)
  qed
qed

text \<open>A start with valid plans fails on no store whose plans stand at their keys.\<close>

lemma well_formed_start_succeeds:
  assumes "plans_ok now es" and "loadSpendingPlansConfig src setting = Inr (JArr items)"
    and "validateSpendingPlanConfig items = Inr ()"
  shows "\<exists>n es'. populatePreconfiguredSpendingPlans src setting now es = (Inr n, es')"
  using found_existing [OF assms(1)] assms(2,3)
  by (auto simp: populatePreconfiguredSpendingPlans_def populate_plans_def split: prod.split)

text \<open>What a start leaves, a second one finds: every configured plan of an upper tier, and no other.\<close>

lemma configured_is_found:
  assumes existing: "findAllActiveBySubscriptionTier now configured_tiers es = Inr existing"
    and es': "es' = updatePlanAssociations now cs (stored_state now cs existing es)"
    and ok: "links_ok now es" "plans_ok now es" and ids: "distinct (map pc_id cs)" and c: "c \<in> set cs"
    and tier: "pc_subscriptionTier c \<in> set configured_tiers"
  shows "\<exists>p \<in> set (found_plans now es'). plan_id p = pc_id c"
proof -
  note ok' = plans_ok_after [OF ok(2,1) es' ids]
  show ?thesis
  proof (cases "\<exists>d \<in> set existing. plan_id d = pc_id c")
    case True
    then obtain p where p: "p \<in> set (found_plans now es)" "plan_id p = pc_id c" unfolding existing_ids [OF existing] by blast
    with True configured_plan_stored [OF ok(1) ids c es'] have "p \<in> set (found_plans now es')"
      unfolding found_iff [OF ok'] found_iff [OF ok(2)] by (metis (no_types, lifting))
    with p(2) show ?thesis by blast
  next
    case False
    define p where "p = \<lparr> plan_id = pc_id c, plan_subscriptionTier = pc_subscriptionTier c, plan_createdAt = now, plan_active = True \<rparr>"
    have "tm_get now (plan_key (pc_id c)) (map_of es') = Some (PlanValue p)"
      using False configured_plan_stored [OF ok(1) ids c es'] by (simp add: p_def)
    with tier have "p \<in> set (found_plans now es')" unfolding found_iff [OF ok'] by (simp add: p_def)
    moreover have "plan_id p = pc_id c" by (simp add: p_def)
    ultimately show ?thesis by blast
  qed
qed

lemma found_is_configured:
  assumes existing: "findAllActiveBySubscriptionTier now configured_tiers es = Inr existing"
    and es': "es' = updatePlanAssociations now cs (stored_state now cs existing es)"
    and ok: "links_ok now es" "plans_ok now es" and ids: "distinct (map pc_id cs)" and p: "p \<in> set (found_plans now es')"
  shows "\<exists>c \<in> set cs. pc_id c = plan_id p"
proof (rule ccontr)
  note ok' = plans_ok_after [OF ok(2,1) es' ids]
  assume foreign: "\<not> (\<exists>c \<in> set cs. pc_id c = plan_id p)"
  have "tm_get now (plan_key (plan_id p)) (map_of es') = Some (PlanValue p)" using p unfolding found_iff [OF ok'] by simp
  then have "tm_get now (plan_key (plan_id p)) (map_of (stored_state now cs existing es)) = Some (PlanValue p)"
    unfolding es' by (simp add: update_all_other stored_state_links_ok [OF ok(1)])
  moreover have "plan_key (plan_id p) \<notin> plan_key ` pc_id ` set (new_plans cs existing)"
    using foreign by (auto simp: new_plans_def)
  ultimately have "tm_get now (plan_key (plan_id p)) (map_of es) = Some (PlanValue p)"
    and kept: "\<not> (\<exists>d \<in> set (obsolete_plans cs existing). plan_id p = plan_id d)"
    by (auto simp: get_stored_state get_removed_state split: if_split_asm)
  then have "p \<in> set (found_plans now es)" using p unfolding found_iff [OF ok'] found_iff [OF ok(2)] by simp
  then obtain d where "d \<in> set existing" "plan_id d = plan_id p" using existing_ids [OF existing] by blast
  with kept foreign show False by (auto simp: obsolete_plans_def list_ex_iff)
qed

text \<open>The plans of the upper tiers have no time limit; those of other tiers, which the limiter makes itself, may have one.\<close>

definition lasting :: "entries \<Rightarrow> bool" where
  "lasting es \<longleftrightarrow>
     (\<forall>k p t. map_of es k = Some (PlanValue p, t) \<longrightarrow> plan_subscriptionTier p \<in> set configured_tiers \<longrightarrow> t = None)"

lemma lasting_set: "lasting es \<Longrightarrow> (case v of PlanValue p \<Rightarrow> ttl \<le> 0 | _ \<Rightarrow> True) \<Longrightarrow> lasting (kv_set now k v ttl es)"
  by (auto simp: lasting_def tm_set_def split: if_split_asm)

lemma lasting_delete: "lasting es \<Longrightarrow> lasting (kv_delete k es)"
  by (auto simp: lasting_def tm_delete_def split: if_split_asm)

lemma lasting_foldl: "(\<And>es x. lasting es \<Longrightarrow> lasting (f es x)) \<Longrightarrow> lasting es \<Longrightarrow> lasting (foldl f es xs)"
  by (induction xs arbitrary: es) simp_all

lemma lasting_delete_all: "lasting es \<Longrightarrow> lasting (deleteAllByPlanId prefix now i es)"
  unfolding deleteAllByPlanId_def by (intro lasting_foldl) (auto intro: lasting_delete split: option.split cache_value.split)

lemma lasting_unlink: "lasting es \<Longrightarrow> lasting (unlink_others key now i as es)"
  unfolding unlink_others_def by (intro lasting_foldl) (auto intro: lasting_delete split: option.split)

lemma lasting_links: "lasting es \<Longrightarrow> lasting (update_links key prefix now i as es)"
  unfolding update_links_def Let_def by (intro lasting_foldl) (auto intro: lasting_delete lasting_set)

lemma lasting_after:
  assumes "lasting es"
  shows "lasting (updatePlanAssociations now cs (stored_state now cs existing es))"
proof -
  have "lasting (removed_state now cs existing es)"
    unfolding removed_state_def deleteObsoletePlans_def Let_def snd_conv remove_plan_def
    by (intro lasting_foldl assms lasting_delete_all lasting_delete)
  then have "lasting (stored_state now cs existing es)"
    unfolding stored_state_def addNewPlans_def Let_def snd_conv store_plan_def
    by (intro lasting_foldl lasting_set) (simp_all add: TTL_def)
  then show ?thesis
    unfolding updatePlanAssociations_def update_associations_def updateIpAddressAssociations_def updateEvmAddressAssociations_def
      deleteObsoleteIpAddressAssociations_def deleteObsoleteEvmAddressAssociations_def
    by (intro lasting_foldl lasting_links lasting_unlink)
qed

lemma get_earlier: "now \<le> later \<Longrightarrow> tm_get later k st = Some v \<Longrightarrow> tm_get now k st = Some v"
  by (auto simp: tm_get_def split: option.splits if_split_asm)

lemma plans_ok_later: "plans_ok now es \<Longrightarrow> now \<le> later \<Longrightarrow> plans_ok later es"
  using get_earlier unfolding plans_ok_def by blast

lemma found_later:
  assumes "lasting es" and "now \<le> later"
  shows "set (found_plans later es) = set (found_plans now es)"
proof -
  have "tm_get later k (map_of es) = Some (PlanValue p)" if get: "tm_get now k (map_of es) = Some (PlanValue p)"
    and tier: "plan_subscriptionTier p \<in> set configured_tiers" for k p
  proof -
    obtain v t where entry: "map_of es k = Some (v, t)" using get by (cases "map_of es k") (auto simp: tm_get_def)
    then have "v = PlanValue p" using get by (cases t) (simp_all add: tm_get_def split: if_split_asm)
    with entry have "map_of es k = Some (PlanValue p, t)" by simp
    moreover from this have "t = None" using assms(1) tier unfolding lasting_def by blast
    ultimately show ?thesis by (simp add: tm_get_def)
  qed
  then show ?thesis using get_earlier [OF assms(2)] unfolding set_found_plans by blast
qed

text \<open>
  C17. Starting again with the same plans of the upper tiers adds and deletes nothing, however much later, and although
  plans of the other tiers may have expired in between: the configured plans never do.
\<close>

theorem second_start_changes_no_plan:
  assumes run: "populatePreconfiguredSpendingPlans src setting now es = (Inr n, es')"
    and loaded: "loadSpendingPlansConfig src setting = Inr (JArr items)" and some: "items \<noteq> []"
    and ok: "links_ok now es" "plans_ok now es" and lasting: "lasting es" and apart: "plans_apart (map plan_config_of items)"
    and tiers: "\<forall>item \<in> set items. pc_subscriptionTier (plan_config_of item) \<in> {EXTENDED, PRIVILEGED}"
    and later: "now \<le> later"
  shows "fst (populatePreconfiguredSpendingPlans src setting later es') = Inr 0"
proof -
  define cs where "cs = map plan_config_of items"
  from populate_configured [OF run loaded some] obtain existing
    where existing: "findAllActiveBySubscriptionTier now configured_tiers es = Inr existing"
      and es': "es' = updatePlanAssociations now cs (stored_state now cs existing es)"
    unfolding populate_plans_Inr cs_def by auto
  have ids: "distinct (map pc_id cs)" using apart by (simp add: plans_apart_def cs_def)
  have found: "set (found_plans later es') = set (found_plans now es')"
    using found_later [OF _ later] lasting_after [OF lasting] by (simp add: es')
  obtain existing' where existing': "findAllActiveBySubscriptionTier later configured_tiers es' = Inr existing'"
    using found_existing [OF plans_ok_later [OF plans_ok_after [OF ok(2,1) es' ids] later]] by blast
  have tier: "pc_subscriptionTier c \<in> set configured_tiers" if "c \<in> set cs" for c
    using that tiers by (auto simp: cs_def configured_tiers_def)
  have "new_plans cs existing' = []"
    using configured_is_found [OF existing es' ok ids _ tier] unfolding existing_ids [OF existing', unfolded found, symmetric]
    by (auto simp: new_plans_def filter_empty_conv list_ex_iff)
  moreover have "\<exists>c \<in> set cs. pc_id c = plan_id d" if "d \<in> set existing'" for d
    using found_is_configured [OF existing es' ok ids] existing_ids [OF existing', unfolded found, of "plan_id d"] that by metis
  then have "obsolete_plans cs existing' = []" by (auto simp: obsolete_plans_def filter_empty_conv list_ex_iff)
  ultimately have "fst (populate_plans later cs es') = Inr 0"
    by (simp add: populate_plans_def existing' deleteObsoletePlans_def addNewPlans_def Let_def)
  moreover have "validateSpendingPlanConfig items = Inr ()"
    using run loaded some by (auto simp: populatePreconfiguredSpendingPlans_def split: sum.split_asm)
  ultimately show ?thesis using loaded some by (simp add: populatePreconfiguredSpendingPlans_def cs_def)
qed

text \<open>
  A configured plan of another tier is not among the plans that are looked up: every start counts it as new,
  and sets the time of its creation again.
\<close>

theorem basic_plan_created_at_every_start:
  assumes run: "populatePreconfiguredSpendingPlans src setting now es = (Inr n, es')"
    and loaded: "loadSpendingPlansConfig src setting = Inr (JArr items)" and item: "item \<in> set items"
    and ok: "links_ok now es" "plans_ok now es" and apart: "plans_apart (map plan_config_of items)"
    and stored: "\<forall>p. findById now (pc_id (plan_config_of item)) (map_of es) = Inr p \<longrightarrow> plan_subscriptionTier p \<in> {BASIC, OPERATOR}"
  shows "0 < n \<and> findById now (pc_id (plan_config_of item)) (map_of es') =
    Inr \<lparr> plan_id = pc_id (plan_config_of item), plan_subscriptionTier = pc_subscriptionTier (plan_config_of item),
          plan_createdAt = now, plan_active = True \<rparr>"
proof -
  define cs where "cs = map plan_config_of items"
  define c where "c = plan_config_of item"
  have c: "c \<in> set cs" using item by (simp add: c_def cs_def)
  have "items \<noteq> []" using item by auto
  from populate_configured [OF run loaded this] obtain existing
    where existing: "findAllActiveBySubscriptionTier now configured_tiers es = Inr existing"
      and n: "n = length (obsolete_plans cs existing) + length (new_plans cs existing)"
      and es': "es' = updatePlanAssociations now cs (stored_state now cs existing es)"
    unfolding populate_plans_Inr cs_def by auto
  have ids: "distinct (map pc_id cs)" using apart by (simp add: plans_apart_def cs_def)
  have new: "\<not> (\<exists>d \<in> set existing. plan_id d = pc_id c)"
  proof
    assume "\<exists>d \<in> set existing. plan_id d = pc_id c"
    then obtain p where "p \<in> set (found_plans now es)" "plan_id p = pc_id c" unfolding existing_ids [OF existing] by blast
    then have "findById now (pc_id c) (map_of es) = Inr p" "plan_subscriptionTier p \<in> {EXTENDED, PRIVILEGED}"
      unfolding found_iff [OF ok(2)] by (simp_all add: findById_def configured_tiers_def)
    with stored show False by (auto simp: c_def)
  qed
  then have "c \<in> set (new_plans cs existing)" using not_new_plan [OF c] by blast
  then have "0 < n" unfolding n by (cases "new_plans cs existing") simp_all
  with configured_plan_stored [OF ok(1) ids c es'] new show ?thesis by (simp add: findById_def c_def)
qed

subsection \<open>What a start may write and must not touch\<close>

lemma get_update_links:
  "k \<notin> key ` set as \<Longrightarrow>
     tm_get now k (map_of (update_links key prefix now i as es)) = None \<or>
     tm_get now k (map_of (update_links key prefix now i as es)) = tm_get now k (map_of es)"
proof -
  assume k: "k \<notin> key ` set as"
  then have "k \<notin> key ` set (filter P as)" for P by auto
  then show ?thesis by (simp add: update_links_def Let_def get_save_all get_delete_all)
qed

lemma get_update_associations:
  assumes "k \<notin> config_keys c"
  shows "tm_get now k (map_of (update_associations now c es)) \<in> {None, tm_get now k (map_of es)}"
proof -
  have k: "k \<notin> evm_key ` set (evm_of c)" "k \<notin> ip_key ` set (ip_of c)" using assms by (simp_all add: config_keys_def)
  define es1 where "es1 = unlink_others ip_key now (pc_id c) (ip_of c) (unlink_others evm_key now (pc_id c) (evm_of c) es)"
  define es2 where "es2 = update_links evm_key evm_prefix now (pc_id c) (evm_of c) es1"
  have "tm_get now k (map_of es1) = tm_get now k (map_of es)" by (simp add: es1_def get_unlink_others k)
  moreover have "tm_get now k (map_of es2) = None \<or> tm_get now k (map_of es2) = tm_get now k (map_of es1)"
    unfolding es2_def by (rule get_update_links [OF k(1)])
  moreover have "update_associations now c es = update_links ip_key ip_prefix now (pc_id c) (ip_of c) es2"
    by (simp add: association_defs es1_def es2_def)
  ultimately show ?thesis using get_update_links [OF k(2), of now ip_prefix "pc_id c" es2] by auto
qed

lemma get_update_all:
  "k \<notin> \<Union> (config_keys ` set cs) \<Longrightarrow>
     tm_get now k (map_of (updatePlanAssociations now cs es)) \<in> {None, tm_get now k (map_of es)}"
  unfolding updatePlanAssociations_def
proof (induction cs arbitrary: es)
  case (Cons c cs)
  have "tm_get now k (map_of (update_associations now c es)) \<in> {None, tm_get now k (map_of es)}"
    by (rule get_update_associations) (use Cons.prems in simp)
  with Cons.IH [of "update_associations now c es"] Cons.prems show ?case by auto
qed simp

lemma plan_keys_cover:
  assumes "plan_keys item = Some ks"
  shows "config_keys (plan_config_of item) \<union> {plan_key (pc_id (plan_config_of item))} \<subseteq> set ks"
proof -
  have evm: "js_prop item ''evmAddresses'' = JUndef \<or> (\<exists>xs. js_prop item ''evmAddresses'' = JArr xs \<and> all_texts xs)"
    and ip: "js_prop item ''ipAddresses'' = JUndef \<or> (\<exists>xs. js_prop item ''ipAddresses'' = JArr xs)"
    using assms by (auto simp: plan_keys_def Let_def split: if_split_asm jsv.split_asm option.split_asm)
  from evm ip assms show ?thesis
    by (elim disjE exE conjE)
      (auto simp: plan_keys_def Let_def plan_config_of_def config_keys_def evm_of_def ip_of_def split: if_split_asm)
qed

lemma all_plan_keys_cover:
  "all_plan_keys items = Some ks \<Longrightarrow> item \<in> set items \<Longrightarrow> \<exists>ks'. plan_keys item = Some ks' \<and> set ks' \<subseteq> set ks"
proof (induction items arbitrary: ks)
  case (Cons a items)
  then show ?case by (auto split: option.split_asm) fastforce
qed simp

text \<open>
  C16. Whatever a start writes goes to the keys that the relay has reserved for the configuration, so the entries of the
  configured plans never compete with those of ordinary requests for room in the memory cache.
\<close>

theorem configured_plans_have_reserved_keys:
  assumes run: "populatePreconfiguredSpendingPlans src setting now es = (Inr n, es')"
    and loaded: "loadSpendingPlansConfig src setting = Inr (JArr items)" and texts: "all_plan_keys items \<noteq> None"
    and written: "tm_get now k (map_of es') \<noteq> None" "tm_get now k (map_of es') \<noteq> tm_get now k (map_of es)"
  shows "k \<in> set (getPreconfiguredSpendingPlanKeys src setting)"
proof (rule ccontr)
  assume free: "k \<notin> set (getPreconfiguredSpendingPlanKeys src setting)"
  obtain ks where ks: "all_plan_keys items = Some ks" using texts by blast
  define cs where "cs = map plan_config_of items"
  have "items \<noteq> []"
    using run loaded written by (auto simp: populatePreconfiguredSpendingPlans_def)
  from populate_configured [OF run loaded this] obtain existing
    where es': "es' = updatePlanAssociations now cs (stored_state now cs existing es)"
    unfolding populate_plans_Inr cs_def by auto
  have "k \<notin> set ks" using free loaded by (simp add: getPreconfiguredSpendingPlanKeys_def ks)
  then have none: "k \<notin> config_keys c" "k \<noteq> plan_key (pc_id c)" if "c \<in> set cs" for c
    using that all_plan_keys_cover [OF ks] plan_keys_cover unfolding cs_def by fastforce+
  have "k \<notin> plan_key ` pc_id ` set (new_plans cs existing)" using none(2) by (auto simp: new_plans_def)
  then have "tm_get now k (map_of (stored_state now cs existing es)) \<in> {None, tm_get now k (map_of es)}"
    by (simp add: get_stored_state get_removed_state)
  moreover have "tm_get now k (map_of es') \<in> {None, tm_get now k (map_of (stored_state now cs existing es))}"
    unfolding es' by (rule get_update_all) (use none(1) in auto)
  ultimately show False using written by auto
qed

text \<open>
  A start changes what no plan has spent, also of the plans it deletes, as long as no identifier of a plan has
  a colon.
\<close>

theorem start_keeps_what_is_spent:
  assumes run: "populatePreconfiguredSpendingPlans src setting now es = (Inr n, es')"
    and loaded: "loadSpendingPlansConfig src setting = Inr (JArr items)" and ok: "links_ok now es"
    and plain: "\<forall>item \<in> set items. CHR '':'' \<notin> set (pc_id (plan_config_of item))"
      "\<forall>k p. tm_get now k (map_of es) = Some (PlanValue p) \<longrightarrow> CHR '':'' \<notin> set (plan_id p)"
  shows "stored_amount now i (map_of es') = stored_amount now i (map_of es)"
proof (cases "items = []")
  case True
  then show ?thesis using run loaded by (simp add: populatePreconfiguredSpendingPlans_def)
next
  case False
  define cs where "cs = map plan_config_of items"
  from populate_configured [OF run loaded False] obtain existing
    where existing: "findAllActiveBySubscriptionTier now configured_tiers es = Inr existing"
      and es': "es' = updatePlanAssociations now cs (stored_state now cs existing es)"
    unfolding populate_plans_Inr cs_def by auto
  have "getAmountSpentKey i \<noteq> plan_key (pc_id c)" if "c \<in> set cs" for c
    using that plain(1) plan_key_not_amount_key [of "pc_id c" i] unfolding cs_def by fastforce
  then have "getAmountSpentKey i \<notin> plan_key ` pc_id ` set (new_plans cs existing)" by (auto simp: new_plans_def)
  moreover have "getAmountSpentKey i \<noteq> plan_key (plan_id d)" if "d \<in> set (obsolete_plans cs existing)" for d
  proof -
    have "plan_id d \<in> plan_id ` set (found_plans now es)"
      using that arg_cong [OF existing_plans(1) [OF existing], of set] by (auto simp: obsolete_plans_def)
    then have "CHR '':'' \<notin> set (plan_id d)" using plain(2) by (auto simp: set_found_plans)
    from plan_key_not_amount_key [OF this, of i] show ?thesis by simp
  qed
  ultimately have "tm_get now (getAmountSpentKey i) (map_of es') = tm_get now (getAmountSpentKey i) (map_of es)"
    unfolding es' by (simp add: update_all_other stored_state_links_ok [OF ok] get_stored_state get_removed_state)
  then show ?thesis by (rule stored_amount_cong)
qed

subsection \<open>An example\<close>

definition sample_item :: "string \<Rightarrow> string \<Rightarrow> string \<Rightarrow> jsv" where
  "sample_item i tier address =
     JObj [(''id'', JStr i), (''name'', JStr ''n''), (''subscriptionTier'', JStr tier), (''evmAddresses'', JArr [JStr address])]"

definition sample_items :: "jsv list" where
  "sample_items = [sample_item ''a'' ''EXTENDED'' '' 0xAB'', sample_item ''b'' ''PRIVILEGED'' ''0xcd'']"

text \<open>The texts that the source knows are the two configurations and one that is not valid.\<close>

definition sample_source :: plan_source where
  "sample_source =
     \<lparr> sp_parse = (\<lambda>s. if s = ''plans'' then Inr (JArr sample_items)
         else if s = ''basic'' then Inr (JArr [sample_item ''c'' ''BASIC'' ''0xef''])
         else if s = ''broken'' then Inr (JArr [sample_item ''c'' ''GOLD'' ''0xef'']) else Inl ''bad''),
       sp_file = (\<lambda>s. Inr None) \<rparr>"

definition sample_old_plan :: spending_plan where
  "sample_old_plan = \<lparr> plan_id = ''old'', plan_subscriptionTier = EXTENDED, plan_createdAt = 1, plan_active = True \<rparr>"

text \<open>A plan of an earlier configuration, with its amount and an address that is now of another plan.\<close>

definition sample_entries :: entries where
  "sample_entries =
     [(plan_key ''old'', PlanValue sample_old_plan, None), (getAmountSpentKey ''old'', AmountValue 7, None),
      (evm_key ''0xab'', LinkValue ''0xab'' ''old'', None)]"

lemmas sample_defs = sample_item_def sample_items_def sample_source_def sample_old_plan_def sample_entries_def

lemma sample_loaded:
  "loadSpendingPlansConfig sample_source (Some ''plans'') = Inr (JArr sample_items)"
  "loadSpendingPlansConfig sample_source (Some ''basic'') = Inr (JArr [sample_item ''c'' ''BASIC'' ''0xef''])"
  "loadSpendingPlansConfig sample_source (Some ''broken'') = Inr (JArr [sample_item ''c'' ''GOLD'' ''0xef''])"
  by (simp_all add: loadSpendingPlansConfig_def sample_source_def)

lemma sample_entries_get:
  "tm_get 5 k (map_of sample_entries) =
     (if k = plan_key ''old'' then Some (PlanValue sample_old_plan)
      else if k = getAmountSpentKey ''old'' then Some (AmountValue 7)
      else if k = evm_key ''0xab'' then Some (LinkValue ''0xab'' ''old'') else None)"
  by (simp add: sample_entries_def tm_get_def)

lemma sample_entries_ok: "links_ok 5 sample_entries" "plans_ok 5 sample_entries"
  using ip.keyed prefixes_exclusive evm.keyed
  by (auto simp: links_ok_def well_linked_def plans_ok_def sample_entries_get sample_old_plan_def
      address_key_def plan_prefix_no_address_key split: if_split_asm)

lemma sample_config:
  "map plan_config_of sample_items =
     [\<lparr> pc_id = ''a'', pc_name = ''n'', pc_evmAddresses = Some ['' 0xAB''], pc_ipAddresses = None, pc_subscriptionTier = EXTENDED \<rparr>,
      \<lparr> pc_id = ''b'', pc_name = ''n'', pc_evmAddresses = Some [''0xcd''], pc_ipAddresses = None, pc_subscriptionTier = PRIVILEGED \<rparr>]"
  by (simp add: sample_items_def sample_item_def plan_config_of_def js_prop_def prop_lookup_def)

lemma sample_ids: "pc_id ` plan_config_of ` set sample_items = {''a'', ''b''}"
  using arg_cong [OF sample_config, of "\<lambda>cs. pc_id ` set cs"] by simp

lemma sample_apart: "plans_apart (map plan_config_of sample_items)"
proof -
  have "evm_key '' 0xAB'' \<noteq> evm_key ''0xcd''" by code_simp
  then show ?thesis unfolding sample_config by (simp add: plans_apart_def config_keys_def evm_of_def ip_of_def)
qed

lemma sample_valid:
  "validateSpendingPlanConfig sample_items = Inr ()"
  "validateSpendingPlanConfig [sample_item ''c'' ''BASIC'' ''0xef''] = Inr ()"
  "\<not> isValidSpendingPlanConfig (sample_item ''c'' ''GOLD'' ''0xef'')"
  by code_simp+

lemma sample_state:
  "\<exists>n es'. populatePreconfiguredSpendingPlans sample_source (Some ''plans'') 5 sample_entries = (Inr n, es')"
  "\<exists>n es'. populatePreconfiguredSpendingPlans sample_source (Some ''basic'') 5 sample_entries = (Inr n, es')"
  using well_formed_start_succeeds [OF sample_entries_ok(2) sample_loaded(1) sample_valid(1)]
    well_formed_start_succeeds [OF sample_entries_ok(2) sample_loaded(2) sample_valid(2)] by blast+

theorem configured_plans_take_effect_witness:
  "\<exists>n es'. populatePreconfiguredSpendingPlans sample_source (Some ''plans'') 5 sample_entries = (Inr n, es') \<and>
     evm_findByAddress 5 ''0xab'' (map_of es') = Inr ''a''"
proof -
  obtain n es' where run: "populatePreconfiguredSpendingPlans sample_source (Some ''plans'') 5 sample_entries = (Inr n, es')"
    using sample_state(1) by blast
  have item: "sample_item ''a'' ''EXTENDED'' '' 0xAB'' \<in> set sample_items" by (simp add: sample_items_def)
  have config: "plan_config_of (sample_item ''a'' ''EXTENDED'' '' 0xAB'') =
      \<lparr> pc_id = ''a'', pc_name = ''n'', pc_evmAddresses = Some ['' 0xAB''], pc_ipAddresses = None, pc_subscriptionTier = EXTENDED \<rparr>"
    using sample_config by (simp add: sample_items_def)
  have "evm_findByAddress 5 '' 0xAB'' (map_of es') = Inr ''a''"
    using configured_plans_take_effect [OF run sample_loaded(1) item sample_entries_ok(1) sample_apart]
    by (simp add: config evm_of_def)
  moreover have "evm_key ''0xab'' = evm_key '' 0xAB''" by code_simp
  ultimately have "evm_findByAddress 5 ''0xab'' (map_of es') = Inr ''a''"
    by (simp add: evm_findByAddress_def split: option.split_asm)
  with run show ?thesis by blast
qed

theorem obsolete_plans_are_removed_witness:
  "\<exists>n es'. populatePreconfiguredSpendingPlans sample_source (Some ''plans'') 5 sample_entries = (Inr n, es') \<and>
     findById 5 ''old'' (map_of sample_entries) = Inr sample_old_plan \<and>
     findById 5 ''old'' (map_of es') = Inl (HbarSpendingPlanNotFoundError ''old'')"
proof -
  obtain n es' where run: "populatePreconfiguredSpendingPlans sample_source (Some ''plans'') 5 sample_entries = (Inr n, es')"
    using sample_state(1) by blast
  have stored: "findById 5 ''old'' (map_of sample_entries) = Inr sample_old_plan"
    by (simp add: findById_def sample_entries_get)
  have "sample_items \<noteq> []" by (simp add: sample_items_def)
  with obsolete_plans_are_removed [OF run sample_loaded(1) _ sample_entries_ok(1) stored] run stored sample_ids show ?thesis
    by (simp add: sample_old_plan_def)
qed

theorem invalid_configuration_changes_nothing_witness:
  "\<exists>m. populatePreconfiguredSpendingPlans sample_source (Some ''broken'') 5 sample_entries = (Inl m, sample_entries)"
  by (rule invalid_configuration_changes_nothing [OF sample_loaded(3) _ sample_valid(3)]) simp

theorem second_start_changes_no_plan_witness:
  "\<exists>n es'. populatePreconfiguredSpendingPlans sample_source (Some ''plans'') 5 sample_entries = (Inr n, es') \<and>
     fst (populatePreconfiguredSpendingPlans sample_source (Some ''plans'') 99000000 es') = Inr 0"
proof -
  obtain n es' where run: "populatePreconfiguredSpendingPlans sample_source (Some ''plans'') 5 sample_entries = (Inr n, es')"
    using sample_state(1) by blast
  have tiers: "\<forall>item \<in> set sample_items. pc_subscriptionTier (plan_config_of item) \<in> {EXTENDED, PRIVILEGED}"
    using arg_cong [OF sample_config, of "\<lambda>cs. pc_subscriptionTier ` set cs"] by fastforce
  have "sample_items \<noteq> []" by (simp add: sample_items_def)
  moreover have "lasting sample_entries" by (auto simp: lasting_def sample_entries_def split: if_split_asm)
  ultimately show ?thesis
    using second_start_changes_no_plan [OF run sample_loaded(1) _ sample_entries_ok _ sample_apart tiers, of 99000000] run
    by auto
qed

theorem basic_plan_created_at_every_start_witness:
  "\<exists>n es'. populatePreconfiguredSpendingPlans sample_source (Some ''basic'') 5 sample_entries = (Inr n, es') \<and>
     findById 5 ''c'' (map_of es') =
       Inr \<lparr> plan_id = ''c'', plan_subscriptionTier = BASIC, plan_createdAt = 5, plan_active = True \<rparr>"
proof -
  obtain n es' where run: "populatePreconfiguredSpendingPlans sample_source (Some ''basic'') 5 sample_entries = (Inr n, es')"
    using sample_state(2) by blast
  have config: "plan_config_of (sample_item ''c'' ''BASIC'' ''0xef'') =
      \<lparr> pc_id = ''c'', pc_name = ''n'', pc_evmAddresses = Some [''0xef''], pc_ipAddresses = None, pc_subscriptionTier = BASIC \<rparr>"
    by (simp add: sample_item_def plan_config_of_def js_prop_def prop_lookup_def)
  have "findById 5 ''c'' (map_of sample_entries) = Inl (HbarSpendingPlanNotFoundError ''c'')"
    by (simp add: findById_def sample_entries_get key_defs)
  with basic_plan_created_at_every_start [OF run sample_loaded(2) _ sample_entries_ok] run show ?thesis
    by (simp add: config plans_apart_def)
qed

theorem configured_plans_have_reserved_keys_witness:
  "\<exists>n es'. populatePreconfiguredSpendingPlans sample_source (Some ''basic'') 5 sample_entries = (Inr n, es') \<and>
     plan_key ''c'' \<in> set (getPreconfiguredSpendingPlanKeys sample_source (Some ''basic''))"
proof -
  obtain n es' where run: "populatePreconfiguredSpendingPlans sample_source (Some ''basic'') 5 sample_entries = (Inr n, es')"
    using sample_state(2) by blast
  define c where "c = plan_config_of (sample_item ''c'' ''BASIC'' ''0xef'')"
  have c: "pc_id c = ''c''" by (simp add: c_def sample_item_def plan_config_of_def js_prop_def prop_lookup_def)
  obtain existing where es': "es' = updatePlanAssociations 5 [c] (stored_state 5 [c] existing sample_entries)"
    and existing: "findAllActiveBySubscriptionTier 5 configured_tiers sample_entries = Inr existing"
    using populate_configured [OF run sample_loaded(2)] unfolding populate_plans_Inr c_def by auto
  have "\<not> (\<exists>d \<in> set existing. plan_id d = ''c'')"
    unfolding existing_ids [OF existing] by (auto simp: found_iff [OF sample_entries_ok(2)] sample_entries_get sample_old_plan_def)
  then have now: "tm_get 5 (plan_key ''c'') (map_of es') \<noteq> None"
    using configured_plan_stored [OF sample_entries_ok(1) _ _ es', of c] by (simp add: c)
  have keys: "all_plan_keys [sample_item ''c'' ''BASIC'' ''0xef''] \<noteq> None"
    by (simp add: plan_keys_def Let_def sample_item_def js_prop_def prop_lookup_def all_texts_def)
  have "tm_get 5 (plan_key ''c'') (map_of sample_entries) = None" by (simp add: sample_entries_get key_defs)
  with now have "tm_get 5 (plan_key ''c'') (map_of es') \<noteq> tm_get 5 (plan_key ''c'') (map_of sample_entries)" by simp
  from configured_plans_have_reserved_keys [OF run sample_loaded(2) keys now this] run show ?thesis by blast
qed

theorem start_keeps_what_is_spent_witness:
  "\<exists>n es'. populatePreconfiguredSpendingPlans sample_source (Some ''plans'') 5 sample_entries = (Inr n, es') \<and>
     stored_amount 5 ''old'' (map_of es') = 7"
proof -
  obtain n es' where run: "populatePreconfiguredSpendingPlans sample_source (Some ''plans'') 5 sample_entries = (Inr n, es')"
    using sample_state(1) by blast
  have "\<forall>i \<in> pc_id ` plan_config_of ` set sample_items. CHR '':'' \<notin> set i" unfolding sample_ids by simp
  then have plain: "\<forall>item \<in> set sample_items. CHR '':'' \<notin> set (pc_id (plan_config_of item))" by simp
  have "\<forall>k p. tm_get 5 k (map_of sample_entries) = Some (PlanValue p) \<longrightarrow> CHR '':'' \<notin> set (plan_id p)"
    by (auto simp: sample_entries_get sample_old_plan_def split: if_split_asm)
  from start_keeps_what_is_spent [OF run sample_loaded(1) sample_entries_ok(1) plain this, of "''old''"] run
  show ?thesis by (simp add: stored_amount_def sample_entries_get key_defs)
qed

end
