(* ===== verification/HttpServer.thy ===== *)
theory HttpServer
  imports KoaServer RpcMethods ConfigService
begin

section \<open>The HTTP server around the JSON-RPC endpoint\<close>

text \<open>
  Models \<open>packages/server/src/server.ts\<close> and the HTTP part of \<open>webSocketServer.ts\<close>: the middlewares in
  their order, with the client address that a proxy reports, the endpoints for operators, the request id,
  and \<open>KoaJsonRpc\<close> at the end; and the limits of the methods (\<open>methodConfiguration.ts\<close>).

  A middleware gets the request and the rest of the chain. An exception is \<open>Inl\<close> with its text; Koa answers
  it with status 500 and drops the headers. What is not in the repository is a parameter: the middleware
  \<open>koa-cors\<close>, Koa's \<open>request.ip\<close>, the text of the metrics and of the OpenRPC document, a new UUID.
  The names of the request's headers are in lower case, as Node gives them. The log and the measurement of
  the duration are not modelled.
\<close>

subsection \<open>The limits of the methods\<close>

definition methodConfiguration :: "int \<Rightarrow> int \<Rightarrow> int \<Rightarrow> (string \<times> int) list" where
  "methodConfiguration tier1 tier2 tier3 =
     [(''web3_clientVersion'', tier3), (''web3_sha3'', tier3), (''net_listening'', tier3), (''net_version'', tier3),
      (''net_peerCount'', tier3), (''ADMIN_CONFIG'', tier3), (''eth_blockNumber'', tier2), (''eth_call'', tier1),
      (''eth_coinbase'', tier2), (''eth_blobBaseFee'', tier2), (''eth_estimateGas'', tier2),
      (''eth_gasPrice'', tier2), (''eth_getBalance'', tier2), (''eth_getBlockByHash'', tier2),
      (''eth_getBlockByNumber'', tier2), (''eth_getBlockReceipts'', tier2),
      (''eth_getBlockTransactionCountByHash'', tier2), (''eth_getBlockTransactionCountByNumber'', tier2),
      (''eth_getCode'', tier2), (''eth_chainId'', tier2), (''eth_getFilterChanges'', tier2),
      (''eth_getLogs'', tier2), (''eth_getStorageAt'', tier2), (''eth_getTransactionByBlockHashAndIndex'', tier2),
      (''eth_getTransactionByBlockNumberAndIndex'', tier2), (''eth_getTransactionByHash'', tier2),
      (''eth_getTransactionCount'', tier2), (''eth_getTransactionReceipt'', tier2),
      (''eth_getUncleByBlockHashAndIndex'', tier2), (''eth_getUncleByBlockNumberAndIndex'', tier2),
      (''eth_getUncleCountByBlockHash'', tier2), (''eth_getUncleCountByBlockNumber'', tier2),
      (''eth_getWork'', tier2), (''eth_feeHistory'', tier2), (''eth_hashrate'', tier1),
      (''eth_maxPriorityFeePerGas'', tier1), (''eth_mining'', tier1), (''eth_protocolVersion'', tier2),
      (''eth_sendRawTransaction'', tier1), (''eth_sendTransaction'', tier1), (''eth_sign'', tier1),
      (''eth_signTransaction'', tier1), (''eth_submitHashrate'', tier1), (''eth_submitWork'', tier1),
      (''eth_syncing'', tier1), (''eth_accounts'', tier2), (''eth_newBlockFilter'', tier2),
      (''eth_newPendingTransactionFilter'', tier2), (''eth_newFilter'', tier2), (''eth_uninstallFilter'', tier2),
      (''eth_getFilterLogs'', tier2), (''debug_traceTransaction'', tier1), (''debug_traceBlockByNumber'', tier1),
      (''batch_request'', tier1), (''eth_getProof'', tier2), (''eth_createAccessList'', tier2)]"

subsection \<open>The address of the client\<close>

fun index_of :: "string \<Rightarrow> string \<Rightarrow> nat option" where
  "index_of p [] = (if p = [] then Some 0 else None)"
| "index_of p (c # cs) = (if starts_with p (c # cs) then Some 0 else map_option Suc (index_of p cs))"

definition ip_char :: "char \<Rightarrow> bool" where
  "ip_char c = (let n = (of_char c :: nat) in
     (48 \<le> n \<and> n \<le> 57) \<or> (65 \<le> n \<and> n \<le> 70) \<or> (97 \<le> n \<and> n \<le> 102) \<or> n = 58 \<or> n = 46)"

definition quote :: char where "quote = CHR 34"

text \<open>The value after \<open>for=\<close>: between quotes (and there perhaps in brackets), in brackets, or up to a separator.\<close>

definition unbracket :: "string \<Rightarrow> string" where
  "unbracket ip = (if starts_with ''['' ip \<and> ends_with '']'' ip then butlast (tl ip) else ip)"

definition forwarded_value :: "string \<Rightarrow> string option" where
  "forwarded_value v =
     (case v of
        [] \<Rightarrow> None
      | c # rest \<Rightarrow>
          if c = quote
          then (if quote \<in> set rest then Some (unbracket (takeWhile (\<lambda>x. x \<noteq> quote) rest)) else None)
          else if c = CHR ''[''
          then (if CHR '']'' \<in> set rest then Some (takeWhile (\<lambda>x. x \<noteq> CHR '']'') rest) else None)
          else Some (takeWhile (\<lambda>x. x \<notin> {CHR '';'', CHR '','', CHR '' '', CHR 9}) (c # rest)))"

definition valid_client_ip :: "string \<Rightarrow> bool" where
  "valid_client_ip ip = (ip \<noteq> [] \<and> length ip \<le> 45 \<and> list_all ip_char ip)"

definition parseForwardedHeader :: "string \<Rightarrow> string option" where
  "parseForwardedHeader forwardedHeader =
     (if 1000 < length forwardedHeader then None
      else let firstEntry = js_trim (takeWhile (\<lambda>c. c \<noteq> CHR '','') forwardedHeader) in
        case index_of ''for='' (map to_lower firstEntry) of
          None \<Rightarrow> None
        | Some forIndex \<Rightarrow>
            (case forwarded_value (drop (forIndex + 4) firstEntry) of
               None \<Rightarrow> None | Some ip \<Rightarrow> if valid_client_ip ip then Some ip else None))"

subsection \<open>Requests and responses\<close>

record http_request =
  rq_method :: string
  rq_url :: string
  rq_headers :: "(string \<times> string) list"
  rq_remote :: string
  rq_body :: "string + jsv"
  rq_reqId :: string

datatype http_body = NoBody | TextBody string | RpcBody reply_body

record http_response =
  rs_status :: int
  rs_body :: http_body
  rs_headers :: "(string \<times> string) list"

type_synonym http_result = "string + http_response"
type_synonym middleware = "http_request \<Rightarrow> (http_request \<Rightarrow> http_result) \<Rightarrow> http_result"

text \<open>\<open>ctx.get\<close>: an absent header is the empty text.\<close>

definition header_get :: "string \<Rightarrow> http_request \<Rightarrow> string" where
  "header_get name rq = (case map_of (rq_headers rq) name of None \<Rightarrow> '''' | Some v \<Rightarrow> v)"

definition header_put :: "string \<Rightarrow> string \<Rightarrow> http_request \<Rightarrow> http_request" where
  "header_put name v rq = rq\<lparr> rq_headers := (name, v) # filter (\<lambda>h. fst h \<noteq> name) (rq_headers rq) \<rparr>"

text \<open>A response without a status: Koa answers 404.\<close>

definition not_found :: http_result where
  "not_found = Inr \<lparr> rs_status = 404, rs_body = NoBody, rs_headers = [] \<rparr>"

definition reply :: "int \<Rightarrow> http_body \<Rightarrow> http_result" where
  "reply status body = Inr \<lparr> rs_status = status, rs_body = body, rs_headers = [] \<rparr>"

definition add_header :: "string \<Rightarrow> string \<Rightarrow> http_result \<Rightarrow> http_result" where
  "add_header name v r = and_then r (\<lambda>rs. Inr (rs\<lparr> rs_headers := (name, v) # rs_headers rs \<rparr>))"

record server_env =
  srv_cors :: "http_request \<Rightarrow> http_result option"
  srv_ip :: "string \<Rightarrow> string option \<Rightarrow> string"
  srv_metrics :: "string + string"
  srv_openrpc :: "string + string"
  srv_adminDisabled :: bool
  srv_adminConfig :: "string + jsv"
  srv_chainId :: "string + string"
  srv_uuid :: string
  srv_koa :: koa_config
  srv_answers :: "nat \<Rightarrow> call_answers"

subsection \<open>The middlewares\<close>

definition forwarded_middleware :: middleware where
  "forwarded_middleware rq nxt =
     (if header_get ''x-forwarded-for'' rq = '''' \<and> header_get ''forwarded'' rq \<noteq> ''''
      then (case parseForwardedHeader (header_get ''forwarded'' rq) of
              Some clientIp \<Rightarrow> nxt (header_put ''x-forwarded-for'' clientIp rq) | None \<Rightarrow> nxt rq)
      else nxt rq)"

definition cors_middleware :: "server_env \<Rightarrow> middleware" where
  "cors_middleware env rq nxt = (case srv_cors env rq of Some r \<Rightarrow> r | None \<Rightarrow> nxt rq)"

definition text_endpoint :: "string \<Rightarrow> string + string \<Rightarrow> middleware" where
  "text_endpoint url content rq nxt =
     (if rq_url rq = url then and_then content (\<lambda>t. reply 200 (TextBody t)) else nxt rq)"

definition liveness_endpoint :: middleware where
  "liveness_endpoint rq nxt = (if rq_url rq = ''/health/liveness'' then reply 200 NoBody else nxt rq)"

text \<open>The error that a disabled endpoint returns is not sent: nothing has set a status.\<close>

definition config_endpoint :: "server_env \<Rightarrow> middleware" where
  "config_endpoint env rq nxt =
     (if rq_url rq = ''/config''
      then if srv_adminDisabled env then not_found
           else and_then (srv_adminConfig env) (\<lambda>c. reply 200 (TextBody (json_stringify c)))
      else nxt rq)"

definition readiness_endpoint :: "server_env \<Rightarrow> middleware" where
  "readiness_endpoint env rq nxt =
     (if rq_url rq = ''/health/readiness''
      then and_then (srv_chainId env) (\<lambda>c. if str_includes ''0x12'' c then reply 200 (TextBody ''OK'') else reply 503 (TextBody ''DOWN''))
      else nxt rq)"

definition method_filter :: middleware where
  "method_filter rq nxt =
     (if rq_method rq = ''POST'' then nxt rq else if rq_method rq = ''OPTIONS'' then reply 200 NoBody else not_found)"

text \<open>Node refuses a header whose name is not a token.\<close>

definition token_char :: "char \<Rightarrow> bool" where
  "token_char c = (let n = (of_char c :: nat) in
     (48 \<le> n \<and> n \<le> 57) \<or> (65 \<le> n \<and> n \<le> 90) \<or> (97 \<le> n \<and> n \<le> 122) \<or>
     n \<in> {33, 35, 36, 37, 38, 39, 42, 43, 45, 46, 94, 95, 96, 124, 126})"

definition header_token :: "string \<Rightarrow> bool" where
  "header_token name = (name \<noteq> [] \<and> list_all token_char name)"

definition request_id :: "server_env \<Rightarrow> http_request \<Rightarrow> string" where
  "request_id env rq =
     (if header_get ''query'' rq \<noteq> '''' then header_get ''query'' rq
      else if header_get ''request-id'' rq \<noteq> '''' then header_get ''request-id'' rq else srv_uuid env)"

definition request_id_middleware :: "server_env \<Rightarrow> middleware" where
  "request_id_middleware env rq nxt =
     (let expose = header_get ''request-id'' rq; i = request_id env rq
      in if expose = '''' then nxt (rq\<lparr> rq_reqId := i \<rparr>)
         else if header_token expose then add_header expose i (nxt (rq\<lparr> rq_reqId := i \<rparr>))
         else Inl (''Header name must be a valid HTTP token: '' @ expose))"

definition client_ip :: "server_env \<Rightarrow> http_request \<Rightarrow> string" where
  "client_ip env rq =
     srv_ip env (rq_remote rq) (if header_get ''x-forwarded-for'' rq = '''' then None else Some (header_get ''x-forwarded-for'' rq))"

definition REQUEST_ID_HEADER_NAME :: string where "REQUEST_ID_HEADER_NAME = ''X-Request-Id''"

definition rpc_endpoint :: "server_env \<Rightarrow> http_request \<Rightarrow> http_result" where
  "rpc_endpoint env rq =
     and_then (rpcApp (srv_koa env) (srv_answers env) (rq_method rq) (rq_body rq) (client_ip env rq)) (\<lambda>r.
       Inr \<lparr> rs_status = reply_status r, rs_body = RpcBody (reply_body r),
             rs_headers = [(REQUEST_ID_HEADER_NAME, rq_reqId rq)] \<rparr>)"

fun run_chain :: "middleware list \<Rightarrow> (http_request \<Rightarrow> http_result) \<Rightarrow> http_request \<Rightarrow> http_result" where
  "run_chain [] last_handler rq = last_handler rq"
| "run_chain (m # ms) last_handler rq = m rq (run_chain ms last_handler)"

definition http_middlewares :: "server_env \<Rightarrow> middleware list" where
  "http_middlewares env =
     [forwarded_middleware, cors_middleware env, text_endpoint ''/metrics'' (srv_metrics env), liveness_endpoint,
      config_endpoint env, readiness_endpoint env, text_endpoint ''/openrpc'' (srv_openrpc env), method_filter,
      request_id_middleware env]"

definition answered :: "http_result \<Rightarrow> http_response" where
  "answered r =
     (case r of Inr rs \<Rightarrow> rs | Inl m \<Rightarrow> \<lparr> rs_status = 500, rs_body = TextBody ''Internal Server Error'', rs_headers = [] \<rparr>)"

definition http_app :: "server_env \<Rightarrow> http_request \<Rightarrow> http_response" where
  "http_app env rq = answered (run_chain (http_middlewares env) (rpc_endpoint env) rq)"

text \<open>The HTTP side of the websocket server has the endpoints alone.\<close>

definition ws_http_app :: "server_env \<Rightarrow> http_request \<Rightarrow> http_response" where
  "ws_http_app env rq =
     answered (run_chain [text_endpoint ''/metrics'' (srv_metrics env), liveness_endpoint, readiness_endpoint env]
       (\<lambda>rq. not_found) rq)"

subsection \<open>Every method has a limit\<close>

text \<open>
  Every method the relay serves has a limit of its own, one of the three tiers; the default limit is for names the
  relay does not serve.
\<close>

theorem served_methods_have_limits:
  "\<forall>m \<in> set served_names. \<exists>tier \<in> {tier1, tier2, tier3}. map_of (methodConfiguration tier1 tier2 tier3) m = Some tier"
proof -
  define names where "names = map fst (methodConfiguration tier1 tier2 tier3)"
  have "list_all (\<lambda>m. m \<in> set (map fst (methodConfiguration 1 2 3))) served_names" by code_simp
  moreover have "map fst (methodConfiguration 1 2 3) = names" by (simp add: names_def methodConfiguration_def)
  ultimately have "set served_names \<subseteq> set names" by (auto simp: list_all_iff)
  moreover have "snd ` set (methodConfiguration tier1 tier2 tier3) \<subseteq> {tier1, tier2, tier3}"
    by (simp add: methodConfiguration_def)
  ultimately show ?thesis unfolding names_def
    by (metis (no_types, lifting) image_subset_iff map_of_SomeD map_of_eq_None_iff not_None_eq set_map snd_conv subsetD)
qed

subsection \<open>The header \<open>Forwarded\<close>\<close>

text \<open>What is taken from a header is never empty, not longer than an address and has no character but those of one.\<close>

theorem forwarded_address_is_safe:
  assumes "parseForwardedHeader h = Some ip"
  shows "ip \<noteq> [] \<and> length ip \<le> 45 \<and> (\<forall>c \<in> set ip. ip_char c) \<and> length h \<le> 1000"
  using assms
  by (auto simp: parseForwardedHeader_def Let_def valid_client_ip_def list_all_iff split: if_splits option.split_asm)

lemma ip_char_plain: "ip_char c \<Longrightarrow> c \<noteq> quote \<and> c \<notin> {CHR '','', CHR '';'', CHR '' '', CHR 9, CHR ''['', CHR '']''}"
  by (auto simp: ip_char_def quote_def)

lemma ip_char_not_space: "ip_char c \<Longrightarrow> \<not> js_space c"
  by (auto simp: ip_char_def js_space_def Let_def)

lemma valid_ip_plain:
  assumes "valid_client_ip ip" and "c \<in> set ip"
  shows "c \<noteq> quote" "c \<noteq> CHR '',''" "c \<noteq> CHR '';''" "c \<noteq> CHR '' ''" "c \<noteq> CHR 9" "c \<noteq> CHR ''[''" "c \<noteq> CHR '']''" "\<not> js_space c"
  using assms ip_char_plain [of c] ip_char_not_space [of c] by (auto simp: valid_client_ip_def list_all_iff)

text \<open>The parameters that may follow the first one of an entry.\<close>

definition parameters :: "string \<Rightarrow> bool" where
  "parameters s \<longleftrightarrow> s = [] \<or> (hd s = CHR '';'' \<and> CHR '','' \<notin> set s \<and> \<not> js_space (last s))"

lemma entry_kept:
  assumes "v \<noteq> []" "CHR '','' \<notin> set v" "\<not> js_space (last v)" "parameters s" "length v + length s \<le> 996"
    and "others = [] \<or> hd others = CHR '',''" "length v + length s + length others \<le> 996"
  shows "parseForwardedHeader (''for='' @ v @ s @ others) =
    (case forwarded_value (v @ s) of None \<Rightarrow> None | Some ip \<Rightarrow> if valid_client_ip ip then Some ip else None)"
proof -
  have comma: "CHR '','' \<notin> set (''for='' @ v @ s)" using assms(2,4) by (auto simp: parameters_def)
  have first: "takeWhile (\<lambda>c. c \<noteq> CHR '','') (''for='' @ v @ s @ others) = ''for='' @ v @ s"
    using comma assms(6) by (subst append_assoc [symmetric])+ (cases others; auto simp: takeWhile_append)
  have "js_trim (''for='' @ v @ s) = ''for='' @ v @ s"
  proof (rule js_trim_id)
    show "\<not> js_space (last (''for='' @ v @ s))"
      using assms(1,3,4) by (cases "s = []") (auto simp: parameters_def)
  qed (simp_all add: js_space_def)
  moreover have "index_of ''for='' (map to_lower (''for='' @ v @ s)) = Some 0"
    by (simp add: to_lower_def starts_with_def)
  moreover have "\<not> 1000 < length (''for='' @ v @ s @ others)" using assms(7) by simp
  ultimately show ?thesis
    unfolding parseForwardedHeader_def first Let_def by simp
qed

lemma takeWhile_until: "x \<notin> set xs \<Longrightarrow> takeWhile (\<lambda>c. c \<noteq> x) (xs @ x # ys) = xs"
  by (induction xs) auto

lemma takeWhile_all: "(\<And>c. c \<in> set xs \<Longrightarrow> P c) \<Longrightarrow> takeWhile P (xs @ ys) = xs @ takeWhile P ys"
  by (induction xs) auto

lemma plain_value:
  assumes "valid_client_ip ip" and "parameters s"
  shows "forwarded_value (ip @ s) = Some ip"
proof -
  obtain c cs where ip: "ip = c # cs" using assms(1) by (cases ip) (auto simp: valid_client_ip_def)
  have stop: "takeWhile (\<lambda>x. x \<notin> {CHR '';'', CHR '','', CHR '' '', CHR 9}) s = []"
    using assms(2) by (cases s) (auto simp: parameters_def)
  have "takeWhile (\<lambda>x. x \<notin> {CHR '';'', CHR '','', CHR '' '', CHR 9}) (ip @ s) =
      ip @ takeWhile (\<lambda>x. x \<notin> {CHR '';'', CHR '','', CHR '' '', CHR 9}) s"
    by (rule takeWhile_all) (use valid_ip_plain [OF assms(1)] in blast)
  then have "takeWhile (\<lambda>x. x \<notin> {CHR '';'', CHR '','', CHR '' '', CHR 9}) (ip @ s) = ip"
    by (simp only: stop append_Nil2)
  then show ?thesis using valid_ip_plain [OF assms(1), of c] by (simp add: forwarded_value_def ip)
qed

lemma unbracket_id: "valid_client_ip ip \<Longrightarrow> unbracket ip = ip"
  using valid_ip_plain(6) [of ip "hd ip"] by (cases ip) (auto simp: unbracket_def starts_with_def valid_client_ip_def)

lemma unbracket_brackets: "unbracket (CHR ''['' # ip @ '']'') = ip"
  by (simp add: unbracket_def starts_with_def ends_with_def)

lemma quoted_value: "quote \<notin> set w \<Longrightarrow> forwarded_value (quote # w @ quote # s) = Some (unbracket w)"
  by (simp add: forwarded_value_def takeWhile_until)

lemma bracketed_value: "CHR '']'' \<notin> set w \<Longrightarrow> forwarded_value (CHR ''['' # w @ CHR '']'' # s) = Some w"
  by (simp add: forwarded_value_def takeWhile_until quote_def)

text \<open>
  C30. An address comes back from each of the four forms in which a proxy may write it, whatever parameters and
  further entries follow.
\<close>

theorem forwarded_forms_agree:
  assumes ip: "valid_client_ip ip" and s: "parameters s" and others: "others = [] \<or> hd others = CHR '',''"
    and short: "length s + length others \<le> 900"
  shows "parseForwardedHeader (''for='' @ ip @ s @ others) = Some ip \<and>
    parseForwardedHeader (''for='' @ (CHR ''['' # ip @ '']'') @ s @ others) = Some ip \<and>
    parseForwardedHeader (''for='' @ (quote # ip @ [quote]) @ s @ others) = Some ip \<and>
    parseForwardedHeader (''for='' @ (quote # (CHR ''['' # ip @ '']'') @ [quote]) @ s @ others) = Some ip"
proof -
  note plain = valid_ip_plain [OF ip]
  have clear: "CHR '']'' \<notin> set ip" "quote \<notin> set ip" using plain by blast+
  have len: "length ip \<le> 45" and "ip \<noteq> []" using ip by (auto simp: valid_client_ip_def)
  have kept: "parseForwardedHeader (''for='' @ v @ s @ others) = Some ip"
    if "v \<noteq> []" "CHR '','' \<notin> set v" "\<not> js_space (last v)" "length v \<le> 50" "forwarded_value (v @ s) = Some ip" for v
    using entry_kept [OF that(1-3) s _ others] that(4,5) short ip by simp
  have "last ip \<in> set ip" using \<open>ip \<noteq> []\<close> by simp
  then have 1: "parseForwardedHeader (''for='' @ ip @ s @ others) = Some ip"
    using plain plain_value [OF ip s] len \<open>ip \<noteq> []\<close> by (intro kept) auto
  have 2: "parseForwardedHeader (''for='' @ (CHR ''['' # ip @ '']'') @ s @ others) = Some ip"
    using plain bracketed_value [OF clear(1), of s] len by (intro kept) (auto simp: js_space_def)
  have 3: "parseForwardedHeader (''for='' @ (quote # ip @ [quote]) @ s @ others) = Some ip"
    using plain quoted_value [OF clear(2), of s] len unbracket_id [OF ip] by (intro kept) (auto simp: js_space_def quote_def)
  have 4: "parseForwardedHeader (''for='' @ (quote # (CHR ''['' # ip @ '']'') @ [quote]) @ s @ others) = Some ip"
    using plain quoted_value [of "CHR ''['' # ip @ '']''" s] len unbracket_brackets [of ip]
    by (intro kept) (auto simp: js_space_def quote_def)
  from 1 2 3 4 show ?thesis by blast
qed

theorem forwarded_forms_agree_witness:
  "parseForwardedHeader (''for='' @ (quote # ''[2001:db8::17]'' @ [quote]) @ '';proto=http'' @ '', for=10.0.0.1'') = Some ''2001:db8::17''"
proof -
  have "valid_client_ip ''2001:db8::17''" "parameters '';proto=http''" by code_simp+
  from forwarded_forms_agree [OF this, of "'', for=10.0.0.1''"] show ?thesis by simp
qed

theorem forwarded_address_is_safe_witness:
  "parseForwardedHeader ''for=192.0.2.43:47011'' = Some ''192.0.2.43:47011'' \<and> length ''192.0.2.43:47011'' \<le> (45::nat)"
proof -
  have "parseForwardedHeader ''for=192.0.2.43:47011'' = Some ''192.0.2.43:47011''" by code_simp
  with forwarded_address_is_safe [OF this] show ?thesis by simp
qed

subsection \<open>Who reaches the relay\<close>

definition operator_urls :: "string list" where
  "operator_urls = [''/metrics'', ''/health/liveness'', ''/config'', ''/health/readiness'', ''/openrpc'']"

lemma header_get_put: "header_get n (header_put m v rq) = (if n = m then v else header_get n rq)"
proof -
  have "map_of (filter (\<lambda>h. fst h \<noteq> m) hs) n = (if n = m then None else map_of hs n)" for hs :: "(string \<times> string) list"
    by (induction hs) auto
  then show ?thesis by (simp add: header_get_def header_put_def)
qed

lemma header_put_same [simp]:
  "rq_method (header_put m v rq) = rq_method rq" "rq_url (header_put m v rq) = rq_url rq"
  "rq_remote (header_put m v rq) = rq_remote rq" "rq_body (header_put m v rq) = rq_body rq"
  by (simp_all add: header_put_def)

lemma header_get_reqId [simp]: "header_get n (rq\<lparr> rq_reqId := i \<rparr>) = header_get n rq"
  by (simp add: header_get_def)

text \<open>The request as the middlewares after the first one see it.\<close>

definition forwarded_request :: "http_request \<Rightarrow> http_request" where
  "forwarded_request rq =
     (if header_get ''x-forwarded-for'' rq = '''' \<and> header_get ''forwarded'' rq \<noteq> ''''
      then (case parseForwardedHeader (header_get ''forwarded'' rq) of
              Some clientIp \<Rightarrow> header_put ''x-forwarded-for'' clientIp rq | None \<Rightarrow> rq)
      else rq)"

lemma forwarded_request_same [simp]:
  "rq_method (forwarded_request rq) = rq_method rq" "rq_url (forwarded_request rq) = rq_url rq"
  "rq_remote (forwarded_request rq) = rq_remote rq" "rq_body (forwarded_request rq) = rq_body rq"
  "n \<noteq> ''x-forwarded-for'' \<Longrightarrow> header_get n (forwarded_request rq) = header_get n rq"
  by (auto simp: forwarded_request_def header_get_put split: option.split)

lemma request_id_forwarded [simp]: "request_id env (forwarded_request rq) = request_id env rq"
  by (simp add: request_id_def)

lemma run_chain_end: "run_chain [] h = h"
  by (simp add: fun_eq_iff)

lemma run_forwarded: "forwarded_middleware rq nxt = nxt (forwarded_request rq)"
  by (simp add: forwarded_middleware_def forwarded_request_def split: option.split)

lemmas endpoint_defs = text_endpoint_def liveness_endpoint_def config_endpoint_def readiness_endpoint_def method_filter_def

text \<open>A call, as far as the middleware of the request id: it passes all the endpoints.\<close>

lemma call_passes:
  assumes "rq_method rq = ''POST''" and "rq_url rq \<notin> set operator_urls" and "srv_cors env (forwarded_request rq) = None"
  shows "http_app env rq = answered (request_id_middleware env (forwarded_request rq) (rpc_endpoint env))"
  using assms(1,2)
  by (simp add: http_app_def http_middlewares_def run_chain_end run_forwarded cors_middleware_def assms(3) endpoint_defs operator_urls_def)

text \<open>
  The answer to a request that is no POST, or whose URL is one of an operator, does not depend on what the rate limiter
  or the relay would say to a call. The configuration and the readiness ask the relay in their own way.
\<close>

theorem other_answers_ignore_calls:
  assumes "rq_method rq \<noteq> ''POST'' \<or> rq_url rq \<in> set operator_urls"
  shows "http_app (env\<lparr> srv_answers := answers, srv_koa := cfg \<rparr>) rq = http_app env rq"
proof -
  have "cors_middleware (env\<lparr> srv_answers := answers, srv_koa := cfg \<rparr>) = cors_middleware env"
    "config_endpoint (env\<lparr> srv_answers := answers, srv_koa := cfg \<rparr>) = config_endpoint env"
    "readiness_endpoint (env\<lparr> srv_answers := answers, srv_koa := cfg \<rparr>) = readiness_endpoint env"
    by (simp_all add: fun_eq_iff cors_middleware_def config_endpoint_def readiness_endpoint_def)
  moreover have "cors_middleware env rq' f = cors_middleware env rq' g" if "f rq' = g rq'" for rq' f g
    using that by (simp add: cors_middleware_def split: option.split)
  ultimately show ?thesis
    using assms
    by (auto simp: http_app_def http_middlewares_def run_forwarded cors_middleware_def endpoint_defs operator_urls_def
        split: option.split)
qed


text \<open>
  A call whose \<open>Request-Id\<close> is not the name of a header, for instance one with a space, is answered with
  status 500 and never reaches the relay: the middleware takes the value for the name of the header to set.
\<close>

theorem request_id_must_be_a_token:
  assumes "rq_method rq = ''POST''" and "rq_url rq \<notin> set operator_urls" and "srv_cors env (forwarded_request rq) = None"
    and "header_get ''request-id'' rq \<noteq> ''''" and "\<not> header_token (header_get ''request-id'' rq)"
  shows "rs_status (http_app env rq) = 500"
  using assms(4,5) unfolding call_passes [OF assms(1-3)] by (simp add: request_id_middleware_def Let_def answered_def)

text \<open>
  The two servers answer the probes of an operator alike: the liveness always, the readiness by the chain id.
\<close>

theorem servers_answer_probes_alike:
  assumes "rq_url rq \<in> {''/metrics'', ''/health/liveness'', ''/health/readiness''}" and "srv_cors env (forwarded_request rq) = None"
  shows "http_app env rq = ws_http_app env rq \<and>
    (rq_url rq = ''/health/liveness'' \<longrightarrow> rs_status (http_app env rq) = 200) \<and>
    (rq_url rq = ''/health/readiness'' \<longrightarrow> (\<forall>c. srv_chainId env = Inr c \<longrightarrow>
       rs_status (http_app env rq) = (if str_includes ''0x12'' c then 200 else 503)))"
  using assms(1)
  by (auto simp: http_app_def ws_http_app_def http_middlewares_def run_forwarded cors_middleware_def assms(2) endpoint_defs
      answered_def reply_def)

text \<open>When the admin interface is disabled, nothing of the configuration leaves the server, whatever the request.\<close>

theorem disabled_admin_publishes_nothing:
  assumes "srv_adminDisabled env"
  shows "http_app (env\<lparr> srv_adminConfig := config \<rparr>) rq = http_app env rq"
proof -
  have "request_id_middleware (env\<lparr> srv_adminConfig := config \<rparr>) = request_id_middleware env"
    "rpc_endpoint (env\<lparr> srv_adminConfig := config \<rparr>) = rpc_endpoint env"
    by (simp_all add: fun_eq_iff request_id_middleware_def request_id_def rpc_endpoint_def client_ip_def Let_def)
  moreover have "cors_middleware (env\<lparr> srv_adminConfig := config \<rparr>) = cors_middleware env"
    "config_endpoint (env\<lparr> srv_adminConfig := config \<rparr>) = config_endpoint env"
    "readiness_endpoint (env\<lparr> srv_adminConfig := config \<rparr>) = readiness_endpoint env"
    using assms by (simp_all add: fun_eq_iff cors_middleware_def config_endpoint_def readiness_endpoint_def)
  ultimately show ?thesis by (simp add: http_app_def http_middlewares_def)
qed

subsection \<open>An example\<close>

definition sample_koa_config :: koa_config where
  "sample_koa_config =
     \<lparr> requestIdIsOptional = False, batchRequestsEnabled = True, batchRequestsMaxSize = 100, batchDisallowedMethods = [],
       methodConfig_total = map_of (methodConfiguration 100 800 1600), defaultRateLimit = 200 \<rparr>"

definition sample_server :: server_env where
  "sample_server =
     \<lparr> srv_cors = (\<lambda>rq. if rq_method rq = ''OPTIONS'' then Some (reply 204 NoBody) else None), srv_ip = (\<lambda>remote forwarded. case forwarded of None \<Rightarrow> remote | Some a \<Rightarrow> a),
       srv_metrics = Inr '''', srv_openrpc = Inr ''{}'', srv_adminDisabled = True, srv_adminConfig = Inr JNull,
       srv_chainId = Inr ''0x12a'', srv_uuid = ''u'', srv_koa = sample_koa_config,
       srv_answers = (\<lambda>_. \<lparr> answer_shouldRateLimit = (\<lambda>ip m t. Inr (ip \<noteq> ''10.0.0.7'')),
                            answer_executeRpcMethod = (\<lambda>m ps. Inr (Inr (JStr ''0x12a''))) \<rparr>) \<rparr>"

lemma sample_server_fields [simp]:
  "rq_method rq \<noteq> ''OPTIONS'' \<Longrightarrow> srv_cors sample_server rq = None" "srv_chainId sample_server = Inr ''0x12a''" "srv_adminDisabled sample_server"
  "srv_ip sample_server remote (Some a) = a" "srv_koa sample_server = sample_koa_config"
  by (simp_all add: sample_server_def)

definition sample_call :: "(string \<times> string) list \<Rightarrow> http_request" where
  "sample_call headers =
     \<lparr> rq_method = ''POST'', rq_url = ''/'', rq_headers = headers, rq_remote = ''10.9.9.9'',
       rq_body = Inr (JObj [(''id'', JNum 1), (''jsonrpc'', JStr ''2.0''), (''method'', JStr ''eth_chainId'')]), rq_reqId = '''' \<rparr>"

lemma sample_call_method [simp]: "rq_method (sample_call headers) = ''POST''"
  by (simp add: sample_call_def)


theorem other_answers_ignore_calls_witness:
  "rs_status (http_app (sample_server\<lparr> srv_answers := srv_answers sample_server \<circ> Suc, srv_koa := sample_koa_config \<rparr>)
     ((sample_call [])\<lparr> rq_method := ''GET'' \<rparr>)) = rs_status (http_app sample_server ((sample_call [])\<lparr> rq_method := ''GET'' \<rparr>))"
  using other_answers_ignore_calls [where rq = "(sample_call [])\<lparr> rq_method := ''GET'' \<rparr>" and env = sample_server
      and answers = "srv_answers sample_server \<circ> Suc" and cfg = sample_koa_config] by simp

theorem request_id_must_be_a_token_witness:
  "rs_status (http_app sample_server (sample_call [(''request-id'', ''my id'')])) = 500"
proof -
  have "\<not> header_token ''my id''" by code_simp
  then show ?thesis
    by (intro request_id_must_be_a_token) (simp_all add: sample_call_def operator_urls_def header_get_def)
qed

theorem servers_answer_probes_alike_witness:
  "rs_status (ws_http_app sample_server ((sample_call [])\<lparr> rq_url := ''/health/readiness'' \<rparr>)) = 200"
proof -
  have "str_includes ''0x12'' ''0x12a''" by code_simp
  then show ?thesis
    using servers_answer_probes_alike [of "(sample_call [])\<lparr> rq_url := ''/health/readiness'' \<rparr>" sample_server]
    by auto
qed

theorem disabled_admin_publishes_nothing_witness:
  "http_app (sample_server\<lparr> srv_adminConfig := Inr (JStr ''secret'') \<rparr>) ((sample_call [])\<lparr> rq_url := ''/config'' \<rparr>) =
   http_app sample_server ((sample_call [])\<lparr> rq_url := ''/config'' \<rparr>)"
  by (rule disabled_admin_publishes_nothing) simp

end
