(* ===== verification/OpenRpcDocs.thy ===== *)
theory OpenRpcDocs
  imports JsonValues "HOL-Library.Sublist"
begin

section \<open>The OpenRPC updater: documents and paths\<close>

text \<open>
  Models \<open>scripts/openrpc-json-updater\<close>, the tool that brings the relay's OpenRPC document in line with the one of
  Ethereum: what is left out (\<open>config.js\<close>), paths and references in a document (\<open>merge.utils.js\<close>) and
  the differences of two methods (\<open>openrpc.utils.js\<close>). Documents are JSON values. The package \<open>deep-diff\<close>
  is a parameter that gives the path of each difference. Names and keys are texts; a write into an array
  beyond its end, which no caller makes, leaves the array as it is.
\<close>

subsection \<open>What is left out\<close>

definition SKIPPED_KEYS :: "string list" where
  "SKIPPED_KEYS = [''examples'', ''baseFeePerBlobGas'', ''blobGasUsedRatio'']"

definition CUSTOM_FIELDS :: "string list" where
  "CUSTOM_FIELDS =
     [''eth_feeHistory.summary'', ''eth_feeHistory.description'', ''eth_feeHistory.params.2.description'',
      ''eth_feeHistory.result.schema.properties.gasUsedRatio.description'',
      ''eth_feeHistory.result.schema.properties.baseFeePerGas.title'',
      ''eth_feeHistory.result.schema.properties.baseFeePerGas.description'',
      ''eth_feeHistory.result.schema.properties.reward.title'', ''eth_getTransactionCount.summary'',
      ''eth_maxPriorityFeePerGas.result.schema.description'', ''eth_sendRawTransaction.summary'']"

definition DISCARDED_METHODS :: "string list" where "DISCARDED_METHODS = [''engine_*'']"

definition NOT_IMPLEMENTED_METHODS :: "string list" where
  "NOT_IMPLEMENTED_METHODS =
     [''debug_getBadBlocks'', ''debug_getRawBlock'', ''debug_getRawHeader'', ''debug_getRawReceipts'',
      ''debug_getRawTransaction'', ''eth_coinbase'', ''eth_blobBaseFee'', ''eth_syncing'', ''eth_getProof'']"

definition SKIPPED_METHODS :: "string list" where "SKIPPED_METHODS = DISCARDED_METHODS @ NOT_IMPLEMENTED_METHODS"

definition matchesPattern :: "string \<Rightarrow> string \<Rightarrow> bool" where
  "matchesPattern pattern s \<longleftrightarrow>
     pattern = s \<or> (pattern \<noteq> [] \<and> last pattern = CHR ''*'' \<and> starts_with (butlast pattern) s)"

definition shouldSkipMethod :: "string \<Rightarrow> string \<Rightarrow> bool" where
  "shouldSkipMethod methodName path \<longleftrightarrow>
     methodName \<noteq> '''' \<and>
     ((path \<noteq> '''' \<and> methodName @ ''.'' @ path \<in> set CUSTOM_FIELDS) \<or>
      list_ex (\<lambda>pattern. matchesPattern pattern methodName) SKIPPED_METHODS)"

definition shouldSkipKey :: "string \<Rightarrow> bool" where
  "shouldSkipKey key \<longleftrightarrow> key \<noteq> '''' \<and> list_ex (\<lambda>pattern. matchesPattern pattern key) SKIPPED_KEYS"

definition split_path :: "string \<Rightarrow> string list" where "split_path = split_on CHR ''.''"

definition shouldSkipPath :: "string \<Rightarrow> bool" where
  "shouldSkipPath path \<longleftrightarrow> path \<noteq> '''' \<and> list_ex shouldSkipKey (split_path path)"

definition getSkippedMethodCategory :: "string \<Rightarrow> string option" where
  "getSkippedMethodCategory methodName =
     (if methodName = '''' then None
      else if list_ex (\<lambda>pattern. matchesPattern pattern methodName) DISCARDED_METHODS then Some ''discarded''
      else if list_ex (\<lambda>pattern. matchesPattern pattern methodName) NOT_IMPLEMENTED_METHODS then Some ''not implemented''
      else None)"

subsection \<open>Members of a value\<close>

text \<open>\<open>v \<and> typeof v === 'object'\<close>.\<close>

fun is_object :: "jsv \<Rightarrow> bool" where
  "is_object (JArr _) = True"
| "is_object (JObj _) = True"
| "is_object _ = False"

definition array_index :: "jsv list \<Rightarrow> string \<Rightarrow> nat option" where
  "array_index xs k = find (\<lambda>i. show_int (int i) = k) [0..<length xs]"

fun member :: "jsv \<Rightarrow> string \<Rightarrow> jsv" where
  "member (JObj ps) k = prop_lookup ps k"
| "member (JArr xs) k =
     (case array_index xs k of Some i \<Rightarrow> xs ! i | None \<Rightarrow> if k = ''length'' then JNum (int (length xs)) else JUndef)"
| "member _ k = JUndef"

fun put_member :: "string \<Rightarrow> jsv \<Rightarrow> jsv \<Rightarrow> jsv" where
  "put_member k v (JObj ps) = js_set_prop (JObj ps) k v"
| "put_member k v (JArr xs) = (case array_index xs k of Some i \<Rightarrow> JArr (xs[i := v]) | None \<Rightarrow> JArr xs)"
| "put_member k v x = x"

text \<open>\<open>k in v\<close> for an object or an array.\<close>

fun has_member :: "jsv \<Rightarrow> string \<Rightarrow> bool" where
  "has_member (JObj ps) k = (k \<in> fst ` set ps)"
| "has_member (JArr xs) k = (array_index xs k \<noteq> None \<or> k = ''length'')"
| "has_member _ k = False"

subsection \<open>Paths\<close>

fun get_parts :: "string list \<Rightarrow> jsv \<Rightarrow> jsv" where
  "get_parts [] current = current"
| "get_parts (part # parts) current = (if is_object current then get_parts parts (member current part) else JUndef)"

definition object_or_new :: "jsv \<Rightarrow> jsv" where "object_or_new v = (if is_object v then v else JObj [])"

fun set_parts :: "string list \<Rightarrow> jsv \<Rightarrow> jsv \<Rightarrow> jsv" where
  "set_parts [] v current = current"
| "set_parts [part] v current = put_member part v current"
| "set_parts (part # p # parts) v current =
     put_member part (set_parts (p # parts) v (object_or_new (member current part))) current"

definition getNestedValue :: "jsv \<Rightarrow> string \<Rightarrow> jsv" where
  "getNestedValue obj path = (if path = '''' then JUndef else get_parts (split_path path) obj)"

definition setNestedValue :: "jsv \<Rightarrow> string \<Rightarrow> jsv \<Rightarrow> jsv" where
  "setNestedValue obj path v = (if path = '''' then obj else set_parts (split_path path) v obj)"

definition getObjectByPath :: "jsv \<Rightarrow> string \<Rightarrow> jsv" where
  "getObjectByPath obj path = get_parts (split_path path) obj"

definition setObjectByPath :: "jsv \<Rightarrow> string \<Rightarrow> jsv \<Rightarrow> jsv" where
  "setObjectByPath obj path v = set_parts (split_path path) v obj"

definition buildPath :: "string \<Rightarrow> string \<Rightarrow> string" where
  "buildPath currentPath segment = (if currentPath = '''' then segment else currentPath @ ''.'' @ segment)"

subsection \<open>References\<close>

fun removeSkippedKeys :: "jsv \<Rightarrow> jsv" where
  "removeSkippedKeys (JArr xs) = JArr (map removeSkippedKeys xs)"
| "removeSkippedKeys (JObj ps) = JObj (map (\<lambda>p. (fst p, removeSkippedKeys (snd p))) (filter (\<lambda>p. \<not> shouldSkipKey (fst p)) ps))"
| "removeSkippedKeys v = v"

definition REF :: string where "REF = ''$ref''"

definition hasRefField :: "jsv \<Rightarrow> bool" where
  "hasRefField v = (member v REF \<noteq> JUndef)"

fun handleRefField :: "jsv \<Rightarrow> jsv" where
  "handleRefField (JArr xs) = JArr (map handleRefField xs)"
| "handleRefField (JObj ps) =
     (if prop_lookup ps REF \<noteq> JUndef then JObj [(REF, prop_lookup ps REF)]
      else JObj (map (\<lambda>p. (fst p, handleRefField (snd p))) ps))"
| "handleRefField v = v"

text \<open>\<open>RefPathFinder\<close>, with the elements of an array and the properties of an object one after the other.\<close>

fun findRefPaths :: "jsv \<Rightarrow> string \<Rightarrow> (string \<times> jsv) list"
  and find_in_array :: "nat \<Rightarrow> jsv list \<Rightarrow> string \<Rightarrow> (string \<times> jsv) list"
  and find_in_object :: "(string \<times> jsv) list \<Rightarrow> string \<Rightarrow> (string \<times> jsv) list" where
  "findRefPaths (JArr xs) currentPath = find_in_array 0 xs currentPath"
| "findRefPaths (JObj ps) currentPath =
     (if prop_lookup ps REF \<noteq> JUndef then [(currentPath, prop_lookup ps REF)] else []) @ find_in_object ps currentPath"
| "findRefPaths v currentPath = []"
| "find_in_array i [] currentPath = []"
| "find_in_array i (x # xs) currentPath =
     findRefPaths x (buildPath currentPath (show_int (int i))) @ find_in_array (Suc i) xs currentPath"
| "find_in_object [] currentPath = []"
| "find_in_object ((k, v) # ps) currentPath = findRefPaths v (buildPath currentPath k) @ find_in_object ps currentPath"

text \<open>\<open>RefFieldHandler\<close>.\<close>

fun ref_handle :: "bool \<Rightarrow> jsv \<Rightarrow> jsv \<Rightarrow> jsv"
  and ref_handle_items :: "bool \<Rightarrow> nat \<Rightarrow> jsv list \<Rightarrow> jsv \<Rightarrow> jsv list"
  and ref_handle_props :: "bool \<Rightarrow> (string \<times> jsv) list \<Rightarrow> jsv \<Rightarrow> (string \<times> jsv) list" where
  "ref_handle isComponent (JArr xs) origObj =
     (if is_object origObj then JArr (ref_handle_items isComponent 0 xs origObj)
      else if isComponent then JArr xs else handleRefField (JArr xs))"
| "ref_handle isComponent (JObj ps) origObj =
     (if \<not> is_object origObj then if isComponent then JObj ps else handleRefField (JObj ps)
      else if hasRefField origObj then json_copy origObj
      else if prop_lookup ps REF \<noteq> JUndef
           then if isComponent then json_copy (JObj ps) else JObj [(REF, prop_lookup ps REF)]
      else JObj (ref_handle_props isComponent ps origObj))"
| "ref_handle isComponent v origObj = v"
| "ref_handle_items isComponent i [] origArray = []"
| "ref_handle_items isComponent i (x # xs) origArray =
     ref_handle isComponent x (case origArray of JArr ys \<Rightarrow> if i < length ys then ys ! i else JUndef | _ \<Rightarrow> JUndef)
     # ref_handle_items isComponent (Suc i) xs origArray"
| "ref_handle_props isComponent [] origObj = []"
| "ref_handle_props isComponent ((k, v) # ps) origObj =
     (k, ref_handle isComponent v (member origObj k)) # ref_handle_props isComponent ps origObj"

definition handleRefFieldsWithOriginal :: "jsv \<Rightarrow> jsv \<Rightarrow> bool \<Rightarrow> jsv" where
  "handleRefFieldsWithOriginal obj origObj isComponent = ref_handle isComponent obj origObj"

subsection \<open>Methods\<close>

text \<open>\<open>method?.name\<close>; a method without a name has the empty text.\<close>

definition method_name :: "jsv \<Rightarrow> string" where
  "method_name m = (case member m ''name'' of JStr s \<Rightarrow> s | _ \<Rightarrow> '''')"

definition filterSkippedMethods :: "jsv \<Rightarrow> jsv list" where
  "filterSkippedMethods methods =
     (case methods of
        JArr ms \<Rightarrow> filter (\<lambda>m. method_name m = '''' \<or> getSkippedMethodCategory (method_name m) \<noteq> Some ''discarded'') ms
      | _ \<Rightarrow> [])"

text \<open>The method that a name stands for is the last one with that name.\<close>

fun last_index :: "(jsv \<Rightarrow> bool) \<Rightarrow> jsv list \<Rightarrow> nat option" where
  "last_index P [] = None"
| "last_index P (x # xs) = (case last_index P xs of Some i \<Rightarrow> Some (Suc i) | None \<Rightarrow> if P x then Some 0 else None)"

definition getMethodMap :: "jsv list \<Rightarrow> string \<Rightarrow> nat option" where
  "getMethodMap methods name = (if name = '''' then None else last_index (\<lambda>m. method_name m = name) methods)"

subsection \<open>Differences of two methods\<close>

fun has_parts :: "string list \<Rightarrow> jsv \<Rightarrow> bool" where
  "has_parts [] current = True"
| "has_parts (part # parts) current = (is_object current \<and> has_member current part \<and> has_parts parts (member current part))"

definition hasKey :: "jsv \<Rightarrow> string \<Rightarrow> bool" where
  "hasKey obj path = (path \<noteq> '''' \<and> has_parts (split_path path) obj)"

definition shouldSkipDifferencePath :: "string \<Rightarrow> bool" where
  "shouldSkipDifferencePath fullPath = (fullPath = '''' \<or> starts_with ''name'' fullPath \<or> shouldSkipPath fullPath)"

text \<open>A difference of \<open>deep-diff\<close> is its path, \<open>None\<close> when it has none.\<close>

definition processDifferences :: "string list option list \<Rightarrow> jsv \<Rightarrow> jsv \<Rightarrow> string list" where
  "processDifferences differences origMethod modMethod =
     concat (map (\<lambda>path. case path of
         None \<Rightarrow> []
       | Some parts \<Rightarrow>
           (let fullPath = intercalate ''.'' parts
            in if shouldSkipDifferencePath fullPath then []
               else if hasKey origMethod fullPath \<and> hasKey modMethod fullPath then [fullPath] else [])) differences)"

definition shouldSkipMissingKeyPath :: "string \<Rightarrow> bool" where
  "shouldSkipMissingKeyPath path = (path = ''name'' \<or> shouldSkipPath path)"

fun missing_keys :: "string \<Rightarrow> jsv \<Rightarrow> jsv \<Rightarrow> string list"
  and missing_in :: "string \<Rightarrow> (string \<times> jsv) list \<Rightarrow> jsv \<Rightarrow> string list" where
  "missing_keys start (JObj ps) obj = missing_in start ps obj"
| "missing_keys start v obj = []"
| "missing_in start [] obj = []"
| "missing_in start ((k, v) # ps) obj =
     (if shouldSkipKey k \<or> shouldSkipMissingKeyPath (buildPath start k) then []
      else if \<not> has_member obj k then [buildPath start k]
      else if is_plain_object v \<and> is_plain_object (member obj k) then missing_keys (buildPath start k) v (member obj k)
      else []) @ missing_in start ps obj"

definition findMissingKeys :: "jsv \<Rightarrow> jsv \<Rightarrow> string list" where
  "findMissingKeys orig obj = missing_keys '''' orig obj"

definition getDifferingKeysByCategory :: "(jsv \<Rightarrow> jsv \<Rightarrow> string list option list) \<Rightarrow> jsv \<Rightarrow> jsv \<Rightarrow> string list" where
  "getDifferingKeysByCategory diff origMethod modMethod =
     processDifferences (diff (json_copy origMethod) (json_copy modMethod)) origMethod modMethod @
     findMissingKeys origMethod modMethod"

text \<open>\<open>[...new Set(xs)]\<close> keeps the first of equal texts.\<close>

definition getDifferingKeys :: "(jsv \<Rightarrow> jsv \<Rightarrow> string list option list) \<Rightarrow> jsv \<Rightarrow> jsv \<Rightarrow> string list" where
  "getDifferingKeys diff origMethod modMethod = rev (remdups (rev (getDifferingKeysByCategory diff origMethod modMethod)))"

subsection \<open>Reading what was written\<close>

lemma array_index_Some: "array_index xs k = Some i \<longleftrightarrow> i < length xs \<and> k = show_int (int i)"
proof -
  have "array_index xs k = Some i \<Longrightarrow> i < length xs \<and> k = show_int (int i)"
    by (auto simp: array_index_def find_Some_iff)
  moreover have "array_index xs (show_int (int i)) = Some i" if "i < length xs"
    unfolding array_index_def find_Some_iff using that by (intro exI [of _ i]) auto
  ultimately show ?thesis by auto
qed

lemma array_index_update [simp]: "array_index (xs[i := v]) k = array_index xs k"
  by (simp add: array_index_def)

text \<open>A value that has room for a member: an object, or an array at one of its indices.\<close>

definition has_room :: "jsv \<Rightarrow> string \<Rightarrow> bool" where
  "has_room v k = (case v of JObj ps \<Rightarrow> True | JArr xs \<Rightarrow> array_index xs k \<noteq> None | _ \<Rightarrow> False)"

lemma member_put_same: "has_room x k \<Longrightarrow> member (put_member k v x) k = v"
proof (cases x)
  case (JObj ps)
  then show ?thesis using js_prop_set_same [of "JObj ps" k v] by (cases "js_set_prop (JObj ps) k v") (auto simp: js_prop_def split: if_split_asm)
next
  case (JArr xs)
  assume "has_room x k"
  then obtain i where "array_index xs k = Some i" by (auto simp: has_room_def JArr)
  moreover from this have "i < length xs" by (simp add: array_index_Some)
  ultimately show ?thesis by (simp add: JArr)
qed (simp_all add: has_room_def)

lemma member_put_other: "k' \<noteq> k \<Longrightarrow> member (put_member k v x) k' = member x k'"
proof (cases x)
  case (JObj ps)
  assume "k' \<noteq> k"
  then show ?thesis using js_prop_set_other [of k' k "JObj ps" v] JObj by (cases "js_set_prop (JObj ps) k v") (auto simp: js_prop_def split: if_split_asm)
next
  case (JArr xs)
  assume "k' \<noteq> k"
  show ?thesis
  proof (cases "array_index xs k")
    case (Some i)
    have "xs[i := v] ! j = xs ! j" if "array_index xs k' = Some j" for j
      using that Some \<open>k' \<noteq> k\<close> by (cases "j = i") (simp_all add: array_index_Some)
    then show ?thesis by (simp add: JArr Some split: option.split)
  qed (simp add: JArr)
qed simp_all

lemma is_object_put [simp]: "is_object (put_member k v x) = is_object x"
  by (cases x) (auto split: option.split)

lemma has_room_object: "has_room v k \<Longrightarrow> is_object v"
  by (cases v) (auto simp: has_room_def)

text \<open>Along a path there is room for every part; objects are made where they are missing.\<close>

fun path_room :: "string list \<Rightarrow> jsv \<Rightarrow> bool" where
  "path_room [] v = True"
| "path_room [part] v = has_room v part"
| "path_room (part # p # parts) v = (has_room v part \<and> path_room (p # parts) (object_or_new (member v part)))"

lemma is_object_or_new [simp]: "is_object (object_or_new v)"
  by (simp add: object_or_new_def)

lemma is_object_set_parts [simp]: "is_object (set_parts parts v x) = is_object x"
  by (induction parts v x rule: set_parts.induct) auto

lemma get_set_parts: "parts \<noteq> [] \<Longrightarrow> path_room parts x \<Longrightarrow> get_parts parts (set_parts parts v x) = v"
  by (induction parts v x rule: set_parts.induct) (auto simp: member_put_same has_room_object)

text \<open>
  A value that was set at a path is read back there, when the arrays along the path have the indices it names.
\<close>

theorem getNestedValue_of_set:
  assumes "path \<noteq> ''''" and "path_room (split_path path) obj"
  shows "getNestedValue (setNestedValue obj path v) path = v"
  using get_set_parts [OF _ assms(2)] assms(1) by (simp add: getNestedValue_def setNestedValue_def split_path_def)

lemma get_object_or_new: "ps \<noteq> [] \<Longrightarrow> get_parts ps (object_or_new v) = get_parts ps v"
  by (cases ps; cases "tl ps") (auto simp: object_or_new_def)

lemma get_set_parts_apart:
  "parts \<noteq> [] \<Longrightarrow> \<not> prefix parts others \<Longrightarrow> \<not> prefix others parts \<Longrightarrow>
     get_parts others (set_parts parts v x) = get_parts others x"
proof (induction parts v x arbitrary: others rule: set_parts.induct)
  case (2 part v x)
  then obtain q qs where others: "others = q # qs" by (cases others) auto
  with 2 have "q \<noteq> part" by auto
  then show ?case by (simp add: others member_put_other)
next
  case (3 part p parts v x)
  then obtain q qs where others: "others = q # qs" by (cases others) auto
  show ?case
  proof (cases "q = part")
    case False
    then show ?thesis by (simp add: others member_put_other)
  next
    case True
    with 3(3,4) others have apart: "\<not> prefix (p # parts) qs" "\<not> prefix qs (p # parts)" by auto
    then have "qs \<noteq> []" by auto
    have "get_parts qs (set_parts (p # parts) v (object_or_new (member x part))) = get_parts qs (member x part)"
      using "3.IH" [OF _ apart] get_object_or_new [OF \<open>qs \<noteq> []\<close>] by simp
    then show ?thesis
    proof (cases "is_object x \<and> has_room x part")
      case True
      then show ?thesis using \<open>q = part\<close> \<open>get_parts qs _ = _\<close> by (simp add: others member_put_same)
    next
      case False
      then have "put_member part w x = x" for w
        by (cases x) (auto simp: has_room_def split: option.split)
      then show ?thesis by simp
    qed
  qed
qed simp

text \<open>
  Setting a value at a path changes nothing at a path that neither leads to it nor beyond it.
\<close>

theorem getNestedValue_of_set_elsewhere:
  assumes "\<not> prefix (split_path path) (split_path other)" and "\<not> prefix (split_path other) (split_path path)"
  shows "getNestedValue (setNestedValue obj path v) other = getNestedValue obj other"
  using get_set_parts_apart [OF _ assms] by (simp add: getNestedValue_def setNestedValue_def split_path_def)

subsection \<open>Cleaning\<close>

lemma removeSkippedKeys_clean_aux: "removeSkippedKeys (removeSkippedKeys v) = removeSkippedKeys v"
proof (induction v rule: removeSkippedKeys.induct)
  case (2 ps)
  have "filter (\<lambda>p. \<not> shouldSkipKey (fst p)) (map (\<lambda>p. (fst p, removeSkippedKeys (snd p))) (filter (\<lambda>p. \<not> shouldSkipKey (fst p)) ps)) =
      map (\<lambda>p. (fst p, removeSkippedKeys (snd p))) (filter (\<lambda>p. \<not> shouldSkipKey (fst p)) ps)"
    by (simp add: filter_map o_def)
  with 2 show ?case by simp
qed simp_all

text \<open>A value in which no object, at any depth, has a key that is left out.\<close>

fun clean :: "jsv \<Rightarrow> bool" where
  "clean (JArr xs) = list_all clean xs"
| "clean (JObj ps) = list_all (\<lambda>p. \<not> shouldSkipKey (fst p) \<and> clean (snd p)) ps"
| "clean v = True"

text \<open>Cleaning leaves no skipped key at any depth, and is done once: a clean value stays as it is.\<close>

theorem removeSkippedKeys_cleans:
  "clean (removeSkippedKeys v) \<and> (clean v \<longleftrightarrow> removeSkippedKeys v = v)"
proof -
  have 1: "clean (removeSkippedKeys v)" for v
    by (induction v rule: removeSkippedKeys.induct) (auto simp: list_all_iff)
  have 2: "clean v \<Longrightarrow> removeSkippedKeys v = v" for v
  proof (induction v rule: removeSkippedKeys.induct)
    case (1 xs)
    then show ?case by (auto simp: list_all_iff intro: map_idI)
  next
    case (2 ps)
    then have all: "filter (\<lambda>p. \<not> shouldSkipKey (fst p)) ps = ps" by (auto simp: list_all_iff)
    have "map (\<lambda>p. (fst p, removeSkippedKeys (snd p))) ps = ps"
      using 2 by (intro map_idI) (auto simp: list_all_iff)
    then show ?case by (simp add: all)
  qed simp_all
  from 1 [of v] 2 [of v] show ?thesis by metis
qed

subsection \<open>References are found where they are\<close>

text \<open>Keys that can stand in a path: not empty, without a dot, and no key twice in an object.\<close>

definition plain_key :: "string \<Rightarrow> bool" where "plain_key k \<longleftrightarrow> k \<noteq> [] \<and> CHR ''.'' \<notin> set k"

fun plain_keys :: "jsv \<Rightarrow> bool" where
  "plain_keys (JArr xs) = list_all plain_keys xs"
| "plain_keys (JObj ps) = (distinct (map fst ps) \<and> list_all (\<lambda>p. plain_key (fst p) \<and> plain_keys (snd p)) ps)"
| "plain_keys v = True"

lemma show_int_chars: "c \<in> set (show_int (int i)) \<Longrightarrow> c \<noteq> CHR ''.''"
  using to_base_digits [of 10 i] by (auto simp: int_to_base_def is_digit_in_def digit_val_def)

lemma set_find_in_array:
  "set (find_in_array i xs path) = (\<Union>j<length xs. set (findRefPaths (xs ! j) (buildPath path (show_int (int (i + j))))))"
proof (induction xs arbitrary: i)
  case (Cons x xs)
  have "{..<length (x # xs)} = insert 0 (Suc ` {..<length xs})" by (auto simp: image_iff less_Suc_eq_0_disj)
  then show ?case by (simp add: Cons add.left_commute add.commute)
qed simp

lemma set_find_in_object: "set (find_in_object ps path) = (\<Union>p\<in>set ps. set (findRefPaths (snd p) (buildPath path (fst p))))"
  by (induction ps) auto

definition refs_below :: "jsv \<Rightarrow> (string list \<times> jsv) set" where
  "refs_below v = {(parts, r). is_plain_object (get_parts parts v) \<and> member (get_parts parts v) REF = r \<and> r \<noteq> JUndef}"

lemma get_parts_none: "\<not> is_object v \<Longrightarrow> \<not> is_plain_object (get_parts parts v) \<or> parts = []"
  by (cases parts) auto

lemma refs_below_none: "\<not> is_object v \<Longrightarrow> refs_below v = {}"
proof -
  assume v: "\<not> is_object v"
  then have "\<not> is_plain_object v" by (cases v) auto
  with v get_parts_none [OF v] show ?thesis by (fastforce simp: refs_below_def)
qed

lemma cons_image: "(parts, r) \<in> (\<lambda>(parts, r). (k # parts, r)) ` X \<longleftrightarrow> (\<exists>rest. parts = k # rest \<and> (rest, r) \<in> X)"
  by force

lemma refs_below_array:
  "refs_below (JArr xs) = (\<Union>j<length xs. (\<lambda>(parts, r). (show_int (int j) # parts, r)) ` refs_below (xs ! j))"
proof -
  have "(parts, r) \<in> refs_below (JArr xs) \<longleftrightarrow>
      (\<exists>j<length xs. \<exists>rest. parts = show_int (int j) # rest \<and> (rest, r) \<in> refs_below (xs ! j))" for parts r
  proof (cases parts)
    case (Cons k rest)
    show ?thesis
    proof (cases "array_index xs k")
      case None
      then have "\<not> is_plain_object (get_parts rest (member (JArr xs) k))"
        by (cases rest) auto
      moreover have "k \<noteq> show_int (int j)" if "j < length xs" for j
        using None array_index_Some [of xs k j] that by auto
      ultimately show ?thesis by (auto simp: refs_below_def Cons)
    next
      case (Some i)
      then have "i < length xs" "k = show_int (int i)" by (simp_all add: array_index_Some)
      with Some show ?thesis by (auto simp: refs_below_def Cons)
    qed
  qed (simp add: refs_below_def)
  then show ?thesis by (simp add: set_eq_iff cons_image Bex_def lessThan_iff)
qed

lemma refs_below_object:
  assumes "distinct (map fst ps)"
  shows "refs_below (JObj ps) = (if prop_lookup ps REF \<noteq> JUndef then {([], prop_lookup ps REF)} else {}) \<union>
    (\<Union>p\<in>set ps. (\<lambda>(parts, r). (fst p # parts, r)) ` refs_below (snd p))"
proof -
  have each: "(parts, r) \<in> refs_below (JObj ps) \<longleftrightarrow>
      (parts = [] \<and> r = prop_lookup ps REF \<and> r \<noteq> JUndef) \<or>
      (\<exists>p\<in>set ps. \<exists>rest. parts = fst p # rest \<and> (rest, r) \<in> refs_below (snd p))" for parts r
  proof (cases parts)
    case (Cons k rest)
    have found: "prop_lookup ps (fst p) = snd p" if "p \<in> set ps" for p
      using map_of_is_SomeI [OF assms, of "fst p" "snd p"] that by (simp add: prop_lookup_def)
    have "(rest, r) \<in> refs_below (prop_lookup ps k) \<longleftrightarrow> (\<exists>p\<in>set ps. fst p = k \<and> (rest, r) \<in> refs_below (snd p))"
    proof (cases "k \<in> fst ` set ps")
      case True
      then obtain p where p: "p \<in> set ps" "fst p = k" by auto
      then have looked: "prop_lookup ps k = snd p" using found by blast
      have "snd q = snd p" if "q \<in> set ps" "fst q = k" for q
        using found [OF that(1)] that(2) looked by simp
      then have "(\<exists>q\<in>set ps. fst q = k \<and> (rest, r) \<in> refs_below (snd q)) \<longleftrightarrow> (rest, r) \<in> refs_below (snd p)"
        using p by metis
      then show ?thesis by (simp only: looked)
    next
      case False
      then have "prop_lookup ps k = JUndef" using prop_lookup_own by blast
      moreover have "(rest, r) \<notin> refs_below JUndef" by (cases rest) (auto simp: refs_below_def)
      ultimately show ?thesis using False by auto
    qed
    then show ?thesis by (auto simp: refs_below_def Cons)
  qed (auto simp: refs_below_def)
  show ?thesis
  proof (rule set_eqI)
    fix x :: "string list \<times> jsv"
    obtain parts r where x: "x = (parts, r)" by (cases x)
    show "x \<in> refs_below (JObj ps) \<longleftrightarrow> x \<in> (if prop_lookup ps REF \<noteq> JUndef then {([], prop_lookup ps REF)} else {}) \<union>
        (\<Union>p\<in>set ps. (\<lambda>(parts, r). (fst p # parts, r)) ` refs_below (snd p))"
      unfolding x each by (cases "parts = []") (auto simp: cons_image)
  qed
qed

lemma findRefPaths_below:
  "plain_keys v \<Longrightarrow> set (findRefPaths v path) = (\<lambda>(parts, r). (foldl buildPath path parts, r)) ` refs_below v"
proof (induction v arbitrary: path)
  case (JArr xs)
  have "set (findRefPaths (xs ! j) (buildPath path (show_int (int j)))) =
      (\<lambda>(parts, r). (foldl buildPath path parts, r)) ` (\<lambda>(parts, r). (show_int (int j) # parts, r)) ` refs_below (xs ! j)"
    if "j < length xs" for j
    using JArr.IH [OF nth_mem [OF that]] JArr.prems that by (auto simp: list_all_iff image_image case_prod_beta)
  then show ?case by (simp add: set_find_in_array refs_below_array image_UN)
next
  case (JObj ps)
  have "set (findRefPaths (snd p) (buildPath path (fst p))) =
      (\<lambda>(parts, r). (foldl buildPath path parts, r)) ` (\<lambda>(parts, r). (fst p # parts, r)) ` refs_below (snd p)"
    if "p \<in> set ps" for p
  proof -
    have "plain_keys (snd p)" using JObj.prems that by (auto simp: list_all_iff)
    moreover have "snd p \<in> Basic_BNFs.snds p" by (cases p) simp
    ultimately show ?thesis using JObj.IH [OF that] by (simp add: image_image case_prod_beta)
  qed
  then show ?case using JObj.prems by (auto simp: set_find_in_object refs_below_object image_UN image_Un)
qed (simp_all add: refs_below_none)

lemma refs_plain_parts: "plain_keys v \<Longrightarrow> (parts, r) \<in> refs_below v \<Longrightarrow> list_all plain_key parts"
proof (induction v arbitrary: parts)
  case (JArr xs)
  from JArr.prems(2) obtain j rest where j: "j < length xs" "parts = show_int (int j) # rest" "(rest, r) \<in> refs_below (xs ! j)"
    by (auto simp: refs_below_array cons_image)
  have "plain_key (show_int (int j))" using show_int_chars by (auto simp: plain_key_def)
  with j JArr.IH [OF nth_mem [OF j(1)] _ j(3)] JArr.prems(1) show ?case by (auto simp: list_all_iff)
next
  case (JObj ps)
  then have "distinct (map fst ps)" by simp
  from JObj.prems(2) show ?case unfolding refs_below_object [OF \<open>distinct (map fst ps)\<close>]
  proof (elim UnE UN_E)
    fix p assume p: "p \<in> set ps" "(parts, r) \<in> (\<lambda>(parts, r). (fst p # parts, r)) ` refs_below (snd p)"
    then obtain rest where rest: "parts = fst p # rest" "(rest, r) \<in> refs_below (snd p)" unfolding cons_image by blast
    have "plain_keys (snd p)" "plain_key (fst p)" using JObj.prems(1) p(1) by (auto simp: list_all_iff)
    moreover have "snd p \<in> Basic_BNFs.snds p" by (cases p) simp
    ultimately show ?thesis using JObj.IH [OF p(1) _ _ rest(2)] rest(1) by simp
  qed (auto split: if_split_asm)
qed (simp_all add: refs_below_none)

lemma build_onto: "path \<noteq> [] \<Longrightarrow> foldl buildPath path parts = path @ concat (map (\<lambda>p. CHR ''.'' # p) parts)"
  by (induction parts arbitrary: path) (auto simp: buildPath_def)

lemma split_built:
  assumes "list_all plain_key parts" and "parts \<noteq> []"
  shows "split_path (foldl buildPath '''' parts) = parts" and "foldl buildPath '''' parts \<noteq> ''''"
proof -
  have split: "split_on CHR ''.'' (k @ concat (map (\<lambda>p. CHR ''.'' # p) ks)) = k # ks"
    if "plain_key k" "list_all plain_key ks" for k ks
    using that
  proof (induction ks arbitrary: k)
    case Nil
    then show ?case by (simp add: split_on_no_sep plain_key_def)
  next
    case (Cons l ks)
    then show ?case by (simp add: split_on_append plain_key_def)
  qed
  obtain k ks where parts: "parts = k # ks" using assms(2) by (cases parts) auto
  have "foldl buildPath '''' parts = k @ concat (map (\<lambda>p. CHR ''.'' # p) ks)"
    using assms(1) by (simp add: parts build_onto buildPath_def plain_key_def)
  with split [of k ks] assms(1) show "split_path (foldl buildPath '''' parts) = parts" "foldl buildPath '''' parts \<noteq> ''''"
    by (auto simp: parts split_path_def plain_key_def)
qed

lemma join_split: "intercalate [d] (split_on d s) = s"
proof (induction s)
  case (Cons c s)
  obtain w ws where split: "split_on d s = w # ws" by (cases "split_on d s") auto
  have "intercalate [d] ((c # w) # ws) = c # intercalate [d] (w # ws)" by (cases ws) simp_all
  with Cons.IH show ?case by (simp add: split)
qed simp

lemma split_path_inject: "split_path p = split_path q \<Longrightarrow> p = q"
  unfolding split_path_def by (metis join_split)

text \<open>What stands at a path; the empty path is the value itself.\<close>

definition at_path :: "jsv \<Rightarrow> string \<Rightarrow> jsv" where
  "at_path v path = (if path = '''' then v else getObjectByPath v path)"

lemma found_refs:
  assumes "plain_keys v"
  shows "(path, r) \<in> set (findRefPaths v '''') \<longleftrightarrow>
    is_plain_object (at_path v path) \<and> member (at_path v path) REF = r \<and> r \<noteq> JUndef"
proof
  assume "(path, r) \<in> set (findRefPaths v '''')"
  then obtain parts where parts: "(parts, r) \<in> refs_below v" "path = foldl buildPath '''' parts"
    unfolding findRefPaths_below [OF assms] by auto
  then show "is_plain_object (at_path v path) \<and> member (at_path v path) REF = r \<and> r \<noteq> JUndef"
    using split_built [OF refs_plain_parts [OF assms parts(1)]]
    by (cases "parts = []") (auto simp: at_path_def getObjectByPath_def refs_below_def)
next
  assume there: "is_plain_object (at_path v path) \<and> member (at_path v path) REF = r \<and> r \<noteq> JUndef"
  show "(path, r) \<in> set (findRefPaths v '''')"
  proof (cases "path = ''''")
    case True
    then have "([], r) \<in> refs_below v" using there by (simp add: at_path_def refs_below_def)
    then show ?thesis unfolding findRefPaths_below [OF assms] using True by force
  next
    case False
    then have below: "(split_path path, r) \<in> refs_below v"
      using there by (simp add: at_path_def getObjectByPath_def refs_below_def)
    have "split_path path \<noteq> []" by (simp add: split_path_def)
    from split_path_inject [OF split_built(1) [OF refs_plain_parts [OF assms below] this]]
    have "foldl buildPath '''' (split_path path) = path" .
    with below show ?thesis unfolding findRefPaths_below [OF assms] by force
  qed
qed

text \<open>
  The references that are found are exactly those that stand in the document: a path and a value are listed when,
  and only when, there is an object at that path whose \<open>$ref\<close> is that value.
\<close>

theorem findRefPaths_exact:
  assumes "plain_keys v"
  shows "(path, r) \<in> set (findRefPaths v '''') \<longleftrightarrow>
    is_plain_object (at_path v path) \<and> member (at_path v path) REF = r \<and> r \<noteq> JUndef"
  by (rule found_refs [OF assms])

subsection \<open>Examples\<close>

definition sample_doc :: jsv where
  "sample_doc =
     JObj [(''name'', JStr ''eth_call''), (''params'', JArr [JObj [(''schema'', JObj [(''$ref'', JStr ''#/a'')])]]),
           (''result'', JObj [(''summary'', JStr ''s''), (''examples'', JArr [])])]"

lemma sample_doc_plain: "plain_keys sample_doc"
  by (simp add: sample_doc_def plain_key_def)

theorem findRefPaths_exact_witness: "(''params.0.schema'', JStr ''#/a'') \<in> set (findRefPaths sample_doc '''')"
proof -
  have "at_path sample_doc ''params.0.schema'' = JObj [(''$ref'', JStr ''#/a'')]" by code_simp
  then show ?thesis unfolding findRefPaths_exact [OF sample_doc_plain] by (simp add: REF_def)
qed

theorem getNestedValue_of_set_witness:
  "getNestedValue (setNestedValue sample_doc ''result.summary'' (JNum 1)) ''result.summary'' = JNum 1"
proof -
  have "path_room (split_path ''result.summary'') sample_doc" by code_simp
  then show ?thesis using getNestedValue_of_set [of "''result.summary''" sample_doc] by simp
qed

theorem getNestedValue_of_set_elsewhere_witness:
  "getNestedValue (setNestedValue sample_doc ''result.summary'' (JNum 1)) ''name'' = getNestedValue sample_doc ''name''"
proof -
  have "split_path ''result.summary'' = [''result'', ''summary'']" "split_path ''name'' = [''name'']" by code_simp+
  then show ?thesis by (intro getNestedValue_of_set_elsewhere) simp_all
qed

end
