(* ===== verification/OpenRpcMerge.thy ===== *)
theory OpenRpcMerge
  imports OpenRpcDocs
begin

section \<open>The OpenRPC updater: merging\<close>

text \<open>
  Models \<open>operations/merge.js\<close> of \<open>scripts/openrpc-json-updater\<close>. The code changes the modified document in
  place; here every step gives the changed value. Where the code lets the two documents share a part, each
  later write through either puts the value that the original has there anyway, so copies behave alike.
  Reading the name of a method that is \<open>null\<close> is an exception. The components and their sections are objects.
\<close>

subsection \<open>References of a method\<close>

definition replaceObjectAtPath :: "jsv \<Rightarrow> jsv \<Rightarrow> string \<Rightarrow> jsv" where
  "replaceObjectAtPath origMethod modMethod path =
     (let targetObj = at_path modMethod path; origObj = at_path origMethod path
      in if \<not> is_object targetObj \<or> \<not> is_object origObj then modMethod
         else if path \<noteq> '''' then setObjectByPath modMethod path (json_copy origObj)
         else origObj)"

definition processRefFields :: "jsv \<Rightarrow> jsv \<Rightarrow> jsv" where
  "processRefFields origMethod modMethod =
     foldl (\<lambda>m p. replaceObjectAtPath origMethod m (fst p)) modMethod (findRefPaths origMethod '''')"

subsection \<open>Differences of a method\<close>

definition shouldSkipDueToRef :: "jsv \<Rightarrow> string \<Rightarrow> bool" where
  "shouldSkipDueToRef obj path =
     (let parts = split_path path
      in list_ex (\<lambda>i. hasRefField (getNestedValue obj (foldl buildPath '''' (take (Suc i) parts)))) [0..<length parts])"

definition adopt_value :: "jsv \<Rightarrow> jsv \<Rightarrow> string \<Rightarrow> jsv" where
  "adopt_value origMethod modMethod path =
     (if shouldSkipPath path \<or> shouldSkipMethod (method_name origMethod) path \<or> shouldSkipDueToRef modMethod path then modMethod
      else let valueFromOriginal = getNestedValue origMethod path
           in if CHR ''.'' \<in> set path then setNestedValue modMethod path valueFromOriginal
              else put_member path valueFromOriginal modMethod)"

definition processDifferingKeys :: "(jsv \<Rightarrow> jsv \<Rightarrow> string list option list) \<Rightarrow> jsv \<Rightarrow> jsv \<Rightarrow> jsv" where
  "processDifferingKeys diff origMethod modMethod =
     foldl (adopt_value origMethod) modMethod (getDifferingKeys diff origMethod modMethod)"

subsection \<open>The methods\<close>

definition null_name_error :: string where "null_name_error = ''Cannot read properties of null (reading 'name')''"

definition nullish_method :: "jsv \<Rightarrow> bool" where "nullish_method m = (m = JNull \<or> m = JUndef)"

definition merge_method :: "(jsv \<Rightarrow> jsv \<Rightarrow> string list option list) \<Rightarrow> jsv \<Rightarrow> jsv \<Rightarrow> jsv" where
  "merge_method diff origMethod modMethod =
     processDifferingKeys diff origMethod (processRefFields origMethod modMethod)"

fun merge_methods ::
  "(jsv \<Rightarrow> jsv \<Rightarrow> string list option list) \<Rightarrow> (string \<Rightarrow> nat option) \<Rightarrow> jsv list \<Rightarrow> jsv list \<Rightarrow> string + jsv list" where
  "merge_methods diff modifiedMap [] methods = Inr methods"
| "merge_methods diff modifiedMap (origMethod # rest) methods =
     (if nullish_method origMethod then Inl null_name_error
      else let name = method_name origMethod in
        if name = '''' then merge_methods diff modifiedMap rest methods
        else (case modifiedMap name of
            None \<Rightarrow> merge_methods diff modifiedMap rest (methods @ [origMethod])
          | Some i \<Rightarrow> merge_methods diff modifiedMap rest (methods[i := merge_method diff origMethod (methods ! i)])))"

definition methods_of :: "jsv \<Rightarrow> jsv list" where
  "methods_of document = (case member document ''methods'' of JArr ms \<Rightarrow> ms | _ \<Rightarrow> [])"

definition mergeMethods :: "(jsv \<Rightarrow> jsv \<Rightarrow> string list option list) \<Rightarrow> jsv \<Rightarrow> jsv \<Rightarrow> string + jsv" where
  "mergeMethods diff filteredOriginal filteredModified =
     map_sum id (\<lambda>ms. put_member ''methods'' (JArr ms) filteredModified)
       (merge_methods diff (getMethodMap (methods_of filteredModified)) (methods_of filteredOriginal) (methods_of filteredModified))"

subsection \<open>The components\<close>

definition ensure_object :: "string \<Rightarrow> jsv \<Rightarrow> jsv" where
  "ensure_object key v = (if truthy (member v key) then v else put_member key (JObj []) v)"

definition mergeComponentKey :: "jsv \<Rightarrow> jsv \<Rightarrow> string \<Rightarrow> jsv" where
  "mergeComponentKey originalSection targetSection key =
     (if truthy (member targetSection key) then targetSection
      else put_member key (removeSkippedKeys (member originalSection key)) targetSection)"

definition getValidKeysFromSection :: "jsv \<Rightarrow> string list" where
  "getValidKeysFromSection section = filter (\<lambda>key. \<not> shouldSkipKey key) (js_keys section)"

definition mergeSectionComponents :: "jsv \<Rightarrow> jsv \<Rightarrow> string \<Rightarrow> jsv" where
  "mergeSectionComponents originalComponents modifiedComponents sectionName =
     (let originalSection = member originalComponents sectionName
      in if \<not> is_object originalSection then modifiedComponents
         else let components = ensure_object sectionName modifiedComponents
           in put_member sectionName
                (foldl (mergeComponentKey originalSection) (member components sectionName) (getValidKeysFromSection originalSection))
                components)"

definition mergeComponents :: "jsv \<Rightarrow> jsv \<Rightarrow> jsv" where
  "mergeComponents filteredOriginal filteredModified =
     (let originalComponents = member filteredOriginal ''components''
      in if \<not> is_object originalComponents then filteredModified
         else let document = ensure_object ''components'' filteredModified
           in put_member ''components''
                (foldl (mergeSectionComponents originalComponents) (member document ''components'') (js_keys originalComponents))
                document)"

subsection \<open>The document\<close>

definition filterDocument :: "jsv \<Rightarrow> jsv" where
  "filterDocument document =
     (let filtered = json_copy document in put_member ''methods'' (JArr (filterSkippedMethods (member filtered ''methods''))) filtered)"

definition filterAndCleanMethods :: "jsv list \<Rightarrow> jsv list" where
  "filterAndCleanMethods methods = map removeSkippedKeys (filterSkippedMethods (JArr methods))"

definition processMethodsWithOriginal :: "jsv list \<Rightarrow> jsv list \<Rightarrow> string + jsv list" where
  "processMethodsWithOriginal methods originals =
     (if list_ex nullish_method methods then Inl null_name_error
      else Inr (map (\<lambda>method. case getMethodMap originals (method_name method) of
             Some i \<Rightarrow> handleRefFieldsWithOriginal method (originals ! i) False | None \<Rightarrow> method) methods))"

definition processComponentsWithOriginal :: "jsv \<Rightarrow> jsv \<Rightarrow> jsv" where
  "processComponentsWithOriginal document originalDocument =
     (if \<not> truthy (member document ''components'') \<or> \<not> truthy (member originalDocument ''components'') then document
      else put_member ''components''
        (handleRefFieldsWithOriginal (member document ''components'') (member originalDocument ''components'') True) document)"

text \<open>The documents that are merged have methods, so the branches for others are not reached.\<close>

definition processDocument :: "jsv \<Rightarrow> jsv \<Rightarrow> string + jsv" where
  "processDocument document originalDocument =
     (if \<not> is_array (member document ''methods'') then Inr document
      else let result = json_copy document in
        map_sum id (\<lambda>ms. processComponentsWithOriginal (put_member ''methods'' (JArr ms) result) originalDocument)
          (processMethodsWithOriginal (filterAndCleanMethods (methods_of result)) (methods_of originalDocument)))"

definition mergeDocuments :: "(jsv \<Rightarrow> jsv \<Rightarrow> string list option list) \<Rightarrow> jsv \<Rightarrow> jsv \<Rightarrow> string + jsv" where
  "mergeDocuments diff originalJson modifiedJson =
     (if \<not> is_array (member originalJson ''methods'') then Inr modifiedJson
      else let modified = (if is_array (member modifiedJson ''methods'') then modifiedJson
                           else put_member ''methods'' (JArr []) modifiedJson);
               filteredOriginal = filterDocument originalJson; filteredModified = filterDocument modified
           in case mergeMethods diff filteredOriginal filteredModified of
                Inl e \<Rightarrow> Inl e
              | Inr merged \<Rightarrow> processDocument (mergeComponents filteredOriginal merged) filteredOriginal)"

subsection \<open>Methods keep their names\<close>

text \<open>A method as the documents have them: an object with a name, and no reference itself.\<close>

definition shaped :: "jsv \<Rightarrow> bool" where
  "shaped m \<longleftrightarrow> is_plain_object m \<and> method_name m \<noteq> '''' \<and> \<not> has_member m REF"

lemma no_member: "\<not> has_member v k \<Longrightarrow> member v k = JUndef"
  using prop_lookup_own by (cases v) (auto split: option.split)

lemma shaped_no_ref: "shaped m \<Longrightarrow> member m REF = JUndef"
  by (simp add: shaped_def no_member)

lemma has_member_put: "k' \<noteq> k \<Longrightarrow> has_member (put_member k v x) k' = has_member x k'"
proof (cases x)
  case (JObj ps)
  assume "k' \<noteq> k"
  have "map fst (map (\<lambda>(a, b). if a = k then (a, v) else (a, b)) ps) = map fst ps" by (induction ps) auto
  then have "fst ` set (map (\<lambda>(a, b). if a = k then (a, v) else (a, b)) ps) = fst ` set ps" by (metis set_map)
  with \<open>k' \<noteq> k\<close> show ?thesis by (simp add: JObj del: set_map)
qed (auto split: option.split)

lemma is_plain_object_put [simp]: "is_plain_object (put_member k v x) = is_plain_object x"
  by (cases x) (auto split: option.split)

lemma is_plain_object_set_parts [simp]: "is_plain_object (set_parts parts v x) = is_plain_object x"
  by (induction parts v x rule: set_parts.induct) auto

lemma plain_object_is_object: "is_plain_object v \<Longrightarrow> is_object v"
  by (cases v) auto

lemma plain_object_has_room: "is_plain_object v \<Longrightarrow> has_room v k"
  by (cases v) (auto simp: has_room_def)

lemma name_text: "shaped m \<Longrightarrow> member m ''name'' = JStr (method_name m)"
  by (auto simp: shaped_def method_name_def split: jsv.split)

lemma member_set_parts: "parts \<noteq> [] \<Longrightarrow> hd parts \<noteq> k \<Longrightarrow> member (set_parts parts v x) k = member x k"
  by (induction parts v x rule: set_parts.induct) (simp_all add: member_put_other)

lemma has_member_set_parts: "parts \<noteq> [] \<Longrightarrow> hd parts \<noteq> k \<Longrightarrow> has_member (set_parts parts v x) k = has_member x k"
  by (induction parts v x rule: set_parts.induct) (simp_all add: has_member_put)

text \<open>A change at paths that start neither with the name nor with a reference keeps the shape and the name.\<close>

definition safe_path :: "string \<Rightarrow> bool" where
  "safe_path path \<longleftrightarrow> hd (split_path path) \<noteq> ''name'' \<and> hd (split_path path) \<noteq> REF"

lemma same_name: "member m' ''name'' = member m ''name'' \<Longrightarrow> method_name m' = method_name m"
  by (simp add: method_name_def)

lemma split_path_not_Nil [simp]: "split_path path \<noteq> []"
  by (simp add: split_path_def)

lemma set_at_safe_path:
  assumes "shaped m" and "safe_path path"
  shows "shaped (set_parts (split_path path) v m) \<and> method_name (set_parts (split_path path) v m) = method_name m"
proof -
  have "member (set_parts (split_path path) v m) ''name'' = member m ''name''"
    "has_member (set_parts (split_path path) v m) REF = has_member m REF"
    using assms(2) by (auto simp: safe_path_def member_set_parts has_member_set_parts)
  with assms(1) show ?thesis by (auto simp: shaped_def dest: same_name)
qed

lemma get_parts_JStr: "is_object (get_parts ps (JStr s)) \<Longrightarrow> False" "is_object (get_parts ps JUndef) \<Longrightarrow> False"
  by (cases ps; simp)+

lemma object_path_is_safe:
  assumes "shaped o'" and "is_object (getObjectByPath o' path)"
  shows "safe_path path"
proof -
  obtain k ks where parts: "split_path path = k # ks" by (cases "split_path path") auto
  have "is_object (get_parts ks (member o' k))"
    using assms(2) by (simp add: getObjectByPath_def parts split: if_split_asm)
  then have "k \<noteq> ''name'' \<and> k \<noteq> REF"
    using name_text [OF assms(1)] shaped_no_ref [OF assms(1)] get_parts_JStr by auto
  then show ?thesis by (simp add: safe_path_def parts)
qed

lemma replaceObject_keeps:
  assumes "shaped o'" and "shaped m" and "path \<noteq> ''''"
  shows "shaped (replaceObjectAtPath o' m path) \<and> method_name (replaceObjectAtPath o' m path) = method_name m"
  using set_at_safe_path [OF assms(2) object_path_is_safe [OF assms(1)]] assms
  by (simp add: replaceObjectAtPath_def Let_def at_path_def setObjectByPath_def)

lemma foldl_keeps:
  assumes "\<And>m x. x \<in> set xs \<Longrightarrow> shaped m \<Longrightarrow> shaped (f m x) \<and> method_name (f m x) = method_name m" and "shaped m"
  shows "shaped (foldl f m xs) \<and> method_name (foldl f m xs) = method_name m"
  using assms by (induction xs arbitrary: m) auto

lemma processRefFields_keeps:
  assumes "shaped o'" and "plain_keys o'" and "shaped m"
  shows "shaped (processRefFields o' m) \<and> method_name (processRefFields o' m) = method_name m"
  unfolding processRefFields_def
proof (rule foldl_keeps [OF _ assms(3)])
  fix m p assume "p \<in> set (findRefPaths o' '''')" and m: "shaped m"
  then have p: "(fst p, snd p) \<in> set (findRefPaths o' '''')" by simp
  have "fst p \<noteq> ''''"
  proof
    assume "fst p = ''''"
    then have "member o' REF \<noteq> JUndef" using p unfolding found_refs [OF assms(2)] by (simp add: at_path_def)
    with shaped_no_ref [OF assms(1)] show False by simp
  qed
  then show "shaped (replaceObjectAtPath o' m (fst p)) \<and> method_name (replaceObjectAtPath o' m (fst p)) = method_name m"
    by (rule replaceObject_keeps [OF assms(1) m])
qed

lemma starts_with_first_part: "starts_with (hd (split_on d s)) s"
proof (induction s)
  case (Cons c s)
  obtain w ws where split: "split_on d s = w # ws" by (cases "split_on d s") auto
  with Cons show ?case by (simp add: starts_with_def)
qed (simp add: starts_with_def)

text \<open>The keys that are missing are named by paths over keys of the original.\<close>

lemma missing_paths:
  "plain_keys v \<Longrightarrow> path \<in> set (missing_keys start v obj) \<Longrightarrow>
     \<exists>k rest. has_member v k \<and> list_all plain_key (k # rest) \<and> path = foldl buildPath (buildPath start k) rest \<and>
       \<not> shouldSkipMissingKeyPath (buildPath start k)"
  "(\<forall>p \<in> set ps. plain_key (fst p) \<and> plain_keys (snd p)) \<Longrightarrow> path \<in> set (missing_in start ps obj) \<Longrightarrow>
     \<exists>k rest. k \<in> fst ` set ps \<and> list_all plain_key (k # rest) \<and> path = foldl buildPath (buildPath start k) rest \<and>
       \<not> shouldSkipMissingKeyPath (buildPath start k)"
proof (induction start v obj and start ps obj arbitrary: path and path rule: missing_keys_missing_in.induct)
  case (1 start ps obj)
  then have "\<forall>p \<in> set ps. plain_key (fst p) \<and> plain_keys (snd p)" by (simp add: list_all_iff)
  from "1.IH" [OF this] "1.prems"(2) show ?case by simp
next
  case (4 start k v ps obj)
  consider (rest) "path \<in> set (missing_in start ps obj)"
    | (here) "path = buildPath start k" "\<not> shouldSkipMissingKeyPath (buildPath start k)"
    | (below) "path \<in> set (missing_keys (buildPath start k) v (member obj k))" "\<not> (shouldSkipKey k \<or> shouldSkipMissingKeyPath (buildPath start k))"
      "\<not> \<not> has_member obj k" "is_plain_object v \<and> is_plain_object (member obj k)"
    using "4.prems"(2) by (auto split: if_split_asm)
  then show ?case
  proof cases
    case rest
    have "\<forall>p \<in> set ps. plain_key (fst p) \<and> plain_keys (snd p)" using "4.prems"(1) by simp
    from "4.IH"(2) [OF this rest] obtain l parts where "l \<in> fst ` set ps" "list_all plain_key (l # parts)"
      "path = foldl buildPath (buildPath start l) parts" "\<not> shouldSkipMissingKeyPath (buildPath start l)" by blast
    then show ?thesis by (intro exI [of _ l] exI [of _ parts]) simp
  next
    case here
    then show ?thesis using "4.prems"(1) by (intro exI [of _ k] exI [of _ "[]"]) simp
  next
    case below
    have "plain_keys v" using "4.prems"(1) by simp
    from "4.IH"(1) [OF below(2-4) this below(1)] obtain l rest where
      "list_all plain_key (l # rest)" "path = foldl buildPath (buildPath (buildPath start k) l) rest" by blast
    then show ?thesis using "4.prems"(1) below(2) by (intro exI [of _ k] exI [of _ "l # rest"]) simp
  qed
qed simp_all

lemma differing_path_is_safe:
  assumes "shaped o'" and "plain_keys o'" and "path \<in> set (getDifferingKeys diff o' m)"
  shows "safe_path path \<and> path \<noteq> ''''"
proof -
  have name: "hd (split_path path) \<noteq> ''name''" if "\<not> starts_with ''name'' path" for path
    using starts_with_first_part [of "CHR ''.''" path] that by (auto simp: split_path_def)
  consider (differs) "path \<in> set (processDifferences (diff (json_copy o') (json_copy m)) o' m)"
    | (missing) "path \<in> set (missing_keys '''' o' m)"
    using assms(3) by (auto simp: getDifferingKeys_def getDifferingKeysByCategory_def findMissingKeys_def)
  then show ?thesis
  proof cases
    case differs
    then have "\<not> shouldSkipDifferencePath path" "hasKey o' path"
      by (auto simp: processDifferences_def Let_def split: option.split_asm if_split_asm)
    moreover from this have "has_member o' (hd (split_path path))"
      by (cases "split_path path") (auto simp: hasKey_def)
    ultimately show ?thesis using assms(1) name [of path] by (auto simp: safe_path_def shouldSkipDifferencePath_def shaped_def)
  next
    case missing
    from missing_paths(1) [OF assms(2) this] obtain k rest where
      k: "has_member o' k" "list_all plain_key (k # rest)" "path = foldl buildPath '''' (k # rest)"
        "\<not> shouldSkipMissingKeyPath k" by (auto simp: buildPath_def)
    then have "split_path path = k # rest" "path \<noteq> ''''" using split_built [OF k(2)] by simp_all
    with k assms(1) show ?thesis by (auto simp: safe_path_def shouldSkipMissingKeyPath_def shaped_def)
  qed
qed

lemma put_is_set: "CHR ''.'' \<notin> set path \<Longrightarrow> put_member path v m = set_parts (split_path path) v m"
  by (simp add: split_path_def split_on_no_sep)

lemma adopt_value_keeps:
  assumes "safe_path path" and "path \<noteq> ''''" and "shaped m"
  shows "shaped (adopt_value o' m path) \<and> method_name (adopt_value o' m path) = method_name m"
  using set_at_safe_path [OF assms(3,1)] assms(2,3)
  by (simp add: adopt_value_def Let_def setNestedValue_def put_is_set)

lemma merge_method_keeps:
  assumes "shaped o'" and "plain_keys o'" and "shaped m"
  shows "shaped (merge_method diff o' m) \<and> method_name (merge_method diff o' m) = method_name m"
proof -
  have refs: "shaped (processRefFields o' m)" "method_name (processRefFields o' m) = method_name m"
    using processRefFields_keeps [OF assms] by simp_all
  have "shaped (processDifferingKeys diff o' (processRefFields o' m)) \<and>
      method_name (processDifferingKeys diff o' (processRefFields o' m)) = method_name (processRefFields o' m)"
    unfolding processDifferingKeys_def
    by (rule foldl_keeps [OF _ refs(1)]) (use differing_path_is_safe [OF assms(1,2)] adopt_value_keeps in blast)
  with refs(2) show ?thesis by (simp add: merge_method_def)
qed

subsection \<open>The methods of the merged document\<close>

lemma last_index_Some: "last_index P xs = Some i \<Longrightarrow> i < length xs \<and> P (xs ! i)"
  by (induction xs arbitrary: i) (auto split: option.split_asm if_split_asm)

lemma getMethodMap_Some: "getMethodMap ms n = Some i \<Longrightarrow> i < length ms \<and> method_name (ms ! i) = n"
  using last_index_Some [of "\<lambda>m. method_name m = n" ms i] by (simp add: getMethodMap_def split: if_split_asm)

lemma getMethodMap_None: "n \<noteq> '''' \<Longrightarrow> getMethodMap ms n = None \<longleftrightarrow> n \<notin> method_name ` set ms"
proof -
  have "last_index P xs = None \<longleftrightarrow> (\<forall>x \<in> set xs. \<not> P x)" for P and xs :: "jsv list"
    by (induction xs) (auto split: option.split)
  then show "n \<noteq> '''' \<Longrightarrow> getMethodMap ms n = None \<longleftrightarrow> n \<notin> method_name ` set ms" by (auto simp: getMethodMap_def)
qed

lemma shaped_not_nullish: "shaped m \<Longrightarrow> \<not> nullish_method m"
  by (auto simp: shaped_def nullish_method_def)

lemma merge_methods_names:
  assumes "list_all (\<lambda>m. shaped m \<and> plain_keys m) os" and "list_all shaped ms"
    and "\<And>n i. where_is n = Some i \<Longrightarrow> i < length ms \<and> method_name (ms ! i) = n"
  shows "\<exists>ms'. merge_methods diff where_is os ms = Inr ms' \<and> list_all shaped ms' \<and>
    method_name ` set ms' = method_name ` set ms \<union> method_name ` set os"
  using assms
proof (induction os arbitrary: ms)
  case (Cons o' os)
  then have o': "shaped o'" "plain_keys o'" and os: "list_all (\<lambda>m. shaped m \<and> plain_keys m) os" by simp_all
  have step: "merge_methods diff where_is (o' # os) ms = (case where_is (method_name o') of
      None \<Rightarrow> merge_methods diff where_is os (ms @ [o'])
    | Some i \<Rightarrow> merge_methods diff where_is os (ms[i := merge_method diff o' (ms ! i)]))"
    using o'(1) shaped_not_nullish by (simp add: Let_def shaped_def)
  show ?case
  proof (cases "where_is (method_name o')")
    case None
    have "list_all shaped (ms @ [o'])" using Cons.prems(2) o'(1) by simp
    moreover have "i < length (ms @ [o']) \<and> method_name ((ms @ [o']) ! i) = n" if "where_is n = Some i" for n i
      using Cons.prems(3) [OF that] by (simp add: nth_append)
    ultimately show ?thesis using Cons.IH [OF os] unfolding step None by fastforce
  next
    case (Some i)
    define m where "m = merge_method diff o' (ms ! i)"
    have i: "i < length ms" "method_name (ms ! i) = method_name o'" using Cons.prems(3) [OF Some] by simp_all
    then have "shaped (ms ! i)" using Cons.prems(2) by (simp add: list_all_length)
    then have m: "shaped m" "method_name m = method_name o'" using merge_method_keeps [OF o'] i(2) by (simp_all add: m_def)
    have names: "map method_name (ms[i := m]) = map method_name ms" 
    proof -
      have "map method_name (ms[i := m]) = (map method_name ms)[i := map method_name ms ! i]" using m(2) i by (simp add: map_update)
      then show ?thesis by (simp only: list_update_id)
    qed
    have "list_all shaped (ms[i := m])"
      using Cons.prems(2) m(1) by (auto simp: list_all_iff dest: set_update_subset_insert [THEN subsetD])
    moreover have "j < length (ms[i := m]) \<and> method_name (ms[i := m] ! j) = n" if "where_is n = Some j" for n j
      using Cons.prems(3) [OF that] m(2) i by (cases "j = i") simp_all
    ultimately obtain ms' where "merge_methods diff where_is os (ms[i := m]) = Inr ms'" "list_all shaped ms'"
      "method_name ` set ms' = method_name ` set (ms[i := m]) \<union> method_name ` set os" using Cons.IH [OF os] by blast
    moreover have "method_name ` set (ms[i := m]) = method_name ` set ms" using arg_cong [OF names, of set] by simp
    moreover have "method_name o' \<in> method_name ` set ms" using i by (metis image_eqI nth_mem)
    ultimately show ?thesis unfolding step Some by (auto simp: m_def)
  qed
qed simp

subsubsection \<open>Copies and cleaning keep the names\<close>

lemma copy_lookup: "prop_lookup ps k \<noteq> JUndef \<Longrightarrow>
    prop_lookup (map (\<lambda>p. (fst p, json_copy (snd p))) (filter (\<lambda>p. snd p \<noteq> JUndef) ps)) k = json_copy (prop_lookup ps k)"
  by (induction ps) auto

lemma copy_shaped: "shaped m \<Longrightarrow> shaped (json_copy m) \<and> method_name (json_copy m) = method_name m"
proof (cases m)
  case (JObj ps)
  assume m: "shaped m"
  obtain n where name: "prop_lookup ps ''name'' = JStr n" using name_text [OF m] JObj by simp
  then have "method_name (json_copy m) = method_name m" using copy_lookup [of ps "''name''"] name by (simp add: JObj method_name_def)
  with m show ?thesis by (force simp: shaped_def JObj)
qed (auto simp: shaped_def)

lemma copy_plain: "plain_keys v \<Longrightarrow> plain_keys (json_copy v)"
proof (induction v rule: json_copy.induct)
  case (2 ps)
  then have "distinct (map fst (filter (\<lambda>p. snd p \<noteq> JUndef) ps))" by (simp add: distinct_map_filter)
  with 2 show ?case by (auto simp: list_all_iff o_def)
qed (auto simp: list_all_iff)

lemma clean_lookup: "prop_lookup (map (\<lambda>p. (fst p, removeSkippedKeys (snd p))) (filter (\<lambda>p. \<not> shouldSkipKey (fst p)) ps)) k =
    (if shouldSkipKey k then JUndef else if k \<in> fst ` set ps then removeSkippedKeys (prop_lookup ps k) else JUndef)"
  by (induction ps) auto

lemma name_not_skipped: "\<not> shouldSkipKey ''name''"
  by code_simp

lemma clean_shaped: "shaped m \<Longrightarrow> shaped (removeSkippedKeys m) \<and> method_name (removeSkippedKeys m) = method_name m"
proof (cases m)
  case (JObj ps)
  assume m: "shaped m"
  obtain n where name: "prop_lookup ps ''name'' = JStr n" using name_text [OF m] JObj by simp
  then have "''name'' \<in> fst ` set ps" using prop_lookup_own by fastforce
  then have "method_name (removeSkippedKeys m) = method_name m"
    using clean_lookup [of ps "''name''"] name_not_skipped name by (simp add: JObj method_name_def)
  with m show ?thesis by (force simp: shaped_def JObj)
qed (auto simp: shaped_def)

lemma handle_lookup: "prop_lookup (ref_handle_props c ps origObj) k =
    (if k \<in> fst ` set ps then ref_handle c (prop_lookup ps k) (member origObj k) else JUndef)"
proof (induction ps)
  case (Cons p ps)
  obtain l v where "p = (l, v)" by (cases p)
  with Cons show ?case by (cases "l = k") simp_all
qed simp

lemma handle_name: "shaped m \<Longrightarrow> shaped o' \<Longrightarrow> method_name (handleRefFieldsWithOriginal m o' c) = method_name m"
proof (cases m)
  case (JObj ps)
  assume m: "shaped m" and o': "shaped o'"
  obtain n where name: "prop_lookup ps ''name'' = JStr n" using name_text [OF m] JObj by simp
  then have "''name'' \<in> fst ` set ps" using prop_lookup_own by fastforce
  moreover have "is_object o'" "\<not> hasRefField o'" "prop_lookup ps REF = JUndef"
    using o' shaped_no_ref [OF o'] shaped_no_ref [OF m] by (auto simp: shaped_def plain_object_is_object hasRefField_def JObj)
  ultimately show ?thesis
    using name by (simp add: JObj handleRefFieldsWithOriginal_def method_name_def handle_lookup)
qed (auto simp: shaped_def)

lemma member_copy: "member v k \<noteq> JUndef \<Longrightarrow> is_plain_object v \<Longrightarrow> member (json_copy v) k = json_copy (member v k)"
  by (cases v) (simp_all add: copy_lookup)

lemma is_plain_object_copy [simp]: "is_plain_object (json_copy v) = is_plain_object v"
  by (cases v) simp_all

lemma copy_defined: "v \<noteq> JUndef \<Longrightarrow> json_copy v \<noteq> JUndef"
  by (cases v) auto

text \<open>A document: an object with a list of methods.\<close>

definition has_methods :: "jsv \<Rightarrow> jsv list \<Rightarrow> bool" where
  "has_methods d ms \<longleftrightarrow> is_plain_object d \<and> member d ''methods'' = JArr ms"

definition kept :: "jsv \<Rightarrow> bool" where
  "kept m \<longleftrightarrow> method_name m = '''' \<or> getSkippedMethodCategory (method_name m) \<noteq> Some ''discarded''"

lemma has_methods_put: "is_plain_object d \<Longrightarrow> has_methods (put_member ''methods'' (JArr ms) d) ms"
  by (simp add: has_methods_def member_put_same plain_object_has_room)

lemma has_methods_put_other: "has_methods d ms \<Longrightarrow> k \<noteq> ''methods'' \<Longrightarrow> has_methods (put_member k v d) ms"
  by (simp add: has_methods_def member_put_other)

lemma methods_of_has: "has_methods d ms \<Longrightarrow> methods_of d = ms"
  by (simp add: has_methods_def methods_of_def)

lemma shaped_defined: "shaped m \<Longrightarrow> m \<noteq> JUndef"
  by (auto simp: shaped_def)

lemma has_methods_copy:
  assumes "has_methods d ms" and "list_all shaped ms"
  shows "has_methods (json_copy d) (map json_copy ms)"
proof -
  have "map (\<lambda>x. if x = JUndef then JNull else json_copy x) ms = map json_copy ms"
    using assms(2) shaped_defined by (auto simp: list_all_iff)
  with assms(1) show ?thesis by (simp add: has_methods_def member_copy)
qed

lemma has_methods_filter:
  assumes "has_methods d ms" and "list_all shaped ms"
  shows "has_methods (filterDocument d) (filter kept (map json_copy ms))"
proof -
  have copied: "has_methods (json_copy d) (map json_copy ms)" by (rule has_methods_copy [OF assms])
  then have "filterDocument d = put_member ''methods'' (JArr (filter kept (map json_copy ms))) (json_copy d)"
    by (simp add: filterDocument_def Let_def has_methods_def filterSkippedMethods_def kept_def [abs_def])
  moreover have "is_plain_object (json_copy d)" using copied by (simp add: has_methods_def)
  ultimately show ?thesis by (simp only: has_methods_put)
qed

lemma ensure_has_methods: "has_methods d ms \<Longrightarrow> has_methods (ensure_object ''components'' d) ms"
  by (simp add: ensure_object_def has_methods_put_other)

lemma mergeComponents_has_methods: "has_methods d ms \<Longrightarrow> has_methods (mergeComponents o' d) ms"
  by (simp add: mergeComponents_def Let_def has_methods_put_other ensure_has_methods)

lemma processComponents_has_methods: "has_methods d ms \<Longrightarrow> has_methods (processComponentsWithOriginal d o') ms"
  by (simp add: processComponentsWithOriginal_def has_methods_put_other)

definition kept_names :: "string set \<Rightarrow> string set" where
  "kept_names names = {n \<in> names. getSkippedMethodCategory n \<noteq> Some ''discarded''}"

lemma kept_copies:
  assumes "list_all shaped ms"
  shows "list_all shaped (filter kept (map json_copy ms)) \<and>
    method_name ` set (filter kept (map json_copy ms)) = kept_names (method_name ` set ms)"
proof -
  have each: "shaped (json_copy m) \<and> method_name (json_copy m) = method_name m \<and> method_name m \<noteq> ''''" if "m \<in> set ms" for m
    using assms that copy_shaped by (auto simp: list_all_iff shaped_def)
  then have "list_all shaped (map json_copy ms)" by (auto simp: list_all_iff)
  moreover have "kept (json_copy m) \<longleftrightarrow> method_name m \<in> kept_names (method_name ` set ms)" if "m \<in> set ms" for m
    using each [OF that] that by (auto simp: kept_def kept_names_def)
  ultimately show ?thesis using each by (force simp: list_all_iff kept_names_def image_iff)
qed

lemma processMethods_names:
  assumes "list_all shaped ms" and "list_all shaped os"
  shows "\<exists>ms'. processMethodsWithOriginal ms os = Inr ms' \<and> map method_name ms' = map method_name ms"
proof -
  have "\<not> list_ex nullish_method ms" using assms(1) shaped_not_nullish by (auto simp: list_all_iff list_ex_iff)
  moreover have "method_name (case getMethodMap os (method_name m) of
        Some i \<Rightarrow> handleRefFieldsWithOriginal m (os ! i) False | None \<Rightarrow> m) = method_name m" if "m \<in> set ms" for m
  proof (cases "getMethodMap os (method_name m)")
    case (Some i)
    then have "shaped (os ! i)" using getMethodMap_Some [OF Some] assms(2) by (simp add: list_all_length)
    with Some that assms(1) show ?thesis by (simp add: handle_name list_all_iff)
  qed simp
  ultimately show ?thesis by (simp add: processMethodsWithOriginal_def)
qed

lemma processDocument_names:
  assumes "has_methods d ms" and "list_all shaped ms" and "has_methods o' os" and "list_all shaped os"
  shows "\<exists>merged. processDocument d o' = Inr merged \<and>
    set (map method_name (methods_of merged)) = kept_names (method_name ` set ms)"
proof -
  define cleaned where "cleaned = map removeSkippedKeys (filter kept (map json_copy ms))"
  have copies: "list_all shaped (filter kept (map json_copy ms))"
    "method_name ` set (filter kept (map json_copy ms)) = kept_names (method_name ` set ms)"
    using kept_copies [OF assms(2)] by simp_all
  then have cleaned: "list_all shaped cleaned" using clean_shaped by (auto simp: cleaned_def list_all_iff)
  have "map method_name cleaned = map method_name (filter kept (map json_copy ms))"
    using copies(1) clean_shaped unfolding cleaned_def map_map by (intro map_cong) (auto simp: list_all_iff)
  then have names: "set (map method_name cleaned) = kept_names (method_name ` set ms)" using copies(2) by (simp only: set_map)
  obtain ms' where ms': "processMethodsWithOriginal cleaned os = Inr ms'" "map method_name ms' = map method_name cleaned"
    using processMethods_names [OF cleaned assms(4)] by blast
  have copy: "has_methods (json_copy d) (map json_copy ms)" by (rule has_methods_copy [OF assms(1,2)])
  have "filterAndCleanMethods (methods_of (json_copy d)) = cleaned"
    unfolding methods_of_has [OF copy] by (simp add: filterAndCleanMethods_def filterSkippedMethods_def cleaned_def kept_def [abs_def])
  moreover have "is_array (member d ''methods'')" using assms(1) by (simp add: has_methods_def)
  ultimately have "processDocument d o' =
      Inr (processComponentsWithOriginal (put_member ''methods'' (JArr ms') (json_copy d)) o')"
    by (simp add: processDocument_def Let_def methods_of_has [OF assms(3)] ms'(1))
  moreover have "has_methods (processComponentsWithOriginal (put_member ''methods'' (JArr ms') (json_copy d)) o') ms'"
    using copy by (intro processComponents_has_methods has_methods_put) (simp add: has_methods_def)
  ultimately show ?thesis using names ms'(2) by (metis methods_of_has)
qed

lemma shaped_name_in_copies: "list_all (\<lambda>m. shaped m \<and> plain_keys m) ms \<Longrightarrow>
    list_all (\<lambda>m. shaped m \<and> plain_keys m) (filter kept (map json_copy ms))"
  using copy_shaped copy_plain by (auto simp: list_all_iff)

lemma kept_names_twice: "kept_names (kept_names A \<union> kept_names B) = kept_names (A \<union> B)"
  by (auto simp: kept_names_def)


subsection \<open>The merged components\<close>

lemma member_merged_keys:
  assumes "is_plain_object t"
  shows "is_plain_object (foldl (mergeComponentKey sec) t ks) \<and>
    member (foldl (mergeComponentKey sec) t ks) k =
      (if k \<in> set ks \<and> \<not> truthy (member t k) then removeSkippedKeys (member sec k) else member t k)"
  using assms
proof (induction ks arbitrary: t)
  case (Cons l ks)
  have plain: "is_plain_object (mergeComponentKey sec t l)" using Cons.prems by (simp add: mergeComponentKey_def)
  have "member (mergeComponentKey sec t l) k =
      (if k = l \<and> \<not> truthy (member t k) then removeSkippedKeys (member sec k) else member t k)"
    using Cons.prems by (cases "k = l") (simp_all add: mergeComponentKey_def member_put_same member_put_other plain_object_has_room)
  then show ?case using Cons.IH [OF plain] by auto
qed simp

text \<open>A part of a document that is there as an object, or is not there.\<close>

definition object_or_missing :: "jsv \<Rightarrow> bool" where
  "object_or_missing v \<longleftrightarrow> is_plain_object v \<or> \<not> truthy v"

lemma member_missing: "\<not> truthy v \<Longrightarrow> member v k = JUndef"
  by (cases v) auto

lemma ensured:
  assumes "is_plain_object v" and "object_or_missing (member v key)"
  shows "is_plain_object (ensure_object key v)" and "is_plain_object (member (ensure_object key v) key)"
    and "member (member (ensure_object key v) key) k = member (member v key) k"
    and "key' \<noteq> key \<Longrightarrow> member (ensure_object key v) key' = member v key'"
  using assms by (auto simp: ensure_object_def object_or_missing_def member_put_same member_put_other
    plain_object_has_room member_missing)

definition merged_member :: "jsv \<Rightarrow> jsv \<Rightarrow> string \<Rightarrow> jsv" where
  "merged_member section target k =
     (if is_object section \<and> k \<in> set (js_keys section) \<and> \<not> shouldSkipKey k \<and> \<not> truthy (member target k)
      then removeSkippedKeys (member section k) else member target k)"

lemma mergeSection_step:
  assumes "is_plain_object c" and "object_or_missing (member c s)"
  shows "is_plain_object (mergeSectionComponents oc c s)"
    and "member (member (mergeSectionComponents oc c s) s) k = merged_member (member oc s) (member c s) k"
    and "s' \<noteq> s \<Longrightarrow> member (mergeSectionComponents oc c s) s' = member c s'"
  using ensured [OF assms] member_merged_keys [OF ensured(2) [OF assms]] assms(1)
  by (auto simp: mergeSectionComponents_def Let_def merged_member_def getValidKeysFromSection_def
    member_put_same member_put_other plain_object_has_room)

lemma mergeSections:
  assumes "is_plain_object c" and "\<And>s. object_or_missing (member c s)" and "distinct ss"
  shows "member (member (foldl (mergeSectionComponents oc) c ss) s) k =
    (if s \<in> set ss then merged_member (member oc s) (member c s) k else member (member c s) k)"
  using assms
proof (induction ss rule: rev_induct)
  case (snoc l ss)
  have inv: "is_plain_object (foldl (mergeSectionComponents oc) c ss) \<and>
      (\<forall>s'. s' \<notin> set ss \<longrightarrow> member (foldl (mergeSectionComponents oc) c ss) s' = member c s')" if "distinct ss" for ss
    using that
  proof (induction ss rule: rev_induct)
    case (snoc k ks)
    then have before: "is_plain_object (foldl (mergeSectionComponents oc) c ks)"
      "member (foldl (mergeSectionComponents oc) c ks) k = member c k" by auto
    then have "object_or_missing (member (foldl (mergeSectionComponents oc) c ks) k)" using assms(2) by simp
    from mergeSection_step [OF before(1) this] snoc show ?case by auto
  qed (simp add: assms(1))
  have before: "is_plain_object (foldl (mergeSectionComponents oc) c ss)"
    "member (foldl (mergeSectionComponents oc) c ss) l = member c l" using inv [of ss] snoc.prems(3) by auto
  then have room: "object_or_missing (member (foldl (mergeSectionComponents oc) c ss) l)" using assms(2) by simp
  show ?case
  proof (cases "s = l")
    case True
    then show ?thesis using mergeSection_step(2) [OF before(1) room] before(2) by simp
  next
    case False
    then show ?thesis using mergeSection_step(3) [OF before(1) room] snoc by simp
  qed
qed simp

text \<open>
  Merging the components keeps every component that the relay's document has, and adds from the original exactly
  those that it has not, cleaned of the keys that are left out.
\<close>

theorem mergeComponents_adds_missing:
  assumes "is_plain_object document" and "is_object (member original ''components'')"
    and "distinct (js_keys (member original ''components''))"
    and "object_or_missing (member document ''components'')"
    and "\<And>s. object_or_missing (member (member document ''components'') s)"
  shows "member (member (member (mergeComponents original document) ''components'') sectionName) key =
    (let existing = member (member (member document ''components'') sectionName) key;
         section = member (member original ''components'') sectionName
     in if sectionName \<in> set (js_keys (member original ''components'')) \<and> is_object section \<and>
           key \<in> set (js_keys section) \<and> \<not> shouldSkipKey key \<and> \<not> truthy existing
        then removeSkippedKeys (member section key) else existing)"
proof -
  note made = ensured [OF assms(1,4)]
  have sections: "object_or_missing (member (member (ensure_object ''components'' document) ''components'') s)" for s
    using made(3) assms(5) by simp
  have "member (mergeComponents original document) ''components'' =
      foldl (mergeSectionComponents (member original ''components''))
        (member (ensure_object ''components'' document) ''components'') (js_keys (member original ''components''))"
    using assms(2) made(1) by (simp add: mergeComponents_def Let_def member_put_same plain_object_has_room)
  then show ?thesis unfolding mergeSections [OF made(2) sections assms(3)]
    using made(3) by (simp add: mergeSections [OF made(2) sections assms(3)] merged_member_def Let_def)
qed

subsection \<open>What is not overwritten\<close>

text \<open>
  A field that the relay words itself, or that is left out, keeps the relay's value, when no reported difference
  names a part of the method that holds it or lies in it.
\<close>

theorem custom_field_kept:
  assumes "shouldSkipPath path \<or> shouldSkipMethod (method_name original) path"
    and "\<forall>p \<in> set (getDifferingKeys diff original modified). p = path \<or>
      (\<not> prefix (split_path p) (split_path path) \<and> \<not> prefix (split_path path) (split_path p))"
  shows "getNestedValue (processDifferingKeys diff original modified) path = getNestedValue modified path"
proof -
  have "getNestedValue (adopt_value original m p) path = getNestedValue m path"
    if "p \<in> set (getDifferingKeys diff original modified)" for m p
  proof (cases "p = path")
    case True
    with assms(1) show ?thesis by (auto simp: adopt_value_def)
  next
    case False
    then have "get_parts (split_path path) (set_parts (split_path p) v m) = get_parts (split_path path) m" for v
      using assms(2) that by (intro get_set_parts_apart) auto
    then show ?thesis
      by (simp add: adopt_value_def Let_def getNestedValue_def setNestedValue_def put_is_set)
  qed
  then have "getNestedValue (foldl (adopt_value original) m ps) path = getNestedValue m path"
    if "set ps \<subseteq> set (getDifferingKeys diff original modified)" for ps m
    using that by (induction ps arbitrary: m) auto
  then show ?thesis by (simp add: processDifferingKeys_def)
qed

subsection \<open>Examples\<close>

definition sample_original :: jsv where
  "sample_original = JObj
     [(''methods'', JArr [JObj [(''name'', JStr ''eth_call''), (''summary'', JStr ''New'')], JObj [(''name'', JStr ''engine_x'')]]),
      (''components'', JObj [(''schemas'', JObj [(''address'', JStr ''new''), (''hash'', JStr ''added'')])])]"

definition sample_modified :: jsv where
  "sample_modified = JObj
     [(''methods'', JArr [JObj [(''name'', JStr ''eth_call''), (''summary'', JStr ''Old'')], JObj [(''name'', JStr ''net_version'')]]),
      (''components'', JObj [(''schemas'', JObj [(''address'', JStr ''old'')])])]"


theorem mergeComponents_adds_missing_witness:
  "member (member (member (mergeComponents sample_original sample_modified) ''components'') ''schemas'') ''hash'' = JStr ''added'' \<and>
   \<not> shouldSkipKey ''hash''"
proof -
  have not_skipped: "\<not> shouldSkipKey ''hash''" by code_simp
  have parts: "is_plain_object sample_modified" "is_object (member sample_original ''components'')"
    "distinct (js_keys (member sample_original ''components''))" "object_or_missing (member sample_modified ''components'')"
    by (simp_all add: sample_original_def sample_modified_def object_or_missing_def)
  have "object_or_missing (member (member sample_modified ''components'') s)" for s
    by (simp add: sample_modified_def object_or_missing_def)
  from mergeComponents_adds_missing [OF parts this, of "''schemas''" "''hash''"] not_skipped
  show ?thesis by (simp add: sample_original_def sample_modified_def)
qed

theorem custom_field_kept_witness:
  "getNestedValue (processDifferingKeys (\<lambda>a b. [Some [''summary''], Some [''result'']])
     (JObj [(''name'', JStr ''eth_feeHistory''), (''summary'', JStr ''New''), (''result'', JStr ''r'')])
     (JObj [(''name'', JStr ''eth_feeHistory''), (''summary'', JStr ''Old''), (''result'', JStr ''q'')])) ''summary'' = JStr ''Old''"
proof -
  define original where "original = JObj [(''name'', JStr ''eth_feeHistory''), (''summary'', JStr ''New''), (''result'', JStr ''r'')]"
  define modified where "modified = JObj [(''name'', JStr ''eth_feeHistory''), (''summary'', JStr ''Old''), (''result'', JStr ''q'')]"
  have custom: "shouldSkipMethod (method_name original) ''summary''" unfolding original_def by code_simp
  have keys: "getDifferingKeys (\<lambda>a b. [Some [''summary''], Some [''result'']]) original modified = [''summary'', ''result'']"
    unfolding original_def modified_def by code_simp
  have "split_path ''summary'' = [''summary'']" "split_path ''result'' = [''result'']" by code_simp+
  then have "getNestedValue (processDifferingKeys (\<lambda>a b. [Some [''summary''], Some [''result'']]) original modified) ''summary'' =
      getNestedValue modified ''summary''"
    using custom by (intro custom_field_kept) (simp_all add: keys)
  moreover have "getNestedValue modified ''summary'' = JStr ''Old''" unfolding modified_def by code_simp
  ultimately show ?thesis by (simp add: original_def modified_def)
qed

end
