(* ===== verification/OpenRpcReport.thy ===== *)
theory OpenRpcReport
  imports OpenRpcMerge
begin

section \<open>The OpenRPC updater: reports and files\<close>

text \<open>
  Models \<open>groupPaths\<close> of \<open>openrpc.utils.js\<close>, \<open>operations/report.js\<close>, the formatting of
  \<open>file.utils.js\<close> and the command line of \<open>cli.js\<close>. What is printed is the list of the lines and tables;
  files are texts. The layout that \<open>JSON.stringify(v, null, 2)\<close> gives is a parameter. The prefixes of paths
  are not numbers, so \<open>Object.keys\<close> lists them in the order they were counted first.
\<close>

subsection \<open>Grouping paths\<close>

definition first_occurrences :: "'a list \<Rightarrow> 'a list" where
  "first_occurrences xs = rev (remdups (rev xs))"

definition path_prefixes :: "string \<Rightarrow> string list" where
  "path_prefixes path =
     (let parts = split_path path in map (\<lambda>i. foldl buildPath '''' (take (Suc i) parts)) [0..<length parts - 1])"

definition getDepth :: "string \<Rightarrow> nat" where "getDepth path = length (split_path path)"

text \<open>\<open>Array.prototype.sort\<close> is stable: sorting by depth and then by count orders by count and, where they agree, by depth.\<close>

definition analyzePrefixes :: "nat \<Rightarrow> string list \<Rightarrow> string list" where
  "analyzePrefixes minGroupSize paths =
     (let counted = concat (map path_prefixes paths);
          often = filter (\<lambda>p. minGroupSize \<le> count_list counted p) (first_occurrences counted)
      in sort_key (\<lambda>p. - int (count_list counted p)) (sort_key (\<lambda>p. - int (getDepth p)) often))"

definition below_prefix :: "string \<Rightarrow> string \<Rightarrow> bool" where
  "below_prefix pre path \<longleftrightarrow> starts_with (pre @ ''.'') path \<or> path = pre"

definition getSubpaths :: "string list \<Rightarrow> string \<Rightarrow> string list" where
  "getSubpaths paths pre = filter (below_prefix pre) paths"

datatype entry = Diffs string nat | Single string

definition group_step :: "nat \<Rightarrow> string list \<times> entry list \<Rightarrow> string \<Rightarrow> string list \<times> entry list" where
  "group_step minGroupSize st pre =
     (let matching = getSubpaths (fst st) pre
      in if minGroupSize \<le> length matching
         then (fold remove1 matching (fst st), snd st @ [Diffs pre (length matching)]) else st)"

definition groupPathsHierarchically :: "nat \<Rightarrow> string list \<Rightarrow> entry list" where
  "groupPathsHierarchically minGroupSize paths =
     (let st = foldl (group_step minGroupSize) (paths, []) (analyzePrefixes minGroupSize paths)
      in snd st @ map Single (fst st))"

fun entry_text :: "entry \<Rightarrow> string" where
  "entry_text (Diffs pre n) = pre @ '' ('' @ show_int (int n) @ '' diffs)''"
| "entry_text (Single path) = path"

definition groupPaths :: "string list \<Rightarrow> nat \<Rightarrow> string" where
  "groupPaths paths minGroupSize =
     (case paths of [] \<Rightarrow> ''-'' | [path] \<Rightarrow> path
      | _ \<Rightarrow> intercalate '', '' (map entry_text (groupPathsHierarchically minGroupSize paths)))"

subsection \<open>The report\<close>

datatype printed = Line string | Table "(string \<times> string) list"

text \<open>The names of a method map: the keys of a \<open>Map\<close> are in the order of their first insertion.\<close>

definition map_names :: "jsv list \<Rightarrow> string list" where
  "map_names ms = first_occurrences (filter (\<lambda>n. n \<noteq> '''') (map method_name ms))"

definition missing_methods :: "jsv list \<Rightarrow> jsv list \<Rightarrow> (string \<times> string) list" where
  "missing_methods os ms =
     map (\<lambda>method. (method, ''not implemented'')) NOT_IMPLEMENTED_METHODS @
     map (\<lambda>name. (name, case getSkippedMethodCategory name of Some category \<Rightarrow> category | None \<Rightarrow> ''a new method''))
       (filter (\<lambda>name. getMethodMap ms name = None \<and> name \<notin> set NOT_IMPLEMENTED_METHODS) (map_names os))"

definition changed_method ::
  "(jsv \<Rightarrow> jsv \<Rightarrow> string list option list) \<Rightarrow> jsv list \<Rightarrow> jsv list \<Rightarrow> string \<Rightarrow> (string \<times> string) list" where
  "changed_method diff os ms name =
     (case (getMethodMap os name, getMethodMap ms name) of
        (Some i, Some j) \<Rightarrow>
          if getSkippedMethodCategory name \<in> {Some ''discarded'', Some ''not implemented''} then []
          else let valueDiscrepancies = getDifferingKeysByCategory diff (os ! i) (ms ! j)
               in if valueDiscrepancies = [] then [] else [(name, groupPaths valueDiscrepancies 3)]
      | _ \<Rightarrow> [])"

definition changed_methods :: "(jsv \<Rightarrow> jsv \<Rightarrow> string list option list) \<Rightarrow> jsv list \<Rightarrow> jsv list \<Rightarrow> (string \<times> string) list" where
  "changed_methods diff os ms = concat (map (changed_method diff os ms) (map_names os))"

definition NO_DIFFERENCES :: string where "NO_DIFFERENCES = ''No differences detected.''"

definition report_lines :: "(string \<times> string) list \<Rightarrow> (string \<times> string) list \<Rightarrow> printed list" where
  "report_lines missingMethods changedMethods =
     (if missingMethods = [] \<and> changedMethods = [] then [Line NO_DIFFERENCES]
      else (if missingMethods = [] then []
            else [Line ([CHR 10] @ ''Methods present in the original document but missing from the modified document:'' @ [CHR 10]),
                  Table missingMethods, Line ([CHR 10] @ ''Status explanation:''),
                  Line ''- (discarded): Methods that have been intentionally removed'',
                  Line ''- (not implemented): Methods that have not been implemented yet'']) @
           (if changedMethods = [] then []
            else [Line ([CHR 10] @ ''Methods with differences between documents:'' @ [CHR 10]),
                  Table changedMethods, Line ([CHR 10] @ ''Explanation:''),
                  Line ''- valueDiscrepancies: Fields that exist in both documents but have different values'',
                  Line (''- Entries with format '' @ [CHR 34] @ ''path (N diffs)'' @ [CHR 34] @
                    '' indicate N differences within that path'')]))"

definition generateReport :: "(jsv \<Rightarrow> jsv \<Rightarrow> string list option list) \<Rightarrow> jsv \<Rightarrow> jsv \<Rightarrow> printed list" where
  "generateReport diff originalJson modifiedJson =
     (let os = methods_of originalJson; ms = methods_of modifiedJson
      in report_lines (missing_methods os ms) (changed_methods diff os ms))"

subsection \<open>Formatting\<close>

definition NL :: string where "NL = [CHR 10]"

definition indentation :: "nat \<Rightarrow> string" where "indentation level = concat (replicate level ''  '')"

fun isCompactableItem :: "jsv \<Rightarrow> nat \<Rightarrow> bool" where
  "isCompactableItem (JStr s) maxStringLength = (length s < maxStringLength)"
| "isCompactableItem (JNum _) maxStringLength = True"
| "isCompactableItem (JBool _) maxStringLength = True"
| "isCompactableItem _ maxStringLength = False"

definition shouldUseCompactArrayFormat :: "jsv list \<Rightarrow> bool" where
  "shouldUseCompactArrayFormat xs \<longleftrightarrow> length xs \<le> 8 \<and> list_all (\<lambda>x. isCompactableItem x 40) xs"

fun format_value :: "nat \<Rightarrow> jsv \<Rightarrow> string" where
  "format_value level (JArr xs) =
     (if xs = [] then ''[]''
      else if shouldUseCompactArrayFormat xs then ''['' @ intercalate '', '' (map (format_value (Suc level)) xs) @ '']''
      else ''['' @ NL @ intercalate ('','' @ NL) (map (\<lambda>x. indentation (Suc level) @ format_value (Suc level) x) xs) @
           NL @ indentation level @ '']'')"
| "format_value level (JObj ps) =
     (if ps = [] then ''{}''
      else ''{'' @ NL @
           intercalate ('','' @ NL)
             (map (\<lambda>p. indentation (Suc level) @ [CHR 34] @ fst p @ [CHR 34] @ '': '' @ format_value (Suc level) (snd p)) ps) @
           NL @ indentation level @ ''}'')"
| "format_value level (JStr s) = json_quote s"
| "format_value level JUndef = ''null''"
| "format_value level v = js_to_string v"

definition formatJson :: "jsv \<Rightarrow> string" where "formatJson v = format_value 0 v"

definition replace_newlines :: "string \<Rightarrow> string \<Rightarrow> string" where
  "replace_newlines eol s = concat (map (\<lambda>c. if c = CHR 10 then eol else [c]) s)"

definition CRLF :: string where "CRLF = [CHR 13, CHR 10]"

definition line_end :: "string \<Rightarrow> string" where
  "line_end s = (if list_ex (\<lambda>i. starts_with CRLF (drop i s)) [0..<length s] then CRLF else NL)"

definition writeJson :: "(jsv \<Rightarrow> string) \<Rightarrow> jsv \<Rightarrow> string \<Rightarrow> string" where
  "writeJson stringify_2 data originalContent =
     (if originalContent = '''' then stringify_2 data else replace_newlines (line_end originalContent) (formatJson data))"

subsection \<open>The command\<close>

record cli_args =
  mergeFlag :: bool
  originalFilePath :: string
  modifiedFilePath :: string

fun parse_args :: "string list \<Rightarrow> cli_args \<Rightarrow> cli_args" where
  "parse_args [] r = r"
| "parse_args (a # argv) r =
     (if a = ''-g'' \<or> a = ''--merge'' then parse_args argv (r\<lparr>mergeFlag := True\<rparr>)
      else if a = ''-o'' \<or> a = ''--original''
      then (case argv of [] \<Rightarrow> r | f # rest \<Rightarrow> parse_args rest (r\<lparr>originalFilePath := f\<rparr>))
      else if a = ''-m'' \<or> a = ''--modified''
      then (case argv of [] \<Rightarrow> r | f # rest \<Rightarrow> parse_args rest (r\<lparr>modifiedFilePath := f\<rparr>))
      else parse_args argv r)"

definition parseArgs :: "string list \<Rightarrow> cli_args" where
  "parseArgs argv =
     parse_args argv \<lparr>mergeFlag = False, originalFilePath = ''./original-openrpc.json'',
       modifiedFilePath = ''../../docs/openrpc.json''\<rparr>"

definition hasDifferences :: "(jsv \<Rightarrow> jsv \<Rightarrow> string list option list) \<Rightarrow> jsv \<Rightarrow> jsv \<Rightarrow> bool" where
  "hasDifferences diff original merged \<longleftrightarrow> diff (json_copy original) (json_copy merged) \<noteq> []"

datatype cli_outcome = NothingToDo | FileWritten string | Printed "printed list"

text \<open>Merging gives a modified document without a list of methods an empty one, also where it is compared afterwards.\<close>

definition given_methods :: "jsv \<Rightarrow> jsv \<Rightarrow> jsv" where
  "given_methods original modified =
     (if is_array (member original ''methods'') \<and> \<not> is_array (member modified ''methods'')
      then put_member ''methods'' (JArr []) modified else modified)"

definition run_cli ::
  "(jsv \<Rightarrow> jsv \<Rightarrow> string list option list) \<Rightarrow> (jsv \<Rightarrow> string) \<Rightarrow> string list \<Rightarrow> jsv \<Rightarrow> jsv \<Rightarrow> string \<Rightarrow> string + cli_outcome" where
  "run_cli diff stringify_2 argv originalJson modifiedJson modifiedContent =
     (let original = json_copy originalJson; modified = json_copy modifiedJson
      in if mergeFlag (parseArgs argv)
         then map_sum id (\<lambda>merged. if \<not> hasDifferences diff (given_methods original modified) merged then NothingToDo
                else FileWritten (writeJson stringify_2 merged modifiedContent)) (mergeDocuments diff original modified)
         else Inr (Printed (generateReport diff original modified)))"

subsection \<open>Groups account for every path\<close>

lemma fold_remove1_Cons: "x \<notin> set ys \<Longrightarrow> fold remove1 ys (x # zs) = x # fold remove1 ys zs"
  by (induction ys arbitrary: zs) auto

lemma fold_remove1_filter: "fold remove1 (filter P xs) xs = filter (\<lambda>x. \<not> P x) xs"
  by (induction xs) (simp_all add: fold_remove1_Cons)

lemma group_step_split:
  "group_step k st pre =
     (if k \<le> length (filter (below_prefix pre) (fst st))
      then (filter (\<lambda>p. \<not> below_prefix pre p) (fst st), snd st @ [Diffs pre (length (filter (below_prefix pre) (fst st)))]) else st)"
  by (simp add: group_step_def getSubpaths_def Let_def fold_remove1_filter)

fun entry_count :: "entry \<Rightarrow> nat" where
  "entry_count (Diffs pre n) = n"
| "entry_count (Single path) = 1"

fun entry_covers :: "entry \<Rightarrow> string \<Rightarrow> bool" where
  "entry_covers (Diffs pre n) path = below_prefix pre path"
| "entry_covers (Single path') path = (path' = path)"

definition accounts :: "nat \<Rightarrow> string list \<Rightarrow> string list \<times> entry list \<Rightarrow> bool" where
  "accounts k paths st \<longleftrightarrow>
     sum_list (map entry_count (snd st)) + length (fst st) = length paths \<and>
     (\<forall>e \<in> set (snd st). (\<exists>pre n. e = Diffs pre n \<and> k \<le> n)) \<and>
     set (fst st) \<subseteq> set paths \<and>
     (\<forall>p \<in> set paths. p \<in> set (fst st) \<or> (\<exists>e \<in> set (snd st). entry_covers e p))"

lemma group_step_accounts:
  assumes "accounts k paths st"
  shows "accounts k paths (group_step k st pre)"
proof (cases "k \<le> length (filter (below_prefix pre) (fst st))")
  case True
  obtain xs es where st: "st = (xs, es)" by (cases st)
  define m where "m = length (filter (below_prefix pre) xs)"
  have m: "m + length (filter (\<lambda>p. \<not> below_prefix pre p) xs) = length xs"
    unfolding m_def by (rule sum_length_filter_compl)
  have step: "group_step k st pre = (filter (\<lambda>p. \<not> below_prefix pre p) xs, es @ [Diffs pre m])"
    using True by (simp add: group_step_split st m_def)
  have k: "k \<le> m" using True by (simp add: m_def st)
  have "\<exists>e \<in> set (es @ [Diffs pre m]). entry_covers e p"
    if "p \<in> set paths" "p \<notin> set (filter (\<lambda>p. \<not> below_prefix pre p) xs)" for p
    using assms that by (cases "p \<in> set xs") (auto simp: accounts_def st)
  moreover have "\<forall>e \<in> set (es @ [Diffs pre m]). \<exists>pre n. e = Diffs pre n \<and> k \<le> n"
    using assms k by (simp add: accounts_def st)
  moreover have "sum_list (map entry_count (es @ [Diffs pre m])) + length (filter (\<lambda>p. \<not> below_prefix pre p) xs) = length paths"
    using assms m by (simp add: accounts_def st)
  moreover have "set (filter (\<lambda>p. \<not> below_prefix pre p) xs) \<subseteq> set paths"
    using assms by (auto simp: accounts_def st)
  ultimately show ?thesis unfolding step accounts_def fst_conv snd_conv by blast
next
  case False
  with assms show ?thesis by (simp add: group_step_split)
qed

lemma grouped_accounts: "accounts k paths st \<Longrightarrow> accounts k paths (foldl (group_step k) st pres)"
  by (induction pres arbitrary: st) (simp_all add: group_step_accounts)

text \<open>
  The grouped list accounts for every path: the numbers of differences add up to the number of paths, every group has at
  least the smallest size of a group, single entries are paths, and each path is listed or lies below a listed prefix.
\<close>

theorem groupPaths_accounts_for_all:
  "sum_list (map entry_count (groupPathsHierarchically k paths)) = length paths \<and>
   (\<forall>e \<in> set (groupPathsHierarchically k paths). (\<exists>pre n. e = Diffs pre n \<and> k \<le> n) \<or> (\<exists>p \<in> set paths. e = Single p)) \<and>
   (\<forall>p \<in> set paths. \<exists>e \<in> set (groupPathsHierarchically k paths). entry_covers e p)"
proof -
  define st where "st = foldl (group_step k) (paths, []) (analyzePrefixes k paths)"
  have st: "accounts k paths st" unfolding st_def by (rule grouped_accounts) (simp add: accounts_def)
  have result: "groupPathsHierarchically k paths = snd st @ map Single (fst st)"
    by (simp add: groupPathsHierarchically_def st_def Let_def)
  have "sum_list (map entry_count (map Single xs)) = length xs" for xs by (induction xs) simp_all
  moreover have "\<exists>e \<in> set (snd st @ map Single (fst st)). entry_covers e p" if "p \<in> set paths" for p
  proof (cases "p \<in> set (fst st)")
    case True
    then show ?thesis by (intro bexI [of _ "Single p"]) simp_all
  next
    case False
    then have "\<exists>e \<in> set (snd st). entry_covers e p" using st that unfolding accounts_def by blast
    then show ?thesis by auto
  qed
  moreover have "(\<exists>pre n. e = Diffs pre n \<and> k \<le> n) \<or> (\<exists>p \<in> set paths. e = Single p)"
    if "e \<in> set (snd st @ map Single (fst st))" for e
  proof -
    have "\<forall>e \<in> set (snd st). \<exists>pre n. e = Diffs pre n \<and> k \<le> n" "set (fst st) \<subseteq> set paths" using st by (simp_all add: accounts_def)
    with that show ?thesis by auto
  qed
  moreover have "sum_list (map entry_count (snd st)) + length (fst st) = length paths" using st by (simp add: accounts_def)
  ultimately show ?thesis unfolding result by simp
qed

subsection \<open>What the report says\<close>

text \<open>
  The report never says that there are no differences, not even of a document with itself: the methods that are not
  implemented are listed as missing without a look at the documents.
\<close>

theorem report_never_without_differences:
  "Line NO_DIFFERENCES \<notin> set (generateReport diff originalJson modifiedJson) \<and>
   (\<exists>missing. Table missing \<in> set (generateReport diff originalJson modifiedJson) \<and>
      (\<forall>m \<in> set NOT_IMPLEMENTED_METHODS. (m, ''not implemented'') \<in> set missing))"
proof -
  define os where "os = methods_of originalJson"
  define ms where "ms = methods_of modifiedJson"
  have some: "missing_methods os ms \<noteq> []" by (simp add: missing_methods_def NOT_IMPLEMENTED_METHODS_def)
  have all: "\<forall>m \<in> set NOT_IMPLEMENTED_METHODS. (m, ''not implemented'') \<in> set (missing_methods os ms)"
    by (simp add: missing_methods_def)
  have lines: "Line NO_DIFFERENCES \<notin> set (report_lines xs ys) \<and> Table xs \<in> set (report_lines xs ys)" if "xs \<noteq> []" for xs ys
    using that by (simp add: report_lines_def NO_DIFFERENCES_def)
  have "generateReport diff originalJson modifiedJson = report_lines (missing_methods os ms) (changed_methods diff os ms)"
    by (simp only: generateReport_def Let_def os_def ms_def)
  with lines [OF some] all show ?thesis by (simp only:) blast
qed

lemma first_occurrences_set [simp]: "set (first_occurrences xs) = set xs"
  by (simp add: first_occurrences_def)

lemma skipped_not_new: "n \<in> set NOT_IMPLEMENTED_METHODS \<Longrightarrow> getSkippedMethodCategory n \<noteq> None"
  by (auto simp: getSkippedMethodCategory_def list_ex_iff matchesPattern_def NOT_IMPLEMENTED_METHODS_def)

text \<open>A method is reported as new exactly when only the original document has it and it is not one that is left out.\<close>

theorem new_methods_exact:
  "(name, ''a new method'') \<in> set (missing_methods os ms) \<longleftrightarrow>
     name \<noteq> '''' \<and> name \<in> method_name ` set os \<and> name \<notin> method_name ` set ms \<and> getSkippedMethodCategory name = None"
proof -
  have cat: "getSkippedMethodCategory n = Some c \<Longrightarrow> c \<noteq> ''a new method''" for n c
    by (auto simp: getSkippedMethodCategory_def split: if_split_asm)
  have "(name, ''a new method'') \<in> set (missing_methods os ms) \<longleftrightarrow>
      name \<noteq> '''' \<and> name \<in> method_name ` set os \<and> getMethodMap ms name = None \<and> name \<notin> set NOT_IMPLEMENTED_METHODS \<and>
      getSkippedMethodCategory name = None"
    using cat by (fastforce simp: missing_methods_def map_names_def split: option.split_asm)
  then show ?thesis using skipped_not_new getMethodMap_None by blast
qed

subsection \<open>Reading a JSON text\<close>

text \<open>
  The specification of the written file: a reader of JSON texts, with the escapes that \<open>JSON.stringify\<close> writes.
  The fuel is the length of the text, which no value in it exceeds.
\<close>

definition json_space :: "char \<Rightarrow> bool" where
  "json_space c \<longleftrightarrow> c = CHR '' '' \<or> c = CHR 9 \<or> c = CHR 10 \<or> c = CHR 13"

definition skip :: "string \<Rightarrow> string" where "skip = dropWhile json_space"

definition unescape :: "char \<Rightarrow> char option" where
  "unescape c =
     (if c = CHR 34 \<or> c = CHR 92 \<or> c = CHR ''/'' then Some c
      else if c = CHR ''b'' then Some (CHR 8) else if c = CHR ''f'' then Some (CHR 12)
      else if c = CHR ''n'' then Some (CHR 10) else if c = CHR ''r'' then Some (CHR 13)
      else if c = CHR ''t'' then Some (CHR 9) else None)"

definition cons_first :: "'a \<Rightarrow> ('a list \<times> 'b) option \<Rightarrow> ('a list \<times> 'b) option" where
  "cons_first x r = map_option (\<lambda>p. (x # fst p, snd p)) r"

definition unicode_char :: "string \<Rightarrow> char option" where
  "unicode_char ds = (if length ds = 4 \<and> list_all (is_digit_in 16) ds \<and> of_base 16 ds < 256 then Some (char_of (of_base 16 ds)) else None)"

fun read_text :: "nat \<Rightarrow> string \<Rightarrow> (string \<times> string) option" where
  "read_text 0 s = None"
| "read_text (Suc n) s =
     (case s of [] \<Rightarrow> None
      | c # r \<Rightarrow>
          if c = CHR 34 then Some ([], r)
          else if c = CHR 92
          then (case r of [] \<Rightarrow> None
                | e # r' \<Rightarrow>
                    if e = CHR ''u''
                    then (case unicode_char (take 4 r') of None \<Rightarrow> None | Some u \<Rightarrow> cons_first u (read_text n (drop 4 r')))
                    else (case unescape e of None \<Rightarrow> None | Some u \<Rightarrow> cons_first u (read_text n r')))
          else if of_char c < (32 :: nat) then None
          else cons_first c (read_text n r))"

definition read_digits :: "string \<Rightarrow> (int \<times> string) option" where
  "read_digits s =
     (let ds = takeWhile (is_digit_in 10) s
      in if ds = [] then None else Some (int (of_base 10 ds), dropWhile (is_digit_in 10) s))"

definition read_number :: "string \<Rightarrow> (int \<times> string) option" where
  "read_number s =
     (case s of [] \<Rightarrow> None
      | c # r \<Rightarrow> if c = CHR ''-'' then map_option (\<lambda>p. (- fst p, snd p)) (read_digits r) else read_digits s)"

definition made_object :: "(string \<times> jsv) list \<Rightarrow> jsv" where
  "made_object ps = foldl (\<lambda>v p. js_set_prop v (fst p) (snd p)) (JObj []) ps"

definition read_word :: "string \<Rightarrow> jsv \<Rightarrow> string \<Rightarrow> (jsv \<times> string) option" where
  "read_word w v s = (if starts_with w s then Some (v, drop (length w) s) else None)"

fun read_value :: "nat \<Rightarrow> string \<Rightarrow> (jsv \<times> string) option"
  and read_items :: "nat \<Rightarrow> string \<Rightarrow> (jsv list \<times> string) option"
  and read_props :: "nat \<Rightarrow> string \<Rightarrow> ((string \<times> jsv) list \<times> string) option" where
  "read_value 0 s = None"
| "read_value (Suc n) s =
     (case skip s of [] \<Rightarrow> None
      | c # r \<Rightarrow>
          if c = CHR 34 then map_option (map_prod JStr id) (read_text (length r) r)
          else if c = CHR ''[''
          then (if starts_with '']'' (skip r) then Some (JArr [], tl (skip r)) else map_option (map_prod JArr id) (read_items n r))
          else if c = CHR ''{''
          then (if starts_with ''}'' (skip r) then Some (JObj [], tl (skip r))
                else map_option (map_prod made_object id) (read_props n r))
          else if c = CHR ''t'' then read_word ''true'' (JBool True) (c # r)
          else if c = CHR ''f'' then read_word ''false'' (JBool False) (c # r)
          else if c = CHR ''n'' then read_word ''null'' JNull (c # r)
          else map_option (map_prod JNum id) (read_number (c # r)))"
| "read_items 0 s = None"
| "read_items (Suc n) s =
     (case read_value n s of None \<Rightarrow> None
      | Some (v, r) \<Rightarrow>
          (case skip r of [] \<Rightarrow> None
           | c # r' \<Rightarrow> if c = CHR '','' then cons_first v (read_items n r') else if c = CHR '']'' then Some ([v], r') else None))"
| "read_props 0 s = None"
| "read_props (Suc n) s =
     (case skip s of [] \<Rightarrow> None
      | q # r \<Rightarrow>
          if q \<noteq> CHR 34 then None
          else (case read_text (length r) r of None \<Rightarrow> None
                | Some (k, r1) \<Rightarrow>
                    (case skip r1 of [] \<Rightarrow> None
                     | d # r2 \<Rightarrow>
                         if d \<noteq> CHR '':'' then None
                         else (case read_value n r2 of None \<Rightarrow> None
                               | Some (v, r3) \<Rightarrow>
                                   (case skip r3 of [] \<Rightarrow> None
                                    | c # r' \<Rightarrow> if c = CHR '','' then cons_first (k, v) (read_props n r')
                                               else if c = CHR ''}'' then Some ([(k, v)], r') else None)))))"

definition read_json :: "string \<Rightarrow> jsv option" where
  "read_json s = (case read_value (length s) s of Some (v, r) \<Rightarrow> if skip r = [] then Some v else None | None \<Rightarrow> None)"

subsubsection \<open>Texts and numbers are read back\<close>

lemma skip_Cons [simp]: "skip (c # s) = (if json_space c then skip s else c # s)"
  by (simp add: skip_def)

lemma skip_Nil [simp]: "skip [] = []"
  by (simp add: skip_def)

lemma skip_append: "list_all json_space w \<Longrightarrow> skip (w @ s) = skip s"
  by (induction w) simp_all

lemma cons_first_Some [simp]: "cons_first x (Some (xs, r)) = Some (x # xs, r)"
  by (simp add: cons_first_def)

lemma cons_first_eq_Some: "cons_first x r = Some y \<longleftrightarrow> (\<exists>xs t. r = Some (xs, t) \<and> y = (x # xs, t))"
  by (cases r) (auto simp: cons_first_def)

lemma read_text_end: "read_text (Suc n) (CHR 34 # r) = Some ([], r)"
  by simp

lemma read_text_plain: "c \<noteq> CHR 34 \<Longrightarrow> c \<noteq> CHR 92 \<Longrightarrow> \<not> of_char c < (32 :: nat) \<Longrightarrow>
    read_text (Suc n) (c # r) = cons_first c (read_text n r)"
  by simp

lemma read_text_escape: "e \<noteq> CHR ''u'' \<Longrightarrow> unescape e = Some u \<Longrightarrow>
    read_text (Suc n) (CHR 92 # e # r) = cons_first u (read_text n r)"
  by simp

lemma read_text_unicode: "unicode_char ds = Some u \<Longrightarrow> length ds = 4 \<Longrightarrow>
    read_text (Suc n) (CHR 92 # CHR ''u'' # ds @ r) = cons_first u (read_text n r)"
  by simp

declare read_text.simps(2) [simp del]

lemma control_hex:
  assumes "n < 32"
  shows "unicode_char [CHR ''0'', CHR ''0'', digit_char (n div 16), digit_char (n mod 16)] = Some (char_of n)"
proof -
  have digits: "n div 16 < 16" "n mod 16 < 16" using assms by simp_all
  have zero: "digit_val (CHR ''0'') = Some 0" by code_simp
  have "of_base 16 [CHR ''0'', CHR ''0'', digit_char (n div 16), digit_char (n mod 16)] = n"
    using digits by (simp add: of_base_def zero digit_val_digit_char)
  with digits assms show ?thesis by (simp add: unicode_char_def is_digit_in_def zero digit_val_digit_char)
qed

lemma control_chars:
  "char_of (8 :: nat) = CHR 8" "char_of (9 :: nat) = CHR 9" "char_of (10 :: nat) = CHR 10"
  "char_of (12 :: nat) = CHR 12" "char_of (13 :: nat) = CHR 13" "char_of (34 :: nat) = CHR 34" "char_of (92 :: nat) = CHR 92"
  by (simp_all add: char_of_eq_iff)

lemma read_escaped_char: "read_text (Suc n) (json_escape_char c @ s) = cons_first c (read_text n s)"
proof -
  define k where "k = (of_char c :: nat)"
  have c: "c = char_of k" by (simp add: k_def)
  consider (quote) "k = 34" | (backslash) "k = 92" | (eight) "k = 8" | (nine) "k = 9" | (ten) "k = 10" | (twelve) "k = 12"
    | (thirteen) "k = 13" | (control) "k < 32" "k \<notin> {8, 9, 10, 12, 13}" | (plain) "\<not> k < 32" "k \<noteq> 34" "k \<noteq> 92" by fastforce
  then show ?thesis
  proof cases
    case control
    then have "json_escape_char c =
        CHR 92 # CHR ''u'' # [CHR ''0'', CHR ''0'', digit_char (k div 16), digit_char (k mod 16)]"
      by (simp add: json_escape_char_def Let_def flip: k_def)
    then show ?thesis using read_text_unicode [OF control_hex [OF control(1)], of n s] c by simp
  next
    case plain
    then have "c \<noteq> CHR 34" "c \<noteq> CHR 92" "json_escape_char c = [c]"
      by (auto simp: json_escape_char_def Let_def k_def)
    then show ?thesis using read_text_plain [of c n s] plain(1) by (simp add: k_def)
  qed (simp_all add: json_escape_char_def Let_def c unescape_def read_text_escape control_chars)
qed

lemma escape_not_Nil [simp]: "json_escape_char c \<noteq> []"
  by (simp add: json_escape_char_def Let_def)

lemma escape_length: "length s \<le> length (concat (map json_escape_char s))"
proof (induction s)
  case (Cons c s)
  have "1 \<le> length (json_escape_char c)" by (cases "json_escape_char c") (use escape_not_Nil [of c] in auto)
  with Cons show ?case by simp
qed simp

lemma read_escaped: "length s < n \<Longrightarrow> read_text n (concat (map json_escape_char s) @ CHR 34 # r) = Some (s, r)"
proof (induction s arbitrary: n)
  case Nil
  then show ?case by (cases n) (simp_all add: read_text_end)
next
  case (Cons c s)
  then obtain m where n: "n = Suc m" by (cases n) auto
  with Cons show ?case by (simp add: read_escaped_char)
qed

text \<open>A text that stands between quotes as it is.\<close>

definition plain_text :: "string \<Rightarrow> bool" where
  "plain_text s \<longleftrightarrow> list_all (\<lambda>c. c \<noteq> CHR 34 \<and> c \<noteq> CHR 92 \<and> \<not> of_char c < (32 :: nat)) s"

lemma plain_escaped: "plain_text s \<Longrightarrow> concat (map json_escape_char s) = s"
proof -
  have "of_char c = (34 :: nat) \<Longrightarrow> c = CHR 34" "of_char c = (92 :: nat) \<Longrightarrow> c = CHR 92" for c
    using control_chars(6,7) char_of_char [of c] by metis+
  then show "plain_text s \<Longrightarrow> concat (map json_escape_char s) = s"
    by (induction s) (auto simp: plain_text_def json_escape_char_def Let_def)
qed

lemma read_plain: "plain_text s \<Longrightarrow> length s < n \<Longrightarrow> read_text n (s @ CHR 34 # r) = Some (s, r)"
  using read_escaped [of s n r] by (simp add: plain_escaped)

text \<open>What may follow a number.\<close>

definition stops :: "string \<Rightarrow> bool" where "stops r \<longleftrightarrow> r = [] \<or> \<not> is_digit_in 10 (hd r)"

lemma takeWhile_stops: "\<forall>c \<in> set ds. is_digit_in 10 c \<Longrightarrow> stops r \<Longrightarrow> takeWhile (is_digit_in 10) (ds @ r) = ds"
  by (cases r) (auto simp: stops_def)

lemma dropWhile_stops: "\<forall>c \<in> set ds. is_digit_in 10 c \<Longrightarrow> stops r \<Longrightarrow> dropWhile (is_digit_in 10) (ds @ r) = r"
  by (cases r) (auto simp: stops_def dropWhile_append2)

lemma read_digits_base: "stops r \<Longrightarrow> read_digits (to_base 10 n @ r) = Some (int n, r)"
  using to_base_digits [of 10 n] takeWhile_stops dropWhile_stops by (simp add: read_digits_def Let_def of_base_to_base)

lemma digit_not_mark: "is_digit_in 10 c \<Longrightarrow> c \<notin> {CHR ''-'', CHR 34, CHR ''['', CHR ''{'', CHR ''t'', CHR ''f'', CHR ''n'', CHR '']''} \<and> \<not> json_space c"
  by (auto simp: is_digit_in_def digit_val_def json_space_def)

lemma show_int_head: "\<exists>c s. show_int i = c # s \<and> c \<notin> {CHR 34, CHR ''['', CHR ''{'', CHR ''t'', CHR ''f'', CHR ''n'', CHR '']''} \<and> \<not> json_space c"
proof (cases "i < 0")
  case True
  then show ?thesis by (simp add: int_to_base_def json_space_def)
next
  case False
  obtain c s where "to_base 10 (nat i) = c # s" by (cases "to_base 10 (nat i)") auto
  moreover from this have "is_digit_in 10 c" using to_base_digits [of 10 "nat i"] by simp
  ultimately show ?thesis using False digit_not_mark by (auto simp: int_to_base_def)
qed

lemma read_number_shown: "stops r \<Longrightarrow> read_number (show_int i @ r) = Some (i, r)"
proof (cases "i < 0")
  case True
  assume "stops r"
  with True show ?thesis by (simp add: read_number_def int_to_base_def read_digits_base)
next
  case False
  assume r: "stops r"
  obtain c s where cs: "to_base 10 (nat i) = c # s" by (cases "to_base 10 (nat i)") auto
  then have "is_digit_in 10 c" using to_base_digits [of 10 "nat i"] by simp
  then have "c \<noteq> CHR ''-''" using digit_not_mark by blast
  with cs False read_digits_base [OF r, of "nat i"] show ?thesis by (simp add: read_number_def int_to_base_def)
qed

subsubsection \<open>The written file is read back\<close>

text \<open>
  A document that can be written and read: no \<open>undefined\<close> in it, and each object's keys differ and need no escape, because
  \<open>formatJson\<close> writes them as they are.
\<close>

fun good :: "jsv \<Rightarrow> bool" where
  "good JUndef = False"
| "good (JArr xs) = (\<forall>x \<in> set xs. good x)"
| "good (JObj ps) = (distinct (map fst ps) \<and> (\<forall>p \<in> set ps. plain_text (fst p) \<and> good (snd p)))"
| "good v = True"

fun json_size :: "jsv \<Rightarrow> nat" where
  "json_size (JArr xs) = Suc (sum_list (map (\<lambda>x. Suc (json_size x)) xs))"
| "json_size (JObj ps) = Suc (sum_list (map (\<lambda>p. Suc (json_size (snd p))) ps))"
| "json_size v = 1"

lemma replace_newlines_append [simp]: "replace_newlines eol (s @ t) = replace_newlines eol s @ replace_newlines eol t"
  by (simp add: replace_newlines_def)

lemma replace_newlines_Cons [simp]:
  "replace_newlines eol (c # s) = (if c = CHR 10 then eol else [c]) @ replace_newlines eol s"
  by (simp add: replace_newlines_def)

lemma replace_newlines_Nil [simp]: "replace_newlines eol [] = []"
  by (simp add: replace_newlines_def)

lemma replace_newlines_same: "CHR 10 \<notin> set s \<Longrightarrow> replace_newlines eol s = s"
  by (induction s) auto

lemma replace_newlines_intercalate:
  "replace_newlines eol (intercalate sep ss) = intercalate (replace_newlines eol sep) (map (replace_newlines eol) ss)"
  by (induction sep ss rule: intercalate.induct) simp_all

lemma digit_no_newline: "d < 16 \<Longrightarrow> digit_char d \<noteq> CHR 10"
proof
  assume d: "d < 16" and "digit_char d = CHR 10"
  then have "digit_val (CHR 10) = Some d" using digit_val_digit_char [OF d] by simp
  then show False by (simp add: digit_val_def split: if_split_asm)
qed

lemma escape_no_newline: "CHR 10 \<notin> set (json_escape_char c)"
proof -
  define k where "k = (of_char c :: nat)"
  have c: "CHR 10 = c \<Longrightarrow> k = 10" by (auto simp: k_def)
  have "CHR 10 \<noteq> digit_char (k div 16) \<and> CHR 10 \<noteq> digit_char (k mod 16)" if "k < 32"
  proof -
    have "k div 16 < 16" "k mod 16 < 16" using that by simp_all
    then show ?thesis using digit_no_newline by metis
  qed
  with c show ?thesis by (simp add: json_escape_char_def Let_def flip: k_def) auto
qed

lemma quote_no_newline: "CHR 10 \<notin> set (json_quote s)"
  using escape_no_newline by (auto simp: json_quote_def)

lemma show_int_no_newline: "CHR 10 \<notin> set (show_int i)"
proof -
  have "CHR 10 \<notin> set (to_base 10 n)" for n
  proof
    assume "CHR 10 \<in> set (to_base 10 n)"
    then have "is_digit_in 10 (CHR 10)" using to_base_digits [of 10 n] by simp
    then show False by (simp add: is_digit_in_def digit_val_def)
  qed
  then show ?thesis by (auto simp: int_to_base_def)
qed

lemma plain_no_newline: "plain_text s \<Longrightarrow> CHR 10 \<notin> set s"
proof
  assume "plain_text s" "CHR 10 \<in> set s"
  then have "\<not> of_char (CHR 10) < (32 :: nat)" unfolding plain_text_def list_all_iff by blast
  then show False by simp
qed

text \<open>The lists of a text: the items or properties one by one, whatever spaces stand between them.\<close>

definition spaces :: "string \<Rightarrow> bool" where "spaces w \<longleftrightarrow> list_all json_space w"

lemma spaces_append [simp]: "spaces (v @ w) \<longleftrightarrow> spaces v \<and> spaces w"
  by (simp add: spaces_def)

lemma skip_spaces [simp]: "spaces w \<Longrightarrow> skip (w @ s) = skip s"
  by (simp add: spaces_def skip_append)

definition reads_back :: "(jsv \<Rightarrow> string) \<Rightarrow> jsv \<Rightarrow> bool" where
  "reads_back f v \<longleftrightarrow>
     (\<forall>n w r. spaces w \<longrightarrow> stops r \<longrightarrow> json_size v \<le> n \<longrightarrow> read_value n (w @ f v @ r) = Some (v, r))"

lemma reads_backD: "reads_back f v \<Longrightarrow> spaces w \<Longrightarrow> stops r \<Longrightarrow> json_size v \<le> n \<Longrightarrow> read_value n (w @ f v @ r) = Some (v, r)"
  by (simp add: reads_back_def)

lemma intercalate_Cons: "xs \<noteq> [] \<Longrightarrow> intercalate sep (x # xs) = x @ sep @ intercalate sep xs"
  by (cases xs) simp_all

lemma stops_comma [simp]: "stops (CHR '','' # r)" "stops (CHR '']'' # r)" "stops (CHR ''}'' # r)"
  by (simp_all add: stops_def is_digit_in_def digit_val_def)

lemma mark_no_space [simp]:
  "\<not> json_space (CHR '','')" "\<not> json_space (CHR '']'')" "\<not> json_space (CHR ''}'')" "\<not> json_space (CHR '':'')" "\<not> json_space (CHR 34)"
  "\<not> json_space (CHR ''['')" "\<not> json_space (CHR ''{'')"
  by (simp_all add: json_space_def)

lemma space_no_digit: "json_space c \<Longrightarrow> \<not> is_digit_in 10 c"
  using digit_not_mark by blast

lemma stops_spaces: "spaces w \<Longrightarrow> stops r \<Longrightarrow> stops (w @ r)"
  by (cases w) (auto simp: spaces_def stops_def space_no_digit)

lemma read_items_text:
  assumes "\<forall>x \<in> set xs. reads_back f x" and "xs \<noteq> []" and "spaces u" and "spaces v" and "spaces e"
  shows "spaces w \<Longrightarrow> sum_list (map (\<lambda>x. Suc (json_size x)) xs) \<le> n \<Longrightarrow>
    read_items n (w @ intercalate ('','' @ v) (map (\<lambda>x. u @ f x) xs) @ e @ '']'' @ r) = Some (xs, r)"
  using assms(2,1)
proof (induction xs arbitrary: n w rule: list_nonempty_induct)
  case (single x)
  then obtain m where n: "n = Suc m" "json_size x \<le> m" by (cases n) auto
  have "read_value m ((w @ u) @ f x @ (e @ '']'' @ r)) = Some (x, e @ '']'' @ r)"
    using single assms(3) n stops_spaces [OF assms(5), of "'']'' @ r"] by (intro reads_backD) simp_all
  then show ?case using assms(5) by (simp add: n)
next
  case (cons x xs)
  then obtain m where n: "n = Suc m" "json_size x \<le> m" "sum_list (map (\<lambda>x. Suc (json_size x)) xs) \<le> m" by (cases n) auto
  have ne: "map (\<lambda>x. u @ f x) xs \<noteq> []" using cons.hyps by simp
  define t where "t = v @ intercalate ('','' @ v) (map (\<lambda>x. u @ f x) xs) @ e @ '']'' @ r"
  have "read_value m ((w @ u) @ f x @ (CHR '','' # t)) = Some (x, CHR '','' # t)"
    using cons.prems assms(3) n by (intro reads_backD) simp_all
  moreover have "read_items m t = Some (xs, r)"
    unfolding t_def using cons.prems assms(4) n by (intro cons.IH) simp_all
  ultimately show ?case by (simp add: n intercalate_Cons [OF ne] t_def)
qed

definition prop_text :: "(jsv \<Rightarrow> string) \<Rightarrow> string \<times> jsv \<Rightarrow> string" where
  "prop_text f p = [CHR 34] @ fst p @ [CHR 34] @ '': '' @ f (snd p)"

lemma read_props_text:
  assumes "\<forall>p \<in> set ps. plain_text (fst p) \<and> reads_back f (snd p)" and "ps \<noteq> []" and "spaces u" and "spaces v" and "spaces e"
  shows "spaces w \<Longrightarrow> sum_list (map (\<lambda>p. Suc (json_size (snd p))) ps) \<le> n \<Longrightarrow>
    read_props n (w @ intercalate ('','' @ v) (map (\<lambda>p. u @ prop_text f p) ps) @ e @ ''}'' @ r) = Some (ps, r)"
  using assms(2,1)
proof (induction ps arbitrary: n w rule: list_nonempty_induct)
  case (single p)
  obtain k x where p: "p = (k, x)" by (cases p)
  from single obtain m where n: "n = Suc m" "json_size x \<le> m" by (cases n) (auto simp: p)
  have "read_value m ('' '' @ f x @ (e @ ''}'' @ r)) = Some (x, e @ ''}'' @ r)"
    using single n stops_spaces [OF assms(5), of "''}'' @ r"] by (intro reads_backD) (simp_all add: p spaces_def json_space_def)
  moreover have "read_text q (k @ CHR 34 # s) = Some (k, s)" if "length k < q" for q s
    using single that by (intro read_plain) (simp_all add: p)
  moreover have "prop_text f p = CHR 34 # k @ CHR 34 # CHR '':'' # '' '' @ f x" by (simp add: prop_text_def p)
  ultimately show ?case using assms(3,5) single.prems by (simp add: n) (simp add: p)
next
  case (cons p ps)
  obtain k x where p: "p = (k, x)" by (cases p)
  from cons obtain m where n: "n = Suc m" "json_size x \<le> m" "sum_list (map (\<lambda>p. Suc (json_size (snd p))) ps) \<le> m"
    by (cases n) (auto simp: p)
  have ne: "map (\<lambda>p. u @ prop_text f p) ps \<noteq> []" using cons.hyps by simp
  define t where "t = v @ intercalate ('','' @ v) (map (\<lambda>p. u @ prop_text f p) ps) @ e @ ''}'' @ r"
  have "read_value m ('' '' @ f x @ (CHR '','' # t)) = Some (x, CHR '','' # t)"
    using cons.prems n by (intro reads_backD) (simp_all add: p spaces_def json_space_def)
  moreover have "read_props m t = Some (ps, r)"
    unfolding t_def using cons.prems assms(4) n by (intro cons.IH) simp_all
  moreover have "read_text q (k @ CHR 34 # s) = Some (k, s)" if "length k < q" for q s
    using cons.prems that by (intro read_plain) (simp_all add: p)
  moreover have "prop_text f p = CHR 34 # k @ CHR 34 # CHR '':'' # '' '' @ f x" by (simp add: prop_text_def p)
  ultimately show ?case using assms(3) cons.prems by (simp add: n intercalate_Cons [OF ne] t_def) (simp add: p)
qed

lemma made_object_same: "distinct (map fst ps) \<Longrightarrow> made_object ps = JObj ps"
proof -
  have "distinct (map fst (qs @ ps)) \<Longrightarrow> foldl (\<lambda>v p. js_set_prop v (fst p) (snd p)) (JObj qs) ps = JObj (qs @ ps)" for qs
    by (induction ps arbitrary: qs) simp_all
  from this [of "[]"] show "distinct (map fst ps) \<Longrightarrow> made_object ps = JObj ps" by (simp add: made_object_def)
qed

definition written :: "string \<Rightarrow> nat \<Rightarrow> jsv \<Rightarrow> string" where
  "written eol level v = replace_newlines eol (format_value level v)"

lemma indentation_spaces: "spaces (indentation level)" "CHR 10 \<notin> set (indentation level)"
  by (auto simp: indentation_def spaces_def list_all_iff json_space_def)

lemma replace_indentation [simp]: "replace_newlines eol (indentation level) = indentation level"
  by (intro replace_newlines_same indentation_spaces)

lemma written_array:
  "written eol level (JArr xs) =
     (if xs = [] then ''[]''
      else if shouldUseCompactArrayFormat xs then ''['' @ intercalate ('','' @ '' '') (map (\<lambda>x. '''' @ written eol (Suc level) x) xs) @ '']''
      else ''['' @ eol @ intercalate ('','' @ eol) (map (\<lambda>x. indentation (Suc level) @ written eol (Suc level) x) xs) @
           (eol @ indentation level) @ '']'')"
  by (simp add: written_def replace_newlines_intercalate NL_def comp_def)

lemma written_object:
  assumes "\<forall>p \<in> set ps. plain_text (fst p)"
  shows "written eol level (JObj ps) =
     (if ps = [] then ''{}''
      else ''{'' @ eol @ intercalate ('','' @ eol) (map (\<lambda>p. indentation (Suc level) @ prop_text (written eol (Suc level)) p) ps) @
           (eol @ indentation level) @ ''}'')"
proof -
  have "replace_newlines eol (fst p) = fst p" if "p \<in> set ps" for p
    using assms that by (simp add: replace_newlines_same plain_no_newline)
  then show ?thesis
    by (auto simp: written_def replace_newlines_intercalate NL_def prop_text_def
        intro!: arg_cong [where f = "intercalate (CHR '','' # eol)"] map_cong)
qed

lemma written_atoms:
  "written eol level (JStr s) = json_quote s" "written eol level (JNum i) = show_int i" "written eol level JNull = ''null''"
  "written eol level (JBool b) = (if b then ''true'' else ''false'')"
  by (simp_all add: written_def replace_newlines_same quote_no_newline show_int_no_newline)

lemma written_head: "\<exists>c s. written eol level v = c # s \<and> c \<noteq> CHR '']'' \<and> \<not> json_space c" if "good v"
proof (cases v)
  case (JNum i)
  then show ?thesis using show_int_head [of i] by (auto simp: written_atoms)
next
  case (JObj ps)
  with that show ?thesis by (subst JObj, subst written_object) (auto simp: json_space_def)
qed (use that in \<open>auto simp: written_array written_atoms json_quote_def json_space_def\<close>)

lemma read_array_text:
  assumes "\<forall>x \<in> set xs. reads_back f x" and "\<forall>x \<in> set xs. \<exists>c s. f x = c # s \<and> c \<noteq> CHR '']'' \<and> \<not> json_space c"
    and "xs \<noteq> []" and "spaces u" and "spaces v" and "spaces e" and "spaces z"
    and "spaces w" and "json_size (JArr xs) \<le> n"
  shows "read_value n (w @ (''['' @ z @ intercalate ('','' @ v) (map (\<lambda>x. u @ f x) xs) @ e @ '']'') @ r) = Some (JArr xs, r)"
proof -
  obtain m where n: "n = Suc m" "sum_list (map (\<lambda>x. Suc (json_size x)) xs) \<le> m" using assms(9) by (cases n) auto
  define t where "t = z @ intercalate ('','' @ v) (map (\<lambda>x. u @ f x) xs) @ e @ '']'' @ r"
  obtain x ys where xs: "xs = x # ys" using assms(3) by (cases xs) auto
  obtain c s where "f x = c # s" "c \<noteq> CHR '']''" "\<not> json_space c" using assms(2) by (auto simp: xs)
  then have "\<not> starts_with '']'' (skip t)"
    using assms(4,7) by (cases ys) (simp_all add: t_def xs starts_with_def)
  moreover have "read_items m t = Some (xs, r)" unfolding t_def by (rule read_items_text [OF assms(1,3,4,5,6,7) n(2)])
  ultimately show ?thesis using assms(8) by (simp add: n t_def)
qed

lemma read_object_text:
  assumes "\<forall>p \<in> set ps. plain_text (fst p) \<and> reads_back f (snd p)" and "distinct (map fst ps)"
    and "ps \<noteq> []" and "spaces u" and "spaces v" and "spaces e" and "spaces z"
    and "spaces w" and "json_size (JObj ps) \<le> n"
  shows "read_value n (w @ (''{'' @ z @ intercalate ('','' @ v) (map (\<lambda>p. u @ prop_text f p) ps) @ e @ ''}'') @ r) = Some (JObj ps, r)"
proof -
  obtain m where n: "n = Suc m" "sum_list (map (\<lambda>p. Suc (json_size (snd p))) ps) \<le> m" using assms(9) by (cases n) auto
  define t where "t = z @ intercalate ('','' @ v) (map (\<lambda>p. u @ prop_text f p) ps) @ e @ ''}'' @ r"
  obtain p qs where ps: "ps = p # qs" using assms(3) by (cases ps) auto
  have "\<not> starts_with ''}'' (skip t)"
    using assms(4,7) by (cases qs) (simp_all add: t_def ps starts_with_def prop_text_def)
  moreover have "read_props m t = Some (ps, r)" unfolding t_def by (rule read_props_text [OF assms(1,3,4,5,6,7) n(2)])
  ultimately show ?thesis using assms(8) by (simp add: n t_def made_object_same [OF assms(2)])
qed

lemma written_reads_back: "good v \<Longrightarrow> spaces eol \<Longrightarrow> reads_back (written eol level) v"
proof (induction v arbitrary: level)
  case (JNum i)
  show ?case unfolding reads_back_def
  proof (intro allI impI)
    fix n w r assume "spaces w" "stops r" "json_size (JNum i) \<le> n"
    moreover obtain c s where "show_int i = c # s" "c \<notin> {CHR 34, CHR ''['', CHR ''{'', CHR ''t'', CHR ''f'', CHR ''n''}" "\<not> json_space c"
      using show_int_head [of i] by blast
    moreover have "read_number (show_int i @ r) = Some (i, r)" using \<open>stops r\<close> by (rule read_number_shown)
    ultimately show "read_value n (w @ written eol level (JNum i) @ r) = Some (JNum i, r)"
      by (cases n) (simp_all add: written_atoms)
  qed
next
  case (JStr s)
  have "read_text (length (concat (map json_escape_char s)) + Suc k) (concat (map json_escape_char s) @ CHR 34 # r) = Some (s, r)" for r k
    using escape_length [of s] by (intro read_escaped) simp
  then show ?case unfolding reads_back_def
    by (auto simp: written_atoms json_quote_def Suc_le_eq gr0_conv_Suc)
next
  case (JArr xs)
  show ?case unfolding reads_back_def
  proof (intro allI impI)
    fix n w r assume w: "spaces w" and n: "json_size (JArr xs) \<le> n"
    have items: "\<forall>x \<in> set xs. reads_back (written eol (Suc level)) x" using JArr by simp
    have heads: "\<forall>x \<in> set xs. \<exists>c s. written eol (Suc level) x = c # s \<and> c \<noteq> CHR '']'' \<and> \<not> json_space c"
      using JArr.prems written_head by simp
    have sp: "spaces ''''" "spaces '' ''" "spaces (eol @ indentation level)" "spaces (indentation (Suc level))"
      using JArr.prems indentation_spaces by (simp_all add: spaces_def json_space_def)
    show "read_value n (w @ written eol level (JArr xs) @ r) = Some (JArr xs, r)"
    proof (cases "xs = []")
      case True
      with n w show ?thesis by (cases n) (simp_all add: written_array starts_with_def)
    next
      case ne: False
      show ?thesis
      proof (cases "shouldUseCompactArrayFormat xs")
        case True
        with ne read_array_text [OF items heads ne sp(1,2,1,1) w n, of r] show ?thesis by (simp add: written_array)
      next
        case False
        with ne read_array_text [OF items heads ne sp(4) JArr.prems(2) sp(3) JArr.prems(2) w n, of r] show ?thesis
          by (simp add: written_array)
      qed
    qed
  qed
next
  case (JObj ps)
  show ?case unfolding reads_back_def
  proof (intro allI impI)
    fix n w r assume w: "spaces w" and n: "json_size (JObj ps) \<le> n"
    have plain: "\<forall>p \<in> set ps. plain_text (fst p)" and keys: "distinct (map fst ps)" using JObj.prems by simp_all
    have "\<forall>p \<in> set ps. reads_back (written eol (Suc level)) (snd p)"
    proof
      fix p assume p: "p \<in> set ps"
      then show "reads_back (written eol (Suc level)) (snd p)"
        using JObj.prems by (intro JObj.IH [of p]) (simp_all add: snds.intros)
    qed
    with plain have props: "\<forall>p \<in> set ps. plain_text (fst p) \<and> reads_back (written eol (Suc level)) (snd p)" by blast
    have sp: "spaces (eol @ indentation level)" "spaces (indentation (Suc level))"
      using JObj.prems indentation_spaces by simp_all
    show "read_value n (w @ written eol level (JObj ps) @ r) = Some (JObj ps, r)"
    proof (cases "ps = []")
      case True
      with n w show ?thesis by (cases n) (simp_all add: written_object starts_with_def)
    next
      case False
      with read_object_text [OF props keys False sp(2) JObj.prems(2) sp(1) JObj.prems(2) w n, of r] show ?thesis
        by (simp add: written_object [OF plain])
    qed
  qed
qed (auto simp: reads_back_def written_atoms read_word_def starts_with_def Suc_le_eq gr0_conv_Suc json_space_def)

lemma intercalate_length: "ss \<noteq> [] \<Longrightarrow> Suc (length (intercalate (CHR '','' # v) ss)) \<ge> sum_list (map (\<lambda>s. Suc (length s)) ss)"
  by (induction ss rule: list_nonempty_induct) (simp_all add: intercalate_Cons)

lemma written_length: "good v \<Longrightarrow> json_size v \<le> length (written eol level v)"
proof (induction v arbitrary: level)
  case (JArr xs)
  have le: "sum_list (map (\<lambda>x. Suc (json_size x)) xs) \<le> sum_list (map (\<lambda>s. Suc (length s)) (map (\<lambda>x. u @ written eol (Suc level) x) xs))" for u
    unfolding map_map comp_def
    using JArr by (intro sum_list_mono) (simp add: le_SucI trans_le_add2)
  show ?case
    using intercalate_length [of "map (\<lambda>x. '''' @ written eol (Suc level) x) xs" "'' ''"] le [of "''''"]
      intercalate_length [of "map (\<lambda>x. indentation (Suc level) @ written eol (Suc level) x) xs" eol] le [of "indentation (Suc level)"]
    by (cases "xs = []") (simp_all add: written_array)
next
  case (JObj ps)
  have le: "sum_list (map (\<lambda>p. Suc (json_size (snd p))) ps) \<le>
      sum_list (map (\<lambda>s. Suc (length s)) (map (\<lambda>p. u @ prop_text (written eol (Suc level)) p) ps))" for u
    unfolding map_map comp_def
  proof (intro sum_list_mono)
    fix p assume p: "p \<in> set ps"
    have "json_size (snd p) \<le> length (written eol (Suc level) (snd p))"
      using JObj.prems p by (intro JObj.IH [of p]) (simp_all add: snds.intros)
    then show "Suc (json_size (snd p)) \<le> Suc (length (u @ prop_text (written eol (Suc level)) p))" by (simp add: prop_text_def)
  qed
  have plain: "\<forall>p \<in> set ps. plain_text (fst p)" using JObj.prems by simp
  show ?case
    using intercalate_length [of "map (\<lambda>p. indentation (Suc level) @ prop_text (written eol (Suc level)) p) ps" eol] le [of "indentation (Suc level)"]
      written_object [OF plain, of eol level]
    by (cases "ps = []") simp_all
next
  case (JNum i)
  show ?case using show_int_head [of i] by (auto simp: written_atoms)
qed (simp_all add: written_atoms json_quote_def)

lemma line_end_spaces: "spaces (line_end s)"
  by (simp add: line_end_def spaces_def json_space_def CRLF_def NL_def)

text \<open>
  C28. A file that is written over another is read back as the document that was merged, whatever line ends it took over from
  the other file, provided the keys of the document need no escape.
\<close>

theorem written_document_is_read:
  assumes "good v" and "originalContent \<noteq> ''''"
  shows "read_json (writeJson stringify_2 v originalContent) = Some v"
proof -
  define eol where "eol = line_end originalContent"
  have "reads_back (written eol 0) v" unfolding eol_def by (rule written_reads_back [OF assms(1) line_end_spaces])
  from reads_backD [OF this, of "''''" "''''" "length (written eol 0 v)"] written_length [OF assms(1)]
  have "read_value (length (written eol 0 v)) (written eol 0 v) = Some (v, '''')" by (simp add: spaces_def stops_def)
  moreover have "writeJson stringify_2 v originalContent = written eol 0 v"
    using assms(2) by (simp add: writeJson_def written_def formatJson_def eol_def)
  ultimately show ?thesis by (simp add: read_json_def)
qed

theorem written_document_is_read_witness:
  "read_json (writeJson json_stringify (JObj [(''openrpc'', JStr ''1.0''), (''methods'', JArr [JObj [(''name'', JStr ''eth_call'')], JNum (- 5)])])
     [CHR ''{'', CHR 13, CHR 10]) =
   Some (JObj [(''openrpc'', JStr ''1.0''), (''methods'', JArr [JObj [(''name'', JStr ''eth_call'')], JNum (- 5)])])"
  by (rule written_document_is_read) (simp_all add: plain_text_def)

text \<open>
  A key with a quotation mark breaks the file: \<open>formatJson\<close> writes it without the escape.
\<close>

theorem key_with_quote_breaks_file:
  "read_json (writeJson stringify_2 (JObj [([CHR 34], JNull)]) ''{}'') = None"
  by (simp add: writeJson_def) code_simp

end
