(* ===== verification/Spec2Isabelle.thy ===== *)
theory Spec2Isabelle
  imports Precheck KoaServer RateLimiter CacheService HbarLimiter WsController Filters FeeHistory LogsBloom EthObjects Blocks Accounts CacheDecorator Contracts SdkClient Transactions Debug RpcMethods ConfigService SpendingPlanConfig HttpServer OpenRpcDocs OpenRpcMerge OpenRpcReport
begin

text \<open>
  A model of the Hiero JSON-RPC relay: a server that answers Ethereum JSON-RPC requests from a Hedera
  network. It reads the ledger through a mirror node (REST) and submits transactions through a
  consensus node. All paths below are under \<open>src/packages/\<close>, but those that begin with \<open>scripts/\<close>.

  \<^bold>\<open>The parts and how they interact.\<close> At the start the settings are read and
  checked (\<open>ConfigService\<close>) and the spending plans of the operator brought into the cache
  (\<open>SpendingPlanConfig\<close>). A request arrives over HTTP (\<open>HttpServer\<close>, \<open>KoaServer\<close>) or a websocket
  (\<open>WsConnections\<close>, \<open>WsController\<close>), is counted by the rate limiter (\<open>RateLimiter\<close>) and given to the
  dispatcher (\<open>Dispatcher\<close>), which looks up the method, validates the parameters (\<open>Validators\<close>),
  arranges them and calls the handler; what a handler throws is mapped to a JSON-RPC error
  (\<open>JsonRpcErrors\<close>). The table of all methods with their rules and caches is \<open>RpcMethods\<close>; their handlers
  are the operations of the services: \<open>FeeHistory\<close>, \<open>Filters\<close>, \<open>Blocks\<close>,
  \<open>Accounts\<close>, \<open>Contracts\<close>, \<open>Transactions\<close>, \<open>Debug\<close> and what they share (\<open>CommonQueries\<close>, \<open>LogsBloom\<close>,
  \<open>EthObjects\<close>). They reach the mirror node through \<open>MirrorClient\<close>, which keeps results in the cache
  service (\<open>CacheService\<close>) over Redis or the in-memory cache (\<open>LocalCache\<close>); some are wrapped in the
  cache decorator (\<open>CacheDecorator\<close>). Before a transaction is sent it is prechecked (\<open>Precheck\<close>) and
  its cost is weighed against spending plans (\<open>HbarPlans\<close>, \<open>HbarLimiter\<close>); the consensus node is reached
  through \<open>SdkClient\<close>. A websocket client can
  subscribe to logs and new heads; a poller asks for them and notifies (\<open>Subscriptions\<close>). Apart from the
  relay, a script keeps its OpenRPC document in step with that of Ethereum (\<open>OpenRpcDocs\<close>, \<open>OpenRpcMerge\<close>,
  \<open>OpenRpcReport\<close>).

  \<^bold>\<open>Theories.\<close>
  \<^item> \<open>JsCore\<close>, \<open>JsonValues\<close>, \<open>JsDoubles\<close>, \<open>RelayMonad\<close>: what the code uses of the language. Texts are
    lists of characters, JSON values and \<open>undefined\<close> are the datatype \<open>jsv\<close>, numbers that are integers
    are \<open>int\<close>, numbers where rounding matters are rationals rounded to the nearest double; an
    \<open>async\<close> function is an action from a state to an error or a value and the next state.
  \<^item> \<open>JsonRpcErrors\<close>: \<open>relay/src/lib/errors/*.ts\<close>; the catalogue of errors, the predicates of mirror
    node and SDK errors, and \<open>thrown\<close>, the sum of everything a handler throws.
  \<^item> \<open>Formatters\<close>: \<open>relay/src/formatters.ts\<close>; round trips and floors of the conversions.
  \<^item> \<open>Validators\<close>: \<open>relay/src/lib/validators/*.ts\<close>; which values each parameter type accepts, the schemas of
    transaction and filter objects, soundness of an accepted object.
  \<^item> \<open>Dispatcher\<close>: \<open>relay/src/lib/dispatcher\<close>, \<open>relay/src/lib/decorators\<close>,
    \<open>relay/src/lib/services/registryService\<close>; a rejected request reaches no handler, an accepted one is
    answered.
  \<^item> \<open>RpcMethods\<close>: \<open>relay/src/lib/eth.ts\<close>, \<open>net.ts\<close>, \<open>web3.ts\<close>, the decorators of \<open>debug.ts\<close> and
    \<open>relay.ts\<close>; the relay serves exactly its table, bad parameters reach no service, a lasting answer is
    given again without a request.
  \<^item> \<open>HttpServer\<close>: \<open>server/src/server.ts\<close>, the probes of \<open>ws-server/src/webSocketServer.ts\<close>,
    \<open>relay/src/lib/config/methodConfiguration.ts\<close>; the middlewares as functions of the rest of the chain,
    the address a proxy reports and by which a call is limited, what a request that is no call is answered.
  \<^item> \<open>ConfigService\<close>: \<open>config-service/src/services/*.ts\<close> and \<open>relay/src/lib/admin.ts\<close>; every setting has
    its type, a loaded configuration never fails, the keys are not published.
  \<^item> \<open>KoaServer\<close>: \<open>server/src/koaJsonRpc/*.ts\<close>; single and batch requests, statuses, and the request
    details that concurrent requests share.
  \<^item> \<open>RateLimiter\<close>: \<open>relay/src/lib/services/rateLimiterService/*.ts\<close>; both stores admit exactly the first
    requests of a window.
  \<^item> \<open>LocalCache\<close>, \<open>CacheService\<close>, \<open>CacheDecorator\<close>: \<open>relay/src/lib/clients/cache/*.ts\<close>,
    \<open>relay/src/lib/services/cacheService/cacheService.ts\<close>, \<open>relay/src/lib/decorators/cache.decorator.ts\<close>;
    reserved keys stay, a counter accumulates, a cached method answers the same again.
  \<^item> \<open>MirrorClient\<close>: \<open>relay/src/lib/clients/mirrorNodeClient.ts\<close>; pagination is complete or refused, the
    retry loops return the first complete result, entity resolution.
  \<^item> \<open>CommonQueries\<close>, \<open>FeeHistory\<close>, \<open>Filters\<close>, \<open>Blocks\<close>, \<open>Accounts\<close>, \<open>Contracts\<close>, \<open>Transactions\<close>:
    the services under \<open>relay/src/lib/services/ethService/\<close>, one theory each; what a log query and a block
    hold, historical balances and nonces, calls and estimates, and the way of a raw transaction through
    prechecks, consensus node and mirror node: what is sent was affordable to its sender, and a hash is answered
    only for the bytes that were sent.
  \<^item> \<open>Debug\<close>: \<open>relay/src/lib/debug.ts\<close>; the call tracer, the opcode logger and the prestate tracer, for a
    transaction and for a block.
  \<^item> \<open>LogsBloom\<close>, \<open>EthObjects\<close>: \<open>relay/src/logsBloomUtils.ts\<close>, \<open>receiptsRootUtils.ts\<close>,
    \<open>relay/src/lib/factories\<close>; the bloom has exactly the bits of its items, a formatted transaction has the
    fields of its type.
  \<^item> \<open>Precheck\<close>: \<open>relay/src/lib/precheck.ts\<close>; the checks of a raw transaction and their order; a call or a creation passes exactly when each of them holds.
  \<^item> \<open>SdkClient\<close>: \<open>relay/src/lib/services/hapiService\<close>, \<open>relay/src/lib/clients/sdkClient.ts\<close> and the listeners
    of \<open>metricService.ts\<close>; when a client is replaced, what is sent, what a query costs, and that the fee of
    a transaction is booked on the plans that admitted it.
  \<^item> \<open>HbarPlans\<close>, \<open>HbarLimiter\<close>: \<open>relay/src/lib/db/repositories/hbarLimiter/*.ts\<close>,
    \<open>relay/src/lib/services/hbarLimitService\<close>; budgets, what an expense books, when the budget restarts.
  \<^item> \<open>SpendingPlanConfig\<close>: \<open>relay/src/lib/config/hbarSpendingPlanConfigService.ts\<close>; after a start the
    configured plans and links are those of the configuration, obsolete ones are gone, what was spent
    stays, and a later start changes no plan. The locale \<open>address_links\<close> holds what the two kinds of addresses share.
  \<^item> \<open>Subscriptions\<close>, \<open>WsConnections\<close>, \<open>WsController\<close>: \<open>ws-server/src\<close> and
    \<open>relay/src/lib/\<close> (\<open>poller.ts\<close>, \<open>subscriptionController.ts\<close>); a state machine of connections,
    subscriptions and polls, with invariants over its reachable states.
  \<^item> \<open>OpenRpcDocs\<close>, \<open>OpenRpcMerge\<close>, \<open>OpenRpcReport\<close>: \<open>scripts/openrpc-json-updater\<close>; paths into documents and
    their differences, the merge of two documents, which has the methods of both, the report, and the
    written file, which a reader of JSON reads back.

  \<^bold>\<open>Parameters.\<close> What is not under \<open>src/\<close> is an argument of the definitions: the responses of the mirror
  node, Redis, the \<open>lru-cache\<close> package (its promises are the locale \<open>lru_library\<close>), keccak-256, RLP and
  the Merkle trie, the parser of ethers, \<open>koa-cors\<close>, \<open>deep-diff\<close>, random identifiers and the clock.

  \<^bold>\<open>Loops.\<close> Pagination recurses on the pages left up to the configured maximum and the retry loops on the
  attempts left; the retries of a paid query are a \<open>function\<close> with a measure. The loop that finds the next
  reset of the budget has fuel 2, and is proved to end within it. No definition is partial: every operation
  returns a value or an error.

  \<^bold>\<open>Not modelled.\<close> Logging, Prometheus metrics; in the services configured
  values are fields of their environments; the wiring of the objects at the start; the tools, charts,
  examples and tests, which are no part of the relay. The Hedera SDK is a parameter of \<open>SdkClient\<close>. Promises
  that run at the same time are run one after the other, except where the interleaving is the subject (the
  details shared by requests, the poller, confirmations of subscriptions); events of the emitter are a list
  in the state, and a listener is a later step.
\<close>

end
